(* ===== verification/Prelude.thy ===== *)
theory Prelude
  imports Complex_Main "HOL-Library.Multiset" "HOL-Library.List_Lexorder" "HOL-Library.Char_ord"
begin

text \<open>
  Shared vocabulary of the development: Python exceptions as values, the idiom for
  validators that run a sequence of guarded \<open>raise\<close> statements, lower-case hexadecimal
  digests, and generic facts on lists and maps that the component theories use.
\<close>

section \<open>Exceptions as values\<close>

text \<open>
  The exception classes the modelled code raises, with the message of the \<open>raise\<close>.
  A computation that may raise returns \<open>Inl\<close> of the exception or \<open>Inr\<close> of its value.
\<close>

datatype error =
    ValueError string
  | TypeError string
  | RuntimeError string
  | KeyError string
  | IndexError string
  | OSError string
  | CacheIntegrityError string
  | CacheLockTimeout string
  | DatabaseError string
  | StateIntegrityError string
  | InvalidStateTransition string
  | ZeroDivisionError string

type_synonym 'a result = "error + 'a"

definition bindr :: "'a result \<Rightarrow> ('a \<Rightarrow> 'b result) \<Rightarrow> 'b result" where
  "bindr r f = (case r of Inl e \<Rightarrow> Inl e | Inr x \<Rightarrow> f x)"

lemma bindr_simps [simp]:
  "bindr (Inl e) f = Inl e"
  "bindr (Inr x) f = f x"
  by (simp_all add: bindr_def)

lemma bindr_Inr_iff: "bindr r f = Inr y \<longleftrightarrow> (\<exists>x. r = Inr x \<and> f x = Inr y)"
  by (cases r) auto

lemma bindr_Inl_iff: "bindr r f = Inl e \<longleftrightarrow> r = Inl e \<or> (\<exists>x. r = Inr x \<and> f x = Inl e)"
  by (cases r) auto

text \<open>
  A validator of the code is a sequence of statements \<open>if c: raise E(m)\<close> that ends by
  returning its object: the first guard that holds decides the exception.
\<close>

fun guards :: "(bool \<times> error) list \<Rightarrow> 'a \<Rightarrow> 'a result" where
  "guards [] x = Inr x"
| "guards ((b, e) # cs) x = (if b then Inl e else guards cs x)"

lemma if_Inl_Inr_iff [simp]: "(if b then Inl e else r) = Inr y \<longleftrightarrow> \<not> b \<and> r = Inr y"
  by simp

lemma guards_Inr_iff: "guards cs x = Inr y \<longleftrightarrow> y = x \<and> (\<forall>c \<in> set cs. \<not> fst c)"
  by (induction cs x rule: guards.induct) auto

lemma guards_Inl_ex: "guards cs x = Inl e \<Longrightarrow> \<exists>c \<in> set cs. fst c \<and> snd c = e"
  by (induction cs x rule: guards.induct) (auto split: if_splits)

lemma guards_same: "guards cs x = Inr y \<Longrightarrow> y = x"
  by (simp add: guards_Inr_iff)

lemma guards_all: "guards cs x = Inr y \<Longrightarrow> list_all (\<lambda>g. \<not> fst g) cs"
  by (simp add: guards_Inr_iff list_all_iff)

lemma guards_bind: "bindr (guards cs x) f = Inr y \<Longrightarrow> f x = Inr y"
  by (auto simp: bindr_Inr_iff guards_Inr_iff)

lemma guards_pass: "list_all (\<lambda>g. \<not> fst g) cs \<Longrightarrow> guards cs x = Inr x"
  by (simp add: guards_Inr_iff list_all_iff)

lemma guards_append:
  "guards (cs @ ds) x = (case guards cs x of Inl e \<Rightarrow> Inl e | Inr y \<Rightarrow> guards ds y)"
  by (induction cs x rule: guards.induct) auto

text \<open>Validating every element of a collection, in order.\<close>

fun validate_all :: "('a \<Rightarrow> 'b result) \<Rightarrow> 'a list \<Rightarrow> unit result" where
  "validate_all f [] = Inr ()"
| "validate_all f (x # xs) = bindr (f x) (\<lambda>_. validate_all f xs)"

lemma validate_all_Inr: "validate_all f xs = Inr u \<longleftrightarrow> (\<forall>x \<in> set xs. \<exists>y. f x = Inr y)"
  by (induction xs) (auto simp: bindr_Inr_iff)

section \<open>Digests\<close>

definition is_lower_hex :: "char \<Rightarrow> bool" where
  "is_lower_hex c \<longleftrightarrow> c \<in> set ''0123456789abcdef''"

text \<open>The pattern \<open>^[0-9a-f]{64}$\<close>, which the code tests in several places.\<close>

definition is_sha256 :: "string \<Rightarrow> bool" where
  "is_sha256 s \<longleftrightarrow> length s = 64 \<and> list_all is_lower_hex s"

definition zero_hash :: string where
  "zero_hash = replicate 64 CHR ''0''"

lemma is_sha256_zero_hash: "is_sha256 zero_hash"
  by (simp add: is_sha256_def zero_hash_def list_all_iff is_lower_hex_def)

definition is_commit :: "string \<Rightarrow> bool" where
  "is_commit s \<longleftrightarrow> length s = 40 \<and> list_all is_lower_hex s"

section \<open>Floats and times\<close>

text \<open>
  A finite IEEE double is a rational number. The modelled code compares floats, takes
  maxima and copies them; all of these are exact on the rationals. Where the code computes
  with floats and the result is rounded, the operation is an argument of the model.
  A \<open>datetime\<close> is its local time in microseconds and its UTC offset, if it has one.
\<close>

type_synonym py_float = rat

datatype datetime = DateTime (local_us: int) (utc_offset: "int option")

definition instant :: "datetime \<Rightarrow> int" where
  "instant t = local_us t - (case utc_offset t of None \<Rightarrow> 0 | Some d \<Rightarrow> d)"

section \<open>Paths as text\<close>

fun split_on :: "char \<Rightarrow> string \<Rightarrow> string list" where
  "split_on c [] = [[]]"
| "split_on c (x # s) =
     (if x = c then [] # split_on c s
      else (case split_on c s of [] \<Rightarrow> [[x]] | p # ps \<Rightarrow> (x # p) # ps))"

definition normalise_slashes :: "string \<Rightarrow> string" where
  "normalise_slashes s = map (\<lambda>c. if c = CHR 0x5C then CHR ''/'' else c) s"

definition has_drive_colon :: "string \<Rightarrow> bool" where
  "has_drive_colon s \<longleftrightarrow> 2 \<le> length s \<and> s ! 1 = CHR '':''"

text \<open>
  \<open>PurePosixPath(s).is_absolute()\<close>, and \<open>PureWindowsPath(s).is_absolute()\<close> for a path
  with a drive letter. (A UNC path is absolute too, but it begins with a slash or a
  backslash, which every caller also refuses.)
\<close>

definition posix_absolute :: "string \<Rightarrow> bool" where
  "posix_absolute s \<longleftrightarrow> (case s of c # _ \<Rightarrow> c = CHR ''/'' | [] \<Rightarrow> False)"

definition windows_absolute :: "string \<Rightarrow> bool" where
  "windows_absolute s \<longleftrightarrow> 3 \<le> length s \<and> s ! 1 = CHR '':'' \<and> (s ! 2 = CHR ''/'' \<or> s ! 2 = CHR 0x5C)"

text \<open>\<open>PurePosixPath(s).parts\<close> of a relative path: empty and \<open>.\<close> segments disappear.\<close>

definition posix_parts :: "string \<Rightarrow> string list" where
  "posix_parts s = filter (\<lambda>p. p \<noteq> [] \<and> p \<noteq> ''.'') (split_on CHR ''/'' s)"

definition portable_relative :: "string \<Rightarrow> bool" where
  "portable_relative s \<longleftrightarrow>
     \<not> (posix_absolute s \<or> windows_absolute s \<or> CHR 0x5C \<in> set s \<or> ''..'' \<in> set (posix_parts s))"

text \<open>
  Where a path leads, read lexically from a directory given as the list of its segments:
  a \<open>..\<close> segment leaves the directory.
\<close>

fun resolve :: "string list \<Rightarrow> string list \<Rightarrow> string list" where
  "resolve base [] = base"
| "resolve base (p # ps) =
     (if p = [] \<or> p = ''.'' then resolve base ps
      else if p = ''..'' then resolve (butlast base) ps
      else resolve (base @ [p]) ps)"

lemma resolve_stays_below:
  "''..'' \<notin> set ps \<Longrightarrow> \<exists>below. resolve base ps = base @ below"
proof (induction ps arbitrary: base)
  case (Cons p ps)
  from Cons.prems Cons.IH [of "base @ [p]"]
  have "\<exists>below. resolve (base @ [p]) ps = base @ below" by auto
  with Cons show ?case by (cases "p = [] \<or> p = ''.''") auto
qed simp

lemma resolve_filter_dots:
  "resolve base (filter (\<lambda>p. p \<noteq> [] \<and> p \<noteq> ''.'') ps) = resolve base ps"
  by (induction ps arbitrary: base) auto

lemma portable_relative_contained:
  assumes "portable_relative s"
  shows "\<exists>below. resolve base (split_on CHR ''/'' s) = base @ below"
proof -
  from assms have "''..'' \<notin> set (posix_parts s)" by (simp add: portable_relative_def)
  then have "\<exists>below. resolve base (posix_parts s) = base @ below" by (rule resolve_stays_below)
  then show ?thesis by (simp add: posix_parts_def resolve_filter_dots)
qed

section \<open>Lists\<close>

lemma distinct_fst_unique: "\<lbrakk>distinct (map fst kvs); (k, v) \<in> set kvs; (k, w) \<in> set kvs\<rbrakk> \<Longrightarrow> v = w"
  by (induction kvs) (auto simp: rev_image_eqI)

lemma sort_key_fst_mset_cong:
  fixes kvs lws :: "('a :: linorder \<times> 'b) list"
  assumes "distinct (map fst kvs)" and "mset kvs = mset lws"
  shows "sort_key fst kvs = sort_key fst lws"
proof (rule map_sorted_distinct_set_unique [where f = fst])
  from assms have "mset (map fst kvs) = mset (map fst lws)" by simp
  then have "distinct (map fst kvs) = distinct (map fst lws)" by (rule mset_eq_imp_distinct_iff)
  with assms(1) have d: "distinct (map fst lws)" by simp
  have set: "set kvs = set lws" using assms(2) by (metis set_mset_mset)
  show "inj_on fst (set (sort_key fst kvs) \<union> set (sort_key fst lws))"
    using assms(1) by (simp add: set [symmetric] distinct_map)
  show "distinct (map fst (sort_key fst kvs))" "distinct (map fst (sort_key fst lws))"
    using assms(1) d by (simp_all add: distinct_map)
  show "set (sort_key fst kvs) = set (sort_key fst lws)" using set by simp
qed simp_all

lemma find_None_list_all: "find P xs = None \<longleftrightarrow> list_all (\<lambda>x. \<not> P x) xs"
  by (induction xs) auto

lemma filter_one_length:
  "distinct xs \<Longrightarrow> x \<in> set xs \<Longrightarrow> length (filter (\<lambda>y. y = x) xs) = 1"
  by (induction xs) (auto simp: filter_empty_conv)

lemma map_of_filter: "map_of (filter (\<lambda>e. fst e = k) xs) k = map_of xs k"
  by (induction xs) auto

text \<open>Sorting an association list by its keys is stable, so lookups do not change.\<close>

lemma map_of_sort_key: "map_of (sort_key fst xs) = map_of xs"
proof
  fix k
  have "filter (\<lambda>e. fst e = k) (sort_key fst xs) = filter (\<lambda>e. fst e = k) xs"
    by (rule sort_key_stable)
  then show "map_of (sort_key fst xs) k = map_of xs k"
    by (metis map_of_filter)
qed

end
