(* ===== verification/Canon_Json.thy ===== *)
theory Canon_Json
  imports Prelude
begin

text \<open>
  The hashing helpers of \<open>src/schemaguard/utils/hashing.py\<close>: canonical JSON text, the
  digest of canonical JSON, bounded reads of a file, and line-ending normalisation of a
  source file. The digest algorithm itself (\<open>hashlib\<close>) is an argument \<open>sha\<close>; a byte is a
  \<open>char\<close>, so text is its UTF-8 encoding. A finite float is carried as the text that Python's
  \<open>repr\<close> gives it.
\<close>

section \<open>JSON values and their canonical text\<close>

datatype json =
    JNull
  | JBool bool
  | JInt int
  | JFloat string
  | JStr string
  | JArr "json list"
  | JObj "(string \<times> json) list"

text \<open>\<open>_canonicalize\<close>: dictionaries are rebuilt in the order of their keys, recursively.\<close>

primrec canonicalize :: "json \<Rightarrow> json" where
  "canonicalize JNull = JNull"
| "canonicalize (JBool b) = JBool b"
| "canonicalize (JInt i) = JInt i"
| "canonicalize (JFloat t) = JFloat t"
| "canonicalize (JStr s) = JStr s"
| "canonicalize (JArr xs) = JArr (map canonicalize xs)"
| "canonicalize (JObj kvs) = JObj (sort_key fst (map (map_prod id canonicalize) kvs))"

definition digit :: "nat \<Rightarrow> char" where
  "digit n = char_of (48 + n)"

fun show_nat :: "nat \<Rightarrow> string" where
  "show_nat n = (if n < 10 then [digit n] else show_nat (n div 10) @ [digit (n mod 10)])"

declare show_nat.simps [simp del]

definition show_int :: "int \<Rightarrow> string" where
  "show_int i = (if i < 0 then CHR ''-'' # show_nat (nat (- i)) else show_nat (nat i))"

definition hex_digit :: "nat \<Rightarrow> char" where
  "hex_digit n = (if n < 10 then char_of (48 + n) else char_of (87 + n))"

text \<open>The escapes of \<open>json.dumps(..., ensure_ascii=False)\<close>.\<close>

definition esc_char :: "char \<Rightarrow> string" where
  "esc_char c =
     (let n = of_char c :: nat in
      if n = 34 then [CHR 0x5C, CHR 0x22]
      else if n = 92 then [CHR 0x5C, CHR 0x5C]
      else if n = 10 then [CHR 0x5C, CHR ''n'']
      else if n = 13 then [CHR 0x5C, CHR ''r'']
      else if n = 9 then [CHR 0x5C, CHR ''t'']
      else if n = 12 then [CHR 0x5C, CHR ''f'']
      else if n = 8 then [CHR 0x5C, CHR ''b'']
      else if n < 32 then [CHR 0x5C, CHR ''u'', CHR ''0'', CHR ''0'', hex_digit (n div 16), hex_digit (n mod 16)]
      else [c])"

definition esc :: "string \<Rightarrow> string" where
  "esc s = concat (map esc_char s)"

definition show_str :: "string \<Rightarrow> string" where
  "show_str s = CHR 0x22 # esc s @ [CHR 0x22]"

fun commas :: "string list \<Rightarrow> string" where
  "commas [] = []"
| "commas [x] = x"
| "commas (x # y # ys) = x @ CHR '','' # commas (y # ys)"

text \<open>\<open>json.dumps(value, separators=(",", ":"), ensure_ascii=False)\<close> in the order of the keys given.\<close>

primrec dumps :: "json \<Rightarrow> string"
  and dumps_list :: "json list \<Rightarrow> string list"
  and dumps_items :: "(string \<times> json) list \<Rightarrow> string list"
  and dumps_item :: "string \<times> json \<Rightarrow> string" where
  "dumps JNull = ''null''"
| "dumps (JBool b) = (if b then ''true'' else ''false'')"
| "dumps (JInt i) = show_int i"
| "dumps (JFloat t) = t"
| "dumps (JStr s) = show_str s"
| "dumps (JArr xs) = CHR ''['' # commas (dumps_list xs) @ '']''"
| "dumps (JObj kvs) = CHR ''{'' # commas (dumps_items kvs) @ ''}''"
| "dumps_list [] = []"
| "dumps_list (x # xs) = dumps x # dumps_list xs"
| "dumps_items [] = []"
| "dumps_items (kv # kvs) = dumps_item kv # dumps_items kvs"
| "dumps_item (k, v) = show_str k @ CHR '':'' # dumps v"

text \<open>\<open>sha256_canonical_json\<close>, for the digest \<open>sha\<close> of \<open>hashlib\<close>.\<close>

definition canonical_text :: "json \<Rightarrow> string" where
  "canonical_text v = dumps (canonicalize v)"

definition sha256_canonical_json :: "(string \<Rightarrow> string) \<Rightarrow> json \<Rightarrow> string" where
  "sha256_canonical_json sha v = sha (canonical_text v)"

section \<open>File and source digests\<close>

text \<open>
  \<open>_file_digest\<close> feeds a file to the hash object in reads of \<open>chunk_size\<close> bytes until a
  read returns nothing; \<open>upd\<close> is the object's \<open>update\<close> and \<open>fin\<close> its \<open>hexdigest\<close>.
\<close>

function read_chunks :: "nat \<Rightarrow> string \<Rightarrow> string list" where
  "read_chunks n bs =
     (if n = 0 \<or> take n bs = [] then [] else take n bs # read_chunks n (drop n bs))"
  by pat_completeness auto
termination
  by (relation "measure (\<lambda>(n, bs). length bs)") auto

declare read_chunks.simps [simp del]

definition file_digest ::
  "'h \<Rightarrow> ('h \<Rightarrow> string \<Rightarrow> 'h) \<Rightarrow> ('h \<Rightarrow> string) \<Rightarrow> string \<Rightarrow> int \<Rightarrow> string result" where
  "file_digest h0 upd fin bs chunk_size =
     (if chunk_size \<le> 0 then Inl (ValueError ''chunk_size must be positive'')
      else Inr (fin (foldl upd h0 (read_chunks (nat chunk_size) bs))))"

text \<open>\<open>bytes.replace(b"\r\n", b"\n")\<close> and its inverse direction.\<close>

fun crlf_to_lf :: "string \<Rightarrow> string" where
  "crlf_to_lf (a # b # s) =
     (if a = CHR 0x0D \<and> b = CHR 0x0A then CHR 0x0A # crlf_to_lf s
      else a # crlf_to_lf (b # s))"
| "crlf_to_lf s = s"

definition lf_to_crlf :: "string \<Rightarrow> string" where
  "lf_to_crlf s = concat (map (\<lambda>c. if c = CHR 0x0A then [CHR 0x0D, CHR 0x0A] else [c]) s)"

definition canonical_source_hash :: "(string \<Rightarrow> string) \<Rightarrow> string \<Rightarrow> string" where
  "canonical_source_hash sha bs = sha (crlf_to_lf bs)"

definition source_file_hashes :: "(string \<Rightarrow> string) \<Rightarrow> string \<Rightarrow> string set" where
  "source_file_hashes sha bs =
     (let source = crlf_to_lf bs in {sha source, sha (lf_to_crlf source)})"

text \<open>\<open>verify_file_hash\<close>: a missing file is \<open>None\<close>; the expected digest is lower-cased.\<close>

definition lower_char :: "char \<Rightarrow> char" where
  "lower_char c = (let n = of_char c :: nat in if 65 \<le> n \<and> n \<le> 90 then char_of (n + 32) else c)"

definition verify_file_hash :: "(string \<Rightarrow> string) \<Rightarrow> string option \<Rightarrow> string \<Rightarrow> bool" where
  "verify_file_hash sha file expected =
     (case file of None \<Rightarrow> False | Some bs \<Rightarrow> sha bs = map lower_char expected)"

section \<open>Line endings\<close>

lemma lf_to_crlf_simps [simp]:
  "lf_to_crlf [] = []"
  "lf_to_crlf (c # s) = (if c = CHR 0x0A then CHR 0x0D # CHR 0x0A # lf_to_crlf s else c # lf_to_crlf s)"
  by (simp_all add: lf_to_crlf_def)

lemma crlf_to_lf_Cons_ne: "a \<noteq> CHR 0x0D \<Longrightarrow> crlf_to_lf (a # s) = a # crlf_to_lf s"
  by (cases s) auto

lemma crlf_to_lf_CR_Cons:
  "crlf_to_lf (CHR 0x0D # s) =
     (case s of [] \<Rightarrow> [CHR 0x0D]
      | b # r \<Rightarrow> if b = CHR 0x0A then CHR 0x0A # crlf_to_lf r else CHR 0x0D # crlf_to_lf s)"
  by (cases s) auto

lemma hd_lf_to_crlf: "lf_to_crlf s = b # r \<Longrightarrow> b \<noteq> CHR 0x0A"
  by (cases s) (auto split: if_splits)

lemma crlf_to_lf_of_lf_to_crlf: "crlf_to_lf (lf_to_crlf s) = s"
proof (induction s)
  case Nil
  show ?case by simp
next
  case (Cons c s)
  show ?case
  proof (cases "c = CHR 0x0A")
    case True
    then show ?thesis using Cons.IH by simp
  next
    case False
    show ?thesis
    proof (cases "lf_to_crlf s")
      case Nil
      then show ?thesis using False Cons.IH by simp
    next
      case (Cons b r)
      then show ?thesis using False Cons.IH hd_lf_to_crlf [OF Cons] by simp
    qed
  qed
qed

lemma crlf_to_lf_id: "CHR 0x0D \<notin> set s \<Longrightarrow> crlf_to_lf s = s"
  by (induction s rule: crlf_to_lf.induct) auto

section \<open>Bounded reads\<close>

lemma concat_read_chunks: "n > 0 \<Longrightarrow> concat (read_chunks n bs) = bs"
proof (induction n bs rule: read_chunks.induct)
  case (1 n bs)
  then show ?case
    by (cases "bs = []") (auto simp: read_chunks.simps [of n bs] read_chunks.simps [of n "[]"])
qed

lemma read_chunks_bounded: "c \<in> set (read_chunks n bs) \<Longrightarrow> c \<noteq> [] \<and> length c \<le> n"
proof (induction n bs rule: read_chunks.induct)
  case (1 n bs)
  then show ?case
    by (auto simp: read_chunks.simps [of n bs] split: if_splits)
qed

lemma foldl_upd_concat:
  assumes "\<And>h x y. upd (upd h x) y = upd h (x @ y)" and "\<And>h. upd h [] = h"
  shows "foldl upd h cs = upd h (concat cs)"
  using assms by (induction cs arbitrary: h) simp_all

section \<open>The canonical text is a prefix code\<close>

definition is_digit :: "char \<Rightarrow> bool" where
  "is_digit c \<longleftrightarrow> 48 \<le> (of_char c :: nat) \<and> (of_char c :: nat) \<le> 57"

definition num_char :: "char \<Rightarrow> bool" where
  "num_char c \<longleftrightarrow> is_digit c \<or> c \<in> set ''+-.eE''"

text \<open>The texts \<open>repr\<close> gives a finite float: a number with a point or an exponent.\<close>

definition float_text :: "string \<Rightarrow> bool" where
  "float_text t \<longleftrightarrow> t \<noteq> [] \<and> list_all num_char t \<and> (is_digit (hd t) \<or> hd t = CHR ''-'')
     \<and> list_ex (\<lambda>c. c \<in> set ''.e'') t"

primrec wf_json :: "json \<Rightarrow> bool" where
  "wf_json JNull = True"
| "wf_json (JBool b) = True"
| "wf_json (JInt i) = True"
| "wf_json (JFloat t) = float_text t"
| "wf_json (JStr s) = True"
| "wf_json (JArr xs) = list_all id (map wf_json xs)"
| "wf_json (JObj kvs) = list_all (\<lambda>kv. snd kv) (map (map_prod id wf_json) kvs)"

lemma of_char_digit: "n < 10 \<Longrightarrow> of_char (digit n) = 48 + n"
  by (simp add: digit_def)

lemma show_nat_digits: "c \<in> set (show_nat n) \<Longrightarrow> is_digit c"
proof (induction n rule: show_nat.induct)
  case (1 n)
  then show ?case
    by (cases "n < 10") (auto simp: show_nat.simps [of n] is_digit_def of_char_digit)
qed

lemma show_nat_nonempty [simp]: "show_nat n \<noteq> []"
  by (simp add: show_nat.simps [of n])

definition nat_of_text :: "string \<Rightarrow> nat" where
  "nat_of_text s = foldl (\<lambda>a c. 10 * a + (of_char c - 48)) 0 s"

lemma nat_of_show_nat: "nat_of_text (show_nat n) = n"
proof (induction n rule: show_nat.induct)
  case (1 n)
  then show ?case
    by (cases "n < 10") (auto simp: show_nat.simps [of n] nat_of_text_def of_char_digit)
qed

lemma show_nat_inj: "show_nat m = show_nat n \<longleftrightarrow> m = n"
  by (metis nat_of_show_nat)

lemma minus_not_digit: "\<not> is_digit CHR ''-''"
  by (simp add: is_digit_def)

lemma show_int_inj: "show_int i = show_int j \<longleftrightarrow> i = j"
proof -
  have "hd (show_nat n) \<noteq> CHR ''-''" for n
    using show_nat_digits [of "hd (show_nat n)" n] minus_not_digit by auto
  then have "CHR ''-'' # s \<noteq> show_nat n" for s n
    by (metis list.sel(1))
  then show ?thesis
    unfolding show_int_def by (auto simp: show_nat_inj dest: sym)
qed

lemma show_int_chars:
  "show_int i \<noteq> []" "list_all num_char (show_int i)"
  "is_digit (hd (show_int i)) \<or> hd (show_int i) = CHR ''-''"
  "\<not> list_ex (\<lambda>c. c \<in> set ''.e'') (show_int i)"
proof -
  have d: "list_all is_digit (show_nat n)" for n
    by (auto simp: list_all_iff dest: show_nat_digits)
  have "hd (show_nat n) \<in> set (show_nat n)" for n by simp
  then have h: "is_digit (hd (show_nat n))" for n
    by (rule show_nat_digits)
  have e: "\<not> is_digit CHR ''.''" "\<not> is_digit CHR ''e''"
    by (simp_all add: is_digit_def)
  show "show_int i \<noteq> []" by (simp add: show_int_def)
  show "list_all num_char (show_int i)"
    using d by (auto simp: show_int_def list_all_iff num_char_def)
  show "is_digit (hd (show_int i)) \<or> hd (show_int i) = CHR ''-''"
    using h by (simp add: show_int_def)
  show "\<not> list_ex (\<lambda>c. c \<in> set ''.e'') (show_int i)"
    using d [of "nat i"] d [of "nat (- i)"] e by (auto simp: show_int_def list_ex_iff list_all_iff)
qed

subsection \<open>Strings\<close>

text \<open>Reading one escaped character back.\<close>

definition hex_value :: "char \<Rightarrow> nat" where
  "hex_value c = (if of_char c < (58 :: nat) then of_char c - 48 else of_char c - 87)"

definition unesc_char :: "string \<Rightarrow> nat \<times> string" where
  "unesc_char s =
     (if hd s \<noteq> CHR 0x5C then (of_char (hd s), tl s)
      else if s ! 1 = CHR ''u'' then (16 * hex_value (s ! 4) + hex_value (s ! 5), drop 6 s)
      else (if s ! 1 = CHR ''n'' then 10 else if s ! 1 = CHR ''r'' then 13
            else if s ! 1 = CHR ''t'' then 9 else if s ! 1 = CHR ''f'' then 12
            else if s ! 1 = CHR ''b'' then 8 else of_char (s ! 1), drop 2 s))"

lemma hex_value_hex_digit: "n < 16 \<Longrightarrow> hex_value (hex_digit n) = n"
  by (simp add: hex_value_def hex_digit_def)

lemma unesc_esc_char: "unesc_char (esc_char c @ x) = (of_char c, x)"
proof -
  consider "(of_char c :: nat) \<in> {34, 92, 10, 13, 9, 12, 8}"
    | "(of_char c :: nat) < 32" "(of_char c :: nat) \<notin> {34, 92, 10, 13, 9, 12, 8}"
    | "\<not> (of_char c :: nat) < 32" "(of_char c :: nat) \<notin> {34, 92, 10, 13, 9, 12, 8}" by blast
  then show ?thesis
  proof cases
    case 1
    have "c = CHR 0x22" if "(of_char c :: nat) = 34"
      by (rule of_char_eq_iff [where 'a = nat, THEN iffD1]) (simp add: that)
    moreover have "c = CHR 0x5C" if "(of_char c :: nat) = 92"
      by (rule of_char_eq_iff [where 'a = nat, THEN iffD1]) (simp add: that)
    ultimately have "esc_char c \<in> {[CHR 0x5C, CHR 0x22], [CHR 0x5C, CHR 0x5C]} \<and> c = esc_char c ! 1
      \<or> (of_char c :: nat) = 10 \<and> esc_char c = [CHR 0x5C, CHR ''n'']
      \<or> (of_char c :: nat) = 13 \<and> esc_char c = [CHR 0x5C, CHR ''r'']
      \<or> (of_char c :: nat) = 9 \<and> esc_char c = [CHR 0x5C, CHR ''t'']
      \<or> (of_char c :: nat) = 12 \<and> esc_char c = [CHR 0x5C, CHR ''f'']
      \<or> (of_char c :: nat) = 8 \<and> esc_char c = [CHR 0x5C, CHR ''b'']"
      using 1 by (elim insertE) (simp_all add: esc_char_def Let_def)
    then show ?thesis by (elim disjE conjE) (auto simp: unesc_char_def)
  next
    case 2
    then show ?thesis
      by (simp add: esc_char_def unesc_char_def hex_value_hex_digit Let_def)
  next
    case 3
    then have "c \<noteq> CHR 0x5C" by auto
    with 3 show ?thesis by (simp add: esc_char_def unesc_char_def Let_def)
  qed
qed

lemma esc_char_prefix:
  assumes "esc_char c @ x = esc_char d @ y"
  shows "c = d \<and> x = y"
  using arg_cong [OF assms, of unesc_char] unfolding unesc_esc_char by simp

lemma esc_char_not_quote: "esc_char c @ x \<noteq> CHR 0x22 # y"
proof
  assume eq: "esc_char c @ x = CHR 0x22 # y"
  then have "(of_char c :: nat) = 34"
    using unesc_esc_char [of c x] by (simp add: unesc_char_def)
  then have "esc_char c = [CHR 0x5C, CHR 0x22]" by (simp add: esc_char_def)
  with eq show False by simp
qed

lemma esc_simps [simp]: "esc [] = []" "esc (c # s) = esc_char c @ esc s"
  by (simp_all add: esc_def)

lemma esc_quote_prefix:
  "esc s @ CHR 0x22 # r = esc t @ CHR 0x22 # r' \<Longrightarrow> s = t \<and> r = r'"
proof (induction s arbitrary: t)
  case Nil
  then show ?case using esc_char_not_quote by (cases t) (auto dest: sym)
next
  case (Cons c s)
  then show ?case
    using esc_char_not_quote by (cases t) (auto dest!: esc_char_prefix)
qed

lemma show_str_prefix: "show_str s @ r = show_str t @ r' \<Longrightarrow> s = t \<and> r = r'"
  unfolding show_str_def by (auto dest: esc_quote_prefix)

subsection \<open>Numbers, sequences and values\<close>

text \<open>What may follow a value: nothing, or a character that no number contains.\<close>

definition delim :: "string \<Rightarrow> bool" where
  "delim r \<longleftrightarrow> r = [] \<or> \<not> num_char (hd r)"

lemma delim_simps [simp]: "delim []" "delim (CHR '','' # r)" "delim (CHR '']'' # r)" "delim (CHR ''}'' # r)"
  by (auto simp: delim_def num_char_def is_digit_def)

lemma takeWhile_num: "list_all num_char s \<Longrightarrow> delim r \<Longrightarrow> takeWhile num_char (s @ r) = s"
  by (induction s) (cases r; auto simp: delim_def)+

lemma num_prefix:
  assumes "list_all num_char s" and "list_all num_char t" and "delim r" and "delim r'" and eq: "s @ r = t @ r'"
  shows "s = t \<and> r = r'"
proof -
  from assms have "s = t" by (metis takeWhile_num)
  with eq show ?thesis by simp
qed

lemma commas_Cons: "commas (x # xs) = x @ (if xs = [] then [] else CHR '','' # commas xs)"
  by (cases xs) simp_all

lemma commas_prefix:
  assumes "\<And>x y r r'. \<lbrakk>x \<in> set xs; y \<in> set ys; delim r; delim r'; f x @ r = f y @ r'\<rbrakk> \<Longrightarrow> x = y \<and> r = r'"
    and "\<And>x s r. x \<in> set xs \<union> set ys \<Longrightarrow> f x @ s \<noteq> z # r"
    and "delim (z # r)" and "delim (z # r')" and "z \<noteq> CHR '',''"
    and "commas (map f xs) @ z # r = commas (map f ys) @ z # r'"
  shows "xs = ys \<and> r = r'"
  using assms
proof (induction xs arbitrary: ys)
  case Nil
  then show ?case
    by (cases ys) (auto simp: commas_Cons dest: sym)
next
  case (Cons x xs)
  show ?case
  proof (cases ys)
    case Nil
    with Cons.prems show ?thesis by (auto simp: commas_Cons)
  next
    case ys: (Cons y ys')
    let ?R = "\<lambda>us r. (if us = [] then [] else CHR '','' # commas (map f us)) @ z # r"
    have "f x @ ?R xs r = f y @ ?R ys' r'"
      using Cons.prems(6) ys by (auto simp: commas_Cons split: if_splits)
    moreover have "delim (?R xs r)" "delim (?R ys' r')"
      using Cons.prems(3,4) by auto
    ultimately have xy: "x = y" and rest: "?R xs r = ?R ys' r'"
      using Cons.prems(1) [of x y "?R xs r" "?R ys' r'"] ys by auto
    show ?thesis
    proof (cases "xs = [] \<or> ys' = []")
      case True
      with rest Cons.prems(5) xy ys show ?thesis by (auto split: if_splits)
    next
      case False
      then have "commas (map f xs) @ z # r = commas (map f ys') @ z # r'"
        using rest by simp
      then have "xs = ys' \<and> r = r'"
        using Cons.prems(1-5) ys by (intro Cons.IH) auto
      with xy ys show ?thesis by simp
    qed
  qed
qed

lemma dumps_list_map: "dumps_list xs = map dumps xs"
  by (induction xs) simp_all

lemma dumps_items_map: "dumps_items kvs = map dumps_item kvs"
  by (induction kvs) simp_all

text \<open>The first character of a value's text tells its kind.\<close>

fun head_char :: "json \<Rightarrow> char \<Rightarrow> bool" where
  "head_char JNull c = (c = CHR ''n'')"
| "head_char (JBool b) c = (c = (if b then CHR ''t'' else CHR ''f''))"
| "head_char (JInt i) c = (is_digit c \<or> c = CHR ''-'')"
| "head_char (JFloat t) c = (is_digit c \<or> c = CHR ''-'')"
| "head_char (JStr s) c = (c = CHR 0x22)"
| "head_char (JArr xs) c = (c = CHR ''['')"
| "head_char (JObj kvs) c = (c = CHR ''{'')"

lemma dumps_head:
  assumes "wf_json v"
  obtains c s where "dumps v = c # s" "head_char v c"
proof (cases v)
  case (JInt i)
  then show ?thesis
    using that show_int_chars(1,3) [of i] by (cases "show_int i") auto
next
  case (JFloat t)
  with assms show ?thesis
    using that by (cases t) (auto simp: float_text_def)
next
  case (JBool b)
  then show ?thesis using that by (cases b) auto
qed (use that in \<open>auto simp: show_str_def\<close>)

lemma dumps_not_closing:
  assumes "wf_json v" and "z \<in> {CHR '']'', CHR ''}''}"
  shows "dumps v @ s \<noteq> z # r"
proof -
  from assms(1) obtain c s' where "dumps v = c # s'" "head_char v c"
    by (rule dumps_head)
  with assms(2) show ?thesis
    by (cases v) (auto simp: is_digit_def split: if_splits)
qed

lemma wf_json_JArr: "wf_json (JArr xs) \<longleftrightarrow> (\<forall>x \<in> set xs. wf_json x)"
  by (simp add: list_all_iff)

lemma wf_json_JObj: "wf_json (JObj kvs) \<longleftrightarrow> (\<forall>kv \<in> set kvs. wf_json (snd kv))"
  by (simp add: list_all_iff)

declare wf_json.simps(6,7) [simp del]
declare wf_json_JArr [simp] wf_json_JObj [simp]

lemma dumps_int_float_ne:
  assumes "float_text t" and "delim r" and "delim r'"
  shows "show_int i @ r \<noteq> t @ r'"
proof
  assume "show_int i @ r = t @ r'"
  with assms have "show_int i = t"
    using num_prefix [of "show_int i" t r r'] show_int_chars(2) by (auto simp: float_text_def)
  with assms(1) show False using show_int_chars(4) by (auto simp: float_text_def)
qed

lemma dumps_item_prefix:
  assumes IH: "\<And>w r r'. \<lbrakk>wf_json w; delim r; delim r'; dumps v @ r = dumps w @ r'\<rbrakk> \<Longrightarrow> v = w \<and> r = r'"
    and "wf_json w" and "delim r" and "delim r'" and "dumps_item (k, v) @ r = dumps_item (l, w) @ r'"
  shows "k = l \<and> v = w \<and> r = r'"
proof -
  from assms(5) have "k = l \<and> CHR '':'' # dumps v @ r = CHR '':'' # dumps w @ r'"
    by (intro show_str_prefix) simp
  with IH [OF assms(2-4)] show ?thesis by simp
qed

lemma dumps_item_not_brace: "dumps_item kv @ s \<noteq> CHR ''}'' # r"
  by (cases kv) (simp add: show_str_def)

text \<open>
  No two values have texts of which one begins the other, wherever the text is followed by
  a delimiter; so the text determines the value.
\<close>

lemma dumps_prefix:
  "\<lbrakk>wf_json v; wf_json w; delim r; delim r'; dumps v @ r = dumps w @ r'\<rbrakk> \<Longrightarrow> v = w \<and> r = r'"
proof (induction v arbitrary: w r r')
  case (JInt i)
  then show ?case
  proof (cases w)
    case (JInt j)
    with JInt.prems have "show_int i = show_int j \<and> r = r'"
      using num_prefix [of "show_int i" "show_int j" r r'] show_int_chars(2) by simp
    with JInt show ?thesis by (simp add: show_int_inj)
  next
    case (JFloat t)
    with JInt.prems show ?thesis using dumps_int_float_ne [of t r r' i] by simp
  qed (use JInt.prems dumps_head [of "JInt i"] in
      \<open>fastforce simp: show_str_def is_digit_def split: if_splits\<close>)+
next
  case (JFloat t)
  then show ?case
  proof (cases w)
    case (JInt j)
    with JFloat.prems show ?thesis using dumps_int_float_ne [of t r' r j] by (auto dest: sym)
  next
    case (JFloat u)
    with JFloat.prems show ?thesis using num_prefix [of t u r r'] by (auto simp: float_text_def)
  qed (use JFloat.prems dumps_head [of "JFloat t"] in
      \<open>fastforce simp: show_str_def is_digit_def split: if_splits\<close>)+
next
  case (JStr s)
  from JStr.prems(2) obtain c s' where "dumps w = c # s'" "head_char w c" by (rule dumps_head)
  with JStr.prems show ?case
    by (cases w) (auto simp: is_digit_def show_str_def dest: esc_quote_prefix split: if_splits)
next
  case (JArr xs)
  from JArr.prems(2) obtain c s' where "dumps w = c # s'" "head_char w c" by (rule dumps_head)
  with JArr.prems obtain ys where w: "w = JArr ys"
    by (cases w) (auto simp: is_digit_def split: if_splits)
  have "xs = ys \<and> r = r'"
  proof (rule commas_prefix [where f = dumps and z = "CHR '']''"])
    show "x = y \<and> q = q'" if "x \<in> set xs" "y \<in> set ys" "delim q" "delim q'" "dumps x @ q = dumps y @ q'" for x y q q'
      using JArr.IH that JArr.prems(1,2) w by auto
    show "dumps x @ s \<noteq> CHR '']'' # q" if "x \<in> set xs \<union> set ys" for x s q
      using that JArr.prems(1,2) w by (intro dumps_not_closing) auto
    show "commas (map dumps xs) @ CHR '']'' # r = commas (map dumps ys) @ CHR '']'' # r'"
      using JArr.prems(5) w by (simp add: dumps_list_map)
  qed simp_all
  with w show ?case by simp
next
  case (JObj kvs)
  from JObj.prems(2) obtain c s' where "dumps w = c # s'" "head_char w c" by (rule dumps_head)
  with JObj.prems obtain lws where w: "w = JObj lws"
    by (cases w) (auto simp: is_digit_def split: if_splits)
  have "kvs = lws \<and> r = r'"
  proof (rule commas_prefix [where f = dumps_item and z = "CHR ''}''"])
    fix x y q q'
    assume xy: "x \<in> set kvs" "y \<in> set lws" and d: "delim q" "delim q'" "dumps_item x @ q = dumps_item y @ q'"
    obtain k v l u where x: "x = (k, v)" and y: "y = (l, u)" by (cases x, cases y)
    have "wf_json v" "wf_json u" using JObj.prems(1,2) w xy x y by auto
    then have IH: "v = z \<and> p = p'"
      if "wf_json z" "delim p" "delim p'" "dumps v @ p = dumps z @ p'" for z p p'
      using JObj.IH [of x v z p p'] that xy x \<open>wf_json v\<close> by (auto simp: snds.intros)
    have "k = l \<and> v = u \<and> q = q'"
      by (rule dumps_item_prefix [OF IH \<open>wf_json u\<close> d(1,2)]) (use d(3) x y in simp_all)
    with x y show "x = y \<and> q = q'" by simp
  next
    show "commas (map dumps_item kvs) @ CHR ''}'' # r = commas (map dumps_item lws) @ CHR ''}'' # r'"
      using JObj.prems(5) w by (simp add: dumps_items_map)
  qed (auto simp: dumps_item_not_brace)
  with w show ?case by simp
next
  case JNull
  from JNull.prems(2) obtain c s' where "dumps w = c # s'" "head_char w c" by (rule dumps_head)
  with JNull.prems show ?case by (cases w) (auto simp: is_digit_def split: if_splits)
next
  case (JBool b)
  from JBool.prems(2) obtain c s' where "dumps w = c # s'" "head_char w c" by (rule dumps_head)
  with JBool.prems show ?case by (cases w) (auto simp: is_digit_def split: if_splits)
qed

lemma dumps_inj: "\<lbrakk>wf_json v; wf_json w; dumps v = dumps w\<rbrakk> \<Longrightarrow> v = w"
  using dumps_prefix [of v w "[]" "[]"] by simp

section \<open>Canonical form\<close>

text \<open>Every dictionary of the value has pairwise different keys, as a Python \<open>dict\<close> has.\<close>

primrec keys_ok :: "json \<Rightarrow> bool" where
  "keys_ok JNull = True"
| "keys_ok (JBool b) = True"
| "keys_ok (JInt i) = True"
| "keys_ok (JFloat t) = True"
| "keys_ok (JStr s) = True"
| "keys_ok (JArr xs) = list_all id (map keys_ok xs)"
| "keys_ok (JObj kvs) = (distinct (map fst kvs) \<and> list_all snd (map (map_prod id keys_ok) kvs))"

lemma wf_canonicalize: "wf_json v \<Longrightarrow> wf_json (canonicalize v)"
  by (induction v) (auto simp: snds.simps)

text \<open>A dictionary's canonical form does not depend on the order its keys were inserted.\<close>

lemma canonicalize_insertion_order:
  assumes "distinct (map fst kvs)" and "mset kvs = mset lws"
  shows "canonicalize (JObj kvs) = canonicalize (JObj lws)"
proof -
  let ?g = "map_prod id canonicalize :: string \<times> json \<Rightarrow> _"
  have "map fst (map ?g kvs) = map fst kvs" by simp
  with assms(1) have "distinct (map fst (map ?g kvs))" by simp
  moreover have "mset (map ?g kvs) = mset (map ?g lws)" using assms(2) by simp
  ultimately show ?thesis by (simp add: sort_key_fst_mset_cong)
qed

lemma canonicalize_sorted:
  "canonicalize (JObj kvs) = JObj lws \<Longrightarrow> sorted (map fst lws)"
  by auto

lemma canonicalize_idem: "canonicalize (canonicalize v) = canonicalize v"
proof (induction v)
  case (JObj kvs)
  have "map (map_prod id canonicalize) (sort_key fst (map (map_prod id canonicalize) kvs))
      = sort_key fst (map (map_prod id canonicalize) kvs)"
    using JObj.IH by (intro map_idI) (force simp: snds.simps)
  then show ?case by (simp add: sort_key_id_if_sorted)
qed simp_all

lemma canonical_text_inj:
  assumes "wf_json v" and "wf_json w"
  shows "canonical_text v = canonical_text w \<longleftrightarrow> canonicalize v = canonicalize w"
  unfolding canonical_text_def
  using dumps_inj [OF wf_canonicalize [OF assms(1)] wf_canonicalize [OF assms(2)]] by auto

text \<open>
  Two flat records with the same field names and atomic values have the same canonical form
  only when all their fields agree: the form in which the code's contracts are hashed.
\<close>

definition atomic :: "json \<Rightarrow> bool" where
  "atomic v \<longleftrightarrow> (case v of JArr _ \<Rightarrow> False | JObj _ \<Rightarrow> False | _ \<Rightarrow> True)"

lemma canonicalize_atomic: "atomic v \<Longrightarrow> canonicalize v = v"
  by (cases v) (simp_all add: atomic_def)

lemma canonicalize_field:
  assumes "canonicalize (JObj a) = canonicalize (JObj b)"
  shows "map_option canonicalize (map_of a k) = map_option canonicalize (map_of b k)"
proof -
  have "map_of (map (map_prod id canonicalize) kvs) k = map_option canonicalize (map_of kvs k)" for kvs
    by (induction kvs) auto
  moreover have "sort_key fst (map (map_prod id canonicalize) a) = sort_key fst (map (map_prod id canonicalize) b)"
    using assms by (simp only: canonicalize.simps json.inject)
  then have "map_of (map (map_prod id canonicalize) a) = map_of (map (map_prod id canonicalize) b)"
    by (metis map_of_sort_key)
  ultimately show ?thesis by metis
qed

lemma canonicalize_flat_record_inj:
  assumes "distinct ks" and "length vs = length ks" and "length ws = length ks"
    and "list_all atomic vs" and "list_all atomic ws"
    and eq: "canonicalize (JObj (zip ks vs)) = canonicalize (JObj (zip ks ws))"
  shows "vs = ws"
proof -
  have flat: "map (map_prod id canonicalize) (zip ks us) = zip ks us"
    if "list_all atomic us" for us
    using that by (intro map_idI) (auto simp: list_all_iff canonicalize_atomic dest: set_zip_rightD)
  from eq have "set (sort_key fst (zip ks vs)) = set (sort_key fst (zip ks ws))"
    using flat [OF assms(4)] flat [OF assms(5)] by simp
  then have "set (zip ks vs) = set (zip ks ws)" by simp
  then have m: "map_of (zip ks vs) = map_of (zip ks ws)"
    using assms(1-3) by (intro map_of_inject_set [THEN iffD2]) simp_all
  show ?thesis
  proof (rule nth_equalityI)
    fix i assume "i < length vs"
    then show "vs ! i = ws ! i"
      using map_of_zip_nth [of ks vs i] map_of_zip_nth [of ks ws i] m assms(1-3) by simp
  qed (use assms in simp)
qed

lemma canonicalize_length: "canonicalize (JObj as) = canonicalize (JObj bs) \<Longrightarrow> length as = length bs"
  by (metis canonicalize.simps(7) json.inject(6) length_map length_sort)

lemma canonical_text_length:
  "\<lbrakk>canonical_text (JObj as) = canonical_text (JObj bs); wf_json (JObj as); wf_json (JObj bs)\<rbrakk>
   \<Longrightarrow> length as = length bs"
  by (intro canonicalize_length canonical_text_inj [THEN iffD1])

text \<open>Flat dictionaries with the same canonical form are the same finite map, and conversely.\<close>

lemma canonicalize_flat_map:
  assumes "distinct (map fst as)" and "distinct (map fst bs)"
    and "\<And>v. v \<in> snd ` set as \<union> snd ` set bs \<Longrightarrow> atomic v"
  shows "canonicalize (JObj as) = canonicalize (JObj bs) \<longleftrightarrow> map_of as = map_of bs"
proof -
  have flat: "map (map_prod id canonicalize) us = us" if "set us \<subseteq> set as \<union> set bs" for us
    using that assms(3) by (intro map_idI) (force simp: canonicalize_atomic)
  have "canonicalize (JObj as) = canonicalize (JObj bs) \<longleftrightarrow> sort_key fst as = sort_key fst bs"
    by (simp add: flat)
  also have "\<dots> \<longleftrightarrow> set as = set bs"
  proof
    assume "sort_key fst as = sort_key fst bs"
    then have "set (sort_key fst as) = set (sort_key fst bs)" by simp
    then show "set as = set bs" by simp
  next
    assume "set as = set bs"
    then have "mset as = mset bs" using assms(1,2) by (simp add: set_eq_iff_mset_eq_distinct distinct_map)
    with assms(1) show "sort_key fst as = sort_key fst bs"
      using canonicalize_insertion_order [of as bs] flat by simp
  qed
  also have "\<dots> \<longleftrightarrow> map_of as = map_of bs"
    using assms(1,2) by (simp add: map_of_inject_set)
  finally show ?thesis .
qed

end
