(* ===== verification/Fault_Policy.thy ===== *)
theory Fault_Policy
  imports Canon_Json
begin

text \<open>
  \<open>src/schemaguard/cache/fault_policy.py\<close>: the frozen expectation of each of the thirty
  injected faults, and the payload whose digest binds a fault record.
\<close>

record fault_expectation =
  fe_injection_point :: string
  fe_expected_failure_category :: string
  fe_expected_artifact_accepted :: bool
  fe_expected_resume_behavior :: string

definition fexp :: "string \<Rightarrow> string \<Rightarrow> bool \<Rightarrow> string \<Rightarrow> fault_expectation" where
  "fexp p c a r = \<lparr>fe_injection_point = p, fe_expected_failure_category = c,
     fe_expected_artifact_accepted = a, fe_expected_resume_behavior = r\<rparr>"

definition FAULT_POLICY :: "(string \<times> fault_expectation) list" where
  "FAULT_POLICY = [
     (''payload_write_interrupted'', fexp ''process stopped during payload write''
       ''CACHE_MISS'' False
       ''RECOMPUTED_AFTER_INTERRUPTED_TRANSACTION''),
     (''completion_interrupted'', fexp ''payload durable before completion marker''
       ''CACHE_MISS'' False
       ''RECOMPUTED_AFTER_INTERRUPTED_TRANSACTION''),
     (''manifest_truncated'', fexp ''manifest parser''
       ''FAIL_CACHE_INTEGRITY'' False
       ''RECOMPUTED_AFTER_QUARANTINE''),
     (''payload_truncated'', fexp ''payload checksum validation''
       ''FAIL_CACHE_INTEGRITY'' False
       ''RECOMPUTED_AFTER_QUARANTINE''),
     (''completion_marker_missing'', fexp ''completion marker validation''
       ''FAIL_CACHE_INTEGRITY'' False
       ''RECOMPUTED_AFTER_QUARANTINE''),
     (''payload_checksum_wrong'', fexp ''payload checksum validation''
       ''FAIL_CACHE_INTEGRITY'' False
       ''RECOMPUTED_AFTER_QUARANTINE''),
     (''manifest_identity_wrong'', fexp ''canonical identity validation''
       ''FAIL_CACHE_INTEGRITY'' False
       ''RECOMPUTED_AFTER_QUARANTINE''),
     (''cache_key_wrong'', fexp ''key recomputation''
       ''FAIL_CACHE_INTEGRITY'' False
       ''RECOMPUTED_AFTER_QUARANTINE''),
     (''artifact_schema_wrong'', fexp ''strict manifest schema validation''
       ''FAIL_CACHE_INTEGRITY'' False
       ''RECOMPUTED_AFTER_QUARANTINE''),
     (''failed_artifact_candidate'', fexp ''failed-state cache candidate''
       ''FAIL_CACHE_INTEGRITY'' False
       ''RECOMPUTED_AFTER_QUARANTINE''),
     (''model_configuration_change'', fexp ''change one scientific or implementation identity field''
       ''CACHE_MISS'' False
       ''NEW_IDENTITY_REQUIRES_COMPUTE''),
     (''implementation_change'', fexp ''change one scientific or implementation identity field''
       ''CACHE_MISS'' False
       ''NEW_IDENTITY_REQUIRES_COMPUTE''),
     (''dependency_lock_change'', fexp ''change one scientific or implementation identity field''
       ''CACHE_MISS'' False
       ''NEW_IDENTITY_REQUIRES_COMPUTE''),
     (''dataset_checksum_change'', fexp ''change one scientific or implementation identity field''
       ''CACHE_MISS'' False
       ''NEW_IDENTITY_REQUIRES_COMPUTE''),
     (''split_checksum_change'', fexp ''change one scientific or implementation identity field''
       ''CACHE_MISS'' False
       ''NEW_IDENTITY_REQUIRES_COMPUTE''),
     (''view_certificate_change'', fexp ''change one scientific or implementation identity field''
       ''CACHE_MISS'' False
       ''NEW_IDENTITY_REQUIRES_COMPUTE''),
     (''checkpoint_checksum_change'', fexp ''change one scientific or implementation identity field''
       ''CACHE_MISS'' False
       ''NEW_IDENTITY_REQUIRES_COMPUTE''),
     (''device_policy_change'', fexp ''change one scientific or implementation identity field''
       ''CACHE_MISS'' False
       ''NEW_IDENTITY_REQUIRES_COMPUTE''),
     (''two_process_same_identity_publication'', fexp ''two spawned writers publish identical bytes simultaneously''
       ''ONE_VALIDATED_ARTIFACT'' True
       ''WINNING_ARTIFACT_REUSED''),
     (''same_key_different_payload'', fexp ''publish different bytes for an already validated identity''
       ''FAIL_CACHE_INTEGRITY'' True
       ''ORIGINAL_IMMUTABLE_ENTRY_RETAINED''),
     (''lock_holder_process_crash'', fexp ''owner exits without executing lock-release cleanup''
       ''PASS'' False
       ''LOCK_REACQUIRED_AFTER_OWNER_EXIT''),
     (''stale_lock_file_without_owner'', fexp ''leave old lock-file bytes without an active OS lock''
       ''PASS'' False
       ''LOCK_ACQUIRED_WITHOUT_DELETING_STALE_FILE''),
     (''worker_exceeds_hard_ram'', fexp ''inject a measured process-tree RSS sample above configured hard cap''
       ''FAIL_RESOURCE_LIMIT'' False
       ''NO_ARTIFACT_PUBLISHED''),
     (''worker_timeout'', fexp ''sleep worker exceeds its strict wall-time deadline''
       ''FAIL_TIMEOUT'' False
       ''NO_ARTIFACT_PUBLISHED''),
     (''worker_exit_without_result'', fexp ''worker exits abruptly before writing a result envelope''
       ''FAIL_MODEL_RUNTIME'' False
       ''NO_ARTIFACT_PUBLISHED''),
     (''restart_with_running_task'', fexp ''persist an expired lease whose worker and owner processes are gone''
       ''PASS'' False
       ''PENDING_FOR_SAFE_RETRY''),
     (''missing_cache_index'', fexp ''remove the derivative index''
       ''INDEX_REBUILT'' True
       ''MANIFEST_REDISCOVERED''),
     (''corrupt_cache_index'', fexp ''truncate the SQLite index''
       ''INDEX_REBUILT'' True
       ''MANIFEST_REDISCOVERED''),
     (''complete_state_without_valid_payload'', fexp ''persist COMPLETE state without the content-addressed payload''
       ''RECOMPUTE_INVALID_COMPLETE'' True
       ''TASK_REEXECUTED_AND_VALIDATED''),
     (''network_attempt_during_offline_execution'', fexp ''worker attempts loopback socket connection under Python audit deny hook''
       ''FAIL_MODEL_RUNTIME'' False
       ''NETWORK_DENIED_NO_ARTIFACT'')]"

definition CANONICAL_FAULT_NAMES :: "string list" where
  "CANONICAL_FAULT_NAMES = map fst FAULT_POLICY"

text \<open>A fault record, as \<open>FaultInjectionRecord\<close> of \<open>cache/contracts.py\<close> declares it.\<close>

record fault_record =
  fr_fault_name :: string
  fr_injection_point :: string
  fr_expected_failure_category :: string
  fr_observed_failure_category :: string
  fr_expected_artifact_accepted :: bool
  fr_artifact_accepted :: bool
  fr_expected_resume_behavior :: string
  fr_lock_released :: bool
  fr_resume_behavior :: string
  fr_evidence_sha256 :: string
  fr_status :: string

definition canonical_fault_evidence_payload :: "fault_record \<Rightarrow> json" where
  "canonical_fault_evidence_payload r = JObj [
     (''fault_name'', JStr (fr_fault_name r)),
     (''injection_point'', JStr (fr_injection_point r)),
     (''expected_failure_category'', JStr (fr_expected_failure_category r)),
     (''observed_failure_category'', JStr (fr_observed_failure_category r)),
     (''expected_artifact_accepted'', JBool (fr_expected_artifact_accepted r)),
     (''artifact_accepted'', JBool (fr_artifact_accepted r)),
     (''expected_resume_behavior'', JStr (fr_expected_resume_behavior r)),
     (''resume_behavior'', JStr (fr_resume_behavior r)),
     (''lock_released'', JBool (fr_lock_released r))]"

definition fault_evidence_sha256 :: "(string \<Rightarrow> string) \<Rightarrow> fault_record \<Rightarrow> string" where
  "fault_evidence_sha256 sha r = sha256_canonical_json sha (canonical_fault_evidence_payload r)"

lemma length_FAULT_POLICY: "length FAULT_POLICY = 30"
  by (simp add: FAULT_POLICY_def)

lemma distinct_fault_names: "distinct CANONICAL_FAULT_NAMES"
  by code_simp

lemma fault_policy_total:
  "name \<in> set CANONICAL_FAULT_NAMES \<longleftrightarrow> (\<exists>e. map_of FAULT_POLICY name = Some e)"
  by (simp add: CANONICAL_FAULT_NAMES_def) (metis domD domI dom_map_of_conv_image_fst list.set_map)

end
