(* ===== verification/Cache_Contracts.thy ===== *)
theory Cache_Contracts
  imports Fault_Policy
begin

text \<open>
  \<open>src/schemaguard/cache/contracts.py\<close>: the identity of a cached artifact and its key, the
  manifest and completion marker of an entry, the scheduler configuration, and the evidence
  contracts. A contract is a record; constructing it runs \<open>validate_...\<close>, which checks the
  field constraints first and then the statements of the class's validator in their order.
  (Pydantic reports all failing fields in one \<open>ValidationError\<close>, a subclass of
  \<open>ValueError\<close>; the model keeps the first one.)
\<close>

section \<open>Cache identity\<close>

datatype device_policy = Cpu | Cuda

datatype artifact_kind = KModel | KPrediction | KMetric | KCondition | KProbe

fun device_text :: "device_policy \<Rightarrow> string" where
  "device_text Cpu = ''cpu''"
| "device_text Cuda = ''cuda''"

fun kind_text :: "artifact_kind \<Rightarrow> string" where
  "kind_text KModel = ''model''"
| "kind_text KPrediction = ''prediction''"
| "kind_text KMetric = ''metric''"
| "kind_text KCondition = ''condition''"
| "kind_text KProbe = ''probe''"

lemma device_text_inj [simp]: "device_text a = device_text b \<longleftrightarrow> a = b"
  by (cases a; cases b) simp_all

lemma kind_text_inj [simp]: "kind_text a = kind_text b \<longleftrightarrow> a = b"
  by (cases a; cases b) simp_all

record cache_identity =
  ci_schema_version :: int
  ci_dataset_sha256 :: string
  ci_split_sha256 :: string
  ci_view_certificate_sha256 :: string
  ci_model_spec_sha256 :: string
  ci_model_parameters_sha256 :: string
  ci_checkpoint_sha256 :: "string option"
  ci_dependency_lock_sha256 :: string
  ci_source_implementation_sha256 :: string
  ci_seed :: int
  ci_device_policy :: device_policy
  ci_artifact_kind :: artifact_kind

definition identity_hash_fields :: "cache_identity \<Rightarrow> (string \<times> string) list" where
  "identity_hash_fields i = [
     (''dataset_sha256'', ci_dataset_sha256 i),
     (''split_sha256'', ci_split_sha256 i),
     (''view_certificate_sha256'', ci_view_certificate_sha256 i),
     (''model_spec_sha256'', ci_model_spec_sha256 i),
     (''model_parameters_sha256'', ci_model_parameters_sha256 i),
     (''dependency_lock_sha256'', ci_dependency_lock_sha256 i),
     (''source_implementation_sha256'', ci_source_implementation_sha256 i)]"

definition validate_cache_identity :: "cache_identity \<Rightarrow> cache_identity result" where
  "validate_cache_identity i = guards
     ([(ci_schema_version i \<noteq> 1, ValueError ''schema_version'')]
      @ map (\<lambda>(f, h). (\<not> is_sha256 h, ValueError f)) (identity_hash_fields i)
      @ [(case ci_checkpoint_sha256 i of None \<Rightarrow> False | Some h \<Rightarrow> \<not> is_sha256 h,
           ValueError ''checkpoint_sha256''),
         (ci_seed i < 0, ValueError ''seed'')]
      @ map (\<lambda>(f, h). (h = zero_hash, ValueError (f @ '' cannot be a placeholder hash'')))
          (identity_hash_fields i)
      @ [(ci_checkpoint_sha256 i = Some zero_hash,
           ValueError ''checkpoint_sha256 cannot be a placeholder hash'')]) i"

text \<open>\<open>model_dump(mode="json")\<close> and the key that is its canonical digest.\<close>

definition identity_field_names :: "string list" where
  "identity_field_names = [''schema_version'', ''dataset_sha256'', ''split_sha256'',
     ''view_certificate_sha256'', ''model_spec_sha256'', ''model_parameters_sha256'',
     ''checkpoint_sha256'', ''dependency_lock_sha256'', ''source_implementation_sha256'',
     ''seed'', ''device_policy'', ''artifact_kind'']"

definition identity_values :: "cache_identity \<Rightarrow> json list" where
  "identity_values i = [JInt (ci_schema_version i), JStr (ci_dataset_sha256 i),
     JStr (ci_split_sha256 i), JStr (ci_view_certificate_sha256 i),
     JStr (ci_model_spec_sha256 i), JStr (ci_model_parameters_sha256 i),
     (case ci_checkpoint_sha256 i of None \<Rightarrow> JNull | Some h \<Rightarrow> JStr h),
     JStr (ci_dependency_lock_sha256 i), JStr (ci_source_implementation_sha256 i),
     JInt (ci_seed i), JStr (device_text (ci_device_policy i)),
     JStr (kind_text (ci_artifact_kind i))]"

definition identity_json :: "cache_identity \<Rightarrow> json" where
  "identity_json i = JObj (zip identity_field_names (identity_values i))"

definition cache_key :: "(string \<Rightarrow> string) \<Rightarrow> cache_identity \<Rightarrow> string" where
  "cache_key sha i = sha256_canonical_json sha (identity_json i)"

lemma identity_values_inj: "identity_values i = identity_values j \<longleftrightarrow> i = j"
  by (auto simp: identity_values_def split: option.splits)

lemma wf_identity_json: "wf_json (identity_json i)"
  by (auto simp: identity_json_def identity_values_def identity_field_names_def split: option.splits)

lemma identity_canonical_text_inj:
  "canonical_text (identity_json i) = canonical_text (identity_json j) \<longleftrightarrow> i = j"
proof -
  have "identity_values i = identity_values j"
    if "canonicalize (identity_json i) = canonicalize (identity_json j)"
  proof (rule canonicalize_flat_record_inj [of identity_field_names])
    show "canonicalize (JObj (zip identity_field_names (identity_values i))) =
        canonicalize (JObj (zip identity_field_names (identity_values j)))"
      using that by (simp add: identity_json_def)
  qed (simp_all add: identity_field_names_def identity_values_def atomic_def split: option.splits)
  then show ?thesis
    by (auto simp: canonical_text_inj wf_identity_json identity_values_inj)
qed

section \<open>Manifest and completion marker\<close>

record cache_manifest =
  cm_schema_version :: int
  cm_identity :: cache_identity
  cm_cache_key :: string
  cm_artifact_kind :: artifact_kind
  cm_payload_file :: string
  cm_payload_sha256 :: string
  cm_payload_size_bytes :: int
  cm_producing_task_identity :: string
  cm_created_at :: datetime
  cm_source_implementation_sha256 :: string
  cm_dependency_lock_sha256 :: string
  cm_validation_status :: string
  cm_completed :: bool

definition validate_manifest :: "(string \<Rightarrow> string) \<Rightarrow> cache_manifest \<Rightarrow> cache_manifest result" where
  "validate_manifest sha m = bindr (validate_cache_identity (cm_identity m)) (\<lambda>_. guards
     [(cm_schema_version m \<noteq> 1, ValueError ''schema_version''),
      (\<not> is_sha256 (cm_cache_key m), ValueError ''cache_key''),
      (cm_payload_file m \<noteq> ''payload.bin'', ValueError ''payload_file''),
      (\<not> is_sha256 (cm_payload_sha256 m), ValueError ''payload_sha256''),
      (cm_payload_size_bytes m < 0, ValueError ''payload_size_bytes''),
      (\<not> is_sha256 (cm_producing_task_identity m), ValueError ''producing_task_identity''),
      (\<not> is_sha256 (cm_source_implementation_sha256 m), ValueError ''source_implementation_sha256''),
      (\<not> is_sha256 (cm_dependency_lock_sha256 m), ValueError ''dependency_lock_sha256''),
      (cm_validation_status m \<noteq> ''PASS'', ValueError ''validation_status''),
      (\<not> cm_completed m, ValueError ''completed''),
      (utc_offset (cm_created_at m) \<noteq> Some 0, ValueError ''created_at must be a UTC timestamp''),
      (cm_cache_key m \<noteq> cache_key sha (cm_identity m),
        ValueError ''manifest cache key does not match canonical identity''),
      (cm_artifact_kind m \<noteq> ci_artifact_kind (cm_identity m),
        ValueError ''manifest artifact kind differs from identity''),
      (cm_source_implementation_sha256 m \<noteq> ci_source_implementation_sha256 (cm_identity m),
        ValueError ''manifest implementation hash differs from identity''),
      (cm_dependency_lock_sha256 m \<noteq> ci_dependency_lock_sha256 (cm_identity m),
        ValueError ''manifest dependency-lock hash differs from identity'')] m)"

record completion_marker =
  mk_schema_version :: int
  mk_manifest_sha256 :: string
  mk_payload_sha256 :: string

definition validate_marker :: "completion_marker \<Rightarrow> completion_marker result" where
  "validate_marker k = guards
     [(mk_schema_version k \<noteq> 1, ValueError ''schema_version''),
      (\<not> is_sha256 (mk_manifest_sha256 k), ValueError ''manifest_sha256''),
      (\<not> is_sha256 (mk_payload_sha256 k), ValueError ''payload_sha256'')] k"

section \<open>Scheduler configuration\<close>

record scheduler_config =
  sc_schema_version :: int
  sc_cpu_workers :: int
  sc_cpu_threads_per_worker :: int
  sc_gpu_workers :: int
  sc_ram_soft_limit_mib :: int
  sc_ram_hard_limit_mib :: int
  sc_vram_soft_limit_mib :: int
  sc_gpu_headroom_mib :: int
  sc_lock_timeout_seconds :: py_float
  sc_heartbeat_interval_seconds :: py_float
  sc_abandoned_lease_seconds :: py_float
  sc_cache_root :: string
  sc_state_root :: string

definition root_absolute :: "string \<Rightarrow> bool" where
  "root_absolute path = (let value = normalise_slashes path in
     posix_absolute value \<or> has_drive_colon value)"

definition root_escapes :: "string \<Rightarrow> bool" where
  "root_escapes path \<longleftrightarrow> ''..'' \<in> set (split_on CHR ''/'' (normalise_slashes path))"

definition validate_config :: "scheduler_config \<Rightarrow> scheduler_config result" where
  "validate_config c = guards
     [(sc_schema_version c \<noteq> 1, ValueError ''schema_version''),
      (sc_cpu_workers c \<noteq> 2, ValueError ''cpu_workers''),
      (sc_cpu_threads_per_worker c \<noteq> 2, ValueError ''cpu_threads_per_worker''),
      (sc_gpu_workers c \<noteq> 1, ValueError ''gpu_workers''),
      (\<not> (0 < sc_ram_soft_limit_mib c \<and> sc_ram_soft_limit_mib c \<le> 24576), ValueError ''ram_soft_limit_mib''),
      (\<not> (0 < sc_ram_hard_limit_mib c \<and> sc_ram_hard_limit_mib c \<le> 28672), ValueError ''ram_hard_limit_mib''),
      (\<not> (0 < sc_vram_soft_limit_mib c \<and> sc_vram_soft_limit_mib c \<le> 3600), ValueError ''vram_soft_limit_mib''),
      (sc_gpu_headroom_mib c < 512, ValueError ''gpu_headroom_mib''),
      (sc_lock_timeout_seconds c \<le> 0, ValueError ''lock_timeout_seconds''),
      (sc_heartbeat_interval_seconds c \<le> 0, ValueError ''heartbeat_interval_seconds''),
      (sc_abandoned_lease_seconds c \<le> 0, ValueError ''abandoned_lease_seconds''),
      (sc_cache_root c = [], ValueError ''cache_root''),
      (sc_state_root c = [], ValueError ''state_root''),
      (sc_ram_hard_limit_mib c \<le> sc_ram_soft_limit_mib c,
        ValueError ''soft RAM limit must be lower than hard RAM limit''),
      (sc_abandoned_lease_seconds c \<le> sc_heartbeat_interval_seconds c,
        ValueError ''heartbeat interval must be shorter than abandoned lease''),
      (root_absolute (sc_cache_root c), ValueError ''cache_root must be repository-relative''),
      (root_escapes (sc_cache_root c), ValueError ''cache_root cannot escape the repository''),
      (root_absolute (sc_state_root c), ValueError ''state_root must be repository-relative''),
      (root_escapes (sc_state_root c), ValueError ''state_root cannot escape the repository'')] c"

lemma root_stays_below:
  "\<not> root_escapes path \<Longrightarrow>
   \<exists>below. resolve base (split_on CHR ''/'' (normalise_slashes path)) = base @ below"
  unfolding root_escapes_def by (rule resolve_stays_below)

end
