(* ===== verification/Cache_Store.thy ===== *)
theory Cache_Store
  imports Cache_Contracts "HOL-Library.AList"
begin

text \<open>
  \<open>src/schemaguard/cache/store.py\<close> and \<open>locks.py\<close>: immutable cache entries published as
  directory transactions. The cache root is an association list from the path of an entry
  directory (its segments below the root) to its contents; a file's bytes are a \<open>string\<close>.
  What the code takes from outside the repository, namely the digest, the JSON text of a
  manifest or marker and its parser, and \<open>isoformat\<close>, is the argument of type \<open>platform\<close>.
\<close>

section \<open>State\<close>

record platform =
  pl_sha :: "string \<Rightarrow> string"
  pl_render_manifest :: "cache_manifest \<Rightarrow> string"
  pl_parse_manifest :: "string \<Rightarrow> cache_manifest option"
  pl_render_marker :: "completion_marker \<Rightarrow> string"
  pl_parse_marker :: "string \<Rightarrow> completion_marker option"
  pl_isoformat :: "datetime \<Rightarrow> string"

type_synonym path = "string list"

record directory =
  d_files :: "(string \<times> string) list"
  d_has_subdir :: bool

type_synonym cache_fs = "(path \<times> directory) list"

definition dir_exists :: "cache_fs \<Rightarrow> path \<Rightarrow> bool" where
  "dir_exists s p \<longleftrightarrow> map_of s p \<noteq> None"

record cache_artifact =
  ca_cache_key :: string
  ca_artifact_kind :: artifact_kind
  ca_payload_path :: path
  ca_manifest_path :: path
  ca_payload_sha256 :: string
  ca_payload_size_bytes :: int
  ca_producing_task_identity :: string
  ca_created_at :: string
  ca_source_implementation_sha256 :: string
  ca_dependency_lock_sha256 :: string

record publish_result =
  pb_artifact :: cache_artifact
  pb_reused_existing :: bool

section \<open>Entry paths and locks\<close>

definition validate_key :: "string \<Rightarrow> unit result" where
  "validate_key key = guards
     [(length key \<noteq> 64 \<or> \<not> list_all is_lower_hex key,
       ValueError ''cache key must be a lowercase SHA-256 digest'')] ()"

definition entry_path :: "string \<Rightarrow> path result" where
  "entry_path key = bindr (validate_key key) (\<lambda>_. Inr [take 2 key, key])"

definition store_artifact_path :: "platform \<Rightarrow> cache_identity \<Rightarrow> path result" where
  "store_artifact_path P i = bindr (entry_path (cache_key (pl_sha P) i)) (\<lambda>p. Inr (p @ [''payload.bin'']))"

definition store_manifest_path :: "platform \<Rightarrow> cache_identity \<Rightarrow> path result" where
  "store_manifest_path P i = bindr (entry_path (cache_key (pl_sha P) i)) (\<lambda>p. Inr (p @ [''manifest.json'']))"

text \<open>
  \<open>CacheKeyLock\<close>: one lock file per key. Whether the operating-system lock can be taken
  before the deadline is the argument \<open>available\<close>; the lock is released in \<open>__exit__\<close> on
  every path, so the body runs with the lock held and its result passes through.
\<close>

definition make_key_lock :: "string \<Rightarrow> py_float \<Rightarrow> path result" where
  "make_key_lock key timeout = guards
     [(length key \<noteq> 64 \<or> \<not> list_all is_lower_hex key,
        ValueError ''cache key must be a lowercase SHA-256 digest''),
      (timeout \<le> 0, ValueError ''lock timeout must be positive'')] [''.locks'', key @ ''.lock'']"

definition with_key_lock ::
  "bool \<Rightarrow> string \<Rightarrow> py_float \<Rightarrow> 's \<Rightarrow> ('s \<Rightarrow> 's \<times> 'a result) \<Rightarrow> 's \<times> 'a result" where
  "with_key_lock available key timeout s body =
     (case make_key_lock key timeout of
        Inl e \<Rightarrow> (s, Inl e)
      | Inr lock \<Rightarrow> if available then body s
          else (s, Inl (CacheLockTimeout (''timed out acquiring cache lock '' @ last lock))))"

section \<open>Validation of an entry directory\<close>

definition expected_files :: "string set" where
  "expected_files = {''payload.bin'', ''manifest.json'', ''.complete.json''}"

definition file_bytes :: "directory \<Rightarrow> string \<Rightarrow> string" where
  "file_bytes d name = (case map_of (d_files d) name of None \<Rightarrow> [] | Some bs \<Rightarrow> bs)"

definition read_manifest_file :: "platform \<Rightarrow> string option \<Rightarrow> cache_manifest result" where
  "read_manifest_file P file =
     (case file of
        None \<Rightarrow> Inl (OSError ''missing file'')
      | Some bs \<Rightarrow>
        (case pl_parse_manifest P bs of
           None \<Rightarrow> Inl (ValueError ''invalid manifest'')
         | Some m \<Rightarrow> validate_manifest (pl_sha P) m))"

definition read_marker_file :: "platform \<Rightarrow> string option \<Rightarrow> completion_marker result" where
  "read_marker_file P file =
     (case file of
        None \<Rightarrow> Inl (OSError ''missing file'')
      | Some bs \<Rightarrow>
        (case pl_parse_marker P bs of
           None \<Rightarrow> Inl (ValueError ''invalid marker'')
         | Some k \<Rightarrow> validate_marker k))"

definition artifact_of :: "platform \<Rightarrow> path \<Rightarrow> string \<Rightarrow> cache_manifest \<Rightarrow> string \<Rightarrow> cache_artifact" where
  "artifact_of P path key m payload =
     \<lparr>ca_cache_key = key, ca_artifact_kind = cm_artifact_kind m,
      ca_payload_path = path @ [''payload.bin''], ca_manifest_path = path @ [''manifest.json''],
      ca_payload_sha256 = pl_sha P payload, ca_payload_size_bytes = int (length payload),
      ca_producing_task_identity = cm_producing_task_identity m,
      ca_created_at = pl_isoformat P (cm_created_at m),
      ca_source_implementation_sha256 = cm_source_implementation_sha256 m,
      ca_dependency_lock_sha256 = cm_dependency_lock_sha256 m\<rparr>"

definition validate_directory ::
  "platform \<Rightarrow> path \<Rightarrow> directory \<Rightarrow> string \<Rightarrow> cache_identity \<Rightarrow> bool \<Rightarrow> cache_artifact result" where
  "validate_directory P path d key i allow_transaction =
     (if set (map fst (d_files d)) \<noteq> expected_files \<or> d_has_subdir d
      then Inl (CacheIntegrityError ''cache entry is partial or contains unexpected files'')
      else
        (case (read_manifest_file P (map_of (d_files d) ''manifest.json''),
               read_marker_file P (map_of (d_files d) ''.complete.json'')) of
           (Inr m, Inr k) \<Rightarrow>
             (let payload = file_bytes d ''payload.bin'';
                  payload_size = int (length payload);
                  payload_hash = pl_sha P payload
              in guards
                [((\<not> allow_transaction \<and> last path \<noteq> key) \<or> cm_cache_key m \<noteq> key,
                   CacheIntegrityError ''cache directory and manifest keys differ''),
                 (cm_identity m \<noteq> i \<or> cache_key (pl_sha P) i \<noteq> key,
                   CacheIntegrityError ''cache identity does not match the request''),
                 (cm_validation_status m \<noteq> ''PASS'' \<or> \<not> cm_completed m,
                   CacheIntegrityError ''failed or incomplete artifact cannot be reused''),
                 (payload_size \<noteq> cm_payload_size_bytes m \<or> payload_hash \<noteq> cm_payload_sha256 m,
                   CacheIntegrityError ''cached payload size or SHA-256 mismatch''),
                 (mk_manifest_sha256 k \<noteq> pl_sha P (file_bytes d ''manifest.json''),
                   CacheIntegrityError ''completion marker does not identify this manifest''),
                 (mk_payload_sha256 k \<noteq> payload_hash,
                   CacheIntegrityError ''completion marker does not identify this payload'')]
                (artifact_of P path key m payload))
         | _ \<Rightarrow> Inl (CacheIntegrityError ''cache manifest, marker, or payload is invalid'')))"

section \<open>Reading\<close>

definition read_validated :: "platform \<Rightarrow> cache_fs \<Rightarrow> cache_identity \<Rightarrow> cache_artifact option result" where
  "read_validated P s i =
     bindr (entry_path (cache_key (pl_sha P) i)) (\<lambda>path.
       case map_of s path of
         None \<Rightarrow> Inr None
       | Some d \<Rightarrow> bindr (validate_directory P path d (cache_key (pl_sha P) i) i False) (\<lambda>a. Inr (Some a)))"

definition load_payload :: "platform \<Rightarrow> cache_fs \<Rightarrow> cache_identity \<Rightarrow> string result" where
  "load_payload P s i = bindr (read_validated P s i) (\<lambda>r.
     case r of
       None \<Rightarrow> Inl (CacheIntegrityError ''cache entry is absent'')
     | Some a \<Rightarrow>
        (case map_of s (butlast (ca_payload_path a)) of
           None \<Rightarrow> Inl (OSError ''payload.bin'')
         | Some d \<Rightarrow> Inr (file_bytes d (last (ca_payload_path a)))))"

section \<open>Publication\<close>

text \<open>
  \<open>os.replace(transaction, destination)\<close> succeeds, or fails because another process has
  put a directory at the destination, or fails for another reason.
\<close>

datatype replace_outcome = ReplaceOk | ReplaceRaced directory | ReplaceFailed

definition new_manifest ::
  "(string \<Rightarrow> string) \<Rightarrow> cache_identity \<Rightarrow> string \<Rightarrow> string \<Rightarrow> datetime \<Rightarrow> cache_manifest" where
  "new_manifest sha i task payload now =
     \<lparr>cm_schema_version = 1, cm_identity = i, cm_cache_key = cache_key sha i,
      cm_artifact_kind = ci_artifact_kind i, cm_payload_file = ''payload.bin'',
      cm_payload_sha256 = sha payload, cm_payload_size_bytes = int (length payload),
      cm_producing_task_identity = task, cm_created_at = now,
      cm_source_implementation_sha256 = ci_source_implementation_sha256 i,
      cm_dependency_lock_sha256 = ci_dependency_lock_sha256 i,
      cm_validation_status = ''PASS'', cm_completed = True\<rparr>"

definition new_marker :: "(string \<Rightarrow> string) \<Rightarrow> string \<Rightarrow> string \<Rightarrow> completion_marker" where
  "new_marker sha manifest_text payload =
     \<lparr>mk_schema_version = 1, mk_manifest_sha256 = sha manifest_text, mk_payload_sha256 = sha payload\<rparr>"

definition transaction_directory :: "platform \<Rightarrow> cache_manifest \<Rightarrow> string \<Rightarrow> directory" where
  "transaction_directory P m payload =
     (let mt = pl_render_manifest P m in
      \<lparr>d_files = [(''payload.bin'', payload), (''manifest.json'', mt),
         (''.complete.json'', pl_render_marker P (new_marker (pl_sha P) mt payload))],
       d_has_subdir = False\<rparr>)"

text \<open>
  \<open>_publish_stream\<close>. \<open>copied\<close> are the bytes the writer put into the transaction, \<open>now\<close> the
  clock, \<open>txn\<close> the path \<open>mkdtemp\<close> chose, \<open>outcome\<close> what \<open>os.replace\<close> does. The transaction
  directory is removed on every path that leaves it, so only the destination can change.
\<close>

definition publish_stream ::
  "platform \<Rightarrow> cache_identity \<Rightarrow> string \<Rightarrow> string \<Rightarrow> string \<Rightarrow> int \<Rightarrow> datetime \<Rightarrow> path
   \<Rightarrow> replace_outcome \<Rightarrow> cache_fs \<Rightarrow> cache_fs \<times> publish_result result" where
  "publish_stream P i task copied expected_hash expected_size now txn outcome s =
     (if \<not> is_sha256 task
      then (s, Inl (ValueError ''producing task identity must be a lowercase SHA-256 digest''))
      else let key = cache_key (pl_sha P) i in
      (case entry_path key of
         Inl e \<Rightarrow> (s, Inl e)
       | Inr destination \<Rightarrow>
         (case map_of s destination of
            Some d \<Rightarrow> (s, bindr (validate_directory P destination d key i False) (\<lambda>existing.
               if ca_payload_sha256 existing = expected_hash
                  \<and> ca_payload_size_bytes existing = expected_size
               then Inr \<lparr>pb_artifact = existing, pb_reused_existing = True\<rparr>
               else Inl (CacheIntegrityError
                 ''different payload bytes conflict with immutable cache identity'')))
          | None \<Rightarrow>
             if int (length copied) \<noteq> expected_size \<or> pl_sha P copied \<noteq> expected_hash
             then (s, Inl (CacheIntegrityError ''source payload changed while it was being copied''))
             else
             (let m = new_manifest (pl_sha P) i task copied now in
              case bindr (validate_manifest (pl_sha P) m) (\<lambda>_.
                   bindr (validate_marker (new_marker (pl_sha P) (pl_render_manifest P m) copied)) (\<lambda>_.
                   validate_directory P txn (transaction_directory P m copied) key i True)) of
                Inl e \<Rightarrow> (s, Inl e)
              | Inr _ \<Rightarrow>
                (case outcome of
                   ReplaceOk \<Rightarrow>
                     (let d = transaction_directory P m copied in
                      (AList.update destination d s,
                       bindr (validate_directory P destination d key i False) (\<lambda>a.
                         Inr \<lparr>pb_artifact = a, pb_reused_existing = False\<rparr>)))
                 | ReplaceRaced d \<Rightarrow>
                     (AList.update destination d s,
                      bindr (validate_directory P destination d key i False) (\<lambda>winner.
                        if ca_payload_sha256 winner = expected_hash
                           \<and> ca_payload_size_bytes winner = expected_size
                        then Inr \<lparr>pb_artifact = winner, pb_reused_existing = True\<rparr>
                        else Inl (CacheIntegrityError ''atomic cache directory publication failed'')))
                 | ReplaceFailed \<Rightarrow>
                     (s, Inl (CacheIntegrityError ''atomic cache directory publication failed'')))))))"

text \<open>
  \<open>publish_bytes\<close> writes the payload it was given; \<open>publish_file\<close> streams a file, \<open>None\<close>
  if it is missing: \<open>source\<close> are the bytes hashed beforehand and \<open>copied\<close> those read during
  the copy.
\<close>

definition publish_bytes ::
  "platform \<Rightarrow> bool \<Rightarrow> py_float \<Rightarrow> cache_identity \<Rightarrow> string \<Rightarrow> string \<Rightarrow> datetime \<Rightarrow> path
   \<Rightarrow> replace_outcome \<Rightarrow> cache_fs \<Rightarrow> cache_fs \<times> publish_result result" where
  "publish_bytes P available timeout i task payload now txn outcome s =
     with_key_lock available (cache_key (pl_sha P) i) timeout s
       (publish_stream P i task payload (pl_sha P payload) (int (length payload)) now txn outcome)"

definition publish_file_locked ::
  "platform \<Rightarrow> cache_identity \<Rightarrow> string \<Rightarrow> string option \<Rightarrow> string \<Rightarrow> datetime \<Rightarrow> path
   \<Rightarrow> replace_outcome \<Rightarrow> cache_fs \<Rightarrow> cache_fs \<times> publish_result result" where
  "publish_file_locked P i task source copied now txn outcome s =
     (case source of
        None \<Rightarrow> (s, Inl (CacheIntegrityError ''worker payload file is missing''))
      | Some bs \<Rightarrow> publish_stream P i task copied (pl_sha P bs) (int (length bs)) now txn outcome s)"

definition publish_file ::
  "platform \<Rightarrow> bool \<Rightarrow> py_float \<Rightarrow> cache_identity \<Rightarrow> string \<Rightarrow> string option \<Rightarrow> string \<Rightarrow> datetime
   \<Rightarrow> path \<Rightarrow> replace_outcome \<Rightarrow> cache_fs \<Rightarrow> cache_fs \<times> publish_result result" where
  "publish_file P available timeout i task source copied now txn outcome s =
     (if source = None then (s, Inl (CacheIntegrityError ''worker payload file is missing''))
      else with_key_lock available (cache_key (pl_sha P) i) timeout s
        (publish_file_locked P i task source copied now txn outcome))"

section \<open>Quarantine and discovery\<close>

definition quarantine_path :: "string \<Rightarrow> string \<Rightarrow> path" where
  "quarantine_path key tag = [''.quarantine'', key @ CHR ''-'' # tag]"

text \<open>\<open>quarantine_invalid_locked\<close>; \<open>tag\<close> is the fresh \<open>uuid4().hex\<close>.\<close>

definition quarantine_invalid_locked ::
  "platform \<Rightarrow> cache_identity \<Rightarrow> string \<Rightarrow> cache_fs \<Rightarrow> cache_fs \<times> path option result" where
  "quarantine_invalid_locked P i tag s =
     (let key = cache_key (pl_sha P) i in
      case entry_path key of
        Inl e \<Rightarrow> (s, Inl e)
      | Inr destination \<Rightarrow>
        (case map_of s destination of
           None \<Rightarrow> (s, Inr None)
         | Some d \<Rightarrow>
           (case validate_directory P destination d key i False of
              Inr _ \<Rightarrow> (s, Inl (CacheIntegrityError ''refusing to quarantine a valid immutable cache entry''))
            | Inl e \<Rightarrow>
              (let q = quarantine_path key tag
               in (AList.update q d (AList.delete destination s), Inr (Some q))))))"

definition quarantine_invalid ::
  "platform \<Rightarrow> bool \<Rightarrow> py_float \<Rightarrow> cache_identity \<Rightarrow> string \<Rightarrow> cache_fs \<Rightarrow> cache_fs \<times> path option result" where
  "quarantine_invalid P available timeout i tag s =
     (let key = cache_key (pl_sha P) i in
      case entry_path key of
        Inl e \<Rightarrow> (s, Inl e)
      | Inr destination \<Rightarrow>
        if map_of s destination = None then (s, Inr None)
        else with_key_lock available key timeout s (quarantine_invalid_locked P i tag))"

definition entry_candidate :: "path \<Rightarrow> bool" where
  "entry_candidate path =
     (case path of
        [prefix, name] \<Rightarrow> length prefix = 2 \<and> list_all is_lower_hex prefix
          \<and> length name = 64 \<and> take 2 name = prefix
      | _ \<Rightarrow> False)"

fun iter_entries :: "platform \<Rightarrow> cache_fs \<Rightarrow> cache_artifact list" where
  "iter_entries P [] = []"
| "iter_entries P ((path, d) # rest) =
     (if \<not> entry_candidate path then iter_entries P rest
      else case read_manifest_file P (map_of (d_files d) ''manifest.json'') of
             Inl e \<Rightarrow> iter_entries P rest
           | Inr m \<Rightarrow>
             (case validate_directory P path d (cm_cache_key m) (cm_identity m) False of
                Inl e \<Rightarrow> iter_entries P rest
              | Inr a \<Rightarrow> a # iter_entries P rest))"

text \<open>Directories are visited in the order of their names, prefix by prefix.\<close>

definition iter_validated :: "platform \<Rightarrow> cache_fs \<Rightarrow> cache_artifact list" where
  "iter_validated P s = iter_entries P (sort_key fst s)"

end
