(* ===== verification/Store_Interfaces.thy ===== *)
theory Store_Interfaces
  imports Prelude
begin

text \<open>The interfaces of the two stores, as locales: what a client relies on, and what follows for every
  sequence of operations.\<close>

section \<open>The artifact cache\<close>

text \<open>
  What the scheduler relies on when it uses the artifact cache: the operations it calls and
  the laws they keep, with the consequences for any sequence of operations. The laws do not
  mention files or digests; \<open>Cache_Facts\<close> discharges them for the store of the program.
\<close>

datatype ('i, 'p, 't) cache_op = Publish 'i 'p | Quarantine 'i 't

fun run_cache ::
  "('s \<Rightarrow> 'i \<Rightarrow> 'p \<Rightarrow> 's \<times> 'r result) \<Rightarrow> ('s \<Rightarrow> 'i \<Rightarrow> 't \<Rightarrow> 's \<times> 'q result)
   \<Rightarrow> 's \<Rightarrow> ('i, 'p, 't) cache_op list \<Rightarrow> 's" where
  "run_cache pub quar s [] = s"
| "run_cache pub quar s (Publish i p # ops) = run_cache pub quar (fst (pub s i p)) ops"
| "run_cache pub quar s (Quarantine i t # ops) = run_cache pub quar (fst (quar s i t)) ops"

text \<open>
  Entries live in slots; two identities share a slot only when the digest collides. A
  quarantine on behalf of one identity must not meet the entry of another one in its slot.
\<close>

fun separated :: "('i \<Rightarrow> 'k) \<Rightarrow> 'i \<Rightarrow> ('i, 'p, 't) cache_op \<Rightarrow> bool" where
  "separated slot j (Publish i p) = True"
| "separated slot j (Quarantine i t) = (slot i = slot j \<longrightarrow> i = j)"

locale artifact_cache =
  fixes slot :: "'i \<Rightarrow> 'k"
    and read :: "'s \<Rightarrow> 'i \<Rightarrow> 'a option result"
    and publish :: "'s \<Rightarrow> 'i \<Rightarrow> 'p \<Rightarrow> 's \<times> 'r result"
    and artifact :: "'r \<Rightarrow> 'a"
    and quarantine :: "'s \<Rightarrow> 'i \<Rightarrow> 't \<Rightarrow> 's \<times> 'q result"
  assumes read_publish: "publish s i p = (s', Inr r) \<Longrightarrow> read s' i = Inr (Some (artifact r))"
    and publish_frame: "\<lbrakk>read s j = Inr (Some a); publish s i p = (s', r')\<rbrakk> \<Longrightarrow> read s' j = Inr (Some a)"
    and read_quarantine: "quarantine s i t = (s', Inr q) \<Longrightarrow> read s' i = Inr None"
    and quarantine_frame: "\<lbrakk>slot i = slot j \<longrightarrow> i = j; read s j = Inr (Some a); quarantine s i t = (s', q')\<rbrakk>
      \<Longrightarrow> read s' j = Inr (Some a)"
begin

lemma run_keeps_valid:
  "\<lbrakk>read s j = Inr (Some a); list_all (separated slot j) ops\<rbrakk>
   \<Longrightarrow> read (run_cache publish quarantine s ops) j = Inr (Some a)"
proof (induction ops arbitrary: s)
  case (Cons op ops)
  show ?case
  proof (cases op)
    case (Publish i p)
    then show ?thesis
      using Cons.IH publish_frame [OF Cons.prems(1)] Cons.prems(2) by (cases "publish s i p") simp
  next
    case (Quarantine i t)
    obtain s' q where q: "quarantine s i t = (s', q)" by (cases "quarantine s i t")
    have "read s' j = Inr (Some a)"
      using Cons.prems Quarantine by (intro quarantine_frame [OF _ _ q]) simp_all
    with Cons Quarantine q show ?thesis by simp
  qed
qed simp

text \<open>
  Compute once: when a publication has succeeded, every later one for the same identity that
  succeeds returns the same artifact, whatever happened between them.
\<close>

lemma publish_once:
  assumes "publish s i p = (s1, Inr r1)" and "list_all (separated slot i) ops"
    and "publish (run_cache publish quarantine s1 ops) i p' = (s2, Inr r2)"
  shows "artifact r2 = artifact r1"
proof -
  have "read (run_cache publish quarantine s1 ops) i = Inr (Some (artifact r1))"
    using assms(1,2) by (intro run_keeps_valid read_publish)
  then have "read s2 i = Inr (Some (artifact r1))"
    using assms(3) by (rule publish_frame)
  with read_publish [OF assms(3)] show ?thesis by simp
qed

text \<open>An entry that is readable is never quarantined by a successful quarantine.\<close>

lemma quarantine_refuses_valid:
  assumes "read s i = Inr (Some a)" and "quarantine s i t = (s', r)"
  shows "\<exists>e. r = Inl e"
proof (cases r)
  case (Inr q)
  have "read s' i = Inr (Some a)" by (rule quarantine_frame [OF _ assms]) simp
  moreover have "read s' i = Inr None" using assms(2) unfolding Inr by (rule read_quarantine)
  ultimately show ?thesis by simp
qed simp

end


section \<open>The state store\<close>

text \<open>
  A store of statuses: operations move the status of a key only along the edges of a
  transition graph and keep an invariant. The consequences for every sequence of operations
  are proved here once; \<open>Task_State_Facts\<close> gives the task-state store as an instance.
\<close>

locale status_store =
  fixes status :: "'s \<Rightarrow> 'k \<Rightarrow> 'st option"
    and step :: "'s \<Rightarrow> 'op \<Rightarrow> 's"
    and edge :: "'st \<Rightarrow> 'st \<Rightarrow> bool"
    and invar :: "'s \<Rightarrow> bool"
  assumes step_invar: "invar s \<Longrightarrow> invar (step s op)"
    and step_edge: "\<lbrakk>invar s; status s k = Some x\<rbrakk> \<Longrightarrow> \<exists>y. status (step s op) k = Some y \<and> edge\<^sup>=\<^sup>= x y"
begin

lemma run_invar: "invar s \<Longrightarrow> invar (foldl step s ops)"
  by (induction ops arbitrary: s) (simp_all add: step_invar)

lemma run_path:
  "\<lbrakk>invar s; status s k = Some x\<rbrakk> \<Longrightarrow> \<exists>y. status (foldl step s ops) k = Some y \<and> edge\<^sup>*\<^sup>* x y"
proof (induction ops arbitrary: s x)
  case (Cons op ops)
  from step_edge [OF Cons.prems] obtain z where z: "status (step s op) k = Some z" "edge\<^sup>=\<^sup>= x z" by blast
  from Cons.IH [OF step_invar [OF Cons.prems(1)] z(1)] obtain y where
    "status (foldl step (step s op) ops) k = Some y" "edge\<^sup>*\<^sup>* z y" by blast
  with z(2) show ?case by (auto intro: converse_rtranclp_into_rtranclp)
qed auto

lemma run_absorbing:
  assumes "invar s" and "status s k = Some x" and "\<And>y. \<not> edge x y"
  shows "status (foldl step s ops) k = Some x"
proof -
  from run_path [OF assms(1,2)] obtain y where y: "status (foldl step s ops) k = Some y" "edge\<^sup>*\<^sup>* x y" by blast
  from y(2) assms(3) have "y = x" by (auto elim: converse_rtranclpE)
  with y(1) show ?thesis by simp
qed

end


end
