(* ===== verification/Cache_Discovery.thy ===== *)
theory Cache_Discovery
  imports Cache_Facts
begin

text \<open>
  Discovery of valid entries, success of a publication, and what a crash in the middle of a
  publication leaves behind.
\<close>

section \<open>Discovery lists exactly the readable entries\<close>

definition entry_artifact :: "platform \<Rightarrow> path \<Rightarrow> directory \<Rightarrow> cache_artifact \<Rightarrow> bool" where
  "entry_artifact P path d a \<longleftrightarrow> entry_candidate path \<and>
     (\<exists>m. read_manifest_file P (map_of (d_files d) ''manifest.json'') = Inr m
        \<and> validate_directory P path d (cm_cache_key m) (cm_identity m) False = Inr a)"

lemma entry_artifactE:
  assumes "entry_artifact P path d a"
  obtains m where "entry_candidate path" and "read_manifest_file P (map_of (d_files d) ''manifest.json'') = Inr m"
    and "validate_directory P path d (cm_cache_key m) (cm_identity m) False = Inr a"
  using assms unfolding entry_artifact_def by blast

lemma iter_entries_Cons:
  "(\<exists>a. entry_artifact P path d a \<and> iter_entries P ((path, d) # rest) = a # iter_entries P rest)
   \<or> (\<forall>a. \<not> entry_artifact P path d a) \<and> iter_entries P ((path, d) # rest) = iter_entries P rest"
  by (simp add: entry_artifact_def split: sum.split)

lemma entry_artifact_unique: "\<lbrakk>entry_artifact P path d a; entry_artifact P path d b\<rbrakk> \<Longrightarrow> a = b"
  by (auto simp: entry_artifact_def)

lemma set_iter_entries:
  "a \<in> set (iter_entries P s) \<longleftrightarrow> (\<exists>path d. (path, d) \<in> set s \<and> entry_artifact P path d a)"
proof (induction s)
  case (Cons e rest)
  obtain path d where e: "e = (path, d)" by (cases e)
  from iter_entries_Cons [of P path d rest] show ?case
    unfolding e using Cons.IH
    by (elim disjE exE conjE) (simp del: iter_entries.simps, metis entry_artifact_unique)+
qed simp

lemma validate_directory_manifest:
  assumes "validate_directory P path d key i txn = Inr a"
  obtains m where "read_manifest_file P (map_of (d_files d) ''manifest.json'') = Inr m"
    and "cm_identity m = i" and "cm_cache_key m = key" and "is_sha256 key" and "ca_cache_key a = key"
proof -
  from assms obtain m where m: "read_manifest_file P (map_of (d_files d) ''manifest.json'') = Inr m"
    and "cm_identity m = i" "cm_cache_key m = key" "ca_cache_key a = key"
    by (auto simp: validate_directory_def artifact_of_def Let_def split: sum.splits if_splits)
  moreover from m have "is_sha256 (cm_cache_key m)"
    by (auto simp: read_manifest_file_def validate_manifest_def bindr_Inr_iff split: option.splits)
  ultimately show thesis using that by simp
qed

lemma entry_artifact_readable:
  assumes "entry_artifact P path d a" and "map_of s path = Some d"
  shows "\<exists>i. read_validated P s i = Inr (Some a)"
proof -
  from assms(1) obtain m :: cache_manifest where cand: "entry_candidate path"
    and v: "validate_directory P path d (cm_cache_key m) (cm_identity m) False = Inr a"
    unfolding entry_artifact_def by blast
  from v have key: "cm_cache_key m = cache_key (pl_sha P) (cm_identity m)" "last path = cm_cache_key m"
    using validate_directory_certified(2,5) by blast+
  from v have "is_sha256 (cm_cache_key m)" by (rule validate_directory_manifest)
  with cand key have "entry_path (cache_key (pl_sha P) (cm_identity m)) = Inr path"
    by (auto simp: entry_candidate_def entry_path_Inr split: list.splits)
  with v key(1) assms(2) show ?thesis by (auto simp: read_validated_Some)
qed

lemma readable_entry_artifact:
  assumes "read_validated P s i = Inr (Some a)"
  obtains path d where "map_of s path = Some d" and "entry_artifact P path d a"
    and "ca_cache_key a = last path"
proof -
  from assms obtain p d where p: "entry_path (cache_key (pl_sha P) i) = Inr p" "map_of s p = Some d"
    and v: "validate_directory P p d (cache_key (pl_sha P) i) i False = Inr a"
    by (auto simp: read_validated_Some)
  from v obtain m where m: "read_manifest_file P (map_of (d_files d) ''manifest.json'') = Inr m"
    "cm_identity m = i" "cm_cache_key m = cache_key (pl_sha P) i" "ca_cache_key a = cache_key (pl_sha P) i"
    by (rule validate_directory_manifest)
  have "entry_candidate p"
    using p(1) by (auto simp: entry_path_Inr entry_candidate_def is_sha256_def list_all_iff dest: in_set_takeD)
  with m v have "entry_artifact P p d a" by (auto simp: entry_artifact_def)
  moreover have "ca_cache_key a = last p" using m p(1) by (auto simp: entry_path_Inr)
  ultimately show thesis using that p(2) by blast
qed

lemma iter_validated_set:
  assumes "distinct (map fst s)"
  shows "set (iter_validated P s) = {a. \<exists>i. read_validated P s i = Inr (Some a)}"
proof (intro set_eqI iffI)
  fix a assume "a \<in> set (iter_validated P s)"
  then obtain path d where "(path, d) \<in> set s" "entry_artifact P path d a"
    by (auto simp: iter_validated_def set_iter_entries)
  with assms show "a \<in> {a. \<exists>i. read_validated P s i = Inr (Some a)}"
    by (auto intro: entry_artifact_readable)
next
  fix a assume "a \<in> {a. \<exists>i. read_validated P s i = Inr (Some a)}"
  then obtain i where "read_validated P s i = Inr (Some a)" by blast
  then obtain path d where "map_of s path = Some d" "entry_artifact P path d a"
    by (rule readable_entry_artifact)
  then show "a \<in> set (iter_validated P s)"
    by (auto simp: iter_validated_def set_iter_entries dest: map_of_SomeD)
qed

lemma entry_artifact_key: "entry_artifact P path d a \<Longrightarrow> path = [take 2 (ca_cache_key a), ca_cache_key a]"
proof -
  assume ea: "entry_artifact P path d a"
  then obtain m :: cache_manifest where cand: "entry_candidate path"
    and v: "validate_directory P path d (cm_cache_key m) (cm_identity m) False = Inr a"
    unfolding entry_artifact_def by blast
  from v have "ca_cache_key a = cm_cache_key m" by (rule validate_directory_manifest)
  moreover have "last path = cm_cache_key m" using validate_directory_certified(5) [OF v] by simp
  ultimately show ?thesis using cand by (auto simp: entry_candidate_def split: list.splits)
qed

lemma iter_entries_keys_distinct:
  "distinct (map fst s) \<Longrightarrow> distinct (map ca_cache_key (iter_entries P s))"
proof (induction s)
  case (Cons e rest)
  obtain path d where e: "e = (path, d)" by (cases e)
  have "ca_cache_key a \<notin> ca_cache_key ` set (iter_entries P rest)" if "entry_artifact P path d a" for a
  proof
    assume "ca_cache_key a \<in> ca_cache_key ` set (iter_entries P rest)"
    then obtain b path' d' where "(path', d') \<in> set rest" "entry_artifact P path' d' b"
      "ca_cache_key a = ca_cache_key b"
      by (auto simp: set_iter_entries)
    then have "path' = path" using that entry_artifact_key by metis
    with \<open>(path', d') \<in> set rest\<close> Cons.prems e show False by (force simp: rev_image_eqI)
  qed
  with iter_entries_Cons [of P path d rest] Cons e show ?case by auto
qed simp

lemma iter_validated_keys_distinct:
  "distinct (map fst s) \<Longrightarrow> distinct (map ca_cache_key (iter_validated P s))"
  unfolding iter_validated_def by (intro iter_entries_keys_distinct) (simp add: distinct_map)

text \<open>Directories that are not entry candidates, such as transactions, do not matter.\<close>

lemma iter_entries_filter: "iter_entries P s = iter_entries P (filter (\<lambda>e. entry_candidate (fst e)) s)"
  by (induction P s rule: iter_entries.induct) (auto split: sum.splits)

lemma iter_validated_cong:
  assumes "filter (\<lambda>e. entry_candidate (fst e)) s' = filter (\<lambda>e. entry_candidate (fst e)) s"
  shows "iter_validated P s' = iter_validated P s"
  unfolding iter_validated_def
  by (subst (1 2) iter_entries_filter) (simp add: filter_sort assms)

lemma filter_update_other: "\<not> Q k \<Longrightarrow> filter (\<lambda>e. Q (fst e)) (AList.update k v s) = filter (\<lambda>e. Q (fst e)) s"
  by (induction s) auto

section \<open>A publication succeeds\<close>

lemma publish_stream_ok:
  fixes P i task payload now
  defines "m \<equiv> new_manifest (pl_sha P) i task payload now"
  defines "k \<equiv> new_marker (pl_sha P) (pl_render_manifest P m) payload"
  assumes sha: "\<And>x. is_sha256 (pl_sha P x)"
    and i: "validate_cache_identity i = Inr i" and task: "is_sha256 task" and now: "utc_offset now = Some 0"
    and rt: "pl_parse_manifest P (pl_render_manifest P m) = Some m" "pl_parse_marker P (pl_render_marker P k) = Some k"
    and absent: "read_validated P s i = Inr None"
  shows "publish_stream P i task payload (pl_sha P payload) (int (length payload)) now txn ReplaceOk s =
    (AList.update [take 2 (cache_key (pl_sha P) i), cache_key (pl_sha P) i] (transaction_directory P m payload) s,
     Inr \<lparr>pb_artifact = artifact_of P [take 2 (cache_key (pl_sha P) i), cache_key (pl_sha P) i]
            (cache_key (pl_sha P) i) m payload, pb_reused_existing = False\<rparr>)"
proof -
  let ?key = "cache_key (pl_sha P) i" and ?d = "transaction_directory P m payload"
  let ?dest = "[take 2 ?key, ?key]"
  have dest: "entry_path ?key = Inr ?dest"
    using sha by (simp add: entry_path_Inr cache_key_def sha256_canonical_json_def)
  with absent have none: "map_of s ?dest = None" by (auto simp: read_validated_None)
  have hashes: "is_sha256 (ci_source_implementation_sha256 i)" "is_sha256 (ci_dependency_lock_sha256 i)"
    using i by (auto simp: validate_cache_identity_def guards_Inr_iff identity_hash_fields_def)
  have m: "validate_manifest (pl_sha P) m = Inr m"
    using sha task now i hashes
    by (simp add: validate_manifest_def m_def new_manifest_def cache_key_def sha256_canonical_json_def)
  have k: "validate_marker k = Inr k"
    using sha by (simp add: validate_marker_def k_def new_marker_def)
  have files: "read_manifest_file P (map_of (d_files ?d) ''manifest.json'') = Inr m"
    "read_marker_file P (map_of (d_files ?d) ''.complete.json'') = Inr k"
    using rt m k by (simp_all add: read_manifest_file_def read_marker_file_def transaction_directory_def
        Let_def k_def)
  have v: "validate_directory P path ?d ?key i txn' = Inr (artifact_of P path ?key m payload)"
    if "txn' \<or> last path = ?key" for path txn'
    using that files
    by (auto simp: validate_directory_def Let_def expected_files_def m_def new_manifest_def k_def new_marker_def
        transaction_directory_def file_bytes_def)
  show ?thesis
    using task dest none m k v [of True txn] v [of False ?dest]
    by (simp add: publish_stream_def Let_def m_def [symmetric] k_def [symmetric])
qed

section \<open>Crash atomicity\<close>

text \<open>
  The file-system operations one publication performs, in order: the transaction directory
  is made next to the destination, filled, completed by the marker, and renamed. A crash
  leaves the state after some prefix of them.
\<close>

datatype fs_op = MakeDir path | PutFile path string string | RenameDir path path

fun apply_op :: "cache_fs \<Rightarrow> fs_op \<Rightarrow> cache_fs" where
  "apply_op s (MakeDir p) = AList.update p \<lparr>d_files = [], d_has_subdir = False\<rparr> s"
| "apply_op s (PutFile p name bs) =
     (case map_of s p of
        None \<Rightarrow> s
      | Some d \<Rightarrow> AList.update p (d\<lparr>d_files := AList.update name bs (d_files d)\<rparr>) s)"
| "apply_op s (RenameDir p q) =
     (case map_of s p of
        None \<Rightarrow> s
      | Some d \<Rightarrow> AList.update q d (AList.delete p s))"

definition transaction_path :: "string \<Rightarrow> string \<Rightarrow> path" where
  "transaction_path key suffix = [take 2 key, CHR ''.'' # key @ ''.txn-'' @ suffix]"

definition publish_ops :: "platform \<Rightarrow> path \<Rightarrow> path \<Rightarrow> cache_manifest \<Rightarrow> string \<Rightarrow> fs_op list" where
  "publish_ops P txn dest m payload =
     (let mt = pl_render_manifest P m in
      [MakeDir txn,
       PutFile txn ''payload.bin'' payload,
       PutFile txn ''manifest.json'' mt,
       PutFile txn ''.complete.json'' (pl_render_marker P (new_marker (pl_sha P) mt payload)),
       RenameDir txn dest])"

definition run_ops :: "cache_fs \<Rightarrow> fs_op list \<Rightarrow> cache_fs" where
  "run_ops = foldl apply_op"

lemma AList_update_update: "AList.update k v (AList.update k w s) = AList.update k v s"
  by (induction s) auto

lemma transaction_not_candidate: "\<not> entry_candidate (transaction_path key suffix)"
proof
  assume c: "entry_candidate (transaction_path key suffix)"
  then have "list_all is_lower_hex (take 2 key)" "take 2 key = take 2 (CHR ''.'' # key @ ''.txn-'' @ suffix)"
    by (auto simp: entry_candidate_def transaction_path_def)
  then show False by (auto simp: is_lower_hex_def)
qed

lemma entry_path_candidate: "is_sha256 k \<Longrightarrow> entry_candidate [take 2 k, k]"
  by (auto simp: entry_candidate_def is_sha256_def list_all_iff dest: in_set_takeD)

lemma run_publish_prefix:
  assumes "n < 5"
  shows "run_ops s (take n (publish_ops P txn dest m payload)) = s
    \<or> (\<exists>d. run_ops s (take n (publish_ops P txn dest m payload)) = AList.update txn d s)"
proof -
  from assms have "n = 0 \<or> n = 1 \<or> n = 2 \<or> n = 3 \<or> n = 4" by arith
  then show ?thesis
    by (elim disjE)
      (auto simp: run_ops_def publish_ops_def Let_def map_of_AList_update AList_update_update)
qed

lemma run_publish_all:
  assumes "txn \<noteq> dest" and "map_of s txn = None"
  shows "map_of (run_ops s (publish_ops P txn dest m payload)) =
    (map_of s)(dest \<mapsto> transaction_directory P m payload)"
  using assms
  by (auto simp: run_ops_def publish_ops_def Let_def map_of_AList_update map_of_AList_delete
      transaction_directory_def fun_eq_iff)

end
