(* ===== verification/Cache_Index.thy ===== *)
theory Cache_Index
  imports Cache_Discovery
begin

text \<open>
  \<open>src/schemaguard/cache/index.py\<close>: the rebuildable SQLite index of the store. The table
  \<open>artifacts\<close> is an association list from its primary key to its row; the database file may
  be missing, unreadable, or hold the table.
\<close>

section \<open>Rows and the database file\<close>

record index_row =
  ir_cache_key :: string
  ir_artifact_kind :: string
  ir_task_identity :: string
  ir_status :: string
  ir_payload_path :: string
  ir_manifest_path :: string
  ir_payload_sha256 :: string
  ir_payload_size_bytes :: int
  ir_created_at :: string
  ir_validated_at :: string
  ir_source_implementation_sha256 :: string

type_synonym index_table = "(string \<times> index_row) list"

datatype index_file = NoIndex | CorruptIndex | Index index_table

fun as_posix :: "path \<Rightarrow> string" where
  "as_posix [] = []"
| "as_posix [p] = p"
| "as_posix (p # q # ps) = p @ CHR ''/'' # as_posix (q # ps)"

text \<open>\<open>_values\<close>: paths below the cache root; \<open>now\<close> is the text of the current time.\<close>

definition index_values :: "string \<Rightarrow> cache_artifact \<Rightarrow> index_row" where
  "index_values now a =
     \<lparr>ir_cache_key = ca_cache_key a, ir_artifact_kind = kind_text (ca_artifact_kind a),
      ir_task_identity = ca_producing_task_identity a, ir_status = ''COMPLETE'',
      ir_payload_path = as_posix (ca_payload_path a), ir_manifest_path = as_posix (ca_manifest_path a),
      ir_payload_sha256 = ca_payload_sha256 a, ir_payload_size_bytes = ca_payload_size_bytes a,
      ir_created_at = ca_created_at a, ir_validated_at = now,
      ir_source_implementation_sha256 = ca_source_implementation_sha256 a\<rparr>"

text \<open>\<open>_connect\<close> creates the table in a missing file; a damaged file is a \<open>DatabaseError\<close>.\<close>

fun index_connect :: "index_file \<Rightarrow> index_table result" where
  "index_connect NoIndex = Inr []"
| "index_connect CorruptIndex = Inl (DatabaseError ''file is not a database'')"
| "index_connect (Index t) = Inr t"

text \<open>\<open>_upsert_sql\<close> with the table's \<open>CHECK\<close> constraint.\<close>

definition upsert :: "index_row \<Rightarrow> index_table \<Rightarrow> index_table result" where
  "upsert r t =
     (if ir_payload_size_bytes r < 0 then Inl (DatabaseError ''CHECK constraint failed'')
      else Inr (AList.update (ir_cache_key r) r t))"

fun upsert_all :: "index_row list \<Rightarrow> index_table \<Rightarrow> index_table result" where
  "upsert_all [] t = Inr t"
| "upsert_all (r # rs) t = bindr (upsert r t) (upsert_all rs)"

section \<open>Operations\<close>

definition index_add :: "string \<Rightarrow> cache_artifact \<Rightarrow> index_file \<Rightarrow> index_file \<times> unit result" where
  "index_add now a f =
     (case bindr (index_connect f) (upsert (index_values now a)) of
        Inl e \<Rightarrow> (f, Inl e)
      | Inr t \<Rightarrow> (Index t, Inr ()))"

record index_filter =
  if_cache_key :: "string option"
  if_artifact_kind :: "string option"
  if_task_identity :: "string option"
  if_status :: "string option"

definition matches_opt :: "string option \<Rightarrow> string \<Rightarrow> bool" where
  "matches_opt f v = (case f of None \<Rightarrow> True | Some w \<Rightarrow> v = w)"

definition row_matches :: "index_filter \<Rightarrow> index_row \<Rightarrow> bool" where
  "row_matches f r \<longleftrightarrow> matches_opt (if_cache_key f) (ir_cache_key r)
     \<and> matches_opt (if_artifact_kind f) (ir_artifact_kind r)
     \<and> matches_opt (if_task_identity f) (ir_task_identity r)
     \<and> matches_opt (if_status f) (ir_status r)"

definition index_lookup :: "index_filter \<Rightarrow> index_file \<Rightarrow> index_row list" where
  "index_lookup f file =
     (case file of
        Index t \<Rightarrow> sort_key ir_cache_key (filter (row_matches f) (map snd t))
      | _ \<Rightarrow> [])"

text \<open>The clock gives a new text at every reading: the row at place \<open>k\<close> is stamped with reading \<open>k\<close>.\<close>

definition stamped_rows :: "(nat \<Rightarrow> string) \<Rightarrow> cache_artifact list \<Rightarrow> index_row list" where
  "stamped_rows now entries = map2 (\<lambda>k a. index_values (now k) a) [0..<length entries] entries"

definition rebuild_table :: "(nat \<Rightarrow> string) \<Rightarrow> cache_artifact list \<Rightarrow> index_file \<Rightarrow> index_table result" where
  "rebuild_table now entries f =
     bindr (index_connect f) (\<lambda>_. upsert_all (stamped_rows now entries) [])"

text \<open>
  \<open>rebuild\<close>: the table is emptied and filled from the store; when that fails, the damaged
  file is moved aside and the fill is repeated on a new one, with later readings when the first
  attempt had got as far as the rows.
\<close>

definition index_rebuild ::
  "platform \<Rightarrow> (nat \<Rightarrow> string) \<Rightarrow> cache_fs \<Rightarrow> index_file \<Rightarrow> index_file \<times> nat result" where
  "index_rebuild P now s f =
     (let entries = iter_validated P s; n = length entries in
      case rebuild_table now entries f of
        Inr t \<Rightarrow> (Index t, Inr n)
      | Inl e \<Rightarrow>
        (case rebuild_table (\<lambda>k. now (case index_connect f of Inl _ \<Rightarrow> k | Inr _ \<Rightarrow> n + k)) entries NoIndex of
           Inr t \<Rightarrow> (Index t, Inr n)
         | Inl e \<Rightarrow> (NoIndex, Inl e)))"

section \<open>The index mirrors the store\<close>

lemma update_new: "k \<notin> fst ` set t \<Longrightarrow> AList.update k v t = t @ [(k, v)]"
  by (induction t) auto

lemma upsert_all_distinct:
  assumes "distinct (map ir_cache_key rs)" and "\<forall>r \<in> set rs. 0 \<le> ir_payload_size_bytes r"
    and "fst ` set t \<inter> ir_cache_key ` set rs = {}"
  shows "upsert_all rs t = Inr (t @ map (\<lambda>r. (ir_cache_key r, r)) rs)"
  using assms
proof (induction rs arbitrary: t)
  case (Cons r rs)
  then have "upsert r t = Inr (t @ [(ir_cache_key r, r)])"
    by (simp add: upsert_def update_new)
  with Cons show ?case by auto
qed simp

lemma iter_validated_size:
  assumes "a \<in> set (iter_validated P s)"
  shows "0 \<le> ca_payload_size_bytes a"
proof -
  from assms obtain path d where "entry_artifact P path d a"
    by (auto simp: iter_validated_def set_iter_entries)
  then show ?thesis
    by (auto simp: entry_artifact_def dest: validate_directory_payload)
qed

lemma stamped_rows_keys: "map ir_cache_key (stamped_rows now entries) = map ca_cache_key entries"
  by (rule nth_equalityI) (simp_all add: stamped_rows_def index_values_def)

lemma rebuild_table_ok:
  assumes "distinct (map fst s)" and "index_connect f = Inr t0"
  shows "rebuild_table now (iter_validated P s) f =
    Inr (map (\<lambda>r. (ir_cache_key r, r)) (stamped_rows now (iter_validated P s)))"
proof -
  let ?rs = "stamped_rows now (iter_validated P s)"
  have "distinct (map ir_cache_key ?rs)"
    unfolding stamped_rows_keys by (rule iter_validated_keys_distinct [OF assms(1)])
  moreover have "\<forall>r \<in> set ?rs. 0 \<le> ir_payload_size_bytes r"
    by (auto simp: stamped_rows_def index_values_def dest!: set_zip_rightD intro: iter_validated_size)
  ultimately have "upsert_all ?rs [] = Inr (map (\<lambda>r. (ir_cache_key r, r)) ?rs)"
    by (subst upsert_all_distinct) simp_all
  with assms(2) show ?thesis by (simp add: rebuild_table_def)
qed

lemma index_rebuild_eq:
  assumes "distinct (map fst s)"
  shows "index_rebuild P now s f =
    (Index (map (\<lambda>r. (ir_cache_key r, r)) (stamped_rows now (iter_validated P s))), Inr (length (iter_validated P s)))"
proof (cases f)
  case CorruptIndex
  then have "rebuild_table now (iter_validated P s) f = Inl (DatabaseError ''file is not a database'')"
    by (simp add: rebuild_table_def)
  with CorruptIndex rebuild_table_ok [OF assms, of NoIndex "[]" now P] show ?thesis
    by (simp add: index_rebuild_def Let_def)
next
  case NoIndex
  with rebuild_table_ok [OF assms, of NoIndex "[]" now P] show ?thesis by (simp add: index_rebuild_def Let_def)
next
  case (Index t)
  with rebuild_table_ok [OF assms, of f t now P] show ?thesis by (simp add: index_rebuild_def Let_def)
qed

text \<open>The stamp of an artifact is the reading at its place.\<close>

definition stamp_of :: "(nat \<Rightarrow> string) \<Rightarrow> cache_artifact list \<Rightarrow> cache_artifact \<Rightarrow> string" where
  "stamp_of now entries a = now (length (takeWhile (\<lambda>b. b \<noteq> a) entries))"

lemma set_stamped_rows:
  assumes "distinct entries"
  shows "set (stamped_rows now entries) = {index_values (stamp_of now entries a) a | a. a \<in> set entries}"
proof -
  have place: "length (takeWhile (\<lambda>b. b \<noteq> entries ! k) entries) = k" if "k < length entries" for k
  proof -
    have "takeWhile (\<lambda>b. b \<noteq> entries ! k) entries = take k entries"
      using that assms by (intro takeWhile_eq_take_P_nth) (auto simp: nth_eq_iff_index_eq)
    with that show ?thesis by simp
  qed
  have "stamped_rows now entries = map (\<lambda>a. index_values (stamp_of now entries a) a) entries"
    by (rule nth_equalityI) (simp_all add: stamped_rows_def stamp_of_def place)
  then show ?thesis by auto
qed

end
