(* ===== verification/Cache_Evidence.thy ===== *)
theory Cache_Evidence
  imports Cache_Contracts
begin

text \<open>
  The evidence contracts of \<open>src/schemaguard/cache/contracts.py\<close>: protected-file
  comparison, probe summaries, the scheduler inventory and the fault-injection matrix, with
  what an accepted piece of evidence guarantees.
\<close>

section \<open>Protected files\<close>

record protected_record =
  ph_path :: string
  ph_before_sha256 :: string
  ph_after_sha256 :: string
  ph_baseline_git_sha256 :: string
  ph_implementation_git_sha256 :: string
  ph_before_size_bytes :: int
  ph_after_size_bytes :: int
  ph_unchanged :: bool

definition protected_computed :: "protected_record \<Rightarrow> bool" where
  "protected_computed r \<longleftrightarrow>
     ph_before_sha256 r = ph_after_sha256 r
     \<and> ph_before_size_bytes r = ph_after_size_bytes r
     \<and> ph_baseline_git_sha256 r = ph_implementation_git_sha256 r"

definition validate_protected_record :: "protected_record \<Rightarrow> protected_record result" where
  "validate_protected_record r = guards
     [(ph_path r = [], ValueError ''path''),
      (\<not> is_sha256 (ph_before_sha256 r), ValueError ''before_sha256''),
      (\<not> is_sha256 (ph_after_sha256 r), ValueError ''after_sha256''),
      (\<not> is_sha256 (ph_baseline_git_sha256 r), ValueError ''baseline_git_sha256''),
      (\<not> is_sha256 (ph_implementation_git_sha256 r), ValueError ''implementation_git_sha256''),
      (ph_before_size_bytes r < 0, ValueError ''before_size_bytes''),
      (ph_after_size_bytes r < 0, ValueError ''after_size_bytes''),
      (\<not> portable_relative (ph_path r),
        ValueError ''protected file paths must be portable repository-relative paths''),
      (ph_unchanged r \<noteq> protected_computed r,
        ValueError ''protected-file comparison flag contradicts its hashes or sizes'')] r"

record protected_comparison =
  pc_schema_version :: int
  pc_baseline_commit :: string
  pc_implementation_commit :: string
  pc_expected_file_count :: int
  pc_records :: "protected_record list"
  pc_status :: string

definition validate_protected_comparison :: "protected_comparison \<Rightarrow> protected_comparison result" where
  "validate_protected_comparison c =
     bindr (validate_all validate_protected_record (pc_records c)) (\<lambda>_.
     let paths = map ph_path (pc_records c);
         observed_status = (if list_all ph_unchanged (pc_records c) then ''PASS'' else ''FAIL'')
     in guards
       [(pc_schema_version c \<noteq> 1, ValueError ''schema_version''),
        (\<not> is_commit (pc_baseline_commit c), ValueError ''baseline_commit''),
        (\<not> is_commit (pc_implementation_commit c), ValueError ''implementation_commit''),
        (pc_expected_file_count c \<le> 0, ValueError ''expected_file_count''),
        (pc_status c \<notin> {''PASS'', ''FAIL''}, ValueError ''status''),
        (paths = [] \<or> paths \<noteq> sort (remdups paths) \<or> int (length paths) \<noteq> pc_expected_file_count c,
          ValueError ''protected comparison paths must be nonempty, unique, and sorted''),
        (pc_status c \<noteq> observed_status,
          ValueError ''protected comparison status contradicts its file records'')] c)"

section \<open>Probe runs\<close>

record probe_resource =
  pr_wall_seconds :: py_float
  pr_cpu_seconds :: "py_float option"
  pr_peak_worker_rss_mib :: "py_float option"
  pr_peak_process_tree_rss_mib :: "py_float option"
  pr_telemetry_complete :: bool
  pr_hard_limit_passed :: bool
  pr_cleanup_passed :: bool
  pr_failure_category :: "string option"

definition opt_negative :: "py_float option \<Rightarrow> bool" where
  "opt_negative x = (case x of None \<Rightarrow> False | Some v \<Rightarrow> v < 0)"

definition validate_probe_resource :: "probe_resource \<Rightarrow> probe_resource result" where
  "validate_probe_resource r = guards
     [(pr_wall_seconds r < 0, ValueError ''wall_seconds''),
      (opt_negative (pr_cpu_seconds r), ValueError ''cpu_seconds''),
      (opt_negative (pr_peak_worker_rss_mib r), ValueError ''peak_worker_rss_mib''),
      (opt_negative (pr_peak_process_tree_rss_mib r), ValueError ''peak_process_tree_rss_mib''),
      (pr_peak_worker_rss_mib r = None \<or> pr_peak_process_tree_rss_mib r = None
        \<or> \<not> pr_telemetry_complete r \<or> \<not> pr_hard_limit_passed r \<or> \<not> pr_cleanup_passed r
        \<or> pr_failure_category r \<noteq> None,
        ValueError ''successful synthetic probes require complete passing resource evidence'')] r"

datatype run_mode = Cold | Resume

record probe_run =
  pn_mode :: run_mode
  pn_planned :: int
  pn_executed :: int
  pn_validated_cache_hits :: int
  pn_recovered_abandoned :: int
  pn_failed :: int
  pn_blocked :: int
  pn_retried :: int
  pn_cancelled :: int
  pn_max_cpu_concurrency :: int
  pn_max_gpu_concurrency :: int
  pn_offline_network_attempt_count :: int
  pn_resources :: "probe_resource list"

definition validate_probe_run :: "probe_run \<Rightarrow> probe_run result" where
  "validate_probe_run s =
     bindr (validate_all validate_probe_resource (pn_resources s)) (\<lambda>_. guards
     [(pn_planned s < 0, ValueError ''planned''),
      (pn_executed s < 0, ValueError ''executed''),
      (pn_validated_cache_hits s < 0, ValueError ''validated_cache_hits''),
      (pn_recovered_abandoned s < 0, ValueError ''recovered_abandoned''),
      (pn_failed s < 0, ValueError ''failed''),
      (pn_blocked s < 0, ValueError ''blocked''),
      (pn_retried s < 0, ValueError ''retried''),
      (pn_cancelled s < 0, ValueError ''cancelled''),
      (\<not> (0 \<le> pn_max_cpu_concurrency s \<and> pn_max_cpu_concurrency s \<le> 2), ValueError ''max_cpu_concurrency''),
      (\<not> (0 \<le> pn_max_gpu_concurrency s \<and> pn_max_gpu_concurrency s \<le> 1), ValueError ''max_gpu_concurrency''),
      (pn_offline_network_attempt_count s < 0, ValueError ''offline_network_attempt_count''),
      (pn_failed s \<noteq> 0 \<or> pn_blocked s \<noteq> 0 \<or> pn_retried s \<noteq> 0 \<or> pn_cancelled s \<noteq> 0,
        ValueError ''successful probe evidence cannot include failed or retried work''),
      (pn_offline_network_attempt_count s \<noteq> 0 \<or> pn_max_gpu_concurrency s \<noteq> 0,
        ValueError ''CPU synthetic probe must remain offline and use no GPU workers''),
      (pn_mode s = Cold \<and>
        (pn_executed s \<noteq> pn_planned s \<or> pn_validated_cache_hits s \<noteq> 0
         \<or> int (length (pn_resources s)) \<noteq> pn_executed s
         \<or> \<not> (1 \<le> pn_max_cpu_concurrency s \<and> pn_max_cpu_concurrency s \<le> 2)),
        ValueError ''cold probe must execute and monitor every planned CPU task''),
      (pn_mode s \<noteq> Cold \<and>
        (pn_executed s \<noteq> 0 \<or> pn_validated_cache_hits s \<noteq> pn_planned s
         \<or> pn_resources s \<noteq> [] \<or> pn_max_cpu_concurrency s \<noteq> 0),
        ValueError ''resume probe must validate-hit every task without execution'')] s)"

record probe_evidence =
  pe_schema_version :: int
  pe_stage :: string
  pe_source_implementation_commit :: string
  pe_source_implementation_sha256 :: string
  pe_dependency_lock_sha256 :: string
  pe_configuration_sha256 :: string
  pe_plan_sha256 :: string
  pe_cache_identity_hashes :: "string list"
  pe_cold :: probe_run
  pe_resume :: probe_run
  pe_maximum_mocked_gpu_concurrency :: int
  pe_mocked_gpu_offline_network_attempt_count :: int
  pe_validated_cache_artifact_count :: int
  pe_duplicate_validated_artifact_count :: int

definition validate_probe_evidence :: "probe_evidence \<Rightarrow> probe_evidence result" where
  "validate_probe_evidence e =
     bindr (validate_probe_run (pe_cold e)) (\<lambda>_.
     bindr (validate_probe_run (pe_resume e)) (\<lambda>_. guards
     [(pe_schema_version e \<noteq> 1, ValueError ''schema_version''),
      (pe_stage e \<noteq> ''cache_scheduler_probe'', ValueError ''stage''),
      (\<not> is_commit (pe_source_implementation_commit e), ValueError ''source_implementation_commit''),
      (\<not> is_sha256 (pe_source_implementation_sha256 e), ValueError ''source_implementation_sha256''),
      (\<not> is_sha256 (pe_dependency_lock_sha256 e), ValueError ''dependency_lock_sha256''),
      (\<not> is_sha256 (pe_configuration_sha256 e), ValueError ''configuration_sha256''),
      (\<not> is_sha256 (pe_plan_sha256 e), ValueError ''plan_sha256''),
      (\<not> list_all is_sha256 (pe_cache_identity_hashes e), ValueError ''cache_identity_hashes''),
      (pe_maximum_mocked_gpu_concurrency e \<noteq> 1, ValueError ''maximum_mocked_gpu_concurrency''),
      (pe_mocked_gpu_offline_network_attempt_count e \<noteq> 0,
        ValueError ''mocked_gpu_offline_network_attempt_count''),
      (pe_validated_cache_artifact_count e < 0, ValueError ''validated_cache_artifact_count''),
      (pe_duplicate_validated_artifact_count e < 0, ValueError ''duplicate_validated_artifact_count''),
      (length (pe_cache_identity_hashes e) \<noteq> card (set (pe_cache_identity_hashes e)),
        ValueError ''probe cache identities must be unique''),
      (pn_planned (pe_cold e) \<noteq> int (length (pe_cache_identity_hashes e)),
        ValueError ''cold probe task count differs from cache identity count''),
      (pn_planned (pe_resume e) \<noteq> pn_planned (pe_cold e),
        ValueError ''cold and resume probes must use the same plan size''),
      (pe_validated_cache_artifact_count e \<noteq> int (length (pe_cache_identity_hashes e)),
        ValueError ''probe artifact count differs from planned cache identities''),
      (pe_duplicate_validated_artifact_count e \<noteq> 0,
        ValueError ''probe evidence cannot contain duplicate validated artifacts'')] e))"

section \<open>Inventory\<close>

record scheduler_inventory =
  iv_schema_version :: int
  iv_stage :: string
  iv_status :: string
  iv_source_implementation_commit :: string
  iv_implementation_hashes :: "(string \<times> string) list"
  iv_configuration_sha256 :: string
  iv_plan_sha256 :: string
  iv_cache_identity_hashes :: "string list"
  iv_test_case_names :: "string list"
  iv_test_statuses :: "(string \<times> string) list"
  iv_counters :: "(string \<times> int) list"
  iv_maximum_observed_cpu_concurrency :: int
  iv_maximum_observed_gpu_concurrency :: int
  iv_resource_summaries :: "(string \<times> json) list"
  iv_fault_evidence_sha256 :: string
  iv_probe_evidence_sha256 :: string
  iv_resume_results :: "(string \<times> int) list"
  iv_offline_network_attempt_count :: int
  iv_protected_artifacts_unchanged :: bool
  iv_protected_hash_comparison_sha256 :: string

text \<open>A resource summary is a number or nothing.\<close>

fun summary_value :: "json \<Rightarrow> bool" where
  "summary_value (JFloat s) = True"
| "summary_value (JInt i) = True"
| "summary_value JNull = True"
| "summary_value v = False"

definition letter :: "char \<Rightarrow> bool" where
  "letter c = (let n = of_char c :: nat in (65 \<le> n \<and> n \<le> 90) \<or> (97 \<le> n \<and> n \<le> 122))"

definition inventory_path_refused :: "string \<Rightarrow> bool" where
  "inventory_path_refused path = (let normalized = normalise_slashes path in
     posix_absolute normalized
     \<or> (2 \<le> length normalized \<and> letter (normalized ! 0) \<and> normalized ! 1 = CHR '':'')
     \<or> ''..'' \<in> set (split_on CHR ''/'' normalized))"

definition validate_inventory :: "scheduler_inventory \<Rightarrow> scheduler_inventory result" where
  "validate_inventory v = guards
     [(iv_schema_version v \<noteq> 1, ValueError ''schema_version''),
      (iv_stage v \<noteq> ''cache_scheduler'', ValueError ''stage''),
      (iv_status v \<notin> {''PASS_PENDING_REVIEW'', ''REPAIR_REQUIRED'', ''BLOCKED''}, ValueError ''status''),
      (\<not> is_commit (iv_source_implementation_commit v), ValueError ''source_implementation_commit''),
      (\<not> list_all is_sha256 (map snd (iv_implementation_hashes v)), ValueError ''implementation_hashes''),
      (\<not> is_sha256 (iv_configuration_sha256 v), ValueError ''configuration_sha256''),
      (\<not> is_sha256 (iv_plan_sha256 v), ValueError ''plan_sha256''),
      (\<not> list_all is_sha256 (iv_cache_identity_hashes v), ValueError ''cache_identity_hashes''),
      (\<not> list_all (\<lambda>t. t \<in> {''PASS'', ''FAIL'', ''NOT_VERIFIED''}) (map snd (iv_test_statuses v)),
        ValueError ''test_statuses''),
      (\<not> (0 \<le> iv_maximum_observed_cpu_concurrency v \<and> iv_maximum_observed_cpu_concurrency v \<le> 2),
        ValueError ''maximum_observed_cpu_concurrency''),
      (\<not> (0 \<le> iv_maximum_observed_gpu_concurrency v \<and> iv_maximum_observed_gpu_concurrency v \<le> 1),
        ValueError ''maximum_observed_gpu_concurrency''),
      (\<not> list_all summary_value (map snd (iv_resource_summaries v)), ValueError ''resource_summaries''),
      (\<not> is_sha256 (iv_fault_evidence_sha256 v), ValueError ''fault_evidence_sha256''),
      (\<not> is_sha256 (iv_probe_evidence_sha256 v), ValueError ''probe_evidence_sha256''),
      (iv_offline_network_attempt_count v < 0, ValueError ''offline_network_attempt_count''),
      (\<not> is_sha256 (iv_protected_hash_comparison_sha256 v), ValueError ''protected_hash_comparison_sha256''),
      (length (iv_cache_identity_hashes v) \<noteq> card (set (iv_cache_identity_hashes v)),
        ValueError ''cache identity hashes must be unique''),
      (length (iv_test_case_names v) \<noteq> card (set (iv_test_case_names v)),
        ValueError ''test case names must be unique''),
      (list_ex inventory_path_refused (map fst (iv_implementation_hashes v)),
        ValueError ''implementation hash keys must be portable relative paths''),
      (list_ex (\<lambda>n. n < 0) (map snd (iv_counters v)), ValueError ''inventory counters cannot be negative''),
      (iv_status v = ''PASS_PENDING_REVIEW'' \<and> \<not> iv_protected_artifacts_unchanged v,
        ValueError ''passing inventory requires unchanged protected artifacts''),
      (iv_status v = ''PASS_PENDING_REVIEW'' \<and> iv_offline_network_attempt_count v \<noteq> 0,
        ValueError ''passing inventory requires zero probe network attempts''),
      (iv_status v = ''PASS_PENDING_REVIEW'' \<and>
         (iv_test_statuses v = [] \<or> list_ex (\<lambda>t. t \<noteq> ''PASS'') (map snd (iv_test_statuses v))),
        ValueError ''passing inventory requires every recorded test group to pass'')] v"

section \<open>Fault injection\<close>

definition derived_fault_status :: "fault_record \<Rightarrow> string" where
  "derived_fault_status r =
     (if fr_observed_failure_category r = fr_expected_failure_category r
         \<and> fr_artifact_accepted r = fr_expected_artifact_accepted r
         \<and> fr_resume_behavior r = fr_expected_resume_behavior r
         \<and> fr_lock_released r
      then ''PASS'' else ''FAIL'')"

definition validate_fault_record :: "(string \<Rightarrow> string) \<Rightarrow> fault_record \<Rightarrow> fault_record result" where
  "validate_fault_record sha r = bindr (guards
     [(\<not> is_sha256 (fr_evidence_sha256 r), ValueError ''evidence_sha256''),
      (fr_status r \<notin> {''PASS'', ''FAIL''}, ValueError ''status'')] ()) (\<lambda>_.
     case map_of FAULT_POLICY (fr_fault_name r) of
       None \<Rightarrow> Inl (ValueError ''fault name is not part of the frozen fault policy'')
     | Some expectation \<Rightarrow> guards
       [(fr_injection_point r \<noteq> fe_injection_point expectation
          \<or> fr_expected_failure_category r \<noteq> fe_expected_failure_category expectation
          \<or> fr_expected_artifact_accepted r \<noteq> fe_expected_artifact_accepted expectation
          \<or> fr_expected_resume_behavior r \<noteq> fe_expected_resume_behavior expectation,
          ValueError ''fault record expected behavior differs from the frozen policy''),
        (fr_evidence_sha256 r \<noteq> fault_evidence_sha256 sha r,
          ValueError ''fault evidence hash does not match its canonical payload''),
        (fr_status r \<noteq> derived_fault_status r,
          ValueError ''fault record status contradicts its observed behavior'')] r)"

record fault_evidence =
  fv_schema_version :: int
  fv_stage :: string
  fv_source_implementation_commit :: string
  fv_records :: "fault_record list"
  fv_expected_fault_count :: int
  fv_offline_network_attempt_count :: int

definition validate_fault_evidence :: "(string \<Rightarrow> string) \<Rightarrow> fault_evidence \<Rightarrow> fault_evidence result" where
  "validate_fault_evidence sha v =
     bindr (validate_all (validate_fault_record sha) (fv_records v)) (\<lambda>_. guards
     [(fv_schema_version v \<noteq> 1, ValueError ''schema_version''),
      (fv_stage v \<noteq> ''cache_scheduler_faults'', ValueError ''stage''),
      (\<not> is_commit (fv_source_implementation_commit v), ValueError ''source_implementation_commit''),
      (fv_expected_fault_count v \<noteq> 30, ValueError ''expected_fault_count''),
      (fv_offline_network_attempt_count v < 0, ValueError ''offline_network_attempt_count''),
      (map fr_fault_name (fv_records v) \<noteq> CANONICAL_FAULT_NAMES,
        ValueError ''fault evidence must use the exact canonical 30-case matrix''),
      (list_ex (\<lambda>r. fr_status r \<noteq> ''PASS'') (fv_records v),
        ValueError ''fault evidence manifest requires every case to derive PASS''),
      (fv_offline_network_attempt_count v \<noteq> 1,
        ValueError ''fault evidence requires exactly one intentionally denied network attempt'')] v)"

definition validate_fault_evidence_binding ::
  "fault_evidence \<Rightarrow> string \<Rightarrow> string \<Rightarrow> string \<Rightarrow> unit result" where
  "validate_fault_evidence_binding v inventory_commit inventory_digest observed_digest = guards
     [(fv_source_implementation_commit v \<noteq> inventory_commit,
        ValueError ''fault evidence source commit differs from the inventory''),
      (inventory_digest \<noteq> observed_digest,
        ValueError ''fault evidence whole-file digest differs from the inventory'')] ()"

section \<open>What accepted evidence guarantees\<close>

lemma fault_record_PASS:
  assumes "validate_fault_record sha r = Inr r" and "fr_status r = ''PASS''"
    and "map_of FAULT_POLICY (fr_fault_name r) = Some e"
  shows "fr_observed_failure_category r = fe_expected_failure_category e
    \<and> fr_artifact_accepted r = fe_expected_artifact_accepted e
    \<and> fr_resume_behavior r = fe_expected_resume_behavior e \<and> fr_lock_released r
    \<and> fr_evidence_sha256 r = fault_evidence_sha256 sha r"
  using assms
  by (auto simp: validate_fault_record_def bindr_Inr_iff guards_Inr_iff derived_fault_status_def
      split: if_splits)

lemma validate_fault_record_id: "validate_fault_record sha r = Inr r' \<Longrightarrow> r' = r"
  by (auto simp: validate_fault_record_def bindr_Inr_iff guards_Inr_iff split: option.splits)

lemma fault_evidence_record:
  assumes v: "validate_fault_evidence sha v = Inr v" and e: "map_of FAULT_POLICY name = Some e"
  obtains r where "r \<in> set (fv_records v)" and "fr_fault_name r = name"
    and "validate_fault_record sha r = Inr r" and "fr_status r = ''PASS''"
    and "length (filter (\<lambda>r. fr_fault_name r = name) (fv_records v)) = 1"
proof -
  let ?rs = "fv_records v"
  from v have names: "map fr_fault_name ?rs = CANONICAL_FAULT_NAMES"
    and pass: "\<forall>r \<in> set ?rs. fr_status r = ''PASS''"
    and ok: "\<forall>r \<in> set ?rs. \<exists>r'. validate_fault_record sha r = Inr r'"
    by (auto simp: validate_fault_evidence_def bindr_Inr_iff guards_Inr_iff validate_all_Inr list_ex_iff)
  from e have "name \<in> set (map fr_fault_name ?rs)"
    by (simp only: names) (simp add: fault_policy_total)
  then obtain r where r: "r \<in> set ?rs" "fr_fault_name r = name" by auto
  have "length (filter (\<lambda>n. n = name) (map fr_fault_name ?rs)) = 1"
    unfolding names using e distinct_fault_names
    by (intro filter_one_length) (simp_all add: fault_policy_total)
  then have "length (filter (\<lambda>r. fr_fault_name r = name) ?rs) = 1"
    by (simp add: filter_map comp_def)
  moreover have "validate_fault_record sha r = Inr r"
    using ok r validate_fault_record_id by blast
  ultimately show thesis using that r pass by blast
qed

lemma sort_remdups_imp: "xs = sort (remdups xs) \<Longrightarrow> sorted xs \<and> distinct xs"
  by (metis distinct_remdups distinct_sort sorted_sort)

end
