(* ===== verification/Cache_Demo.thy ===== *)
theory Cache_Demo
  imports Cache_Index Cache_Evidence
begin

text \<open>
  Concrete objects for the witnesses of the cache properties: a platform whose digest is
  constant (so every key collides, the hardest case for the identity checks), one identity,
  and the store after one publication.
\<close>

definition demo_hash :: string where
  "demo_hash = replicate 64 CHR ''a''"

definition demo_identity :: cache_identity where
  "demo_identity = \<lparr>ci_schema_version = 1, ci_dataset_sha256 = demo_hash, ci_split_sha256 = demo_hash,
     ci_view_certificate_sha256 = demo_hash, ci_model_spec_sha256 = demo_hash,
     ci_model_parameters_sha256 = demo_hash, ci_checkpoint_sha256 = None,
     ci_dependency_lock_sha256 = demo_hash, ci_source_implementation_sha256 = demo_hash,
     ci_seed = 1729, ci_device_policy = Cpu, ci_artifact_kind = KProbe\<rparr>"

definition demo_sha :: "string \<Rightarrow> string" where
  "demo_sha x = demo_hash"

definition demo_now :: datetime where
  "demo_now = DateTime 1000000 (Some 0)"

lemma demo_now_utc [simp]: "utc_offset demo_now = Some 0"
  by (simp add: demo_now_def)

definition demo_manifest :: cache_manifest where
  "demo_manifest = new_manifest demo_sha demo_identity demo_hash ''payload'' demo_now"

definition demo_marker :: completion_marker where
  "demo_marker = new_marker demo_sha ''M'' ''payload''"

definition demo_platform :: platform where
  "demo_platform = \<lparr>pl_sha = demo_sha, pl_render_manifest = (\<lambda>m. ''M''),
     pl_parse_manifest = (\<lambda>t. if t = ''M'' then Some demo_manifest else None),
     pl_render_marker = (\<lambda>k. ''K''),
     pl_parse_marker = (\<lambda>t. if t = ''K'' then Some demo_marker else None),
     pl_isoformat = (\<lambda>t. ''1970-01-01T00:00:01+00:00'')\<rparr>"

lemma demo_hash_facts [simp]: "is_sha256 demo_hash" "demo_hash \<noteq> zero_hash" "length demo_hash = 64"
proof -
  have "demo_hash ! 0 \<noteq> zero_hash ! 0" by (simp add: demo_hash_def zero_hash_def)
  then show "demo_hash \<noteq> zero_hash" by metis
qed (simp_all add: demo_hash_def is_sha256_def list_all_iff is_lower_hex_def)

lemma demo_sha_is_sha256 [simp]: "demo_sha x = demo_hash" "is_sha256 (demo_sha x)"
  by (simp_all add: demo_sha_def)

lemma demo_platform_simps [simp]:
  "pl_sha demo_platform = demo_sha"
  "pl_parse_manifest demo_platform ''M'' = Some demo_manifest"
  "pl_parse_marker demo_platform (pl_render_marker demo_platform k) = Some demo_marker"
  "pl_render_manifest demo_platform m = ''M''"
  by (simp_all add: demo_platform_def)

lemma demo_cache_key [simp]: "cache_key demo_sha i = demo_hash"
  by (simp add: cache_key_def sha256_canonical_json_def)

lemma demo_identity_valid [simp]: "validate_cache_identity demo_identity = Inr demo_identity"
  by (simp add: validate_cache_identity_def identity_hash_fields_def demo_identity_def)

text \<open>The store after one publication, and the artifact it holds.\<close>

definition demo_store :: cache_fs where
  "demo_store = [([take 2 demo_hash, demo_hash], transaction_directory demo_platform demo_manifest ''payload'')]"

definition demo_artifact :: cache_artifact where
  "demo_artifact = artifact_of demo_platform [take 2 demo_hash, demo_hash] demo_hash demo_manifest ''payload''"

lemma demo_empty_read: "read_validated demo_platform [] demo_identity = Inr None"
  by (simp add: read_validated_None entry_path_Inr)

lemma demo_publish:
  "publish_stream demo_platform demo_identity demo_hash ''payload'' demo_hash 7 demo_now txn ReplaceOk []
   = (demo_store, Inr \<lparr>pb_artifact = demo_artifact, pb_reused_existing = False\<rparr>)"
  using publish_stream_ok [of demo_platform demo_identity demo_hash demo_now "''payload''" "[]" txn]
  by (simp add: demo_empty_read demo_store_def demo_artifact_def demo_manifest_def [symmetric]
      demo_marker_def [symmetric])

lemma demo_read: "read_validated demo_platform demo_store demo_identity = Inr (Some demo_artifact)"
  using publish_stream_Inr [OF demo_publish] by simp

lemma demo_load: "load_payload demo_platform demo_store demo_identity = Inr ''payload''"
  by (simp add: load_payload_def demo_read)
    (simp add: demo_store_def demo_artifact_def artifact_of_def butlast_append file_bytes_transaction)

lemma demo_artifact_size: "ca_payload_sha256 demo_artifact = demo_hash" "ca_payload_size_bytes demo_artifact = 7"
  by (simp_all add: demo_artifact_def artifact_of_def demo_manifest_def new_manifest_def)

lemma demo_store_distinct: "distinct (map fst demo_store)"
  by (simp add: demo_store_def)

end
