(* ===== verification/Cache_Properties.thy ===== *)
theory Cache_Properties
  imports Cache_Demo
begin

text \<open>
  The properties of canonical hashing, the artifact cache, its index and its evidence, each
  with a witness where it has hypotheses.
\<close>

section \<open>Canonical hashing\<close>

text \<open>Inserting the entries of a dictionary in another order does not change its canonical
  digest.\<close>

theorem canonical_digest_insertion_order:
  assumes "distinct (map fst kvs)" and "mset kvs = mset lws"
  shows "sha256_canonical_json sha (JObj kvs) = sha256_canonical_json sha (JObj lws)"
  using canonicalize_insertion_order [OF assms]
  by (simp add: sha256_canonical_json_def canonical_text_def)

lemma canonical_digest_insertion_order_witness:
  "sha256_canonical_json demo_sha (JObj [(''seed'', JInt 7), (''kind'', JStr ''probe'')])
   = sha256_canonical_json demo_sha (JObj [(''kind'', JStr ''probe''), (''seed'', JInt 7)])"
  by (rule canonical_digest_insertion_order) simp_all

text \<open>Claim C26. Two cache identities have the same key only when they are equal in every field or
  when two different canonical texts have the same SHA-256 digest.\<close>

theorem cache_key_eq_iff:
  "cache_key sha i = cache_key sha j \<longleftrightarrow>
   i = j \<or> (canonical_text (identity_json i) \<noteq> canonical_text (identity_json j)
      \<and> sha (canonical_text (identity_json i)) = sha (canonical_text (identity_json j)))"
  using identity_canonical_text_inj [of i j]
  by (auto simp: cache_key_def sha256_canonical_json_def)

text \<open>The digest of a file read in bounded chunks is the digest of its whole contents, for
  every positive chunk size; every read is nonempty and within the bound.\<close>

theorem file_digest_whole:
  assumes "\<And>h x y. upd (upd h x) y = upd h (x @ y)" and "\<And>h. upd h [] = h"
  shows "file_digest h0 upd fin bs (int (Suc n)) = Inr (fin (upd h0 bs))
    \<and> list_all (\<lambda>c. c \<noteq> [] \<and> length c \<le> Suc n) (read_chunks (Suc n) bs)"
  using foldl_upd_concat [of upd h0 "read_chunks (Suc n) bs", OF assms]
  by (auto simp del: of_nat_Suc simp: file_digest_def concat_read_chunks list_all_iff dest: read_chunks_bounded)

lemma file_digest_whole_witness:
  "file_digest ''x'' (\<lambda>h c. h @ c) (\<lambda>h. h) ''abcde'' (int (Suc 1)) = Inr ''xabcde''"
  using file_digest_whole [of "\<lambda>h c. h @ c" "''x''" "\<lambda>h. h" "''abcde''" 1] by simp

text \<open>A source file has the same canonical hash whether it is checked out with LF or CRLF
  line endings, and the accepted hashes of the two checkouts are the same.\<close>

theorem source_hash_line_endings:
  "canonical_source_hash sha (lf_to_crlf s) = sha s
   \<and> canonical_source_hash sha s \<in> source_file_hashes sha s
   \<and> source_file_hashes sha (lf_to_crlf s) = {sha s, sha (lf_to_crlf s)}"
  by (simp add: canonical_source_hash_def source_file_hashes_def Let_def crlf_to_lf_of_lf_to_crlf)

section \<open>The artifact cache\<close>

text \<open>Claim C3. A validated read returns an artifact only for the identity it was asked for, even when
  digests collide; its payload is the one stored, and manifest and marker bind its bytes.\<close>

theorem read_validated_sound:
  assumes "read_validated P s i = Inr (Some a)"
  shows "\<exists>d m k payload mt.
     map_of s [take 2 (cache_key (pl_sha P) i), cache_key (pl_sha P) i] = Some d
     \<and> set (map fst (d_files d)) = {''payload.bin'', ''manifest.json'', ''.complete.json''}
     \<and> map_of (d_files d) ''manifest.json'' = Some mt \<and> pl_parse_manifest P mt = Some m
     \<and> cm_identity m = i \<and> cm_completed m \<and> cm_validation_status m = ''PASS''
     \<and> load_payload P s i = Inr payload
     \<and> ca_payload_sha256 a = pl_sha P payload \<and> cm_payload_sha256 m = pl_sha P payload
     \<and> ca_payload_size_bytes a = int (length payload)
     \<and> read_marker_file P (map_of (d_files d) ''.complete.json'') = Inr k
     \<and> mk_manifest_sha256 k = pl_sha P mt \<and> mk_payload_sha256 k = pl_sha P payload"
proof -
  let ?key = "cache_key (pl_sha P) i"
  from assms obtain p d where p: "entry_path ?key = Inr p" "map_of s p = Some d"
    and v: "validate_directory P p d ?key i False = Inr a"
    by (auto simp: read_validated_Some)
  have path: "p = [take 2 ?key, ?key]" using p(1) by (simp add: entry_path_Inr)
  from validate_directory_certified(1,3) [OF v] obtain m k payload mt where
    c: "map_of (d_files d) ''payload.bin'' = Some payload" "map_of (d_files d) ''manifest.json'' = Some mt"
      "pl_parse_manifest P mt = Some m" "validate_manifest (pl_sha P) m = Inr m" "cm_identity m = i"
      "cm_payload_sha256 m = pl_sha P payload"
      "read_marker_file P (map_of (d_files d) ''.complete.json'') = Inr k"
      "mk_manifest_sha256 k = pl_sha P mt" "mk_payload_sha256 k = pl_sha P payload"
      "a = artifact_of P p ?key m payload"
    and files: "set (map fst (d_files d)) = expected_files"
    unfolding certified_publication_def by blast
  have "load_payload P s i = Inr payload"
    using assms c(1,10) p by (simp add: load_payload_def artifact_of_def file_bytes_def butlast_append)
  moreover have "cm_completed m" "cm_validation_status m = ''PASS''"
    using c(4) by (auto simp: validate_manifest_def bindr_Inr_iff)
  ultimately show ?thesis
    using c p(2) path files
    by (intro exI [of _ d] exI [of _ m] exI [of _ k] exI [of _ payload] exI [of _ mt] conjI)
      (simp_all only: artifact_of_def expected_files_def cache_artifact.simps)
qed

lemma read_validated_sound_witness:
  "\<exists>d. map_of demo_store [take 2 demo_hash, demo_hash] = Some d
     \<and> load_payload demo_platform demo_store demo_identity = Inr ''payload''"
proof -
  from read_validated_sound [OF demo_read]
  obtain d where "map_of demo_store [take 2 (cache_key (pl_sha demo_platform) demo_identity),
      cache_key (pl_sha demo_platform) demo_identity] = Some d" by blast
  then show ?thesis by (simp only: demo_platform_simps demo_cache_key demo_load) blast
qed

text \<open>Claim C8. A publication of a valid identity into a free slot succeeds: it writes the complete
  entry, reports it as new, and the payload can be loaded back at once. The hypotheses on the
  platform are the shape of a digest and that parsing inverts rendering for the two texts written.\<close>

theorem publish_then_load:
  fixes P i task payload now
  defines "m \<equiv> new_manifest (pl_sha P) i task payload now"
  assumes "\<And>x. is_sha256 (pl_sha P x)" and "validate_cache_identity i = Inr i" and "is_sha256 task"
    and "utc_offset now = Some 0"
    and "pl_parse_manifest P (pl_render_manifest P m) = Some m"
    and "pl_parse_marker P (pl_render_marker P (new_marker (pl_sha P) (pl_render_manifest P m) payload))
       = Some (new_marker (pl_sha P) (pl_render_manifest P m) payload)"
    and "read_validated P s i = Inr None" and "0 < timeout"
  shows "\<exists>s' a. publish_bytes P True timeout i task payload now txn ReplaceOk s
        = (s', Inr \<lparr>pb_artifact = a, pb_reused_existing = False\<rparr>)
     \<and> read_validated P s' i = Inr (Some a) \<and> load_payload P s' i = Inr payload"
proof -
  let ?key = "cache_key (pl_sha P) i" and ?d = "transaction_directory P m payload"
  let ?dest = "[take 2 ?key, ?key]"
  let ?a = "artifact_of P ?dest ?key m payload"
  let ?s' = "AList.update ?dest ?d s"
  have pub: "publish_stream P i task payload (pl_sha P payload) (int (length payload)) now txn ReplaceOk s
      = (?s', Inr \<lparr>pb_artifact = ?a, pb_reused_existing = False\<rparr>)"
    using assms(2-8) unfolding m_def by (rule publish_stream_ok)
  have key: "is_sha256 ?key" using assms(2) by (simp add: cache_key_def sha256_canonical_json_def)
  have read: "read_validated P ?s' i = Inr (Some ?a)" using publish_stream_Inr [OF pub] by simp
  have "load_payload P ?s' i = Inr payload"
    using read by (simp add: load_payload_def artifact_of_def map_of_AList_update file_bytes_transaction butlast_append)
  moreover have "publish_bytes P True timeout i task payload now txn ReplaceOk s
      = (?s', Inr \<lparr>pb_artifact = ?a, pb_reused_existing = False\<rparr>)"
    using key \<open>0 < timeout\<close> pub
    by (simp add: publish_bytes_def with_key_lock_def make_key_lock_def is_sha256_def not_le)
  ultimately show ?thesis using read by blast
qed

lemma publish_then_load_witness:
  "\<exists>s' a. publish_bytes demo_platform True 1 demo_identity demo_hash ''payload'' demo_now [] ReplaceOk []
        = (s', Inr \<lparr>pb_artifact = a, pb_reused_existing = False\<rparr>)
     \<and> read_validated demo_platform s' demo_identity = Inr (Some a)
     \<and> load_payload demo_platform s' demo_identity = Inr ''payload''"
  by (rule publish_then_load)
    (simp_all add: demo_empty_read demo_manifest_def [symmetric] demo_marker_def [symmetric])


text \<open>Claim C2. Valid entries are immutable: an artifact that is readable stays readable with the same
  contents through every sequence of publications and quarantines by any process. The hypothesis
  on the sequence is that no quarantine is run for a different identity whose SHA-256 key collides.\<close>

theorem valid_entries_immutable:
  assumes "read_validated P s j = Inr (Some a)"
    and "list_all (separated (cache_key (pl_sha P)) j) ops"
  shows "read_validated P (run_cache (store_publish P) (store_quarantine P) s ops) j = Inr (Some a)"
  using assms by (rule store.run_keeps_valid)

lemma valid_entries_immutable_witness:
  "read_validated demo_platform
     (run_cache (store_publish demo_platform) (store_quarantine demo_platform) demo_store
       [Publish demo_identity (demo_hash, ''other'', demo_hash, 5, demo_now, [], ReplaceFailed),
        Quarantine demo_identity ''tag'']) demo_identity = Inr (Some demo_artifact)"
  by (rule valid_entries_immutable [OF demo_read]) simp

text \<open>Claim C7. Compute once: after one successful publication, whatever publications and quarantines
  follow, every later successful publication for the same identity returns the same artifact.\<close>

theorem publication_is_final:
  assumes "store_publish P s i p = (s1, Inr r1)"
    and "list_all (separated (cache_key (pl_sha P)) i) ops"
    and "store_publish P (run_cache (store_publish P) (store_quarantine P) s1 ops) i p' = (s2, Inr r2)"
  shows "pb_artifact r2 = pb_artifact r1"
  using assms by (rule store.publish_once)

lemma publication_is_final_witness:
  "\<forall>bs. pb_artifact (the (case snd (store_publish demo_platform
       (run_cache (store_publish demo_platform) (store_quarantine demo_platform) demo_store [Quarantine demo_identity ''t''])
       demo_identity (demo_hash, bs, demo_hash, 7, demo_now, [], ReplaceOk)) of Inr r \<Rightarrow> Some r | Inl e \<Rightarrow> None))
     = demo_artifact"
proof
  fix bs
  let ?s = "run_cache (store_publish demo_platform) (store_quarantine demo_platform) demo_store
    [Quarantine demo_identity ''t'' :: (cache_identity, publication, string) cache_op]"
  have first: "store_publish demo_platform [] demo_identity
      (demo_hash, ''payload'', demo_hash, 7, demo_now, [], ReplaceOk)
    = (demo_store, Inr \<lparr>pb_artifact = demo_artifact, pb_reused_existing = False\<rparr>)"
    by (simp add: store_publish_def demo_publish)
  have "read_validated demo_platform ?s demo_identity = Inr (Some demo_artifact)"
    by (rule store.run_keeps_valid [OF demo_read]) simp
  from publish_stream_reuse [OF this, of demo_hash bs demo_now "[]" ReplaceOk]
  have again: "store_publish demo_platform ?s demo_identity (demo_hash, bs, demo_hash, 7, demo_now, [], ReplaceOk)
    = (?s, Inr \<lparr>pb_artifact = demo_artifact, pb_reused_existing = True\<rparr>)"
    by (simp add: store_publish_def demo_artifact_size)
  from publication_is_final [OF first _ again] again
  show "pb_artifact (the (case snd (store_publish demo_platform ?s
       demo_identity (demo_hash, bs, demo_hash, 7, demo_now, [], ReplaceOk)) of Inr r \<Rightarrow> Some r | Inl e \<Rightarrow> None))
     = demo_artifact" by simp
qed

text \<open>Claim C5. A publication is atomic under crashes: after any proper prefix of its file-system
  operations every read and the discovery of entries give what they gave before, and after all
  of them every path holds what the completed publication leaves there.\<close>

theorem publication_crash_atomic:
  fixes P i task payload now suffix
  defines "key \<equiv> cache_key (pl_sha P) i"
  defines "ops \<equiv> publish_ops P (transaction_path key suffix) [take 2 key, key]
      (new_manifest (pl_sha P) i task payload now) payload"
  assumes pub: "publish_stream P i task payload eh es now (transaction_path key suffix) ReplaceOk s = (s', Inr r)"
    and new: "\<not> pb_reused_existing r" and fresh: "map_of s (transaction_path key suffix) = None"
    and n: "n < 5"
  shows "read_validated P (run_ops s (take n ops)) j = read_validated P s j
    \<and> iter_validated P (run_ops s (take n ops)) = iter_validated P s
    \<and> map_of (run_ops s ops) = map_of s'"
proof -
  let ?txn = "transaction_path key suffix"
  have other: "?txn \<noteq> [take 2 k, k]" if "is_sha256 k" for k
    using transaction_not_candidate [of key suffix] entry_path_candidate [OF that] by auto
  have key: "is_sha256 key" and s': "s' = AList.update [take 2 key, key]
      (transaction_directory P (new_manifest (pl_sha P) i task payload now) payload) s"
    using publish_stream_new [OF pub new] unfolding key_def by simp_all
  have "read_validated P (AList.update ?txn d s) j = read_validated P s j" for d
    using other by (intro read_validated_frame) (metis map_of_AList_update fun_upd_other)
  moreover have "iter_validated P (AList.update ?txn d s) = iter_validated P s" for d
    using transaction_not_candidate by (intro iter_validated_cong filter_update_other)
  ultimately have "read_validated P (run_ops s (take n ops)) j = read_validated P s j
    \<and> iter_validated P (run_ops s (take n ops)) = iter_validated P s"
    using run_publish_prefix [OF n] unfolding ops_def by metis
  moreover have "map_of (run_ops s ops) = map_of s'"
    unfolding ops_def s' using run_publish_all [OF other [OF key] fresh] by (simp add: map_of_AList_update)
  ultimately show ?thesis by blast
qed

lemma publication_crash_atomic_witness:
  "read_validated demo_platform
     (run_ops [] (take 4 (publish_ops demo_platform (transaction_path demo_hash ''x'') [take 2 demo_hash, demo_hash]
       demo_manifest ''payload''))) demo_identity = Inr None"
  using publication_crash_atomic [where P = demo_platform and i = demo_identity and task = demo_hash
      and payload = "''payload''" and now = demo_now and suffix = "''x''" and s = "[]" and s' = demo_store
      and r = "\<lparr>pb_artifact = demo_artifact, pb_reused_existing = False\<rparr>" and eh = demo_hash and es = 7
      and n = 4 and j = demo_identity]
  by (simp add: demo_publish demo_empty_read demo_manifest_def [symmetric])

text \<open>Claim C28. Discovery is exact: the entries listed are those some identity can read, none twice.\<close>

theorem discovery_exact:
  assumes "distinct (map fst s)"
  shows "set (iter_validated P s) = {a. \<exists>i. read_validated P s i = Inr (Some a)}
    \<and> distinct (map ca_cache_key (iter_validated P s))"
  using assms by (simp add: iter_validated_set iter_validated_keys_distinct)

lemma discovery_exact_witness:
  "demo_artifact \<in> set (iter_validated demo_platform demo_store)"
  using discovery_exact [OF demo_store_distinct, of demo_platform] demo_read by blast

text \<open>Quarantine moves a directory aside exactly when it is present and does not validate;
  a valid entry is refused, and no other path of the store changes.\<close>

theorem quarantine_exact:
  assumes "entry_path (cache_key (pl_sha P) i) = Inr p"
  shows "case map_of s p of
      None \<Rightarrow> quarantine_invalid_locked P i tag s = (s, Inr None)
    | Some d \<Rightarrow>
       (if \<exists>a. read_validated P s i = Inr (Some a)
        then \<exists>e. quarantine_invalid_locked P i tag s = (s, Inl e)
        else \<exists>s' q. quarantine_invalid_locked P i tag s = (s', Inr (Some q))
          \<and> map_of s' = (map_of s)(p := None, q \<mapsto> d) \<and> q \<noteq> p
          \<and> read_validated P s' i = Inr None)"
proof (cases rule: quarantine_locked_cases [of P i tag s])
  case (valid p' d a e)
  with assms show ?thesis by (auto simp: read_validated_Some)
next
  case (moved p' d e)
  with assms have p': "p' = p" by simp
  have "\<nexists>a. read_validated P s i = Inr (Some a)"
    using moved(1-3) by (auto simp: read_validated_Some)
  moreover have "read_validated P (fst (quarantine_invalid_locked P i tag s)) i = Inr None"
    using moved(4) by (auto intro: read_after_quarantine)
  ultimately show ?thesis
    using moved p' quarantine_path_fresh [OF assms]
    by (simp add: map_of_AList_update map_of_AList_delete) metis
qed (use assms in auto)

lemma quarantine_exact_witness:
  "\<exists>e. quarantine_invalid_locked demo_platform demo_identity ''tag'' demo_store = (demo_store, Inl e)"
proof -
  have p: "entry_path (cache_key (pl_sha demo_platform) demo_identity) = Inr [take 2 demo_hash, demo_hash]"
    by (simp add: entry_path_Inr)
  have "map_of demo_store [take 2 demo_hash, demo_hash] \<noteq> None" by (simp add: demo_store_def)
  then show ?thesis using quarantine_exact [OF p, where s = demo_store and tag = "''tag''"] demo_read by (auto split: if_splits)
qed

text \<open>Claim C29. Rebuilding the index makes it mirror the store whatever it held before, damaged or
  missing: a lookup then returns the rows of exactly the readable artifacts, each stamped with a reading of
  the clock, sorted by key.\<close>

theorem index_rebuild_mirrors_store:
  assumes "distinct (map fst s)"
  shows "snd (index_rebuild P now s f) = Inr (length (iter_validated P s))
    \<and> (\<exists>stamp. range stamp \<subseteq> range now
      \<and> set (index_lookup flt (fst (index_rebuild P now s f)))
        = {r. row_matches flt r \<and> (\<exists>i a. read_validated P s i = Inr (Some a) \<and> r = index_values (stamp a) a)})
    \<and> sorted (map ir_cache_key (index_lookup flt (fst (index_rebuild P now s f))))"
proof -
  have "distinct (iter_validated P s)" using iter_validated_keys_distinct [OF assms, of P] by (simp only: distinct_map)
  note rows = set_stamped_rows [OF this, of now]
  have "range (stamp_of now (iter_validated P s)) \<subseteq> range now" by (auto simp: stamp_of_def)
  moreover have "set (index_lookup flt (fst (index_rebuild P now s f)))
      = {r. row_matches flt r \<and> (\<exists>i a. read_validated P s i = Inr (Some a) \<and> r = index_values (stamp_of now (iter_validated P s) a) a)}"
    using assms by (auto simp: index_rebuild_eq index_lookup_def comp_def rows iter_validated_set)
  ultimately show ?thesis using assms by (auto simp: index_rebuild_eq index_lookup_def comp_def)
qed

lemma index_rebuild_mirrors_store_witness:
  "snd (index_rebuild demo_platform show_nat demo_store CorruptIndex)
   = Inr (length (iter_validated demo_platform demo_store))"
  using index_rebuild_mirrors_store [OF demo_store_distinct, of demo_platform show_nat CorruptIndex
      "\<lparr>if_cache_key = None, if_artifact_kind = None, if_task_identity = None, if_status = None\<rparr>"] by (rule conjunct1)

end
