(* ===== verification/Evidence_Properties.thy ===== *)
theory Evidence_Properties
  imports Cache_Demo
begin

text \<open>
  The properties of the configuration and evidence contracts of
  \<open>src/schemaguard/cache/contracts.py\<close>, each with a concrete instance as its witness.
\<close>

section \<open>Concrete evidence\<close>

definition demo_commit :: string where
  "demo_commit = replicate 40 CHR ''b''"

lemma demo_commit_is_commit [simp]: "is_commit demo_commit"
  by (simp add: demo_commit_def is_commit_def list_all_iff is_lower_hex_def)

definition policy_record :: "string \<times> fault_expectation \<Rightarrow> fault_record" where
  "policy_record = (\<lambda>(name, e).
     \<lparr>fr_fault_name = name, fr_injection_point = fe_injection_point e,
      fr_expected_failure_category = fe_expected_failure_category e,
      fr_observed_failure_category = fe_expected_failure_category e,
      fr_expected_artifact_accepted = fe_expected_artifact_accepted e,
      fr_artifact_accepted = fe_expected_artifact_accepted e,
      fr_expected_resume_behavior = fe_expected_resume_behavior e,
      fr_lock_released = True, fr_resume_behavior = fe_expected_resume_behavior e,
      fr_evidence_sha256 = demo_hash, fr_status = ''PASS''\<rparr>)"

definition demo_fault_evidence :: fault_evidence where
  "demo_fault_evidence = \<lparr>fv_schema_version = 1, fv_stage = ''cache_scheduler_faults'',
     fv_source_implementation_commit = demo_commit, fv_records = map policy_record FAULT_POLICY,
     fv_expected_fault_count = 30, fv_offline_network_attempt_count = 1\<rparr>"

lemma policy_record_valid:
  assumes "ne \<in> set FAULT_POLICY"
  shows "validate_fault_record demo_sha (policy_record ne) = Inr (policy_record ne)"
proof -
  obtain n e where ne: "ne = (n, e)" by (cases ne)
  have "map_of FAULT_POLICY n = Some e"
    using assms distinct_fault_names ne by (simp add: CANONICAL_FAULT_NAMES_def)
  with ne show ?thesis
    by (simp add: validate_fault_record_def policy_record_def derived_fault_status_def
        fault_evidence_sha256_def sha256_canonical_json_def)
qed

lemma demo_fault_evidence_valid: "validate_fault_evidence demo_sha demo_fault_evidence = Inr demo_fault_evidence"
proof -
  have "validate_all (validate_fault_record demo_sha) (map policy_record FAULT_POLICY) = Inr ()"
    by (auto simp: validate_all_Inr dest: policy_record_valid)
  moreover have "map fr_fault_name (map policy_record FAULT_POLICY) = CANONICAL_FAULT_NAMES"
    by (simp add: CANONICAL_FAULT_NAMES_def policy_record_def comp_def case_prod_unfold)
  moreover have "\<not> list_ex (\<lambda>r. fr_status r \<noteq> ''PASS'') (map policy_record FAULT_POLICY)"
    by (simp add: list_ex_iff policy_record_def case_prod_unfold)
  ultimately show ?thesis
    by (simp add: validate_fault_evidence_def demo_fault_evidence_def del: map_map)
qed

definition demo_protected :: protected_comparison where
  "demo_protected = \<lparr>pc_schema_version = 1, pc_baseline_commit = demo_commit,
     pc_implementation_commit = demo_commit, pc_expected_file_count = 1,
     pc_records = [\<lparr>ph_path = ''a/b'', ph_before_sha256 = demo_hash, ph_after_sha256 = demo_hash,
       ph_baseline_git_sha256 = demo_hash, ph_implementation_git_sha256 = demo_hash,
       ph_before_size_bytes = 3, ph_after_size_bytes = 3, ph_unchanged = True\<rparr>],
     pc_status = ''PASS''\<rparr>"

lemma demo_protected_valid: "validate_protected_comparison demo_protected = Inr demo_protected"
  by (simp add: validate_protected_comparison_def demo_protected_def validate_protected_record_def
      protected_computed_def portable_relative_def posix_absolute_def windows_absolute_def posix_parts_def
      has_drive_colon_def normalise_slashes_def Let_def)

definition demo_config :: scheduler_config where
  "demo_config = \<lparr>sc_schema_version = 1, sc_cpu_workers = 2, sc_cpu_threads_per_worker = 2, sc_gpu_workers = 1,
     sc_ram_soft_limit_mib = 24576, sc_ram_hard_limit_mib = 28672, sc_vram_soft_limit_mib = 3600,
     sc_gpu_headroom_mib = 512, sc_lock_timeout_seconds = 10, sc_heartbeat_interval_seconds = 1,
     sc_abandoned_lease_seconds = 30, sc_cache_root = ''artifacts/cache'', sc_state_root = ''artifacts/state''\<rparr>"

lemma demo_config_valid: "validate_config demo_config = Inr demo_config"
  by (simp add: validate_config_def demo_config_def root_absolute_def root_escapes_def posix_absolute_def
      has_drive_colon_def normalise_slashes_def Let_def)

definition demo_resource :: probe_resource where
  "demo_resource = \<lparr>pr_wall_seconds = 1, pr_cpu_seconds = Some 1, pr_peak_worker_rss_mib = Some 10,
     pr_peak_process_tree_rss_mib = Some 12, pr_telemetry_complete = True, pr_hard_limit_passed = True,
     pr_cleanup_passed = True, pr_failure_category = None\<rparr>"

definition demo_run :: "run_mode \<Rightarrow> probe_run" where
  "demo_run mode = (let cold = mode = Cold in
     \<lparr>pn_mode = mode, pn_planned = 1, pn_executed = (if cold then 1 else 0),
      pn_validated_cache_hits = (if cold then 0 else 1), pn_recovered_abandoned = 0, pn_failed = 0,
      pn_blocked = 0, pn_retried = 0, pn_cancelled = 0, pn_max_cpu_concurrency = (if cold then 1 else 0),
      pn_max_gpu_concurrency = 0, pn_offline_network_attempt_count = 0,
      pn_resources = (if cold then [demo_resource] else [])\<rparr>)"

definition demo_probe :: "run_mode \<Rightarrow> probe_evidence" where
  "demo_probe first = \<lparr>pe_schema_version = 1, pe_stage = ''cache_scheduler_probe'',
     pe_source_implementation_commit = demo_commit, pe_source_implementation_sha256 = demo_hash,
     pe_dependency_lock_sha256 = demo_hash, pe_configuration_sha256 = demo_hash, pe_plan_sha256 = demo_hash,
     pe_cache_identity_hashes = [demo_hash], pe_cold = demo_run first, pe_resume = demo_run Resume,
     pe_maximum_mocked_gpu_concurrency = 1, pe_mocked_gpu_offline_network_attempt_count = 0,
     pe_validated_cache_artifact_count = 1, pe_duplicate_validated_artifact_count = 0\<rparr>"

lemma demo_run_valid: "validate_probe_run (demo_run mode) = Inr (demo_run mode)"
  by (cases mode)
    (simp_all add: validate_probe_run_def demo_run_def validate_probe_resource_def demo_resource_def opt_negative_def Let_def)

lemma demo_probe_valid: "validate_probe_evidence (demo_probe mode) = Inr (demo_probe mode)"
proof -
  have "pn_planned (demo_run m) = 1" for m by (simp add: demo_run_def Let_def)
  then show ?thesis by (simp add: validate_probe_evidence_def demo_probe_def demo_run_valid)
qed

section \<open>Properties\<close>

text \<open>An accepted scheduler configuration keeps the cache and the state below the
  repository: neither root is absolute, on POSIX or Windows, and neither leads outside whatever
  directory the repository is in; its limits leave room between soft and hard RAM limit, and a
  lease outlives a heartbeat.\<close>

theorem config_roots_contained:
  assumes "validate_config c = Inr c'" and "r \<in> {sc_cache_root c', sc_state_root c'}"
  shows "\<not> posix_absolute (normalise_slashes r) \<and> \<not> has_drive_colon (normalise_slashes r)
    \<and> (\<exists>below. resolve repository (split_on CHR ''/'' (normalise_slashes r)) = repository @ below)
    \<and> sc_ram_soft_limit_mib c' < sc_ram_hard_limit_mib c' \<and> sc_ram_hard_limit_mib c' \<le> 28672
    \<and> 0 < sc_heartbeat_interval_seconds c'
    \<and> sc_heartbeat_interval_seconds c' < sc_abandoned_lease_seconds c'"
proof -
  from assms have c: "\<not> root_absolute r" "\<not> root_escapes r"
    and l: "sc_ram_soft_limit_mib c' < sc_ram_hard_limit_mib c'" "sc_ram_hard_limit_mib c' \<le> 28672"
      "0 < sc_heartbeat_interval_seconds c'" "sc_heartbeat_interval_seconds c' < sc_abandoned_lease_seconds c'"
    by (auto simp: validate_config_def guards_Inr_iff)
  from root_stays_below [OF c(2)] c(1) l show ?thesis by (simp add: root_absolute_def Let_def)
qed

lemma config_roots_contained_witness:
  "\<exists>below. resolve [''repo''] (split_on CHR ''/'' (normalise_slashes ''artifacts/cache'')) = [''repo''] @ below"
  using config_roots_contained [OF demo_config_valid, of "''artifacts/cache''" "[''repo'']"]
  by (simp add: demo_config_def)

text \<open>Claim C30. Accepted fault evidence is complete and honest: every fault of the frozen policy has
  exactly one record, its observed behaviour is the expected one, its lock was released, and its
  evidence digest is that of its canonical payload.\<close>

theorem fault_evidence_complete:
  assumes "validate_fault_evidence sha v = Inr v" and "map_of FAULT_POLICY name = Some e"
  shows "\<exists>r. filter (\<lambda>r. fr_fault_name r = name) (fv_records v) = [r]
    \<and> fr_observed_failure_category r = fe_expected_failure_category e
    \<and> fr_artifact_accepted r = fe_expected_artifact_accepted e
    \<and> fr_resume_behavior r = fe_expected_resume_behavior e \<and> fr_lock_released r
    \<and> fr_evidence_sha256 r = sha256_canonical_json sha (canonical_fault_evidence_payload r)"
proof -
  from assms obtain r where r: "r \<in> set (fv_records v)" "fr_fault_name r = name"
    "validate_fault_record sha r = Inr r" "fr_status r = ''PASS''"
    and one: "length (filter (\<lambda>r. fr_fault_name r = name) (fv_records v)) = 1"
    by (rule fault_evidence_record)
  from r(1,2) have "r \<in> set (filter (\<lambda>r. fr_fault_name r = name) (fv_records v))" by simp
  with one have "filter (\<lambda>r. fr_fault_name r = name) (fv_records v) = [r]"
    by (cases "filter (\<lambda>r. fr_fault_name r = name) (fv_records v)") simp_all
  with fault_record_PASS [OF r(3,4)] assms(2) r(2) show ?thesis
    by (auto simp: fault_evidence_sha256_def)
qed

lemma fault_evidence_complete_witness:
  "\<exists>r. filter (\<lambda>r. fr_fault_name r = ''missing_cache_index'') (fv_records demo_fault_evidence) = [r]
     \<and> fr_observed_failure_category r = ''INDEX_REBUILT''"
proof -
  have "map_of FAULT_POLICY ''missing_cache_index''
    = Some (fexp ''remove the derivative index'' ''INDEX_REBUILT'' True ''MANIFEST_REDISCOVERED'')"
    by code_simp
  from fault_evidence_complete [OF demo_fault_evidence_valid this] show ?thesis
    by (auto simp: fexp_def)
qed

text \<open>A protected-file comparison that is accepted with status PASS proves that nothing
  changed: its paths are sorted, distinct, portable and as many as expected, and every file has the
  same digest and size before and after, and the same digest in both commits.\<close>

theorem protected_comparison_sound:
  assumes "validate_protected_comparison c = Inr c" and "pc_status c = ''PASS''"
  shows "sorted (map ph_path (pc_records c)) \<and> distinct (map ph_path (pc_records c))
    \<and> int (length (pc_records c)) = pc_expected_file_count c
    \<and> list_all (\<lambda>r. portable_relative (ph_path r) \<and> ph_before_sha256 r = ph_after_sha256 r
        \<and> ph_before_size_bytes r = ph_after_size_bytes r
        \<and> ph_baseline_git_sha256 r = ph_implementation_git_sha256 r) (pc_records c)"
proof -
  from assms have recs: "\<forall>r \<in> set (pc_records c). \<exists>r'. validate_protected_record r = Inr r'"
    and paths: "map ph_path (pc_records c) = sort (remdups (map ph_path (pc_records c)))"
    and count: "int (length (pc_records c)) = pc_expected_file_count c"
    and same: "list_all ph_unchanged (pc_records c)"
    by (auto simp: validate_protected_comparison_def bindr_Inr_iff guards_Inr_iff validate_all_Inr Let_def
        split: if_splits)
  from recs same have "list_all (\<lambda>r. portable_relative (ph_path r) \<and> protected_computed r) (pc_records c)"
    by (fastforce simp: list_all_iff validate_protected_record_def guards_Inr_iff)
  with sort_remdups_imp [OF paths] count show ?thesis
    by (simp add: protected_computed_def list_all_iff)
qed

lemma protected_comparison_sound_witness:
  "sorted (map ph_path (pc_records demo_protected))
   \<and> list_all (\<lambda>r. ph_before_sha256 r = ph_after_sha256 r) (pc_records demo_protected)"
  using protected_comparison_sound [OF demo_protected_valid] by (simp add: demo_protected_def)

text \<open>Accepted probe evidence whose two runs are a cold and a resumed one accounts for every
  planned task: the cold run executed and monitored one task per cache identity within all limits,
  and the resumed run hit the cache for each of them and executed nothing.\<close>

theorem probe_evidence_accounts:
  assumes "validate_probe_evidence e = Inr e" and "pn_mode (pe_cold e) = Cold"
    and "pn_mode (pe_resume e) = Resume"
  shows "distinct (pe_cache_identity_hashes e)
    \<and> pn_executed (pe_cold e) = int (length (pe_cache_identity_hashes e))
    \<and> length (pn_resources (pe_cold e)) = length (pe_cache_identity_hashes e)
    \<and> list_all (\<lambda>r. pr_telemetry_complete r \<and> pr_hard_limit_passed r \<and> pr_cleanup_passed r)
        (pn_resources (pe_cold e))
    \<and> pn_executed (pe_resume e) = 0
    \<and> pn_validated_cache_hits (pe_resume e) = pn_executed (pe_cold e)
    \<and> pe_validated_cache_artifact_count e = pn_executed (pe_cold e)"
proof -
  from assms(1) have e: "length (pe_cache_identity_hashes e) = card (set (pe_cache_identity_hashes e))"
      "pn_planned (pe_cold e) = int (length (pe_cache_identity_hashes e))"
      "pn_planned (pe_resume e) = pn_planned (pe_cold e)"
      "pe_validated_cache_artifact_count e = int (length (pe_cache_identity_hashes e))"
    and runs: "\<exists>r. validate_probe_run (pe_cold e) = Inr r" "\<exists>r. validate_probe_run (pe_resume e) = Inr r"
    by (auto simp: validate_probe_evidence_def bindr_Inr_iff guards_Inr_iff)
  from runs(1) assms(2) have cold: "pn_executed (pe_cold e) = pn_planned (pe_cold e)"
      "int (length (pn_resources (pe_cold e))) = pn_executed (pe_cold e)"
      "\<forall>r \<in> set (pn_resources (pe_cold e)). \<exists>r'. validate_probe_resource r = Inr r'"
    by (auto simp: validate_probe_run_def bindr_Inr_iff guards_Inr_iff validate_all_Inr)
  from runs(2) assms(3) have resume: "pn_executed (pe_resume e) = 0"
      "pn_validated_cache_hits (pe_resume e) = pn_planned (pe_resume e)"
    by (auto simp: validate_probe_run_def bindr_Inr_iff guards_Inr_iff)
  have "list_all (\<lambda>r. pr_telemetry_complete r \<and> pr_hard_limit_passed r \<and> pr_cleanup_passed r)
      (pn_resources (pe_cold e))"
    using cold(3) by (fastforce simp: list_all_iff validate_probe_resource_def guards_Inr_iff)
  with e cold resume show ?thesis by (simp add: card_distinct)
qed

lemma probe_evidence_accounts_witness:
  "pn_executed (pe_cold (demo_probe Cold)) = 1 \<and> pn_validated_cache_hits (pe_resume (demo_probe Cold)) = 1"
  using probe_evidence_accounts [OF demo_probe_valid, of Cold]
  by (simp add: demo_probe_def demo_run_def Let_def)

end
