(* ===== verification/Runner_Contracts.thy ===== *)
theory Runner_Contracts
  imports Cache_Contracts
begin

text \<open>
  \<open>src/schemaguard/runner/contracts.py\<close>: task specifications and their identity, run plans,
  worker results, resource records, and the persisted state of a task. The text Python's
  \<open>repr\<close> gives a float is the argument \<open>frepr\<close>.
\<close>

section \<open>Statuses and failure categories\<close>

datatype task_status = PENDING | RUNNING | COMPLETE | FAILED | BLOCKED | CANCELLED

datatype failure_category =
    FAIL_RESOURCE_LIMIT
  | FAIL_TIMEOUT
  | FAIL_CUDA_OOM
  | FAIL_RESOURCE_MONITOR
  | FAIL_MODEL_RUNTIME
  | BLOCKED_GPU_UNAVAILABLE
  | BLOCKED_INSUFFICIENT_VRAM
  | FAIL_CACHE_INTEGRITY

fun category_text :: "failure_category \<Rightarrow> string" where
  "category_text FAIL_RESOURCE_LIMIT = ''FAIL_RESOURCE_LIMIT''"
| "category_text FAIL_TIMEOUT = ''FAIL_TIMEOUT''"
| "category_text FAIL_CUDA_OOM = ''FAIL_CUDA_OOM''"
| "category_text FAIL_RESOURCE_MONITOR = ''FAIL_RESOURCE_MONITOR''"
| "category_text FAIL_MODEL_RUNTIME = ''FAIL_MODEL_RUNTIME''"
| "category_text BLOCKED_GPU_UNAVAILABLE = ''BLOCKED_GPU_UNAVAILABLE''"
| "category_text BLOCKED_INSUFFICIENT_VRAM = ''BLOCKED_INSUFFICIENT_VRAM''"
| "category_text FAIL_CACHE_INTEGRITY = ''FAIL_CACHE_INTEGRITY''"

section \<open>Tasks\<close>

datatype operation =
    SyntheticPayload | Sleep | RaiseError | ExitWithoutResult | PartialExit | NetworkAttempt

fun operation_text :: "operation \<Rightarrow> string" where
  "operation_text SyntheticPayload = ''synthetic_payload''"
| "operation_text Sleep = ''sleep''"
| "operation_text RaiseError = ''raise_error''"
| "operation_text ExitWithoutResult = ''exit_without_result''"
| "operation_text PartialExit = ''partial_exit''"
| "operation_text NetworkAttempt = ''network_attempt''"

lemma operation_text_inj [simp]: "operation_text a = operation_text b \<longleftrightarrow> a = b"
  by (cases a; cases b) simp_all

record task_spec =
  ts_task_id :: string
  ts_task_name :: string
  ts_cache_identity :: cache_identity
  ts_operation :: operation
  ts_payload_token :: string
  ts_delay_seconds :: py_float
  ts_timeout_seconds :: py_float

definition task_field_names :: "string list" where
  "task_field_names = [''task_name'', ''cache_key'', ''operation'', ''payload_token'',
     ''delay_seconds'', ''timeout_seconds'']"

definition task_identity ::
  "(string \<Rightarrow> string) \<Rightarrow> (py_float \<Rightarrow> string) \<Rightarrow> string \<Rightarrow> string \<Rightarrow> operation \<Rightarrow> string
   \<Rightarrow> py_float \<Rightarrow> py_float \<Rightarrow> string" where
  "task_identity sha frepr name key op token delay timeout = sha256_canonical_json sha
     (JObj (zip task_field_names
       [JStr name, JStr key, JStr (operation_text op), JStr token, JFloat (frepr delay), JFloat (frepr timeout)]))"

definition task_name_char :: "char \<Rightarrow> bool" where
  "task_name_char c = (let n = of_char c :: nat in
     (65 \<le> n \<and> n \<le> 90) \<or> (97 \<le> n \<and> n \<le> 122) \<or> (48 \<le> n \<and> n \<le> 57) \<or> c \<in> set ''_.-'')"

definition validate_task :: "(string \<Rightarrow> string) \<Rightarrow> (py_float \<Rightarrow> string) \<Rightarrow> task_spec \<Rightarrow> task_spec result" where
  "validate_task sha frepr t = bindr (validate_cache_identity (ts_cache_identity t)) (\<lambda>_. guards
     [(\<not> is_sha256 (ts_task_id t), ValueError ''task_id''),
      (\<not> (1 \<le> length (ts_task_name t) \<and> length (ts_task_name t) \<le> 100
          \<and> list_all task_name_char (ts_task_name t)), ValueError ''task_name''),
      (\<not> (1 \<le> length (ts_payload_token t) \<and> length (ts_payload_token t) \<le> 128), ValueError ''payload_token''),
      (\<not> (0 \<le> ts_delay_seconds t \<and> ts_delay_seconds t \<le> 3600), ValueError ''delay_seconds''),
      (\<not> (0 < ts_timeout_seconds t \<and> ts_timeout_seconds t \<le> 86400), ValueError ''timeout_seconds''),
      (ts_task_id t \<noteq> task_identity sha frepr (ts_task_name t) (cache_key sha (ts_cache_identity t))
          (ts_operation t) (ts_payload_token t) (ts_delay_seconds t) (ts_timeout_seconds t),
        ValueError ''task ID does not match its canonical specification'')] t)"

definition build_task ::
  "(string \<Rightarrow> string) \<Rightarrow> (py_float \<Rightarrow> string) \<Rightarrow> string \<Rightarrow> cache_identity \<Rightarrow> operation \<Rightarrow> string
   \<Rightarrow> py_float \<Rightarrow> py_float \<Rightarrow> task_spec result" where
  "build_task sha frepr name i op token delay timeout = validate_task sha frepr
     \<lparr>ts_task_id = task_identity sha frepr name (cache_key sha i) op token delay timeout,
      ts_task_name = name, ts_cache_identity = i, ts_operation = op, ts_payload_token = token,
      ts_delay_seconds = delay, ts_timeout_seconds = timeout\<rparr>"

section \<open>Run plans\<close>

record run_plan =
  rp_schema_version :: int
  rp_tasks :: "task_spec list"
  rp_random_seed :: int
  rp_cpu_workers :: int
  rp_gpu_workers :: int

definition validate_plan :: "run_plan \<Rightarrow> run_plan result" where
  "validate_plan p = (let ids = map ts_task_id (rp_tasks p) in guards
     [(rp_schema_version p \<noteq> 1, ValueError ''schema_version''),
      (rp_random_seed p < 0, ValueError ''random_seed''),
      (rp_cpu_workers p \<notin> {1, 2}, ValueError ''cpu_workers''),
      (rp_gpu_workers p \<noteq> 1, ValueError ''gpu_workers''),
      (length ids \<noteq> card (set ids), ValueError ''run plan contains duplicate task identities''),
      (ids \<noteq> sort ids, ValueError ''run plan tasks must be in canonical task-ID order'')] p)"

definition build_plan :: "task_spec list \<Rightarrow> int \<Rightarrow> int \<Rightarrow> run_plan result" where
  "build_plan tasks seed workers = validate_plan
     \<lparr>rp_schema_version = 1, rp_tasks = sort_key ts_task_id tasks, rp_random_seed = seed,
      rp_cpu_workers = workers, rp_gpu_workers = 1\<rparr>"

definition task_json :: "(py_float \<Rightarrow> string) \<Rightarrow> task_spec \<Rightarrow> json" where
  "task_json frepr t = JObj [
     (''task_id'', JStr (ts_task_id t)), (''task_name'', JStr (ts_task_name t)),
     (''cache_identity'', identity_json (ts_cache_identity t)),
     (''operation'', JStr (operation_text (ts_operation t))),
     (''payload_token'', JStr (ts_payload_token t)),
     (''delay_seconds'', JFloat (frepr (ts_delay_seconds t))),
     (''timeout_seconds'', JFloat (frepr (ts_timeout_seconds t)))]"

definition plan_hash :: "(string \<Rightarrow> string) \<Rightarrow> (py_float \<Rightarrow> string) \<Rightarrow> run_plan \<Rightarrow> string" where
  "plan_hash sha frepr p = sha256_canonical_json sha (JObj [
     (''schema_version'', JInt (rp_schema_version p)),
     (''tasks'', JArr (map (task_json frepr) (rp_tasks p))),
     (''random_seed'', JInt (rp_random_seed p)),
     (''cpu_workers'', JInt (rp_cpu_workers p)),
     (''gpu_workers'', JInt (rp_gpu_workers p))])"

section \<open>Worker results\<close>

record task_result =
  tr_schema_version :: int
  tr_ok :: bool
  tr_task_id :: string
  tr_payload_sha256 :: "string option"
  tr_payload_size_bytes :: "int option"
  tr_worker_pid :: int
  tr_worker_rss_mib :: "py_float option"
  tr_cpu_seconds :: py_float
  tr_worker_seconds :: py_float
  tr_network_attempt_count :: int
  tr_thread_environment :: "(string \<times> string option) list"
  tr_error :: "string option"
  tr_traceback :: "string option"

definition expected_threads :: "string set" where
  "expected_threads = {''OMP_NUM_THREADS'', ''MKL_NUM_THREADS'', ''OPENBLAS_NUM_THREADS'', ''NUMEXPR_NUM_THREADS''}"

definition below_zero :: "'a :: linordered_idom option \<Rightarrow> bool" where
  "below_zero x = (case x of None \<Rightarrow> False | Some v \<Rightarrow> v < 0)"

definition validate_result :: "task_result \<Rightarrow> task_result result" where
  "validate_result r = guards
     [(tr_schema_version r \<noteq> 1, ValueError ''schema_version''),
      (\<not> is_sha256 (tr_task_id r), ValueError ''task_id''),
      (case tr_payload_sha256 r of None \<Rightarrow> False | Some h \<Rightarrow> \<not> is_sha256 h, ValueError ''payload_sha256''),
      (below_zero (tr_payload_size_bytes r), ValueError ''payload_size_bytes''),
      (tr_worker_pid r \<le> 0, ValueError ''worker_pid''),
      (below_zero (tr_worker_rss_mib r), ValueError ''worker_rss_mib''),
      (tr_cpu_seconds r < 0, ValueError ''cpu_seconds''),
      (tr_worker_seconds r < 0, ValueError ''worker_seconds''),
      (tr_network_attempt_count r < 0, ValueError ''network_attempt_count''),
      (tr_ok r \<and> (tr_payload_sha256 r = None \<or> tr_payload_size_bytes r = None),
        ValueError ''successful worker result requires payload digest and size''),
      (tr_ok r \<and> (tr_error r \<noteq> None \<or> tr_traceback r \<noteq> None),
        ValueError ''successful worker result cannot contain failure details''),
      (tr_ok r \<and> (set (map fst (tr_thread_environment r)) \<noteq> expected_threads
          \<or> list_ex (\<lambda>v. v \<noteq> Some ''2'') (map snd (tr_thread_environment r))),
        ValueError ''successful workers must report all four two-thread limits''),
      (\<not> tr_ok r \<and> (case tr_error r of None \<Rightarrow> True | Some e \<Rightarrow> e = []),
        ValueError ''failed worker result requires an error description'')] r"

section \<open>Resource records\<close>

record resource_record =
  rr_started_at :: datetime
  rr_ended_at :: datetime
  rr_wall_seconds :: py_float
  rr_cpu_seconds :: "py_float option"
  rr_worker_pid :: "int option"
  rr_exit_code :: "int option"
  rr_peak_worker_rss_mib :: "py_float option"
  rr_peak_process_tree_rss_mib :: "py_float option"
  rr_gpu_allocated_mib :: "py_float option"
  rr_gpu_reserved_mib :: "py_float option"
  rr_gpu_free_before_mib :: "py_float option"
  rr_timed_out :: bool
  rr_soft_limit_warning :: bool
  rr_hard_limit_passed :: bool
  rr_cleanup_passed :: bool
  rr_telemetry_complete :: bool
  rr_failure_category :: "failure_category option"
  rr_failure_reason :: "string option"

definition validate_resource :: "resource_record \<Rightarrow> resource_record result" where
  "validate_resource r = guards
     [(rr_wall_seconds r < 0, ValueError ''wall_seconds''),
      (below_zero (rr_cpu_seconds r), ValueError ''cpu_seconds''),
      (case rr_worker_pid r of None \<Rightarrow> False | Some p \<Rightarrow> p \<le> 0, ValueError ''worker_pid''),
      (below_zero (rr_peak_worker_rss_mib r), ValueError ''peak_worker_rss_mib''),
      (below_zero (rr_peak_process_tree_rss_mib r), ValueError ''peak_process_tree_rss_mib''),
      (below_zero (rr_gpu_allocated_mib r), ValueError ''gpu_allocated_mib''),
      (below_zero (rr_gpu_reserved_mib r), ValueError ''gpu_reserved_mib''),
      (below_zero (rr_gpu_free_before_mib r), ValueError ''gpu_free_before_mib''),
      (utc_offset (rr_started_at r) = None \<or> utc_offset (rr_ended_at r) = None,
        ValueError ''resource timestamps must include a timezone''),
      (instant (rr_ended_at r) < instant (rr_started_at r),
        ValueError ''resource end time precedes start time''),
      (rr_telemetry_complete r \<and> rr_worker_pid r \<noteq> None
          \<and> (rr_peak_worker_rss_mib r = None \<or> rr_peak_process_tree_rss_mib r = None),
        ValueError ''complete worker telemetry requires both peak RSS values''),
      (rr_timed_out r \<and> rr_failure_category r \<noteq> Some FAIL_TIMEOUT,
        ValueError ''timeouts must use FAIL_TIMEOUT''),
      (\<not> rr_hard_limit_passed r \<and> rr_failure_category r \<noteq> Some FAIL_RESOURCE_LIMIT,
        ValueError ''hard resource-limit failure must be explicitly classified'')] r"

section \<open>Persisted task state\<close>

record task_attempt =
  at_attempt_number :: int
  at_state :: task_status
  at_started_at :: datetime
  at_heartbeat_at :: datetime
  at_ended_at :: "datetime option"
  at_owner_pid :: "int option"
  at_worker_pid :: "int option"
  at_resource :: "resource_record option"
  at_failure_category :: "failure_category option"
  at_reason :: "string option"

definition validate_attempt :: "task_attempt \<Rightarrow> task_attempt result" where
  "validate_attempt a = bindr (case at_resource a of None \<Rightarrow> Inr () | Some r \<Rightarrow> bindr (validate_resource r) (\<lambda>_. Inr ()))
     (\<lambda>_. guards
     [(at_attempt_number a < 1, ValueError ''attempt_number''),
      (case at_owner_pid a of None \<Rightarrow> False | Some p \<Rightarrow> p \<le> 0, ValueError ''owner_pid''),
      (case at_worker_pid a of None \<Rightarrow> False | Some p \<Rightarrow> p \<le> 0, ValueError ''worker_pid'')] a)"

record task_transition =
  tt_from_state :: task_status
  tt_to_state :: task_status
  tt_timestamp :: datetime
  tt_reason :: "string option"

record task_record =
  st_task :: task_spec
  st_state :: task_status
  st_attempts :: "task_attempt list"
  st_transitions :: "task_transition list"
  st_artifact_path :: "string option"
  st_artifact_sha256 :: "string option"
  st_cache_hit :: bool
  st_failure_category :: "failure_category option"
  st_failure_reason :: "string option"
  st_updated_at :: datetime

definition validate_task_record ::
  "(string \<Rightarrow> string) \<Rightarrow> (py_float \<Rightarrow> string) \<Rightarrow> task_record \<Rightarrow> task_record result" where
  "validate_task_record sha frepr r =
     bindr (validate_task sha frepr (st_task r)) (\<lambda>_.
     bindr (validate_all validate_attempt (st_attempts r)) (\<lambda>_. guards
     [(case st_artifact_sha256 r of None \<Rightarrow> False | Some h \<Rightarrow> \<not> is_sha256 h, ValueError ''artifact_sha256''),
      (st_state r = COMPLETE \<and> (st_artifact_path r = None \<or> st_artifact_sha256 r = None),
        ValueError ''complete task state requires a relative artifact and digest''),
      (st_state r = COMPLETE \<and> (case st_artifact_path r of None \<Rightarrow> True | Some p \<Rightarrow> \<not> portable_relative p),
        ValueError ''artifact path must be portable and relative''),
      (st_state r \<noteq> COMPLETE \<and> (st_artifact_path r \<noteq> None \<or> st_artifact_sha256 r \<noteq> None),
        ValueError ''non-complete task state cannot reference a completed artifact'')] r))"

record scheduler_state =
  ss_schema_version :: int
  ss_plan_hash :: string
  ss_tasks :: "(string \<times> task_record) list"

definition validate_state ::
  "(string \<Rightarrow> string) \<Rightarrow> (py_float \<Rightarrow> string) \<Rightarrow> scheduler_state \<Rightarrow> scheduler_state result" where
  "validate_state sha frepr s =
     bindr (validate_all (validate_task_record sha frepr) (map snd (ss_tasks s))) (\<lambda>_. guards
     [(ss_schema_version s \<noteq> 1, ValueError ''schema_version''),
      (\<not> is_sha256 (ss_plan_hash s), ValueError ''plan_hash'')] s)"

section \<open>Run manifest\<close>

record failure_record =
  fl_task_id :: string
  fl_category :: failure_category
  fl_reason :: string
  fl_traceback_relative_path :: "string option"

record run_manifest =
  rm_plan_hash :: string
  rm_source_implementation_commit :: string
  rm_resume :: bool
  rm_planned :: nat
  rm_executed :: nat
  rm_validated_cache_hits :: nat
  rm_recovered_abandoned :: nat
  rm_failed :: nat
  rm_blocked :: nat
  rm_retried :: nat
  rm_cancelled :: nat
  rm_max_cpu_concurrency :: nat
  rm_max_gpu_concurrency :: nat
  rm_offline_network_attempt_count :: int
  rm_resources :: "resource_record list"
  rm_failures :: "failure_record list"

definition validate_run_manifest :: "run_manifest \<Rightarrow> run_manifest result" where
  "validate_run_manifest m = bindr (validate_all validate_resource (rm_resources m)) (\<lambda>_. guards
     [(\<not> is_sha256 (rm_plan_hash m), ValueError ''plan_hash''),
      (\<not> is_commit (rm_source_implementation_commit m), ValueError ''source_implementation_commit''),
      (2 < rm_max_cpu_concurrency m, ValueError ''max_cpu_concurrency''),
      (1 < rm_max_gpu_concurrency m, ValueError ''max_gpu_concurrency''),
      (rm_offline_network_attempt_count m < 0, ValueError ''offline_network_attempt_count''),
      (list_ex (\<lambda>f. \<not> is_sha256 (fl_task_id f)) (rm_failures m), ValueError ''task_id'')] m)"

section \<open>Task identity\<close>

text \<open>
  The identity of a task covers every field of its specification: two tasks with the same
  canonical text agree in all of them, provided \<open>repr\<close> tells different floats apart.
\<close>

lemma task_identity_text_inj:
  assumes inj: "inj frepr" and repr: "\<And>x. float_text (frepr x)"
    and eq: "canonical_text (JObj (zip task_field_names
       [JStr n, JStr k, JStr (operation_text op), JStr tok, JFloat (frepr d), JFloat (frepr t)]))
     = canonical_text (JObj (zip task_field_names
       [JStr n', JStr k', JStr (operation_text op'), JStr tok', JFloat (frepr d'), JFloat (frepr t')]))"
  shows "n = n' \<and> k = k' \<and> op = op' \<and> tok = tok' \<and> d = d' \<and> t = t'"
proof -
  let ?vs = "[JStr n, JStr k, JStr (operation_text op), JStr tok, JFloat (frepr d), JFloat (frepr t)]"
  let ?ws = "[JStr n', JStr k', JStr (operation_text op'), JStr tok', JFloat (frepr d'), JFloat (frepr t')]"
  have "wf_json (JObj (zip task_field_names ?vs))" "wf_json (JObj (zip task_field_names ?ws))"
    using repr by (simp_all add: task_field_names_def)
  with eq have "canonicalize (JObj (zip task_field_names ?vs)) = canonicalize (JObj (zip task_field_names ?ws))"
    by (simp add: canonical_text_inj)
  then have "?vs = ?ws"
    by (rule canonicalize_flat_record_inj [rotated 5]) (simp_all add: task_field_names_def atomic_def)
  with inj show ?thesis by (simp add: inj_eq)
qed

text \<open>The plan of a set of tasks does not depend on the order in which they are given.\<close>

lemma build_plan_Inr:
  "build_plan tasks seed w = Inr p \<longleftrightarrow>
   p = \<lparr>rp_schema_version = 1, rp_tasks = sort_key ts_task_id tasks, rp_random_seed = seed,
      rp_cpu_workers = w, rp_gpu_workers = 1\<rparr> \<and> 0 \<le> seed \<and> w \<in> {1, 2} \<and> distinct (map ts_task_id tasks)"
proof -
  have c: "length (map ts_task_id (sort_key ts_task_id tasks)) = card (set (map ts_task_id (sort_key ts_task_id tasks)))
      \<longleftrightarrow> distinct (map ts_task_id tasks)"
    by (metis card_distinct distinct_card length_map length_sort set_map set_sort)
  have s: "sort (map ts_task_id (sort_key ts_task_id tasks)) = map ts_task_id (sort_key ts_task_id tasks)"
    by (simp add: sort_key_id_if_sorted)
  show ?thesis
    using c by (auto simp: build_plan_def validate_plan_def Let_def s guards_Inr_iff)
qed

end
