(* ===== verification/Task_State.thy ===== *)
theory Task_State
  imports Runner_Contracts "HOL-Library.AList"
begin

text \<open>
  \<open>src/schemaguard/runner/state.py\<close>: the persisted state of a run and its transitions. The
  state file is missing, unreadable, or holds a \<open>SchedulerState\<close>. What an operation observes
  of the world (the clock, its own process ID, which processes exist, the float of a time
  difference in microseconds, whether the state lock could be taken) is its argument of type
  \<open>observation\<close>.
\<close>

section \<open>State file\<close>

datatype state_file = NoState | BadState | State scheduler_state

record observation =
  ob_now :: datetime
  ob_pid :: int
  ob_pid_exists :: "int \<Rightarrow> bool"
  ob_total_seconds :: "int \<Rightarrow> py_float"
  ob_lock_taken :: bool

record store_params =
  sp_sha :: "string \<Rightarrow> string"
  sp_frepr :: "py_float \<Rightarrow> string"
  sp_plan :: run_plan

definition with_state_lock :: "observation \<Rightarrow> 's \<Rightarrow> ('s \<Rightarrow> 's \<times> 'a result) \<Rightarrow> 's \<times> 'a result" where
  "with_state_lock ob s body =
     (if ob_lock_taken ob then body s else (s, Inl (OSError ''state lock timeout'')))"

definition read_state :: "store_params \<Rightarrow> state_file \<Rightarrow> scheduler_state result" where
  "read_state S f =
     (case f of
        State st \<Rightarrow>
          (case validate_state (sp_sha S) (sp_frepr S) st of
             Inr st' \<Rightarrow> Inr st'
           | Inl e \<Rightarrow> Inl (StateIntegrityError ''scheduler state is missing, truncated, or invalid''))
      | _ \<Rightarrow> Inl (StateIntegrityError ''scheduler state is missing, truncated, or invalid''))"

text \<open>\<open>_write\<close> validates the state and writes it with sorted keys; a failure keeps the old file.\<close>

definition write_state :: "store_params \<Rightarrow> scheduler_state \<Rightarrow> state_file \<Rightarrow> state_file \<times> unit result" where
  "write_state S st f =
     (case validate_state (sp_sha S) (sp_frepr S) st of
        Inl e \<Rightarrow> (f, Inl e)
      | Inr st' \<Rightarrow> (State (st'\<lparr>ss_tasks := sort_key fst (ss_tasks st')\<rparr>), Inr ()))"

definition sp_plan_hash :: "store_params \<Rightarrow> string" where
  "sp_plan_hash S = plan_hash (sp_sha S) (sp_frepr S) (sp_plan S)"

definition fresh_record :: "datetime \<Rightarrow> task_spec \<Rightarrow> task_record" where
  "fresh_record now t = \<lparr>st_task = t, st_state = PENDING, st_attempts = [], st_transitions = [],
     st_artifact_path = None, st_artifact_sha256 = None, st_cache_hit = False,
     st_failure_category = None, st_failure_reason = None, st_updated_at = now\<rparr>"

definition initialize :: "store_params \<Rightarrow> observation \<Rightarrow> state_file \<Rightarrow> state_file \<times> scheduler_state result" where
  "initialize S ob f = with_state_lock ob f (\<lambda>f.
     if f \<noteq> NoState then
       (f, bindr (read_state S f) (\<lambda>st.
          let expected = map (\<lambda>t. (ts_task_id t, t)) (rp_tasks (sp_plan S)) in guards
            [(ss_plan_hash st \<noteq> sp_plan_hash S \<or> set (map fst (ss_tasks st)) \<noteq> set (map fst expected),
               StateIntegrityError ''persisted task state does not match the run plan''),
             (list_ex (\<lambda>(k, t). map_option st_task (map_of (ss_tasks st) k) \<noteq> Some t) expected,
               StateIntegrityError ''persisted task specifications differ from the plan'')] st))
     else
       (let st = \<lparr>ss_schema_version = 1, ss_plan_hash = sp_plan_hash S,
              ss_tasks = map (\<lambda>t. (ts_task_id t, fresh_record (ob_now ob) t)) (rp_tasks (sp_plan S))\<rparr>
        in case write_state S st f of
             (f', Inl e) \<Rightarrow> (f', Inl e)
           | (f', Inr _) \<Rightarrow> (f', Inr st)))"

section \<open>Transitions\<close>

fun allowed :: "task_status \<Rightarrow> task_status set" where
  "allowed PENDING = {RUNNING, CANCELLED}"
| "allowed RUNNING = {COMPLETE, FAILED, BLOCKED, CANCELLED}"
| "allowed COMPLETE = {}"
| "allowed FAILED = {}"
| "allowed BLOCKED = {}"
| "allowed CANCELLED = {}"

record transition_request =
  tq_to_state :: task_status
  tq_reason :: "string option"
  tq_failure_category :: "failure_category option"
  tq_resource :: "resource_record option"
  tq_artifact_path :: "string option"
  tq_artifact_sha256 :: "string option"
  tq_cache_hit :: bool
  tq_retry_failed :: bool

definition retry_invalid_complete :: "task_status \<Rightarrow> transition_request \<Rightarrow> bool" where
  "retry_invalid_complete from_state q \<longleftrightarrow>
     from_state = COMPLETE \<and> tq_to_state q = PENDING \<and> tq_reason q = Some ''INVALID_CACHE_ARTIFACT''"

definition retry_abandoned :: "task_status \<Rightarrow> transition_request \<Rightarrow> bool" where
  "retry_abandoned from_state q \<longleftrightarrow>
     from_state = RUNNING \<and> tq_to_state q = PENDING \<and> tq_reason q = Some ''ABANDONED_LEASE_RECOVERY''"

definition retry_failed_state :: "task_status \<Rightarrow> transition_request \<Rightarrow> bool" where
  "retry_failed_state from_state q \<longleftrightarrow>
     from_state = FAILED \<and> tq_to_state q = PENDING \<and> tq_retry_failed q"

definition legal_transition :: "task_status \<Rightarrow> transition_request \<Rightarrow> bool" where
  "legal_transition from_state q \<longleftrightarrow> tq_to_state q \<in> allowed from_state
     \<or> retry_invalid_complete from_state q \<or> retry_abandoned from_state q \<or> retry_failed_state from_state q"

definition new_attempt :: "observation \<Rightarrow> task_attempt list \<Rightarrow> task_attempt" where
  "new_attempt ob attempts = \<lparr>at_attempt_number = int (length attempts) + 1, at_state = RUNNING,
     at_started_at = ob_now ob, at_heartbeat_at = ob_now ob, at_ended_at = None,
     at_owner_pid = Some (ob_pid ob), at_worker_pid = None, at_resource = None,
     at_failure_category = None, at_reason = None\<rparr>"

definition abandon_attempt :: "datetime \<Rightarrow> string option \<Rightarrow> task_attempt \<Rightarrow> task_attempt" where
  "abandon_attempt now reason a = a\<lparr>at_state := FAILED, at_ended_at := Some now, at_heartbeat_at := now,
     at_failure_category := Some FAIL_MODEL_RUNTIME, at_reason := reason\<rparr>"

definition close_attempt :: "datetime \<Rightarrow> transition_request \<Rightarrow> task_attempt \<Rightarrow> task_attempt" where
  "close_attempt now q a = a\<lparr>at_state := tq_to_state q, at_ended_at := Some now, at_heartbeat_at := now,
     at_resource := tq_resource q, at_failure_category := tq_failure_category q, at_reason := tq_reason q\<rparr>"

definition map_last :: "('a \<Rightarrow> 'a) \<Rightarrow> 'a list \<Rightarrow> 'a list" where
  "map_last f xs = (if xs = [] then [] else butlast xs @ [f (last xs)])"

definition next_attempts :: "observation \<Rightarrow> transition_request \<Rightarrow> task_record \<Rightarrow> task_attempt list" where
  "next_attempts ob q current =
     (let attempts = st_attempts current; from_state = st_state current in
      if tq_to_state q = RUNNING then attempts @ [new_attempt ob attempts]
      else if retry_abandoned from_state q \<and> attempts \<noteq> []
        then map_last (abandon_attempt (ob_now ob) (tq_reason q)) attempts
      else if attempts \<noteq> [] \<and> from_state = RUNNING
        then map_last (close_attempt (ob_now ob) q) attempts
      else attempts)"

definition updated_record :: "observation \<Rightarrow> transition_request \<Rightarrow> task_record \<Rightarrow> task_record" where
  "updated_record ob q current = current\<lparr>
     st_state := tq_to_state q,
     st_attempts := next_attempts ob q current,
     st_transitions := st_transitions current @ [\<lparr>tt_from_state = st_state current,
        tt_to_state = tq_to_state q, tt_timestamp = ob_now ob, tt_reason = tq_reason q\<rparr>],
     st_artifact_path := (if tq_to_state q = COMPLETE then tq_artifact_path q else None),
     st_artifact_sha256 := (if tq_to_state q = COMPLETE then tq_artifact_sha256 q else None),
     st_cache_hit := (if tq_to_state q = COMPLETE then tq_cache_hit q else False),
     st_failure_category := (if tq_to_state q \<in> {FAILED, BLOCKED} then tq_failure_category q else None),
     st_failure_reason := (if tq_to_state q \<in> {FAILED, BLOCKED} then tq_reason q else None),
     st_updated_at := ob_now ob\<rparr>"

definition put_record :: "string \<Rightarrow> task_record \<Rightarrow> scheduler_state \<Rightarrow> scheduler_state" where
  "put_record task_id r st = st\<lparr>ss_tasks := AList.update task_id r (ss_tasks st)\<rparr>"

definition transition ::
  "store_params \<Rightarrow> observation \<Rightarrow> string \<Rightarrow> transition_request \<Rightarrow> state_file \<Rightarrow> state_file \<times> task_record result" where
  "transition S ob task_id q f = with_state_lock ob f (\<lambda>f.
     case read_state S f of
       Inl e \<Rightarrow> (f, Inl e)
     | Inr st \<Rightarrow>
       (case map_of (ss_tasks st) task_id of
          None \<Rightarrow> (f, Inl (StateIntegrityError ''task ID is not part of the persisted plan''))
        | Some current \<Rightarrow>
          if \<not> legal_transition (st_state current) q
          then (f, Inl (InvalidStateTransition ''illegal task transition''))
          else (let updated = updated_record ob q current in
            (case write_state S (put_record task_id updated st) f of
               (f', Inl e) \<Rightarrow> (f', Inl e)
             | (f', Inr _) \<Rightarrow> (f', Inr updated)))))"

section \<open>Heartbeats and worker process IDs\<close>

definition update_running ::
  "store_params \<Rightarrow> observation \<Rightarrow> string \<Rightarrow> string \<Rightarrow> (task_record \<Rightarrow> task_record) \<Rightarrow> state_file
   \<Rightarrow> state_file \<times> unit result" where
  "update_running S ob message task_id change f = with_state_lock ob f (\<lambda>f.
     case read_state S f of
       Inl e \<Rightarrow> (f, Inl e)
     | Inr st \<Rightarrow>
       (case map_of (ss_tasks st) task_id of
          None \<Rightarrow> (f, Inl (KeyError task_id))
        | Some r \<Rightarrow>
          if st_state r \<noteq> RUNNING \<or> st_attempts r = []
          then (f, Inl (InvalidStateTransition message))
          else write_state S (put_record task_id (change r) st) f))"

definition heartbeat :: "store_params \<Rightarrow> observation \<Rightarrow> string \<Rightarrow> state_file \<Rightarrow> state_file \<times> unit result" where
  "heartbeat S ob task_id = update_running S ob ''only running tasks can heartbeat'' task_id
     (\<lambda>r. r\<lparr>st_attempts := map_last (\<lambda>a. a\<lparr>at_heartbeat_at := ob_now ob\<rparr>) (st_attempts r),
          st_updated_at := ob_now ob\<rparr>)"

definition set_worker_pid ::
  "store_params \<Rightarrow> observation \<Rightarrow> string \<Rightarrow> int \<Rightarrow> state_file \<Rightarrow> state_file \<times> unit result" where
  "set_worker_pid S ob task_id pid = update_running S ob
     ''worker PID can only be recorded for a running task'' task_id
     (\<lambda>r. r\<lparr>st_attempts := map_last (\<lambda>a. a\<lparr>at_worker_pid := Some pid\<rparr>) (st_attempts r)\<rparr>)"

section \<open>Recovery of abandoned leases\<close>

definition pid_alive :: "observation \<Rightarrow> int option \<Rightarrow> bool" where
  "pid_alive ob pid = (case pid of None \<Rightarrow> False | Some p \<Rightarrow> ob_pid_exists ob p)"

definition lease_expired :: "observation \<Rightarrow> py_float \<Rightarrow> task_attempt \<Rightarrow> bool" where
  "lease_expired ob lease a \<longleftrightarrow>
     \<not> ob_total_seconds ob (instant (ob_now ob) - instant (at_heartbeat_at a)) \<le> lease"

definition abandoned :: "observation \<Rightarrow> py_float \<Rightarrow> task_record \<Rightarrow> bool" where
  "abandoned ob lease r \<longleftrightarrow> st_state r = RUNNING \<and> st_attempts r \<noteq> []
     \<and> lease_expired ob lease (last (st_attempts r))
     \<and> \<not> pid_alive ob (at_owner_pid (last (st_attempts r)))
     \<and> \<not> pid_alive ob (at_worker_pid (last (st_attempts r)))"

definition recovered_record :: "observation \<Rightarrow> task_record \<Rightarrow> task_record" where
  "recovered_record ob r = r\<lparr>
     st_state := PENDING,
     st_attempts := map_last (abandon_attempt (ob_now ob) (Some ''ABANDONED_LEASE_RECOVERY'')) (st_attempts r),
     st_transitions := st_transitions r @ [\<lparr>tt_from_state = RUNNING, tt_to_state = PENDING,
        tt_timestamp = ob_now ob, tt_reason = Some ''ABANDONED_LEASE_RECOVERY''\<rparr>],
     st_failure_category := None, st_failure_reason := None, st_updated_at := ob_now ob\<rparr>"

fun recover_tasks ::
  "observation \<Rightarrow> py_float \<Rightarrow> (string \<times> task_record) list \<Rightarrow> (string \<times> task_record) list \<times> nat" where
  "recover_tasks ob lease [] = ([], 0)"
| "recover_tasks ob lease ((k, r) # rest) =
     (let (rest', n) = recover_tasks ob lease rest in
      if abandoned ob lease r then ((k, recovered_record ob r) # rest', Suc n)
      else ((k, r) # rest', n))"

text \<open>A heartbeat without an offset cannot be subtracted from the clock; nothing is written then.\<close>

definition incomparable :: "observation \<Rightarrow> task_record \<Rightarrow> bool" where
  "incomparable ob r \<longleftrightarrow> st_state r = RUNNING \<and> st_attempts r \<noteq> []
     \<and> (utc_offset (at_heartbeat_at (last (st_attempts r))) = None) \<noteq> (utc_offset (ob_now ob) = None)"

definition recover_abandoned ::
  "store_params \<Rightarrow> observation \<Rightarrow> py_float \<Rightarrow> state_file \<Rightarrow> state_file \<times> nat result" where
  "recover_abandoned S ob lease f = with_state_lock ob f (\<lambda>f.
     case read_state S f of
       Inl e \<Rightarrow> (f, Inl e)
     | Inr st \<Rightarrow>
       if list_ex (\<lambda>(k, r). incomparable ob r) (ss_tasks st)
       then (f, Inl (TypeError ''offset-naive and offset-aware datetimes''))
       else (let (tasks, recovered) = recover_tasks ob lease (ss_tasks st) in
        if recovered = 0 then (f, Inr 0)
        else (case write_state S (st\<lparr>ss_tasks := tasks\<rparr>) f of
                (f', Inl e) \<Rightarrow> (f', Inl e)
              | (f', Inr _) \<Rightarrow> (f', Inr recovered))))"

end
