(* ===== verification/Task_State_Facts.thy ===== *)
theory Task_State_Facts
  imports Task_State Store_Interfaces
begin

text \<open>
  The well-formedness of persisted task records and its preservation by every operation of
  the store, and the store as an instance of \<open>status_store\<close>.
\<close>

section \<open>Well-formed records\<close>

definition status_edge :: "task_status \<Rightarrow> task_status \<Rightarrow> bool" where
  "status_edge a b \<longleftrightarrow> b \<in> allowed a \<or> a \<in> {COMPLETE, RUNNING, FAILED} \<and> b = PENDING"

fun chain :: "task_status \<Rightarrow> task_transition list \<Rightarrow> task_status \<Rightarrow> bool" where
  "chain a [] b = (a = b)"
| "chain a (t # ts) b = (tt_from_state t = a \<and> status_edge a (tt_to_state t) \<and> chain (tt_to_state t) ts b)"

text \<open>
  Attempts are numbered from one; only the last can be open, exactly when the task runs; an
  attempt has an end exactly when it is closed; each attempt was opened by one transition.
\<close>

definition numbered :: "task_attempt list \<Rightarrow> bool" where
  "numbered as \<longleftrightarrow> map at_attempt_number as = map int [1..<Suc (length as)]"

definition attempts_ok :: "task_record \<Rightarrow> bool" where
  "attempts_ok r \<longleftrightarrow>
     numbered (st_attempts r)
     \<and> (\<forall>a \<in> set (butlast (st_attempts r)). at_state a \<noteq> RUNNING)
     \<and> (st_state r = RUNNING \<longleftrightarrow> st_attempts r \<noteq> [] \<and> at_state (last (st_attempts r)) = RUNNING)
     \<and> (\<forall>a \<in> set (st_attempts r). at_state a = RUNNING \<longleftrightarrow> at_ended_at a = None)
     \<and> length (st_attempts r) = length (filter (\<lambda>t. tt_to_state t = RUNNING) (st_transitions r))"

definition record_ok :: "task_record \<Rightarrow> bool" where
  "record_ok r \<longleftrightarrow> attempts_ok r \<and> chain PENDING (st_transitions r) (st_state r)"

definition state_ok :: "store_params \<Rightarrow> scheduler_state \<Rightarrow> bool" where
  "state_ok S st \<longleftrightarrow> distinct (map fst (ss_tasks st)) \<and> (\<forall>r \<in> snd ` set (ss_tasks st). record_ok r)
     \<and> validate_state (sp_sha S) (sp_frepr S) st = Inr st"

definition file_ok :: "store_params \<Rightarrow> state_file \<Rightarrow> bool" where
  "file_ok S f = (case f of State st \<Rightarrow> state_ok S st | _ \<Rightarrow> True)"

lemma file_ok_simps [simp]: "file_ok S NoState" "file_ok S BadState" "file_ok S (State st) = state_ok S st"
  by (simp_all add: file_ok_def)

lemma chain_append: "chain a (ts @ [t]) c \<longleftrightarrow>
   (\<exists>b. chain a ts b \<and> tt_from_state t = b \<and> status_edge b (tt_to_state t) \<and> c = tt_to_state t)"
  by (induction ts arbitrary: a) auto

lemma legal_transition_edge: "legal_transition a q \<Longrightarrow> status_edge a (tq_to_state q)"
  by (auto simp: legal_transition_def status_edge_def retry_invalid_complete_def retry_abandoned_def
      retry_failed_state_def)

lemma edge_to_RUNNING: "status_edge a RUNNING \<Longrightarrow> a = PENDING"
  by (cases a) (auto simp: status_edge_def)

section \<open>Attempt lists\<close>

lemma map_last_simps [simp]:
  "map_last f [] = []" "map_last f (xs @ [x]) = xs @ [f x]" "length (map_last f xs) = length xs"
  "map_last f xs = [] \<longleftrightarrow> xs = []"
  by (auto simp: map_last_def)

lemma map_map_last: "(\<And>x. g (f x) = g x) \<Longrightarrow> map g (map_last f xs) = map g xs"
  by (cases xs rule: rev_cases) auto

lemma numbered_map_last:
  "(\<And>a. at_attempt_number (f a) = at_attempt_number a) \<Longrightarrow> numbered (map_last f as) = numbered as"
  by (simp add: numbered_def map_map_last del: upt_Suc)

lemma numbered_new: "numbered as \<Longrightarrow> numbered (as @ [new_attempt ob as])"
  by (simp add: numbered_def new_attempt_def)

text \<open>Closing the open attempt, or changing a field of it, keeps the list well formed.\<close>

lemma attempts_ok_close:
  assumes "attempts_ok r" and "st_state r = RUNNING" and "st_attempts r' = map_last f (st_attempts r)"
    and "\<And>a. at_attempt_number (f a) = at_attempt_number a"
    and "\<And>a. at_state (f a) \<noteq> RUNNING" and "\<And>a. at_ended_at (f a) \<noteq> None"
    and "st_state r' \<noteq> RUNNING" and "st_transitions r' = st_transitions r @ [t]" and "tt_to_state t \<noteq> RUNNING"
  shows "attempts_ok r'"
proof -
  from assms(1,2) obtain as a where as: "st_attempts r = as @ [a]"
    by (cases "st_attempts r" rule: rev_cases) (auto simp: attempts_ok_def)
  have "numbered (st_attempts r')"
    using assms(1,3,4) by (simp add: numbered_map_last attempts_ok_def)
  with assms as show ?thesis by (auto simp: attempts_ok_def)
qed

lemma attempts_ok_touch:
  assumes "attempts_ok r" and "st_attempts r' = map_last f (st_attempts r)"
    and "\<And>a. at_attempt_number (f a) = at_attempt_number a" and "\<And>a. at_state (f a) = at_state a"
    and "\<And>a. at_ended_at (f a) = at_ended_at a"
    and "st_state r' = st_state r" and "st_transitions r' = st_transitions r"
  shows "attempts_ok r'"
proof -
  have m: "numbered (st_attempts r')"
    using assms(1-3) by (simp add: numbered_map_last attempts_ok_def)
  show ?thesis
  proof (cases "st_attempts r" rule: rev_cases)
    case Nil
    with assms show ?thesis by (simp add: attempts_ok_def)
  next
    case (snoc as a)
    with assms m show ?thesis by (auto simp: attempts_ok_def)
  qed
qed

lemma attempts_ok_open:
  assumes "attempts_ok r" and "st_state r \<noteq> RUNNING"
    and "st_attempts r' = st_attempts r @ [new_attempt ob (st_attempts r)]"
    and "st_state r' = RUNNING" and "st_transitions r' = st_transitions r @ [t]" and "tt_to_state t = RUNNING"
  shows "attempts_ok r'"
proof -
  have closed: "\<forall>a \<in> set (st_attempts r). at_state a \<noteq> RUNNING"
    using assms(1,2) by (cases "st_attempts r" rule: rev_cases) (auto simp: attempts_ok_def)
  show ?thesis
    using assms closed numbered_new [of "st_attempts r" ob] by (auto simp: attempts_ok_def) (auto simp: new_attempt_def)
qed

lemma attempts_ok_keep:
  assumes "attempts_ok r" and "st_state r \<noteq> RUNNING" and "st_attempts r' = st_attempts r"
    and "st_state r' \<noteq> RUNNING" and "st_transitions r' = st_transitions r @ [t]" and "tt_to_state t \<noteq> RUNNING"
  shows "attempts_ok r'"
  using assms by (auto simp: attempts_ok_def)

section \<open>Records stay well formed\<close>

lemma updated_record_ok:
  assumes ok: "record_ok r" and legal: "legal_transition (st_state r) q"
  shows "record_ok (updated_record ob q r)"
proof -
  let ?r = "updated_record ob q r"
  let ?t = "\<lparr>tt_from_state = st_state r, tt_to_state = tq_to_state q, tt_timestamp = ob_now ob, tt_reason = tq_reason q\<rparr>"
  have e: "status_edge (st_state r) (tq_to_state q)" using legal by (rule legal_transition_edge)
  have f: "st_state ?r = tq_to_state q" "st_transitions ?r = st_transitions r @ [?t]"
    "st_attempts ?r = next_attempts ob q r" by (simp_all add: updated_record_def)
  have chain: "chain PENDING (st_transitions ?r) (st_state ?r)"
    using ok e f by (simp add: record_ok_def chain_append)
  have a: "attempts_ok r" using ok by (simp add: record_ok_def)
  have "attempts_ok ?r"
  proof (cases "tq_to_state q = RUNNING")
    case True
    with e have "st_state r \<noteq> RUNNING" using edge_to_RUNNING by fastforce
    with True a f show ?thesis by (intro attempts_ok_open [OF a, of ?r ob ?t]) (simp_all add: next_attempts_def Let_def)
  next
    case to: False
    show ?thesis
    proof (cases "st_state r = RUNNING")
      case False
      then have "next_attempts ob q r = st_attempts r"
        using to by (simp add: next_attempts_def Let_def retry_abandoned_def)
      with to False f show ?thesis by (intro attempts_ok_keep [OF a, of ?r ?t]) simp_all
    next
      case run: True
      with a have ne: "st_attempts r \<noteq> []" by (auto simp: attempts_ok_def)
      show ?thesis
      proof (cases "retry_abandoned (st_state r) q")
        case True
        with to ne f show ?thesis
          by (intro attempts_ok_close [OF a run, of ?r "abandon_attempt (ob_now ob) (tq_reason q)" ?t])
            (simp_all add: next_attempts_def Let_def abandon_attempt_def)
      next
        case False
        with to ne run f show ?thesis
          by (intro attempts_ok_close [OF a run, of ?r "close_attempt (ob_now ob) q" ?t])
            (simp_all add: next_attempts_def Let_def close_attempt_def)
      qed
    qed
  qed
  with chain show ?thesis by (simp add: record_ok_def)
qed

lemma touched_record_ok:
  assumes "record_ok r" and "st_attempts r' = map_last f (st_attempts r)"
    and "\<And>a. at_attempt_number (f a) = at_attempt_number a" and "\<And>a. at_state (f a) = at_state a"
    and "\<And>a. at_ended_at (f a) = at_ended_at a"
    and "st_state r' = st_state r" and "st_transitions r' = st_transitions r"
  shows "record_ok r'"
  using assms attempts_ok_touch [of r r' f] by (simp add: record_ok_def)

lemma recovered_record_ok:
  assumes ok: "record_ok r" and ab: "abandoned ob lease r"
  shows "record_ok (recovered_record ob r)"
proof -
  let ?r = "recovered_record ob r"
  have run: "st_state r = RUNNING" using ab by (simp add: abandoned_def)
  have "attempts_ok ?r"
    by (rule attempts_ok_close [where f = "abandon_attempt (ob_now ob) (Some ''ABANDONED_LEASE_RECOVERY'')"
          and t = "\<lparr>tt_from_state = RUNNING, tt_to_state = PENDING, tt_timestamp = ob_now ob,
            tt_reason = Some ''ABANDONED_LEASE_RECOVERY''\<rparr>", OF _ run])
      (use ok in \<open>simp_all add: recovered_record_def abandon_attempt_def record_ok_def\<close>)
  moreover have "chain PENDING (st_transitions ?r) (st_state ?r)"
    using ok run by (simp add: recovered_record_def record_ok_def chain_append status_edge_def)
  ultimately show ?thesis by (simp add: record_ok_def)
qed

section \<open>The state file stays well formed\<close>

definition state_core :: "scheduler_state \<Rightarrow> bool" where
  "state_core st \<longleftrightarrow> distinct (map fst (ss_tasks st)) \<and> (\<forall>r \<in> snd ` set (ss_tasks st). record_ok r)"

lemma validate_state_Inr:
  "validate_state sha fr st = Inr st' \<longleftrightarrow> st' = st
     \<and> (\<forall>r \<in> snd ` set (ss_tasks st). \<exists>r'. validate_task_record sha fr r = Inr r')
     \<and> ss_schema_version st = 1 \<and> is_sha256 (ss_plan_hash st)"
  by (auto simp: validate_state_def bindr_Inr_iff validate_all_Inr)

lemma validate_state_id: "validate_state sha fr st = Inr st' \<Longrightarrow> st' = st"
  by (simp add: validate_state_Inr)

lemma state_ok_core: "state_ok S st \<longleftrightarrow> state_core st \<and> validate_state (sp_sha S) (sp_frepr S) st = Inr st"
  by (auto simp: state_ok_def state_core_def)

lemma read_state_Inr:
  "read_state S f = Inr st \<longleftrightarrow> f = State st \<and> validate_state (sp_sha S) (sp_frepr S) st = Inr st"
  by (auto simp: read_state_def split: state_file.splits sum.splits dest: validate_state_id)

lemma write_state_ok:
  assumes "state_core st" and "file_ok S f" and "write_state S st f = (f', r)"
  shows "file_ok S f'"
proof (cases "validate_state (sp_sha S) (sp_frepr S) st")
  case (Inl e)
  with assms show ?thesis by (simp add: write_state_def)
next
  case (Inr st')
  with assms(3) have "f' = State (st\<lparr>ss_tasks := sort_key fst (ss_tasks st)\<rparr>)"
    by (auto simp: write_state_def validate_state_Inr)
  with assms(1) Inr show ?thesis
    by (auto simp: state_ok_core state_core_def validate_state_Inr distinct_map)
qed

lemma write_state_lookup:
  assumes "write_state S st f = (f', Inr u)"
  shows "\<exists>st'. f' = State st' \<and> map_of (ss_tasks st') = map_of (ss_tasks st)"
  using assms by (auto simp: write_state_def validate_state_Inr map_of_sort_key split: sum.splits)

lemma write_state_cases:
  obtains e where "write_state S st f = (f, Inl e)"
  | st' where "write_state S st f = (State st', Inr ())" and "map_of (ss_tasks st') = map_of (ss_tasks st)"
    and "validate_state (sp_sha S) (sp_frepr S) st = Inr st"
proof (cases "validate_state (sp_sha S) (sp_frepr S) st")
  case (Inl e)
  then show thesis using that(1) by (simp add: write_state_def)
next
  case (Inr st')
  then show thesis
    using that(2) [of "st'\<lparr>ss_tasks := sort_key fst (ss_tasks st')\<rparr>"]
    by (auto simp: write_state_def map_of_sort_key validate_state_Inr)
qed

lemma write_state_readable:
  assumes "validate_state (sp_sha S) (sp_frepr S) st = Inr st''"
  shows "\<exists>st'. write_state S st f = (State st', Inr ()) \<and> map_of (ss_tasks st') = map_of (ss_tasks st)
    \<and> read_state S (State st') = Inr st'"
proof -
  let ?st = "st\<lparr>ss_tasks := sort_key fst (ss_tasks st)\<rparr>"
  have "write_state S st f = (State ?st, Inr ())"
    using assms validate_state_id [OF assms] by (simp add: write_state_def)
  moreover have "read_state S (State ?st) = Inr ?st"
    using assms by (simp add: read_state_Inr validate_state_Inr)
  ultimately show ?thesis by (intro exI [of _ ?st]) (simp add: map_of_sort_key)
qed

lemma set_AList_update: "set (AList.update k v xs) \<subseteq> insert (k, v) (set xs)"
  by (induction xs) auto

lemma state_core_put:
  assumes "state_core st" and "record_ok r"
  shows "state_core (put_record k r st)"
proof -
  have "\<forall>e \<in> set (AList.update k r (ss_tasks st)). record_ok (snd e)"
    using assms set_AList_update [of k r "ss_tasks st"] by (auto simp: state_core_def)
  with assms(1) show ?thesis
    by (auto simp: state_core_def put_record_def distinct_update)
qed

lemma state_core_record: "\<lbrakk>state_core st; map_of (ss_tasks st) k = Some r\<rbrakk> \<Longrightarrow> record_ok r"
  by (force simp: state_core_def dest: map_of_SomeD)

lemma file_ok_read: "\<lbrakk>file_ok S f; read_state S f = Inr st\<rbrakk> \<Longrightarrow> state_core st"
  by (auto simp: read_state_Inr state_ok_core)

section \<open>One operation\<close>

definition file_status :: "state_file \<Rightarrow> string \<Rightarrow> task_status option" where
  "file_status f k = (case f of State st \<Rightarrow> map_option st_state (map_of (ss_tasks st) k) | _ \<Rightarrow> None)"

text \<open>How an operation that rewrites one record changes the file.\<close>

lemma put_record_step:
  assumes ok: "file_ok S f" and rd: "read_state S f = Inr st" and r: "map_of (ss_tasks st) k = Some r"
    and r': "record_ok r'" and e: "status_edge\<^sup>=\<^sup>= (st_state r) (st_state r')"
    and w: "write_state S (put_record k r' st) f = (f', u)"
  shows "file_ok S f' \<and> (\<forall>l x. file_status f l = Some x \<longrightarrow>
    (\<exists>y. file_status f' l = Some y \<and> status_edge\<^sup>=\<^sup>= x y))"
proof
  from file_ok_read [OF ok rd] r' have "state_core (put_record k r' st)" by (rule state_core_put)
  from this ok w show "file_ok S f'" by (rule write_state_ok)
  have f: "f = State st" using rd by (simp add: read_state_Inr)
  show "\<forall>l x. file_status f l = Some x \<longrightarrow> (\<exists>y. file_status f' l = Some y \<and> status_edge\<^sup>=\<^sup>= x y)"
  proof (rule write_state_cases [of S "put_record k r' st" f])
    fix st'
    assume "write_state S (put_record k r' st) f = (State st', Inr ())"
      and "map_of (ss_tasks st') = map_of (ss_tasks (put_record k r' st))"
    with w f r e show ?thesis
      by (auto simp: file_status_def put_record_def update_conv' split: if_splits)
  qed (use w in auto)
qed

lemma transition_step:
  assumes "file_ok S f" and "transition S ob k q f = (f', u)"
  shows "file_ok S f' \<and> (\<forall>l x. file_status f l = Some x \<longrightarrow>
    (\<exists>y. file_status f' l = Some y \<and> status_edge\<^sup>=\<^sup>= x y))"
proof (cases "\<exists>st r. ob_lock_taken ob \<and> read_state S f = Inr st \<and> map_of (ss_tasks st) k = Some r
    \<and> legal_transition (st_state r) q")
  case True
  then obtain st r where h: "ob_lock_taken ob" "read_state S f = Inr st" "map_of (ss_tasks st) k = Some r"
    "legal_transition (st_state r) q" by blast
  let ?r' = "updated_record ob q r"
  obtain g v where w: "write_state S (put_record k ?r' st) f = (g, v)" by (cases "write_state S (put_record k ?r' st) f")
  have "f' = g"
    using assms(2) h w by (auto simp: transition_def with_state_lock_def Let_def split: sum.splits)
  moreover have "record_ok ?r'"
    using h state_core_record [OF file_ok_read [OF assms(1) h(2)]] by (intro updated_record_ok) auto
  moreover have "status_edge (st_state r) (st_state ?r')"
    using legal_transition_edge [OF h(4)] by (simp add: updated_record_def)
  ultimately show ?thesis
    using put_record_step [OF assms(1) h(2,3) _ _ w] by auto
next
  case False
  then have "f' = f"
    using assms(2) by (auto simp: transition_def with_state_lock_def Let_def split: sum.splits option.splits if_splits)
  with assms(1) show ?thesis by auto
qed

lemma update_running_step:
  assumes "file_ok S f" and "update_running S ob m k change f = (f', u)"
    and change: "\<And>r. record_ok r \<Longrightarrow> record_ok (change r) \<and> st_state (change r) = st_state r"
  shows "file_ok S f' \<and> (\<forall>l x. file_status f l = Some x \<longrightarrow>
    (\<exists>y. file_status f' l = Some y \<and> status_edge\<^sup>=\<^sup>= x y))"
proof (cases "\<exists>st r. ob_lock_taken ob \<and> read_state S f = Inr st \<and> map_of (ss_tasks st) k = Some r
    \<and> st_state r = RUNNING \<and> st_attempts r \<noteq> []")
  case True
  then obtain st r where h: "ob_lock_taken ob" "read_state S f = Inr st" "map_of (ss_tasks st) k = Some r"
    "st_state r = RUNNING" "st_attempts r \<noteq> []" by blast
  then have w: "write_state S (put_record k (change r) st) f = (f', u)"
    using assms(2) by (simp add: update_running_def with_state_lock_def)
  have "record_ok r" using state_core_record [OF file_ok_read [OF assms(1) h(2)] h(3)] .
  with change show ?thesis by (intro put_record_step [OF assms(1) h(2,3) _ _ w]) auto
next
  case False
  then have "f' = f"
    using assms(2) by (auto simp: update_running_def with_state_lock_def split: sum.splits option.splits if_splits)
  with assms(1) show ?thesis by auto
qed

lemma heartbeat_step:
  assumes "file_ok S f" and "heartbeat S ob k f = (f', u)"
  shows "file_ok S f' \<and> (\<forall>l x. file_status f l = Some x \<longrightarrow>
    (\<exists>y. file_status f' l = Some y \<and> status_edge\<^sup>=\<^sup>= x y))"
  by (rule update_running_step [OF assms(1) assms(2) [unfolded heartbeat_def]])
    (auto intro: touched_record_ok [where f = "\<lambda>a. a\<lparr>at_heartbeat_at := ob_now ob\<rparr>"])

lemma set_worker_pid_step:
  assumes "file_ok S f" and "set_worker_pid S ob k pid f = (f', u)"
  shows "file_ok S f' \<and> (\<forall>l x. file_status f l = Some x \<longrightarrow>
    (\<exists>y. file_status f' l = Some y \<and> status_edge\<^sup>=\<^sup>= x y))"
  by (rule update_running_step [OF assms(1) assms(2) [unfolded set_worker_pid_def]])
    (auto intro: touched_record_ok [where f = "\<lambda>a. a\<lparr>at_worker_pid := Some pid\<rparr>"])

text \<open>Recovery.\<close>

lemma recover_tasks_map:
  "fst (recover_tasks ob lease ts) =
   map (\<lambda>(k, r). (k, if abandoned ob lease r then recovered_record ob r else r)) ts"
  "snd (recover_tasks ob lease ts) = length (filter (\<lambda>(k, r). abandoned ob lease r) ts)"
  by (induction ts) (auto simp: split_beta)

lemma recover_step:
  assumes ok: "file_ok S f" and rec: "recover_abandoned S ob lease f = (f', u)"
  shows "file_ok S f' \<and> (\<forall>l x. file_status f l = Some x \<longrightarrow>
    (\<exists>y. file_status f' l = Some y \<and> status_edge\<^sup>=\<^sup>= x y))"
proof (cases "\<exists>st. ob_lock_taken ob \<and> read_state S f = Inr st \<and> \<not> list_ex (\<lambda>(k, r). incomparable ob r) (ss_tasks st)
    \<and> snd (recover_tasks ob lease (ss_tasks st)) \<noteq> 0")
  case True
  then obtain st where h: "ob_lock_taken ob" "read_state S f = Inr st" "\<not> list_ex (\<lambda>(k, r). incomparable ob r) (ss_tasks st)"
    "snd (recover_tasks ob lease (ss_tasks st)) \<noteq> 0"
    by blast
  let ?g = "\<lambda>r. if abandoned ob lease r then recovered_record ob r else r"
  let ?st = "st\<lparr>ss_tasks := map (\<lambda>(k, r). (k, ?g r)) (ss_tasks st)\<rparr>"
  have core: "state_core st" using ok h(2) by (rule file_ok_read)
  then have core': "state_core ?st"
    by (auto simp: state_core_def comp_def split_beta intro: recovered_record_ok)
  obtain g v where w: "write_state S ?st f = (g, v)" by (cases "write_state S ?st f")
  have f': "f' = g"
    using rec h w by (auto simp: recover_abandoned_def with_state_lock_def split_beta recover_tasks_map split: sum.splits)
  have ok': "file_ok S f'" unfolding f' using core' ok w by (rule write_state_ok)
  have f: "f = State st" using h(2) by (simp add: read_state_Inr)
  have lookup: "map_of (ss_tasks ?st) l = map_option ?g (map_of (ss_tasks st) l)" for l
    by (simp add: map_of_map)
  have "\<exists>y. file_status f' l = Some y \<and> status_edge\<^sup>=\<^sup>= x y" if "file_status f l = Some x" for l x
  proof (rule write_state_cases [of S ?st f])
    fix st'
    assume g: "write_state S ?st f = (State st', Inr ())" and m: "map_of (ss_tasks st') = map_of (ss_tasks ?st)"
    from that f obtain z where z: "map_of (ss_tasks st) l = Some z" "x = st_state z"
      by (auto simp: file_status_def)
    have "status_edge\<^sup>=\<^sup>= (st_state z) (st_state (?g z))"
      by (auto simp: recovered_record_def abandoned_def status_edge_def)
    moreover have "file_status f' l = Some (st_state (?g z))"
      using g w f' m lookup [of l] z by (simp add: file_status_def)
    ultimately show ?thesis using z by blast
  next
    fix e assume "write_state S ?st f = (f, Inl e)"
    with w f' that show ?thesis by auto
  qed
  with ok' show ?thesis by blast
next
  case False
  then have "f' = f"
    using rec by (auto simp: recover_abandoned_def with_state_lock_def split_beta split: sum.splits if_splits)
  with ok show ?thesis by auto
qed

text \<open>Initialisation writes pending records for a plan whose tasks have different identities.\<close>

lemma fresh_record_ok: "record_ok (fresh_record now t)"
  by (simp add: record_ok_def attempts_ok_def numbered_def fresh_record_def)

lemma initialize_step:
  assumes ok: "file_ok S f" and plan: "distinct (map ts_task_id (rp_tasks (sp_plan S)))"
    and ini: "initialize S ob f = (f', u)"
  shows "file_ok S f' \<and> (\<forall>l x. file_status f l = Some x \<longrightarrow>
    (\<exists>y. file_status f' l = Some y \<and> status_edge\<^sup>=\<^sup>= x y))"
proof (cases "ob_lock_taken ob \<and> f = NoState")
  case True
  let ?st = "\<lparr>ss_schema_version = 1, ss_plan_hash = sp_plan_hash S,
     ss_tasks = map (\<lambda>t. (ts_task_id t, fresh_record (ob_now ob) t)) (rp_tasks (sp_plan S))\<rparr>"
  obtain g v where w: "write_state S ?st f = (g, v)" by (cases "write_state S ?st f")
  with True ini have "f' = g"
    by (auto simp: initialize_def with_state_lock_def Let_def split: sum.splits)
  moreover have "state_core ?st"
    using plan fresh_record_ok by (auto simp: state_core_def comp_def)
  ultimately have "file_ok S f'" using write_state_ok [OF _ ok w] by simp
  with True show ?thesis by (simp add: file_status_def)
next
  case False
  with ini have "f' = f" by (auto simp: initialize_def with_state_lock_def split: if_splits)
  with ok show ?thesis by auto
qed

section \<open>What recovery and initialisation return\<close>

lemma recover_result:
  assumes "recover_abandoned S ob lease f = (f', res)"
  shows "case res of Inl e \<Rightarrow> f' = f
    | Inr n \<Rightarrow> \<exists>st st'. f = State st \<and> f' = State st'
        \<and> n = length (filter (\<lambda>(k, r). abandoned ob lease r) (ss_tasks st))
        \<and> (\<forall>k. map_of (ss_tasks st') k =
            map_option (\<lambda>r. if abandoned ob lease r then recovered_record ob r else r) (map_of (ss_tasks st) k))"
proof (cases "\<exists>st. ob_lock_taken ob \<and> read_state S f = Inr st \<and> \<not> list_ex (\<lambda>(k, r). incomparable ob r) (ss_tasks st)")
  case True
  let ?g = "\<lambda>r. if abandoned ob lease r then recovered_record ob r else r"
  from True obtain st where st: "ob_lock_taken ob" "read_state S f = Inr st" "\<not> list_ex (\<lambda>(k, r). incomparable ob r) (ss_tasks st)"
    by blast
  then have f: "f = State st" by (simp add: read_state_Inr)
  let ?n = "length (filter (\<lambda>(k, r). abandoned ob lease r) (ss_tasks st))"
  let ?st = "st\<lparr>ss_tasks := map (\<lambda>(k, r). (k, ?g r)) (ss_tasks st)\<rparr>"
  have lookup: "map_of (ss_tasks ?st) k = map_option ?g (map_of (ss_tasks st) k)" for k
    by (simp add: map_of_map)
  have r: "recover_abandoned S ob lease f = (if ?n = 0 then (f, Inr 0) else
      (case write_state S ?st f of (f', Inl e) \<Rightarrow> (f', Inl e) | (f', Inr _) \<Rightarrow> (f', Inr ?n)))"
    using st by (simp add: recover_abandoned_def with_state_lock_def split_beta recover_tasks_map)
  show ?thesis
  proof (cases "?n = 0")
    case True
    then have "\<forall>(k, r) \<in> set (ss_tasks st). \<not> abandoned ob lease r" by (auto simp: filter_empty_conv)
    then have "map_option ?g (map_of (ss_tasks st) k) = map_of (ss_tasks st) k" for k
      by (cases "map_of (ss_tasks st) k") (auto dest: map_of_SomeD)
    with True r assms f show ?thesis by auto
  next
    case False
    show ?thesis
    proof (rule write_state_cases [of S ?st f])
      fix e assume "write_state S ?st f = (f, Inl e)"
      with False r assms show ?thesis by auto
    next
      fix st' assume "write_state S ?st f = (State st', Inr ())" and "map_of (ss_tasks st') = map_of (ss_tasks ?st)"
      with False r assms f lookup show ?thesis by auto
    qed
  qed
next
  case False
  with assms show ?thesis
    by (auto simp: recover_abandoned_def with_state_lock_def split: if_splits sum.splits)
qed

lemma recover_keeps:
  assumes "recover_abandoned S ob lease (State st) = (State st', res)"
    and "map_of (ss_tasks st) k = Some r" and "\<not> abandoned ob lease r"
  shows "map_of (ss_tasks st') k = Some r"
  using recover_result [OF assms(1)] assms(2,3) by (auto split: sum.splits)

lemma initialize_fresh:
  assumes "initialize S ob NoState = (f, Inr st)"
  shows "st = \<lparr>ss_schema_version = 1, ss_plan_hash = sp_plan_hash S,
      ss_tasks = map (\<lambda>t. (ts_task_id t, fresh_record (ob_now ob) t)) (rp_tasks (sp_plan S))\<rparr>
    \<and> (\<exists>st'. f = State st' \<and> read_state S f = Inr st' \<and> ss_plan_hash st' = sp_plan_hash S
        \<and> set (ss_tasks st') = set (ss_tasks st) \<and> map_of (ss_tasks st') = map_of (ss_tasks st))"
  using assms
  by (auto simp: initialize_def with_state_lock_def Let_def write_state_def read_state_Inr validate_state_Inr
      map_of_sort_key split: if_splits sum.splits)

section \<open>The store of task states is a status store\<close>

datatype store_op =
    OpInitialize observation
  | OpTransition observation string transition_request
  | OpHeartbeat observation string
  | OpSetWorkerPid observation string int
  | OpRecover observation py_float

fun store_step :: "store_params \<Rightarrow> state_file \<Rightarrow> store_op \<Rightarrow> state_file" where
  "store_step S f (OpInitialize ob) = fst (initialize S ob f)"
| "store_step S f (OpTransition ob k q) = fst (transition S ob k q f)"
| "store_step S f (OpHeartbeat ob k) = fst (heartbeat S ob k f)"
| "store_step S f (OpSetWorkerPid ob k pid) = fst (set_worker_pid S ob k pid f)"
| "store_step S f (OpRecover ob lease) = fst (recover_abandoned S ob lease f)"

text \<open>A plan that passed its contract has tasks with different identities.\<close>

definition store_invar :: "store_params \<Rightarrow> state_file \<Rightarrow> bool" where
  "store_invar S f \<longleftrightarrow> file_ok S f \<and> distinct (map ts_task_id (rp_tasks (sp_plan S)))"

lemma store_step_ok:
  assumes "store_invar S f"
  shows "store_invar S (store_step S f op) \<and> (\<forall>l x. file_status f l = Some x \<longrightarrow>
    (\<exists>y. file_status (store_step S f op) l = Some y \<and> status_edge\<^sup>=\<^sup>= x y))"
proof -
  from assms have ok: "file_ok S f" and plan: "distinct (map ts_task_id (rp_tasks (sp_plan S)))"
    by (simp_all add: store_invar_def)
  have "file_ok S (store_step S f op) \<and> (\<forall>l x. file_status f l = Some x \<longrightarrow>
    (\<exists>y. file_status (store_step S f op) l = Some y \<and> status_edge\<^sup>=\<^sup>= x y))"
  proof (cases op)
    case (OpInitialize ob)
    then show ?thesis using initialize_step [OF ok plan surjective_pairing] by simp
  next
    case (OpTransition ob k q)
    then show ?thesis using transition_step [OF ok surjective_pairing] by simp
  next
    case (OpHeartbeat ob k)
    then show ?thesis using heartbeat_step [OF ok surjective_pairing] by simp
  next
    case (OpSetWorkerPid ob k pid)
    then show ?thesis using set_worker_pid_step [OF ok surjective_pairing] by simp
  next
    case (OpRecover ob lease)
    then show ?thesis using recover_step [OF ok surjective_pairing] by simp
  qed
  with plan show ?thesis by (simp add: store_invar_def)
qed

interpretation tasks: status_store file_status "store_step S" status_edge "store_invar S" for S
proof unfold_locales
  fix f op assume "store_invar S f"
  then show "store_invar S (store_step S f op)" using store_step_ok by blast
next
  fix f k x op assume "store_invar S f" and "file_status f k = Some x"
  then show "\<exists>y. file_status (store_step S f op) k = Some y \<and> status_edge\<^sup>=\<^sup>= x y"
    using store_step_ok by blast
qed

end
