(* ===== verification/Runner_Demo.thy ===== *)
theory Runner_Demo
  imports Task_State_Facts Cache_Demo "HOL-Library.Countable"
begin

text \<open>
  Concrete objects for the witnesses of the runner properties: a plan of one task, clocks, and
  the state file after initialisation and after the task was started.
\<close>

definition demo_frepr :: "py_float \<Rightarrow> string" where
  "demo_frepr x = show_nat (prod_encode (map_prod int_encode int_encode (quotient_of x))) @ ''.0''"

lemma demo_frepr_inj: "inj demo_frepr"
proof (rule injI)
  fix x y assume "demo_frepr x = demo_frepr y"
  then have "map_prod int_encode int_encode (quotient_of x) = map_prod int_encode int_encode (quotient_of y)"
    by (simp add: demo_frepr_def show_nat_inj)
  then have "quotient_of x = quotient_of y"
    by (cases "quotient_of x"; cases "quotient_of y") (simp add: int_encode_eq)
  then show "x = y" using quotient_of_inject_eq by blast
qed

lemma demo_frepr_text: "float_text (demo_frepr x)"
proof -
  have d: "list_all is_digit (show_nat n)" for n by (auto simp: list_all_iff dest: show_nat_digits)
  have "is_digit (hd (show_nat n))" for n using show_nat_digits [OF hd_in_set] by simp
  moreover have "is_digit CHR ''0''" by (simp add: is_digit_def)
  ultimately show ?thesis
    using d by (auto simp: float_text_def demo_frepr_def list_all_iff num_char_def)
qed

definition demo_task :: task_spec where
  "demo_task = \<lparr>ts_task_id = demo_hash, ts_task_name = ''alpha'', ts_cache_identity = demo_identity,
     ts_operation = SyntheticPayload, ts_payload_token = ''payload'', ts_delay_seconds = 0, ts_timeout_seconds = 10\<rparr>"

lemma demo_task_identity [simp]: "task_identity demo_sha fr n k op tok d t = demo_hash"
  by (simp add: task_identity_def sha256_canonical_json_def)

lemma demo_task_valid [simp]: "validate_task demo_sha fr demo_task = Inr demo_task"
  by (simp add: validate_task_def demo_task_def task_name_char_def Let_def)

lemma demo_task_id [simp]: "ts_task_id demo_task = demo_hash"
  by (simp add: demo_task_def)

definition demo_plan :: run_plan where
  "demo_plan = \<lparr>rp_schema_version = 1, rp_tasks = [demo_task], rp_random_seed = 0, rp_cpu_workers = 1, rp_gpu_workers = 1\<rparr>"

definition demo_params :: store_params where
  "demo_params = \<lparr>sp_sha = demo_sha, sp_frepr = demo_frepr, sp_plan = demo_plan\<rparr>"

lemma demo_params_simps [simp]:
  "sp_sha demo_params = demo_sha" "sp_frepr demo_params = demo_frepr" "sp_plan demo_params = demo_plan"
  "rp_tasks demo_plan = [demo_task]" "sp_plan_hash demo_params = demo_hash"
  by (simp_all add: demo_params_def demo_plan_def sp_plan_hash_def plan_hash_def sha256_canonical_json_def)

text \<open>The clock at a number of seconds, with no process alive but the ones given.\<close>

definition demo_ob :: "int \<Rightarrow> int set \<Rightarrow> observation" where
  "demo_ob seconds alive = \<lparr>ob_now = DateTime (seconds * 1000000) (Some 0), ob_pid = 42,
     ob_pid_exists = (\<lambda>p. p \<in> alive), ob_total_seconds = (\<lambda>us. of_int us / 1000000), ob_lock_taken = True\<rparr>"

definition demo_state :: "task_record \<Rightarrow> state_file" where
  "demo_state r = State \<lparr>ss_schema_version = 1, ss_plan_hash = demo_hash, ss_tasks = [(demo_hash, r)]\<rparr>"

definition demo_fresh :: task_record where
  "demo_fresh = fresh_record (DateTime 0 (Some 0)) demo_task"

definition demo_start :: transition_request where
  "demo_start = \<lparr>tq_to_state = RUNNING, tq_reason = None, tq_failure_category = None, tq_resource = None,
     tq_artifact_path = None, tq_artifact_sha256 = None, tq_cache_hit = False, tq_retry_failed = False\<rparr>"

definition demo_running :: task_record where
  "demo_running = updated_record (demo_ob 0 {}) demo_start demo_fresh"

lemma demo_ob_simps [simp]:
  "ob_now (demo_ob s A) = DateTime (s * 1000000) (Some 0)" "ob_lock_taken (demo_ob s A)"
  "ob_pid (demo_ob s A) = 42" "ob_pid_exists (demo_ob s A) p = (p \<in> A)"
  "ob_total_seconds (demo_ob s A) us = of_int us / 1000000"
  by (simp_all add: demo_ob_def)

lemma demo_records_valid:
  "validate_task_record demo_sha fr demo_fresh = Inr demo_fresh"
  "validate_task_record demo_sha fr demo_running = Inr demo_running"
  by (simp_all add: validate_task_record_def demo_running_def demo_fresh_def fresh_record_def updated_record_def
      next_attempts_def demo_start_def new_attempt_def validate_attempt_def Let_def)

lemma demo_read_state:
  "validate_task_record demo_sha demo_frepr r = Inr r \<Longrightarrow> read_state demo_params (demo_state r)
   = Inr \<lparr>ss_schema_version = 1, ss_plan_hash = demo_hash, ss_tasks = [(demo_hash, r)]\<rparr>"
  by (simp add: read_state_def demo_state_def validate_state_def)

lemma demo_write_state:
  "validate_task_record demo_sha demo_frepr r = Inr r \<Longrightarrow>
   write_state demo_params \<lparr>ss_schema_version = 1, ss_plan_hash = demo_hash, ss_tasks = [(demo_hash, r)]\<rparr> f
   = (demo_state r, Inr ())"
  by (simp add: write_state_def demo_state_def validate_state_def)

lemma demo_initialize: "initialize demo_params (demo_ob 0 {}) NoState =
  (demo_state demo_fresh, Inr \<lparr>ss_schema_version = 1, ss_plan_hash = demo_hash, ss_tasks = [(demo_hash, demo_fresh)]\<rparr>)"
  by (simp add: initialize_def with_state_lock_def demo_fresh_def [symmetric] demo_write_state demo_records_valid Let_def)

lemma demo_legal: "legal_transition (st_state demo_fresh) demo_start"
  by (simp add: legal_transition_def demo_fresh_def fresh_record_def demo_start_def)

lemma demo_transition: "transition demo_params (demo_ob 0 {}) demo_hash demo_start (demo_state demo_fresh)
  = (demo_state demo_running, Inr demo_running)"
  using demo_legal
  by (simp add: transition_def with_state_lock_def demo_read_state demo_records_valid put_record_def
      demo_running_def [symmetric] demo_write_state Let_def)

lemma demo_status: "file_status (demo_state r) demo_hash = Some (st_state r)"
  by (simp add: file_status_def demo_state_def)

lemma demo_invar: "store_invar demo_params (demo_state demo_fresh)" "store_invar demo_params (demo_state demo_running)"
proof -
  have n: "store_invar demo_params NoState" by (simp add: store_invar_def)
  from tasks.step_invar [OF this, of "OpInitialize (demo_ob 0 {})"]
  show i: "store_invar demo_params (demo_state demo_fresh)" by (simp add: demo_initialize)
  from tasks.step_invar [OF this, of "OpTransition (demo_ob 0 {}) demo_hash demo_start"]
  show "store_invar demo_params (demo_state demo_running)" by (simp add: demo_transition)
qed

lemma demo_running_attempts: "st_state demo_running = RUNNING"
  "st_attempts demo_running = [\<lparr>at_attempt_number = 1, at_state = RUNNING, at_started_at = DateTime 0 (Some 0),
     at_heartbeat_at = DateTime 0 (Some 0), at_ended_at = None, at_owner_pid = Some 42, at_worker_pid = None,
     at_resource = None, at_failure_category = None, at_reason = None\<rparr>]"
  by (simp_all add: demo_running_def updated_record_def next_attempts_def demo_start_def new_attempt_def
      demo_fresh_def fresh_record_def Let_def)

end
