(* ===== verification/Runner_Properties.thy ===== *)
theory Runner_Properties
  imports Runner_Demo
begin

text \<open>
  The properties of run plans and of the persisted task state, each with a witness where it
  has hypotheses.
\<close>

section \<open>Plans\<close>

text \<open>A task identity covers the whole specification: two tasks have the same identity only
  when their name, cache key, operation, token, delay and timeout agree, or when two different
  canonical texts collide under SHA-256.\<close>

theorem task_identity_eq_iff:
  assumes "inj frepr" and "\<And>x. float_text (frepr x)"
  shows "task_identity sha frepr n k op tok d t = task_identity sha frepr n' k' op' tok' d' t' \<longleftrightarrow>
    (n = n' \<and> k = k' \<and> op = op' \<and> tok = tok' \<and> d = d' \<and> t = t')
    \<or> (\<exists>x y. x \<noteq> y \<and> sha x = sha y
         \<and> task_identity sha frepr n k op tok d t = sha x \<and> task_identity sha frepr n' k' op' tok' d' t' = sha y
         \<and> x = canonical_text (JObj (zip task_field_names
             [JStr n, JStr k, JStr (operation_text op), JStr tok, JFloat (frepr d), JFloat (frepr t)]))
         \<and> y = canonical_text (JObj (zip task_field_names
             [JStr n', JStr k', JStr (operation_text op'), JStr tok', JFloat (frepr d'), JFloat (frepr t')])))"
  (is "?l = (?same \<or> ?collision)")
proof
  assume l: ?l
  show "?same \<or> ?collision"
  proof (rule disjCI)
    assume "\<not> ?collision"
    with l have "canonical_text (JObj (zip task_field_names
         [JStr n, JStr k, JStr (operation_text op), JStr tok, JFloat (frepr d), JFloat (frepr t)]))
      = canonical_text (JObj (zip task_field_names
         [JStr n', JStr k', JStr (operation_text op'), JStr tok', JFloat (frepr d'), JFloat (frepr t')]))"
      unfolding task_identity_def sha256_canonical_json_def by blast
    then show ?same by (rule task_identity_text_inj [OF assms])
  qed
qed auto

lemma task_identity_eq_iff_witness:
  "task_identity (\<lambda>x. x) demo_frepr ''alpha'' demo_hash Sleep ''t'' 0 10
   \<noteq> task_identity (\<lambda>x. x) demo_frepr ''alpha'' demo_hash Sleep ''t'' 0 11"
  using task_identity_eq_iff [OF demo_frepr_inj demo_frepr_text, of "\<lambda>x. x"] by simp

text \<open>The plan of a set of tasks does not depend on the order in which they are given:
  building succeeds for one order exactly when it does for another and gives the same plan, sorted
  by task ID without duplicates, and hence the same plan hash.\<close>

theorem plan_order_independent:
  assumes "mset tasks = mset tasks'"
  shows "(\<exists>p. build_plan tasks seed w = Inr p) = (\<exists>p. build_plan tasks' seed w = Inr p)
    \<and> (\<forall>p p'. build_plan tasks seed w = Inr p \<longrightarrow> build_plan tasks' seed w = Inr p' \<longrightarrow>
         p' = p \<and> sorted_wrt (<) (map ts_task_id (rp_tasks p)) \<and> plan_hash sha frepr p' = plan_hash sha frepr p)"
proof -
  have ids: "mset (map ts_task_id tasks) = mset (map ts_task_id tasks')" using assms by simp
  then have d: "distinct (map ts_task_id tasks) = distinct (map ts_task_id tasks')"
    by (metis mset_eq_imp_distinct_iff)
  have "sort_key ts_task_id tasks = sort_key ts_task_id tasks'" if "distinct (map ts_task_id tasks)"
    using that assms by (intro sort_key_inj_key_eq) (simp_all add: distinct_map)
  moreover have "sorted_wrt (<) (map ts_task_id (sort_key ts_task_id tasks))" if "distinct (map ts_task_id tasks)"
    using that by (simp add: strict_sorted_iff distinct_map)
  ultimately show ?thesis
    unfolding build_plan_Inr d [symmetric] by (auto simp del: distinct_map)
qed

lemma plan_order_independent_witness:
  "\<exists>p. build_plan [demo_task] 0 2 = Inr p \<and> sorted_wrt (<) (map ts_task_id (rp_tasks p))"
  using plan_order_independent [of "[demo_task]" "[demo_task]" 0 2] by (simp add: build_plan_Inr)

section \<open>Task state\<close>

text \<open>Claim C4. The persisted state is always consistent: after any sequence of operations by any
  processes, in any order and with any clocks, the file validates, every task's transitions form a
  path of the state machine from PENDING to its state, its attempts are numbered from one with
  only the last one open and exactly while the task runs, one per start.\<close>

theorem task_history_consistent:
  assumes "distinct (map ts_task_id (rp_tasks (sp_plan S)))"
    and "foldl (store_step S) NoState ops = State st" and "(k, r) \<in> set (ss_tasks st)"
  shows "chain PENDING (st_transitions r) (st_state r)
    \<and> map at_attempt_number (st_attempts r) = map int [1..<Suc (length (st_attempts r))]
    \<and> (st_state r = RUNNING \<longleftrightarrow> st_attempts r \<noteq> [] \<and> at_state (last (st_attempts r)) = RUNNING)
    \<and> list_all (\<lambda>a. at_ended_at a \<noteq> None) (butlast (st_attempts r))
    \<and> length (st_attempts r) = length (filter (\<lambda>t. tt_to_state t = RUNNING) (st_transitions r))
    \<and> distinct (map fst (ss_tasks st)) \<and> read_state S (State st) = Inr st"
proof -
  have "store_invar S NoState" using assms(1) by (simp add: store_invar_def)
  from tasks.run_invar [OF this, of ops] have ok: "state_ok S st"
    by (simp add: assms(2) store_invar_def)
  with assms(3) have "record_ok r" by (force simp: state_ok_def)
  with ok show ?thesis
    by (auto simp: record_ok_def attempts_ok_def numbered_def state_ok_def read_state_Inr list_all_iff
        dest: in_set_butlastD simp del: upt_Suc)
qed

lemma task_history_consistent_witness:
  "chain PENDING (st_transitions demo_running) RUNNING"
proof -
  have "foldl (store_step demo_params) NoState
      [OpInitialize (demo_ob 0 {}), OpTransition (demo_ob 0 {}) demo_hash demo_start] = demo_state demo_running"
    by (simp add: demo_initialize demo_transition)
  then have "foldl (store_step demo_params) NoState
      [OpInitialize (demo_ob 0 {}), OpTransition (demo_ob 0 {}) demo_hash demo_start]
    = State \<lparr>ss_schema_version = 1, ss_plan_hash = demo_hash, ss_tasks = [(demo_hash, demo_running)]\<rparr>"
    by (simp only: demo_state_def)
  from task_history_consistent [OF _ this, of demo_hash demo_running] show ?thesis
    by (simp add: demo_running_attempts)
qed

text \<open>Whatever operations run, a task keeps its entry in the file and its state only moves
  along edges of the state machine; a task that is BLOCKED or CANCELLED stays so for ever.\<close>

theorem status_follows_machine:
  assumes "store_invar S f" and "file_status f k = Some x"
  shows "\<exists>y. file_status (foldl (store_step S) f ops) k = Some y \<and> status_edge\<^sup>*\<^sup>* x y
    \<and> (x \<in> {BLOCKED, CANCELLED} \<longrightarrow> y = x)"
proof -
  have "file_status (foldl (store_step S) f ops) k = Some x" if "x \<in> {BLOCKED, CANCELLED}"
    by (rule tasks.run_absorbing [OF assms]) (use that in \<open>auto simp: status_edge_def\<close>)
  with tasks.run_path [OF assms, of ops] show ?thesis by auto
qed

lemma status_follows_machine_witness:
  "\<exists>y. file_status (foldl (store_step demo_params) (demo_state demo_fresh)
       [OpTransition (demo_ob 0 {}) demo_hash demo_start, OpHeartbeat (demo_ob 5 {}) demo_hash]) demo_hash = Some y
     \<and> status_edge\<^sup>*\<^sup>* PENDING y"
proof -
  have "file_status (demo_state demo_fresh) demo_hash = Some PENDING"
    by (simp add: demo_status demo_fresh_def fresh_record_def)
  from status_follows_machine [OF demo_invar(1) this] show ?thesis by blast
qed

text \<open>Claim C6. A transition succeeds exactly when the lock is taken, the file is readable, the task
  exists, the edge is legal and the new state passes its contract. When it fails the file is
  untouched; when it succeeds the task, and no other, has the updated record, and the file is readable.\<close>

theorem transition_outcome:
  assumes "transition S ob k q f = (f', res)"
  shows "((\<exists>r. res = Inr r) \<longleftrightarrow> ob_lock_taken ob \<and> (\<exists>st r0 st'. read_state S f = Inr st
        \<and> map_of (ss_tasks st) k = Some r0 \<and> legal_transition (st_state r0) q
        \<and> validate_state (sp_sha S) (sp_frepr S) (put_record k (updated_record ob q r0) st) = Inr st'))
    \<and> (case res of
        Inl e \<Rightarrow> f' = f
      | Inr r \<Rightarrow> \<exists>st r0 st'. read_state S f = Inr st \<and> map_of (ss_tasks st) k = Some r0
          \<and> legal_transition (st_state r0) q \<and> r = updated_record ob q r0 \<and> st_state r = tq_to_state q
          \<and> read_state S f' = Inr st' \<and> map_of (ss_tasks st') = (map_of (ss_tasks st))(k \<mapsto> r))"
proof (cases "\<exists>st r0. ob_lock_taken ob \<and> read_state S f = Inr st \<and> map_of (ss_tasks st) k = Some r0
    \<and> legal_transition (st_state r0) q")
  case True
  then obtain st r0 where h: "ob_lock_taken ob" "read_state S f = Inr st" "map_of (ss_tasks st) k = Some r0"
    "legal_transition (st_state r0) q" by blast
  let ?r = "updated_record ob q r0"
  have t: "transition S ob k q f = (case write_state S (put_record k ?r st) f of
      (f', Inl e) \<Rightarrow> (f', Inl e) | (f', Inr _) \<Rightarrow> (f', Inr ?r))"
    using h by (simp add: transition_def with_state_lock_def Let_def)
  have put: "map_of (ss_tasks (put_record k ?r st)) = (map_of (ss_tasks st))(k \<mapsto> ?r)"
    by (simp add: put_record_def update_conv')
  have to: "st_state ?r = tq_to_state q" by (simp add: updated_record_def)
  show ?thesis
  proof (cases "validate_state (sp_sha S) (sp_frepr S) (put_record k ?r st)")
    case (Inl e)
    with t assms h show ?thesis by (auto simp: write_state_def)
  next
    case (Inr st'')
    then obtain st' where w: "write_state S (put_record k ?r st) f = (State st', Inr ())"
        "map_of (ss_tasks st') = map_of (ss_tasks (put_record k ?r st))" "read_state S (State st') = Inr st'"
      using write_state_readable by blast
    with t assms have "f' = State st'" "res = Inr ?r" by simp_all
    with h w put to Inr show ?thesis by auto
  qed
next
  case False
  then show ?thesis
    using assms by (auto simp: transition_def with_state_lock_def Let_def split: sum.splits option.splits if_splits)
qed

lemma transition_outcome_witness:
  "\<exists>st'. read_state demo_params (demo_state demo_running) = Inr st'
     \<and> map_of (ss_tasks st') demo_hash = Some demo_running"
  using transition_outcome [OF demo_transition] by auto

text \<open>Claim C27. A live task is never taken away: recovery leaves the record of a task alone while its
  owner or worker process exists, and while its last heartbeat is no older than the lease.\<close>

theorem live_tasks_kept:
  assumes "recover_abandoned S ob lease (State st) = (State st', res)"
    and "map_of (ss_tasks st) k = Some r" and "st_attempts r = as @ [a]"
    and "(\<exists>p. (at_owner_pid a = Some p \<or> at_worker_pid a = Some p) \<and> ob_pid_exists ob p)
      \<or> ob_total_seconds ob (instant (ob_now ob) - instant (at_heartbeat_at a)) \<le> lease"
  shows "map_of (ss_tasks st') k = Some r"
  using assms(1,2) by (rule recover_keeps)
    (use assms(3,4) in \<open>auto simp: abandoned_def pid_alive_def lease_expired_def\<close>)

lemma live_tasks_kept_witness:
  "\<exists>st res. recover_abandoned demo_params (demo_ob 60 {42}) 30 (demo_state demo_running) = (State st, res)
     \<and> map_of (ss_tasks st) demo_hash = Some demo_running"
proof -
  let ?st = "\<lparr>ss_schema_version = 1, ss_plan_hash = demo_hash, ss_tasks = [(demo_hash, demo_running)]\<rparr>"
  have "recover_abandoned demo_params (demo_ob 60 {42}) 30 (State ?st) = (State ?st, Inr 0)"
    using demo_read_state [OF demo_records_valid(2)]
    by (simp add: recover_abandoned_def with_state_lock_def abandoned_def
        incomparable_def
        demo_running_attempts pid_alive_def demo_state_def)
  from live_tasks_kept [OF this, of demo_hash demo_running "[]"] this show ?thesis
    by (auto simp: demo_running_attempts demo_state_def)
qed

text \<open>Initialisation is idempotent: once it has created the state of a plan, in which every
  task is PENDING, initialising again, by any process at any time, finds the same tasks and leaves
  the file alone.\<close>

theorem initialize_idempotent:
  assumes "initialize S ob NoState = (f, Inr st)" and "ob_lock_taken ob'"
    and "distinct (map ts_task_id (rp_tasks (sp_plan S)))"
  shows "\<exists>st'. initialize S ob' f = (f, Inr st') \<and> map_of (ss_tasks st') = map_of (ss_tasks st)
    \<and> list_all (\<lambda>t. file_status f (ts_task_id t) = Some PENDING) (rp_tasks (sp_plan S))"
proof -
  let ?ts = "rp_tasks (sp_plan S)"
  from initialize_fresh [OF assms(1)] obtain st' where st: "ss_tasks st =
      map (\<lambda>t. (ts_task_id t, fresh_record (ob_now ob) t)) ?ts"
    and st': "f = State st'" "read_state S f = Inr st'" "ss_plan_hash st' = sp_plan_hash S"
      "set (ss_tasks st') = set (ss_tasks st)" "map_of (ss_tasks st') = map_of (ss_tasks st)"
    by auto
  have look: "map_of (ss_tasks st') (ts_task_id t) = Some (fresh_record (ob_now ob) t)" if "t \<in> set ?ts" for t
    unfolding st'(5) st using that assms(3) by (intro map_of_is_SomeI) (auto simp: comp_def)
  have "fst ` set (ss_tasks st') = ts_task_id ` set ?ts"
    by (simp add: st' st image_image)
  then have "initialize S ob' f = (f, Inr st')"
    using st' look assms(2)
    by (auto simp: initialize_def with_state_lock_def list_ex_iff fresh_record_def image_image)
  with st' look show ?thesis by (auto simp: file_status_def list_all_iff fresh_record_def)
qed

lemma initialize_idempotent_witness:
  "\<exists>st'. initialize demo_params (demo_ob 7 {1}) (demo_state demo_fresh) = (demo_state demo_fresh, Inr st')"
  using initialize_idempotent [OF demo_initialize, of "demo_ob 7 {1}"] by auto

end
