(* ===== verification/Resources.thy ===== *)
theory Resources
  imports Task_State
begin

text \<open>
  \<open>src/schemaguard/runner/resources.py\<close>: the supervision of one isolated worker process.
  What the supervisor sees of the world (process samples, GPU snapshots, clocks, the result
  file, whether the process is alive after a join or a kill) is the record \<open>worker_world\<close>; the
  polls of the monitoring loop are a list, which ends when the process has exited. Float
  addition and number formatting are arguments.
\<close>

section \<open>Samples\<close>

datatype process_reading = ProcessGone | Reading int py_float py_float

type_synonym tree_sample = "py_float option \<times> py_float option \<times> py_float option"

text \<open>\<open>_sample_process_tree\<close>: \<open>None\<close> stands for an exception while listing or reading the tree.\<close>

fun readings_rss :: "process_reading list \<Rightarrow> py_float list" where
  "readings_rss [] = []"
| "readings_rss (ProcessGone # rs) = readings_rss rs"
| "readings_rss (Reading rss user sys # rs) = of_int rss / 1048576 # readings_rss rs"

fun readings_cpu :: "(py_float \<Rightarrow> py_float \<Rightarrow> py_float) \<Rightarrow> py_float \<Rightarrow> process_reading list \<Rightarrow> py_float" where
  "readings_cpu fadd acc [] = acc"
| "readings_cpu fadd acc (ProcessGone # rs) = readings_cpu fadd acc rs"
| "readings_cpu fadd acc (Reading rss user sys # rs) = readings_cpu fadd (fadd acc (fadd user sys)) rs"

definition sample_process_tree ::
  "(py_float \<Rightarrow> py_float \<Rightarrow> py_float) \<Rightarrow> process_reading list option \<Rightarrow> tree_sample" where
  "sample_process_tree fadd tree =
     (case tree of
        None \<Rightarrow> (None, None, None)
      | Some rs \<Rightarrow>
        (case readings_rss rs of
           [] \<Rightarrow> (None, None, None)
         | rss # rest \<Rightarrow> (Some rss, Some (foldl fadd 0 (rss # rest)), Some (readings_cpu fadd 0 rs))))"

definition classify_resource_limits ::
  "py_float option \<Rightarrow> py_float option \<Rightarrow> py_float \<Rightarrow> py_float option \<Rightarrow> failure_category option" where
  "classify_resource_limits process_tree_rss_mib gpu_reserved_mib ram_hard_limit_mib vram_soft_limit_mib =
     (if (case process_tree_rss_mib of None \<Rightarrow> False | Some v \<Rightarrow> ram_hard_limit_mib < v)
      then Some FAIL_RESOURCE_LIMIT
      else if (case (gpu_reserved_mib, vram_soft_limit_mib) of (Some v, Some limit) \<Rightarrow> limit < v | _ \<Rightarrow> False)
      then Some FAIL_RESOURCE_LIMIT
      else None)"

record gpu_snapshot =
  gs_free_mib :: "py_float option"
  gs_allocated_mib :: "py_float option"
  gs_reserved_mib :: "py_float option"

text \<open>The three mandatory fields, when none is missing: free, allocated, reserved.\<close>

definition snapshot_values :: "gpu_snapshot option \<Rightarrow> (py_float \<times> py_float \<times> py_float) option" where
  "snapshot_values s =
     (case s of
        None \<Rightarrow> None
      | Some g \<Rightarrow>
        (case (gs_free_mib g, gs_allocated_mib g, gs_reserved_mib g) of
           (Some free, Some allocated, Some reserved) \<Rightarrow> Some (free, allocated, reserved)
         | _ \<Rightarrow> None))"

section \<open>What the supervisor observes\<close>

text \<open>
  One pass of the monitoring loop: the tree sample, the GPU snapshot, the performance clock, and
  what a heartbeat of this pass observes.
\<close>

record poll =
  po_sample :: tree_sample
  po_gpu :: "gpu_snapshot option"
  po_now :: py_float
  po_ob :: observation

datatype start_outcome = StartRaises string | Started "int option"

datatype result_file =
    NoResultFile
  | BadResultFile string "string option"
  | ResultFile task_result

record worker_world =
  ww_gpu_before :: "gpu_snapshot option"
  ww_start :: start_outcome
  ww_pid_ob :: observation
  ww_wall_started :: py_float
  ww_loop_started :: py_float
  ww_polls :: "poll list"
  ww_alive_after_join :: bool
  ww_alive_after_kill :: bool
  ww_alive_finally :: bool
  ww_exit_code :: "int option"
  ww_result :: result_file
  ww_started_at :: datetime
  ww_ended_at :: datetime
  ww_wall_seconds :: py_float

record monitor_params =
  mp_task :: task_spec
  mp_hard_ram_limit_mib :: int
  mp_soft_ram_limit_mib :: int
  mp_heartbeat_interval_seconds :: py_float
  mp_store :: "store_params option"
  mp_has_sampler :: bool
  mp_gpu_soft_limit_mib :: "int option"
  mp_fsub :: "py_float \<Rightarrow> py_float \<Rightarrow> py_float"
  mp_fixed1 :: "py_float \<Rightarrow> string"
  mp_fixed3 :: "py_float \<Rightarrow> string"
  mp_casefold :: "string \<Rightarrow> string"
  mp_error_text :: "error \<Rightarrow> string"

definition is_cuda :: "monitor_params \<Rightarrow> bool" where
  "is_cuda M \<longleftrightarrow> ci_device_policy (ts_cache_identity (mp_task M)) = Cuda"

record monitor =
  mo_category :: "failure_category option"
  mo_reason :: "string option"
  mo_peak_worker :: "py_float option"
  mo_peak_tree :: "py_float option"
  mo_cpu_peak :: "py_float option"
  mo_telemetry_samples :: nat
  mo_timed_out :: bool
  mo_soft_warning :: bool
  mo_hard_passed :: bool
  mo_gpu_free_before :: "py_float option"
  mo_gpu_allocated_peak :: "py_float option"
  mo_gpu_reserved_peak :: "py_float option"
  mo_gpu_samples :: nat
  mo_last_heartbeat :: py_float

definition fail_monitor :: "failure_category \<Rightarrow> string \<Rightarrow> monitor \<Rightarrow> monitor" where
  "fail_monitor c r m = m\<lparr>mo_category := Some c, mo_reason := Some r\<rparr>"

text \<open>\<open>max(value, peak or 0.0)\<close>.\<close>

definition peak :: "py_float \<Rightarrow> py_float option \<Rightarrow> py_float option" where
  "peak v p = Some (max v (case p of None \<Rightarrow> 0 | Some q \<Rightarrow> q))"

section \<open>The monitoring loop\<close>

text \<open>RAM: the first part of a pass. The Boolean says that the process was terminated.\<close>

definition poll_ram :: "monitor_params \<Rightarrow> poll \<Rightarrow> monitor \<Rightarrow> monitor \<times> bool" where
  "poll_ram M p m =
     (case po_sample p of
        (Some worker_rss, Some tree_rss, cpu) \<Rightarrow>
          (let m1 = m\<lparr>mo_telemetry_samples := Suc (mo_telemetry_samples m),
                 mo_peak_worker := peak worker_rss (mo_peak_worker m),
                 mo_peak_tree := peak tree_rss (mo_peak_tree m),
                 mo_soft_warning := mo_soft_warning m \<or> of_int (mp_soft_ram_limit_mib M) < tree_rss\<rparr>
           in if classify_resource_limits (Some tree_rss) None (of_int (mp_hard_ram_limit_mib M)) None \<noteq> None
              then (fail_monitor FAIL_RESOURCE_LIMIT (''process-tree RSS '' @ mp_fixed1 M tree_rss
                     @ '' MiB exceeded '' @ show_int (mp_hard_ram_limit_mib M) @ '' MiB hard limit'')
                     (m1\<lparr>mo_hard_passed := False\<rparr>), True)
              else (m1, False))
      | _ \<Rightarrow> (m, False))"

definition poll_cpu :: "poll \<Rightarrow> monitor \<Rightarrow> monitor" where
  "poll_cpu p m = (case snd (snd (po_sample p)) of
     None \<Rightarrow> m | Some c \<Rightarrow> m\<lparr>mo_cpu_peak := peak c (mo_cpu_peak m)\<rparr>)"

definition gpu_limit :: "monitor_params \<Rightarrow> py_float option" where
  "gpu_limit M = map_option of_int (mp_gpu_soft_limit_mib M)"

definition poll_gpu :: "monitor_params \<Rightarrow> poll \<Rightarrow> monitor \<Rightarrow> monitor \<times> bool" where
  "poll_gpu M p m =
     (if \<not> is_cuda M \<or> \<not> mp_has_sampler M then (m, False)
      else case snapshot_values (po_gpu p) of
        Some (free, allocated, reserved) \<Rightarrow>
          (let m1 = m\<lparr>mo_gpu_samples := Suc (mo_gpu_samples m),
                 mo_gpu_allocated_peak := peak allocated (mo_gpu_allocated_peak m),
                 mo_gpu_reserved_peak := peak reserved (mo_gpu_reserved_peak m)\<rparr>
           in if classify_resource_limits None (Some reserved) (of_int (mp_hard_ram_limit_mib M)) (gpu_limit M) \<noteq> None
              then (fail_monitor FAIL_RESOURCE_LIMIT (''reserved VRAM '' @ mp_fixed1 M reserved @ '' MiB exceeded ''
                     @ (case mp_gpu_soft_limit_mib M of None \<Rightarrow> ''None'' | Some l \<Rightarrow> show_int l) @ '' MiB hard limit'')
                     (m1\<lparr>mo_hard_passed := False\<rparr>), True)
              else (m1, False))
      | None \<Rightarrow> (fail_monitor FAIL_RESOURCE_MONITOR ''GPU telemetry became unavailable during worker execution'' m, True))"

definition poll_heartbeat ::
  "monitor_params \<Rightarrow> poll \<Rightarrow> monitor \<Rightarrow> state_file \<Rightarrow> (monitor \<times> state_file) \<times> unit result" where
  "poll_heartbeat M p m f =
     (case mp_store M of
        None \<Rightarrow> ((m, f), Inr ())
      | Some S \<Rightarrow>
        if mp_heartbeat_interval_seconds M \<le> mp_fsub M (po_now p) (mo_last_heartbeat m)
        then (case heartbeat S (po_ob p) (ts_task_id (mp_task M)) f of
                (f', Inl e) \<Rightarrow> ((m, f'), Inl e)
              | (f', Inr _) \<Rightarrow> ((m\<lparr>mo_last_heartbeat := po_now p\<rparr>, f'), Inr ()))
        else ((m, f), Inr ()))"

definition poll_timeout :: "monitor_params \<Rightarrow> py_float \<Rightarrow> poll \<Rightarrow> monitor \<Rightarrow> monitor \<times> bool" where
  "poll_timeout M wall_started p m =
     (if ts_timeout_seconds (mp_task M) < mp_fsub M (po_now p) wall_started
      then (fail_monitor FAIL_TIMEOUT (''worker exceeded '' @ mp_fixed3 M (ts_timeout_seconds (mp_task M))
              @ '' second timeout'') (m\<lparr>mo_timed_out := True\<rparr>), True)
      else (m, False))"

text \<open>
  The loop, over the polls: it is left when the process has exited (the list ends), when a pass
  terminates the worker, or when a heartbeat raises.
\<close>

fun monitor_loop ::
  "monitor_params \<Rightarrow> py_float \<Rightarrow> poll list \<Rightarrow> monitor \<Rightarrow> state_file \<Rightarrow> (monitor \<times> state_file) \<times> unit result" where
  "monitor_loop M started [] m f = ((m, f), Inr ())"
| "monitor_loop M started (p # ps) m f =
     (let (m1, stop1) = poll_ram M p m in
      if stop1 then ((m1, f), Inr ())
      else let (m2, stop2) = poll_gpu M p (poll_cpu p m1) in
      if stop2 then ((m2, f), Inr ())
      else (case poll_heartbeat M p m2 f of
              ((m3, f'), Inl e) \<Rightarrow> ((m3, f'), Inl e)
            | ((m3, f'), Inr _) \<Rightarrow>
                (let (m4, stop4) = poll_timeout M started p m3 in
                 if stop4 then ((m4, f'), Inr ()) else monitor_loop M started ps m4 f')))"

section \<open>The verdict\<close>

record worker_execution =
  we_passed :: bool
  we_resource :: resource_record
  we_result :: "task_result option"
  we_failure_category :: "failure_category option"
  we_failure_reason :: "string option"
  we_traceback :: "string option"

fun infix_of :: "string \<Rightarrow> string \<Rightarrow> bool" where
  "infix_of needle [] = (needle = [])"
| "infix_of needle (c # cs) = (take (length needle) (c # cs) = needle \<or> infix_of needle cs)"

definition cuda_oom :: "monitor_params \<Rightarrow> string \<Rightarrow> bool" where
  "cuda_oom M text \<longleftrightarrow> infix_of ''out of memory'' (mp_casefold M text) \<and> infix_of ''cuda'' (mp_casefold M text)"

text \<open>Reading the result file; the second component is the traceback of a rejected one.\<close>

definition accept_result ::
  "monitor_params \<Rightarrow> int \<Rightarrow> result_file \<Rightarrow> monitor \<Rightarrow> monitor \<times> task_result option \<times> string option" where
  "accept_result M pid file m =
     (let invalid = (\<lambda>name tb. (fail_monitor FAIL_MODEL_RUNTIME
            (''worker result is truncated or invalid: '' @ name) m, None, tb)) in
      if mo_category m \<noteq> None then (m, None, None)
      else case file of
        NoResultFile \<Rightarrow> (m, None, None)
      | BadResultFile name tb \<Rightarrow> invalid name tb
      | ResultFile r \<Rightarrow>
        (case validate_result r of
           Inl e \<Rightarrow> invalid ''ValidationError'' (tr_traceback r)
         | Inr _ \<Rightarrow>
           if tr_worker_pid r \<noteq> pid \<or> tr_task_id r \<noteq> ts_task_id (mp_task M)
           then invalid ''ValueError'' (tr_traceback r)
           else (m, Some r, None)))"

definition exit_text :: "int option \<Rightarrow> string" where
  "exit_text c = (case c of None \<Rightarrow> ''None'' | Some n \<Rightarrow> show_int n)"

definition result_error :: "task_result \<Rightarrow> string" where
  "result_error r = (case tr_error r of None \<Rightarrow> ''None'' | Some t \<Rightarrow> t)"

text \<open>What the result says: success, a worker failure, or no result at all.\<close>

definition judge_result ::
  "monitor_params \<Rightarrow> int option \<Rightarrow> task_result option \<Rightarrow> monitor \<Rightarrow> monitor" where
  "judge_result M exit_code result m =
     (case result of
        Some r \<Rightarrow>
          (let m1 = m\<lparr>mo_cpu_peak := peak (tr_cpu_seconds r) (mo_cpu_peak m)\<rparr> in
           if tr_ok r then m1
           else fail_monitor (if cuda_oom M (result_error r) then FAIL_CUDA_OOM else FAIL_MODEL_RUNTIME)
                  (result_error r) m1)
      | None \<Rightarrow>
          if mo_category m = None
          then fail_monitor FAIL_MODEL_RUNTIME
                 (''worker exited without a valid result (exit code '' @ exit_text exit_code @ '')'') m
          else m)"

text \<open>A nonzero exit after a good result; such a result has no error text (\<open>None\<close> is its \<open>str\<close>).\<close>

definition judge_exit :: "monitor_params \<Rightarrow> int option \<Rightarrow> task_result option \<Rightarrow> monitor \<Rightarrow> monitor" where
  "judge_exit M exit_code result m =
     (let error_text = (case result of None \<Rightarrow> [] | Some r \<Rightarrow> result_error r) in
      if mo_category m = None \<and> exit_code \<noteq> Some 0
      then (if cuda_oom M error_text
            then fail_monitor FAIL_CUDA_OOM
                   (if error_text = [] then ''CUDA worker exceeded available memory'' else error_text) m
            else fail_monitor FAIL_MODEL_RUNTIME (''worker exited with code '' @ exit_text exit_code) m)
      else m)"

definition judge_samples :: "monitor \<Rightarrow> monitor" where
  "judge_samples m =
     (if mo_telemetry_samples m = 0 \<and> mo_category m = None
      then fail_monitor FAIL_RESOURCE_MONITOR ''mandatory worker RAM telemetry is unavailable'' m
      else m)"

text \<open>
  Reaping: join, then kill, then the kill of the \<open>finally\<close> clause. The Boolean is
  \<open>cleanup_passed\<close> at the end.
\<close>

definition reap :: "worker_world \<Rightarrow> monitor \<Rightarrow> monitor \<times> bool" where
  "reap W m =
     (if \<not> ww_alive_after_join W then (m, True)
      else (if mo_category m = None
            then fail_monitor FAIL_RESOURCE_MONITOR ''worker could not be terminated and reaped'' m
            else m,
            \<not> ww_alive_after_kill W \<or> \<not> ww_alive_finally W))"

definition monitor_failed :: "monitor_params \<Rightarrow> error \<Rightarrow> monitor \<Rightarrow> monitor" where
  "monitor_failed M e m = fail_monitor FAIL_RESOURCE_MONITOR (''resource monitor failed: '' @ mp_error_text M e) m"

section \<open>The whole supervision\<close>

definition initial_monitor :: "monitor_params \<Rightarrow> worker_world \<Rightarrow> monitor" where
  "initial_monitor M W =
     \<lparr>mo_category = None, mo_reason = None, mo_peak_worker = None, mo_peak_tree = None, mo_cpu_peak = None,
      mo_telemetry_samples = 0, mo_timed_out = False, mo_soft_warning = False, mo_hard_passed = True,
      mo_gpu_free_before = None, mo_gpu_allocated_peak = None, mo_gpu_reserved_peak = None,
      mo_gpu_samples = 0, mo_last_heartbeat = ww_loop_started W\<rparr>"

text \<open>The GPU snapshot before the launch of a CUDA task; without it the worker is not started.\<close>

definition preflight :: "monitor_params \<Rightarrow> worker_world \<Rightarrow> monitor result" where
  "preflight M W =
     (let m = initial_monitor M W in
      if \<not> is_cuda M then Inr m
      else case snapshot_values (if mp_has_sampler M then ww_gpu_before W else None) of
        None \<Rightarrow> Inl (RuntimeError ''mandatory GPU telemetry is unavailable before worker launch'')
      | Some (free, allocated, reserved) \<Rightarrow>
          Inr (m\<lparr>mo_gpu_free_before := Some free, mo_gpu_allocated_peak := Some allocated,
                 mo_gpu_reserved_peak := Some reserved\<rparr>))"

text \<open>Start the process, record its ID, and watch it.\<close>

definition supervise ::
  "monitor_params \<Rightarrow> worker_world \<Rightarrow> monitor \<Rightarrow> state_file \<Rightarrow> (monitor \<times> state_file) \<times> int result" where
  "supervise M W m f =
     (case ww_start W of
        StartRaises t \<Rightarrow> ((m, f), Inl (OSError t))
      | Started None \<Rightarrow> ((m, f), Inl (RuntimeError ''spawned worker process has no PID''))
      | Started (Some pid) \<Rightarrow>
        (let (f1, recorded) = (case mp_store M of
               None \<Rightarrow> (f, Inr ())
             | Some S \<Rightarrow> set_worker_pid S (ww_pid_ob W) (ts_task_id (mp_task M)) pid f)
         in case recorded of
              Inl e \<Rightarrow> ((m, f1), Inl e)
            | Inr _ \<Rightarrow>
              (case monitor_loop M (ww_wall_started W) (ww_polls W) m f1 of
                 ((m', f2), Inl e) \<Rightarrow> ((m', f2), Inl e)
               | ((m', f2), Inr _) \<Rightarrow> ((m', f2), Inr pid))))"

text \<open>After the loop: reap the process, read its result and judge it.\<close>

definition conclude ::
  "monitor_params \<Rightarrow> worker_world \<Rightarrow> int \<Rightarrow> monitor \<Rightarrow> monitor \<times> bool \<times> task_result option \<times> string option" where
  "conclude M W pid m =
     (let (m1, cleaned) = reap W m;
          (m2, result, tb) = accept_result M pid (ww_result W) m1;
          m3 = judge_result M (ww_exit_code W) result m2;
          m4 = judge_samples (judge_exit M (ww_exit_code W) result m3)
      in (m4, cleaned, result, case result of Some r \<Rightarrow> tr_traceback r | None \<Rightarrow> tb))"

definition telemetry_complete :: "monitor_params \<Rightarrow> monitor \<Rightarrow> bool" where
  "telemetry_complete M m \<longleftrightarrow> 0 < mo_telemetry_samples m \<and> mo_peak_worker m \<noteq> None \<and> mo_peak_tree m \<noteq> None
     \<and> (\<not> is_cuda M \<or> (0 < mo_gpu_samples m \<and> mo_gpu_free_before m \<noteq> None
          \<and> mo_gpu_allocated_peak m \<noteq> None \<and> mo_gpu_reserved_peak m \<noteq> None))"

definition worker_pid_of :: "worker_world \<Rightarrow> int option" where
  "worker_pid_of W = (case ww_start W of Started pid \<Rightarrow> pid | StartRaises t \<Rightarrow> None)"

definition resource_of :: "worker_world \<Rightarrow> int option \<Rightarrow> bool \<Rightarrow> bool \<Rightarrow> monitor \<Rightarrow> resource_record" where
  "resource_of W pid whole cleaned m =
     \<lparr>rr_started_at = ww_started_at W, rr_ended_at = ww_ended_at W, rr_wall_seconds = max 0 (ww_wall_seconds W),
      rr_cpu_seconds = mo_cpu_peak m, rr_worker_pid = pid, rr_exit_code = (if pid = None then None else ww_exit_code W),
      rr_peak_worker_rss_mib = mo_peak_worker m, rr_peak_process_tree_rss_mib = mo_peak_tree m,
      rr_gpu_allocated_mib = mo_gpu_allocated_peak m, rr_gpu_reserved_mib = mo_gpu_reserved_peak m,
      rr_gpu_free_before_mib = mo_gpu_free_before m, rr_timed_out = mo_timed_out m,
      rr_soft_limit_warning = mo_soft_warning m, rr_hard_limit_passed = mo_hard_passed m,
      rr_cleanup_passed = cleaned, rr_telemetry_complete = whole,
      rr_failure_category = mo_category m, rr_failure_reason = mo_reason m\<rparr>"

definition finish_execution ::
  "monitor_params \<Rightarrow> worker_world \<Rightarrow> int option \<Rightarrow> bool \<Rightarrow> task_result option \<Rightarrow> string option \<Rightarrow> monitor
   \<Rightarrow> worker_execution result" where
  "finish_execution M W pid cleaned result tb m =
     (let whole = telemetry_complete M m;
          m' = (if \<not> whole \<and> mo_category m = None
                then fail_monitor FAIL_RESOURCE_MONITOR ''mandatory worker resource telemetry is incomplete'' m
                else m)
      in bindr (validate_resource (resource_of W pid whole cleaned m')) (\<lambda>resource.
         Inr \<lparr>we_passed = (mo_category m' = None \<and> whole \<and> cleaned), we_resource = resource,
           we_result = result, we_failure_category = mo_category m', we_failure_reason = mo_reason m',
           we_traceback = tb\<rparr>))"

definition execute_isolated_worker ::
  "monitor_params \<Rightarrow> worker_world \<Rightarrow> state_file \<Rightarrow> state_file \<times> worker_execution result" where
  "execute_isolated_worker M W f =
     (case preflight M W of
        Inl e \<Rightarrow> (f, finish_execution M W None True None None (monitor_failed M e (initial_monitor M W)))
      | Inr m \<Rightarrow>
        (case supervise M W m f of
           ((m', f'), Inl e) \<Rightarrow>
             (f', finish_execution M W (worker_pid_of W)
                    (worker_pid_of W = None \<or> \<not> ww_alive_after_join W \<or> \<not> ww_alive_finally W) None None
                    (monitor_failed M e m'))
         | ((m', f'), Inr pid) \<Rightarrow>
             (case conclude M W pid m' of
                (m'', cleaned, result, tb) \<Rightarrow>
                  (f', finish_execution M W (Some pid) cleaned result tb m''))))"

end
