(* ===== verification/Resources_Facts.thy ===== *)
theory Resources_Facts
  imports Resources
begin

text \<open>
  Facts on the supervision of a worker: the flags of the monitor always agree with its failure
  category, every execution record passes its contract, and a passing execution saw no breach.
\<close>

section \<open>The monitor\<close>

definition opt_nonneg :: "py_float option \<Rightarrow> bool" where
  "opt_nonneg x = (case x of None \<Rightarrow> True | Some v \<Rightarrow> 0 \<le> v)"

definition peaks_ok :: "monitor \<Rightarrow> bool" where
  "peaks_ok m \<longleftrightarrow> opt_nonneg (mo_peak_worker m) \<and> opt_nonneg (mo_peak_tree m) \<and> opt_nonneg (mo_cpu_peak m)
     \<and> opt_nonneg (mo_gpu_allocated_peak m) \<and> opt_nonneg (mo_gpu_reserved_peak m)
     \<and> opt_nonneg (mo_gpu_free_before m)"

definition calm_flags :: "monitor \<Rightarrow> bool" where
  "calm_flags m \<longleftrightarrow> mo_category m = None \<and> mo_hard_passed m \<and> \<not> mo_timed_out m \<and> peaks_ok m"

definition flagged :: "monitor \<Rightarrow> bool" where
  "flagged m \<longleftrightarrow> peaks_ok m \<and> (mo_timed_out m \<longrightarrow> mo_category m = Some FAIL_TIMEOUT)
     \<and> (\<not> mo_hard_passed m \<longrightarrow> mo_category m = Some FAIL_RESOURCE_LIMIT)"

lemma opt_nonneg_simps [simp]: "opt_nonneg None" "opt_nonneg (Some v) \<longleftrightarrow> 0 \<le> v"
  by (simp_all add: opt_nonneg_def)

lemma opt_nonneg_peak [simp]: "opt_nonneg p \<Longrightarrow> opt_nonneg (peak v p)"
  by (cases p) (auto simp: peak_def)

lemma flagged_None: "flagged m \<and> mo_category m = None \<longleftrightarrow> calm_flags m"
  by (auto simp: flagged_def calm_flags_def)

lemma fail_monitor_simps [simp]:
  "mo_category (fail_monitor c r m) = Some c" "mo_hard_passed (fail_monitor c r m) = mo_hard_passed m"
  "mo_timed_out (fail_monitor c r m) = mo_timed_out m" "peaks_ok (fail_monitor c r m) = peaks_ok m"
  "mo_telemetry_samples (fail_monitor c r m) = mo_telemetry_samples m"
  by (simp_all add: fail_monitor_def peaks_ok_def)

lemma flagged_fail: "calm_flags m \<Longrightarrow> flagged (fail_monitor c r m)"
  by (simp add: flagged_def calm_flags_def)

section \<open>One pass\<close>

definition ram_calm :: "monitor_params \<Rightarrow> poll \<Rightarrow> bool" where
  "ram_calm M p = (case po_sample p of (Some w, Some t, c) \<Rightarrow> t \<le> of_int (mp_hard_ram_limit_mib M) | _ \<Rightarrow> True)"

definition gpu_calm :: "monitor_params \<Rightarrow> poll \<Rightarrow> bool" where
  "gpu_calm M p \<longleftrightarrow> is_cuda M \<and> mp_has_sampler M \<longrightarrow>
     (case snapshot_values (po_gpu p) of None \<Rightarrow> False
        | Some (free, allocated, reserved) \<Rightarrow>
            (case mp_gpu_soft_limit_mib M of None \<Rightarrow> True | Some l \<Rightarrow> reserved \<le> of_int l))"

definition poll_calm :: "monitor_params \<Rightarrow> py_float \<Rightarrow> poll \<Rightarrow> bool" where
  "poll_calm M started p \<longleftrightarrow> ram_calm M p \<and> gpu_calm M p
     \<and> mp_fsub M (po_now p) started \<le> ts_timeout_seconds (mp_task M)"

lemma poll_ram_ok:
  assumes "calm_flags m" and "poll_ram M p m = (m', stop)"
  shows "flagged m' \<and> (if stop then mo_category m' \<noteq> None else calm_flags m' \<and> ram_calm M p)"
proof (cases "po_sample p")
  case (fields w t c)
  show ?thesis
    using assms fields
    by (cases w; cases t)
      (auto simp: poll_ram_def ram_calm_def Let_def classify_resource_limits_def calm_flags_def flagged_def
        peaks_ok_def fail_monitor_def split: if_splits)
qed

lemma poll_cpu_ok: "calm_flags m \<Longrightarrow> calm_flags (poll_cpu p m)"
  by (auto simp: poll_cpu_def calm_flags_def peaks_ok_def split: option.split)

lemma poll_gpu_ok:
  assumes "calm_flags m" and "poll_gpu M p m = (m', stop)"
  shows "flagged m' \<and> (if stop then mo_category m' \<noteq> None else calm_flags m' \<and> gpu_calm M p)"
proof (cases "\<not> is_cuda M \<or> \<not> mp_has_sampler M")
  case True
  with assms show ?thesis using flagged_None [of m] by (auto simp: poll_gpu_def gpu_calm_def)
next
  case False
  show ?thesis
  proof (cases "snapshot_values (po_gpu p)")
    case None
    with False assms show ?thesis by (auto simp: poll_gpu_def flagged_def calm_flags_def)
  next
    case (Some g)
    with False assms show ?thesis
      by (cases g; cases "mp_gpu_soft_limit_mib M")
        (auto simp: poll_gpu_def gpu_calm_def Let_def classify_resource_limits_def gpu_limit_def calm_flags_def
          flagged_def peaks_ok_def fail_monitor_def split: if_splits)
  qed
qed

lemma poll_heartbeat_ok:
  assumes "calm_flags m" and "poll_heartbeat M p m f = ((m', f'), r)"
  shows "calm_flags m'"
  using assms
  by (auto simp: poll_heartbeat_def calm_flags_def peaks_ok_def split: option.splits if_splits prod.splits sum.splits)

lemma poll_timeout_ok:
  assumes "calm_flags m" and "poll_timeout M started p m = (m', stop)"
  shows "flagged m' \<and> (if stop then mo_category m' \<noteq> None
    else calm_flags m' \<and> mp_fsub M (po_now p) started \<le> ts_timeout_seconds (mp_task M))"
  using assms
  by (auto simp: poll_timeout_def calm_flags_def flagged_def peaks_ok_def fail_monitor_def split: if_splits)

section \<open>The loop\<close>

lemma monitor_loop_ok:
  assumes "calm_flags m" and "monitor_loop M started ps m f = ((m', f'), r)"
  shows "flagged m' \<and> (case r of
      Inl e \<Rightarrow> calm_flags m'
    | Inr _ \<Rightarrow> mo_category m' = None \<longrightarrow> list_all (poll_calm M started) ps)"
  using assms
proof (induction ps arbitrary: m f)
  case Nil
  then show ?case using flagged_None by auto
next
  case (Cons p ps)
  obtain m1 s1 where ram: "poll_ram M p m = (m1, s1)" by (cases "poll_ram M p m")
  note r1 = poll_ram_ok [OF Cons.prems(1) ram]
  show ?case
  proof (cases s1)
    case True
    with Cons.prems(2) ram r1 show ?thesis by auto
  next
    case s1: False
    obtain m2 s2 where gpu: "poll_gpu M p (poll_cpu p m1) = (m2, s2)" by (cases "poll_gpu M p (poll_cpu p m1)")
    have r2: "flagged m2 \<and> (if s2 then mo_category m2 \<noteq> None else calm_flags m2 \<and> gpu_calm M p)"
      using r1 s1 by (intro poll_gpu_ok [OF poll_cpu_ok gpu]) simp
    show ?thesis
    proof (cases s2)
      case True
      with Cons.prems(2) ram gpu s1 r2 show ?thesis by auto
    next
      case s2: False
      obtain m3 f3 h where hb: "poll_heartbeat M p m2 f = ((m3, f3), h)"
        by (cases "poll_heartbeat M p m2 f") auto
      have c3: "calm_flags m3" using r2 s2 by (intro poll_heartbeat_ok [OF _ hb]) simp
      show ?thesis
      proof (cases h)
        case (Inl e)
        with Cons.prems(2) ram gpu s1 s2 hb c3 flagged_None [of m3] show ?thesis by auto
      next
        case h: (Inr u)
        obtain m4 s4 where to: "poll_timeout M started p m3 = (m4, s4)" by (cases "poll_timeout M started p m3")
        note r4 = poll_timeout_ok [OF c3 to]
        show ?thesis
        proof (cases s4)
          case True
          with Cons.prems(2) ram gpu s1 s2 hb h to r4 show ?thesis by auto
        next
          case s4: False
          have loop: "monitor_loop M started ps m4 f3 = ((m', f'), r)"
            using Cons.prems(2) ram gpu s1 s2 hb h to s4 by simp
          have "flagged m' \<and> (case r of Inl e \<Rightarrow> calm_flags m'
              | Inr _ \<Rightarrow> mo_category m' = None \<longrightarrow> list_all (poll_calm M started) ps)"
            using r4 s4 by (intro Cons.IH [OF _ loop]) simp
          moreover have "poll_calm M started p" using r1 r2 r4 s1 s2 s4 by (simp add: poll_calm_def)
          ultimately show ?thesis by (cases r) auto
        qed
      qed
    qed
  qed
qed

section \<open>The verdict\<close>

lemma validate_result_id: "validate_result r = Inr r' \<Longrightarrow> r' = r"
  by (auto simp: validate_result_def guards_Inr_iff)

definition clean_result :: "monitor_params \<Rightarrow> worker_world \<Rightarrow> int \<Rightarrow> task_result option \<Rightarrow> bool" where
  "clean_result M W pid result \<longleftrightarrow> (\<exists>r. result = Some r \<and> ww_result W = ResultFile r \<and> validate_result r = Inr r
     \<and> tr_worker_pid r = pid \<and> tr_task_id r = ts_task_id (mp_task M))"

lemma reap_ok:
  assumes "flagged m" and "reap W m = (m', cleaned)"
  shows "flagged m' \<and> (mo_category m' = None \<longrightarrow> m' = m)"
  using assms flagged_None [of m] flagged_fail [of m] by (auto simp: reap_def split: if_splits)

lemma accept_result_ok:
  assumes "flagged m" and "accept_result M pid file m = (m', result, tb)" and "file = ww_result W"
  shows "flagged m' \<and> (result \<noteq> None \<longrightarrow> calm_flags m' \<and> clean_result M W pid result)
    \<and> (mo_category m' = None \<longrightarrow> m' = m)"
proof (cases "mo_category m = None")
  case False
  with assms show ?thesis by (auto simp: accept_result_def)
next
  case True
  with assms(1) have calm: "calm_flags m" using flagged_None by blast
  with True assms flagged_fail [OF calm] show ?thesis
    by (auto simp: accept_result_def clean_result_def Let_def split: result_file.splits sum.splits if_splits
        dest: validate_result_id)
qed

lemma judge_result_ok:
  assumes "flagged m" and "result \<noteq> None \<longrightarrow> calm_flags m"
  shows "flagged (judge_result M code result m)
    \<and> (mo_category (judge_result M code result m) = None \<longrightarrow> mo_category m = None \<and> (\<exists>r. result = Some r \<and> tr_ok r)
        \<and> mo_telemetry_samples (judge_result M code result m) = mo_telemetry_samples m)"
proof (cases result)
  case None
  with assms flagged_None [of m] flagged_fail [of m] show ?thesis by (auto simp: judge_result_def)
next
  case (Some r)
  then have "calm_flags (m\<lparr>mo_cpu_peak := peak (tr_cpu_seconds r) (mo_cpu_peak m)\<rparr>)"
    using assms(2) by (simp add: calm_flags_def peaks_ok_def)
  with Some flagged_fail [OF this] flagged_None assms(2) show ?thesis
    by (auto simp: judge_result_def Let_def calm_flags_def flagged_def)
qed

lemma judge_exit_ok:
  assumes "flagged m"
  shows "flagged (judge_exit M code result m)
    \<and> (mo_category (judge_exit M code result m) = None \<longrightarrow> judge_exit M code result m = m \<and> code = Some 0)"
  using assms flagged_None [of m] flagged_fail [of m] by (auto simp: judge_exit_def Let_def)

lemma judge_samples_ok:
  assumes "flagged m"
  shows "flagged (judge_samples m)
    \<and> (mo_category (judge_samples m) = None \<longrightarrow> judge_samples m = m \<and> 0 < mo_telemetry_samples m)"
  using assms flagged_None [of m] flagged_fail [of m] by (auto simp: judge_samples_def)

lemma conclude_ok:
  assumes "flagged m" and "conclude M W pid m = (m', cleaned, result, tb)"
  shows "flagged m' \<and> (mo_category m' = None \<longrightarrow> mo_category m = None \<and> ww_exit_code W = Some 0
      \<and> 0 < mo_telemetry_samples m \<and> clean_result M W pid result \<and> (\<exists>r. result = Some r \<and> tr_ok r))"
proof -
  obtain m1 c where r: "reap W m = (m1, c)" by (cases "reap W m")
  obtain m2 res tb2 where a: "accept_result M pid (ww_result W) m1 = (m2, res, tb2)"
    by (cases "accept_result M pid (ww_result W) m1")
  let ?m3 = "judge_result M (ww_exit_code W) res m2"
  let ?m4 = "judge_exit M (ww_exit_code W) res ?m3"
  have eq: "m' = judge_samples ?m4" "result = res"
    using assms(2) r a by (auto simp: conclude_def)
  note f1 = reap_ok [OF assms(1) r]
  note f2 = accept_result_ok [OF conjunct1 [OF f1] a refl]
  have f3: "flagged ?m3 \<and> (mo_category ?m3 = None \<longrightarrow> mo_category m2 = None \<and> (\<exists>r. res = Some r \<and> tr_ok r)
      \<and> mo_telemetry_samples ?m3 = mo_telemetry_samples m2)"
    using f2 by (intro judge_result_ok) auto
  note f4 = judge_exit_ok [OF conjunct1 [OF f3], of M "ww_exit_code W" res]
  note f5 = judge_samples_ok [OF conjunct1 [OF f4]]
  show ?thesis
  proof (intro conjI impI)
    show "flagged m'" using f5 eq by simp
    assume "mo_category m' = None"
    then have n4: "mo_category ?m4 = None" and s: "0 < mo_telemetry_samples ?m4" using f5 eq by auto
    then have e3: "?m4 = ?m3" and "ww_exit_code W = Some 0" using f4 by auto
    then show "ww_exit_code W = Some 0" by simp
    have n3: "mo_category m2 = None" "\<exists>r. res = Some r \<and> tr_ok r" "mo_telemetry_samples ?m3 = mo_telemetry_samples m2"
      using f3 n4 e3 by auto
    then have "m2 = m" using f1 f2 by auto
    with n3 s e3 show "mo_category m = None" "0 < mo_telemetry_samples m" by auto
    from n3 f2 show "clean_result M W pid result" "\<exists>r. result = Some r \<and> tr_ok r" by (auto simp: eq)
  qed
qed

section \<open>Records\<close>

text \<open>What the world must look like for a record to pass: sane clocks and readings.\<close>

definition sane_world :: "worker_world \<Rightarrow> bool" where
  "sane_world W \<longleftrightarrow> utc_offset (ww_started_at W) \<noteq> None \<and> utc_offset (ww_ended_at W) \<noteq> None
     \<and> instant (ww_started_at W) \<le> instant (ww_ended_at W)
     \<and> (case worker_pid_of W of None \<Rightarrow> True | Some p \<Rightarrow> 0 < p)
     \<and> (case snapshot_values (ww_gpu_before W) of None \<Rightarrow> True | Some (a, b, c) \<Rightarrow> 0 \<le> a \<and> 0 \<le> b \<and> 0 \<le> c)"

lemma below_zero_nonneg: "below_zero x = (\<not> opt_nonneg x)"
  by (auto simp: below_zero_def opt_nonneg_def split: option.split)

lemma resource_valid:
  assumes "flagged m" and "sane_world W" and "pid = None \<or> pid = worker_pid_of W"
    and peaks: "whole \<longrightarrow> mo_peak_worker m \<noteq> None \<and> mo_peak_tree m \<noteq> None"
  shows "validate_resource (resource_of W pid whole cleaned m) = Inr (resource_of W pid whole cleaned m)"
proof -
  have pid: "\<not> (case pid of None \<Rightarrow> False | Some p \<Rightarrow> p \<le> 0)"
    using assms(2,3) by (cases "worker_pid_of W") (auto simp: sane_world_def)
  have "opt_nonneg (mo_cpu_peak m)" "opt_nonneg (mo_peak_worker m)" "opt_nonneg (mo_peak_tree m)"
    "opt_nonneg (mo_gpu_allocated_peak m)" "opt_nonneg (mo_gpu_reserved_peak m)" "opt_nonneg (mo_gpu_free_before m)"
    "\<not> (mo_timed_out m \<and> mo_category m \<noteq> Some FAIL_TIMEOUT)"
    "\<not> (\<not> mo_hard_passed m \<and> mo_category m \<noteq> Some FAIL_RESOURCE_LIMIT)"
    using assms(1) unfolding flagged_def peaks_ok_def by blast+
  moreover have "utc_offset (ww_started_at W) \<noteq> None" "utc_offset (ww_ended_at W) \<noteq> None"
    "\<not> instant (ww_ended_at W) < instant (ww_started_at W)"
    using assms(2) by (simp_all add: sane_world_def)
  moreover have "\<not> (max 0 (ww_wall_seconds W) < 0)" by simp
  moreover have "\<not> (whole \<and> pid \<noteq> None \<and> (mo_peak_worker m = None \<or> mo_peak_tree m = None))"
    using peaks by blast
  ultimately show ?thesis
    using pid
    by (simp only: validate_resource_def resource_of_def resource_record.simps below_zero_nonneg guards.simps if_False simp_thms)
qed

lemma finish_execution_ok:
  assumes "flagged m" and "sane_world W" and "pid = None \<or> pid = worker_pid_of W"
  shows "\<exists>we. finish_execution M W pid cleaned result tb m = Inr we
    \<and> validate_resource (we_resource we) = Inr (we_resource we)
    \<and> rr_failure_category (we_resource we) = we_failure_category we
    \<and> we_result we = result \<and> rr_worker_pid (we_resource we) = pid
    \<and> (we_passed we \<longrightarrow> mo_category m = None \<and> cleaned \<and> rr_telemetry_complete (we_resource we)
        \<and> we_failure_category we = None)
    \<and> (\<not> we_passed we \<longrightarrow> we_failure_category we \<noteq> None \<or> \<not> cleaned)"
proof -
  let ?c = "telemetry_complete M m"
  let ?m = "if \<not> ?c \<and> mo_category m = None
    then fail_monitor FAIL_RESOURCE_MONITOR ''mandatory worker resource telemetry is incomplete'' m else m"
  have fl: "flagged ?m" using assms(1) flagged_None [of m] flagged_fail [of m] by auto
  have "?c \<longrightarrow> mo_peak_worker ?m \<noteq> None \<and> mo_peak_tree ?m \<noteq> None"
    by (auto simp: telemetry_complete_def)
  from resource_valid [OF fl assms(2,3) this]
  have v: "validate_resource (resource_of W pid ?c cleaned ?m) = Inr (resource_of W pid ?c cleaned ?m)" .
  then show ?thesis
    by (auto simp: finish_execution_def Let_def resource_of_def)
qed

lemma snapshot_values_None [simp]: "snapshot_values None = None"
  by (simp add: snapshot_values_def)

lemma preflight_ok:
  assumes "preflight M W = Inr m" and "sane_world W"
  shows "calm_flags m \<and> mo_telemetry_samples m = 0"
  using assms
  by (auto simp: preflight_def Let_def initial_monitor_def calm_flags_def peaks_ok_def sane_world_def
      split: if_splits option.splits)

lemma initial_calm: "calm_flags (initial_monitor M W)"
  by (simp add: initial_monitor_def calm_flags_def peaks_ok_def)

lemma supervise_ok:
  assumes "calm_flags m" and "supervise M W m f = ((m', f'), r)"
  shows "flagged m' \<and> (case r of Inl e \<Rightarrow> calm_flags m'
    | Inr pid \<Rightarrow> worker_pid_of W = Some pid \<and>
        (mo_category m' = None \<longrightarrow> list_all (poll_calm M (ww_wall_started W)) (ww_polls W)))"
proof (cases "\<exists>pid f1. ww_start W = Started (Some pid) \<and> (case mp_store M of None \<Rightarrow> (f, Inr ())
      | Some S \<Rightarrow> set_worker_pid S (ww_pid_ob W) (ts_task_id (mp_task M)) pid f) = (f1, Inr ())")
  case True
  then obtain pid f1 where h: "ww_start W = Started (Some pid)" "(case mp_store M of None \<Rightarrow> (f, Inr ())
      | Some S \<Rightarrow> set_worker_pid S (ww_pid_ob W) (ts_task_id (mp_task M)) pid f) = (f1, Inr ())" by blast
  obtain m2 f2 u where l: "monitor_loop M (ww_wall_started W) (ww_polls W) m f1 = ((m2, f2), u)"
    by (cases "monitor_loop M (ww_wall_started W) (ww_polls W) m f1") auto
  from monitor_loop_ok [OF assms(1) l] assms(2) h l show ?thesis
    by (cases u) (auto simp: supervise_def worker_pid_of_def)
next
  case False
  then have "m' = m \<and> (\<exists>e. r = Inl e)"
    using assms(2)
    by (auto simp: supervise_def Let_def split: start_outcome.splits option.splits prod.splits sum.splits)
  with assms(1) flagged_None [of m] show ?thesis by auto
qed

section \<open>What a passing execution guarantees\<close>

lemma execute_cases:
  obtains (preflight) e where "preflight M W = Inl e" and "execute_isolated_worker M W f =
      (f, finish_execution M W None True None None (monitor_failed M e (initial_monitor M W)))"
  | (raised) m m' f' e c where "preflight M W = Inr m" and "supervise M W m f = ((m', f'), Inl e)"
      and "execute_isolated_worker M W f =
        (f', finish_execution M W (worker_pid_of W) c None None (monitor_failed M e m'))"
  | (watched) m m' f' pid m'' c r tb where "preflight M W = Inr m" and "supervise M W m f = ((m', f'), Inr pid)"
      and "conclude M W pid m' = (m'', c, r, tb)"
      and "execute_isolated_worker M W f = (f', finish_execution M W (Some pid) c r tb m'')"
proof (cases "preflight M W")
  case (Inl e)
  then show thesis by (intro that(1)) (simp_all add: execute_isolated_worker_def)
next
  case m: (Inr m)
  obtain m' f' r where s: "supervise M W m f = ((m', f'), r)" by (cases "supervise M W m f") auto
  show thesis
  proof (cases r)
    case (Inl e)
    with m s show thesis by (intro that(2)) (simp_all add: execute_isolated_worker_def)
  next
    case (Inr pid)
    obtain m'' c res tb where "conclude M W pid m' = (m'', c, res, tb)" by (cases "conclude M W pid m'")
    with m s Inr show thesis by (intro that(3)) (simp_all add: execute_isolated_worker_def)
  qed
qed

lemma monitor_failed_ok: "calm_flags m \<Longrightarrow> flagged (monitor_failed M e m) \<and> mo_category (monitor_failed M e m) \<noteq> None"
  by (simp add: monitor_failed_def flagged_fail)

text \<open>A monitoring error gives a valid failing record.\<close>

lemma finish_failed:
  assumes "calm_flags m" and "sane_world W" and "pid = None \<or> pid = worker_pid_of W"
  shows "\<exists>we. finish_execution M W pid c None None (monitor_failed M e m) = Inr we
    \<and> validate_resource (we_resource we) = Inr (we_resource we)
    \<and> rr_failure_category (we_resource we) = we_failure_category we \<and> \<not> we_passed we"
proof -
  note f = monitor_failed_ok [OF assms(1), of M e]
  from finish_execution_ok [OF conjunct1 [OF f] assms(2,3), of M c None None] obtain we where
    "finish_execution M W pid c None None (monitor_failed M e m) = Inr we"
    "validate_resource (we_resource we) = Inr (we_resource we)"
    "rr_failure_category (we_resource we) = we_failure_category we"
    "\<not> we_passed we" using conjunct2 [OF f] by (elim exE conjE) (rule that; auto)
  then show ?thesis by (intro exI [of _ we]) simp
qed

lemma execute_result:
  assumes "sane_world W"
  shows "\<exists>f' we. execute_isolated_worker M W f = (f', Inr we)
    \<and> validate_resource (we_resource we) = Inr (we_resource we)
    \<and> rr_failure_category (we_resource we) = we_failure_category we
    \<and> (we_passed we \<longrightarrow> we_failure_category we = None
        \<and> list_all (poll_calm M (ww_wall_started W)) (ww_polls W) \<and> ww_exit_code W = Some 0
        \<and> rr_telemetry_complete (we_resource we)
        \<and> (\<exists>pid r. worker_pid_of W = Some pid \<and> we_result we = Some r \<and> tr_ok r \<and> clean_result M W pid (Some r)))"
proof (cases rule: execute_cases [of M W f])
  case (preflight e)
  with finish_failed [OF initial_calm [of M W] assms, of None M True e] show ?thesis by auto
next
  case (raised m m' f' e c)
  with supervise_ok [OF conjunct1 [OF preflight_ok [OF raised(1) assms]] raised(2)]
  have "calm_flags m'" by simp
  with finish_failed [OF this assms, of "worker_pid_of W" M c e] raised(3) show ?thesis by auto
next
  case (watched m m' f' pid m'' c r tb)
  with supervise_ok [OF conjunct1 [OF preflight_ok [OF watched(1) assms]] watched(2)]
  have s: "flagged m'" "worker_pid_of W = Some pid"
    "mo_category m' = None \<Longrightarrow> list_all (poll_calm M (ww_wall_started W)) (ww_polls W)" by simp_all
  note c = conclude_ok [OF s(1) watched(3)]
  from finish_execution_ok [OF conjunct1 [OF c] assms, of "Some pid" M c r tb] s(2) obtain we where
    we: "finish_execution M W (Some pid) c r tb m'' = Inr we"
      "validate_resource (we_resource we) = Inr (we_resource we)"
      "rr_failure_category (we_resource we) = we_failure_category we" "we_result we = r"
      "we_passed we \<Longrightarrow> mo_category m'' = None \<and> rr_telemetry_complete (we_resource we)
          \<and> we_failure_category we = None" by auto
  have "we_passed we \<Longrightarrow> list_all (poll_calm M (ww_wall_started W)) (ww_polls W) \<and> ww_exit_code W = Some 0
      \<and> (\<exists>r'. r = Some r' \<and> tr_ok r' \<and> clean_result M W pid (Some r'))"
    using we(5) c s(3) by auto
  with we watched(4) s(2) show ?thesis by auto
qed

end
