(* ===== verification/Worker.thy ===== *)
theory Worker
  imports Resources_Facts
begin

text \<open>
  \<open>src/schemaguard/runner/worker.py\<close>: the spawned worker process. Its effects are the two files
  it writes and how it ends; the text of a payload, the process ID, clocks and the texts of an
  exception are arguments. The audit hook refuses every network connection.
\<close>

section \<open>Threads\<close>

definition thread_names :: "string list" where
  "thread_names = [''OMP_NUM_THREADS'', ''MKL_NUM_THREADS'', ''OPENBLAS_NUM_THREADS'', ''NUMEXPR_NUM_THREADS'']"

type_synonym environ = "(string \<times> string) list"

definition configure_worker_threads :: "environ \<Rightarrow> environ" where
  "configure_worker_threads env = foldl (\<lambda>e name. AList.update name ''2'' e) env thread_names"

definition thread_environment :: "environ \<Rightarrow> (string \<times> string option) list" where
  "thread_environment env = map (\<lambda>name. (name, map_of env name)) thread_names"

section \<open>The worker\<close>

record worker_clock =
  wc_pid :: int
  wc_rss_mib :: "py_float option"
  wc_cpu_seconds :: py_float
  wc_worker_seconds :: py_float
  wc_traceback :: string

record worker_files =
  wf_output :: "string option"
  wf_result :: "task_result option"

datatype worker_end = WorkerReturns | WorkerExits int

text \<open>\<open>deny_network\<close>: an attempt is counted and refused; other audit events pass.\<close>

definition deny_network :: "string \<Rightarrow> nat \<Rightarrow> nat \<times> unit result" where
  "deny_network event attempts =
     (if event \<in> {''socket.connect'', ''socket.getaddrinfo''}
      then (Suc attempts, Inl (OSError ''PermissionError: offline scheduler worker forbids network access''))
      else (attempts, Inr ()))"

text \<open>
  The operation of the task up to the payload: exit codes are returned as \<open>Inl\<close>, and an
  exception is the error of the result inside.
\<close>

fun run_operation :: "operation \<Rightarrow> nat \<times> (int + unit result)" where
  "run_operation ExitWithoutResult = (0, Inl 17)"
| "run_operation PartialExit = (0, Inl 18)"
| "run_operation NetworkAttempt = (let (n, r) = deny_network ''socket.getaddrinfo'' 0 in (n, Inr r))"
| "run_operation RaiseError = (0, Inr (Inl (RuntimeError ''injected worker exception'')))"
| "run_operation Sleep = (0, Inr (Inr ()))"
| "run_operation SyntheticPayload = (0, Inr (Inr ()))"

definition worker_payload :: "(string \<Rightarrow> string) \<Rightarrow> environ \<Rightarrow> task_spec \<Rightarrow> json" where
  "worker_payload sha env t = JObj [
     (''schema_version'', JInt 1),
     (''task_id'', JStr (ts_task_id t)),
     (''cache_key'', JStr (sha (dumps (canonicalize (identity_json (ts_cache_identity t)))))),
     (''payload_token'', JStr (ts_payload_token t)),
     (''thread_environment'', JObj (map (\<lambda>(n, v). (n, case v of None \<Rightarrow> JNull | Some x \<Rightarrow> JStr x))
        (thread_environment env)))]"

definition success_result ::
  "(string \<Rightarrow> string) \<Rightarrow> worker_clock \<Rightarrow> environ \<Rightarrow> task_spec \<Rightarrow> nat \<Rightarrow> string \<Rightarrow> task_result" where
  "success_result sha c env t attempts payload =
     \<lparr>tr_schema_version = 1, tr_ok = True, tr_task_id = ts_task_id t, tr_payload_sha256 = Some (sha payload),
      tr_payload_size_bytes = Some (int (length payload)), tr_worker_pid = wc_pid c,
      tr_worker_rss_mib = wc_rss_mib c, tr_cpu_seconds = max 0 (wc_cpu_seconds c),
      tr_worker_seconds = max 0 (wc_worker_seconds c), tr_network_attempt_count = int attempts,
      tr_thread_environment = thread_environment env, tr_error = None, tr_traceback = None\<rparr>"

definition failure_result :: "worker_clock \<Rightarrow> task_spec \<Rightarrow> nat \<Rightarrow> string \<Rightarrow> task_result" where
  "failure_result c t attempts message =
     \<lparr>tr_schema_version = 1, tr_ok = False, tr_task_id = ts_task_id t, tr_payload_sha256 = None,
      tr_payload_size_bytes = None, tr_worker_pid = wc_pid c,
      tr_worker_rss_mib = None, tr_cpu_seconds = max 0 (wc_cpu_seconds c),
      tr_worker_seconds = max 0 (wc_worker_seconds c), tr_network_attempt_count = int attempts,
      tr_thread_environment = [], tr_error = Some message, tr_traceback = Some (wc_traceback c)\<rparr>"

definition worker_entry ::
  "(string \<Rightarrow> string) \<Rightarrow> (json \<Rightarrow> string) \<Rightarrow> (error \<Rightarrow> string) \<Rightarrow> worker_clock \<Rightarrow> environ \<Rightarrow> task_spec
   \<Rightarrow> worker_files \<times> worker_end" where
  "worker_entry sha render message c env0 t =
     (let env = configure_worker_threads env0 in
      case run_operation (ts_operation t) of
        (n, Inl code) \<Rightarrow>
          (\<lparr>wf_output = (if ts_operation t = PartialExit then Some ''uncommitted-partial-payload'' else None),
            wf_result = None\<rparr>, WorkerExits code)
      | (n, Inr (Inl e)) \<Rightarrow>
          (\<lparr>wf_output = None, wf_result = Some (failure_result c t n (message e))\<rparr>, WorkerReturns)
      | (n, Inr (Inr _)) \<Rightarrow>
          (let payload = render (worker_payload sha env t) in
           (\<lparr>wf_output = Some payload, wf_result = Some (success_result sha c env t n payload)\<rparr>, WorkerReturns)))"

section \<open>Facts\<close>

lemma thread_environment_configured:
  "map_of (configure_worker_threads env) n = (if n \<in> set thread_names then Some ''2'' else map_of env n)"
  by (simp add: configure_worker_threads_def thread_names_def update_conv')

lemma configured_threads:
  "thread_environment (configure_worker_threads env) = map (\<lambda>n. (n, Some ''2'')) thread_names"
  by (simp add: thread_environment_def thread_environment_configured)

lemma success_result_valid:
  assumes "\<And>x. is_sha256 (sha x)" and "is_sha256 (ts_task_id t)" and "0 < wc_pid c"
    and "opt_nonneg (wc_rss_mib c)"
  shows "validate_result (success_result sha c (configure_worker_threads env) t n payload)
    = Inr (success_result sha c (configure_worker_threads env) t n payload)"
  using assms
  by (simp add: validate_result_def success_result_def configured_threads thread_names_def expected_threads_def
      below_zero_nonneg list_ex_iff) (auto simp: below_zero_def)

lemma failure_result_fields: "\<not> tr_ok (failure_result c t n m)" "tr_task_id (failure_result c t n m) = ts_task_id t"
  "tr_network_attempt_count (failure_result c t n m) = int n"
  by (simp_all add: failure_result_def)

lemma failure_result_valid:
  assumes "is_sha256 (ts_task_id t)" and "0 < wc_pid c" and "m \<noteq> []"
  shows "validate_result (failure_result c t n m) = Inr (failure_result c t n m)"
  using assms by (auto simp: validate_result_def failure_result_def below_zero_def split: list.split)

section \<open>A healthy worker\<close>

definition sampled :: "poll \<Rightarrow> bool" where
  "sampled p = (case po_sample p of (Some w, Some t, c) \<Rightarrow> True | _ \<Rightarrow> False)"

lemma poll_ram_calm:
  assumes "ram_calm M p" and "sampled p"
  shows "\<exists>m'. poll_ram M p m = (m', False) \<and> mo_category m' = mo_category m
    \<and> mo_telemetry_samples m' = Suc (mo_telemetry_samples m) \<and> mo_peak_worker m' \<noteq> None \<and> mo_peak_tree m' \<noteq> None"
proof (cases "po_sample p")
  case (fields w t c)
  with assms show ?thesis
    by (cases w; cases t)
      (auto simp: sampled_def ram_calm_def poll_ram_def Let_def classify_resource_limits_def peak_def)
qed

lemma poll_cpu_simps [simp]:
  "mo_category (poll_cpu p m) = mo_category m" "mo_telemetry_samples (poll_cpu p m) = mo_telemetry_samples m"
  "mo_peak_worker (poll_cpu p m) = mo_peak_worker m" "mo_peak_tree (poll_cpu p m) = mo_peak_tree m"
  by (auto simp: poll_cpu_def split: option.split)

lemma monitor_loop_calm:
  assumes "\<not> is_cuda M" and "mp_store M = None" and "list_all (\<lambda>p. poll_calm M started p \<and> sampled p) ps"
    and "mo_category m = None"
  shows "\<exists>m'. monitor_loop M started ps m f = ((m', f), Inr ()) \<and> mo_category m' = None
    \<and> (ps \<noteq> [] \<or> (0 < mo_telemetry_samples m \<and> mo_peak_worker m \<noteq> None \<and> mo_peak_tree m \<noteq> None)
       \<longrightarrow> 0 < mo_telemetry_samples m' \<and> mo_peak_worker m' \<noteq> None \<and> mo_peak_tree m' \<noteq> None)"
  using assms(3,4)
proof (induction ps arbitrary: m)
  case (Cons p ps)
  from Cons.prems have p: "ram_calm M p" "sampled p" "\<not> ts_timeout_seconds (mp_task M) < mp_fsub M (po_now p) started"
    by (auto simp: poll_calm_def)
  from poll_ram_calm [OF p(1,2), of m] obtain m1 where m1: "poll_ram M p m = (m1, False)"
    "mo_category m1 = mo_category m" "0 < mo_telemetry_samples m1" "mo_peak_worker m1 \<noteq> None" "mo_peak_tree m1 \<noteq> None"
    by auto
  have step: "monitor_loop M started (p # ps) m f = monitor_loop M started ps (poll_cpu p m1) f"
    using m1(1) assms(1,2) p(3) by (simp add: poll_gpu_def poll_heartbeat_def poll_timeout_def)
  have "mo_category (poll_cpu p m1) = None" using m1(2) Cons.prems(2) by simp
  with Cons.IH [of "poll_cpu p m1"] Cons.prems(1) m1(3-5) show ?case unfolding step by auto
qed simp

lemma healthy_execution:
  assumes "sane_world W" and "\<not> is_cuda M" and "mp_store M = None" and "ww_start W = Started (Some pid)"
    and "list_all (\<lambda>p. poll_calm M (ww_wall_started W) p \<and> sampled p) (ww_polls W)" and "ww_polls W \<noteq> []"
    and "\<not> ww_alive_after_join W" and "ww_exit_code W = Some 0" and "ww_result W = ResultFile r"
    and "validate_result r = Inr r" and "tr_ok r" and "tr_worker_pid r = pid"
    and "tr_task_id r = ts_task_id (mp_task M)"
  shows "\<exists>we. execute_isolated_worker M W f = (f, Inr we) \<and> we_passed we \<and> we_result we = Some r"
proof -
  let ?m0 = "initial_monitor M W"
  from monitor_loop_calm [OF assms(2,3,5), of ?m0 f] assms(6) obtain m where
    m: "monitor_loop M (ww_wall_started W) (ww_polls W) ?m0 f = ((m, f), Inr ())" "mo_category m = None"
      "0 < mo_telemetry_samples m" "mo_peak_worker m \<noteq> None" "mo_peak_tree m \<noteq> None"
    by (auto simp: initial_monitor_def)
  let ?m1 = "m\<lparr>mo_cpu_peak := peak (tr_cpu_seconds r) (mo_cpu_peak m)\<rparr>"
  have pre: "preflight M W = Inr ?m0" using assms(2) by (simp add: preflight_def Let_def)
  have sup: "supervise M W ?m0 f = ((m, f), Inr pid)" using assms(3,4) m(1) by (simp add: supervise_def)
  have con: "conclude M W pid m = (?m1, True, Some r, tr_traceback r)"
    using assms(7-13) m(2,3)
    by (simp add: conclude_def reap_def accept_result_def judge_result_def judge_exit_def judge_samples_def Let_def)
  have calm: "flagged m" using supervise_ok [OF conjunct1 [OF preflight_ok [OF pre assms(1)]] sup] by simp
  then have "flagged ?m1" by (simp add: flagged_def peaks_ok_def)
  moreover have "Some pid = None \<or> Some pid = worker_pid_of W" using assms(4) by (simp add: worker_pid_of_def)
  ultimately obtain we where we: "finish_execution M W (Some pid) True (Some r) (tr_traceback r) ?m1 = Inr we"
    using finish_execution_ok [OF _ assms(1)] by blast
  have "telemetry_complete M ?m1" using m assms(2) by (simp add: telemetry_complete_def)
  then have "we_passed we \<and> we_result we = Some r"
    using we m(2) by (auto simp: finish_execution_def Let_def bindr_Inr_iff)
  moreover have "execute_isolated_worker M W f = (f, Inr we)"
    using pre sup con we by (simp add: execute_isolated_worker_def)
  ultimately show ?thesis by blast
qed

end
