(* ===== verification/Execution_Properties.thy ===== *)
theory Execution_Properties
  imports Worker Runner_Demo
begin

text \<open>
  The properties of the worker process and of its supervision, each with a witness where it
  has hypotheses.
\<close>

section \<open>Concrete objects\<close>

definition demo_monitor :: monitor_params where
  "demo_monitor = \<lparr>mp_task = demo_task, mp_hard_ram_limit_mib = 100, mp_soft_ram_limit_mib = 50,
     mp_heartbeat_interval_seconds = 1, mp_store = None, mp_has_sampler = False, mp_gpu_soft_limit_mib = None,
     mp_fsub = (-), mp_fixed1 = demo_frepr, mp_fixed3 = demo_frepr, mp_casefold = id, mp_error_text = (\<lambda>e. ''error'')\<rparr>"

definition demo_clock :: worker_clock where
  "demo_clock = \<lparr>wc_pid = 7, wc_rss_mib = Some 20, wc_cpu_seconds = 1, wc_worker_seconds = 1, wc_traceback = ''tb''\<rparr>"

definition demo_files :: worker_files where
  "demo_files = fst (worker_entry demo_sha (\<lambda>j. ''payload'') (\<lambda>e. ''error'') demo_clock [] demo_task)"

definition demo_world :: "poll list \<Rightarrow> worker_world" where
  "demo_world polls = \<lparr>ww_gpu_before = None, ww_start = Started (Some 7), ww_pid_ob = demo_ob 0 {},
     ww_wall_started = 0, ww_loop_started = 0, ww_polls = polls, ww_alive_after_join = False,
     ww_alive_after_kill = False, ww_alive_finally = False, ww_exit_code = Some 0,
     ww_result = (case wf_result demo_files of None \<Rightarrow> NoResultFile | Some r \<Rightarrow> ResultFile r),
     ww_started_at = DateTime 0 (Some 0), ww_ended_at = DateTime 5 (Some 0), ww_wall_seconds = 5\<rparr>"

definition demo_poll :: "py_float \<Rightarrow> py_float \<Rightarrow> poll" where
  "demo_poll rss now = \<lparr>po_sample = (Some rss, Some rss, Some 1), po_gpu = None, po_now = now, po_ob = demo_ob 0 {}\<rparr>"

lemma demo_world_sane: "sane_world (demo_world polls)"
  by (simp add: sane_world_def demo_world_def worker_pid_of_def instant_def)

definition demo_result :: task_result where
  "demo_result = success_result demo_sha demo_clock (configure_worker_threads []) demo_task 0 ''payload''"

lemma demo_result_facts: "validate_result demo_result = Inr demo_result" "tr_ok demo_result"
  "tr_worker_pid demo_result = 7" "tr_task_id demo_result = demo_hash"
proof -
  show "validate_result demo_result = Inr demo_result"
    unfolding demo_result_def by (rule success_result_valid) (simp_all add: demo_clock_def)
qed (simp_all add: demo_result_def success_result_def demo_clock_def)

lemma demo_world_facts: "ww_result (demo_world polls) = ResultFile demo_result" "ww_polls (demo_world polls) = polls"
  "ww_start (demo_world polls) = Started (Some 7)" "ww_exit_code (demo_world polls) = Some 0"
  "\<not> ww_alive_after_join (demo_world polls)" "ww_wall_started (demo_world polls) = 0"
  by (simp_all add: demo_world_def demo_files_def worker_entry_def demo_task_def demo_result_def Let_def)

lemma demo_monitor_facts: "\<not> is_cuda demo_monitor" "mp_store demo_monitor = None" "mp_task demo_monitor = demo_task"
  by (simp_all add: demo_monitor_def is_cuda_def demo_task_def demo_identity_def)

lemma demo_poll_calm: "rss \<le> 100 \<Longrightarrow> now \<le> 10 \<Longrightarrow> poll_calm demo_monitor 0 (demo_poll rss now) \<and> sampled (demo_poll rss now)"
  by (simp add: poll_calm_def ram_calm_def gpu_calm_def demo_monitor_facts sampled_def)
    (simp add: demo_poll_def demo_monitor_def demo_task_def)

section \<open>Properties\<close>

text \<open>Claim C31. The worker tells the truth: it either exits with a nonzero code and without a result, or
  writes a result that satisfies its contract; a successful result is written only for an
  operation that succeeds, with no network attempt, and carries the digest and the size of the
  payload file; a worker that tries the network fails with one recorded attempt.\<close>

theorem worker_result_honest:
  assumes "\<And>x. is_sha256 (sha x)" and "is_sha256 (ts_task_id t)" and "0 < wc_pid c"
    and "opt_nonneg (wc_rss_mib c)" and "\<And>e. message e \<noteq> []"
    and "worker_entry sha render message c env t = (files, fin)"
  shows "case wf_result files of
      None \<Rightarrow> \<exists>code. fin = WorkerExits code \<and> code \<noteq> 0
    | Some r \<Rightarrow> fin = WorkerReturns \<and> validate_result r = Inr r \<and> tr_task_id r = ts_task_id t
        \<and> (tr_ok r \<longleftrightarrow> ts_operation t \<in> {SyntheticPayload, Sleep})
        \<and> (tr_ok r \<longrightarrow> (\<exists>payload. wf_output files = Some payload \<and> tr_payload_sha256 r = Some (sha payload)
             \<and> tr_payload_size_bytes r = Some (int (length payload)) \<and> tr_network_attempt_count r = 0))
        \<and> (ts_operation t = NetworkAttempt \<longrightarrow> tr_network_attempt_count r = 1)"
proof (cases "ts_operation t \<in> {SyntheticPayload, Sleep}")
  case True
  then have "run_operation (ts_operation t) = (0, Inr (Inr ()))" by auto
  with assms(6) True success_result_valid [where sha = sha and t = t and c = c and env = env and n = 0, OF assms(1-4)] show ?thesis
    by (auto simp: worker_entry_def Let_def success_result_def)
next
  case False
  show ?thesis
    using assms(6) False failure_result_valid [OF assms(2,3) assms(5)]
    by (cases "ts_operation t") (auto simp: worker_entry_def Let_def deny_network_def failure_result_fields)
qed

lemma worker_result_honest_witness:
  "\<exists>r. wf_result demo_files = Some r \<and> tr_ok r \<and> validate_result r = Inr r"
proof -
  have e: "worker_entry demo_sha (\<lambda>j. ''payload'') (\<lambda>e. ''error'') demo_clock [] demo_task
    = (demo_files, WorkerReturns)"
    by (simp add: demo_files_def worker_entry_def demo_task_def Let_def)
  have "wf_result demo_files \<noteq> None"
    by (simp add: demo_files_def worker_entry_def demo_task_def Let_def)
  moreover have "ts_operation demo_task = SyntheticPayload" by (simp add: demo_task_def)
  ultimately show ?thesis
    using worker_result_honest [OF _ _ _ _ _ e] by (auto simp: demo_clock_def)
qed

text \<open>Claim C32. An execution that is reported as passed was clean: the worker exited with code 0 and left a
  valid result of its own process and task; no sample exceeded the hard RAM limit, no GPU sample was
  missing or over the limit, the timeout was not exceeded at any pass, and the telemetry is complete.\<close>

theorem passed_execution_clean:
  assumes "sane_world W" and "execute_isolated_worker M W f = (f', Inr we)" and "we_passed we"
  shows "we_failure_category we = None \<and> ww_exit_code W = Some 0 \<and> rr_telemetry_complete (we_resource we)
    \<and> (\<exists>r. we_result we = Some r \<and> ww_result W = ResultFile r \<and> tr_ok r \<and> validate_result r = Inr r
        \<and> worker_pid_of W = Some (tr_worker_pid r) \<and> tr_task_id r = ts_task_id (mp_task M))
    \<and> list_all (\<lambda>p. (\<forall>w t c. po_sample p = (Some w, Some t, c) \<longrightarrow> t \<le> of_int (mp_hard_ram_limit_mib M))
        \<and> gpu_calm M p \<and> mp_fsub M (po_now p) (ww_wall_started W) \<le> ts_timeout_seconds (mp_task M)) (ww_polls W)"
proof -
  from execute_result [OF assms(1), of M f] assms(2,3)
  have e: "we_failure_category we = None" "list_all (poll_calm M (ww_wall_started W)) (ww_polls W)"
      "ww_exit_code W = Some 0" "rr_telemetry_complete (we_resource we)"
      "\<exists>pid r. worker_pid_of W = Some pid \<and> we_result we = Some r \<and> tr_ok r \<and> clean_result M W pid (Some r)"
    by auto
  have "list_all (\<lambda>p. (\<forall>w t c. po_sample p = (Some w, Some t, c) \<longrightarrow> t \<le> of_int (mp_hard_ram_limit_mib M))
      \<and> gpu_calm M p \<and> mp_fsub M (po_now p) (ww_wall_started W) \<le> ts_timeout_seconds (mp_task M)) (ww_polls W)"
    using e(2) by (auto simp: list_all_iff poll_calm_def ram_calm_def)
  with e show ?thesis by (auto simp: clean_result_def)
qed

lemma passed_execution_clean_witness:
  "\<exists>we r. execute_isolated_worker demo_monitor (demo_world [demo_poll 20 1]) NoState = (NoState, Inr we)
     \<and> we_result we = Some r \<and> tr_ok r \<and> tr_worker_pid r = 7"
proof -
  have "\<exists>we. execute_isolated_worker demo_monitor (demo_world [demo_poll 20 1]) NoState = (NoState, Inr we)
     \<and> we_passed we \<and> we_result we = Some demo_result"
    by (rule healthy_execution [OF demo_world_sane])
      (simp_all add: demo_monitor_facts demo_world_facts demo_poll_calm demo_result_facts)
  then obtain we where we: "execute_isolated_worker demo_monitor (demo_world [demo_poll 20 1]) NoState = (NoState, Inr we)"
    "we_passed we" by blast
  from passed_execution_clean [OF demo_world_sane we] we show ?thesis
    by (auto simp: demo_world_facts demo_result_facts)
qed

end
