(* ===== verification/Plan.thy ===== *)
theory Plan
  imports Runner_Contracts Cache_Index
begin

text \<open>
  \<open>src/schemaguard/cache/keys.py\<close> and \<open>src/schemaguard/runner/plan.py\<close>: the identity of the
  implementation and of the dependency lock, the runtime configuration, and the synthetic probe
  plan. The repository is a map from the portable path of a file inside it to its bytes; what
  YAML and Git return is an argument.
\<close>

section \<open>Implementation identity\<close>

type_synonym repository = "string \<Rightarrow> string option"

definition portable_text :: "string \<Rightarrow> string" where
  "portable_text item = (let parts = posix_parts item in if parts = [] then ''.'' else as_posix parts)"

fun hash_sources ::
  "(string \<Rightarrow> string) \<Rightarrow> repository \<Rightarrow> string list \<Rightarrow> (string \<times> json) list \<Rightarrow> (string \<times> json) list result" where
  "hash_sources sha repo [] identities = Inr identities"
| "hash_sources sha repo (item # items) identities =
     (if posix_absolute item \<or> ''..'' \<in> set (posix_parts item)
      then Inl (ValueError ''implementation paths must be safe repository-relative paths'')
      else case repo (portable_text item) of
        None \<Rightarrow> Inl (ValueError (''implementation source is missing or outside the repository: '' @ item))
      | Some bs \<Rightarrow> hash_sources sha repo items
          (AList.update (portable_text item) (JStr (canonical_source_hash sha bs)) identities))"

definition implementation_hash :: "(string \<Rightarrow> string) \<Rightarrow> repository \<Rightarrow> string list \<Rightarrow> string result" where
  "implementation_hash sha repo source_paths =
     bindr (hash_sources sha repo (sorted_list_of_set (set source_paths)) []) (\<lambda>identities.
       if identities = [] then Inl (ValueError ''at least one implementation source is required'')
       else Inr (sha256_canonical_json sha (JObj identities)))"

definition dependency_lock_hash :: "(string \<Rightarrow> string) \<Rightarrow> string option \<Rightarrow> string result" where
  "dependency_lock_hash sha file =
     (case file of
        None \<Rightarrow> Inl (ValueError ''dependency lock file is missing'')
      | Some bs \<Rightarrow> Inr (canonical_source_hash sha bs))"

text \<open>\<open>identity_with\<close>: the changed fields are a function, and the result is validated.\<close>

definition identity_with :: "(cache_identity \<Rightarrow> cache_identity) \<Rightarrow> cache_identity \<Rightarrow> cache_identity result" where
  "identity_with changes i = validate_cache_identity (changes i)"

section \<open>Configuration and commit\<close>

definition load_config :: "(string \<Rightarrow> scheduler_config option option) \<Rightarrow> string \<Rightarrow> scheduler_config result" where
  "load_config yaml file =
     (case yaml file of
        None \<Rightarrow> Inl (ValueError ''cache/scheduler configuration must be a YAML mapping'')
      | Some None \<Rightarrow> Inl (ValueError ''validation error'')
      | Some (Some c) \<Rightarrow> validate_config c)"

definition runtime_configuration_hash :: "(string \<Rightarrow> string) \<Rightarrow> string \<Rightarrow> string" where
  "runtime_configuration_hash sha file = canonical_source_hash sha file"

text \<open>\<open>str.strip\<close> on the characters Git can print around a commit.\<close>

definition is_space :: "char \<Rightarrow> bool" where
  "is_space c \<longleftrightarrow> (let n = of_char c :: nat in n = 32 \<or> (9 \<le> n \<and> n \<le> 13) \<or> (28 \<le> n \<and> n \<le> 31))"

definition strip :: "string \<Rightarrow> string" where
  "strip s = rev (dropWhile is_space (rev (dropWhile is_space s)))"

definition current_commit :: "string option \<Rightarrow> string result" where
  "current_commit stdout =
     (case stdout of
        None \<Rightarrow> Inl (OSError ''git rev-parse failed'')
      | Some t \<Rightarrow>
        if is_commit (strip t) then Inr (strip t) else Inl (ValueError ''Git returned an invalid source commit''))"

section \<open>The probe plan\<close>

definition IMPLEMENTATION_PATHS :: "string list" where
  "IMPLEMENTATION_PATHS = [
     ''src/schemaguard/cache/__init__.py'',
     ''src/schemaguard/cache/contracts.py'',
     ''src/schemaguard/cache/fault_policy.py'',
     ''src/schemaguard/cache/keys.py'',
     ''src/schemaguard/cache/locks.py'',
     ''src/schemaguard/cache/store.py'',
     ''src/schemaguard/cache/index.py'',
     ''src/schemaguard/runner/__init__.py'',
     ''src/schemaguard/runner/contracts.py'',
     ''src/schemaguard/runner/faults.py'',
     ''src/schemaguard/runner/plan.py'',
     ''src/schemaguard/runner/resources.py'',
     ''src/schemaguard/runner/scheduler.py'',
     ''src/schemaguard/runner/state.py'',
     ''src/schemaguard/runner/worker.py'',
     ''src/schemaguard/utils/hashing.py'',
     ''src/schemaguard/utils/io.py'',
     ''src/schemaguard/utils/process_lock.py'',
     ''src/schemaguard/models/adapters/resources.py'',
     ''scripts/run_cache_scheduler_probe.py'',
     ''scripts/validate_cache_scheduler.py'']"

definition probe_suffixes :: "string list" where
  "probe_suffixes = [''alpha'', ''bravo'', ''charlie'', ''delta'']"

definition probe_identity :: "(string \<Rightarrow> string) \<Rightarrow> string \<Rightarrow> string \<Rightarrow> nat \<Rightarrow> string \<Rightarrow> cache_identity" where
  "probe_identity sha code_hash lock_hash index suffix =
     \<lparr>ci_schema_version = 1,
      ci_dataset_sha256 = sha256_canonical_json sha (JObj [(''fixture'', JStr ''synthetic-dataset-v1'')]),
      ci_split_sha256 = sha256_canonical_json sha (JObj [(''split'', JStr ''synthetic-no-label-split-v1'')]),
      ci_view_certificate_sha256 = sha256_canonical_json sha (JObj [(''view'', JStr ''identity-probe-v1'')]),
      ci_model_spec_sha256 = sha256_canonical_json sha (JObj [(''worker'', JStr ''synthetic-cache-probe-v1'')]),
      ci_model_parameters_sha256 = sha256_canonical_json sha
        (JObj [(''payload_token'', JStr (''payload-'' @ suffix)), (''seed'', JInt (1729 + int index))]),
      ci_checkpoint_sha256 = None,
      ci_dependency_lock_sha256 = lock_hash,
      ci_source_implementation_sha256 = code_hash,
      ci_seed = 1729 + int index, ci_device_policy = Cpu, ci_artifact_kind = KProbe\<rparr>"

fun probe_tasks ::
  "(string \<Rightarrow> string) \<Rightarrow> (py_float \<Rightarrow> string) \<Rightarrow> string \<Rightarrow> string \<Rightarrow> nat \<Rightarrow> string list \<Rightarrow> task_spec list result" where
  "probe_tasks sha frepr code lock index [] = Inr []"
| "probe_tasks sha frepr code lock index (suffix # rest) =
     bindr (validate_cache_identity (probe_identity sha code lock index suffix)) (\<lambda>identity.
     bindr (build_task sha frepr (''synthetic-cache-'' @ suffix) identity SyntheticPayload
              (''payload-'' @ suffix) 0 300) (\<lambda>task.
     bindr (probe_tasks sha frepr code lock (Suc index) rest) (\<lambda>tasks. Inr (task # tasks))))"

definition make_probe_plan ::
  "(string \<Rightarrow> string) \<Rightarrow> (py_float \<Rightarrow> string) \<Rightarrow> repository \<Rightarrow> scheduler_config
   \<Rightarrow> (run_plan \<times> string \<times> string) result" where
  "make_probe_plan sha frepr repo config =
     bindr (implementation_hash sha repo IMPLEMENTATION_PATHS) (\<lambda>code_hash.
     bindr (dependency_lock_hash sha (repo ''uv.lock'')) (\<lambda>lock_hash.
     bindr (probe_tasks sha frepr code_hash lock_hash 0 probe_suffixes) (\<lambda>tasks.
     bindr (build_plan tasks 1729 (sc_cpu_workers config)) (\<lambda>plan.
     Inr (plan, code_hash, lock_hash)))))"

section \<open>Facts\<close>

lemma atomic_JStr: "atomic (JStr s)"
  by (simp add: atomic_def)

lemma hash_sources_Inr:
  assumes "hash_sources sha repo items ids = Inr out" and "distinct (map fst ids)" and "\<And>kv. kv \<in> set ids \<Longrightarrow> atomic (snd kv)"
  shows "distinct (map fst out) \<and> (\<forall>kv \<in> set out. atomic (snd kv))
    \<and> map_of out = (\<lambda>k. if k \<in> portable_text ` set items
        then map_option (\<lambda>bs. JStr (canonical_source_hash sha bs)) (repo k) else map_of ids k)"
  using assms
proof (induction items arbitrary: ids)
  case (Cons item items)
  from Cons.prems(1) obtain bs where bs: "repo (portable_text item) = Some bs"
    and step: "hash_sources sha repo items
       (AList.update (portable_text item) (JStr (canonical_source_hash sha bs)) ids) = Inr out"
    by (auto split: if_splits option.splits)
  have "set (AList.update k v ids) \<subseteq> insert (k, v) (set ids)" for k and v :: json by (induction ids) auto
  then have "kv = (portable_text item, JStr (canonical_source_hash sha bs)) \<or> kv \<in> set ids"
    if "kv \<in> set (AList.update (portable_text item) (JStr (canonical_source_hash sha bs)) ids)" for kv
    using that by blast
  with Cons.prems(3) have "atomic (snd kv)"
    if "kv \<in> set (AList.update (portable_text item) (JStr (canonical_source_hash sha bs)) ids)" for kv
    using that by (metis atomic_JStr snd_conv)
  from Cons.IH [OF step distinct_update [OF Cons.prems(2)] this] bs show ?case
    by (auto simp: update_conv' fun_eq_iff)
qed auto

lemma hash_sources_wf:
  assumes "hash_sources sha repo items [] = Inr out"
  shows "wf_json (JObj out)"
proof -
  have m: "distinct (map fst out)" "map_of out = (\<lambda>k. if k \<in> portable_text ` set items
      then map_option (\<lambda>bs. JStr (canonical_source_hash sha bs)) (repo k) else map_of [] k)"
    using hash_sources_Inr [OF assms] by simp_all
  have "wf_json v" if "(k, v) \<in> set out" for k v
    using map_of_is_SomeI [OF m(1) that] unfolding m(2) by (auto split: if_splits)
  then show ?thesis by auto
qed

lemma hash_sources_present:
  "hash_sources sha repo items ids = Inr out \<Longrightarrow> p \<in> set items \<Longrightarrow> repo (portable_text p) \<noteq> None"
  by (induction items arbitrary: ids) (auto split: if_splits option.splits)

lemma hash_sources_total:
  assumes "\<And>p. p \<in> set items \<Longrightarrow> \<not> posix_absolute p \<and> ''..'' \<notin> set (posix_parts p) \<and> repo (portable_text p) \<noteq> None"
  shows "\<exists>out. hash_sources sha repo items ids = Inr out"
  using assms by (induction items arbitrary: ids) (auto split: option.split)

text \<open>The dictionaries two repositories hash, and when they are the same.\<close>

lemma hash_sources_eq:
  assumes out: "hash_sources sha repo ps [] = Inr out" "hash_sources sha repo' qs [] = Inr out'"
    and sha: "\<And>p bs bs'. \<lbrakk>repo p = Some bs; repo' p = Some bs'; sha (crlf_to_lf bs) = sha (crlf_to_lf bs')\<rbrakk>
      \<Longrightarrow> crlf_to_lf bs = crlf_to_lf bs'"
  shows "canonicalize (JObj out) = canonicalize (JObj out') \<longleftrightarrow>
    portable_text ` set ps = portable_text ` set qs
    \<and> (\<forall>p \<in> portable_text ` set ps. map_option crlf_to_lf (repo p) = map_option crlf_to_lf (repo' p))"
proof -
  let ?m = "\<lambda>r is k. if k \<in> portable_text ` set is then map_option (\<lambda>bs. JStr (canonical_source_hash sha bs)) (r k) else None"
  have d: "distinct (map fst out)" "\<forall>kv \<in> set out. atomic (snd kv)" and m1: "map_of out = ?m repo ps"
    using hash_sources_Inr [OF out(1)] by (simp_all cong: if_cong)
  have d': "distinct (map fst out')" "\<forall>kv \<in> set out'. atomic (snd kv)" and m2: "map_of out' = ?m repo' qs"
    using hash_sources_Inr [OF out(2)] by (simp_all cong: if_cong)
  have eq: "canonicalize (JObj out) = canonicalize (JObj out') \<longleftrightarrow> ?m repo ps = ?m repo' qs"
    unfolding m1 [symmetric] m2 [symmetric] using d d' by (intro canonicalize_flat_map) blast+
  have present: "p \<in> portable_text ` set ps \<Longrightarrow> repo p \<noteq> None" "p \<in> portable_text ` set qs \<Longrightarrow> repo' p \<noteq> None" for p
    using hash_sources_present [OF out(1)] hash_sources_present [OF out(2)] by auto
  have same: "map_option (\<lambda>bs. JStr (canonical_source_hash sha bs)) (repo p)
        = map_option (\<lambda>bs. JStr (canonical_source_hash sha bs)) (repo' p)
      \<longleftrightarrow> map_option crlf_to_lf (repo p) = map_option crlf_to_lf (repo' p)" for p
  proof (cases "repo p")
    case None
    then show ?thesis by (cases "repo' p") simp_all
  next
    case (Some bs)
    then show ?thesis using sha [OF Some]
      by (cases "repo' p") (simp, simp add: canonical_source_hash_def, metis)
  qed
  show ?thesis
  proof
    assume "canonicalize (JObj out) = canonicalize (JObj out')"
    then have k: "?m repo ps p = ?m repo' qs p" for p using eq by (simp add: fun_eq_iff)
    have "p \<in> portable_text ` set ps \<longleftrightarrow> p \<in> portable_text ` set qs" for p
      using k [of p] present [of p] by (auto split: if_splits)
    then have "portable_text ` set ps = portable_text ` set qs" by blast
    moreover have "map_option crlf_to_lf (repo p) = map_option crlf_to_lf (repo' p)"
      if "p \<in> portable_text ` set ps" for p
      using k [of p] that calculation same [of p] by simp
    ultimately show "portable_text ` set ps = portable_text ` set qs
      \<and> (\<forall>p \<in> portable_text ` set ps. map_option crlf_to_lf (repo p) = map_option crlf_to_lf (repo' p))" by blast
  next
    assume r: "portable_text ` set ps = portable_text ` set qs
      \<and> (\<forall>p \<in> portable_text ` set ps. map_option crlf_to_lf (repo p) = map_option crlf_to_lf (repo' p))"
    have "?m repo ps = ?m repo' qs"
    proof
      fix p show "?m repo ps p = ?m repo' qs p"
      proof (cases "p \<in> portable_text ` set ps")
        case True
        with r have "p \<in> portable_text ` set qs" "map_option crlf_to_lf (repo p) = map_option crlf_to_lf (repo' p)"
          by blast+
        with True same [of p] show ?thesis by simp
      next
        case False
        with r have "p \<notin> portable_text ` set qs" by blast
        with False show ?thesis by simp
      qed
    qed
    with eq show "canonicalize (JObj out) = canonicalize (JObj out')" by blast
  qed
qed

lemma hash_sources_cong:
  assumes "\<And>p. map_option crlf_to_lf (repo p) = map_option crlf_to_lf (repo' p)"
  shows "hash_sources sha repo items ids = hash_sources sha repo' items ids"
proof (induction items arbitrary: ids)
  case (Cons item items)
  from assms [of "portable_text item"] Cons.IH show ?case
    by (auto simp: canonical_source_hash_def split: option.split)
qed simp

lemma implementation_hash_cong:
  assumes "\<And>p. map_option crlf_to_lf (repo p) = map_option crlf_to_lf (repo' p)" and "set ps = set qs"
  shows "implementation_hash sha repo ps = implementation_hash sha repo' qs"
  using assms(2) hash_sources_cong [OF assms(1)] by (simp add: implementation_hash_def)

lemma probe_identity_valid:
  assumes "\<And>x. is_sha256 (sha x) \<and> sha x \<noteq> zero_hash" and "is_sha256 code" "code \<noteq> zero_hash"
    and "is_sha256 lock" "lock \<noteq> zero_hash"
  shows "validate_cache_identity (probe_identity sha code lock n suffix) = Inr (probe_identity sha code lock n suffix)"
  using assms by (simp add: validate_cache_identity_def identity_hash_fields_def probe_identity_def sha256_canonical_json_def)

lemma probe_task_valid:
  assumes "\<And>x. is_sha256 (sha x)" and "suffix \<in> set probe_suffixes" and "validate_cache_identity i = Inr i"
  shows "\<exists>t. build_task sha frepr (''synthetic-cache-'' @ suffix) i SyntheticPayload (''payload-'' @ suffix) 0 300 = Inr t
    \<and> ts_task_name t = ''synthetic-cache-'' @ suffix \<and> ts_cache_identity t = i \<and> ts_operation t = SyntheticPayload
    \<and> ts_task_id t = task_identity sha frepr (''synthetic-cache-'' @ suffix) (cache_key sha i) SyntheticPayload
        (''payload-'' @ suffix) 0 300"
  using assms
  by (auto simp: build_task_def validate_task_def task_identity_def sha256_canonical_json_def probe_suffixes_def
      task_name_char_def Let_def)

end
