(* ===== verification/Scheduler.thy ===== *)
theory Scheduler
  imports Resources Cache_Index
begin

text \<open>
  \<open>src/schemaguard/runner/scheduler.py\<close>: the scheduler as a program over one state, which holds
  the task-state file, the cache store, the index, and the scheduler's own counters. What it
  observes of the outside (clocks, locks, random names, what worker processes do, which thread
  moves next) is the record \<open>sched_env\<close>, read by the number of the current step.
\<close>

section \<open>State and environment\<close>

record counters =
  ct_planned :: nat
  ct_executed :: nat
  ct_validated_cache_hits :: nat
  ct_recovered_abandoned :: nat
  ct_failed :: nat
  ct_blocked :: nat
  ct_retried :: nat
  ct_cancelled :: nat

record sched =
  sw_state :: state_file
  sw_cache :: cache_fs
  sw_index :: index_file
  sw_tick :: nat
  sw_active_cpu :: nat
  sw_max_cpu :: nat
  sw_active_gpu :: nat
  sw_max_gpu :: nat
  sw_network :: int
  sw_counters :: counters
  sw_resources :: "resource_record list"
  sw_failures :: "failure_record list"
  sw_traceback_files :: "(string \<times> string) list"

record sched_env =
  se_platform :: platform
  se_store :: store_params
  se_config :: scheduler_config
  se_source_commit :: string
  se_ob :: "nat \<Rightarrow> observation"
  se_now_text :: "nat \<Rightarrow> string"
  se_tag :: "nat \<Rightarrow> string"
  se_transaction :: "nat \<Rightarrow> path"
  se_replace :: "nat \<Rightarrow> replace_outcome"
  se_lock_free :: "nat \<Rightarrow> bool"
  se_gpu_lock :: "nat \<Rightarrow> unit result"
  se_choice :: "nat \<Rightarrow> bool \<times> nat"
  se_gpu_sample :: "nat \<Rightarrow> gpu_snapshot option"
  se_gpu_budget :: "nat \<Rightarrow> unit result"
  se_worker :: "string \<Rightarrow> worker_world"
  se_payload :: "string \<Rightarrow> string option"
  se_fsub :: "py_float \<Rightarrow> py_float \<Rightarrow> py_float"
  se_fixed1 :: "py_float \<Rightarrow> string"
  se_fixed3 :: "py_float \<Rightarrow> string"
  se_casefold :: "string \<Rightarrow> string"
  se_error_text :: "error \<Rightarrow> string"
  se_error_str :: "error \<Rightarrow> string"
  se_traceback :: "error \<Rightarrow> string"

type_synonym 'a step = "sched \<Rightarrow> sched \<times> 'a result"

definition bind_step :: "'a step \<Rightarrow> ('a \<Rightarrow> 'b step) \<Rightarrow> 'b step" where
  "bind_step m k w = (case m w of (w', Inl e) \<Rightarrow> (w', Inl e) | (w', Inr x) \<Rightarrow> k x w')"

definition ret :: "'a \<Rightarrow> 'a step" where
  "ret x w = (w, Inr x)"

definition fail_with :: "error \<Rightarrow> 'a step" where
  "fail_with e w = (w, Inl e)"

text \<open>\<open>try\<close>/\<open>except\<close>: the handler sees the error and the state at the raise.\<close>

definition catch :: "'a step \<Rightarrow> (error \<Rightarrow> 'a step) \<Rightarrow> 'a step" where
  "catch m h w = (case m w of (w', Inl e) \<Rightarrow> h e w' | (w', Inr x) \<Rightarrow> (w', Inr x))"

definition modify :: "(sched \<Rightarrow> sched) \<Rightarrow> unit step" where
  "modify g w = (g w, Inr ())"

section \<open>The components, as steps\<close>

definition on_state :: "sched_env \<Rightarrow> (observation \<Rightarrow> state_file \<Rightarrow> state_file \<times> 'a result) \<Rightarrow> 'a step" where
  "on_state E op w = (case op (se_ob E (sw_tick w)) (sw_state w) of
     (f', r) \<Rightarrow> (w\<lparr>sw_state := f', sw_tick := Suc (sw_tick w)\<rparr>, r))"

definition do_transition :: "sched_env \<Rightarrow> string \<Rightarrow> transition_request \<Rightarrow> task_record step" where
  "do_transition E task_id q = on_state E (\<lambda>ob. transition (se_store E) ob task_id q)"

text \<open>\<open>state.read().tasks[task_id]\<close>.\<close>

definition task_entry :: "sched_env \<Rightarrow> string \<Rightarrow> task_record step" where
  "task_entry E task_id w = (w, bindr (read_state (se_store E) (sw_state w)) (\<lambda>st.
     case map_of (ss_tasks st) task_id of None \<Rightarrow> Inl (KeyError task_id) | Some r \<Rightarrow> Inr r))"

text \<open>\<open>read_validated\<close> where a \<open>CacheIntegrityError\<close> runs the handler and then counts as absent.\<close>

definition cache_lookup :: "sched_env \<Rightarrow> cache_identity \<Rightarrow> cache_artifact option step" where
  "cache_lookup E i w = (w, read_validated (se_platform E) (sw_cache w) i)"

definition is_integrity_error :: "error \<Rightarrow> bool" where
  "is_integrity_error e = (case e of CacheIntegrityError t \<Rightarrow> True | _ \<Rightarrow> False)"

definition lookup_or :: "sched_env \<Rightarrow> cache_identity \<Rightarrow> unit step \<Rightarrow> cache_artifact option step" where
  "lookup_or E i handler = catch (cache_lookup E i) (\<lambda>e.
     if is_integrity_error e then bind_step handler (\<lambda>_. ret None) else fail_with e)"

definition on_cache :: "sched_env \<Rightarrow> (nat \<Rightarrow> cache_fs \<Rightarrow> cache_fs \<times> 'a result) \<Rightarrow> 'a step" where
  "on_cache E op w = (case op (sw_tick w) (sw_cache w) of
     (s', r) \<Rightarrow> (w\<lparr>sw_cache := s', sw_tick := Suc (sw_tick w)\<rparr>, r))"

definition do_quarantine :: "sched_env \<Rightarrow> cache_identity \<Rightarrow> unit step" where
  "do_quarantine E i = bind_step (on_cache E (\<lambda>n. quarantine_invalid (se_platform E) (se_lock_free E n)
      (sc_lock_timeout_seconds (se_config E)) i (se_tag E n))) (\<lambda>_. ret ())"

definition do_quarantine_locked :: "sched_env \<Rightarrow> cache_identity \<Rightarrow> unit step" where
  "do_quarantine_locked E i = bind_step (on_cache E (\<lambda>n. quarantine_invalid_locked (se_platform E) i (se_tag E n)))
     (\<lambda>_. ret ())"

definition do_publish :: "sched_env \<Rightarrow> task_spec \<Rightarrow> publish_result step" where
  "do_publish E t = on_cache E (\<lambda>n s. publish_file_locked (se_platform E) (ts_cache_identity t) (ts_task_id t)
     (se_payload E (ts_task_id t))
     (case se_payload E (ts_task_id t) of None \<Rightarrow> [] | Some bs \<Rightarrow> bs)
     (ob_now (se_ob E n)) (se_transaction E n) (se_replace E n) s)"

definition do_index_add :: "sched_env \<Rightarrow> cache_artifact \<Rightarrow> unit step" where
  "do_index_add E a w = (case index_add (se_now_text E (sw_tick w)) a (sw_index w) of
     (x', r) \<Rightarrow> (w\<lparr>sw_index := x', sw_tick := Suc (sw_tick w)\<rparr>, r))"

text \<open>Every row of the rebuilt index takes a reading of the clock, twice at most.\<close>

definition do_index_rebuild :: "sched_env \<Rightarrow> unit step" where
  "do_index_rebuild E w =
     (case index_rebuild (se_platform E) (\<lambda>k. se_now_text E (sw_tick w + k)) (sw_cache w) (sw_index w) of
        (x', r) \<Rightarrow> (w\<lparr>sw_index := x', sw_tick := Suc (sw_tick w + 2 * length (iter_validated (se_platform E) (sw_cache w)))\<rparr>, bindr r (\<lambda>_. Inr ())))"

definition count :: "(counters \<Rightarrow> counters) \<Rightarrow> unit step" where
  "count g = modify (\<lambda>w. w\<lparr>sw_counters := g (sw_counters w)\<rparr>)"

definition count_failed :: "unit step" where
  "count_failed = count (\<lambda>c. c\<lparr>ct_failed := Suc (ct_failed c)\<rparr>)"

definition count_hit :: "unit step" where
  "count_hit = count (\<lambda>c. c\<lparr>ct_validated_cache_hits := Suc (ct_validated_cache_hits c)\<rparr>)"

definition count_executed :: "unit step" where
  "count_executed = count (\<lambda>c. c\<lparr>ct_executed := Suc (ct_executed c)\<rparr>)"

definition count_blocked :: "unit step" where
  "count_blocked = count (\<lambda>c. c\<lparr>ct_blocked := Suc (ct_blocked c)\<rparr>)"

section \<open>Requests\<close>

definition plain_request :: "task_status \<Rightarrow> string \<Rightarrow> transition_request" where
  "plain_request s reason = \<lparr>tq_to_state = s, tq_reason = Some reason, tq_failure_category = None,
     tq_resource = None, tq_artifact_path = None, tq_artifact_sha256 = None, tq_cache_hit = False,
     tq_retry_failed = False\<rparr>"

definition failure_request :: "task_status \<Rightarrow> string \<Rightarrow> failure_category \<Rightarrow> resource_record option \<Rightarrow> transition_request" where
  "failure_request s reason category resource = (plain_request s reason)\<lparr>tq_failure_category := Some category,
     tq_resource := resource\<rparr>"

text \<open>\<open>_relative_payload_path\<close>: artifact paths of the model are below the cache root already.\<close>

definition relative_payload_path :: "cache_artifact \<Rightarrow> string" where
  "relative_payload_path a = as_posix (ca_payload_path a)"

definition complete_request ::
  "string \<Rightarrow> cache_artifact \<Rightarrow> bool \<Rightarrow> resource_record option \<Rightarrow> transition_request" where
  "complete_request reason a hit resource = (plain_request COMPLETE reason)\<lparr>
     tq_artifact_path := Some (relative_payload_path a), tq_artifact_sha256 := Some (ca_payload_sha256 a),
     tq_cache_hit := hit, tq_resource := resource\<rparr>"

section \<open>Admission of one task\<close>

text \<open>The first loop of \<open>run\<close>: \<open>True\<close> when the task is to be executed.\<close>

definition admit_pending :: "sched_env \<Rightarrow> task_spec \<Rightarrow> bool step" where
  "admit_pending E t = bind_step (task_entry E (ts_task_id t)) (\<lambda>r.
     if st_state r \<noteq> PENDING then ret False
     else bind_step (lookup_or E (ts_cache_identity t) (do_quarantine E (ts_cache_identity t))) (\<lambda>found.
       case found of
         Some a \<Rightarrow>
           bind_step (do_transition E (ts_task_id t) (plain_request RUNNING ''VALIDATED_CACHE_HIT'')) (\<lambda>_.
           bind_step (do_transition E (ts_task_id t) (complete_request ''VALIDATED_CACHE_HIT'' a True None)) (\<lambda>_.
           bind_step (do_index_add E a) (\<lambda>_. bind_step count_hit (\<lambda>_. ret False))))
       | None \<Rightarrow>
           bind_step (do_transition E (ts_task_id t) (plain_request RUNNING ''TASK_SCHEDULED'')) (\<lambda>_. ret True)))"

definition admit_complete :: "sched_env \<Rightarrow> task_spec \<Rightarrow> bool step" where
  "admit_complete E t = bind_step (lookup_or E (ts_cache_identity t) (ret ())) (\<lambda>found.
     case found of
       Some a \<Rightarrow> bind_step (do_index_add E a) (\<lambda>_. bind_step count_hit (\<lambda>_. ret False))
     | None \<Rightarrow>
         bind_step (do_transition E (ts_task_id t) (plain_request PENDING ''INVALID_CACHE_ARTIFACT'')) (\<lambda>_.
         bind_step (do_quarantine E (ts_cache_identity t)) (\<lambda>_. admit_pending E t)))"

definition admit :: "sched_env \<Rightarrow> bool \<Rightarrow> task_spec \<Rightarrow> bool step" where
  "admit E retry_failed t = bind_step (task_entry E (ts_task_id t)) (\<lambda>r.
     case st_state r of
       FAILED \<Rightarrow>
         if \<not> retry_failed then bind_step count_failed (\<lambda>_. ret False)
         else bind_step (do_transition E (ts_task_id t)
                 ((plain_request PENDING ''EXPLICIT_RETRY'')\<lparr>tq_retry_failed := True\<rparr>)) (\<lambda>_.
              bind_step (count (\<lambda>c. c\<lparr>ct_retried := Suc (ct_retried c)\<rparr>)) (\<lambda>_. admit_pending E t))
     | BLOCKED \<Rightarrow> bind_step count_blocked (\<lambda>_. ret False)
     | CANCELLED \<Rightarrow> bind_step (count (\<lambda>c. c\<lparr>ct_cancelled := Suc (ct_cancelled c)\<rparr>)) (\<lambda>_. ret False)
     | COMPLETE \<Rightarrow> admit_complete E t
     | _ \<Rightarrow> admit_pending E t)"

fun admit_all :: "sched_env \<Rightarrow> bool \<Rightarrow> task_spec list \<Rightarrow> task_spec list step" where
  "admit_all E retry_failed [] = ret []"
| "admit_all E retry_failed (t # ts) = bind_step (admit E retry_failed t) (\<lambda>queued.
     bind_step (admit_all E retry_failed ts) (\<lambda>rest. ret (if queued then t # rest else rest)))"

section \<open>Execution of one task\<close>

text \<open>What a task hands back: the execution, the artifact, and whether it was a cache hit.\<close>

type_synonym completion = "worker_execution option \<times> cache_artifact option \<times> bool"

definition observe :: "(nat \<Rightarrow> 'a) \<Rightarrow> 'a step" where
  "observe g w = (w\<lparr>sw_tick := Suc (sw_tick w)\<rparr>, Inr (g (sw_tick w)))"

definition monitor_params_for :: "sched_env \<Rightarrow> bool \<Rightarrow> task_spec \<Rightarrow> monitor_params" where
  "monitor_params_for E gpu t =
     \<lparr>mp_task = t, mp_hard_ram_limit_mib = sc_ram_hard_limit_mib (se_config E),
      mp_soft_ram_limit_mib = sc_ram_soft_limit_mib (se_config E),
      mp_heartbeat_interval_seconds = sc_heartbeat_interval_seconds (se_config E),
      mp_store = Some (se_store E), mp_has_sampler = gpu,
      mp_gpu_soft_limit_mib = (if gpu then Some (sc_vram_soft_limit_mib (se_config E)) else None),
      mp_fsub = se_fsub E, mp_fixed1 = se_fixed1 E, mp_fixed3 = se_fixed3 E,
      mp_casefold = se_casefold E, mp_error_text = se_error_text E\<rparr>"

definition or_text :: "string option \<Rightarrow> string \<Rightarrow> string" where
  "or_text x d = (case x of None \<Rightarrow> d | Some [] \<Rightarrow> d | Some t \<Rightarrow> t)"

definition or_category :: "failure_category option \<Rightarrow> failure_category \<Rightarrow> failure_category" where
  "or_category x d = (case x of None \<Rightarrow> d | Some c \<Rightarrow> c)"

definition failure_record_of ::
  "task_spec \<Rightarrow> failure_category \<Rightarrow> string option \<Rightarrow> string option \<Rightarrow> failure_record" where
  "failure_record_of t category reason tb =
     \<lparr>fl_task_id = ts_task_id t, fl_category = category, fl_reason = or_text reason (category_text category),
      fl_traceback_relative_path = (if tb = None \<or> tb = Some [] then None
        else Some (''tracebacks/'' @ ts_task_id t @ ''.txt''))\<rparr>"

definition failed_resource :: "datetime \<Rightarrow> failure_category \<Rightarrow> string \<Rightarrow> resource_record result" where
  "failed_resource now category reason = validate_resource
     \<lparr>rr_started_at = now, rr_ended_at = now, rr_wall_seconds = 0, rr_cpu_seconds = None, rr_worker_pid = None,
      rr_exit_code = None, rr_peak_worker_rss_mib = None, rr_peak_process_tree_rss_mib = None,
      rr_gpu_allocated_mib = None, rr_gpu_reserved_mib = None, rr_gpu_free_before_mib = None,
      rr_timed_out = (category = FAIL_TIMEOUT), rr_soft_limit_warning = False,
      rr_hard_limit_passed = (category \<noteq> FAIL_RESOURCE_LIMIT), rr_cleanup_passed = True,
      rr_telemetry_complete = False, rr_failure_category = Some category, rr_failure_reason = Some reason\<rparr>"

definition integrity_reason :: string where
  "integrity_reason = ''worker output is missing or differs from its returned digest''"

definition replace_with_integrity_failure :: "worker_execution \<Rightarrow> worker_execution" where
  "replace_with_integrity_failure x =
     \<lparr>we_passed = False,
      we_resource = (we_resource x)\<lparr>rr_failure_category := Some FAIL_CACHE_INTEGRITY,
        rr_failure_reason := Some integrity_reason\<rparr>,
      we_result = we_result x, we_failure_category = Some FAIL_CACHE_INTEGRITY,
      we_failure_reason = Some integrity_reason, we_traceback = None\<rparr>"

text \<open>The outer \<open>except Exception\<close> of \<open>_execute_locked\<close>.\<close>

definition handle_exception :: "sched_env \<Rightarrow> task_spec \<Rightarrow> error \<Rightarrow> completion step" where
  "handle_exception E t e =
     (let category = (if is_integrity_error e then FAIL_CACHE_INTEGRITY else FAIL_MODEL_RUNTIME) in
      bind_step (task_entry E (ts_task_id t)) (\<lambda>current.
      bind_step (if st_state current = RUNNING
                 then bind_step (do_transition E (ts_task_id t)
                        (failure_request FAILED (se_error_text E e) category None)) (\<lambda>_. ret ())
                 else ret ()) (\<lambda>_.
      bind_step (observe (\<lambda>n. ob_now (se_ob E n))) (\<lambda>now.
      case failed_resource now category (se_error_text E e) of
        Inl e' \<Rightarrow> fail_with e'
      | Inr resource \<Rightarrow> ret
          (Some \<lparr>we_passed = False, we_resource = resource, we_result = None, we_failure_category = Some category,
                 we_failure_reason = Some (se_error_str E e), we_traceback = Some (se_traceback E e)\<rparr>,
           None, False)))))"

definition block_task :: "sched_env \<Rightarrow> task_spec \<Rightarrow> failure_category \<Rightarrow> string \<Rightarrow> completion option step" where
  "block_task E t category detail = bind_step
     (do_transition E (ts_task_id t)
        (failure_request BLOCKED (category_text category @ '': '' @ detail) category None))
     (\<lambda>_. ret (Some (None, None, False)))"

text \<open>The GPU checks before a launch; \<open>None\<close> means that the task may start.\<close>

definition gpu_checks :: "sched_env \<Rightarrow> task_spec \<Rightarrow> completion option step" where
  "gpu_checks E t = bind_step (observe (se_gpu_sample E)) (\<lambda>sample.
     if snapshot_values sample = None
     then block_task E t BLOCKED_GPU_UNAVAILABLE ''required GPU telemetry missing''
     else bind_step (observe (se_gpu_budget E)) (\<lambda>budget.
       case budget of
         Inr _ \<Rightarrow> ret None
       | Inl (RuntimeError message) \<Rightarrow>
           block_task E t (if infix_of ''insufficient'' (se_casefold E message)
                           then BLOCKED_INSUFFICIENT_VRAM else BLOCKED_GPU_UNAVAILABLE) message
       | Inl e \<Rightarrow> fail_with e))"

definition enter_worker :: "bool \<Rightarrow> unit step" where
  "enter_worker gpu = modify (\<lambda>w. if gpu
     then w\<lparr>sw_active_gpu := Suc (sw_active_gpu w), sw_max_gpu := max (sw_max_gpu w) (Suc (sw_active_gpu w))\<rparr>
     else w\<lparr>sw_active_cpu := Suc (sw_active_cpu w), sw_max_cpu := max (sw_max_cpu w) (Suc (sw_active_cpu w))\<rparr>)"

definition leave_worker :: "bool \<Rightarrow> sched \<Rightarrow> sched" where
  "leave_worker gpu w = (if gpu then w\<lparr>sw_active_gpu := sw_active_gpu w - 1\<rparr>
     else w\<lparr>sw_active_cpu := sw_active_cpu w - 1\<rparr>)"

text \<open>
  The first half of \<open>_execute_locked\<close>, up to the launch of the worker (\<open>None\<close>), and the second
  half. Between the halves of one task other tasks of the pool move. The identity lock is taken
  here and held to the end of the second half; that it excludes other holders is not used.
\<close>

definition begin_body :: "sched_env \<Rightarrow> bool \<Rightarrow> task_spec \<Rightarrow> completion option step" where
  "begin_body E gpu t = bind_step
     (lookup_or E (ts_cache_identity t) (do_quarantine_locked E (ts_cache_identity t))) (\<lambda>existing.
      case existing of
        Some a \<Rightarrow>
          bind_step (do_transition E (ts_task_id t)
             (complete_request ''VALIDATED_CACHE_HIT_AFTER_LOCK'' a True None)) (\<lambda>_.
          bind_step (do_index_add E a) (\<lambda>_. ret (Some (None, Some a, True))))
      | None \<Rightarrow>
          bind_step (if gpu then gpu_checks E t else ret None) (\<lambda>blocked.
          case blocked of
            Some c \<Rightarrow> ret (Some c)
          | None \<Rightarrow> bind_step (enter_worker gpu) (\<lambda>_. ret None)))"

definition begin_task :: "sched_env \<Rightarrow> bool \<Rightarrow> task_spec \<Rightarrow> completion option step" where
  "begin_task E gpu t = catch
     (\<lambda>w. with_key_lock (se_lock_free E (sw_tick w)) (cache_key (pl_sha (se_platform E)) (ts_cache_identity t))
        (sc_lock_timeout_seconds (se_config E)) (w\<lparr>sw_tick := Suc (sw_tick w)\<rparr>) (begin_body E gpu t))
     (\<lambda>e. bind_step (handle_exception E t e) (\<lambda>c. ret (Some c)))"

definition run_worker :: "sched_env \<Rightarrow> bool \<Rightarrow> task_spec \<Rightarrow> worker_execution step" where
  "run_worker E gpu t w =
     (case execute_isolated_worker (monitor_params_for E gpu t) (se_worker E (ts_task_id t)) (sw_state w) of
        (f', Inl e) \<Rightarrow> (leave_worker gpu (w\<lparr>sw_state := f'\<rparr>), Inl e)
      | (f', Inr x) \<Rightarrow>
          (leave_worker gpu (w\<lparr>sw_state := f', sw_network := sw_network w +
             (case we_result x of None \<Rightarrow> 0 | Some r \<Rightarrow> tr_network_attempt_count r)\<rparr>), Inr x))"

text \<open>A passed worker whose payload file is missing or has another digest is not believed.\<close>

definition check_payload :: "sched_env \<Rightarrow> task_spec \<Rightarrow> worker_execution \<Rightarrow> worker_execution" where
  "check_payload E t x =
     (case we_result x of
        Some r \<Rightarrow>
          if we_passed x \<and> (case se_payload E (ts_task_id t) of
               None \<Rightarrow> True
             | Some bs \<Rightarrow> tr_task_id r \<noteq> ts_task_id t
                 \<or> tr_payload_sha256 r \<noteq> Some (pl_sha (se_platform E) bs))
          then replace_with_integrity_failure x else x
      | None \<Rightarrow> x)"

definition publish_outcome :: "sched_env \<Rightarrow> task_spec \<Rightarrow> worker_execution \<Rightarrow> completion step" where
  "publish_outcome E t x = bind_step (do_publish E t) (\<lambda>published.
     bind_step (do_index_add E (pb_artifact published)) (\<lambda>_.
     bind_step (do_transition E (ts_task_id t) (complete_request ''ARTIFACT_VALIDATED_AND_PUBLISHED''
        (pb_artifact published) False (Some (we_resource x)))) (\<lambda>_.
     ret (Some x, Some (pb_artifact published), False))))"

definition fail_outcome :: "sched_env \<Rightarrow> task_spec \<Rightarrow> worker_execution \<Rightarrow> completion step" where
  "fail_outcome E t x =
     (let category = or_category (we_failure_category x) FAIL_MODEL_RUNTIME;
          reason = or_text (we_failure_reason x) (category_text category);
          record = failure_record_of t category (we_failure_reason x) (we_traceback x)
      in bind_step (do_transition E (ts_task_id t)
           (failure_request FAILED reason category (Some (we_resource x)))) (\<lambda>_.
         bind_step (case fl_traceback_relative_path record of
             None \<Rightarrow> ret ()
           | Some path \<Rightarrow> modify (\<lambda>w. w\<lparr>sw_traceback_files :=
               AList.update path (or_text (we_traceback x) reason) (sw_traceback_files w)\<rparr>)) (\<lambda>_.
         ret (Some x, None, False))))"

definition finish_task :: "sched_env \<Rightarrow> bool \<Rightarrow> task_spec \<Rightarrow> completion step" where
  "finish_task E gpu t = catch
     (bind_step (run_worker E gpu t) (\<lambda>x0. let x = check_payload E t x0 in
        if we_passed x then publish_outcome E t x else fail_outcome E t x))
     (handle_exception E t)"

definition execute_locked :: "sched_env \<Rightarrow> bool \<Rightarrow> task_spec \<Rightarrow> completion step" where
  "execute_locked E gpu t = bind_step (begin_task E gpu t) (\<lambda>r.
     case r of Some c \<Rightarrow> ret c | None \<Rightarrow> finish_task E gpu t)"

text \<open>\<open>_run_gpu_task\<close>: the repository-wide GPU lock around it; any exception blocks the task.\<close>

definition run_gpu_task :: "sched_env \<Rightarrow> task_spec \<Rightarrow> completion step" where
  "run_gpu_task E t = catch
     (bind_step (observe (se_gpu_lock E)) (\<lambda>lock. case lock of
        Inl e \<Rightarrow> fail_with e | Inr _ \<Rightarrow> execute_locked E True t))
     (\<lambda>e. bind_step (task_entry E (ts_task_id t)) (\<lambda>current.
        bind_step (if st_state current = RUNNING
                   then bind_step (do_transition E (ts_task_id t) (failure_request BLOCKED
                          (category_text BLOCKED_GPU_UNAVAILABLE @ '': '' @ se_error_text E e)
                          BLOCKED_GPU_UNAVAILABLE None)) (\<lambda>_. ret ())
                   else ret ()) (\<lambda>_. ret (None, None, False))))"

section \<open>Collection of outcomes\<close>

definition add_failure :: "failure_record \<Rightarrow> unit step" where
  "add_failure r = modify (\<lambda>w. w\<lparr>sw_failures := sw_failures w @ [r]\<rparr>)"

definition collect_outcome :: "task_spec \<Rightarrow> worker_execution \<Rightarrow> cache_artifact option \<Rightarrow> unit step" where
  "collect_outcome t x artifact =
     bind_step (modify (\<lambda>w. w\<lparr>sw_resources := sw_resources w @ [we_resource x]\<rparr>)) (\<lambda>_.
     if we_passed x \<and> artifact \<noteq> None then count_executed
     else bind_step count_failed (\<lambda>_. add_failure
       (failure_record_of t (or_category (we_failure_category x) FAIL_MODEL_RUNTIME)
         (we_failure_reason x) (we_traceback x))))"

definition collect_cpu :: "task_spec \<Rightarrow> completion \<Rightarrow> unit step" where
  "collect_cpu t = (\<lambda>(outcome, artifact, was_hit).
     if was_hit then count_hit
     else case outcome of None \<Rightarrow> ret () | Some x \<Rightarrow> collect_outcome t x artifact)"

definition collect_gpu :: "sched_env \<Rightarrow> task_spec \<Rightarrow> completion \<Rightarrow> unit step" where
  "collect_gpu E t = (\<lambda>(outcome, artifact, was_hit).
     if was_hit then count_hit
     else case outcome of
       None \<Rightarrow> bind_step count_blocked (\<lambda>_. bind_step (task_entry E (ts_task_id t)) (\<lambda>current.
         add_failure \<lparr>fl_task_id = ts_task_id t,
           fl_category = or_category (st_failure_category current) BLOCKED_GPU_UNAVAILABLE,
           fl_reason = or_text (st_failure_reason current) ''GPU task blocked'',
           fl_traceback_relative_path = None\<rparr>))
     | Some x \<Rightarrow> collect_outcome t x artifact)"

fun run_gpu_tasks :: "sched_env \<Rightarrow> task_spec list \<Rightarrow> unit step" where
  "run_gpu_tasks E [] = ret ()"
| "run_gpu_tasks E (t # ts) = bind_step (run_gpu_task E t) (\<lambda>c.
     bind_step (collect_gpu E t c) (\<lambda>_. run_gpu_tasks E ts))"

section \<open>The pool\<close>

text \<open>
  The thread pool: at most \<open>max_workers\<close> tasks are submitted at a time; a submitted task waits
  for its first half, then its worker runs, and when it is collected the next task is submitted.
  \<open>se_choice\<close> says which task moves next, so every interleaving of the halves is a run.
\<close>

definition remove_nth :: "nat \<Rightarrow> 'a list \<Rightarrow> 'a list" where
  "remove_nth i xs = take i xs @ drop (Suc i) xs"

lemma length_remove_nth [simp]: "i < length xs \<Longrightarrow> length (remove_nth i xs) = length xs - 1"
  by (simp add: remove_nth_def)

function run_pool ::
  "sched_env \<Rightarrow> task_spec list \<Rightarrow> task_spec list \<Rightarrow> task_spec list \<Rightarrow> unit step" where
  "run_pool E waiting launched queue w =
     (if waiting = [] \<and> launched = [] then (w, Inr ())
      else let (finish, k) = se_choice E (sw_tick w) in
      if launched \<noteq> [] \<and> (finish \<or> waiting = [])
      then (let i = k mod length launched; t = launched ! i in
            case bind_step (finish_task E False t) (collect_cpu t) w of
              (w', Inl e) \<Rightarrow> (w', Inl e)
            | (w', Inr _) \<Rightarrow> run_pool E (waiting @ take 1 queue) (remove_nth i launched) (drop 1 queue) w')
      else (let i = k mod length waiting; t = waiting ! i in
            case begin_task E False t w of
              (w', Inl e) \<Rightarrow> (w', Inl e)
            | (w', Inr None) \<Rightarrow> run_pool E (remove_nth i waiting) (launched @ [t]) queue w'
            | (w', Inr (Some c)) \<Rightarrow>
                (case collect_cpu t c w' of
                   (w'', Inl e) \<Rightarrow> (w'', Inl e)
                 | (w'', Inr _) \<Rightarrow>
                     run_pool E (remove_nth i waiting @ take 1 queue) launched (drop 1 queue) w'')))"
  by pat_completeness auto

termination
  by (relation "measure (\<lambda>(E, waiting, launched, queue, w). 2 * length waiting + length launched + 2 * length queue)")
    (auto simp: min_def neq_Nil_conv)

declare run_pool.simps [simp del]

section \<open>The whole run\<close>

definition status_count :: "task_status \<Rightarrow> scheduler_state \<Rightarrow> nat" where
  "status_count s st = length (filter (\<lambda>(k, r). st_state r = s) (ss_tasks st))"

text \<open>The terminal records of the final state complete the report.\<close>

definition report_record :: "task_record \<Rightarrow> sched \<Rightarrow> sched" where
  "report_record r w =
     (let resources = sw_resources w;
          w1 = (case (if st_attempts r = [] then None else at_resource (last (st_attempts r))) of
             None \<Rightarrow> w
           | Some res \<Rightarrow> if res \<in> set resources then w else w\<lparr>sw_resources := resources @ [res]\<rparr>)
      in if st_state r \<in> {FAILED, BLOCKED}
            \<and> \<not> list_ex (\<lambda>x. fl_task_id x = ts_task_id (st_task r)) (sw_failures w1)
         then w1\<lparr>sw_failures := sw_failures w1 @ [failure_record_of (st_task r)
                (or_category (st_failure_category r) FAIL_MODEL_RUNTIME) (st_failure_reason r) None]\<rparr>
         else w1)"

definition final_report :: "sched_env \<Rightarrow> scheduler_state step" where
  "final_report E w =
     (case read_state (se_store E) (sw_state w) of
        Inl e \<Rightarrow> (w, Inl e)
      | Inr st \<Rightarrow>
          (fold report_record (map snd (ss_tasks st)) (w\<lparr>sw_counters := (sw_counters w)\<lparr>
             ct_failed := status_count FAILED st, ct_blocked := status_count BLOCKED st,
             ct_cancelled := status_count CANCELLED st\<rparr>\<rparr>), Inr st))"

definition manifest_of :: "sched_env \<Rightarrow> bool \<Rightarrow> sched \<Rightarrow> run_manifest" where
  "manifest_of E resume w = (let c = sw_counters w in
     \<lparr>rm_plan_hash = sp_plan_hash (se_store E), rm_source_implementation_commit = se_source_commit E,
      rm_resume = resume, rm_planned = ct_planned c, rm_executed = ct_executed c,
      rm_validated_cache_hits = ct_validated_cache_hits c, rm_recovered_abandoned = ct_recovered_abandoned c,
      rm_failed = ct_failed c, rm_blocked = ct_blocked c, rm_retried = ct_retried c,
      rm_cancelled = ct_cancelled c, rm_max_cpu_concurrency = sw_max_cpu w,
      rm_max_gpu_concurrency = sw_max_gpu w, rm_offline_network_attempt_count = sw_network w,
      rm_resources = sw_resources w, rm_failures = sw_failures w\<rparr>)"

definition initial_counters :: "nat \<Rightarrow> nat \<Rightarrow> counters" where
  "initial_counters planned recovered = \<lparr>ct_planned = planned, ct_executed = 0, ct_validated_cache_hits = 0,
     ct_recovered_abandoned = recovered, ct_failed = 0, ct_blocked = 0, ct_retried = 0, ct_cancelled = 0\<rparr>"

definition runs_on_gpu :: "task_spec \<Rightarrow> bool" where
  "runs_on_gpu t \<longleftrightarrow> ci_device_policy (ts_cache_identity t) = Cuda"

definition pool_size :: "sched_env \<Rightarrow> nat" where
  "pool_size E = nat (min (sc_cpu_workers (se_config E)) (rp_cpu_workers (sp_plan (se_store E))))"

definition start_run :: "sched_env \<Rightarrow> unit step" where
  "start_run E = bind_step (on_state E (initialize (se_store E))) (\<lambda>_.
     bind_step (on_state E (\<lambda>ob. recover_abandoned (se_store E) ob (sc_abandoned_lease_seconds (se_config E))))
       (\<lambda>recovered.
     bind_step (modify (\<lambda>w. w\<lparr>sw_counters := initial_counters (length (rp_tasks (sp_plan (se_store E)))) recovered,
        sw_resources := [], sw_failures := []\<rparr>)) (\<lambda>_. do_index_rebuild E)))"

definition execute_tasks :: "sched_env \<Rightarrow> task_spec list \<Rightarrow> unit step" where
  "execute_tasks E queued =
     (let cpu = filter (\<lambda>t. \<not> runs_on_gpu t) queued; gpu = filter runs_on_gpu queued in
      bind_step (run_pool E (take (pool_size E) cpu) [] (drop (pool_size E) cpu)) (\<lambda>_. run_gpu_tasks E gpu))"

definition run_scheduler :: "sched_env \<Rightarrow> bool \<Rightarrow> bool \<Rightarrow> run_manifest step" where
  "run_scheduler E resume retry_failed =
     bind_step (start_run E) (\<lambda>_.
     bind_step (admit_all E retry_failed (rp_tasks (sp_plan (se_store E)))) (\<lambda>queued.
     bind_step (execute_tasks E queued) (\<lambda>_.
     bind_step (final_report E) (\<lambda>_.
     (\<lambda>w. (w, validate_run_manifest (manifest_of E resume w)))))))"

end
