(* ===== verification/Scheduler_Interface.thy ===== *)
theory Scheduler_Interface
  imports Scheduler Resources_Facts Task_State_Facts
begin

text \<open>
  Relations kept by every step of the scheduler. A client gives a reflexive and transitive
  relation on scheduler states and shows it for the primitive changes (an operation of the
  state store, a quarantine, a publication, bookkeeping); the locales extend it to the
  composed steps and to the whole run.
\<close>

section \<open>Steps that keep a relation\<close>

definition sat :: "(sched \<Rightarrow> sched \<Rightarrow> bool) \<Rightarrow> 'a step \<Rightarrow> bool" where
  "sat R m \<longleftrightarrow> (\<forall>w. R w (fst (m w)))"

locale step_relation =
  fixes R :: "sched \<Rightarrow> sched \<Rightarrow> bool"
  assumes refl: "R w w"
    and trans: "\<lbrakk>R u v; R v w\<rbrakk> \<Longrightarrow> R u w"
begin

lemma sat_ret: "sat R (ret x)"
  by (simp add: sat_def ret_def refl)

lemma sat_fail: "sat R (fail_with e)"
  by (simp add: sat_def fail_with_def refl)

lemma sat_bind_dep:
  assumes "sat R m" and "\<And>w w' x. m w = (w', Inr x) \<Longrightarrow> sat R (k x)"
  shows "sat R (bind_step m k)"
  unfolding sat_def
proof
  fix w
  obtain w' r where m: "m w = (w', r)" by (cases "m w")
  have "R w w'" using assms(1) m by (simp add: sat_def) (metis fst_conv)
  moreover have "R w' (fst (k x w'))" if "r = Inr x" for x
    using assms(2) m that by (simp add: sat_def)
  ultimately show "R w (fst (bind_step m k w))"
    using m by (cases r) (auto simp: bind_step_def intro: trans)
qed

lemma sat_bind: "\<lbrakk>sat R m; \<And>x. sat R (k x)\<rbrakk> \<Longrightarrow> sat R (bind_step m k)"
  by (rule sat_bind_dep)

lemma sat_catch:
  assumes "sat R m" and "\<And>e. sat R (h e)"
  shows "sat R (catch m h)"
  unfolding sat_def
proof
  fix w
  obtain w' r where m: "m w = (w', r)" by (cases "m w")
  have "R w w'" using assms(1) m by (simp add: sat_def) (metis fst_conv)
  moreover have "R w' (fst (h e w'))" for e using assms(2) by (simp add: sat_def)
  ultimately show "R w (fst (catch m h w))"
    using m by (cases r) (auto simp: catch_def intro: trans)
qed

lemma sat_if: "\<lbrakk>sat R m; sat R m'\<rbrakk> \<Longrightarrow> sat R (if b then m else m')"
  by simp

end

section \<open>Relations on the scheduler\<close>

definition same_core :: "sched \<Rightarrow> sched \<Rightarrow> bool" where
  "same_core w w' \<longleftrightarrow> sw_state w' = sw_state w \<and> sw_cache w' = sw_cache w
     \<and> sw_active_cpu w' = sw_active_cpu w \<and> sw_max_cpu w' = sw_max_cpu w
     \<and> sw_active_gpu w' = sw_active_gpu w \<and> sw_max_gpu w' = sw_max_gpu w"

definition plan_tasks :: "sched_env \<Rightarrow> task_spec set" where
  "plan_tasks E = set (rp_tasks (sp_plan (se_store E)))"

text \<open>What a worker execution does to the state file is a sequence of store operations.\<close>

definition store_path :: "store_params \<Rightarrow> state_file \<Rightarrow> state_file \<Rightarrow> bool" where
  "store_path S f f' \<longleftrightarrow> (\<exists>ops. f' = foldl (store_step S) f ops)"

lemma store_path_refl: "store_path S f f"
  unfolding store_path_def by (rule exI [of _ "[]"]) simp

lemma store_path_trans: "\<lbrakk>store_path S f g; store_path S g h\<rbrakk> \<Longrightarrow> store_path S f h"
  unfolding store_path_def by (metis foldl_append)

lemma store_path_op: "store_path S f (store_step S f op)"
  unfolding store_path_def by (rule exI [of _ "[op]"]) simp

lemma poll_heartbeat_path:
  assumes "poll_heartbeat M p m f = ((m', f'), r)" and "mp_store M = Some S"
  shows "store_path S f f'"
proof -
  have "f' = f \<or> f' = store_step S f (OpHeartbeat (po_ob p) (ts_task_id (mp_task M)))"
    using assms by (auto simp: poll_heartbeat_def split: if_splits prod.splits sum.splits)
  then show ?thesis using store_path_refl store_path_op by metis
qed

lemma monitor_loop_path:
  assumes "monitor_loop M started ps m f = ((m', f'), r)" and "mp_store M = Some S"
  shows "store_path S f f'"
  using assms(1)
proof (induction ps arbitrary: m f)
  case Nil
  then show ?case by (simp add: store_path_refl)
next
  case (Cons p ps)
  obtain m1 s1 where ram: "poll_ram M p m = (m1, s1)" by (cases "poll_ram M p m")
  obtain m2 s2 where gpu: "poll_gpu M p (poll_cpu p m1) = (m2, s2)" by (cases "poll_gpu M p (poll_cpu p m1)")
  obtain m3 f3 h where hb: "poll_heartbeat M p m2 f = ((m3, f3), h)"
    by (cases "poll_heartbeat M p m2 f") auto
  obtain m4 s4 where to: "poll_timeout M started p m3 = (m4, s4)" by (cases "poll_timeout M started p m3")
  have p3: "store_path S f f3" using hb assms(2) by (rule poll_heartbeat_path)
  show ?case
  proof (cases "s1 \<or> s2")
    case True
    with Cons.prems ram gpu show ?thesis by (auto simp: store_path_refl split: if_splits)
  next
    case no: False
    show ?thesis
    proof (cases "h = Inr () \<and> \<not> s4")
      case True
      then have "monitor_loop M started ps m4 f3 = ((m', f'), r)"
        using Cons.prems no ram gpu hb to by simp
      from Cons.IH [OF this] p3 show ?thesis by (blast intro: store_path_trans)
    next
      case False
      then have "f' = f3"
        using Cons.prems no ram gpu hb to by (cases h) auto
      with p3 show ?thesis by simp
    qed
  qed
qed

lemma supervise_path:
  assumes "supervise M W m f = ((m', f'), r)" and "mp_store M = Some S"
  shows "store_path S f f'"
proof (cases "ww_start W")
  case (Started pid)
  show ?thesis
  proof (cases pid)
    case None
    with Started assms show ?thesis by (simp add: supervise_def store_path_refl)
  next
    case (Some p)
    obtain g u where g: "set_worker_pid S (ww_pid_ob W) (ts_task_id (mp_task M)) p f = (g, u)"
      by (cases "set_worker_pid S (ww_pid_ob W) (ts_task_id (mp_task M)) p f")
    have "g = store_step S f (OpSetWorkerPid (ww_pid_ob W) (ts_task_id (mp_task M)) p)" using g by simp
    then have pg: "store_path S f g" by (simp only: store_path_op)
    obtain m2 f2 v where l: "monitor_loop M (ww_wall_started W) (ww_polls W) m g = ((m2, f2), v)"
      by (cases "monitor_loop M (ww_wall_started W) (ww_polls W) m g") auto
    have "f' = g \<or> f' = f2"
      using assms Started Some g l by (cases u; cases v) (auto simp: supervise_def)
    with pg monitor_loop_path [OF l assms(2)] show ?thesis by (blast intro: store_path_trans)
  qed
qed (use assms in \<open>simp add: supervise_def store_path_refl\<close>)

lemma execute_path:
  assumes "execute_isolated_worker M W f = (f', r)" and "mp_store M = Some S"
  shows "store_path S f f'"
proof (cases rule: execute_cases [of M W f])
  case (preflight e)
  with assms show ?thesis by (simp add: store_path_refl)
next
  case (raised m m' g e c)
  with assms have "f' = g" by simp
  with supervise_path [OF raised(2) assms(2)] show ?thesis by simp
next
  case (watched m m' g pid m'' c res tb)
  with assms have "f' = g" by simp
  with supervise_path [OF watched(2) assms(2)] show ?thesis by simp
qed

section \<open>Composed steps\<close>

locale scheduler_relation = step_relation R for R :: "sched \<Rightarrow> sched \<Rightarrow> bool" +
  fixes E :: sched_env
  assumes book: "same_core w w' \<Longrightarrow> R w w'"
    and store: "R w (w\<lparr>sw_state := store_step (se_store E) (sw_state w) op, sw_tick := n\<rparr>)"
    and quarantined: "t \<in> plan_tasks E \<Longrightarrow> R w (w\<lparr>sw_cache :=
      fst (quarantine_invalid_locked (se_platform E) (ts_cache_identity t) tag (sw_cache w)), sw_tick := n\<rparr>)"
    and published: "t \<in> plan_tasks E \<Longrightarrow> R w (w\<lparr>sw_cache := fst (publish_stream (se_platform E)
      (ts_cache_identity t) task copied eh es now txn outcome (sw_cache w)), sw_tick := n\<rparr>)"
begin

lemma sat_book: "(\<And>w. same_core w (fst (m w))) \<Longrightarrow> sat R m"
  by (simp add: sat_def book)

lemma sat_transition: "sat R (do_transition E k q)"
  using store [where op = "OpTransition ob k q" for ob]
  by (simp add: sat_def do_transition_def on_state_def split_beta)

lemma sat_initialize: "sat R (on_state E (initialize (se_store E)))"
  using store [where op = "OpInitialize ob" for ob] by (simp add: sat_def on_state_def split_beta)

lemma sat_recover: "sat R (on_state E (\<lambda>ob. recover_abandoned (se_store E) ob lease))"
  using store [where op = "OpRecover ob lease" for ob] by (simp add: sat_def on_state_def split_beta)

lemma sat_entry: "sat R (task_entry E k)"
  by (rule sat_book) (simp add: task_entry_def same_core_def)

lemma sat_observe: "sat R (observe g)"
  by (rule sat_book) (simp add: observe_def same_core_def)

lemma sat_lookup: "sat R (cache_lookup E i)"
  by (rule sat_book) (simp add: cache_lookup_def same_core_def)

lemma sat_index_add: "sat R (do_index_add E a)"
  by (rule sat_book) (simp add: do_index_add_def same_core_def split_beta)

lemma sat_index_rebuild: "sat R (do_index_rebuild E)"
  by (rule sat_book) (simp add: do_index_rebuild_def same_core_def split_beta)

lemma sat_modify: "(\<And>w. same_core w (g w)) \<Longrightarrow> sat R (modify g)"
  by (rule sat_book) (simp add: modify_def)

lemma sat_counts: "sat R (count g)" "sat R count_failed" "sat R count_hit" "sat R count_executed" "sat R count_blocked"
  by (auto simp: count_def count_failed_def count_hit_def count_executed_def count_blocked_def same_core_def
      intro: sat_modify)

lemma sat_add_failure: "sat R (add_failure r)"
  unfolding add_failure_def by (rule sat_modify) (simp add: same_core_def)

lemma sat_quarantine_locked: "t \<in> plan_tasks E \<Longrightarrow> sat R (do_quarantine_locked E (ts_cache_identity t))"
  unfolding do_quarantine_locked_def
  by (intro sat_bind sat_ret) (simp add: sat_def on_cache_def split_beta quarantined)

lemma sat_quarantine: "t \<in> plan_tasks E \<Longrightarrow> sat R (do_quarantine E (ts_cache_identity t))"
  unfolding do_quarantine_def sat_def bind_step_def
proof
  fix w :: sched assume t: "t \<in> plan_tasks E"
  let ?i = "ts_cache_identity t" and ?n = "sw_tick w"
  let ?q = "quarantine_invalid (se_platform E) (se_lock_free E ?n) (sc_lock_timeout_seconds (se_config E)) ?i
    (se_tag E ?n) (sw_cache w)"
  have "fst ?q = sw_cache w \<or> fst ?q = fst (quarantine_invalid_locked (se_platform E) ?i (se_tag E ?n) (sw_cache w))"
    by (auto simp: quarantine_invalid_def with_key_lock_def Let_def split: sum.split)
  moreover have "R w (w\<lparr>sw_cache := sw_cache w, sw_tick := Suc ?n\<rparr>)" by (rule book) (simp add: same_core_def)
  ultimately have "R w (w\<lparr>sw_cache := fst ?q, sw_tick := Suc ?n\<rparr>)" using quarantined [OF t] by metis
  then show "R w (fst (case on_cache E (\<lambda>n. quarantine_invalid (se_platform E) (se_lock_free E n)
      (sc_lock_timeout_seconds (se_config E)) ?i (se_tag E n)) w of
      (w', Inl e) \<Rightarrow> (w', Inl e) | (w', Inr x) \<Rightarrow> ret () w'))"
    by (auto simp: on_cache_def ret_def split: prod.split sum.split)
qed

lemma sat_publish: "t \<in> plan_tasks E \<Longrightarrow> sat R (do_publish E t)"
  unfolding do_publish_def sat_def on_cache_def publish_file_locked_def
  by (auto simp: split_beta same_core_def intro: published book split: option.split)

lemma sat_lookup_or: "sat R h \<Longrightarrow> sat R (lookup_or E i h)"
  unfolding lookup_or_def by (intro sat_catch sat_lookup sat_if sat_bind sat_ret sat_fail)

lemma sat_option: "\<lbrakk>sat R m; \<And>x. sat R (k x)\<rbrakk> \<Longrightarrow> sat R (case r of None \<Rightarrow> m | Some x \<Rightarrow> k x)"
  by (cases r) simp_all

lemma sat_admit_pending: "t \<in> plan_tasks E \<Longrightarrow> sat R (admit_pending E t)"
  unfolding admit_pending_def
  by (intro sat_bind sat_entry sat_if sat_ret sat_lookup_or sat_quarantine sat_option sat_transition
      sat_index_add sat_counts)

lemma sat_admit_complete: "t \<in> plan_tasks E \<Longrightarrow> sat R (admit_complete E t)"
  unfolding admit_complete_def
  by (intro sat_bind sat_lookup_or sat_ret sat_option sat_transition sat_quarantine sat_admit_pending
      sat_index_add sat_counts)

lemma sat_admit: "t \<in> plan_tasks E \<Longrightarrow> sat R (admit E retry t)"
  unfolding admit_def
proof (rule sat_bind [OF sat_entry])
  fix r assume t: "t \<in> plan_tasks E"
  show "sat R (case st_state r of
       FAILED \<Rightarrow>
         if \<not> retry then bind_step count_failed (\<lambda>_. ret False)
         else bind_step (do_transition E (ts_task_id t)
                 ((plain_request PENDING ''EXPLICIT_RETRY'')\<lparr>tq_retry_failed := True\<rparr>)) (\<lambda>_.
              bind_step (count (\<lambda>c. c\<lparr>ct_retried := Suc (ct_retried c)\<rparr>)) (\<lambda>_. admit_pending E t))
     | BLOCKED \<Rightarrow> bind_step count_blocked (\<lambda>_. ret False)
     | CANCELLED \<Rightarrow> bind_step (count (\<lambda>c. c\<lparr>ct_cancelled := Suc (ct_cancelled c)\<rparr>)) (\<lambda>_. ret False)
     | COMPLETE \<Rightarrow> admit_complete E t
     | _ \<Rightarrow> admit_pending E t)"
    using t by (cases "st_state r")
      (simp_all add: sat_bind sat_if sat_counts sat_ret sat_transition sat_admit_pending sat_admit_complete)
qed

lemma sat_admit_all: "set ts \<subseteq> plan_tasks E \<Longrightarrow> sat R (admit_all E retry ts)"
  by (induction ts) (simp_all add: sat_ret sat_bind sat_admit)

lemma sat_handle: "sat R (handle_exception E t e)"
  unfolding handle_exception_def Let_def
  by (intro sat_bind sat_entry sat_if sat_transition sat_ret sat_observe)
    (simp add: sat_fail sat_ret split: sum.split)

lemma sat_block: "sat R (block_task E t c d)"
  unfolding block_task_def by (intro sat_bind sat_transition sat_ret)

lemma sat_gpu_checks: "sat R (gpu_checks E t)"
  unfolding gpu_checks_def
  by (intro sat_bind sat_observe sat_if sat_block)
    (simp add: sat_fail sat_ret sat_block split: sum.split error.split)

lemma sat_publish_outcome: "t \<in> plan_tasks E \<Longrightarrow> sat R (publish_outcome E t x)"
  unfolding publish_outcome_def by (intro sat_bind sat_publish sat_index_add sat_transition sat_ret)

lemma sat_fail_outcome: "sat R (fail_outcome E t x)"
  unfolding fail_outcome_def Let_def
  by (intro sat_bind sat_transition sat_option sat_ret sat_modify) (simp add: same_core_def)

lemma sat_collect_outcome: "sat R (collect_outcome t x a)"
  unfolding collect_outcome_def
  by (intro sat_bind sat_modify sat_if sat_counts sat_add_failure) (simp add: same_core_def)

lemma sat_collect_cpu: "sat R (collect_cpu t c)"
  unfolding collect_cpu_def
  by (cases c) (simp add: sat_counts sat_ret sat_collect_outcome split: option.split)

lemma sat_collect_gpu: "sat R (collect_gpu E t c)"
  unfolding collect_gpu_def
  by (cases c) (simp add: sat_counts sat_bind sat_entry sat_add_failure sat_collect_outcome split: option.split)

lemma sat_start: "sat R (start_run E)"
  unfolding start_run_def
  by (intro sat_bind sat_initialize sat_recover sat_modify sat_index_rebuild) (simp add: same_core_def)

lemma same_core_report: "same_core w (fold report_record rs w)"
proof (induction rs arbitrary: w)
  case (Cons r rs)
  have "same_core w (report_record r w)"
    by (auto simp: report_record_def same_core_def Let_def split: option.split)
  moreover have "same_core (report_record r w) (fold report_record rs (report_record r w))" by (rule Cons.IH)
  ultimately show ?case by (auto simp: same_core_def)
qed (simp add: same_core_def)

lemma sat_final: "sat R (final_report E)"
proof (rule sat_book)
  fix w :: sched
  show "same_core w (fst (final_report E w))"
    using same_core_report by (auto simp: final_report_def same_core_def split: sum.split)
qed

text \<open>The state operations of a worker execution.\<close>

lemma stores: "store_path (se_store E) (sw_state w) f \<Longrightarrow> R w (w\<lparr>sw_state := f\<rparr>)"
proof -
  have "R w (w\<lparr>sw_state := foldl (store_step (se_store E)) (sw_state w) ops\<rparr>)" for ops
  proof (induction ops rule: rev_induct)
    case Nil
    then show ?case by (simp add: book same_core_def)
  next
    case (snoc op ops)
    let ?w = "w\<lparr>sw_state := foldl (store_step (se_store E)) (sw_state w) ops\<rparr>"
    from store [where w = ?w and op = op and n = "sw_tick w"]
    have "R ?w (w\<lparr>sw_state := foldl (store_step (se_store E)) (sw_state w) (ops @ [op])\<rparr>)" by simp
    with snoc show ?case by (rule trans)
  qed
  then show "store_path (se_store E) (sw_state w) f \<Longrightarrow> R w (w\<lparr>sw_state := f\<rparr>)"
    by (auto simp: store_path_def)
qed

end

end
