(* ===== verification/Scheduler_Facts.thy ===== *)
theory Scheduler_Facts
  imports Scheduler_Interface Cache_Facts
begin

text \<open>
  The rule for the thread pool, the lift of a relation to the whole run, and its instances: the
  state file moves only by store operations, and valid cache entries stay.
\<close>

section \<open>The pool, as a Hoare rule\<close>

lemma run_pool_rule:
  assumes I: "I waiting launched queue w"
    and idle: "\<And>queue w. I [] [] queue w \<Longrightarrow> Q w"
    and finish: "\<And>waiting launched queue w i w' r. \<lbrakk>I waiting launched queue w; i < length launched;
      bind_step (finish_task E False (launched ! i)) (collect_cpu (launched ! i)) w = (w', r)\<rbrakk>
      \<Longrightarrow> case r of Inl e \<Rightarrow> Q w'
        | Inr _ \<Rightarrow> I (waiting @ take 1 queue) (remove_nth i launched) (drop 1 queue) w'"
    and start: "\<And>waiting launched queue w i w' r. \<lbrakk>I waiting launched queue w; i < length waiting;
      begin_task E False (waiting ! i) w = (w', r)\<rbrakk>
      \<Longrightarrow> case r of Inl e \<Rightarrow> Q w'
        | Inr None \<Rightarrow> I (remove_nth i waiting) (launched @ [waiting ! i]) queue w'
        | Inr (Some c) \<Rightarrow> (case collect_cpu (waiting ! i) c w' of
            (w'', Inl e) \<Rightarrow> Q w''
          | (w'', Inr _) \<Rightarrow> I (remove_nth i waiting @ take 1 queue) launched (drop 1 queue) w'')"
  shows "Q (fst (run_pool E waiting launched queue w))"
  using I
proof (induction "2 * length waiting + length launched + 2 * length queue" arbitrary: waiting launched queue w
    rule: less_induct)
  case less
  note I = less.prems
  obtain fin k where ch: "se_choice E (sw_tick w) = (fin, k)" by (cases "se_choice E (sw_tick w)")
  consider (idle) "waiting = []" "launched = []" | (fin) "launched \<noteq> []" "fin \<or> waiting = []"
    | (launch) "waiting \<noteq> []" "\<not> (launched \<noteq> [] \<and> (fin \<or> waiting = []))" by blast
  then show ?case
  proof cases
    case idle
    with I assms(2) show ?thesis by (simp add: run_pool.simps)
  next
    case fin
    let ?i = "k mod length launched"
    have i: "?i < length launched" using fin(1) by simp
    obtain w' r where s: "bind_step (finish_task E False (launched ! ?i)) (collect_cpu (launched ! ?i)) w = (w', r)"
      by (cases "bind_step (finish_task E False (launched ! ?i)) (collect_cpu (launched ! ?i)) w")
    note f = finish [OF I i s]
    show ?thesis
    proof (cases r)
      case (Inl e)
      with s f fin ch show ?thesis by (simp add: run_pool.simps [of E waiting])
    next
      case (Inr u)
      have "run_pool E waiting launched queue w =
          run_pool E (waiting @ take 1 queue) (remove_nth ?i launched) (drop 1 queue) w'"
        using s fin ch Inr by (simp add: run_pool.simps [of E waiting])
      moreover have "Q (fst (run_pool E (waiting @ take 1 queue) (remove_nth ?i launched) (drop 1 queue) w'))"
        using f Inr i fin(1) by (intro less.hyps) (auto simp: min_def neq_Nil_conv)
      ultimately show ?thesis by simp
    qed
  next
    case launch
    let ?i = "k mod length waiting"
    have i: "?i < length waiting" using launch(1) by simp
    obtain w' r where s: "begin_task E False (waiting ! ?i) w = (w', r)"
      by (cases "begin_task E False (waiting ! ?i) w")
    note l = assms(4) [OF I i s]
    show ?thesis
    proof (cases r)
      case (Inl e)
      with s l launch ch show ?thesis by (auto simp: run_pool.simps [of E waiting])
    next
      case (Inr c)
      show ?thesis
      proof (cases c)
        case None
        have "run_pool E waiting launched queue w =
            run_pool E (remove_nth ?i waiting) (launched @ [waiting ! ?i]) queue w'"
          using s launch ch Inr None by (auto simp: run_pool.simps [of E waiting] Let_def)
        moreover have "Q (fst (run_pool E (remove_nth ?i waiting) (launched @ [waiting ! ?i]) queue w'))"
          using l Inr None i launch(1) by (intro less.hyps) (auto simp: neq_Nil_conv)
        ultimately show ?thesis by simp
      next
        case (Some c')
        obtain w'' u where c: "collect_cpu (waiting ! ?i) c' w' = (w'', u)" by (cases "collect_cpu (waiting ! ?i) c' w'")
        show ?thesis
        proof (cases u)
          case (Inl e)
          with s l launch ch Inr Some c show ?thesis by (auto simp: run_pool.simps [of E waiting])
        next
          case u: (Inr v)
          have "run_pool E waiting launched queue w =
              run_pool E (remove_nth ?i waiting @ take 1 queue) launched (drop 1 queue) w''"
            using s launch ch Inr Some c u by (auto simp: run_pool.simps [of E waiting] Let_def)
          moreover have "Q (fst (run_pool E (remove_nth ?i waiting @ take 1 queue) launched (drop 1 queue) w''))"
            using l Inr Some c u i launch(1) by (intro less.hyps) (auto simp: min_def neq_Nil_conv)
          ultimately show ?thesis by simp
        qed
      qed
    qed
  qed
qed

lemma set_remove_nth: "set (remove_nth i xs) \<subseteq> set xs"
  by (auto simp: remove_nth_def dest: in_set_takeD in_set_dropD)

lemma pool_subset: "set xs \<subseteq> A \<Longrightarrow> set (take n xs) \<union> set [] \<union> set (drop n xs) \<subseteq> A"
  using set_take_subset [of n xs] set_drop_subset [of n xs] by auto

lemma admit_all_subset:
  "admit_all E retry ts w = (w', Inr q) \<Longrightarrow> set q \<subseteq> set ts"
proof (induction ts arbitrary: w w' q)
  case (Cons t ts)
  obtain w1 b where b: "admit E retry t w = (w1, Inr b)" "bind_step (admit_all E retry ts)
      (\<lambda>rest. ret (if b then t # rest else rest)) w1 = (w', Inr q)"
    using Cons.prems by (auto simp: bind_step_def split: prod.splits sum.splits)
  then obtain w2 rest where "admit_all E retry ts w1 = (w2, Inr rest)" "q = (if b then t # rest else rest)"
    by (auto simp: bind_step_def ret_def split: prod.splits sum.splits)
  with Cons.IH [of w1 w2 rest] show ?case by (cases b) auto
qed (simp add: ret_def)

section \<open>Relations kept by the whole run\<close>

locale worker_relation = scheduler_relation R E for R E +
  fixes gpu :: bool
  assumes enter: "R w (fst (enter_worker gpu w))"
    and leave: "R w (leave_worker gpu (w\<lparr>sw_network := n\<rparr>))"
begin

lemma sat_enter: "sat R (enter_worker gpu)"
  by (simp add: sat_def enter)

lemma sat_begin_body: "t \<in> plan_tasks E \<Longrightarrow> sat R (begin_body E gpu t)"
  unfolding begin_body_def
  by (intro sat_bind sat_lookup_or sat_quarantine_locked sat_option sat_if sat_gpu_checks sat_ret sat_enter
      sat_transition sat_index_add)

lemma sat_begin: "t \<in> plan_tasks E \<Longrightarrow> sat R (begin_task E gpu t)"
  unfolding begin_task_def
proof (intro sat_catch sat_bind sat_handle sat_ret)
  assume "t \<in> plan_tasks E"
  then have b: "R v (fst (begin_body E gpu t v))" for v using sat_begin_body by (simp add: sat_def)
  have "R w (w\<lparr>sw_tick := Suc (sw_tick w)\<rparr>)" for w by (rule book) (simp add: same_core_def)
  then show "sat R (\<lambda>w. with_key_lock (se_lock_free E (sw_tick w))
      (cache_key (pl_sha (se_platform E)) (ts_cache_identity t)) (sc_lock_timeout_seconds (se_config E))
      (w\<lparr>sw_tick := Suc (sw_tick w)\<rparr>) (begin_body E gpu t))"
    using trans [OF _ b] by (auto simp: sat_def with_key_lock_def split: sum.split)
qed

lemma sat_run_worker: "sat R (run_worker E gpu t)"
  unfolding sat_def
proof
  fix w :: sched
  let ?x = "execute_isolated_worker (monitor_params_for E gpu t) (se_worker E (ts_task_id t)) (sw_state w)"
  have "store_path (se_store E) (sw_state w) (fst ?x)"
    by (rule execute_path [OF surjective_pairing]) (simp add: monitor_params_for_def)
  then have "R w (w\<lparr>sw_state := fst ?x\<rparr>)" by (rule stores)
  moreover have "R (w\<lparr>sw_state := fst ?x\<rparr>) (fst (run_worker E gpu t w))"
  proof -
    have "fst (run_worker E gpu t w) = leave_worker gpu ((w\<lparr>sw_state := fst ?x\<rparr>)\<lparr>sw_network := sw_network
        (fst (run_worker E gpu t w))\<rparr>)"
      by (auto simp: run_worker_def leave_worker_def split: prod.split sum.split)
    then show ?thesis using leave by metis
  qed
  ultimately show "R w (fst (run_worker E gpu t w))" by (rule trans)
qed

lemma sat_finish: "t \<in> plan_tasks E \<Longrightarrow> sat R (finish_task E gpu t)"
  unfolding finish_task_def Let_def
  by (intro sat_catch sat_bind sat_run_worker sat_if sat_publish_outcome sat_fail_outcome sat_handle)

lemma sat_execute: "t \<in> plan_tasks E \<Longrightarrow> sat R (execute_locked E gpu t)"
  unfolding execute_locked_def by (intro sat_bind sat_begin sat_option sat_finish sat_ret)

end

text \<open>The GPU tasks run one after the other, so a relation kept by each of them as a whole is enough.\<close>

locale gpu_tasks_relation = scheduler_relation R E for R E +
  assumes execute_gpu: "t \<in> plan_tasks E \<Longrightarrow> sat R (execute_locked E True t)"
begin

lemma sat_run_gpu_task: "t \<in> plan_tasks E \<Longrightarrow> sat R (run_gpu_task E t)"
  unfolding run_gpu_task_def
  by (intro sat_catch sat_bind sat_observe sat_entry sat_if sat_transition sat_ret)
    (simp add: sat_fail execute_gpu split: sum.split)

lemma sat_run_gpu_tasks: "set ts \<subseteq> plan_tasks E \<Longrightarrow> sat R (run_gpu_tasks E ts)"
  by (induction ts) (simp_all add: sat_ret sat_bind sat_run_gpu_task sat_collect_gpu)

end

locale gpu_relation = worker_relation R E True for R E

sublocale gpu_relation \<subseteq> gpu_tasks_relation R E
  by unfold_locales (rule sat_execute)

locale cpu_relation = worker_relation R E False for R E
begin

lemma sat_run_pool:
  assumes "set waiting \<union> set launched \<union> set queue \<subseteq> plan_tasks E"
  shows "sat R (run_pool E waiting launched queue)"
  unfolding sat_def
proof
  fix w0
  let ?I = "\<lambda>waiting launched queue w. set waiting \<union> set launched \<union> set queue \<subseteq> plan_tasks E \<and> R w0 w"
  show "R w0 (fst (run_pool E waiting launched queue w0))"
  proof (rule run_pool_rule [where I = ?I])
    show "?I waiting launched queue w0" using assms refl by simp
  next
    fix waiting launched queue w i w' r
    assume I: "?I waiting launched queue w" and i: "i < length launched"
      and s: "bind_step (finish_task E False (launched ! i)) (collect_cpu (launched ! i)) w = (w', r)"
    have "launched ! i \<in> plan_tasks E" using I i by (auto dest: nth_mem)
    then have "sat R (bind_step (finish_task E False (launched ! i)) (collect_cpu (launched ! i)))"
      by (intro sat_bind sat_finish sat_collect_cpu)
    with s have "R w w'" by (simp add: sat_def) (metis fst_conv)
    with I have "R w0 w'" by (blast intro: trans)
    then show "case r of Inl e \<Rightarrow> R w0 w'
        | Inr _ \<Rightarrow> ?I (waiting @ take 1 queue) (remove_nth i launched) (drop 1 queue) w'"
      using I set_remove_nth [of i launched] by (auto split: sum.split dest: in_set_takeD in_set_dropD)
  next
    fix waiting launched queue w i w' r
    assume I: "?I waiting launched queue w" and i: "i < length waiting"
      and s: "begin_task E False (waiting ! i) w = (w', r)"
    have t: "waiting ! i \<in> plan_tasks E" using I i by (auto dest: nth_mem)
    have "R w w'" using sat_begin [OF t] s by (simp add: sat_def) (metis fst_conv)
    with I have R: "R w0 w'" by (blast intro: trans)
    have c: "R w0 (fst (collect_cpu (waiting ! i) c w'))" for c
      using sat_collect_cpu [of "waiting ! i" c] unfolding sat_def by (intro trans [OF R]) (rule spec)
    have sub: "set (remove_nth i waiting) \<union> set launched \<union> set queue \<subseteq> plan_tasks E"
      using I set_remove_nth [of i waiting] by auto
    show "case r of Inl e \<Rightarrow> R w0 w'
        | Inr None \<Rightarrow> ?I (remove_nth i waiting) (launched @ [waiting ! i]) queue w'
        | Inr (Some c) \<Rightarrow> (case collect_cpu (waiting ! i) c w' of
            (w'', Inl e) \<Rightarrow> R w0 w''
          | (w'', Inr _) \<Rightarrow> ?I (remove_nth i waiting @ take 1 queue) launched (drop 1 queue) w'')"
      using sub t R c by (auto split: sum.split option.split prod.split dest: in_set_takeD in_set_dropD) (metis fst_conv)+
  qed simp
qed

end

locale run_relation = gpu_tasks_relation R E + cpu: cpu_relation R E for R E
begin

lemma sat_execute_tasks: "set queued \<subseteq> plan_tasks E \<Longrightarrow> sat R (execute_tasks E queued)"
  unfolding execute_tasks_def Let_def
proof (intro sat_bind cpu.sat_run_pool sat_run_gpu_tasks)
  assume q: "set queued \<subseteq> plan_tasks E"
  let ?cpu = "filter (\<lambda>t. \<not> runs_on_gpu t) queued"
  show "set (take (pool_size E) ?cpu) \<union> set [] \<union> set (drop (pool_size E) ?cpu) \<subseteq> plan_tasks E"
    using q by (intro pool_subset) auto
  show "set (filter runs_on_gpu queued) \<subseteq> plan_tasks E" using q by auto
qed

lemma sat_run: "sat R (run_scheduler E resume retry)"
  unfolding run_scheduler_def
proof (intro sat_bind [OF sat_start] sat_bind_dep [OF sat_admit_all])
  show "set (rp_tasks (sp_plan (se_store E))) \<subseteq> plan_tasks E" by (simp add: plan_tasks_def)
next
  fix w w' queued
  assume "admit_all E retry (rp_tasks (sp_plan (se_store E))) w = (w', Inr queued)"
  then have "set queued \<subseteq> plan_tasks E" by (auto simp: plan_tasks_def dest: admit_all_subset)
  then show "sat R (bind_step (execute_tasks E queued) (\<lambda>_. bind_step (final_report E)
      (\<lambda>_ w. (w, validate_run_manifest (manifest_of E resume w)))))"
    by (intro sat_bind sat_execute_tasks sat_final) (simp_all add: sat_def refl)
qed

end

locale scheduler_invariant = gpu_relation R E + cpu: cpu_relation R E for R E

sublocale scheduler_invariant \<subseteq> run_relation R E
  by unfold_locales

section \<open>Instances\<close>

text \<open>The state file moves by operations of the task-state store only.\<close>

definition state_moves :: "sched_env \<Rightarrow> sched \<Rightarrow> sched \<Rightarrow> bool" where
  "state_moves E w w' \<longleftrightarrow> store_path (se_store E) (sw_state w) (sw_state w')"

interpretation moves: scheduler_invariant "state_moves E" E for E
proof unfold_locales
  fix w op n
  show "state_moves E w (w\<lparr>sw_state := store_step (se_store E) (sw_state w) op, sw_tick := n\<rparr>)"
    by (simp add: state_moves_def store_path_op)
qed (auto simp: state_moves_def same_core_def enter_worker_def modify_def leave_worker_def
    intro: store_path_refl store_path_trans)

text \<open>A valid cache entry stays, when no task of the plan collides with its key.\<close>

definition keeps_entry :: "sched_env \<Rightarrow> cache_identity \<Rightarrow> cache_artifact \<Rightarrow> sched \<Rightarrow> sched \<Rightarrow> bool" where
  "keeps_entry E j a w w' \<longleftrightarrow>
     (\<forall>t \<in> plan_tasks E. cache_key (pl_sha (se_platform E)) (ts_cache_identity t) = cache_key (pl_sha (se_platform E)) j
        \<longrightarrow> ts_cache_identity t = j)
     \<longrightarrow> read_validated (se_platform E) (sw_cache w) j = Inr (Some a)
     \<longrightarrow> read_validated (se_platform E) (sw_cache w') j = Inr (Some a)"

interpretation entries: scheduler_invariant "keeps_entry E j a" E for E j a
proof unfold_locales
  fix t w tag n
  assume t: "t \<in> plan_tasks E"
  show "keeps_entry E j a w (w\<lparr>sw_cache :=
      fst (quarantine_invalid_locked (se_platform E) (ts_cache_identity t) tag (sw_cache w)), sw_tick := n\<rparr>)"
    unfolding keeps_entry_def
  proof (intro impI)
    assume sep: "\<forall>t \<in> plan_tasks E. cache_key (pl_sha (se_platform E)) (ts_cache_identity t)
        = cache_key (pl_sha (se_platform E)) j \<longrightarrow> ts_cache_identity t = j"
      and read: "read_validated (se_platform E) (sw_cache w) j = Inr (Some a)"
    show "read_validated (se_platform E) (sw_cache (w\<lparr>sw_cache :=
        fst (quarantine_invalid_locked (se_platform E) (ts_cache_identity t) tag (sw_cache w)), sw_tick := n\<rparr>)) j
      = Inr (Some a)"
      using quarantine_frame [OF _ read surjective_pairing] sep t by simp
  qed
next
  fix t w task copied eh es now txn outcome n
  show "keeps_entry E j a w (w\<lparr>sw_cache := fst (publish_stream (se_platform E) (ts_cache_identity t) task copied eh es
      now txn outcome (sw_cache w)), sw_tick := n\<rparr>)"
    by (simp add: keeps_entry_def publish_stream_frame [OF _ surjective_pairing])
qed (auto simp: keeps_entry_def same_core_def enter_worker_def modify_def leave_worker_def)

text \<open>
  Nothing but the launch and the end of a worker changes the count of active workers of its
  kind (\<open>True\<close> for the GPU).
\<close>

definition active :: "bool \<Rightarrow> sched \<Rightarrow> nat" where
  "active g w = (if g then sw_active_gpu w else sw_active_cpu w)"

definition most :: "bool \<Rightarrow> sched \<Rightarrow> nat" where
  "most g w = (if g then sw_max_gpu w else sw_max_cpu w)"

definition worker_frame :: "bool \<Rightarrow> sched \<Rightarrow> sched \<Rightarrow> bool" where
  "worker_frame g w w' \<longleftrightarrow> active g w' = active g w \<and> most g w' = most g w"

lemma tick_frame: "active g (w\<lparr>sw_tick := n\<rparr>) = active g w" "most g (w\<lparr>sw_tick := n\<rparr>) = most g w"
  by (simp_all add: active_def most_def)

interpretation frame: scheduler_relation "worker_frame g" E for g E
  by unfold_locales (auto simp: worker_frame_def active_def most_def same_core_def)

interpretation cpu: gpu_relation "worker_frame False" E for E
  by unfold_locales (auto simp: worker_frame_def active_def most_def enter_worker_def modify_def leave_worker_def)

interpretation gpu: cpu_relation "worker_frame True" E for E
  by unfold_locales (auto simp: worker_frame_def active_def most_def enter_worker_def modify_def leave_worker_def)

section \<open>Concurrency\<close>

lemma satD: "\<lbrakk>sat R m; m w = (w', r)\<rbrakk> \<Longrightarrow> R w w'"
  unfolding sat_def by (metis fst_conv)

lemma begin_body_frame:
  assumes "t \<in> plan_tasks E" and "begin_body E g t w = (w', r)"
  shows "if r = Inr None then active g w' = Suc (active g w)
      \<and> most g w' = max (most g w) (Suc (active g w))
    else worker_frame g w w'"
proof -
  let ?l = "lookup_or E (ts_cache_identity t) (do_quarantine_locked E (ts_cache_identity t))"
  obtain w1 r1 where l: "?l w = (w1, r1)" by (cases "?l w")
  have f1: "worker_frame g w w1" by (rule satD [OF frame.sat_lookup_or [OF frame.sat_quarantine_locked [OF assms(1)]] l])
  show ?thesis
  proof (cases r1)
    case (Inl e)
    with assms(2) l f1 show ?thesis by (auto simp: begin_body_def bind_step_def)
  next
    case r1: (Inr found)
    show ?thesis
    proof (cases found)
      case None
      let ?c = "if g then gpu_checks E t else ret None"
      obtain w2 r2 where c: "?c w1 = (w2, r2)" by (cases "?c w1")
      have "sat (worker_frame g) ?c" by (intro frame.sat_if frame.sat_gpu_checks frame.sat_ret)
      from satD [where m = ?c, OF this c] f1 have f2: "worker_frame g w w2" by (simp add: worker_frame_def)
      have eq: "(w', r) = (case r2 of Inl e \<Rightarrow> (w2, Inl e) | Inr None \<Rightarrow> (fst (enter_worker g w2), Inr None)
          | Inr (Some d) \<Rightarrow> (w2, Inr (Some d)))"
        using assms(2) l r1 None c
        by (auto simp: begin_body_def bind_step_def ret_def enter_worker_def modify_def split: sum.splits option.splits)
      have ent: "active g (fst (enter_worker g w2)) = Suc (active g w2)
          \<and> most g (fst (enter_worker g w2)) = max (most g w2) (Suc (active g w2))"
        by (simp add: enter_worker_def modify_def active_def most_def)
      show ?thesis
      proof (cases "r2 = Inr None")
        case True
        with eq ent f2 show ?thesis by (simp add: worker_frame_def)
      next
        case False
        with eq f2 show ?thesis by (auto split: sum.splits option.splits)
      qed
    next
      case (Some a)
      let ?m = "bind_step (do_transition E (ts_task_id t) (complete_request ''VALIDATED_CACHE_HIT_AFTER_LOCK'' a True None))
        (\<lambda>_. bind_step (do_index_add E a) (\<lambda>_. ret (Some (None, Some a, True))))"
      have m: "?m w1 = (w', r)" using assms(2) l r1 Some by (simp add: begin_body_def bind_step_def)
      have "worker_frame g w1 w'"
        by (rule satD [where m = ?m, OF _ m]) (intro frame.sat_bind frame.sat_transition frame.sat_index_add frame.sat_ret)
      moreover have "r \<noteq> Inr None"
        using m by (auto simp: bind_step_def ret_def split: prod.splits sum.splits)
      ultimately show ?thesis using f1 by (auto simp: worker_frame_def)
    qed
  qed
qed

lemma begin_task_frame:
  assumes "t \<in> plan_tasks E" and "begin_task E g t w = (w', r)"
  shows "if r = Inr None then active g w' = Suc (active g w)
      \<and> most g w' = max (most g w) (Suc (active g w))
    else worker_frame g w w'"
proof -
  let ?m = "\<lambda>w. with_key_lock (se_lock_free E (sw_tick w)) (cache_key (pl_sha (se_platform E)) (ts_cache_identity t))
     (sc_lock_timeout_seconds (se_config E)) (w\<lparr>sw_tick := Suc (sw_tick w)\<rparr>) (begin_body E g t)"
  let ?h = "\<lambda>e. bind_step (handle_exception E t e) (\<lambda>c. ret (Some c))"
  obtain w1 r1 where m: "?m w = (w1, r1)" by (cases "?m w")
  have f1: "if r1 = Inr None then active g w1 = Suc (active g w)
      \<and> most g w1 = max (most g w) (Suc (active g w)) else worker_frame g w w1"
  proof (cases "begin_body E g t (w\<lparr>sw_tick := Suc (sw_tick w)\<rparr>) = (w1, r1)")
    case True
    from begin_body_frame [OF assms(1) this] show ?thesis by (simp only: worker_frame_def tick_frame)
  next
    case False
    with m have "w1 = w\<lparr>sw_tick := Suc (sw_tick w)\<rparr>" "r1 \<noteq> Inr None"
      by (auto simp: with_key_lock_def split: sum.splits if_splits)
    then show ?thesis by (simp add: worker_frame_def tick_frame)
  qed
  show ?thesis
  proof (cases r1)
    case (Inr c)
    with assms(2) m have "w1 = w'" "r1 = r" by (simp_all add: begin_task_def catch_def)
    from f1 show ?thesis unfolding \<open>w1 = w'\<close> \<open>r1 = r\<close> .
  next
    case (Inl e)
    then have h: "?h e w1 = (w', r)" using assms(2) m by (simp add: begin_task_def catch_def)
    have "worker_frame g w1 w'" by (rule satD [where m = "?h e", OF _ h]) (intro frame.sat_bind frame.sat_handle frame.sat_ret)
    moreover have "r \<noteq> Inr None" using h by (auto simp: bind_step_def ret_def split: prod.splits sum.splits)
    ultimately show ?thesis using f1 Inl by (auto simp: worker_frame_def)
  qed
qed

lemma run_worker_frame:
  "run_worker E g t w = (w', r) \<Longrightarrow> active g w' = active g w - 1 \<and> most g w' = most g w"
  by (auto simp: run_worker_def leave_worker_def active_def most_def split: prod.splits sum.splits)

lemma finish_task_frame:
  assumes "t \<in> plan_tasks E" and "finish_task E g t w = (w', r)"
  shows "active g w' = active g w - 1 \<and> most g w' = most g w"
proof -
  let ?k = "\<lambda>x0. let x = check_payload E t x0 in if we_passed x then publish_outcome E t x else fail_outcome E t x"
  obtain w1 r1 where rw: "run_worker E g t w = (w1, r1)" by (cases "run_worker E g t w")
  let ?m = "catch (\<lambda>w. case r1 of Inl e \<Rightarrow> (w, Inl e) | Inr x \<Rightarrow> ?k x w) (handle_exception E t)"
  have m: "?m w1 = (w', r)"
    using rw assms(2) by (simp add: finish_task_def catch_def bind_step_def split: sum.splits)
  have "sat (worker_frame g) ?m"
  proof (rule frame.sat_catch [OF _ frame.sat_handle])
    show "sat (worker_frame g) (\<lambda>w. case r1 of Inl e \<Rightarrow> (w, Inl e) | Inr x \<Rightarrow> ?k x w)"
    proof (cases r1)
      case (Inl e)
      then show ?thesis by (simp add: sat_def worker_frame_def)
    next
      case (Inr x)
      have "sat (worker_frame g) (?k x)"
        unfolding Let_def by (intro frame.sat_if frame.sat_publish_outcome frame.sat_fail_outcome assms(1))
      with Inr show ?thesis by simp
    qed
  qed
  from satD [where m = ?m, OF this m] have "worker_frame g w1 w'" .
  with run_worker_frame [OF rw] show ?thesis by (simp add: worker_frame_def)
qed

text \<open>The pool never runs more workers than its size, and all have ended when it is left normally.\<close>

lemma length_pool_turn: "length (xs @ take 1 q) \<le> Suc (length xs)"
  by simp

lemma run_pool_bounded:
  assumes "set waiting \<union> set launched \<union> set queue \<subseteq> plan_tasks E" and "sw_active_cpu w = length launched"
    and "length waiting + length launched \<le> n" and "sw_max_cpu w \<le> n"
  shows "sw_max_cpu (fst (run_pool E waiting launched queue w)) \<le> n"
proof -
  let ?I = "\<lambda>waiting launched queue w. set waiting \<union> set launched \<union> set queue \<subseteq> plan_tasks E
    \<and> sw_active_cpu w = length launched \<and> length waiting + length launched \<le> n \<and> sw_max_cpu w \<le> n"
  show ?thesis
  proof (rule run_pool_rule [where I = ?I and Q = "\<lambda>w. sw_max_cpu w \<le> n"])
    show "?I waiting launched queue w" using assms by simp
  next
    fix waiting launched queue w i w' r
    assume I: "?I waiting launched queue w" and i: "i < length launched"
      and s: "bind_step (finish_task E False (launched ! i)) (collect_cpu (launched ! i)) w = (w', r)"
    have t: "launched ! i \<in> plan_tasks E" using I i by (auto dest: nth_mem)
    obtain w1 r1 where f: "finish_task E False (launched ! i) w = (w1, r1)"
      by (cases "finish_task E False (launched ! i) w")
    have "worker_frame False w1 w'"
    proof (cases r1)
      case (Inl e)
      with s f show ?thesis by (simp add: bind_step_def worker_frame_def active_def most_def)
    next
      case (Inr c)
      with s f have "collect_cpu (launched ! i) c w1 = (w', r)" by (simp add: bind_step_def)
      from satD [where m = "collect_cpu (launched ! i) c", OF frame.sat_collect_cpu this] show ?thesis .
    qed
    with finish_task_frame [OF t f] have "sw_active_cpu w' = sw_active_cpu w - 1" "sw_max_cpu w' = sw_max_cpu w"
      by (simp_all add: worker_frame_def active_def most_def)
    then show "case r of Inl e \<Rightarrow> sw_max_cpu w' \<le> n
        | Inr _ \<Rightarrow> ?I (waiting @ take 1 queue) (remove_nth i launched) (drop 1 queue) w'"
      using I i set_remove_nth [of i launched]
      by (cases r) (auto dest: in_set_takeD in_set_dropD)
  next
    fix waiting launched queue w i w' r
    assume I: "?I waiting launched queue w" and i: "i < length waiting"
      and s: "begin_task E False (waiting ! i) w = (w', r)"
    have t: "waiting ! i \<in> plan_tasks E" using I i by (auto dest: nth_mem)
    note b = begin_task_frame [OF t s]
    have sub: "set (remove_nth i waiting) \<union> set launched \<union> set queue \<subseteq> plan_tasks E"
      using I set_remove_nth [of i waiting] by auto
    have fr: "worker_frame False w' (fst (collect_cpu (waiting ! i) c w'))" for c
      using frame.sat_collect_cpu [where t = "waiting ! i" and c = c and g = False] unfolding sat_def by (rule spec)
    show "case r of Inl e \<Rightarrow> sw_max_cpu w' \<le> n
        | Inr None \<Rightarrow> ?I (remove_nth i waiting) (launched @ [waiting ! i]) queue w'
        | Inr (Some c) \<Rightarrow> (case collect_cpu (waiting ! i) c w' of
            (w'', Inl e) \<Rightarrow> sw_max_cpu w'' \<le> n
          | (w'', Inr _) \<Rightarrow> ?I (remove_nth i waiting @ take 1 queue) launched (drop 1 queue) w'')"
    proof (cases r)
      case (Inl e)
      with b I show ?thesis by (simp add: worker_frame_def active_def most_def)
    next
      case (Inr c)
      show ?thesis
      proof (cases c)
        case None
        with Inr b I i t sub show ?thesis by (auto simp: active_def most_def)
      next
        case (Some c')
        obtain w'' u where c: "collect_cpu (waiting ! i) c' w' = (w'', u)" by (cases "collect_cpu (waiting ! i) c' w'")
        have "sw_active_cpu w'' = sw_active_cpu w" "sw_max_cpu w'' = sw_max_cpu w"
          using fr [of c'] c b Inr Some by (simp_all add: worker_frame_def active_def most_def)
        with Inr Some c I i sub show ?thesis
          by (cases u) (auto dest: in_set_takeD in_set_dropD)
      qed
    qed
  qed simp
qed

text \<open>The GPU is idle between tasks and never has more than one worker.\<close>

definition gpu_idle :: "sched \<Rightarrow> bool" where
  "gpu_idle w \<longleftrightarrow> sw_active_gpu w = 0 \<and> sw_max_gpu w \<le> 1"

definition keeps_gpu_idle :: "sched \<Rightarrow> sched \<Rightarrow> bool" where
  "keeps_gpu_idle w w' \<longleftrightarrow> (gpu_idle w \<longrightarrow> gpu_idle w')"

lemma execute_gpu_idle:
  assumes "t \<in> plan_tasks E" shows "sat keeps_gpu_idle (execute_locked E True t)"
  unfolding sat_def keeps_gpu_idle_def
proof (intro allI impI)
  fix w assume idle: "gpu_idle w"
  obtain w1 r1 where b: "begin_task E True t w = (w1, r1)" by (cases "begin_task E True t w")
  note f = begin_task_frame [OF assms b]
  show "gpu_idle (fst (execute_locked E True t w))"
  proof (cases "r1 = Inr None")
    case True
    obtain w2 r2 where c: "finish_task E True t w1 = (w2, r2)" by (cases "finish_task E True t w1")
    from finish_task_frame [OF assms c] f True idle b c show ?thesis
      by (simp add: execute_locked_def bind_step_def gpu_idle_def active_def most_def)
  next
    case False
    with f b idle show ?thesis
      by (auto simp: execute_locked_def bind_step_def ret_def gpu_idle_def worker_frame_def active_def most_def
          split: sum.splits option.splits)
  qed
qed

interpretation idle: run_relation keeps_gpu_idle E for E
proof unfold_locales
  show "t \<in> plan_tasks E \<Longrightarrow> sat keeps_gpu_idle (execute_locked E True t)" for t by (rule execute_gpu_idle)
qed (auto simp: keeps_gpu_idle_def gpu_idle_def same_core_def enter_worker_def modify_def leave_worker_def)

text \<open>The CPU side of a whole run: only the pool launches workers there.\<close>

lemma bind_rule:
  assumes "Q (fst (m w))" and "\<And>w1 x. m w = (w1, Inr x) \<Longrightarrow> Q (fst (k x w1))"
  shows "Q (fst (bind_step m k w))"
  using assms by (auto simp: bind_step_def split: prod.splits sum.splits)

lemma execute_cpu_bounded:
  assumes "set queued \<subseteq> plan_tasks E" and "sw_active_cpu w = 0" and "sw_max_cpu w \<le> pool_size E"
  shows "sw_max_cpu (fst (execute_tasks E queued w)) \<le> pool_size E"
  unfolding execute_tasks_def Let_def
proof (rule bind_rule [where Q = "\<lambda>w. sw_max_cpu w \<le> pool_size E"])
  let ?cpu = "filter (\<lambda>t. \<not> runs_on_gpu t) queued"
  let ?pool = "run_pool E (take (pool_size E) ?cpu) [] (drop (pool_size E) ?cpu)"
  have "set (take (pool_size E) ?cpu) \<union> set [] \<union> set (drop (pool_size E) ?cpu) \<subseteq> plan_tasks E"
    using assms(1) by (intro pool_subset) auto
  then show pool: "sw_max_cpu (fst (?pool w)) \<le> pool_size E"
    using assms(2,3) by (intro run_pool_bounded) simp_all
  fix w1 u
  assume "?pool w = (w1, Inr u)"
  with pool have w1: "sw_max_cpu w1 \<le> pool_size E" by simp
  have "sat (worker_frame False) (run_gpu_tasks E (filter runs_on_gpu queued))"
    using assms(1) by (intro cpu.sat_run_gpu_tasks) auto
  then have "sw_max_cpu (fst (run_gpu_tasks E (filter runs_on_gpu queued) w1)) = sw_max_cpu w1"
    by (simp add: sat_def worker_frame_def most_def)
  with w1 show "sw_max_cpu (fst (run_gpu_tasks E (filter runs_on_gpu queued) w1)) \<le> pool_size E" by simp
qed

lemma run_cpu_bounded:
  assumes "sw_active_cpu w = 0" and "sw_max_cpu w \<le> pool_size E"
  shows "sw_max_cpu (fst (run_scheduler E resume retry w)) \<le> pool_size E"
proof -
  let ?Q = "\<lambda>w. sw_max_cpu w \<le> pool_size E"
  have frame: "sw_active_cpu (fst (m v)) = sw_active_cpu v \<and> sw_max_cpu (fst (m v)) = sw_max_cpu v"
    if "sat (worker_frame False) m" for m :: "'a step" and v
    using that by (simp add: sat_def worker_frame_def active_def most_def)
  note start = frame [OF frame.sat_start [where g = False and E = E], of w]
  show ?thesis
    unfolding run_scheduler_def
  proof (rule bind_rule [where Q = ?Q])
    show "?Q (fst (start_run E w))" using start assms(2) by simp
  next
    fix w1 u
    assume s: "start_run E w = (w1, Inr u)"
    with start assms have w1: "sw_active_cpu w1 = 0" "?Q w1" by simp_all
    let ?ts = "rp_tasks (sp_plan (se_store E))"
    have "set ?ts \<subseteq> plan_tasks E" by (simp add: plan_tasks_def)
    note admit = frame [OF frame.sat_admit_all [where g = False and E = E, OF this], of retry w1]
    show "?Q (fst (bind_step (admit_all E retry ?ts) (\<lambda>queued. bind_step (execute_tasks E queued)
        (\<lambda>_. bind_step (final_report E) (\<lambda>_ w. (w, validate_run_manifest (manifest_of E resume w))))) w1))"
    proof (rule bind_rule [where Q = ?Q])
      show "?Q (fst (admit_all E retry ?ts w1))" using admit w1 by simp
    next
      fix w2 queued
      assume q: "admit_all E retry ?ts w1 = (w2, Inr queued)"
      with admit w1 have w2: "sw_active_cpu w2 = 0" "?Q w2" by simp_all
      have plan: "set queued \<subseteq> plan_tasks E" using admit_all_subset [OF q] by (simp add: plan_tasks_def)
      show "?Q (fst (bind_step (execute_tasks E queued)
          (\<lambda>_. bind_step (final_report E) (\<lambda>_ w. (w, validate_run_manifest (manifest_of E resume w)))) w2))"
      proof (rule bind_rule [where Q = ?Q])
        show "?Q (fst (execute_tasks E queued w2))" using plan w2 by (rule execute_cpu_bounded)
      next
        fix w3 u
        assume "execute_tasks E queued w2 = (w3, Inr u)"
        with execute_cpu_bounded [OF plan w2] have "?Q w3" by simp
        moreover have "sw_max_cpu (fst (bind_step (final_report E)
            (\<lambda>_ w. (w, validate_run_manifest (manifest_of E resume w))) w3)) = sw_max_cpu (fst (final_report E w3))"
          by (simp add: bind_step_def split: prod.split sum.split)
        ultimately show "?Q (fst (bind_step (final_report E)
            (\<lambda>_ w. (w, validate_run_manifest (manifest_of E resume w))) w3))"
          using frame [OF frame.sat_final [where g = False and E = E], of w3] by simp
      qed
    qed
  qed
qed

end
