(* ===== verification/Scheduler_Demo.thy ===== *)
theory Scheduler_Demo
  imports Scheduler_Facts Execution_Properties
begin

text \<open>
  A concrete environment for the witnesses of the scheduler properties: the plan of one task,
  a worker that succeeds, and the scheduler before its first run.
\<close>

definition demo_config :: scheduler_config where
  "demo_config = \<lparr>sc_schema_version = 1, sc_cpu_workers = 2, sc_cpu_threads_per_worker = 2, sc_gpu_workers = 1,
     sc_ram_soft_limit_mib = 50, sc_ram_hard_limit_mib = 100, sc_vram_soft_limit_mib = 3600,
     sc_gpu_headroom_mib = 512, sc_lock_timeout_seconds = 10, sc_heartbeat_interval_seconds = 1,
     sc_abandoned_lease_seconds = 60, sc_cache_root = ''cache'', sc_state_root = ''state''\<rparr>"

definition demo_env :: sched_env where
  "demo_env = \<lparr>se_platform = demo_platform, se_store = demo_params, se_config = demo_config,
     se_source_commit = replicate 40 CHR ''a'', se_ob = (\<lambda>n. demo_ob (int n) {}), se_now_text = (\<lambda>n. ''now''),
     se_tag = (\<lambda>n. ''tag''), se_transaction = (\<lambda>n. [''txn'', show_nat n]), se_replace = (\<lambda>n. ReplaceOk),
     se_lock_free = (\<lambda>n. True), se_gpu_lock = (\<lambda>n. Inr ()), se_choice = (\<lambda>n. (True, n)),
     se_gpu_sample = (\<lambda>n. None), se_gpu_budget = (\<lambda>n. Inr ()), se_worker = (\<lambda>k. demo_world [demo_poll 20 1]),
     se_payload = (\<lambda>k. Some ''payload''), se_fsub = (-), se_fixed1 = demo_frepr, se_fixed3 = demo_frepr,
     se_casefold = id, se_error_text = (\<lambda>e. ''error''), se_error_str = (\<lambda>e. ''error''), se_traceback = (\<lambda>e. ''tb'')\<rparr>"

definition demo_sched :: "state_file \<Rightarrow> cache_fs \<Rightarrow> sched" where
  "demo_sched f s = \<lparr>sw_state = f, sw_cache = s, sw_index = NoIndex, sw_tick = 0, sw_active_cpu = 0, sw_max_cpu = 0,
     sw_active_gpu = 0, sw_max_gpu = 0, sw_network = 0, sw_counters = initial_counters 0 0, sw_resources = [],
     sw_failures = [], sw_traceback_files = []\<rparr>"

lemma demo_env_simps [simp]:
  "se_platform demo_env = demo_platform" "se_store demo_env = demo_params" "se_config demo_env = demo_config"
  by (simp_all add: demo_env_def)

lemma demo_sched_simps [simp]:
  "sw_state (demo_sched f s) = f" "sw_cache (demo_sched f s) = s" "sw_active_cpu (demo_sched f s) = 0"
  "sw_max_cpu (demo_sched f s) = 0" "sw_active_gpu (demo_sched f s) = 0" "sw_max_gpu (demo_sched f s) = 0"
  by (simp_all add: demo_sched_def)

lemma demo_plan_tasks: "plan_tasks demo_env = {demo_task}"
  by (simp add: plan_tasks_def)

end
