(* ===== verification/Plan_Properties.thy ===== *)
theory Plan_Properties
  imports Plan Scheduler_Demo
begin

text \<open>
  The properties of the implementation identity and of the synthetic probe plan, each with a
  witness where it has hypotheses.
\<close>

text \<open>The implementation hash of two checkouts is the same exactly when the same files are hashed
  and their texts agree up to the line endings of the checkout; neither the order of the path
  list nor a path given twice matters. The digest is only asked to tell apart the texts that
  are hashed.\<close>

theorem implementation_hash_eq_iff:
  assumes "implementation_hash sha repo ps = Inr h" and "implementation_hash sha repo' qs = Inr h'"
    and files: "\<And>p bs bs'. \<lbrakk>repo p = Some bs; repo' p = Some bs'; sha (crlf_to_lf bs) = sha (crlf_to_lf bs')\<rbrakk>
      \<Longrightarrow> crlf_to_lf bs = crlf_to_lf bs'"
    and lists: "\<And>ids ids'. \<lbrakk>hash_sources sha repo (sorted_list_of_set (set ps)) [] = Inr ids;
      hash_sources sha repo' (sorted_list_of_set (set qs)) [] = Inr ids';
      sha (canonical_text (JObj ids)) = sha (canonical_text (JObj ids'))\<rbrakk>
      \<Longrightarrow> canonical_text (JObj ids) = canonical_text (JObj ids')"
  shows "h = h' \<longleftrightarrow> portable_text ` set ps = portable_text ` set qs
    \<and> (\<forall>p \<in> portable_text ` set ps. map_option crlf_to_lf (repo p) = map_option crlf_to_lf (repo' p))"
proof -
  obtain ids where ids: "hash_sources sha repo (sorted_list_of_set (set ps)) [] = Inr ids"
      and h: "h = sha (canonical_text (JObj ids))"
    using assms(1) by (auto simp: implementation_hash_def bindr_Inr_iff sha256_canonical_json_def split: if_splits)
  obtain ids' where ids': "hash_sources sha repo' (sorted_list_of_set (set qs)) [] = Inr ids'"
      and h': "h' = sha (canonical_text (JObj ids'))"
    using assms(2) by (auto simp: implementation_hash_def bindr_Inr_iff sha256_canonical_json_def split: if_splits)
  have "h = h' \<longleftrightarrow> canonicalize (JObj ids) = canonicalize (JObj ids')"
    using lists [OF ids ids'] h h' hash_sources_wf [OF ids] hash_sources_wf [OF ids'] by (metis canonical_text_inj)
  also have "\<dots> \<longleftrightarrow> portable_text ` set ps = portable_text ` set qs
    \<and> (\<forall>p \<in> portable_text ` set ps. map_option crlf_to_lf (repo p) = map_option crlf_to_lf (repo' p))"
    using hash_sources_eq [OF ids ids' files] by simp
  finally show ?thesis .
qed

definition demo_checkout :: "string \<Rightarrow> repository" where
  "demo_checkout newline = (\<lambda>p. if p = ''a'' then Some (''x'' @ newline) else None)"

lemma demo_portable: "portable_text ''a'' = ''a''" "portable_text ''./a'' = ''a''"
  by code_simp+

theorem implementation_hash_eq_iff_witness:
  "\<exists>h. implementation_hash id (demo_checkout [CHR 0x0D, CHR 0x0A]) [''a'', ''./a'', ''a''] = Inr h
    \<and> implementation_hash id (demo_checkout [CHR 0x0A]) [''a''] = Inr h"
proof -
  have "case implementation_hash id (demo_checkout [CHR 0x0D, CHR 0x0A]) [''a'', ''./a'', ''a''] of
      Inl e \<Rightarrow> False | Inr h \<Rightarrow> True"
    "case implementation_hash id (demo_checkout [CHR 0x0A]) [''a''] of Inl e \<Rightarrow> False | Inr h \<Rightarrow> True"
    by code_simp+
  then obtain h h' where h: "implementation_hash id (demo_checkout [CHR 0x0D, CHR 0x0A]) [''a'', ''./a'', ''a''] = Inr h"
      "implementation_hash id (demo_checkout [CHR 0x0A]) [''a''] = Inr h'"
    by (auto split: sum.splits)
  have "h = h'"
    by (subst implementation_hash_eq_iff [OF h]) (auto simp: demo_portable demo_checkout_def)
  with h show ?thesis by blast
qed

section \<open>The probe plan\<close>

text \<open>The identifiers of the four probe tasks.\<close>

definition probe_task_ids ::
  "(string \<Rightarrow> string) \<Rightarrow> (py_float \<Rightarrow> string) \<Rightarrow> string \<Rightarrow> string \<Rightarrow> nat \<Rightarrow> string list \<Rightarrow> string list" where
  "probe_task_ids sha frepr code lock n suffixes = map (\<lambda>(i, s).
     task_identity sha frepr (''synthetic-cache-'' @ s) (cache_key sha (probe_identity sha code lock i s))
       SyntheticPayload (''payload-'' @ s) 0 300) (enumerate n suffixes)"

lemma probe_tasks_ok:
  assumes "\<And>x. is_sha256 (sha x) \<and> sha x \<noteq> zero_hash" and "is_sha256 code" "code \<noteq> zero_hash"
    and "is_sha256 lock" "lock \<noteq> zero_hash" and "set suffixes \<subseteq> set probe_suffixes"
  shows "\<exists>ts. probe_tasks sha frepr code lock n suffixes = Inr ts
    \<and> map ts_task_id ts = probe_task_ids sha frepr code lock n suffixes
    \<and> map (\<lambda>t. (ts_task_name t, ts_cache_identity t)) ts
      = map (\<lambda>(i, s). (''synthetic-cache-'' @ s, probe_identity sha code lock i s)) (enumerate n suffixes)"
  using assms(6)
proof (induction suffixes arbitrary: n)
  case (Cons s rest)
  let ?i = "probe_identity sha code lock n s"
  have i: "validate_cache_identity ?i = Inr ?i" by (rule probe_identity_valid [OF assms(1-5)])
  from probe_task_valid [OF _ _ i, of sha s frepr] assms(1) Cons.prems obtain t where
    t: "build_task sha frepr (''synthetic-cache-'' @ s) ?i SyntheticPayload (''payload-'' @ s) 0 300 = Inr t"
      "ts_task_name t = ''synthetic-cache-'' @ s" "ts_cache_identity t = ?i"
      "ts_task_id t = task_identity sha frepr (''synthetic-cache-'' @ s) (cache_key sha ?i) SyntheticPayload (''payload-'' @ s) 0 300"
    by auto
  from Cons.IH [of "Suc n"] Cons.prems obtain ts where
    "probe_tasks sha frepr code lock (Suc n) rest = Inr ts"
    "map ts_task_id ts = probe_task_ids sha frepr code lock (Suc n) rest"
    "map (\<lambda>t. (ts_task_name t, ts_cache_identity t)) ts
      = map (\<lambda>(i, s). (''synthetic-cache-'' @ s, probe_identity sha code lock i s)) (enumerate (Suc n) rest)"
    by auto
  with t i show ?case by (simp add: probe_task_ids_def)
qed (simp add: probe_task_ids_def)

lemma implementation_paths_portable:
  "list_all (\<lambda>p. portable_text p = p \<and> \<not> posix_absolute p \<and> ''..'' \<notin> set (posix_parts p)) IMPLEMENTATION_PATHS"
  by code_simp

lemma implementation_hash_total:
  "(\<exists>code. implementation_hash sha repo IMPLEMENTATION_PATHS = Inr code) \<longleftrightarrow> (\<forall>p \<in> set IMPLEMENTATION_PATHS. repo p \<noteq> None)"
proof
  assume "\<exists>code. implementation_hash sha repo IMPLEMENTATION_PATHS = Inr code"
  then obtain ids where ids: "hash_sources sha repo (sorted_list_of_set (set IMPLEMENTATION_PATHS)) [] = Inr ids"
    by (auto simp: implementation_hash_def bindr_Inr_iff)
  show "\<forall>p \<in> set IMPLEMENTATION_PATHS. repo p \<noteq> None"
    using hash_sources_present [OF ids] implementation_paths_portable by (fastforce simp: list_all_iff)
next
  assume "\<forall>p \<in> set IMPLEMENTATION_PATHS. repo p \<noteq> None"
  then obtain ids where ids: "hash_sources sha repo (sorted_list_of_set (set IMPLEMENTATION_PATHS)) [] = Inr ids"
    using hash_sources_total [of "sorted_list_of_set (set IMPLEMENTATION_PATHS)" repo sha "[]"] implementation_paths_portable
    by (auto simp: list_all_iff)
  have "portable_text ` set IMPLEMENTATION_PATHS \<noteq> {}" by (simp add: IMPLEMENTATION_PATHS_def)
  then have "ids \<noteq> []"
    using hash_sources_Inr [OF ids] hash_sources_present [OF ids] by (fastforce simp: fun_eq_iff split: if_splits)
  with ids show "\<exists>code. implementation_hash sha repo IMPLEMENTATION_PATHS = Inr code"
    by (simp add: implementation_hash_def)
qed

text \<open>The probe plan is built exactly when every implementation source and the lock file are
  there; it then holds the four synthetic CPU tasks with their own seeds, sorted by identifier,
  and the hashes of the sources and of the lock, whatever the order of the files.\<close>

theorem probe_plan_built:
  assumes sha: "\<And>x. is_sha256 (sha x) \<and> sha x \<noteq> zero_hash" and workers: "sc_cpu_workers config \<in> {1, 2}"
    and ids: "\<And>code lock. \<lbrakk>implementation_hash sha repo IMPLEMENTATION_PATHS = Inr code; repo ''uv.lock'' = Some lock\<rbrakk>
      \<Longrightarrow> distinct (probe_task_ids sha frepr code (canonical_source_hash sha lock) 0 probe_suffixes)"
  shows "if \<forall>p \<in> insert ''uv.lock'' (set IMPLEMENTATION_PATHS). repo p \<noteq> None
    then \<exists>plan code lock. make_probe_plan sha frepr repo config = Inr (plan, code, canonical_source_hash sha lock)
      \<and> implementation_hash sha repo IMPLEMENTATION_PATHS = Inr code \<and> repo ''uv.lock'' = Some lock
      \<and> sorted (map ts_task_id (rp_tasks plan)) \<and> length (rp_tasks plan) = 4
      \<and> (\<lambda>t. (ts_task_name t, ci_seed (ts_cache_identity t), ci_device_policy (ts_cache_identity t))) ` set (rp_tasks plan)
        = {(''synthetic-cache-alpha'', 1729, Cpu), (''synthetic-cache-bravo'', 1730, Cpu),
           (''synthetic-cache-charlie'', 1731, Cpu), (''synthetic-cache-delta'', 1732, Cpu)}
      \<and> rp_cpu_workers plan = sc_cpu_workers config \<and> rp_random_seed plan = 1729
    else \<exists>e. make_probe_plan sha frepr repo config = Inl e"
proof (cases "\<forall>p \<in> insert ''uv.lock'' (set IMPLEMENTATION_PATHS). repo p \<noteq> None")
  case False
  then have "(\<nexists>code. implementation_hash sha repo IMPLEMENTATION_PATHS = Inr code) \<or> repo ''uv.lock'' = None"
    unfolding implementation_hash_total by blast
  then have "make_probe_plan sha frepr repo config \<noteq> Inr r" for r
    by (auto simp: make_probe_plan_def bindr_Inr_iff dependency_lock_hash_def)
  then have "\<exists>e. make_probe_plan sha frepr repo config = Inl e" by (cases "make_probe_plan sha frepr repo config") auto
  then show ?thesis by (simp only: False if_False)
next
  case True
  then obtain code lock where code: "implementation_hash sha repo IMPLEMENTATION_PATHS = Inr code"
      and lock: "repo ''uv.lock'' = Some lock"
    using implementation_hash_total [of sha repo] by blast
  let ?lock = "canonical_source_hash sha lock"
  have "is_sha256 code" "code \<noteq> zero_hash"
    using code sha by (auto simp: implementation_hash_def bindr_Inr_iff sha256_canonical_json_def split: if_splits)
  moreover have "is_sha256 ?lock" "?lock \<noteq> zero_hash" using sha by (simp_all add: canonical_source_hash_def)
  ultimately obtain ts where ts: "probe_tasks sha frepr code ?lock 0 probe_suffixes = Inr ts"
      "map ts_task_id ts = probe_task_ids sha frepr code ?lock 0 probe_suffixes"
      "map (\<lambda>t. (ts_task_name t, ts_cache_identity t)) ts
        = map (\<lambda>(i, s). (''synthetic-cache-'' @ s, probe_identity sha code ?lock i s)) (enumerate 0 probe_suffixes)"
    using probe_tasks_ok [where sha = sha and code = code and lock = ?lock and n = 0 and frepr = frepr and suffixes = probe_suffixes] sha
    by blast
  let ?plan = "\<lparr>rp_schema_version = 1, rp_tasks = sort_key ts_task_id ts, rp_random_seed = 1729,
      rp_cpu_workers = sc_cpu_workers config, rp_gpu_workers = 1\<rparr>"
  have "build_plan ts 1729 (sc_cpu_workers config) = Inr ?plan"
    unfolding build_plan_Inr using workers ids [OF code lock] ts(2) by simp
  then have plan: "make_probe_plan sha frepr repo config = Inr (?plan, code, ?lock)"
    by (simp add: make_probe_plan_def code lock dependency_lock_hash_def ts(1))
  let ?f = "\<lambda>(n, i). (n, ci_seed i, ci_device_policy i)"
  have "(\<lambda>t. (ts_task_name t, ci_seed (ts_cache_identity t), ci_device_policy (ts_cache_identity t))) ` set ts
      = ?f ` set (map (\<lambda>t. (ts_task_name t, ts_cache_identity t)) ts)"
    by (simp add: image_image)
  also have "\<dots> = {(''synthetic-cache-alpha'', 1729, Cpu), (''synthetic-cache-bravo'', 1730, Cpu),
           (''synthetic-cache-charlie'', 1731, Cpu), (''synthetic-cache-delta'', 1732, Cpu)}"
    unfolding ts(3) by (simp add: probe_suffixes_def probe_identity_def)
  finally have tasks: "(\<lambda>t. (ts_task_name t, ci_seed (ts_cache_identity t), ci_device_policy (ts_cache_identity t))) ` set ts
      = {(''synthetic-cache-alpha'', 1729, Cpu), (''synthetic-cache-bravo'', 1730, Cpu),
           (''synthetic-cache-charlie'', 1731, Cpu), (''synthetic-cache-delta'', 1732, Cpu)}" .
  have "length ts = 4" using arg_cong [OF ts(3), of length] by (simp add: probe_suffixes_def)
  with plan code lock tasks show ?thesis
    unfolding if_P [OF True] by (intro exI [of _ ?plan] exI [of _ code] exI [of _ lock]) simp
qed

text \<open>A digest that tells the four probe tasks apart, and a checkout of empty files.\<close>

definition demo_probe_text :: "string \<Rightarrow> string" where
  "demo_probe_text s = canonical_text (JObj (zip task_field_names [JStr (''synthetic-cache-'' @ s), JStr demo_hash,
     JStr (operation_text SyntheticPayload), JStr (''payload-'' @ s), JFloat (demo_frepr 0), JFloat (demo_frepr 300)]))"

definition probe_sha :: "string \<Rightarrow> string" where
  "probe_sha x = (if x = demo_probe_text ''bravo'' then replicate 64 CHR ''b''
     else if x = demo_probe_text ''charlie'' then replicate 64 CHR ''c''
     else if x = demo_probe_text ''delta'' then replicate 64 CHR ''d'' else demo_hash)"

definition empty_checkout :: repository where
  "empty_checkout = (\<lambda>p. Some [])"

lemma demo_probe_text_inj: "demo_probe_text s = demo_probe_text s' \<longleftrightarrow> s = s'"
  using task_identity_text_inj [OF demo_frepr_inj demo_frepr_text] unfolding demo_probe_text_def by blast

lemma probe_sha_ok: "is_sha256 (probe_sha x) \<and> probe_sha x \<noteq> zero_hash"
proof -
  have "replicate 64 c ! 0 \<noteq> zero_hash ! 0" if "c \<noteq> CHR ''0''" for c using that by (simp add: zero_hash_def)
  then have "replicate 64 c \<noteq> zero_hash" if "c \<noteq> CHR ''0''" for c using that by metis
  then show ?thesis by (simp add: probe_sha_def is_sha256_def list_all_iff is_lower_hex_def demo_hash_def)
qed

lemma probe_sha_cache_key: "cache_key probe_sha i = demo_hash"
proof -
  have "canonical_text (identity_json i) \<noteq> demo_probe_text s" for s
  proof
    assume "canonical_text (identity_json i) = demo_probe_text s"
    moreover have "wf_json (JObj (zip identity_field_names (identity_values i)))"
      using wf_identity_json [of i] by (simp only: identity_json_def)
    moreover have "wf_json (JObj (zip task_field_names [JStr (''synthetic-cache-'' @ s), JStr demo_hash,
        JStr (operation_text SyntheticPayload), JStr (''payload-'' @ s), JFloat (demo_frepr 0), JFloat (demo_frepr 300)]))"
      by (simp add: task_field_names_def demo_frepr_text)
    ultimately have "length (zip identity_field_names (identity_values i)) = length (zip task_field_names
        [JStr (''synthetic-cache-'' @ s), JStr demo_hash, JStr (operation_text SyntheticPayload),
         JStr (''payload-'' @ s), JFloat (demo_frepr 0), JFloat (demo_frepr 300)])"
      unfolding demo_probe_text_def identity_json_def by (rule canonical_text_length)
    then show False by (simp add: identity_field_names_def identity_values_def task_field_names_def)
  qed
  then show ?thesis by (simp add: cache_key_def sha256_canonical_json_def probe_sha_def)
qed

lemma probe_sha_ids: "distinct (probe_task_ids probe_sha demo_frepr code lock 0 probe_suffixes)"
proof -
  have id: "task_identity probe_sha demo_frepr (''synthetic-cache-'' @ s) demo_hash SyntheticPayload (''payload-'' @ s) 0 300
      = probe_sha (demo_probe_text s)" for s
    by (simp only: task_identity_def sha256_canonical_json_def demo_probe_text_def)
  have "probe_task_ids probe_sha demo_frepr code lock 0 probe_suffixes
      = map (\<lambda>s. probe_sha (demo_probe_text s)) probe_suffixes"
    by (simp add: probe_task_ids_def probe_sha_cache_key id probe_suffixes_def del: append.simps)
  then show ?thesis
    by (simp add: probe_suffixes_def probe_sha_def demo_probe_text_inj demo_hash_def)
qed

theorem probe_plan_built_witness:
  "(\<exists>r. make_probe_plan probe_sha demo_frepr empty_checkout demo_config = Inr r)
   \<and> (\<exists>e. make_probe_plan probe_sha demo_frepr (empty_checkout(''uv.lock'' := None)) demo_config = Inl e)"
  using probe_plan_built [where sha = probe_sha and repo = empty_checkout and config = demo_config and frepr = demo_frepr]
    probe_plan_built [where sha = probe_sha and repo = "empty_checkout(''uv.lock'' := None)" and config = demo_config
      and frepr = demo_frepr]
  by (simp add: probe_sha_ok probe_sha_ids demo_config_def empty_checkout_def split: if_splits) blast

end
