(* ===== verification/Scheduler_Properties.thy ===== *)
theory Scheduler_Properties
  imports Scheduler_Demo
begin

text \<open>
  The properties of whole scheduler runs, each with a witness where it has hypotheses.
\<close>

section \<open>What every run keeps\<close>

text \<open>Claim C33. Whatever the workers, clocks, locks and interleavings do, a run changes the task-state file
  by operations of the state store only: the persisted invariant still holds, no task is lost,
  and every status has only moved along edges of the state machine.\<close>

theorem run_keeps_state_machine:
  assumes "store_invar (se_store E) (sw_state w)" and "run_scheduler E resume retry_failed w = (w', r)"
  shows "store_invar (se_store E) (sw_state w')
    \<and> (\<forall>k x. file_status (sw_state w) k = Some x \<longrightarrow>
         (\<exists>y. file_status (sw_state w') k = Some y \<and> status_edge\<^sup>*\<^sup>* x y))"
proof -
  have "state_moves E w w'" using moves.sat_run assms(2) by (rule satD)
  then obtain ops where f: "sw_state w' = foldl (store_step (se_store E)) (sw_state w) ops"
    by (auto simp: state_moves_def store_path_def)
  show ?thesis unfolding f using tasks.run_invar [OF assms(1)] tasks.run_path [OF assms(1)] by blast
qed

theorem run_keeps_state_machine_witness:
  "store_invar demo_params (sw_state (fst (run_scheduler demo_env True False (demo_sched (demo_state demo_running) []))))
   \<and> (\<exists>y. file_status (sw_state (fst (run_scheduler demo_env True False (demo_sched (demo_state demo_running) [])))) demo_hash
        = Some y \<and> status_edge\<^sup>*\<^sup>* RUNNING y)"
  using run_keeps_state_machine [where E = demo_env and w = "demo_sched (demo_state demo_running) []"
      and resume = True and retry_failed = False, OF _ surjective_pairing]
  by (simp add: demo_invar demo_status demo_running_attempts)

text \<open>Claim C34. A cache artifact that can be read before a run can be read unchanged after it, for every
  identity, provided no task of the plan has a different identity with the same key.\<close>

theorem run_keeps_artifacts:
  assumes "\<And>t. \<lbrakk>t \<in> set (rp_tasks (sp_plan (se_store E))); cache_key (pl_sha (se_platform E)) (ts_cache_identity t)
      = cache_key (pl_sha (se_platform E)) j\<rbrakk> \<Longrightarrow> ts_cache_identity t = j"
    and "read_validated (se_platform E) (sw_cache w) j = Inr (Some a)"
    and "run_scheduler E resume retry_failed w = (w', r)"
  shows "read_validated (se_platform E) (sw_cache w') j = Inr (Some a)"
proof -
  have "keeps_entry E j a w w'" using entries.sat_run assms(3) by (rule satD)
  with assms(1,2) show ?thesis unfolding keeps_entry_def plan_tasks_def by blast
qed

theorem run_keeps_artifacts_witness:
  "read_validated demo_platform (sw_cache (fst (run_scheduler demo_env True False (demo_sched NoState demo_store))))
     demo_identity = Inr (Some demo_artifact)"
  using run_keeps_artifacts [where E = demo_env and w = "demo_sched NoState demo_store" and j = demo_identity
      and a = demo_artifact and resume = True and retry_failed = False, OF _ _ surjective_pairing]
  by (simp add: demo_read) (simp add: demo_task_def)

section \<open>Concurrency\<close>

text \<open>Claim C35. A run never has more than one GPU worker at a time, nor more CPU workers than the smaller
  of the configured number and the number of the plan, in whichever order its threads move.\<close>

theorem concurrency_bounded:
  assumes "sw_active_cpu w = 0" "sw_max_cpu w = 0" "sw_active_gpu w = 0" "sw_max_gpu w = 0"
    and "run_scheduler E resume retry_failed w = (w', r)"
  shows "sw_max_gpu w' \<le> 1 \<and> sw_max_cpu w' \<le> pool_size E
    \<and> int (sw_max_cpu w') \<le> max 0 (min (sc_cpu_workers (se_config E)) (rp_cpu_workers (sp_plan (se_store E))))"
proof -
  have "keeps_gpu_idle w w'" using idle.sat_run assms(5) by (rule satD)
  with assms(3,4) have "sw_max_gpu w' \<le> 1" by (simp add: keeps_gpu_idle_def gpu_idle_def)
  moreover have "sw_max_cpu w' \<le> pool_size E"
    using run_cpu_bounded [OF assms(1)] assms(2,5) by (metis fst_conv le0)
  ultimately show ?thesis by (simp add: pool_size_def)
qed

theorem concurrency_bounded_witness:
  "sw_max_cpu (fst (run_scheduler demo_env False False (demo_sched NoState []))) \<le> 1
   \<and> sw_max_gpu (fst (run_scheduler demo_env False False (demo_sched NoState []))) \<le> 1"
  using concurrency_bounded [where E = demo_env and w = "demo_sched NoState []" and resume = False
      and retry_failed = False, OF _ _ _ _ surjective_pairing]
  by (simp add: pool_size_def demo_config_def demo_plan_def)

end
