(* ===== verification/Codec.thy ===== *)
theory Codec
  imports Canon_Json
begin

text \<open>
  \<open>src/schemaguard/transformations/codec.py\<close>: the typed encoding of categorical values and its
  text key. A cell of a table is what the encoder distinguishes: every missing value is
  \<open>CMissing\<close>, NumPy scalars carry the name of their type, and a timestamp is carried by its
  \<open>isoformat\<close>. What \<open>float\<close>, \<open>int\<close> of a text, \<open>numpy\<close>, \<open>pandas.Timestamp\<close> and \<open>json.loads\<close>
  return are arguments.
\<close>

section \<open>Cells\<close>

text \<open>A float is a rational number, the negative zero (which is equal to \<open>0.0\<close> but not written like it), or
  an infinity or NaN by its name.\<close>

datatype float_value = Finite py_float | NegZero | NonFinite string

fun float_number :: "float_value \<Rightarrow> py_float option" where
  "float_number (Finite x) = Some x"
| "float_number NegZero = Some 0"
| "float_number (NonFinite s) = None"

lemma float_number_Some: "float_number v = Some x \<longleftrightarrow> v = Finite x \<or> v = NegZero \<and> x = 0"
  by (cases v) auto

datatype cell =
    CMissing
  | CBool bool
  | CInt string int
  | CFloat string float_value
  | CStr string
  | CTime string
  | COther string

record codec_params =
  cp_frepr :: "py_float \<Rightarrow> string"
  cp_int :: "json \<Rightarrow> int option"
  cp_float :: "json \<Rightarrow> float_value option"
  cp_timestamp :: "json \<Rightarrow> string option"
  cp_numpy_int :: "string \<Rightarrow> int \<Rightarrow> int option"
  cp_numpy_float :: "string \<Rightarrow> float_value \<Rightarrow> float_value option"
  cp_loads :: "string \<Rightarrow> json option"

section \<open>Encoding\<close>

definition encoded :: "string \<Rightarrow> json \<Rightarrow> json" where
  "encoded t v = JObj [(''type'', JStr t), (''value'', v)]"

fun encode_typed_value :: "codec_params \<Rightarrow> cell \<Rightarrow> json result" where
  "encode_typed_value P CMissing = Inr (encoded ''missing'' JNull)"
| "encode_typed_value P (CBool b) = Inr (encoded ''bool'' (JBool b))"
| "encode_typed_value P (CInt t i) = Inr (encoded t (JInt i))"
| "encode_typed_value P (CFloat t (Finite x)) = Inr (encoded t (JFloat (cp_frepr P x)))"
| "encode_typed_value P (CFloat t NegZero) = Inr (encoded t (JFloat ''-0.0''))"
| "encode_typed_value P (CFloat t (NonFinite s)) = Inr (encoded t (JStr s))"
| "encode_typed_value P (CStr s) = Inr (encoded ''str'' (JStr s))"
| "encode_typed_value P (CTime s) = Inr (encoded ''pandas_timestamp'' (JStr s))"
| "encode_typed_value P (COther t) = Inl (TypeError (''unsupported categorical scalar type: '' @ t))"

definition typed_value_key :: "codec_params \<Rightarrow> cell \<Rightarrow> string result" where
  "typed_value_key P c = bindr (encode_typed_value P c) (\<lambda>e. Inr (canonical_text e))"

section \<open>Decoding\<close>

definition json_field :: "string \<Rightarrow> (string \<times> json) list \<Rightarrow> json" where
  "json_field k kvs = (case map_of kvs k of None \<Rightarrow> JNull | Some v \<Rightarrow> v)"

fun starts_with :: "string \<Rightarrow> string \<Rightarrow> bool" where
  "starts_with [] s = True"
| "starts_with (a # p) [] = False"
| "starts_with (a # p) (b # s) = (a = b \<and> starts_with p s)"

definition of_option :: "error \<Rightarrow> 'a option \<Rightarrow> 'a result" where
  "of_option e x = (case x of None \<Rightarrow> Inl e | Some y \<Rightarrow> Inr y)"

definition py_int :: "codec_params \<Rightarrow> json \<Rightarrow> int result" where
  "py_int P v = (case v of JInt i \<Rightarrow> Inr i | _ \<Rightarrow> of_option (ValueError ''invalid literal for int()'') (cp_int P v))"

definition py_float_of :: "codec_params \<Rightarrow> json \<Rightarrow> float_value result" where
  "py_float_of P v = of_option (ValueError ''could not convert to float'') (cp_float P v)"

definition numpy_int :: "codec_params \<Rightarrow> string \<Rightarrow> json \<Rightarrow> cell result" where
  "numpy_int P t v = bindr (py_int P v) (\<lambda>i.
     bindr (of_option (TypeError ''numpy integer'') (cp_numpy_int P t i)) (\<lambda>j. Inr (CInt t j)))"

definition numpy_float :: "codec_params \<Rightarrow> string \<Rightarrow> json \<Rightarrow> cell result" where
  "numpy_float P t v = bindr (py_float_of P v) (\<lambda>x.
     bindr (of_option (TypeError ''numpy floating'') (cp_numpy_float P t x)) (\<lambda>y. Inr (CFloat t y)))"

definition decode_typed_value :: "codec_params \<Rightarrow> (string \<times> json) list \<Rightarrow> cell result" where
  "decode_typed_value P e =
     (let value = json_field ''value'' e in
      case json_field ''type'' e of
        JStr t \<Rightarrow>
          if t = ''missing'' then Inr CMissing
          else if t = ''str'' then
            (case value of JStr s \<Rightarrow> Inr (CStr s)
             | _ \<Rightarrow> Inl (ValueError ''encoded string category must contain a string value''))
          else if t = ''bool'' then
            (case value of JBool b \<Rightarrow> Inr (CBool b)
             | _ \<Rightarrow> Inl (ValueError ''encoded boolean category must contain a boolean value''))
          else if t = ''int'' then bindr (py_int P value) (\<lambda>i. Inr (CInt t i))
          else if t = ''float'' then bindr (py_float_of P value) (\<lambda>x. Inr (CFloat t x))
          else if starts_with ''int'' t then numpy_int P t value
          else if starts_with ''uint'' t then numpy_int P t value
          else if starts_with ''float'' t then numpy_float P t value
          else if t = ''pandas_timestamp'' then
            bindr (of_option (ValueError ''timestamp'') (cp_timestamp P value)) (\<lambda>s. Inr (CTime s))
          else Inl (ValueError (''unsupported encoded scalar type: '' @ t))
      | _ \<Rightarrow> Inl (ValueError ''unsupported encoded scalar type''))"

definition decode_typed_key :: "codec_params \<Rightarrow> string \<Rightarrow> cell result" where
  "decode_typed_key P key =
     (case cp_loads P key of
        None \<Rightarrow> Inl (ValueError ''invalid typed category key'')
      | Some (JObj kvs) \<Rightarrow> decode_typed_value P kvs
      | Some _ \<Rightarrow> Inl (ValueError ''typed category key must decode to an object''))"

section \<open>Round trip\<close>

text \<open>
  What the code relies on for one cell: \<open>json.loads\<close> inverts \<open>json.dumps\<close> on its encoding, and
  \<open>float\<close>, \<open>numpy\<close> and \<open>pandas\<close> give the scalar back from its encoded value. Type names are those
  of Python and NumPy.
\<close>

fun scalar_ok :: "codec_params \<Rightarrow> cell \<Rightarrow> bool" where
  "scalar_ok P (CInt t i) \<longleftrightarrow> t = ''int''
     \<or> t \<noteq> ''float'' \<and> (starts_with ''int'' t \<or> starts_with ''uint'' t) \<and> cp_numpy_int P t i = Some i"
| "scalar_ok P (CFloat t x) \<longleftrightarrow>
     cp_float P (case x of Finite r \<Rightarrow> JFloat (cp_frepr P r) | NegZero \<Rightarrow> JFloat ''-0.0'' | NonFinite s \<Rightarrow> JStr s) = Some x
     \<and> (t = ''float'' \<or> starts_with ''float'' t \<and> cp_numpy_float P t x = Some x)"
| "scalar_ok P (CTime s) \<longleftrightarrow> cp_timestamp P (JStr s) = Some s"
| "scalar_ok P (COther t) \<longleftrightarrow> False"
| "scalar_ok P c \<longleftrightarrow> True"

definition codec_ok :: "codec_params \<Rightarrow> cell \<Rightarrow> bool" where
  "codec_ok P c \<longleftrightarrow> scalar_ok P c
     \<and> (\<forall>e. encode_typed_value P c = Inr e \<longrightarrow> cp_loads P (canonical_text e) = Some e)"

lemma json_field_encoded: "json_field ''type'' [(''type'', a), (''value'', b)] = a"
  "json_field ''value'' [(''type'', a), (''value'', b)] = b"
  by (simp_all add: json_field_def)

lemma starts_with_simps:
  "starts_with ''int'' t \<Longrightarrow> t \<notin> {''missing'', ''str'', ''bool'', ''float'', ''pandas_timestamp''}"
  "starts_with ''uint'' t \<Longrightarrow> t \<notin> {''missing'', ''str'', ''bool'', ''int'', ''float'', ''pandas_timestamp''}
     \<and> \<not> starts_with ''int'' t"
  "starts_with ''float'' t \<Longrightarrow> t \<notin> {''missing'', ''str'', ''bool'', ''int'', ''pandas_timestamp''}
     \<and> \<not> starts_with ''int'' t \<and> \<not> starts_with ''uint'' t"
  by (cases t; simp)+

text \<open>The two fields of an encoding.\<close>

fun cell_type :: "cell \<Rightarrow> string" where
  "cell_type CMissing = ''missing''"
| "cell_type (CBool b) = ''bool''"
| "cell_type (CInt t i) = t"
| "cell_type (CFloat t x) = t"
| "cell_type (CStr s) = ''str''"
| "cell_type (CTime s) = ''pandas_timestamp''"
| "cell_type (COther t) = t"

fun cell_value :: "codec_params \<Rightarrow> cell \<Rightarrow> json" where
  "cell_value P (CBool b) = JBool b"
| "cell_value P (CInt t i) = JInt i"
| "cell_value P (CFloat t (Finite x)) = JFloat (cp_frepr P x)"
| "cell_value P (CFloat t NegZero) = JFloat ''-0.0''"
| "cell_value P (CFloat t (NonFinite s)) = JStr s"
| "cell_value P (CStr s) = JStr s"
| "cell_value P (CTime s) = JStr s"
| "cell_value P c = JNull"

lemma encode_fields: "scalar_ok P c \<Longrightarrow> encode_typed_value P c = Inr (encoded (cell_type c) (cell_value P c))"
  by (cases "(P, c)" rule: encode_typed_value.cases) simp_all

lemma decode_encoded:
  assumes "scalar_ok P c"
  shows "decode_typed_value P [(''type'', JStr (cell_type c)), (''value'', cell_value P c)] = Inr c"
proof (cases c)
  case (CInt t i)
  note d = decode_typed_value_def json_field_encoded py_int_def numpy_int_def of_option_def Let_def
  from assms CInt consider "t = ''int''"
    | "t \<noteq> ''float''" "t \<noteq> ''int''" "starts_with ''int'' t" "cp_numpy_int P t i = Some i"
    | "starts_with ''uint'' t" "cp_numpy_int P t i = Some i" by auto
  then show ?thesis
  proof cases
    case 1
    with CInt show ?thesis by (simp add: d)
  next
    case 2
    with CInt starts_with_simps(1) [of t] show ?thesis by (simp add: d)
  next
    case 3
    with CInt starts_with_simps(2) [of t] show ?thesis by (simp add: d)
  qed
next
  case (CFloat t x)
  note d = decode_typed_value_def json_field_encoded py_float_of_def numpy_float_def of_option_def Let_def
  from assms CFloat have f: "cp_float P (cell_value P c) = Some x" by (cases x) simp_all
  from assms CFloat consider "t = ''float''" | "t \<noteq> ''float''" "starts_with ''float'' t" "cp_numpy_float P t x = Some x"
    by auto
  then show ?thesis
  proof cases
    case 1
    with CFloat f show ?thesis by (simp add: d)
  next
    case 2
    with CFloat f starts_with_simps(3) [of t] show ?thesis by (simp add: d)
  qed
qed (use assms in \<open>simp_all add: decode_typed_value_def json_field_encoded of_option_def Let_def\<close>)

lemma codec_roundtrip:
  assumes "codec_ok P c"
  shows "\<exists>k. typed_value_key P c = Inr k \<and> decode_typed_key P k = Inr c"
proof -
  from assms have s: "scalar_ok P c" by (simp add: codec_ok_def)
  have "cp_loads P (canonical_text (encoded (cell_type c) (cell_value P c))) = Some (encoded (cell_type c) (cell_value P c))"
    using assms encode_fields [OF s] by (simp add: codec_ok_def)
  with encode_fields [OF s] decode_encoded [OF s] show ?thesis
    by (simp add: typed_value_key_def decode_typed_key_def encoded_def)
qed

lemma typed_value_key_inj:
  assumes "codec_ok P c" and "codec_ok P d" and "typed_value_key P c = typed_value_key P d"
  shows "c = d"
  using codec_roundtrip [OF assms(1)] codec_roundtrip [OF assms(2)] assms(3) by auto

end
