(* ===== verification/Frames.thy ===== *)
theory Frames
  imports Codec "HOL-Library.AList" "HOL-Library.Product_Lexorder"
begin

text \<open>
  \<open>src/schemaguard/transformations/base.py\<close>: the tables the transformations work on, the
  predictor schema, the deterministic choice of columns and names, and the plumbing around
  a concrete view. A \<open>pandas\<close> frame is the list of its columns, each with its name, the text of
  its dtype and its cells; the row index is always \<open>0..n-1\<close>. Conversions that \<open>pandas\<close> decides
  (a series built with a dtype, the text of a row entry, the order \<open>sort_values\<close> gives, a column
  read as floats, \<open>3 * x + 7\<close> in floats, the nearest double of an integer, the range of an integer dtype) are arguments.
\<close>

section \<open>Frames\<close>

record column =
  co_name :: string
  co_dtype :: string
  co_cells :: "cell list"

type_synonym frame = "column list"

record frame_params =
  fp_codec :: codec_params
  fp_sha :: "string \<Rightarrow> string"
  fp_numeric :: "string \<Rightarrow> bool"
  fp_integer :: "string \<Rightarrow> bool"
  fp_series :: "string \<Rightarrow> cell list \<Rightarrow> cell list result"
  fp_str :: "cell \<Rightarrow> string"
  fp_row_text :: "frame \<Rightarrow> nat \<Rightarrow> string"
  fp_argsort :: "nat option list \<Rightarrow> nat list"
  fp_numeric_cells :: "cell list \<Rightarrow> float_value option list result"
  fp_affine :: "py_float \<Rightarrow> float_value"
  fp_double :: "int \<Rightarrow> int"
  fp_bounds :: "string \<Rightarrow> int \<times> int"

definition ROW_ID_COLUMN :: string where "ROW_ID_COLUMN = ''__sg_row_id''"
definition TARGET_CODE_COLUMN :: string where "TARGET_CODE_COLUMN = ''target_code''"
definition TARGET_LABEL_COLUMN :: string where "TARGET_LABEL_COLUMN = ''target_label''"

definition frame_columns :: "frame \<Rightarrow> string list" where
  "frame_columns X = map co_name X"

definition row_count :: "frame \<Rightarrow> nat" where
  "row_count X = (case X of [] \<Rightarrow> 0 | c # _ \<Rightarrow> length (co_cells c))"

fun mapr :: "('a \<Rightarrow> 'b result) \<Rightarrow> 'a list \<Rightarrow> 'b list result" where
  "mapr f [] = Inr []"
| "mapr f (x # xs) = bindr (f x) (\<lambda>y. bindr (mapr f xs) (\<lambda>ys. Inr (y # ys)))"

text \<open>\<open>X[name]\<close>, \<open>X[names]\<close>, \<open>X.drop(columns=names)\<close>, \<open>X.insert\<close>, \<open>X[name] = cells\<close> and \<open>X.iloc[rows]\<close>.\<close>

definition get_column :: "frame \<Rightarrow> string \<Rightarrow> column result" where
  "get_column X name = of_option (KeyError name) (find (\<lambda>c. co_name c = name) X)"

definition select_columns :: "frame \<Rightarrow> string list \<Rightarrow> frame result" where
  "select_columns X names = mapr (get_column X) names"

definition drop_columns :: "frame \<Rightarrow> string list \<Rightarrow> frame result" where
  "drop_columns X names =
     (case find (\<lambda>n. n \<notin> set (frame_columns X)) names of
        Some n \<Rightarrow> Inl (KeyError n)
      | None \<Rightarrow> Inr (filter (\<lambda>c. co_name c \<notin> set names) X))"

definition insert_column :: "frame \<Rightarrow> nat \<Rightarrow> column \<Rightarrow> frame result" where
  "insert_column X position c =
     (if co_name c \<in> set (frame_columns X) then Inl (ValueError ''cannot insert, column already exists'')
      else Inr (take position X @ c # drop position X))"

definition set_column :: "frame \<Rightarrow> column \<Rightarrow> frame" where
  "set_column X c =
     (if co_name c \<in> set (frame_columns X) then map (\<lambda>d. if co_name d = co_name c then c else d) X
      else X @ [c])"

definition take_rows :: "frame \<Rightarrow> nat list \<Rightarrow> frame" where
  "take_rows X rows = map (\<lambda>c. c\<lparr>co_cells := map (\<lambda>i. co_cells c ! i) rows\<rparr>) X"

text \<open>\<open>list.index\<close>, on an element that is there.\<close>

definition index_of :: "'a list \<Rightarrow> 'a \<Rightarrow> nat" where
  "index_of xs x = length (takeWhile (\<lambda>y. y \<noteq> x) xs)"

section \<open>The predictor schema\<close>

record feature_schema =
  fs_columns :: "string list"
  fs_dtypes :: "string list"
  fs_numeric :: "string list"
  fs_categorical :: "string list"
  fs_integer :: "string list"
  fs_row_id :: string
  fs_categories :: "(string \<times> cell list) list"

definition json_strings :: "string list \<Rightarrow> json" where
  "json_strings xs = JArr (map JStr xs)"

definition schema_hash :: "frame_params \<Rightarrow> feature_schema \<Rightarrow> string result" where
  "schema_hash F s =
     bindr (mapr (\<lambda>(column, values). bindr (mapr (encode_typed_value (fp_codec F)) values)
        (\<lambda>es. Inr (JArr [JStr column, JArr es]))) (fs_categories s)) (\<lambda>categories.
     Inr (sha256_canonical_json (fp_sha F) (JObj [
       (''columns'', json_strings (fs_columns s)), (''dtypes'', json_strings (fs_dtypes s)),
       (''numeric_columns'', json_strings (fs_numeric s)),
       (''categorical_columns'', json_strings (fs_categorical s)),
       (''integer_columns'', json_strings (fs_integer s)), (''row_id_column'', JStr (fs_row_id s)),
       (''categorical_values'', JArr categories)])))"

definition feature_schema_from_frame ::
  "frame_params \<Rightarrow> frame \<Rightarrow> (string \<times> cell list) list \<Rightarrow> feature_schema result" where
  "feature_schema_from_frame F X categories =
     (let predictors = filter (\<lambda>c. co_name c \<noteq> ROW_ID_COLUMN) X;
          numeric = map co_name (filter (\<lambda>c. fp_numeric F (co_dtype c)) predictors) in
      guards
       [(\<not> distinct (frame_columns X), ValueError ''feature columns must be unique''),
        ({TARGET_CODE_COLUMN, TARGET_LABEL_COLUMN} \<inter> set (frame_columns X) \<noteq> {},
          ValueError ''target columns are not permitted in transformation inputs'')]
       \<lparr>fs_columns = frame_columns X, fs_dtypes = map co_dtype X, fs_numeric = numeric,
        fs_categorical = map co_name (filter (\<lambda>c. co_name c \<notin> set numeric) predictors),
        fs_integer = map co_name (filter (\<lambda>c. fp_integer F (co_dtype c)) predictors),
        fs_row_id = ROW_ID_COLUMN, fs_categories = sort_key fst categories\<rparr>)"

definition schema_categories :: "feature_schema \<Rightarrow> string \<Rightarrow> cell list" where
  "schema_categories s name = (case map_of (fs_categories s) name of None \<Rightarrow> [] | Some vs \<Rightarrow> vs)"

definition source_dtype_map :: "feature_schema \<Rightarrow> (string \<times> string) list" where
  "source_dtype_map s = zip (fs_columns s) (fs_dtypes s)"

section \<open>Deterministic choices\<close>

datatype dataset_id = DatasetInt int | DatasetStr string

fun dataset_text :: "dataset_id \<Rightarrow> string" where
  "dataset_text (DatasetInt i) = show_int i"
| "dataset_text (DatasetStr s) = s"

definition choice_digest :: "(string \<Rightarrow> string) \<Rightarrow> dataset_id \<Rightarrow> int \<Rightarrow> string \<Rightarrow> string" where
  "choice_digest sha ds seed text = sha (dataset_text ds @ ''|'' @ show_int seed @ ''|'' @ text)"

definition selected_columns :: "(string \<Rightarrow> string) \<Rightarrow> string list \<Rightarrow> dataset_id \<Rightarrow> int \<Rightarrow> nat \<Rightarrow> string list" where
  "selected_columns sha candidates ds seed limit =
     map snd (take limit (sort (map (\<lambda>c. (choice_digest sha ds seed c, c)) candidates)))"

text \<open>\<open>collision_safe_name\<close>: the loop counts until a candidate is free.\<close>

definition generated_name :: "string \<Rightarrow> nat \<Rightarrow> string" where
  "generated_name base suffix = base @ ''__sg_generated_'' @ show_nat suffix"

lemma generated_name_inj: "generated_name base i = generated_name base j \<longleftrightarrow> i = j"
  by (simp add: generated_name_def show_nat_inj)

definition later_names :: "string \<Rightarrow> string list \<Rightarrow> nat \<Rightarrow> nat set" where
  "later_names base existing suffix = {j. suffix \<le> j \<and> generated_name base j \<in> set existing}"

lemma finite_later_names: "finite (later_names base existing suffix)"
proof -
  have "generated_name base ` later_names base existing suffix \<subseteq> set existing" by (auto simp: later_names_def)
  then have "finite (generated_name base ` later_names base existing suffix)" by (rule finite_subset) simp
  then show ?thesis by (rule finite_imageD) (simp add: inj_on_def generated_name_inj)
qed

lemma card_later_names:
  "card (later_names base existing suffix)
   = (if generated_name base suffix \<in> set existing then 1 else 0) + card (later_names base existing (Suc suffix))"
proof -
  have "later_names base existing suffix = (if generated_name base suffix \<in> set existing
      then insert suffix (later_names base existing (Suc suffix)) else later_names base existing (Suc suffix))"
    by (auto simp: later_names_def Suc_le_eq le_less)
  moreover have "suffix \<notin> later_names base existing (Suc suffix)" by (simp add: later_names_def)
  ultimately show ?thesis using finite_later_names [of base existing "Suc suffix"] by simp
qed

function safe_name_loop :: "string \<Rightarrow> string list \<Rightarrow> nat \<Rightarrow> string \<Rightarrow> string" where
  "safe_name_loop base existing suffix candidate =
     (if candidate \<in> set existing then safe_name_loop base existing (Suc suffix) (generated_name base suffix)
      else candidate)"
  by pat_completeness auto
termination
proof (relation "measure (\<lambda>(base, existing, suffix, candidate).
      2 * card (later_names base existing suffix) + (if candidate \<in> set existing then 1 else 0))")
  fix base :: string and existing suffix and candidate :: string
  assume "candidate \<in> set existing"
  with card_later_names [of base existing suffix]
  show "((base, existing, Suc suffix, generated_name base suffix), base, existing, suffix, candidate)
    \<in> measure (\<lambda>(base, existing, suffix, candidate).
        2 * card (later_names base existing suffix) + (if candidate \<in> set existing then 1 else 0))"
    by simp
qed simp

declare safe_name_loop.simps [simp del]

definition collision_safe_name :: "string \<Rightarrow> string list \<Rightarrow> string" where
  "collision_safe_name base existing = safe_name_loop base existing 1 base"

section \<open>Views and their plumbing\<close>

text \<open>
  The parameters a view fits: one field per key the views put in their dictionary, with an
  empty value where a view does not set it.
\<close>

record parameters =
  pa_selected :: "string list"
  pa_generated :: "string list"
  pa_source_columns :: "string list"
  pa_permuted :: "string list"
  pa_forward_order :: "nat list"
  pa_inverse_order :: "nat list"
  pa_source_row_ids :: "string list"
  pa_output_row_ids :: "string list"
  pa_category_keys :: "string list"
  pa_forward_keys :: "(string \<times> string) list"
  pa_inverse_keys :: "(string \<times> string) list"
  pa_shift :: nat
  pa_source_dtype :: string
  pa_source_dtypes :: "(string \<times> string) list"
  pa_missing_column :: string
  pa_modulus :: int
  pa_relationship :: "(string \<times> string \<times> string) list"

definition no_parameters :: parameters where
  "no_parameters = \<lparr>pa_selected = [], pa_generated = [], pa_source_columns = [], pa_permuted = [],
     pa_forward_order = [], pa_inverse_order = [], pa_source_row_ids = [], pa_output_row_ids = [],
     pa_category_keys = [], pa_forward_keys = [], pa_inverse_keys = [], pa_shift = 0, pa_source_dtype = [],
     pa_source_dtypes = [], pa_missing_column = [], pa_modulus = 0, pa_relationship = []\<rparr>"

record view_config =
  vc_category_minimum :: nat
  vc_quotient_modulus :: int

record fitted =
  ft_dataset :: dataset_id
  ft_seed :: int
  ft_schema :: feature_schema
  ft_params :: parameters
  ft_partitions :: "(string \<times> parameters) list"

record view =
  vw_id :: string
  vw_name :: string
  vw_type :: string
  vw_fit :: "frame \<Rightarrow> dataset_id \<Rightarrow> int \<Rightarrow> feature_schema \<Rightarrow> parameters result"
  vw_transform :: "fitted \<Rightarrow> frame \<Rightarrow> string \<Rightarrow> (frame \<times> parameters) result"
  vw_reconstruct :: "parameters \<Rightarrow> frame \<Rightarrow> frame result"

definition validate_input_frame :: "frame \<Rightarrow> unit result" where
  "validate_input_frame X = guards
     [(\<not> distinct (frame_columns X), ValueError ''duplicate column names are not permitted''),
      (list_ex (starts_with TARGET_CODE_COLUMN) (frame_columns X), ValueError ''target code column cannot be transformed''),
      (TARGET_LABEL_COLUMN \<in> set (frame_columns X), ValueError ''target label column cannot be transformed'')] ()"

definition validate_output_frame :: "frame \<Rightarrow> unit result" where
  "validate_output_frame X = guards
     [(\<not> distinct (frame_columns X), ValueError ''transformation produced duplicate columns''),
      (ROW_ID_COLUMN \<notin> set (frame_columns X), ValueError ''transformation must preserve the row-id column'')] ()"

text \<open>\<open>fit\<close> of an object that was fitted before, or not (\<open>None\<close>). The parameters recorded for partitions stay.
  When \<open>_fit\<close> raises, data set, seed and schema are set already, the parameters are still the old ones.\<close>

definition base_fit ::
  "view \<Rightarrow> fitted option \<Rightarrow> frame \<Rightarrow> dataset_id \<Rightarrow> int \<Rightarrow> feature_schema \<Rightarrow> fitted option \<times> unit result" where
  "base_fit V st X ds seed schema =
     (case bindr (validate_input_frame X) (\<lambda>_. guards
          [(ROW_ID_COLUMN \<notin> set (frame_columns X), ValueError (ROW_ID_COLUMN @ '' is required'')),
           (frame_columns X \<noteq> fs_columns schema, ValueError ''feature schema does not match training columns'')] ()) of
        Inl e \<Rightarrow> (st, Inl e)
      | Inr _ \<Rightarrow>
        (case vw_fit V X ds seed schema of
           Inl e \<Rightarrow> (map_option (\<lambda>f. f\<lparr>ft_dataset := ds, ft_seed := seed, ft_schema := schema\<rparr>) st, Inl e)
         | Inr params \<Rightarrow> (Some \<lparr>ft_dataset = ds, ft_seed = seed, ft_schema = schema, ft_params = params,
             ft_partitions = (case st of None \<Rightarrow> [] | Some f \<Rightarrow> ft_partitions f)\<rparr>, Inr ())))"

definition partitions :: "string list" where
  "partitions = [''train'', ''calibration'', ''test'']"

text \<open>\<open>transform\<close> remembers the parameters of the partition; an object that was never fitted is \<open>None\<close>.\<close>

definition base_transform :: "view \<Rightarrow> fitted option \<Rightarrow> frame \<Rightarrow> string \<Rightarrow> fitted option \<times> frame result" where
  "base_transform V st X part =
     (case st of
        None \<Rightarrow> (st, Inl (RuntimeError ''transformation must be fitted on training predictors first''))
      | Some f \<Rightarrow>
        (case bindr (validate_input_frame X) (\<lambda>_.
             if frame_columns X \<noteq> fs_columns (ft_schema f)
               then Inl (ValueError ''transform columns do not match the fitted feature schema'')
             else if part \<notin> set partitions
               then Inl (ValueError ''partition must be train, calibration, or test'')
             else bindr (vw_transform V f X part) (\<lambda>(output, params).
                  bindr (validate_output_frame output) (\<lambda>_. Inr (output, params)))) of
           Inl e \<Rightarrow> (st, Inl e)
         | Inr (output, params) \<Rightarrow>
             (Some (f\<lparr>ft_partitions := AList.update part params (ft_partitions f)\<rparr>), Inr output)))"

text \<open>\<open>reconstruct\<close>, of the certificate its view and its parameters are used.\<close>

definition base_reconstruct ::
  "view \<Rightarrow> fitted option \<Rightarrow> frame \<Rightarrow> string \<Rightarrow> parameters \<Rightarrow> frame result" where
  "base_reconstruct V st Y cert_view cert_params =
     (case st of
        None \<Rightarrow> Inl (RuntimeError ''transformation must be fitted on training predictors first'')
      | Some f \<Rightarrow>
        if cert_view \<noteq> vw_id V then Inl (ValueError ''certificate view does not match transformation'')
        else bindr (validate_output_frame Y) (\<lambda>_.
             bindr (vw_reconstruct V cert_params Y) (\<lambda>restored.
             bindr (validate_output_frame restored) (\<lambda>_.
             if frame_columns restored \<noteq> fs_columns (ft_schema f)
               then Inl (ValueError ''reconstruction did not restore the source schema'')
             else Inr restored))))"

definition parameters_for :: "fitted \<Rightarrow> string \<Rightarrow> parameters" where
  "parameters_for f part =
     (case map_of (ft_partitions f) part of None \<Rightarrow> ft_params f | Some p \<Rightarrow> p)"

end
