(* ===== verification/Views.thy ===== *)
theory Views
  imports Frames "HOL-Library.Word"
begin

text \<open>
  The concrete views of \<open>src/schemaguard/transformations/\<close>: identity (V00), column permutation
  (V08), row permutation (V09), category permutation (V03), one-hot expansion (V04), duplicate
  feature (V05), redundant affine feature (V06) and integer quotient and remainder (V07), each with its fit, its transformation
  and its reconstruction.
\<close>

section \<open>V00: identity\<close>

definition identity_fit :: "frame \<Rightarrow> dataset_id \<Rightarrow> int \<Rightarrow> feature_schema \<Rightarrow> parameters result" where
  "identity_fit X ds seed s = Inr (no_parameters\<lparr>pa_source_columns := frame_columns X\<rparr>)"

definition identity_transform :: "fitted \<Rightarrow> frame \<Rightarrow> string \<Rightarrow> (frame \<times> parameters) result" where
  "identity_transform f X part = Inr (X, ft_params f)"

definition identity_reconstruct :: "parameters \<Rightarrow> frame \<Rightarrow> frame result" where
  "identity_reconstruct p Y = Inr Y"

definition identity_view :: view where
  "identity_view = \<lparr>vw_id = ''V00'', vw_name = ''identity'', vw_type = ''BIJECTION'', vw_fit = identity_fit,
     vw_transform = identity_transform, vw_reconstruct = identity_reconstruct\<rparr>"

section \<open>V08: column permutation\<close>

definition column_order :: "(string \<Rightarrow> string) \<Rightarrow> frame \<Rightarrow> dataset_id \<Rightarrow> int \<Rightarrow> string list" where
  "column_order sha X ds seed =
     (if ROW_ID_COLUMN \<in> set (frame_columns X) then [ROW_ID_COLUMN] else [])
     @ map snd (sort (map (\<lambda>c. (choice_digest sha ds seed (c @ ''|V08''), c))
          (filter (\<lambda>c. c \<noteq> ROW_ID_COLUMN) (frame_columns X))))"

definition column_fit ::
  "frame_params \<Rightarrow> frame \<Rightarrow> dataset_id \<Rightarrow> int \<Rightarrow> feature_schema \<Rightarrow> parameters result" where
  "column_fit F X ds seed s =
     (let ordered = column_order (fp_sha F) X ds seed in Inr (no_parameters\<lparr>
        pa_selected := filter (\<lambda>c. c \<noteq> ROW_ID_COLUMN) (frame_columns X),
        pa_source_columns := frame_columns X, pa_permuted := ordered,
        pa_forward_order := map (index_of (frame_columns X)) ordered,
        pa_inverse_order := map (index_of ordered) (frame_columns X)\<rparr>))"

definition column_transform :: "fitted \<Rightarrow> frame \<Rightarrow> string \<Rightarrow> (frame \<times> parameters) result" where
  "column_transform f X part =
     bindr (select_columns X (pa_permuted (ft_params f))) (\<lambda>Y. Inr (Y, ft_params f))"

definition column_reconstruct :: "parameters \<Rightarrow> frame \<Rightarrow> frame result" where
  "column_reconstruct p Y = select_columns Y (pa_source_columns p)"

definition column_view :: "frame_params \<Rightarrow> view" where
  "column_view F = \<lparr>vw_id = ''V08'', vw_name = ''column_permutation_control'', vw_type = ''PERMUTATION'',
     vw_fit = column_fit F, vw_transform = column_transform, vw_reconstruct = column_reconstruct\<rparr>"

section \<open>V09: row permutation\<close>

definition row_fit :: "frame \<Rightarrow> dataset_id \<Rightarrow> int \<Rightarrow> feature_schema \<Rightarrow> parameters result" where
  "row_fit X ds seed s = Inr (no_parameters\<lparr>pa_source_columns := frame_columns X\<rparr>)"

definition row_ids :: "frame_params \<Rightarrow> frame \<Rightarrow> string list result" where
  "row_ids F X = bindr (get_column X ROW_ID_COLUMN) (\<lambda>c. Inr (map (fp_str F) (co_cells c)))"

definition row_order :: "frame_params \<Rightarrow> frame \<Rightarrow> dataset_id \<Rightarrow> int \<Rightarrow> nat list" where
  "row_order F X ds seed =
     sort_key (\<lambda>i. choice_digest (fp_sha F) ds seed (fp_row_text F X i)) [0..<row_count X]"

definition row_transform ::
  "frame_params \<Rightarrow> fitted \<Rightarrow> frame \<Rightarrow> string \<Rightarrow> (frame \<times> parameters) result" where
  "row_transform F f X part =
     (if part \<noteq> ''train''
      then bindr (row_ids F X) (\<lambda>ids. Inr (X, (ft_params f)\<lparr>pa_source_row_ids := ids, pa_output_row_ids := ids,
             pa_forward_order := [0..<row_count X], pa_inverse_order := [0..<row_count X]\<rparr>))
      else let Y = take_rows X (row_order F X (ft_dataset f) (ft_seed f)) in
           bindr (row_ids F X) (\<lambda>source. bindr (row_ids F Y) (\<lambda>output.
             Inr (Y, (ft_params f)\<lparr>pa_source_row_ids := source, pa_output_row_ids := output,
               pa_forward_order := map (index_of source) output,
               pa_inverse_order := map (index_of output) source\<rparr>))))"

text \<open>
  The dictionary from row id to its place (a later duplicate wins), looked up with the cells of
  the row-id column: only a text cell can be a key.
\<close>

definition restore_order :: "string list \<Rightarrow> cell \<Rightarrow> nat option" where
  "restore_order desired c =
     (case c of CStr s \<Rightarrow> map_of (rev (zip desired [0..<length desired])) s | _ \<Rightarrow> None)"

definition row_reconstruct :: "frame_params \<Rightarrow> parameters \<Rightarrow> frame \<Rightarrow> frame result" where
  "row_reconstruct F p Y = bindr (get_column Y ROW_ID_COLUMN) (\<lambda>c.
     let order = map (restore_order (pa_source_row_ids p)) (co_cells c);
         marked = set_column Y \<lparr>co_name = ''__sg_restore_order'', co_dtype = ''float64'',
           co_cells = map (\<lambda>k. case k of None \<Rightarrow> CMissing | Some i \<Rightarrow> CFloat ''float64'' (Finite (of_nat i))) order\<rparr>
     in drop_columns (take_rows marked (fp_argsort F order)) [''__sg_restore_order''])"

definition row_view :: "frame_params \<Rightarrow> view" where
  "row_view F = \<lparr>vw_id = ''V09'', vw_name = ''row_permutation_control'', vw_type = ''PERMUTATION'', vw_fit = row_fit,
     vw_transform = row_transform F, vw_reconstruct = row_reconstruct F\<rparr>"

section \<open>V03: category permutation\<close>

text \<open>The categories of a column: those of the schema, or the values present in training.\<close>

definition category_values :: "feature_schema \<Rightarrow> column \<Rightarrow> cell list" where
  "category_values s c = (if schema_categories s (co_name c) \<noteq> [] then schema_categories s (co_name c)
     else filter (\<lambda>v. v \<noteq> CMissing) (co_cells c))"

text \<open>\<open>int(digest[:8], 16)\<close>.\<close>

definition hex_prefix :: "string \<Rightarrow> nat" where
  "hex_prefix digest = foldl (\<lambda>a c. 16 * a + hex_value c) 0 (take 8 digest)"

definition pick_one :: "frame_params \<Rightarrow> string list \<Rightarrow> dataset_id \<Rightarrow> int \<Rightarrow> string \<Rightarrow> string result" where
  "pick_one F candidates ds seed message =
     (case selected_columns (fp_sha F) candidates ds seed 1 of [] \<Rightarrow> Inl (ValueError message) | c # _ \<Rightarrow> Inr c)"

definition rotated :: "string list \<Rightarrow> nat \<Rightarrow> nat \<Rightarrow> string" where
  "rotated keys shift i = keys ! ((i + shift) mod length keys)"

definition category_fit ::
  "frame_params \<Rightarrow> view_config \<Rightarrow> frame \<Rightarrow> dataset_id \<Rightarrow> int \<Rightarrow> feature_schema \<Rightarrow> parameters result" where
  "category_fit F cfg X ds seed s =
     bindr (pick_one F (fs_categorical s) ds seed ''no categorical feature is available'') (\<lambda>name.
     bindr (get_column X name) (\<lambda>c.
     bindr (mapr (typed_value_key (fp_codec F)) (category_values s c)) (\<lambda>all_keys.
     let keys = sort (remdups all_keys); n = length keys in
     if n < vc_category_minimum cfg
       then Inl (ValueError ''categorical feature has insufficient training categories'')
     else if n = 1 then Inl (ZeroDivisionError ''integer modulo by zero'')
     else let shift = (if n = 0 then 1 else hex_prefix (choice_digest (fp_sha F) ds seed name) mod (n - 1) + 1);
              forward = map (\<lambda>i. (keys ! i, rotated keys shift i)) [0..<n];
              inverse = map (\<lambda>(k, v). (v, k)) forward
          in Inr (no_parameters\<lparr>pa_selected := [name], pa_category_keys := keys,
               pa_forward_order := map (\<lambda>k. index_of keys (the (map_of forward k))) keys,
               pa_inverse_order := map (\<lambda>k. index_of keys (the (map_of inverse k))) keys,
               pa_forward_keys := forward, pa_inverse_keys := inverse, pa_shift := shift,
               pa_source_columns := frame_columns X, pa_source_dtype := co_dtype c,
               pa_source_dtypes := source_dtype_map s\<rparr>))))"

text \<open>One cell through the forward or the inverse table.\<close>

definition map_category :: "codec_params \<Rightarrow> (string \<times> string) list \<Rightarrow> string \<Rightarrow> cell \<Rightarrow> cell result" where
  "map_category P table message v = bindr (typed_value_key P v) (\<lambda>key.
     if v = CMissing then Inr CMissing
     else case map_of table key of None \<Rightarrow> Inl (ValueError message) | Some k \<Rightarrow> decode_typed_key P k)"

definition map_category_column ::
  "frame_params \<Rightarrow> (string \<times> string) list \<Rightarrow> string \<Rightarrow> parameters \<Rightarrow> frame \<Rightarrow> frame result" where
  "map_category_column F table message p X =
     bindr (of_option (IndexError ''list index out of range'') (find (\<lambda>_. True) (pa_selected p))) (\<lambda>name.
     bindr (get_column X name) (\<lambda>c.
     bindr (mapr (map_category (fp_codec F) table message) (co_cells c)) (\<lambda>values.
     bindr (fp_series F (pa_source_dtype p) values) (\<lambda>cells.
     Inr (set_column X \<lparr>co_name = name, co_dtype = pa_source_dtype p, co_cells = cells\<rparr>)))))"

definition category_transform ::
  "frame_params \<Rightarrow> fitted \<Rightarrow> frame \<Rightarrow> string \<Rightarrow> (frame \<times> parameters) result" where
  "category_transform F f X part =
     bindr (map_category_column F (pa_forward_keys (ft_params f)) ''unseen category'' (ft_params f) X)
       (\<lambda>Y. Inr (Y, ft_params f))"

definition category_reconstruct :: "frame_params \<Rightarrow> parameters \<Rightarrow> frame \<Rightarrow> frame result" where
  "category_reconstruct F p Y =
     bindr (map_category_column F (pa_inverse_keys p) ''unknown permuted category'' p Y)
       (\<lambda>X. select_columns X (pa_source_columns p))"

definition category_view :: "frame_params \<Rightarrow> view_config \<Rightarrow> view" where
  "category_view F cfg = \<lparr>vw_id = ''V03'', vw_name = ''category_permutation'', vw_type = ''BIJECTION'',
     vw_fit = category_fit F cfg, vw_transform = category_transform F, vw_reconstruct = category_reconstruct F\<rparr>"

section \<open>V04: one-hot expansion\<close>

fun indicator_names :: "string \<Rightarrow> string list \<Rightarrow> string list \<Rightarrow> nat \<Rightarrow> string list" where
  "indicator_names column existing names 0 = names"
| "indicator_names column existing names (Suc n) =
     indicator_names column existing
       (names @ [collision_safe_name (column @ ''__category_'' @ show_nat (length names)) (existing @ names)]) n"

definition onehot_fit ::
  "frame_params \<Rightarrow> view_config \<Rightarrow> frame \<Rightarrow> dataset_id \<Rightarrow> int \<Rightarrow> feature_schema \<Rightarrow> parameters result" where
  "onehot_fit F cfg X ds seed s =
     bindr (pick_one F (fs_categorical s) ds seed ''no categorical feature is available'') (\<lambda>name.
     bindr (get_column X name) (\<lambda>c.
     let present = filter (\<lambda>v. v \<noteq> CMissing)
           (if schema_categories s name \<noteq> [] then schema_categories s name else co_cells c) in
     bindr (mapr (typed_value_key (fp_codec F)) present) (\<lambda>all_keys.
     let keys = sort (remdups all_keys) in
     if length keys < vc_category_minimum cfg
       then Inl (ValueError ''categorical feature has insufficient training categories'')
     else let names = indicator_names name (frame_columns X) [] (length keys);
              missing = collision_safe_name (name @ ''__missing'') (frame_columns X @ names)
          in Inr (no_parameters\<lparr>pa_selected := [name], pa_generated := names @ [missing],
               pa_category_keys := keys, pa_source_columns := frame_columns X, pa_source_dtype := co_dtype c,
               pa_source_dtypes := source_dtype_map s, pa_missing_column := missing\<rparr>))))"

text \<open>The place of the active indicator of a value among \<open>n + 1\<close> columns.\<close>

definition active_index :: "codec_params \<Rightarrow> string list \<Rightarrow> cell \<Rightarrow> nat result" where
  "active_index P keys v =
     (if v = CMissing then Inr (length keys)
      else bindr (typed_value_key P v) (\<lambda>key.
        if key \<notin> set keys then Inl (ValueError ''unseen category'') else Inr (index_of keys key)))"

definition indicator :: "nat \<Rightarrow> nat \<Rightarrow> cell" where
  "indicator j i = CInt ''uint8'' (if i = j then 1 else 0)"

definition onehot_transform ::
  "frame_params \<Rightarrow> fitted \<Rightarrow> frame \<Rightarrow> string \<Rightarrow> (frame \<times> parameters) result" where
  "onehot_transform F f X part =
     (let p = ft_params f; names = pa_generated p in
      bindr (of_option (IndexError ''list index out of range'') (find (\<lambda>_. True) (pa_selected p))) (\<lambda>name.
      bindr (drop_columns X [name]) (\<lambda>rest.
      bindr (get_column X name) (\<lambda>c.
      bindr (mapr (active_index (fp_codec F) (pa_category_keys p)) (co_cells c)) (\<lambda>active.
      Inr (foldl set_column rest (map (\<lambda>j. \<lparr>co_name = names ! j, co_dtype = ''uint8'',
             co_cells = map (indicator j) active\<rparr>) [0..<length names]), p))))))"

text \<open>\<open>np.argmax\<close> of a row of indicators, after the check that exactly one of them is 1.\<close>

definition is_indicator :: "cell \<Rightarrow> bool" where
  "is_indicator c \<longleftrightarrow> (case c of CInt t i \<Rightarrow> i = 0 \<or> i = 1 | _ \<Rightarrow> False)"

definition is_active :: "cell \<Rightarrow> bool" where
  "is_active c \<longleftrightarrow> (case c of CInt t i \<Rightarrow> i = 1 | _ \<Rightarrow> False)"

definition indicator_row :: "column list \<Rightarrow> nat \<Rightarrow> cell list" where
  "indicator_row cs i = map (\<lambda>c. co_cells c ! i) cs"

definition one_active :: "cell list \<Rightarrow> bool" where
  "one_active row \<longleftrightarrow> list_all is_indicator row \<and> length (filter is_active row) = 1"

definition argmax :: "cell list \<Rightarrow> nat" where
  "argmax row = length (takeWhile (\<lambda>c. \<not> is_active c) row)"

definition decode_row :: "codec_params \<Rightarrow> string list \<Rightarrow> nat \<Rightarrow> cell list \<Rightarrow> cell result" where
  "decode_row P keys width row =
     (if argmax row = width - 1 then Inr CMissing else decode_typed_key P (keys ! argmax row))"

definition onehot_reconstruct :: "frame_params \<Rightarrow> parameters \<Rightarrow> frame \<Rightarrow> frame result" where
  "onehot_reconstruct F p Y =
     (let names = pa_generated p in
      if list_ex (\<lambda>n. n \<notin> set (frame_columns Y)) names
        then Inl (ValueError ''one-hot reconstruction is missing an indicator column'')
      else bindr (select_columns Y names) (\<lambda>cs.
      let rows = map (indicator_row cs) [0..<row_count Y] in
      if \<not> list_all one_active rows
        then Inl (ValueError ''one-hot input must have exactly one active indicator per row'')
      else bindr (mapr (decode_row (fp_codec F) (pa_category_keys p) (length names)) rows) (\<lambda>values.
      bindr (drop_columns Y names) (\<lambda>out.
      bindr (of_option (IndexError ''list index out of range'') (find (\<lambda>_. True) (pa_selected p))) (\<lambda>name.
      bindr (fp_series F (pa_source_dtype p) values) (\<lambda>cells.
      bindr (insert_column out (index_of (pa_source_columns p) name)
          \<lparr>co_name = name, co_dtype = pa_source_dtype p, co_cells = cells\<rparr>) (\<lambda>X.
      select_columns X (pa_source_columns p))))))))"

definition onehot_view :: "frame_params \<Rightarrow> view_config \<Rightarrow> view" where
  "onehot_view F cfg = \<lparr>vw_id = ''V04'', vw_name = ''categorical_onehot'', vw_type = ''BIJECTION'',
     vw_fit = onehot_fit F cfg, vw_transform = onehot_transform F, vw_reconstruct = onehot_reconstruct F\<rparr>"

section \<open>V05: duplicate feature\<close>

definition duplicate_fit ::
  "frame_params \<Rightarrow> frame \<Rightarrow> dataset_id \<Rightarrow> int \<Rightarrow> feature_schema \<Rightarrow> parameters result" where
  "duplicate_fit F X ds seed s =
     bindr (pick_one F (if fs_numeric s \<noteq> [] then fs_numeric s else fs_categorical s) ds seed
        ''no predictor is available'') (\<lambda>name.
     let generated = collision_safe_name (name @ ''__duplicate'') (frame_columns X) in
     Inr (no_parameters\<lparr>pa_selected := [name], pa_generated := [generated],
       pa_source_columns := frame_columns X, pa_relationship := [(generated, name, ''equal'')]\<rparr>))"

definition duplicate_transform :: "fitted \<Rightarrow> frame \<Rightarrow> string \<Rightarrow> (frame \<times> parameters) result" where
  "duplicate_transform f X part =
     (let p = ft_params f in
      case (pa_selected p, pa_generated p) of
        (parent # _, generated # _) \<Rightarrow>
          bindr (get_column X parent) (\<lambda>c. Inr (set_column X (c\<lparr>co_name := generated\<rparr>), p))
      | _ \<Rightarrow> Inl (IndexError ''list index out of range''))"

definition project_generated :: "parameters \<Rightarrow> frame \<Rightarrow> frame result" where
  "project_generated p Y = bindr (drop_columns Y (pa_generated p)) (\<lambda>X. select_columns X (pa_source_columns p))"

definition duplicate_view :: "frame_params \<Rightarrow> view" where
  "duplicate_view F = \<lparr>vw_id = ''V05'', vw_name = ''duplicate_feature'', vw_type = ''PROJECTION'',
     vw_fit = duplicate_fit F, vw_transform = duplicate_transform, vw_reconstruct = project_generated\<rparr>"

section \<open>V06: redundant affine feature\<close>

definition redundant_fit ::
  "frame_params \<Rightarrow> frame \<Rightarrow> dataset_id \<Rightarrow> int \<Rightarrow> feature_schema \<Rightarrow> parameters result" where
  "redundant_fit F X ds seed s =
     bindr (pick_one F (fs_numeric s) ds seed ''no numerical feature is available'') (\<lambda>name.
     let generated = collision_safe_name (name @ ''__redundant_affine'') (frame_columns X) in
     Inr (no_parameters\<lparr>pa_selected := [name], pa_generated := [generated],
       pa_source_columns := frame_columns X, pa_relationship := [(generated, name, ''3*x+7'')]\<rparr>))"

definition infinite_float :: "float_value option \<Rightarrow> bool" where
  "infinite_float x \<longleftrightarrow> (case x of Some (NonFinite _) \<Rightarrow> True | _ \<Rightarrow> False)"

definition affine_cell :: "frame_params \<Rightarrow> float_value option \<Rightarrow> cell" where
  "affine_cell F x = (case Option.bind x float_number of Some r \<Rightarrow> CFloat ''float64'' (fp_affine F r) | None \<Rightarrow> CMissing)"

definition redundant_transform ::
  "frame_params \<Rightarrow> fitted \<Rightarrow> frame \<Rightarrow> string \<Rightarrow> (frame \<times> parameters) result" where
  "redundant_transform F f X part =
     (let p = ft_params f in
      case (pa_selected p, pa_generated p) of
        (parent # _, generated # _) \<Rightarrow>
          bindr (get_column X parent) (\<lambda>c.
          bindr (fp_numeric_cells F (co_cells c)) (\<lambda>values.
          if list_ex infinite_float values
            then Inl (ValueError ''non-finite numeric input is not transformable'')
          else Inr (set_column X \<lparr>co_name = generated, co_dtype = ''float64'',
            co_cells = map (affine_cell F) values\<rparr>, p)))
      | _ \<Rightarrow> Inl (IndexError ''list index out of range''))"

definition redundant_view :: "frame_params \<Rightarrow> view" where
  "redundant_view F = \<lparr>vw_id = ''V06'', vw_name = ''redundant_affine_feature'', vw_type = ''PROJECTION'',
     vw_fit = redundant_fit F, vw_transform = redundant_transform F, vw_reconstruct = project_generated\<rparr>"

section \<open>V07: quotient and remainder\<close>

definition quotient_fit ::
  "frame_params \<Rightarrow> view_config \<Rightarrow> frame \<Rightarrow> dataset_id \<Rightarrow> int \<Rightarrow> feature_schema \<Rightarrow> parameters result" where
  "quotient_fit F cfg X ds seed s =
     bindr (pick_one F (fs_integer s) ds seed ''no integer feature is available'') (\<lambda>name.
     let quo = collision_safe_name (name @ ''__quotient'') (frame_columns X);
         remainder = collision_safe_name (name @ ''__remainder'') (quo # frame_columns X) in
     bindr (get_column X name) (\<lambda>c. Inr (no_parameters\<lparr>pa_selected := [name],
       pa_generated := [quo, remainder], pa_modulus := vc_quotient_modulus cfg,
       pa_source_columns := frame_columns X, pa_source_dtype := co_dtype c,
       pa_source_dtypes := source_dtype_map s\<rparr>)))"

text \<open>
  The columns of quotients and remainders are \<open>Int64\<close>: integers of 64 bits, in which a missing
  value stays missing. (\<open>pd.to_numeric\<close> leaves an integer column alone; what it would make of a
  column of another dtype is not modelled: such a column is refused.)
\<close>

definition int64 :: "int \<Rightarrow> int" where
  "int64 i = sint (word_of_int i :: 64 word)"

fun split_cell :: "(int \<Rightarrow> int) \<Rightarrow> cell \<Rightarrow> cell" where
  "split_cell op (CInt t i) = CInt ''Int64'' (int64 (op i))"
| "split_cell op c = CMissing"

definition integer_cell :: "cell \<Rightarrow> bool" where
  "integer_cell c \<longleftrightarrow> (case c of CInt _ _ \<Rightarrow> True | CMissing \<Rightarrow> True | _ \<Rightarrow> False)"

definition int64_column :: "string \<Rightarrow> cell list \<Rightarrow> column" where
  "int64_column name cells = \<lparr>co_name = name, co_dtype = ''Int64'', co_cells = cells\<rparr>"

definition quotient_transform ::
  "frame_params \<Rightarrow> fitted \<Rightarrow> frame \<Rightarrow> string \<Rightarrow> (frame \<times> parameters) result" where
  "quotient_transform F f X part =
     (let p = ft_params f; m = pa_modulus p in
      case (pa_selected p, pa_generated p) of
        (name # _, quo # remainder # _) \<Rightarrow>
          bindr (get_column X name) (\<lambda>c.
          if \<not> (fp_integer F (co_dtype c) \<and> list_all integer_cell (co_cells c))
            then Inl (ValueError ''quotient/remainder requires integer values'')
          else bindr (drop_columns X [name]) (\<lambda>rest.
          let position = index_of (frame_columns X) name in
          bindr (insert_column rest position
              (int64_column quo (map (split_cell (\<lambda>i. i div m)) (co_cells c)))) (\<lambda>out.
          bindr (insert_column out (position + 1)
              (int64_column remainder (map (split_cell (\<lambda>i. i mod m)) (co_cells c)))) (\<lambda>Y. Inr (Y, p)))))
      | _ \<Rightarrow> Inl (IndexError ''list index out of range''))"

text \<open>\<open>restore_series_dtype\<close> of \<open>base.py\<close> on an \<open>Int64\<close> series and an integer dtype: the values pass through doubles, and
  \<open>fp_bounds\<close> are the bounds of the dtype as the doubles they are compared with.\<close>

fun through_double :: "(int \<Rightarrow> int) \<Rightarrow> cell \<Rightarrow> cell" where
  "through_double double (CInt t i) = CInt t (double i)"
| "through_double double c = c"

fun cell_outside :: "int \<times> int \<Rightarrow> cell \<Rightarrow> bool" where
  "cell_outside (lo, hi) (CInt t i) = (i < lo \<or> hi < i)"
| "cell_outside (lo, hi) c = False"

definition restore_series_dtype :: "frame_params \<Rightarrow> cell list \<Rightarrow> string \<Rightarrow> cell list result" where
  "restore_series_dtype F values dtype =
     (if list_ex (\<lambda>p. starts_with p dtype) [''int'', ''uint'', ''Int'', ''UInt''] then
        let rounded = map (through_double (fp_double F)) values in
        if list_ex (cell_outside (fp_bounds F dtype)) rounded
          then Inl (ValueError (''values overflow integer dtype '' @ dtype))
        else fp_series F dtype rounded
      else fp_series F dtype values)"

text \<open>\<open>X[q] * modulus + X[r]\<close> in 64-bit integers.\<close>

fun join_cell :: "int \<Rightarrow> cell \<Rightarrow> cell \<Rightarrow> cell" where
  "join_cell m (CInt t q) (CInt u r) = CInt t (int64 (int64 (q * m) + r))"
| "join_cell m _ _ = CMissing"

definition quotient_reconstruct :: "frame_params \<Rightarrow> parameters \<Rightarrow> frame \<Rightarrow> frame result" where
  "quotient_reconstruct F p Y =
     (case (pa_generated p, pa_selected p) of
        ([quo, remainder], name # _) \<Rightarrow>
          bindr (get_column Y quo) (\<lambda>q.
          bindr (get_column Y remainder) (\<lambda>r.
          bindr (of_option (KeyError name) (map_of (rev (pa_source_dtypes p)) name)) (\<lambda>dtype.
          bindr (restore_series_dtype F (map2 (join_cell (pa_modulus p)) (co_cells q) (co_cells r)) dtype) (\<lambda>cells.
          bindr (drop_columns Y [quo, remainder]) (\<lambda>out.
          bindr (insert_column out (index_of (pa_source_columns p) name)
              \<lparr>co_name = name, co_dtype = dtype, co_cells = cells\<rparr>) (\<lambda>X.
          select_columns X (pa_source_columns p)))))))
      | _ \<Rightarrow> Inl (ValueError ''not enough values to unpack''))"

definition quotient_view :: "frame_params \<Rightarrow> view_config \<Rightarrow> view" where
  "quotient_view F cfg = \<lparr>vw_id = ''V07'', vw_name = ''integer_quotient_remainder'', vw_type = ''BIJECTION'',
     vw_fit = quotient_fit F cfg, vw_transform = quotient_transform F, vw_reconstruct = quotient_reconstruct F\<rparr>"

end
