(* ===== verification/Certificates.thy ===== *)
theory Certificates
  imports Views
begin

text \<open>
  \<open>src/schemaguard/transformations/contracts.py\<close> (the certificate) and \<open>certificates.py\<close>: the
  contract of a transformation certificate, the construction of one, its identity, and the
  verification of a certificate against the tables it speaks of. Free-form dictionaries are JSON
  objects. The value of a float's text, the parsing of a time, the digest of a table and the
  arithmetic on floats are arguments, the objects that mark missing cells (\<open>None\<close> or a NaN), and so are the doubles of \<open>1.0e-10\<close> and \<open>1.0e-12\<close>, the commit
  and the clock.
\<close>

section \<open>Numbers and truth of JSON values\<close>

record cert_params =
  ce_frames :: frame_params
  ce_value :: "string \<Rightarrow> float_value"
  ce_utc :: "string \<Rightarrow> string option"
  ce_table_hash :: "frame \<Rightarrow> string"
  ce_numeric_value :: "cell \<Rightarrow> py_float"
  ce_sub :: "py_float \<Rightarrow> py_float \<Rightarrow> py_float"
  ce_ratio :: "py_float \<Rightarrow> py_float \<Rightarrow> py_float"
  ce_bound :: "py_float \<Rightarrow> py_float \<Rightarrow> py_float \<Rightarrow> py_float"
  ce_same_missing :: "column \<Rightarrow> column \<Rightarrow> bool"
  ce_rtol :: py_float
  ce_atol :: py_float
  ce_commit :: string
  ce_now :: string

definition ce_sha :: "cert_params \<Rightarrow> string \<Rightarrow> string" where
  "ce_sha C = fp_sha (ce_frames C)"

definition ce_float :: "cert_params \<Rightarrow> py_float \<Rightarrow> json" where
  "ce_float C x = JFloat (cp_frepr (fp_codec (ce_frames C)) x)"

fun number_of :: "cert_params \<Rightarrow> json \<Rightarrow> float_value option" where
  "number_of C (JInt i) = Some (Finite (of_int i))"
| "number_of C (JBool b) = Some (Finite (if b then 1 else 0))"
| "number_of C (JFloat s) = Some (ce_value C s)"
| "number_of C _ = None"

definition number_value :: "cert_params \<Rightarrow> json \<Rightarrow> py_float option" where
  "number_value C v = Option.bind (number_of C v) float_number"

lemma number_value_simps [simp]:
  "number_value C (JInt i) = Some (of_int i)" "number_value C (JBool b) = Some (if b then 1 else 0)"
  "number_value C (JFloat s) = float_number (ce_value C s)"
  by (simp_all add: number_value_def)

fun truthy :: "cert_params \<Rightarrow> json \<Rightarrow> bool" where
  "truthy C JNull = False"
| "truthy C (JBool b) = b"
| "truthy C (JInt i) = (i \<noteq> 0)"
| "truthy C (JFloat s) = (float_number (ce_value C s) \<noteq> Some 0)"
| "truthy C (JStr s) = (s \<noteq> [])"
| "truthy C (JArr xs) = (xs \<noteq> [])"
| "truthy C (JObj kvs) = (kvs \<noteq> [])"

definition nonnegative :: "cert_params \<Rightarrow> json \<Rightarrow> bool" where
  "nonnegative C v \<longleftrightarrow> (case number_of C v of
     None \<Rightarrow> False | Some (Finite x) \<Rightarrow> 0 \<le> x | Some NegZero \<Rightarrow> True | Some (NonFinite s) \<Rightarrow> s = ''inf'')"

text \<open>The numbers of a list, when all of its items are finite numbers, and whether they are \<open>0..n-1\<close> in some order.\<close>

fun finite_numbers :: "cert_params \<Rightarrow> json list \<Rightarrow> py_float list option" where
  "finite_numbers C [] = Some []"
| "finite_numbers C (v # vs) =
     (case (number_value C v, finite_numbers C vs) of (Some x, Some xs) \<Rightarrow> Some (x # xs) | _ \<Rightarrow> None)"

definition is_range :: "cert_params \<Rightarrow> json list \<Rightarrow> bool" where
  "is_range C vs \<longleftrightarrow> map_option sort (finite_numbers C vs) = Some (map of_nat [0..<length vs])"

text \<open>Equality of dictionaries, whatever the order of their keys.\<close>

definition same_dict :: "(string \<times> json) list \<Rightarrow> (string \<times> json) list \<Rightarrow> bool" where
  "same_dict a b \<longleftrightarrow> list_all (\<lambda>k. map_of a k = map_of b k) (map fst a @ map fst b)"

section \<open>The certificate\<close>

record certificate =
  tc_schema_version :: int
  tc_view_id :: string
  tc_view_name :: string
  tc_certificate_type :: string
  tc_scientific_role :: string
  tc_dataset_id :: dataset_id
  tc_dataset_version :: string
  tc_seed :: int
  tc_split_strategy :: string
  tc_partition :: string
  tc_fit_scope :: string
  tc_source_schema_hash :: string
  tc_output_schema_hash :: string
  tc_source_artifact_hash :: string
  tc_output_artifact_hash :: string
  tc_source_row_id_hash :: string
  tc_output_row_id_hash :: string
  tc_source_target_hash :: "string option"
  tc_output_target_hash :: "string option"
  tc_selected_columns :: "string list"
  tc_generated_columns :: "string list"
  tc_parameters :: "(string \<times> json) list"
  tc_inverse_parameters :: "(string \<times> json) list"
  tc_missing_mask_policy :: string
  tc_dtype_policy :: string
  tc_numerical_tolerance :: "(string \<times> py_float) list"
  tc_configuration_hash :: string
  tc_implementation_hash :: string
  tc_source_commit :: string
  tc_validation_status :: string
  tc_validation_results :: "(string \<times> json) list"
  tc_not_applicable_reason :: "string option"
  tc_created_at :: string

text \<open>\<open>VIEW_METADATA\<close>: name, certificate type and role of every view.\<close>

definition VIEW_METADATA :: "(string \<times> string \<times> string \<times> string) list" where
  "VIEW_METADATA = [
     (''V00'', ''identity'', ''BIJECTION'', ''CONTROL''),
     (''V01'', ''numeric_affine_units'', ''BIJECTION'', ''PRIMARY_MIGRATION''),
     (''V02'', ''numeric_asinh'', ''BIJECTION'', ''PRIMARY_MIGRATION''),
     (''V03'', ''category_permutation'', ''BIJECTION'', ''PRIMARY_MIGRATION''),
     (''V04'', ''categorical_onehot'', ''BIJECTION'', ''PRIMARY_MIGRATION''),
     (''V05'', ''duplicate_feature'', ''PROJECTION'', ''PRIMARY_MIGRATION''),
     (''V06'', ''redundant_affine_feature'', ''PROJECTION'', ''PRIMARY_MIGRATION''),
     (''V07'', ''integer_quotient_remainder'', ''BIJECTION'', ''PRIMARY_MIGRATION''),
     (''V08'', ''column_permutation_control'', ''PERMUTATION'', ''CONTROL''),
     (''V09'', ''row_permutation_control'', ''PERMUTATION'', ''CONTROL''),
     (''V10'', ''composite_migration'', ''COMPOSITION'', ''PRIMARY_MIGRATION'')]"

text \<open>\<open>_hash\<close>: 64 hexadecimal digits of either case, in lower case.\<close>

definition lower_hash :: "string \<Rightarrow> string result" where
  "lower_hash s = (if is_sha256 (map lower_char s) then Inr (map lower_char s)
     else Inl (ValueError ''hash fields must be lowercase SHA-256 values''))"

definition optional_hash :: "string option \<Rightarrow> string option result" where
  "optional_hash x = (case x of None \<Rightarrow> Inr None | Some s \<Rightarrow> bindr (lower_hash s) (\<lambda>h. Inr (Some h)))"

text \<open>The field validators: every hash in lower case, the time in UTC.\<close>

definition certificate_hashes :: "certificate \<Rightarrow> certificate result" where
  "certificate_hashes c =
     bindr (lower_hash (tc_source_schema_hash c)) (\<lambda>h1. bindr (lower_hash (tc_output_schema_hash c)) (\<lambda>h2.
     bindr (lower_hash (tc_source_artifact_hash c)) (\<lambda>h3. bindr (lower_hash (tc_output_artifact_hash c)) (\<lambda>h4.
     bindr (lower_hash (tc_source_row_id_hash c)) (\<lambda>h5. bindr (lower_hash (tc_output_row_id_hash c)) (\<lambda>h6.
     bindr (optional_hash (tc_source_target_hash c)) (\<lambda>h7. bindr (optional_hash (tc_output_target_hash c)) (\<lambda>h8.
     bindr (lower_hash (tc_configuration_hash c)) (\<lambda>h9. bindr (lower_hash (tc_implementation_hash c)) (\<lambda>h10.
     Inr (c\<lparr>tc_source_schema_hash := h1, tc_output_schema_hash := h2, tc_source_artifact_hash := h3,
       tc_output_artifact_hash := h4, tc_source_row_id_hash := h5, tc_output_row_id_hash := h6,
       tc_source_target_hash := h7, tc_output_target_hash := h8, tc_configuration_hash := h9,
       tc_implementation_hash := h10\<rparr>)))))))))))"

definition certificate_fields :: "cert_params \<Rightarrow> certificate \<Rightarrow> certificate result" where
  "certificate_fields C c =
     bindr (guards
       [(tc_schema_version c < 1, ValueError ''schema_version''),
        (tc_certificate_type c \<notin> {''BIJECTION'', ''PROJECTION'', ''PERMUTATION'', ''COMPOSITION''}, ValueError ''certificate_type''),
        (tc_scientific_role c \<notin> {''PRIMARY_MIGRATION'', ''CONTROL''}, ValueError ''scientific_role''),
        (tc_partition c \<notin> set partitions, ValueError ''partition''),
        (tc_fit_scope c \<notin> {''train_only'', ''none''}, ValueError ''fit_scope''),
        (tc_missing_mask_policy c \<noteq> ''preserve_missing_masks_exactly'', ValueError ''missing_mask_policy''),
        (tc_dtype_policy c \<noteq> ''restore_exact_source_dtypes'', ValueError ''dtype_policy''),
        (tc_validation_status c \<notin> {''PASS'', ''FAIL'', ''N/A''}, ValueError ''validation_status'')] c) (\<lambda>c.
     bindr (certificate_hashes c) (\<lambda>c.
     bindr (of_option (ValueError ''created_at must be timezone-aware'') (ce_utc C (tc_created_at c))) (\<lambda>t.
     Inr (c\<lparr>tc_created_at := t\<rparr>))))"

definition required_results :: "string list" where
  "required_results = [''row_count_preserved'', ''row_ids_preserved'', ''row_id_order_policy'', ''target_hash_preserved'',
     ''source_schema_hash'', ''output_schema_hash'', ''restored_schema_hash'', ''missing_masks_preserved'',
     ''reconstruction_exact'', ''maximum_absolute_error'', ''maximum_relative_error'', ''configuration_hash_verified'',
     ''implementation_hash_verified'', ''certificate_type_verified'']"

definition verified_results :: "string list" where
  "verified_results = [''row_count_preserved'', ''row_ids_preserved'', ''target_hash_preserved'', ''missing_masks_preserved'',
     ''configuration_hash_verified'', ''implementation_hash_verified'', ''certificate_type_verified'']"

definition error_results :: "string list" where
  "error_results = [''maximum_absolute_error'', ''maximum_relative_error'']"

definition missing_text :: "string option \<Rightarrow> bool" where
  "missing_text s \<longleftrightarrow> s = None \<or> s = Some []"

definition pass_guards :: "cert_params \<Rightarrow> certificate \<Rightarrow> (bool \<times> error) list" where
  "pass_guards C c = (let r = \<lambda>k. json_field k (tc_validation_results c) in
     [(missing_text (tc_source_target_hash c) \<or> missing_text (tc_output_target_hash c),
        ValueError ''passing certificates require source and output target hashes''),
      (tc_source_target_hash c \<noteq> tc_output_target_hash c, ValueError ''passing certificates require equal target hashes''),
      (\<not> list_all (\<lambda>k. k \<in> set (map fst (tc_validation_results c))) required_results,
        ValueError ''passing certificates require complete validation evidence''),
      (r ''source_schema_hash'' \<noteq> JStr (tc_source_schema_hash c),
        ValueError ''validation evidence source schema hash does not match certificate''),
      (r ''output_schema_hash'' \<noteq> JStr (tc_output_schema_hash c),
        ValueError ''validation evidence output schema hash does not match certificate''),
      (r ''restored_schema_hash'' \<noteq> JStr (tc_source_schema_hash c),
        ValueError ''reconstruction did not restore the source schema hash''),
      (\<not> list_all (\<lambda>k. truthy C (r k)) verified_results, ValueError ''passing certificate contains failed validation evidence''),
      (r ''status'' \<noteq> JStr ''PASS'', ValueError ''passing certificate must record PASS validation status''),
      (\<not> list_all (\<lambda>k. nonnegative C (r k)) error_results, ValueError ''passing certificate contains invalid numerical evidence''),
      (truthy C (r ''reconstruction_exact'') \<and> list_ex (\<lambda>k. number_value C (r k) \<noteq> Some 0) error_results,
        ValueError ''exact reconstruction cannot report a nonzero error'')])"

text \<open>What each type of certificate must carry.\<close>

definition component_passes :: "json \<Rightarrow> bool" where
  "component_passes v \<longleftrightarrow> (case v of JObj kvs \<Rightarrow> json_field ''validation_status'' kvs = JStr ''PASS'' | _ \<Rightarrow> False)"

definition type_guards :: "cert_params \<Rightarrow> certificate \<Rightarrow> (bool \<times> error) list" where
  "type_guards C c = (let p = \<lambda>k. json_field k (tc_parameters c) in
     if tc_certificate_type c = ''BIJECTION'' then
       [(json_field ''operation'' (tc_inverse_parameters c) \<noteq> JStr ''reconstruct'',
         ValueError ''bijection certificates require a reconstruction operation'')]
     else if tc_certificate_type c = ''PROJECTION'' then
       [(\<not> truthy C (p ''projection_operation''), ValueError ''projection certificates require a projection operation''),
        (tc_generated_columns c = [] \<or> \<not> truthy C (p ''generated_relationship''),
         ValueError ''projection certificates require generated-column evidence'')]
     else if tc_certificate_type c = ''PERMUTATION'' then
       (case (p ''forward_order'', p ''inverse_order'') of
          (JArr forward, JArr backward) \<Rightarrow>
            [(length forward \<noteq> length backward,
              ValueError ''permutation forward and inverse orders must have equal length''),
             (\<not> is_range C forward \<or> \<not> is_range C backward,
              ValueError ''permutation order must contain every source item exactly once'')]
        | _ \<Rightarrow> [(True, ValueError ''permutation certificates require forward and inverse orders'')])
     else
       [(p ''components'' \<noteq> JArr [JStr ''V01'', JStr ''V03'', JStr ''V08''],
         ValueError ''composition certificates require V01, V03, V08 in order''),
        (case p ''component_certificates'' of JArr cs \<Rightarrow> length cs \<noteq> 3 | _ \<Rightarrow> True,
         ValueError ''composition certificates require three component certificates''),
        (case p ''component_certificates'' of JArr cs \<Rightarrow> \<not> list_all component_passes cs | _ \<Rightarrow> False,
         ValueError ''composition component certificates must all pass'')])"

definition status_guards :: "cert_params \<Rightarrow> certificate \<Rightarrow> (bool \<times> error) list" where
  "status_guards C c =
     [(map_of VIEW_METADATA (tc_view_id c) = None, ValueError ''unknown transformation view identity''),
      (map_of VIEW_METADATA (tc_view_id c) \<noteq> Some (tc_view_name c, tc_certificate_type c, tc_scientific_role c),
        ValueError ''certificate view identity, proof type, or scientific role is invalid''),
      (json_field ''_view_name'' (tc_parameters c) \<noteq> JStr (tc_view_name c),
        ValueError ''certificate reserved view name does not match top-level view name''),
      (tc_validation_status c = ''N/A'' \<and> missing_text (tc_not_applicable_reason c),
        ValueError ''N/A certificates require a controlled reason''),
      (tc_validation_status c = ''PASS'' \<and> \<not> missing_text (tc_not_applicable_reason c),
        ValueError ''passing certificates cannot carry an N/A reason'')]
     @ (if tc_validation_status c = ''PASS'' then pass_guards C c else []) @ type_guards C c"

definition validate_certificate :: "cert_params \<Rightarrow> certificate \<Rightarrow> certificate result" where
  "validate_certificate C c = bindr (certificate_fields C c) (\<lambda>c. guards (status_guards C c) c)"

section \<open>Identity\<close>

definition json_text_option :: "string option \<Rightarrow> json" where
  "json_text_option s = (case s of None \<Rightarrow> JNull | Some t \<Rightarrow> JStr t)"

definition dataset_json :: "dataset_id \<Rightarrow> json" where
  "dataset_json d = (case d of DatasetInt i \<Rightarrow> JInt i | DatasetStr s \<Rightarrow> JStr s)"

text \<open>\<open>canonical_dict\<close>.\<close>

definition certificate_json :: "cert_params \<Rightarrow> certificate \<Rightarrow> json" where
  "certificate_json C c = JObj [
     (''schema_version'', JInt (tc_schema_version c)), (''view_id'', JStr (tc_view_id c)),
     (''view_name'', JStr (tc_view_name c)), (''certificate_type'', JStr (tc_certificate_type c)),
     (''scientific_role'', JStr (tc_scientific_role c)), (''dataset_id'', dataset_json (tc_dataset_id c)),
     (''dataset_version'', JStr (tc_dataset_version c)), (''seed'', JInt (tc_seed c)),
     (''split_strategy'', JStr (tc_split_strategy c)), (''partition'', JStr (tc_partition c)),
     (''fit_scope'', JStr (tc_fit_scope c)), (''source_schema_hash'', JStr (tc_source_schema_hash c)),
     (''output_schema_hash'', JStr (tc_output_schema_hash c)),
     (''source_artifact_hash'', JStr (tc_source_artifact_hash c)),
     (''output_artifact_hash'', JStr (tc_output_artifact_hash c)),
     (''source_row_id_hash'', JStr (tc_source_row_id_hash c)), (''output_row_id_hash'', JStr (tc_output_row_id_hash c)),
     (''source_target_hash'', json_text_option (tc_source_target_hash c)),
     (''output_target_hash'', json_text_option (tc_output_target_hash c)),
     (''selected_columns'', json_strings (tc_selected_columns c)),
     (''generated_columns'', json_strings (tc_generated_columns c)), (''parameters'', JObj (tc_parameters c)),
     (''inverse_parameters'', JObj (tc_inverse_parameters c)),
     (''missing_mask_policy'', JStr (tc_missing_mask_policy c)), (''dtype_policy'', JStr (tc_dtype_policy c)),
     (''numerical_tolerance'', JObj (map (\<lambda>(k, x). (k, ce_float C x)) (tc_numerical_tolerance c))),
     (''configuration_hash'', JStr (tc_configuration_hash c)), (''implementation_hash'', JStr (tc_implementation_hash c)),
     (''source_commit'', JStr (tc_source_commit c)), (''validation_status'', JStr (tc_validation_status c)),
     (''validation_results'', JObj (tc_validation_results c)),
     (''not_applicable_reason'', json_text_option (tc_not_applicable_reason c)), (''created_at'', JStr (tc_created_at c))]"

text \<open>\<open>remove_provenance\<close>, at every level of the object.\<close>

fun remove_provenance :: "json \<Rightarrow> json" where
  "remove_provenance (JObj kvs) =
     JObj (map (\<lambda>(k, v). (k, remove_provenance v)) (filter (\<lambda>(k, v). k \<notin> {''created_at'', ''source_commit''}) kvs))"
| "remove_provenance (JArr xs) = JArr (map remove_provenance xs)"
| "remove_provenance v = v"

definition certificate_identity_hash :: "cert_params \<Rightarrow> certificate \<Rightarrow> string" where
  "certificate_identity_hash C c = sha256_canonical_json (ce_sha C) (remove_provenance (certificate_json C c))"

section \<open>Verification against the tables\<close>

definition table_schema_hash :: "cert_params \<Rightarrow> frame \<Rightarrow> string" where
  "table_schema_hash C X = sha256_canonical_json (ce_sha C) (JObj [
     (''columns'', json_strings (frame_columns X)), (''dtypes'', json_strings (map co_dtype X))])"

definition row_id_hash :: "cert_params \<Rightarrow> frame \<Rightarrow> string result" where
  "row_id_hash C X = (if ROW_ID_COLUMN \<notin> set (frame_columns X) then Inl (ValueError (ROW_ID_COLUMN @ '' is required''))
     else bindr (select_columns X [ROW_ID_COLUMN]) (\<lambda>ids. Inr (ce_table_hash C ids)))"

text \<open>Equality of cells in Python and pandas: \<open>1\<close>, \<open>1.0\<close> and \<open>True\<close> are equal. \<open>DataFrame.equals\<close> compares the names,
  the dtypes and the cells, and takes every two missing cells of a column for equal; \<open>==\<close> on lists of cells does so
  only for the same objects, which is what \<open>ce_same_missing\<close> says.\<close>

fun python_value :: "cell \<Rightarrow> cell" where
  "python_value (CBool b) = CFloat [] (Finite (if b then 1 else 0))"
| "python_value (CInt t i) = CFloat [] (Finite (of_int i))"
| "python_value (CFloat t NegZero) = CFloat [] (Finite 0)"
| "python_value (CFloat t x) = CFloat [] x"
| "python_value c = c"

definition python_values :: "column \<Rightarrow> cell list" where
  "python_values c = map python_value (co_cells c)"

definition frame_equal :: "frame \<Rightarrow> frame \<Rightarrow> bool" where
  "frame_equal X Y \<longleftrightarrow> map (\<lambda>c. (co_name c, co_dtype c, python_values c)) X = map (\<lambda>c. (co_name c, co_dtype c, python_values c)) Y"

definition same_list :: "cert_params \<Rightarrow> column \<Rightarrow> column \<Rightarrow> bool" where
  "same_list C l r \<longleftrightarrow> python_values l = python_values r \<and> (CMissing \<in> set (co_cells l) \<longrightarrow> ce_same_missing C l r)"

text \<open>\<open>_maximum_errors\<close>: over the rows where both cells of a numeric column are present.\<close>

definition present_pairs :: "column \<Rightarrow> column \<Rightarrow> (cell \<times> cell) list" where
  "present_pairs l r = filter (\<lambda>(a, b). a \<noteq> CMissing \<and> b \<noteq> CMissing) (zip (co_cells l) (co_cells r))"

definition float_difference :: "cert_params \<Rightarrow> cell \<times> cell \<Rightarrow> py_float" where
  "float_difference C p = \<bar>ce_sub C (ce_numeric_value C (fst p)) (ce_numeric_value C (snd p))\<bar>"

definition numeric_pair :: "cert_params \<Rightarrow> column \<Rightarrow> column \<Rightarrow> bool" where
  "numeric_pair C l r \<longleftrightarrow> fp_numeric (ce_frames C) (co_dtype l) \<and> fp_numeric (ce_frames C) (co_dtype r)"

definition column_errors :: "cert_params \<Rightarrow> column \<times> column \<Rightarrow> (py_float \<times> py_float) list" where
  "column_errors C lr = (if numeric_pair C (fst lr) (snd lr)
     then map (\<lambda>p. (float_difference C p, ce_ratio C (float_difference C p) \<bar>ce_numeric_value C (fst p)\<bar>))
       (present_pairs (fst lr) (snd lr)) else [])"

definition column_pairs :: "frame \<Rightarrow> frame \<Rightarrow> (column \<times> column) list result" where
  "column_pairs source restored =
     bindr (mapr (\<lambda>l. get_column restored (co_name l)) source) (\<lambda>rs. Inr (zip source rs))"

definition maximum_errors :: "cert_params \<Rightarrow> (column \<times> column) list \<Rightarrow> py_float \<times> py_float" where
  "maximum_errors C pairs = (let es = concat (map (column_errors C) pairs) in
     (fold max (map fst es) 0, fold max (map snd es) 0))"

text \<open>The columns of a reconstruction that is not exact, within the tolerance.\<close>

definition column_close :: "cert_params \<Rightarrow> py_float \<Rightarrow> py_float \<Rightarrow> column \<times> column \<Rightarrow> bool" where
  "column_close C rtol atol lr \<longleftrightarrow> (if numeric_pair C (fst lr) (snd lr)
     then list_all (\<lambda>p. float_difference C p \<le> ce_bound C atol rtol \<bar>ce_numeric_value C (fst p)\<bar>)
       (present_pairs (fst lr) (snd lr))
     else same_list C (fst lr) (snd lr))"

definition missing_mask :: "column \<Rightarrow> bool list" where
  "missing_mask c = map (\<lambda>v. v = CMissing) (co_cells c)"

text \<open>\<open>_validate_permutation\<close>: complete orders, inverse to each other.\<close>

definition json_index :: "json \<Rightarrow> nat option" where
  "json_index v = (case v of JInt i \<Rightarrow> if 0 \<le> i then Some (nat i) else None | JBool b \<Rightarrow> Some (if b then 1 else 0) | _ \<Rightarrow> None)"

definition index_inverse :: "cert_params \<Rightarrow> json list \<Rightarrow> json list \<Rightarrow> nat \<Rightarrow> bool" where
  "index_inverse C forward backward i \<longleftrightarrow> (case json_index (forward ! i) of
     None \<Rightarrow> False | Some j \<Rightarrow> j < length backward \<and> number_value C (backward ! j) = Some (of_nat i))"

definition validate_permutation :: "cert_params \<Rightarrow> certificate \<Rightarrow> unit result" where
  "validate_permutation C c = (case (json_field ''forward_order'' (tc_parameters c), json_field ''inverse_order'' (tc_parameters c)) of
     (JArr forward, JArr backward) \<Rightarrow> guards
       [(length forward \<noteq> length backward \<or> \<not> is_range C forward, ValueError ''permutation forward order is not complete''),
        (\<not> is_range C backward, ValueError ''permutation inverse order is not complete''),
        (\<not> list_all (index_inverse C forward backward) [0..<length forward],
          ValueError ''permutation inverse does not invert forward order'')] ()
     | _ \<Rightarrow> Inl (TypeError ''permutation order is not a list''))"

text \<open>\<open>_validate_projection_relationship\<close>: the rows of the output in the order of the source.\<close>

definition row_positions :: "frame \<Rightarrow> frame \<Rightarrow> nat list result" where
  "row_positions source transformed =
     bindr (get_column source ROW_ID_COLUMN) (\<lambda>s. bindr (get_column transformed ROW_ID_COLUMN) (\<lambda>t.
     mapr (\<lambda>v. if v \<in> set (python_values t) then Inr (index_of (python_values t) v) else Inl (KeyError ''row id'')) (python_values s)))"

definition finite_cell :: "cell \<Rightarrow> bool" where
  "finite_cell v \<longleftrightarrow> (case v of CFloat _ (NonFinite _) \<Rightarrow> False | _ \<Rightarrow> True)"

definition affine_pair :: "cert_params \<Rightarrow> cell \<times> cell \<Rightarrow> bool" where
  "affine_pair C p \<longleftrightarrow>
     float_number (fp_affine (ce_frames C) (ce_numeric_value C (fst p))) = Some (ce_numeric_value C (snd p))"

text \<open>\<open>type(a) is type(b)\<close> of two cells.\<close>

fun same_type :: "cell \<Rightarrow> cell \<Rightarrow> bool" where
  "same_type (CBool a) (CBool b) = True"
| "same_type (CInt s i) (CInt t j) = (s = t)"
| "same_type (CFloat s x) (CFloat t y) = (s = t)"
| "same_type (CStr s) (CStr t) = True"
| "same_type (CTime s) (CTime t) = True"
| "same_type (COther s) (COther t) = True"
| "same_type a b = False"

definition check_relationship ::
  "cert_params \<Rightarrow> frame \<Rightarrow> frame \<Rightarrow> nat list \<Rightarrow> string \<times> json \<Rightarrow> unit result" where
  "check_relationship C source transformed rows entry = (case snd entry of
     JObj kvs \<Rightarrow> (case (json_field ''parent'' kvs, json_field ''relationship'' kvs) of
       (JStr parent, JStr relation) \<Rightarrow>
         if parent \<notin> set (frame_columns source)
           then Inl (ValueError ''projection relationship parent column is missing'')
         else bindr (get_column source parent) (\<lambda>p. bindr (get_column transformed (fst entry)) (\<lambda>g.
           let cells = map (\<lambda>i. co_cells g ! i) rows; pairs = present_pairs p (g\<lparr>co_cells := cells\<rparr>) in
           if missing_mask p \<noteq> map (\<lambda>v. v = CMissing) cells
             then Inl (ValueError ''projection parent and generated missing masks differ'')
           else if relation = ''equal'' then
             (if co_dtype p \<noteq> co_dtype g \<or> map python_value (co_cells p) \<noteq> map python_value cells
              then Inl (ValueError ''duplicate feature relationship is invalid'')
              else if list_ex (\<lambda>(a, b). \<not> same_type a b) pairs
              then Inl (ValueError ''duplicate feature relationship changed value type'') else Inr ())
           else if relation = ''3*x+7'' then
             (if list_ex (\<lambda>(a, b). \<not> finite_cell a \<or> \<not> finite_cell b) pairs
              then Inl (ValueError ''affine projection contains non-finite values'')
              else if \<not> list_all (affine_pair C) pairs then Inl (ValueError ''redundant affine relationship is invalid'')
              else Inr ())
           else Inl (ValueError ''unknown projection relationship'')))
     | _ \<Rightarrow> Inl (KeyError ''parent''))
   | _ \<Rightarrow> Inl (ValueError ''projection relationship must be a mapping''))"

definition validate_projection :: "cert_params \<Rightarrow> frame \<Rightarrow> frame \<Rightarrow> certificate \<Rightarrow> unit result" where
  "validate_projection C source transformed c = (case json_field ''generated_relationship'' (tc_parameters c) of
     JObj rels \<Rightarrow>
       if set (map fst rels) \<noteq> set (tc_generated_columns c)
         then Inl (ValueError ''projection relationships must cover exactly the generated columns'')
       else if list_ex (\<lambda>g. g \<notin> set (frame_columns transformed)) (tc_generated_columns c)
         then Inl (ValueError ''projection output is missing a declared generated column'')
       else bindr (row_positions source transformed) (\<lambda>rows.
         validate_all (check_relationship C source transformed rows) rels)
   | _ \<Rightarrow> Inl (ValueError ''projection relationships must cover exactly the generated columns''))"

text \<open>\<open>_validate_composition\<close>: the component certificates chain the source to the output.\<close>

definition validate_composition :: "(json \<Rightarrow> certificate result) \<Rightarrow> certificate \<Rightarrow> unit result" where
  "validate_composition parse c = (case json_field ''component_certificates'' (tc_parameters c) of
     JArr items \<Rightarrow> bindr (mapr parse items) (\<lambda>cs. case cs of
       [c1, c2, c3] \<Rightarrow> guards
         [(map tc_view_id cs \<noteq> [''V01'', ''V03'', ''V08''], ValueError ''composition components are not V01, V03, V08 in order''),
          (tc_source_artifact_hash c1 \<noteq> tc_source_artifact_hash c, ValueError ''composition source hash continuity failed''),
          (tc_output_artifact_hash c1 \<noteq> tc_source_artifact_hash c2,
            ValueError ''composition first-to-second hash continuity failed''),
          (tc_output_artifact_hash c2 \<noteq> tc_source_artifact_hash c3,
            ValueError ''composition second-to-third hash continuity failed''),
          (tc_output_artifact_hash c3 \<noteq> tc_output_artifact_hash c, ValueError ''composition output hash continuity failed'')] ()
     | _ \<Rightarrow> Inl (ValueError ''composition components are not V01, V03, V08 in order''))
   | _ \<Rightarrow> Inl (TypeError ''component certificates are not a list''))"

text \<open>\<open>validate_roundtrip\<close>: first the bindings of the certificate, then the tables.\<close>

definition artifact_guards ::
  "cert_params \<Rightarrow> certificate \<Rightarrow> (string \<times> string) option \<Rightarrow> py_float \<Rightarrow> py_float \<Rightarrow> frame \<Rightarrow> frame
   \<Rightarrow> (bool \<times> error) list" where
  "artifact_guards C c identity rtol atol source transformed =
     (let p = \<lambda>k. json_field k (tc_parameters c) in
     [(identity = None \<and> tc_validation_status c = ''PASS'',
        ValueError ''configuration and implementation identity require the fitted transformation''),
      (p ''_view_name'' \<noteq> JStr (tc_view_name c),
        ValueError ''certificate reserved view name does not match the top-level view name''),
      (map_of (tc_numerical_tolerance c) ''rtol'' \<noteq> Some rtol \<or> map_of (tc_numerical_tolerance c) ''atol'' \<noteq> Some atol,
        ValueError ''certificate numerical tolerances do not match validation tolerances''),
      (tc_source_artifact_hash c \<noteq> ce_table_hash C source, ValueError ''source artifact hash does not match certificate''),
      (tc_output_artifact_hash c \<noteq> ce_table_hash C transformed,
        ValueError ''output artifact hash does not match certificate''),
      (tc_source_schema_hash c \<noteq> table_schema_hash C source, ValueError ''source schema hash does not match certificate''),
      (tc_output_schema_hash c \<noteq> table_schema_hash C transformed,
        ValueError ''output schema hash does not match certificate'')])"

definition identity_guards ::
  "cert_params \<Rightarrow> certificate \<Rightarrow> (string \<times> string) option \<Rightarrow> string \<Rightarrow> string \<Rightarrow> (bool \<times> error) list" where
  "identity_guards C c identity source_ids output_ids =
     (let p = \<lambda>k. json_field k (tc_parameters c) in
     [(tc_source_row_id_hash c \<noteq> source_ids, ValueError ''source row-ID hash does not match certificate''),
      (tc_output_row_id_hash c \<noteq> output_ids, ValueError ''output row-ID hash does not match certificate''),
      (tc_source_target_hash c = None \<or> tc_output_target_hash c = None,
        ValueError ''target hashes are required for certificate validation''),
      (tc_source_target_hash c \<noteq> tc_output_target_hash c, ValueError ''target hash changed during transformation''),
      (case identity of Some (configuration, _) \<Rightarrow> tc_configuration_hash c \<noteq> configuration | None \<Rightarrow> False,
        ValueError ''configuration hash does not match fitted transformation''),
      (case identity of Some (_, implementation) \<Rightarrow> tc_implementation_hash c \<noteq> implementation | None \<Rightarrow> False,
        ValueError ''implementation hash does not match fitted transformation''),
      (p ''_configuration_hash'' \<noteq> JStr (tc_configuration_hash c), ValueError ''certificate configuration hash self-check failed''),
      (p ''_implementation_hash'' \<noteq> JStr (tc_implementation_hash c),
        ValueError ''certificate implementation hash self-check failed''),
      (p ''_view_id'' \<noteq> JStr (tc_view_id c), ValueError ''certificate view self-check failed''),
      (p ''_certificate_type'' \<noteq> JStr (tc_certificate_type c), ValueError ''certificate type self-check failed''),
      (p ''_scientific_role'' \<noteq> JStr (tc_scientific_role c), ValueError ''certificate scientific role self-check failed'')])"

definition table_guards ::
  "cert_params \<Rightarrow> certificate \<Rightarrow> frame \<Rightarrow> frame \<Rightarrow> frame \<Rightarrow> cell list \<Rightarrow> cell list \<Rightarrow> cell list \<Rightarrow> (bool \<times> error) list" where
  "table_guards C c source transformed restored ids output_ids restored_ids =
     [(row_count source \<noteq> row_count transformed \<or> row_count source \<noteq> row_count restored,
        ValueError ''row count changed during transformation''),
      (\<not> distinct (map python_value output_ids), ValueError ''transformation duplicated a row identifier''),
      (python_value ` set ids \<noteq> python_value ` set output_ids, ValueError ''row-id set changed during transformation''),
      (python_value ` set ids \<noteq> python_value ` set restored_ids, ValueError ''row-id set changed during reconstruction''),
      (frame_columns restored \<noteq> frame_columns source, ValueError ''reconstruction columns do not match source''),
      (table_schema_hash C restored \<noteq> tc_source_schema_hash c,
        ValueError ''restored schema hash does not match source schema hash''),
      (map python_value ids \<noteq> map python_value restored_ids, ValueError ''reconstruction row order does not restore source order'')]"

definition recorded_evidence ::
  "cert_params \<Rightarrow> certificate \<Rightarrow> (string \<times> string) option \<Rightarrow> frame \<Rightarrow> bool \<Rightarrow> py_float \<times> py_float \<Rightarrow> (string \<times> json) list" where
  "recorded_evidence C c identity restored exact errors =
     [(''status'', JStr ''PASS''), (''row_count_preserved'', JBool True), (''row_ids_preserved'', JBool True),
      (''row_id_order_policy'', case map_of (tc_parameters c) ''target_alignment_policy'' of
          None \<Rightarrow> JStr ''ROW_ID_SET_PRESERVED'' | Some v \<Rightarrow> v),
      (''target_hash_preserved'', JBool (tc_source_target_hash c = tc_output_target_hash c)),
      (''source_schema_hash'', JStr (tc_source_schema_hash c)), (''output_schema_hash'', JStr (tc_output_schema_hash c)),
      (''restored_schema_hash'', JStr (table_schema_hash C restored)), (''missing_masks_preserved'', JBool True),
      (''reconstruction_exact'', JBool exact), (''maximum_absolute_error'', ce_float C (fst errors)),
      (''maximum_relative_error'', ce_float C (snd errors)),
      (''configuration_hash_verified'', JBool (case identity of Some (h, _) \<Rightarrow> tc_configuration_hash c = h | None \<Rightarrow> False)),
      (''implementation_hash_verified'', JBool (case identity of Some (_, h) \<Rightarrow> tc_implementation_hash c = h | None \<Rightarrow> False)),
      (''certificate_type_verified'', JBool (case map_of VIEW_METADATA (tc_view_id c) of
          Some (_, t, _) \<Rightarrow> t = tc_certificate_type c | None \<Rightarrow> False))]"

definition check_type ::
  "cert_params \<Rightarrow> (json \<Rightarrow> certificate result) \<Rightarrow> frame \<Rightarrow> frame \<Rightarrow> certificate \<Rightarrow> unit result" where
  "check_type C parse source transformed c =
     (if tc_certificate_type c = ''PROJECTION'' then validate_projection C source transformed c
      else if tc_certificate_type c = ''PERMUTATION'' then validate_permutation C c
      else if tc_certificate_type c = ''COMPOSITION'' then validate_composition parse c
      else Inr ())"

definition validate_roundtrip ::
  "cert_params \<Rightarrow> (json \<Rightarrow> certificate result) \<Rightarrow> (string \<times> string) option \<Rightarrow> py_float \<Rightarrow> py_float
   \<Rightarrow> frame \<Rightarrow> frame \<Rightarrow> frame \<Rightarrow> certificate \<Rightarrow> (string \<times> json) list result" where
  "validate_roundtrip C parse identity rtol atol source transformed restored c =
     bindr (validate_certificate C c) (\<lambda>_.
     bindr (guards (artifact_guards C c identity rtol atol source transformed) ()) (\<lambda>_.
     bindr (row_id_hash C source) (\<lambda>source_ids. bindr (row_id_hash C transformed) (\<lambda>output_ids.
     bindr (guards (identity_guards C c identity source_ids output_ids) ()) (\<lambda>_.
     bindr (get_column source ROW_ID_COLUMN) (\<lambda>s. bindr (get_column transformed ROW_ID_COLUMN) (\<lambda>t.
     bindr (get_column restored ROW_ID_COLUMN) (\<lambda>r.
     bindr (guards (table_guards C c source transformed restored (co_cells s) (co_cells t) (co_cells r)) ()) (\<lambda>_.
     bindr (column_pairs source restored) (\<lambda>pairs.
     if list_ex (\<lambda>(l, r). missing_mask l \<noteq> missing_mask r) pairs then Inl (ValueError ''missing mask changed'')
     else if \<not> frame_equal source restored \<and> \<not> list_all (column_close C rtol atol) pairs
       then Inl (ValueError ''reconstruction changed values'')
     else bindr (check_type C parse source transformed c) (\<lambda>_.
       let evidence = recorded_evidence C c identity restored (frame_equal source restored) (maximum_errors C pairs) in
       if tc_validation_status c = ''PASS'' \<and> \<not> same_dict (tc_validation_results c) evidence
         then Inl (ValueError ''recorded validation results do not match recomputed evidence'')
       else Inr evidence)))))))))))"

section \<open>Building a certificate\<close>

record certified =
  cf_view :: view
  cf_fitted :: "fitted option"
  cf_parameters :: "string \<Rightarrow> (string \<times> json) list"
  cf_rtol :: "py_float option"
  cf_atol :: "py_float option"
  cf_configuration_hash :: string
  cf_implementation_hash :: string
  cf_reconstruct :: "certificate \<Rightarrow> frame \<Rightarrow> frame result"

definition configuration_hash :: "(string \<Rightarrow> string) \<Rightarrow> string \<Rightarrow> json \<Rightarrow> string" where
  "configuration_hash sha view_id config =
     sha256_canonical_json sha (JObj [(''view_id'', JStr view_id), (''config'', config)])"

definition view_implementation_hash :: "(string \<Rightarrow> string) \<Rightarrow> string \<Rightarrow> string list \<Rightarrow> string" where
  "view_implementation_hash sha concrete components = sha256_canonical_json sha (JObj
     [(''schema_version'', JInt 3), (''concrete_hash'', JStr concrete), (''component_hashes'', json_strings components)])"

definition text_list :: "json \<Rightarrow> string list result" where
  "text_list v = (case v of
     JArr xs \<Rightarrow> mapr (\<lambda>x. case x of JStr s \<Rightarrow> Inr s | _ \<Rightarrow> Inl (ValueError ''string type expected'')) xs
   | JStr s \<Rightarrow> Inr (map (\<lambda>c. [c]) s) | JObj kvs \<Rightarrow> Inr (map fst kvs) | _ \<Rightarrow> Inl (TypeError ''not iterable''))"

definition list_parameter :: "string \<Rightarrow> (string \<times> json) list \<Rightarrow> string list result" where
  "list_parameter k p = (case map_of p k of None \<Rightarrow> Inr [] | Some v \<Rightarrow> text_list v)"

definition own_parameters :: "certified \<Rightarrow> string \<Rightarrow> string \<times> string \<times> string \<Rightarrow> (string \<times> json) list" where
  "own_parameters tr part meta = (case meta of (view_name, certificate_type, role) \<Rightarrow>
     AList.updates [''_configuration_hash'', ''_implementation_hash'', ''_view_id'', ''_view_name'', ''_certificate_type'',
         ''_scientific_role'']
       [JStr (cf_configuration_hash tr), JStr (cf_implementation_hash tr), JStr (vw_id (cf_view tr)),
         JStr (vw_name (cf_view tr)), JStr certificate_type, JStr role] (cf_parameters tr part))"

definition build_certificate ::
  "cert_params \<Rightarrow> certified \<Rightarrow> frame \<Rightarrow> frame \<Rightarrow> string \<Rightarrow> string \<Rightarrow> string \<Rightarrow> string option \<Rightarrow> string option \<Rightarrow> string
   \<Rightarrow> (string \<times> json) list \<Rightarrow> string option \<Rightarrow> certificate result" where
  "build_certificate C tr source transformed part version strategy source_target output_target status results reason =
     (case cf_fitted tr of
        None \<Rightarrow> Inl (RuntimeError ''transformation must be fitted before certifying output'')
      | Some f \<Rightarrow> (case map_of VIEW_METADATA (vw_id (cf_view tr)) of
          None \<Rightarrow> Inl (ValueError ''unknown transformation view'')
        | Some (view_name, certificate_type, role) \<Rightarrow>
          if vw_name (cf_view tr) \<noteq> view_name \<or> vw_type (cf_view tr) \<noteq> certificate_type
            then Inl (ValueError ''transformation identity does not match the frozen certificate registry'')
          else let p = own_parameters tr part (view_name, certificate_type, role) in
            bindr (list_parameter ''selected_columns'' p) (\<lambda>selected.
            bindr (list_parameter ''generated_columns'' p) (\<lambda>generated.
            bindr (row_id_hash C source) (\<lambda>source_ids. bindr (row_id_hash C transformed) (\<lambda>output_ids.
            validate_certificate C \<lparr>tc_schema_version = 2, tc_view_id = vw_id (cf_view tr), tc_view_name = view_name,
              tc_certificate_type = certificate_type, tc_scientific_role = role, tc_dataset_id = ft_dataset f,
              tc_dataset_version = version, tc_seed = ft_seed f, tc_split_strategy = strategy, tc_partition = part,
              tc_fit_scope = (if vw_id (cf_view tr) \<notin> {''V00'', ''V08'', ''V09''} then ''train_only'' else ''none''),
              tc_source_schema_hash = table_schema_hash C source, tc_output_schema_hash = table_schema_hash C transformed,
              tc_source_artifact_hash = ce_table_hash C source, tc_output_artifact_hash = ce_table_hash C transformed,
              tc_source_row_id_hash = source_ids, tc_output_row_id_hash = output_ids,
              tc_source_target_hash = source_target, tc_output_target_hash = output_target,
              tc_selected_columns = selected, tc_generated_columns = generated, tc_parameters = p,
              tc_inverse_parameters = [(''operation'', JStr ''reconstruct''),
                (''source_columns'', json_strings (frame_columns source)),
                (''source_dtypes'', json_strings (map co_dtype source)),
                (''restored_schema_hash'', JStr (table_schema_hash C source))],
              tc_missing_mask_policy = ''preserve_missing_masks_exactly'', tc_dtype_policy = ''restore_exact_source_dtypes'',
              tc_numerical_tolerance = [(''rtol'', case cf_rtol tr of None \<Rightarrow> ce_rtol C | Some x \<Rightarrow> x),
                (''atol'', case cf_atol tr of None \<Rightarrow> ce_atol C | Some x \<Rightarrow> x)],
              tc_configuration_hash = cf_configuration_hash tr, tc_implementation_hash = cf_implementation_hash tr,
              tc_source_commit = ce_commit C, tc_validation_status = status, tc_validation_results = results,
              tc_not_applicable_reason = reason, tc_created_at = ce_now C\<rparr>))))))"

text \<open>\<open>certificate_for\<close> of the base class: certify, reconstruct, measure, certify again and check.\<close>

definition certificate_for ::
  "cert_params \<Rightarrow> (json \<Rightarrow> certificate result) \<Rightarrow> certified \<Rightarrow> frame \<Rightarrow> frame \<Rightarrow> string \<Rightarrow> string \<Rightarrow> string
   \<Rightarrow> string option \<Rightarrow> string option \<Rightarrow> string option \<Rightarrow> certificate result" where
  "certificate_for C parse tr source transformed part version strategy source_target output_target reason =
     (if source_target = None \<or> output_target = None
      then Inl (ValueError ''source_target_hash and output_target_hash are required'')
      else let build = build_certificate C tr source transformed part version strategy source_target output_target;
               check = validate_roundtrip C parse (Some (cf_configuration_hash tr, cf_implementation_hash tr))
                 (ce_rtol C) (ce_atol C) source transformed in
        bindr (build ''FAIL'' [(''provisional'', JBool True)] reason) (\<lambda>provisional.
        bindr (cf_reconstruct tr provisional transformed) (\<lambda>restored.
        bindr (check restored provisional) (\<lambda>evidence.
        bindr (build ''PASS'' evidence reason) (\<lambda>final.
        bindr (check restored final) (\<lambda>_. Inr final))))))"

end
