(* ===== verification/Transform_Inventory.thy ===== *)
theory Transform_Inventory
  imports Certificates
begin

text \<open>
  The frozen registry of views (\<open>registry.py\<close>), the controlled applicability decisions
  (\<open>applicability.py\<close>), the remaining contracts of \<open>contracts.py\<close> and the construction of the
  validation inventory (\<open>inventory.py\<close>): one record for each of 14 data sets, 5 seeds and 11
  views. Running a view on a data set, the digests of sources, and the clock are arguments.
\<close>

section \<open>The frozen matrix\<close>

definition FROZEN_DATASET_IDS :: "int list" where
  "FROZEN_DATASET_IDS = [3, 23, 29, 31, 36, 37, 38, 44, 46, 50, 54, 1067, 1464, 1489]"

definition FROZEN_SEEDS :: "int list" where
  "FROZEN_SEEDS = [1729, 2718, 31415, 57721, 161803]"

definition FROZEN_VIEW_IDS :: "string list" where
  "FROZEN_VIEW_IDS = [''V00'', ''V01'', ''V02'', ''V03'', ''V04'', ''V05'', ''V06'', ''V07'', ''V08'', ''V09'', ''V10'']"

section \<open>The registry\<close>

record view_spec =
  vs_id :: string
  vs_name :: string
  vs_type :: string
  vs_role :: string

definition view_spec_of :: "string \<times> string \<times> string \<times> string \<Rightarrow> view_spec" where
  "view_spec_of x = (case x of (i, n, t, r) \<Rightarrow> \<lparr>vs_id = i, vs_name = n, vs_type = t, vs_role = r\<rparr>)"

definition VIEW_REGISTRY :: "view_spec list" where
  "VIEW_REGISTRY = map view_spec_of [
     (''V00'', ''identity'', ''BIJECTION'', ''CONTROL''),
     (''V01'', ''numeric_affine_units'', ''BIJECTION'', ''PRIMARY_MIGRATION''),
     (''V02'', ''numeric_asinh'', ''BIJECTION'', ''PRIMARY_MIGRATION''),
     (''V03'', ''category_permutation'', ''BIJECTION'', ''PRIMARY_MIGRATION''),
     (''V04'', ''categorical_onehot'', ''BIJECTION'', ''PRIMARY_MIGRATION''),
     (''V05'', ''duplicate_feature'', ''PROJECTION'', ''PRIMARY_MIGRATION''),
     (''V06'', ''redundant_affine_feature'', ''PROJECTION'', ''PRIMARY_MIGRATION''),
     (''V07'', ''integer_quotient_remainder'', ''BIJECTION'', ''PRIMARY_MIGRATION''),
     (''V08'', ''column_permutation_control'', ''PERMUTATION'', ''CONTROL''),
     (''V09'', ''row_permutation_control'', ''PERMUTATION'', ''CONTROL''),
     (''V10'', ''composite_migration'', ''COMPOSITION'', ''PRIMARY_MIGRATION'')]"

definition get_view :: "string \<Rightarrow> view_spec result" where
  "get_view view_id = of_option (KeyError (''unknown transformation view: '' @ view_id))
     (find (\<lambda>v. vs_id v = view_id) VIEW_REGISTRY)"

definition get_transformation :: "(view_spec \<Rightarrow> view) \<Rightarrow> string \<Rightarrow> view result" where
  "get_transformation factory view_id = bindr (get_view view_id) (\<lambda>v.
     let t = factory v in
     if vw_id t \<noteq> vs_id v \<or> vw_name t \<noteq> vs_name v then Inl (ValueError ''registry factory identity mismatch'') else Inr t)"

definition view_dict :: "view_spec \<Rightarrow> (string \<times> json) list" where
  "view_dict v = [(''id'', JStr (vs_id v)), (''name'', JStr (vs_name v)), (''certificate_type'', JStr (vs_type v)),
     (''scientific_role'', JStr (vs_role v))]"

definition registry_hash :: "(string \<Rightarrow> string) \<Rightarrow> string" where
  "registry_hash sha = sha256_canonical_json sha (JArr (map (\<lambda>v. JObj (view_dict v)) VIEW_REGISTRY))"

section \<open>Schema and configuration contracts\<close>

record schema_contract =
  fc_schema_version :: int
  fc_columns :: "string list"
  fc_dtypes :: "string list"
  fc_numeric_columns :: "string list"
  fc_categorical_columns :: "string list"
  fc_integer_columns :: "string list"
  fc_row_id_column :: string

definition validate_schema :: "schema_contract \<Rightarrow> schema_contract result" where
  "validate_schema s = guards
     [(fc_schema_version s < 1, ValueError ''schema_version''),
      (length (fc_columns s) \<noteq> length (fc_dtypes s) \<or> \<not> distinct (fc_columns s),
        ValueError ''feature schema columns and dtypes must be aligned and unique''),
      (\<not> list_all (\<lambda>sub. set sub \<subseteq> set (fc_columns s)) [fc_numeric_columns s, fc_categorical_columns s, fc_integer_columns s],
        ValueError ''feature schema subset contains an unknown column''),
      (set (fc_numeric_columns s) \<inter> set (fc_categorical_columns s) \<noteq> {},
        ValueError ''numeric and categorical columns must be disjoint''),
      (fc_row_id_column s \<notin> set (fc_columns s), ValueError ''row id must be present in the feature schema'')] s"

record engine_config =
  ec_schema_version :: int
  ec_engine_name :: string
  ec_split_strategy :: string
  ec_max_numeric_columns :: int
  ec_category_minimum :: int
  ec_quotient_modulus :: int
  ec_numerical_rtol :: py_float
  ec_numerical_atol :: py_float
  ec_cpu_workers :: int
  ec_gpu_enabled :: bool
  ec_schema_registry_hash :: string
  ec_views :: "(string \<times> json) list list"

definition view_keys :: "string list" where
  "view_keys = [''id'', ''name'', ''certificate_type'', ''scientific_role'']"

text \<open>\<open>str(view.get("id"))\<close>, when it is a text; a missing identity is the text \<open>None\<close>.\<close>

definition view_id_text :: "(json \<Rightarrow> string) \<Rightarrow> (string \<times> json) list \<Rightarrow> string" where
  "view_id_text str v = (case json_field ''id'' v of JStr s \<Rightarrow> s | JNull \<Rightarrow> ''None'' | j \<Rightarrow> str j)"

definition validate_engine_config :: "(json \<Rightarrow> string) \<Rightarrow> engine_config \<Rightarrow> engine_config result" where
  "validate_engine_config str c = bindr (lower_hash (ec_schema_registry_hash c)) (\<lambda>h.
     let ids = map (view_id_text str) (ec_views c) in guards
     [(ec_schema_version c < 1, ValueError ''schema_version''),
      (ec_engine_name c \<noteq> ''certified_lossless_transformations'', ValueError ''engine_name''),
      (ec_split_strategy c \<noteq> ''stratified_group_5fold_v1'', ValueError ''split_strategy''),
      (\<not> (1 \<le> ec_max_numeric_columns c \<and> ec_max_numeric_columns c \<le> 3), ValueError ''max_numeric_columns''),
      (ec_category_minimum c < 2, ValueError ''category_minimum''),
      (ec_quotient_modulus c < 2, ValueError ''quotient_modulus''),
      (ec_numerical_rtol c < 0 \<or> ec_numerical_atol c < 0, ValueError ''numerical tolerance''),
      (\<not> (1 \<le> ec_cpu_workers c \<and> ec_cpu_workers c \<le> 2), ValueError ''cpu_workers''),
      (ec_gpu_enabled c, ValueError ''gpu_enabled''),
      (length ids \<noteq> 11 \<or> card (set ids) \<noteq> 11,
        ValueError ''the transformation registry must contain exactly eleven views''),
      (list_ex (\<lambda>v. set (map fst v) \<noteq> set view_keys) (ec_views c),
        ValueError ''each transformation view must declare identity, proof type, and role'')]
     (c\<lparr>ec_schema_registry_hash := h\<rparr>))"

text \<open>\<open>load_transformation_config\<close> on the keys and the parsed contents of the file.\<close>

definition config_keys :: "string list" where
  "config_keys = [''schema_version'', ''engine_name'', ''split_strategy'', ''max_numeric_columns'', ''category_minimum'',
     ''quotient_modulus'', ''numerical_rtol'', ''numerical_atol'', ''cpu_workers'', ''gpu_enabled'',
     ''schema_registry_hash'', ''views'']"

definition load_transformation_config ::
  "(string \<Rightarrow> string) \<Rightarrow> (json \<Rightarrow> string) \<Rightarrow> string list \<Rightarrow> engine_config \<Rightarrow> engine_config result" where
  "load_transformation_config sha str keys raw =
     (if \<not> set keys \<subseteq> set config_keys then Inl (ValueError ''unknown transformation configuration key(s)'')
      else bindr (validate_engine_config str raw) (\<lambda>c. guards
       [(set (map vs_id VIEW_REGISTRY) \<noteq> set (map (view_id_text str) (ec_views c)),
          ValueError ''configuration views must match the frozen transformation registry''),
        (list_ex (\<lambda>v. set (map fst v) \<noteq> set view_keys) (ec_views c),
          ValueError ''each transformation view configuration has exactly four keys''),
        (ec_schema_registry_hash c \<noteq> registry_hash sha,
          ValueError ''schema_registry_hash does not match the frozen view registry'')] c))"

section \<open>Applicability\<close>

record applicability =
  ap_dataset_id :: dataset_id
  ap_seed :: int
  ap_view_id :: string
  ap_view_name :: string
  ap_status :: string
  ap_reason_code :: "string option"
  ap_reason :: "string option"
  ap_schema_hash :: string
  ap_created_at :: string

definition validate_applicability :: "applicability \<Rightarrow> applicability result" where
  "validate_applicability a = guards
     [(ap_status a \<notin> {''APPLICABLE'', ''NOT_APPLICABLE''}, ValueError ''status''),
      (ap_status a = ''NOT_APPLICABLE'' \<and> (missing_text (ap_reason_code a) \<or> missing_text (ap_reason a)),
        ValueError ''not-applicable records require a controlled reason''),
      (ap_status a = ''APPLICABLE'' \<and> ap_reason_code a \<noteq> None,
        ValueError ''applicable records cannot carry a not-applicable reason'')] a"

text \<open>Whether a view applies, and the reason code and reason when it does not.\<close>

definition applies :: "string \<Rightarrow> feature_schema \<Rightarrow> (bool \<times> string option \<times> string option) result" where
  "applies view_id s =
     (let numeric = fs_numeric s \<noteq> []; categorical = fs_categorical s \<noteq> []; integer = fs_integer s \<noteq> [];
          unless = \<lambda>b code reason. Inr (b, if b then None else Some code, if b then None else Some reason) in
      if view_id \<in> {''V00'', ''V08'', ''V09''} then Inr (fs_columns s \<noteq> [], None, None)
      else if view_id \<in> {''V01'', ''V02'', ''V06''} then
        unless numeric ''NO_NUMERICAL_FEATURE'' ''No numerical predictor is available''
      else if view_id \<in> {''V03'', ''V04''} then
        unless categorical ''NO_CATEGORICAL_FEATURE'' ''No categorical predictor is available''
      else if view_id = ''V05'' then
        unless (numeric \<or> categorical) ''NO_PREDICTOR_FEATURE'' ''No predictor is available''
      else if view_id = ''V07'' then unless integer ''NO_INTEGER_FEATURE'' ''No integer predictor is available''
      else if view_id = ''V10'' then
        unless (numeric \<and> categorical) ''COMPOSITE_REQUIREMENTS_UNMET''
          ''Composite requires at least one numerical and one categorical predictor''
      else Inl (ValueError (''unknown transformation view '' @ view_id)))"

definition assess_applicability ::
  "frame_params \<Rightarrow> string \<Rightarrow> string \<Rightarrow> string \<Rightarrow> dataset_id \<Rightarrow> int \<Rightarrow> feature_schema \<Rightarrow> applicability result" where
  "assess_applicability F now view_id view_name ds seed s =
     bindr (applies view_id s) (\<lambda>(applicable, code, reason). bindr (schema_hash F s) (\<lambda>h.
     validate_applicability \<lparr>ap_dataset_id = ds, ap_seed = seed, ap_view_id = view_id, ap_view_name = view_name,
       ap_status = (if applicable then ''APPLICABLE'' else ''NOT_APPLICABLE''), ap_reason_code = code, ap_reason = reason,
       ap_schema_hash = h, ap_created_at = now\<rparr>))"

section \<open>Inventory records\<close>

record inventory_record =
  ir_schema_version :: int
  ir_dataset_id :: int
  ir_seed :: int
  ir_view_id :: string
  ir_view_name :: string
  ir_status :: string
  ir_reason_code :: "string option"
  ir_reason :: "string option"
  ir_applicability :: string
  ir_certificate_ids :: "string list"
  ir_source_hash :: "string option"
  ir_output_hash :: "string option"
  ir_max_abs_error :: "py_float option"
  ir_exact :: "bool option"
  ir_deterministic :: "bool option"
  ir_runtime_seconds :: py_float
  ir_created_at :: string

definition negative_option :: "py_float option \<Rightarrow> bool" where
  "negative_option x \<longleftrightarrow> (case x of None \<Rightarrow> False | Some y \<Rightarrow> y < 0)"

definition validate_record :: "inventory_record \<Rightarrow> inventory_record result" where
  "validate_record r = guards
     ([(ir_schema_version r < 1, ValueError ''schema_version''),
       (ir_status r \<notin> {''PASS'', ''N/A'', ''FAIL''}, ValueError ''status''),
       (ir_applicability r \<notin> {''APPLICABLE'', ''NOT_APPLICABLE''}, ValueError ''applicability''),
       (negative_option (ir_max_abs_error r), ValueError ''reconstruction_max_abs_error''),
       (ir_runtime_seconds r < 0, ValueError ''runtime_seconds''),
       (ir_status r = ''N/A'' \<and> (ir_applicability r \<noteq> ''NOT_APPLICABLE'' \<or> missing_text (ir_reason_code r)
           \<or> missing_text (ir_reason r)),
         ValueError ''N/A inventory records require controlled applicability evidence''),
       (ir_status r \<noteq> ''N/A'' \<and> ir_applicability r \<noteq> ''APPLICABLE'',
         ValueError ''applicable inventory result required for PASS/FAIL'')]
      @ (if ir_status r = ''PASS'' then
         [(length (ir_certificate_ids r) \<noteq> 3, ValueError ''passing inventory records require exactly three certificates''),
          (ir_deterministic r \<noteq> Some True, ValueError ''passing inventory records require deterministic=true''),
          (missing_text (ir_source_hash r) \<or> missing_text (ir_output_hash r),
            ValueError ''passing inventory records require source and output hashes''),
          (ir_max_abs_error r = None \<or> ir_exact r = None,
            ValueError ''passing inventory records require reconstruction evidence''),
          (ir_reason r \<noteq> None \<or> ir_reason_code r \<noteq> None,
            ValueError ''passing inventory records cannot carry a failure reason'')] else [])
      @ [(ir_status r = ''FAIL'' \<and> ir_reason_code r = None, ValueError ''failed inventory records require a reason code'')]) r"

record property_evidence =
  pe_schema_version :: int
  pe_view_id :: string
  pe_executed :: int
  pe_passed :: int
  pe_failed :: int
  pe_seed :: int
  pe_profile :: string
  pe_test_hash :: string
  pe_engine_hash :: string
  pe_timestamp :: string
  pe_failure_examples :: "string list"

definition validate_property_evidence :: "property_evidence \<Rightarrow> property_evidence result" where
  "validate_property_evidence e = bindr (lower_hash (pe_test_hash e)) (\<lambda>t. bindr (lower_hash (pe_engine_hash e)) (\<lambda>h.
     guards
     [(pe_schema_version e < 1, ValueError ''schema_version''), (pe_executed e < 1000, ValueError ''executed_example_count''), (pe_passed e < 0, ValueError ''passed_example_count''),
      (pe_failed e < 0, ValueError ''failed_example_count''),
      (pe_passed e + pe_failed e \<noteq> pe_executed e, ValueError ''property evidence counts do not reconcile''),
      (pe_failed e \<noteq> 0, ValueError ''property evidence cannot contain failed examples''),
      (pe_view_id e \<notin> set FROZEN_VIEW_IDS, ValueError ''unknown property evidence view'')]
     (e\<lparr>pe_test_hash := t, pe_engine_hash := h\<rparr>)))"

section \<open>The inventory\<close>

record inventory =
  in_schema_version :: int
  in_engine_name :: string
  in_status :: string
  in_dataset_ids :: "int list"
  in_seeds :: "int list"
  in_view_ids :: "string list"
  in_records :: "inventory_record list"
  in_expected_record_count :: int
  in_applicable_count :: int
  in_not_applicable_count :: int
  in_pass_count :: int
  in_fail_count :: int
  in_missing_count :: int
  in_property_example_count :: int
  in_property_evidence :: "property_evidence list"
  in_registry_hash :: string
  in_split_inventory_hash :: string
  in_protected_comparison :: "(string \<times> json) list"
  in_max_abs_error :: py_float
  in_generated_at :: string

definition record_tuple :: "inventory_record \<Rightarrow> int \<times> int \<times> string" where
  "record_tuple r = (ir_dataset_id r, ir_seed r, ir_view_id r)"

definition frozen_tuples :: "(int \<times> int \<times> string) list" where
  "frozen_tuples = List.product FROZEN_DATASET_IDS (List.product FROZEN_SEEDS FROZEN_VIEW_IDS)"

definition count_status :: "string \<Rightarrow> inventory_record list \<Rightarrow> int" where
  "count_status status rs = int (length (filter (\<lambda>r. ir_status r = status) rs))"

definition matrix_guards :: "inventory \<Rightarrow> (bool \<times> error) list" where
  "matrix_guards i =
     [(in_dataset_ids i \<noteq> FROZEN_DATASET_IDS,
        ValueError ''inventory dataset IDs do not match the frozen fourteen-dataset registry''),
      (in_seeds i \<noteq> FROZEN_SEEDS, ValueError ''inventory seeds do not match the frozen five-seed registry''),
      (in_view_ids i \<noteq> FROZEN_VIEW_IDS, ValueError ''inventory view IDs do not match the frozen eleven-view registry''),
      (in_expected_record_count i \<noteq> int (length (in_records i)),
        ValueError ''expected_record_count must equal records length''),
      (card (set (map record_tuple (in_records i))) \<noteq> length (in_records i),
        ValueError ''inventory contains duplicate dataset/seed/view tuples''),
      (set (map record_tuple (in_records i)) \<noteq> set frozen_tuples,
        ValueError ''inventory does not exactly cover the frozen dataset/seed/view matrix'')]"

definition count_guards :: "inventory \<Rightarrow> (bool \<times> error) list" where
  "count_guards i =
     (let n = int (length (in_records i)); passed = count_status ''PASS'' (in_records i);
          failed = count_status ''FAIL'' (in_records i); na = count_status ''N/A'' (in_records i) in
     [(in_pass_count i \<noteq> passed \<or> in_fail_count i \<noteq> failed, ValueError ''inventory status counts do not match records''),
      (in_not_applicable_count i \<noteq> na, ValueError ''inventory applicability counts do not match records''),
      (in_applicable_count i \<noteq> passed + failed, ValueError ''inventory applicable count does not match records''),
      (in_applicable_count i + in_not_applicable_count i \<noteq> n,
        ValueError ''applicability counts do not account for all records''),
      (in_pass_count i + in_fail_count i + in_missing_count i + in_not_applicable_count i \<noteq> n,
        ValueError ''validation counts do not account for all records'')])"

definition passing_guards :: "inventory \<Rightarrow> (bool \<times> error) list" where
  "passing_guards i =
     [(in_status i = ''PASS_PENDING_REVIEW'' \<and> (in_fail_count i \<noteq> 0 \<or> in_missing_count i \<noteq> 0
         \<or> in_expected_record_count i \<noteq> 770
         \<or> list_ex (\<lambda>r. ir_applicability r = ''APPLICABLE'' \<and> ir_status r \<noteq> ''PASS'') (in_records i)),
        ValueError ''a passing inventory requires the complete 770-record matrix''),
      (in_status i = ''PASS_PENDING_REVIEW'' \<and> json_field ''status'' (in_protected_comparison i) \<noteq> JStr ''PASS'',
        ValueError ''a passing inventory requires a passing protected-artifact comparison'')]"

text \<open>The evidence by view, a later item replacing an earlier one.\<close>

definition evidence_by_view :: "property_evidence list \<Rightarrow> (string \<times> property_evidence) list" where
  "evidence_by_view es = AList.clearjunk (rev (map (\<lambda>e. (pe_view_id e, e)) es))"

definition evidence_guards :: "string list \<Rightarrow> string \<Rightarrow> inventory \<Rightarrow> (bool \<times> error) list" where
  "evidence_guards runner_hashes engine_hash i =
     (let evidence = map snd (evidence_by_view (in_property_evidence i)); passing = in_status i = ''PASS_PENDING_REVIEW'' in
     [(length (in_property_evidence i) \<noteq> 11 \<or> set (map pe_view_id (in_property_evidence i)) \<noteq> set FROZEN_VIEW_IDS,
        ValueError ''inventory requires property evidence for all eleven views''),
      (in_property_example_count i \<noteq> sum_list (map pe_executed evidence),
        ValueError ''property_example_count must be derived from per-view evidence''),
      (passing \<and> list_ex (\<lambda>e. pe_executed e < 1000 \<or> pe_passed e \<noteq> pe_executed e \<or> pe_failed e \<noteq> 0) evidence,
        ValueError ''a passing inventory requires 1000 successful examples per view''),
      (passing \<and> runner_hashes \<noteq> [] \<and> list_ex (\<lambda>e. pe_test_hash e \<notin> set runner_hashes) evidence,
        ValueError ''property evidence test implementation hash is stale''),
      (passing \<and> list_ex (\<lambda>e. pe_engine_hash e \<noteq> engine_hash) evidence,
        ValueError ''property evidence transformation engine identity is stale'')])"

definition inventory_fields :: "inventory \<Rightarrow> inventory result" where
  "inventory_fields i =
     bindr (guards
       [(in_schema_version i < 1, ValueError ''schema_version''),
        (in_engine_name i \<noteq> ''certified_lossless_transformations'', ValueError ''engine_name''),
        (in_status i \<notin> {''PASS_PENDING_REVIEW'', ''FAIL'', ''BLOCKED''}, ValueError ''status''),
        (in_expected_record_count i \<le> 0, ValueError ''expected_record_count''),
        (list_ex (\<lambda>n. n < 0) [in_applicable_count i, in_not_applicable_count i, in_pass_count i, in_fail_count i,
            in_missing_count i, in_property_example_count i], ValueError ''count''),
        (in_max_abs_error i < 0, ValueError ''reconstruction_max_abs_error'')] i) (\<lambda>i.
     bindr (validate_all validate_record (in_records i)) (\<lambda>_.
     bindr (mapr validate_property_evidence (in_property_evidence i)) (\<lambda>es.
     bindr (lower_hash (in_registry_hash i)) (\<lambda>h1. bindr (lower_hash (in_split_inventory_hash i)) (\<lambda>h2.
     Inr (i\<lparr>in_property_evidence := es, in_registry_hash := h1, in_split_inventory_hash := h2\<rparr>))))))"

definition validate_engine_inventory :: "string list \<Rightarrow> string \<Rightarrow> inventory \<Rightarrow> inventory result" where
  "validate_engine_inventory runner_hashes engine_hash i =
     bindr (inventory_fields i) (\<lambda>i.
       guards (matrix_guards i @ count_guards i @ passing_guards i @ evidence_guards runner_hashes engine_hash i) i)"

section \<open>Comparison of protected files\<close>

record snapshot_file =
  sf_path :: string
  sf_sha256 :: string
  sf_size :: int

record snapshot_comparison =
  sc_status :: string
  sc_changed :: "string list"
  sc_added :: "string list"
  sc_removed :: "string list"
  sc_unchanged :: "string list"
  sc_allowed_changed :: "string list"
  sc_allowed_added :: "string list"
  sc_allowed_removed :: "string list"
  sc_unexpected_changed :: "string list"
  sc_unexpected_added :: "string list"
  sc_unexpected_removed :: "string list"
  sc_before_count :: int
  sc_after_count :: int
  sc_before_hash :: string
  sc_after_hash :: string

definition snapshot_json :: "snapshot_file list \<Rightarrow> json" where
  "snapshot_json files = JObj [(''schema_version'', JInt 1), (''file_count'', JInt (int (length files))),
     (''files'', JArr (map (\<lambda>f. JObj [(''path'', JStr (sf_path f)), (''sha256'', JStr (sf_sha256 f)),
        (''size_bytes'', JInt (sf_size f))]) files))]"

text \<open>
  The old snapshot is given by the paths and digests it lists and the digest of its file, the new one by the files found.
  Of the paths only those of the old one and the allowances are normalised; of several entries for a path the last counts.
\<close>

definition old_digests :: "(string \<times> string) list \<Rightarrow> (string \<times> string) list" where
  "old_digests before = AList.clearjunk (rev (map (\<lambda>(p, h). (normalise_slashes p, h)) before))"

definition new_digests :: "snapshot_file list \<Rightarrow> (string \<times> string) list" where
  "new_digests after = AList.clearjunk (rev (map (\<lambda>f. (sf_path f, sf_sha256 f)) after))"

definition compare_protected_snapshot ::
  "(string \<Rightarrow> string) \<Rightarrow> (string \<times> string) list \<Rightarrow> string \<Rightarrow> snapshot_file list
   \<Rightarrow> string list \<Rightarrow> string list \<Rightarrow> string list \<Rightarrow> snapshot_comparison" where
  "compare_protected_snapshot sha before before_hash after allowed_changed_paths allowed_added_paths allowed_removed_paths =
     (let old = old_digests before; new = new_digests after;
          common = filter (\<lambda>p. p \<in> set (map fst new)) (map fst old);
          changed = sort (filter (\<lambda>p. map_of old p \<noteq> map_of new p) common);
          added = sort (filter (\<lambda>p. p \<notin> set (map fst old)) (map fst new));
          removed = sort (filter (\<lambda>p. p \<notin> set (map fst new)) (map fst old));
          unchanged = sort (filter (\<lambda>p. map_of old p = map_of new p) common);
          allowed_changed = map normalise_slashes allowed_changed_paths; allowed_added = map normalise_slashes allowed_added_paths;
          allowed_removed = map normalise_slashes allowed_removed_paths;
          outside = \<lambda>allowed. filter (\<lambda>p. p \<notin> set allowed); inside = \<lambda>allowed. filter (\<lambda>p. p \<in> set allowed);
          uc = outside allowed_changed changed; ua = outside allowed_added added; ur = outside allowed_removed removed in
      \<lparr>sc_status = (if uc = [] \<and> ua = [] \<and> ur = [] then ''PASS'' else ''FAIL''), sc_changed = changed, sc_added = added,
       sc_removed = removed, sc_unchanged = unchanged, sc_allowed_changed = inside allowed_changed changed,
       sc_allowed_added = inside allowed_added added, sc_allowed_removed = inside allowed_removed removed,
       sc_unexpected_changed = uc, sc_unexpected_added = ua, sc_unexpected_removed = ur,
       sc_before_count = int (length old), sc_after_count = int (length new), sc_before_hash = before_hash,
       sc_after_hash = sha256_canonical_json sha
         (snapshot_json (filter (\<lambda>f. sf_path f \<notin> set allowed_changed \<union> set allowed_added) after))\<rparr>)"

definition comparison_json :: "snapshot_comparison \<Rightarrow> (string \<times> json) list" where
  "comparison_json c = [(''status'', JStr (sc_status c)), (''changed_files'', json_strings (sc_changed c)),
     (''added_files'', json_strings (sc_added c)), (''removed_files'', json_strings (sc_removed c)),
     (''unchanged_files'', json_strings (sc_unchanged c)), (''allowed_changed_files'', json_strings (sc_allowed_changed c)),
     (''allowed_added_files'', json_strings (sc_allowed_added c)), (''allowed_removed_files'', json_strings (sc_allowed_removed c)),
     (''unexpected_changed_files'', json_strings (sc_unexpected_changed c)),
     (''unexpected_added_files'', json_strings (sc_unexpected_added c)),
     (''unexpected_removed_files'', json_strings (sc_unexpected_removed c)), (''before_file_count'', JInt (sc_before_count c)),
     (''after_file_count'', JInt (sc_after_count c)), (''before_snapshot_hash'', JStr (sc_before_hash c)),
     (''after_snapshot_hash'', JStr (sc_after_hash c))]"

section \<open>Building the inventory\<close>

fun contains :: "string \<Rightarrow> string \<Rightarrow> bool" where
  "contains p [] = (p = [])"
| "contains p (c # s) = (starts_with p (c # s) \<or> contains p s)"

text \<open>What the run of a view on one partition gives: the identity of its certificate, the largest error, whether the repetition agreed, the output.\<close>

record partition_run =
  pr_certificate :: string
  pr_error :: py_float
  pr_deterministic :: bool
  pr_output :: frame

text \<open>\<open>validate_transformation\<close> of \<open>validation.py\<close>: the round trip, and the missing values of the columns kept.\<close>

definition kept_mask :: "frame \<Rightarrow> nat list \<Rightarrow> column \<Rightarrow> bool result" where
  "kept_mask transformed rows c =
     (if co_name c = ROW_ID_COLUMN \<or> co_name c \<notin> set (frame_columns transformed) then Inr True
      else bindr (get_column transformed (co_name c)) (\<lambda>t.
        Inr (missing_mask c = map (\<lambda>i. co_cells t ! i = CMissing) rows)))"

definition validate_transformation ::
  "cert_params \<Rightarrow> (json \<Rightarrow> certificate result) \<Rightarrow> (string \<times> string) option \<Rightarrow> py_float \<Rightarrow> py_float
   \<Rightarrow> frame \<Rightarrow> frame \<Rightarrow> frame \<Rightarrow> certificate \<Rightarrow> (string \<times> json) list result" where
  "validate_transformation C parse identity rtol atol source transformed restored c =
     (if TARGET_CODE_COLUMN \<in> set (frame_columns transformed) \<or> TARGET_LABEL_COLUMN \<in> set (frame_columns transformed)
      then Inl (ValueError ''target columns entered the transformed predictor table'')
      else if row_count source \<noteq> row_count transformed \<or> row_count source \<noteq> row_count restored
      then Inl (ValueError ''row count changed during transformation'')
      else bindr (get_column transformed ROW_ID_COLUMN) (\<lambda>t.
        if \<not> distinct (python_values t) then Inl (ValueError ''transformation duplicated a row identifier'')
        else bindr (validate_roundtrip C parse identity rtol atol source transformed restored c) (\<lambda>evidence.
          bindr (row_positions source transformed) (\<lambda>rows.
          bindr (mapr (kept_mask transformed rows) source) (\<lambda>oks.
          if \<not> list_all id oks then Inl (ValueError ''missing mask changed for source column'') else Inr evidence)))))"

text \<open>
  The run of one view on the partitions of one data set, as \<open>validate_dataset_seed\<close> does it: fit on
  the training rows; for each partition transform, certify, reconstruct, validate, and do it again.
  The partitions (with the digest of their targets), the views by identity and the certified form of
  a fitted transformation on a partition (its parameters as JSON) are arguments; the latter may be an error, because the
  composite view certifies its components first. The fitted object is passed on.
\<close>

record engine =
  eg_cert :: cert_params
  eg_parse :: "json \<Rightarrow> certificate result"
  eg_view :: "string \<Rightarrow> view result"
  eg_certify :: "view \<Rightarrow> fitted option \<Rightarrow> string \<Rightarrow> certified result"
  eg_load :: "int \<Rightarrow> int \<Rightarrow> string \<Rightarrow> (frame \<times> string) result"
  eg_schema :: "int \<Rightarrow> int \<Rightarrow> feature_schema"
  eg_rtol :: py_float
  eg_atol :: py_float
  eg_strategy :: string

definition run_certificate ::
  "engine \<Rightarrow> certified \<Rightarrow> frame \<Rightarrow> frame \<Rightarrow> string \<Rightarrow> string \<Rightarrow> certificate result" where
  "run_certificate E tr source transformed part target =
     certificate_for (eg_cert E) (eg_parse E) tr source transformed part ''local'' (eg_strategy E) (Some target) (Some target) None"

definition evidence_error :: "cert_params \<Rightarrow> (string \<times> json) list \<Rightarrow> py_float result" where
  "evidence_error C evidence = (case number_value C (json_field ''maximum_absolute_error'' evidence) of
     Some x \<Rightarrow> Inr x | _ \<Rightarrow> Inl (TypeError ''maximum_absolute_error''))"

definition transform_result :: "fitted option \<times> frame result \<Rightarrow> (fitted option \<times> frame) result" where
  "transform_result x = bindr (snd x) (\<lambda>Y. Inr (fst x, Y))"

fun partition_runs ::
  "engine \<Rightarrow> (string \<Rightarrow> (frame \<times> string) result) \<Rightarrow> view \<Rightarrow> fitted option \<Rightarrow> string list \<Rightarrow> partition_run list result" where
  "partition_runs E load V st [] = Inr []"
| "partition_runs E load V st (part # parts) =
     bindr (load part) (\<lambda>(source, target).
     bindr (transform_result (base_transform V st source part)) (\<lambda>(st1, output).
     bindr (eg_certify E V st1 part) (\<lambda>tr.
     bindr (run_certificate E tr source output part target) (\<lambda>c.
     bindr (cf_reconstruct tr c output) (\<lambda>restored.
     bindr (validate_transformation (eg_cert E) (eg_parse E) (Some (cf_configuration_hash tr, cf_implementation_hash tr))
         (eg_rtol E) (eg_atol E) source output restored c) (\<lambda>evidence.
     bindr (transform_result (base_transform V st1 source part)) (\<lambda>(st2, again).
     bindr (eg_certify E V st2 part) (\<lambda>tr2.
     bindr (run_certificate E tr2 source again part target) (\<lambda>c2.
     bindr (evidence_error (eg_cert E) evidence) (\<lambda>worst.
     bindr (partition_runs E load V st2 parts) (\<lambda>runs.
     Inr (\<lparr>pr_certificate = certificate_identity_hash (eg_cert E) c, pr_error = worst,
       pr_deterministic = (ce_table_hash (eg_cert E) output = ce_table_hash (eg_cert E) again
         \<and> certificate_identity_hash (eg_cert E) c = certificate_identity_hash (eg_cert E) c2),
       pr_output = output\<rparr> # runs))))))))))))"

definition view_runs :: "engine \<Rightarrow> int \<Rightarrow> int \<Rightarrow> string \<Rightarrow> partition_run list result" where
  "view_runs E ds seed view_id =
     bindr (eg_view E view_id) (\<lambda>V.
     bindr (eg_load E ds seed ''train'') (\<lambda>(train, _).
     case base_fit V None train (DatasetInt ds) seed (eg_schema E ds seed) of (st, r) \<Rightarrow>
       bindr r (\<lambda>_. partition_runs E (eg_load E ds seed) V st partitions)))"

text \<open>The rest of the inventory uses a run only through its result, so the run is a field here; \<open>engine_params\<close> is the one the code uses.\<close>

record inventory_params =
  ip_frames :: frame_params
  ip_schema :: "int \<Rightarrow> int \<Rightarrow> feature_schema"
  ip_run :: "int \<Rightarrow> int \<Rightarrow> string \<Rightarrow> partition_run list result"
  ip_features_hash :: "int \<Rightarrow> string"
  ip_outputs_hash :: "frame list \<Rightarrow> string"
  ip_runtime :: "int \<Rightarrow> int \<Rightarrow> string \<Rightarrow> py_float"
  ip_now :: string
  ip_message :: "error \<Rightarrow> string"
  ip_describe :: "error \<Rightarrow> string"

definition engine_params :: "engine \<Rightarrow> inventory_params \<Rightarrow> inventory_params" where
  "engine_params E P = P\<lparr>ip_frames := ce_frames (eg_cert E), ip_schema := eg_schema E, ip_run := view_runs E,
     ip_now := ce_now (eg_cert E)\<rparr>"

definition blank_record :: "inventory_params \<Rightarrow> int \<Rightarrow> int \<Rightarrow> string \<times> string \<Rightarrow> inventory_record" where
  "blank_record P ds seed v = \<lparr>ir_schema_version = 1, ir_dataset_id = ds, ir_seed = seed, ir_view_id = fst v, ir_view_name = snd v,
     ir_status = ''N/A'', ir_reason_code = None, ir_reason = None, ir_applicability = ''NOT_APPLICABLE'',
     ir_certificate_ids = [], ir_source_hash = None, ir_output_hash = None, ir_max_abs_error = None, ir_exact = None,
     ir_deterministic = None, ir_runtime_seconds = ip_runtime P ds seed (fst v), ir_created_at = ip_now P\<rparr>"

definition passed_record :: "inventory_params \<Rightarrow> int \<Rightarrow> int \<Rightarrow> string \<times> string \<Rightarrow> partition_run list \<Rightarrow> inventory_record" where
  "passed_record P ds seed v runs = (let worst = fold max (map pr_error runs) 0 in
     (blank_record P ds seed v)\<lparr>ir_status := ''PASS'', ir_applicability := ''APPLICABLE'',
       ir_certificate_ids := map pr_certificate runs, ir_source_hash := Some (ip_features_hash P ds),
       ir_output_hash := Some (ip_outputs_hash P (map pr_output runs)), ir_max_abs_error := Some worst,
       ir_exact := Some (worst = 0), ir_deterministic := Some True\<rparr>)"

definition failed_record :: "inventory_params \<Rightarrow> int \<Rightarrow> int \<Rightarrow> string \<times> string \<Rightarrow> error \<Rightarrow> inventory_record" where
  "failed_record P ds seed v e = (blank_record P ds seed v)\<lparr>ir_status := ''FAIL'', ir_applicability := ''APPLICABLE'',
     ir_reason_code := Some (if contains ''NONDETERMINISTIC_TRANSFORMATION'' (ip_message P e)
       then ''NONDETERMINISTIC_TRANSFORMATION'' else ''TRANSFORMATION_VALIDATION_ERROR''),
     ir_reason := Some (ip_describe P e), ir_source_hash := Some (ip_features_hash P ds),
     ir_deterministic := Some False\<rparr>"

text \<open>One view of \<open>validate_dataset_seed\<close>, and all eleven.\<close>

definition view_record :: "inventory_params \<Rightarrow> int \<Rightarrow> int \<Rightarrow> string \<times> string \<Rightarrow> inventory_record result" where
  "view_record P ds seed v =
     bindr (assess_applicability (ip_frames P) (ip_now P) (fst v) (snd v) (DatasetInt ds) seed (ip_schema P ds seed)) (\<lambda>a.
     if ap_status a = ''NOT_APPLICABLE'' then
       validate_record ((blank_record P ds seed v)\<lparr>ir_reason_code := ap_reason_code a, ir_reason := ap_reason a\<rparr>)
     else (case bindr (ip_run P ds seed (fst v)) (\<lambda>runs.
         if \<not> list_all pr_deterministic runs then Inl (RuntimeError ''NONDETERMINISTIC_TRANSFORMATION'')
         else validate_record (passed_record P ds seed v runs)) of
       Inr r \<Rightarrow> Inr r
     | Inl e \<Rightarrow> validate_record (failed_record P ds seed v e)))"

definition config_view :: "(json \<Rightarrow> string) \<Rightarrow> engine_config \<Rightarrow> string \<Rightarrow> (string \<times> string) result" where
  "config_view str c view_id = bindr (of_option (RuntimeError ''StopIteration'')
     (find (\<lambda>v. view_id_text str v = view_id) (ec_views c))) (\<lambda>v.
     Inr (view_id, case json_field ''name'' v of JStr n \<Rightarrow> n | j \<Rightarrow> str j))"

definition dataset_seed_records ::
  "inventory_params \<Rightarrow> (json \<Rightarrow> string) \<Rightarrow> engine_config \<Rightarrow> int \<times> int \<Rightarrow> inventory_record list result" where
  "dataset_seed_records P str c x =
     mapr (\<lambda>view_id. bindr (config_view str c view_id) (view_record P (fst x) (snd x))) FROZEN_VIEW_IDS"

definition all_records ::
  "inventory_params \<Rightarrow> (json \<Rightarrow> string) \<Rightarrow> engine_config \<Rightarrow> inventory_record list result" where
  "all_records P str c = bindr (mapr (dataset_seed_records P str c) (List.product FROZEN_DATASET_IDS FROZEN_SEEDS))
     (\<lambda>rss. Inr (concat rss))"

text \<open>\<open>_load_property_evidence\<close> on the parsed list: the evidence must be valid and current.\<close>

definition load_property_evidence ::
  "string list \<Rightarrow> string \<Rightarrow> property_evidence list option \<Rightarrow> property_evidence list result" where
  "load_property_evidence runner_hashes engine_hash payload =
     bindr (of_option (ValueError ''property evidence is missing'') payload) (\<lambda>items.
     bindr (mapr validate_property_evidence items) (\<lambda>es. guards
       [(list_ex (\<lambda>e. pe_test_hash e \<notin> set runner_hashes) es,
          ValueError ''property evidence test implementation hash is stale''),
        (list_ex (\<lambda>e. pe_engine_hash e \<noteq> engine_hash) es,
          ValueError ''property evidence transformation engine identity is stale'')] es))"

definition inventory_of ::
  "inventory_record list \<Rightarrow> property_evidence list \<Rightarrow> string \<Rightarrow> string \<Rightarrow> (string \<times> json) list \<Rightarrow> string \<Rightarrow> inventory" where
  "inventory_of rs es registry split protected now =
     (let failed = filter (\<lambda>r. ir_status r = ''FAIL'') rs; passed = filter (\<lambda>r. ir_status r = ''PASS'') rs in
      \<lparr>in_schema_version = 1, in_engine_name = ''certified_lossless_transformations'', in_status = (if length rs = 770 \<and> failed = [] \<and> json_field ''status'' protected = JStr ''PASS''
         then ''PASS_PENDING_REVIEW'' else ''FAIL''),
       in_dataset_ids = FROZEN_DATASET_IDS, in_seeds = FROZEN_SEEDS, in_view_ids = FROZEN_VIEW_IDS, in_records = rs,
       in_expected_record_count = 770,
       in_applicable_count = int (length (filter (\<lambda>r. ir_applicability r = ''APPLICABLE'') rs)),
       in_not_applicable_count = int (length (filter (\<lambda>r. ir_applicability r = ''NOT_APPLICABLE'') rs)),
       in_pass_count = int (length passed), in_fail_count = int (length failed), in_missing_count = 770 - int (length rs),
       in_property_example_count = sum_list (map pe_executed es), in_property_evidence = es, in_registry_hash = registry,
       in_split_inventory_hash = split, in_protected_comparison = protected,
       in_max_abs_error = fold max (map (\<lambda>r. case ir_max_abs_error r of None \<Rightarrow> 0 | Some x \<Rightarrow> x) passed) 0,
       in_generated_at = now\<rparr>)"

text \<open>The paths that \<open>build_inventory\<close> allows to differ from the snapshot it is given.\<close>

definition ALLOWED_CHANGED_PATHS :: "string list" where
  "ALLOWED_CHANGED_PATHS = [''artifacts/handoff/transformation_engine_review.md'',
     ''artifacts/handoff/transformation_inventory.json'', ''schemas/transformation_certificate.schema.json'',
     ''schemas/transformation_inventory.schema.json'', ''schemas/transformation_manifest.schema.json'']"

definition ALLOWED_ADDED_PATHS :: "string list" where
  "ALLOWED_ADDED_PATHS = [''schemas/transformation_property_evidence.schema.json'',
     ''schemas/transformation_cache_manifest.schema.json'']"

text \<open>
  The snapshot taken before (or the error of reading it), the files found now, the parsed property evidence and the digest
  of the split inventory (or the error of reading it) are arguments. The loader of the evidence takes the digests of the
  runner and of the engine from the project root, the contract of the inventory those of the package itself.
\<close>

record engine_identity =
  ei_runner_hashes :: "string list"
  ei_engine_hash :: string

definition build_inventory ::
  "inventory_params \<Rightarrow> (json \<Rightarrow> string) \<Rightarrow> engine_config \<Rightarrow> ((string \<times> string) list \<times> string) result \<Rightarrow> snapshot_file list
   \<Rightarrow> engine_identity \<Rightarrow> engine_identity \<Rightarrow> property_evidence list option \<Rightarrow> string result \<Rightarrow> inventory result" where
  "build_inventory P str c before after project package payload split =
     bindr (all_records P str c) (\<lambda>rs.
     bindr before (\<lambda>(files, before_hash).
     let protected = comparison_json (compare_protected_snapshot (fp_sha (ip_frames P)) files before_hash after
           ALLOWED_CHANGED_PATHS ALLOWED_ADDED_PATHS []) in
     bindr (load_property_evidence (ei_runner_hashes project) (ei_engine_hash project) payload) (\<lambda>es.
     bindr split (\<lambda>split_hash.
     if \<not> list_ex (\<lambda>r. ir_status r = ''PASS'') rs then Inl (ValueError ''max() iterable argument is empty'')
     else validate_engine_inventory (ei_runner_hashes package) (ei_engine_hash package)
       (inventory_of rs es (registry_hash (fp_sha (ip_frames P))) split_hash protected (ip_now P))))))"

end
