(* ===== verification/Frame_Facts.thy ===== *)
theory Frame_Facts
  imports Frames
begin

text \<open>
  Facts on frames that the views share, the termination and freshness of generated names, and
  the interface of a lossless view: a reconstruction that inverts the transformation, lifted
  once to the plumbing of the base class.
\<close>

section \<open>Frames\<close>

lemma mapr_Inr: "mapr f xs = Inr ys \<longleftrightarrow> list_all2 (\<lambda>x y. f x = Inr y) xs ys"
  by (induction xs arbitrary: ys) (auto simp: bindr_Inr_iff list_all2_Cons1)

lemma mapr_map: "(\<And>x. x \<in> set xs \<Longrightarrow> f x = Inr (g x)) \<Longrightarrow> mapr f xs = Inr (map g xs)"
  by (simp add: mapr_Inr list_all2_map2 list.rel_refl_strong)

lemma mapr_length: "mapr f xs = Inr ys \<Longrightarrow> length ys = length xs"
  by (auto simp: mapr_Inr dest: list_all2_lengthD)

lemma mapr_nth: "\<lbrakk>mapr f xs = Inr ys; i < length xs\<rbrakk> \<Longrightarrow> f (xs ! i) = Inr (ys ! i)"
  by (auto simp: mapr_Inr dest: list_all2_nthD)

lemma of_option_Inr [simp]: "of_option e x = Inr y \<longleftrightarrow> x = Some y"
  by (simp add: of_option_def split: option.split)

lemma get_column_Inr: "get_column X n = Inr c \<Longrightarrow> c \<in> set X \<and> co_name c = n"
  by (auto simp: get_column_def find_Some_iff)

lemma get_column_mem:
  assumes "distinct (frame_columns X)" and "c \<in> set X"
  shows "get_column X (co_name c) = Inr c"
proof -
  have "find (\<lambda>d. co_name d = co_name c) X \<noteq> None" using assms(2) by (auto simp: find_None_iff)
  then obtain d where d: "find (\<lambda>d. co_name d = co_name c) X = Some d" by auto
  then have "d \<in> set X" "co_name d = co_name c" by (auto simp: find_Some_iff)
  with assms have "d = c" by (auto simp: frame_columns_def distinct_map inj_on_def)
  with d show ?thesis by (simp add: get_column_def)
qed

lemma get_column_ex: "n \<in> set (frame_columns X) \<Longrightarrow> \<exists>c. get_column X n = Inr c"
  by (cases "find (\<lambda>c. co_name c = n) X") (auto simp: get_column_def frame_columns_def find_None_iff of_option_def)

lemma get_column_update: "get_column X n = Inr c \<Longrightarrow> n \<in> set (frame_columns X)"
  using get_column_Inr by (fastforce simp: frame_columns_def)

lemma select_columns_subset:
  assumes "distinct (frame_columns X)" and "set cs \<subseteq> set X"
  shows "select_columns X (map co_name cs) = Inr cs"
proof -
  have "mapr (get_column X) (map co_name cs) = Inr (map (\<lambda>c. c) cs)"
    unfolding mapr_Inr using assms by (auto simp: list_all2_map1 list_all2_map2 intro!: list.rel_refl_strong get_column_mem)
  then show ?thesis by (simp add: select_columns_def)
qed

lemma select_all: "distinct (frame_columns X) \<Longrightarrow> select_columns X (frame_columns X) = Inr X"
  unfolding frame_columns_def by (rule select_columns_subset) (simp_all add: frame_columns_def)

lemma select_columns_Inr:
  assumes "select_columns X ns = Inr Y"
  shows "frame_columns Y = ns \<and> set Y \<subseteq> set X"
  using assms unfolding select_columns_def mapr_Inr frame_columns_def
  by (induction rule: list_all2_induct) (auto dest!: get_column_Inr)

lemma select_columns_back:
  assumes "select_columns X ns = Inr Y" and "distinct (frame_columns X)" and "distinct ns"
    and "set ns = set (frame_columns X)"
  shows "select_columns Y (frame_columns X) = Inr X"
proof -
  note Y = select_columns_Inr [OF assms(1)]
  have "c \<in> set Y" if c: "c \<in> set X" for c
  proof -
    from c assms(4) Y have "co_name c \<in> co_name ` set Y" by (auto simp: frame_columns_def)
    then obtain d where d: "d \<in> set Y" "co_name d = co_name c" by auto
    with Y c assms(2) have "d = c" by (auto simp: frame_columns_def distinct_map inj_on_def)
    with d show ?thesis by simp
  qed
  with Y assms(3) show ?thesis unfolding frame_columns_def by (intro select_columns_subset) (auto simp: frame_columns_def)
qed

lemma drop_columns_new:
  assumes "n \<notin> set (frame_columns X)"
  shows "drop_columns (X @ [c\<lparr>co_name := n\<rparr>]) [n] = Inr X"
proof -
  have "filter (\<lambda>c. co_name c \<noteq> n) X = X" using assms by (auto simp: frame_columns_def filter_id_conv)
  then show ?thesis by (simp add: drop_columns_def frame_columns_def)
qed

lemma take_rows_columns [simp]: "frame_columns (take_rows X rows) = frame_columns X"
  by (simp add: take_rows_def frame_columns_def comp_def)

text \<open>Every column has one cell per row.\<close>

definition well_shaped :: "frame \<Rightarrow> bool" where
  "well_shaped X \<longleftrightarrow> (\<forall>c \<in> set X. length (co_cells c) = row_count X)"

lemma take_rows_twice:
  assumes "well_shaped X" and "set rows \<subseteq> {..<length ord}" and "map (\<lambda>i. ord ! i) rows = [0..<row_count X]"
  shows "take_rows (take_rows X ord) rows = X"
proof -
  have "map (\<lambda>i. map (\<lambda>j. co_cells c ! j) ord ! i) rows = co_cells c" if "c \<in> set X" for c
  proof -
    have "map (\<lambda>i. map (\<lambda>j. co_cells c ! j) ord ! i) rows = map (\<lambda>j. co_cells c ! j) (map (\<lambda>i. ord ! i) rows)"
      using assms(2) by (auto simp: subset_iff)
    also have "\<dots> = map (\<lambda>j. co_cells c ! j) [0..<length (co_cells c)]"
      using assms(1,3) that by (simp add: well_shaped_def)
    also have "\<dots> = co_cells c" by (rule map_nth)
    finally show ?thesis .
  qed
  then show ?thesis by (auto simp: take_rows_def intro!: map_idI)
qed

lemma index_of_nth: "\<lbrakk>distinct xs; i < length xs\<rbrakk> \<Longrightarrow> index_of xs (xs ! i) = i"
proof -
  assume d: "distinct xs" and i: "i < length xs"
  have "takeWhile (\<lambda>y. y \<noteq> xs ! i) xs = take i xs"
    using d i by (intro takeWhile_eq_take_P_nth) (auto simp: nth_eq_iff_index_eq)
  with i show ?thesis by (simp add: index_of_def)
qed

lemma index_of_less: "x \<in> set xs \<Longrightarrow> index_of xs x < length xs \<and> xs ! index_of xs x = x"
  unfolding index_of_def by (induction xs) auto

section \<open>Generated names\<close>

lemma safe_name_loop_fresh: "safe_name_loop base existing suffix candidate \<notin> set existing"
proof (induction base existing suffix candidate rule: safe_name_loop.induct)
  case (1 base existing suffix candidate)
  then show ?case by (subst safe_name_loop.simps) simp
qed

lemma safe_name_loop_form:
  "safe_name_loop base existing suffix candidate = candidate
   \<or> (\<exists>k \<ge> suffix. safe_name_loop base existing suffix candidate = generated_name base k
       \<and> candidate \<in> set existing \<and> (\<forall>j. suffix \<le> j \<and> j < k \<longrightarrow> generated_name base j \<in> set existing))"
proof (induction base existing suffix candidate rule: safe_name_loop.induct)
  case (1 base existing suffix candidate)
  show ?case
  proof (cases "candidate \<in> set existing")
    case False
    then show ?thesis by (subst safe_name_loop.simps) simp
  next
    case True
    note eq = safe_name_loop.simps [of base existing suffix candidate]
    from "1.IH" [OF True] consider
        "safe_name_loop base existing (Suc suffix) (generated_name base suffix) = generated_name base suffix"
      | k where "Suc suffix \<le> k" "safe_name_loop base existing (Suc suffix) (generated_name base suffix) = generated_name base k"
        "generated_name base suffix \<in> set existing"
        "\<forall>j. Suc suffix \<le> j \<and> j < k \<longrightarrow> generated_name base j \<in> set existing" by blast
    then show ?thesis
    proof cases
      case 1
      with True eq show ?thesis by (intro disjI2 exI [of _ suffix]) auto
    next
      case (2 k)
      then have "\<forall>j. suffix \<le> j \<and> j < k \<longrightarrow> generated_name base j \<in> set existing"
        by (metis Suc_leI le_neq_implies_less)
      with 2 True eq show ?thesis by (intro disjI2 exI [of _ k]) simp
    qed
  qed
qed

lemma collision_safe_fresh: "collision_safe_name base existing \<notin> set existing"
  by (simp add: collision_safe_name_def safe_name_loop_fresh)

section \<open>The interface of a lossless view\<close>

definition fitted_on :: "view \<Rightarrow> frame \<Rightarrow> fitted \<Rightarrow> bool" where
  "fitted_on V T f \<longleftrightarrow> vw_fit V T (ft_dataset f) (ft_seed f) (ft_schema f) = Inr (ft_params f)
     \<and> frame_columns T = fs_columns (ft_schema f) \<and> distinct (frame_columns T)
     \<and> ROW_ID_COLUMN \<in> set (frame_columns T)"

lemma base_fit_fitted: "base_fit V old T ds seed s = (Some f, Inr u) \<Longrightarrow> fitted_on V T f \<and> ft_dataset f = ds \<and> ft_seed f = seed
    \<and> ft_schema f = s"
  by (auto simp: base_fit_def fitted_on_def bindr_Inr_iff validate_input_frame_def guards_Inr_iff split: sum.splits)

lemma base_transform_Inr:
  assumes "base_transform V (Some f) X part = (st, Inr Y)"
  shows "\<exists>p f'. vw_transform V f X part = Inr (Y, p) \<and> part \<in> set partitions
    \<and> frame_columns X = fs_columns (ft_schema f) \<and> validate_output_frame Y = Inr ()
    \<and> st = Some f' \<and> ft_schema f' = ft_schema f \<and> parameters_for f' part = p"
proof -
  from assms obtain p where "vw_transform V f X part = Inr (Y, p)" "part \<in> set partitions"
      "frame_columns X = fs_columns (ft_schema f)" "validate_output_frame Y = Inr ()"
      "st = Some (f\<lparr>ft_partitions := AList.update part p (ft_partitions f)\<rparr>)"
    by (auto simp: base_transform_def bindr_Inr_iff split: sum.splits if_splits)
  then show ?thesis by (simp add: parameters_for_def update_conv')
qed

locale lossless_view =
  fixes V :: view and suitable :: "frame \<Rightarrow> feature_schema \<Rightarrow> frame \<Rightarrow> bool"
  assumes inverse: "\<lbrakk>fitted_on V T f; suitable T (ft_schema f) X; frame_columns X = frame_columns T;
      part \<in> set partitions; vw_transform V f X part = Inr (Y, p)\<rbrakk> \<Longrightarrow> vw_reconstruct V p Y = Inr X"
begin

lemma base_roundtrip:
  assumes f: "fitted_on V T f" and "suitable T (ft_schema f) X"
    and t: "base_transform V (Some f) X part = (st, Inr Y)"
  shows "\<exists>f'. st = Some f' \<and> base_reconstruct V st Y (vw_id V) (parameters_for f' part) = Inr X"
proof -
  from base_transform_Inr [OF t] obtain p f' where p: "vw_transform V f X part = Inr (Y, p)" and part: "part \<in> set partitions"
      and cols: "frame_columns X = fs_columns (ft_schema f)" and out: "validate_output_frame Y = Inr ()"
      and st: "st = Some f'" "ft_schema f' = ft_schema f" "parameters_for f' part = p" by blast
  have "vw_reconstruct V p Y = Inr X"
    using inverse [OF f assms(2) _ part p] f cols by (simp add: fitted_on_def)
  moreover have "validate_output_frame X = Inr ()"
    using f cols by (auto simp: validate_output_frame_def guards_Inr_iff fitted_on_def)
  ultimately show ?thesis using st out cols by (simp add: base_reconstruct_def)
qed

end

end
