(* ===== verification/View_Facts.thy ===== *)
theory View_Facts
  imports Views Frame_Facts
begin

text \<open>
  Every modelled view is a lossless view: for each, the frames it is suitable for and the proof
  that its reconstruction inverts its transformation on them.
\<close>

section \<open>Identity\<close>

interpretation identity: lossless_view identity_view "\<lambda>T s X. True"
  by unfold_locales (simp add: identity_view_def identity_transform_def identity_reconstruct_def)

section \<open>Column permutation\<close>

lemma sort_pairs_mset: "mset (map snd (sort (map (\<lambda>c. (d c, c)) xs))) = mset xs"
proof -
  have "mset (map snd (sort (map (\<lambda>c. (d c, c)) xs))) = image_mset snd (mset (map (\<lambda>c. (d c, c)) xs))"
    by (simp only: mset_map mset_sort)
  then show ?thesis by (simp add: image_mset.compositionality comp_def)
qed

lemma column_order_perm:
  assumes "distinct (frame_columns X)"
  shows "mset (column_order sha X ds seed) = mset (frame_columns X)"
proof -
  let ?p = "filter (\<lambda>c. c \<noteq> ROW_ID_COLUMN) (frame_columns X)"
  have "mset (column_order sha X ds seed)
      = (if ROW_ID_COLUMN \<in> set (frame_columns X) then {#ROW_ID_COLUMN#} else {#}) + mset ?p"
    by (simp add: column_order_def sort_pairs_mset del: mset_map)
  also have "\<dots> = mset (frame_columns X)"
  proof (cases "ROW_ID_COLUMN \<in> set (frame_columns X)")
    case True
    then have "filter_mset (\<lambda>c. c = ROW_ID_COLUMN) (mset (frame_columns X)) = {#ROW_ID_COLUMN#}"
      using assms by (simp add: filter_eq_replicate_mset distinct_count_atmost_1)
    with True multiset_partition [of "mset (frame_columns X)" "\<lambda>c. c = ROW_ID_COLUMN"] show ?thesis by simp
  next
    case False
    then have "filter (\<lambda>c. c \<noteq> ROW_ID_COLUMN) (frame_columns X) = frame_columns X"
      by (auto simp: filter_id_conv)
    with False show ?thesis by simp
  qed
  finally show ?thesis .
qed

interpretation columns: lossless_view "column_view F" "\<lambda>T s X. True" for F
proof unfold_locales
  fix T f X part Y p
  assume f: "fitted_on (column_view F) T f" and cols: "frame_columns X = frame_columns T"
    and t: "vw_transform (column_view F) f X part = Inr (Y, p)"
  let ?ord = "column_order (fp_sha F) T (ft_dataset f) (ft_seed f)"
  from f have d: "distinct (frame_columns T)" and params: "pa_permuted (ft_params f) = ?ord"
      "pa_source_columns (ft_params f) = frame_columns T"
    by (auto simp: fitted_on_def column_view_def column_fit_def no_parameters_def Let_def
        dest!: sym [of _ "ft_params f"])
  have "mset ?ord = mset (frame_columns T)" using d by (rule column_order_perm)
  then have o: "distinct ?ord" "set ?ord = set (frame_columns X)"
    using d cols by (metis mset_eq_imp_distinct_iff, metis mset_eq_setD)
  from t params have "select_columns X ?ord = Inr Y" "p = ft_params f"
    by (auto simp: column_view_def column_transform_def bindr_Inr_iff)
  with select_columns_back [OF _ _ o] d cols params
  show "vw_reconstruct (column_view F) p Y = Inr X"
    by (simp add: column_view_def column_reconstruct_def)
qed

section \<open>Row permutation\<close>

text \<open>\<open>sort_values\<close> puts the rows in the order of their keys; rows with equal keys may come in any order.\<close>

definition sorts_keys :: "(nat option list \<Rightarrow> nat list) \<Rightarrow> bool" where
  "sorts_keys argsort \<longleftrightarrow> (\<forall>ks. mset (argsort (map Some ks)) = mset [0..<length ks]
     \<and> sorted (map (\<lambda>i. ks ! i) (argsort (map Some ks))))"

definition row_suitable :: "frame_params \<Rightarrow> frame \<Rightarrow> bool" where
  "row_suitable F X \<longleftrightarrow> sorts_keys (fp_argsort F) \<and> (\<forall>s. fp_str F (CStr s) = s) \<and> well_shaped X
     \<and> ''__sg_restore_order'' \<notin> set (frame_columns X)
     \<and> (\<forall>c. get_column X ROW_ID_COLUMN = Inr c \<longrightarrow> (\<exists>ids. co_cells c = map CStr ids \<and> distinct ids))"

lemma sorts_permutation:
  assumes "sorts_keys argsort" and "mset ord = mset [0..<n]"
  shows "set (argsort (map Some ord)) \<subseteq> {..<length ord} \<and> map (\<lambda>i. ord ! i) (argsort (map Some ord)) = [0..<n]"
proof -
  let ?idx = "argsort (map Some ord)"
  have m: "mset ?idx = mset [0..<length ord]" and s: "sorted (map (\<lambda>i. ord ! i) ?idx)"
    using assms(1) by (simp_all add: sorts_keys_def)
  have "mset (map (\<lambda>i. ord ! i) ?idx) = image_mset (\<lambda>i. ord ! i) (mset [0..<length ord])"
    by (simp only: mset_map m)
  also have "\<dots> = mset (map (\<lambda>i. ord ! i) [0..<length ord])" by (simp only: mset_map)
  also have "\<dots> = mset [0..<n]" unfolding map_nth by (rule assms(2))
  finally have "sort [0..<n] = map (\<lambda>i. ord ! i) ?idx" using s by (rule properties_for_sort)
  then have "map (\<lambda>i. ord ! i) ?idx = [0..<n]" by (simp add: sorted_sort_id)
  moreover have "set ?idx \<subseteq> {..<length ord}" using mset_eq_setD [OF m] by auto
  ultimately show ?thesis by blast
qed

text \<open>Reordered rows go back to their places.\<close>

lemma restore_rows:
  assumes suit: "row_suitable F X" and c: "get_column X ROW_ID_COLUMN = Inr c" and dist: "distinct (frame_columns X)"
    and ids: "pa_source_row_ids p = map (fp_str F) (co_cells c)" and ord: "mset ord = mset [0..<row_count X]"
  shows "row_reconstruct F p (take_rows X ord) = Inr X"
proof -
  from suit c obtain names where names: "co_cells c = map CStr names" "distinct names"
    by (auto simp: row_suitable_def)
  have c': "c \<in> set X" "co_name c = ROW_ID_COLUMN" using get_column_Inr [OF c] by simp_all
  have len: "length names = row_count X" using suit c'(1) names(1) by (auto simp: row_suitable_def well_shaped_def)
  have desired: "pa_source_row_ids p = names" using suit names(1) ids by (simp add: row_suitable_def comp_def)
  let ?Y = "take_rows X ord" and ?c = "c\<lparr>co_cells := map (\<lambda>i. co_cells c ! i) ord\<rparr>"
  have "?c \<in> set ?Y" "co_name ?c = ROW_ID_COLUMN" using c' by (auto simp: take_rows_def)
  with get_column_mem [of ?Y ?c] dist have gY: "get_column ?Y ROW_ID_COLUMN = Inr ?c" by simp
  have small: "set ord \<subseteq> {..<row_count X}" using mset_eq_setD [OF ord] by auto
  have key: "restore_order names (CStr (names ! i)) = Some i" if "i < row_count X" for i
  proof -
    have "map_of (rev (zip names [0..<length names])) (names ! i) = Some i"
    proof (rule map_of_is_SomeI)
      show "distinct (map fst (rev (zip names [0..<length names])))" using names(2) by (simp add: rev_map [symmetric])
      show "(names ! i, i) \<in> set (rev (zip names [0..<length names]))"
        using that len by (auto simp: set_zip intro!: exI [of _ i])
    qed
    then show ?thesis by (simp add: restore_order_def)
  qed
  have order: "map (restore_order names) (co_cells ?c) = map Some ord"
    using small names(1) len by (auto simp: key subset_iff)
  let ?idx = "fp_argsort F (map Some ord)"
  let ?m = "\<lparr>co_name = ''__sg_restore_order'', co_dtype = ''float64'',
      co_cells = map (\<lambda>k. case k of None \<Rightarrow> CMissing | Some i \<Rightarrow> CFloat ''float64'' (Finite (of_nat i))) (map Some ord)\<rparr>"
  have idx: "set ?idx \<subseteq> {..<length ord}" "map (\<lambda>i. ord ! i) ?idx = [0..<row_count X]"
    using sorts_permutation [OF _ ord] suit by (auto simp: row_suitable_def)
  have fresh: "''__sg_restore_order'' \<notin> set (frame_columns ?Y)" using suit by (simp add: row_suitable_def)
  then have "set_column ?Y ?m = ?Y @ [?m]" by (simp add: set_column_def)
  then have "take_rows (set_column ?Y ?m) ?idx = take_rows ?Y ?idx
      @ [(?m\<lparr>co_cells := map (\<lambda>i. co_cells ?m ! i) ?idx\<rparr>)\<lparr>co_name := ''__sg_restore_order''\<rparr>]"
    by (simp add: take_rows_def)
  also have "take_rows ?Y ?idx = X" using suit idx by (intro take_rows_twice) (simp_all add: row_suitable_def)
  finally have "drop_columns (take_rows (set_column ?Y ?m) ?idx) [''__sg_restore_order''] = Inr X"
    using fresh by (simp only: drop_columns_new take_rows_columns not_False_eq_True)
  then show ?thesis unfolding row_reconstruct_def gY bindr_simps Let_def desired order .
qed

interpretation rows: lossless_view "row_view F" "\<lambda>T s X. row_suitable F X" for F
proof unfold_locales
  fix T f X part Y p
  assume f: "fitted_on (row_view F) T f" and suit: "row_suitable F X" and cols: "frame_columns X = frame_columns T"
    and t: "vw_transform (row_view F) f X part = Inr (Y, p)"
  from f cols have dist: "distinct (frame_columns X)" and id: "ROW_ID_COLUMN \<in> set (frame_columns X)"
    by (auto simp: fitted_on_def)
  obtain c where c: "get_column X ROW_ID_COLUMN = Inr c" using get_column_ex [OF id] by blast
  have same: "take_rows X [0..<row_count X] = X"
  proof -
    have "map (\<lambda>i. co_cells c ! i) [0..<row_count X] = co_cells c" if "c \<in> set X" for c
      using suit that map_nth [of "co_cells c"] by (simp add: row_suitable_def well_shaped_def)
    then show ?thesis by (auto simp: take_rows_def intro!: map_idI)
  qed
  have "\<exists>ord. mset ord = mset [0..<row_count X] \<and> Y = take_rows X ord \<and> pa_source_row_ids p = map (fp_str F) (co_cells c)"
  proof (cases "part = ''train''")
    case True
    with t c show ?thesis
      by (intro exI [of _ "row_order F X (ft_dataset f) (ft_seed f)"])
        (auto simp: row_view_def row_transform_def row_ids_def bindr_Inr_iff row_order_def Let_def)
  next
    case False
    with t c same show ?thesis
      by (intro exI [of _ "[0..<row_count X]"]) (auto simp: row_view_def row_transform_def row_ids_def bindr_Inr_iff)
  qed
  with restore_rows [OF suit c dist] show "vw_reconstruct (row_view F) p Y = Inr X"
    by (auto simp: row_view_def)
qed

end
