(* ===== verification/Category_Facts.thy ===== *)
theory Category_Facts
  imports View_Facts
begin

text \<open>
  The categorical views are lossless: the tables of the category permutation are bijections
  inverse to each other, and the indicators of a one-hot expansion determine the category.
\<close>

section \<open>Vocabularies\<close>

text \<open>
  The cells a categorical column may hold, and what is relied on for them: the codec is exact on
  them, and a series built with the column's dtype keeps them.
\<close>

definition vocabulary :: "feature_schema \<Rightarrow> column \<Rightarrow> cell set" where
  "vocabulary s c = set (schema_categories s (co_name c)) \<union> set (co_cells c) - {CMissing}"

definition category_suitable :: "frame_params \<Rightarrow> frame \<Rightarrow> feature_schema \<Rightarrow> frame \<Rightarrow> bool" where
  "category_suitable F T s X \<longleftrightarrow> map co_dtype X = map co_dtype T
     \<and> (\<forall>c \<in> set T. co_name c \<in> set (fs_categorical s) \<longrightarrow>
          CMissing \<notin> set (schema_categories s (co_name c))
          \<and> (\<forall>v \<in> insert CMissing (vocabulary s c). codec_ok (fp_codec F) v)
          \<and> (\<forall>cs. set cs \<subseteq> insert CMissing (vocabulary s c) \<longrightarrow> fp_series F (co_dtype c) cs = Inr cs))
     \<and> (\<forall>c \<in> set X. co_name c \<in> set (fs_categorical s) \<longrightarrow> (\<forall>v \<in> set (co_cells c). codec_ok (fp_codec F) v))"

lemma pick_one_mem: "pick_one F candidates ds seed m = Inr n \<Longrightarrow> n \<in> set candidates"
proof -
  assume "pick_one F candidates ds seed m = Inr n"
  then have "n \<in> set (selected_columns (fp_sha F) candidates ds seed 1)"
    by (auto simp: pick_one_def split: list.splits)
  then show ?thesis by (auto simp: selected_columns_def dest!: in_set_takeD)
qed

text \<open>The keys of a list of cells, and the cell behind a key.\<close>

lemma keys_of_cells:
  assumes "mapr (typed_value_key P) vs = Inr ks" and "\<And>v. v \<in> set vs \<Longrightarrow> codec_ok P v"
  shows "k \<in> set ks \<Longrightarrow> \<exists>v \<in> set vs. typed_value_key P v = Inr k \<and> decode_typed_key P k = Inr v"
    and "v \<in> set vs \<Longrightarrow> \<exists>k \<in> set ks. typed_value_key P v = Inr k"
proof -
  note all = assms(1) [unfolded mapr_Inr]
  show "\<exists>v \<in> set vs. typed_value_key P v = Inr k \<and> decode_typed_key P k = Inr v" if "k \<in> set ks"
  proof -
    from that obtain i where i: "i < length ks" "ks ! i = k" by (auto simp: in_set_conv_nth)
    with all have v: "vs ! i \<in> set vs" "typed_value_key P (vs ! i) = Inr k"
      by (auto simp: list_all2_conv_all_nth)
    with codec_roundtrip [OF assms(2) [OF v(1)]] show ?thesis by auto
  qed
  show "\<exists>k \<in> set ks. typed_value_key P v = Inr k" if "v \<in> set vs"
    using all that by (auto simp: list_all2_conv_all_nth in_set_conv_nth)
qed

section \<open>Rotation of the keys\<close>

lemma rotated_inj:
  assumes "distinct keys" and "i < length keys" and "j < length keys" and "rotated keys shift i = rotated keys shift j"
  shows "i = j"
proof -
  let ?n = "length keys"
  have "(i + shift) mod ?n < ?n" "(j + shift) mod ?n < ?n"
    using assms(2) by (intro mod_less_divisor; linarith)+
  with assms(1,4) have eq: "(i + shift) mod ?n = (j + shift) mod ?n"
    by (simp add: rotated_def nth_eq_iff_index_eq)
  have "int i mod int ?n = int j mod int ?n"
  proof -
    from eq have "int (i + shift) mod int ?n = int (j + shift) mod int ?n" by (metis zmod_int)
    then have "(int i + int shift) mod int ?n = (int j + int shift) mod int ?n" by simp
    then show ?thesis by (simp add: mod_eq_dvd_iff)
  qed
  with assms(2,3) show ?thesis by simp
qed

lemma map_of_indexed:
  assumes "\<And>i j. \<lbrakk>i < n; j < n; a i = a j\<rbrakk> \<Longrightarrow> i = j" and "k < n"
  shows "map_of (map (\<lambda>i. (a i, b i)) [0..<n]) (a k) = Some (b k)"
  using assms by (intro map_of_is_SomeI) (auto simp: distinct_map inj_on_def comp_def)

text \<open>The forward and the inverse table of a rotation.\<close>

definition forward_table :: "string list \<Rightarrow> nat \<Rightarrow> (string \<times> string) list" where
  "forward_table keys shift = map (\<lambda>i. (keys ! i, rotated keys shift i)) [0..<length keys]"

definition inverse_table :: "string list \<Rightarrow> nat \<Rightarrow> (string \<times> string) list" where
  "inverse_table keys shift = map (\<lambda>i. (rotated keys shift i, keys ! i)) [0..<length keys]"

lemma tables_inverse:
  assumes "distinct keys" and "map_of (forward_table keys shift) k = Some l"
  shows "k \<in> set keys \<and> l \<in> set keys \<and> map_of (inverse_table keys shift) l = Some k"
proof -
  from assms(2) obtain i where i: "i < length keys" "k = keys ! i" "l = rotated keys shift i"
    by (auto simp: forward_table_def dest!: map_of_SomeD)
  then have "0 < length keys" by auto
  then have "l \<in> set keys" using i by (simp add: rotated_def)
  moreover have "map_of (inverse_table keys shift) l = Some k"
    unfolding i(2,3) inverse_table_def by (rule map_of_indexed) (use assms(1) i(1) rotated_inj in auto)
  ultimately show ?thesis using i by simp
qed

lemma forward_no_fixpoint:
  assumes "distinct keys" and "0 < shift" and "shift < length keys" and "k \<in> set keys"
  shows "\<exists>l. map_of (forward_table keys shift) k = Some l \<and> l \<in> set keys \<and> l \<noteq> k"
proof -
  from assms(4) obtain i where i: "i < length keys" "k = keys ! i" by (auto simp: in_set_conv_nth)
  have f: "map_of (forward_table keys shift) (keys ! i) = Some (rotated keys shift i)"
    unfolding forward_table_def by (rule map_of_indexed) (use assms(1) i(1) nth_eq_iff_index_eq in auto)
  let ?j = "(i + shift) mod length keys"
  have j: "?j < length keys" using i(1) by (intro mod_less_divisor) linarith
  have "?j \<noteq> i"
  proof (cases "i + shift < length keys")
    case True
    then have "?j = i + shift" by (rule mod_less)
    with assms(2) show ?thesis by linarith
  next
    case False
    then have "?j = i + shift - length keys" using assms(3) i(1) by (simp add: mod_if)
    with assms(3) False show ?thesis by linarith
  qed
  then have "rotated keys shift i \<noteq> keys ! i"
    unfolding rotated_def using nth_eq_iff_index_eq [OF assms(1) j i(1)] by simp
  moreover have "rotated keys shift i \<in> set keys" using j by (simp add: rotated_def)
  ultimately show ?thesis using f i(2) by blast
qed

lemma shift_bounds: "2 \<le> n \<Longrightarrow> 0 < h mod (n - 1) + 1 \<and> h mod (n - 1) + 1 < (n :: nat)"
  using mod_less_divisor [of "n - 1" h] by linarith

section \<open>Category permutation\<close>

text \<open>What a successful fit says.\<close>

lemma category_fit_Inr:
  assumes "category_fit F cfg T ds seed s = Inr p"
  obtains name c all_keys keys shift where "name \<in> set (fs_categorical s)" "get_column T name = Inr c"
    "mapr (typed_value_key (fp_codec F)) (category_values s c) = Inr all_keys"
    "keys = sort (remdups all_keys)" "vc_category_minimum cfg \<le> length keys" "pa_selected p = [name]"
    "pa_category_keys p = keys"
    "pa_forward_keys p = forward_table keys shift" "pa_inverse_keys p = inverse_table keys shift"
    "pa_source_columns p = frame_columns T" "pa_source_dtype p = co_dtype c"
    "2 \<le> length keys \<longrightarrow> shift = hex_prefix (choice_digest (fp_sha F) ds seed name) mod (length keys - 1) + 1"
proof -
  have inv: "map (\<lambda>(k, v). (v, k)) (forward_table keys shift) = inverse_table keys shift" for keys shift
    by (simp add: forward_table_def inverse_table_def)
  from assms obtain name c all_keys where n: "pick_one F (fs_categorical s) ds seed ''no categorical feature is available'' = Inr name"
    and c: "get_column T name = Inr c"
    and k: "mapr (typed_value_key (fp_codec F)) (category_values s c) = Inr all_keys"
    by (auto simp: category_fit_def bindr_Inr_iff)
  let ?keys = "sort (remdups all_keys)"
  let ?shift = "if length ?keys = 0 then 1
    else hex_prefix (choice_digest (fp_sha F) ds seed name) mod (length ?keys - 1) + 1"
  from assms n c k have p: "vc_category_minimum cfg \<le> length ?keys" "pa_selected p = [name]"
      "pa_category_keys p = ?keys" "pa_forward_keys p = forward_table ?keys ?shift"
      "pa_inverse_keys p = map (\<lambda>(k, v). (v, k)) (forward_table ?keys ?shift)"
      "pa_source_columns p = frame_columns T" "pa_source_dtype p = co_dtype c"
    by (auto simp: category_fit_def no_parameters_def forward_table_def Let_def simp del: length_remdups_card_conv
        split: if_splits)
  show ?thesis
    by (rule that [of name c all_keys ?keys ?shift]) (use n c k p inv pick_one_mem in auto)
qed

text \<open>A cell that passes the forward table comes back through the inverse table.\<close>

lemma map_category_inverse:
  assumes keys: "mapr (typed_value_key P) vs = Inr ks" and ok: "\<And>v. v \<in> set vs \<Longrightarrow> codec_ok P v"
    and miss: "CMissing \<notin> set vs" and v: "codec_ok P v"
    and t: "\<And>k l. map_of fwd k = Some l \<Longrightarrow> k \<in> set ks \<and> l \<in> set ks \<and> map_of bwd l = Some k"
    and w: "map_category P fwd m v = Inr w"
  shows "v \<in> insert CMissing (set vs) \<and> w \<in> insert CMissing (set vs) \<and> map_category P bwd m' w = Inr v"
proof (cases "v = CMissing")
  case True
  with w codec_roundtrip [OF v] show ?thesis by (auto simp: map_category_def)
next
  case False
  with w obtain k l where k: "typed_value_key P v = Inr k" and l: "map_of fwd k = Some l" and d: "decode_typed_key P l = Inr w"
    by (auto simp: map_category_def bindr_Inr_iff split: option.splits)
  from t [OF l] have in_keys: "k \<in> set ks" "l \<in> set ks" "map_of bwd l = Some k" by simp_all
  from keys_of_cells(1) [OF keys ok in_keys(1)] obtain v' where v': "v' \<in> set vs" "typed_value_key P v' = Inr k"
    "decode_typed_key P k = Inr v'" by blast
  with k typed_value_key_inj [OF v ok] have vv: "v = v'" by simp
  from keys_of_cells(1) [OF keys ok in_keys(2)] obtain w' where w': "w' \<in> set vs" "typed_value_key P w' = Inr l"
    "decode_typed_key P l = Inr w'" by blast
  with d have "w = w'" by simp
  with w' vv v' in_keys miss show ?thesis by (auto simp: map_category_def)
qed

lemma set_column_back:
  assumes "distinct (frame_columns X)" and "get_column X n = Inr c" and "co_name d = n"
  shows "set_column (set_column X d) c = X" "get_column (set_column X d) n = Inr d"
    "frame_columns (set_column X d) = frame_columns X"
proof -
  note c = get_column_Inr [OF assms(2)]
  have n: "n \<in> set (frame_columns X)" using c by (auto simp: frame_columns_def)
  have same: "d' = c" if "d' \<in> set X" "co_name d' = n" for d'
    using assms(1) c that by (auto simp: frame_columns_def distinct_map inj_on_def)
  have eq: "set_column X d = map (\<lambda>d'. if co_name d' = n then d else d') X"
    using n assms(3) by (simp add: set_column_def)
  show cols: "frame_columns (set_column X d) = frame_columns X"
    unfolding eq frame_columns_def map_map using assms(3) by (intro map_cong) auto
  show "set_column (set_column X d) c = X"
  proof -
    have "set_column (set_column X d) c = map (\<lambda>d'. if co_name d' = n then c else d') (set_column X d)"
      unfolding set_column_def [of "set_column X d"] cols using n c by simp
    also have "\<dots> = X" unfolding eq map_map using assms(3) same by (intro map_idI) auto
    finally show ?thesis .
  qed
  have "d \<in> set (set_column X d)" unfolding eq using c by force
  with get_column_mem [of "set_column X d" d] assms(1,3) cols show "get_column (set_column X d) n = Inr d" by simp
qed

lemma get_column_dtype:
  assumes "get_column X n = Inr c" and "get_column T n = Inr d" and "frame_columns X = frame_columns T"
    and "distinct (frame_columns X)" and "map co_dtype X = map co_dtype T"
  shows "co_dtype c = co_dtype d"
proof -
  from get_column_Inr [OF assms(1)] obtain i where i: "i < length X" "X ! i = c" "co_name c = n" by (auto simp: in_set_conv_nth)
  from get_column_Inr [OF assms(2)] obtain j where j: "j < length T" "T ! j = d" "co_name d = n" by (auto simp: in_set_conv_nth)
  have len: "length X = length T" using arg_cong [OF assms(3), of length] by (simp add: frame_columns_def)
  have "frame_columns X ! i = co_name (X ! i)" "frame_columns T ! j = co_name (T ! j)"
    using i(1) j(1) by (simp_all add: frame_columns_def)
  then have "frame_columns X ! i = frame_columns X ! j" using i j assms(3) by simp
  moreover have "i < length (frame_columns X)" "j < length (frame_columns X)"
    using i(1) j(1) len by (simp_all add: frame_columns_def)
  ultimately have "i = j" using assms(4) nth_eq_iff_index_eq by blast
  then show ?thesis using i j len arg_cong [OF assms(5), of "\<lambda>ds. ds ! i"] by simp
qed

lemma sorted_keys_set: "set (sort (remdups ks)) = set ks" "distinct (sort (remdups ks))"
  by simp_all

text \<open>The categories a fit uses are in the vocabulary of the column.\<close>

lemma category_values_vocabulary:
  "set (schema_categories s (co_name c)) \<inter> {CMissing} = {} \<Longrightarrow> set (category_values s c) \<subseteq> vocabulary s c"
  by (auto simp: category_values_def vocabulary_def)

interpretation categories: lossless_view "category_view F cfg" "category_suitable F" for F cfg
proof unfold_locales
  fix T f X part Y p
  assume f: "fitted_on (category_view F cfg) T f" and suit: "category_suitable F T (ft_schema f) X"
    and cols: "frame_columns X = frame_columns T" and t: "vw_transform (category_view F cfg) f X part = Inr (Y, p)"
  let ?P = "fp_codec F" and ?q = "ft_params f" and ?s = "ft_schema f"
  from f have fit: "category_fit F cfg T (ft_dataset f) (ft_seed f) ?s = Inr ?q" and dist: "distinct (frame_columns X)"
    using cols by (auto simp: fitted_on_def category_view_def)
  obtain name c all_keys keys shift where name: "name \<in> set (fs_categorical ?s)" and c: "get_column T name = Inr c"
    and all_keys: "mapr (typed_value_key ?P) (category_values ?s c) = Inr all_keys" and keys: "keys = sort (remdups all_keys)"
    and q: "pa_selected ?q = [name]" "pa_forward_keys ?q = forward_table keys shift"
      "pa_inverse_keys ?q = inverse_table keys shift" "pa_source_columns ?q = frame_columns T"
      "pa_source_dtype ?q = co_dtype c"
    using category_fit_Inr [OF fit] by metis
  note cT = get_column_Inr [OF c]
  from suit cT name have miss: "CMissing \<notin> set (category_values ?s c)"
    by (auto simp: category_suitable_def category_values_def)
  have voc: "set (category_values ?s c) \<subseteq> vocabulary ?s c"
    using suit cT name by (intro category_values_vocabulary) (auto simp: category_suitable_def)
  with suit cT name have ok: "codec_ok ?P v" if "v \<in> set (category_values ?s c)" for v
    using that by (auto simp: category_suitable_def)
  have keep: "fp_series F (co_dtype c) cs = Inr cs" if "set cs \<subseteq> insert CMissing (set (category_values ?s c))" for cs
  proof -
    from that voc have "set cs \<subseteq> insert CMissing (vocabulary ?s c)" by blast
    with suit cT name show ?thesis by (auto simp: category_suitable_def)
  qed
  from t q obtain cX outs cells where cX: "get_column X name = Inr cX"
    and vals: "mapr (map_category ?P (forward_table keys shift) ''unseen category'') (co_cells cX) = Inr outs"
    and cells: "fp_series F (co_dtype c) outs = Inr cells"
    and Y: "Y = set_column X \<lparr>co_name = name, co_dtype = co_dtype c, co_cells = cells\<rparr>" and p: "p = ?q"
    by (auto simp: category_view_def category_transform_def map_category_column_def bindr_Inr_iff)
  note cX' = get_column_Inr [OF cX]
  have tab: "k \<in> set all_keys \<and> l \<in> set all_keys \<and> map_of (inverse_table keys shift) l = Some k"
    if "map_of (forward_table keys shift) k = Some l" for k l
    using tables_inverse [OF _ that] keys by simp
  have each: "co_cells cX ! i \<in> insert CMissing (set (category_values ?s c))
      \<and> outs ! i \<in> insert CMissing (set (category_values ?s c))
      \<and> map_category ?P (inverse_table keys shift) m' (outs ! i) = Inr (co_cells cX ! i)"
    if "i < length (co_cells cX)" for i m'
  proof (rule map_category_inverse [OF all_keys ok miss _ tab])
    show "codec_ok ?P (co_cells cX ! i)" using suit cX' name that by (auto simp: category_suitable_def)
    show "map_category ?P (forward_table keys shift) ''unseen category'' (co_cells cX ! i) = Inr (outs ! i)"
      using mapr_nth [OF vals that] .
  qed
  have len: "length outs = length (co_cells cX)" using mapr_length [OF vals] .
  have sets: "set outs \<subseteq> insert CMissing (set (category_values ?s c))"
      "set (co_cells cX) \<subseteq> insert CMissing (set (category_values ?s c))"
    using each [THEN conjunct1] each [THEN conjunct2, THEN conjunct1] len
    by (metis in_set_conv_nth subsetI)+
  have cells_eq: "cells = outs" using cells keep [OF sets(1)] by simp
  let ?d = "\<lparr>co_name = name, co_dtype = co_dtype c, co_cells = outs\<rparr>"
  have undone: "mapr (map_category ?P (inverse_table keys shift) ''unknown permuted category'') outs = Inr (co_cells cX)"
    unfolding mapr_Inr list_all2_conv_all_nth using each len by simp
  have dt: "co_dtype cX = co_dtype c"
    using get_column_dtype [OF cX c cols dist] suit by (simp add: category_suitable_def)
  have col: "\<lparr>co_name = name, co_dtype = co_dtype c, co_cells = co_cells cX\<rparr> = cX" using dt cX' by simp
  note restore = set_column_back [OF dist cX, of ?d, simplified]
  have "map_category_column F (inverse_table keys shift) ''unknown permuted category'' ?q Y = Inr X"
    by (simp add: map_category_column_def of_option_def q Y cells_eq restore(2) undone keep [OF sets(2)] col restore(1))
  then show "vw_reconstruct (category_view F cfg) p Y = Inr X"
    using select_all [OF dist] cols by (simp add: category_view_def category_reconstruct_def p q)
qed

section \<open>Added features\<close>

text \<open>A view that adds one column under a fresh name loses nothing.\<close>

lemma project_back:
  assumes "distinct (frame_columns X)" and "g \<notin> set (frame_columns X)" and "co_name c = g"
    and "pa_generated p = [g]" and "pa_source_columns p = frame_columns X"
  shows "project_generated p (set_column X c) = Inr X"
proof -
  have "c\<lparr>co_name := g\<rparr> = c" using assms(3) by simp
  then have "drop_columns (X @ [c]) [g] = Inr X" using drop_columns_new [OF assms(2), of c] by (simp only:)
  moreover have "set_column X c = X @ [c]" using assms(2,3) by (simp add: set_column_def)
  ultimately show ?thesis using select_all [OF assms(1)] assms(4,5) by (simp add: project_generated_def)
qed

interpretation duplicates: lossless_view "duplicate_view F" "\<lambda>T s X. True" for F
proof unfold_locales
  fix T f X part Y p
  assume f: "fitted_on (duplicate_view F) T f" and cols: "frame_columns X = frame_columns T"
    and t: "vw_transform (duplicate_view F) f X part = Inr (Y, p)"
  from f obtain name where q: "pa_selected (ft_params f) = [name]"
      "pa_generated (ft_params f) = [collision_safe_name (name @ ''__duplicate'') (frame_columns X)]"
      "pa_source_columns (ft_params f) = frame_columns X"
    by (auto simp: fitted_on_def duplicate_view_def duplicate_fit_def bindr_Inr_iff no_parameters_def Let_def cols
        dest!: sym [of _ "ft_params f"])
  from f have "distinct (frame_columns X)" unfolding cols fitted_on_def by blast
  from project_back [OF this collision_safe_fresh _ q(2,3)] t q
  show "vw_reconstruct (duplicate_view F) p Y = Inr X"
    by (auto simp: duplicate_view_def duplicate_transform_def bindr_Inr_iff Let_def)
qed

interpretation redundants: lossless_view "redundant_view F" "\<lambda>T s X. True" for F
proof unfold_locales
  fix T f X part Y p
  assume f: "fitted_on (redundant_view F) T f" and cols: "frame_columns X = frame_columns T"
    and t: "vw_transform (redundant_view F) f X part = Inr (Y, p)"
  from f obtain name where q: "pa_selected (ft_params f) = [name]"
      "pa_generated (ft_params f) = [collision_safe_name (name @ ''__redundant_affine'') (frame_columns X)]"
      "pa_source_columns (ft_params f) = frame_columns X"
    by (auto simp: fitted_on_def redundant_view_def redundant_fit_def bindr_Inr_iff no_parameters_def Let_def cols
        dest!: sym [of _ "ft_params f"])
  from f have "distinct (frame_columns X)" unfolding cols fitted_on_def by blast
  from project_back [OF this collision_safe_fresh _ q(2,3)] t q
  show "vw_reconstruct (redundant_view F) p Y = Inr X"
    by (auto simp: redundant_view_def redundant_transform_def bindr_Inr_iff Let_def)
qed

end
