(* ===== verification/Expansion_Facts.thy ===== *)
theory Expansion_Facts
  imports Category_Facts
begin

text \<open>
  The views that replace one column by several: one-hot expansion and integer quotient and
  remainder. Both drop the generated columns and put the old one back in its place, so the
  facts on replacing a column are shared.
\<close>

section \<open>Replacing a column\<close>

lemma column_place:
  assumes "distinct (frame_columns X)" and "get_column X n = Inr c"
  obtains A B where "X = A @ c # B" "index_of (frame_columns X) n = length A"
    "n \<notin> set (frame_columns (A @ B))" "drop_columns X [n] = Inr (A @ B)"
proof -
  note c = get_column_Inr [OF assms(2)]
  then obtain A B where X: "X = A @ c # B" by (meson split_list)
  have n: "n \<notin> set (frame_columns (A @ B))" using assms(1) c by (auto simp: X frame_columns_def)
  have "index_of (frame_columns X) (frame_columns X ! length A) = length A"
    by (rule index_of_nth [OF assms(1)]) (simp add: X frame_columns_def)
  moreover have "frame_columns X ! length A = n" using c by (simp add: X frame_columns_def nth_append)
  ultimately have i: "index_of (frame_columns X) n = length A" by simp
  have "filter (\<lambda>d. co_name d \<noteq> n) A = A" "filter (\<lambda>d. co_name d \<noteq> n) B = B"
    using n by (auto simp: frame_columns_def filter_id_conv)
  then have "filter (\<lambda>d. co_name d \<noteq> n) X = A @ B" using c by (simp add: X)
  then have "drop_columns X [n] = Inr (A @ B)" using c by (simp add: drop_columns_def X frame_columns_def)
  with that X i n show ?thesis by blast
qed

lemma drop_generated:
  assumes "set (frame_columns G) \<inter> set (frame_columns (A @ B)) = {}"
  shows "drop_columns (A @ G @ B) (frame_columns G) = Inr (A @ B)"
proof -
  let ?P = "\<lambda>c. co_name c \<notin> set (frame_columns G)"
  have "filter ?P A = A" "filter ?P B = B" "filter ?P G = []"
    using assms by (auto simp: frame_columns_def filter_id_conv filter_empty_conv)
  then have "filter ?P (A @ G @ B) = A @ B" by simp
  moreover have "find (\<lambda>n. n \<notin> set (frame_columns (A @ G @ B))) (frame_columns G) = None"
    by (simp add: find_None_iff frame_columns_def)
  ultimately show ?thesis by (simp add: drop_columns_def)
qed

lemma insert_back:
  assumes "n \<notin> set (frame_columns (A @ B))" and "co_name c = n"
  shows "insert_column (A @ B) (length A) c = Inr (A @ c # B)"
  using assms by (simp add: insert_column_def)

section \<open>Indicator columns\<close>

lemma indicator_names_distinct:
  assumes "distinct names" and "set names \<inter> set existing = {}"
  shows "distinct (indicator_names column existing names n)
    \<and> set (indicator_names column existing names n) \<inter> set existing = {}
    \<and> length (indicator_names column existing names n) = length names + n"
  using assms
proof (induction n arbitrary: names)
  case (Suc n)
  let ?new = "collision_safe_name (column @ ''__category_'' @ show_nat (length names)) (existing @ names)"
  have "?new \<notin> set existing \<union> set names" using collision_safe_fresh [of _ "existing @ names"] by simp
  with Suc.prems have "distinct (names @ [?new])" "set (names @ [?new]) \<inter> set existing = {}" by auto
  from Suc.IH [OF this] show ?case by simp
qed simp

lemma foldl_set_column:
  "distinct (frame_columns (R @ cs)) \<Longrightarrow> foldl set_column R cs = R @ cs"
proof (induction cs arbitrary: R)
  case (Cons c cs)
  then have "set_column R c = R @ [c]" by (auto simp: set_column_def frame_columns_def)
  with Cons.IH [of "R @ [c]"] Cons.prems show ?case by simp
qed simp

lemma indicator_simps [simp]: "is_indicator (indicator j i)" "is_active (indicator j i) \<longleftrightarrow> i = j"
  by (simp_all add: is_indicator_def is_active_def indicator_def)

text \<open>Exactly the indicator of the active place is 1.\<close>

lemma indicator_row_active:
  assumes "i < n"
  shows "one_active (map (\<lambda>j. indicator j i) [0..<n]) \<and> argmax (map (\<lambda>j. indicator j i) [0..<n]) = i"
proof -
  let ?row = "map (\<lambda>j. indicator j i) [0..<n]"
  have "filter is_active ?row = map (\<lambda>j. indicator j i) (filter (\<lambda>j. j = i) [0..<n])"
    by (simp add: filter_map comp_def cong: filter_cong) (simp add: eq_commute [of i])
  then have "length (filter is_active ?row) = 1" using filter_one_length [of "[0..<n]" i] assms by simp
  moreover have "list_all is_indicator ?row" by (simp add: list_all_iff)
  moreover have "takeWhile (\<lambda>c. \<not> is_active c) ?row = take i ?row"
    using assms by (intro takeWhile_eq_take_P_nth) auto
  then have "argmax ?row = i" using assms by (simp add: argmax_def)
  ultimately show ?thesis by (simp add: one_active_def)
qed

text \<open>The active place of a cell determines the cell.\<close>

lemma decode_active:
  assumes "active_index P keys v = Inr i" and "codec_ok P v"
  shows "i \<le> length keys \<and> (if i = length keys then v = CMissing
    else v \<noteq> CMissing \<and> decode_typed_key P (keys ! i) = Inr v)"
proof (cases "v = CMissing")
  case True
  with assms show ?thesis by (simp add: active_index_def)
next
  case False
  with assms(1) obtain k where k: "typed_value_key P v = Inr k" "k \<in> set keys" "i = index_of keys k"
    by (auto simp: active_index_def bindr_Inr_iff split: if_splits)
  with codec_roundtrip [OF assms(2)] index_of_less [OF k(2)] False show ?thesis by auto
qed

lemma decode_indicator_row:
  assumes "active_index P keys v = Inr i" and "codec_ok P v"
  shows "one_active (map (\<lambda>j. indicator j i) [0..<Suc (length keys)])
    \<and> decode_row P keys (Suc (length keys)) (map (\<lambda>j. indicator j i) [0..<Suc (length keys)]) = Inr v"
proof -
  note d = decode_active [OF assms]
  then have i: "i < Suc (length keys)" by simp
  show ?thesis using d indicator_row_active [OF i] by (auto simp: decode_row_def split: if_splits)
qed

section \<open>One-hot expansion\<close>

definition onehot_suitable :: "frame_params \<Rightarrow> frame \<Rightarrow> feature_schema \<Rightarrow> frame \<Rightarrow> bool" where
  "onehot_suitable F T s X \<longleftrightarrow> map co_dtype X = map co_dtype T \<and> well_shaped X
     \<and> (\<forall>c \<in> set X. co_name c \<in> set (fs_categorical s) \<longrightarrow>
          (\<forall>v \<in> set (co_cells c). codec_ok (fp_codec F) v) \<and> fp_series F (co_dtype c) (co_cells c) = Inr (co_cells c))"

lemma onehot_fit_Inr:
  assumes "onehot_fit F cfg T ds seed s = Inr p"
  obtains name c keys names missing where "name \<in> set (fs_categorical s)" "get_column T name = Inr c"
    "pa_selected p = [name]" "pa_category_keys p = keys" "pa_generated p = names @ [missing]"
    "length names = length keys" "distinct (names @ [missing])"
    "set (names @ [missing]) \<inter> set (frame_columns T) = {}"
    "pa_source_columns p = frame_columns T" "pa_source_dtype p = co_dtype c"
proof -
  from assms obtain name c all_keys where n: "pick_one F (fs_categorical s) ds seed ''no categorical feature is available'' = Inr name"
    and c: "get_column T name = Inr c"
    and k: "mapr (typed_value_key (fp_codec F)) (filter (\<lambda>v. v \<noteq> CMissing)
        (if schema_categories s name \<noteq> [] then schema_categories s name else co_cells c)) = Inr all_keys"
    by (auto simp: onehot_fit_def bindr_Inr_iff Let_def)
  let ?keys = "sort (remdups all_keys)"
  let ?names = "indicator_names name (frame_columns T) [] (length ?keys)"
  let ?missing = "collision_safe_name (name @ ''__missing'') (frame_columns T @ ?names)"
  from assms n c k have p: "pa_selected p = [name]" "pa_category_keys p = ?keys" "pa_generated p = ?names @ [?missing]"
      "pa_source_columns p = frame_columns T" "pa_source_dtype p = co_dtype c"
    by (auto simp: onehot_fit_def no_parameters_def Let_def simp del: length_remdups_card_conv length_sort split: if_splits)
  have d: "distinct ?names" "set ?names \<inter> set (frame_columns T) = {}" "length ?names = length ?keys"
    using indicator_names_distinct [of "[]" "frame_columns T" name "length ?keys"] by simp_all
  have "?missing \<notin> set (frame_columns T) \<union> set ?names"
    using collision_safe_fresh [of _ "frame_columns T @ ?names"] by simp
  with d have "distinct (?names @ [?missing])" "set (?names @ [?missing]) \<inter> set (frame_columns T) = {}" by auto
  with that [OF pick_one_mem [OF n] c p(1,2,3) d(3) _ _ p(4,5)] show ?thesis by blast
qed

text \<open>The indicator columns of a column of cells, row by row.\<close>

lemma indicator_rows:
  assumes act: "mapr (active_index P keys) cells = Inr active" and ok: "\<And>v. v \<in> set cells \<Longrightarrow> codec_ok P v"
    and G: "map co_cells G = map (\<lambda>j. map (indicator j) active) [0..<Suc (length keys)]"
  shows "list_all one_active (map (indicator_row G) [0..<length cells])
    \<and> mapr (decode_row P keys (Suc (length keys))) (map (indicator_row G) [0..<length cells]) = Inr cells"
proof -
  have len: "length active = length cells" using mapr_length [OF act] .
  have row: "indicator_row G i = map (\<lambda>j. indicator j (active ! i)) [0..<Suc (length keys)]" if "i < length cells" for i
  proof -
    have "indicator_row G i = map (\<lambda>cs. cs ! i) (map co_cells G)" by (simp add: indicator_row_def)
    also have "\<dots> = map (\<lambda>j. indicator j (active ! i)) [0..<Suc (length keys)]"
      unfolding G map_map using that len by (intro map_cong) simp_all
    finally show ?thesis .
  qed
  have dec: "one_active (indicator_row G i) \<and> decode_row P keys (Suc (length keys)) (indicator_row G i) = Inr (cells ! i)"
    if "i < length cells" for i
    unfolding row [OF that] using that by (intro decode_indicator_row mapr_nth [OF act] ok) simp_all
  then have "list_all one_active (map (indicator_row G) [0..<length cells])" by (simp add: list_all_iff)
  moreover have "mapr (decode_row P keys (Suc (length keys))) (map (indicator_row G) [0..<length cells]) = Inr cells"
    unfolding mapr_Inr list_all2_conv_all_nth using dec by simp
  ultimately show ?thesis ..
qed

lemma row_count_eq: "\<lbrakk>Y \<noteq> []; \<And>c. c \<in> set Y \<Longrightarrow> length (co_cells c) = n\<rbrakk> \<Longrightarrow> row_count Y = n"
  by (cases Y) (simp_all add: row_count_def)

interpretation onehots: lossless_view "onehot_view F cfg" "onehot_suitable F" for F cfg
proof unfold_locales
  fix T f X part Y p
  assume f: "fitted_on (onehot_view F cfg) T f" and suit: "onehot_suitable F T (ft_schema f) X"
    and cols: "frame_columns X = frame_columns T" and t: "vw_transform (onehot_view F cfg) f X part = Inr (Y, p)"
  let ?P = "fp_codec F" and ?q = "ft_params f"
  from f have fit: "onehot_fit F cfg T (ft_dataset f) (ft_seed f) (ft_schema f) = Inr ?q" and dist: "distinct (frame_columns X)"
    using cols by (auto simp: fitted_on_def onehot_view_def)
  obtain name c keys names missing where name: "name \<in> set (fs_categorical (ft_schema f))" and c: "get_column T name = Inr c"
    and q: "pa_selected ?q = [name]" "pa_category_keys ?q = keys" "pa_generated ?q = names @ [missing]"
      "pa_source_columns ?q = frame_columns T" "pa_source_dtype ?q = co_dtype c"
    and len: "length names = length keys" and gen: "distinct (names @ [missing])"
      "set (names @ [missing]) \<inter> set (frame_columns T) = {}"
    using onehot_fit_Inr [OF fit] by metis
  let ?gen = "names @ [missing]"
  from t q obtain rest cX active where drop: "drop_columns X [name] = Inr rest" and cX: "get_column X name = Inr cX"
    and act: "mapr (active_index ?P keys) (co_cells cX) = Inr active" and p: "p = ?q"
    and Y: "Y = foldl set_column rest (map (\<lambda>j. \<lparr>co_name = ?gen ! j, co_dtype = ''uint8'',
        co_cells = map (indicator j) active\<rparr>) [0..<length ?gen])"
    by (auto simp: onehot_view_def onehot_transform_def bindr_Inr_iff Let_def simp del: upt_Suc)
  define G where "G = map (\<lambda>j. \<lparr>co_name = ?gen ! j, co_dtype = ''uint8'',
      co_cells = map (indicator j) active\<rparr>) [0..<length ?gen]"
  have G: "frame_columns G = ?gen" unfolding G_def frame_columns_def map_map comp_def column.simps by (rule map_nth)
  obtain A B where X: "X = A @ cX # B" and place: "index_of (frame_columns X) name = length A"
    and new: "name \<notin> set (frame_columns (A @ B))" and without: "drop_columns X [name] = Inr (A @ B)"
    by (rule column_place [OF dist cX])
  from drop without have rest: "rest = A @ B" by simp
  have apart: "set ?gen \<inter> set (frame_columns (A @ B)) = {}"
    using gen(2) unfolding cols [symmetric] by (auto simp: X frame_columns_def)
  have dY: "distinct (frame_columns ((A @ B) @ G))"
    using dist gen(1) apart G by (auto simp: X frame_columns_def)
  have Y: "Y = (A @ B) @ G" using foldl_set_column [OF dY] by (simp add: Y rest G_def)
  have sel: "select_columns Y ?gen = Inr G" using select_columns_subset [OF dY, of G] G by (auto simp: Y frame_columns_def)
  have shape: "length (co_cells d) = length (co_cells cX)" if "d \<in> set Y" for d
  proof (cases "d \<in> set G")
    case True
    then show ?thesis using mapr_length [OF act] by (auto simp: G_def)
  next
    case False
    then have "d \<in> set X" "cX \<in> set X" using that by (auto simp: X Y)
    with suit show ?thesis by (simp add: onehot_suitable_def well_shaped_def)
  qed
  have rows: "row_count Y = length (co_cells cX)"
    using shape G by (intro row_count_eq) (auto simp: Y frame_columns_def)
  note cX' = get_column_Inr [OF cX]
  have ok: "codec_ok ?P v" if "v \<in> set (co_cells cX)" for v
    using suit cX' name that by (auto simp: onehot_suitable_def)
  have cells: "map co_cells G = map (\<lambda>j. map (indicator j) active) [0..<Suc (length keys)]"
    by (simp add: G_def len comp_def)
  note ind = indicator_rows [OF act ok cells]
  have there: "\<not> list_ex (\<lambda>n. n \<notin> set (frame_columns Y)) ?gen"
    using G by (simp add: list_ex_iff Y frame_columns_def)
  have dt: "co_dtype cX = co_dtype c"
    using get_column_dtype [OF cX c cols dist] suit by (simp add: onehot_suitable_def)
  then have ser: "fp_series F (co_dtype c) (co_cells cX) = Inr (co_cells cX)"
    using suit cX' name by (auto simp: onehot_suitable_def)
  have col: "\<lparr>co_name = name, co_dtype = co_dtype c, co_cells = co_cells cX\<rparr> = cX" using dt cX' by simp
  have dropY: "drop_columns Y ?gen = Inr (A @ B)" using drop_generated [of G "A @ B" "[]"] apart G Y by simp
  show "vw_reconstruct (onehot_view F cfg) p Y = Inr X"
    using there sel ind rows dropY ser col insert_back [OF new, of cX] cX' place cols select_all [OF dist] len
    by (simp add: onehot_view_def onehot_reconstruct_def of_option_def p q X [symmetric] Let_def)
qed

section \<open>Quotient and remainder\<close>

text \<open>
  Quotient and remainder recombine in 64-bit arithmetic, even where the product leaves the
  range and wraps.
\<close>

lemma int64_ident: "- (2 ^ 63) \<le> x \<Longrightarrow> x < 2 ^ 63 \<Longrightarrow> int64 x = x"
  by (simp add: int64_def sint_sbintrunc' signed_take_bit_int_eq_self)

lemma join_split:
  assumes "- (2 ^ 63) \<le> x" and "x < 2 ^ 63"
  shows "int64 (int64 (int64 (x div m) * m) + int64 (x mod m)) = x"
proof -
  have w: "word_of_int (int64 y) = (word_of_int y :: 64 word)" for y by (simp add: int64_def)
  have "word_of_int (int64 (int64 (x div m) * m) + int64 (x mod m))
      = (word_of_int (x div m) * word_of_int m + word_of_int (x mod m) :: 64 word)"
    by (simp only: wi_hom_add [symmetric] wi_hom_mult [symmetric] w)
  also have "\<dots> = word_of_int (x div m * m + x mod m)" by (simp only: wi_hom_add wi_hom_mult)
  also have "\<dots> = word_of_int x" by simp
  finally have "int64 (int64 (int64 (x div m) * m) + int64 (x mod m)) = int64 x" by (simp only: int64_def)
  with int64_ident [OF assms] show ?thesis by simp
qed

text \<open>
  What the view relies on for a column: its cells are integers of at most 53 bits (exact as
  doubles) inside the range of the dtype, and an \<open>Int64\<close> series of them becomes them again
  under the dtype.
\<close>

definition int64_cell :: "cell \<Rightarrow> cell" where
  "int64_cell c = (case c of CInt t i \<Rightarrow> CInt ''Int64'' i | _ \<Rightarrow> CMissing)"

definition quotient_suitable :: "frame_params \<Rightarrow> frame \<Rightarrow> feature_schema \<Rightarrow> frame \<Rightarrow> bool" where
  "quotient_suitable F T s X \<longleftrightarrow> map co_dtype X = fs_dtypes s
     \<and> (\<forall>i. \<bar>i\<bar> \<le> 2 ^ 53 \<longrightarrow> fp_double F i = i)
     \<and> (\<forall>c \<in> set X. co_name c \<in> set (fs_integer s) \<longrightarrow>
          list_ex (\<lambda>p. starts_with p (co_dtype c)) [''int'', ''uint'', ''Int'', ''UInt'']
          \<and> (\<forall>t i. CInt t i \<in> set (co_cells c) \<longrightarrow> \<bar>i\<bar> \<le> 2 ^ 53 \<and> \<not> cell_outside (fp_bounds F (co_dtype c)) (CInt t i))
          \<and> fp_series F (co_dtype c) (map int64_cell (co_cells c)) = Inr (co_cells c))"

lemma quotient_cell_back:
  assumes "\<And>i. \<bar>i\<bar> \<le> 2 ^ 53 \<Longrightarrow> double i = i" and "integer_cell c" and "\<And>t i. c = CInt t i \<Longrightarrow> \<bar>i\<bar> \<le> 2 ^ 53"
  shows "through_double double (join_cell m (split_cell (\<lambda>i. i div m) c) (split_cell (\<lambda>i. i mod m) c)) = int64_cell c"
proof (cases c)
  case (CInt t i)
  with assms(3) have i: "\<bar>i\<bar> \<le> 2 ^ 53" by simp
  then have "int64 (int64 (int64 (i div m) * m) + int64 (i mod m)) = i" by (intro join_split) simp_all
  with CInt assms(1) [OF i] show ?thesis by (simp add: int64_cell_def)
qed (use assms(2) in \<open>simp_all add: int64_cell_def integer_cell_def\<close>)

lemma quotient_fit_Inr:
  assumes "quotient_fit F cfg T ds seed s = Inr p"
  obtains name c quo remainder where "name \<in> set (fs_integer s)" "get_column T name = Inr c" "pa_selected p = [name]"
    "pa_generated p = [quo, remainder]" "distinct [quo, remainder]" "set [quo, remainder] \<inter> set (frame_columns T) = {}"
    "pa_modulus p = vc_quotient_modulus cfg" "pa_source_columns p = frame_columns T"
    "pa_source_dtypes p = source_dtype_map s"
proof -
  from assms obtain name c where n: "pick_one F (fs_integer s) ds seed ''no integer feature is available'' = Inr name"
    and c: "get_column T name = Inr c"
    by (auto simp: quotient_fit_def bindr_Inr_iff Let_def)
  let ?quo = "collision_safe_name (name @ ''__quotient'') (frame_columns T)"
  let ?rem = "collision_safe_name (name @ ''__remainder'') (?quo # frame_columns T)"
  have "pa_selected p = [name]" "pa_generated p = [?quo, ?rem]" "pa_modulus p = vc_quotient_modulus cfg"
    "pa_source_columns p = frame_columns T" "pa_source_dtypes p = source_dtype_map s"
    using assms n c by (auto simp: quotient_fit_def no_parameters_def Let_def)
  moreover have "?quo \<notin> set (frame_columns T)" "?rem \<notin> set (?quo # frame_columns T)" by (rule collision_safe_fresh)+
  then have "distinct [?quo, ?rem]" "set [?quo, ?rem] \<inter> set (frame_columns T) = {}" by auto
  ultimately show ?thesis using that [OF pick_one_mem [OF n] c] by blast
qed

lemma source_dtype:
  assumes "get_column X n = Inr c" and "frame_columns X = fs_columns s" and "map co_dtype X = fs_dtypes s"
    and "distinct (frame_columns X)"
  shows "map_of (rev (source_dtype_map s)) n = Some (co_dtype c)"
proof (rule map_of_is_SomeI)
  have z: "source_dtype_map s = map (\<lambda>c. (co_name c, co_dtype c)) X"
    unfolding source_dtype_map_def assms(2,3) [symmetric] frame_columns_def by (induction X) simp_all
  show "distinct (map fst (rev (source_dtype_map s)))"
    using assms(4) by (simp add: z frame_columns_def comp_def rev_map [symmetric])
  show "(n, co_dtype c) \<in> set (rev (source_dtype_map s))"
    using get_column_Inr [OF assms(1)] by (auto simp: z)
qed

text \<open>A column of integers goes through the two columns and comes back.\<close>

lemma restore_split:
  assumes "\<And>i. \<bar>i\<bar> \<le> 2 ^ 53 \<Longrightarrow> fp_double F i = i" and "list_all integer_cell cells"
    and "\<And>t i. CInt t i \<in> set cells \<Longrightarrow> \<bar>i\<bar> \<le> 2 ^ 53 \<and> \<not> cell_outside (fp_bounds F dtype) (CInt t i)"
    and "list_ex (\<lambda>p. starts_with p dtype) [''int'', ''uint'', ''Int'', ''UInt'']"
    and "fp_series F dtype (map int64_cell cells) = Inr cells"
  shows "restore_series_dtype F (map2 (join_cell m) (map (split_cell (\<lambda>i. i div m)) cells)
    (map (split_cell (\<lambda>i. i mod m)) cells)) dtype = Inr cells"
proof -
  have joined: "map (through_double (fp_double F)) (map2 (join_cell m) (map (split_cell (\<lambda>i. i div m)) cells)
      (map (split_cell (\<lambda>i. i mod m)) cells)) = map int64_cell cells"
    using assms(2,3) by (auto simp: map2_map_map list_all_iff intro!: quotient_cell_back [OF assms(1)])
  have "\<not> list_ex (cell_outside (fp_bounds F dtype)) (map int64_cell cells)"
  proof -
    have "\<not> cell_outside (fp_bounds F dtype) (int64_cell c)" if "c \<in> set cells" for c
      using that assms(3) by (cases "fp_bounds F dtype") (auto simp: int64_cell_def split: cell.splits)
    then show ?thesis by (auto simp: list_ex_iff)
  qed
  with joined assms(4,5) show ?thesis by (simp only: restore_series_dtype_def Let_def if_True if_False)
qed

interpretation quotients: lossless_view "quotient_view F cfg" "quotient_suitable F" for F cfg
proof unfold_locales
  fix T f X part Y p
  assume f: "fitted_on (quotient_view F cfg) T f" and suit: "quotient_suitable F T (ft_schema f) X"
    and cols: "frame_columns X = frame_columns T" and t: "vw_transform (quotient_view F cfg) f X part = Inr (Y, p)"
  let ?q = "ft_params f" and ?s = "ft_schema f"
  from f have fit: "quotient_fit F cfg T (ft_dataset f) (ft_seed f) ?s = Inr ?q" and dist: "distinct (frame_columns X)"
    and names: "frame_columns X = fs_columns ?s"
    using cols by (auto simp: fitted_on_def quotient_view_def)
  obtain name quo remainder m where name: "name \<in> set (fs_integer ?s)"
    and q: "pa_selected ?q = [name]" "pa_generated ?q = [quo, remainder]" "pa_modulus ?q = m"
      "pa_source_columns ?q = frame_columns T" "pa_source_dtypes ?q = source_dtype_map ?s"
    and gen: "distinct [quo, remainder]" "set [quo, remainder] \<inter> set (frame_columns X) = {}"
    using quotient_fit_Inr [OF fit] cols by metis
  from t q obtain c rest out where c: "get_column X name = Inr c" and ints: "list_all integer_cell (co_cells c)"
    and drop: "drop_columns X [name] = Inr rest" and p: "p = ?q"
    and out: "insert_column rest (index_of (frame_columns X) name)
        (int64_column quo (map (split_cell (\<lambda>i. i div m)) (co_cells c))) = Inr out"
    and Y: "insert_column out (index_of (frame_columns X) name + 1)
        (int64_column remainder (map (split_cell (\<lambda>i. i mod m)) (co_cells c))) = Inr Y"
    by (auto simp: quotient_view_def quotient_transform_def bindr_Inr_iff Let_def)
  obtain A B where X: "X = A @ c # B" and place: "index_of (frame_columns X) name = length A"
    and new: "name \<notin> set (frame_columns (A @ B))" and without: "drop_columns X [name] = Inr (A @ B)"
    by (rule column_place [OF dist c])
  from drop without have rest: "rest = A @ B" by simp
  define cq where "cq = int64_column quo (map (split_cell (\<lambda>i. i div m)) (co_cells c))"
  define cr where "cr = int64_column remainder (map (split_cell (\<lambda>i. i mod m)) (co_cells c))"
  have n: "co_name cq = quo" "co_name cr = remainder" by (simp_all add: cq_def cr_def int64_column_def)
  from out have "out = A @ cq # B" by (simp add: insert_column_def rest place cq_def [symmetric])
  with Y have Y: "Y = A @ [cq, cr] @ B" by (simp add: insert_column_def place cr_def [symmetric])
  have G: "frame_columns [cq, cr] = [quo, remainder]" by (simp add: frame_columns_def n)
  have apart: "set (frame_columns [cq, cr]) \<inter> set (frame_columns (A @ B)) = {}"
    using gen(2) unfolding G by (auto simp: X frame_columns_def)
  have dY: "distinct (frame_columns Y)" using dist gen(1) apart G by (auto simp: Y X frame_columns_def)
  have get: "get_column Y quo = Inr cq" "get_column Y remainder = Inr cr"
    using get_column_mem [OF dY, of cq] get_column_mem [OF dY, of cr] by (simp_all add: Y n)
  have dropY: "drop_columns Y [quo, remainder] = Inr (A @ B)" using drop_generated [OF apart] by (simp only: Y G)
  note c' = get_column_Inr [OF c]
  have dt: "map_of (rev (source_dtype_map ?s)) name = Some (co_dtype c)"
    using source_dtype [OF c names _ dist] suit by (simp add: quotient_suitable_def)
  have again: "restore_series_dtype F (map2 (join_cell m) (co_cells cq) (co_cells cr)) (co_dtype c) = Inr (co_cells c)"
    unfolding cq_def cr_def int64_column_def column.simps
    using suit c' name ints by (intro restore_split) (auto simp: quotient_suitable_def)
  have "\<lparr>co_name = name, co_dtype = co_dtype c, co_cells = co_cells c\<rparr> = c" using c' by simp
  then have ins: "insert_column (A @ B) (length A) \<lparr>co_name = name, co_dtype = co_dtype c, co_cells = co_cells c\<rparr> = Inr X"
    using insert_back [OF new, of c] c' by (simp only: X)
  show "vw_reconstruct (quotient_view F cfg) p Y = Inr X"
    using get dt again dropY ins place cols select_all [OF dist]
    by (simp add: quotient_view_def quotient_reconstruct_def of_option_def p q)
qed

end
