(* ===== verification/Certificate_Facts.thy ===== *)
theory Certificate_Facts
  imports Certificates Expansion_Facts
begin

text \<open>
  What an accepted certificate proves, the permutation evidence of the control views, and the
  part of a certificate its identity depends on.
\<close>

section \<open>Permutation evidence\<close>

definition order_json :: "nat list \<Rightarrow> json" where
  "order_json xs = JArr (map (\<lambda>i. JInt (int i)) xs)"

lemma finite_numbers_order: "finite_numbers C (map (\<lambda>i. JInt (int i)) xs) = Some (map of_nat xs)"
  by (induction xs) simp_all

lemma sort_map_of_nat: "sort (map of_nat xs :: rat list) = map of_nat (sort xs)"
proof (rule properties_for_sort)
  show "sorted (map of_nat (sort xs) :: rat list)" by (simp add: sorted_map sorted_wrt_mono_rel [OF _ sorted_sort])
qed simp

lemma is_range_order: "is_range C (map (\<lambda>i. JInt (int i)) xs) \<longleftrightarrow> mset xs = mset [0..<length xs]"
proof -
  have "is_range C (map (\<lambda>i. JInt (int i)) xs) \<longleftrightarrow> map of_nat (sort xs) = (map of_nat [0..<length xs] :: rat list)"
    by (simp add: is_range_def finite_numbers_order sort_map_of_nat)
  also have "\<dots> \<longleftrightarrow> sort xs = [0..<length xs]" by (simp add: inj_map_eq_map [OF inj_of_nat])
  also have "\<dots> \<longleftrightarrow> mset xs = mset [0..<length xs]"
  proof
    assume "sort xs = [0..<length xs]"
    then show "mset xs = mset [0..<length xs]" by (metis mset_sort)
  next
    assume "mset xs = mset [0..<length xs]"
    then show "sort xs = [0..<length xs]" by (intro properties_for_sort [symmetric, THEN sym]) simp_all
  qed
  finally show ?thesis .
qed

lemma guards_three: "guards [(\<not> l \<or> \<not> p, e1), (\<not> q, e2), (\<not> i, e3)] () = Inr () \<longleftrightarrow> (l \<and> p) \<and> q \<and> i"
  by simp

lemma validate_permutation_orders:
  assumes "json_field ''forward_order'' (tc_parameters c) = order_json fwd"
    and "json_field ''inverse_order'' (tc_parameters c) = order_json bwd"
  shows "validate_permutation C c = Inr () \<longleftrightarrow> length fwd = length bwd \<and> mset fwd = mset [0..<length fwd]
    \<and> mset bwd = mset [0..<length bwd] \<and> (\<forall>i < length fwd. bwd ! (fwd ! i) = i)"
proof -
  have step: "index_inverse C (map (\<lambda>i. JInt (int i)) fwd) (map (\<lambda>i. JInt (int i)) bwd) i \<longleftrightarrow> bwd ! (fwd ! i) = i"
    if "length fwd = length bwd" "mset fwd = mset [0..<length fwd]" "i < length fwd" for i
  proof -
    have "fwd ! i \<in> set [0..<length fwd]" unfolding mset_eq_setD [OF that(2), symmetric] using that(3) by (rule nth_mem)
    then have "fwd ! i < length bwd" using that(1) by simp
    with that(3) show ?thesis by (auto simp: index_inverse_def json_index_def)
  qed
  let ?L = "length fwd = length bwd" and ?P = "mset fwd = mset [0..<length fwd]" and ?Q = "mset bwd = mset [0..<length bwd]"
  let ?I = "list_all (index_inverse C (map (\<lambda>i. JInt (int i)) fwd) (map (\<lambda>i. JInt (int i)) bwd)) [0..<length fwd]"
  have "validate_permutation C c = Inr () \<longleftrightarrow> (?L \<and> ?P) \<and> ?Q \<and> ?I"
    unfolding validate_permutation_def assms order_json_def prod.case json.case is_range_order length_map
    by (rule guards_three)
  moreover have "?I \<longleftrightarrow> (\<forall>i < length fwd. bwd ! (fwd ! i) = i)" if "?L" "?P"
    using step [OF that] by (auto simp: list_all_iff)
  ultimately show ?thesis by blast
qed

text \<open>Two orders of the same distinct items, each given by the places of its items in the other.\<close>

lemma index_orders:
  assumes "distinct source" and "mset output = mset source"
  shows "mset (map (index_of source) output) = mset [0..<length output]
    \<and> (\<forall>i < length output. map (index_of output) source ! (map (index_of source) output ! i) = i)"
proof -
  have dist: "distinct output" using assms(1) mset_eq_imp_distinct_iff [OF assms(2)] by blast
  have set: "set output = set source" using assms(2) by (rule mset_eq_setD)
  have len: "length output = length source" using assms(2) by (rule mset_eq_length)
  have "mset (map (index_of source) output) = mset (map (index_of source) source)"
    by (simp only: mset_map assms(2))
  also have "map (index_of source) source = [0..<length source]"
  proof (rule nth_equalityI)
    show "map (index_of source) source ! i = [0..<length source] ! i" if "i < length (map (index_of source) source)" for i
      using that index_of_nth [OF assms(1)] by simp
  qed simp
  finally have "mset (map (index_of source) output) = mset [0..<length source]" .
  moreover have "map (index_of output) source ! (map (index_of source) output ! i) = i" if "i < length output" for i
  proof -
    have "output ! i \<in> set source" using nth_mem [OF that] unfolding set .
    note a = index_of_less [OF this]
    have "map (index_of source) output ! i = index_of source (output ! i)" using that by simp
    moreover have "map (index_of output) source ! index_of source (output ! i)
        = index_of output (source ! index_of source (output ! i))" using a by (intro nth_map) simp
    ultimately show ?thesis using a index_of_nth [OF dist that] by (simp only:)
  qed
  ultimately show ?thesis unfolding len by blast
qed

section \<open>What an accepted certificate proves\<close>

definition restores :: "cert_params \<Rightarrow> py_float \<Rightarrow> py_float \<Rightarrow> frame \<Rightarrow> frame \<Rightarrow> bool" where
  "restores C rtol atol source restored \<longleftrightarrow> frame_columns restored = frame_columns source
     \<and> map_option python_values (find (\<lambda>c. co_name c = ROW_ID_COLUMN) restored)
         = map_option python_values (find (\<lambda>c. co_name c = ROW_ID_COLUMN) source)
     \<and> row_count restored = row_count source
     \<and> (\<forall>l \<in> set source. \<exists>r. get_column restored (co_name l) = Inr r \<and> missing_mask r = missing_mask l
          \<and> (frame_equal source restored \<or> column_close C rtol atol (l, r)))"

lemma column_pairs_Inr:
  assumes "column_pairs source restored = Inr pairs" and "l \<in> set source"
  shows "\<exists>r. get_column restored (co_name l) = Inr r \<and> (l, r) \<in> set pairs"
proof -
  from assms(1) obtain rs where rs: "mapr (\<lambda>l. get_column restored (co_name l)) source = Inr rs" and p: "pairs = zip source rs"
    by (auto simp: column_pairs_def bindr_Inr_iff)
  from assms(2) obtain i where i: "i < length source" "source ! i = l" by (auto simp: in_set_conv_nth)
  from mapr_nth [OF rs i(1)] i have "get_column restored (co_name l) = Inr (rs ! i)" by simp
  moreover have "(l, rs ! i) \<in> set pairs" using i mapr_length [OF rs] by (auto simp: p set_zip)
  ultimately show ?thesis by blast
qed

lemma get_column_find: "get_column X n = Inr c \<longleftrightarrow> find (\<lambda>d. co_name d = n) X = Some c"
  by (simp add: get_column_def)

lemma validate_roundtrip_Inr:
  assumes "validate_roundtrip C parse identity rtol atol source transformed restored c = Inr ev"
  shows "restores C rtol atol source restored"
    and "\<exists>es. ev = recorded_evidence C c identity restored (frame_equal source restored) es"
    and "tc_source_artifact_hash c = ce_table_hash C source" and "tc_output_artifact_hash c = ce_table_hash C transformed"
    and "tc_source_target_hash c = tc_output_target_hash c"
    and "identity = Some (configuration, implementation) \<Longrightarrow> tc_configuration_hash c = configuration
      \<and> tc_implementation_hash c = implementation"
    and "row_count transformed = row_count source"
    and "\<exists>c'. validate_certificate C c = Inr c'"
    and "check_type C parse source transformed c = Inr ()"
    and "tc_validation_status c = ''PASS'' \<longrightarrow> same_dict (tc_validation_results c) ev"
proof -
  from assms obtain c' source_ids output_ids s t r pairs u u1 u2 u3 where c': "validate_certificate C c = Inr c'"
    and art: "guards (artifact_guards C c identity rtol atol source transformed) () = Inr u1"
    and idg: "guards (identity_guards C c identity source_ids output_ids) () = Inr u2"
    and cols: "get_column source ROW_ID_COLUMN = Inr s" "get_column transformed ROW_ID_COLUMN = Inr t"
      "get_column restored ROW_ID_COLUMN = Inr r"
    and tab: "guards (table_guards C c source transformed restored (co_cells s) (co_cells t) (co_cells r)) () = Inr u3"
    and pairs: "column_pairs source restored = Inr pairs"
    and masks: "\<not> list_ex (\<lambda>(l, r). missing_mask l \<noteq> missing_mask r) pairs"
    and close: "\<not> (\<not> frame_equal source restored \<and> \<not> list_all (column_close C rtol atol) pairs)"
    and kind: "check_type C parse source transformed c = Inr u"
    and same: "\<not> (tc_validation_status c = ''PASS'' \<and> \<not> same_dict (tc_validation_results c)
        (recorded_evidence C c identity restored (frame_equal source restored) (maximum_errors C pairs)))"
    and ev: "recorded_evidence C c identity restored (frame_equal source restored) (maximum_errors C pairs) = ev"
    unfolding validate_roundtrip_def bindr_Inr_iff Let_def if_Inl_Inr_iff sum.inject by blast
  have a: "tc_source_artifact_hash c = ce_table_hash C source" "tc_output_artifact_hash c = ce_table_hash C transformed"
    using art by (simp_all add: guards_Inr_iff artifact_guards_def Let_def)
  have b: "tc_source_target_hash c = tc_output_target_hash c"
    "identity = Some (configuration, implementation) \<Longrightarrow> tc_configuration_hash c = configuration
      \<and> tc_implementation_hash c = implementation"
    using idg by (auto simp: guards_Inr_iff identity_guards_def Let_def)
  have d: "row_count source = row_count transformed" "row_count source = row_count restored" "frame_columns restored = frame_columns source"
    "python_values s = python_values r"
    using tab by (simp_all add: guards_Inr_iff table_guards_def python_values_def)
  have "\<exists>r. get_column restored (co_name l) = Inr r \<and> missing_mask r = missing_mask l
      \<and> (frame_equal source restored \<or> column_close C rtol atol (l, r))" if l: "l \<in> set source" for l
  proof -
    from column_pairs_Inr [OF pairs l] obtain r' where "get_column restored (co_name l) = Inr r'" "(l, r') \<in> set pairs" by blast
    with masks close show ?thesis by (fastforce simp: list_ex_iff list_all_iff)
  qed
  then show "restores C rtol atol source restored"
    using d cols by (simp add: restores_def get_column_find)
  show "\<exists>es. ev = recorded_evidence C c identity restored (frame_equal source restored) es" using ev [symmetric] by blast
  show "check_type C parse source transformed c = Inr ()" using kind by (cases u) simp
  show "tc_validation_status c = ''PASS'' \<longrightarrow> same_dict (tc_validation_results c) ev" using same unfolding ev by blast
  show "tc_source_artifact_hash c = ce_table_hash C source" "tc_output_artifact_hash c = ce_table_hash C transformed"
    by (rule a)+
  show "tc_source_target_hash c = tc_output_target_hash c" by (rule b(1))
  show "identity = Some (configuration, implementation) \<Longrightarrow> tc_configuration_hash c = configuration
      \<and> tc_implementation_hash c = implementation" by (rule b(2))
  show "row_count transformed = row_count source" using d(1) by simp
  show "\<exists>c'. validate_certificate C c = Inr c'" using c' by blast
qed

section \<open>Certificates as they are issued\<close>

text \<open>Validation normalises hashes and the time only.\<close>

definition same_content :: "certificate \<Rightarrow> certificate \<Rightarrow> bool" where
  "same_content c d \<longleftrightarrow> tc_parameters d = tc_parameters c \<and> tc_validation_status d = tc_validation_status c
     \<and> tc_validation_results d = tc_validation_results c \<and> tc_view_id d = tc_view_id c
     \<and> tc_numerical_tolerance d = tc_numerical_tolerance c"

lemma certificate_hashes_keep: "certificate_hashes c = Inr d \<Longrightarrow> same_content c d"
  unfolding certificate_hashes_def bindr_Inr_iff sum.inject by (elim exE conjE) (auto simp: same_content_def)

lemma validate_certificate_keeps:
  assumes "validate_certificate C c = Inr d"
  shows "same_content c d"
proof -
  from assms obtain c1 c2 c3 t where c1: "guards (status_guards C c1) c1 = Inr d" "c1 = c2\<lparr>tc_created_at := t\<rparr>"
    and c2: "certificate_hashes c3 = Inr c2" and c3: "\<exists>gs. guards gs c = Inr c3"
    unfolding validate_certificate_def certificate_fields_def bindr_Inr_iff sum.inject by blast
  from certificate_hashes_keep [OF c2] guards_same [OF c1(1)] c1(2) c3 show ?thesis
    by (auto simp: same_content_def dest: guards_same)
qed

lemma build_certificate_Inr:
  assumes "build_certificate C tr source transformed part version strategy st ot status results reason = Inr c"
  shows "\<exists>meta. map_of VIEW_METADATA (vw_id (cf_view tr)) = Some meta
    \<and> tc_parameters c = own_parameters tr part meta \<and> tc_validation_status c = status \<and> tc_validation_results c = results
    \<and> tc_view_id c = vw_id (cf_view tr)
    \<and> tc_numerical_tolerance c = [(''rtol'', case cf_rtol tr of None \<Rightarrow> ce_rtol C | Some x \<Rightarrow> x),
        (''atol'', case cf_atol tr of None \<Rightarrow> ce_atol C | Some x \<Rightarrow> x)]"
proof -
  from assms obtain f where f: "cf_fitted tr = Some f" by (auto simp: build_certificate_def split: option.splits)
  from assms f obtain meta where m: "map_of VIEW_METADATA (vw_id (cf_view tr)) = Some meta"
    by (cases "map_of VIEW_METADATA (vw_id (cf_view tr))") (simp_all add: build_certificate_def)
  obtain a b r where abr: "meta = (a, b, r)" by (cases meta)
  from assms obtain c0 where "validate_certificate C c0 = Inr c" "tc_parameters c0 = own_parameters tr part meta"
      "tc_validation_status c0 = status" "tc_validation_results c0 = results" "tc_view_id c0 = vw_id (cf_view tr)"
      "tc_numerical_tolerance c0 = [(''rtol'', case cf_rtol tr of None \<Rightarrow> ce_rtol C | Some x \<Rightarrow> x),
        (''atol'', case cf_atol tr of None \<Rightarrow> ce_atol C | Some x \<Rightarrow> x)]"
    unfolding build_certificate_def f m abr option.case prod.case Let_def if_Inl_Inr_iff bindr_Inr_iff
    by (elim conjE exE) (erule that; simp add: abr)
  with validate_certificate_keeps [of C c0 c] m show ?thesis by (auto simp: same_content_def)
qed

lemma evidence_fields:
  "json_field ''reconstruction_exact'' (recorded_evidence C c identity restored exact es) = JBool exact"
  "json_field ''maximum_absolute_error'' (recorded_evidence C c identity restored exact es) = ce_float C (fst es)"
  by (simp_all add: json_field_def recorded_evidence_def)

lemma certificate_for_Inr:
  assumes "certificate_for C parse tr source transformed part version strategy st ot reason = Inr c"
  shows "\<exists>provisional restored es. cf_reconstruct tr provisional transformed = Inr restored
    \<and> tc_parameters provisional = tc_parameters c \<and> tc_view_id provisional = tc_view_id c
    \<and> tc_validation_status c = ''PASS''
    \<and> restores C (ce_rtol C) (ce_atol C) source restored
    \<and> json_field ''reconstruction_exact'' (tc_validation_results c) = JBool (frame_equal source restored)
    \<and> validate_roundtrip C parse (Some (cf_configuration_hash tr, cf_implementation_hash tr)) (ce_rtol C) (ce_atol C)
        source transformed restored c = Inr es"
proof -
  from assms obtain provisional restored evidence es where
      b1: "build_certificate C tr source transformed part version strategy st ot ''FAIL'' [(''provisional'', JBool True)] reason
        = Inr provisional"
    and r: "cf_reconstruct tr provisional transformed = Inr restored"
    and v1: "validate_roundtrip C parse (Some (cf_configuration_hash tr, cf_implementation_hash tr)) (ce_rtol C) (ce_atol C)
        source transformed restored provisional = Inr evidence"
    and b2: "build_certificate C tr source transformed part version strategy st ot ''PASS'' evidence reason = Inr c"
    and v2: "validate_roundtrip C parse (Some (cf_configuration_hash tr, cf_implementation_hash tr)) (ce_rtol C) (ce_atol C)
        source transformed restored c = Inr es"
    unfolding certificate_for_def Let_def if_Inl_Inr_iff bindr_Inr_iff sum.inject by blast
  from validate_roundtrip_Inr(2) [OF v1] have "json_field ''reconstruction_exact'' evidence = JBool (frame_equal source restored)"
    by (auto simp: evidence_fields)
  with build_certificate_Inr [OF b1] build_certificate_Inr [OF b2] validate_roundtrip_Inr(1) [OF v1] r v2
  show ?thesis by (intro exI [of _ provisional] exI [of _ restored] exI [of _ es]) auto
qed

section \<open>Identity\<close>

lemma identity_fields: "remove_provenance (certificate_json C c) = remove_provenance (certificate_json C
    (c\<lparr>tc_created_at := t, tc_source_commit := k\<rparr>))"
  by (simp add: certificate_json_def)

lemma remove_provenance_field:
  "k \<notin> {''created_at'', ''source_commit''} \<Longrightarrow>
   map_of (map (\<lambda>(k, v). (k, remove_provenance v)) (filter (\<lambda>(k, v). k \<notin> {''created_at'', ''source_commit''}) kvs)) k
   = map_option remove_provenance (map_of kvs k)"
  by (induction kvs) auto

lemma same_identity_field:
  assumes "canonicalize (remove_provenance (JObj as)) = canonicalize (remove_provenance (JObj bs))"
    and "k \<notin> {''created_at'', ''source_commit''}"
  shows "map_option (\<lambda>v. canonicalize (remove_provenance v)) (map_of as k)
    = map_option (\<lambda>v. canonicalize (remove_provenance v)) (map_of bs k)"
  using canonicalize_field [OF assms(1) [unfolded remove_provenance.simps], of k]
  by (simp only: remove_provenance_field [OF assms(2)] option.map_comp comp_def)

lemma dataset_json_inj [simp]: "canonicalize (remove_provenance (dataset_json a)) = canonicalize (remove_provenance (dataset_json b))
    \<longleftrightarrow> a = b"
  by (cases a; cases b) (simp_all add: dataset_json_def)

section \<open>Orders of the permutation controls\<close>

text \<open>Two records of the same items in two orders pass the check.\<close>

lemma index_orders_accepted:
  assumes "json_field ''forward_order'' (tc_parameters c) = order_json (map (index_of source) output)"
    and "json_field ''inverse_order'' (tc_parameters c) = order_json (map (index_of output) source)"
    and "distinct source" and "mset output = mset source"
  shows "validate_permutation C c = Inr ()"
proof -
  have dist: "distinct output" using assms(3) mset_eq_imp_distinct_iff [OF assms(4)] by blast
  have len: "length output = length source" using assms(4) by (rule mset_eq_length)
  note a = index_orders [OF assms(3,4)] and b = index_orders [OF dist assms(4) [symmetric]]
  show ?thesis
    unfolding validate_permutation_orders [OF assms(1,2)] length_map using a b len by metis
qed

lemma same_order_accepted:
  assumes "json_field ''forward_order'' (tc_parameters c) = order_json [0..<n]"
    and "json_field ''inverse_order'' (tc_parameters c) = order_json [0..<n]"
  shows "validate_permutation C c = Inr ()"
  unfolding validate_permutation_orders [OF assms] by simp

lemma row_orders:
  assumes "row_suitable F X" and "distinct (frame_columns X)" and "vw_transform (row_view F) f X part = Inr (Y, p)"
  shows "(\<exists>n. pa_forward_order p = [0..<n] \<and> pa_inverse_order p = [0..<n])
    \<or> (\<exists>(source :: string list) output. distinct source \<and> mset output = mset source \<and> pa_forward_order p = map (index_of source) output
         \<and> pa_inverse_order p = map (index_of output) source)"
proof (cases "part = ''train''")
  case False
  with assms(3) show ?thesis by (auto simp: row_view_def row_transform_def bindr_Inr_iff)
next
  case True
  let ?ord = "row_order F X (ft_dataset f) (ft_seed f)"
  from assms(3) True obtain source made where ids: "row_ids F X = Inr source" "row_ids F (take_rows X ?ord) = Inr made"
    and p: "pa_forward_order p = map (index_of source) made" "pa_inverse_order p = map (index_of made) source"
    by (auto simp: row_view_def row_transform_def bindr_Inr_iff Let_def)
  from ids(1) obtain c where c: "get_column X ROW_ID_COLUMN = Inr c" "source = map (fp_str F) (co_cells c)"
    by (auto simp: row_ids_def bindr_Inr_iff)
  from assms(1) c obtain names where names: "co_cells c = map CStr names" "distinct names" by (auto simp: row_suitable_def)
  have source: "source = names" using assms(1) names(1) c(2) by (simp add: row_suitable_def comp_def)
  have c': "c \<in> set X" "co_name c = ROW_ID_COLUMN" using get_column_Inr [OF c(1)] by simp_all
  have len: "length names = row_count X" using assms(1) c'(1) names(1) by (auto simp: row_suitable_def well_shaped_def)
  have perm: "mset ?ord = mset [0..<row_count X]" by (simp add: row_order_def)
  have small: "set ?ord = {..<row_count X}" unfolding mset_eq_setD [OF perm] by auto
  let ?c = "c\<lparr>co_cells := map (\<lambda>i. co_cells c ! i) ?ord\<rparr>"
  have "?c \<in> set (take_rows X ?ord)" using c'(1) by (auto simp: take_rows_def)
  with get_column_mem [of "take_rows X ?ord" ?c] assms(2) c'(2)
  have "get_column (take_rows X ?ord) ROW_ID_COLUMN = Inr ?c" by simp
  with ids(2) have "made = map (\<lambda>i. fp_str F (co_cells c ! i)) ?ord" by (simp add: row_ids_def comp_def)
  also have "\<dots> = map (\<lambda>i. names ! i) ?ord"
    using assms(1) names(1) small len by (auto simp: row_suitable_def)
  finally have "mset made = image_mset (\<lambda>i. names ! i) (mset ?ord)" by (simp only: mset_map)
  also have "\<dots> = mset (map (\<lambda>i. names ! i) [0..<row_count X])" by (simp only: perm mset_map)
  also have "map (\<lambda>i. names ! i) [0..<row_count X] = names" unfolding len [symmetric] by (rule map_nth)
  finally have "mset made = mset names" .
  then show ?thesis using names(2) unfolding p source by blast
qed

end
