(* ===== verification/Transformation_Properties.thy ===== *)
theory Transformation_Properties
  imports Expansion_Facts
begin

text \<open>
  The properties of the transformations, each with a witness where it has hypotheses.
\<close>

section \<open>Concrete objects\<close>

text \<open>Codec and pandas of a small world: one integer column beside the row ids.\<close>

definition demo_codec :: codec_params where
  "demo_codec = \<lparr>cp_frepr = (\<lambda>x. ''0.0''), cp_int = (\<lambda>j. None), cp_float = (\<lambda>j. None), cp_timestamp = (\<lambda>j. None),
     cp_numpy_int = (\<lambda>t i. Some i), cp_numpy_float = (\<lambda>t x. Some x), cp_loads = (\<lambda>s. None)\<rparr>"

definition demo_frames :: "(int \<Rightarrow> int) \<Rightarrow> frame_params" where
  "demo_frames double = \<lparr>fp_codec = demo_codec, fp_sha = (\<lambda>s. replicate 64 CHR ''0''),
     fp_numeric = (\<lambda>d. d = ''int64''), fp_integer = (\<lambda>d. d = ''int64''),
     fp_series = (\<lambda>d cs. Inr (map (\<lambda>c. case c of CInt t i \<Rightarrow> CInt d i | _ \<Rightarrow> c) cs)),
     fp_str = (\<lambda>c. case c of CStr s \<Rightarrow> s | _ \<Rightarrow> []), fp_row_text = (\<lambda>X i. show_nat i), fp_argsort = (\<lambda>ks. [0..<length ks]),
     fp_numeric_cells = (\<lambda>cs. Inr (map (\<lambda>c. None) cs)), fp_affine = Finite,
     fp_double = double, fp_bounds = (\<lambda>d. (- (2 ^ 63), 2 ^ 63))\<rparr>"

definition demo_table :: "int list \<Rightarrow> frame" where
  "demo_table xs = [\<lparr>co_name = ROW_ID_COLUMN, co_dtype = ''object'',
      co_cells = map (\<lambda>i. CStr (show_nat i)) [0..<length xs]\<rparr>,
    \<lparr>co_name = ''x'', co_dtype = ''int64'', co_cells = map (CInt ''int64'') xs\<rparr>]"

definition demo_schema :: feature_schema where
  "demo_schema = \<lparr>fs_columns = [ROW_ID_COLUMN, ''x''], fs_dtypes = [''object'', ''int64''], fs_numeric = [''x''],
     fs_categorical = [], fs_integer = [''x''], fs_row_id = ROW_ID_COLUMN, fs_categories = []\<rparr>"

definition demo_view_config :: view_config where
  "demo_view_config = \<lparr>vc_category_minimum = 2, vc_quotient_modulus = 10\<rparr>"

definition demo_split :: "(int \<Rightarrow> int) \<Rightarrow> view" where
  "demo_split double = quotient_view (demo_frames double) demo_view_config"

text \<open>What the quotient view computes on the table.\<close>

definition demo_split_params :: parameters where
  "demo_split_params = no_parameters\<lparr>pa_selected := [''x''], pa_generated := [''x__quotient'', ''x__remainder''],
     pa_modulus := 10, pa_source_columns := [ROW_ID_COLUMN, ''x''], pa_source_dtype := ''int64'',
     pa_source_dtypes := [(ROW_ID_COLUMN, ''object''), (''x'', ''int64'')]\<rparr>"

definition demo_fitted :: fitted where
  "demo_fitted = \<lparr>ft_dataset = DatasetInt 3, ft_seed = 1729, ft_schema = demo_schema, ft_params = demo_split_params,
     ft_partitions = []\<rparr>"

lemma demo_table_columns: "frame_columns (demo_table xs) = [ROW_ID_COLUMN, ''x'']"
  by (simp add: frame_columns_def demo_table_def)

lemma fresh_name: "base \<notin> set existing \<Longrightarrow> collision_safe_name base existing = base"
  by (simp add: collision_safe_name_def safe_name_loop.simps)

lemma demo_split_fit: "base_fit (demo_split double) None (demo_table xs) (DatasetInt 3) 1729 demo_schema = (Some demo_fitted, Inr ())"
proof -
  have "quotient_fit (demo_frames double) demo_view_config (demo_table xs) (DatasetInt 3) 1729 demo_schema = Inr demo_split_params"
    by (simp add: quotient_fit_def demo_schema_def pick_one_def selected_columns_def demo_table_columns fresh_name
        ROW_ID_COLUMN_def)
      (simp add: get_column_def of_option_def demo_table_def demo_split_params_def ROW_ID_COLUMN_def demo_view_config_def
        source_dtype_map_def Let_def)
  then show ?thesis
    by (simp add: base_fit_def validate_input_frame_def demo_table_columns demo_split_def quotient_view_def demo_fitted_def
        demo_schema_def ROW_ID_COLUMN_def TARGET_CODE_COLUMN_def TARGET_LABEL_COLUMN_def)
qed

lemma demo_rest: "demo_table xs = [\<lparr>co_name = ROW_ID_COLUMN, co_dtype = ''object'',
      co_cells = map (\<lambda>i. CStr (show_nat i)) [0..<length xs]\<rparr>] @ \<lparr>co_name = ''x'', co_dtype = ''int64'',
      co_cells = map (CInt ''int64'') xs\<rparr> # []"
  by (simp add: demo_table_def)

definition demo_output :: "int list \<Rightarrow> frame" where
  "demo_output xs = [\<lparr>co_name = ROW_ID_COLUMN, co_dtype = ''object'',
      co_cells = map (\<lambda>i. CStr (show_nat i)) [0..<length xs]\<rparr>,
    int64_column ''x__quotient'' (map (\<lambda>x. CInt ''Int64'' (int64 (x div 10))) xs),
    int64_column ''x__remainder'' (map (\<lambda>x. CInt ''Int64'' (int64 (x mod 10))) xs)]"

lemma demo_split_transform:
  assumes "part \<in> set partitions"
  shows "base_transform (demo_split double) (Some demo_fitted) (demo_table xs) part
    = (Some (demo_fitted\<lparr>ft_partitions := [(part, demo_split_params)]\<rparr>), Inr (demo_output xs))"
proof -
  have ints: "list_all integer_cell (map (CInt ''int64'') xs)" by (simp add: list_all_iff integer_cell_def)
  have x: "get_column (demo_table xs) ''x'' = Inr \<lparr>co_name = ''x'', co_dtype = ''int64'', co_cells = map (CInt ''int64'') xs\<rparr>"
    by (simp add: get_column_def of_option_def demo_table_def ROW_ID_COLUMN_def)
  have d: "drop_columns (demo_table xs) [''x''] = Inr (take 1 (demo_table xs))"
    by (simp add: drop_columns_def demo_table_columns) (simp add: demo_table_def ROW_ID_COLUMN_def)
  have "quotient_transform (demo_frames double) demo_fitted (demo_table xs) part = Inr (demo_output xs, demo_split_params)"
    by (simp add: quotient_transform_def demo_fitted_def x d ints demo_table_columns index_of_def
        demo_frames_def demo_split_params_def ROW_ID_COLUMN_def no_parameters_def)
      (simp add: insert_column_def demo_table_def frame_columns_def int64_column_def ROW_ID_COLUMN_def demo_output_def comp_def)
  then show ?thesis using assms
    by (simp add: base_transform_def validate_input_frame_def demo_table_columns demo_split_def quotient_view_def)
      (simp add: demo_fitted_def demo_schema_def validate_output_frame_def demo_output_def frame_columns_def int64_column_def
        ROW_ID_COLUMN_def TARGET_CODE_COLUMN_def TARGET_LABEL_COLUMN_def)
qed

section \<open>Lossless views\<close>

text \<open>The views without floating-point reconstruction, each with the tables it is suitable for.\<close>

definition lossless_views ::
  "frame_params \<Rightarrow> view_config \<Rightarrow> (view \<times> (frame \<Rightarrow> feature_schema \<Rightarrow> frame \<Rightarrow> bool)) list" where
  "lossless_views F cfg =
     [(identity_view, \<lambda>T s X. True), (category_view F cfg, category_suitable F), (onehot_view F cfg, onehot_suitable F),
      (duplicate_view F, \<lambda>T s X. True), (redundant_view F, \<lambda>T s X. True), (quotient_view F cfg, quotient_suitable F),
      (column_view F, \<lambda>T s X. True), (row_view F, \<lambda>T s X. row_suitable F X)]"

text \<open>Claim C1. The views without floating-point reconstruction are lossless: whatever table a fitted
  view transforms (fitted for the first time or again), reconstructing the result with the parameters recorded for the partition gives
  the table back, every column, row, cell and dtype in its place. The tables a view is suitable
  for hold what the view relies on (an exact codec, unique row ids, integers a double can hold).\<close>

theorem lossless_roundtrip:
  assumes "(V, suitable) \<in> set (lossless_views F cfg)" and "base_fit V old T ds seed s = (Some f, Inr ())"
    and "suitable T s X" and "base_transform V (Some f) X part = (st, Inr Y)"
  shows "\<exists>f'. st = Some f' \<and> base_reconstruct V st Y (vw_id V) (parameters_for f' part) = Inr X"
proof -
  from base_fit_fitted [OF assms(2)] have f: "fitted_on V T f" and s: "suitable T (ft_schema f) X"
    using assms(3) by simp_all
  have "lossless_view V suitable"
    using assms(1) identity.lossless_view_axioms categories.lossless_view_axioms onehots.lossless_view_axioms
      duplicates.lossless_view_axioms redundants.lossless_view_axioms quotients.lossless_view_axioms
      columns.lossless_view_axioms rows.lossless_view_axioms
    by (auto simp: lossless_views_def)
  from lossless_view.base_roundtrip [OF this f s assms(4)] show ?thesis .
qed

theorem lossless_roundtrip_witness:
  "\<exists>f'. Some (demo_fitted\<lparr>ft_partitions := [(''test'', demo_split_params)]\<rparr>) = Some f'
     \<and> base_reconstruct (demo_split (\<lambda>i. i)) (Some (demo_fitted\<lparr>ft_partitions := [(''test'', demo_split_params)]\<rparr>))
         (demo_output [17, - 3, 250]) (vw_id (demo_split (\<lambda>i. i))) (parameters_for f' ''test'')
       = Inr (demo_table [17, - 3, 250])"
proof (rule lossless_roundtrip [where old = None and T = "demo_table [1, 2]" and ds = "DatasetInt 3" and seed = 1729 and s = demo_schema])
  show "(demo_split (\<lambda>i. i), quotient_suitable (demo_frames (\<lambda>i. i)))
      \<in> set (lossless_views (demo_frames (\<lambda>i. i)) demo_view_config)"
    by (simp add: lossless_views_def demo_split_def)
  show "base_fit (demo_split (\<lambda>i. i)) None (demo_table [1, 2]) (DatasetInt 3) 1729 demo_schema = (Some demo_fitted, Inr ())"
    by (rule demo_split_fit)
  show "quotient_suitable (demo_frames (\<lambda>i. i)) (demo_table [1, 2]) demo_schema (demo_table [17, - 3, 250])"
    by (simp add: quotient_suitable_def demo_schema_def demo_frames_def demo_table_def ROW_ID_COLUMN_def int64_cell_def)
  show "base_transform (demo_split (\<lambda>i. i)) (Some demo_fitted) (demo_table [17, - 3, 250]) ''test''
      = (Some (demo_fitted\<lparr>ft_partitions := [(''test'', demo_split_params)]\<rparr>), Inr (demo_output [17, - 3, 250]))"
    by (rule demo_split_transform) (simp add: partitions_def)
qed

text \<open>Claim C36. Naming a generated column ends and never collides: the name is the base name itself when
  it is free, and otherwise the base with the smallest free suffix, which is at most the number
  of existing names.\<close>

theorem collision_safe_name_fresh:
  "collision_safe_name base existing \<notin> set existing
   \<and> (collision_safe_name base existing = base
      \<or> (\<exists>k \<le> length existing. 1 \<le> k \<and> base \<in> set existing \<and> collision_safe_name base existing = generated_name base k
           \<and> generated_name base ` {1..<k} \<subseteq> set existing))"
proof -
  have "\<exists>k \<le> length existing. 1 \<le> k \<and> base \<in> set existing \<and> collision_safe_name base existing = generated_name base k
      \<and> generated_name base ` {1..<k} \<subseteq> set existing"
    if "collision_safe_name base existing \<noteq> base"
  proof -
    from safe_name_loop_form [of base existing 1 base] that
    obtain k where k: "1 \<le> k" "collision_safe_name base existing = generated_name base k" "base \<in> set existing"
      "\<forall>j. 1 \<le> j \<and> j < k \<longrightarrow> generated_name base j \<in> set existing"
      by (auto simp: collision_safe_name_def)
    have sub: "insert base (generated_name base ` {1..<k}) \<subseteq> set existing" using k(3,4) by auto
    have "base \<notin> generated_name base ` {1..<k}" by (auto simp: generated_name_def)
    then have "card (insert base (generated_name base ` {1..<k})) = k"
      using k(1) by (simp add: card_image inj_on_def generated_name_inj)
    then have "k \<le> card (set existing)" using card_mono [OF _ sub] by simp
    then have "k \<le> length existing" using card_length [of existing] by simp
    with k sub show ?thesis by auto
  qed
  then show ?thesis using collision_safe_fresh by blast
qed

text \<open>Claim C37. A fitted category permutation moves every category: its forward table maps each of the
  training categories to a different one, no two to the same, and its inverse table undoes it.\<close>

theorem category_permutation_deranges:
  assumes "category_fit F cfg T ds seed s = Inr p" and "2 \<le> vc_category_minimum cfg" and "k \<in> set (pa_category_keys p)"
  shows "\<exists>l \<in> set (pa_category_keys p). map_of (pa_forward_keys p) k = Some l \<and> l \<noteq> k
    \<and> map_of (pa_inverse_keys p) l = Some k"
proof -
  obtain name c all_keys keys shift where keys: "keys = sort (remdups all_keys)" "vc_category_minimum cfg \<le> length keys"
    and p: "pa_category_keys p = keys" "pa_forward_keys p = forward_table keys shift" "pa_inverse_keys p = inverse_table keys shift"
    and shift: "2 \<le> length keys \<longrightarrow> shift = hex_prefix (choice_digest (fp_sha F) ds seed name) mod (length keys - 1) + 1"
    by (rule category_fit_Inr [OF assms(1)]) blast
  have two: "2 \<le> length keys" using assms(2) keys(2) by linarith
  with shift shift_bounds [OF two] have "0 < shift" "shift < length keys" by simp_all
  moreover have d: "distinct keys" by (simp add: keys(1))
  ultimately obtain l where l: "map_of (forward_table keys shift) k = Some l" "l \<in> set keys" "l \<noteq> k"
    using forward_no_fixpoint [OF d] assms(3) unfolding p(1) by blast
  with tables_inverse [OF d l(1)] show ?thesis by (auto simp: p)
qed

text \<open>A table with one categorical column of two values.\<close>

definition demo_flags :: frame where
  "demo_flags = [\<lparr>co_name = ROW_ID_COLUMN, co_dtype = ''object'', co_cells = [CStr ''0'', CStr ''1'']\<rparr>,
    \<lparr>co_name = ''c'', co_dtype = ''bool'', co_cells = [CBool True, CBool False]\<rparr>]"

definition flag_key :: "bool \<Rightarrow> string" where
  "flag_key b = canonical_text (encoded ''bool'' (JBool b))"

definition demo_flag_schema :: feature_schema where
  "demo_flag_schema = \<lparr>fs_columns = [ROW_ID_COLUMN, ''c''], fs_dtypes = [''object'', ''bool''], fs_numeric = [],
     fs_categorical = [''c''], fs_integer = [], fs_row_id = ROW_ID_COLUMN, fs_categories = []\<rparr>"

definition demo_flag_params :: parameters where
  "demo_flag_params = (case category_fit (demo_frames id) demo_view_config demo_flags (DatasetInt 3) 1729 demo_flag_schema of
     Inr p \<Rightarrow> p | Inl _ \<Rightarrow> no_parameters)"

lemma flag_keys: "length (sort (remdups [flag_key True, flag_key False])) = 2"
proof -
  have "flag_key True \<noteq> flag_key False" by (simp add: flag_key_def encoded_def canonical_text_def)
  then show ?thesis by simp
qed

lemma category_fit_run:
  assumes "pick_one F (fs_categorical s) ds seed ''no categorical feature is available'' = Inr name"
    and "get_column X name = Inr c" and "mapr (typed_value_key (fp_codec F)) (category_values s c) = Inr ks"
    and "vc_category_minimum cfg \<le> length (sort (remdups ks))" and "length (sort (remdups ks)) \<noteq> 1"
  shows "\<exists>p. category_fit F cfg X ds seed s = Inr p \<and> pa_category_keys p = sort (remdups ks)"
  using assms by (simp add: category_fit_def Let_def no_parameters_def del: length_sort length_remdups_card_conv)

lemma demo_flag_fit:
  "category_fit (demo_frames id) demo_view_config demo_flags (DatasetInt 3) 1729 demo_flag_schema = Inr demo_flag_params
   \<and> pa_category_keys demo_flag_params = sort (remdups [flag_key True, flag_key False])"
proof -
  have c: "get_column demo_flags ''c'' = Inr \<lparr>co_name = ''c'', co_dtype = ''bool'', co_cells = [CBool True, CBool False]\<rparr>"
    by (simp add: get_column_def of_option_def demo_flags_def ROW_ID_COLUMN_def)
  have k: "mapr (typed_value_key P) [CBool True, CBool False] = Inr [flag_key True, flag_key False]" for P
    by (simp add: typed_value_key_def flag_key_def)
  have pick: "pick_one F [''c''] ds seed m = Inr ''c''" for F ds seed m by (simp add: pick_one_def selected_columns_def)
  have v: "category_values demo_flag_schema \<lparr>co_name = ''c'', co_dtype = ''bool'', co_cells = [CBool True, CBool False]\<rparr>
      = [CBool True, CBool False]"
    by (simp add: category_values_def demo_flag_schema_def schema_categories_def)
  have "\<exists>p. category_fit (demo_frames id) demo_view_config demo_flags (DatasetInt 3) 1729 demo_flag_schema = Inr p
      \<and> pa_category_keys p = sort (remdups [flag_key True, flag_key False])"
    by (rule category_fit_run [OF _ c _ _]) (use pick v k flag_keys in \<open>simp_all add: demo_flag_schema_def demo_view_config_def\<close>)
  then show ?thesis unfolding demo_flag_params_def by auto
qed

theorem category_permutation_deranges_witness:
  "\<exists>l \<in> set (pa_category_keys demo_flag_params). map_of (pa_forward_keys demo_flag_params) (flag_key True) = Some l
    \<and> l \<noteq> flag_key True \<and> map_of (pa_inverse_keys demo_flag_params) l = Some (flag_key True)"
  by (rule category_permutation_deranges [OF demo_flag_fit [THEN conjunct1]])
    (simp_all add: demo_view_config_def demo_flag_fit)

section \<open>Quotient and remainder outside the doubles\<close>

lemma demo_reconstruct:
  assumes "- (2 ^ 63) \<le> x" and "x < 2 ^ 63" and "- (2 ^ 63) \<le> double x" and "double x < 2 ^ 63"
  shows "base_reconstruct (demo_split double) (Some demo_fitted) (demo_output [x]) ''V07'' demo_split_params
    = Inr (demo_table [double x])"
proof -
  let ?q = "int64_column ''x__quotient'' [CInt ''Int64'' (int64 (x div 10))]"
  let ?r = "int64_column ''x__remainder'' [CInt ''Int64'' (int64 (x mod 10))]"
  let ?id = "\<lparr>co_name = ROW_ID_COLUMN, co_dtype = ''object'', co_cells = [CStr (show_nat 0)]\<rparr>"
  have out: "demo_output [x] = [?id, ?q, ?r]" by (simp add: demo_output_def)
  have joined: "map2 (join_cell 10) (co_cells ?q) (co_cells ?r) = [CInt ''Int64'' x]"
    using join_split [OF assms(1,2), of 10] by (simp add: int64_column_def)
  have names: "frame_columns [?id, ?q, ?r] = [ROW_ID_COLUMN, ''x__quotient'', ''x__remainder'']"
    by (simp add: frame_columns_def int64_column_def)
  have get: "get_column [?id, ?q, ?r] ''x__quotient'' = Inr ?q" "get_column [?id, ?q, ?r] ''x__remainder'' = Inr ?r"
    by (simp_all add: get_column_def of_option_def int64_column_def ROW_ID_COLUMN_def)
  have d: "drop_columns [?id, ?q, ?r] [''x__quotient'', ''x__remainder''] = Inr [?id]"
    using drop_generated [of "[?q, ?r]" "[?id]" "[]"] by (simp add: frame_columns_def int64_column_def ROW_ID_COLUMN_def)
  have restored: "restore_series_dtype (demo_frames double) [CInt ''Int64'' x] ''int64'' = Inr [CInt ''int64'' (double x)]"
    using assms(3,4) by (simp add: restore_series_dtype_def demo_frames_def)
  have ins: "insert_column [?id] 1 \<lparr>co_name = ''x'', co_dtype = ''int64'', co_cells = [CInt ''int64'' (double x)]\<rparr>
      = Inr (demo_table [double x])"
    by (simp add: insert_column_def frame_columns_def ROW_ID_COLUMN_def demo_table_def)
  have sel: "select_columns (demo_table [double x]) [ROW_ID_COLUMN, ''x''] = Inr (demo_table [double x])"
    using select_all [of "demo_table [double x]"] by (simp add: demo_table_columns ROW_ID_COLUMN_def)
  have "quotient_reconstruct (demo_frames double) demo_split_params (demo_output [x]) = Inr (demo_table [double x])"
    unfolding quotient_reconstruct_def out
    using get joined d restored ins sel
    by (simp add: demo_split_params_def no_parameters_def of_option_def index_of_def ROW_ID_COLUMN_def)
  then show ?thesis
    by (simp add: base_reconstruct_def demo_split_def quotient_view_def validate_output_frame_def demo_table_columns
        out names demo_fitted_def demo_schema_def) (simp add: ROW_ID_COLUMN_def)
qed

text \<open>Claim C38. The quotient and remainder view is not lossless for integers a double cannot hold: the
  double nearest to 2^53 + 1 is 2^53 (ties go to the even one), and although the two columns of the
  view still determine 2^53 + 1, the reconstruction goes through that double and returns 2^53
  without an error.\<close>

theorem quotient_loses_large_integers:
  assumes "double (2 ^ 53 + 1) = 2 ^ 53"
  shows "base_fit (demo_split double) None (demo_table [2 ^ 53 + 1]) (DatasetInt 3) 1729 demo_schema = (Some demo_fitted, Inr ())
    \<and> snd (base_transform (demo_split double) (Some demo_fitted) (demo_table [2 ^ 53 + 1]) ''train'')
        = Inr (demo_output [2 ^ 53 + 1])
    \<and> join_cell 10 (CInt ''Int64'' (int64 ((2 ^ 53 + 1) div 10))) (CInt ''Int64'' (int64 ((2 ^ 53 + 1) mod 10)))
        = CInt ''Int64'' (2 ^ 53 + 1)
    \<and> base_reconstruct (demo_split double) (Some demo_fitted) (demo_output [2 ^ 53 + 1]) ''V07'' demo_split_params
        = Inr (demo_table [2 ^ 53])
    \<and> demo_table [2 ^ 53] \<noteq> demo_table [2 ^ 53 + 1]"
proof (intro conjI)
  let ?x = "2 ^ 53 + 1 :: int"
  show "base_fit (demo_split double) None (demo_table [?x]) (DatasetInt 3) 1729 demo_schema = (Some demo_fitted, Inr ())"
    by (rule demo_split_fit)
  show "snd (base_transform (demo_split double) (Some demo_fitted) (demo_table [?x]) ''train'') = Inr (demo_output [?x])"
    using demo_split_transform [of "''train''" double "[?x]"] by (simp only: partitions_def snd_conv list.set insert_iff simp_thms)
  show "join_cell 10 (CInt ''Int64'' (int64 (?x div 10))) (CInt ''Int64'' (int64 (?x mod 10))) = CInt ''Int64'' ?x"
    using join_split [of ?x 10] by (simp only: join_cell.simps cell.inject simp_thms) simp
  show "base_reconstruct (demo_split double) (Some demo_fitted) (demo_output [?x]) ''V07'' demo_split_params
      = Inr (demo_table [2 ^ 53])"
    using demo_reconstruct [of ?x double] by (simp only: assms) simp
  show "demo_table [2 ^ 53] \<noteq> demo_table [?x]" by (simp add: demo_table_def)
qed

theorem quotient_loses_large_integers_witness:
  "base_fit (demo_split (\<lambda>i. 2 * (i div 2))) None (demo_table [2 ^ 53 + 1]) (DatasetInt 3) 1729 demo_schema = (Some demo_fitted, Inr ())
    \<and> snd (base_transform (demo_split (\<lambda>i. 2 * (i div 2))) (Some demo_fitted) (demo_table [2 ^ 53 + 1]) ''train'')
        = Inr (demo_output [2 ^ 53 + 1])
    \<and> join_cell 10 (CInt ''Int64'' (int64 ((2 ^ 53 + 1) div 10))) (CInt ''Int64'' (int64 ((2 ^ 53 + 1) mod 10)))
        = CInt ''Int64'' (2 ^ 53 + 1)
    \<and> base_reconstruct (demo_split (\<lambda>i. 2 * (i div 2))) (Some demo_fitted) (demo_output [2 ^ 53 + 1]) ''V07''
        demo_split_params = Inr (demo_table [2 ^ 53])
    \<and> demo_table [2 ^ 53] \<noteq> demo_table [2 ^ 53 + 1]"
  by (rule quotient_loses_large_integers) simp

end
