(* ===== verification/Certificate_Properties.thy ===== *)
theory Certificate_Properties
  imports Certificate_Facts Transformation_Properties
begin

text \<open>
  The properties of transformation certificates, each with a witness where it has hypotheses.
\<close>

section \<open>A concrete certificate\<close>

text \<open>The identity view on a small table, with digests and floats of the simplest kind.\<close>

definition demo_cert :: cert_params where
  "demo_cert = \<lparr>ce_frames = demo_frames id\<lparr>fp_sha := (\<lambda>s. zero_hash)\<rparr>, ce_value = (\<lambda>s. Finite 0), ce_utc = Some,
     ce_table_hash = (\<lambda>X. zero_hash), ce_numeric_value = (\<lambda>v. case v of CInt t i \<Rightarrow> of_int i | _ \<Rightarrow> 0),
     ce_sub = (-), ce_ratio = (\<lambda>d v. 0), ce_bound = (\<lambda>a r v. a + r * v), ce_same_missing = (\<lambda>l r. True), ce_rtol = 0, ce_atol = 0,
     ce_commit = ''unknown'', ce_now = ''2024-01-01T00:00:00Z''\<rparr>"

definition demo_certified :: certified where
  "demo_certified = \<lparr>cf_view = identity_view, cf_fitted = Some demo_fitted, cf_parameters = (\<lambda>part.
       [(''selected_columns'', JArr []), (''generated_columns'', JArr []), (''operation'', JStr ''identity'')]),
     cf_rtol = None, cf_atol = None, cf_configuration_hash = zero_hash, cf_implementation_hash = zero_hash,
     cf_reconstruct = (\<lambda>c Y. Inr Y)\<rparr>"

definition demo_certificate :: "string \<Rightarrow> string \<Rightarrow> (string \<times> json) list \<Rightarrow> certificate" where
  "demo_certificate part status results = \<lparr>tc_schema_version = 2, tc_view_id = ''V00'', tc_view_name = ''identity'',
     tc_certificate_type = ''BIJECTION'', tc_scientific_role = ''CONTROL'', tc_dataset_id = DatasetInt 3,
     tc_dataset_version = ''local'', tc_seed = 1729, tc_split_strategy = ''stratified_group_5fold_v1'', tc_partition = part,
     tc_fit_scope = ''none'', tc_source_schema_hash = zero_hash, tc_output_schema_hash = zero_hash,
     tc_source_artifact_hash = zero_hash, tc_output_artifact_hash = zero_hash, tc_source_row_id_hash = zero_hash,
     tc_output_row_id_hash = zero_hash, tc_source_target_hash = Some zero_hash, tc_output_target_hash = Some zero_hash,
     tc_selected_columns = [], tc_generated_columns = [],
     tc_parameters = own_parameters demo_certified part (''identity'', ''BIJECTION'', ''CONTROL''),
     tc_inverse_parameters = [(''operation'', JStr ''reconstruct''),
       (''source_columns'', json_strings [ROW_ID_COLUMN, ''x'']), (''source_dtypes'', json_strings [''object'', ''int64'']),
       (''restored_schema_hash'', JStr zero_hash)],
     tc_missing_mask_policy = ''preserve_missing_masks_exactly'', tc_dtype_policy = ''restore_exact_source_dtypes'',
     tc_numerical_tolerance = [(''rtol'', 0), (''atol'', 0)], tc_configuration_hash = zero_hash,
     tc_implementation_hash = zero_hash, tc_source_commit = ''unknown'', tc_validation_status = status,
     tc_validation_results = results, tc_not_applicable_reason = None, tc_created_at = ''2024-01-01T00:00:00Z''\<rparr>"

definition demo_evidence :: "(string \<times> json) list" where
  "demo_evidence = recorded_evidence demo_cert (demo_certificate ''test'' ''FAIL'' []) (Some (zero_hash, zero_hash))
     (demo_table [1, 2]) True (0, 0)"

lemma lower_hash_zero [simp]: "lower_hash zero_hash = Inr zero_hash"
proof -
  have "map lower_char zero_hash = zero_hash" by (simp add: zero_hash_def lower_char_def)
  then show ?thesis using is_sha256_zero_hash by (simp add: lower_hash_def)
qed

lemma zero_hash_nonempty [simp]: "zero_hash \<noteq> []"
  by (simp add: zero_hash_def)

lemma demo_parameters:
  "own_parameters demo_certified part (''identity'', ''BIJECTION'', ''CONTROL'') =
     [(''selected_columns'', JArr []), (''generated_columns'', JArr []), (''operation'', JStr ''identity''),
      (''_configuration_hash'', JStr zero_hash), (''_implementation_hash'', JStr zero_hash), (''_view_id'', JStr ''V00''),
      (''_view_name'', JStr ''identity''), (''_certificate_type'', JStr ''BIJECTION''), (''_scientific_role'', JStr ''CONTROL'')]"
  by (simp add: own_parameters_def demo_certified_def identity_view_def)

lemma demo_hashes: "certificate_hashes (demo_certificate part status results) = Inr (demo_certificate part status results)"
  by (simp add: certificate_hashes_def demo_certificate_def optional_hash_def)

lemma test_partition: "''test'' \<in> set partitions"
  by (simp add: partitions_def)

lemma demo_fields:
  "part \<in> set partitions \<Longrightarrow> status \<in> {''PASS'', ''FAIL''} \<Longrightarrow> certificate_fields demo_cert (demo_certificate part status results) = Inr (demo_certificate part status results)"
  unfolding certificate_fields_def
  by (simp add: demo_hashes [simplified demo_certificate_def] demo_certificate_def demo_cert_def of_option_def partitions_def)
    blast

lemma demo_fail_valid:
  assumes "part \<in> set partitions"
  shows "validate_certificate demo_cert (demo_certificate part ''FAIL'' results) = Inr (demo_certificate part ''FAIL'' results)"
proof -
  have "guards (status_guards demo_cert (demo_certificate part ''FAIL'' results)) x = Inr x" for x :: certificate
    by (simp add: status_guards_def type_guards_def demo_certificate_def VIEW_METADATA_def demo_parameters json_field_def)
  then show ?thesis by (simp add: validate_certificate_def demo_fields [OF assms])
qed

lemma demo_pass_valid:
  assumes "part \<in> set partitions"
  shows "validate_certificate demo_cert (demo_certificate part ''PASS'' demo_evidence)
    = Inr (demo_certificate part ''PASS'' demo_evidence)"
proof -
  let ?c = "demo_certificate part ''PASS'' demo_evidence"
  have ev: "demo_evidence = [(''status'', JStr ''PASS''), (''row_count_preserved'', JBool True), (''row_ids_preserved'', JBool True),
      (''row_id_order_policy'', JStr ''ROW_ID_SET_PRESERVED''), (''target_hash_preserved'', JBool True),
      (''source_schema_hash'', JStr zero_hash), (''output_schema_hash'', JStr zero_hash),
      (''restored_schema_hash'', JStr zero_hash), (''missing_masks_preserved'', JBool True),
      (''reconstruction_exact'', JBool True), (''maximum_absolute_error'', JFloat ''0.0''),
      (''maximum_relative_error'', JFloat ''0.0''), (''configuration_hash_verified'', JBool True),
      (''implementation_hash_verified'', JBool True), (''certificate_type_verified'', JBool True)]"
    by (simp add: demo_evidence_def recorded_evidence_def demo_certificate_def demo_parameters VIEW_METADATA_def
        table_schema_hash_def sha256_canonical_json_def ce_sha_def demo_cert_def ce_float_def demo_frames_def demo_codec_def)
  have "guards (pass_guards demo_cert ?c) x = Inr x" for x :: certificate
    by (simp add: pass_guards_def demo_certificate_def ev json_field_def missing_text_def required_results_def
        verified_results_def error_results_def nonnegative_def Let_def) (simp add: demo_cert_def)
  then have "guards (status_guards demo_cert ?c) x = Inr x" for x :: certificate
    by (simp add: status_guards_def guards_append)
      (simp add: type_guards_def demo_certificate_def VIEW_METADATA_def demo_parameters json_field_def missing_text_def)
  then show ?thesis by (simp add: validate_certificate_def demo_fields [OF assms])
qed

lemma demo_build:
  assumes "validate_certificate demo_cert (demo_certificate part status results) = Inr (demo_certificate part status results)"
  shows "build_certificate demo_cert demo_certified (demo_table [1, 2]) (demo_table [1, 2]) part ''local''
    ''stratified_group_5fold_v1'' (Some zero_hash) (Some zero_hash) status results None = Inr (demo_certificate part status results)"
proof -
  have cf: "cf_fitted demo_certified = Some demo_fitted" "vw_id (cf_view demo_certified) = ''V00''"
    "vw_name (cf_view demo_certified) = ''identity''" "vw_type (cf_view demo_certified) = ''BIJECTION''"
    "cf_rtol demo_certified = None" "cf_atol demo_certified = None" "cf_configuration_hash demo_certified = zero_hash"
    "cf_implementation_hash demo_certified = zero_hash"
    by (simp_all add: demo_certified_def identity_view_def)
  have meta: "map_of VIEW_METADATA ''V00'' = Some (''identity'', ''BIJECTION'', ''CONTROL'')" by (simp add: VIEW_METADATA_def)
  have lists: "list_parameter ''selected_columns'' (own_parameters demo_certified part (''identity'', ''BIJECTION'', ''CONTROL'')) = Inr []"
    "list_parameter ''generated_columns'' (own_parameters demo_certified part (''identity'', ''BIJECTION'', ''CONTROL'')) = Inr []" for part
    by (simp_all add: list_parameter_def demo_parameters text_list_def)
  have ids: "row_id_hash demo_cert (demo_table [1, 2]) = Inr zero_hash"
    by (simp add: row_id_hash_def demo_table_columns)
      (simp add: select_columns_def get_column_def of_option_def demo_table_def demo_cert_def)
  have schema: "table_schema_hash demo_cert X = zero_hash" "ce_table_hash demo_cert X = zero_hash" for X
    by (simp_all add: table_schema_hash_def sha256_canonical_json_def ce_sha_def demo_cert_def)
  have fixed: "ce_rtol demo_cert = 0" "ce_atol demo_cert = 0" "ce_commit demo_cert = ''unknown''"
    "ce_now demo_cert = ''2024-01-01T00:00:00Z''" "map co_dtype (demo_table [1, 2]) = [''object'', ''int64'']"
    "ft_dataset demo_fitted = DatasetInt 3" "ft_seed demo_fitted = 1729"
    by (simp_all add: demo_cert_def demo_table_def demo_fitted_def)
  show ?thesis
    using assms unfolding demo_certificate_def
    by (simp add: build_certificate_def cf meta lists ids schema fixed demo_table_columns)
qed

lemma demo_check:
  assumes "validate_certificate demo_cert (demo_certificate part status results) = Inr (demo_certificate part status results)"
    and "status = ''PASS'' \<longrightarrow> results = demo_evidence"
  shows "validate_roundtrip demo_cert parse (Some (zero_hash, zero_hash)) 0 0 (demo_table [1, 2]) (demo_table [1, 2])
    (demo_table [1, 2]) (demo_certificate part status results) = Inr demo_evidence"
proof -
  let ?X = "demo_table [1, 2]" and ?c = "demo_certificate part status results"
  have ids: "row_id_hash demo_cert ?X = Inr zero_hash"
    by (simp add: row_id_hash_def demo_table_columns)
      (simp add: select_columns_def get_column_def of_option_def demo_table_def demo_cert_def)
  have schema: "table_schema_hash demo_cert X = zero_hash" "ce_table_hash demo_cert X = zero_hash" for X
    by (simp_all add: table_schema_hash_def sha256_canonical_json_def ce_sha_def demo_cert_def)
  have art: "guards (artifact_guards demo_cert ?c (Some (zero_hash, zero_hash)) 0 0 ?X ?X) () = Inr ()"
    by (simp add: artifact_guards_def demo_certificate_def schema json_field_def demo_parameters)
  have idg: "guards (identity_guards demo_cert ?c (Some (zero_hash, zero_hash)) zero_hash zero_hash) () = Inr ()"
    by (simp add: identity_guards_def demo_certificate_def json_field_def demo_parameters)
  obtain r where r: "get_column ?X ROW_ID_COLUMN = Inr r" "co_cells r = map (\<lambda>i. CStr (show_nat i)) [0..<2]"
    by (simp add: get_column_def of_option_def demo_table_def upt_rec)
  have tab: "guards (table_guards demo_cert ?c ?X ?X ?X (co_cells r) (co_cells r) (co_cells r)) () = Inr ()"
    by (simp add: table_guards_def schema r(2) distinct_map comp_inj_on inj_on_def show_nat_inj) (simp add: demo_certificate_def)
  have pairs: "column_pairs ?X ?X = Inr (map (\<lambda>c. (c, c)) ?X)"
  proof -
    have "mapr (\<lambda>l. get_column ?X (co_name l)) ?X = Inr (map (\<lambda>l. l) ?X)"
      by (rule mapr_map, rule get_column_mem) (simp_all add: demo_table_columns ROW_ID_COLUMN_def)
    then show ?thesis by (simp add: column_pairs_def zip_same_conv_map)
  qed
  have errors: "maximum_errors demo_cert (map (\<lambda>c. (c, c)) ?X) = (0, 0)"
    by (simp add: maximum_errors_def column_errors_def numeric_pair_def present_pairs_def float_difference_def demo_table_def
        demo_cert_def demo_frames_def)
  have typ_ok: "check_type demo_cert parse ?X ?X ?c = Inr ()" by (simp add: check_type_def demo_certificate_def)
  have ev: "recorded_evidence demo_cert ?c (Some (zero_hash, zero_hash)) ?X True (0, 0) = demo_evidence"
    by (simp add: recorded_evidence_def demo_evidence_def demo_certificate_def VIEW_METADATA_def demo_parameters)
  have masks: "\<not> list_ex (\<lambda>(l, r). missing_mask l \<noteq> missing_mask r) (map (\<lambda>c. (c, c)) ?X)"
    by (simp add: list_ex_iff)
  have res: "tc_validation_status ?c = status" "tc_validation_results ?c = results" by (simp_all add: demo_certificate_def)
  have eq: "frame_equal ?X ?X" by (simp add: frame_equal_def)
  have same: "same_dict demo_evidence demo_evidence" by (simp add: same_dict_def list_all_iff)
  show ?thesis
    unfolding validate_roundtrip_def assms(1) bindr_simps art ids idg r(1) tab pairs Let_def errors typ_ok
    using masks assms(2) ev res same eq by simp
qed

section \<open>Properties\<close>

text \<open>Claim C10. A certificate the engine issues is honest: its status is PASS, and the table the transformation
  reconstructed from its own parameters has the columns, the rows in their order and the missing
  values of the source; it either equals the source (names, dtypes and Python values), or every categorical column does
  and every numeric one is within the tolerance, and which of the two it is stands in the certificate. The
  certificate is bound to the digests of source and output, to equal targets, and to the
  configuration and the implementation of the transformation.\<close>

theorem certificate_sound:
  assumes "certificate_for C parse tr source transformed part version strategy st ot reason = Inr c"
  shows "tc_validation_status c = ''PASS''
    \<and> (\<exists>provisional restored. cf_reconstruct tr provisional transformed = Inr restored
        \<and> tc_parameters provisional = tc_parameters c \<and> restores C (ce_rtol C) (ce_atol C) source restored
        \<and> json_field ''reconstruction_exact'' (tc_validation_results c) = JBool (frame_equal source restored))
    \<and> tc_source_artifact_hash c = ce_table_hash C source \<and> tc_output_artifact_hash c = ce_table_hash C transformed
    \<and> tc_source_target_hash c = tc_output_target_hash c \<and> tc_configuration_hash c = cf_configuration_hash tr
    \<and> tc_implementation_hash c = cf_implementation_hash tr \<and> row_count transformed = row_count source"
proof -
  from certificate_for_Inr [OF assms] obtain provisional restored es where
    facts: "cf_reconstruct tr provisional transformed = Inr restored" "tc_parameters provisional = tc_parameters c"
      "tc_validation_status c = ''PASS''" "restores C (ce_rtol C) (ce_atol C) source restored"
      "json_field ''reconstruction_exact'' (tc_validation_results c) = JBool (frame_equal source restored)"
    and v: "validate_roundtrip C parse (Some (cf_configuration_hash tr, cf_implementation_hash tr)) (ce_rtol C) (ce_atol C)
        source transformed restored c = Inr es" by blast
  note bound = validate_roundtrip_Inr(3,4,5,7) [OF v] validate_roundtrip_Inr(6) [OF v refl]
  with facts show ?thesis by blast
qed

theorem certificate_sound_witness:
  "tc_validation_status (demo_certificate ''test'' ''PASS'' demo_evidence) = ''PASS''
    \<and> (\<exists>provisional restored. cf_reconstruct demo_certified provisional (demo_table [1, 2]) = Inr restored
        \<and> tc_parameters provisional = tc_parameters (demo_certificate ''test'' ''PASS'' demo_evidence)
        \<and> restores demo_cert (ce_rtol demo_cert) (ce_atol demo_cert) (demo_table [1, 2]) restored
        \<and> json_field ''reconstruction_exact'' (tc_validation_results (demo_certificate ''test'' ''PASS'' demo_evidence))
            = JBool (frame_equal (demo_table [1, 2]) restored))
    \<and> tc_source_artifact_hash (demo_certificate ''test'' ''PASS'' demo_evidence) = ce_table_hash demo_cert (demo_table [1, 2])
    \<and> tc_output_artifact_hash (demo_certificate ''test'' ''PASS'' demo_evidence) = ce_table_hash demo_cert (demo_table [1, 2])
    \<and> tc_source_target_hash (demo_certificate ''test'' ''PASS'' demo_evidence)
        = tc_output_target_hash (demo_certificate ''test'' ''PASS'' demo_evidence)
    \<and> tc_configuration_hash (demo_certificate ''test'' ''PASS'' demo_evidence) = cf_configuration_hash demo_certified
    \<and> tc_implementation_hash (demo_certificate ''test'' ''PASS'' demo_evidence) = cf_implementation_hash demo_certified
    \<and> row_count (demo_table [1, 2]) = row_count (demo_table [1, 2])"
proof (rule certificate_sound)
  have cf: "cf_configuration_hash demo_certified = zero_hash" "cf_implementation_hash demo_certified = zero_hash"
    "cf_reconstruct demo_certified c Y = Inr Y" "ce_rtol demo_cert = 0" "ce_atol demo_cert = 0" for c Y
    by (simp_all add: demo_certified_def demo_cert_def)
  show "certificate_for demo_cert (\<lambda>j. Inl (ValueError [])) demo_certified (demo_table [1, 2]) (demo_table [1, 2]) ''test''
      ''local'' ''stratified_group_5fold_v1'' (Some zero_hash) (Some zero_hash) None
      = Inr (demo_certificate ''test'' ''PASS'' demo_evidence)"
    by (simp add: certificate_for_def cf demo_build [OF demo_fail_valid [OF test_partition]] demo_build [OF demo_pass_valid [OF test_partition]]
        demo_check [OF demo_fail_valid [OF test_partition]] demo_check [OF demo_pass_valid [OF test_partition]])
qed

text \<open>The permutation controls issue complete evidence: whatever table a fitted column or row
  permutation transforms, the forward and inverse orders it records are permutations inverse to
  each other, so the permutation check of every certificate that carries them succeeds.\<close>

theorem permutation_evidence_accepted:
  assumes "V = column_view F \<or> V = row_view F \<and> row_suitable F X" and "base_fit V old T ds seed s = (Some f, Inr ())"
    and "base_transform V (Some f) X part = (st, Inr Y)" and "st = Some f'"
    and "json_field ''forward_order'' (tc_parameters c) = order_json (pa_forward_order (parameters_for f' part))"
    and "json_field ''inverse_order'' (tc_parameters c) = order_json (pa_inverse_order (parameters_for f' part))"
  shows "validate_permutation C c = Inr ()"
proof -
  from base_transform_Inr [OF assms(3)] assms(4) obtain p where p: "vw_transform V f X part = Inr (Y, p)"
      "parameters_for f' part = p" and cols: "frame_columns X = fs_columns (ft_schema f)" by auto
  note orders = assms(5,6) [unfolded p(2)]
  from base_fit_fitted [OF assms(2)] have f: "fitted_on V T f" by simp
  then have T: "distinct (frame_columns T)" "frame_columns X = frame_columns T" unfolding fitted_on_def cols by auto
  from assms(1) show ?thesis
  proof (elim disjE conjE)
    assume V: "V = column_view F"
    let ?ord = "column_order (fp_sha F) T (ft_dataset f) (ft_seed f)"
    have q: "p = ft_params f" using p(1) by (auto simp: V column_view_def column_transform_def bindr_Inr_iff)
    have "column_fit F T (ft_dataset f) (ft_seed f) (ft_schema f) = Inr p"
      using f unfolding q by (simp add: fitted_on_def V column_view_def)
    then have "pa_forward_order p = map (index_of (frame_columns T)) ?ord"
        "pa_inverse_order p = map (index_of ?ord) (frame_columns T)"
      by (auto simp: column_fit_def Let_def no_parameters_def)
    with orders index_orders_accepted [OF _ _ T(1) column_order_perm [OF T(1)]] show ?thesis by simp
  next
    assume V: "V = row_view F" and suit: "row_suitable F X"
    have "distinct (frame_columns X)" using T by simp
    from row_orders [OF suit this p(1) [unfolded V]] orders index_orders_accepted same_order_accepted
    show ?thesis by metis
  qed
qed

definition demo_order :: fitted where
  "demo_order = demo_fitted\<lparr>ft_params := no_parameters\<lparr>pa_selected := [''x''],
     pa_source_columns := [ROW_ID_COLUMN, ''x''], pa_permuted := [ROW_ID_COLUMN, ''x''],
     pa_forward_order := [0, 1], pa_inverse_order := [0, 1]\<rparr>\<rparr>"

lemma demo_order_fit: "base_fit (column_view (demo_frames id)) None (demo_table xs) (DatasetInt 3) 1729 demo_schema = (Some demo_order, Inr ())"
proof -
  have ord: "column_order sha (demo_table xs) ds seed = [ROW_ID_COLUMN, ''x'']" for sha ds seed
    by (simp add: column_order_def demo_table_columns) (simp add: ROW_ID_COLUMN_def)
  show ?thesis
    by (simp add: base_fit_def validate_input_frame_def demo_table_columns column_view_def column_fit_def ord Let_def
        demo_order_def demo_fitted_def demo_schema_def index_of_def no_parameters_def)
      (simp add: ROW_ID_COLUMN_def TARGET_CODE_COLUMN_def TARGET_LABEL_COLUMN_def)
qed

lemma demo_order_transform:
  "base_transform (column_view (demo_frames id)) (Some demo_order) (demo_table xs) ''train''
    = (Some (demo_order\<lparr>ft_partitions := [(''train'', ft_params demo_order)]\<rparr>), Inr (demo_table xs))"
proof -
  have sel: "select_columns (demo_table xs) [ROW_ID_COLUMN, ''x''] = Inr (demo_table xs)"
    using select_all [of "demo_table xs"] by (simp add: demo_table_columns ROW_ID_COLUMN_def)
  have params: "pa_permuted (ft_params demo_order) = [ROW_ID_COLUMN, ''x'']" "ft_partitions demo_order = []"
    "fs_columns (ft_schema demo_order) = [ROW_ID_COLUMN, ''x'']"
    by (simp_all add: demo_order_def demo_fitted_def demo_schema_def no_parameters_def)
  show ?thesis
    by (simp add: base_transform_def validate_input_frame_def validate_output_frame_def demo_table_columns column_view_def
        column_transform_def sel params partitions_def)
      (simp add: ROW_ID_COLUMN_def TARGET_CODE_COLUMN_def TARGET_LABEL_COLUMN_def)
qed

theorem permutation_evidence_accepted_witness:
  "validate_permutation demo_cert (demo_certificate ''test'' ''FAIL'' []\<lparr>tc_parameters :=
     [(''forward_order'', order_json [0, 1]), (''inverse_order'', order_json [0, 1])]\<rparr>) = Inr ()"
  by (rule permutation_evidence_accepted [OF disjI1 [OF refl] demo_order_fit demo_order_transform refl])
    (simp_all add: json_field_def parameters_for_def, simp_all add: demo_order_def)

text \<open>The identity of a certificate does not depend on when or from which commit it was made,
  and it binds what it certifies: certificates with the same identity have the same view, data
  set, seed, partition, tables, configuration, implementation and status, unless SHA-256 collides
  on their canonical texts.\<close>

theorem certificate_identity_binds:
  assumes "wf_json (remove_provenance (certificate_json C c))" and "wf_json (remove_provenance (certificate_json C d))"
  shows "certificate_identity_hash C (c\<lparr>tc_created_at := t, tc_source_commit := k\<rparr>) = certificate_identity_hash C c
    \<and> (certificate_identity_hash C c = certificate_identity_hash C d \<longrightarrow>
        (\<exists>x y. x \<noteq> y \<and> ce_sha C x = ce_sha C y)
        \<or> (tc_view_id c = tc_view_id d \<and> tc_dataset_id c = tc_dataset_id d \<and> tc_seed c = tc_seed d
           \<and> tc_partition c = tc_partition d \<and> tc_source_artifact_hash c = tc_source_artifact_hash d
           \<and> tc_output_artifact_hash c = tc_output_artifact_hash d
           \<and> tc_configuration_hash c = tc_configuration_hash d
           \<and> tc_implementation_hash c = tc_implementation_hash d
           \<and> tc_validation_status c = tc_validation_status d))"
proof (intro conjI impI)
  show "certificate_identity_hash C (c\<lparr>tc_created_at := t, tc_source_commit := k\<rparr>) = certificate_identity_hash C c"
    by (simp only: certificate_identity_hash_def identity_fields [symmetric])
  assume eq: "certificate_identity_hash C c = certificate_identity_hash C d"
  let ?r = "\<lambda>c. remove_provenance (certificate_json C c)"
  have "ce_sha C (canonical_text (?r c)) = ce_sha C (canonical_text (?r d))"
    using eq by (simp only: certificate_identity_hash_def sha256_canonical_json_def)
  then consider "\<exists>x y. x \<noteq> y \<and> ce_sha C x = ce_sha C y" | "canonical_text (?r c) = canonical_text (?r d)" by blast
  then show "(\<exists>x y. x \<noteq> y \<and> ce_sha C x = ce_sha C y)
        \<or> (tc_view_id c = tc_view_id d \<and> tc_dataset_id c = tc_dataset_id d \<and> tc_seed c = tc_seed d
           \<and> tc_partition c = tc_partition d \<and> tc_source_artifact_hash c = tc_source_artifact_hash d
           \<and> tc_output_artifact_hash c = tc_output_artifact_hash d
           \<and> tc_configuration_hash c = tc_configuration_hash d
           \<and> tc_implementation_hash c = tc_implementation_hash d
           \<and> tc_validation_status c = tc_validation_status d)"
  proof cases
    case 2
    with canonical_text_inj [OF assms] have "canonicalize (?r c) = canonicalize (?r d)" by simp
    note field = same_identity_field [OF this [unfolded certificate_json_def]]
    show ?thesis
      using field [of "''view_id''"] field [of "''dataset_id''"] field [of "''seed''"] field [of "''partition''"]
        field [of "''source_artifact_hash''"] field [of "''output_artifact_hash''"] field [of "''configuration_hash''"]
        field [of "''implementation_hash''"] field [of "''validation_status''"]
      by simp
  qed simp
qed

theorem certificate_identity_binds_witness:
  "certificate_identity_hash demo_cert ((demo_certificate ''test'' ''FAIL'' [])\<lparr>tc_created_at := ''later'', tc_source_commit := ''other''\<rparr>)
      = certificate_identity_hash demo_cert (demo_certificate ''test'' ''FAIL'' [])
    \<and> ((\<exists>x y. x \<noteq> y \<and> ce_sha demo_cert x = ce_sha demo_cert y) \<or> ''FAIL'' = ''PASS'')"
proof -
  have wf: "wf_json (remove_provenance (certificate_json demo_cert (demo_certificate ''test'' status [])))" for status
    by (simp add: certificate_json_def demo_certificate_def demo_parameters dataset_json_def json_strings_def json_text_option_def
        ce_float_def demo_cert_def demo_frames_def demo_codec_def float_text_def num_char_def is_digit_def)
  have eq: "certificate_identity_hash demo_cert c = certificate_identity_hash demo_cert d" for c d
    by (simp add: certificate_identity_hash_def sha256_canonical_json_def ce_sha_def demo_cert_def)
  have status: "tc_validation_status (demo_certificate ''test'' status results) = status" for status results
    by (simp add: demo_certificate_def)
  from certificate_identity_binds [OF wf [of "''FAIL''"] wf [of "''PASS''"], of "''later''" "''other''"] eq
  show ?thesis unfolding status by blast
qed

end
