(* ===== verification/Inventory_Properties.thy ===== *)
theory Inventory_Properties
  imports Transform_Inventory Certificate_Properties Transformation_Properties
begin

text \<open>
  The properties of the validation inventory and of the registry of views, each with a witness where
  it has hypotheses.
\<close>

section \<open>Records\<close>

lemma validate_record_same: "validate_record r = Inr q \<Longrightarrow> q = r"
  by (simp add: validate_record_def guards_Inr_iff)

text \<open>The guards of a record, as one formula.\<close>

lemma record_guards:
  "guards ([(a0, e0), (a1, e1), (a2, e2), (a3, e3), (a4, e4), (a5, e5), (a6, e6)]
      @ (if p then [(b1, f1), (b2, f2), (b3, f3), (b4, f4), (b5, f5)] else []) @ [(c, g)]) x = Inr y
   \<longleftrightarrow> y = x \<and> \<not> a0 \<and> \<not> a1 \<and> \<not> a2 \<and> \<not> a3 \<and> \<not> a4 \<and> \<not> a5 \<and> \<not> a6
     \<and> (p \<longrightarrow> \<not> b1 \<and> \<not> b2 \<and> \<not> b3 \<and> \<not> b4 \<and> \<not> b5) \<and> \<not> c"
  by (cases p) auto

lemma validated_record:
  assumes "validate_record r = Inr q"
  shows "ir_status r \<in> {''PASS'', ''N/A'', ''FAIL''}"
    and "ir_applicability r \<in> {''APPLICABLE'', ''NOT_APPLICABLE''}"
    and "ir_status r = ''N/A'' \<longleftrightarrow> ir_applicability r = ''NOT_APPLICABLE''"
    and "ir_status r = ''PASS'' \<Longrightarrow> length (ir_certificate_ids r) = 3 \<and> ir_deterministic r = Some True"
    and "ir_status r = ''N/A'' \<Longrightarrow> \<not> missing_text (ir_reason_code r)"
    and "\<not> negative_option (ir_max_abs_error r)"
proof -
  note r = assms [unfolded validate_record_def record_guards]
  show "ir_status r \<in> {''PASS'', ''N/A'', ''FAIL''}" "ir_applicability r \<in> {''APPLICABLE'', ''NOT_APPLICABLE''}"
    "ir_status r = ''PASS'' \<Longrightarrow> length (ir_certificate_ids r) = 3 \<and> ir_deterministic r = Some True"
    "ir_status r = ''N/A'' \<Longrightarrow> \<not> missing_text (ir_reason_code r)" "\<not> negative_option (ir_max_abs_error r)"
    using r by blast+
  from r have "ir_status r = ''N/A'' \<longrightarrow> ir_applicability r = ''NOT_APPLICABLE''"
      "ir_status r \<noteq> ''N/A'' \<longrightarrow> ir_applicability r = ''APPLICABLE''" by blast+
  then show "ir_status r = ''N/A'' \<longleftrightarrow> ir_applicability r = ''NOT_APPLICABLE''"
    by (cases "ir_status r = ''N/A''") simp_all
qed

lemma record_tuples:
  "record_tuple (blank_record P ds seed v) = (ds, seed, fst v)"
  "record_tuple (passed_record P ds seed v runs) = (ds, seed, fst v)"
  "record_tuple (failed_record P ds seed v e) = (ds, seed, fst v)"
  "record_tuple ((blank_record P ds seed v)\<lparr>ir_reason_code := a, ir_reason := b\<rparr>) = (ds, seed, fst v)"
  by (simp_all add: record_tuple_def blank_record_def passed_record_def failed_record_def Let_def)

lemma view_record_Inr:
  assumes "view_record P ds seed v = Inr r"
  shows "record_tuple r = (ds, seed, fst v) \<and> validate_record r = Inr r"
proof -
  from assms have "\<exists>q. validate_record q = Inr r \<and> record_tuple q = (ds, seed, fst v)"
    unfolding view_record_def by (auto simp: bindr_Inr_iff record_tuples split: if_splits sum.splits)
  then show ?thesis using validate_record_same by blast
qed

lemma mapr_Inr_map: "\<lbrakk>mapr f xs = Inr ys; \<And>x y. f x = Inr y \<Longrightarrow> g y = h x\<rbrakk> \<Longrightarrow> map g ys = map h xs"
  by (induction xs arbitrary: ys) (auto simp: bindr_Inr_iff)

lemma mapr_Inr_ball: "\<lbrakk>mapr f xs = Inr ys; \<And>x y. f x = Inr y \<Longrightarrow> Q y; y \<in> set ys\<rbrakk> \<Longrightarrow> Q y"
  by (induction xs arbitrary: ys) (auto simp: bindr_Inr_iff)

lemma view_of_config_Inr:
  assumes "bindr (config_view str c view_id) (view_record P ds seed) = Inr r"
  shows "record_tuple r = (ds, seed, view_id) \<and> validate_record r = Inr r"
proof -
  from assms obtain v where v: "config_view str c view_id = Inr v" and r: "view_record P ds seed v = Inr r"
    unfolding bindr_Inr_iff by blast
  from v have "fst v = view_id" by (auto simp: config_view_def bindr_Inr_iff)
  with view_record_Inr [OF r] show ?thesis by simp
qed

lemma dataset_seed_records_Inr:
  assumes "dataset_seed_records P str c x = Inr rs"
  shows "map record_tuple rs = map (\<lambda>v. (fst x, snd x, v)) FROZEN_VIEW_IDS \<and> (\<forall>r \<in> set rs. validate_record r = Inr r)"
proof
  note rs = assms [unfolded dataset_seed_records_def]
  show "map record_tuple rs = map (\<lambda>v. (fst x, snd x, v)) FROZEN_VIEW_IDS"
    by (rule mapr_Inr_map [OF rs]) (rule view_of_config_Inr [THEN conjunct1])
  show "\<forall>r \<in> set rs. validate_record r = Inr r"
    by (rule ballI, rule mapr_Inr_ball [OF rs]) (rule view_of_config_Inr [THEN conjunct2])
qed

lemma product_triples:
  "concat (map (\<lambda>x. map (\<lambda>v. (fst x, snd x, v)) zs) (List.product xs ys)) = List.product xs (List.product ys zs)"
proof (induction xs)
  case (Cons x xs)
  have "concat (map (\<lambda>y. map (\<lambda>v. (x, y, v)) zs) ys) = map (Pair x) (List.product ys zs)"
    by (induction ys) simp_all
  with Cons show ?case by (simp add: comp_def)
qed simp

lemma all_records_Inr:
  assumes "all_records P str c = Inr rs"
  shows "map record_tuple rs = frozen_tuples" and "r \<in> set rs \<Longrightarrow> validate_record r = Inr r"
proof -
  from assms obtain rss where rss: "mapr (dataset_seed_records P str c) (List.product FROZEN_DATASET_IDS FROZEN_SEEDS) = Inr rss"
    and rs: "rs = concat rss" by (auto simp: all_records_def bindr_Inr_iff)
  have "map (map record_tuple) rss = map (\<lambda>x. map (\<lambda>v. (fst x, snd x, v)) FROZEN_VIEW_IDS)
      (List.product FROZEN_DATASET_IDS FROZEN_SEEDS)"
    by (rule mapr_Inr_map [OF rss]) (rule dataset_seed_records_Inr [THEN conjunct1])
  then have "map record_tuple rs = concat (map (\<lambda>x. map (\<lambda>v. (fst x, snd x, v)) FROZEN_VIEW_IDS)
      (List.product FROZEN_DATASET_IDS FROZEN_SEEDS))"
    by (simp only: rs map_concat)
  also have "\<dots> = frozen_tuples"
    by (simp only: frozen_tuples_def product_triples)
  finally show "map record_tuple rs = frozen_tuples" .
  show "validate_record r = Inr r" if "r \<in> set rs"
  proof -
    from that rs obtain ys where ys: "ys \<in> set rss" "r \<in> set ys" by auto
    have "\<forall>r \<in> set ys. validate_record r = Inr r"
      by (rule mapr_Inr_ball [OF rss _ ys(1)]) (rule dataset_seed_records_Inr [THEN conjunct2])
    with ys(2) show ?thesis by blast
  qed
qed

lemma frozen_lists:
  "length FROZEN_DATASET_IDS = 14" "length FROZEN_SEEDS = 5" "length FROZEN_VIEW_IDS = 11"
  "distinct FROZEN_DATASET_IDS" "distinct FROZEN_SEEDS" "distinct FROZEN_VIEW_IDS"
  by (simp_all add: FROZEN_DATASET_IDS_def FROZEN_SEEDS_def FROZEN_VIEW_IDS_def)

lemma frozen_tuples_facts: "length frozen_tuples = 770" "distinct frozen_tuples"
  by (simp_all add: frozen_tuples_def distinct_product length_product frozen_lists)

section \<open>Counts\<close>

lemma status_counts:
  assumes "\<And>r. r \<in> set rs \<Longrightarrow> validate_record r = Inr r"
  shows "int (length (filter (\<lambda>r. ir_applicability r = ''NOT_APPLICABLE'') rs)) = count_status ''N/A'' rs"
    and "int (length (filter (\<lambda>r. ir_applicability r = ''APPLICABLE'') rs)) = count_status ''PASS'' rs + count_status ''FAIL'' rs"
    and "int (length rs) = count_status ''PASS'' rs + count_status ''FAIL'' rs + count_status ''N/A'' rs"
proof -
  have na: "(ir_applicability r = ''NOT_APPLICABLE'') = (ir_status r = ''N/A'')" if "r \<in> set rs" for r
    using validated_record(3) [OF assms [OF that]] by simp
  have ap: "(ir_applicability r = ''APPLICABLE'') = (ir_status r = ''PASS'' \<or> ir_status r = ''FAIL'')" if "r \<in> set rs" for r
    using validated_record(1,2,3) [OF assms [OF that]] by auto
  show "int (length (filter (\<lambda>r. ir_applicability r = ''NOT_APPLICABLE'') rs)) = count_status ''N/A'' rs"
    unfolding count_status_def using na by (simp cong: filter_cong)
  have split: "length (filter (\<lambda>r. ir_status r = a \<or> ir_status r = b) rs)
      = length (filter (\<lambda>r. ir_status r = a) rs) + length (filter (\<lambda>r. ir_status r = b) rs)" if "a \<noteq> b" for a b
    using that by (induction rs) auto
  show *: "int (length (filter (\<lambda>r. ir_applicability r = ''APPLICABLE'') rs)) = count_status ''PASS'' rs + count_status ''FAIL'' rs"
    unfolding count_status_def using ap by (simp add: split cong: filter_cong)
  have "length rs = length (filter (\<lambda>r. ir_applicability r = ''APPLICABLE'') rs)
      + length (filter (\<lambda>r. ir_applicability r \<noteq> ''APPLICABLE'') rs)" by (rule sum_length_filter_compl [symmetric])
  moreover have "filter (\<lambda>r. ir_applicability r \<noteq> ''APPLICABLE'') rs = filter (\<lambda>r. ir_applicability r = ''NOT_APPLICABLE'') rs"
    using validated_record(2) [OF assms] by (intro filter_cong) auto
  ultimately show "int (length rs) = count_status ''PASS'' rs + count_status ''FAIL'' rs + count_status ''N/A'' rs"
    using * na unfolding count_status_def by (simp cong: filter_cong)
qed

lemma fold_max_nonneg: "0 \<le> (a :: py_float) \<Longrightarrow> 0 \<le> fold max xs a"
  by (induction xs arbitrary: a) (simp_all add: max.coboundedI2)

section \<open>Property evidence\<close>

lemma sha256_lower: "is_sha256 h \<Longrightarrow> lower_hash h = Inr h"
proof -
  assume h: "is_sha256 h"
  have "lower_char c = c" if "is_lower_hex c" for c
    using that by (auto simp: is_lower_hex_def lower_char_def)
  then have "map lower_char h = h" using h by (auto simp: is_sha256_def list_all_iff intro!: map_idI)
  with h show ?thesis by (simp add: lower_hash_def)
qed

lemma lower_hash_Inr: "lower_hash s = Inr h \<Longrightarrow> is_sha256 h \<and> lower_hash h = Inr h"
proof -
  assume "lower_hash s = Inr h"
  then have h: "is_sha256 h" by (auto simp: lower_hash_def split: if_splits)
  with sha256_lower show ?thesis by blast
qed

lemma validated_evidence:
  assumes "validate_property_evidence e = Inr e'"
  shows "validate_property_evidence e' = Inr e'" and "1000 \<le> pe_executed e' \<and> pe_failed e' = 0 \<and> pe_passed e' = pe_executed e'"
    and "pe_view_id e' = pe_view_id e"
proof -
  from assms obtain t h where t: "lower_hash (pe_test_hash e) = Inr t" and h: "lower_hash (pe_engine_hash e) = Inr h"
    and e': "e' = e\<lparr>pe_test_hash := t, pe_engine_hash := h\<rparr>" and g: "1 \<le> pe_schema_version e" "1000 \<le> pe_executed e" "0 \<le> pe_passed e"
      "pe_passed e + pe_failed e = pe_executed e" "pe_failed e = 0" "pe_view_id e \<in> set FROZEN_VIEW_IDS"
    by (auto simp: validate_property_evidence_def bindr_Inr_iff guards_Inr_iff)
  from lower_hash_Inr [OF t] lower_hash_Inr [OF h] show "validate_property_evidence e' = Inr e'"
    using g by (simp add: validate_property_evidence_def e')
  show "1000 \<le> pe_executed e' \<and> pe_failed e' = 0 \<and> pe_passed e' = pe_executed e'" "pe_view_id e' = pe_view_id e"
    using g by (simp_all add: e')
qed

lemma evidence_by_view_set:
  assumes "length es = 11" and "set (map pe_view_id es) = set FROZEN_VIEW_IDS"
  shows "evidence_by_view es = rev (map (\<lambda>e. (pe_view_id e, e)) es)"
proof -
  have "card (set (map pe_view_id es)) = length (map pe_view_id es)"
    unfolding assms(2) using assms(1) frozen_lists(3) distinct_card [OF frozen_lists(6)] by simp
  then have "distinct (map pe_view_id es)" by (rule card_distinct)
  then have "distinct (map fst (rev (map (\<lambda>e. (pe_view_id e, e)) es)))" by (simp add: comp_def rev_map [symmetric])
  then show ?thesis unfolding evidence_by_view_def by (rule distinct_clearjunk_id)
qed

lemma evidence_total:
  assumes "length es = 11" and "set (map pe_view_id es) = set FROZEN_VIEW_IDS"
  shows "sum_list (map pe_executed (map snd (evidence_by_view es))) = sum_list (map pe_executed es)"
    and "set (map snd (evidence_by_view es)) = set es"
  unfolding evidence_by_view_set [OF assms] by (simp_all add: rev_map [symmetric] comp_def sum_list_rev image_image)

section \<open>Accepted inventories\<close>

lemma accepted_inventory:
  assumes "validate_engine_inventory runner engine i = Inr j"
  obtains "list_all (\<lambda>g. \<not> fst g) (matrix_guards j)" and "list_all (\<lambda>g. \<not> fst g) (count_guards j)"
    and "list_all (\<lambda>g. \<not> fst g) (passing_guards j)" and "list_all (\<lambda>g. \<not> fst g) (evidence_guards runner engine j)"
    and "\<And>r. r \<in> set (in_records j) \<Longrightarrow> validate_record r = Inr r"
    and "\<And>e. e \<in> set (in_property_evidence j) \<Longrightarrow> \<exists>e'. validate_property_evidence e' = Inr e"
proof -
  from assms obtain k where k: "inventory_fields i = Inr k"
    and g: "guards (matrix_guards k @ count_guards k @ passing_guards k @ evidence_guards runner engine k) k = Inr j"
    unfolding validate_engine_inventory_def bindr_Inr_iff by blast
  have jk: "j = k" using guards_same [OF g] .
  from k obtain es h1 h2 where v: "\<exists>u. validate_all validate_record (in_records i) = Inr u"
    and es: "mapr validate_property_evidence (in_property_evidence i) = Inr es"
    and k': "i\<lparr>in_property_evidence := es, in_registry_hash := h1, in_split_inventory_hash := h2\<rparr> = k"
    by (auto dest!: guards_bind simp: inventory_fields_def bindr_Inr_iff)
  show ?thesis
  proof
    show "list_all (\<lambda>g. \<not> fst g) (matrix_guards j)" "list_all (\<lambda>g. \<not> fst g) (count_guards j)"
      "list_all (\<lambda>g. \<not> fst g) (passing_guards j)" "list_all (\<lambda>g. \<not> fst g) (evidence_guards runner engine j)"
      using guards_all [OF g] by (simp_all only: jk list_all_append)
    show "validate_record r = Inr r" if "r \<in> set (in_records j)" for r
    proof -
      from that k' have "r \<in> set (in_records i)" by (auto simp: jk)
      with v validate_record_same show ?thesis unfolding validate_all_Inr by blast
    qed
    show "\<exists>e'. validate_property_evidence e' = Inr e" if "e \<in> set (in_property_evidence j)" for e
    proof -
      have "in_property_evidence j = es" using k' by (auto simp: jk)
      with that obtain n where "n < length es" "es ! n = e" by (auto simp: in_set_conv_nth)
      with mapr_nth [OF es, of n] mapr_length [OF es] show ?thesis by metis
    qed
  qed
qed

text \<open>Claim C9. An accepted passing inventory is complete: it has exactly one record for each of the 770
  combinations of data set, seed and view; each record is a pass with three certificates and a
  repetition that agreed, or says with a reason why the view does not apply; none failed and none
  is missing; and every view has evidence of at least 1000 examples, all of which passed.\<close>

theorem accepted_inventory_complete:
  assumes "validate_engine_inventory runner engine i = Inr j" and "in_status j = ''PASS_PENDING_REVIEW''"
  shows "length (in_records j) = 770 \<and> distinct (map record_tuple (in_records j))
    \<and> set (map record_tuple (in_records j)) = set frozen_tuples
    \<and> (\<forall>r \<in> set (in_records j). ir_status r = ''PASS'' \<and> length (ir_certificate_ids r) = 3 \<and> ir_deterministic r = Some True
         \<or> ir_status r = ''N/A'' \<and> \<not> missing_text (ir_reason_code r))
    \<and> in_fail_count j = 0 \<and> in_missing_count j = 0
    \<and> (\<forall>v \<in> set FROZEN_VIEW_IDS. \<exists>e \<in> set (in_property_evidence j). pe_view_id e = v \<and> 1000 \<le> pe_passed e \<and> pe_failed e = 0)"
proof (rule accepted_inventory [OF assms(1)])
  assume gm: "list_all (\<lambda>g. \<not> fst g) (matrix_guards j)" and gp: "list_all (\<lambda>g. \<not> fst g) (passing_guards j)"
    and ge: "list_all (\<lambda>g. \<not> fst g) (evidence_guards runner engine j)"
    and r: "\<And>r. r \<in> set (in_records j) \<Longrightarrow> validate_record r = Inr r"
    and e: "\<And>e. e \<in> set (in_property_evidence j) \<Longrightarrow> \<exists>e'. validate_property_evidence e' = Inr e"
  let ?rs = "in_records j"
  from gm have "card (set (map record_tuple ?rs)) = length ?rs \<and> set (map record_tuple ?rs) = set frozen_tuples"
    unfolding matrix_guards_def list.pred_inject fst_conv not_not by blast
  then have "card (set (map record_tuple ?rs)) = length ?rs" and set: "set (map record_tuple ?rs) = set frozen_tuples"
    by blast+
  then have d: "distinct (map record_tuple ?rs)" and n: "length ?rs = 770"
    using card_distinct [of "map record_tuple ?rs"] distinct_card [OF frozen_tuples_facts(2)] frozen_tuples_facts(1)
    by (simp_all only: length_map)
  have p: "in_fail_count j = 0 \<and> in_missing_count j = 0
      \<and> \<not> list_ex (\<lambda>r. ir_applicability r = ''APPLICABLE'' \<and> ir_status r \<noteq> ''PASS'') ?rs"
    using gp assms(2) unfolding passing_guards_def by simp
  have each: "ir_status q = ''PASS'' \<and> length (ir_certificate_ids q) = 3 \<and> ir_deterministic q = Some True
      \<or> ir_status q = ''N/A'' \<and> \<not> missing_text (ir_reason_code q)" if q: "q \<in> set ?rs" for q
  proof (cases "ir_applicability q = ''APPLICABLE''")
    case True
    with p q have "ir_status q = ''PASS''" by (auto simp: list_ex_iff)
    with validated_record(4) [OF r [OF q]] show ?thesis by blast
  next
    case False
    with validated_record(2,3) [OF r [OF q]] have "ir_status q = ''N/A''" by blast
    with validated_record(5) [OF r [OF q]] show ?thesis by blast
  qed
  have views: "set (map pe_view_id (in_property_evidence j)) = set FROZEN_VIEW_IDS"
    using ge unfolding evidence_guards_def Let_def by (simp del: set_map)
  have ex: "\<exists>e \<in> set (in_property_evidence j). pe_view_id e = v \<and> 1000 \<le> pe_passed e \<and> pe_failed e = 0"
    if "v \<in> set FROZEN_VIEW_IDS" for v
  proof -
    from that have "v \<in> set (map pe_view_id (in_property_evidence j))" by (simp only: views)
    then obtain x where x: "x \<in> set (in_property_evidence j)" "pe_view_id x = v" by auto
    from e [OF x(1)] obtain e' where "validate_property_evidence e' = Inr x" by blast
    from validated_evidence(2) [OF this] x show ?thesis by auto
  qed
  show ?thesis using n d set each p ex by blast
qed


section \<open>Built inventories\<close>

lemma count_status_nonneg: "0 \<le> count_status st rs"
  by (simp add: count_status_def)

lemma count_status_zero: "count_status st rs = 0 \<longleftrightarrow> (\<forall>r \<in> set rs. ir_status r \<noteq> st)"
  by (simp add: count_status_def filter_empty_conv)

lemma executed_nonneg: "(\<And>e. e \<in> set es \<Longrightarrow> 1000 \<le> pe_executed e) \<Longrightarrow> 0 \<le> sum_list (map pe_executed es)"
  by (rule sum_list_nonneg) force

text \<open>The fields of a built inventory, with the counts of its records.\<close>

lemma inventory_of_fields:
  "in_status (inventory_of rs es registry split protected now)
     = (if length rs = 770 \<and> count_status ''FAIL'' rs = 0 \<and> json_field ''status'' protected = JStr ''PASS''
        then ''PASS_PENDING_REVIEW'' else ''FAIL'')"
  "in_records (inventory_of rs es registry split protected now) = rs"
  "in_property_evidence (inventory_of rs es registry split protected now) = es"
  "in_protected_comparison (inventory_of rs es registry split protected now) = protected"
  "in_pass_count (inventory_of rs es registry split protected now) = count_status ''PASS'' rs"
  "in_fail_count (inventory_of rs es registry split protected now) = count_status ''FAIL'' rs"
  "in_missing_count (inventory_of rs es registry split protected now) = 770 - int (length rs)"
  "in_expected_record_count (inventory_of rs es registry split protected now) = 770"
  "in_property_example_count (inventory_of rs es registry split protected now) = sum_list (map pe_executed es)"
  "in_applicable_count (inventory_of rs es registry split protected now)
     = int (length (filter (\<lambda>r. ir_applicability r = ''APPLICABLE'') rs))"
  "in_not_applicable_count (inventory_of rs es registry split protected now)
     = int (length (filter (\<lambda>r. ir_applicability r = ''NOT_APPLICABLE'') rs))"
  "in_dataset_ids (inventory_of rs es registry split protected now) = FROZEN_DATASET_IDS"
  "in_seeds (inventory_of rs es registry split protected now) = FROZEN_SEEDS"
  "in_view_ids (inventory_of rs es registry split protected now) = FROZEN_VIEW_IDS"
  "0 \<le> in_max_abs_error (inventory_of rs es registry split protected now)"
  "in_registry_hash (inventory_of rs es registry split protected now) = registry"
  "in_split_inventory_hash (inventory_of rs es registry split protected now) = split"
  "in_schema_version (inventory_of rs es registry split protected now) = 1"
  "in_engine_name (inventory_of rs es registry split protected now) = ''certified_lossless_transformations''"
  "inventory_of rs es registry split protected now
     \<lparr>in_property_evidence := es, in_registry_hash := registry, in_split_inventory_hash := split\<rparr>
   = inventory_of rs es registry split protected now"
  by (simp_all add: inventory_of_def Let_def count_status_def fold_max_nonneg)

definition valid_evidence :: "string list \<Rightarrow> string \<Rightarrow> property_evidence list \<Rightarrow> bool" where
  "valid_evidence runner engine es \<longleftrightarrow> length es = 11 \<and> set (map pe_view_id es) = set FROZEN_VIEW_IDS
     \<and> list_all (\<lambda>e. validate_property_evidence e = Inr e \<and> pe_test_hash e \<in> set runner \<and> pe_engine_hash e = engine) es"

lemma valid_evidence_item:
  assumes "valid_evidence runner engine es" and "e \<in> set es"
  shows "validate_property_evidence e = Inr e" "pe_test_hash e \<in> set runner" "pe_engine_hash e = engine"
    "1000 \<le> pe_executed e \<and> pe_failed e = 0 \<and> pe_passed e = pe_executed e"
proof -
  from assms show v: "validate_property_evidence e = Inr e" "pe_test_hash e \<in> set runner" "pe_engine_hash e = engine"
    by (auto simp: valid_evidence_def list_all_iff)
  show "1000 \<le> pe_executed e \<and> pe_failed e = 0 \<and> pe_passed e = pe_executed e" by (rule validated_evidence(2) [OF v(1)])
qed

lemma loaded_evidence:
  assumes "load_property_evidence runner engine (Some items) = Inr es"
    and "length es = 11" and "set (map pe_view_id es) = set FROZEN_VIEW_IDS"
  shows "valid_evidence runner engine es"
proof -
  from assms(1) have es: "mapr validate_property_evidence items = Inr es"
    and g: "\<forall>e \<in> set es. pe_test_hash e \<in> set runner \<and> pe_engine_hash e = engine"
    by (auto simp: load_property_evidence_def of_option_def bindr_Inr_iff guards_Inr_iff list_ex_iff)
  have "validate_property_evidence e = Inr e" if "e \<in> set es" for e
    by (rule mapr_Inr_ball [OF es _ that]) (rule validated_evidence(1))
  with g assms(2,3) show ?thesis by (simp add: valid_evidence_def list_all_iff)
qed

lemma mapr_same: "(\<And>x. x \<in> set xs \<Longrightarrow> f x = Inr x) \<Longrightarrow> mapr f xs = Inr xs"
  by (induction xs) simp_all

lemma built_validates:
  assumes rs: "all_records P str c = Inr rs" and es: "valid_evidence runner engine es"
    and h: "lower_hash registry = Inr registry" "lower_hash split = Inr split"
  shows "validate_engine_inventory runner engine (inventory_of rs es registry split protected now)
    = Inr (inventory_of rs es registry split protected now)" (is "_ = Inr ?i")
proof -
  note valid = all_records_Inr(2) [OF rs]
  have "length (map record_tuple rs) = 770" unfolding all_records_Inr(1) [OF rs] by (rule frozen_tuples_facts)
  then have n: "length rs = 770" by simp
  have d: "card (set (map record_tuple rs)) = length rs"
    unfolding all_records_Inr(1) [OF rs] n using distinct_card [OF frozen_tuples_facts(2)] frozen_tuples_facts(1) by simp
  note counts = status_counts [OF valid]
  have evs: "length es = 11" "set (map pe_view_id es) = set FROZEN_VIEW_IDS" using es by (simp_all add: valid_evidence_def)
  have "inventory_fields ?i = Inr ?i"
  proof -
    have "validate_all validate_record rs = Inr ()" by (simp add: validate_all_Inr valid)
    moreover have "mapr validate_property_evidence es = Inr es"
      by (rule mapr_same) (rule valid_evidence_item(1) [OF es])
    moreover have "0 \<le> sum_list (map pe_executed es)"
      by (rule executed_nonneg) (use valid_evidence_item(4) [OF es] in blast)
    moreover have "in_status ?i \<in> {''PASS_PENDING_REVIEW'', ''FAIL'', ''BLOCKED''}"
      by (simp add: inventory_of_fields(1))
    ultimately show ?thesis
      by (simp add: inventory_fields_def inventory_of_fields(2-) n h leD [OF count_status_nonneg] leD [OF inventory_of_fields(15)]
          leD del: insert_iff)
  qed
  moreover have "list_all (\<lambda>g. \<not> fst g) (matrix_guards ?i)"
    by (simp only: matrix_guards_def inventory_of_fields list.pred_inject fst_conv d all_records_Inr(1) [OF rs]) (simp add: n frozen_tuples_facts distinct_card)
  moreover have "list_all (\<lambda>g. \<not> fst g) (count_guards ?i)"
    by (simp only: count_guards_def Let_def inventory_of_fields counts list.pred_inject fst_conv)
      (simp add: n counts(3) [unfolded n, symmetric])
  moreover have "list_all (\<lambda>g. \<not> fst g) (passing_guards ?i)"
  proof (cases "in_status ?i = ''PASS_PENDING_REVIEW''")
    case True
    then have p: "count_status ''FAIL'' rs = 0" "json_field ''status'' protected = JStr ''PASS''"
      by (simp_all add: inventory_of_fields split: if_splits)
    have "\<not> list_ex (\<lambda>r. ir_applicability r = ''APPLICABLE'' \<and> ir_status r \<noteq> ''PASS'') rs"
      using validated_record(1,3) [OF valid] p(1) by (fastforce simp: list_ex_iff count_status_zero)
    with p show ?thesis by (simp add: passing_guards_def inventory_of_fields n)
  next
    case False
    then show ?thesis by (simp add: passing_guards_def)
  qed
  moreover have "list_all (\<lambda>g. \<not> fst g) (evidence_guards runner engine ?i)"
  proof -
    have "\<not> list_ex (\<lambda>e. pe_executed e < 1000 \<or> pe_passed e \<noteq> pe_executed e \<or> pe_failed e \<noteq> 0) (map snd (evidence_by_view es))"
      "\<not> list_ex (\<lambda>e. pe_test_hash e \<notin> set runner) (map snd (evidence_by_view es))"
      "\<not> list_ex (\<lambda>e. pe_engine_hash e \<noteq> engine) (map snd (evidence_by_view es))"
      unfolding list_ex_iff evidence_total(2) [OF evs] using valid_evidence_item [OF es] by force+
    then show ?thesis
      by (simp only: evidence_guards_def Let_def inventory_of_fields evidence_total(1) [OF evs] evs list.pred_inject fst_conv) simp
  qed
  ultimately show ?thesis
    by (simp only: validate_engine_inventory_def bindr_simps guards_pass list_all_append simp_thms)
qed


text \<open>No protected file differs from the snapshot, apart from those that may change or be new.\<close>

definition protected_kept :: "(string \<times> string) list \<Rightarrow> snapshot_file list \<Rightarrow> bool" where
  "protected_kept before after \<longleftrightarrow>
     (\<forall>p \<in> set (map fst (old_digests before)). map_of (new_digests after) p = map_of (old_digests before) p
        \<or> map_of (new_digests after) p \<noteq> None \<and> p \<in> set ALLOWED_CHANGED_PATHS)
     \<and> (\<forall>p \<in> set (map fst (new_digests after)). p \<in> set (map fst (old_digests before)) \<or> p \<in> set ALLOWED_ADDED_PATHS)"

lemma allowed_normal:
  "map normalise_slashes ALLOWED_CHANGED_PATHS = ALLOWED_CHANGED_PATHS" "map normalise_slashes ALLOWED_ADDED_PATHS = ALLOWED_ADDED_PATHS"
  by (simp_all add: ALLOWED_CHANGED_PATHS_def ALLOWED_ADDED_PATHS_def normalise_slashes_def)

lemma comparison_status:
  "json_field ''status'' (comparison_json (compare_protected_snapshot sha before h after ALLOWED_CHANGED_PATHS ALLOWED_ADDED_PATHS []))
     = JStr ''PASS'' \<longleftrightarrow> protected_kept before after"
proof -
  let ?old = "old_digests before" and ?new = "new_digests after"
  have dom: "map_of m p = None \<longleftrightarrow> p \<notin> set (map fst m)" for m :: "(string \<times> string) list" and p
    by (simp add: map_of_eq_None_iff)
  have "(\<forall>p \<in> set (map fst ?old). p \<in> set (map fst ?new) \<longrightarrow> map_of ?old p \<noteq> map_of ?new p \<longrightarrow> p \<in> set ALLOWED_CHANGED_PATHS)
      \<and> (\<forall>p \<in> set (map fst ?old). p \<in> set (map fst ?new))
    \<longleftrightarrow> (\<forall>p \<in> set (map fst ?old). map_of ?new p = map_of ?old p \<or> map_of ?new p \<noteq> None \<and> p \<in> set ALLOWED_CHANGED_PATHS)"
    using dom by metis
  moreover have "sort xs = [] \<longleftrightarrow> xs = []" for xs :: "string list" by (metis length_0_conv length_sort)
  then have "json_field ''status'' (comparison_json (compare_protected_snapshot sha before h after ALLOWED_CHANGED_PATHS ALLOWED_ADDED_PATHS []))
     = JStr ''PASS'' \<longleftrightarrow>
    ((\<forall>p \<in> set (map fst ?old). p \<in> set (map fst ?new) \<longrightarrow> map_of ?old p \<noteq> map_of ?new p \<longrightarrow> p \<in> set ALLOWED_CHANGED_PATHS)
      \<and> (\<forall>p \<in> set (map fst ?old). p \<in> set (map fst ?new)))
    \<and> (\<forall>p \<in> set (map fst ?new). p \<in> set (map fst ?old) \<or> p \<in> set ALLOWED_ADDED_PATHS)"
    by (auto simp: comparison_json_def json_field_def compare_protected_snapshot_def Let_def allowed_normal filter_empty_conv
        simp del: set_map split: if_splits)
  ultimately show ?thesis unfolding protected_kept_def by (simp only:)
qed

text \<open>Claim C25. Building the inventory succeeds once the records are collected, evidence for all views
  loads, the digests are well formed and some record passed: it holds exactly the records that were
  collected, and it is passing exactly when none failed and every protected file is as in the snapshot,
  apart from those that may change or be new.\<close>

theorem inventory_built:
  assumes "all_records P str c = Inr rs" and "load_property_evidence runner engine (Some items) = Inr es"
    and "length es = 11" and "set (map pe_view_id es) = set FROZEN_VIEW_IDS"
    and "is_sha256 (registry_hash (fp_sha (ip_frames P)))" and "is_sha256 split"
    and "\<exists>r \<in> set rs. ir_status r = ''PASS''"
    and "identity = \<lparr>ei_runner_hashes = runner, ei_engine_hash = engine\<rparr>"
  shows "\<exists>j. build_inventory P str c (Inr (before, h)) after identity identity (Some items) (Inr split) = Inr j
    \<and> in_records j = rs
    \<and> (in_status j = ''PASS_PENDING_REVIEW'' \<longleftrightarrow> (\<forall>r \<in> set rs. ir_status r \<noteq> ''FAIL'') \<and> protected_kept before after)"
proof (intro exI conjI)
  let ?protected = "comparison_json (compare_protected_snapshot (fp_sha (ip_frames P)) before h after
    ALLOWED_CHANGED_PATHS ALLOWED_ADDED_PATHS [])"
  let ?i = "inventory_of rs es (registry_hash (fp_sha (ip_frames P))) split ?protected (ip_now P)"
  have "valid_evidence runner engine es" by (rule loaded_evidence [OF assms(2-4)])
  from built_validates [OF assms(1) this sha256_lower [OF assms(5)] sha256_lower [OF assms(6)]]
  show "build_inventory P str c (Inr (before, h)) after identity identity (Some items) (Inr split) = Inr ?i"
    unfolding build_inventory_def assms(1,8) using assms(2,7) by (simp add: list_ex_iff)
  show "in_records ?i = rs" by (simp add: inventory_of_fields)
  have "length (map record_tuple rs) = 770" unfolding all_records_Inr(1) [OF assms(1)] by (rule frozen_tuples_facts)
  then show "in_status ?i = ''PASS_PENDING_REVIEW'' \<longleftrightarrow> (\<forall>r \<in> set rs. ir_status r \<noteq> ''FAIL'') \<and> protected_kept before after"
    by (simp add: inventory_of_fields(1) count_status_zero comparison_status)
qed


section \<open>A concrete inventory\<close>

text \<open>Every data set has one number and one category, every run of a view gives the same certificate.\<close>

definition sample_schema :: feature_schema where
  "sample_schema = \<lparr>fs_columns = [ROW_ID_COLUMN, ''x'', ''c''], fs_dtypes = [''object'', ''int64'', ''bool''],
     fs_numeric = [''x''], fs_categorical = [''c''], fs_integer = [''x''], fs_row_id = ROW_ID_COLUMN,
     fs_categories = [(''c'', [CBool True])]\<rparr>"

definition sample_run :: partition_run where
  "sample_run = \<lparr>pr_certificate = zero_hash, pr_error = 0, pr_deterministic = True, pr_output = []\<rparr>"

definition sample_params :: inventory_params where
  "sample_params = \<lparr>ip_frames = demo_frames id, ip_schema = (\<lambda>d k. sample_schema), ip_run = (\<lambda>d k v. Inr [sample_run, sample_run, sample_run]),
     ip_features_hash = (\<lambda>d. zero_hash), ip_outputs_hash = (\<lambda>ys. zero_hash), ip_runtime = (\<lambda>d k v. 0),
     ip_now = ''now'', ip_message = (\<lambda>e. []), ip_describe = (\<lambda>e. [])\<rparr>"

definition sample_config :: engine_config where
  "sample_config = \<lparr>ec_schema_version = 1, ec_engine_name = ''certified_lossless_transformations'',
     ec_split_strategy = ''stratified_group_5fold_v1'', ec_max_numeric_columns = 3, ec_category_minimum = 2,
     ec_quotient_modulus = 10, ec_numerical_rtol = 0, ec_numerical_atol = 0, ec_cpu_workers = 1, ec_gpu_enabled = False,
     ec_schema_registry_hash = zero_hash, ec_views = map view_dict VIEW_REGISTRY\<rparr>"

definition sample_evidence :: "property_evidence list" where
  "sample_evidence = map (\<lambda>v. \<lparr>pe_schema_version = 1, pe_view_id = v, pe_executed = 1000, pe_passed = 1000, pe_failed = 0, pe_seed = 0,
     pe_profile = [], pe_test_hash = zero_hash, pe_engine_hash = zero_hash, pe_timestamp = ''now'', pe_failure_examples = []\<rparr>) FROZEN_VIEW_IDS"

lemma zero_hash_sha256: "is_sha256 zero_hash"
  by (simp add: is_sha256_def zero_hash_def is_lower_hex_def list_all_iff)

lemma sample_assess:
  assumes "v \<in> set FROZEN_VIEW_IDS"
  shows "\<exists>a. assess_applicability (demo_frames id) now v n (DatasetInt ds) seed sample_schema = Inr a \<and> ap_status a = ''APPLICABLE''"
proof -
  have "\<exists>h. schema_hash (demo_frames id) sample_schema = Inr h" by (simp add: schema_hash_def sample_schema_def)
  moreover have "applies v sample_schema = Inr (True, None, None)"
    using assms by (auto simp: FROZEN_VIEW_IDS_def applies_def sample_schema_def)
  ultimately show ?thesis by (auto simp: assess_applicability_def validate_applicability_def)
qed

lemma sample_passed:
  "validate_record (passed_record sample_params ds seed v [sample_run, sample_run, sample_run])
   = Inr (passed_record sample_params ds seed v [sample_run, sample_run, sample_run])"
  unfolding validate_record_def record_guards
  by (simp add: passed_record_def blank_record_def sample_params_def sample_run_def negative_option_def missing_text_def zero_hash_def)

lemma sample_view_record:
  assumes "v \<in> set FROZEN_VIEW_IDS"
  shows "\<exists>r. view_record sample_params ds seed (v, n) = Inr r \<and> ir_status r = ''PASS''"
proof -
  obtain a where a: "assess_applicability (demo_frames id) ''now'' v n (DatasetInt ds) seed sample_schema = Inr a"
    "ap_status a = ''APPLICABLE''" using sample_assess [OF assms] by blast
  have "ip_run sample_params ds seed v = Inr [sample_run, sample_run, sample_run]"
    by (simp add: sample_params_def)
  then have "view_record sample_params ds seed (v, n)
      = Inr (passed_record sample_params ds seed (v, n) [sample_run, sample_run, sample_run])"
    using a sample_passed by (simp add: view_record_def) (simp add: sample_params_def sample_run_def)
  then show ?thesis by (simp add: passed_record_def Let_def)
qed

lemma sample_config_view: "v \<in> set FROZEN_VIEW_IDS \<Longrightarrow> \<exists>n. config_view str sample_config v = Inr (v, n)"
  by (auto simp: FROZEN_VIEW_IDS_def config_view_def sample_config_def VIEW_REGISTRY_def view_dict_def view_spec_of_def
      view_id_text_def of_option_def json_field_def)

lemma mapr_ex:
  "(\<And>x. x \<in> set xs \<Longrightarrow> \<exists>y. f x = Inr y \<and> Q y) \<Longrightarrow> \<exists>ys. mapr f xs = Inr ys \<and> (\<forall>y \<in> set ys. Q y)"
  by (induction xs) (fastforce simp: bindr_Inr_iff)+

lemma sample_records: "\<exists>rs. all_records sample_params str sample_config = Inr rs \<and> (\<forall>r \<in> set rs. ir_status r = ''PASS'')"
proof -
  have each: "\<exists>rs. dataset_seed_records sample_params str sample_config x = Inr rs \<and> (\<forall>r \<in> set rs. ir_status r = ''PASS'')" for x
    unfolding dataset_seed_records_def
  proof (rule mapr_ex)
    fix v assume v: "v \<in> set FROZEN_VIEW_IDS"
    from sample_config_view [OF v] obtain n where "config_view str sample_config v = Inr (v, n)" by blast
    with sample_view_record [OF v] show "\<exists>r. bindr (config_view str sample_config v) (view_record sample_params (fst x) (snd x)) = Inr r
        \<and> ir_status r = ''PASS''" by simp
  qed
  have "\<exists>rss. mapr (dataset_seed_records sample_params str sample_config) (List.product FROZEN_DATASET_IDS FROZEN_SEEDS) = Inr rss
      \<and> (\<forall>rs \<in> set rss. \<forall>r \<in> set rs. ir_status r = ''PASS'')"
    by (rule mapr_ex) (rule each)
  then show ?thesis by (auto simp: all_records_def)
qed

lemma sample_evidence_loaded: "load_property_evidence [zero_hash] zero_hash (Some sample_evidence) = Inr sample_evidence"
proof -
  have "mapr validate_property_evidence sample_evidence = Inr sample_evidence"
    by (rule mapr_same) (auto simp: sample_evidence_def validate_property_evidence_def sha256_lower [OF zero_hash_sha256])
  then show ?thesis
    by (simp add: load_property_evidence_def of_option_def) (simp add: sample_evidence_def list_ex_iff)
qed

lemma sample_evidence_views: "length sample_evidence = 11" "set (map pe_view_id sample_evidence) = set FROZEN_VIEW_IDS"
  by (simp_all add: sample_evidence_def frozen_lists image_image)

lemma sample_registry: "is_sha256 (registry_hash (fp_sha (ip_frames sample_params)))"
  by (simp add: registry_hash_def sample_params_def demo_frames_def is_sha256_def sha256_canonical_json_def
      is_lower_hex_def list_all_iff)

definition sample_identity :: engine_identity where
  "sample_identity = \<lparr>ei_runner_hashes = [zero_hash], ei_engine_hash = zero_hash\<rparr>"

definition sample_file :: snapshot_file where
  "sample_file = \<lparr>sf_path = ''schemas/split.schema.json'', sf_sha256 = zero_hash, sf_size = 1\<rparr>"

theorem inventory_built_witness:
  "\<exists>j rs. build_inventory sample_params (\<lambda>j. []) sample_config (Inr ([(''schemas/split.schema.json'', zero_hash)], zero_hash))
       [sample_file] sample_identity sample_identity (Some sample_evidence) (Inr zero_hash) = Inr j
     \<and> in_records j = rs \<and> in_status j = ''PASS_PENDING_REVIEW''"
proof -
  obtain rs where rs: "all_records sample_params (\<lambda>j. []) sample_config = Inr rs" "\<forall>r \<in> set rs. ir_status r = ''PASS''"
    using sample_records by blast
  have "length (map record_tuple rs) = 770" unfolding all_records_Inr(1) [OF rs(1)] by (rule frozen_tuples_facts)
  then have some: "\<exists>r \<in> set rs. ir_status r = ''PASS''" using rs(2) by (cases rs) auto
  have kept: "protected_kept [(''schemas/split.schema.json'', zero_hash)] [sample_file]"
    by (simp add: protected_kept_def old_digests_def new_digests_def sample_file_def normalise_slashes_def)
  from inventory_built [OF rs(1) sample_evidence_loaded sample_evidence_views sample_registry zero_hash_sha256 some
      sample_identity_def, of "[(''schemas/split.schema.json'', zero_hash)]" zero_hash "[sample_file]"]
  show ?thesis using rs(2) kept by auto
qed

theorem accepted_inventory_complete_witness:
  "\<exists>j. validate_engine_inventory [zero_hash] zero_hash j = Inr j \<and> length (in_records j) = 770 \<and> in_fail_count j = 0"
proof -
  obtain rs where rs: "all_records sample_params (\<lambda>j. []) sample_config = Inr rs" "\<forall>r \<in> set rs. ir_status r = ''PASS''"
    using sample_records by blast
  let ?j = "inventory_of rs sample_evidence zero_hash zero_hash [(''status'', JStr ''PASS'')] ''now''"
  have "length (map record_tuple rs) = 770" unfolding all_records_Inr(1) [OF rs(1)] by (rule frozen_tuples_facts)
  then have status: "in_status ?j = ''PASS_PENDING_REVIEW''"
    using rs(2) by (simp add: inventory_of_fields(1) count_status_zero json_field_def)
  have j: "validate_engine_inventory [zero_hash] zero_hash ?j = Inr ?j"
    by (rule built_validates [OF rs(1) loaded_evidence [OF sample_evidence_loaded sample_evidence_views]])
      (rule sha256_lower [OF zero_hash_sha256])+
  from accepted_inventory_complete [OF j status] j show ?thesis by blast
qed

end
