(* ===== verification/Run_Properties.thy ===== *)
theory Run_Properties
  imports Inventory_Properties
begin

text \<open>
  The properties of the run that fills a record of the inventory: what a passing record proves about
  the three partitions, and when certification cannot succeed at all.
\<close>

section \<open>Partition runs\<close>

definition certified_run :: "engine \<Rightarrow> (string \<Rightarrow> (frame \<times> string) result) \<Rightarrow> string \<Rightarrow> partition_run \<Rightarrow> bool" where
  "certified_run E load part r \<longleftrightarrow> (\<exists>source target tr c.
     load part = Inr (source, target) \<and> run_certificate E tr source (pr_output r) part target = Inr c
     \<and> pr_certificate r = certificate_identity_hash (eg_cert E) c \<and> tc_validation_status c = ''PASS''
     \<and> (\<exists>restored. restores (eg_cert E) (ce_rtol (eg_cert E)) (ce_atol (eg_cert E)) source restored)
     \<and> row_count (pr_output r) = row_count source
     \<and> tc_source_artifact_hash c = ce_table_hash (eg_cert E) source
     \<and> tc_output_artifact_hash c = ce_table_hash (eg_cert E) (pr_output r))"

lemma run_certificate_sound:
  assumes "run_certificate E tr source output part target = Inr c"
  shows "tc_validation_status c = ''PASS''"
    and "\<exists>restored. restores (eg_cert E) (ce_rtol (eg_cert E)) (ce_atol (eg_cert E)) source restored"
    and "row_count output = row_count source" and "tc_source_artifact_hash c = ce_table_hash (eg_cert E) source"
    and "tc_output_artifact_hash c = ce_table_hash (eg_cert E) output"
proof -
  from certificate_for_Inr [OF assms [unfolded run_certificate_def]] obtain restored es where
    a: "tc_validation_status c = ''PASS''" "restores (eg_cert E) (ce_rtol (eg_cert E)) (ce_atol (eg_cert E)) source restored"
    and v: "validate_roundtrip (eg_cert E) (eg_parse E) (Some (cf_configuration_hash tr, cf_implementation_hash tr))
      (ce_rtol (eg_cert E)) (ce_atol (eg_cert E)) source output restored c = Inr es" by blast
  show "tc_validation_status c = ''PASS''" by (rule a)
  show "\<exists>restored. restores (eg_cert E) (ce_rtol (eg_cert E)) (ce_atol (eg_cert E)) source restored" using a by blast
  show "row_count output = row_count source" "tc_source_artifact_hash c = ce_table_hash (eg_cert E) source"
    "tc_output_artifact_hash c = ce_table_hash (eg_cert E) output"
    by (rule validate_roundtrip_Inr [OF v])+
qed

lemma partition_runs_certified:
  "partition_runs E load V st parts = Inr runs \<Longrightarrow> list_all2 (certified_run E load) parts runs"
proof (induction parts arbitrary: st runs)
  case (Cons part parts)
  from Cons.prems obtain source target st1 out tr c st2 rest r where
    load: "load part = Inr (source, target)" and c: "run_certificate E tr source out part target = Inr c"
    and rest: "partition_runs E load V st2 parts = Inr rest" and r: "runs = r # rest"
      "pr_certificate r = certificate_identity_hash (eg_cert E) c" "pr_output r = out"
    by (auto simp: bindr_Inr_iff)
  have "certified_run E load part r"
    unfolding certified_run_def using load c r run_certificate_sound [OF c] by blast
  with Cons.IH [OF rest] show ?case by (simp add: r)
qed simp

section \<open>Passing records\<close>

lemma passing_record:
  assumes "view_record P ds seed v = Inr r" and "ir_status r = ''PASS''"
  obtains runs where "ip_run P ds seed (fst v) = Inr runs" "list_all pr_deterministic runs"
    "r = passed_record P ds seed v runs"
proof -
  have "\<not> (\<exists>q. validate_record q = Inr r \<and> ir_status q \<noteq> ''PASS'')" using assms(2) validate_record_same by blast
  then have "\<exists>runs. ip_run P ds seed (fst v) = Inr runs \<and> list_all pr_deterministic runs
      \<and> validate_record (passed_record P ds seed v runs) = Inr r"
    using assms(1) unfolding view_record_def
    by (auto simp: bindr_Inr_iff bindr_Inl_iff blank_record_def failed_record_def split: if_splits sum.splits)
  with that validate_record_same show ?thesis by blast
qed

text \<open>Claim C24. A record that passes stands for three certified partitions: for each of train, calibration
  and test the record names the identity of a certificate the engine issued for the rows it loaded
  and the output it kept; the certificate has status PASS, is bound to the digests of both tables,
  and a table was reconstructed that restores the source.\<close>

theorem passing_record_certified:
  assumes "view_record (engine_params E P) ds seed v = Inr r" and "ir_status r = ''PASS''"
  shows "\<exists>runs. ir_certificate_ids r = map pr_certificate runs
    \<and> list_all2 (certified_run E (eg_load E ds seed)) partitions runs \<and> list_all pr_deterministic runs
    \<and> ir_exact r = Some (fold max (map pr_error runs) 0 = 0)"
proof (rule passing_record [OF assms])
  fix runs
  assume runs: "ip_run (engine_params E P) ds seed (fst v) = Inr runs" "list_all pr_deterministic runs"
    and r: "r = passed_record (engine_params E P) ds seed v runs"
  from runs(1) obtain V st where "partition_runs E (eg_load E ds seed) V st partitions = Inr runs"
    by (auto simp: engine_params_def view_runs_def bindr_Inr_iff case_prod_unfold)
  from partition_runs_certified [OF this] runs(2) show ?thesis
    by (intro exI [of _ runs]) (simp add: r passed_record_def Let_def)
qed

text \<open>The identity view on one small table: every partition is certified.\<close>

definition demo_engine :: engine where
  "demo_engine = \<lparr>eg_cert = demo_cert, eg_parse = (\<lambda>j. Inl (ValueError [])), eg_view = (\<lambda>v. Inr identity_view),
     eg_certify = (\<lambda>V st part. Inr demo_certified), eg_load = (\<lambda>d k part. Inr (demo_table [1, 2], zero_hash)),
     eg_schema = (\<lambda>d k. demo_schema), eg_rtol = 0, eg_atol = 0, eg_strategy = ''stratified_group_5fold_v1''\<rparr>"

lemma demo_engine_fields:
  "eg_cert demo_engine = demo_cert" "eg_certify demo_engine V st part = Inr demo_certified" "eg_view demo_engine v = Inr identity_view"
  "eg_load demo_engine d k part = Inr (demo_table [1, 2], zero_hash)" "eg_schema demo_engine d k = demo_schema"
  "eg_rtol demo_engine = 0" "eg_atol demo_engine = 0" "cf_reconstruct demo_certified c Y = Inr Y"
  "cf_configuration_hash demo_certified = zero_hash" "cf_implementation_hash demo_certified = zero_hash"
  "eg_strategy demo_engine = ''stratified_group_5fold_v1''"
  by (simp_all add: demo_engine_def demo_certified_def)

lemma demo_run_certificate:
  assumes "part \<in> set partitions"
  shows "run_certificate demo_engine demo_certified (demo_table [1, 2]) (demo_table [1, 2]) part zero_hash
    = Inr (demo_certificate part ''PASS'' demo_evidence)"
proof -
  have cf: "ce_rtol demo_cert = 0" "ce_atol demo_cert = 0" by (simp_all add: demo_cert_def)
  show ?thesis
    by (simp add: run_certificate_def certificate_for_def demo_engine_fields cf demo_build [OF demo_fail_valid [OF assms]]
        demo_build [OF demo_pass_valid [OF assms]] demo_check [OF demo_fail_valid [OF assms]]
        demo_check [OF demo_pass_valid [OF assms]])
qed

lemma demo_validated:
  assumes "part \<in> set partitions"
  shows "validate_transformation demo_cert parse (Some (zero_hash, zero_hash)) 0 0 (demo_table [1, 2]) (demo_table [1, 2])
    (demo_table [1, 2]) (demo_certificate part ''PASS'' demo_evidence) = Inr demo_evidence"
proof -
  let ?X = "demo_table [1, 2]"
  have cols: "TARGET_CODE_COLUMN \<notin> set (frame_columns ?X)" "TARGET_LABEL_COLUMN \<notin> set (frame_columns ?X)"
    by (simp_all add: demo_table_columns ROW_ID_COLUMN_def TARGET_CODE_COLUMN_def TARGET_LABEL_COLUMN_def)
  have t: "get_column ?X ROW_ID_COLUMN = Inr \<lparr>co_name = ROW_ID_COLUMN, co_dtype = ''object'', co_cells = map (\<lambda>i. CStr (show_nat i)) [0..<2]\<rparr>"
    by (simp add: get_column_def of_option_def demo_table_def upt_rec)
  have x: "get_column ?X ''x'' = Inr \<lparr>co_name = ''x'', co_dtype = ''int64'', co_cells = [CInt ''int64'' 1, CInt ''int64'' 2]\<rparr>"
    by (simp add: get_column_def of_option_def demo_table_def ROW_ID_COLUMN_def)
  have cells: "map (\<lambda>i. CStr (show_nat i)) [0..<2] = [CStr (show_nat 0), CStr (show_nat 1)]" by (simp add: upt_rec)
  have "show_nat 0 \<noteq> show_nat 1" by (simp add: show_nat_inj)
  then have rows: "row_positions ?X ?X = Inr [0, 1]"
    by (simp add: row_positions_def t cells index_of_def python_values_def)
  have "mapr (kept_mask ?X [0, 1]) ?X = Inr [True, True]"
    using x by (simp add: kept_mask_def demo_table_columns missing_mask_def) (simp add: demo_table_def kept_mask_def missing_mask_def)
  then show ?thesis
    using demo_check [OF demo_pass_valid [OF assms]]
    by (simp add: validate_transformation_def cols t rows python_values_def distinct_map inj_on_def show_nat_inj)
qed

lemma demo_identity:
  assumes "part \<in> set partitions" and "ft_schema f = demo_schema"
  shows "\<exists>f'. base_transform identity_view (Some f) (demo_table xs) part = (Some f', Inr (demo_table xs)) \<and> ft_schema f' = demo_schema"
  using assms
  by (simp add: base_transform_def validate_input_frame_def validate_output_frame_def demo_table_columns identity_view_def
      identity_transform_def)
    (simp add: demo_schema_def ROW_ID_COLUMN_def TARGET_CODE_COLUMN_def TARGET_LABEL_COLUMN_def)

definition demo_run :: "string \<Rightarrow> partition_run" where
  "demo_run part = \<lparr>pr_certificate = certificate_identity_hash demo_cert (demo_certificate part ''PASS'' demo_evidence),
     pr_error = 0, pr_deterministic = True, pr_output = demo_table [1, 2]\<rparr>"

lemma demo_error: "evidence_error demo_cert demo_evidence = Inr 0"
  by (simp add: evidence_error_def demo_evidence_def evidence_fields ce_float_def demo_cert_def)

lemma demo_partition_runs:
  "set parts \<subseteq> set partitions \<Longrightarrow> ft_schema f = demo_schema \<Longrightarrow>
   partition_runs demo_engine (eg_load demo_engine d k) identity_view (Some f) parts = Inr (map demo_run parts)"
proof (induction parts arbitrary: f)
  case (Cons part parts)
  then have part: "part \<in> set partitions" "set parts \<subseteq> set partitions" by simp_all
  obtain f1 where f1: "base_transform identity_view (Some f) (demo_table [1, 2]) part = (Some f1, Inr (demo_table [1, 2]))"
    "ft_schema f1 = demo_schema" using demo_identity [OF part(1) Cons.prems(2)] by blast
  obtain f2 where f2: "base_transform identity_view (Some f1) (demo_table [1, 2]) part = (Some f2, Inr (demo_table [1, 2]))"
    "ft_schema f2 = demo_schema" using demo_identity [OF part(1) f1(2)] by blast
  show ?case
    by (simp add: demo_engine_fields transform_result_def f1(1) f2(1) demo_run_certificate [OF part(1)]
        demo_validated [OF part(1)] demo_error Cons.IH [OF part(2) f2(2), unfolded demo_engine_fields] demo_run_def)
qed simp

theorem passing_record_certified_witness:
  "\<exists>r runs. view_record (engine_params demo_engine sample_params) 3 1729 (''V00'', ''identity'') = Inr r
    \<and> ir_certificate_ids r = map pr_certificate runs
    \<and> list_all2 (certified_run demo_engine (eg_load demo_engine 3 1729)) partitions runs"
proof -
  let ?P = "engine_params demo_engine sample_params"
  have "\<exists>h. schema_hash (ce_frames demo_cert) demo_schema = Inr h" by (simp add: schema_hash_def demo_schema_def)
  then obtain a where a: "assess_applicability (ce_frames demo_cert) (ip_now ?P) ''V00'' ''identity'' (DatasetInt 3) 1729 demo_schema
      = Inr a" "ap_status a = ''APPLICABLE''"
    by (auto simp: assess_applicability_def applies_def validate_applicability_def demo_schema_def)
  have "base_fit identity_view None (demo_table [1, 2]) (DatasetInt 3) 1729 demo_schema
      = (Some (demo_fitted\<lparr>ft_params := no_parameters\<lparr>pa_source_columns := [ROW_ID_COLUMN, ''x'']\<rparr>\<rparr>), Inr ())"
    by (simp add: base_fit_def validate_input_frame_def demo_table_columns identity_view_def identity_fit_def demo_fitted_def)
      (simp add: demo_schema_def ROW_ID_COLUMN_def TARGET_CODE_COLUMN_def TARGET_LABEL_COLUMN_def)
  then have "ip_run ?P 3 1729 ''V00'' = Inr (map demo_run partitions)"
    using demo_partition_runs [OF subset_refl]
    by (simp add: engine_params_def view_runs_def demo_engine_fields) (simp add: demo_fitted_def)
  moreover have "validate_record (passed_record ?P 3 1729 (''V00'', ''identity'') (map demo_run partitions))
      = Inr (passed_record ?P 3 1729 (''V00'', ''identity'') (map demo_run partitions))"
    unfolding validate_record_def record_guards
    by (simp add: passed_record_def blank_record_def sample_params_def engine_params_def negative_option_def missing_text_def
        partitions_def demo_run_def Let_def)
  moreover have "list_all pr_deterministic (map demo_run partitions)" by (simp add: partitions_def demo_run_def)
  moreover have "ip_frames ?P = ce_frames demo_cert" "ip_schema ?P 3 1729 = demo_schema"
    by (simp_all add: engine_params_def demo_engine_fields)
  ultimately have r: "view_record ?P 3 1729 (''V00'', ''identity'')
      = Inr (passed_record ?P 3 1729 (''V00'', ''identity'') (map demo_run partitions))"
    using a by (simp add: view_record_def)
  from passing_record_certified [OF r] r show ?thesis by (simp add: passed_record_def Let_def) blast
qed

section \<open>Tolerances\<close>

text \<open>Claim C40. Certification only ever succeeds with the built-in tolerances: a transformation configured with
  another relative or absolute tolerance gets no certificate for any table, because the round trip
  is checked with the built-in ones against those recorded in the certificate.\<close>

theorem configured_tolerance_rejected:
  assumes "cf_rtol tr = Some x \<and> x \<noteq> ce_rtol C \<or> cf_atol tr = Some x \<and> x \<noteq> ce_atol C"
  shows "\<exists>e. certificate_for C parse tr source transformed part version strategy st ot reason = Inl e"
proof (rule ccontr)
  assume "\<not> ?thesis"
  then obtain c where "certificate_for C parse tr source transformed part version strategy st ot reason = Inr c"
    by (metis sumE)
  then obtain p restored evidence where
    b: "build_certificate C tr source transformed part version strategy st ot ''FAIL'' [(''provisional'', JBool True)] reason = Inr p"
    and v: "validate_roundtrip C parse (Some (cf_configuration_hash tr, cf_implementation_hash tr)) (ce_rtol C) (ce_atol C)
        source transformed restored p = Inr evidence"
    unfolding certificate_for_def Let_def if_Inl_Inr_iff bindr_Inr_iff sum.inject by blast
  from v obtain u where "guards (artifact_guards C p (Some (cf_configuration_hash tr, cf_implementation_hash tr))
      (ce_rtol C) (ce_atol C) source transformed) () = Inr u"
    unfolding validate_roundtrip_def bindr_Inr_iff by blast
  then have "map_of (tc_numerical_tolerance p) ''rtol'' = Some (ce_rtol C)"
    "map_of (tc_numerical_tolerance p) ''atol'' = Some (ce_atol C)"
    by (auto simp: guards_Inr_iff artifact_guards_def Let_def)
  with build_certificate_Inr [OF b] assms show False by auto
qed

theorem configured_tolerance_rejected_witness:
  "\<exists>e. certificate_for demo_cert (\<lambda>j. Inl (ValueError [])) (demo_certified\<lparr>cf_rtol := Some 1\<rparr>) (demo_table [1, 2])
     (demo_table [1, 2]) ''test'' ''local'' ''stratified_group_5fold_v1'' (Some zero_hash) (Some zero_hash) None = Inl e"
  by (rule configured_tolerance_rejected [where x = 1]) (simp add: demo_cert_def)

end
