(* ===== verification/Splits.thy ===== *)
theory Splits
  imports Views
begin

text \<open>
  \<open>src/schemaguard/splits\<close>: the grouping of rows by their predictors (\<open>grouping.py\<close>, with
  \<open>canonical_predictor_vector\<close> and \<open>predictor_group_ids\<close> of \<open>data/splits.py\<close>), the choice of
  calibration and test fold (\<open>selection.py\<close>), the assignment rows and their logical hash
  (\<open>generation.py\<close>, \<open>caching.py\<close>). A target table is the list of its row identities and target
  codes, a grouped table the list of its row identities and group identities.
  \<open>StratifiedGroupKFold\<close> of scikit-learn, the rounded division, difference and sum of floats, the
  text of a float and the \<open>repr\<close> of a foreign object are arguments.
\<close>

section \<open>Grouping by predictors\<close>

record split_params =
  sp_frames :: frame_params
  sp_hex :: "py_float \<Rightarrow> string"
  sp_repr :: "cell \<Rightarrow> string \<times> string"
  sp_kfold :: "nat \<Rightarrow> nat \<Rightarrow> int list \<Rightarrow> string list \<Rightarrow> nat list list result"
  sp_ratio :: "nat \<Rightarrow> nat \<Rightarrow> py_float"
  sp_sub :: "py_float \<Rightarrow> py_float \<Rightarrow> py_float"
  sp_sum :: "py_float list \<Rightarrow> py_float"

definition sp_sha :: "split_params \<Rightarrow> string \<Rightarrow> string" where
  "sp_sha P = fp_sha (sp_frames P)"

definition sp_float :: "split_params \<Rightarrow> py_float \<Rightarrow> json" where
  "sp_float P x = JFloat (cp_frepr (fp_codec (sp_frames P)) x)"

definition scalar_json :: "string \<Rightarrow> string \<Rightarrow> json \<Rightarrow> json" where
  "scalar_json dtype kind v = JObj [(''dtype'', JStr dtype), (''type'', JStr kind), (''value'', v)]"

fun canonical_scalar :: "split_params \<Rightarrow> string \<Rightarrow> cell \<Rightarrow> json" where
  "canonical_scalar P dtype CMissing = scalar_json dtype ''missing'' JNull"
| "canonical_scalar P dtype (CBool b) = scalar_json dtype ''bool'' (JBool b)"
| "canonical_scalar P dtype (CInt t i) = scalar_json dtype ''integer'' (JStr (show_int i))"
| "canonical_scalar P dtype (CFloat t (Finite x)) = scalar_json dtype ''float'' (JStr (sp_hex P x))"
| "canonical_scalar P dtype (CFloat t NegZero) = scalar_json dtype ''float'' (JStr ''-0x0.0p+0'')"
| "canonical_scalar P dtype (CFloat t (NonFinite s)) =
     (if s = ''inf'' then scalar_json dtype ''float'' (JStr ''+inf'')
      else if s = ''-inf'' then scalar_json dtype ''float'' (JStr ''-inf'')
      else scalar_json dtype ''missing'' JNull)"
| "canonical_scalar P dtype (CTime s) = scalar_json dtype ''timestamp'' (JStr s)"
| "canonical_scalar P dtype (CStr s) = scalar_json dtype ''string'' (JStr s)"
| "canonical_scalar P dtype (COther t) =
     scalar_json dtype (fst (sp_repr P (COther t))) (JStr (snd (sp_repr P (COther t))))"

text \<open>The payload of a row: each predictor column with its scalar; its digest is the group of the row.\<close>

definition vector_json :: "split_params \<Rightarrow> column list \<Rightarrow> nat \<Rightarrow> json" where
  "vector_json P cols i = JObj [(''columns'', JArr (map (\<lambda>c. JObj
     [(''name'', JStr (co_name c)), (''value'', canonical_scalar P (co_dtype c) (co_cells c ! i))]) cols))]"

definition canonical_predictor_vector :: "split_params \<Rightarrow> column list \<Rightarrow> nat \<Rightarrow> string" where
  "canonical_predictor_vector P cols i = sha256_canonical_json (sp_sha P) (vector_json P cols i)"

definition GROUP_ID_COLUMN :: string where "GROUP_ID_COLUMN = ''__sg_group_id''"

definition predictor_columns :: "frame \<Rightarrow> column list" where
  "predictor_columns X =
     filter (\<lambda>c. co_name c \<notin> {ROW_ID_COLUMN, GROUP_ID_COLUMN, TARGET_LABEL_COLUMN, TARGET_CODE_COLUMN}) X"

definition predictor_group_ids :: "split_params \<Rightarrow> frame \<Rightarrow> string list result" where
  "predictor_group_ids P X =
     (if predictor_columns X = [] then Inl (ValueError ''At least one predictor column is required to derive groups'')
      else Inr (map (canonical_predictor_vector P (predictor_columns X)) [0..<row_count X]))"

text \<open>\<open>grouped_features\<close>; dropping ignores the columns that are not there.\<close>

definition grouped_features :: "split_params \<Rightarrow> frame \<Rightarrow> (string \<times> string) list result" where
  "grouped_features P X =
     (case find (\<lambda>c. co_name c = ROW_ID_COLUMN) X of
        None \<Rightarrow> Inl (ValueError ''features must contain __sg_row_id'')
      | Some ids \<Rightarrow> bindr (predictor_group_ids P (filter (\<lambda>c. co_name c \<notin>
            {''predictor_group_id'', ''fold_id'', ''partition'', ''split''}) X))
          (\<lambda>groups. Inr (zip (map (fp_str (sp_frames P)) (co_cells ids)) groups)))"

section \<open>The configuration\<close>

record split_config =
  sg_strategy :: string
  sg_group_folds :: nat
  sg_train_fraction :: py_float
  sg_calibration_fraction :: py_float
  sg_test_fraction :: py_float
  sg_minimum_class_count :: nat
  sg_seeds :: "int list"
  sg_datasets :: "int list"
  sg_max_workers :: int

definition SPLIT_SEEDS :: "int list" where
  "SPLIT_SEEDS = [1729, 2718, 31415, 57721, 161803]"

definition SPLIT_DATASETS :: "int list" where
  "SPLIT_DATASETS = [3, 23, 29, 31, 36, 37, 38, 44, 46, 50, 54, 1067, 1464, 1489]"

definition open_fraction :: "py_float \<Rightarrow> bool" where
  "open_fraction x \<longleftrightarrow> 0 < x \<and> x < 1"

definition fractions_differ :: "split_params \<Rightarrow> py_float list \<Rightarrow> bool" where
  "fractions_differ P xs \<longleftrightarrow> \<bar>sp_sub P (sp_sum P xs) 1\<bar> > 1 / 10 ^ 12"

definition validate_split_config :: "split_params \<Rightarrow> split_config \<Rightarrow> split_config result" where
  "validate_split_config P c = guards
     [(sg_strategy c \<noteq> ''stratified_group_5fold_v1'', ValueError ''strategy''),
      (sg_group_folds c \<noteq> 5, ValueError ''group_folds''),
      (\<not> list_all open_fraction [sg_train_fraction c, sg_calibration_fraction c, sg_test_fraction c],
        ValueError ''fraction''),
      (sg_minimum_class_count c < 1, ValueError ''minimum_class_count_per_partition''),
      (sg_seeds c = [] \<or> sg_datasets c = [], ValueError ''seeds and datasets''),
      (sg_max_workers c \<notin> {1, 2}, ValueError ''max_workers''),
      (fractions_differ P [sg_train_fraction c, sg_calibration_fraction c, sg_test_fraction c],
        ValueError ''split fractions must sum to one''),
      (sg_seeds c \<noteq> SPLIT_SEEDS, ValueError ''the frozen seed set must not be changed''),
      (sg_datasets c \<noteq> SPLIT_DATASETS, ValueError ''the frozen SchemaOrbit-14 dataset set must not be changed'')] c"

definition split_config_json :: "split_params \<Rightarrow> split_config \<Rightarrow> json" where
  "split_config_json P c = JObj [
     (''schema_version'', JInt 1), (''strategy'', JStr (sg_strategy c)),
     (''grouping_method'', JStr ''typed_predictor_sha256_v1''), (''group_by'', JStr ''predictors''),
     (''group_folds'', JInt (int (sg_group_folds c))), (''train_fraction'', sp_float P (sg_train_fraction c)),
     (''calibration_fraction'', sp_float P (sg_calibration_fraction c)), (''test_fraction'', sp_float P (sg_test_fraction c)),
     (''minimum_class_count_per_partition'', JInt (int (sg_minimum_class_count c))),
     (''seeds'', JArr (map JInt (sg_seeds c))), (''datasets'', JArr (map JInt (sg_datasets c))),
     (''max_workers'', JInt (sg_max_workers c))]"

definition split_configuration_hash :: "split_params \<Rightarrow> split_config \<Rightarrow> string" where
  "split_configuration_hash P c = sha256_canonical_json (sp_sha P) (split_config_json P c)"

section \<open>Folds\<close>

definition derive_component_seed :: "(string \<Rightarrow> string) \<Rightarrow> int \<Rightarrow> string \<Rightarrow> nat result" where
  "derive_component_seed sha master component =
     (if master < 0 then Inl (ValueError ''master_seed must be non-negative'')
      else Inr (hex_prefix (sha (show_int master @ '':'' @ component))))"

text \<open>The loop over the held-out rows of the folds; the dictionary is the list of rows and folds.\<close>

fun hold_out :: "string list \<Rightarrow> nat \<Rightarrow> nat list \<Rightarrow> (string \<times> nat) list \<Rightarrow> (string \<times> nat) list result" where
  "hold_out rids k [] acc = Inr acc"
| "hold_out rids k (i # js) acc =
     (if length rids \<le> i then Inl (IndexError ''list index out of range'')
      else if rids ! i \<in> set (map fst acc) then Inl (ValueError ''a row was assigned to multiple grouped folds'')
      else hold_out rids k js (acc @ [(rids ! i, k)]))"

fun assign_folds :: "string list \<Rightarrow> nat \<Rightarrow> nat list list \<Rightarrow> (string \<times> nat) list \<Rightarrow> (string \<times> nat) list result" where
  "assign_folds rids k [] acc = Inr acc"
| "assign_folds rids k (held # rest) acc =
     bindr (hold_out rids k held acc) (assign_folds rids (Suc k) rest)"

text \<open>\<open>feature_by_row.loc[[row]]\<close>: every row of that identity, none is an error.\<close>

definition groups_of :: "(string \<times> string) list \<Rightarrow> string \<Rightarrow> string list result" where
  "groups_of grouped row = (case map snd (filter (\<lambda>g. fst g = row) grouped) of
     [] \<Rightarrow> Inl (KeyError row) | gs \<Rightarrow> Inr gs)"

definition folds ::
  "split_params \<Rightarrow> split_config \<Rightarrow> int \<Rightarrow> (string \<times> string) list \<Rightarrow> (string \<times> int) list \<Rightarrow> (string \<times> nat) list result" where
  "folds P c seed grouped targets =
     (let ordered = sort_key fst targets; rids = map fst ordered in
      bindr (mapr (groups_of grouped) rids) (\<lambda>gss.
      bindr (derive_component_seed (sp_sha P) seed (sg_strategy c)) (\<lambda>fold_seed.
      bindr (sp_kfold P (sg_group_folds c) fold_seed (map snd ordered) (concat gss)) (\<lambda>helds.
      bindr (assign_folds rids 0 helds []) (\<lambda>result.
      if set (map fst result) \<noteq> set rids then Inl (ValueError ''group folds do not cover every row'')
      else Inr result)))))"

section \<open>Candidates\<close>

text \<open>The partition of a fold when one fold calibrates and one tests.\<close>

definition fold_partition :: "nat \<Rightarrow> nat \<Rightarrow> nat \<Rightarrow> string" where
  "fold_partition cal tst k = (if k = cal then ''calibration'' else if k = tst then ''test'' else ''train'')"

definition row_label :: "(string \<times> nat) list \<Rightarrow> nat \<Rightarrow> nat \<Rightarrow> nat \<Rightarrow> string \<Rightarrow> string result" where
  "row_label fold_by_row n cal tst row =
     bindr (of_option (KeyError row) (map_of fold_by_row row)) (\<lambda>k.
     if n \<le> k then Inl (KeyError ''fold'') else Inr (fold_partition cal tst k))"

text \<open>\<open>target_by_row\<close>: a later row of the same identity replaces an earlier one.\<close>

definition target_dict :: "(string \<times> int) list \<Rightarrow> (string \<times> int) list" where
  "target_dict targets = AList.clearjunk (rev targets)"

definition target_of :: "(string \<times> int) list \<Rightarrow> string \<Rightarrow> int" where
  "target_of targets row = the (map_of (target_dict targets) row)"

definition target_codes :: "(string \<times> int) list \<Rightarrow> int list" where
  "target_codes targets = sort (remdups (map snd (target_dict targets)))"

definition code_count :: "int \<Rightarrow> int list \<Rightarrow> nat" where
  "code_count code codes = length (filter (\<lambda>c. c = code) codes)"

text \<open>The codes of the rows of a partition, and how often each occurs.\<close>

definition partition_codes :: "(string \<times> int) list \<Rightarrow> string list \<Rightarrow> string \<Rightarrow> int list" where
  "partition_codes targets labels part =
     map (\<lambda>(t, l). target_of targets (fst t)) (filter (\<lambda>(t, l). l = part) (zip targets labels))"

definition class_counts :: "int list \<Rightarrow> (int \<times> nat) list" where
  "class_counts codes = map (\<lambda>code. (code, code_count code codes)) (sort (remdups codes))"

definition lookup_count :: "(int \<times> nat) list \<Rightarrow> int \<Rightarrow> nat" where
  "lookup_count counts code = (case map_of counts code of None \<Rightarrow> 0 | Some n \<Rightarrow> n)"

record fold_choice =
  fc_labels :: "(string \<times> string) list"
  fc_train :: "nat list"
  fc_calibration :: nat
  fc_test :: nat
  fc_counts :: "(string \<times> nat) list"
  fc_class_counts :: "(string \<times> (int \<times> nat) list) list"
  fc_size_deviations :: "(string \<times> py_float) list"
  fc_class_deviations :: "(string \<times> (int \<times> py_float) list) list"
  fc_size_score :: py_float
  fc_class_score :: py_float

datatype candidate_outcome =
    EmptyPartition
  | Violation "(string \<times> nat) list" "(string \<times> (int \<times> nat) list) list"
  | Candidate fold_choice

definition fractions :: "split_config \<Rightarrow> (string \<times> py_float) list" where
  "fractions c = [(''train'', sg_train_fraction c), (''calibration'', sg_calibration_fraction c), (''test'', sg_test_fraction c)]"

definition candidate ::
  "split_params \<Rightarrow> split_config \<Rightarrow> (string \<times> nat) list \<Rightarrow> (string \<times> int) list \<Rightarrow> nat \<Rightarrow> nat \<Rightarrow> candidate_outcome result" where
  "candidate P c fold_by_row targets cal tst =
     bindr (mapr (\<lambda>t. row_label fold_by_row (sg_group_folds c) cal tst (fst t)) targets) (\<lambda>labels.
     let codes = partition_codes targets labels;
         counts = map (\<lambda>p. (p, length (codes p))) partitions;
         ccs = map (\<lambda>p. (p, class_counts (codes p))) partitions;
         total = length targets; all_codes = map snd (target_dict targets);
         sizes = map (\<lambda>(p, f). (p, \<bar>sp_sub P (sp_ratio P (length (codes p)) total) f\<bar>)) (fractions c);
         classes = map (\<lambda>p. (p, map (\<lambda>code. (code, \<bar>sp_sub P (sp_ratio P (lookup_count (class_counts (codes p)) code) (length (codes p)))
              (sp_ratio P (code_count code all_codes) total)\<bar>)) (target_codes targets))) partitions in
     if list_ex (\<lambda>p. codes p = []) partitions then Inr EmptyPartition
     else if list_ex (\<lambda>p. list_ex (\<lambda>code. lookup_count (class_counts (codes p)) code < sg_minimum_class_count c)
         (target_codes targets)) partitions then Inr (Violation counts ccs)
     else Inr (Candidate \<lparr>fc_labels = zip (map fst targets) labels,
       fc_train = filter (\<lambda>k. k \<notin> {cal, tst}) [0..<sg_group_folds c], fc_calibration = cal, fc_test = tst,
       fc_counts = counts, fc_class_counts = ccs, fc_size_deviations = sizes, fc_class_deviations = classes,
       fc_size_score = sp_sum P (map snd sizes), fc_class_score = sp_sum P (map (\<lambda>x. sp_sum P (map snd (snd x))) classes)\<rparr>))"

definition choice_key :: "fold_choice \<Rightarrow> py_float \<times> py_float \<times> nat list \<times> nat \<times> nat" where
  "choice_key c = (fc_size_score c, fc_class_score c, fc_train c, fc_calibration c, fc_test c)"

text \<open>Python's \<open>min\<close> with a key: the first of the smallest.\<close>

fun min_by :: "('a \<Rightarrow> 'b :: linorder) \<Rightarrow> 'a \<Rightarrow> 'a list \<Rightarrow> 'a" where
  "min_by f x [] = x"
| "min_by f x (y # ys) = (if f y < f x then min_by f y ys else min_by f x ys)"

section \<open>Selection\<close>

record selection =
  sl_choice :: fold_choice
  sl_fold_by_row :: "(string \<times> nat) list"
  sl_valid_candidates :: nat
  sl_hard_violations :: nat
  sl_fold_seed :: nat
  sl_diagnostics :: "((nat \<times> nat) \<times> candidate_outcome) list"

datatype selection_result =
    Infeasible nat nat "((nat \<times> nat) \<times> candidate_outcome) list"
  | Selected selection

definition fold_pairs :: "nat \<Rightarrow> (nat \<times> nat) list" where
  "fold_pairs n = filter (\<lambda>(cal, tst). cal \<noteq> tst) (List.product [0..<n] [0..<n])"

definition feasible_choices :: "((nat \<times> nat) \<times> candidate_outcome) list \<Rightarrow> fold_choice list" where
  "feasible_choices outcomes = concat (map (\<lambda>(_, x). case x of Candidate c \<Rightarrow> [c] | _ \<Rightarrow> []) outcomes)"

definition is_violation :: "candidate_outcome \<Rightarrow> bool" where
  "is_violation x \<longleftrightarrow> (case x of Violation _ _ \<Rightarrow> True | _ \<Rightarrow> False)"

definition select_fold_assignment ::
  "split_params \<Rightarrow> split_config \<Rightarrow> int \<Rightarrow> (string \<times> string) list \<Rightarrow> (string \<times> int) list \<Rightarrow> selection_result result" where
  "select_fold_assignment P c seed grouped targets =
     bindr (folds P c seed grouped targets) (\<lambda>fold_by_row.
     bindr (mapr (\<lambda>(cal, tst). bindr (candidate P c fold_by_row targets cal tst) (\<lambda>x. Inr ((cal, tst), x)))
       (fold_pairs (sg_group_folds c))) (\<lambda>outcomes.
     bindr (derive_component_seed (sp_sha P) seed (sg_strategy c)) (\<lambda>fold_seed.
     let hard = length (filter (is_violation \<circ> snd) outcomes) in
     case feasible_choices outcomes of
       [] \<Rightarrow> Inr (Infeasible hard fold_seed outcomes)
     | x # xs \<Rightarrow> Inr (Selected \<lparr>sl_choice = min_by choice_key x xs, sl_fold_by_row = fold_by_row,
         sl_valid_candidates = length (x # xs), sl_hard_violations = hard, sl_fold_seed = fold_seed,
         sl_diagnostics = outcomes\<rparr>))))"

section \<open>Assignments\<close>

record assign_row =
  as_row :: string
  as_group :: string
  as_fold :: "int option"
  as_partition :: string

text \<open>\<open>logical_assignment_hash\<close>: the rows in the order of their identities, without the fold.\<close>

definition row_json :: "assign_row \<Rightarrow> json" where
  "row_json r = JObj [(''__sg_row_id'', JStr (as_row r)), (''predictor_group_id'', JStr (as_group r)),
     (''partition'', JStr (as_partition r))]"

definition logical_assignment_hash :: "(string \<Rightarrow> string) \<Rightarrow> assign_row list \<Rightarrow> string" where
  "logical_assignment_hash sha rows = sha256_canonical_json sha (JArr (map row_json (sort_key as_row rows)))"

definition assignment_row :: "(string \<times> string) list \<Rightarrow> selection \<Rightarrow> string \<Rightarrow> assign_row result" where
  "assignment_row grouped sel row =
     bindr (groups_of grouped row) (\<lambda>gs.
     if length gs \<noteq> 1 then Inl (ValueError ''All arrays must be of the same length'')
     else bindr (of_option (KeyError row) (map_of (fc_labels (sl_choice sel)) row)) (\<lambda>label.
     bindr (of_option (ValueError ''cannot convert NA to integer'') (map_of (sl_fold_by_row sel) row)) (\<lambda>k.
     Inr \<lparr>as_row = row, as_group = hd gs, as_fold = Some (int k), as_partition = label\<rparr>)))"

definition assignment_rows ::
  "(string \<times> string) list \<Rightarrow> (string \<times> int) list \<Rightarrow> selection \<Rightarrow> assign_row list result" where
  "assignment_rows grouped targets sel =
     bindr (mapr (assignment_row grouped sel) (map fst targets)) (\<lambda>rows. Inr (sort_key as_row rows))"

end
