(* ===== verification/Split_Facts.thy ===== *)
theory Split_Facts
  imports Splits Frame_Facts
begin

text \<open>
  Facts on the grouping, the folds and the selection: the dictionary of folds covers every row once,
  a candidate is feasible when it is one, the selected candidate is a smallest one, and the logical
  hash depends on the set of assignments only.
\<close>

section \<open>Folds\<close>

lemma hold_out_Inr:
  "\<lbrakk>hold_out rids k is acc = Inr r; distinct (map fst acc); fst ` set acc \<subseteq> set rids\<rbrakk>
   \<Longrightarrow> distinct (map fst r) \<and> fst ` set r \<subseteq> set rids"
proof (induction rids k "is" acc rule: hold_out.induct)
  case (2 rids k i js acc)
  then have i: "i < length rids" "rids ! i \<notin> set (map fst acc)" and r: "hold_out rids k js (acc @ [(rids ! i, k)]) = Inr r"
    by (auto split: if_splits)
  from i have "rids ! i \<in> set rids" by simp
  with 2 i r show ?case by auto
qed simp

lemma assign_folds_Inr:
  "\<lbrakk>assign_folds rids k helds acc = Inr r; distinct (map fst acc); fst ` set acc \<subseteq> set rids\<rbrakk>
   \<Longrightarrow> distinct (map fst r) \<and> fst ` set r \<subseteq> set rids"
proof (induction rids k helds acc rule: assign_folds.induct)
  case (2 rids k held rest acc)
  then obtain acc' where "hold_out rids k held acc = Inr acc'" "assign_folds rids (Suc k) rest acc' = Inr r"
    by (auto simp: bindr_Inr_iff)
  with 2 hold_out_Inr [of rids k held acc acc'] show ?case by blast
qed simp

lemma folds_Inr:
  assumes "folds P c seed grouped targets = Inr r"
  shows "distinct (map fst r)" and "set (map fst r) = fst ` set targets"
proof -
  from assms obtain helds where a: "assign_folds (map fst (sort_key fst targets)) 0 helds [] = Inr r"
    and s: "set (map fst r) = set (map fst (sort_key fst targets))"
    by (auto simp: folds_def Let_def bindr_Inr_iff)
  from assign_folds_Inr [OF a] show "distinct (map fst r)" by simp
  from s show "set (map fst r) = fst ` set targets" by simp
qed

section \<open>Candidates\<close>

lemma row_label_Inr:
  "row_label fold_by_row n cal tst row = Inr l \<longleftrightarrow>
   (\<exists>k < n. map_of fold_by_row row = Some k \<and> l = fold_partition cal tst k)"
  by (auto simp: row_label_def bindr_Inr_iff of_option_def split: option.splits if_splits)

lemma fold_partition_in: "fold_partition cal tst k \<in> set partitions"
  by (simp add: fold_partition_def partitions_def)

text \<open>A candidate meets the hard constraint: no partition is empty and each has enough rows of every class.\<close>

definition feasible :: "split_config \<Rightarrow> (string \<times> nat) list \<Rightarrow> (string \<times> int) list \<Rightarrow> nat \<Rightarrow> nat \<Rightarrow> bool" where
  "feasible c fold_by_row targets cal tst \<longleftrightarrow> (\<forall>p \<in> set partitions.
     let rows = filter (\<lambda>t. \<exists>k. map_of fold_by_row (fst t) = Some k \<and> fold_partition cal tst k = p) targets in
     rows \<noteq> [] \<and> (\<forall>code \<in> snd ` set (target_dict targets).
       sg_minimum_class_count c \<le> length (filter (\<lambda>t. target_of targets (fst t) = code) rows)))"

lemma lookup_class_counts: "lookup_count (class_counts codes) code = code_count code codes"
proof (cases "code \<in> set codes")
  case True
  have "map_of (map (\<lambda>x. (x, g x)) xs) code = (if code \<in> set xs then Some (g code) else None)" for g :: "int \<Rightarrow> nat" and xs
    by (induction xs) auto
  with True show ?thesis by (simp add: lookup_count_def class_counts_def)
next
  case False
  have "map_of (map (\<lambda>x. (x, g x)) xs) code = (if code \<in> set xs then Some (g code) else None)" for g :: "int \<Rightarrow> nat" and xs
    by (induction xs) auto
  moreover have "code_count code codes = 0" using False by (auto simp: code_count_def filter_empty_conv)
  ultimately show ?thesis using False by (simp add: lookup_count_def class_counts_def)
qed

lemma labels_of_rows:
  assumes "mapr (\<lambda>t. row_label fold_by_row n cal tst (fst t)) targets = Inr labels"
  shows "labels = map (\<lambda>t. fold_partition cal tst (the (map_of fold_by_row (fst t)))) targets"
    and "\<forall>t \<in> set targets. \<exists>k < n. map_of fold_by_row (fst t) = Some k"
  using assms by (induction targets arbitrary: labels) (auto simp: bindr_Inr_iff row_label_Inr)

lemma partition_codes_rows:
  assumes "mapr (\<lambda>t. row_label fold_by_row n cal tst (fst t)) ts = Inr labels"
  shows "map (\<lambda>(t, l). h (fst t)) (filter (\<lambda>(t, l). l = p) (zip ts labels))
    = map (\<lambda>t. h (fst t)) (filter (\<lambda>t. \<exists>k. map_of fold_by_row (fst t) = Some k \<and> fold_partition cal tst k = p) ts)"
  using assms by (induction ts arbitrary: labels) (auto simp: bindr_Inr_iff row_label_Inr)

lemma candidate_Inr:
  assumes "candidate P c fold_by_row targets cal tst = Inr out"
  shows "feasible c fold_by_row targets cal tst \<longleftrightarrow> (\<exists>x. out = Candidate x)"
    and "out = Candidate x \<Longrightarrow> fc_calibration x = cal \<and> fc_test x = tst
      \<and> fc_train x = filter (\<lambda>k. k \<notin> {cal, tst}) [0..<sg_group_folds c]
      \<and> fc_labels x = map (\<lambda>t. (fst t, fold_partition cal tst (the (map_of fold_by_row (fst t))))) targets
      \<and> (\<forall>t \<in> set targets. \<exists>k < sg_group_folds c. map_of fold_by_row (fst t) = Some k)"
proof -
  from assms obtain labels where l: "mapr (\<lambda>t. row_label fold_by_row (sg_group_folds c) cal tst (fst t)) targets = Inr labels"
    unfolding candidate_def bindr_Inr_iff by blast
  note out = assms [unfolded candidate_def l bindr_simps Let_def]
  have codes: "partition_codes targets labels p = map (\<lambda>t. target_of targets (fst t))
      (filter (\<lambda>t. \<exists>k. map_of fold_by_row (fst t) = Some k \<and> fold_partition cal tst k = p) targets)" for p
    unfolding partition_codes_def by (rule partition_codes_rows [OF l])
  have count: "code_count code (map f xs) = length (filter (\<lambda>t. f t = code) xs)" for f :: "string \<times> int \<Rightarrow> int" and code xs
    by (simp add: code_count_def filter_map comp_def)
  have "feasible c fold_by_row targets cal tst \<longleftrightarrow> \<not> list_ex (\<lambda>p. partition_codes targets labels p = []) partitions
     \<and> \<not> list_ex (\<lambda>p. list_ex (\<lambda>code. lookup_count (class_counts (partition_codes targets labels p)) code < sg_minimum_class_count c)
         (target_codes targets)) partitions"
    by (auto simp: feasible_def Let_def list_ex_iff lookup_class_counts codes count target_codes_def not_less)
  with out show "feasible c fold_by_row targets cal tst \<longleftrightarrow> (\<exists>x. out = Candidate x)"
    by (auto split: if_splits)
  show "out = Candidate x \<Longrightarrow> fc_calibration x = cal \<and> fc_test x = tst
      \<and> fc_train x = filter (\<lambda>k. k \<notin> {cal, tst}) [0..<sg_group_folds c]
      \<and> fc_labels x = map (\<lambda>t. (fst t, fold_partition cal tst (the (map_of fold_by_row (fst t))))) targets
      \<and> (\<forall>t \<in> set targets. \<exists>k < sg_group_folds c. map_of fold_by_row (fst t) = Some k)"
    using out labels_of_rows [OF l] by (auto simp: zip_map_map zip_same_conv_map split: if_splits)
qed

section \<open>The smallest\<close>

lemma min_by_mem: "min_by f x xs \<in> set (x # xs)"
  by (induction f x xs rule: min_by.induct) auto

lemma min_by_le: "f (min_by f x xs) \<le> f x"
proof (induction xs arbitrary: x)
  case (Cons z zs)
  show ?case
  proof (cases "f z < f x")
    case True
    with Cons.IH [of z] show ?thesis by simp
  qed (simp add: Cons.IH)
qed simp

lemma min_by_least: "y \<in> set (x # xs) \<Longrightarrow> f (min_by f x xs) \<le> f y"
proof (induction xs arbitrary: x)
  case (Cons z zs)
  show ?case
  proof (cases "f z < f x")
    case True
    from True min_by_le [of f z zs] have "f (min_by f z zs) \<le> f x" by simp
    with True Cons.IH [of z] Cons.prems show ?thesis by auto
  next
    case False
    from False min_by_le [of f x zs] have "f (min_by f x zs) \<le> f z" by simp
    with False Cons.IH [of x] Cons.prems show ?thesis by auto
  qed
qed simp

section \<open>Selection\<close>

lemma feasible_choices_set: "set (feasible_choices outcomes) = {x. \<exists>pair. (pair, Candidate x) \<in> set outcomes}"
  by (force simp: feasible_choices_def split: candidate_outcome.splits)

lemma mapr_set: "mapr f xs = Inr ys \<Longrightarrow> set ys = {y. \<exists>x \<in> set xs. f x = Inr y}"
  by (induction xs arbitrary: ys) (auto simp: bindr_Inr_iff)

lemma mapr_total: "mapr f xs = Inr ys \<Longrightarrow> x \<in> set xs \<Longrightarrow> \<exists>y. f x = Inr y"
  by (induction xs arbitrary: ys) (auto simp: bindr_Inr_iff)

lemma outcomes_mem:
  assumes "mapr (\<lambda>(cal, tst). bindr (candidate P c fbr targets cal tst) (\<lambda>x. Inr ((cal, tst), x))) pairs = Inr outcomes"
  shows "((cal, tst), x) \<in> set outcomes \<longleftrightarrow> (cal, tst) \<in> set pairs \<and> candidate P c fbr targets cal tst = Inr x"
  unfolding mapr_set [OF assms] by (force simp: bindr_Inr_iff)

lemma select_outcomes:
  assumes "select_fold_assignment P c seed grouped targets = Inr s"
  obtains fbr outcomes fold_seed where "folds P c seed grouped targets = Inr fbr"
    "\<And>cal tst x. ((cal, tst), x) \<in> set outcomes \<longleftrightarrow> (cal, tst) \<in> set (fold_pairs (sg_group_folds c))
        \<and> candidate P c fbr targets cal tst = Inr x"
    "\<And>cal tst. (cal, tst) \<in> set (fold_pairs (sg_group_folds c)) \<Longrightarrow> \<exists>x. candidate P c fbr targets cal tst = Inr x"
    "(case feasible_choices outcomes of
       [] \<Rightarrow> Infeasible (length (filter (is_violation \<circ> snd) outcomes)) fold_seed outcomes
     | x # xs \<Rightarrow> Selected \<lparr>sl_choice = min_by choice_key x xs, sl_fold_by_row = fbr,
         sl_valid_candidates = length (x # xs), sl_hard_violations = length (filter (is_violation \<circ> snd) outcomes),
         sl_fold_seed = fold_seed, sl_diagnostics = outcomes\<rparr>) = s"
proof -
  from assms obtain fbr outcomes fold_seed where fbr: "folds P c seed grouped targets = Inr fbr"
    and o: "mapr (\<lambda>(cal, tst). bindr (candidate P c fbr targets cal tst) (\<lambda>x. Inr ((cal, tst), x)))
       (fold_pairs (sg_group_folds c)) = Inr outcomes"
    and s: "(case feasible_choices outcomes of
       [] \<Rightarrow> Inr (Infeasible (length (filter (is_violation \<circ> snd) outcomes)) fold_seed outcomes)
     | x # xs \<Rightarrow> Inr (Selected \<lparr>sl_choice = min_by choice_key x xs, sl_fold_by_row = fbr,
         sl_valid_candidates = length (x # xs), sl_hard_violations = length (filter (is_violation \<circ> snd) outcomes),
         sl_fold_seed = fold_seed, sl_diagnostics = outcomes\<rparr>)) = (Inr s :: selection_result result)"
    unfolding select_fold_assignment_def Let_def bindr_Inr_iff by blast
  show thesis
  proof (rule that [OF fbr])
    show "((cal, tst), x) \<in> set outcomes \<longleftrightarrow> (cal, tst) \<in> set (fold_pairs (sg_group_folds c))
        \<and> candidate P c fbr targets cal tst = Inr x" for cal tst x
      by (rule outcomes_mem [OF o])
    show "\<exists>x. candidate P c fbr targets cal tst = Inr x" if "(cal, tst) \<in> set (fold_pairs (sg_group_folds c))" for cal tst
      using mapr_total [OF o that] by (auto simp: bindr_Inr_iff)
    show "(case feasible_choices outcomes of
       [] \<Rightarrow> Infeasible (length (filter (is_violation \<circ> snd) outcomes)) fold_seed outcomes
     | x # xs \<Rightarrow> Selected \<lparr>sl_choice = min_by choice_key x xs, sl_fold_by_row = fbr,
         sl_valid_candidates = length (x # xs), sl_hard_violations = length (filter (is_violation \<circ> snd) outcomes),
         sl_fold_seed = fold_seed, sl_diagnostics = outcomes\<rparr>) = s"
      using s by (cases "feasible_choices outcomes") simp_all
  qed
qed

lemma fold_pairs_iff: "(cal, tst) \<in> set (fold_pairs n) \<longleftrightarrow> cal < n \<and> tst < n \<and> cal \<noteq> tst"
  by (auto simp: fold_pairs_def)

lemma selection_facts:
  assumes "select_fold_assignment P c seed grouped targets = Inr s"
  shows "\<exists>fbr. folds P c seed grouped targets = Inr fbr \<and> distinct (map fst fbr) \<and> set (map fst fbr) = fst ` set targets
    \<and> (case s of
         Infeasible _ _ _ \<Rightarrow> \<forall>(cal, tst) \<in> set (fold_pairs (sg_group_folds c)). \<not> feasible c fbr targets cal tst
       | Selected sel \<Rightarrow> let x = sl_choice sel in sl_fold_by_row sel = fbr
           \<and> (fc_calibration x, fc_test x) \<in> set (fold_pairs (sg_group_folds c))
           \<and> feasible c fbr targets (fc_calibration x) (fc_test x)
           \<and> fc_train x = filter (\<lambda>k. k \<notin> {fc_calibration x, fc_test x}) [0..<sg_group_folds c]
           \<and> fc_labels x = map (\<lambda>t. (fst t, fold_partition (fc_calibration x) (fc_test x) (the (map_of fbr (fst t))))) targets
           \<and> (\<forall>(cal, tst) \<in> set (fold_pairs (sg_group_folds c)).
                feasible c fbr targets cal tst \<longrightarrow> (\<exists>y. candidate P c fbr targets cal tst = Inr (Candidate y) \<and> choice_key x \<le> choice_key y)))"
proof (rule select_outcomes [OF assms])
  fix fbr outcomes fold_seed
  assume fbr: "folds P c seed grouped targets = Inr fbr"
    and o: "\<And>cal tst x. ((cal, tst), x) \<in> set outcomes \<longleftrightarrow> (cal, tst) \<in> set (fold_pairs (sg_group_folds c))
        \<and> candidate P c fbr targets cal tst = Inr x"
    and total: "\<And>cal tst. (cal, tst) \<in> set (fold_pairs (sg_group_folds c)) \<Longrightarrow> \<exists>x. candidate P c fbr targets cal tst = Inr x"
    and s: "(case feasible_choices outcomes of
       [] \<Rightarrow> Infeasible (length (filter (is_violation \<circ> snd) outcomes)) fold_seed outcomes
     | x # xs \<Rightarrow> Selected \<lparr>sl_choice = min_by choice_key x xs, sl_fold_by_row = fbr,
         sl_valid_candidates = length (x # xs), sl_hard_violations = length (filter (is_violation \<circ> snd) outcomes),
         sl_fold_seed = fold_seed, sl_diagnostics = outcomes\<rparr>) = s"
  have choices: "y \<in> set (feasible_choices outcomes) \<longleftrightarrow> (\<exists>cal tst. (cal, tst) \<in> set (fold_pairs (sg_group_folds c))
      \<and> candidate P c fbr targets cal tst = Inr (Candidate y))" for y
    unfolding feasible_choices_set using o by force
  have chosen: "\<exists>y. candidate P c fbr targets cal tst = Inr (Candidate y) \<and> y \<in> set (feasible_choices outcomes)"
    if "(cal, tst) \<in> set (fold_pairs (sg_group_folds c))" "feasible c fbr targets cal tst" for cal tst
    using total [OF that(1)] candidate_Inr(1) that choices by blast
  show ?thesis
  proof (cases "feasible_choices outcomes")
    case Nil
    have "\<not> feasible c fbr targets cal tst" if "(cal, tst) \<in> set (fold_pairs (sg_group_folds c))" for cal tst
      using chosen [OF that] Nil by auto
    then show ?thesis using fbr folds_Inr [OF fbr] s Nil by auto
  next
    case (Cons x xs)
    let ?m = "min_by choice_key x xs"
    have "?m \<in> set (feasible_choices outcomes)" unfolding Cons by (rule min_by_mem)
    then obtain cal tst where ct: "(cal, tst) \<in> set (fold_pairs (sg_group_folds c))"
      "candidate P c fbr targets cal tst = Inr (Candidate ?m)" unfolding choices by blast
    from candidate_Inr(1) [OF ct(2)] have feas: "feasible c fbr targets cal tst" by simp
    have least: "\<exists>y. candidate P c fbr targets cal' tst' = Inr (Candidate y) \<and> choice_key ?m \<le> choice_key y"
      if "(cal', tst') \<in> set (fold_pairs (sg_group_folds c))" "feasible c fbr targets cal' tst'" for cal' tst'
      using chosen [OF that] min_by_least [of _ x xs choice_key] unfolding Cons by blast
    show ?thesis
      using fbr folds_Inr [OF fbr] s ct(1) feas candidate_Inr(2) [OF ct(2) refl] least by (auto simp: Cons Let_def)
  qed
qed

lemma selected_facts:
  assumes "select_fold_assignment P c seed grouped targets = Inr (Selected sel)"
  shows "folds P c seed grouped targets = Inr (sl_fold_by_row sel)"
    and "fc_calibration (sl_choice sel) < sg_group_folds c \<and> fc_test (sl_choice sel) < sg_group_folds c
      \<and> fc_calibration (sl_choice sel) \<noteq> fc_test (sl_choice sel)"
    and "feasible c (sl_fold_by_row sel) targets (fc_calibration (sl_choice sel)) (fc_test (sl_choice sel))"
    and "fc_labels (sl_choice sel) = map (\<lambda>t. (fst t, fold_partition (fc_calibration (sl_choice sel)) (fc_test (sl_choice sel))
        (the (map_of (sl_fold_by_row sel) (fst t))))) targets"
    and "distinct (map fst (sl_fold_by_row sel))" and "set (map fst (sl_fold_by_row sel)) = fst ` set targets"
    and "fc_train (sl_choice sel) = filter (\<lambda>k. k \<notin> {fc_calibration (sl_choice sel), fc_test (sl_choice sel)}) [0..<sg_group_folds c]"
  using selection_facts [OF assms] by (auto simp: Let_def fold_pairs_iff)

lemma selected_candidate:
  assumes "select_fold_assignment P c seed grouped targets = Inr (Selected sel)"
  shows "candidate P c (sl_fold_by_row sel) targets (fc_calibration (sl_choice sel)) (fc_test (sl_choice sel))
    = Inr (Candidate (sl_choice sel))"
proof (rule select_outcomes [OF assms])
  fix fbr outcomes fold_seed
  assume o: "\<And>cal tst x. ((cal, tst), x) \<in> set outcomes \<longleftrightarrow> (cal, tst) \<in> set (fold_pairs (sg_group_folds c))
        \<and> candidate P c fbr targets cal tst = Inr x"
    and s: "(case feasible_choices outcomes of
       [] \<Rightarrow> Infeasible (length (filter (is_violation \<circ> snd) outcomes)) fold_seed outcomes
     | x # xs \<Rightarrow> Selected \<lparr>sl_choice = min_by choice_key x xs, sl_fold_by_row = fbr,
         sl_valid_candidates = length (x # xs), sl_hard_violations = length (filter (is_violation \<circ> snd) outcomes),
         sl_fold_seed = fold_seed, sl_diagnostics = outcomes\<rparr>) = Selected sel"
  then obtain x xs where "feasible_choices outcomes = x # xs" "sl_choice sel = min_by choice_key x xs" "sl_fold_by_row sel = fbr"
    by (auto split: list.splits)
  with min_by_mem [of choice_key x xs] have sel: "sl_choice sel \<in> set (feasible_choices outcomes)" "sl_fold_by_row sel = fbr" by simp_all
  then obtain cal tst where "candidate P c fbr targets cal tst = Inr (Candidate (sl_choice sel))"
    unfolding feasible_choices_set using o by force
  with candidate_Inr(2) [OF this refl] sel(2) show ?thesis by simp
qed

lemma selected_label:
  assumes "select_fold_assignment P c seed grouped targets = Inr (Selected sel)" and "r \<in> fst ` set targets"
  shows "map_of (fc_labels (sl_choice sel)) r = Some (fold_partition (fc_calibration (sl_choice sel)) (fc_test (sl_choice sel))
      (the (map_of (sl_fold_by_row sel) r)))"
proof -
  have "map_of (map (\<lambda>t. (fst t, h (fst t))) ts) r = Some (h r)" if "r \<in> fst ` set ts" for h :: "string \<Rightarrow> string" and ts :: "(string \<times> int) list"
    using that by (induction ts) auto
  from this [OF assms(2)] show ?thesis by (simp add: selected_facts(4) [OF assms(1)])
qed

text \<open>Nothing but the kind of fold and the seed can go wrong once the folds are there.\<close>

lemma mapr_complete: "(\<And>x. x \<in> set xs \<Longrightarrow> \<exists>y. f x = Inr y) \<Longrightarrow> \<exists>ys. mapr f xs = Inr ys"
  by (induction xs) (fastforce simp: bindr_Inr_iff)+

lemma candidate_total:
  assumes "\<And>t. t \<in> set targets \<Longrightarrow> \<exists>k < sg_group_folds c. map_of fbr (fst t) = Some k"
  shows "\<exists>x. candidate P c fbr targets cal tst = Inr x"
proof -
  have "\<exists>labels. mapr (\<lambda>t. row_label fbr (sg_group_folds c) cal tst (fst t)) targets = Inr labels"
    by (rule mapr_complete) (use assms row_label_Inr in blast)
  then show ?thesis by (auto simp: candidate_def Let_def)
qed

lemma select_succeeds:
  assumes fbr: "folds P c seed grouped targets = Inr fbr"
    and "\<And>t. t \<in> set targets \<Longrightarrow> \<exists>k < sg_group_folds c. map_of fbr (fst t) = Some k"
    and "feasible c fbr targets cal tst" and "cal < sg_group_folds c" "tst < sg_group_folds c" "cal \<noteq> tst"
  shows "\<exists>sel. select_fold_assignment P c seed grouped targets = Inr (Selected sel)"
proof -
  obtain fold_seed where fs: "derive_component_seed (sp_sha P) seed (sg_strategy c) = Inr fold_seed"
    using fbr by (auto simp: folds_def Let_def bindr_Inr_iff)
  have "\<exists>outcomes. mapr (\<lambda>(cal, tst). bindr (candidate P c fbr targets cal tst) (\<lambda>x. Inr ((cal, tst), x)))
      (fold_pairs (sg_group_folds c)) = Inr outcomes"
  proof (rule mapr_complete)
    fix pair :: "nat \<times> nat"
    obtain x y where "pair = (x, y)" by (cases pair)
    with candidate_total [OF assms(2)] show "\<exists>out. (case pair of (cal, tst) \<Rightarrow>
        bindr (candidate P c fbr targets cal tst) (\<lambda>x. Inr ((cal, tst), x))) = Inr out" by (fastforce simp: bindr_Inr_iff)
  qed
  then obtain outcomes where o: "mapr (\<lambda>(cal, tst). bindr (candidate P c fbr targets cal tst) (\<lambda>x. Inr ((cal, tst), x)))
      (fold_pairs (sg_group_folds c)) = Inr outcomes" by blast
  obtain out where out: "candidate P c fbr targets cal tst = Inr out" using candidate_total [OF assms(2)] by blast
  with candidate_Inr(1) [OF out] assms(3) obtain x where x: "out = Candidate x" by blast
  have "((cal, tst), Candidate x) \<in> set outcomes"
    unfolding outcomes_mem [OF o] using out x assms(4-6) by (simp add: fold_pairs_iff)
  then have "feasible_choices outcomes \<noteq> []" using feasible_choices_set [of outcomes] by force
  then show ?thesis
    by (cases "feasible_choices outcomes") (simp_all add: select_fold_assignment_def fbr o fs Let_def)
qed

section \<open>Groups stay together\<close>

text \<open>What \<open>StratifiedGroupKFold\<close> documents: a group is held out as a whole, and every fold holds some rows out.\<close>

definition groups_whole :: "split_params \<Rightarrow> bool" where
  "groups_whole P \<longleftrightarrow> (\<forall>n s ys gs helds. sp_kfold P n s ys gs = Inr helds \<longrightarrow>
     (\<forall>held \<in> set helds. \<forall>i \<in> set held. \<forall>j < length gs. gs ! i = gs ! j \<longrightarrow> j \<in> set held))"

lemma hold_out_entries:
  "hold_out rids k js acc = Inr r \<Longrightarrow> set r = set acc \<union> {(rids ! j, k) | j. j \<in> set js} \<and> (\<forall>j \<in> set js. j < length rids)"
  by (induction rids k js acc rule: hold_out.induct) (auto split: if_splits)

lemma assign_folds_entries:
  "assign_folds rids k helds acc = Inr r \<Longrightarrow>
   set r = set acc \<union> {(rids ! j, k + i) | i j. i < length helds \<and> j \<in> set (helds ! i)}
   \<and> (\<forall>held \<in> set helds. \<forall>j \<in> set held. j < length rids)"
proof (induction rids k helds acc rule: assign_folds.induct)
  case (2 rids k held rest acc)
  then obtain acc' where a: "hold_out rids k held acc = Inr acc'" "assign_folds rids (Suc k) rest acc' = Inr r"
    by (auto simp: bindr_Inr_iff)
  have split: "{(rids ! j, k + i) | i j. i < length (held # rest) \<and> j \<in> set ((held # rest) ! i)}
      = {(rids ! j, k) | j. j \<in> set held} \<union> {(rids ! j, Suc k + i) | i j. i < length rest \<and> j \<in> set (rest ! i)}" (is "?l = ?r")
  proof
    show "?l \<subseteq> ?r"
    proof
      fix x assume "x \<in> ?l"
      then obtain i j where "x = (rids ! j, k + i)" "i < length (held # rest)" "j \<in> set ((held # rest) ! i)" by blast
      then show "x \<in> ?r" by (cases i) auto
    qed
    show "?r \<subseteq> ?l" by force
  qed
  from 2(1) [OF a(2)] hold_out_entries [OF a(1)] show ?case unfolding split by auto
qed simp

lemma filter_key_unique:
  "distinct (map fst kvs) \<Longrightarrow> map snd (filter (\<lambda>g. fst g = k) kvs) = (case map_of kvs k of None \<Rightarrow> [] | Some v \<Rightarrow> [v])"
proof (induction kvs)
  case (Cons kv kvs)
  then have "fst kv = k \<Longrightarrow> map_of kvs k = None" by (auto simp: map_of_eq_None_iff)
  with Cons show ?case by auto
qed simp

lemma groups_of_unique:
  assumes "distinct (map fst grouped)" and "groups_of grouped row = Inr gs"
  shows "\<exists>g. gs = [g] \<and> map_of grouped row = Some g"
  using assms by (auto simp: groups_of_def filter_key_unique split: option.splits)

lemma folds_keep_groups:
  assumes "groups_whole P" and "folds P c seed grouped targets = Inr fbr"
    and "distinct (map fst grouped)" and "distinct (map fst targets)"
    and "r1 \<in> fst ` set targets" "r2 \<in> fst ` set targets" and "map_of grouped r1 = map_of grouped r2"
  shows "map_of fbr r1 = map_of fbr r2"
proof -
  define rids where "rids = map fst (sort_key fst targets)"
  from assms(2) obtain gss fs helds where g: "mapr (groups_of grouped) rids = Inr gss"
    and h: "sp_kfold P (sg_group_folds c) fs (map snd (sort_key fst targets)) (concat gss) = Inr helds"
    and a: "assign_folds rids 0 helds [] = Inr fbr"
    by (auto simp: folds_def Let_def bindr_Inr_iff rids_def)
  have "map (\<lambda>r. [the (map_of grouped r)]) rids = gss"
  proof (rule nth_equalityI)
    show len: "length (map (\<lambda>r. [the (map_of grouped r)]) rids) = length gss" using mapr_length [OF g] by simp
    fix i assume "i < length (map (\<lambda>r. [the (map_of grouped r)]) rids)"
    then have i: "i < length rids" by simp
    from groups_of_unique [OF assms(3) mapr_nth [OF g i]] show "map (\<lambda>r. [the (map_of grouped r)]) rids ! i = gss ! i"
      using i by auto
  qed
  then have gs: "concat gss = map (\<lambda>r. the (map_of grouped r)) rids" by (auto simp: comp_def)
  have whole: "\<forall>held \<in> set helds. \<forall>i \<in> set held. \<forall>j < length rids. concat gss ! i = concat gss ! j \<longrightarrow> j \<in> set held"
    using assms(1) h unfolding groups_whole_def gs by (metis length_map)
  have d: "distinct (map fst fbr)" and dom: "set (map fst fbr) = fst ` set targets" by (rule folds_Inr [OF assms(2)])+
  have set_rids: "set rids = fst ` set targets" by (simp add: rids_def)
  note entries = assign_folds_entries [OF a, simplified]
  have other: "map_of fbr s = Some k" if r: "map_of fbr r = Some k" and rs: "r \<in> set rids" "s \<in> set rids"
      "map_of grouped r = map_of grouped s" for r s k
  proof -
    from r have "(r, k) \<in> set fbr" by (rule map_of_SomeD)
    with entries obtain i where i: "k < length helds" "i \<in> set (helds ! k)" "r = rids ! i" by auto
    with entries have l: "i < length rids" using nth_mem by blast
    from rs(2) obtain j where j: "j < length rids" "s = rids ! j" by (metis in_set_conv_nth)
    have "concat gss ! i = concat gss ! j" using i j l rs(3) by (simp add: gs)
    with whole i j have "j \<in> set (helds ! k)" by auto
    with entries i(1) j(2) have "(s, k) \<in> set fbr" by auto
    with d show ?thesis by simp
  qed
  from assms(5) dom obtain k where "map_of fbr r1 = Some k" by (metis map_of_eq_None_iff not_None_eq set_map)
  with other [OF this] assms(5-7) show ?thesis by (simp add: set_rids)
qed

section \<open>The logical hash\<close>

lemma logical_hash_order:
  assumes "distinct (map as_row xs)" and "mset xs = mset ys"
  shows "logical_assignment_hash sha xs = logical_assignment_hash sha ys"
proof -
  have "sort_key as_row xs = sort_key as_row ys"
    using assms by (intro sort_key_inj_key_eq) (simp_all add: distinct_map)
  then show ?thesis by (simp add: logical_assignment_hash_def)
qed

lemma row_json_zip: "row_json r = JObj (zip [''__sg_row_id'', ''predictor_group_id'', ''partition'']
    [JStr (as_row r), JStr (as_group r), JStr (as_partition r)])"
  by (simp add: row_json_def)

lemma row_json_inj:
  assumes "canonicalize (row_json r) = canonicalize (row_json s)"
  shows "as_row r = as_row s \<and> as_group r = as_group s \<and> as_partition r = as_partition s"
proof -
  have "[JStr (as_row r), JStr (as_group r), JStr (as_partition r)] = [JStr (as_row s), JStr (as_group s), JStr (as_partition s)]"
    by (rule canonicalize_flat_record_inj [OF _ _ _ _ _ assms [unfolded row_json_zip]]) (simp_all add: atomic_def)
  then show ?thesis by simp
qed

definition row_triple :: "assign_row \<Rightarrow> string \<times> string \<times> string" where
  "row_triple r = (as_row r, as_group r, as_partition r)"

lemma row_triples_sorted:
  assumes "distinct (map as_row xs)" and "distinct (map as_row ys)" and "row_triple ` set xs = row_triple ` set ys"
  shows "map row_json (sort_key as_row xs) = map row_json (sort_key as_row ys)"
proof -
  have fst: "fst \<circ> row_triple = as_row" by (auto simp: row_triple_def)
  have inj: "inj_on fst (row_triple ` set zs)" if "distinct (map as_row zs)" for zs
    using that by (auto simp: inj_on_def distinct_map row_triple_def)
  have d: "distinct (map row_triple (sort_key as_row zs))" if "distinct (map as_row zs)" for zs
    using that by (auto simp: distinct_map inj_on_def row_triple_def)
  have "map row_triple (sort_key as_row xs) = map row_triple (sort_key as_row ys)"
  proof (rule map_sorted_distinct_set_unique [where f = fst])
    show "inj_on fst (set (map row_triple (sort_key as_row xs)) \<union> set (map row_triple (sort_key as_row ys)))"
      using inj [OF assms(1)] assms(3) by simp
    show "sorted (map fst (map row_triple (sort_key as_row xs)))" "sorted (map fst (map row_triple (sort_key as_row ys)))"
      by (simp_all add: fst)
    show "distinct (map fst (map row_triple (sort_key as_row xs)))" "distinct (map fst (map row_triple (sort_key as_row ys)))"
      using assms(1,2) by (simp_all add: fst distinct_map)
    show "set (map row_triple (sort_key as_row xs)) = set (map row_triple (sort_key as_row ys))" using assms(3) by simp
  qed
  then have "map (\<lambda>(a, b, c). JObj [(''__sg_row_id'', JStr a), (''predictor_group_id'', JStr b), (''partition'', JStr c)])
        (map row_triple (sort_key as_row xs))
      = map (\<lambda>(a, b, c). JObj [(''__sg_row_id'', JStr a), (''predictor_group_id'', JStr b), (''partition'', JStr c)])
        (map row_triple (sort_key as_row ys))" by simp
  then show ?thesis unfolding row_json_def [abs_def] by (simp add: comp_def row_triple_def)
qed

lemma logical_hash_texts:
  assumes "canonical_text (JArr (map row_json xs)) = canonical_text (JArr (map row_json ys))"
  shows "map row_triple xs = map row_triple ys"
proof -
  have wf: "wf_json (JArr (map row_json zs))" for zs by (simp add: row_json_def list_all_iff)
  have "map canonicalize (map row_json xs) = map canonicalize (map row_json ys)"
    using assms unfolding canonical_text_inj [OF wf wf] by simp
  then have "list_all2 (\<lambda>r s. canonicalize (row_json r) = canonicalize (row_json s)) xs ys"
    by (simp add: list_all2_conv_all_nth list_eq_iff_nth_eq)
  then have "list_all2 (\<lambda>r s. (as_row r, as_group r, as_partition r) = (as_row s, as_group s, as_partition s)) xs ys"
    by (rule list_all2_mono) (drule row_json_inj, simp)
  then show ?thesis by (simp add: list_all2_conv_all_nth list_eq_iff_nth_eq row_triple_def)
qed

section \<open>Grouping\<close>

lemma canonical_scalar_shape:
  "\<exists>kind v. canonical_scalar P d c = scalar_json d kind v \<and> atomic v"
proof -
  have scalar: "\<exists>kind v. scalar_json d k w = scalar_json d kind v \<and> atomic v" if "atomic w" for k w using that by blast
  have "atomic JNull" "atomic (JBool b)" "atomic (JStr s)" for b s by (simp_all add: atomic_def)
  then show ?thesis by (cases "(P, d, c)" rule: canonical_scalar.cases) (simp_all add: scalar)
qed

lemma canonical_scalar_inj:
  assumes "canonicalize (canonical_scalar P d v) = canonicalize (canonical_scalar P d w)"
  shows "canonical_scalar P d v = canonical_scalar P d w"
proof -
  obtain k x where v: "canonical_scalar P d v = scalar_json d k x" "atomic x" using canonical_scalar_shape by blast
  obtain l y where w: "canonical_scalar P d w = scalar_json d l y" "atomic y" using canonical_scalar_shape by blast
  have zip: "scalar_json d k x = JObj (zip [''dtype'', ''type'', ''value''] [JStr d, JStr k, x])" for k x
    by (simp add: scalar_json_def)
  have "[JStr d, JStr k, x] = [JStr d, JStr l, y]"
    by (rule canonicalize_flat_record_inj [OF _ _ _ _ _ assms [unfolded v(1) w(1) zip]])
      (use v(2) w(2) in \<open>simp_all add: atomic_def\<close>)
  then show ?thesis by (simp add: v(1) w(1))
qed

lemma vector_json_inj:
  assumes "canonicalize (vector_json P cols i) = canonicalize (vector_json P cols j)" and "c \<in> set cols"
  shows "canonical_scalar P (co_dtype c) (co_cells c ! i) = canonical_scalar P (co_dtype c) (co_cells c ! j)"
proof -
  let ?f = "\<lambda>i c. JObj [(''name'', JStr (co_name c)), (''value'', canonical_scalar P (co_dtype c) (co_cells c ! i))]"
  have "map_option canonicalize (map_of [(''columns'', JArr (map (?f i) cols))] ''columns'')
      = map_option canonicalize (map_of [(''columns'', JArr (map (?f j) cols))] ''columns'')"
    by (rule canonicalize_field) (use assms(1) in \<open>simp only: vector_json_def\<close>)
  then have "map canonicalize (map (?f i) cols) = map canonicalize (map (?f j) cols)" by simp
  then have "canonicalize (?f i c) = canonicalize (?f j c)" using assms(2) by (simp only: list.map_comp map_eq_conv comp_def)
  from canonicalize_field [OF this, of "''value''"] show ?thesis by (intro canonical_scalar_inj) simp
qed

lemma vector_wf: "wf_json (vector_json P cols i)"
proof -
  have "wf_json (canonical_scalar P d c)" for d c
    by (cases "(P, d, c)" rule: canonical_scalar.cases) (auto simp: scalar_json_def)
  then show ?thesis by (simp add: vector_json_def list_all_iff)
qed

end
