(* ===== verification/Split_Store.thy ===== *)
theory Split_Store
  imports Splits "HOL-Library.Sublist"
begin

text \<open>
  The contracts, the validation, the generation and the inventory of splits
  (\<open>contracts.py\<close>, \<open>caching.py\<close>, \<open>validation.py\<close>, \<open>generation.py\<close>, \<open>inventory.py\<close> of
  \<open>src/schemaguard/splits\<close>). The published directories are a map from data set and seed to the bytes
  of their two files; the quarantine is the list of what was moved there, newest first. Reading and
  writing Parquet and JSON text, the processed data set, the Git commit and the clock are arguments.
\<close>

section \<open>The manifest\<close>

record split_manifest =
  sm_dataset_id :: int
  sm_dataset_version :: string
  sm_dataset_name :: string
  sm_seed :: int
  sm_strategy :: string
  sm_strategy_version :: string
  sm_grouping_method :: string
  sm_fractions :: "py_float list"
  sm_row_count :: int
  sm_predictor_count :: int
  sm_class_values :: "int list"
  sm_partition_counts :: "(string \<times> nat) list"
  sm_partition_class_counts :: "(string \<times> (int \<times> nat) list) list"
  sm_predictor_group_count :: int
  sm_duplicate_group_count :: int
  sm_conflicting_group_count :: int
  sm_cross_partition_group_count :: int
  sm_feature_hash :: string
  sm_target_hash :: string
  sm_dataset_manifest_hash :: string
  sm_assignment_hash :: string
  sm_logical_hash :: string
  sm_configuration_hash :: string
  sm_grouping_hash :: string
  sm_implementation_hash :: string
  sm_cache_identity_hash :: string
  sm_source_commit :: string
  sm_created_at :: string
  sm_status :: string
  sm_fold_assignment :: "(string \<times> nat list) list"
  sm_selection_score :: "(string \<times> py_float) list"
  sm_size_deviations :: "(string \<times> py_float) list"
  sm_class_deviations :: "(string \<times> (int \<times> py_float) list) list"
  sm_candidate_count :: int
  sm_diagnostics :: "((nat \<times> nat) \<times> candidate_outcome) list"
  sm_fold_seed :: nat
  sm_protected_baseline :: bool

definition same_entries :: "('a \<times> 'b) list \<Rightarrow> ('a \<times> 'b) list \<Rightarrow> bool" where
  "same_entries a b \<longleftrightarrow> list_all (\<lambda>k. map_of a k = map_of b k) (map fst a @ map fst b)"

definition hash_fields :: "split_manifest \<Rightarrow> string list" where
  "hash_fields m = [sm_feature_hash m, sm_target_hash m, sm_dataset_manifest_hash m, sm_assignment_hash m,
     sm_logical_hash m, sm_configuration_hash m, sm_grouping_hash m, sm_implementation_hash m, sm_cache_identity_hash m]"

definition validate_split_manifest :: "split_params \<Rightarrow> split_manifest \<Rightarrow> split_manifest result" where
  "validate_split_manifest P m = guards
     [(sm_dataset_id m \<le> 0 \<or> sm_seed m < 0, ValueError ''dataset_id and seed''),
      (sm_strategy m \<noteq> ''stratified_group_5fold_v1'' \<or> sm_strategy_version m \<noteq> ''v1''
         \<or> sm_grouping_method m \<noteq> ''typed_predictor_sha256_v1'', ValueError ''strategy''),
      (length (sm_fractions m) \<noteq> 3 \<or> \<not> list_all open_fraction (sm_fractions m), ValueError ''fraction''),
      (sm_row_count m \<le> 0 \<or> sm_predictor_count m \<le> 0 \<or> sm_predictor_group_count m \<le> 0, ValueError ''count''),
      (sm_duplicate_group_count m < 0 \<or> sm_conflicting_group_count m < 0 \<or> sm_cross_partition_group_count m < 0
         \<or> sm_candidate_count m < 0, ValueError ''count''),
      (length (sm_class_values m) < 2, ValueError ''class_values''),
      (\<not> list_all is_sha256 (hash_fields m), ValueError ''sha256''),
      (sm_status m \<notin> {''PASS'', ''FAILED'', ''CONSTRAINT_INFEASIBLE''}, ValueError ''validation_status''),
      (\<not> distinct (sm_class_values m), ValueError ''class_values must not contain duplicates''),
      (sort (sm_class_values m) \<noteq> map int [0..<length (sm_class_values m)],
        ValueError ''class_values must be contiguous target codes''),
      (fractions_differ P (sm_fractions m), ValueError ''manifest fractions must sum to one''),
      (set (map fst (sm_partition_counts m)) \<noteq> set partitions, ValueError ''manifest must contain exactly three partitions''),
      (set (map fst (sm_partition_class_counts m)) \<noteq> set (map fst (sm_partition_counts m)),
        ValueError ''partition class counts do not cover all partitions''),
      (int (sum_list (map snd (sm_partition_counts m))) \<noteq> sm_row_count m,
        ValueError ''partition counts do not sum to row count'')] m"

section \<open>The identity of a split\<close>

record split_identity =
  si_dataset_id :: int
  si_dataset_version :: string
  si_feature_hash :: string
  si_target_hash :: string
  si_dataset_manifest_hash :: string
  si_seed :: int
  si_strategy :: string
  si_strategy_version :: string
  si_grouping_hash :: string
  si_configuration_hash :: string
  si_implementation_hash :: string
  si_source_commit :: string

definition split_identity_json :: "split_identity \<Rightarrow> json" where
  "split_identity_json i = JObj [
     (''schema_version'', JInt 1), (''dataset_id'', JInt (si_dataset_id i)), (''dataset_version'', JStr (si_dataset_version i)),
     (''feature_artifact_hash'', JStr (si_feature_hash i)), (''target_artifact_hash'', JStr (si_target_hash i)),
     (''dataset_manifest_hash'', JStr (si_dataset_manifest_hash i)), (''seed'', JInt (si_seed i)),
     (''strategy'', JStr (si_strategy i)), (''strategy_version'', JStr (si_strategy_version i)),
     (''grouping_implementation_hash'', JStr (si_grouping_hash i)), (''split_configuration_hash'', JStr (si_configuration_hash i)),
     (''split_implementation_hash'', JStr (si_implementation_hash i)), (''source_commit'', JStr (si_source_commit i)),
     (''artifact_schema_version'', JInt 1)]"

text \<open>\<open>cache_identity\<close> validates its fields; \<open>cache_key\<close> is the digest of the result.\<close>

definition split_cache_identity :: "split_identity \<Rightarrow> split_identity result" where
  "split_cache_identity i = guards
     [(si_dataset_id i \<le> 0 \<or> si_seed i < 0, ValueError ''dataset_id and seed''),
      (\<not> list_all is_sha256 [si_feature_hash i, si_target_hash i, si_dataset_manifest_hash i, si_grouping_hash i,
         si_configuration_hash i, si_implementation_hash i], ValueError ''sha256'')] i"

definition split_cache_key :: "(string \<Rightarrow> string) \<Rightarrow> split_identity \<Rightarrow> string" where
  "split_cache_key sha i = sha256_canonical_json sha (split_identity_json i)"

section \<open>Processed data and files\<close>

text \<open>What the processed directory of a data set holds, once \<open>validate_processed\<close> has accepted it.\<close>

record processed =
  pd_name :: string
  pd_version :: string
  pd_ignored :: "string list"
  pd_features :: frame
  pd_targets :: "(string \<times> int) list"
  pd_feature_columns :: "nat option"
  pd_feature_hash :: string
  pd_target_hash :: string
  pd_manifest_hash :: string

record assignment_table =
  at_columns :: "string list"
  at_integral :: bool
  at_rows :: "assign_row list"

record split_dir =
  sd_assignments :: "string option"
  sd_manifest :: "string option"

record split_env =
  sv_params :: split_params
  sv_processed :: "int \<Rightarrow> processed result"
  sv_read_table :: "string \<Rightarrow> assignment_table option"
  sv_write_table :: "assignment_table \<Rightarrow> string"
  sv_json :: "string \<Rightarrow> json option"
  sv_manifest :: "json \<Rightarrow> split_manifest option"
  sv_write_manifest :: "split_manifest \<Rightarrow> string"
  sv_grouping_hash :: string
  sv_implementation_hash :: string
  sv_commit :: "string result"
  sv_now :: string

definition sv_sha :: "split_env \<Rightarrow> string \<Rightarrow> string" where
  "sv_sha E = sp_sha (sv_params E)"

text \<open>The checks of \<open>_read_local_inputs\<close> on the tables. The row ids of the targets are texts (\<open>validate_processed\<close> has
  recomputed them); those of the features are compared with them as they are in the table.\<close>

definition read_local_inputs :: "split_env \<Rightarrow> int \<Rightarrow> processed result" where
  "read_local_inputs E ds =
     bindr (sv_processed E ds) (\<lambda>d.
     bindr (get_column (pd_features d) ROW_ID_COLUMN) (\<lambda>ids. guards
       [(co_cells ids \<noteq> map (\<lambda>t. CStr (fst t)) (pd_targets d), RuntimeError ''Feature/target row order mismatch''),
        (set (map snd (pd_targets d)) \<noteq> set (map int [0..<card (set (map snd (pd_targets d)))]),
          RuntimeError ''Target codes are not contiguous'')] d))"

text \<open>The grouped rows, without the attributes the data set ignores.\<close>

definition grouped_inputs :: "split_env \<Rightarrow> processed \<Rightarrow> (string \<times> string) list result" where
  "grouped_inputs E d = grouped_features (sv_params E) (filter (\<lambda>c. co_name c \<notin> set (pd_ignored d)) (pd_features d))"

section \<open>Validation\<close>

definition partition_rows :: "assign_row list \<Rightarrow> string \<Rightarrow> assign_row list" where
  "partition_rows rows part = filter (\<lambda>r. as_partition r = part) rows"

text \<open>\<open>_class_counts\<close>: the target codes joined to the rows of each partition (a row without a target has none).\<close>

definition row_codes :: "assign_row list \<Rightarrow> (string \<times> int) list \<Rightarrow> string \<Rightarrow> int list" where
  "row_codes rows targets part = List.map_filter (\<lambda>r. map_of targets (as_row r)) (partition_rows rows part)"

definition observed_counts :: "assign_row list \<Rightarrow> (string \<times> nat) list" where
  "observed_counts rows = map (\<lambda>p. (p, length (partition_rows rows p))) partitions"

definition observed_class_counts :: "assign_row list \<Rightarrow> (string \<times> int) list \<Rightarrow> (string \<times> (int \<times> nat) list) list" where
  "observed_class_counts rows targets = map (\<lambda>p. (p, class_counts (row_codes rows targets p))) partitions"

text \<open>\<open>groupby(key)[value].nunique()\<close> exceeds one for how many keys.\<close>

definition spread_keys :: "(assign_row \<Rightarrow> 'k) \<Rightarrow> (assign_row \<Rightarrow> 'v) \<Rightarrow> assign_row list \<Rightarrow> 'k list" where
  "spread_keys key val rows = filter (\<lambda>k. 1 < card (set (map val (filter (\<lambda>r. key r = k) rows)))) (remdups (map key rows))"

definition PROTECTED_DATASET_SEED :: "int \<times> int" where
  "PROTECTED_DATASET_SEED = (1464, 1729)"

definition PROTECTED_ASSIGNMENT_SHA256 :: string where
  "PROTECTED_ASSIGNMENT_SHA256 = ''e08b9d5c94578b317dcc844c2a6aa7a4f96ad8df699352d1e11d86a7dd452236''"

definition PROTECTED_LOGICAL_ASSIGNMENT_SHA256 :: string where
  "PROTECTED_LOGICAL_ASSIGNMENT_SHA256 = ''f66b2ab092218813b82e49b6a3c19df98b06840d90b463bd9d09ba1bce385365''"

record split_report =
  sr_status :: string
  sr_dataset_id :: int
  sr_seed :: int
  sr_protected :: bool
  sr_row_count :: nat
  sr_counts :: "(string \<times> nat) list"
  sr_class_counts :: "(string \<times> (int \<times> nat) list) list"
  sr_crossing :: nat
  sr_assignment_hash :: string
  sr_logical_hash :: string

text \<open>The two dictionaries of counts as they stand in the manifest of the protected split.\<close>

definition counts_json :: "(string \<times> nat) list \<Rightarrow> json" where
  "counts_json kvs = JObj (map (\<lambda>(p, n). (p, JInt (int n))) kvs)"

definition class_counts_json :: "(string \<times> (int \<times> nat) list) list \<Rightarrow> json" where
  "class_counts_json kvs = JObj (map (\<lambda>(p, cs). (p, JObj (map (\<lambda>(c, n). (show_int c, JInt (int n))) cs))) kvs)"

text \<open>Equality of dictionaries, whatever the order of their keys.\<close>

definition equal_json :: "json \<Rightarrow> json \<Rightarrow> bool" where
  "equal_json v w \<longleftrightarrow> canonicalize v = canonicalize w"

definition json_dict :: "json \<Rightarrow> (string \<times> json) list" where
  "json_dict v = (case v of JObj kvs \<Rightarrow> kvs | _ \<Rightarrow> [])"

definition validate_protected :: "split_env \<Rightarrow> split_config \<Rightarrow> string \<Rightarrow> string \<Rightarrow> split_report result" where
  "validate_protected E c assignments manifest =
     (if sv_sha E assignments \<noteq> PROTECTED_ASSIGNMENT_SHA256
      then Inl (ValueError ''protected Phase 01 assignment hash changed'')
      else bindr (of_option (ValueError ''JSONDecodeError'') (sv_json E manifest)) (\<lambda>payload.
      let p = \<lambda>k. json_field k (json_dict payload) in
      if p ''validation_status'' \<noteq> JStr ''PASS'' \<or> p ''strategy'' \<noteq> JStr (sg_strategy c)
        then Inl (ValueError ''protected Phase 01 manifest is not a passing grouped artifact'')
      else bindr (read_local_inputs E 1464) (\<lambda>d.
      bindr (grouped_features (sv_params E) (pd_features d)) (\<lambda>grouped.
      bindr (of_option (ValueError ''assignment Parquet cannot be read'') (sv_read_table E assignments)) (\<lambda>t.
      if at_columns t \<noteq> [ROW_ID_COLUMN, ''split'']
        then Inl (ValueError ''protected Phase 01 assignment columns changed'')
      else if set (map as_row (at_rows t)) \<noteq> set (map fst (pd_targets d)) \<or> \<not> distinct (map as_row (at_rows t))
        then Inl (ValueError ''protected assignment row coverage is invalid'')
      else bindr (mapr (\<lambda>r. groups_of grouped (as_row r)) (at_rows t)) (\<lambda>gss.
      if length (concat gss) \<noteq> length (at_rows t) then Inl (ValueError ''All arrays must be of the same length'')
      else let rows = map (\<lambda>(r, g). r\<lparr>as_group := g\<rparr>) (zip (at_rows t) (concat gss));
               crossing = length (spread_keys as_group as_partition rows);
               counts = observed_counts rows; ccs = observed_class_counts rows (pd_targets d);
               logical = logical_assignment_hash (sv_sha E) rows in
        guards
          [(crossing \<noteq> 0, ValueError ''protected predictor groups cross partitions''),
           (\<not> distinct (map fst (pd_targets d)), ValueError ''Merge keys are not unique in right dataset''),
           (\<not> equal_json (counts_json counts) (p ''row_counts'')
              \<or> \<not> equal_json (class_counts_json ccs) (p ''class_counts_by_split''),
             ValueError ''protected split counts differ from accepted manifest''),
           (p ''data_manifest_hash'' \<noteq> JStr (pd_manifest_hash d),
             ValueError ''protected split source manifest identity changed''),
           (p ''internal_dataset_id'' \<noteq> JStr (pd_name d) \<or> p ''master_seed'' \<noteq> JInt 1729,
             ValueError ''protected split identity changed''),
           (logical \<noteq> PROTECTED_LOGICAL_ASSIGNMENT_SHA256, ValueError ''protected logical assignment hash changed'')]
          \<lparr>sr_status = ''PASS'', sr_dataset_id = 1464, sr_seed = 1729, sr_protected = True, sr_row_count = length rows,
            sr_counts = counts, sr_class_counts = ccs, sr_crossing = crossing,
            sr_assignment_hash = PROTECTED_ASSIGNMENT_SHA256, sr_logical_hash = logical\<rparr>))))))"

text \<open>The checks of \<open>validate_split_directory\<close>, in the order of the code: the manifest, the table, the folds, the counts and hashes.\<close>

definition manifest_guards :: "split_env \<Rightarrow> split_config \<Rightarrow> int \<Rightarrow> int \<Rightarrow> split_manifest \<Rightarrow> (bool \<times> error) list" where
  "manifest_guards E c ds seed m =
     [(sm_status m \<noteq> ''PASS'', ValueError ''manifest is not passing''),
      (sm_dataset_id m \<noteq> ds \<or> sm_seed m \<noteq> seed, ValueError ''split manifest dataset/seed identity mismatch''),
      (sm_configuration_hash m \<noteq> split_configuration_hash (sv_params E) c,
        ValueError ''split manifest configuration hash mismatch''),
      (sm_grouping_hash m \<noteq> sv_grouping_hash E, ValueError ''split grouping implementation hash mismatch''),
      (sm_implementation_hash m \<noteq> sv_implementation_hash E, ValueError ''split implementation hash mismatch'')]"

definition assignment_columns :: "string list" where
  "assignment_columns = [ROW_ID_COLUMN, ''predictor_group_id'', ''fold_id'', ''partition'']"

definition split_table_guards ::
  "split_config \<Rightarrow> (string \<times> int) list \<Rightarrow> string list result \<Rightarrow> assignment_table \<Rightarrow> (bool \<times> error) list" where
  "split_table_guards c targets expected t = (let rows = at_rows t in
     [(at_columns t \<noteq> assignment_columns, ValueError ''assignment columns are not the required split metadata''),
      (length rows \<noteq> length targets \<or> \<not> distinct (map as_row rows),
        ValueError ''assignment row count or uniqueness is invalid''),
      (set (map as_row rows) \<noteq> set (map fst targets),
        ValueError ''assignments do not cover the complete target row-ID set''),
      (\<not> list_all (\<lambda>r. as_partition r \<in> set partitions) rows, ValueError ''unknown partition value''),
      (Inr (map as_group rows) \<noteq> expected, ValueError ''assignment predictor groups differ from recomputed groups''),
      (list_ex (\<lambda>r. as_fold r = None) rows \<or> \<not> at_integral t, ValueError ''fold IDs are missing or non-integral''),
      (set (map as_fold rows) \<noteq> set (map (Some \<circ> int) [0..<sg_group_folds c]),
        ValueError ''fold IDs must cover every integer fold from zero through four'')])"

definition fold_assignment :: "fold_choice \<Rightarrow> (string \<times> nat list) list" where
  "fold_assignment x = [(''train'', fc_train x), (''calibration'', [fc_calibration x]), (''test'', [fc_test x])]"

definition fold_to_partition :: "fold_choice \<Rightarrow> (nat \<times> string) list" where
  "fold_to_partition x = concat (map (\<lambda>(p, ks). map (\<lambda>k. (k, p)) ks) (fold_assignment x))"

definition fold_guards :: "selection \<Rightarrow> split_manifest \<Rightarrow> assign_row list \<Rightarrow> (bool \<times> error) list" where
  "fold_guards sel m rows =
     (let expected = map (\<lambda>r. map_option int (map_of (sl_fold_by_row sel) (as_row r))) rows;
          table = map (\<lambda>(k, p). (Some (int k), p)) (fold_to_partition (sl_choice sel)) in
     [(map as_fold rows \<noteq> expected, ValueError ''assignment fold provenance differs from recomputed folds''),
      (\<not> same_entries (sm_fold_assignment m) (fold_assignment (sl_choice sel)),
        ValueError ''manifest fold assignment differs from recomputed selection''),
      (list_ex (\<lambda>r. map_of table (as_fold r) = None) rows, ValueError ''a persisted fold is not assigned to a partition''),
      (spread_keys as_group as_fold rows \<noteq> [], ValueError ''a predictor group is split across folds''),
      (spread_keys as_fold as_partition rows \<noteq> [], ValueError ''a fold is split across partitions''),
      (list_ex (\<lambda>r. map_of table (as_fold r) \<noteq> Some (as_partition r)) rows,
        ValueError ''persisted fold and partition provenance disagree''),
      (spread_keys as_group as_partition rows \<noteq> [], ValueError ''predictor groups cross split partitions'')])"

definition nested_same :: "(string \<times> ('k \<times> 'v) list) list \<Rightarrow> (string \<times> ('k \<times> 'v) list) list \<Rightarrow> bool" where
  "nested_same a b \<longleftrightarrow> list_all (\<lambda>k. case (map_of a k, map_of b k) of
     (Some x, Some y) \<Rightarrow> same_entries x y | _ \<Rightarrow> False) (map fst a @ map fst b)"

definition split_count_guards ::
  "split_env \<Rightarrow> split_config \<Rightarrow> processed \<Rightarrow> split_manifest \<Rightarrow> string \<Rightarrow> assign_row list \<Rightarrow> (bool \<times> error) list" where
  "split_count_guards E c d m assignments rows =
     (let ccs = observed_class_counts rows (pd_targets d) in
     [(\<not> same_entries (observed_counts rows) (sm_partition_counts m) \<or> \<not> nested_same ccs (sm_partition_class_counts m),
        ValueError ''manifest partition counts do not match assignments''),
      (list_ex (\<lambda>p. list_ex (\<lambda>code. lookup_count (class_counts (row_codes rows (pd_targets d) p)) code
          < sg_minimum_class_count c) (sm_class_values m)) partitions,
        ValueError ''minimum class count constraint failed''),
      (sv_sha E assignments \<noteq> sm_assignment_hash m, ValueError ''assignment artifact hash mismatch''),
      (logical_assignment_hash (sv_sha E) rows \<noteq> sm_logical_hash m, ValueError ''logical assignment hash mismatch''),
      (pd_feature_hash d \<noteq> sm_feature_hash m \<or> pd_target_hash d \<noteq> sm_target_hash m,
        ValueError ''processed feature or target artifact hash mismatch''),
      (pd_manifest_hash d \<noteq> sm_dataset_manifest_hash m, ValueError ''processed data manifest hash mismatch'')])"

definition manifest_identity :: "split_manifest \<Rightarrow> processed \<Rightarrow> split_identity" where
  "manifest_identity m d = \<lparr>si_dataset_id = sm_dataset_id m, si_dataset_version = sm_dataset_version m,
     si_feature_hash = pd_feature_hash d, si_target_hash = pd_target_hash d, si_dataset_manifest_hash = pd_manifest_hash d,
     si_seed = sm_seed m, si_strategy = sm_strategy m, si_strategy_version = sm_strategy_version m,
     si_grouping_hash = sm_grouping_hash m, si_configuration_hash = sm_configuration_hash m,
     si_implementation_hash = sm_implementation_hash m, si_source_commit = sm_source_commit m\<rparr>"

definition expected_groups :: "(string \<times> string) list \<Rightarrow> assign_row list \<Rightarrow> string list result" where
  "expected_groups grouped rows = bindr (mapr (\<lambda>r. groups_of grouped (as_row r)) rows) (\<lambda>gss. Inr (concat gss))"

definition validate_regular ::
  "split_env \<Rightarrow> split_config \<Rightarrow> int \<Rightarrow> int \<Rightarrow> string \<Rightarrow> string \<Rightarrow> split_report result" where
  "validate_regular E c ds seed assignments manifest =
     bindr (of_option (ValueError ''split manifest contract failed'')
       (Option.bind (sv_json E manifest) (sv_manifest E))) (\<lambda>m0.
     bindr (validate_split_manifest (sv_params E) m0) (\<lambda>m.
     bindr (guards (manifest_guards E c ds seed m) ()) (\<lambda>_.
     bindr (read_local_inputs E ds) (\<lambda>d. bindr (grouped_inputs E d) (\<lambda>grouped.
     bindr (of_option (ValueError ''assignment Parquet cannot be read'') (sv_read_table E assignments)) (\<lambda>t.
     bindr (guards (split_table_guards c (pd_targets d) (expected_groups grouped (at_rows t)) t) ()) (\<lambda>_.
     bindr (select_fold_assignment (sv_params E) c seed grouped (pd_targets d)) (\<lambda>s. case s of
       Infeasible _ _ _ \<Rightarrow> Inl (ValueError ''recomputed fold selection is not feasible'')
     | Selected sel \<Rightarrow>
         bindr (guards (fold_guards sel m (at_rows t) @ split_count_guards E c d m assignments (at_rows t)) ()) (\<lambda>_.
         bindr (split_cache_identity (manifest_identity m d)) (\<lambda>i. guards
           [(split_cache_key (sv_sha E) i \<noteq> sm_cache_identity_hash m, ValueError ''cache identity hash mismatch''),
            (sm_predictor_group_count m \<noteq> int (card (set (map as_group (at_rows t)))),
              ValueError ''predictor group count mismatch''),
            (sm_cross_partition_group_count m \<noteq> 0, ValueError ''cross-partition group count mismatch'')]
           \<lparr>sr_status = ''PASS'', sr_dataset_id = ds, sr_seed = seed, sr_protected = False,
             sr_row_count = length (at_rows t), sr_counts = observed_counts (at_rows t),
             sr_class_counts = observed_class_counts (at_rows t) (pd_targets d), sr_crossing = 0,
             sr_assignment_hash = sm_assignment_hash m,
             sr_logical_hash = logical_assignment_hash (sv_sha E) (at_rows t)\<rparr>))))))))))"

definition validate_split_directory ::
  "split_env \<Rightarrow> split_config \<Rightarrow> int \<Rightarrow> int \<Rightarrow> split_dir \<Rightarrow> split_report result" where
  "validate_split_directory E c ds seed dir =
     (case (sd_assignments dir, sd_manifest dir) of
        (Some assignments, Some manifest) \<Rightarrow>
          (if (ds, seed) = PROTECTED_DATASET_SEED then validate_protected E c assignments manifest
           else validate_regular E c ds seed assignments manifest)
      | _ \<Rightarrow> Inl (ValueError ''split artifact set is incomplete''))"

section \<open>Generation\<close>

record split_world =
  sw_splits :: "(int \<times> int) \<rightharpoonup> split_dir"
  sw_quarantine :: "(string \<times> split_dir) list"

text \<open>\<open>validate_split\<close>: a directory that is not there has neither file.\<close>

definition validate_split :: "split_env \<Rightarrow> split_config \<Rightarrow> split_world \<Rightarrow> int \<Rightarrow> int \<Rightarrow> split_report result" where
  "validate_split E c W ds seed = validate_split_directory E c ds seed
     (case sw_splits W (ds, seed) of Some dir \<Rightarrow> dir | None \<Rightarrow> \<lparr>sd_assignments = None, sd_manifest = None\<rparr>)"

definition quarantine_split :: "split_world \<Rightarrow> int \<times> int \<Rightarrow> string \<Rightarrow> split_world" where
  "quarantine_split W key reason = (case sw_splits W key of
     None \<Rightarrow> W
   | Some dir \<Rightarrow> W\<lparr>sw_splits := (sw_splits W)(key := None), sw_quarantine := (reason, dir) # sw_quarantine W\<rparr>)"

text \<open>\<open>_manifest\<close>, with the doubles of \<open>0.60\<close>, \<open>0.20\<close> and \<open>0.20\<close>.\<close>

definition MANIFEST_FRACTIONS :: "py_float list" where
  "MANIFEST_FRACTIONS = [5404319552844595 / 2 ^ 53, 3602879701896397 / 2 ^ 54, 3602879701896397 / 2 ^ 54]"

lemma MANIFEST_FRACTIONS_open: "length MANIFEST_FRACTIONS = 3" "list_all open_fraction MANIFEST_FRACTIONS"
  by (simp_all add: MANIFEST_FRACTIONS_def open_fraction_def)

definition conflicting_groups :: "(string \<times> string) list \<Rightarrow> (string \<times> int) list \<Rightarrow> nat" where
  "conflicting_groups grouped targets = (let pairs = zip (map snd grouped) (map snd targets) in
     length (filter (\<lambda>g. 1 < card (set (map snd (filter (\<lambda>x. fst x = g) pairs)))) (remdups (map fst pairs))))"

definition generated_identity :: "split_env \<Rightarrow> split_config \<Rightarrow> int \<Rightarrow> int \<Rightarrow> processed \<Rightarrow> string \<Rightarrow> split_identity" where
  "generated_identity E c ds seed d commit = \<lparr>si_dataset_id = ds, si_dataset_version = pd_version d,
     si_feature_hash = pd_feature_hash d, si_target_hash = pd_target_hash d, si_dataset_manifest_hash = pd_manifest_hash d,
     si_seed = seed, si_strategy = ''stratified_group_5fold_v1'', si_strategy_version = ''v1'',
     si_grouping_hash = sv_grouping_hash E, si_configuration_hash = split_configuration_hash (sv_params E) c,
     si_implementation_hash = sv_implementation_hash E, si_source_commit = commit\<rparr>"

definition predictor_count :: "processed \<Rightarrow> nat" where
  "predictor_count d = (case pd_feature_columns d of Some n \<Rightarrow> n
     | None \<Rightarrow> length (filter (\<lambda>col. co_name col \<notin> set (pd_ignored d)) (pd_features d)))"

definition generated_manifest ::
  "split_env \<Rightarrow> split_config \<Rightarrow> int \<Rightarrow> int \<Rightarrow> processed \<Rightarrow> (string \<times> string) list \<Rightarrow> selection \<Rightarrow> string \<Rightarrow> string \<Rightarrow> string
   \<Rightarrow> split_manifest" where
  "generated_manifest E c ds seed d grouped sel assignment_hash logical commit = (let x = sl_choice sel; groups = map snd grouped in
     \<lparr>sm_dataset_id = ds, sm_dataset_version = pd_version d, sm_dataset_name = pd_name d,
        sm_seed = seed, sm_strategy = ''stratified_group_5fold_v1'', sm_strategy_version = ''v1'',
        sm_grouping_method = ''typed_predictor_sha256_v1'', sm_fractions = MANIFEST_FRACTIONS,
        sm_row_count = int (length (pd_targets d)), sm_predictor_count = int (predictor_count d),
        sm_class_values = sort (remdups (map snd (pd_targets d))), sm_partition_counts = fc_counts x,
        sm_partition_class_counts = fc_class_counts x, sm_predictor_group_count = int (card (set groups)),
        sm_duplicate_group_count = int (length (filter (\<lambda>g. 1 < length (filter (\<lambda>h. h = g) groups)) (remdups groups))),
        sm_conflicting_group_count = int (conflicting_groups grouped (pd_targets d)), sm_cross_partition_group_count = 0,
        sm_feature_hash = pd_feature_hash d, sm_target_hash = pd_target_hash d, sm_dataset_manifest_hash = pd_manifest_hash d,
        sm_assignment_hash = assignment_hash, sm_logical_hash = logical,
        sm_configuration_hash = split_configuration_hash (sv_params E) c, sm_grouping_hash = sv_grouping_hash E,
        sm_implementation_hash = sv_implementation_hash E,
        sm_cache_identity_hash = split_cache_key (sv_sha E) (generated_identity E c ds seed d commit),
        sm_source_commit = commit, sm_created_at = sv_now E, sm_status = ''PASS'', sm_fold_assignment = fold_assignment x,
        sm_selection_score = [(''size_deviation_sum'', fc_size_score x), (''class_proportion_deviation_sum'', fc_class_score x)],
        sm_size_deviations = fc_size_deviations x, sm_class_deviations = fc_class_deviations x,
        sm_candidate_count = 20,
        sm_diagnostics = sl_diagnostics sel, sm_fold_seed = sl_fold_seed sel, sm_protected_baseline = False\<rparr>)"

definition new_split_manifest ::
  "split_env \<Rightarrow> split_config \<Rightarrow> int \<Rightarrow> int \<Rightarrow> processed \<Rightarrow> (string \<times> string) list \<Rightarrow> selection \<Rightarrow> string \<Rightarrow> string \<Rightarrow> string
   \<Rightarrow> split_manifest result" where
  "new_split_manifest E c ds seed d grouped sel assignment_hash logical commit =
     bindr (split_cache_identity (generated_identity E c ds seed d commit)) (\<lambda>_.
       validate_split_manifest (sv_params E) (generated_manifest E c ds seed d grouped sel assignment_hash logical commit))"

text \<open>
  The temporary directory as it is filled: the directory so far, and the error that stopped it
  or the hashes of the assignment. Every error moves what is there to the quarantine.
\<close>

definition fill_directory ::
  "split_env \<Rightarrow> split_config \<Rightarrow> int \<Rightarrow> int \<Rightarrow> processed \<Rightarrow> (string \<times> string) list \<Rightarrow> selection \<Rightarrow> assign_row list
   \<Rightarrow> split_dir \<times> (string \<times> string) result" where
  "fill_directory E c ds seed d grouped sel rows =
     (let logical = logical_assignment_hash (sv_sha E) rows;
          file = sv_write_table E \<lparr>at_columns = assignment_columns, at_integral = True, at_rows = rows\<rparr>;
          dir1 = \<lparr>sd_assignments = Some file, sd_manifest = None\<rparr> in
      case bindr (sv_commit E) (new_split_manifest E c ds seed d grouped sel (sv_sha E file) logical) of
        Inl e \<Rightarrow> (dir1, Inl e)
      | Inr m \<Rightarrow> let dir2 = dir1\<lparr>sd_manifest := Some (sv_write_manifest E m)\<rparr> in
          (case validate_split_directory E c ds seed dir2 of
             Inl e \<Rightarrow> (dir2, Inl e)
           | Inr _ \<Rightarrow> (dir2, Inr (sv_sha E file, logical))))"

datatype generation_outcome =
    ProtectedBaseline split_report
  | CacheHit split_report
  | Generated string string

definition recompute_split ::
  "split_env \<Rightarrow> split_config \<Rightarrow> split_world \<Rightarrow> int \<Rightarrow> int \<Rightarrow> split_world \<times> generation_outcome result" where
  "recompute_split E c W ds seed =
     (case bindr (read_local_inputs E ds) (\<lambda>d. bindr (grouped_inputs E d) (\<lambda>grouped.
          bindr (select_fold_assignment (sv_params E) c seed grouped (pd_targets d)) (\<lambda>s. case s of
            Infeasible _ _ _ \<Rightarrow> Inl (RuntimeError ''CONSTRAINT_INFEASIBLE'')
          | Selected sel \<Rightarrow> bindr (assignment_rows grouped (pd_targets d) sel) (\<lambda>rows. Inr (d, grouped, sel, rows))))) of
        Inl e \<Rightarrow> (W, Inl e)
      | Inr (d, grouped, sel, rows) \<Rightarrow>
          (case fill_directory E c ds seed d grouped sel rows of
             (dir, Inl e) \<Rightarrow> (W\<lparr>sw_quarantine := (''incomplete'', dir) # sw_quarantine W\<rparr>, Inl e)
           | (dir, Inr (assignment_hash, logical)) \<Rightarrow>
               let W1 = quarantine_split W (ds, seed) ''replaced'' in
               (W1\<lparr>sw_splits := (sw_splits W1)((ds, seed) \<mapsto> dir)\<rparr>, Inr (Generated assignment_hash logical))))"

definition generate_split ::
  "split_env \<Rightarrow> split_config \<Rightarrow> bool \<Rightarrow> split_world \<Rightarrow> int \<Rightarrow> int \<Rightarrow> split_world \<times> generation_outcome result" where
  "generate_split E c force W ds seed =
     (if ds \<notin> set (sg_datasets c) \<or> seed \<notin> set (sg_seeds c)
      then (W, Inl (RuntimeError ''dataset ID or seed is outside the frozen configuration''))
      else if (ds, seed) = PROTECTED_DATASET_SEED then
        (case Option.bind (sw_splits W (ds, seed)) sd_assignments of
           Some file \<Rightarrow> if sv_sha E file = PROTECTED_ASSIGNMENT_SHA256
             then (W, bindr (validate_split E c W ds seed) (\<lambda>r. Inr (ProtectedBaseline r)))
             else (W, Inl (RuntimeError ''FAIL_PROTECTED_DATASET_MUTATION''))
         | None \<Rightarrow> (W, Inl (RuntimeError ''FAIL_PROTECTED_DATASET_MUTATION'')))
      else if sw_splits W (ds, seed) \<noteq> None \<and> \<not> force then
        (case validate_split E c W ds seed of
           Inr r \<Rightarrow> (W, Inr (CacheHit r))
         | Inl _ \<Rightarrow> recompute_split E c (quarantine_split W (ds, seed) ''invalid'') ds seed)
      else recompute_split E c W ds seed)"

section \<open>All splits\<close>

text \<open>\<open>_reject_temporary_artifacts\<close> and \<open>validate_all\<close>; the argument lists the name of every path under \<open>data/splits\<close>.\<close>

definition temporary_split_name :: "string \<Rightarrow> bool" where
  "temporary_split_name name \<longleftrightarrow> prefix ''.seed_'' name \<or> suffix ''.part'' name \<or> suffix ''.partial'' name
     \<or> suffix ''.tmp'' name \<or> prefix ''split-incomplete-'' name"

definition validate_all_splits ::
  "split_env \<Rightarrow> split_config \<Rightarrow> split_world \<Rightarrow> string list \<Rightarrow> split_report list result" where
  "validate_all_splits E c W names =
     (let results = map (\<lambda>(ds, seed). validate_split E c W ds seed) (List.product (sg_datasets c) (sg_seeds c)) in
      if list_ex temporary_split_name names
      then Inl (ValueError ''temporary or partial split artifacts found'')
      else if list_ex (\<lambda>r. case r of Inl _ \<Rightarrow> True | Inr _ \<Rightarrow> False) results
      then Inl (ValueError ''split validation failed'') else mapr id results)"

definition compare_snapshots :: "(string \<times> string) list \<Rightarrow> (string \<times> string) list \<Rightarrow> bool \<times> string list" where
  "compare_snapshots before after =
     (let changed = sort (filter (\<lambda>p. map_of before p \<noteq> map_of after p) (remdups (map fst before @ map fst after))) in
      (changed = [], changed))"

end
