(* ===== verification/Split_Generation.thy ===== *)
theory Split_Generation
  imports Split_Facts Split_Store
begin

text \<open>
  What generation writes: the assignment rows as a function of the folds, their counts as those of the
  chosen candidate, and every check of the validation against the manifest generation builds.
\<close>

section \<open>The rows\<close>

lemma insort_key_map: "insort_key f (g x) (map g xs) = map g (insort_key (f \<circ> g) x xs)"
  by (induction xs) simp_all

lemma sort_key_map: "sort_key f (map g xs) = map g (sort_key (f \<circ> g) xs)"
  by (induction xs) (simp_all only: list.map sort_key_simps comp_def insort_key_map [of f g, unfolded comp_def])

definition assigned :: "(string \<times> string) list \<Rightarrow> selection \<Rightarrow> string \<Rightarrow> assign_row" where
  "assigned grouped sel r = (let k = the (map_of (sl_fold_by_row sel) r) in
     \<lparr>as_row = r, as_group = the (map_of grouped r), as_fold = Some (int k),
       as_partition = fold_partition (fc_calibration (sl_choice sel)) (fc_test (sl_choice sel)) k\<rparr>)"

lemma assigned_simps [simp]:
  "as_row (assigned grouped sel r) = r"
  "as_group (assigned grouped sel r) = the (map_of grouped r)"
  "as_fold (assigned grouped sel r) = Some (int (the (map_of (sl_fold_by_row sel) r)))"
  "as_partition (assigned grouped sel r) =
     fold_partition (fc_calibration (sl_choice sel)) (fc_test (sl_choice sel)) (the (map_of (sl_fold_by_row sel) r))"
  by (simp_all add: assigned_def Let_def)

lemma assignment_rows_map:
  assumes "select_fold_assignment P c seed grouped targets = Inr (Selected sel)" and "distinct (map fst grouped)"
    and "set (map fst targets) \<subseteq> set (map fst grouped)"
  shows "assignment_rows grouped targets sel = Inr (map (assigned grouped sel) (sort (map fst targets)))"
proof -
  have "assignment_row grouped sel r = Inr (assigned grouped sel r)" if r: "r \<in> set (map fst targets)" for r
  proof -
    obtain g where g: "map_of grouped r = Some g" using assms(3) r by (metis map_of_eq_None_iff not_None_eq set_map subsetD)
    have gs: "groups_of grouped r = Inr [g]" using filter_key_unique [OF assms(2), of r] by (simp add: groups_of_def g)
    from r have r': "r \<in> fst ` set targets" by simp
    with selected_facts(6) [OF assms(1)] obtain k where k: "map_of (sl_fold_by_row sel) r = Some k"
      by (metis map_of_eq_None_iff not_None_eq set_map)
    from gs k selected_label [OF assms(1) r'] g show ?thesis
      by (simp add: assignment_row_def of_option_def assigned_def)
  qed
  then have "mapr (assignment_row grouped sel) rs = Inr (map (assigned grouped sel) rs)" if "set rs \<subseteq> set (map fst targets)" for rs
    using that by (induction rs) simp_all
  then show ?thesis by (simp add: assignment_rows_def sort_key_map comp_def)
qed

section \<open>Counts\<close>

lemma class_counts_mset: "mset xs = mset ys \<Longrightarrow> class_counts xs = class_counts ys"
proof -
  assume m: "mset xs = mset ys"
  have count: "code_count code zs = count (mset zs) code" for code zs 
    by (induction zs) (auto simp: code_count_def)
  have "sort (remdups xs) = sort (remdups ys)"
    by (rule sorted_distinct_set_unique) (simp_all add: mset_eq_setD [OF m])
  with m show ?thesis by (simp add: class_counts_def count)
qed

lemma target_of_distinct: "distinct (map fst targets) \<Longrightarrow> (r, code) \<in> set targets \<Longrightarrow> target_of targets r = code"
  by (simp add: target_of_def target_dict_def distinct_clearjunk_id rev_map [symmetric])

text \<open>What the candidate says of its partitions.\<close>

lemma selected_counts:
  assumes sel: "select_fold_assignment P c seed grouped targets = Inr (Selected sel)"
  defines "part \<equiv> \<lambda>p. filter (\<lambda>t. fold_partition (fc_calibration (sl_choice sel)) (fc_test (sl_choice sel))
      (the (map_of (sl_fold_by_row sel) (fst t))) = p) targets"
  shows "fc_counts (sl_choice sel) = map (\<lambda>p. (p, length (part p))) partitions"
    and "fc_class_counts (sl_choice sel) = map (\<lambda>p. (p, class_counts (map (\<lambda>t. target_of targets (fst t)) (part p)))) partitions"
proof -
  let ?x = "sl_choice sel"
  note cand = selected_candidate [OF sel]
  from cand obtain labels where l: "mapr (\<lambda>t. row_label (sl_fold_by_row sel) (sg_group_folds c) (fc_calibration ?x) (fc_test ?x) (fst t)) targets = Inr labels"
    unfolding candidate_def bindr_Inr_iff by blast
  note out = cand [unfolded candidate_def l bindr_simps Let_def]
  have "filter (\<lambda>t. \<exists>k. map_of (sl_fold_by_row sel) (fst t) = Some k \<and> fold_partition (fc_calibration ?x) (fc_test ?x) k = p) targets = part p" for p
    unfolding part_def using labels_of_rows(2) [OF l] by (intro filter_cong) auto
  then have codes: "partition_codes targets labels p = map (\<lambda>t. target_of targets (fst t)) (part p)" for p
    unfolding partition_codes_def partition_codes_rows [OF l] by simp
  from out show "fc_counts ?x = map (\<lambda>p. (p, length (part p))) partitions"
    and "fc_class_counts ?x = map (\<lambda>p. (p, class_counts (map (\<lambda>t. target_of targets (fst t)) (part p)))) partitions"
    by (cases ?x; auto split: if_splits simp: codes)+
qed

lemma partition_rows_assigned:
  "partition_rows (map (assigned grouped sel) rs) p = map (assigned grouped sel)
     (filter (\<lambda>r. fold_partition (fc_calibration (sl_choice sel)) (fc_test (sl_choice sel)) (the (map_of (sl_fold_by_row sel) r)) = p) rs)"
  by (simp add: partition_rows_def filter_map comp_def)

lemma row_codes_assigned:
  assumes "distinct (map fst targets)" and "set rs \<subseteq> fst ` set targets"
  shows "row_codes (map (assigned grouped sel) rs) targets p = map (target_of targets)
     (filter (\<lambda>r. fold_partition (fc_calibration (sl_choice sel)) (fc_test (sl_choice sel)) (the (map_of (sl_fold_by_row sel) r)) = p) rs)"
proof -
  have "List.map_filter (\<lambda>q. map_of targets (as_row q)) (map (assigned grouped sel) qs) = map (target_of targets) qs"
    if "set qs \<subseteq> fst ` set targets" for qs
    using that
  proof (induction qs)
    case (Cons r qs)
    then obtain code where "(r, code) \<in> set targets" by auto
    with assms(1) have "map_of targets r = Some code" "target_of targets r = code" by (simp_all add: target_of_distinct)
    with Cons show ?case by (simp add: map_filter_simps)
  qed (simp add: map_filter_simps)
  then show ?thesis unfolding row_codes_def partition_rows_assigned using assms(2) by (simp add: subset_iff)
qed

text \<open>The counts the validation observes on the rows are those of the chosen candidate.\<close>

lemma generated_counts:
  assumes sel: "select_fold_assignment P c seed grouped targets = Inr (Selected sel)" and "distinct (map fst targets)"
  defines "rows \<equiv> map (assigned grouped sel) (sort (map fst targets))"
  shows "observed_counts rows = fc_counts (sl_choice sel)"
    and "observed_class_counts rows targets = fc_class_counts (sl_choice sel)"
proof -
  have m: "mset (filter Q (sort xs)) = mset (filter Q xs)" for Q and xs :: "string list" by simp
  have len: "length (filter Q (sort (map fst targets))) = length (filter (\<lambda>t. Q (fst t)) targets)" for Q
    using mset_eq_length [OF m, of Q "map fst targets"] by (simp add: filter_map comp_def)
  have codes: "mset (map h (filter Q (sort (map fst targets)))) = mset (map (\<lambda>t. h (fst t)) (filter (\<lambda>t. Q (fst t)) targets))"
    for h :: "string \<Rightarrow> int" and Q
    using arg_cong [OF m, of "image_mset h" Q "map fst targets"]
    by (simp only: mset_map [symmetric] filter_map list.map_comp comp_def)
  show "observed_counts rows = fc_counts (sl_choice sel)"
    by (simp add: observed_counts_def rows_def partition_rows_assigned len selected_counts(1) [OF sel])
  show "observed_class_counts rows targets = fc_class_counts (sl_choice sel)"
    unfolding observed_class_counts_def rows_def selected_counts(2) [OF sel]
    by (simp add: row_codes_assigned [OF assms(2)] class_counts_mset [OF codes])
qed

section \<open>The checks\<close>

lemma spread_keys_Nil:
  "spread_keys key val rows = [] \<longleftrightarrow> (\<forall>a \<in> set rows. \<forall>b \<in> set rows. key a = key b \<longrightarrow> val a = val b)"
proof
  assume n: "spread_keys key val rows = []"
  show "\<forall>a \<in> set rows. \<forall>b \<in> set rows. key a = key b \<longrightarrow> val a = val b"
  proof (intro ballI impI)
    fix a b assume ab: "a \<in> set rows" "b \<in> set rows" "key a = key b"
    let ?V = "val ` {r \<in> set rows. key r = key a}"
    from n ab(1) have "\<not> 1 < card ?V" by (auto simp: spread_keys_def filter_empty_conv)
    then have "card ?V \<le> Suc 0" by simp
    moreover have "finite ?V" by simp
    ultimately have "\<forall>x \<in> ?V. \<forall>y \<in> ?V. x = y" by (simp only: card_le_Suc0_iff_eq)
    moreover have "val a \<in> ?V" "val b \<in> ?V" using ab by auto
    ultimately show "val a = val b" by blast
  qed
next
  assume same: "\<forall>a \<in> set rows. \<forall>b \<in> set rows. key a = key b \<longrightarrow> val a = val b"
  have "\<not> 1 < card (val ` {r \<in> set rows. key r = key a})" if "a \<in> set rows" for a
  proof -
    have "val ` {r \<in> set rows. key r = key a} \<subseteq> {val a}" using same that by blast
    then have "card (val ` {r \<in> set rows. key r = key a}) \<le> card {val a}" by (intro card_mono) simp_all
    then show ?thesis by simp
  qed
  then show "spread_keys key val rows = []" by (auto simp: spread_keys_def filter_empty_conv)
qed

lemma fold_table:
  assumes "select_fold_assignment P c seed grouped targets = Inr (Selected sel)"
  shows "map_of (map (\<lambda>(k, p). (Some (int k), p)) (fold_to_partition (sl_choice sel))) (Some (int k))
    = (if k < sg_group_folds c then Some (fold_partition (fc_calibration (sl_choice sel)) (fc_test (sl_choice sel)) k) else None)"
proof -
  note facts = selected_facts [OF assms]
  let ?cal = "fc_calibration (sl_choice sel)" and ?tst = "fc_test (sl_choice sel)"
  have train: "map_of (map (\<lambda>k. (Some (int k), p)) ks) (Some (int k)) = (if k \<in> set ks then Some p else None)"
    for ks and p :: string
    by (induction ks) auto
  have table: "map (\<lambda>(k, p). (Some (int k), p)) (fold_to_partition (sl_choice sel))
      = map (\<lambda>k. (Some (int k), ''train'')) (fc_train (sl_choice sel)) @ [(Some (int ?cal), ''calibration''), (Some (int ?tst), ''test'')]"
    by (simp add: fold_to_partition_def fold_assignment_def comp_def)
  have "k \<in> set (fc_train (sl_choice sel)) \<longleftrightarrow> k < sg_group_folds c \<and> k \<noteq> ?cal \<and> k \<noteq> ?tst"
    unfolding facts(7) by auto
  then show ?thesis
    unfolding table map_of_append using facts(2) by (auto simp: train map_add_def fold_partition_def)
qed

text \<open>What generation finds when nothing is wrong with the data set.\<close>

definition ready_inputs ::
  "split_env \<Rightarrow> split_config \<Rightarrow> int \<Rightarrow> int \<Rightarrow> processed \<Rightarrow> (string \<times> string) list \<Rightarrow> selection \<Rightarrow> bool" where
  "ready_inputs E c ds seed d grouped sel \<longleftrightarrow> 0 < ds \<and> 0 \<le> seed
     \<and> read_local_inputs E ds = Inr d \<and> grouped_inputs E d = Inr grouped
     \<and> select_fold_assignment (sv_params E) c seed grouped (pd_targets d) = Inr (Selected sel)
     \<and> distinct (map fst (pd_targets d)) \<and> map fst grouped = map fst (pd_targets d)
     \<and> {0..<sg_group_folds c} \<subseteq> ran (map_of (sl_fold_by_row sel))
     \<and> 2 \<le> card (set (map snd (pd_targets d))) \<and> 0 < predictor_count d
     \<and> list_all is_sha256 [pd_feature_hash d, pd_target_hash d, pd_manifest_hash d]"

text \<open>What it relies on: groups are held out as a whole, hashes are hexadecimal digests, and six, two and two tenths sum to one.\<close>

definition sound_env :: "split_env \<Rightarrow> bool" where
  "sound_env E \<longleftrightarrow> groups_whole (sv_params E) \<and> (\<forall>s. is_sha256 (sv_sha E s))
     \<and> list_all is_sha256 [sv_grouping_hash E, sv_implementation_hash E]
     \<and> \<not> fractions_differ (sv_params E) MANIFEST_FRACTIONS"

lemma row_fold:
  assumes "select_fold_assignment P c seed grouped targets = Inr (Selected sel)" and "r \<in> fst ` set targets"
  shows "\<exists>k < sg_group_folds c. map_of (sl_fold_by_row sel) r = Some k"
  using candidate_Inr(2) [OF selected_candidate [OF assms(1)] refl] assms(2) by auto

lemma generated_table_guards:
  assumes "ready_inputs E c ds seed d grouped sel"
  defines "rows \<equiv> map (assigned grouped sel) (sort (map fst (pd_targets d)))"
  shows "list_all (\<lambda>g. \<not> fst g) (split_table_guards c (pd_targets d) (expected_groups grouped rows)
    \<lparr>at_columns = assignment_columns, at_integral = True, at_rows = rows\<rparr>)"
proof -
  let ?targets = "pd_targets d"
  from assms(1) have sel: "select_fold_assignment (sv_params E) c seed grouped ?targets = Inr (Selected sel)"
    and dist: "distinct (map fst ?targets)" and ids: "map fst grouped = map fst ?targets"
    and cover: "{0..<sg_group_folds c} \<subseteq> ran (map_of (sl_fold_by_row sel))"
    by (simp_all add: ready_inputs_def)
  have rids: "map as_row rows = sort (map fst ?targets)" by (simp add: rows_def comp_def)
  have groups: "expected_groups grouped rows = Inr (map as_group rows)"
  proof -
    have "groups_of grouped r = Inr [the (map_of grouped r)]" if "r \<in> set (map fst ?targets)" for r
    proof -
      from that ids obtain g where g: "map_of grouped r = Some g" by (metis map_of_eq_None_iff not_None_eq set_map)
      then show ?thesis using filter_key_unique [of grouped r] dist ids by (simp add: groups_of_def)
    qed
    then have "mapr (\<lambda>q. groups_of grouped (as_row q)) (map (assigned grouped sel) rs) = Inr (map (\<lambda>r. [the (map_of grouped r)]) rs)"
      if "set rs \<subseteq> set (map fst ?targets)" for rs
      using that by (induction rs) simp_all
    from this [of "sort (map fst ?targets)"] show ?thesis
      by (simp add: expected_groups_def rows_def comp_def concat_map_singleton)
  qed
  have folds: "set (map as_fold rows) = set (map (Some \<circ> int) [0..<sg_group_folds c])"
  proof
    show "set (map as_fold rows) \<subseteq> set (map (Some \<circ> int) [0..<sg_group_folds c])"
      using row_fold [OF sel] by (fastforce simp: rows_def)
    show "set (map (Some \<circ> int) [0..<sg_group_folds c]) \<subseteq> set (map as_fold rows)"
    proof
      fix x assume "x \<in> set (map (Some \<circ> int) [0..<sg_group_folds c])"
      then obtain k where k: "x = Some (int k)" "k \<in> {0..<sg_group_folds c}" by auto
      with cover obtain r where r: "map_of (sl_fold_by_row sel) r = Some k" by (auto simp: ran_def)
      then have "r \<in> fst ` set ?targets" using selected_facts(6) [OF sel] by (metis map_of_eq_None_iff not_None_eq set_map option.distinct(1))
      with r k show "x \<in> set (map as_fold rows)" by (force simp: rows_def)
    qed
  qed
  have part: "list_all (\<lambda>q. as_partition q \<in> set partitions) rows" by (simp add: rows_def list_all_iff fold_partition_in)
  have some: "\<not> list_ex (\<lambda>q. as_fold q = None) rows" by (simp add: rows_def list_ex_iff)
  show ?thesis
    unfolding split_table_guards_def Let_def list.pred_inject fst_conv assignment_table.select_convs rids groups folds
    using dist part some by (simp add: rows_def)
qed

lemma same_entries_refl [simp]: "same_entries a a"
  by (simp add: same_entries_def list_all_iff)

lemma nested_same_refl [simp]: "nested_same a a"
  by (force simp: nested_same_def list_all_iff dest: weak_map_of_SomeI split: option.splits)

lemma generated_fold_guards:
  assumes "ready_inputs E c ds seed d grouped sel" and "sound_env E" and "sm_fold_assignment m = fold_assignment (sl_choice sel)"
  defines "rows \<equiv> map (assigned grouped sel) (sort (map fst (pd_targets d)))"
  shows "list_all (\<lambda>g. \<not> fst g) (fold_guards sel m rows)"
proof -
  let ?targets = "pd_targets d" and ?cal = "fc_calibration (sl_choice sel)" and ?tst = "fc_test (sl_choice sel)"
  let ?table = "map (\<lambda>(k, p). (Some (int k), p)) (fold_to_partition (sl_choice sel))"
  from assms(1) have sel: "select_fold_assignment (sv_params E) c seed grouped ?targets = Inr (Selected sel)"
    and dist: "distinct (map fst ?targets)" and ids: "map fst grouped = map fst ?targets"
    by (simp_all add: ready_inputs_def)
  from assms(2) have whole: "groups_whole (sv_params E)" by (simp add: sound_env_def)
  note row = row_fold [OF sel]
  have mem: "q \<in> set rows \<longleftrightarrow> (\<exists>r \<in> fst ` set ?targets. q = assigned grouped sel r)" for q by (auto simp: rows_def)
  have table: "map_of ?table (as_fold q) = Some (as_partition q)" if q: "q \<in> set rows" for q
  proof -
    from q obtain r where r: "r \<in> fst ` set ?targets" "q = assigned grouped sel r" unfolding mem by blast
    from row [OF r(1)] fold_table [OF sel] show ?thesis by (auto simp: r(2))
  qed
  have expected: "map as_fold rows = map (\<lambda>r. map_option int (map_of (sl_fold_by_row sel) (as_row r))) rows"
    using row by (fastforce simp: rows_def)
  have keep: "as_fold a = as_fold b" if "a \<in> set rows" "b \<in> set rows" "as_group a = as_group b" for a b
  proof -
    from that obtain r s where r: "r \<in> fst ` set ?targets" "a = assigned grouped sel r"
      and s: "s \<in> fst ` set ?targets" "b = assigned grouped sel s" unfolding mem by blast
    have "map_of grouped x \<noteq> None" if "x \<in> fst ` set ?targets" for x
      using that ids by (metis map_of_eq_None_iff set_map)
    from this [OF r(1)] this [OF s(1)] that(3) have "map_of grouped r = map_of grouped s" by (auto simp: r(2) s(2))
    from folds_keep_groups [OF whole selected_facts(1) [OF sel] _ dist r(1) s(1) this] dist ids
    show ?thesis by (simp add: r(2) s(2))
  qed
  have part: "as_partition a = as_partition b" if "a \<in> set rows" "b \<in> set rows" "as_fold a = as_fold b" for a b
    using table [OF that(1)] table [OF that(2)] that(3) by simp
  have spread: "spread_keys as_group as_fold rows = []" "spread_keys as_fold as_partition rows = []"
    "spread_keys as_group as_partition rows = []"
    unfolding spread_keys_Nil using keep part by blast+
  show ?thesis
    unfolding fold_guards_def Let_def list.pred_inject fst_conv
    using expected table assms(3) spread by (auto simp: list_ex_iff)
qed

text \<open>The counts and hashes.\<close>

lemma sum_by_partition: "(\<And>t. t \<in> set ts \<Longrightarrow> f t \<in> set partitions) \<Longrightarrow>
  sum_list (map (\<lambda>p. length (filter (\<lambda>t. f t = p) ts)) partitions) = length ts"
  by (induction ts) (fastforce simp: partitions_def)+

lemma class_value_codes: "distinct (map fst targets) \<Longrightarrow> snd ` set (target_dict targets) = snd ` set targets"
  by (simp add: target_dict_def distinct_clearjunk_id rev_map [symmetric])

lemma generated_count_guards:
  assumes "ready_inputs E c ds seed d grouped sel"
  defines "rows \<equiv> map (assigned grouped sel) (sort (map fst (pd_targets d)))"
  shows "list_all (\<lambda>g. \<not> fst g) (split_count_guards E c d
    (generated_manifest E c ds seed d grouped sel (sv_sha E file) (logical_assignment_hash (sv_sha E) rows) commit) file rows)"
proof -
  let ?targets = "pd_targets d" and ?cal = "fc_calibration (sl_choice sel)" and ?tst = "fc_test (sl_choice sel)"
  from assms(1) have sel: "select_fold_assignment (sv_params E) c seed grouped ?targets = Inr (Selected sel)"
    and dist: "distinct (map fst ?targets)" by (simp_all add: ready_inputs_def)
  note counts = generated_counts [OF sel dist, folded rows_def]
  have min: "sg_minimum_class_count c \<le> lookup_count (class_counts (row_codes rows ?targets p)) code"
    if p: "p \<in> set partitions" and code: "code \<in> snd ` set ?targets" for p code
  proof -
    let ?rs = "filter (\<lambda>t. \<exists>k. map_of (sl_fold_by_row sel) (fst t) = Some k \<and> fold_partition ?cal ?tst k = p) ?targets"
    let ?part = "\<lambda>p. filter (\<lambda>t. fold_partition ?cal ?tst (the (map_of (sl_fold_by_row sel) (fst t))) = p) ?targets"
    have rs: "?rs = ?part p" using row_fold [OF sel] by (intro filter_cong) force+
    have "sg_minimum_class_count c \<le> length (filter (\<lambda>t. target_of ?targets (fst t) = code) ?rs)"
      using selected_facts(3) [OF sel] p code unfolding feasible_def Let_def class_value_codes [OF dist] by blast
    also have "\<dots> = code_count code (map (\<lambda>t. target_of ?targets (fst t)) (?part p))"
      unfolding rs by (simp add: code_count_def filter_map comp_def)
    also have "\<dots> = lookup_count (class_counts (row_codes rows ?targets p)) code"
    proof -
      have "map (\<lambda>p. (p, class_counts (row_codes rows ?targets p))) partitions
          = map (\<lambda>p. (p, class_counts (map (\<lambda>t. target_of ?targets (fst t)) (?part p)))) partitions"
        using counts(2) by (simp only: observed_class_counts_def selected_counts(2) [OF sel])
      with p have "class_counts (row_codes rows ?targets p) = class_counts (map (\<lambda>t. target_of ?targets (fst t)) (?part p))"
        by auto
      then show ?thesis by (simp add: lookup_class_counts)
    qed
    finally show ?thesis .
  qed
  show ?thesis
    unfolding split_count_guards_def Let_def list.pred_inject fst_conv
    using min by (auto simp: generated_manifest_def Let_def counts list_ex_iff not_less)
qed

section \<open>The generated manifest\<close>

lemma class_values_contiguous:
  assumes "set xs = set (map int [0..<card (set xs)])"
  shows "sort (remdups xs) = map int [0..<length (sort (remdups xs))]"
proof -
  have len: "length (sort (remdups xs)) = card (set xs)" by (simp add: length_remdups_card_conv)
  have sorted: "sorted (map int [0..<card (set xs)])" by (simp add: sorted_iff_nth_mono)
  have dist: "distinct (map int [0..<card (set xs)])" by (simp add: distinct_map)
  show ?thesis unfolding len
    by (rule sorted_distinct_set_unique [OF _ _ sorted dist]) (use assms in simp_all)
qed

lemma generated_manifest_valid:
  assumes "ready_inputs E c ds seed d grouped sel" and "sound_env E"
  shows "validate_split_manifest (sv_params E)
      (generated_manifest E c ds seed d grouped sel (sv_sha E file) (logical_assignment_hash (sv_sha E) rows) commit)
    = Inr (generated_manifest E c ds seed d grouped sel (sv_sha E file) (logical_assignment_hash (sv_sha E) rows) commit)"
proof -
  let ?targets = "pd_targets d" and ?x = "sl_choice sel"
  from assms(1) have inputs: "read_local_inputs E ds = Inr d" "0 < ds" "0 \<le> seed" "0 < predictor_count d"
    and sel: "select_fold_assignment (sv_params E) c seed grouped ?targets = Inr (Selected sel)"
    and ids: "map fst grouped = map fst ?targets" and two: "2 \<le> card (set (map snd ?targets))"
    and hashes: "list_all is_sha256 [pd_feature_hash d, pd_target_hash d, pd_manifest_hash d]"
    by (simp_all add: ready_inputs_def)
  from assms(2) have sha: "is_sha256 (sv_sha E s)" "list_all is_sha256 [sv_grouping_hash E, sv_implementation_hash E]"
    "\<not> fractions_differ (sv_params E) MANIFEST_FRACTIONS" for s by (simp_all add: sound_env_def)
  have config: "is_sha256 (split_configuration_hash (sv_params E) c)"
    using sha(1) by (simp add: split_configuration_hash_def sha256_canonical_json_def sv_sha_def)
  from inputs(1) obtain d0 and ids0 :: column where g: "guards [(co_cells ids0 \<noteq> map (\<lambda>t. CStr (fst t)) (pd_targets d0), RuntimeError ''Feature/target row order mismatch''),
      (set (map snd (pd_targets d0)) \<noteq> set (map int [0..<card (set (map snd (pd_targets d0)))]), RuntimeError ''Target codes are not contiguous'')] d0 = Inr d"
    unfolding read_local_inputs_def bindr_Inr_iff by blast
  from guards_same [OF g] guards_all [OF g]
  have codes: "set (map snd ?targets) = set (map int [0..<card (set (map snd ?targets))])" by simp
  from two have ne: "?targets \<noteq> []" by auto
  with ids have gne: "grouped \<noteq> []" by auto
  have keys: "map fst (fc_counts ?x) = partitions" "map fst (fc_class_counts ?x) = partitions"
    unfolding selected_counts [OF sel] by (simp_all add: comp_def)
  have sum: "sum_list (map snd (fc_counts ?x)) = length ?targets"
    unfolding selected_counts(1) [OF sel] list.map_comp comp_def snd_conv
    by (rule sum_by_partition) (rule fold_partition_in)
  have length: "length (sort (remdups (map snd ?targets))) = card (set (map snd ?targets))" by (simp add: length_remdups_card_conv)
  have fields: "list_all is_sha256 (hash_fields (generated_manifest E c ds seed d grouped sel (sv_sha E file)
      (logical_assignment_hash (sv_sha E) rows) commit))"
    using hashes sha(1,2) config
    by (simp add: hash_fields_def generated_manifest_def Let_def logical_assignment_hash_def split_cache_key_def sha256_canonical_json_def)
  have class_values: "sort (sort (remdups (map snd ?targets))) = map int [0..<length (sort (remdups (map snd ?targets)))]"
    using class_values_contiguous [OF codes] by (simp only: sorted_sort_id [OF sorted_sort])
  show ?thesis
    unfolding validate_split_manifest_def
  proof (rule guards_pass, unfold list.pred_inject fst_conv not_not de_Morgan_disj, intro conjI TrueI)
  qed (use inputs two ne gne keys sum length fields class_values sha(3) in
      \<open>simp_all add: generated_manifest_def Let_def MANIFEST_FRACTIONS_open card_gt_0_iff\<close>)
qed

lemma generated_identity_valid:
  assumes "ready_inputs E c ds seed d grouped sel" and "sound_env E"
  shows "split_cache_identity (generated_identity E c ds seed d commit) = Inr (generated_identity E c ds seed d commit)"
proof -
  have config: "is_sha256 (split_configuration_hash (sv_params E) c)"
    using assms(2) by (simp add: sound_env_def split_configuration_hash_def sha256_canonical_json_def sv_sha_def)
  show ?thesis
    using assms config unfolding split_cache_identity_def
    by (intro guards_pass) (simp add: ready_inputs_def sound_env_def generated_identity_def)
qed

definition written_table :: "(string \<times> string) list \<Rightarrow> processed \<Rightarrow> selection \<Rightarrow> assignment_table" where
  "written_table grouped d sel = \<lparr>at_columns = assignment_columns, at_integral = True,
     at_rows = map (assigned grouped sel) (sort (map fst (pd_targets d)))\<rparr>"

definition written_manifest ::
  "split_env \<Rightarrow> split_config \<Rightarrow> int \<Rightarrow> int \<Rightarrow> processed \<Rightarrow> (string \<times> string) list \<Rightarrow> selection \<Rightarrow> string \<Rightarrow> split_manifest" where
  "written_manifest E c ds seed d grouped sel commit = generated_manifest E c ds seed d grouped sel
     (sv_sha E (sv_write_table E (written_table grouped d sel)))
     (logical_assignment_hash (sv_sha E) (at_rows (written_table grouped d sel))) commit"

text \<open>The two files are read back as they were written.\<close>

definition files_read_back :: "split_env \<Rightarrow> assignment_table \<Rightarrow> split_manifest \<Rightarrow> bool" where
  "files_read_back E t m \<longleftrightarrow> sv_read_table E (sv_write_table E t) = Some t
     \<and> Option.bind (sv_json E (sv_write_manifest E m)) (sv_manifest E) = Some m"

lemma written_directory_valid:
  assumes ready: "ready_inputs E c ds seed d grouped sel" and sound: "sound_env E"
    and files: "files_read_back E (written_table grouped d sel) (written_manifest E c ds seed d grouped sel commit)"
  shows "\<exists>r. validate_regular E c ds seed (sv_write_table E (written_table grouped d sel))
    (sv_write_manifest E (written_manifest E c ds seed d grouped sel commit)) = Inr r"
proof -
  let ?t = "written_table grouped d sel" and ?m = "written_manifest E c ds seed d grouped sel commit"
  let ?rows = "map (assigned grouped sel) (sort (map fst (pd_targets d)))"
  from ready have inputs: "read_local_inputs E ds = Inr d" "grouped_inputs E d = Inr grouped"
    "select_fold_assignment (sv_params E) c seed grouped (pd_targets d) = Inr (Selected sel)"
    and ids: "map fst grouped = map fst (pd_targets d)" and dist: "distinct (map fst (pd_targets d))"
    by (simp_all add: ready_inputs_def)
  have m: "?m = generated_manifest E c ds seed d grouped sel (sv_sha E (sv_write_table E ?t)) (logical_assignment_hash (sv_sha E) ?rows) commit"
    by (simp add: written_manifest_def written_table_def)
  have identity: "manifest_identity ?m d = generated_identity E c ds seed d commit"
    by (simp add: manifest_identity_def m generated_manifest_def Let_def generated_identity_def)
  have mg: "guards (manifest_guards E c ds seed ?m) () = Inr ()"
    by (simp add: manifest_guards_def m generated_manifest_def Let_def)
  have tg: "guards (split_table_guards c (pd_targets d) (expected_groups grouped ?rows) ?t) () = Inr ()"
    unfolding written_table_def by (rule guards_pass [OF generated_table_guards [OF ready]])
  have "list_all (\<lambda>g. \<not> fst g) (fold_guards sel ?m ?rows)"
    by (rule generated_fold_guards [OF ready sound]) (simp add: m generated_manifest_def Let_def)
  moreover have "list_all (\<lambda>g. \<not> fst g) (split_count_guards E c d ?m (sv_write_table E ?t) ?rows)"
    unfolding m by (rule generated_count_guards [OF ready])
  ultimately have fg: "guards (fold_guards sel ?m ?rows @ split_count_guards E c d ?m (sv_write_table E ?t) ?rows) () = Inr ()"
    by (intro guards_pass) (simp only: list_all_append)
  have "as_group ` set ?rows = (\<lambda>r. the (map_of grouped r)) ` set (map fst grouped)" using ids by (simp add: image_image)
  also have "\<dots> = snd ` set grouped"
    unfolding set_map image_image
  proof (rule image_cong [OF refl])
    fix g assume "g \<in> set grouped"
    then have "map_of grouped (fst g) = Some (snd g)"
      using dist unfolding ids [symmetric] by (intro map_of_is_SomeI) simp_all
    then show "the (map_of grouped (fst g)) = snd g" by simp
  qed
  finally have groups: "set (map as_group ?rows) = set (map snd grouped)" by (simp add: image_image)
  have last: "split_cache_key (sv_sha E) (generated_identity E c ds seed d commit) = sm_cache_identity_hash ?m"
    "sm_predictor_group_count ?m = int (card (set (map snd grouped)))" "sm_cross_partition_group_count ?m = 0"
    by (simp_all add: m generated_manifest_def Let_def)
  have rows: "at_rows ?t = ?rows" by (simp add: written_table_def)
  have read: "Option.bind (sv_json E (sv_write_manifest E ?m)) (sv_manifest E) = Some ?m"
    "sv_read_table E (sv_write_table E ?t) = Some ?t" using files by (simp_all add: files_read_back_def)
  have valid: "validate_split_manifest (sv_params E) ?m = Inr ?m" unfolding m by (rule generated_manifest_valid [OF ready sound])
  show ?thesis
    unfolding validate_regular_def read of_option_def option.case bindr_simps valid mg inputs rows tg selection_result.case fg
      identity generated_identity_valid [OF ready sound] groups
    by (rule exI, rule guards_pass) (simp add: last)
qed

section \<open>Generation\<close>

lemma recompute_succeeds:
  assumes ready: "ready_inputs E c ds seed d grouped sel" and sound: "sound_env E" and "sv_commit E = Inr commit"
    and files: "files_read_back E (written_table grouped d sel) (written_manifest E c ds seed d grouped sel commit)"
    and prot: "(ds, seed) \<noteq> PROTECTED_DATASET_SEED"
  shows "\<exists>W'. recompute_split E c W ds seed = (W', Inr (Generated (sv_sha E (sv_write_table E (written_table grouped d sel)))
      (logical_assignment_hash (sv_sha E) (at_rows (written_table grouped d sel)))))
    \<and> sw_splits W' (ds, seed) = Some \<lparr>sd_assignments = Some (sv_write_table E (written_table grouped d sel)),
        sd_manifest = Some (sv_write_manifest E (written_manifest E c ds seed d grouped sel commit))\<rparr>"
proof -
  let ?t = "written_table grouped d sel" and ?m = "written_manifest E c ds seed d grouped sel commit"
  let ?dir = "\<lparr>sd_assignments = Some (sv_write_table E ?t), sd_manifest = Some (sv_write_manifest E ?m)\<rparr>"
  from ready have inputs: "read_local_inputs E ds = Inr d" "grouped_inputs E d = Inr grouped"
    and sel: "select_fold_assignment (sv_params E) c seed grouped (pd_targets d) = Inr (Selected sel)"
    and ids: "map fst grouped = map fst (pd_targets d)" and dist: "distinct (map fst (pd_targets d))"
    by (simp_all add: ready_inputs_def)
  have rows: "assignment_rows grouped (pd_targets d) sel = Inr (at_rows ?t)"
    unfolding written_table_def assignment_table.select_convs
    by (rule assignment_rows_map [OF sel]) (use ids dist in simp_all)
  have t: "\<lparr>at_columns = assignment_columns, at_integral = True, at_rows = at_rows ?t\<rparr> = ?t"
    by (simp add: written_table_def)
  have m: "new_split_manifest E c ds seed d grouped sel (sv_sha E (sv_write_table E ?t)) (logical_assignment_hash (sv_sha E) (at_rows ?t)) commit
      = Inr ?m"
    unfolding new_split_manifest_def generated_identity_valid [OF ready sound] bindr_simps written_manifest_def
    by (rule generated_manifest_valid [OF ready sound])
  from written_directory_valid [OF ready sound files] obtain r where
    r: "validate_regular E c ds seed (sv_write_table E ?t) (sv_write_manifest E ?m) = Inr r" by blast
  have "fill_directory E c ds seed d grouped sel (at_rows ?t)
      = (?dir, Inr (sv_sha E (sv_write_table E ?t), logical_assignment_hash (sv_sha E) (at_rows ?t)))"
    unfolding fill_directory_def Let_def t assms(3) bindr_simps m
    using r prot by (simp add: validate_split_directory_def)
  then show ?thesis
    unfolding recompute_split_def inputs sel bindr_simps selection_result.case rows
    by (simp add: Let_def)
qed

text \<open>What a recomputation does to the world.\<close>

lemma quarantine_split_facts:
  "k \<noteq> key \<Longrightarrow> sw_splits (quarantine_split W key reason) k = sw_splits W k"
  "sw_splits (quarantine_split W key reason) key = None"
  "sw_quarantine (quarantine_split W key reason)
     = (case sw_splits W key of None \<Rightarrow> [] | Some dir \<Rightarrow> [(reason, dir)]) @ sw_quarantine W"
  by (auto simp: quarantine_split_def split: option.splits)

lemma fill_directory_Inr:
  assumes "fill_directory E c ds seed d grouped sel rows = (dir, Inr (ah, lh))"
  shows "(\<exists>file. sd_assignments dir = Some file \<and> ah = sv_sha E file)
    \<and> lh = logical_assignment_hash (sv_sha E) rows \<and> (\<exists>r. validate_split_directory E c ds seed dir = Inr r)"
  using assms by (auto simp: fill_directory_def Let_def split: sum.splits)

lemma recompute_split_world:
  assumes "recompute_split E c W ds seed = (W', out)"
  shows "\<forall>k. k \<noteq> (ds, seed) \<longrightarrow> sw_splits W' k = sw_splits W k"
    and "case out of
        Inl e \<Rightarrow> sw_splits W' = sw_splits W \<and> (\<exists>q. sw_quarantine W' = q @ sw_quarantine W)
      | Inr res \<Rightarrow> \<exists>dir file lh r. res = Generated (sv_sha E file) lh \<and> sw_splits W' (ds, seed) = Some dir
          \<and> sd_assignments dir = Some file \<and> validate_split_directory E c ds seed dir = Inr r
          \<and> sw_quarantine W' = (case sw_splits W (ds, seed) of None \<Rightarrow> [] | Some old \<Rightarrow> [(''replaced'', old)]) @ sw_quarantine W"
  using assms
  by (auto simp: recompute_split_def Let_def quarantine_split_facts dest!: fill_directory_Inr split: sum.splits prod.splits)

section \<open>Validation\<close>

lemma validate_regular_Inr:
  assumes "validate_regular E c ds seed assignments manifest = Inr r"
  obtains m d grouped t sel where "read_local_inputs E ds = Inr d" "grouped_inputs E d = Inr grouped"
    "sv_read_table E assignments = Some t"
    "select_fold_assignment (sv_params E) c seed grouped (pd_targets d) = Inr (Selected sel)"
    "list_all (\<lambda>g. \<not> fst g) (manifest_guards E c ds seed m)"
    "list_all (\<lambda>g. \<not> fst g) (split_table_guards c (pd_targets d) (expected_groups grouped (at_rows t)) t)"
    "list_all (\<lambda>g. \<not> fst g) (fold_guards sel m (at_rows t))"
    "list_all (\<lambda>g. \<not> fst g) (split_count_guards E c d m assignments (at_rows t))"
    "r = \<lparr>sr_status = ''PASS'', sr_dataset_id = ds, sr_seed = seed, sr_protected = False,
       sr_row_count = length (at_rows t), sr_counts = observed_counts (at_rows t),
       sr_class_counts = observed_class_counts (at_rows t) (pd_targets d), sr_crossing = 0,
       sr_assignment_hash = sm_assignment_hash m, sr_logical_hash = logical_assignment_hash (sv_sha E) (at_rows t)\<rparr>"
proof -
  from assms obtain m u1 d grouped t u2 s where d: "read_local_inputs E ds = Inr d" and g: "grouped_inputs E d = Inr grouped"
    and mg: "guards (manifest_guards E c ds seed m) () = Inr u1"
    and t: "of_option (ValueError ''assignment Parquet cannot be read'') (sv_read_table E assignments) = Inr t"
    and tg: "guards (split_table_guards c (pd_targets d) (expected_groups grouped (at_rows t)) t) () = Inr u2"
    and s: "select_fold_assignment (sv_params E) c seed grouped (pd_targets d) = Inr s"
    and rest: "(case s of Infeasible _ _ _ \<Rightarrow> Inl (ValueError ''recomputed fold selection is not feasible'')
     | Selected sel \<Rightarrow>
         bindr (guards (fold_guards sel m (at_rows t) @ split_count_guards E c d m assignments (at_rows t)) ()) (\<lambda>_.
         bindr (split_cache_identity (manifest_identity m d)) (\<lambda>i. guards
           [(split_cache_key (sv_sha E) i \<noteq> sm_cache_identity_hash m, ValueError ''cache identity hash mismatch''),
            (sm_predictor_group_count m \<noteq> int (card (set (map as_group (at_rows t)))),
              ValueError ''predictor group count mismatch''),
            (sm_cross_partition_group_count m \<noteq> 0, ValueError ''cross-partition group count mismatch'')]
           \<lparr>sr_status = ''PASS'', sr_dataset_id = ds, sr_seed = seed, sr_protected = False,
             sr_row_count = length (at_rows t), sr_counts = observed_counts (at_rows t),
             sr_class_counts = observed_class_counts (at_rows t) (pd_targets d), sr_crossing = 0,
             sr_assignment_hash = sm_assignment_hash m,
             sr_logical_hash = logical_assignment_hash (sv_sha E) (at_rows t)\<rparr>))) = Inr r"
    unfolding validate_regular_def bindr_Inr_iff by blast
  from rest obtain sel where sel: "s = Selected sel" by (cases s) simp_all
  from rest [unfolded sel selection_result.case bindr_Inr_iff] obtain u3 gs
    where fg: "guards (fold_guards sel m (at_rows t) @ split_count_guards E c d m assignments (at_rows t)) () = Inr u3"
    and gs: "guards gs \<lparr>sr_status = ''PASS'', sr_dataset_id = ds, sr_seed = seed, sr_protected = False,
       sr_row_count = length (at_rows t), sr_counts = observed_counts (at_rows t),
       sr_class_counts = observed_class_counts (at_rows t) (pd_targets d), sr_crossing = 0,
       sr_assignment_hash = sm_assignment_hash m, sr_logical_hash = logical_assignment_hash (sv_sha E) (at_rows t)\<rparr> = Inr r"
    by blast
  note r = guards_same [OF gs]
  have t': "sv_read_table E assignments = Some t" using t by (auto simp: of_option_def split: option.splits)
  note all = guards_all [OF mg] guards_all [OF tg] guards_all [OF fg]
  show thesis
    by (rule that [OF d g t' s [unfolded sel] all(1) all(2) _ _ r]) (use all(3) in \<open>simp_all only: list_all_append\<close>)
qed

lemma valid_directory_hash:
  assumes "validate_split_directory E c ds seed dir = Inr r" and "(ds, seed) \<noteq> PROTECTED_DATASET_SEED"
    and "sd_assignments dir = Some file"
  shows "sr_assignment_hash r = sv_sha E file"
proof -
  from assms obtain manifest where "validate_regular E c ds seed file manifest = Inr r"
    by (auto simp: validate_split_directory_def split: option.splits)
  then show ?thesis
  proof (rule validate_regular_Inr)
    fix m d grouped t sel
    assume cg: "list_all (\<lambda>g. \<not> fst g) (split_count_guards E c d m file (at_rows t))"
      and r: "r = \<lparr>sr_status = ''PASS'', sr_dataset_id = ds, sr_seed = seed, sr_protected = False,
       sr_row_count = length (at_rows t), sr_counts = observed_counts (at_rows t),
       sr_class_counts = observed_class_counts (at_rows t) (pd_targets d), sr_crossing = 0,
       sr_assignment_hash = sm_assignment_hash m, sr_logical_hash = logical_assignment_hash (sv_sha E) (at_rows t)\<rparr>"
    from cg have "sv_sha E file = sm_assignment_hash m"
      unfolding split_count_guards_def Let_def list.pred_inject fst_conv not_not by blast
    then show ?thesis by (simp add: r)
  qed
qed

lemma validate_split_dataset:
  assumes "validate_split E c W ds seed = Inr r" and "(ds, seed) \<noteq> PROTECTED_DATASET_SEED"
  shows "sr_dataset_id r = ds"
proof -
  from assms obtain assignments manifest where "validate_regular E c ds seed assignments manifest = Inr r"
    by (auto simp: validate_split_def validate_split_directory_def split: option.splits)
  then show ?thesis by (rule validate_regular_Inr) simp
qed

section \<open>The world after a run\<close>

lemma generate_split_recomputed:
  assumes "generate_split E c force W ds seed = (W', Inr (Generated ah lh))"
  shows "\<exists>W0. ds \<in> set (sg_datasets c) \<and> seed \<in> set (sg_seeds c) \<and> (ds, seed) \<noteq> PROTECTED_DATASET_SEED
    \<and> recompute_split E c W0 ds seed = (W', Inr (Generated ah lh))"
proof -
  have "bindr v (\<lambda>r. Inr (ProtectedBaseline r)) \<noteq> Inr (Generated ah lh)" for v :: "split_report result"
    by (cases v) simp_all
  with assms show ?thesis unfolding generate_split_def
    by (auto split: if_splits option.splits sum.splits)
qed

lemma generate_split_cases:
  assumes "generate_split E c force W ds seed = (W', out)"
  obtains "W' = W"
  | "(ds, seed) \<noteq> PROTECTED_DATASET_SEED" "recompute_split E c W ds seed = (W', out)" "force \<or> sw_splits W (ds, seed) = None"
  | e where "(ds, seed) \<noteq> PROTECTED_DATASET_SEED" "validate_split E c W ds seed = Inl e"
      "recompute_split E c (quarantine_split W (ds, seed) ''invalid'') ds seed = (W', out)"
  using assms unfolding generate_split_def by (auto split: if_splits option.splits sum.splits)

lemma recompute_quarantine:
  assumes "recompute_split E c W ds seed = (W', out)"
  shows "\<exists>q. sw_quarantine W' = q @ sw_quarantine W
      \<and> (\<forall>dir. sw_splits W (ds, seed) = Some dir \<and> sw_splits W' (ds, seed) \<noteq> Some dir \<longrightarrow> dir \<in> snd ` set q)"
    and "\<forall>dir. sw_splits W' (ds, seed) = Some dir \<and> sw_splits W (ds, seed) \<noteq> Some dir
      \<longrightarrow> (\<exists>r. validate_split_directory E c ds seed dir = Inr r)"
  using recompute_split_world [OF assms] by (auto split: sum.splits option.splits)

lemma generate_split_world:
  assumes "generate_split E c force W ds seed = (W', out)"
  shows "\<forall>k. k \<noteq> (ds, seed) \<longrightarrow> sw_splits W' k = sw_splits W k"
    and "(ds, seed) = PROTECTED_DATASET_SEED \<longrightarrow> W' = W"
    and "\<forall>r. \<not> force \<and> sw_splits W (ds, seed) \<noteq> None \<and> validate_split E c W ds seed = Inr r \<longrightarrow> W' = W"
    and "\<exists>q. sw_quarantine W' = q @ sw_quarantine W
      \<and> (\<forall>dir. sw_splits W (ds, seed) = Some dir \<and> sw_splits W' (ds, seed) \<noteq> Some dir \<longrightarrow> dir \<in> snd ` set q)"
    and "\<forall>dir. sw_splits W' (ds, seed) = Some dir \<and> sw_splits W (ds, seed) \<noteq> Some dir
      \<longrightarrow> (\<exists>r. validate_split_directory E c ds seed dir = Inr r)"
proof -
  let ?W = "quarantine_split W (ds, seed) ''invalid''"
  have q: "sw_splits ?W (ds, seed) = None" "\<And>k. k \<noteq> (ds, seed) \<Longrightarrow> sw_splits ?W k = sw_splits W k"
    "sw_quarantine ?W = (case sw_splits W (ds, seed) of None \<Rightarrow> [] | Some dir \<Rightarrow> [(''invalid'', dir)]) @ sw_quarantine W"
    by (simp_all add: quarantine_split_facts)
  show "\<forall>k. k \<noteq> (ds, seed) \<longrightarrow> sw_splits W' k = sw_splits W k"
    using assms by (rule generate_split_cases) (simp_all add: recompute_split_world(1) q(2))
  show "(ds, seed) = PROTECTED_DATASET_SEED \<longrightarrow> W' = W" using assms by (rule generate_split_cases) simp_all
  show "\<forall>r. \<not> force \<and> sw_splits W (ds, seed) \<noteq> None \<and> validate_split E c W ds seed = Inr r \<longrightarrow> W' = W"
    using assms by (rule generate_split_cases) auto
  show "\<exists>q. sw_quarantine W' = q @ sw_quarantine W
      \<and> (\<forall>dir. sw_splits W (ds, seed) = Some dir \<and> sw_splits W' (ds, seed) \<noteq> Some dir \<longrightarrow> dir \<in> snd ` set q)"
    using assms
  proof (rule generate_split_cases)
    assume "recompute_split E c ?W ds seed = (W', out)"
    from recompute_quarantine(1) [OF this] obtain qs where "sw_quarantine W' = qs @ sw_quarantine ?W" by blast
    then show ?thesis unfolding q(3)
      by (intro exI [of _ "qs @ (case sw_splits W (ds, seed) of None \<Rightarrow> [] | Some dir \<Rightarrow> [(''invalid'', dir)])"])
        (auto split: option.splits)
  qed (simp, rule recompute_quarantine(1))
  show "\<forall>dir. sw_splits W' (ds, seed) = Some dir \<and> sw_splits W (ds, seed) \<noteq> Some dir
      \<longrightarrow> (\<exists>r. validate_split_directory E c ds seed dir = Inr r)"
    using assms
  proof (rule generate_split_cases)
    assume "recompute_split E c ?W ds seed = (W', out)"
    from recompute_quarantine(2) [OF this] show ?thesis unfolding q(1) by simp
  qed (simp, rule recompute_quarantine(2))
qed

end
