(* ===== verification/Split_Demo.thy ===== *)
theory Split_Demo
  imports Split_Generation
begin

text \<open>A grouped splitter that deals the groups out in turn, and a table of eleven rows, two of them in one group.\<close>

definition round_robin :: "nat \<Rightarrow> nat \<Rightarrow> int list \<Rightarrow> 'a list \<Rightarrow> nat list list result" where
  "round_robin n s ys gs =
     Inr (map (\<lambda>k. filter (\<lambda>i. index_of (remdups gs) (gs ! i) mod n = k) [0..<length gs]) [0..<n])"

definition demo_split_env :: "(string \<Rightarrow> string) \<Rightarrow> split_params" where
  "demo_split_env sha = \<lparr>sp_frames = \<lparr>fp_codec = \<lparr>cp_frepr = (\<lambda>x. ''0.5''), cp_int = (\<lambda>j. None), cp_float = (\<lambda>j. None),
       cp_timestamp = (\<lambda>j. None), cp_numpy_int = (\<lambda>t i. None), cp_numpy_float = (\<lambda>t x. None), cp_loads = (\<lambda>s. None)\<rparr>,
       fp_sha = sha, fp_numeric = (\<lambda>d. d = ''int64''), fp_integer = (\<lambda>d. d = ''int64''), fp_series = (\<lambda>d cs. Inr cs),
       fp_str = (\<lambda>c. case c of CStr s \<Rightarrow> s | _ \<Rightarrow> []), fp_row_text = (\<lambda>X i. show_nat i), fp_argsort = (\<lambda>ks. [0..<length ks]),
       fp_numeric_cells = (\<lambda>cs. Inr (map (\<lambda>c. None) cs)), fp_affine = Finite, fp_double = (\<lambda>i. i), fp_bounds = (\<lambda>d. (0, 0))\<rparr>,
     sp_hex = (\<lambda>x. ''0x1p-1''), sp_repr = (\<lambda>c. ([], [])), sp_kfold = round_robin,
     sp_ratio = (\<lambda>m n. of_nat m / of_nat n), sp_sub = (-), sp_sum = sum_list\<rparr>"

definition demo_split_config :: split_config where
  "demo_split_config = \<lparr>sg_strategy = ''stratified_group_5fold_v1'', sg_group_folds = 5, sg_train_fraction = 6 / 10,
     sg_calibration_fraction = 2 / 10, sg_test_fraction = 2 / 10, sg_minimum_class_count = 1, sg_seeds = SPLIT_SEEDS,
     sg_datasets = SPLIT_DATASETS, sg_max_workers = 2\<rparr>"

definition demo_targets :: "(string \<times> int) list" where
  "demo_targets = [(''a'', 0), (''b'', 0), (''c'', 0), (''d'', 0), (''e'', 0), (''f'', 1), (''g'', 1), (''h'', 1), (''i'', 1),
     (''j'', 1), (''k'', 0)]"

definition demo_digest :: "nat \<Rightarrow> string" where
  "demo_digest n = replicate 63 CHR ''0'' @ [''0123456789abcdef'' ! n]"

definition demo_groups :: "nat list" where "demo_groups = [0, 1, 2, 3, 4, 5, 6, 7, 8, 9, 0]"

definition demo_grouped :: "(string \<times> string) list" where
  "demo_grouped = zip (map fst demo_targets) (map demo_digest demo_groups)"

definition demo_folds :: "(string \<times> nat) list" where
  "demo_folds = [(''b'', 0), (''g'', 0), (''c'', 1), (''h'', 1), (''d'', 2), (''i'', 2), (''e'', 3), (''j'', 3), (''a'', 4),
     (''f'', 4), (''k'', 4)]"

lemma demo_groups_upt: "demo_groups = [0..<10] @ [0]"
  by (simp add: demo_groups_def upt_rec)

lemma demo_groups_length: "length demo_groups = 11"
  by (simp add: demo_groups_def)

lemma round_robin_whole: "groups_whole (demo_split_env sha)"
  by (auto simp: groups_whole_def demo_split_env_def round_robin_def)

lemma demo_digest_inj: "m < 16 \<Longrightarrow> n < 16 \<Longrightarrow> demo_digest m = demo_digest n \<longleftrightarrow> m = n"
  using nth_eq_iff_index_eq [of "''0123456789abcdef''" m n] by (simp add: demo_digest_def)

lemma index_of_map: "inj_on h (insert x (set xs)) \<Longrightarrow> index_of (map h xs) (h x) = index_of xs x"
  by (induction xs) (auto simp: index_of_def inj_on_def)

lemma remdups_map_inj: "inj_on h (set xs) \<Longrightarrow> remdups (map h xs) = map h (remdups xs)"
  by (induction xs) (auto simp: inj_on_def)

lemma round_robin_map:
  assumes "inj_on h (set gs)"
  shows "round_robin n s ys (map h gs) = round_robin n s ys gs"
proof -
  have eq: "index_of (remdups (map h gs)) (map h gs ! i) = index_of (remdups gs) (gs ! i)" if "i < length gs" for i
    unfolding remdups_map_inj [OF assms] nth_map [OF that]
    by (rule index_of_map) (use assms that in \<open>simp add: insert_absorb\<close>)
  have "filter (\<lambda>i. index_of (remdups (map h gs)) (map h gs ! i) mod n = k) [0..<length gs]
      = filter (\<lambda>i. index_of (remdups gs) (gs ! i) mod n = k) [0..<length gs]" for k
    by (rule filter_cong [OF refl]) (simp only: set_upt atLeastLessThan_iff eq)
  then show ?thesis by (simp add: round_robin_def)
qed

lemma demo_round_robin: "round_robin 5 s ys (map snd demo_grouped) = Inr [[1, 6], [2, 7], [3, 8], [4, 9], [0, 5, 10]]"
proof -
  have g: "map snd demo_grouped = map demo_digest demo_groups" by (simp add: demo_grouped_def demo_targets_def demo_groups_def)
  have "inj_on demo_digest (set demo_groups)"
    by (intro inj_onI) (simp add: demo_groups_def, elim disjE; simp add: demo_digest_inj)
  then have "round_robin 5 s ys (map snd demo_grouped) = round_robin 5 s ys demo_groups" unfolding g by (rule round_robin_map)
  also have "\<dots> = Inr [[1, 6], [2, 7], [3, 8], [4, 9], [0, 5, 10]]"
    by (simp add: round_robin_def demo_groups_def index_of_def upt_rec)
  finally show ?thesis .
qed

lemma demo_targets_sorted: "sort_key fst demo_targets = demo_targets"
  by (rule sort_key_id_if_sorted) (simp add: demo_targets_def)

lemma demo_folds:
  "folds (demo_split_env sha) demo_split_config 1729 demo_grouped demo_targets = Inr demo_folds"
proof -
  have g: "mapr (groups_of demo_grouped) (map fst demo_targets)
      = Inr (map (\<lambda>x. [snd x]) demo_grouped)"
    by (simp add: demo_grouped_def demo_groups_def demo_targets_def groups_of_def)
  have s: "\<exists>n. derive_component_seed sha' 1729 name = Inr n" for sha' name by (simp add: derive_component_seed_def)
  then obtain n where n: "derive_component_seed (sp_sha (demo_split_env sha)) 1729 (sg_strategy demo_split_config) = Inr n" by blast
  have k: "sp_kfold (demo_split_env sha) (sg_group_folds demo_split_config) n ys (map snd demo_grouped)
      = Inr [[1, 6], [2, 7], [3, 8], [4, 9], [0, 5, 10]]" for ys
    using demo_round_robin by (simp add: demo_split_env_def demo_split_config_def)
  show ?thesis
    by (simp add: folds_def demo_targets_sorted g n k) (simp add: demo_targets_def demo_folds_def insert_commute)
qed

lemma demo_dict: "target_dict demo_targets = rev demo_targets"
  unfolding target_dict_def by (rule distinct_clearjunk_id) (simp add: demo_targets_def)

lemma demo_feasible: "feasible demo_split_config demo_folds demo_targets 2 3"
proof -
  have t: "target_of demo_targets r = the (map_of (rev demo_targets) r)" for r by (simp add: target_of_def demo_dict)
  have codes: "snd ` set (target_dict demo_targets) = {0, 1}" by (simp add: demo_dict) (auto simp: demo_targets_def)
  have rows: "filter (\<lambda>t. \<exists>k. map_of demo_folds (fst t) = Some k \<and> fold_partition 2 3 k = ''calibration'') demo_targets = [(''d'', 0), (''i'', 1)]"
    "filter (\<lambda>t. \<exists>k. map_of demo_folds (fst t) = Some k \<and> fold_partition 2 3 k = ''test'') demo_targets = [(''e'', 0), (''j'', 1)]"
    "filter (\<lambda>t. \<exists>k. map_of demo_folds (fst t) = Some k \<and> fold_partition 2 3 k = ''train'') demo_targets
      = [(''a'', 0), (''b'', 0), (''c'', 0), (''f'', 1), (''g'', 1), (''h'', 1), (''k'', 0)]"
    by (simp_all add: demo_targets_def demo_folds_def fold_partition_def)
  have vals: "target_of demo_targets ''a'' = 0" "target_of demo_targets ''b'' = 0" "target_of demo_targets ''c'' = 0"
    "target_of demo_targets ''d'' = 0" "target_of demo_targets ''e'' = 0" "target_of demo_targets ''f'' = 1"
    "target_of demo_targets ''g'' = 1" "target_of demo_targets ''h'' = 1" "target_of demo_targets ''i'' = 1"
    "target_of demo_targets ''j'' = 1" "target_of demo_targets ''k'' = 0"
    by (simp_all add: t) (simp_all add: demo_targets_def)
  have min: "sg_minimum_class_count demo_split_config = 1" by (simp add: demo_split_config_def)
  have "\<forall>p \<in> {''train'', ''calibration'', ''test''}. let rows = filter (\<lambda>t. \<exists>k. map_of demo_folds (fst t) = Some k \<and> fold_partition 2 3 k = p) demo_targets in
     rows \<noteq> [] \<and> (\<forall>code \<in> {0, 1}. 1 \<le> length (filter (\<lambda>t. target_of demo_targets (fst t) = code) rows))"
    unfolding Let_def ball_simps rows by (simp add: vals)
  then show ?thesis by (simp only: feasible_def codes min) (simp add: partitions_def Let_def)
qed

lemma demo_selected:
  "\<exists>sel. select_fold_assignment (demo_split_env sha) demo_split_config 1729 demo_grouped demo_targets = Inr (Selected sel)"
proof (rule select_succeeds [OF demo_folds _ demo_feasible])
  show "\<exists>k < sg_group_folds demo_split_config. map_of demo_folds (fst t) = Some k" if "t \<in> set demo_targets" for t
    using that by (auto simp: demo_targets_def demo_folds_def demo_split_config_def)
qed (simp_all add: demo_split_config_def)

section \<open>A data set and its store\<close>

text \<open>
  Eleven rows of one column, the first and the last equal; a digest that tells the ten canonical texts
  apart; files that hold the one table and the one manifest they are read back as.
\<close>

definition demo_cells :: "cell list" where
  "demo_cells = map (\<lambda>n. CInt ''int64'' (int n)) demo_groups"

definition demo_columns :: "column list" where
  "demo_columns = [\<lparr>co_name = ''x'', co_dtype = ''int64'', co_cells = demo_cells\<rparr>]"

definition demo_features :: frame where
  "demo_features = \<lparr>co_name = ROW_ID_COLUMN, co_dtype = ''object'', co_cells = map (CStr \<circ> fst) demo_targets\<rparr> # demo_columns"

definition group_sha :: "string \<Rightarrow> string" where
  "group_sha s = demo_digest (index_of (map (\<lambda>i. canonical_text (vector_json (demo_split_env id) demo_columns i)) [0..<10]) s)"

definition demo_processed :: processed where
  "demo_processed = \<lparr>pd_name = ''demo'', pd_version = ''1'', pd_ignored = [], pd_features = demo_features,
     pd_targets = demo_targets, pd_feature_columns = Some 3, pd_feature_hash = demo_digest 0, pd_target_hash = demo_digest 0,
     pd_manifest_hash = demo_digest 0\<rparr>"

definition demo_base :: split_env where
  "demo_base = \<lparr>sv_params = demo_split_env group_sha, sv_processed = (\<lambda>ds. Inr demo_processed), sv_read_table = (\<lambda>s. None),
     sv_write_table = (\<lambda>t. ''table''), sv_json = (\<lambda>s. Some JNull), sv_manifest = (\<lambda>j. None),
     sv_write_manifest = (\<lambda>m. ''manifest''), sv_grouping_hash = demo_digest 0, sv_implementation_hash = demo_digest 0,
     sv_commit = Inr ''commit'', sv_now = ''now''\<rparr>"

definition split_store :: "selection \<Rightarrow> split_env" where
  "split_store sel = demo_base\<lparr>sv_read_table := (\<lambda>s. Some (written_table demo_grouped demo_processed sel)),
     sv_manifest := (\<lambda>j. Some (written_manifest demo_base demo_split_config 3 1729 demo_processed demo_grouped sel ''commit''))\<rparr>"

lemma demo_cell:
  "i < 11 \<Longrightarrow> co_cells \<lparr>co_name = ''x'', co_dtype = ''int64'', co_cells = demo_cells\<rparr> ! i = CInt ''int64'' (int (demo_groups ! i))"
  by (simp add: demo_cells_def demo_groups_length)

lemma demo_vector_inj:
  assumes "i < 11" and "j < 11"
  shows "canonical_text (vector_json (demo_split_env id) demo_columns i) = canonical_text (vector_json (demo_split_env id) demo_columns j)
    \<longleftrightarrow> demo_groups ! i = demo_groups ! j"
proof
  note cell = demo_cell
  show "demo_groups ! i = demo_groups ! j"
    if "canonical_text (vector_json (demo_split_env id) demo_columns i) = canonical_text (vector_json (demo_split_env id) demo_columns j)"
  proof -
    from that have "canonicalize (vector_json (demo_split_env id) demo_columns i) = canonicalize (vector_json (demo_split_env id) demo_columns j)"
      by (simp only: canonical_text_inj [OF vector_wf vector_wf])
    from vector_json_inj [OF this] show ?thesis
      using cell [OF assms(1)] cell [OF assms(2)] by (simp add: demo_columns_def scalar_json_def show_int_inj)
  qed
  show "canonical_text (vector_json (demo_split_env id) demo_columns i) = canonical_text (vector_json (demo_split_env id) demo_columns j)"
    if "demo_groups ! i = demo_groups ! j"
    using that cell [OF assms(1)] cell [OF assms(2)] by (simp add: vector_json_def demo_columns_def)
qed

lemma group_sha_vector:
  assumes "i < 11"
  shows "group_sha (canonical_text (vector_json (demo_split_env id) demo_columns i)) = demo_digest (demo_groups ! i)"
proof -
  let ?T = "\<lambda>i. canonical_text (vector_json (demo_split_env id) demo_columns i)"
  have first: "demo_groups ! n = n" if "n < 10" for n
    using that by (simp add: demo_groups_upt nth_append)
  have lt: "demo_groups ! i < 10" using assms by (auto simp: demo_groups_upt nth_append)
  have same: "?T i = ?T (demo_groups ! i)" using demo_vector_inj [OF assms, of "demo_groups ! i"] lt first by simp
  have inj: "inj_on ?T (insert (demo_groups ! i) (set [0..<10]))"
    using lt first demo_vector_inj by (auto simp: inj_on_def)
  have "index_of [0..<10] n = n" if "n < 10" for n :: nat
    using that by (auto simp: index_of_def upt_rec less_Suc_eq numeral_eq_Suc)
  from index_of_map [OF inj] this [OF lt] show ?thesis by (simp only: group_sha_def same)
qed

lemma demo_grouped_features: "grouped_features (demo_split_env group_sha) demo_features = Inr demo_grouped"
proof -
  have cols: "predictor_columns (filter (\<lambda>c. co_name c \<notin> {''predictor_group_id'', ''fold_id'', ''partition'', ''split''}) demo_features) = demo_columns"
    by (simp add: predictor_columns_def demo_features_def demo_columns_def ROW_ID_COLUMN_def GROUP_ID_COLUMN_def
        TARGET_LABEL_COLUMN_def TARGET_CODE_COLUMN_def)
  have rows: "row_count (filter (\<lambda>c. co_name c \<notin> {''predictor_group_id'', ''fold_id'', ''partition'', ''split''}) demo_features) = 11"
    by (simp add: demo_features_def row_count_def ROW_ID_COLUMN_def demo_targets_def)
  have vec: "canonical_predictor_vector (demo_split_env group_sha) demo_columns i = demo_digest (demo_groups ! i)" if "i < 11" for i
  proof -
    from demo_cell [OF that] have "vector_json (demo_split_env group_sha) demo_columns i = vector_json (demo_split_env id) demo_columns i"
      by (simp add: vector_json_def demo_columns_def)
    with group_sha_vector [OF that] show ?thesis
      by (simp add: canonical_predictor_vector_def sha256_canonical_json_def sp_sha_def) (simp add: demo_split_env_def)
  qed
  have "map (canonical_predictor_vector (demo_split_env group_sha) demo_columns) [0..<11] = map (\<lambda>i. demo_digest (demo_groups ! i)) [0..<11]"
    by (rule map_cong [OF refl]) (simp add: vec)
  also have "\<dots> = map demo_digest demo_groups"
    by (rule nth_equalityI) (simp_all add: demo_groups_length)
  finally have ids: "map (canonical_predictor_vector (demo_split_env group_sha) demo_columns) [0..<11] = map demo_digest demo_groups" .
  have find: "find (\<lambda>c. co_name c = ROW_ID_COLUMN) demo_features
      = Some \<lparr>co_name = ROW_ID_COLUMN, co_dtype = ''object'', co_cells = map (CStr \<circ> fst) demo_targets\<rparr>"
    by (simp add: demo_features_def)
  show ?thesis
    unfolding grouped_features_def find option.case predictor_group_ids_def cols rows ids
    by (simp add: demo_columns_def demo_grouped_def comp_def) (simp add: demo_split_env_def)
qed

lemma demo_digest_sha: "n < 16 \<Longrightarrow> is_sha256 (demo_digest n)"
  using nth_mem [of n "''0123456789abcdef''"]
  by (simp add: is_sha256_def demo_digest_def list_all_iff is_lower_hex_def)

lemma index_of_le: "index_of xs x \<le> length xs"
  by (simp add: index_of_def length_takeWhile_le)

lemma group_sha_sha: "is_sha256 (group_sha s)"
  unfolding group_sha_def
  by (rule demo_digest_sha) (rule le_less_trans [OF index_of_le], simp)

lemma demo_sound: "sound_env (split_store sel)"
  unfolding sound_env_def
  by (simp add: split_store_def demo_base_def round_robin_whole demo_digest_sha sv_sha_def sp_sha_def fractions_differ_def MANIFEST_FRACTIONS_def)
    (simp add: demo_split_env_def group_sha_sha)

lemma demo_params: "sv_params (split_store s) = demo_split_env group_sha" "sv_processed (split_store s) 3 = Inr demo_processed"
  by (simp_all add: split_store_def demo_base_def)

lemma demo_codes: "set (map snd demo_targets) = {0, 1}"
  by (simp add: demo_targets_def insert_commute)

lemma split_read: "read_local_inputs (split_store s) 3 = Inr demo_processed"
proof -
  have ids: "\<exists>c. get_column demo_features ROW_ID_COLUMN = Inr c \<and> co_cells c = map (\<lambda>t. CStr (fst t)) demo_targets"
    by (simp add: get_column_def demo_features_def of_option_def comp_def)
  show ?thesis
    unfolding read_local_inputs_def demo_params bindr_simps
    using ids by (auto simp: demo_processed_def demo_codes [unfolded set_map])
qed

lemma demo_ready:
  assumes sel: "select_fold_assignment (demo_split_env group_sha) demo_split_config 1729 demo_grouped demo_targets = Inr (Selected sel)"
  shows "ready_inputs (split_store s) demo_split_config 3 1729 demo_processed demo_grouped sel"
proof -
  note params = demo_params and codes = demo_codes and input = split_read [of s]
  have grouped: "grouped_inputs (split_store s) demo_processed = Inr demo_grouped"
    by (simp add: grouped_inputs_def params demo_processed_def demo_grouped_features)
  have folds: "sl_fold_by_row sel = demo_folds"
    using selected_facts(1) [OF sel] demo_folds [of group_sha] by simp
  have cover: "{0..<sg_group_folds demo_split_config} \<subseteq> ran (map_of demo_folds)"
  proof
    fix k assume "k \<in> {0..<sg_group_folds demo_split_config}"
    then have "k \<in> {0, 1, 2, 3, 4}" by (auto simp: demo_split_config_def)
    moreover have "map_of demo_folds ''b'' = Some 0" "map_of demo_folds ''c'' = Some 1" "map_of demo_folds ''d'' = Some 2"
      "map_of demo_folds ''e'' = Some 3" "map_of demo_folds ''a'' = Some 4" by (simp_all add: demo_folds_def)
    ultimately show "k \<in> ran (map_of demo_folds)" by (auto intro: ranI)
  qed
  have parts: "map fst demo_grouped = map fst demo_targets" "distinct (map fst demo_targets)"
    by (simp_all add: demo_grouped_def demo_groups_def demo_targets_def)
  have proc: "pd_targets demo_processed = demo_targets" "predictor_count demo_processed = 3"
    "list_all is_sha256 [pd_feature_hash demo_processed, pd_target_hash demo_processed, pd_manifest_hash demo_processed]"
    by (simp_all add: demo_processed_def predictor_count_def demo_digest_sha)
  have card: "card {0, 1 :: int} = 2" by simp
  show ?thesis
    unfolding ready_inputs_def proc(1) params folds codes card using input grouped sel parts cover proc by simp
qed

lemma demo_files: "files_read_back (split_store sel) (written_table grouped demo_processed sel')
    (written_manifest (split_store sel) demo_split_config 3 1729 demo_processed demo_grouped sel ''commit'')
  \<longleftrightarrow> written_table grouped demo_processed sel' = written_table demo_grouped demo_processed sel"
  by (auto simp: files_read_back_def split_store_def demo_base_def written_manifest_def generated_manifest_def generated_identity_def
      sv_sha_def Let_def)

end
