(* ===== verification/Split_Properties.thy ===== *)
theory Split_Properties
  imports Split_Demo Split_Generation
begin

text \<open>
  The properties of the splits: that the selection is the best feasible one and keeps groups together, what the logical hash binds, and what generation and validation do
  to the published directories. Each has a witness where it has hypotheses.
\<close>

section \<open>Selection\<close>

text \<open>Claim C19. The selection is the best feasible one: every row is in exactly one fold; when no pair of
  distinct folds for calibration and test leaves every partition with enough rows of every class,
  the answer says so, and otherwise the chosen pair is such a pair, the labels are those of its
  folds, and no feasible pair has a smaller key (size, class deviation, folds).\<close>

theorem selection_optimal:
  assumes "select_fold_assignment P c seed grouped targets = Inr s"
  shows "\<exists>fbr. folds P c seed grouped targets = Inr fbr \<and> distinct (map fst fbr) \<and> set (map fst fbr) = fst ` set targets
    \<and> (case s of
         Infeasible _ _ _ \<Rightarrow> \<forall>(cal, tst) \<in> set (fold_pairs (sg_group_folds c)). \<not> feasible c fbr targets cal tst
       | Selected sel \<Rightarrow> let x = sl_choice sel in sl_fold_by_row sel = fbr
           \<and> (fc_calibration x, fc_test x) \<in> set (fold_pairs (sg_group_folds c))
           \<and> feasible c fbr targets (fc_calibration x) (fc_test x)
           \<and> fc_train x = filter (\<lambda>k. k \<notin> {fc_calibration x, fc_test x}) [0..<sg_group_folds c]
           \<and> fc_labels x = map (\<lambda>t. (fst t, fold_partition (fc_calibration x) (fc_test x) (the (map_of fbr (fst t))))) targets
           \<and> (\<forall>(cal, tst) \<in> set (fold_pairs (sg_group_folds c)).
                feasible c fbr targets cal tst \<longrightarrow> (\<exists>y. candidate P c fbr targets cal tst = Inr (Candidate y) \<and> choice_key x \<le> choice_key y)))"
  by (rule selection_facts [OF assms])

theorem selection_optimal_witness:
  "\<exists>sel. select_fold_assignment (demo_split_env group_sha) demo_split_config 1729 demo_grouped demo_targets = Inr (Selected sel)
    \<and> feasible demo_split_config (sl_fold_by_row sel) demo_targets (fc_calibration (sl_choice sel)) (fc_test (sl_choice sel))"
proof -
  obtain sel where sel: "select_fold_assignment (demo_split_env group_sha) demo_split_config 1729 demo_grouped demo_targets = Inr (Selected sel)"
    using demo_selected by blast
  from selection_optimal [OF sel] sel show ?thesis by (auto simp: Let_def)
qed

text \<open>Claim C22. No group of rows with equal predictors is torn apart: when the grouped splitter holds groups out
  as a whole, two rows of the same group are in the same fold and in the same partition of the
  selected assignment.\<close>

theorem selection_keeps_groups:
  assumes "groups_whole P" and "select_fold_assignment P c seed grouped targets = Inr (Selected sel)"
    and "distinct (map fst grouped)" and "distinct (map fst targets)"
    and "r1 \<in> fst ` set targets" and "r2 \<in> fst ` set targets" and "map_of grouped r1 = map_of grouped r2"
  shows "map_of (sl_fold_by_row sel) r1 = map_of (sl_fold_by_row sel) r2
    \<and> map_of (fc_labels (sl_choice sel)) r1 = map_of (fc_labels (sl_choice sel)) r2"
  using folds_keep_groups [OF assms(1) selected_facts(1) [OF assms(2)] assms(3-7)]
    selected_label [OF assms(2,5)] selected_label [OF assms(2,6)] by simp

theorem selection_keeps_groups_witness:
  "\<exists>sel. select_fold_assignment (demo_split_env group_sha) demo_split_config 1729 demo_grouped demo_targets = Inr (Selected sel)
    \<and> map_of (fc_labels (sl_choice sel)) ''a'' = map_of (fc_labels (sl_choice sel)) ''k''"
proof -
  obtain sel where sel: "select_fold_assignment (demo_split_env group_sha) demo_split_config 1729 demo_grouped demo_targets = Inr (Selected sel)"
    using demo_selected by blast
  have "map_of (fc_labels (sl_choice sel)) ''a'' = map_of (fc_labels (sl_choice sel)) ''k''"
    by (rule selection_keeps_groups [OF round_robin_whole sel, THEN conjunct2]) (simp_all add: demo_grouped_def demo_groups_def demo_targets_def)
  with sel show ?thesis by blast
qed

section \<open>The logical hash\<close>

text \<open>Claim C23. The logical hash stands for the set of assignments: it does not depend on the order of the rows
  or on the folds, and two tables of unique rows with the same hash assign the same rows to the
  same groups and partitions, unless SHA-256 collides on their canonical texts.\<close>

theorem logical_hash_binds:
  assumes "distinct (map as_row xs)" and "distinct (map as_row ys)"
  shows "logical_assignment_hash sha xs = logical_assignment_hash sha ys \<longleftrightarrow>
    row_triple ` set xs = row_triple ` set ys
    \<or> (\<exists>s t. s \<noteq> t \<and> sha s = sha t \<and> s = canonical_text (JArr (map row_json (sort_key as_row xs)))
         \<and> t = canonical_text (JArr (map row_json (sort_key as_row ys))))"
proof -
  let ?t = "\<lambda>xs. canonical_text (JArr (map row_json (sort_key as_row xs)))"
  have "?t xs = ?t ys \<longleftrightarrow> row_triple ` set xs = row_triple ` set ys"
  proof
    assume t: "?t xs = ?t ys"
    have "set (map row_triple (sort_key as_row xs)) = set (map row_triple (sort_key as_row ys))"
      by (rule arg_cong [OF logical_hash_texts [OF t]])
    then show "row_triple ` set xs = row_triple ` set ys" by simp
  qed (simp add: row_triples_sorted [OF assms])
  then show ?thesis unfolding logical_assignment_hash_def sha256_canonical_json_def by metis
qed

theorem logical_hash_binds_witness:
  "logical_assignment_hash group_sha
     [\<lparr>as_row = ''a'', as_group = ''A'', as_fold = Some 0, as_partition = ''train''\<rparr>,
      \<lparr>as_row = ''b'', as_group = ''B'', as_fold = Some 1, as_partition = ''test''\<rparr>]
   = logical_assignment_hash group_sha
     [\<lparr>as_row = ''b'', as_group = ''B'', as_fold = Some 2, as_partition = ''test''\<rparr>,
      \<lparr>as_row = ''a'', as_group = ''A'', as_fold = Some 0, as_partition = ''train''\<rparr>]"
  by (subst logical_hash_binds) (auto simp: row_triple_def)

section \<open>Validation\<close>

text \<open>A torn directory that generation replaces.\<close>

definition torn_world :: split_world where
  "torn_world = \<lparr>sw_splits = [(3, 1729) \<mapsto> \<lparr>sd_assignments = None, sd_manifest = Some ''torn''\<rparr>], sw_quarantine = []\<rparr>"

lemma demo_recomputed:
  obtains sel where "files_read_back (split_store sel) (written_table demo_grouped demo_processed sel)
      (written_manifest (split_store sel) demo_split_config 3 1729 demo_processed demo_grouped sel ''commit'')"
    "ready_inputs (split_store sel) demo_split_config 3 1729 demo_processed demo_grouped sel"
    "sv_commit (split_store sel) = Inr ''commit''" "3 \<in> set (sg_datasets demo_split_config)" "1729 \<in> set (sg_seeds demo_split_config)"
    "(3, 1729) \<noteq> PROTECTED_DATASET_SEED" "sv_write_table (split_store sel) = (\<lambda>t. ''table'')"
    "sv_write_manifest (split_store sel) = (\<lambda>m. ''manifest'')"
proof -
  obtain sel where sel: "select_fold_assignment (demo_split_env group_sha) demo_split_config 1729 demo_grouped demo_targets = Inr (Selected sel)"
    using demo_selected by blast
  show thesis
    by (rule that [OF _ demo_ready [OF sel]])
      (simp_all add: demo_files, simp_all add: split_store_def demo_base_def demo_split_config_def SPLIT_SEEDS_def SPLIT_DATASETS_def
        PROTECTED_DATASET_SEED_def)
qed

lemma demo_generated:
  obtains sel W' ah lh where "generate_split (split_store sel) demo_split_config False torn_world 3 1729 = (W', Inr (Generated ah lh))"
proof -
  obtain sel where files: "files_read_back (split_store sel) (written_table demo_grouped demo_processed sel)
      (written_manifest (split_store sel) demo_split_config 3 1729 demo_processed demo_grouped sel ''commit'')"
    and ready: "ready_inputs (split_store sel) demo_split_config 3 1729 demo_processed demo_grouped sel"
    and env: "sv_commit (split_store sel) = Inr ''commit''" "3 \<in> set (sg_datasets demo_split_config)" "1729 \<in> set (sg_seeds demo_split_config)"
      "(3, 1729) \<noteq> PROTECTED_DATASET_SEED"
    by (rule demo_recomputed)
  have "validate_split (split_store sel) demo_split_config torn_world 3 1729 = Inl (ValueError ''split artifact set is incomplete'')"
    by (simp add: validate_split_def validate_split_directory_def torn_world_def)
  moreover have "sw_splits torn_world (3, 1729) \<noteq> None" by (simp add: torn_world_def)
  moreover obtain W' where "recompute_split (split_store sel) demo_split_config (quarantine_split torn_world (3, 1729) ''invalid'') 3 1729
      = (W', Inr (Generated (sv_sha (split_store sel) (sv_write_table (split_store sel) (written_table demo_grouped demo_processed sel)))
          (logical_assignment_hash (sv_sha (split_store sel)) (at_rows (written_table demo_grouped demo_processed sel)))))"
    using recompute_succeeds [OF ready demo_sound env(1) files env(4)] by blast
  ultimately have "generate_split (split_store sel) demo_split_config False torn_world 3 1729
      = (W', Inr (Generated (sv_sha (split_store sel) (sv_write_table (split_store sel) (written_table demo_grouped demo_processed sel)))
          (logical_assignment_hash (sv_sha (split_store sel)) (at_rows (written_table demo_grouped demo_processed sel)))))"
    using env by (simp add: generate_split_def)
  then show thesis by (rule that)
qed

text \<open>Claim C18. A directory that validates holds a leak-free split: its table assigns every row of the data set
  exactly once, rows with equal predictors are in one partition, every partition is the one the
  recomputed best selection gives the row, each has enough rows of every class, and the reported
  hash is the logical hash of the table.\<close>

theorem valid_split_sound:
  assumes "validate_split_directory E c ds seed dir = Inr r" and "(ds, seed) \<noteq> PROTECTED_DATASET_SEED"
  shows "\<exists>asg t d grouped sel. sd_assignments dir = Some asg \<and> sv_read_table E asg = Some t
    \<and> read_local_inputs E ds = Inr d \<and> grouped_inputs E d = Inr grouped
    \<and> select_fold_assignment (sv_params E) c seed grouped (pd_targets d) = Inr (Selected sel)
    \<and> distinct (map as_row (at_rows t)) \<and> set (map as_row (at_rows t)) = fst ` set (pd_targets d)
    \<and> expected_groups grouped (at_rows t) = Inr (map as_group (at_rows t))
    \<and> (\<forall>q1 \<in> set (at_rows t). \<forall>q2 \<in> set (at_rows t). as_group q1 = as_group q2 \<longrightarrow> as_partition q1 = as_partition q2)
    \<and> (\<forall>q \<in> set (at_rows t). map_of (fc_labels (sl_choice sel)) (as_row q) = Some (as_partition q))
    \<and> feasible c (sl_fold_by_row sel) (pd_targets d) (fc_calibration (sl_choice sel)) (fc_test (sl_choice sel))
    \<and> sr_logical_hash r = logical_assignment_hash (sv_sha E) (at_rows t) \<and> sr_assignment_hash r = sv_sha E asg"
proof -
  from assms obtain asg manifest where f: "sd_assignments dir = Some asg"
    and v: "validate_regular E c ds seed asg manifest = Inr r"
    by (auto simp: validate_split_directory_def split: option.splits)
  show ?thesis
  proof (rule validate_regular_Inr [OF v])
    fix m d grouped t sel
    assume d: "read_local_inputs E ds = Inr d" "grouped_inputs E d = Inr grouped" "sv_read_table E asg = Some t"
      and sel: "select_fold_assignment (sv_params E) c seed grouped (pd_targets d) = Inr (Selected sel)"
      and tg: "list_all (\<lambda>g. \<not> fst g) (split_table_guards c (pd_targets d) (expected_groups grouped (at_rows t)) t)"
      and fg: "list_all (\<lambda>g. \<not> fst g) (fold_guards sel m (at_rows t))"
      and cg: "list_all (\<lambda>g. \<not> fst g) (split_count_guards E c d m asg (at_rows t))"
      and r: "r = \<lparr>sr_status = ''PASS'', sr_dataset_id = ds, sr_seed = seed, sr_protected = False,
       sr_row_count = length (at_rows t), sr_counts = observed_counts (at_rows t),
       sr_class_counts = observed_class_counts (at_rows t) (pd_targets d), sr_crossing = 0,
       sr_assignment_hash = sm_assignment_hash m, sr_logical_hash = logical_assignment_hash (sv_sha E) (at_rows t)\<rparr>"
    let ?cal = "fc_calibration (sl_choice sel)" and ?tst = "fc_test (sl_choice sel)"
    from tg have rows: "distinct (map as_row (at_rows t))" "set (map as_row (at_rows t)) = set (map fst (pd_targets d))"
      "Inr (map as_group (at_rows t)) = expected_groups grouped (at_rows t)"
      unfolding split_table_guards_def Let_def list.pred_inject fst_conv not_not de_Morgan_disj by blast+
    from fg have folds: "map as_fold (at_rows t) = map (\<lambda>r. map_option int (map_of (sl_fold_by_row sel) (as_row r))) (at_rows t)"
      and part: "\<not> list_ex (\<lambda>r. map_of (map (\<lambda>(k, p). (Some (int k), p)) (fold_to_partition (sl_choice sel))) (as_fold r)
          \<noteq> Some (as_partition r)) (at_rows t)"
      and groups: "spread_keys as_group as_partition (at_rows t) = []"
      unfolding fold_guards_def Let_def list.pred_inject fst_conv not_not by blast+
    from cg have hash: "sv_sha E asg = sm_assignment_hash m"
      unfolding split_count_guards_def Let_def list.pred_inject fst_conv not_not by blast
    have label: "map_of (fc_labels (sl_choice sel)) (as_row q) = Some (as_partition q)" if q: "q \<in> set (at_rows t)" for q
    proof -
      from q rows(2) have mem: "as_row q \<in> fst ` set (pd_targets d)" by auto
      with selected_facts(6) [OF sel] obtain k where k: "map_of (sl_fold_by_row sel) (as_row q) = Some k"
        by (metis map_of_eq_None_iff not_None_eq set_map)
      from folds q k have "as_fold q = Some (int k)" by (auto simp: map_eq_conv)
      with part q have "map_of (map (\<lambda>(k, p). (Some (int k), p)) (fold_to_partition (sl_choice sel))) (Some (int k)) = Some (as_partition q)"
        by (auto simp: list_ex_iff)
      then have "as_partition q = fold_partition ?cal ?tst k" unfolding fold_table [OF sel] by (simp split: if_splits)
      with selected_label [OF sel mem] k show ?thesis by simp
    qed
    show ?thesis
    proof (intro exI conjI)
      show "set (map as_row (at_rows t)) = fst ` set (pd_targets d)" using rows(2) by simp
      show "expected_groups grouped (at_rows t) = Inr (map as_group (at_rows t))" using rows(3) by simp
      show "\<forall>q1 \<in> set (at_rows t). \<forall>q2 \<in> set (at_rows t). as_group q1 = as_group q2 \<longrightarrow> as_partition q1 = as_partition q2"
        using groups unfolding spread_keys_Nil .
      show "\<forall>q \<in> set (at_rows t). map_of (fc_labels (sl_choice sel)) (as_row q) = Some (as_partition q)" using label by blast
      show "sr_logical_hash r = logical_assignment_hash (sv_sha E) (at_rows t)" "sr_assignment_hash r = sv_sha E asg"
        using hash by (simp_all add: r)
    qed (fact f d sel rows(1) selected_facts(3) [OF sel])+
  qed
qed

theorem valid_split_sound_witness:
  "\<exists>sel dir r asg t. validate_split_directory (split_store sel) demo_split_config 3 1729 dir = Inr r
    \<and> sd_assignments dir = Some asg \<and> sv_read_table (split_store sel) asg = Some t
    \<and> set (map as_row (at_rows t)) = fst ` set demo_targets"
proof -
  obtain sel W' ah lh where g: "generate_split (split_store sel) demo_split_config False torn_world 3 1729 = (W', Inr (Generated ah lh))"
    by (rule demo_generated)
  from generate_split_recomputed [OF g] obtain dir r where v: "validate_split_directory (split_store sel) demo_split_config 3 1729 dir = Inr r"
    by (auto dest!: recompute_split_world(2))
  have d: "read_local_inputs (split_store sel) 3 = Inr d \<Longrightarrow> pd_targets d = demo_targets" for d
    using split_read [of sel] by (auto simp: demo_processed_def)
  have "(3, 1729) \<noteq> PROTECTED_DATASET_SEED" by (simp add: PROTECTED_DATASET_SEED_def)
  from valid_split_sound [OF v this] obtain asg t d where
    "sd_assignments dir = Some asg" "sv_read_table (split_store sel) asg = Some t" "read_local_inputs (split_store sel) 3 = Inr d"
    "set (map as_row (at_rows t)) = fst ` set (pd_targets d)" by blast
  with v d show ?thesis by metis
qed

section \<open>Generation\<close>

text \<open>Claim C11. Generation succeeds on a data set that is in order: when the inputs are read, their groups are
  derived and a pair of folds is selected, when no fold is empty and the two files are read back as
  they were written, a forced generation publishes the assignment of the selected folds and reports
  the hash of the file and the logical hash of its rows.\<close>

theorem generation_succeeds:
  assumes "ready_inputs E c ds seed d grouped sel" and "sound_env E" and "sv_commit E = Inr commit"
    and "files_read_back E (written_table grouped d sel) (written_manifest E c ds seed d grouped sel commit)"
    and "(ds, seed) \<noteq> PROTECTED_DATASET_SEED" and "ds \<in> set (sg_datasets c)" and "seed \<in> set (sg_seeds c)"
  shows "\<exists>W'. generate_split E c True W ds seed = (W', Inr (Generated (sv_sha E (sv_write_table E (written_table grouped d sel)))
      (logical_assignment_hash (sv_sha E) (at_rows (written_table grouped d sel)))))
    \<and> sw_splits W' (ds, seed) = Some \<lparr>sd_assignments = Some (sv_write_table E (written_table grouped d sel)),
        sd_manifest = Some (sv_write_manifest E (written_manifest E c ds seed d grouped sel commit))\<rparr>"
  using recompute_succeeds [OF assms(1-5), of W] assms(5-7) by (simp add: generate_split_def)

theorem generation_succeeds_witness:
  "\<exists>sel W' ah lh. generate_split (split_store sel) demo_split_config True torn_world 3 1729 = (W', Inr (Generated ah lh))
    \<and> sw_splits W' (3, 1729) = Some \<lparr>sd_assignments = Some ''table'', sd_manifest = Some ''manifest''\<rparr>"
proof -
  obtain sel where files: "files_read_back (split_store sel) (written_table demo_grouped demo_processed sel)
      (written_manifest (split_store sel) demo_split_config 3 1729 demo_processed demo_grouped sel ''commit'')"
    and ready: "ready_inputs (split_store sel) demo_split_config 3 1729 demo_processed demo_grouped sel"
    and env: "sv_commit (split_store sel) = Inr ''commit''" "3 \<in> set (sg_datasets demo_split_config)" "1729 \<in> set (sg_seeds demo_split_config)"
      "(3, 1729) \<noteq> PROTECTED_DATASET_SEED"
    and texts: "sv_write_table (split_store sel) = (\<lambda>t. ''table'')" "sv_write_manifest (split_store sel) = (\<lambda>m. ''manifest'')"
    by (rule demo_recomputed)
  from generation_succeeds [OF ready demo_sound env(1) files env(4,2,3), of torn_world] show ?thesis
    unfolding texts by blast
qed

text \<open>Claim C20. What generation leaves behind is valid: after a run that reports a generated split the published
  directory validates, its report has the reported file hash, and an unforced run then is a cache
  hit that changes nothing.\<close>

theorem generated_split_valid:
  assumes "generate_split E c force W ds seed = (W', Inr (Generated ah lh))"
  shows "\<exists>r. validate_split E c W' ds seed = Inr r \<and> sr_assignment_hash r = ah
    \<and> generate_split E c False W' ds seed = (W', Inr (CacheHit r))"
proof -
  from generate_split_recomputed [OF assms] obtain W0 where frame: "ds \<in> set (sg_datasets c)" "seed \<in> set (sg_seeds c)"
    "(ds, seed) \<noteq> PROTECTED_DATASET_SEED" and re: "recompute_split E c W0 ds seed = (W', Inr (Generated ah lh))" by blast
  from recompute_split_world(2) [OF re] obtain dir f r where d: "ah = sv_sha E f" "sw_splits W' (ds, seed) = Some dir"
    "sd_assignments dir = Some f" "validate_split_directory E c ds seed dir = Inr r" by auto
  then have v: "validate_split E c W' ds seed = Inr r" by (simp add: validate_split_def)
  with valid_directory_hash [OF d(4) frame(3) d(3)] d frame show ?thesis by (auto simp: generate_split_def)
qed

theorem generated_split_valid_witness:
  "\<exists>sel W' r. validate_split (split_store sel) demo_split_config W' 3 1729 = Inr r \<and> sr_dataset_id r = 3
    \<and> generate_split (split_store sel) demo_split_config False W' 3 1729 = (W', Inr (CacheHit r))"
proof -
  obtain sel W' ah lh where g: "generate_split (split_store sel) demo_split_config False torn_world 3 1729 = (W', Inr (Generated ah lh))"
    by (rule demo_generated)
  from generated_split_valid [OF g] obtain r where r: "validate_split (split_store sel) demo_split_config W' 3 1729 = Inr r"
    "generate_split (split_store sel) demo_split_config False W' 3 1729 = (W', Inr (CacheHit r))" by blast
  from validate_split_dataset [OF r(1)] have "sr_dataset_id r = 3" by (simp add: PROTECTED_DATASET_SEED_def)
  with r show ?thesis by blast
qed

text \<open>Claim C21. Generation touches one split, and nothing is lost: no other split changes, the protected one never
  does, a valid one only when forced, a directory that is replaced or rejected is in the quarantine,
  whose earlier entries stay, and a directory that is newly published has validated.\<close>

theorem generation_frame:
  assumes "generate_split E c force W ds seed = (W', out)"
  shows "(\<forall>k. k \<noteq> (ds, seed) \<longrightarrow> sw_splits W' k = sw_splits W k)
    \<and> ((ds, seed) = PROTECTED_DATASET_SEED \<longrightarrow> W' = W)
    \<and> (\<forall>r. \<not> force \<and> sw_splits W (ds, seed) \<noteq> None \<and> validate_split E c W ds seed = Inr r \<longrightarrow> W' = W)
    \<and> (\<exists>q. sw_quarantine W' = q @ sw_quarantine W
      \<and> (\<forall>dir. sw_splits W (ds, seed) = Some dir \<and> sw_splits W' (ds, seed) \<noteq> Some dir \<longrightarrow> dir \<in> snd ` set q))
    \<and> (\<forall>dir. sw_splits W' (ds, seed) = Some dir \<and> sw_splits W (ds, seed) \<noteq> Some dir
      \<longrightarrow> (\<exists>r. validate_split_directory E c ds seed dir = Inr r))"
  by (intro conjI generate_split_world [OF assms])

theorem generation_frame_witness:
  "\<exists>sel W' ah lh. generate_split (split_store sel) demo_split_config False torn_world 3 1729 = (W', Inr (Generated ah lh))
    \<and> \<lparr>sd_assignments = None, sd_manifest = Some ''torn''\<rparr> \<in> snd ` set (sw_quarantine W')"
proof -
  obtain sel W' ah lh where g: "generate_split (split_store sel) demo_split_config False torn_world 3 1729 = (W', Inr (Generated ah lh))"
    by (rule demo_generated)
  let ?torn = "\<lparr>sd_assignments = None, sd_manifest = Some ''torn''\<rparr>"
  have new: "sw_splits W' (3, 1729) \<noteq> Some ?torn"
    using generate_split_recomputed [OF g] by (auto dest!: recompute_split_world(2))
  have "sw_splits torn_world (3, 1729) = Some ?torn" "sw_quarantine torn_world = []" by (simp_all add: torn_world_def)
  with generation_frame [OF g] new have "?torn \<in> snd ` set (sw_quarantine W')" by auto
  with g show ?thesis by blast
qed

end
