(* ===== verification/Pilot_Contracts.thy ===== *)
theory Pilot_Contracts
  imports Splits Transform_Inventory Runner_Contracts
begin

text \<open>
  The contracts of \<open>src/schemaguard/experiments/pilot_contracts.py\<close>: the policies of the pilot, the
  data sets and models it selects, its conditions, their inventory, the staged schedule and the
  validation report. A field whose type is one literal is a constant of its JSON dump; a dictionary
  is an association list with distinct keys. The digest of texts, the text of a float and the
  rounding of a real number to the nearest double, and Python's (compensated) \<open>sum\<close> of floats
  are arguments; a literal of the code such as
  \<open>0.03\<close> is the rounding of that number.
\<close>

section \<open>The frozen vocabulary\<close>

record pilot_params =
  pp_sha :: "string \<Rightarrow> string"
  pp_frepr :: "py_float \<Rightarrow> string"
  pp_fl :: "rat \<Rightarrow> py_float"
  pp_sum :: "py_float list \<Rightarrow> py_float"

definition pp_float :: "pilot_params \<Rightarrow> py_float \<Rightarrow> json" where
  "pp_float P x = JFloat (pp_frepr P x)"

definition MODEL_ORDER :: "string list" where
  "MODEL_ORDER = [''LR-1.9'', ''CAT-1.2'', ''XGB-3.4'', ''TPFN3-8.5'', ''TICL2-2.2'']"

definition VIEW_ORDER :: "string list" where
  "VIEW_ORDER = [''V00'', ''V01'', ''V02'', ''V03'', ''V04'', ''V05'', ''V06'', ''V07'', ''V08'', ''V09'', ''V10'']"

definition SCHEMAORBIT_IDS :: "int list" where
  "SCHEMAORBIT_IDS = [3, 23, 29, 31, 36, 37, 38, 44, 46, 50, 54, 1067, 1464, 1489]"

definition PILOT_SEEDS :: "int list" where
  "PILOT_SEEDS = [1729, 2718, 31415]"

definition PILOT_OUTCOMES :: "string list" where
  "PILOT_OUTCOMES = [''ADVANCE_BROAD_METHOD'', ''ADVANCE_TFM_FOCUSED'', ''NARROW_CASE_STUDY'', ''STOP_OR_REDESIGN'',
     ''PARTIAL_CAPABILITY'', ''REPAIR_REQUIRED'']"

definition cpu_models :: "string list" where
  "cpu_models = [''LR-1.9'', ''CAT-1.2'', ''XGB-3.4'']"

definition cuda_models :: "string list" where
  "cuda_models = [''TPFN3-8.5'', ''TICL2-2.2'']"

definition device_of_model :: "string \<Rightarrow> string" where
  "device_of_model m = (if m \<in> set cuda_models then ''cuda'' else ''cpu'')"

text \<open>\<open>PurePosixPath(s).posix_text()\<close> of a relative path, and the check of a portable path.\<close>

fun join_with :: "char \<Rightarrow> string list \<Rightarrow> string" where
  "join_with c [] = []"
| "join_with c [p] = p"
| "join_with c (p # q # ps) = p @ c # join_with c (q # ps)"

definition posix_text :: "string \<Rightarrow> string" where
  "posix_text s = (case posix_parts s of [] \<Rightarrow> ''.'' | ps \<Rightarrow> join_with CHR ''/'' ps)"

definition relative_path_refused :: "string \<Rightarrow> bool" where
  "relative_path_refused s \<longleftrightarrow> s = [] \<or> posix_absolute s \<or> windows_absolute s \<or> ''..'' \<in> set (posix_parts s)
     \<or> CHR 0x5C \<in> set s \<or> posix_text s \<noteq> s"

definition validate_relative_path :: "string \<Rightarrow> string result" where
  "validate_relative_path s =
     (if relative_path_refused s then Inl (ValueError ''path must be a portable repository-relative path'') else Inr s)"

text \<open>Equality of dictionaries, which does not look at the order of the items.\<close>

definition dict_eq :: "('a \<times> 'b) list \<Rightarrow> ('a \<times> 'b) list \<Rightarrow> bool" where
  "dict_eq a b \<longleftrightarrow> set a = set b"

definition option_bad :: "('a \<Rightarrow> bool) \<Rightarrow> 'a option \<Rightarrow> bool" where
  "option_bad P x = (case x of None \<Rightarrow> False | Some y \<Rightarrow> \<not> P y)"

definition json_option :: "('a \<Rightarrow> json) \<Rightarrow> 'a option \<Rightarrow> json" where
  "json_option f x = (case x of None \<Rightarrow> JNull | Some y \<Rightarrow> f y)"

definition dict_json :: "('a \<Rightarrow> json) \<Rightarrow> (string \<times> 'a) list \<Rightarrow> json" where
  "dict_json f d = JObj (map (\<lambda>(k, v). (k, f v)) d)"

definition json_ints :: "int list \<Rightarrow> json" where
  "json_ints xs = JArr (map JInt xs)"

section \<open>Policies\<close>

record selection_policy =
  slp_max_rows :: int
  slp_max_features :: int
  slp_max_classes :: int
  slp_max_train_rows :: int
  slp_balanced_fraction :: py_float
  slp_categorical_fraction :: py_float
  slp_small_max_rows :: int
  slp_required_coverage :: "string list"
  slp_profile_fields :: "string list"

definition coverage_vocabulary :: "string list" where
  "coverage_vocabulary = [''numeric_only'', ''mixed_numeric_categorical'', ''substantial_categorical'', ''high_dimensional'',
     ''high_cardinality_categorical'', ''missing_values'', ''binary'', ''multiclass'', ''small'', ''medium'', ''balanced'',
     ''imbalanced'']"

definition profile_vocabulary :: "string list" where
  "profile_vocabulary = [''task_type'', ''schema_family'', ''size_band'', ''balance_band'']"

definition validate_selection_policy :: "selection_policy \<Rightarrow> selection_policy result" where
  "validate_selection_policy p = guards
     [(slp_max_rows p \<le> 0, ValueError ''max_rows''), (slp_max_features p \<le> 0, ValueError ''max_features''),
      (slp_max_classes p < 2, ValueError ''max_classes''),
      (slp_max_train_rows p \<le> 0, ValueError ''foundation_max_train_rows''),
      (\<not> (1 / 2 < slp_balanced_fraction p \<and> slp_balanced_fraction p < 1), ValueError ''balanced_max_class_fraction''),
      (\<not> (0 < slp_categorical_fraction p \<and> slp_categorical_fraction p \<le> 1),
        ValueError ''categorical_substantial_fraction''),
      (slp_small_max_rows p \<le> 0, ValueError ''small_dataset_max_rows''),
      (\<not> set (slp_required_coverage p) \<subseteq> set coverage_vocabulary, ValueError ''required_coverage''),
      (\<not> set (slp_profile_fields p) \<subseteq> set profile_vocabulary, ValueError ''duplicate_profile_fields''),
      (\<not> distinct (slp_required_coverage p), ValueError ''required coverage tags must be unique''),
      (slp_small_max_rows p \<ge> slp_max_rows p, ValueError ''small and maximum row limits must be distinct'')] p"

definition selection_policy_json :: "pilot_params \<Rightarrow> selection_policy \<Rightarrow> json" where
  "selection_policy_json P p = JObj [
     (''max_rows'', JInt (slp_max_rows p)), (''max_features'', JInt (slp_max_features p)),
     (''max_classes'', JInt (slp_max_classes p)), (''foundation_max_train_rows'', JInt (slp_max_train_rows p)),
     (''balanced_max_class_fraction'', pp_float P (slp_balanced_fraction p)),
     (''categorical_substantial_fraction'', pp_float P (slp_categorical_fraction p)),
     (''small_dataset_max_rows'', JInt (slp_small_max_rows p)),
     (''required_coverage'', json_strings (slp_required_coverage p)),
     (''duplicate_profile_fields'', json_strings (slp_profile_fields p)),
     (''tie_break'', JStr ''ascending_canonical_dataset_id''), (''outcomes_prohibited'', JBool True)]"

record auroc_policy =
  aup_tie_tolerance :: py_float
  aup_chunk_size :: int
  aup_tie_credit :: py_float
  aup_probability_max_abs_diff :: py_float
  aup_non_rank_metrics :: "string list"
  aup_auroc_atol :: py_float

definition validate_auroc_policy :: "pilot_params \<Rightarrow> auroc_policy \<Rightarrow> auroc_policy result" where
  "validate_auroc_policy P p = guards
     [(aup_tie_tolerance p \<le> 0, ValueError ''numerical_tie_tolerance''), (aup_chunk_size p \<le> 0, ValueError ''chunk_size''),
      (\<not> (0 \<le> aup_tie_credit p \<and> aup_tie_credit p \<le> 1), ValueError ''tie_credit''),
      (aup_probability_max_abs_diff p \<le> 0, ValueError ''tie_sensitivity_probability_max_abs_diff''),
      (\<not> set (aup_non_rank_metrics p) \<subseteq> {''brier'', ''log_loss''}, ValueError ''tie_sensitivity_non_rank_metrics''),
      (aup_auroc_atol p < 0, ValueError ''tie_sensitivity_tolerance_aware_auroc_atol''),
      (aup_tie_credit p \<noteq> 1 / 2, ValueError ''AUROC exact ties must receive half credit''),
      (aup_tie_tolerance p \<noteq> pp_fl P (1 / 10 ^ 15) \<or> aup_chunk_size p \<noteq> 256,
        ValueError ''AUROC tie tolerance and deterministic chunk size are frozen''),
      (aup_probability_max_abs_diff p \<noteq> pp_fl P (1 / 10 ^ 15),
        ValueError ''tie sensitivity probability threshold must be 1e-15''),
      (aup_non_rank_metrics p \<noteq> [''brier'', ''log_loss''],
        ValueError ''Brier and log loss are both required for tie sensitivity''),
      (aup_auroc_atol p \<noteq> pp_fl P (1 / 10 ^ 12),
        ValueError ''tolerance-aware AUROC comparison tolerance is frozen at 1e-12'')] p"

definition LABEL_EVENTS :: "string list" where
  "LABEL_EVENTS = [''plan_frozen'', ''test_labels_sealed'', ''training_completed'', ''calibration_predictions_completed'',
     ''test_predictions_completed'', ''prediction_structure_validated'', ''test_labels_opened'', ''metrics_generated'',
     ''results_sealed'']"

record leakage_policy =
  lkp_event_order :: "string list"
  lkp_must_not_influence :: "string list"

definition validate_leakage_policy :: "leakage_policy \<Rightarrow> leakage_policy result" where
  "validate_leakage_policy p = guards
     [(\<not> set (lkp_event_order p) \<subseteq> set LABEL_EVENTS, ValueError ''label_open_event_order''),
      (lkp_event_order p \<noteq> LABEL_EVENTS, ValueError ''label opening must follow prediction structural validation''),
      (\<not> distinct (lkp_must_not_influence p), ValueError ''prohibited label-influence decisions must be unique'')] p"

definition leakage_policy_json :: "leakage_policy \<Rightarrow> json" where
  "leakage_policy_json p = JObj [
     (''split_before_views'', JBool True), (''transformation_fit_partition'', JStr ''train''),
     (''preprocessing_fit_partition'', JStr ''train''), (''model_fit_partition'', JStr ''train''),
     (''calibration_use'', JStr ''predeclared_calibration_or_evaluation_only''),
     (''test_features'', JStr ''final_frozen_inference_only''),
     (''seal_test_labels_until_all_predictions_and_structure_valid'', JBool True),
     (''stable_row_id_alignment_required'', JBool True),
     (''label_open_event_order'', json_strings (lkp_event_order p)),
     (''labels_must_not_influence'', json_strings (lkp_must_not_influence p))]"

record decision_policy =
  dcp_foundation_ids :: "string list"
  dcp_absolute_wbd :: py_float
  dcp_relative_wbd :: py_float
  dcp_completion_rate :: py_float
  dcp_breadth_datasets :: int
  dcp_families :: int
  dcp_seed_directions :: int
  dcp_seed_count :: int
  dcp_outcomes :: "string list"

definition validate_decision_policy :: "pilot_params \<Rightarrow> decision_policy \<Rightarrow> decision_policy result" where
  "validate_decision_policy P p = guards
     [(\<not> set (dcp_foundation_ids p) \<subseteq> set cuda_models, ValueError ''foundation_model_ids''),
      (dcp_absolute_wbd p < 0 \<or> dcp_relative_wbd p < 0, ValueError ''nontrivial_wbd''),
      (\<not> (0 < dcp_completion_rate p \<and> dcp_completion_rate p \<le> 1),
        ValueError ''minimum_transformed_condition_completion_rate''),
      (dcp_breadth_datasets p \<le> 0 \<or> dcp_families p \<le> 0 \<or> dcp_seed_directions p \<le> 0 \<or> dcp_seed_count p \<le> 0,
        ValueError ''required counts''),
      (\<not> set (dcp_outcomes p) \<subseteq> set PILOT_OUTCOMES, ValueError ''outcomes''),
      (dcp_outcomes p \<noteq> PILOT_OUTCOMES, ValueError ''pilot decision vocabulary is frozen''),
      (dcp_foundation_ids p \<noteq> cuda_models, ValueError ''the two frozen foundation models define the primary effect gate''),
      (dcp_seed_directions p > dcp_seed_count p, ValueError ''breadth direction requirement exceeds the seed count''),
      (dcp_completion_rate p \<noteq> pp_fl P (95 / 100),
        ValueError ''at least 95% of applicable transformed conditions must complete''),
      (dcp_absolute_wbd p \<noteq> pp_fl P (3 / 100) \<or> dcp_relative_wbd p \<noteq> pp_fl P (1 / 10) \<or> dcp_breadth_datasets p \<noteq> 3
         \<or> dcp_families p \<noteq> 2 \<or> dcp_seed_directions p \<noteq> 2 \<or> dcp_seed_count p \<noteq> 3,
        ValueError ''pilot effect and breadth thresholds are frozen'')] p"

definition decision_policy_json :: "pilot_params \<Rightarrow> decision_policy \<Rightarrow> json" where
  "decision_policy_json P p = JObj [
     (''integrity_failure'', JStr ''REPAIR_REQUIRED''), (''foundation_model_ids'', json_strings (dcp_foundation_ids p)),
     (''nontrivial_absolute_wbd'', pp_float P (dcp_absolute_wbd p)),
     (''nontrivial_relative_wbd'', pp_float P (dcp_relative_wbd p)), (''require_all_v00_conditions'', JBool True),
     (''minimum_transformed_condition_completion_rate'', pp_float P (dcp_completion_rate p)),
     (''require_every_failure_classified'', JBool True), (''require_frozen_model_configuration'', JBool True),
     (''require_resume_cache_integrity'', JBool True), (''require_resource_ceilings'', JBool True),
     (''require_frozen_preprocessing_residual'', JBool True), (''exploratory_only'', JBool True),
     (''breadth_dataset_count'', JInt (dcp_breadth_datasets p)),
     (''required_transformation_families'', JInt (dcp_families p)),
     (''required_seed_direction_count'', JInt (dcp_seed_directions p)), (''required_seed_count'', JInt (dcp_seed_count p)),
     (''exclude_numerical_tie_only'', JBool True), (''outcomes'', json_strings (dcp_outcomes p))]"

text \<open>The staging policy consists of literals: contiguous pairs of whole data sets.\<close>

definition DATASETS_PER_STAGE :: nat where
  "DATASETS_PER_STAGE = 2"

definition STAGE_GROUPING :: string where
  "STAGE_GROUPING = ''contiguous_pairs_by_ascending_dataset_id''"

definition staging_policy_json :: json where
  "staging_policy_json = JObj [(''stage_grouping'', JStr STAGE_GROUPING),
     (''datasets_per_stage'', JInt (int DATASETS_PER_STAGE)), (''stage_boundary'', JStr ''whole_dataset''),
     (''preserve_complete_condition_matrix'', JBool True)]"

record resource_policy =
  rsp_thread_environment :: "(string \<times> string) list"
  rsp_vram_ceiling_mib :: int
  rsp_ram_hard_limit_mib :: int
  rsp_timeout_seconds :: "(string \<times> int) list"
  rsp_preferred_wall_seconds :: int
  rsp_hard_wall_seconds :: int
  rsp_preferred_storage_bytes :: int
  rsp_artifact_overhead_bytes :: int
  rsp_bytes_per_row_class :: int
  rsp_bytes_per_row_id :: int
  rsp_per_row_overhead_bytes :: int
  rsp_safety_factor :: py_float
  rsp_coordination_seconds :: int

text \<open>\<open>cpu_workers\<close> is the literal 2.\<close>

definition CPU_WORKERS :: int where
  "CPU_WORKERS = 2"

definition validate_resource_policy :: "resource_policy \<Rightarrow> resource_policy result" where
  "validate_resource_policy p = guards
     [(list_ex (\<lambda>kv. snd kv \<noteq> ''2'') (rsp_thread_environment p), ValueError ''cpu_thread_environment''),
      (\<not> (0 < rsp_vram_ceiling_mib p \<and> rsp_vram_ceiling_mib p \<le> 3600), ValueError ''vram_ceiling_mib''),
      (list_ex (\<lambda>n. n \<le> 0) [rsp_ram_hard_limit_mib p, rsp_preferred_wall_seconds p, rsp_hard_wall_seconds p,
         rsp_preferred_storage_bytes p, rsp_artifact_overhead_bytes p, rsp_bytes_per_row_class p, rsp_bytes_per_row_id p,
         rsp_per_row_overhead_bytes p], ValueError ''positive limits''),
      (rsp_safety_factor p < 1, ValueError ''estimate_safety_factor''),
      (rsp_coordination_seconds p < 0, ValueError ''coordination_seconds''),
      (rsp_hard_wall_seconds p < rsp_preferred_wall_seconds p,
        ValueError ''hard runtime ceiling must not be below preferred target''),
      (set (map fst (rsp_thread_environment p)) \<noteq> expected_threads,
        ValueError ''all four controlled numerical thread variables are required''),
      (set (map fst (rsp_timeout_seconds p)) \<noteq> {''cpu_model_condition'', ''cuda_model_condition''},
        ValueError ''CPU and CUDA condition timeouts are required''),
      (list_ex (\<lambda>kv. snd kv \<le> 0) (rsp_timeout_seconds p), ValueError ''condition timeouts must be positive'')] p"

definition resource_policy_json :: "pilot_params \<Rightarrow> resource_policy \<Rightarrow> json" where
  "resource_policy_json P p = JObj [
     (''cpu_workers'', JInt CPU_WORKERS), (''gpu_workers'', JInt 1), (''cpu_threads_per_worker'', JInt 2),
     (''cpu_thread_environment'', dict_json JStr (rsp_thread_environment p)),
     (''foundation_models_sequential'', JBool True), (''vram_ceiling_mib'', JInt (rsp_vram_ceiling_mib p)),
     (''ram_hard_limit_mib'', JInt (rsp_ram_hard_limit_mib p)),
     (''timeout_seconds'', dict_json JInt (rsp_timeout_seconds p)),
     (''preferred_wall_seconds'', JInt (rsp_preferred_wall_seconds p)),
     (''hard_wall_seconds'', JInt (rsp_hard_wall_seconds p)),
     (''preferred_storage_bytes'', JInt (rsp_preferred_storage_bytes p)),
     (''prediction_artifact_overhead_bytes'', JInt (rsp_artifact_overhead_bytes p)),
     (''storage_bytes_per_row_class'', JInt (rsp_bytes_per_row_class p)),
     (''storage_bytes_per_row_id'', JInt (rsp_bytes_per_row_id p)),
     (''per_row_metadata_overhead_bytes'', JInt (rsp_per_row_overhead_bytes p)),
     (''estimate_safety_factor'', pp_float P (rsp_safety_factor p)),
     (''coordination_seconds'', JInt (rsp_coordination_seconds p)), (''no_silent_fallback'', JBool True),
     (''no_silent_precision_or_batch_change'', JBool True), (''offline_execution'', JBool True),
     (''atomic_incremental_publication'', JBool True), (''validated_resume'', JBool True),
     (''staging'', staging_policy_json)]"

record retry_policy =
  rtp_retryable :: "string list"
  rtp_non_retryable :: "string list"

definition RETRYABLE :: "string list" where
  "RETRYABLE = [''WORKER_CRASH'', ''TRANSIENT_IO'', ''TIMEOUT'']"

definition NON_RETRYABLE :: "string list" where
  "NON_RETRYABLE = [''GPU_OOM'', ''INVALID_PROBABILITY'', ''MISSING_ROW'', ''CHECKPOINT_FAILURE'', ''PACKAGE_OR_API_MISMATCH'',
     ''OFFLINE_NETWORK_ATTEMPT'', ''IDENTITY_MISMATCH'']"

definition validate_retry_policy :: "retry_policy \<Rightarrow> retry_policy result" where
  "validate_retry_policy p = guards
     [(\<not> set (rtp_retryable p) \<subseteq> set RETRYABLE, ValueError ''retryable_categories''),
      (\<not> set (rtp_non_retryable p) \<subseteq> set NON_RETRYABLE, ValueError ''non_retryable_categories''),
      (set (rtp_retryable p) \<inter> set (rtp_non_retryable p) \<noteq> {}, ValueError ''retry failure categories cannot overlap''),
      (rtp_retryable p = [] \<or> rtp_non_retryable p = [],
        ValueError ''retry and non-retryable failure categories must be explicit''),
      (rtp_retryable p \<noteq> RETRYABLE, ValueError ''retryable failure categories are frozen''),
      (rtp_non_retryable p \<noteq> NON_RETRYABLE, ValueError ''non-retryable failure categories are frozen'')] p"

definition retry_policy_json :: "retry_policy \<Rightarrow> json" where
  "retry_policy_json p = JObj [
     (''max_attempts_per_condition'', JInt 2), (''retryable_categories'', json_strings (rtp_retryable p)),
     (''non_retryable_categories'', json_strings (rtp_non_retryable p)), (''failed_artifact_cache_hit'', JBool False),
     (''partial_artifact_promotion'', JBool False), (''retry_identity_must_match'', JBool True),
     (''test_outcome_controls_retry'', JBool False)]"

section \<open>Data sets, seeds, views and models\<close>

record pilot_split =
  spi_seed :: int
  spi_assignment :: string
  spi_logical :: string
  spi_manifest :: string
  spi_crossing :: int
  spi_row_count :: int
  spi_partition_counts :: "(string \<times> int) list"

definition validate_pilot_split :: "pilot_split \<Rightarrow> pilot_split result" where
  "validate_pilot_split s = guards
     [(spi_seed s < 0, ValueError ''seed''),
      (\<not> list_all is_sha256 [spi_assignment s, spi_logical s, spi_manifest s], ValueError ''sha256''),
      (spi_crossing s \<noteq> 0, ValueError ''cross_partition_group_count''),
      (spi_row_count s \<le> 0, ValueError ''row_count''),
      (\<not> set (map fst (spi_partition_counts s)) \<subseteq> {''train'', ''calibration'', ''test''},
        ValueError ''partition_counts'')] s"

definition pilot_split_json :: "pilot_split \<Rightarrow> json" where
  "pilot_split_json s = JObj [
     (''seed'', JInt (spi_seed s)), (''strategy'', JStr ''stratified_group_5fold_v1''),
     (''assignment_sha256'', JStr (spi_assignment s)), (''logical_assignment_sha256'', JStr (spi_logical s)),
     (''manifest_sha256'', JStr (spi_manifest s)), (''cross_partition_group_count'', JInt (spi_crossing s)),
     (''row_count'', JInt (spi_row_count s)), (''partition_counts'', dict_json JInt (spi_partition_counts s))]"

definition dict_get :: "'b \<Rightarrow> ('a \<times> 'b) list \<Rightarrow> 'a \<Rightarrow> 'b" where
  "dict_get d m k = (case map_of m k of None \<Rightarrow> d | Some v \<Rightarrow> v)"

record pilot_dataset =
  pds_id :: int
  pds_version :: string
  pds_file_id :: int
  pds_name :: string
  pds_target :: string
  pds_task_type :: string
  pds_rows :: int
  pds_features :: int
  pds_numeric :: int
  pds_categorical :: int
  pds_classes :: int
  pds_distribution :: "(string \<times> int) list"
  pds_groups :: int
  pds_duplicate_groups :: int
  pds_license :: string
  pds_raw :: string
  pds_feature_sha :: string
  pds_target_sha :: string
  pds_quality_sha :: string
  pds_evidence_sha :: string
  pds_splits :: "pilot_split list"
  pds_tags :: "string list"
  pds_rationale :: string

definition task_type_of :: "int \<Rightarrow> string" where
  "task_type_of classes = (if classes = 2 then ''binary'' else ''multiclass'')"

definition split_covers :: "int \<Rightarrow> pilot_split \<Rightarrow> bool" where
  "split_covers rows s \<longleftrightarrow> sum_list (map snd (spi_partition_counts s)) = rows
     \<and> list_all (\<lambda>p. 0 < dict_get 0 (spi_partition_counts s) p) [''train'', ''calibration'', ''test'']
     \<and> spi_crossing s = 0"

definition validate_pilot_dataset :: "pilot_dataset \<Rightarrow> pilot_dataset result" where
  "validate_pilot_dataset d = bindr (validate_all validate_pilot_split (pds_splits d)) (\<lambda>_. guards
     [(pds_id d \<le> 0 \<or> pds_file_id d \<le> 0 \<or> pds_rows d \<le> 0 \<or> pds_features d \<le> 0, ValueError ''positive field''),
      (pds_numeric d < 0 \<or> pds_categorical d < 0 \<or> pds_duplicate_groups d < 0, ValueError ''nonnegative field''),
      (pds_task_type d \<notin> {''binary'', ''multiclass''}, ValueError ''task_type''),
      (pds_classes d < 2, ValueError ''class_count''), (pds_groups d < 1, ValueError ''predictor_group_count''),
      (\<not> list_all is_sha256 [pds_raw d, pds_feature_sha d, pds_target_sha d, pds_quality_sha d, pds_evidence_sha d],
        ValueError ''sha256''),
      (pds_numeric d + pds_categorical d \<noteq> pds_features d,
        ValueError ''feature-type counts must add up to the registered feature count''),
      (pds_task_type d \<noteq> task_type_of (pds_classes d), ValueError ''task type disagrees with class count''),
      (sum_list (map snd (pds_distribution d)) \<noteq> pds_rows d, ValueError ''class-distribution counts do not sum to rows''),
      (length (pds_splits d) \<noteq> 5, ValueError ''selection evidence must preserve all five accepted split identities''),
      (card (set (map spi_seed (pds_splits d))) \<noteq> 5, ValueError ''five split identities must use five distinct seeds''),
      (\<not> list_all (split_covers (pds_rows d)) (pds_splits d),
        ValueError ''split identities must cover rows with positive, disjoint partitions'')] d)"

definition pilot_dataset_json :: "pilot_dataset \<Rightarrow> json" where
  "pilot_dataset_json d = JObj [
     (''dataset_id'', JInt (pds_id d)), (''provider'', JStr ''openml''), (''provider_dataset_version'', JStr (pds_version d)),
     (''provider_file_id'', JInt (pds_file_id d)), (''dataset_name'', JStr (pds_name d)),
     (''target_column'', JStr (pds_target d)), (''task_type'', JStr (pds_task_type d)), (''row_count'', JInt (pds_rows d)),
     (''feature_count'', JInt (pds_features d)), (''numeric_feature_count'', JInt (pds_numeric d)),
     (''categorical_feature_count'', JInt (pds_categorical d)), (''class_count'', JInt (pds_classes d)),
     (''class_distribution'', dict_json JInt (pds_distribution d)), (''predictor_group_count'', JInt (pds_groups d)),
     (''duplicate_group_count'', JInt (pds_duplicate_groups d)), (''license'', JStr (pds_license d)),
     (''raw_source_sha256'', JStr (pds_raw d)), (''processed_feature_sha256'', JStr (pds_feature_sha d)),
     (''target_artifact_sha256'', JStr (pds_target_sha d)), (''quality_report_sha256'', JStr (pds_quality_sha d)),
     (''metadata_evidence_sha256'', JStr (pds_evidence_sha d)),
     (''five_split_identities'', JArr (map pilot_split_json (pds_splits d))),
     (''coverage_tags'', json_strings (pds_tags d)), (''selection_rationale'', JStr (pds_rationale d)),
     (''v00_model_compatibility'', JStr ''PASS_REGISTRY_CAPABILITY'')]"

record excluded_dataset =
  exd_id :: int
  exd_name :: string
  exd_reason :: string
  exd_competitor :: int
  exd_evidence_sha :: string

definition validate_excluded :: "excluded_dataset \<Rightarrow> excluded_dataset result" where
  "validate_excluded e = guards
     [(exd_id e \<le> 0, ValueError ''dataset_id''), (exd_competitor e \<le> 0, ValueError ''competing_selected_dataset_id''),
      (\<not> is_sha256 (exd_evidence_sha e), ValueError ''metadata_evidence_sha256'')] e"

definition excluded_json :: "excluded_dataset \<Rightarrow> json" where
  "excluded_json e = JObj [(''dataset_id'', JInt (exd_id e)), (''dataset_name'', JStr (exd_name e)), (''eligible'', JBool True),
     (''exclusion_reason'', JStr (exd_reason e)), (''competing_selected_dataset_id'', JInt (exd_competitor e)),
     (''metadata_evidence_sha256'', JStr (exd_evidence_sha e))]"

end
