(* ===== verification/Pilot_Selection.thy ===== *)
theory Pilot_Selection
  imports Pilot_Contracts
begin

text \<open>
  The choice of the pilot's data sets in \<open>src/schemaguard/experiments/pilot_planning.py\<close>:
  coverage tags, profiles and \<open>select_candidate_ids\<close>, which tries every cohort of eight
  candidates that contains the anchor.
\<close>

section \<open>Candidates\<close>

text \<open>A candidate is a dictionary; \<open>cnd_extra\<close> are its keys beyond the required fields.\<close>

record candidate_record =
  cnd_id :: int
  cnd_rows :: int
  cnd_features :: int
  cnd_numeric :: int
  cnd_categorical :: int
  cnd_classes :: int
  cnd_distribution :: "(string \<times> int) list"
  cnd_missing :: int
  cnd_duplicate_groups :: int
  cnd_tags :: "string list"
  cnd_valid :: bool
  cnd_seeds :: "int list"
  cnd_crossing :: int
  cnd_models :: "string list"
  cnd_extra :: "string list"

definition EXPECTED_SPLIT_SEEDS :: "int list" where
  "EXPECTED_SPLIT_SEEDS = [1729, 2718, 31415, 57721, 161803]"

definition ANCHOR_ID :: int where
  "ANCHOR_ID = 1464"

definition schema_family :: "int \<Rightarrow> int \<Rightarrow> string \<Rightarrow> string" where
  "schema_family numeric categorical mixed =
     (if categorical = 0 then ''numeric_only'' else if numeric = 0 then ''categorical_only'' else mixed)"

definition size_band :: "selection_policy \<Rightarrow> int \<Rightarrow> string" where
  "size_band p rows = (if rows \<le> slp_small_max_rows p then ''small'' else ''medium'')"

text \<open>\<open>max(counts.values()) / rows <= policy.balanced_max_class_fraction\<close>.\<close>

definition balance_band :: "pilot_params \<Rightarrow> selection_policy \<Rightarrow> (string \<times> int) list \<Rightarrow> int \<Rightarrow> string result" where
  "balance_band P p counts rows =
     (if counts = [] then Inl (ValueError ''max() iterable argument is empty'')
      else if rows = 0 then Inl (ZeroDivisionError ''division by zero'')
      else Inr (if pp_fl P (of_int (Max (set (map snd counts))) / of_int rows) \<le> slp_balanced_fraction p
        then ''balanced'' else ''imbalanced''))"

text \<open>\<open>_coverage_tags\<close>: the sorted set of the tags.\<close>

definition coverage_tags ::
  "pilot_params \<Rightarrow> selection_policy \<Rightarrow> int \<Rightarrow> int \<Rightarrow> int \<Rightarrow> int \<Rightarrow> int \<Rightarrow> (string \<times> int) list \<Rightarrow> int \<Rightarrow> string list result" where
  "coverage_tags P p rows features numeric categorical classes counts missing =
     (if features = 0 then Inl (ZeroDivisionError ''division by zero'')
      else let fraction = pp_fl P (of_int categorical / of_int features);
               substantial = fraction \<ge> slp_categorical_fraction p in
      bindr (balance_band P p counts rows) (\<lambda>balance. Inr (sorted_list_of_set (set
        ([schema_family numeric categorical ''mixed_numeric_categorical'', task_type_of classes, size_band p rows, balance]
         @ (if substantial then [''substantial_categorical''] else [])
         @ (if features \<ge> 50 \<and> substantial then [''high_cardinality_categorical''] else [])
         @ (if features \<ge> 50 then [''high_dimensional''] else [])
         @ (if missing > 0 then [''missing_values''] else []))))))"

definition duplicate_profile :: "pilot_params \<Rightarrow> selection_policy \<Rightarrow> candidate_record \<Rightarrow> string list result" where
  "duplicate_profile P p c = bindr (balance_band P p (cnd_distribution c) (cnd_rows c)) (\<lambda>balance.
     mapr (\<lambda>f. of_option (KeyError f) (map_of [(''task_type'', task_type_of (cnd_classes c)),
        (''schema_family'', schema_family (cnd_numeric c) (cnd_categorical c) ''mixed''),
        (''size_band'', size_band p (cnd_rows c)), (''balance_band'', balance)] f)) (slp_profile_fields p))"

section \<open>Scoring a cohort\<close>

type_synonym score = "int \<times> int \<times> int \<times> int"

definition required_covered :: "selection_policy \<Rightarrow> candidate_record list \<Rightarrow> int" where
  "required_covered p cs = int (card (\<Union> (set ` cnd_tags ` set cs) \<inter> set (slp_required_coverage p)))"

definition strata :: "candidate_record list \<Rightarrow> (string \<times> string) set" where
  "strata cs = set (map (\<lambda>c. (schema_family (cnd_numeric c) (cnd_categorical c) ''mixed'', task_type_of (cnd_classes c))) cs)"

text \<open>The sum of \<open>count - 1\<close> over the profiles that occur more than once.\<close>

definition profile_collisions :: "string list list \<Rightarrow> int" where
  "profile_collisions ps =
     sum_list (map (\<lambda>q. int (count_list ps q) - 1) (filter (\<lambda>q. 1 < count_list ps q) (remdups ps)))"

definition signatures :: "candidate_record list \<Rightarrow> (int \<times> int \<times> bool \<times> int) set" where
  "signatures cs = set (map (\<lambda>c. (cnd_features c, cnd_classes c, 0 < cnd_missing c, cnd_duplicate_groups c)) cs)"

definition cohort_score :: "pilot_params \<Rightarrow> selection_policy \<Rightarrow> candidate_record list \<Rightarrow> score result" where
  "cohort_score P p cs = bindr (mapr (duplicate_profile P p) cs) (\<lambda>profiles.
     Inr (required_covered p cs, int (card (strata cs)), - profile_collisions profiles, int (card (signatures cs))))"

section \<open>The search\<close>

text \<open>\<open>itertools.combinations\<close>.\<close>

fun combinations :: "'a list \<Rightarrow> nat \<Rightarrow> 'a list list" where
  "combinations xs 0 = [[]]"
| "combinations [] (Suc k) = []"
| "combinations (x # xs) (Suc k) = map ((#) x) (combinations xs k) @ combinations xs (Suc k)"

definition better :: "(score \<times> int list) option \<Rightarrow> score \<times> int list \<Rightarrow> (score \<times> int list) option" where
  "better best new = (case best of None \<Rightarrow> Some new
     | Some (s, ids) \<Rightarrow> if s < fst new \<or> (fst new = s \<and> snd new < ids) then Some new else best)"

definition cohort_entry ::
  "pilot_params \<Rightarrow> selection_policy \<Rightarrow> candidate_record list \<Rightarrow> (score \<times> int list) result" where
  "cohort_entry P p cs = bindr (cohort_score P p cs) (\<lambda>s. Inr (s, sort (map cnd_id cs)))"

definition candidate_ready :: "candidate_record \<Rightarrow> bool" where
  "candidate_ready c \<longleftrightarrow> cnd_valid c \<and> cnd_seeds c = EXPECTED_SPLIT_SEEDS \<and> cnd_crossing c = 0 \<and> cnd_models c = MODEL_ORDER"

definition candidate_guards :: "candidate_record list \<Rightarrow> (bool \<times> error) list" where
  "candidate_guards ordered = (let ids = map cnd_id ordered in
     [(length ids \<noteq> card (set ids), ValueError ''dataset candidate IDs must be unique''),
      (\<not> set ids \<subseteq> set SCHEMAORBIT_IDS, ValueError ''dataset selection includes an unregistered SchemaOrbit identifier''),
      (list_ex (\<lambda>c. cnd_extra c \<noteq> []) ordered,
        ValueError ''selection candidates must provide only registered metadata and eligibility evidence''),
      (\<not> list_all candidate_ready ordered, ValueError ''dataset lacks complete source, five grouped split, or V00 model evidence''),
      (ANCHOR_ID \<notin> set ids, ValueError ''protected anchor dataset 1464 is not an eligible candidate''),
      (length ordered < 8, ValueError ''too few datasets satisfy selection preconditions'')])"

definition cohorts :: "candidate_record list \<Rightarrow> candidate_record list list" where
  "cohorts ordered = map ((#) (hd (filter (\<lambda>c. cnd_id c = ANCHOR_ID) ordered)))
     (combinations (filter (\<lambda>c. cnd_id c \<noteq> ANCHOR_ID) ordered) 7)"

definition select_candidate_ids ::
  "pilot_params \<Rightarrow> candidate_record list \<Rightarrow> selection_policy \<Rightarrow> int list result" where
  "select_candidate_ids P candidates p = (let ordered = sort_key cnd_id candidates in
     bindr (guards (candidate_guards ordered) ordered) (\<lambda>ordered.
     bindr (mapr (cohort_entry P p) (cohorts ordered)) (\<lambda>entries.
     case foldl better None entries of
       None \<Rightarrow> Inl (ValueError ''no deterministic eight-dataset selection could be constructed'')
     | Some (_, ids) \<Rightarrow> Inr ids)))"

end
