(* ===== verification/Pilot_Inventory.thy ===== *)
theory Pilot_Inventory
  imports Pilot_Contracts
begin

text \<open>
  The artifacts of the pilot plan in \<open>src/schemaguard/experiments/pilot_contracts.py\<close>: seeds, views,
  models, the runtime estimate, the protocol, the planned conditions with their inventory, the
  staged schedule, and the reports of a validation.
\<close>

section \<open>Seeds, views, models and the runtime estimate\<close>

record seed_selection =
  pss_seeds :: "int list"
  pss_source_config :: string
  pss_split_identity :: string

definition validate_seed_selection :: "seed_selection \<Rightarrow> seed_selection result" where
  "validate_seed_selection s = guards
     [(length (pss_seeds s) \<noteq> 3, ValueError ''seeds''),
      (\<not> list_all is_sha256 [pss_source_config s, pss_split_identity s], ValueError ''sha256''),
      (pss_seeds s \<noteq> PILOT_SEEDS, ValueError ''pilot seeds must be the first three canonical split-generation seeds'')] s"

definition seed_selection_json :: "seed_selection \<Rightarrow> json" where
  "seed_selection_json s = JObj [(''schema_version'', JInt 1), (''seeds'', json_ints (pss_seeds s)),
     (''source_config_sha256'', JStr (pss_source_config s)), (''canonical_order_preserved'', JBool True),
     (''dataset_seed_count'', JInt 24), (''split_identity_sha256'', JStr (pss_split_identity s))]"

definition CERTIFICATE_TYPES :: "string list" where
  "CERTIFICATE_TYPES = [''BIJECTION'', ''PROJECTION'', ''PERMUTATION'', ''COMPOSITION'']"

record view_entry =
  pve_id :: string
  pve_name :: string
  pve_family :: string
  pve_type :: string
  pve_role :: string

definition validate_view_entry :: "view_entry \<Rightarrow> view_entry result" where
  "validate_view_entry v = guards
     [(pve_id v \<notin> set VIEW_ORDER, ValueError ''view_id''), (pve_type v \<notin> set CERTIFICATE_TYPES, ValueError ''certificate_type''),
      (pve_role v \<notin> {''CONTROL'', ''PRIMARY_MIGRATION''}, ValueError ''scientific_role'')] v"

definition view_entry_json :: "view_entry \<Rightarrow> json" where
  "view_entry_json v = JObj [(''view_id'', JStr (pve_id v)), (''view_name'', JStr (pve_name v)),
     (''transformation_family'', JStr (pve_family v)), (''certificate_type'', JStr (pve_type v)),
     (''scientific_role'', JStr (pve_role v))]"

record view_applicability =
  pva_dataset :: int
  pva_seed :: int
  pva_view :: string
  pva_name :: string
  pva_applicability :: string
  pva_reason_code :: "string option"
  pva_reason :: "string option"
  pva_record_sha :: string
  pva_config_sha :: string
  pva_implementation_sha :: string
  pva_type :: string
  pva_certificates :: "string list"
  pva_source_sha :: "string option"
  pva_target_sha :: string
  pva_rtol :: py_float
  pva_atol :: py_float
  pva_max_error :: "py_float option"

definition validate_view_applicability :: "view_applicability \<Rightarrow> view_applicability result" where
  "validate_view_applicability v = guards
     [(pva_dataset v \<le> 0, ValueError ''dataset_id''), (pva_seed v < 0, ValueError ''seed''),
      (pva_view v \<notin> set VIEW_ORDER, ValueError ''view_id''),
      (pva_applicability v \<notin> {''APPLICABLE'', ''NOT_APPLICABLE''}, ValueError ''applicability''),
      (\<not> list_all is_sha256 ([pva_record_sha v, pva_config_sha v, pva_implementation_sha v, pva_target_sha v] @ pva_certificates v),
        ValueError ''sha256''),
      (pva_type v \<notin> set CERTIFICATE_TYPES, ValueError ''certificate_type''),
      (option_bad is_sha256 (pva_source_sha v), ValueError ''source_feature_sha256''),
      (pva_rtol v < 0 \<or> pva_atol v < 0 \<or> negative_option (pva_max_error v), ValueError ''reconstruction''),
      (pva_view v = ''V00'' \<and> pva_applicability v \<noteq> ''APPLICABLE'', ValueError ''V00 identity view must be applicable''),
      (pva_applicability v = ''APPLICABLE'' \<and> (pva_reason v \<noteq> None \<or> pva_reason_code v \<noteq> None),
        ValueError ''applicable views cannot have exclusion reasons''),
      (pva_applicability v = ''APPLICABLE'' \<and> (length (pva_certificates v) \<noteq> 3 \<or> pva_source_sha v = None),
        ValueError ''applicable view requires three certificate identities and source hash''),
      (pva_applicability v = ''APPLICABLE'' \<and> pva_max_error v = None,
        ValueError ''applicable view must preserve reconstruction evidence''),
      (pva_applicability v \<noteq> ''APPLICABLE''
         \<and> (missing_text (pva_reason v) \<or> missing_text (pva_reason_code v) \<or> pva_certificates v \<noteq> []),
        ValueError ''not-applicable view requires a reason and no certificates'')] v"

definition view_applicability_json :: "pilot_params \<Rightarrow> view_applicability \<Rightarrow> json" where
  "view_applicability_json P v = JObj [
     (''dataset_id'', JInt (pva_dataset v)), (''seed'', JInt (pva_seed v)), (''view_id'', JStr (pva_view v)),
     (''view_name'', JStr (pva_name v)), (''applicability'', JStr (pva_applicability v)),
     (''reason_code'', json_option JStr (pva_reason_code v)), (''reason'', json_option JStr (pva_reason v)),
     (''transformation_inventory_record_sha256'', JStr (pva_record_sha v)),
     (''transformation_config_sha256'', JStr (pva_config_sha v)),
     (''transformation_implementation_sha256'', JStr (pva_implementation_sha v)), (''certificate_type'', JStr (pva_type v)),
     (''certificate_identities'', json_strings (pva_certificates v)),
     (''source_feature_sha256'', json_option JStr (pva_source_sha v)), (''target_artifact_sha256'', JStr (pva_target_sha v)),
     (''reconstruction_rtol'', pp_float P (pva_rtol v)), (''reconstruction_atol'', pp_float P (pva_atol v)),
     (''reconstruction_max_abs_error'', json_option (pp_float P) (pva_max_error v))]"

record model_entry =
  pme_id :: string
  pme_class :: string
  pme_package :: string
  pme_version :: string
  pme_preprocessing :: string
  pme_parameters :: "(string \<times> json) list"
  pme_config_sha :: string
  pme_preprocessing_sha :: string
  pme_checkpoint :: "string option"
  pme_checkpoint_sha :: "string option"
  pme_device :: string
  pme_precision :: string
  pme_batch :: string
  pme_evidence_sha :: string

definition validate_model_entry :: "model_entry \<Rightarrow> model_entry result" where
  "validate_model_entry m = guards
     [(pme_id m \<notin> set MODEL_ORDER, ValueError ''model_id''),
      (\<not> list_all is_sha256 [pme_config_sha m, pme_preprocessing_sha m, pme_evidence_sha m], ValueError ''sha256''),
      (option_bad is_sha256 (pme_checkpoint_sha m), ValueError ''checkpoint_sha256''),
      (pme_device m \<notin> {''cpu'', ''cuda''}, ValueError ''device'')] m"

definition model_entry_json :: "model_entry \<Rightarrow> json" where
  "model_entry_json m = JObj [
     (''model_id'', JStr (pme_id m)), (''model_class'', JStr (pme_class m)), (''package'', JStr (pme_package m)),
     (''version'', JStr (pme_version m)), (''preprocessing'', JStr (pme_preprocessing m)),
     (''parameters'', JObj (pme_parameters m)), (''model_config_sha256'', JStr (pme_config_sha m)),
     (''preprocessing_sha256'', JStr (pme_preprocessing_sha m)),
     (''checkpoint_identifier'', json_option JStr (pme_checkpoint m)),
     (''checkpoint_sha256'', json_option JStr (pme_checkpoint_sha m)), (''device'', JStr (pme_device m)),
     (''precision_policy'', JStr (pme_precision m)), (''batch_policy'', JStr (pme_batch m)),
     (''compatibility_evidence_sha256'', JStr (pme_evidence_sha m))]"

record runtime_estimate =
  rte_source_sha :: string
  rte_model_counts :: "(string \<times> int) list"
  rte_work :: "(int \<times> (string \<times> py_float) list) list"
  rte_storage :: "(int \<times> int) list"
  rte_cpu_seconds :: py_float
  rte_cuda_seconds :: py_float
  rte_wall_seconds :: py_float
  rte_prediction_bytes :: int
  rte_cache_bytes :: int
  rte_peak_ram :: py_float
  rte_peak_vram :: py_float
  rte_method :: string
  rte_preferred_wall :: bool
  rte_hard_wall :: bool
  rte_preferred_storage :: bool
  rte_staging_required :: bool

definition validate_runtime_estimate :: "runtime_estimate \<Rightarrow> runtime_estimate result" where
  "validate_runtime_estimate e = guards
     [(\<not> is_sha256 (rte_source_sha e), ValueError ''source_measurement_sha256''),
      (\<not> set (map fst (rte_model_counts e)) \<subseteq> set MODEL_ORDER, ValueError ''model_condition_counts''),
      (list_ex (\<lambda>w. \<not> set (map fst (snd w)) \<subseteq> {''cpu'', ''cuda''}) (rte_work e), ValueError ''work by dataset''),
      (list_ex (\<lambda>x. x < 0) [rte_cpu_seconds e, rte_cuda_seconds e, rte_wall_seconds e, rte_peak_ram e, rte_peak_vram e],
        ValueError ''nonnegative float''),
      (rte_prediction_bytes e < 0 \<or> rte_cache_bytes e < 0, ValueError ''nonnegative bytes''),
      (set (map fst (rte_work e)) \<noteq> set (map fst (rte_storage e)),
        ValueError ''runtime work and storage breakdowns must cover the same datasets''),
      (list_ex (\<lambda>w. set (map fst (snd w)) \<noteq> {''cpu'', ''cuda''} \<or> list_ex (\<lambda>kv. snd kv < 0) (snd w)) (rte_work e),
        ValueError ''dataset runtime breakdowns require finite nonnegative CPU/CUDA work''),
      (list_ex (\<lambda>kv. snd kv < 0) (rte_storage e), ValueError ''dataset storage estimates must be nonnegative''),
      (sum_list (map snd (rte_storage e)) \<noteq> rte_prediction_bytes e,
        ValueError ''dataset storage breakdown must sum to the total prediction estimate'')] e"

definition runtime_estimate_json :: "pilot_params \<Rightarrow> runtime_estimate \<Rightarrow> json" where
  "runtime_estimate_json P e = JObj [
     (''schema_version'', JInt 1), (''source_measurement_sha256'', JStr (rte_source_sha e)),
     (''model_condition_counts'', dict_json JInt (rte_model_counts e)),
     (''estimated_work_seconds_by_dataset'',
       dict_json (dict_json (pp_float P)) (map (\<lambda>(k, v). (show_int k, v)) (rte_work e))),
     (''estimated_prediction_storage_by_dataset_bytes'', dict_json JInt (map (\<lambda>(k, v). (show_int k, v)) (rte_storage e))),
     (''estimated_cpu_seconds'', pp_float P (rte_cpu_seconds e)), (''estimated_cuda_seconds'', pp_float P (rte_cuda_seconds e)),
     (''conservative_wall_seconds'', pp_float P (rte_wall_seconds e)),
     (''estimated_prediction_storage_bytes'', JInt (rte_prediction_bytes e)),
     (''estimated_cache_storage_bytes'', JInt (rte_cache_bytes e)), (''peak_ram_mib'', pp_float P (rte_peak_ram e)),
     (''peak_vram_mib'', pp_float P (rte_peak_vram e)), (''estimate_method'', JStr (rte_method e)),
     (''preferred_wall_limit_passed'', JBool (rte_preferred_wall e)), (''hard_wall_limit_passed'', JBool (rte_hard_wall e)),
     (''preferred_storage_limit_passed'', JBool (rte_preferred_storage e)),
     (''staged_schedule_required'', JBool (rte_staging_required e))]"

section \<open>The protocol\<close>

text \<open>The metric policy, of which no other part of the plan reads a field, is carried as its dump.\<close>

record protocol =
  ppa_sha :: string
  ppa_source_commit :: string
  ppa_source_hashes :: "(string \<times> string) list"
  ppa_selection_policy :: selection_policy
  ppa_selected :: "pilot_dataset list"
  ppa_excluded :: "excluded_dataset list"
  ppa_seed_selection :: seed_selection
  ppa_views :: "view_entry list"
  ppa_models :: "model_entry list"
  ppa_decisions :: "string list"
  ppa_metric_policy :: json
  ppa_leakage_policy :: leakage_policy
  ppa_decision_policy :: decision_policy
  ppa_resource_policy :: resource_policy
  ppa_retry_policy :: retry_policy
  ppa_estimate :: runtime_estimate
  ppa_inventory_sha :: "string option"
  ppa_summary :: "(string \<times> int) list"

definition PROTOCOL_ID :: string where
  "PROTOCOL_ID = ''schemaguard_representation_sensitivity_pilot''"

definition PROTOCOL_NAME :: string where
  "PROTOCOL_NAME = ''SchemaGuard Representation-Sensitivity Pilot''"

definition PROTOCOL_VERSION :: string where
  "PROTOCOL_VERSION = ''schema_guard_representation_sensitivity_v1''"

text \<open>The dump of a protocol without its own digest and without the digest of the inventory.\<close>

definition protocol_payload :: "pilot_params \<Rightarrow> protocol \<Rightarrow> json" where
  "protocol_payload P p = JObj [
     (''schema_version'', JInt 1), (''protocol_id'', JStr PROTOCOL_ID), (''protocol_name'', JStr PROTOCOL_NAME),
     (''protocol_version'', JStr PROTOCOL_VERSION), (''execution_authorized'', JBool False), (''offline'', JBool True),
     (''source_commit'', JStr (ppa_source_commit p)), (''source_hashes'', dict_json JStr (ppa_source_hashes p)),
     (''dataset_selection_policy'', selection_policy_json P (ppa_selection_policy p)),
     (''selected_datasets'', JArr (map pilot_dataset_json (ppa_selected p))),
     (''excluded_datasets'', JArr (map excluded_json (ppa_excluded p))),
     (''seed_selection'', seed_selection_json (ppa_seed_selection p)),
     (''view_registry'', JArr (map view_entry_json (ppa_views p))),
     (''model_matrix'', JArr (map model_entry_json (ppa_models p))),
     (''registry_parameter_decisions'', json_strings (ppa_decisions p)), (''metric_policy'', ppa_metric_policy p),
     (''leakage_policy'', leakage_policy_json (ppa_leakage_policy p)),
     (''decision_policy'', decision_policy_json P (ppa_decision_policy p)),
     (''resource_policy'', resource_policy_json P (ppa_resource_policy p)),
     (''retry_policy'', retry_policy_json (ppa_retry_policy p)),
     (''runtime_estimate'', runtime_estimate_json P (ppa_estimate p)), (''summary'', dict_json JInt (ppa_summary p))]"

definition REGISTRY_DECISIONS :: "string list" where
  "REGISTRY_DECISIONS = [''catboost_yaml_no_scalar'', ''tabicl_checkpoint_version_from_checkpoint_field'']"

definition protocol_parts :: "pilot_params \<Rightarrow> protocol \<Rightarrow> unit result" where
  "protocol_parts P p =
     bindr (validate_selection_policy (ppa_selection_policy p)) (\<lambda>_.
     bindr (validate_all validate_pilot_dataset (ppa_selected p)) (\<lambda>_.
     bindr (validate_all validate_excluded (ppa_excluded p)) (\<lambda>_.
     bindr (validate_seed_selection (ppa_seed_selection p)) (\<lambda>_.
     bindr (validate_all validate_view_entry (ppa_views p)) (\<lambda>_.
     bindr (validate_all validate_model_entry (ppa_models p)) (\<lambda>_.
     bindr (validate_leakage_policy (ppa_leakage_policy p)) (\<lambda>_.
     bindr (validate_decision_policy P (ppa_decision_policy p)) (\<lambda>_.
     bindr (validate_resource_policy (ppa_resource_policy p)) (\<lambda>_.
     bindr (validate_retry_policy (ppa_retry_policy p)) (\<lambda>_.
     bindr (validate_runtime_estimate (ppa_estimate p)) (\<lambda>_. Inr ())))))))))))"

definition protocol_guards :: "pilot_params \<Rightarrow> protocol \<Rightarrow> (bool \<times> error) list" where
  "protocol_guards P p = (let ids = map pds_id (ppa_selected p); excluded = map exd_id (ppa_excluded p) in
     [(\<not> is_sha256 (ppa_sha p) \<or> \<not> is_commit (ppa_source_commit p) \<or> option_bad is_sha256 (ppa_inventory_sha p)
         \<or> \<not> list_all is_sha256 (map snd (ppa_source_hashes p)), ValueError ''digest''),
      (\<not> set (ppa_decisions p) \<subseteq> set REGISTRY_DECISIONS, ValueError ''registry_parameter_decisions''),
      (length ids \<noteq> 8, ValueError ''pilot protocol must freeze exactly eight datasets''),
      (1464 \<notin> set ids \<or> ids \<noteq> sorted_list_of_set (set ids),
        ValueError ''selected datasets must uniquely include anchor 1464 in canonical order''),
      (length excluded \<noteq> 6, ValueError ''all six unselected registry datasets must be explained''),
      (excluded \<noteq> sorted_list_of_set (set excluded) \<or> set ids \<union> set excluded \<noteq> set SCHEMAORBIT_IDS
         \<or> set ids \<inter> set excluded \<noteq> {},
        ValueError ''selected and excluded IDs must partition the frozen SchemaOrbit-14 registry''),
      (\<not> set (slp_required_coverage (ppa_selection_policy p)) \<subseteq> \<Union> (set ` pds_tags ` set (ppa_selected p)),
        ValueError ''selected dataset cohort does not satisfy the frozen diversity coverage''),
      (pss_seeds (ppa_seed_selection p) \<noteq> PILOT_SEEDS, ValueError ''protocol must preserve the first three canonical seeds''),
      (length (pss_seeds (ppa_seed_selection p)) \<noteq> 3 \<or> length (ppa_views p) \<noteq> 11,
        ValueError ''protocol must freeze three seeds and all eleven views''),
      (map pve_id (ppa_views p) \<noteq> VIEW_ORDER, ValueError ''protocol must preserve all eleven registered view IDs in order''),
      (map pme_id (ppa_models p) \<noteq> MODEL_ORDER, ValueError ''protocol model matrix must retain canonical model order''),
      (set (map fst (rte_work (ppa_estimate p))) \<noteq> set ids,
        ValueError ''runtime work estimates must cover exactly the selected datasets''),
      (rte_staging_required (ppa_estimate p) \<noteq>
         (rte_wall_seconds (ppa_estimate p) > of_int (rsp_preferred_wall_seconds (ppa_resource_policy p))
          \<or> rte_cache_bytes (ppa_estimate p) > rsp_preferred_storage_bytes (ppa_resource_policy p)),
        ValueError ''staging requirement must follow the frozen runtime and storage limits''),
      (set (ppa_decisions p) \<noteq> set REGISTRY_DECISIONS,
        ValueError ''both documented frozen registry representation decisions are required''),
      (ppa_sha p \<noteq> sha256_canonical_json (pp_sha P) (protocol_payload P p), ValueError ''pilot protocol hash is not canonical''),
      (list_ex relative_path_refused (map fst (ppa_source_hashes p)),
        ValueError ''path must be a portable repository-relative path''),
      (ppa_source_hashes p = [], ValueError ''pilot protocol requires path-keyed source hashes'')])"

definition validate_protocol :: "pilot_params \<Rightarrow> protocol \<Rightarrow> protocol result" where
  "validate_protocol P p = bindr (protocol_parts P p) (\<lambda>_. guards (protocol_guards P p) p)"

section \<open>Conditions\<close>

record condition_identity =
  cic_protocol_version :: string
  cic_protocol_sha :: string
  cic_dataset :: int
  cic_raw :: string
  cic_feature_sha :: string
  cic_target_sha :: string
  cic_seed :: int
  cic_assignment :: string
  cic_logical :: string
  cic_view :: string
  cic_config_sha :: string
  cic_implementation_sha :: string
  cic_certificate_sha :: string
  cic_model :: string
  cic_package :: string
  cic_package_version :: string
  cic_model_config_sha :: string
  cic_parameters_sha :: string
  cic_preprocessing_sha :: string
  cic_checkpoint :: "string option"
  cic_checkpoint_sha :: "string option"
  cic_device :: string
  cic_precision_sha :: string
  cic_batch_sha :: string
  cic_lock_sha :: string
  cic_source_sha :: string
  cic_metric_sha :: string
  cic_tolerance_sha :: string

definition condition_hashes :: "condition_identity \<Rightarrow> string list" where
  "condition_hashes i = [cic_protocol_sha i, cic_raw i, cic_feature_sha i, cic_target_sha i, cic_assignment i, cic_logical i,
     cic_config_sha i, cic_implementation_sha i, cic_certificate_sha i, cic_model_config_sha i, cic_parameters_sha i,
     cic_preprocessing_sha i, cic_precision_sha i, cic_batch_sha i, cic_lock_sha i, cic_source_sha i, cic_metric_sha i,
     cic_tolerance_sha i]"

definition validate_condition_identity :: "condition_identity \<Rightarrow> condition_identity result" where
  "validate_condition_identity i = guards
     [(\<not> list_all is_sha256 (condition_hashes i), ValueError ''sha256''), (cic_dataset i \<le> 0, ValueError ''dataset_id''),
      (cic_seed i < 0, ValueError ''seed''), (cic_view i \<notin> set VIEW_ORDER, ValueError ''view_id''),
      (cic_model i \<notin> set MODEL_ORDER, ValueError ''model_id''),
      (option_bad is_sha256 (cic_checkpoint_sha i), ValueError ''checkpoint_sha256''),
      (cic_device i \<notin> {''cpu'', ''cuda''}, ValueError ''device_policy''),
      ((cic_checkpoint i = None) \<noteq> (cic_checkpoint_sha i = None),
        ValueError ''checkpoint identifier and hash must be present or absent together'')] i"

definition condition_json :: "condition_identity \<Rightarrow> json" where
  "condition_json i = JObj [
     (''schema_version'', JInt 1), (''artifact_kind'', JStr ''pilot_prediction''),
     (''protocol_version'', JStr (cic_protocol_version i)), (''pilot_protocol_sha256'', JStr (cic_protocol_sha i)),
     (''dataset_id'', JInt (cic_dataset i)), (''raw_source_sha256'', JStr (cic_raw i)),
     (''processed_feature_sha256'', JStr (cic_feature_sha i)), (''target_artifact_sha256'', JStr (cic_target_sha i)),
     (''split_strategy'', JStr ''stratified_group_5fold_v1''), (''seed'', JInt (cic_seed i)),
     (''split_assignment_sha256'', JStr (cic_assignment i)), (''split_logical_sha256'', JStr (cic_logical i)),
     (''view_id'', JStr (cic_view i)), (''transformation_config_sha256'', JStr (cic_config_sha i)),
     (''transformation_implementation_sha256'', JStr (cic_implementation_sha i)),
     (''certificate_identity_sha256'', JStr (cic_certificate_sha i)), (''model_id'', JStr (cic_model i)),
     (''package_name'', JStr (cic_package i)), (''package_version'', JStr (cic_package_version i)),
     (''model_config_sha256'', JStr (cic_model_config_sha i)), (''complete_parameters_sha256'', JStr (cic_parameters_sha i)),
     (''preprocessing_sha256'', JStr (cic_preprocessing_sha i)),
     (''checkpoint_identifier'', json_option JStr (cic_checkpoint i)),
     (''checkpoint_sha256'', json_option JStr (cic_checkpoint_sha i)), (''device_policy'', JStr (cic_device i)),
     (''precision_policy_sha256'', JStr (cic_precision_sha i)), (''batch_policy_sha256'', JStr (cic_batch_sha i)),
     (''dependency_lock_sha256'', JStr (cic_lock_sha i)), (''source_implementation_sha256'', JStr (cic_source_sha i)),
     (''metric_policy_sha256'', JStr (cic_metric_sha i)), (''numerical_tolerance_policy_sha256'', JStr (cic_tolerance_sha i)),
     (''offline_policy'', JBool True), (''schema_version_identity'', JInt 1)]"

definition canonical_identity_hash :: "pilot_params \<Rightarrow> condition_identity \<Rightarrow> string" where
  "canonical_identity_hash P i = sha256_canonical_json (pp_sha P) (condition_json i)"

record planned_condition =
  pcn_id :: string
  pcn_identity :: condition_identity
  pcn_dataset :: int
  pcn_seed :: int
  pcn_view :: string
  pcn_model :: string
  pcn_device :: string

definition validate_condition :: "pilot_params \<Rightarrow> planned_condition \<Rightarrow> planned_condition result" where
  "validate_condition P c = bindr (validate_condition_identity (pcn_identity c)) (\<lambda>_. guards
     [(\<not> is_sha256 (pcn_id c), ValueError ''condition_id''), (pcn_dataset c \<le> 0, ValueError ''dataset_id''),
      (pcn_seed c < 0, ValueError ''seed''), (pcn_view c \<notin> set VIEW_ORDER, ValueError ''view_id''),
      (pcn_model c \<notin> set MODEL_ORDER, ValueError ''model_id''), (pcn_device c \<notin> {''cpu'', ''cuda''}, ValueError ''device''),
      (cic_dataset (pcn_identity c) \<noteq> pcn_dataset c \<or> cic_seed (pcn_identity c) \<noteq> pcn_seed c
         \<or> cic_view (pcn_identity c) \<noteq> pcn_view c \<or> cic_model (pcn_identity c) \<noteq> pcn_model c
         \<or> cic_device (pcn_identity c) \<noteq> pcn_device c,
        ValueError ''condition fields disagree with their identity payload''),
      (pcn_id c \<noteq> sha256_canonical_json (pp_sha P) (condition_json (pcn_identity c)),
        ValueError ''condition identity does not match canonical payload'')] c)"

definition planned_condition_json :: "planned_condition \<Rightarrow> json" where
  "planned_condition_json c = JObj [(''condition_id'', JStr (pcn_id c)), (''identity'', condition_json (pcn_identity c)),
     (''dataset_id'', JInt (pcn_dataset c)), (''seed'', JInt (pcn_seed c)), (''view_id'', JStr (pcn_view c)),
     (''model_id'', JStr (pcn_model c)), (''device'', JStr (pcn_device c)), (''applicability'', JStr ''APPLICABLE'')]"

record not_applicable =
  nac_dataset :: int
  nac_seed :: int
  nac_view :: string
  nac_reason_code :: string
  nac_evidence_sha :: string
  nac_record_sha :: string

definition validate_not_applicable :: "not_applicable \<Rightarrow> not_applicable result" where
  "validate_not_applicable t = guards
     [(nac_dataset t \<le> 0, ValueError ''dataset_id''), (nac_seed t < 0, ValueError ''seed''),
      (nac_view t \<notin> set VIEW_ORDER, ValueError ''view_id''), (nac_reason_code t = [], ValueError ''reason_code''),
      (\<not> is_sha256 (nac_evidence_sha t) \<or> \<not> is_sha256 (nac_record_sha t), ValueError ''sha256'')] t"

definition not_applicable_json :: "not_applicable \<Rightarrow> json" where
  "not_applicable_json t = JObj [(''dataset_id'', JInt (nac_dataset t)), (''seed'', JInt (nac_seed t)),
     (''view_id'', JStr (nac_view t)), (''reason_code'', JStr (nac_reason_code t)),
     (''evidence_sha256'', JStr (nac_evidence_sha t)), (''transformation_inventory_record_sha256'', JStr (nac_record_sha t))]"

section \<open>The inventory of conditions\<close>

record pilot_inventory =
  pci_protocol_sha :: string
  pci_records :: "planned_condition list"
  pci_not_applicable :: "not_applicable list"
  pci_datasets :: "int list"
  pci_seeds :: "int list"
  pci_view_tuples :: int
  pci_applicable :: int
  pci_not_applicable_count :: int
  pci_conditions :: int
  pci_cpu :: int
  pci_cuda :: int
  pci_by_dataset :: "(string \<times> int) list"
  pci_by_seed :: "(string \<times> int) list"
  pci_by_view :: "(string \<times> int) list"
  pci_by_model :: "(string \<times> int) list"
  pci_source_hashes :: "(string \<times> string) list"
  pci_sha :: string

definition inventory_payload :: "pilot_inventory \<Rightarrow> json" where
  "inventory_payload i = JObj [
     (''schema_version'', JInt 1), (''protocol_sha256'', JStr (pci_protocol_sha i)),
     (''records'', JArr (map planned_condition_json (pci_records i))),
     (''not_applicable_views'', JArr (map not_applicable_json (pci_not_applicable i))),
     (''maximum_possible_view_tuples'', JInt 264), (''maximum_possible_model_conditions'', JInt 1320),
     (''selected_dataset_ids'', json_ints (pci_datasets i)), (''selected_seeds'', json_ints (pci_seeds i)),
     (''actual_view_tuple_count'', JInt (pci_view_tuples i)), (''applicable_view_tuple_count'', JInt (pci_applicable i)),
     (''not_applicable_view_count'', JInt (pci_not_applicable_count i)), (''actual_condition_count'', JInt (pci_conditions i)),
     (''cpu_condition_count'', JInt (pci_cpu i)), (''cuda_condition_count'', JInt (pci_cuda i)),
     (''counts_by_dataset'', dict_json JInt (pci_by_dataset i)), (''counts_by_seed'', dict_json JInt (pci_by_seed i)),
     (''counts_by_view'', dict_json JInt (pci_by_view i)), (''counts_by_model'', dict_json JInt (pci_by_model i)),
     (''source_hashes'', dict_json JStr (pci_source_hashes i))]"

definition condition_tuple :: "planned_condition \<Rightarrow> int \<times> int \<times> string" where
  "condition_tuple c = (pcn_dataset c, pcn_seed c, pcn_view c)"

definition not_applicable_tuple :: "not_applicable \<Rightarrow> int \<times> int \<times> string" where
  "not_applicable_tuple t = (nac_dataset t, nac_seed t, nac_view t)"

definition count_where :: "('a \<Rightarrow> bool) \<Rightarrow> 'a list \<Rightarrow> int" where
  "count_where p xs = int (length (filter p xs))"

text \<open>The models recorded for a tuple, and the counts the validator expects.\<close>

definition models_of_tuple :: "planned_condition list \<Rightarrow> int \<times> int \<times> string \<Rightarrow> string set" where
  "models_of_tuple cs t = pcn_model ` set (filter (\<lambda>c. condition_tuple c = t) cs)"

definition expected_v00 :: "int list \<Rightarrow> int list \<Rightarrow> (int \<times> int \<times> string) list" where
  "expected_v00 ds seeds = List.product ds (List.product seeds MODEL_ORDER)"

definition observed_v00 :: "planned_condition list \<Rightarrow> (int \<times> int \<times> string) list" where
  "observed_v00 cs = map (\<lambda>c. (pcn_dataset c, pcn_seed c, pcn_model c)) (filter (\<lambda>c. pcn_view c = ''V00'') cs)"

definition counts_by :: "('k \<Rightarrow> string) \<Rightarrow> ('a \<Rightarrow> 'k) \<Rightarrow> 'k list \<Rightarrow> 'a list \<Rightarrow> (string \<times> int) list" where
  "counts_by text key ks xs = map (\<lambda>k. (text k, count_where (\<lambda>x. key x = k) xs)) ks"

definition inventory_field_guards :: "pilot_inventory \<Rightarrow> (bool \<times> error) list" where
  "inventory_field_guards i =
     [(\<not> is_sha256 (pci_protocol_sha i) \<or> \<not> is_sha256 (pci_sha i) \<or> \<not> list_all is_sha256 (map snd (pci_source_hashes i)),
        ValueError ''sha256''),
      (length (pci_datasets i) \<noteq> 8, ValueError ''selected_dataset_ids''), (length (pci_seeds i) \<noteq> 3, ValueError ''selected_seeds''),
      (list_ex (\<lambda>n. n < 0 \<or> 264 < n) [pci_view_tuples i, pci_applicable i, pci_not_applicable_count i],
        ValueError ''view tuple count''),
      (list_ex (\<lambda>n. n < 0 \<or> 1320 < n) [pci_conditions i, pci_cpu i, pci_cuda i], ValueError ''condition count''),
      (\<not> set (map fst (pci_by_model i)) \<subseteq> set MODEL_ORDER, ValueError ''counts_by_model'')]"

definition inventory_count_guards :: "pilot_inventory \<Rightarrow> (bool \<times> error) list" where
  "inventory_count_guards i = (let cs = pci_records i in
     [(\<not> distinct (map pcn_id cs), ValueError ''condition identities must be unique''),
      (int (length cs) \<noteq> pci_conditions i, ValueError ''condition count disagrees with records''),
      (pci_cpu i + pci_cuda i \<noteq> pci_conditions i, ValueError ''CPU and CUDA counts must account for all conditions''),
      (count_where (\<lambda>c. pcn_device c = ''cpu'') cs \<noteq> pci_cpu i, ValueError ''CPU condition count is not derived from records''),
      (count_where (\<lambda>c. pcn_device c = ''cuda'') cs \<noteq> pci_cuda i, ValueError ''CUDA condition count is not derived from records''),
      (pci_datasets i \<noteq> sorted_list_of_set (set (pci_datasets i)), ValueError ''selected dataset IDs must be sorted and unique''),
      (pci_seeds i \<noteq> PILOT_SEEDS, ValueError ''inventory must use the first three canonical split-generation seeds''),
      (list_ex relative_path_refused (map fst (pci_source_hashes i)),
        ValueError ''path must be a portable repository-relative path''),
      (pci_source_hashes i = [], ValueError ''condition inventory requires path-keyed source hashes'')])"

definition inventory_matrix_guards :: "pilot_inventory \<Rightarrow> (bool \<times> error) list" where
  "inventory_matrix_guards i =
     (let cs = pci_records i; na = map not_applicable_tuple (pci_not_applicable i); tuples = set (map condition_tuple cs) in
     [(set (observed_v00 cs) \<noteq> set (expected_v00 (pci_datasets i) (pci_seeds i)),
        ValueError ''V00 must retain all five model conditions for every selected pair''),
      (\<not> distinct na, ValueError ''NOT_APPLICABLE view tuples must be unique''),
      (tuples \<inter> set na \<noteq> {}, ValueError ''a view tuple cannot be both applicable and not applicable''),
      (pci_view_tuples i \<noteq> int (length (pci_datasets i) * length (pci_seeds i) * 11),
        ValueError ''the complete dataset-seed-view matrix must be represented''),
      (int (card tuples) \<noteq> pci_applicable i, ValueError ''applicable view tuple count must be derived from conditions''),
      (list_ex (\<lambda>t. models_of_tuple cs t \<noteq> set MODEL_ORDER) (map condition_tuple cs),
        ValueError ''every applicable view tuple must retain all five model conditions''),
      (pci_view_tuples i \<noteq> pci_applicable i + pci_not_applicable_count i,
        ValueError ''view applicability totals do not reconcile''),
      (pci_not_applicable_count i \<noteq> int (length na),
        ValueError ''NOT_APPLICABLE count must be derived from reason-coded records'')])"

definition inventory_summary_guards :: "pilot_params \<Rightarrow> pilot_inventory \<Rightarrow> (bool \<times> error) list" where
  "inventory_summary_guards P i = (let cs = pci_records i in
     [(\<not> dict_eq (pci_by_dataset i) (counts_by show_int pcn_dataset (pci_datasets i) cs)
         \<or> \<not> dict_eq (pci_by_seed i) (counts_by show_int pcn_seed (pci_seeds i) cs)
         \<or> \<not> dict_eq (pci_by_view i) (counts_by id pcn_view VIEW_ORDER cs)
         \<or> \<not> dict_eq (pci_by_model i) (counts_by id pcn_model MODEL_ORDER cs),
        ValueError ''condition inventory summary counts are not derived from records''),
      (pci_sha i \<noteq> sha256_canonical_json (pp_sha P) (inventory_payload i),
        ValueError ''condition inventory checksum does not match its canonical payload'')])"

definition validate_pilot_inventory :: "pilot_params \<Rightarrow> pilot_inventory \<Rightarrow> pilot_inventory result" where
  "validate_pilot_inventory P i =
     bindr (validate_all (validate_condition P) (pci_records i)) (\<lambda>_.
     bindr (validate_all validate_not_applicable (pci_not_applicable i)) (\<lambda>_.
     guards (inventory_field_guards i @ inventory_count_guards i @ inventory_matrix_guards i
       @ inventory_summary_guards P i) i))"

end
