(* ===== verification/Pilot_Schedule.thy ===== *)
theory Pilot_Schedule
  imports Pilot_Inventory
begin

text \<open>
  The staged schedule of \<open>src/schemaguard/experiments/pilot_contracts.py\<close> and its construction in
  \<open>pilot_planning.py\<close> (\<open>build_staged_schedule\<close>, \<open>attach_inventory_hash\<close>), and the cross-check of a
  protocol with its inventory in \<open>pilot_validation.py\<close>.
\<close>

section \<open>Stages\<close>

record stage =
  pst_id :: string
  pst_datasets :: "int list"
  pst_conditions :: "string list"
  pst_model_counts :: "(string \<times> int) list"
  pst_cpu :: int
  pst_cuda :: int
  pst_cpu_seconds :: py_float
  pst_cuda_seconds :: py_float
  pst_wall_seconds :: py_float
  pst_prediction_bytes :: int
  pst_cache_bytes :: int

text \<open>The pattern \<open>^dataset_group_[0-9]+_[0-9]+$\<close>.\<close>

definition digits :: "string \<Rightarrow> bool" where
  "digits s \<longleftrightarrow> s \<noteq> [] \<and> list_all is_digit s"

definition stage_id_ok :: "string \<Rightarrow> bool" where
  "stage_id_ok s \<longleftrightarrow> take 14 s = ''dataset_group_''
     \<and> (case split_on CHR ''_'' (drop 14 s) of [a, b] \<Rightarrow> digits a \<and> digits b | _ \<Rightarrow> False)"

definition validate_stage :: "stage \<Rightarrow> stage result" where
  "validate_stage s = (let count = dict_get 0 (pst_model_counts s) in guards
     [(\<not> stage_id_ok (pst_id s), ValueError ''stage_id''), (length (pst_datasets s) \<noteq> 2, ValueError ''dataset_ids''),
      (pst_conditions s = [] \<or> \<not> list_all is_sha256 (pst_conditions s), ValueError ''condition_ids''),
      (pst_cpu s < 0 \<or> pst_cuda s < 0 \<or> pst_prediction_bytes s < 0 \<or> pst_cache_bytes s < 0, ValueError ''counts''),
      (pst_cpu_seconds s < 0 \<or> pst_cuda_seconds s < 0 \<or> pst_wall_seconds s < 0, ValueError ''estimates''),
      (pst_datasets s \<noteq> sorted_list_of_set (set (pst_datasets s)), ValueError ''stage dataset IDs must be ascending and unique''),
      (set (map fst (pst_model_counts s)) \<noteq> set MODEL_ORDER,
        ValueError ''stage must report counts for exactly the five frozen models''),
      (\<not> distinct (pst_conditions s), ValueError ''condition IDs must be unique within a stage''),
      (sum_list (map snd (pst_model_counts s)) \<noteq> int (length (pst_conditions s)),
        ValueError ''stage model counts must account for every condition identity''),
      (sum_list (map count cpu_models) \<noteq> pst_cpu s, ValueError ''stage CPU count disagrees with its model counts''),
      (sum_list (map count cuda_models) \<noteq> pst_cuda s, ValueError ''stage CUDA count disagrees with its model counts'')] s)"

definition stage_json :: "pilot_params \<Rightarrow> stage \<Rightarrow> json" where
  "stage_json P s = JObj [
     (''stage_id'', JStr (pst_id s)), (''dataset_ids'', json_ints (pst_datasets s)),
     (''condition_ids'', json_strings (pst_conditions s)), (''model_condition_counts'', dict_json JInt (pst_model_counts s)),
     (''cpu_condition_count'', JInt (pst_cpu s)), (''cuda_condition_count'', JInt (pst_cuda s)),
     (''estimated_cpu_seconds'', pp_float P (pst_cpu_seconds s)), (''estimated_cuda_seconds'', pp_float P (pst_cuda_seconds s)),
     (''conservative_wall_seconds'', pp_float P (pst_wall_seconds s)),
     (''estimated_prediction_storage_bytes'', JInt (pst_prediction_bytes s)),
     (''estimated_cache_storage_bytes'', JInt (pst_cache_bytes s))]"

section \<open>Schedules\<close>

record schedule =
  psc_sha :: string
  psc_protocol_sha :: string
  psc_inventory_sha :: string
  psc_datasets :: "int list"
  psc_stages :: "stage list"
  psc_conditions :: int
  psc_not_applicable :: int
  psc_wall_seconds :: py_float
  psc_hard_limit :: int
  psc_within_limit :: bool
  psc_prediction_bytes :: int
  psc_cache_bytes :: int

definition schedule_payload :: "pilot_params \<Rightarrow> schedule \<Rightarrow> json" where
  "schedule_payload P s = JObj [
     (''schema_version'', JInt 1), (''protocol_sha256'', JStr (psc_protocol_sha s)),
     (''inventory_sha256'', JStr (psc_inventory_sha s)), (''schedule_policy'', JStr STAGE_GROUPING),
     (''dataset_ids'', json_ints (psc_datasets s)), (''stages'', JArr (map (stage_json P) (psc_stages s))),
     (''total_condition_count'', JInt (psc_conditions s)), (''not_applicable_view_count'', JInt (psc_not_applicable s)),
     (''total_estimated_wall_seconds'', pp_float P (psc_wall_seconds s)), (''hard_wall_limit_seconds'', JInt (psc_hard_limit s)),
     (''all_stages_within_hard_wall_limit'', JBool (psc_within_limit s)),
     (''estimated_prediction_storage_bytes'', JInt (psc_prediction_bytes s)),
     (''estimated_cache_storage_bytes'', JInt (psc_cache_bytes s)), (''full_condition_matrix_preserved'', JBool True)]"

text \<open>\<open>xs[i : i + n] for i in range(0, len(xs), n)\<close>, for a positive n.\<close>

definition slices :: "nat \<Rightarrow> 'a list \<Rightarrow> 'a list list" where
  "slices n xs = map (\<lambda>i. take n (drop (i * n) xs)) [0..<(length xs + n - 1) div n]"

definition is_close :: "pilot_params \<Rightarrow> py_float \<Rightarrow> py_float \<Rightarrow> py_float \<Rightarrow> bool" where
  "is_close P a b tol \<longleftrightarrow> a = b \<or> pp_fl P \<bar>a - b\<bar> \<le> tol"

definition validate_schedule :: "pilot_params \<Rightarrow> schedule \<Rightarrow> schedule result" where
  "validate_schedule P s = bindr (validate_all validate_stage (psc_stages s)) (\<lambda>_.
     let stages = psc_stages s; ids = psc_datasets s; cids = concat (map pst_conditions stages) in guards
     [(\<not> list_all is_sha256 [psc_sha s, psc_protocol_sha s, psc_inventory_sha s], ValueError ''sha256''),
      (length ids \<noteq> 8, ValueError ''dataset_ids''), (stages = [], ValueError ''stages''),
      (psc_conditions s < 1, ValueError ''total_condition_count''),
      (psc_not_applicable s < 0 \<or> psc_wall_seconds s < 0 \<or> psc_prediction_bytes s < 0 \<or> psc_cache_bytes s < 0,
        ValueError ''nonnegative field''),
      (psc_hard_limit s \<le> 0, ValueError ''hard_wall_limit_seconds''),
      (ids \<noteq> sorted_list_of_set (set ids), ValueError ''schedule dataset IDs must be ascending and unique''),
      (concat (map pst_datasets stages) \<noteq> ids \<or> map pst_datasets stages \<noteq> slices 2 ids,
        ValueError ''stages must preserve contiguous canonical dataset pairs''),
      (int (length cids) \<noteq> psc_conditions s \<or> \<not> distinct cids,
        ValueError ''stages must account for every unique planned condition exactly once''),
      (sum_list (map pst_prediction_bytes stages) \<noteq> psc_prediction_bytes s,
        ValueError ''stage prediction storage must sum to the schedule total''),
      (sum_list (map pst_cache_bytes stages) \<noteq> psc_cache_bytes s,
        ValueError ''stage cache storage must sum to the schedule total''),
      (\<not> is_close P (pp_sum P (map pst_wall_seconds stages)) (psc_wall_seconds s) (pp_fl P (1 / 10 ^ 9)),
        ValueError ''stage wall times must sum to the schedule total''),
      (psc_within_limit s \<noteq> list_all (\<lambda>t. pst_wall_seconds t \<le> of_int (psc_hard_limit s)) stages,
        ValueError ''stage hard-limit status disagrees with the stage estimates''),
      (psc_sha s \<noteq> sha256_canonical_json (pp_sha P) (schedule_payload P s),
        ValueError ''staged schedule hash does not match its canonical payload'')] s)"

section \<open>Building the schedule\<close>

definition work_of :: "runtime_estimate \<Rightarrow> string \<Rightarrow> int \<Rightarrow> py_float result" where
  "work_of e device d = of_option (KeyError device) (Option.bind (map_of (rte_work e) d) (\<lambda>w. map_of w device))"

definition storage_of :: "runtime_estimate \<Rightarrow> int \<Rightarrow> int result" where
  "storage_of e d = of_option (KeyError (show_int d)) (map_of (rte_storage e) d)"

definition stage_name :: "int list \<Rightarrow> string" where
  "stage_name ids = ''dataset_group_'' @ join_with CHR ''_'' (map show_int ids)"

definition group_conditions :: "pilot_inventory \<Rightarrow> int list \<Rightarrow> planned_condition list" where
  "group_conditions i ids = concat (map (\<lambda>d. filter (\<lambda>c. pcn_dataset c = d) (pci_records i)) ids)"

definition build_stage :: "pilot_params \<Rightarrow> protocol \<Rightarrow> pilot_inventory \<Rightarrow> int list \<Rightarrow> stage result" where
  "build_stage P p i ids =
     (if length ids \<noteq> DATASETS_PER_STAGE then Inl (ValueError ''staged schedule dataset group is incomplete'')
      else let policy = ppa_resource_policy p; e = ppa_estimate p; cs = group_conditions i ids in
      bindr (mapr (work_of e ''cpu'') ids) (\<lambda>cpu. bindr (mapr (work_of e ''cuda'') ids) (\<lambda>cuda.
      bindr (mapr (storage_of e) ids) (\<lambda>storage.
      let cpu_work = pp_fl P (pp_sum P cpu * rsp_safety_factor policy);
          cuda_work = pp_fl P (pp_sum P cuda * rsp_safety_factor policy) in
      validate_stage
       \<lparr>pst_id = stage_name ids, pst_datasets = ids, pst_conditions = sort (map pcn_id cs),
        pst_model_counts = counts_by id pcn_model MODEL_ORDER cs,
        pst_cpu = count_where (\<lambda>c. pcn_device c = ''cpu'') cs, pst_cuda = count_where (\<lambda>c. pcn_device c = ''cuda'') cs,
        pst_cpu_seconds = cpu_work, pst_cuda_seconds = cuda_work,
        pst_wall_seconds = pp_fl P (max (pp_fl P (cpu_work / of_int CPU_WORKERS)) cuda_work
          + of_int (rsp_coordination_seconds policy)),
        pst_prediction_bytes = sum_list storage, pst_cache_bytes = sum_list storage * 2\<rparr>))))"

definition schedule_of :: "pilot_params \<Rightarrow> protocol \<Rightarrow> pilot_inventory \<Rightarrow> int list \<Rightarrow> stage list \<Rightarrow> schedule" where
  "schedule_of P p i ids stages = (let hard = rsp_hard_wall_seconds (ppa_resource_policy p);
     s = \<lparr>psc_sha = [], psc_protocol_sha = ppa_sha p, psc_inventory_sha = pci_sha i, psc_datasets = ids,
          psc_stages = stages, psc_conditions = pci_conditions i, psc_not_applicable = pci_not_applicable_count i,
          psc_wall_seconds = pp_sum P (map pst_wall_seconds stages), psc_hard_limit = hard,
          psc_within_limit = list_all (\<lambda>t. pst_wall_seconds t \<le> of_int hard) stages,
          psc_prediction_bytes = sum_list (map pst_prediction_bytes stages),
          psc_cache_bytes = sum_list (map pst_cache_bytes stages)\<rparr> in
     s\<lparr>psc_sha := sha256_canonical_json (pp_sha P) (schedule_payload P s)\<rparr>)"

definition build_staged_schedule :: "pilot_params \<Rightarrow> protocol \<Rightarrow> pilot_inventory \<Rightarrow> schedule result" where
  "build_staged_schedule P p i =
     (let ids = sort (map pds_id (ppa_selected p)) in
      if pci_protocol_sha i \<noteq> ppa_sha p
      then Inl (ValueError ''staged schedule protocol hash differs from condition inventory'')
      else if pci_datasets i \<noteq> ids
      then Inl (ValueError ''staged schedule dataset IDs differ from the frozen protocol'')
      else if set (map fst (rte_work (ppa_estimate p))) \<noteq> set ids
      then Inl (ValueError ''runtime estimate lacks a selected dataset work breakdown'')
      else case find (\<lambda>c. pcn_dataset c \<notin> set ids) (pci_records i) of
        Some c \<Rightarrow> Inl (KeyError (show_int (pcn_dataset c)))
      | None \<Rightarrow>
        bindr (mapr (build_stage P p i) (slices DATASETS_PER_STAGE ids)) (\<lambda>stages.
        let staged = concat (map pst_conditions stages) in
        if \<not> distinct staged \<or> set staged \<noteq> set (map pcn_id (pci_records i))
        then Inl (ValueError ''staged schedule must preserve every frozen condition exactly once'')
        else if list_ex (\<lambda>m. sum_list (map (\<lambda>s. dict_get 0 (pst_model_counts s) m) stages) \<noteq> dict_get 0 (pci_by_model i) m)
          MODEL_ORDER
        then Inl (ValueError ''staged schedule model counts differ from the frozen inventory'')
        else validate_schedule P (schedule_of P p i ids stages)))"

section \<open>Binding a protocol and its inventory\<close>

definition attach_inventory_hash :: "protocol \<Rightarrow> pilot_inventory \<Rightarrow> protocol result" where
  "attach_inventory_hash p i =
     (if pci_protocol_sha i \<noteq> ppa_sha p then Inl (ValueError ''condition inventory references a different pilot protocol'')
      else Inr (p\<lparr>ppa_inventory_sha := Some (pci_sha i)\<rparr>))"

text \<open>\<open>validate_protocol_artifacts\<close>, after the two files are parsed.\<close>

definition strict_contract :: "'a result \<Rightarrow> 'a result" where
  "strict_contract r = (case r of Inl _ \<Rightarrow> Inl (ValueError ''strict protocol contract validation failed'') | Inr x \<Rightarrow> Inr x)"

definition validate_protocol_artifacts ::
  "pilot_params \<Rightarrow> protocol \<Rightarrow> pilot_inventory \<Rightarrow> (protocol \<times> pilot_inventory) result" where
  "validate_protocol_artifacts P p i =
     bindr (strict_contract (validate_protocol P p)) (\<lambda>p. bindr (strict_contract (validate_pilot_inventory P i)) (\<lambda>i.
       if ppa_inventory_sha p \<noteq> Some (pci_sha i)
       then Inl (ValueError ''protocol does not bind the condition inventory hash'')
       else if ppa_sha p \<noteq> pci_protocol_sha i
       then Inl (ValueError ''condition inventory refers to a different protocol'')
       else if pss_seeds (ppa_seed_selection p) \<noteq> pci_seeds i then Inl (ValueError ''protocol seeds and inventory seeds differ'')
       else if map pds_id (ppa_selected p) \<noteq> pci_datasets i
       then Inl (ValueError ''protocol datasets and inventory datasets differ'')
       else case map_of (ppa_summary p) ''not_applicable_view_count'' of
         None \<Rightarrow> Inl (KeyError ''not_applicable_view_count'')
       | Some n \<Rightarrow> if n \<noteq> pci_not_applicable_count i
         then Inl (ValueError ''protocol and condition inventory applicability counts differ'') else Inr (p, i)))"

end
