(* ===== verification/Model_Registry.thy ===== *)
theory Model_Registry
  imports Transform_Inventory
begin

text \<open>
  \<open>src/schemaguard/models/registry.py\<close>, the frozen matrix of models and their parameters, and
  \<open>src/schemaguard/models/probability.py\<close> with its use in \<open>models/adapters/probability.py\<close>: the
  validation of a probability matrix and its reordering to the canonical class order. Parameters are
  JSON values; the rounding of a real number to the nearest double and numpy's sum of a row are
  arguments.
\<close>

section \<open>The registry\<close>

record model_spec =
  msp_id :: string
  msp_class_path :: string
  msp_package :: string
  msp_version :: string
  msp_checkpoint :: "string option"
  msp_parameters :: "(string \<times> json) list"

definition EXPECTED_MODELS :: "(string \<times> string \<times> string \<times> string \<times> string option) list" where
  "EXPECTED_MODELS = [
     (''LR-1.9'', ''scikit-learn'', ''1.9.1'', ''sklearn.linear_model.LogisticRegression'', None),
     (''CAT-1.2'', ''catboost'', ''1.2.10'', ''catboost.CatBoostClassifier'', None),
     (''XGB-3.4'', ''xgboost'', ''3.4.1'', ''xgboost.XGBClassifier'', None),
     (''TPFN3-8.5'', ''tabpfn'', ''8.5.0'', ''tabpfn.TabPFNClassifier'', Some ''tabpfn-v3-classifier-v3_default.ckpt''),
     (''TICL2-2.2'', ''tabicl'', ''2.2.0'', ''tabicl.TabICLClassifier'', Some ''tabicl-classifier-v2-20260212.ckpt'')]"

definition KNOWN_PARAMETERS :: "(string \<times> string list) list" where
  "KNOWN_PARAMETERS = [
     (''LR-1.9'', [''penalty'', ''C'', ''solver'', ''max_iter'', ''tol'', ''class_weight'', ''random_state'']),
     (''CAT-1.2'', [''iterations'', ''depth'', ''learning_rate'', ''l2_leaf_reg'', ''random_strength'', ''bootstrap_type'',
        ''loss_function'', ''task_type'', ''thread_count'', ''verbose'', ''allow_writing_files'', ''random_seed'']),
     (''XGB-3.4'', [''n_estimators'', ''max_depth'', ''learning_rate'', ''min_child_weight'', ''subsample'', ''colsample_bytree'',
        ''reg_lambda'', ''reg_alpha'', ''tree_method'', ''n_jobs'', ''verbosity'', ''random_state'']),
     (''TPFN3-8.5'', [''n_estimators'', ''auto_scale_n_estimators'', ''fit_mode'', ''memory_saving_mode'', ''n_preprocessing_jobs'',
        ''inference_precision'', ''ignore_pretraining_limits'', ''show_progress_bar'', ''random_state'', ''device'', ''model_path'']),
     (''TICL2-2.2'', [''checkpoint_version'', ''n_estimators'', ''batch_size'', ''kv_cache'', ''offload_mode'', ''use_amp'',
        ''feat_shuffle_method'', ''class_shuffle_method'', ''average_logits'', ''n_jobs'', ''random_state'', ''device'',
        ''model_path'', ''allow_auto_download''])]"

text \<open>The sections of the runtime configuration; a dictionary is an association list.\<close>

record runtime_config =
  rc_schema_version :: int
  rc_runtime :: "(string \<times> json) list"
  rc_execution :: "(string \<times> json) list"
  rc_timeouts :: "(string \<times> int) list"
  rc_fixtures :: "(string \<times> int) list"
  rc_tolerances :: "(string \<times> py_float) list"
  rc_models :: "model_spec list"

definition validate_runtime_config :: "runtime_config \<Rightarrow> runtime_config result" where
  "validate_runtime_config c = guards
     [(set (map fst (rc_runtime c)) \<noteq> {''python_major_minor'', ''conda_environment'', ''cpu_workers'', ''gpu_workers'', ''gpu_headroom_mib''},
        ValueError ''runtime keys''),
      (set (map fst (rc_execution c)) \<noteq> {''lazy_imports'', ''isolate_foundation_models'', ''release_between_probes'', ''network_default'',
         ''checkpoint_cache_lock''}, ValueError ''execution keys''),
      (set (map fst (rc_timeouts c)) \<noteq> {''import_seconds'', ''constructor_seconds'', ''checkpoint_seconds'', ''cpu_probe_seconds'',
         ''gpu_probe_seconds''}, ValueError ''timeouts keys''),
      (set (map fst (rc_fixtures c)) \<noteq> {''binary_train_rows'', ''binary_test_rows'', ''multiclass_train_rows'',
         ''multiclass_test_rows'', ''random_seed''}, ValueError ''fixtures keys''),
      (set (map fst (rc_tolerances c)) \<noteq> {''probability_sum_atol'', ''cpu_repeat_max_abs_diff'', ''gpu_repeat_max_abs_diff''},
        ValueError ''tolerances keys'')] c"

definition positive_int :: "json \<Rightarrow> bool" where
  "positive_int v \<longleftrightarrow> (case v of JInt i \<Rightarrow> 0 < i | JBool b \<Rightarrow> b | _ \<Rightarrow> False)"

definition is_one :: "json \<Rightarrow> bool" where
  "is_one v \<longleftrightarrow> (case v of JInt i \<Rightarrow> i = 1 | JBool b \<Rightarrow> b | _ \<Rightarrow> False)"

text \<open>\<open>load_runtime_config\<close> on the parsed file. The workers are integers when the last check compares them with 1.\<close>

definition load_runtime_config :: "runtime_config \<Rightarrow> runtime_config result" where
  "load_runtime_config c = bindr (validate_runtime_config c) (\<lambda>c. guards
     [(rc_schema_version c \<noteq> 1, ValueError ''Unsupported runtime configuration schema''),
      (list_ex (\<lambda>kv. snd kv \<le> 0) (rc_timeouts c), ValueError ''Timeout must be positive''),
      (\<not> list_all (\<lambda>k. positive_int (json_field k (rc_runtime c))) [''cpu_workers'', ''gpu_workers'', ''gpu_headroom_mib''],
        ValueError ''Invalid resource limit''),
      (\<not> is_one (json_field ''gpu_workers'' (rc_runtime c)), ValueError ''Phase 02A requires exactly one GPU worker'')] c)"

definition validate_registry :: "runtime_config \<Rightarrow> model_spec list result" where
  "validate_registry c = (let ids = map msp_id (rc_models c) in guards
     [(\<not> distinct ids, ValueError ''Duplicate model ID''),
      (map (\<lambda>m. (msp_id m, msp_package m, msp_version m, msp_class_path m, msp_checkpoint m)) (rc_models c) \<noteq> EXPECTED_MODELS,
        ValueError ''Frozen registry mismatch''),
      (ids \<noteq> map fst EXPECTED_MODELS, ValueError ''Model order is not deterministic'')] (rc_models c))"

section \<open>Parameters\<close>

definition resolve_catboost_loss :: "int \<Rightarrow> string result" where
  "resolve_catboost_loss classes =
     (if classes = 2 then Inr ''Logloss'' else if 3 \<le> classes then Inr ''MultiClass''
      else Inl (ValueError ''CatBoost requires at least two target classes''))"

text \<open>\<open>d[k] = v\<close>: an existing key keeps its place, a new one is appended.\<close>

fun dict_set :: "('k \<times> 'v) list \<Rightarrow> 'k \<Rightarrow> 'v \<Rightarrow> ('k \<times> 'v) list" where
  "dict_set [] k v = [(k, v)]"
| "dict_set ((j, w) # d) k v = (if j = k then (k, v) # d else (j, w) # dict_set d k v)"

definition foundation_models :: "string list" where
  "foundation_models = [''TPFN3-8.5'', ''TICL2-2.2'']"

definition seed_key :: "model_spec \<Rightarrow> string" where
  "seed_key m = (if msp_package m = ''scikit-learn'' then ''random_state''
     else if msp_package m = ''catboost'' then ''random_seed'' else ''random_state'')"

definition build_parameters :: "model_spec \<Rightarrow> int \<Rightarrow> string \<Rightarrow> int \<Rightarrow> (string \<times> json) list result" where
  "build_parameters m seed device classes =
     (let params = msp_parameters m in
      bindr (if msp_id m = ''CAT-1.2'' \<and> json_field ''loss_function'' params = JStr ''auto''
        then bindr (resolve_catboost_loss classes) (\<lambda>l. Inr (dict_set params ''loss_function'' (JStr l)))
        else Inr params) (\<lambda>params.
      let params = dict_set params (seed_key m) (JInt seed) in
      Inr (if msp_id m \<in> set foundation_models then dict_set params ''device'' (JStr device) else params)))"

text \<open>The signature of the installed constructor: its parameters, and whether it takes any keyword.\<close>

definition validate_constructor_parameters ::
  "string list \<times> bool \<Rightarrow> model_spec \<Rightarrow> (string \<times> json) list \<Rightarrow> unit result" where
  "validate_constructor_parameters signature m params =
     bindr (of_option (KeyError (msp_id m)) (map_of KNOWN_PARAMETERS (msp_id m))) (\<lambda>known. guards
     [(\<not> set (map fst params) \<subseteq> set known, ValueError ''constructor does not accept frozen parameters''),
      (\<not> snd signature \<and> \<not> set (map fst params) \<subseteq> set (fst signature), ValueError ''constructor does not expose parameters'')] ())"

section \<open>Probability matrices\<close>

text \<open>
  A matrix is the list of its rows, with its number of columns; an output of another dimension is
  \<open>None\<close>. Entries may be NaN or infinite.
\<close>

record prob_params =
  pb_fl :: "rat \<Rightarrow> py_float"
  pb_row_sum :: "py_float list \<Rightarrow> py_float"

type_synonym matrix = "nat \<times> float_value list list"

definition finite_rows :: "float_value list list \<Rightarrow> py_float list list option" where
  "finite_rows rows = those (map (\<lambda>r. those (map float_number r)) rows)"

definition reorder :: "'c list \<Rightarrow> 'c list \<Rightarrow> py_float list \<Rightarrow> py_float list" where
  "reorder classes canonical r = map (\<lambda>c. r ! index_of classes c) canonical"

definition row_error :: "prob_params \<Rightarrow> py_float list \<Rightarrow> py_float" where
  "row_error Q r = \<bar>pb_fl Q (pb_row_sum Q r - 1)\<bar>"

definition clip :: "py_float \<Rightarrow> py_float" where
  "clip x = min (max x 0) 1"

definition normalize_probability_matrix ::
  "prob_params \<Rightarrow> matrix option \<Rightarrow> 'c list \<Rightarrow> 'c list \<Rightarrow> nat option \<Rightarrow> py_float
   \<Rightarrow> (py_float list list \<times> 'c list \<times> py_float) result" where
  "normalize_probability_matrix Q probabilities classes canonical n_rows tol =
     (case probabilities of None \<Rightarrow> Inl (ValueError ''Probability output must be a two-dimensional matrix'')
      | Some (columns, rows) \<Rightarrow>
        if length classes \<noteq> columns then Inl (ValueError ''Probability column count does not match class order'')
        else if \<not> distinct classes then Inl (ValueError ''Duplicate class labels'')
        else if \<not> distinct canonical \<or> set classes \<noteq> set canonical then Inl (ValueError ''Missing or unexpected class label'')
        else if n_rows \<noteq> None \<and> n_rows \<noteq> Some (length rows) then Inl (ValueError ''Probability row count mismatch'')
        else case finite_rows rows of
          None \<Rightarrow> Inl (ValueError ''Probability output contains NaN or infinity'')
        | Some matrix \<Rightarrow>
          if list_ex (list_ex (\<lambda>x. x < - tol \<or> pb_fl Q (1 + tol) < x)) matrix then Inl (ValueError ''Probability outside [0, 1]'')
          else let normalized = map (reorder classes canonical) matrix;
                   max_error = Max (set (map (row_error Q) normalized) \<union> (if rows = [] then {0} else {})) in
          if max_error > tol then Inl (ValueError ''Probability rows do not sum to one'')
          else Inr (if list_ex (list_ex (\<lambda>x. x < 0 \<or> 1 < x)) normalized then map (map clip) normalized else normalized,
            canonical, max_error))"

text \<open>\<open>validate_repeated_predictions\<close> on two matrices with their shapes.\<close>

definition validate_repeated_predictions :: "prob_params \<Rightarrow> matrix \<Rightarrow> matrix \<Rightarrow> py_float \<Rightarrow> py_float result" where
  "validate_repeated_predictions Q a b limit =
     (if fst a \<noteq> fst b \<or> length (snd a) \<noteq> length (snd b) then Inl (ValueError ''Repeated prediction shapes differ'')
      else case (finite_rows (snd a), finite_rows (snd b)) of
        (Some x, Some y) \<Rightarrow>
          let d = Max (insert 0 (set (map2 (\<lambda>u v. \<bar>pb_fl Q (u - v)\<bar>) (concat x) (concat y)))) in
          if d > limit then Inl (ValueError ''Repeated predictions are non-deterministic'') else Inr d
      | _ \<Rightarrow> Inl (ValueError ''Repeated predictions are not finite''))"

text \<open>\<open>align_adapter_probabilities\<close>: the failure category comes from the words of the message.\<close>

datatype adapter_category = FAIL_CLASS_ORDER | FAIL_PROBABILITY

definition probability_category :: "string \<Rightarrow> adapter_category" where
  "probability_category message =
     (if list_ex (\<lambda>w. contains w (map lower_char message)) [''class'', ''label'', ''column''] then FAIL_CLASS_ORDER else FAIL_PROBABILITY)"

fun error_text :: "error \<Rightarrow> string" where
  "error_text (ValueError s) = s"
| "error_text (TypeError s) = s"
| "error_text (RuntimeError s) = s"
| "error_text (KeyError s) = s"
| "error_text (IndexError s) = s"
| "error_text (OSError s) = s"
| "error_text (CacheIntegrityError s) = s"
| "error_text (CacheLockTimeout s) = s"
| "error_text (DatabaseError s) = s"
| "error_text (StateIntegrityError s) = s"
| "error_text (InvalidStateTransition s) = s"
| "error_text (ZeroDivisionError s) = s"

definition align_adapter_probabilities ::
  "prob_params \<Rightarrow> matrix option \<Rightarrow> 'c list \<Rightarrow> 'c list \<Rightarrow> nat \<Rightarrow> py_float
   \<Rightarrow> (adapter_category \<times> string) + (py_float list list \<times> 'c list \<times> py_float)" where
  "align_adapter_probabilities Q probabilities classes canonical n_rows tol =
     (case normalize_probability_matrix Q probabilities classes canonical (Some n_rows) tol of
        Inl e \<Rightarrow> Inl (probability_category (error_text e), error_text e)
      | Inr (matrix, cs, err) \<Rightarrow>
          if length matrix \<noteq> n_rows \<or> list_ex (\<lambda>r. length r \<noteq> length canonical) matrix
          then Inl (FAIL_PROBABILITY, ''probability matrix shape does not match requested rows/classes'')
          else Inr (matrix, cs, err))"

end
