(* ===== verification/Pilot_Planning.thy ===== *)
theory Pilot_Planning
  imports Pilot_Selection Pilot_Schedule Model_Registry
begin

text \<open>
  The construction of the pilot plan in \<open>src/schemaguard/experiments/pilot_planning.py\<close>: the
  explanations of the data sets left out, the applicability of the views, the parameters of a
  model, the planned conditions, and the inventory of conditions. Reading and hashing the input
  files is not modelled: their digests are arguments.
\<close>

section \<open>Selected and excluded data sets\<close>

text \<open>The metadata of an eligible data set, as \<open>_load_dataset_candidates\<close> collects it.\<close>

record eligible =
  elg_data :: pilot_dataset
  elg_missing_cells :: int

definition elg_id :: "eligible \<Rightarrow> int" where
  "elg_id e = pds_id (elg_data e)"

definition find_eligible :: "eligible list \<Rightarrow> int \<Rightarrow> eligible option" where
  "find_eligible es d = find (\<lambda>e. elg_id e = d) es"

text \<open>The profile that the explanation of an excluded data set compares.\<close>

definition nearest_profile :: "pilot_params \<Rightarrow> selection_policy \<Rightarrow> pilot_dataset \<Rightarrow> string list result" where
  "nearest_profile P p d = bindr (balance_band P p (pds_distribution d) (pds_rows d)) (\<lambda>balance.
     Inr [task_type_of (pds_classes d), schema_family (pds_numeric d) (pds_categorical d) ''mixed'', size_band p (pds_rows d), balance])"

definition differences :: "string list \<Rightarrow> string list \<Rightarrow> nat" where
  "differences a b = length (filter (\<lambda>(x, y). x \<noteq> y) (zip a b))"

definition competitor ::
  "pilot_params \<Rightarrow> selection_policy \<Rightarrow> pilot_dataset \<Rightarrow> pilot_dataset list \<Rightarrow> pilot_dataset result" where
  "competitor P p x selected = bindr (nearest_profile P p x) (\<lambda>q.
     bindr (mapr (\<lambda>d. bindr (nearest_profile P p d) (\<lambda>r. Inr ((differences q r, pds_id d), d))) selected) (\<lambda>keyed.
     case keyed of [] \<Rightarrow> Inl (ValueError ''min() iterable argument is empty'') | k # ks \<Rightarrow> Inr (snd (min_by fst k ks))))"

definition exclusion_reason :: "int \<Rightarrow> string" where
  "exclusion_reason d = ''Valid registered candidate, but deterministic maximum-coverage selection favors complementary strata; nearest selected metadata profile is dataset ''
     @ show_int d @ ''. No outcome or transformation result was used.''"

definition rationale_of :: "eligible \<Rightarrow> string" where
  "rationale_of e =
     (if elg_id e = ANCHOR_ID
      then ''Protected SchemaGuard anchor; preserves the existing small numerical binary and grouped-split lineage without using smoke outcomes for selection.''
      else ''Selected by the metadata-only maximum-coverage objective; contributes ''
        @ concat (map (\<lambda>(i, t). (if i = 0 then t else '', '' @ t)) (enumerate 0 (pds_tags (elg_data e))))
        @ '' while minimizing duplicate task/schema/size/balance profiles.'')"

definition select_dataset :: "eligible list \<Rightarrow> int \<Rightarrow> pilot_dataset result" where
  "select_dataset es d = bindr (of_option (KeyError (show_int d)) (find_eligible es d)) (\<lambda>e.
     validate_pilot_dataset ((elg_data e)\<lparr>pds_rationale := rationale_of e\<rparr>))"

text \<open>
  The loop over the excluded data sets. Its record is built from the variable \<open>item\<close>, which the
  loop over the selected data sets left behind, so \<open>item\<close> is the metadata of the last selected one.
\<close>

definition excluded_record ::
  "pilot_params \<Rightarrow> selection_policy \<Rightarrow> eligible list \<Rightarrow> pilot_dataset list \<Rightarrow> eligible \<Rightarrow> int \<Rightarrow> excluded_dataset result" where
  "excluded_record P p es selected item d =
     bindr (of_option (ValueError ''BLOCKED: excluded dataset lacks complete metadata/split evidence'') (find_eligible es d)) (\<lambda>x.
     bindr (competitor P p (elg_data x) selected) (\<lambda>best.
     validate_excluded \<lparr>exd_id = d, exd_name = pds_name (elg_data item), exd_reason = exclusion_reason (pds_id best),
       exd_competitor = pds_id best, exd_evidence_sha = pds_evidence_sha (elg_data item)\<rparr>))"

definition excluded_ids :: "int list \<Rightarrow> int list" where
  "excluded_ids selected = sorted_list_of_set (set SCHEMAORBIT_IDS - set selected)"

definition plan_datasets ::
  "pilot_params \<Rightarrow> selection_policy \<Rightarrow> eligible list \<Rightarrow> int list \<Rightarrow> (pilot_dataset list \<times> excluded_dataset list) result" where
  "plan_datasets P p es selected_ids =
     (let tags = \<Union> (set (map (\<lambda>d. case find_eligible es d of None \<Rightarrow> {} | Some e \<Rightarrow> set (pds_tags (elg_data e))) selected_ids)) in
      if \<not> set selected_ids \<subseteq> set (map elg_id es) then Inl (KeyError ''dataset_id'')
      else if \<not> set (slp_required_coverage p) \<subseteq> tags then Inl (ValueError ''selected cohort fails required metadata coverage'')
      else bindr (mapr (select_dataset es) selected_ids) (\<lambda>selected.
      bindr (mapr (\<lambda>d. bindr (of_option (RuntimeError ''NameError: item'')
          (if selected_ids = [] then None else find_eligible es (last selected_ids)))
          (\<lambda>item. excluded_record P p es selected item d)) (excluded_ids (map pds_id selected))) (\<lambda>excluded.
      Inr (selected, excluded))))"

text \<open>The split identities of the pilot seeds.\<close>

definition selected_splits :: "pilot_dataset list \<Rightarrow> (int \<times> pilot_split) list" where
  "selected_splits ds = concat (map (\<lambda>d. map (Pair (pds_id d)) (filter (\<lambda>s. spi_seed s \<in> set PILOT_SEEDS) (pds_splits d))) ds)"

definition splits_json :: "pilot_dataset list \<Rightarrow> json" where
  "splits_json ds = JArr (map (\<lambda>(d, s). JObj [(''dataset_id'', JInt d), (''seed'', JInt (spi_seed s)),
     (''assignment_sha256'', JStr (spi_assignment s)), (''logical_assignment_sha256'', JStr (spi_logical s)),
     (''manifest_sha256'', JStr (spi_manifest s))]) (selected_splits ds))"

definition plan_seeds :: "pilot_params \<Rightarrow> int list \<Rightarrow> string \<Rightarrow> pilot_dataset list \<Rightarrow> seed_selection result" where
  "plan_seeds P configured source_config ds =
     (if take 3 configured \<noteq> PILOT_SEEDS then Inl (ValueError ''REPAIR_REQUIRED: canonical first three seeds changed'')
      else if length (selected_splits ds) \<noteq> 24
      then Inl (ValueError ''selected dataset-seed plan does not include 24 validated split identities'')
      else validate_seed_selection \<lparr>pss_seeds = take 3 configured, pss_source_config = source_config,
        pss_split_identity = sha256_canonical_json (pp_sha P) (splits_json ds)\<rparr>)"

section \<open>Applicability of the views\<close>

definition inventory_record_json :: "pilot_params \<Rightarrow> inventory_record \<Rightarrow> json" where
  "inventory_record_json P r = JObj [
     (''schema_version'', JInt (ir_schema_version r)), (''dataset_id'', JInt (ir_dataset_id r)), (''seed'', JInt (ir_seed r)), (''view_id'', JStr (ir_view_id r)),
     (''view_name'', JStr (ir_view_name r)), (''status'', JStr (ir_status r)),
     (''reason_code'', json_option JStr (ir_reason_code r)), (''reason'', json_option JStr (ir_reason r)),
     (''applicability'', JStr (ir_applicability r)), (''certificate_ids'', json_strings (ir_certificate_ids r)),
     (''source_hash'', json_option JStr (ir_source_hash r)), (''output_hash'', json_option JStr (ir_output_hash r)),
     (''reconstruction_max_abs_error'', json_option (pp_float P) (ir_max_abs_error r)),
     (''reconstruction_exact'', json_option JBool (ir_exact r)), (''deterministic'', json_option JBool (ir_deterministic r)),
     (''runtime_seconds'', pp_float P (ir_runtime_seconds r)), (''created_at'', JStr (ir_created_at r))]"

record view_evidence =
  vev_config_sha :: string
  vev_implementation_sha :: string
  vev_rtol :: py_float
  vev_atol :: py_float

definition find_record :: "inventory \<Rightarrow> int \<times> int \<times> string \<Rightarrow> inventory_record option" where
  "find_record source t = find (\<lambda>r. record_tuple r = t) (rev (in_records source))"

definition applicability_of ::
  "pilot_params \<Rightarrow> view_evidence \<Rightarrow> inventory \<Rightarrow> (int \<Rightarrow> string option) \<Rightarrow> int \<times> int \<times> string \<Rightarrow> view_applicability result" where
  "applicability_of P E source target_sha t = (case t of (d, seed, view_id) \<Rightarrow>
     bindr (of_option (KeyError view_id) (find_record source t)) (\<lambda>r.
     if ir_status r \<notin> {''PASS'', ''N/A''} then Inl (ValueError ''accepted transformation record is not PASS/N/A'')
     else let applicable = ir_status r = ''PASS'' in
     bindr (of_option (KeyError view_id) (map_of (map (\<lambda>v. (vs_id v, vs_type v)) VIEW_REGISTRY) view_id)) (\<lambda>cert_type.
     bindr (of_option (KeyError (show_int d)) (target_sha d)) (\<lambda>target.
     validate_view_applicability
      \<lparr>pva_dataset = d, pva_seed = seed, pva_view = view_id, pva_name = ir_view_name r,
       pva_applicability = (if applicable then ''APPLICABLE'' else ''NOT_APPLICABLE''),
       pva_reason_code = (if applicable then None else ir_reason_code r),
       pva_reason = (if applicable then None else ir_reason r),
       pva_record_sha = sha256_canonical_json (pp_sha P) (inventory_record_json P r),
       pva_config_sha = vev_config_sha E, pva_implementation_sha = vev_implementation_sha E, pva_type = cert_type,
       pva_certificates = ir_certificate_ids r, pva_source_sha = ir_source_hash r, pva_target_sha = target,
       pva_rtol = vev_rtol E, pva_atol = vev_atol E, pva_max_error = ir_max_abs_error r\<rparr>))))"

definition view_tuples :: "int list \<Rightarrow> int list \<Rightarrow> (int \<times> int \<times> string) list" where
  "view_tuples ds seeds = List.product ds (List.product seeds VIEW_ORDER)"

definition collect_view_applicability ::
  "pilot_params \<Rightarrow> view_evidence \<Rightarrow> inventory \<Rightarrow> (int \<Rightarrow> string option) \<Rightarrow> int list \<Rightarrow> int list \<Rightarrow> view_applicability list result" where
  "collect_view_applicability P E source target_sha ds seeds =
     bindr (guards
       [(in_status source \<noteq> ''PASS_PENDING_REVIEW'' \<or> in_expected_record_count source \<noteq> 770 \<or> in_fail_count source \<noteq> 0
           \<or> in_pass_count source \<noteq> 545 \<or> in_not_applicable_count source \<noteq> 225 \<or> in_property_example_count source \<noteq> 11000,
          ValueError ''accepted transformation inventory does not match frozen evidence''),
        (int (card (set (map record_tuple (in_records source)))) \<noteq> in_expected_record_count source,
          ValueError ''transformation inventory contains duplicate tuple identities''),
        (\<not> set (view_tuples ds seeds) \<subseteq> set (map record_tuple (in_records source)),
          ValueError ''selected dataset-seed-view tuples are missing from accepted evidence'')] ())
      (\<lambda>_. mapr (applicability_of P E source target_sha) (view_tuples ds seeds))"

section \<open>Conditions\<close>

definition effective_parameters :: "model_spec \<Rightarrow> int \<Rightarrow> int \<Rightarrow> (string \<times> json) list" where
  "effective_parameters m classes seed =
     (if msp_id m = ''CAT-1.2'' then dict_set (dict_set (msp_parameters m) ''loss_function''
         (JStr (if classes = 2 then ''Logloss'' else ''MultiClass''))) ''random_seed'' (JInt seed)
      else dict_set (msp_parameters m) ''random_state'' (JInt seed))"

text \<open>What the conditions of one plan share.\<close>

record plan_context =
  pct_protocol_sha :: string
  pct_protocol_version :: string
  pct_config_sha :: string
  pct_implementation_sha :: string
  pct_lock_sha :: string
  pct_source_sha :: string
  pct_metric_sha :: string
  pct_tolerance_sha :: string
  pct_models :: "model_entry list"
  pct_specs :: "model_spec list"
  pct_selected :: "pilot_dataset list"
  pct_views :: "view_applicability list"

text \<open>The dictionaries \<open>data_by_id\<close>, \<open>view_by_tuple\<close>, \<open>policies_by_model\<close> and \<open>model_specs_by_id\<close>: a later item replaces an earlier one.\<close>

definition by_key :: "('a \<Rightarrow> 'k) \<Rightarrow> 'a list \<Rightarrow> 'k \<Rightarrow> 'a option" where
  "by_key key xs k = find (\<lambda>x. key x = k) (rev xs)"

definition view_tuple :: "view_applicability \<Rightarrow> int \<times> int \<times> string" where
  "view_tuple v = (pva_dataset v, pva_seed v, pva_view v)"

definition condition_of ::
  "pilot_params \<Rightarrow> plan_context \<Rightarrow> pilot_dataset \<Rightarrow> pilot_split \<Rightarrow> int \<Rightarrow> view_applicability \<Rightarrow> model_entry \<Rightarrow> model_spec
   \<Rightarrow> condition_identity" where
  "condition_of P X d s seed v m spec = (let hash = \<lambda>j. sha256_canonical_json (pp_sha P) j in
     \<lparr>cic_protocol_version = pct_protocol_version X, cic_protocol_sha = pct_protocol_sha X, cic_dataset = pds_id d,
      cic_raw = pds_raw d, cic_feature_sha = pds_feature_sha d, cic_target_sha = pds_target_sha d, cic_seed = seed,
      cic_assignment = spi_assignment s, cic_logical = spi_logical s, cic_view = pva_view v,
      cic_config_sha = pct_config_sha X, cic_implementation_sha = pct_implementation_sha X,
      cic_certificate_sha = hash (json_strings (pva_certificates v)), cic_model = pme_id m, cic_package = pme_package m,
      cic_package_version = pme_version m, cic_model_config_sha = pme_config_sha m,
      cic_parameters_sha = hash (JObj (effective_parameters spec (pds_classes d) seed)),
      cic_preprocessing_sha = pme_preprocessing_sha m, cic_checkpoint = pme_checkpoint m,
      cic_checkpoint_sha = pme_checkpoint_sha m, cic_device = pme_device m, cic_precision_sha = hash (JStr (pme_precision m)),
      cic_batch_sha = hash (JStr (pme_batch m)), cic_lock_sha = pct_lock_sha X, cic_source_sha = pct_source_sha X,
      cic_metric_sha = pct_metric_sha X, cic_tolerance_sha = pct_tolerance_sha X\<rparr>)"

definition plan_condition ::
  "pilot_params \<Rightarrow> plan_context \<Rightarrow> pilot_dataset \<Rightarrow> pilot_split \<Rightarrow> int \<Rightarrow> view_applicability \<Rightarrow> string \<Rightarrow> planned_condition result" where
  "plan_condition P X d s seed v model_id =
     bindr (of_option (KeyError model_id) (by_key pme_id (pct_models X) model_id)) (\<lambda>m.
     bindr (of_option (KeyError model_id) (by_key msp_id (pct_specs X) model_id)) (\<lambda>spec.
     bindr (validate_condition_identity (condition_of P X d s seed v m spec)) (\<lambda>i.
     validate_condition P \<lparr>pcn_id = canonical_identity_hash P i, pcn_identity = i, pcn_dataset = pds_id d, pcn_seed = seed,
       pcn_view = pva_view v, pcn_model = model_id, pcn_device = pme_device m\<rparr>)))"

text \<open>One tuple of the loops: its five conditions, or the record that says why there are none.\<close>

definition plan_tuple ::
  "pilot_params \<Rightarrow> plan_context \<Rightarrow> int \<times> int \<times> string \<Rightarrow> (planned_condition list \<times> not_applicable list) result" where
  "plan_tuple P X t = (case t of (dataset_id, seed, view_id) \<Rightarrow>
     bindr (of_option (KeyError (show_int dataset_id)) (by_key pds_id (pct_selected X) dataset_id)) (\<lambda>d.
     bindr (of_option (RuntimeError ''StopIteration'') (find (\<lambda>s. spi_seed s = seed) (pds_splits d))) (\<lambda>s.
     bindr (of_option (KeyError view_id) (by_key view_tuple (pct_views X) t)) (\<lambda>v.
     if pva_applicability v = ''NOT_APPLICABLE'' then
       bindr (validate_not_applicable \<lparr>nac_dataset = dataset_id, nac_seed = seed, nac_view = view_id,
         nac_reason_code = (case pva_reason_code v of None \<Rightarrow> ''None'' | Some c \<Rightarrow> c),
         nac_evidence_sha = sha256_canonical_json (pp_sha P) (view_applicability_json P v),
         nac_record_sha = pva_record_sha v\<rparr>) (\<lambda>n. Inr ([], [n]))
     else bindr (mapr (plan_condition P X d s seed v) MODEL_ORDER) (\<lambda>cs. Inr (cs, []))))))"

definition condition_key :: "planned_condition \<Rightarrow> int \<times> int \<times> string \<times> nat" where
  "condition_key c = (pcn_dataset c, pcn_seed c, pcn_view c, index_of MODEL_ORDER (pcn_model c))"

definition plan_conditions ::
  "pilot_params \<Rightarrow> plan_context \<Rightarrow> int list \<Rightarrow> int list \<Rightarrow> (planned_condition list \<times> not_applicable list) result" where
  "plan_conditions P X ds seeds = bindr (mapr (plan_tuple P X) (view_tuples ds seeds)) (\<lambda>parts.
     Inr (sort_key condition_key (concat (map fst parts)), concat (map snd parts)))"

section \<open>The inventory\<close>

text \<open>A \<open>Counter\<close> over the texts of integers, in the order of the integers.\<close>

definition int_counter :: "int list \<Rightarrow> (string \<times> int) list" where
  "int_counter xs = map (\<lambda>k. (show_int k, count_where (\<lambda>x. x = k) xs)) (sorted_list_of_set (set xs))"

definition inventory_draft ::
  "string \<Rightarrow> (string \<times> string) list \<Rightarrow> int list \<Rightarrow> int list \<Rightarrow> view_applicability list \<Rightarrow> planned_condition list
   \<Rightarrow> not_applicable list \<Rightarrow> pilot_inventory" where
  "inventory_draft protocol_sha source_hashes ds seeds views cs na =
     (let count = \<lambda>status. count_where (\<lambda>v. pva_applicability v = status) views in
      \<lparr>pci_protocol_sha = protocol_sha, pci_records = cs, pci_not_applicable = na, pci_datasets = ds, pci_seeds = seeds,
       pci_view_tuples = int (length views), pci_applicable = count ''APPLICABLE'',
       pci_not_applicable_count = count ''NOT_APPLICABLE'', pci_conditions = int (length cs),
       pci_cpu = count_where (\<lambda>c. pcn_device c = ''cpu'') cs, pci_cuda = count_where (\<lambda>c. pcn_device c = ''cuda'') cs,
       pci_by_dataset = int_counter (map pcn_dataset cs), pci_by_seed = int_counter (map pcn_seed cs),
       pci_by_view = counts_by id pcn_view VIEW_ORDER cs, pci_by_model = counts_by id pcn_model MODEL_ORDER cs,
       pci_source_hashes = source_hashes, pci_sha = zero_hash\<rparr>)"

definition plan_inventory ::
  "pilot_params \<Rightarrow> plan_context \<Rightarrow> (string \<times> string) list \<Rightarrow> int list \<Rightarrow> int list \<Rightarrow> pilot_inventory result" where
  "plan_inventory P X source_hashes ds seeds =
     (if length (pct_views X) \<noteq> 264 then Inl (ValueError ''the complete 8 x 3 x 11 applicability matrix is not present'')
      else bindr (plan_conditions P X ds seeds) (\<lambda>(cs, na).
      let i = inventory_draft (pct_protocol_sha X) source_hashes ds seeds (pct_views X) cs na in
      validate_pilot_inventory P (i\<lparr>pci_sha := sha256_canonical_json (pp_sha P) (inventory_payload i)\<rparr>)))"

end
