(* ===== verification/Pilot_Facts.thy ===== *)
theory Pilot_Facts
  imports Pilot_Planning Split_Facts
begin

text \<open>
  Facts on the planned conditions: what a plan in order is, the conditions and the records of
  views that do not apply which it gives for every tuple, and the counts of the inventory.
\<close>

section \<open>A plan in order\<close>

definition planned_dataset :: "plan_context \<Rightarrow> int \<Rightarrow> pilot_dataset" where
  "planned_dataset X d = the (by_key pds_id (pct_selected X) d)"

definition planned_split :: "plan_context \<Rightarrow> int \<Rightarrow> int \<Rightarrow> pilot_split" where
  "planned_split X d seed = the (find (\<lambda>s. spi_seed s = seed) (pds_splits (planned_dataset X d)))"

definition planned_view :: "plan_context \<Rightarrow> int \<times> int \<times> string \<Rightarrow> view_applicability" where
  "planned_view X t = the (by_key view_tuple (pct_views X) t)"

definition planned_identity :: "pilot_params \<Rightarrow> plan_context \<Rightarrow> int \<times> int \<times> string \<Rightarrow> string \<Rightarrow> condition_identity" where
  "planned_identity P X t m = (case t of (d, seed, _) \<Rightarrow>
     condition_of P X (planned_dataset X d) (planned_split X d seed) seed (planned_view X t)
       (the (by_key pme_id (pct_models X) m)) (the (by_key msp_id (pct_specs X) m)))"

definition applicable :: "plan_context \<Rightarrow> int \<times> int \<times> string \<Rightarrow> bool" where
  "applicable X t \<longleftrightarrow> pva_applicability (planned_view X t) = ''APPLICABLE''"

definition planned_of :: "pilot_params \<Rightarrow> plan_context \<Rightarrow> int \<times> int \<times> string \<Rightarrow> string \<Rightarrow> planned_condition" where
  "planned_of P X t m = (case t of (d, seed, view_id) \<Rightarrow>
     \<lparr>pcn_id = canonical_identity_hash P (planned_identity P X t m), pcn_identity = planned_identity P X t m,
      pcn_dataset = d, pcn_seed = seed, pcn_view = view_id, pcn_model = m, pcn_device = device_of_model m\<rparr>)"

definition excused_of :: "pilot_params \<Rightarrow> plan_context \<Rightarrow> int \<times> int \<times> string \<Rightarrow> not_applicable" where
  "excused_of P X t = (case t of (d, seed, view_id) \<Rightarrow> let v = planned_view X t in
     \<lparr>nac_dataset = d, nac_seed = seed, nac_view = view_id, nac_reason_code = the (pva_reason_code v),
      nac_evidence_sha = sha256_canonical_json (pp_sha P) (view_applicability_json P v), nac_record_sha = pva_record_sha v\<rparr>)"

text \<open>The inputs the earlier steps of the plan have validated.\<close>

definition ready_dataset :: "pilot_dataset \<Rightarrow> bool" where
  "ready_dataset d \<longleftrightarrow> validate_pilot_dataset d = Inr d \<and> set PILOT_SEEDS \<subseteq> spi_seed ` set (pds_splits d)"

definition ready_model :: "model_entry \<Rightarrow> bool" where
  "ready_model m \<longleftrightarrow> validate_model_entry m = Inr m \<and> pme_device m = device_of_model (pme_id m)
     \<and> (pme_checkpoint m = None) = (pme_checkpoint_sha m = None)"

definition plan_ready :: "plan_context \<Rightarrow> int list \<Rightarrow> bool" where
  "plan_ready X ds \<longleftrightarrow> length ds = 8 \<and> ds = sorted_list_of_set (set ds) \<and> map pds_id (pct_selected X) = ds
     \<and> list_all ready_dataset (pct_selected X)
     \<and> map view_tuple (pct_views X) = view_tuples ds PILOT_SEEDS
     \<and> list_all (\<lambda>v. validate_view_applicability v = Inr v) (pct_views X)
     \<and> map pme_id (pct_models X) = MODEL_ORDER \<and> list_all ready_model (pct_models X)
     \<and> set MODEL_ORDER \<subseteq> msp_id ` set (pct_specs X)
     \<and> list_all is_sha256 [pct_protocol_sha X, pct_config_sha X, pct_implementation_sha X, pct_lock_sha X, pct_source_sha X,
         pct_metric_sha X, pct_tolerance_sha X]"

section \<open>Looking up by key\<close>

lemma find_SomeD: "find Q xs = Some x \<Longrightarrow> x \<in> set xs \<and> Q x"
  by (induction xs) (auto split: if_splits)

lemma by_key_Some: "by_key key xs k = Some x \<Longrightarrow> x \<in> set xs \<and> key x = k"
  by (auto simp: by_key_def dest: find_SomeD)

lemma by_key_ex: "k \<in> key ` set xs \<Longrightarrow> \<exists>x. by_key key xs k = Some x"
  by (auto simp: by_key_def find_None_iff image_iff simp flip: not_None_eq)

lemma find_ex: "k \<in> f ` set xs \<Longrightarrow> \<exists>x. find (\<lambda>x. f x = k) xs = Some x \<and> x \<in> set xs \<and> f x = k"
proof -
  assume "k \<in> f ` set xs"
  then obtain x where "find (\<lambda>x. f x = k) xs = Some x"
    by (cases "find (\<lambda>x. f x = k) xs") (auto simp: find_None_iff)
  then show ?thesis by (auto dest: find_SomeD)
qed

lemma by_key_the: "k \<in> key ` set xs \<Longrightarrow> by_key key xs k = Some (the (by_key key xs k))
    \<and> the (by_key key xs k) \<in> set xs \<and> key (the (by_key key xs k)) = k"
  using by_key_ex [of k key xs] by_key_Some [of key xs k] by auto

lemma by_key_distinct: "distinct (map key xs) \<Longrightarrow> x \<in> set xs \<Longrightarrow> by_key key xs (key x) = Some x"
  using by_key_the [of "key x" key xs] by (auto simp: distinct_map dest: inj_onD)

section \<open>The frozen vocabulary\<close>

lemma model_order_facts: "distinct MODEL_ORDER" "length MODEL_ORDER = 5"
  by (simp_all add: MODEL_ORDER_def)

lemma view_order_facts: "distinct VIEW_ORDER" "length VIEW_ORDER = 11" "''V00'' \<in> set VIEW_ORDER"
  by (simp_all add: VIEW_ORDER_def)

lemma pilot_seeds_facts: "distinct PILOT_SEEDS" "length PILOT_SEEDS = 3" "seed \<in> set PILOT_SEEDS \<Longrightarrow> 0 \<le> seed"
  by (auto simp: PILOT_SEEDS_def)

lemma device_of_model_cases: "device_of_model m = ''cpu'' \<or> device_of_model m = ''cuda''"
  by (simp add: device_of_model_def)

lemma distinct_view_tuples: "distinct ds \<Longrightarrow> distinct (view_tuples ds PILOT_SEEDS)"
  by (simp add: view_tuples_def distinct_product view_order_facts pilot_seeds_facts)

lemma mem_view_tuples:
  "(d, seed, v) \<in> set (view_tuples ds seeds) \<longleftrightarrow> d \<in> set ds \<and> seed \<in> set seeds \<and> v \<in> set VIEW_ORDER"
  by (auto simp: view_tuples_def)

lemma length_view_tuples: "length (view_tuples ds seeds) = length ds * length seeds * 11"
  by (simp add: view_tuples_def view_order_facts)

section \<open>One tuple\<close>

lemma ready_parts:
  assumes "plan_ready X ds"
  shows "length ds = 8" "ds = sorted_list_of_set (set ds)" "map pds_id (pct_selected X) = ds"
  "list_all ready_dataset (pct_selected X)" "map view_tuple (pct_views X) = view_tuples ds PILOT_SEEDS"
  "list_all (\<lambda>v. validate_view_applicability v = Inr v) (pct_views X)"
  "map pme_id (pct_models X) = MODEL_ORDER" "list_all ready_model (pct_models X)"
  "set MODEL_ORDER \<subseteq> msp_id ` set (pct_specs X)"
  "list_all is_sha256 [pct_protocol_sha X, pct_config_sha X, pct_implementation_sha X, pct_lock_sha X, pct_source_sha X,
     pct_metric_sha X, pct_tolerance_sha X]"
  using assms unfolding plan_ready_def by blast+

lemma ready_distinct: "plan_ready X ds \<Longrightarrow> distinct ds"
  by (metis ready_parts(2) distinct_sorted_list_of_set)

lemma ready_dataset_of:
  assumes R: "plan_ready X ds" and "d \<in> set ds"
  shows "by_key pds_id (pct_selected X) d = Some (planned_dataset X d)" "pds_id (planned_dataset X d) = d"
    "ready_dataset (planned_dataset X d)"
proof -
  have "set ds = pds_id ` set (pct_selected X)" by (metis ready_parts(3) [OF R] set_map)
  with assms have "d \<in> pds_id ` set (pct_selected X)" by simp
  from by_key_the [OF this] ready_parts(4) [OF R]
  show "by_key pds_id (pct_selected X) d = Some (planned_dataset X d)" "pds_id (planned_dataset X d) = d"
    "ready_dataset (planned_dataset X d)"
    by (auto simp: planned_dataset_def list_all_iff)
qed

lemma ready_split_of:
  assumes R: "plan_ready X ds" and "d \<in> set ds" and "seed \<in> set PILOT_SEEDS"
  shows "find (\<lambda>s. spi_seed s = seed) (pds_splits (planned_dataset X d)) = Some (planned_split X d seed)"
    "planned_split X d seed \<in> set (pds_splits (planned_dataset X d))"
proof -
  from ready_dataset_of(3) [OF R assms(2)] assms(3) have "seed \<in> spi_seed ` set (pds_splits (planned_dataset X d))"
    by (auto simp: ready_dataset_def)
  from find_ex [OF this]
  show "find (\<lambda>s. spi_seed s = seed) (pds_splits (planned_dataset X d)) = Some (planned_split X d seed)"
    "planned_split X d seed \<in> set (pds_splits (planned_dataset X d))"
    by (auto simp: planned_split_def)
qed

lemma ready_view_of:
  assumes R: "plan_ready X ds" and "t \<in> set (view_tuples ds PILOT_SEEDS)"
  shows "by_key view_tuple (pct_views X) t = Some (planned_view X t)" "view_tuple (planned_view X t) = t"
    "validate_view_applicability (planned_view X t) = Inr (planned_view X t)" "planned_view X t \<in> set (pct_views X)"
proof -
  have "set (view_tuples ds PILOT_SEEDS) = view_tuple ` set (pct_views X)" by (metis ready_parts(5) [OF R] set_map)
  with assms have "t \<in> view_tuple ` set (pct_views X)" by simp
  from by_key_the [OF this] ready_parts(6) [OF R]
  show "by_key view_tuple (pct_views X) t = Some (planned_view X t)" "view_tuple (planned_view X t) = t"
    "validate_view_applicability (planned_view X t) = Inr (planned_view X t)" "planned_view X t \<in> set (pct_views X)"
    by (auto simp: planned_view_def list_all_iff)
qed

lemma ready_model_of:
  assumes R: "plan_ready X ds" and "m \<in> set MODEL_ORDER"
  shows "by_key pme_id (pct_models X) m = Some (the (by_key pme_id (pct_models X) m))"
    "pme_id (the (by_key pme_id (pct_models X) m)) = m" "ready_model (the (by_key pme_id (pct_models X) m))"
    "by_key msp_id (pct_specs X) m = Some (the (by_key msp_id (pct_specs X) m))"
proof -
  have "set MODEL_ORDER = pme_id ` set (pct_models X)" by (metis ready_parts(7) [OF R] set_map)
  with assms have "m \<in> pme_id ` set (pct_models X)" by simp
  from by_key_the [OF this] ready_parts(8) [OF R]
  show "by_key pme_id (pct_models X) m = Some (the (by_key pme_id (pct_models X) m))"
    "pme_id (the (by_key pme_id (pct_models X) m)) = m" "ready_model (the (by_key pme_id (pct_models X) m))"
    by (auto simp: list_all_iff)
  from assms ready_parts(9) [OF R] have "m \<in> msp_id ` set (pct_specs X)" by auto
  from by_key_the [OF this]
  show "by_key msp_id (pct_specs X) m = Some (the (by_key msp_id (pct_specs X) m))" by simp
qed

section \<open>One tuple\<close>

lemma is_sha256_json: "(\<And>t. is_sha256 (pp_sha P t)) \<Longrightarrow> is_sha256 (sha256_canonical_json (pp_sha P) j)"
  by (simp add: sha256_canonical_json_def)

lemma dataset_facts:
  assumes "validate_pilot_dataset d = Inr d"
  shows "0 < pds_id d" "is_sha256 (pds_raw d)" "is_sha256 (pds_feature_sha d)" "is_sha256 (pds_target_sha d)"
    "s \<in> set (pds_splits d) \<Longrightarrow> is_sha256 (spi_assignment s) \<and> is_sha256 (spi_logical s)"
proof -
  from assms obtain u where u: "validate_all validate_pilot_split (pds_splits d) = Inr u"
    by (auto simp: validate_pilot_dataset_def bindr_Inr_iff)
  from assms show "0 < pds_id d" "is_sha256 (pds_raw d)" "is_sha256 (pds_feature_sha d)" "is_sha256 (pds_target_sha d)"
    by (auto simp: validate_pilot_dataset_def bindr_Inr_iff guards_Inr_iff)
  assume "s \<in> set (pds_splits d)"
  with u obtain y where "validate_pilot_split s = Inr y" by (auto simp: validate_all_Inr)
  then show "is_sha256 (spi_assignment s) \<and> is_sha256 (spi_logical s)"
    by (auto simp: validate_pilot_split_def guards_Inr_iff)
qed

lemma view_facts:
  assumes "validate_view_applicability v = Inr v"
  shows "0 < pva_dataset v" "0 \<le> pva_seed v" "pva_view v \<in> set VIEW_ORDER" "is_sha256 (pva_record_sha v)"
    "pva_applicability v = ''APPLICABLE'' \<or> pva_applicability v = ''NOT_APPLICABLE''"
    "pva_view v = ''V00'' \<Longrightarrow> pva_applicability v = ''APPLICABLE''"
    "pva_applicability v = ''NOT_APPLICABLE'' \<Longrightarrow> pva_reason_code v \<noteq> None \<and> the (pva_reason_code v) \<noteq> []"
  using assms by (auto simp: validate_view_applicability_def guards_Inr_iff missing_text_def split: option.splits)

lemma model_facts:
  assumes "validate_model_entry m = Inr m"
  shows "is_sha256 (pme_config_sha m)" "is_sha256 (pme_preprocessing_sha m)" "\<not> option_bad is_sha256 (pme_checkpoint_sha m)"
  using assms by (auto simp: validate_model_entry_def guards_Inr_iff)

lemma planned_identity_valid:
  assumes R: "plan_ready X ds" and sha: "\<And>t. is_sha256 (pp_sha P t)"
    and t: "t \<in> set (view_tuples ds PILOT_SEEDS)" and m: "m \<in> set MODEL_ORDER"
  shows "validate_condition_identity (planned_identity P X t m) = Inr (planned_identity P X t m)"
    and "planned_identity P X t m = condition_of P X (planned_dataset X (fst t)) (planned_split X (fst t) (fst (snd t)))
      (fst (snd t)) (planned_view X t) (the (by_key pme_id (pct_models X) m)) (the (by_key msp_id (pct_specs X) m))"
    and "cic_dataset (planned_identity P X t m) = fst t" "cic_seed (planned_identity P X t m) = fst (snd t)"
    "cic_view (planned_identity P X t m) = snd (snd t)" "cic_model (planned_identity P X t m) = m"
    "cic_device (planned_identity P X t m) = device_of_model m"
proof -
  obtain d seed v where tt: "t = (d, seed, v)" by (cases t)
  with t have d: "d \<in> set ds" and seed: "seed \<in> set PILOT_SEEDS" and v: "v \<in> set VIEW_ORDER"
    by (simp_all add: mem_view_tuples)
  let ?d = "planned_dataset X d" and ?s = "planned_split X d seed" and ?v = "planned_view X t"
  let ?m = "the (by_key pme_id (pct_models X) m)" and ?c = "the (by_key msp_id (pct_specs X) m)"
  show eq: "planned_identity P X t m = condition_of P X (planned_dataset X (fst t)) (planned_split X (fst t) (fst (snd t)))
      (fst (snd t)) (planned_view X t) ?m ?c"
    by (simp add: planned_identity_def tt)
  note D = ready_dataset_of [OF R d] and M = ready_model_of [OF R m] and V = ready_view_of [OF R t]
  have VV: "pva_dataset ?v = d" "pva_seed ?v = seed" "pva_view ?v = v" using V(2) by (simp_all add: view_tuple_def tt)
  from D(3) have dv: "validate_pilot_dataset ?d = Inr ?d" by (simp add: ready_dataset_def)
  note DF = dataset_facts [OF dv] and SF = dataset_facts(5) [OF dv ready_split_of(2) [OF R d seed]]
  from M(3) have mv: "validate_model_entry ?m = Inr ?m" and dev: "pme_device ?m = device_of_model (pme_id ?m)"
    and ck: "(pme_checkpoint ?m = None) = (pme_checkpoint_sha ?m = None)"
    by (simp_all add: ready_model_def)
  note MF = model_facts [OF mv]
  show "cic_dataset (planned_identity P X t m) = fst t" "cic_seed (planned_identity P X t m) = fst (snd t)"
    "cic_view (planned_identity P X t m) = snd (snd t)" "cic_model (planned_identity P X t m) = m"
    "cic_device (planned_identity P X t m) = device_of_model m"
    unfolding eq using D(2) VV M(2) dev by (simp_all add: condition_of_def Let_def tt)
  have H: "list_all is_sha256 (condition_hashes (planned_identity P X t m))"
    unfolding eq using DF SF MF ready_parts(10) [OF R] is_sha256_json [OF sha]
    by (simp add: condition_hashes_def condition_of_def Let_def tt)
  have "0 < d" using DF(1) D(2) by simp
  moreover have "0 \<le> seed" by (rule pilot_seeds_facts(3) [OF seed])
  moreover have "\<not> option_bad is_sha256 (cic_checkpoint_sha (planned_identity P X t m))"
    unfolding eq using MF(3) by (simp add: condition_of_def Let_def)
  moreover have "(cic_checkpoint (planned_identity P X t m) = None) = (cic_checkpoint_sha (planned_identity P X t m) = None)"
    unfolding eq using ck by (simp add: condition_of_def Let_def)
  ultimately show "validate_condition_identity (planned_identity P X t m) = Inr (planned_identity P X t m)"
    using H v m device_of_model_cases [of m]
      \<open>cic_dataset (planned_identity P X t m) = fst t\<close> \<open>cic_seed (planned_identity P X t m) = fst (snd t)\<close>
      \<open>cic_view (planned_identity P X t m) = snd (snd t)\<close> \<open>cic_model (planned_identity P X t m) = m\<close>
      \<open>cic_device (planned_identity P X t m) = device_of_model m\<close>
    by (auto simp: validate_condition_identity_def guards_Inr_iff tt)
qed

lemma planned_of_simps [simp]:
  "pcn_id (planned_of P X t m) = canonical_identity_hash P (planned_identity P X t m)"
  "pcn_identity (planned_of P X t m) = planned_identity P X t m"
  "pcn_dataset (planned_of P X t m) = fst t" "pcn_seed (planned_of P X t m) = fst (snd t)"
  "pcn_view (planned_of P X t m) = snd (snd t)" "pcn_model (planned_of P X t m) = m"
  "pcn_device (planned_of P X t m) = device_of_model m" "condition_tuple (planned_of P X t m) = t"
  by (simp_all add: planned_of_def condition_tuple_def split: prod.split)

lemma excused_of_simps [simp]:
  "not_applicable_tuple (excused_of P X t) = t"
  by (simp add: excused_of_def not_applicable_tuple_def Let_def split: prod.split)

lemma planned_of_valid:
  assumes R: "plan_ready X ds" and sha: "\<And>t. is_sha256 (pp_sha P t)"
    and t: "t \<in> set (view_tuples ds PILOT_SEEDS)" and m: "m \<in> set MODEL_ORDER"
  shows "validate_condition P (planned_of P X t m) = Inr (planned_of P X t m)"
proof -
  note I = planned_identity_valid [OF R sha t m]
  have "0 < fst t" "0 \<le> fst (snd t)" "snd (snd t) \<in> set VIEW_ORDER"
    using I(1) unfolding validate_condition_identity_def guards_Inr_iff I(3-5) by auto
  then show ?thesis
    using I m device_of_model_cases [of m] is_sha256_json [OF sha]
    by (simp add: validate_condition_def guards_Inr_iff canonical_identity_hash_def)
qed

lemma excused_of_valid:
  assumes R: "plan_ready X ds" and sha: "\<And>t. is_sha256 (pp_sha P t)"
    and t: "t \<in> set (view_tuples ds PILOT_SEEDS)" and "\<not> applicable X t"
  shows "validate_not_applicable (excused_of P X t) = Inr (excused_of P X t)"
proof -
  note V = ready_view_of [OF R t]
  from view_facts [OF V(3)] V(2) assms(4) is_sha256_json [OF sha] show ?thesis
    by (auto simp: validate_not_applicable_def guards_Inr_iff excused_of_def applicable_def view_tuple_def Let_def split: prod.split)
qed

lemma plan_tuple_ready:
  assumes R: "plan_ready X ds" and sha: "\<And>t. is_sha256 (pp_sha P t)" and t: "t \<in> set (view_tuples ds PILOT_SEEDS)"
  shows "plan_tuple P X t =
    Inr (if applicable X t then (map (planned_of P X t) MODEL_ORDER, []) else ([], [excused_of P X t]))"
proof -
  obtain d seed v where tt: "t = (d, seed, v)" by (cases t)
  with t have d: "d \<in> set ds" and seed: "seed \<in> set PILOT_SEEDS" by (simp_all add: mem_view_tuples)
  note D = ready_dataset_of [OF R d] and S = ready_split_of [OF R d seed] and V = ready_view_of [OF R t]
  have VV: "pva_view (planned_view X t) = v" using V(2) by (simp add: view_tuple_def tt)
  note F = view_facts [OF V(3)]
  show ?thesis
  proof (cases "applicable X t")
    case True
    have C: "plan_condition P X (planned_dataset X d) (planned_split X d seed) seed (planned_view X t) m = Inr (planned_of P X t m)"
      if m: "m \<in> set MODEL_ORDER" for m
    proof -
      note M = ready_model_of [OF R m] and I = planned_identity_valid [OF R sha t m]
      have "condition_of P X (planned_dataset X d) (planned_split X d seed) seed (planned_view X t)
          (the (by_key pme_id (pct_models X) m)) (the (by_key msp_id (pct_specs X) m)) = planned_identity P X t m"
        using I(2) by (simp add: tt)
      moreover have "pme_device (the (by_key pme_id (pct_models X) m)) = device_of_model m"
        using M(2,3) by (simp add: ready_model_def)
      moreover have "\<lparr>pcn_id = canonical_identity_hash P (planned_identity P X t m), pcn_identity = planned_identity P X t m,
          pcn_dataset = pds_id (planned_dataset X d), pcn_seed = seed, pcn_view = pva_view (planned_view X t), pcn_model = m,
          pcn_device = device_of_model m\<rparr> = planned_of P X t m"
        by (simp add: planned_of_def tt D(2) VV [unfolded tt])
      moreover obtain me sp where "by_key pme_id (pct_models X) m = Some me" "by_key msp_id (pct_specs X) m = Some sp"
        using M(1,4) by blast
      ultimately show ?thesis
        using planned_of_valid [OF R sha t m] I(1) by (simp add: plan_condition_def of_option_def)
    qed
    have "mapr (plan_condition P X (planned_dataset X d) (planned_split X d seed) seed (planned_view X t)) MODEL_ORDER
        = Inr (map (planned_of P X t) MODEL_ORDER)"
      by (rule mapr_map) (rule C)
    then show ?thesis
      using True D(1) S(1) V(1) unfolding plan_tuple_def tt by (simp add: of_option_def applicable_def)
  next
    case False
    from False F(5) have na: "pva_applicability (planned_view X t) = ''NOT_APPLICABLE''" by (auto simp: applicable_def)
    from F(7) [OF na] obtain c where c: "pva_reason_code (planned_view X t) = Some c" by auto
    have "\<lparr>nac_dataset = d, nac_seed = seed, nac_view = v, nac_reason_code = c,
        nac_evidence_sha = sha256_canonical_json (pp_sha P) (view_applicability_json P (planned_view X t)),
        nac_record_sha = pva_record_sha (planned_view X t)\<rparr> = excused_of P X t"
      using c by (simp add: excused_of_def tt Let_def)
    with False na c D(1) S(1) V(1) excused_of_valid [OF R sha t False] show ?thesis
      unfolding plan_tuple_def tt by (simp add: of_option_def)
  qed
qed

end
