(* ===== verification/Pilot_Inventory_Facts.thy ===== *)
theory Pilot_Inventory_Facts
  imports Pilot_Facts
begin

text \<open>
  The inventory of a plan in order passes its contract: facts on its conditions, and one lemma for
  each group of guards.
\<close>

section \<open>The conditions of a plan\<close>

definition applicable_tuples :: "plan_context \<Rightarrow> int list \<Rightarrow> (int \<times> int \<times> string) list" where
  "applicable_tuples X ds = filter (applicable X) (view_tuples ds PILOT_SEEDS)"

definition excused_tuples :: "plan_context \<Rightarrow> int list \<Rightarrow> (int \<times> int \<times> string) list" where
  "excused_tuples X ds = filter (\<lambda>t. \<not> applicable X t) (view_tuples ds PILOT_SEEDS)"

definition all_conditions :: "pilot_params \<Rightarrow> plan_context \<Rightarrow> int list \<Rightarrow> planned_condition list" where
  "all_conditions P X ds = concat (map (\<lambda>t. map (planned_of P X t) MODEL_ORDER) (applicable_tuples X ds))"

definition planned_texts :: "pilot_params \<Rightarrow> plan_context \<Rightarrow> int list \<Rightarrow> string set" where
  "planned_texts P X ds = (\<lambda>(t, m). canonical_text (condition_json (planned_identity P X t m)))
     ` (set (view_tuples ds PILOT_SEEDS) \<times> set MODEL_ORDER)"

lemma plan_conditions_ready:
  assumes R: "plan_ready X ds" and sha: "\<And>t. is_sha256 (pp_sha P t)"
  shows "plan_conditions P X ds PILOT_SEEDS =
    Inr (sort_key condition_key (all_conditions P X ds), map (excused_of P X) (excused_tuples X ds))"
proof -
  let ?f = "\<lambda>t. if applicable X t then (map (planned_of P X t) MODEL_ORDER, []) else ([], [excused_of P X t])"
  have "mapr (plan_tuple P X) (view_tuples ds PILOT_SEEDS) = Inr (map ?f (view_tuples ds PILOT_SEEDS))"
    by (rule mapr_map) (rule plan_tuple_ready [OF R sha])
  moreover have "concat (map fst (map ?f ts)) = concat (map (\<lambda>t. map (planned_of P X t) MODEL_ORDER) (filter (applicable X) ts))"
    for ts by (induction ts) auto
  moreover have "concat (map snd (map ?f ts)) = map (excused_of P X) (filter (\<lambda>t. \<not> applicable X t) ts)" for ts
    by (induction ts) auto
  ultimately show ?thesis
    by (simp only: plan_conditions_def bindr_simps all_conditions_def applicable_tuples_def excused_tuples_def)
qed

lemma mem_all_conditions:
  "c \<in> set (all_conditions P X ds) \<longleftrightarrow> (\<exists>t \<in> set (applicable_tuples X ds). \<exists>m \<in> set MODEL_ORDER. c = planned_of P X t m)"
  by (auto simp: all_conditions_def)

lemma applicable_tuples_mem: "t \<in> set (applicable_tuples X ds) \<longleftrightarrow> t \<in> set (view_tuples ds PILOT_SEEDS) \<and> applicable X t"
  by (auto simp: applicable_tuples_def)

lemma excused_tuples_mem: "t \<in> set (excused_tuples X ds) \<longleftrightarrow> t \<in> set (view_tuples ds PILOT_SEEDS) \<and> \<not> applicable X t"
  by (auto simp: excused_tuples_def)

lemma tuples_split: "length (applicable_tuples X ds) + length (excused_tuples X ds) = length (view_tuples ds PILOT_SEEDS)"
  unfolding applicable_tuples_def excused_tuples_def by (rule sum_length_filter_compl)

lemma distinct_tuples: "distinct ds \<Longrightarrow> distinct (applicable_tuples X ds) \<and> distinct (excused_tuples X ds)"
  by (simp add: applicable_tuples_def excused_tuples_def distinct_view_tuples)

lemma length_all_conditions: "length (all_conditions P X ds) = 5 * length (applicable_tuples X ds)"
  by (simp add: all_conditions_def length_concat model_order_facts sum_list_triv comp_def)

lemma conditions_of_tuple:
  assumes "distinct ds"
  shows "filter (\<lambda>c. condition_tuple c = t) (all_conditions P X ds) =
    (if t \<in> set (applicable_tuples X ds) then map (planned_of P X t) MODEL_ORDER else [])"
proof -
  have "filter (\<lambda>c. condition_tuple c = t) (concat (map (\<lambda>t. map (planned_of P X t) MODEL_ORDER) ts)) =
    (if t \<in> set ts then map (planned_of P X t) MODEL_ORDER else [])" if "distinct ts" for ts
    using that
  proof (induction ts)
    case (Cons u ts)
    then show ?case by (cases "u = t") (simp_all add: filter_map comp_def)
  qed simp
  then show ?thesis using distinct_tuples [OF assms] by (simp add: all_conditions_def)
qed

lemma v00_applicable:
  assumes R: "plan_ready X ds" and "d \<in> set ds" and "seed \<in> set PILOT_SEEDS"
  shows "(d, seed, ''V00'') \<in> set (applicable_tuples X ds)"
proof -
  have t: "(d, seed, ''V00'') \<in> set (view_tuples ds PILOT_SEEDS)"
    using assms by (simp add: mem_view_tuples view_order_facts)
  note V = ready_view_of [OF R t]
  have "pva_view (planned_view X (d, seed, ''V00'')) = ''V00''" using V(2) by (simp add: view_tuple_def)
  from view_facts(6) [OF V(3) this] t show ?thesis by (simp add: applicable_tuples_mem applicable_def)
qed

lemma condition_json_fields:
  assumes "canonicalize (condition_json i) = canonicalize (condition_json j)"
  shows "cic_dataset i = cic_dataset j" "cic_seed i = cic_seed j" "cic_view i = cic_view j" "cic_model i = cic_model j"
  using canonicalize_field [OF assms [unfolded condition_json_def], of "''dataset_id''"]
    canonicalize_field [OF assms [unfolded condition_json_def], of "''seed''"]
    canonicalize_field [OF assms [unfolded condition_json_def], of "''view_id''"]
    canonicalize_field [OF assms [unfolded condition_json_def], of "''model_id''"]
  by simp_all

lemma wf_condition_json: "wf_json (condition_json i)"
  by (simp add: condition_json_def json_option_def split: option.split)

lemma planned_ids_inj:
  assumes R: "plan_ready X ds" and sha: "\<And>t. is_sha256 (pp_sha P t)" and free: "inj_on (pp_sha P) (planned_texts P X ds)"
    and t: "t \<in> set (view_tuples ds PILOT_SEEDS)" "t' \<in> set (view_tuples ds PILOT_SEEDS)"
    and m: "m \<in> set MODEL_ORDER" "m' \<in> set MODEL_ORDER"
    and eq: "canonical_identity_hash P (planned_identity P X t m) = canonical_identity_hash P (planned_identity P X t' m')"
  shows "t = t' \<and> m = m'"
proof -
  have "canonical_text (condition_json (planned_identity P X t m)) \<in> planned_texts P X ds"
    "canonical_text (condition_json (planned_identity P X t' m')) \<in> planned_texts P X ds"
    using t m by (auto simp: planned_texts_def)
  with eq free have "canonical_text (condition_json (planned_identity P X t m))
      = canonical_text (condition_json (planned_identity P X t' m'))"
    by (simp add: canonical_identity_hash_def sha256_canonical_json_def inj_on_def)
  then have "canonicalize (condition_json (planned_identity P X t m)) = canonicalize (condition_json (planned_identity P X t' m'))"
    by (simp add: canonical_text_inj wf_condition_json)
  from condition_json_fields [OF this] show ?thesis
    using planned_identity_valid(3-6) [OF R sha t(1) m(1)] planned_identity_valid(3-6) [OF R sha t(2) m(2)]
    by (simp add: prod_eq_iff)
qed

lemma distinct_condition_ids:
  assumes R: "plan_ready X ds" and sha: "\<And>t. is_sha256 (pp_sha P t)" and free: "inj_on (pp_sha P) (planned_texts P X ds)"
  shows "distinct (map pcn_id (all_conditions P X ds))"
proof -
  have "distinct (map pcn_id (concat (map (\<lambda>t. map (planned_of P X t) MODEL_ORDER) ts)))"
    if "distinct ts" "set ts \<subseteq> set (view_tuples ds PILOT_SEEDS)" for ts
    using that
  proof (induction ts)
    case (Cons t ts)
    have inj: "u = t \<and> m = m'" if "u \<in> set (t # ts)" "m \<in> set MODEL_ORDER" "m' \<in> set MODEL_ORDER"
      "canonical_identity_hash P (planned_identity P X u m) = canonical_identity_hash P (planned_identity P X t m')" for u m m'
      using planned_ids_inj [OF R sha free _ _ that(2,3,4)] Cons.prems that(1) by auto
    have "distinct (map (\<lambda>m. canonical_identity_hash P (planned_identity P X t m)) MODEL_ORDER)"
      using inj [of t] model_order_facts(1) by (auto simp: distinct_map inj_on_def)
    moreover have "canonical_identity_hash P (planned_identity P X t m)
        \<notin> pcn_id ` set (concat (map (\<lambda>t. map (planned_of P X t) MODEL_ORDER) ts))" if m: "m \<in> set MODEL_ORDER" for m
    proof
      assume "canonical_identity_hash P (planned_identity P X t m)
        \<in> pcn_id ` set (concat (map (\<lambda>t. map (planned_of P X t) MODEL_ORDER) ts))"
      then obtain u m' where "u \<in> set ts" "m' \<in> set MODEL_ORDER"
        "canonical_identity_hash P (planned_identity P X t m) = canonical_identity_hash P (planned_identity P X u m')"
        by auto
      with inj [of u m' m] m Cons.prems(1) show False by auto
    qed
    ultimately show ?case using Cons by (auto simp: comp_def)
  qed simp
  moreover have "set (applicable_tuples X ds) \<subseteq> set (view_tuples ds PILOT_SEEDS)" by (auto simp: applicable_tuples_mem)
  ultimately show ?thesis
    using distinct_tuples [OF ready_distinct [OF R]] by (simp add: all_conditions_def)
qed

section \<open>Counts\<close>

lemma count_where_mset: "mset xs = mset ys \<Longrightarrow> count_where p xs = count_where p ys"
  unfolding count_where_def by (metis mset_filter size_mset)

lemma count_where_map: "count_where p (map f xs) = count_where (\<lambda>x. p (f x)) xs"
  by (simp add: count_where_def filter_map comp_def)

lemma count_where_cong: "(\<And>x. x \<in> set xs \<Longrightarrow> p x = q x) \<Longrightarrow> count_where p xs = count_where q xs"
  unfolding count_where_def by (metis filter_cong)

lemma count_where_compl: "count_where p xs + count_where (\<lambda>x. \<not> p x) xs = int (length xs)"
  unfolding count_where_def using sum_length_filter_compl [of p xs] by (simp flip: of_nat_add)

lemma views_by_tuple:
  assumes R: "plan_ready X ds"
  shows "count_where (\<lambda>v. pva_applicability v = ''APPLICABLE'') (pct_views X) = int (length (applicable_tuples X ds))"
    and "count_where (\<lambda>v. pva_applicability v = ''NOT_APPLICABLE'') (pct_views X) = int (length (excused_tuples X ds))"
    and "length (pct_views X) = 264"
proof -
  note tuples = ready_parts(5) [OF R]
  have d: "distinct (map view_tuple (pct_views X))" by (simp add: tuples distinct_view_tuples ready_distinct [OF R])
  have p: "planned_view X (view_tuple v) = v" if "v \<in> set (pct_views X)" for v
    using by_key_distinct [OF d that] by (simp add: planned_view_def)
  have "count_where (\<lambda>v. pva_applicability v = ''APPLICABLE'') (pct_views X)
      = count_where (\<lambda>v. applicable X (view_tuple v)) (pct_views X)"
    by (rule count_where_cong) (simp add: applicable_def p)
  also have "\<dots> = count_where (applicable X) (view_tuples ds PILOT_SEEDS)"
    by (simp add: count_where_map [symmetric] flip: tuples)
  finally show a: "count_where (\<lambda>v. pva_applicability v = ''APPLICABLE'') (pct_views X) = int (length (applicable_tuples X ds))"
    by (simp add: applicable_tuples_def count_where_def)
  have "count_where (\<lambda>v. pva_applicability v = ''NOT_APPLICABLE'') (pct_views X)
      = count_where (\<lambda>v. \<not> applicable X (view_tuple v)) (pct_views X)"
  proof (rule count_where_cong)
    fix v assume v: "v \<in> set (pct_views X)"
    have "validate_view_applicability v = Inr v" using ready_parts(6) [OF R] v by (auto simp: list_all_iff)
    from view_facts(5) [OF this] show "(pva_applicability v = ''NOT_APPLICABLE'') = (\<not> applicable X (view_tuple v))"
      by (auto simp: applicable_def p [OF v])
  qed
  also have "\<dots> = count_where (\<lambda>t. \<not> applicable X t) (view_tuples ds PILOT_SEEDS)"
    by (simp add: count_where_map [symmetric, of "\<lambda>t. \<not> applicable X t" view_tuple] flip: tuples)
  finally show "count_where (\<lambda>v. pva_applicability v = ''NOT_APPLICABLE'') (pct_views X) = int (length (excused_tuples X ds))"
    by (simp add: excused_tuples_def count_where_def)
  have "length (pct_views X) = length (map view_tuple (pct_views X))" by simp
  also have "\<dots> = length ds * length PILOT_SEEDS * 11" by (simp only: tuples length_view_tuples)
  finally show "length (pct_views X) = 264" by (simp add: ready_parts(1) [OF R] pilot_seeds_facts(2))
qed

section \<open>The guards\<close>

definition good_sources :: "(string \<times> string) list \<Rightarrow> bool" where
  "good_sources hs \<longleftrightarrow> hs \<noteq> [] \<and> list_all is_sha256 (map snd hs) \<and> \<not> list_ex relative_path_refused (map fst hs)"

definition planned_inventory ::
  "pilot_params \<Rightarrow> plan_context \<Rightarrow> (string \<times> string) list \<Rightarrow> int list \<Rightarrow> pilot_inventory" where
  "planned_inventory P X hs ds = (let i = inventory_draft (pct_protocol_sha X) hs ds PILOT_SEEDS (pct_views X)
       (sort_key condition_key (all_conditions P X ds)) (map (excused_of P X) (excused_tuples X ds)) in
     i\<lparr>pci_sha := sha256_canonical_json (pp_sha P) (inventory_payload i)\<rparr>)"

lemma inventory_payload_sha [simp]: "inventory_payload (i\<lparr>pci_sha := h\<rparr>) = inventory_payload i"
  by (simp add: inventory_payload_def)

lemma planned_inventory_simps:
  "pci_protocol_sha (planned_inventory P X hs ds) = pct_protocol_sha X"
  "pci_records (planned_inventory P X hs ds) = sort_key condition_key (all_conditions P X ds)"
  "pci_not_applicable (planned_inventory P X hs ds) = map (excused_of P X) (excused_tuples X ds)"
  "pci_datasets (planned_inventory P X hs ds) = ds" "pci_seeds (planned_inventory P X hs ds) = PILOT_SEEDS"
  "pci_source_hashes (planned_inventory P X hs ds) = hs"
  by (simp_all add: planned_inventory_def inventory_draft_def Let_def)

lemma sealed_inventory: "pci_sha (i\<lparr>pci_sha := f (inventory_payload i)\<rparr>) = f (inventory_payload (i\<lparr>pci_sha := f (inventory_payload i)\<rparr>))"
  by simp

lemma planned_inventory_sha:
  "pci_sha (planned_inventory P X hs ds) = sha256_canonical_json (pp_sha P) (inventory_payload (planned_inventory P X hs ds))"
  unfolding planned_inventory_def Let_def by (rule sealed_inventory)

lemma count_sorted: "count_where p (sort_key condition_key cs) = count_where p cs"
  by (rule count_where_mset) simp

lemma planned_counts:
  assumes R: "plan_ready X ds"
  shows "pci_view_tuples (planned_inventory P X hs ds) = 264"
    "pci_applicable (planned_inventory P X hs ds) = int (length (applicable_tuples X ds))"
    "pci_not_applicable_count (planned_inventory P X hs ds) = int (length (excused_tuples X ds))"
    "pci_conditions (planned_inventory P X hs ds) = 5 * int (length (applicable_tuples X ds))"
    "pci_cpu (planned_inventory P X hs ds) = count_where (\<lambda>c. pcn_device c = ''cpu'') (all_conditions P X ds)"
    "pci_cuda (planned_inventory P X hs ds) = count_where (\<lambda>c. pcn_device c = ''cuda'') (all_conditions P X ds)"
  using views_by_tuple [OF R]
  by (simp_all add: planned_inventory_def inventory_draft_def Let_def length_all_conditions count_sorted)

lemma planned_devices:
  "count_where (\<lambda>c. pcn_device c = ''cpu'') (all_conditions P X ds) + count_where (\<lambda>c. pcn_device c = ''cuda'') (all_conditions P X ds)
   = int (length (all_conditions P X ds))"
proof -
  have "count_where (\<lambda>c. pcn_device c = ''cuda'') (all_conditions P X ds)
      = count_where (\<lambda>c. \<not> pcn_device c = ''cpu'') (all_conditions P X ds)"
    by (rule count_where_cong) (auto simp: mem_all_conditions device_of_model_def split: if_splits)
  then show ?thesis by (simp only: count_where_compl)
qed

lemma length_tuples:
  assumes R: "plan_ready X ds"
  shows "length (applicable_tuples X ds) + length (excused_tuples X ds) = 264"
  by (simp add: tuples_split length_view_tuples ready_parts(1) [OF R] pilot_seeds_facts(2))

lemma count_where_nonneg [simp]: "0 \<le> count_where p xs" "\<not> count_where p xs < 0"
  by (simp_all add: count_where_def)

lemma count_where_le: "count_where p xs \<le> int (length xs)"
  by (simp add: count_where_def)

lemma planned_field_guards:
  assumes R: "plan_ready X ds" and sha: "\<And>t. is_sha256 (pp_sha P t)" and "good_sources hs"
  shows "list_all (\<lambda>g. \<not> fst g) (inventory_field_guards (planned_inventory P X hs ds))"
proof -
  note C = planned_counts [OF R, of P hs] and L = length_tuples [OF R]
  have le: "length (applicable_tuples X ds) \<le> 264" "length (excused_tuples X ds) \<le> 264" using L by simp_all
  have n: "length (all_conditions P X ds) \<le> 1320" using le by (simp add: length_all_conditions)
  have "pci_by_model (planned_inventory P X hs ds) = counts_by id pcn_model MODEL_ORDER (sort_key condition_key (all_conditions P X ds))"
    by (simp add: planned_inventory_def inventory_draft_def Let_def)
  then have "set (map fst (pci_by_model (planned_inventory P X hs ds))) \<subseteq> set MODEL_ORDER" by (auto simp: counts_by_def)
  moreover have "count_where (\<lambda>c. pcn_device c = d) (all_conditions P X ds) \<le> 1320" for d
    using count_where_le [of "\<lambda>c. pcn_device c = d" "all_conditions P X ds"] n by linarith
  ultimately show ?thesis
    using assms(3) ready_parts(1,10) [OF R] is_sha256_json [OF sha] le
    by (simp add: inventory_field_guards_def C planned_inventory_simps planned_inventory_sha good_sources_def pilot_seeds_facts(2) not_less)
qed

lemma planned_count_guards:
  assumes R: "plan_ready X ds" and sha: "\<And>t. is_sha256 (pp_sha P t)" and free: "inj_on (pp_sha P) (planned_texts P X ds)"
    and "good_sources hs"
  shows "list_all (\<lambda>g. \<not> fst g) (inventory_count_guards (planned_inventory P X hs ds))"
proof -
  have "distinct (map pcn_id (sort_key condition_key (all_conditions P X ds)))"
    using distinct_condition_ids [OF R sha free] by (simp add: distinct_map)
  then show ?thesis
    using assms(4) planned_devices [of P X ds] ready_parts(2) [OF R]
    by (simp add: inventory_count_guards_def planned_counts [OF R] planned_inventory_simps good_sources_def Let_def
      length_all_conditions count_sorted)
qed

lemma planned_tuples:
  "set (map condition_tuple (sort_key condition_key (all_conditions P X ds))) = set (applicable_tuples X ds)"
  using model_order_facts by (force simp: mem_all_conditions MODEL_ORDER_def)

lemma planned_v00:
  assumes R: "plan_ready X ds"
  shows "set (observed_v00 (all_conditions P X ds)) = set (expected_v00 ds PILOT_SEEDS)"
proof (intro set_eqI iffI)
  fix x assume "x \<in> set (observed_v00 (all_conditions P X ds))"
  then obtain c where "c \<in> set (all_conditions P X ds)" "pcn_view c = ''V00''" "x = (pcn_dataset c, pcn_seed c, pcn_model c)"
    by (auto simp: observed_v00_def)
  then show "x \<in> set (expected_v00 ds PILOT_SEEDS)"
    by (auto simp: mem_all_conditions applicable_tuples_mem mem_view_tuples expected_v00_def)
next
  fix x assume "x \<in> set (expected_v00 ds PILOT_SEEDS)"
  then obtain d seed m where x: "x = (d, seed, m)" "d \<in> set ds" "seed \<in> set PILOT_SEEDS" "m \<in> set MODEL_ORDER"
    by (auto simp: expected_v00_def)
  then have "planned_of P X (d, seed, ''V00'') m \<in> set (all_conditions P X ds)"
    using v00_applicable [OF R] by (auto simp: mem_all_conditions)
  then show "x \<in> set (observed_v00 (all_conditions P X ds))"
    by (force simp: observed_v00_def x(1))
qed

lemma models_of_sorted: "models_of_tuple (sort_key f cs) t = models_of_tuple cs t"
  by (simp add: models_of_tuple_def)

lemma planned_matrix_guards:
  assumes R: "plan_ready X ds"
  shows "list_all (\<lambda>g. \<not> fst g) (inventory_matrix_guards (planned_inventory P X hs ds))"
proof -
  let ?cs = "all_conditions P X ds"
  have d: "distinct ds" by (rule ready_distinct [OF R])
  have na: "map (not_applicable_tuple \<circ> excused_of P X) ts = ts" for ts by (simp add: comp_def)
  have observed: "set (observed_v00 (sort_key condition_key ?cs)) = set (observed_v00 ?cs)" by (simp add: observed_v00_def)
  have models: "models_of_tuple ?cs t = set MODEL_ORDER" if "t \<in> set (applicable_tuples X ds)" for t
    using that by (simp add: models_of_tuple_def conditions_of_tuple [OF d] image_image)
  have ex: "\<not> list_ex (\<lambda>t. models_of_tuple ?cs t \<noteq> set MODEL_ORDER) (map condition_tuple (sort_key condition_key ?cs))"
    using models planned_tuples [of P X ds] by (auto simp: list_ex_iff)
  have "set (applicable_tuples X ds) \<inter> set (excused_tuples X ds) = {}"
    by (auto simp: applicable_tuples_mem excused_tuples_mem)
  moreover have "card (set (applicable_tuples X ds)) = length (applicable_tuples X ds)"
    using distinct_tuples [OF d] by (simp add: distinct_card)
  ultimately show ?thesis
    using distinct_tuples [OF d] planned_v00 [OF R] length_tuples [OF R] ex
    unfolding inventory_matrix_guards_def Let_def planned_counts [OF R] planned_inventory_simps list.map_comp na planned_tuples
      models_of_sorted observed list.pred_inject fst_conv not_not ready_parts(1) [OF R] pilot_seeds_facts(2) length_map
    by simp
qed

lemma int_counter_counts:
  assumes "set (map f cs) = set ks" and "sorted_list_of_set (set ks) = ks"
  shows "int_counter (map f cs) = counts_by show_int f ks cs"
  unfolding int_counter_def counts_by_def assms count_where_map by simp

lemma planned_ids_covered:
  assumes R: "plan_ready X ds"
  shows "set (map pcn_dataset (all_conditions P X ds)) = set ds" "set (map pcn_seed (all_conditions P X ds)) = set PILOT_SEEDS"
proof -
  have mem: "planned_of P X (d, seed, ''V00'') ''LR-1.9'' \<in> set (all_conditions P X ds)"
    if "d \<in> set ds" "seed \<in> set PILOT_SEEDS" for d seed
    using v00_applicable [OF R that] by (auto simp: mem_all_conditions MODEL_ORDER_def)
  have "ds \<noteq> []" using ready_parts(1) [OF R] by auto
  then obtain d0 where d0: "d0 \<in> set ds" by (cases ds) auto
  have s0: "1729 \<in> set PILOT_SEEDS" by (simp add: PILOT_SEEDS_def)
  show "set (map pcn_dataset (all_conditions P X ds)) = set ds"
  proof
    show "set (map pcn_dataset (all_conditions P X ds)) \<subseteq> set ds"
      by (auto simp: mem_all_conditions applicable_tuples_mem mem_view_tuples)
    show "set ds \<subseteq> set (map pcn_dataset (all_conditions P X ds))"
      using mem [OF _ s0] by force
  qed
  show "set (map pcn_seed (all_conditions P X ds)) = set PILOT_SEEDS"
  proof
    show "set (map pcn_seed (all_conditions P X ds)) \<subseteq> set PILOT_SEEDS"
      by (auto simp: mem_all_conditions applicable_tuples_mem mem_view_tuples)
    show "set PILOT_SEEDS \<subseteq> set (map pcn_seed (all_conditions P X ds))"
      using mem [OF d0] by force
  qed
qed

lemma planned_summary_guards:
  assumes R: "plan_ready X ds"
  shows "list_all (\<lambda>g. \<not> fst g) (inventory_summary_guards P (planned_inventory P X hs ds))"
proof -
  let ?cs = "sort_key condition_key (all_conditions P X ds)"
  have fields: "pci_by_dataset (planned_inventory P X hs ds) = int_counter (map pcn_dataset ?cs)"
    "pci_by_seed (planned_inventory P X hs ds) = int_counter (map pcn_seed ?cs)"
    "pci_by_view (planned_inventory P X hs ds) = counts_by id pcn_view VIEW_ORDER ?cs"
    "pci_by_model (planned_inventory P X hs ds) = counts_by id pcn_model MODEL_ORDER ?cs"
    by (simp_all add: planned_inventory_def inventory_draft_def Let_def)
  have "int_counter (map pcn_dataset ?cs) = counts_by show_int pcn_dataset ds ?cs"
    by (rule int_counter_counts) (use planned_ids_covered [OF R, of P] ready_parts(2) [OF R] in simp_all)
  moreover have "int_counter (map pcn_seed ?cs) = counts_by show_int pcn_seed PILOT_SEEDS ?cs"
    by (rule int_counter_counts) (use planned_ids_covered [OF R, of P] in \<open>simp_all add: PILOT_SEEDS_def\<close>)
  ultimately show ?thesis
    unfolding inventory_summary_guards_def Let_def fields planned_inventory_simps dict_eq_def planned_inventory_sha by simp
qed

theorem planned_inventory_valid:
  assumes R: "plan_ready X ds" and sha: "\<And>t. is_sha256 (pp_sha P t)" and free: "inj_on (pp_sha P) (planned_texts P X ds)"
    and hs: "good_sources hs"
  shows "plan_inventory P X hs ds PILOT_SEEDS = Inr (planned_inventory P X hs ds)"
    and "validate_pilot_inventory P (planned_inventory P X hs ds) = Inr (planned_inventory P X hs ds)"
proof -
  let ?i = "planned_inventory P X hs ds"
  have "validate_all (validate_condition P) (pci_records ?i) = Inr ()"
    unfolding validate_all_Inr planned_inventory_simps
    using planned_of_valid [OF R sha] by (force simp: mem_all_conditions applicable_tuples_mem)
  moreover have "validate_all validate_not_applicable (pci_not_applicable ?i) = Inr ()"
    unfolding validate_all_Inr planned_inventory_simps
    using excused_of_valid [OF R sha] by (force simp: excused_tuples_mem)
  moreover have "guards (inventory_field_guards ?i @ inventory_count_guards ?i @ inventory_matrix_guards ?i
      @ inventory_summary_guards P ?i) ?i = Inr ?i"
    by (rule guards_pass) (simp only: list_all_append planned_field_guards [OF R sha hs] planned_count_guards [OF R sha free hs]
      planned_matrix_guards [OF R] planned_summary_guards [OF R] simp_thms)
  ultimately show valid: "validate_pilot_inventory P ?i = Inr ?i"
    by (simp add: validate_pilot_inventory_def)
  show "plan_inventory P X hs ds PILOT_SEEDS = Inr ?i"
    unfolding plan_inventory_def plan_conditions_ready [OF R sha] bindr_simps prod.case Let_def
    using views_by_tuple(3) [OF R] valid by (simp only: planned_inventory_def Let_def simp_thms if_False)
qed

end
