(* ===== verification/Pilot_Schedule_Facts.thy ===== *)
theory Pilot_Schedule_Facts
  imports Pilot_Inventory_Facts
begin

text \<open>
  Facts on the staged schedule: the stages partition the conditions, every stage passes its
  contract, and so does the schedule.
\<close>

section \<open>Names of stages\<close>

lemma split_on_none: "c \<notin> set s \<Longrightarrow> split_on c s = [s]"
  by (induction s) auto

lemma split_on_at: "c \<notin> set a \<Longrightarrow> split_on c (a @ c # s) = a # split_on c s"
  by (induction a) auto

lemma digits_show_nat: "digits (show_nat n)"
  by (auto simp: digits_def list_all_iff dest: show_nat_digits)

lemma no_underscore: "CHR ''_'' \<notin> set (show_nat n)"
  using show_nat_digits [of "CHR ''_''" n] by (auto simp: is_digit_def)

lemma stage_name_ok:
  assumes "0 < x" and "0 < y"
  shows "stage_id_ok (stage_name [x, y])"
proof -
  have "show_int x = show_nat (nat x)" "show_int y = show_nat (nat y)" using assms by (simp_all add: show_int_def)
  then show ?thesis
    by (simp add: stage_id_ok_def stage_name_def split_on_at split_on_none no_underscore digits_show_nat)
qed

section \<open>Groups of conditions\<close>

lemma mset_groups:
  "distinct ids \<Longrightarrow> \<forall>c \<in> set cs. f c \<in> set ids \<Longrightarrow> mset (concat (map (\<lambda>d. filter (\<lambda>c. f c = d) cs) ids)) = mset cs"
proof (induction cs)
  case (Cons c cs)
  have "mset (concat (map (\<lambda>d. filter (\<lambda>c. f c = d) (c # cs)) js))
      = (if f c \<in> set js then {#c#} else {#}) + mset (concat (map (\<lambda>d. filter (\<lambda>c. f c = d) cs) js))"
    if "distinct js" for js
    using that by (induction js) auto
  with Cons show ?case by simp
qed simp

lemma group_conditions_append: "group_conditions i (a @ b) = group_conditions i a @ group_conditions i b"
  by (simp add: group_conditions_def)

lemma group_conditions_concat: "concat (map (group_conditions i) gs) = group_conditions i (concat gs)"
  by (induction gs) (simp_all add: group_conditions_append, simp add: group_conditions_def)

lemma group_conditions_set: "set (group_conditions i ids) = {c \<in> set (pci_records i). pcn_dataset c \<in> set ids}"
  by (auto simp: group_conditions_def)

lemma slices_eight:
  assumes "length ids = 8"
  obtains a b c d e f g h where "ids = [a, b, c, d, e, f, g, h]" and "slices 2 ids = [[a, b], [c, d], [e, f], [g, h]]"
proof -
  from assms obtain a b c d e f g h where ids: "ids = [a, b, c, d, e, f, g, h]"
    by (auto simp: numeral_eq_Suc length_Suc_conv)
  moreover have "[0..<4] = [0, 1, 2, 3 :: nat]" by (simp add: upt_rec)
  ultimately show thesis by (intro that) (simp_all add: slices_def)
qed

lemma concat_slices: "length ids = 8 \<Longrightarrow> concat (slices 2 ids) = ids"
  by (elim slices_eight) simp

lemma count_models:
  assumes "\<forall>c \<in> set cs. f c \<in> set ms" and "distinct ms"
  shows "(\<Sum>m \<leftarrow> ms. count_where (\<lambda>c. f c = m) cs) = int (length cs)"
  using assms(1)
proof (induction cs)
  case (Cons c cs)
  have "(\<Sum>m \<leftarrow> ns. count_where (\<lambda>c. f c = m) (c # cs)) = (if f c \<in> set ns then 1 else 0) + (\<Sum>m \<leftarrow> ns. count_where (\<lambda>c. f c = m) cs)"
    if "distinct ns" for ns
    using that by (induction ns) (auto simp: count_where_def)
  with Cons assms(2) show ?case by simp
qed (simp add: count_where_def sum_list_triv)

lemma count_device:
  fixes cs :: "planned_condition list"
  assumes "\<forall>c \<in> set cs. pcn_device c = device_of_model (pcn_model c) \<and> pcn_model c \<in> set MODEL_ORDER"
  shows "(\<Sum>m \<leftarrow> cpu_models. count_where (\<lambda>c. pcn_model c = m) cs) = count_where (\<lambda>c. pcn_device c = ''cpu'') cs"
    and "(\<Sum>m \<leftarrow> cuda_models. count_where (\<lambda>c. pcn_model c = m) cs) = count_where (\<lambda>c. pcn_device c = ''cuda'') cs"
proof -
  have "(\<Sum>m \<leftarrow> ms. count_where (\<lambda>c. pcn_model c = m) cs) = count_where (\<lambda>c. pcn_model c \<in> set ms) cs" if "distinct ms" for ms
    using that
  proof (induction ms)
    case (Cons m ms)
    have "count_where (\<lambda>c. pcn_model c \<in> set (m # ms)) xs = count_where (\<lambda>c. pcn_model c = m) xs + count_where (\<lambda>c. pcn_model c \<in> set ms) xs" for xs :: "planned_condition list"
      using Cons.prems by (induction xs) (auto simp: count_where_def)
    with Cons show ?case by simp
  qed (simp add: count_where_def)
  moreover have "distinct cpu_models" "distinct cuda_models" by (simp_all add: cpu_models_def cuda_models_def)
  moreover have "count_where (\<lambda>c. pcn_model c \<in> set cpu_models) cs = count_where (\<lambda>c. pcn_device c = ''cpu'') cs"
    "count_where (\<lambda>c. pcn_model c \<in> set cuda_models) cs = count_where (\<lambda>c. pcn_device c = ''cuda'') cs"
    using assms by (auto intro!: count_where_cong simp: device_of_model_def MODEL_ORDER_def cpu_models_def cuda_models_def)
  ultimately show "(\<Sum>m \<leftarrow> cpu_models. count_where (\<lambda>c. pcn_model c = m) cs) = count_where (\<lambda>c. pcn_device c = ''cpu'') cs"
    "(\<Sum>m \<leftarrow> cuda_models. count_where (\<lambda>c. pcn_model c = m) cs) = count_where (\<lambda>c. pcn_device c = ''cuda'') cs"
    by simp_all
qed

section \<open>What the contracts of the inputs give\<close>

lemma inventory_facts:
  assumes "validate_pilot_inventory P i = Inr i"
  shows "\<And>c. c \<in> set (pci_records i) \<Longrightarrow> is_sha256 (pcn_id c) \<and> pcn_model c \<in> set MODEL_ORDER"
    "distinct (map pcn_id (pci_records i))" "int (length (pci_records i)) = pci_conditions i"
    "set (pci_by_model i) = set (counts_by id pcn_model MODEL_ORDER (pci_records i))"
    "set (observed_v00 (pci_records i)) = set (expected_v00 (pci_datasets i) (pci_seeds i))"
    "pci_seeds i = PILOT_SEEDS" "length (pci_datasets i) = 8" "pci_datasets i = sorted_list_of_set (set (pci_datasets i))"
    "0 \<le> pci_not_applicable_count i" "is_sha256 (pci_sha i)"
proof -
  from assms obtain u where v: "validate_all (validate_condition P) (pci_records i) = Inr u"
    and g: "guards (inventory_field_guards i @ inventory_count_guards i @ inventory_matrix_guards i @ inventory_summary_guards P i) i = Inr i"
    by (auto simp: validate_pilot_inventory_def bindr_Inr_iff)
  fix c assume "c \<in> set (pci_records i)"
  with v obtain y where "validate_condition P c = Inr y" by (auto simp: validate_all_Inr)
  then show "is_sha256 (pcn_id c) \<and> pcn_model c \<in> set MODEL_ORDER"
    by (auto simp: validate_condition_def bindr_Inr_iff guards_Inr_iff)
next
  from assms have g: "guards (inventory_field_guards i @ inventory_count_guards i @ inventory_matrix_guards i @ inventory_summary_guards P i) i = Inr i"
    by (auto simp: validate_pilot_inventory_def bindr_Inr_iff)
  note G = guards_all [OF g, unfolded list_all_append]
  from G have F: "list_all (\<lambda>g. \<not> fst g) (inventory_field_guards i)" and C: "list_all (\<lambda>g. \<not> fst g) (inventory_count_guards i)"
    and M: "list_all (\<lambda>g. \<not> fst g) (inventory_matrix_guards i)" and S: "list_all (\<lambda>g. \<not> fst g) (inventory_summary_guards P i)"
    by blast+
  from C show "distinct (map pcn_id (pci_records i))" "int (length (pci_records i)) = pci_conditions i" "pci_seeds i = PILOT_SEEDS"
    "pci_datasets i = sorted_list_of_set (set (pci_datasets i))"
    unfolding inventory_count_guards_def Let_def list.pred_inject fst_conv not_not by blast+
  from F show "length (pci_datasets i) = 8" "0 \<le> pci_not_applicable_count i" "is_sha256 (pci_sha i)"
    by (auto simp: inventory_field_guards_def)
  from M show "set (observed_v00 (pci_records i)) = set (expected_v00 (pci_datasets i) (pci_seeds i))"
    unfolding inventory_matrix_guards_def Let_def list.pred_inject fst_conv not_not by blast
  from S show "set (pci_by_model i) = set (counts_by id pcn_model MODEL_ORDER (pci_records i))"
    unfolding inventory_summary_guards_def Let_def list.pred_inject fst_conv not_not de_Morgan_disj dict_eq_def by blast
qed

lemma protocol_facts:
  assumes "validate_protocol P p = Inr p"
  shows "validate_runtime_estimate (ppa_estimate p) = Inr (ppa_estimate p)"
    "validate_resource_policy (ppa_resource_policy p) = Inr (ppa_resource_policy p)"
    "\<And>d. d \<in> set (ppa_selected p) \<Longrightarrow> 0 < pds_id d"
    "set (map fst (rte_work (ppa_estimate p))) = set (map pds_id (ppa_selected p))" "is_sha256 (ppa_sha p)"
proof -
  from assms obtain u where parts: "protocol_parts P p = Inr u" and g: "guards (protocol_guards P p) p = Inr p"
    by (auto simp: validate_protocol_def bindr_Inr_iff)
  from parts obtain e r v where e: "validate_runtime_estimate (ppa_estimate p) = Inr e"
    and r: "validate_resource_policy (ppa_resource_policy p) = Inr r" and v: "validate_all validate_pilot_dataset (ppa_selected p) = Inr v"
    by (auto simp: protocol_parts_def bindr_Inr_iff)
  from e r show "validate_runtime_estimate (ppa_estimate p) = Inr (ppa_estimate p)"
    "validate_resource_policy (ppa_resource_policy p) = Inr (ppa_resource_policy p)"
    using guards_same by (fastforce simp: validate_runtime_estimate_def validate_resource_policy_def)+
  from guards_all [OF g] show "set (map fst (rte_work (ppa_estimate p))) = set (map pds_id (ppa_selected p))" "is_sha256 (ppa_sha p)"
    unfolding protocol_guards_def Let_def list.pred_inject fst_conv not_not de_Morgan_disj by blast+
  fix d assume "d \<in> set (ppa_selected p)"
  with v obtain y where "validate_pilot_dataset d = Inr y" by (auto simp: validate_all_Inr)
  then show "0 < pds_id d" by (auto simp: validate_pilot_dataset_def bindr_Inr_iff guards_Inr_iff)
qed

section \<open>One stage\<close>

text \<open>Rounding and the sum of floats keep nonnegative values nonnegative.\<close>

definition nonneg_floats :: "pilot_params \<Rightarrow> bool" where
  "nonneg_floats P \<longleftrightarrow> (\<forall>x. 0 \<le> x \<longrightarrow> 0 \<le> pp_fl P x) \<and> (\<forall>xs. list_all (\<lambda>x. 0 \<le> x) xs \<longrightarrow> 0 \<le> pp_sum P xs)"

lemma estimate_lookup:
  assumes "validate_runtime_estimate e = Inr e" and "d \<in> set (map fst (rte_work e))"
  obtains cpu cuda bytes where "work_of e ''cpu'' d = Inr cpu" "0 \<le> cpu" "work_of e ''cuda'' d = Inr cuda" "0 \<le> cuda"
    "storage_of e d = Inr bytes" "0 \<le> bytes"
proof -
  from assms(1) have g: "set (map fst (rte_work e)) = set (map fst (rte_storage e))"
    "\<not> list_ex (\<lambda>w. set (map fst (snd w)) \<noteq> {''cpu'', ''cuda''} \<or> list_ex (\<lambda>kv. snd kv < 0) (snd w)) (rte_work e)"
    "\<not> list_ex (\<lambda>kv. snd kv < 0) (rte_storage e)"
    by (auto simp: validate_runtime_estimate_def guards_Inr_iff)
  from assms(2) obtain w where w: "map_of (rte_work e) d = Some w" by (cases "map_of (rte_work e) d") (auto simp: map_of_eq_None_iff)
  then have "(d, w) \<in> set (rte_work e)" by (rule map_of_SomeD)
  with g(2) have good: "\<not> (set (map fst (snd (d, w))) \<noteq> {''cpu'', ''cuda''} \<or> list_ex (\<lambda>kv. snd kv < 0) (snd (d, w)))"
    unfolding list_ex_iff by blast
  then have keys: "fst ` set w = {''cpu'', ''cuda''}" by simp
  from good have pos: "0 \<le> snd kv" if "kv \<in> set w" for kv
    using that by (simp add: list_ex_iff not_less)
  have dev: "\<exists>x. map_of w k = Some x \<and> 0 \<le> x" if "k \<in> {''cpu'', ''cuda''}" for k
  proof -
    from that keys have "k \<in> fst ` set w" by simp
    then obtain x where "map_of w k = Some x" by (cases "map_of w k") (auto simp: map_of_eq_None_iff)
    with pos [of "(k, x)"] show ?thesis by (auto dest: map_of_SomeD)
  qed
  from dev [of "''cpu''"] dev [of "''cuda''"] obtain cpu cuda where c: "map_of w ''cpu'' = Some cpu" "0 \<le> cpu"
    "map_of w ''cuda'' = Some cuda" "0 \<le> cuda" by auto
  from assms(2) g(1) have "d \<in> fst ` set (rte_storage e)" by simp
  then obtain b where b: "map_of (rte_storage e) d = Some b" by (cases "map_of (rte_storage e) d") (auto simp: map_of_eq_None_iff)
  with g(3) have "0 \<le> b" by (auto simp: list_ex_iff not_less dest!: map_of_SomeD)
  with that [of cpu cuda b] c b w show thesis by (simp add: work_of_def storage_of_def)
qed

definition regular_records :: "pilot_inventory \<Rightarrow> bool" where
  "regular_records i \<longleftrightarrow> list_all (\<lambda>c. pcn_dataset c \<in> set (pci_datasets i) \<and> pcn_device c = device_of_model (pcn_model c)) (pci_records i)"

text \<open>What a stage holds: the conditions of its two data sets.\<close>

definition stage_of :: "pilot_inventory \<Rightarrow> int list \<Rightarrow> stage \<Rightarrow> bool" where
  "stage_of i ids s \<longleftrightarrow> pst_datasets s = ids \<and> pst_conditions s = sort (map pcn_id (group_conditions i ids))
     \<and> pst_model_counts s = counts_by id pcn_model MODEL_ORDER (group_conditions i ids) \<and> validate_stage s = Inr s
     \<and> 0 \<le> pst_wall_seconds s"

lemma dict_get_counts:
  "distinct ks \<Longrightarrow> k \<in> set ks \<Longrightarrow> dict_get 0 (counts_by id f ks cs) k = count_where (\<lambda>c. f c = k) cs"
  by (induction ks) (auto simp: counts_by_def dict_get_def)

lemma distinct_group:
  assumes "distinct (map pcn_id (pci_records i))" and "distinct ids"
  shows "distinct (map pcn_id (group_conditions i ids))"
proof -
  have "distinct (pci_records i)" using assms(1) by (simp add: distinct_map)
  then have "distinct (group_conditions i ids)"
    using assms(2) by (induction ids) (auto simp: group_conditions_def)
  moreover have "inj_on pcn_id (set (group_conditions i ids))"
    using assms(1) by (auto simp: group_conditions_set distinct_map intro: inj_on_subset)
  ultimately show ?thesis by (simp add: distinct_map)
qed

lemma build_stage_ready:
  assumes P: "validate_protocol P p = Inr p" and I: "validate_pilot_inventory P i = Inr i" and fl: "nonneg_floats P"
    and ids: "map pds_id (ppa_selected p) = pci_datasets i" and reg: "regular_records i"
    and xy: "x \<in> set (pci_datasets i)" "y \<in> set (pci_datasets i)" "x < y"
  shows "\<exists>s. build_stage P p i [x, y] = Inr s \<and> stage_of i [x, y] s"
proof -
  note IF = inventory_facts [OF I] and PF = protocol_facts [OF P]
  let ?e = "ppa_estimate p" and ?r = "ppa_resource_policy p" and ?cs = "group_conditions i [x, y]"
  have dom: "set (map fst (rte_work ?e)) = set (pci_datasets i)" by (simp only: PF(4) ids)
  obtain cx gx bx where X: "work_of ?e ''cpu'' x = Inr cx" "0 \<le> cx" "work_of ?e ''cuda'' x = Inr gx" "0 \<le> gx" "storage_of ?e x = Inr bx" "0 \<le> bx"
    by (rule estimate_lookup [OF PF(1), of x]) (use dom xy in auto)
  obtain cy gy b2 where Y: "work_of ?e ''cpu'' y = Inr cy" "0 \<le> cy" "work_of ?e ''cuda'' y = Inr gy" "0 \<le> gy" "storage_of ?e y = Inr b2" "0 \<le> b2"
    by (rule estimate_lookup [OF PF(1), of y]) (use dom xy in auto)
  have pos: "0 < d" if "d \<in> set (pci_datasets i)" for d
  proof -
    from that ids have "d \<in> pds_id ` set (ppa_selected p)" by (metis set_map)
    then show ?thesis using PF(3) by auto
  qed
  have safety: "1 \<le> rsp_safety_factor ?r" and coord: "0 \<le> rsp_coordination_seconds ?r"
    using PF(2) by (auto simp: validate_resource_policy_def guards_Inr_iff)
  define cpu where "cpu = pp_fl P (pp_sum P [cx, cy] * rsp_safety_factor ?r)"
  define cuda where "cuda = pp_fl P (pp_sum P [gx, gy] * rsp_safety_factor ?r)"
  define wall where "wall = pp_fl P (max (pp_fl P (cpu / of_int CPU_WORKERS)) cuda + of_int (rsp_coordination_seconds ?r))"
  have n: "0 \<le> cpu" "0 \<le> cuda" using fl X Y safety by (simp_all add: cpu_def cuda_def nonneg_floats_def)
  then have w: "0 \<le> wall" using fl coord by (simp add: wall_def nonneg_floats_def)
  define s where "s = \<lparr>pst_id = stage_name [x, y], pst_datasets = [x, y], pst_conditions = sort (map pcn_id ?cs),
        pst_model_counts = counts_by id pcn_model MODEL_ORDER ?cs,
        pst_cpu = count_where (\<lambda>c. pcn_device c = ''cpu'') ?cs, pst_cuda = count_where (\<lambda>c. pcn_device c = ''cuda'') ?cs,
        pst_cpu_seconds = cpu, pst_cuda_seconds = cuda, pst_wall_seconds = wall,
        pst_prediction_bytes = bx + b2, pst_cache_bytes = (bx + b2) * 2\<rparr>"
  have mem: "\<forall>c \<in> set ?cs. c \<in> set (pci_records i)" by (simp add: group_conditions_set)
  have dev: "\<forall>c \<in> set ?cs. pcn_device c = device_of_model (pcn_model c) \<and> pcn_model c \<in> set MODEL_ORDER"
    using mem IF(1) reg by (auto simp: regular_records_def list_all_iff)
  have ne: "?cs \<noteq> []"
  proof -
    have "(x, 1729, ''LR-1.9'') \<in> set (expected_v00 (pci_datasets i) (pci_seeds i))"
      using xy(1) by (simp add: expected_v00_def IF(6) PILOT_SEEDS_def MODEL_ORDER_def)
    then have "(x, 1729, ''LR-1.9'') \<in> set (observed_v00 (pci_records i))" by (simp add: IF(5))
    then obtain c where "c \<in> set (pci_records i)" "pcn_dataset c = x" by (auto simp: observed_v00_def)
    then have "c \<in> set ?cs" by (simp add: group_conditions_set)
    then show ?thesis by auto
  qed
  have sel: "pst_id s = stage_name [x, y]" "pst_datasets s = [x, y]" "pst_conditions s = sort (map pcn_id ?cs)"
    "pst_model_counts s = counts_by id pcn_model MODEL_ORDER ?cs" "pst_cpu s = count_where (\<lambda>c. pcn_device c = ''cpu'') ?cs"
    "pst_cuda s = count_where (\<lambda>c. pcn_device c = ''cuda'') ?cs" "pst_cpu_seconds s = cpu" "pst_cuda_seconds s = cuda"
    "pst_wall_seconds s = wall" "pst_prediction_bytes s = bx + b2" "pst_cache_bytes s = (bx + b2) * 2"
    by (simp_all add: s_def)
  have sub: "set cpu_models \<subseteq> set MODEL_ORDER" "set cuda_models \<subseteq> set MODEL_ORDER"
    by (auto simp: cpu_models_def cuda_models_def MODEL_ORDER_def)
  have dg: "map (dict_get 0 (pst_model_counts s)) ms = map (\<lambda>m. count_where (\<lambda>c. pcn_model c = m) ?cs) ms"
    if "set ms \<subseteq> set MODEL_ORDER" for ms
    unfolding sel using dict_get_counts [OF model_order_facts(1)] that by (intro map_cong refl) auto
  have devs: "sum_list (map (dict_get 0 (pst_model_counts s)) cpu_models) = pst_cpu s"
    "sum_list (map (dict_get 0 (pst_model_counts s)) cuda_models) = pst_cuda s"
    using count_device [OF dev] by (simp_all only: dg [OF sub(1)] dg [OF sub(2)] sel(5,6))
  have total: "sum_list (map snd (pst_model_counts s)) = int (length (pst_conditions s))"
    using count_models [of ?cs pcn_model MODEL_ORDER] dev model_order_facts(1) by (simp add: sel counts_by_def comp_def)
  have keys: "set (map fst (pst_model_counts s)) = set MODEL_ORDER" by (simp add: sel counts_by_def comp_def)
  have dist: "distinct (pst_conditions s)"
    using distinct_group [OF IF(2), of "[x, y]"] xy(3) by (simp add: sel)
  have shas: "list_all is_sha256 (pst_conditions s)" using mem IF(1) by (auto simp: sel list_all_iff)
  have nec: "pst_conditions s \<noteq> []" using ne unfolding sel by (metis length_0_conv length_map length_sort)
  have "stage_id_ok (pst_id s)" "length (pst_datasets s) = 2"
    "\<not> (pst_cpu s < 0 \<or> pst_cuda s < 0 \<or> pst_prediction_bytes s < 0 \<or> pst_cache_bytes s < 0)"
    "\<not> (pst_cpu_seconds s < 0 \<or> pst_cuda_seconds s < 0 \<or> pst_wall_seconds s < 0)"
    "sorted_list_of_set (set (pst_datasets s)) = pst_datasets s"
    using stage_name_ok [OF pos [OF xy(1)] pos [OF xy(2)]] xy(3) X Y n w by (simp_all add: sel)
  then have "validate_stage s = Inr s"
    unfolding validate_stage_def Let_def devs total keys using dist shas nec by (simp only: guards.simps simp_thms if_False)
  moreover have "build_stage P p i [x, y] = validate_stage s"
    using X Y by (simp add: build_stage_def DATASETS_PER_STAGE_def Let_def s_def cpu_def cuda_def wall_def)
  ultimately show ?thesis using sel w by (auto simp: stage_of_def)
qed

section \<open>The whole schedule\<close>

text \<open>What a complete schedule is: its stages are the pairs of data sets, each with exactly its conditions.\<close>

definition complete_schedule :: "pilot_inventory \<Rightarrow> schedule \<Rightarrow> bool" where
  "complete_schedule i s \<longleftrightarrow> psc_datasets s = pci_datasets i
     \<and> list_all2 (stage_of i) (slices 2 (pci_datasets i)) (psc_stages s)
     \<and> distinct (concat (map pst_conditions (psc_stages s)))
     \<and> set (concat (map pst_conditions (psc_stages s))) = pcn_id ` set (pci_records i)"

lemma staged_mset:
  assumes "list_all2 (stage_of i) gs stages"
  shows "mset (concat (map pst_conditions stages)) = mset (map pcn_id (group_conditions i (concat gs)))"
  using assms
proof (induction rule: list_all2_induct)
  case (Cons g gs st stages)
  then show ?case by (simp add: stage_of_def group_conditions_append)
qed (simp add: group_conditions_def)

lemma staged_counts:
  assumes "list_all2 (stage_of i) gs stages" and "m \<in> set MODEL_ORDER"
  shows "(\<Sum>s \<leftarrow> stages. dict_get 0 (pst_model_counts s) m) = count_where (\<lambda>c. pcn_model c = m) (group_conditions i (concat gs))"
  using assms(1)
proof (induction rule: list_all2_induct)
  case (Cons g gs st stages)
  then show ?case
    using dict_get_counts [OF model_order_facts(1) assms(2)] by (simp add: stage_of_def group_conditions_append count_where_def)
qed (simp add: group_conditions_def count_where_def)

lemma dict_get_cong:
  assumes "set a = set b" and "distinct (map fst b)"
  shows "dict_get d a k = dict_get d b k"
proof -
  have "map_of a k = map_of b k"
  proof (cases "map_of a k")
    case None
    then have "k \<notin> fst ` set b" by (simp add: map_of_eq_None_iff assms(1))
    then show ?thesis by (simp add: None map_of_eq_None_iff [symmetric])
  next
    case (Some v)
    then have "(k, v) \<in> set b" using assms(1) by (auto dest: map_of_SomeD)
    with assms(2) show ?thesis by (simp add: Some)
  qed
  then show ?thesis by (simp add: dict_get_def)
qed

lemma schedule_of_simps:
  "psc_protocol_sha (schedule_of P p i ids stages) = ppa_sha p" "psc_inventory_sha (schedule_of P p i ids stages) = pci_sha i"
  "psc_datasets (schedule_of P p i ids stages) = ids" "psc_stages (schedule_of P p i ids stages) = stages"
  "psc_conditions (schedule_of P p i ids stages) = pci_conditions i"
  "psc_not_applicable (schedule_of P p i ids stages) = pci_not_applicable_count i"
  "psc_wall_seconds (schedule_of P p i ids stages) = pp_sum P (map pst_wall_seconds stages)"
  "psc_hard_limit (schedule_of P p i ids stages) = rsp_hard_wall_seconds (ppa_resource_policy p)"
  "psc_within_limit (schedule_of P p i ids stages) =
     list_all (\<lambda>t. pst_wall_seconds t \<le> of_int (rsp_hard_wall_seconds (ppa_resource_policy p))) stages"
  "psc_prediction_bytes (schedule_of P p i ids stages) = sum_list (map pst_prediction_bytes stages)"
  "psc_cache_bytes (schedule_of P p i ids stages) = sum_list (map pst_cache_bytes stages)"
  by (simp_all add: schedule_of_def Let_def)

lemma sealed_schedule: "psc_sha (s\<lparr>psc_sha := f (schedule_payload P s)\<rparr>) = f (schedule_payload P (s\<lparr>psc_sha := f (schedule_payload P s)\<rparr>))"
  by (simp add: schedule_payload_def)

lemma schedule_of_sha:
  "psc_sha (schedule_of P p i ids stages) = sha256_canonical_json (pp_sha P) (schedule_payload P (schedule_of P p i ids stages))"
  unfolding schedule_of_def Let_def by (rule sealed_schedule)

lemma sum_list_nonneg_int: "list_all (\<lambda>x. 0 \<le> x) xs \<Longrightarrow> 0 \<le> sum_list (xs :: int list)"
  by (induction xs) auto

lemma stage_valid_facts:
  assumes "validate_stage s = Inr s"
  shows "0 \<le> pst_prediction_bytes s" "0 \<le> pst_cache_bytes s" "0 \<le> pst_wall_seconds s"
  using assms by (auto simp: validate_stage_def Let_def guards_Inr_iff)

lemma schedule_valid:
  assumes P: "validate_protocol P p = Inr p" and I: "validate_pilot_inventory P i = Inr i" and fl: "nonneg_floats P"
    and sha: "\<And>t. is_sha256 (pp_sha P t)"
    and stages: "list_all2 (stage_of i) (slices 2 (pci_datasets i)) stages"
    and staged: "mset (concat (map pst_conditions stages)) = mset (map pcn_id (pci_records i))"
  shows "validate_schedule P (schedule_of P p i (pci_datasets i) stages) = Inr (schedule_of P p i (pci_datasets i) stages)"
proof -
  note IF = inventory_facts [OF I] and PF = protocol_facts [OF P]
  let ?s = "schedule_of P p i (pci_datasets i) stages"
  obtain a b c d e f g h where ids: "pci_datasets i = [a, b, c, d, e, f, g, h]"
    and sl: "slices 2 (pci_datasets i) = [[a, b], [c, d], [e, f], [g, h]]"
    by (rule slices_eight [OF IF(7)])
  have each: "\<exists>g. stage_of i g s" if "s \<in> set stages" for s
    using stages that by (auto simp: list_all2_conv_all_nth in_set_conv_nth)
  then have valid: "validate_stage s = Inr s" if "s \<in> set stages" for s using that by (auto simp: stage_of_def)
  have all: "validate_all validate_stage stages = Inr ()" using valid by (auto simp: validate_all_Inr)
  have sets: "map pst_datasets stages = slices 2 (pci_datasets i)"
    using stages by (induction rule: list_all2_induct) (auto simp: stage_of_def)
  have ne: "stages \<noteq> []" using stages sl by auto
  have len: "length (concat (map pst_conditions stages)) = length (pci_records i)"
    using staged by (metis length_map size_mset)
  have dist: "distinct (concat (map pst_conditions stages))"
    using staged IF(2) mset_eq_imp_distinct_iff by blast
  obtain st rest where st: "stages = st # rest" using ne by (cases stages) auto
  have "pst_conditions st \<noteq> []" using valid [of st] st by (auto simp: validate_stage_def Let_def guards_Inr_iff)
  then have one: "1 \<le> pci_conditions i" using len IF(3) st by (cases "pst_conditions st") auto
  have bytes: "list_all (\<lambda>x. 0 \<le> x) (map pst_prediction_bytes stages)" "list_all (\<lambda>x. 0 \<le> x) (map pst_cache_bytes stages)"
    "list_all (\<lambda>x. 0 \<le> x) (map pst_wall_seconds stages)"
    using stage_valid_facts [OF valid] by (auto simp: list_all_iff)
  have hard: "0 < rsp_hard_wall_seconds (ppa_resource_policy p)"
    using PF(2) by (auto simp: validate_resource_policy_def guards_Inr_iff)
  have G: "\<not> (psc_conditions ?s < 1)" "\<not> (psc_hard_limit ?s \<le> 0)"
    "\<not> (psc_not_applicable ?s < 0 \<or> psc_wall_seconds ?s < 0 \<or> psc_prediction_bytes ?s < 0 \<or> psc_cache_bytes ?s < 0)"
    using one hard IF(9) fl bytes sum_list_nonneg_int [OF bytes(1)] sum_list_nonneg_int [OF bytes(2)]
    by (auto simp: schedule_of_simps nonneg_floats_def not_less)
  have shas: "list_all is_sha256 [psc_sha ?s, psc_protocol_sha ?s, psc_inventory_sha ?s]"
    unfolding schedule_of_sha schedule_of_simps using PF(5) IF(10) is_sha256_json [OF sha] by simp
  have conc: "concat (map pst_datasets stages) = pci_datasets i" by (simp only: sets concat_slices [OF IF(7)])
  have cnt: "int (length (concat (map pst_conditions stages))) = psc_conditions ?s" by (simp only: len IF(3) schedule_of_simps)
  have close: "is_close P (pp_sum P (map pst_wall_seconds (psc_stages ?s))) (psc_wall_seconds ?s) tol" for tol
    by (simp add: is_close_def schedule_of_simps)
  have lim: "psc_within_limit ?s = list_all (\<lambda>t. pst_wall_seconds t \<le> of_int (psc_hard_limit ?s)) (psc_stages ?s)"
    by (simp only: schedule_of_simps)
  show ?thesis
    unfolding validate_schedule_def Let_def
    using all shas G conc cnt close lim dist ne sets schedule_of_sha [of P p i "pci_datasets i" stages] IF(7) IF(8) [symmetric]
    by (simp only: schedule_of_simps(3,4,10,11) bindr_simps guards.simps simp_thms if_False)
qed

theorem schedule_succeeds:
  assumes P: "validate_protocol P p = Inr p" and I: "validate_pilot_inventory P i = Inr i" and fl: "nonneg_floats P"
    and sha: "\<And>t. is_sha256 (pp_sha P t)" and bound: "pci_protocol_sha i = ppa_sha p"
    and ids: "map pds_id (ppa_selected p) = pci_datasets i" and reg: "regular_records i"
  shows "\<exists>s. build_staged_schedule P p i = Inr s \<and> complete_schedule i s"
proof -
  note IF = inventory_facts [OF I] and PF = protocol_facts [OF P]
  obtain a b c d e f g h where L: "pci_datasets i = [a, b, c, d, e, f, g, h]"
    and sl: "slices 2 (pci_datasets i) = [[a, b], [c, d], [e, f], [g, h]]"
    by (rule slices_eight [OF IF(7)])
  have srt: "sorted_wrt (<) (pci_datasets i)"
    by (subst IF(8)) (rule strict_sorted_list_of_set)
  have pairs: "a < b" "c < d" "e < f" "g < h" using srt L by auto
  have dist: "distinct (pci_datasets i)" by (metis IF(8) distinct_sorted_list_of_set)
  have mem: "\<exists>s. build_stage P p i [x, y] = Inr s \<and> stage_of i [x, y] s" if "[x, y] \<in> set (slices 2 (pci_datasets i))" for x y
  proof (rule build_stage_ready [OF P I fl ids reg])
    show "x \<in> set (pci_datasets i)" "y \<in> set (pci_datasets i)" "x < y" using that [unfolded sl] pairs unfolding L by auto
  qed
  have "\<exists>stages. mapr (build_stage P p i) (slices 2 (pci_datasets i)) = Inr stages \<and> list_all2 (stage_of i) (slices 2 (pci_datasets i)) stages"
    using mem [of a b] mem [of c d] mem [of e f] mem [of g h] unfolding sl by fastforce
  then obtain stages where stages: "mapr (build_stage P p i) (slices 2 (pci_datasets i)) = Inr stages"
    "list_all2 (stage_of i) (slices 2 (pci_datasets i)) stages" by blast
  have cover: "mset (group_conditions i (pci_datasets i)) = mset (pci_records i)"
    unfolding group_conditions_def
    by (rule mset_groups [OF dist]) (use reg in \<open>auto simp: regular_records_def list_all_iff\<close>)
  have staged: "mset (concat (map pst_conditions stages)) = mset (map pcn_id (pci_records i))"
    using staged_mset [OF stages(2)] cover by (simp add: concat_slices [OF IF(7)])
  have dstaged: "distinct (concat (map pst_conditions stages))" using staged IF(2) mset_eq_imp_distinct_iff by blast
  have sstaged: "set (concat (map pst_conditions stages)) = set (map pcn_id (pci_records i))" by (rule mset_eq_setD [OF staged])
  have counts: "(\<Sum>s \<leftarrow> stages. dict_get 0 (pst_model_counts s) m) = dict_get 0 (pci_by_model i) m" if "m \<in> set MODEL_ORDER" for m
  proof -
    have "count_where (\<lambda>c. pcn_model c = m) (group_conditions i (pci_datasets i)) = count_where (\<lambda>c. pcn_model c = m) (pci_records i)"
      by (rule count_where_mset [OF cover])
    moreover have "distinct (map fst (counts_by id pcn_model MODEL_ORDER (pci_records i)))"
      using model_order_facts(1) by (simp add: counts_by_def comp_def)
    ultimately show ?thesis
      using staged_counts [OF stages(2) that] dict_get_cong [OF IF(4)]
        dict_get_counts [OF model_order_facts(1) that, of pcn_model "pci_records i"]
      by (simp add: concat_slices [OF IF(7)])
  qed
  have srt2: "sort (map pds_id (ppa_selected p)) = pci_datasets i"
    unfolding ids by (rule sorted_sort_id) (use srt strict_sorted_imp_sorted in blast)
  have nofind: "find (\<lambda>c. pcn_dataset c \<notin> set (pci_datasets i)) (pci_records i) = None"
    using reg by (auto simp: find_None_list_all regular_records_def list_all_iff)
  have work: "set (map fst (rte_work (ppa_estimate p))) = set (pci_datasets i)" by (simp only: PF(4) ids)
  have nocount: "\<not> list_ex (\<lambda>m. (\<Sum>s \<leftarrow> stages. dict_get 0 (pst_model_counts s) m) \<noteq> dict_get 0 (pci_by_model i) m) MODEL_ORDER"
    using counts by (auto simp: list_ex_iff)
  have "build_staged_schedule P p i = Inr (schedule_of P p i (pci_datasets i) stages)"
    unfolding build_staged_schedule_def Let_def srt2 DATASETS_PER_STAGE_def
    using bound work nofind stages(1) dstaged sstaged nocount schedule_valid [OF P I fl sha stages(2) staged]
    by (simp only: simp_thms if_False option.case bindr_simps)
  moreover have "complete_schedule i (schedule_of P p i (pci_datasets i) stages)"
    using stages(2) dstaged sstaged by (simp add: complete_schedule_def schedule_of_simps)
  ultimately show ?thesis by blast
qed

end
