(* ===== verification/Pilot_Selection_Facts.thy ===== *)
theory Pilot_Selection_Facts
  imports Pilot_Selection Split_Facts "HOL-Library.Sublist"
begin

text \<open>
  Facts on the search for the pilot's data sets: the combinations are the subsequences of their
  length, the search keeps the best entry it has seen, and a score does not depend on the order of a
  cohort.
\<close>

section \<open>Combinations\<close>

lemma combinations_set: "set (combinations xs k) = {ys. subseq ys xs \<and> length ys = k}"
proof (induction xs k rule: combinations.induct)
  case (3 x xs k)
  show ?case
  proof (intro set_eqI iffI)
    fix ys assume "ys \<in> set (combinations (x # xs) (Suc k))"
    then show "ys \<in> {ys. subseq ys (x # xs) \<and> length ys = Suc k}"
      using 3 by auto
  next
    fix ys assume "ys \<in> {ys. subseq ys (x # xs) \<and> length ys = Suc k}"
    then show "ys \<in> set (combinations (x # xs) (Suc k))"
      using 3 by (cases ys) (auto simp: subseq_Cons2_iff split: if_splits)
  qed
qed auto

lemma subseq_of_subset: "\<exists>ys. subseq ys xs \<and> set ys = T \<and> (distinct xs \<longrightarrow> distinct ys)" if "T \<subseteq> set xs"
proof -
  have "subseq (filter (\<lambda>x. x \<in> T) xs) xs" by simp
  moreover have "set (filter (\<lambda>x. x \<in> T) xs) = T" using that by auto
  ultimately show ?thesis by (metis distinct_filter)
qed

lemma combination_of_subset:
  assumes "distinct xs" and "T \<subseteq> set xs" and "card T = k"
  obtains ys where "ys \<in> set (combinations xs k)" and "set ys = T" and "distinct ys"
  using subseq_of_subset [OF assms(2)] assms by (auto simp: combinations_set distinct_card)

lemma combination_subset: "ys \<in> set (combinations xs k) \<Longrightarrow> set ys \<subseteq> set xs \<and> length ys = k"
  by (auto simp: combinations_set subseq_conv_nths dest: in_set_nthsD)

lemma combination_distinct: "distinct xs \<Longrightarrow> ys \<in> set (combinations xs k) \<Longrightarrow> distinct ys"
  by (auto simp: combinations_set subseq_conv_nths intro: distinct_nthsI)

section \<open>The best entry\<close>

text \<open>An entry is at least as good as another: a larger score, or the same score and not larger identities.\<close>

definition at_least :: "score \<times> int list \<Rightarrow> score \<times> int list \<Rightarrow> bool" where
  "at_least a b \<longleftrightarrow> fst b < fst a \<or> (fst b = fst a \<and> snd a \<le> snd b)"

lemma at_least_refl [simp]: "at_least a a"
  by (simp add: at_least_def)

lemma lexicographic_trans:
  fixes x y z :: "'a :: linorder" and i j k :: "'b :: linorder"
  shows "y < x \<or> (y = x \<and> i \<le> j) \<Longrightarrow> z < y \<or> (z = y \<and> j \<le> k) \<Longrightarrow> z < x \<or> (z = x \<and> i \<le> k)"
  by auto

lemma lexicographic_total:
  fixes x y :: "'a :: linorder" and i j :: "'b :: linorder"
  shows "x < y \<or> (y = x \<and> j < i) \<Longrightarrow> x < y \<or> (x = y \<and> j \<le> i)"
    and "\<not> (x < y \<or> (y = x \<and> j < i)) \<Longrightarrow> y < x \<or> (y = x \<and> i \<le> j)"
  by auto

lemma at_least_trans: "at_least a b \<Longrightarrow> at_least b c \<Longrightarrow> at_least a c"
  unfolding at_least_def by (rule lexicographic_trans)

lemma better_Some:
  obtains m where "better best new = Some m" and "at_least m new" and "\<And>b. best = Some b \<Longrightarrow> at_least m b"
    and "m = new \<or> best = Some m"
proof (cases best)
  case None
  then show thesis using that by (simp add: better_def)
next
  case (Some b)
  obtain s ids where b: "b = (s, ids)" by (cases b) blast
  show thesis
  proof (cases "s < fst new \<or> (fst new = s \<and> snd new < ids)")
    case True
    then have "at_least new b" unfolding at_least_def b fst_conv snd_conv by (rule lexicographic_total)
    moreover have "better best new = Some new" unfolding better_def Some b by (simp only: option.case prod.case True if_True)
    ultimately show thesis using Some by (intro that [of new]) simp_all
  next
    case False
    then have "at_least b new" unfolding at_least_def b fst_conv snd_conv by (rule lexicographic_total)
    moreover have "better best new = Some b" unfolding better_def Some b by (simp only: option.case prod.case False if_False)
    ultimately show thesis using Some by (intro that [of b]) simp_all
  qed
qed

lemma foldl_better:
  "foldl better best es = Some m \<Longrightarrow>
     (m \<in> set es \<or> best = Some m) \<and> (\<forall>e \<in> set es. at_least m e) \<and> (\<forall>b. best = Some b \<longrightarrow> at_least m b)"
proof (induction es arbitrary: best)
  case (Cons e es)
  obtain n where n: "better best e = Some n" "at_least n e" "\<And>b. best = Some b \<Longrightarrow> at_least n b" "n = e \<or> best = Some n"
    by (rule better_Some [of best e]) blast
  from Cons.prems n(1) have "foldl better (Some n) es = Some m" by simp
  from Cons.IH [OF this] n show ?case
    by (auto intro: at_least_trans)
qed simp

lemma foldl_better_Some: "\<exists>m. foldl better (Some b) es = Some m"
proof (induction es arbitrary: b)
  case (Cons e es)
  obtain m where "better (Some b) e = Some m" by (rule better_Some [of "Some b" e])
  then show ?case using Cons [of m] by simp
qed simp

lemma foldl_better_nonempty: "es \<noteq> [] \<Longrightarrow> \<exists>m. foldl better None es = Some m"
  using foldl_better_Some by (cases es) (simp_all add: better_def)

section \<open>Scores do not depend on the order\<close>

lemma sum_list_count_list: "(\<Sum>q \<leftarrow> remdups ps. count_list ps q) = length ps"
  by (simp add: sum_list_distinct_conv_sum_set sum_count_set)

lemma profile_collisions_eq: "profile_collisions ps = int (length ps) - int (card (set ps))"
proof -
  have "(\<Sum>q \<leftarrow> filter (\<lambda>q. 1 < count_list ps q) qs. int (count_list ps q) - 1) = (\<Sum>q \<leftarrow> qs. int (count_list ps q) - 1)"
    if "set qs \<subseteq> set ps" for qs
    using that
  proof (induction qs)
    case (Cons q qs)
    then have "count_list ps q \<noteq> 0" by (simp add: count_list_0_iff)
    then have "\<not> 1 < count_list ps q \<Longrightarrow> count_list ps q = 1" by simp
    with Cons show ?case by auto
  qed simp
  from this [of "remdups ps"]
  have "profile_collisions ps = (\<Sum>q \<leftarrow> remdups ps. int (count_list ps q) - 1)"
    by (simp add: profile_collisions_def)
  also have "\<dots> = (\<Sum>q \<leftarrow> remdups ps. int (count_list ps q)) - int (length (remdups ps))"
    by (simp add: sum_list_subtractf sum_list_triv)
  also have "(\<Sum>q \<leftarrow> remdups ps. int (count_list ps q)) = int (\<Sum>q \<leftarrow> remdups ps. count_list ps q)"
    by (simp add: sum_list_of_nat [symmetric] comp_def)
  finally show ?thesis by (simp add: sum_list_count_list length_remdups_card_conv)
qed

lemma cohort_score_cong:
  assumes "set cs = set ds" and "length cs = length ds"
  shows "cohort_score P p cs = Inr s \<longleftrightarrow> cohort_score P p ds = Inr s"
proof -
  have "cohort_score P p ds = Inr s"
    if S: "cohort_score P p cs = Inr s" and eq: "set cs = set ds" "length cs = length ds" for cs ds :: "candidate_record list"
  proof -
    from S obtain ps where ps: "mapr (duplicate_profile P p) cs = Inr ps"
      and s: "s = (required_covered p cs, int (card (strata cs)), - profile_collisions ps, int (card (signatures cs)))"
      by (auto simp: cohort_score_def bindr_Inr_iff)
    have "\<exists>qs. mapr (duplicate_profile P p) ds = Inr qs"
      by (rule mapr_complete) (use mapr_total [OF ps] eq in auto)
    then obtain qs where qs: "mapr (duplicate_profile P p) ds = Inr qs" ..
    have "set qs = set ps" by (simp add: mapr_set [OF ps] mapr_set [OF qs] eq)
    moreover have "length qs = length ps" using mapr_length [OF ps] mapr_length [OF qs] eq by simp
    ultimately show ?thesis
      by (simp add: cohort_score_def qs s profile_collisions_eq required_covered_def strata_def signatures_def eq)
  qed
  from this [of cs ds] this [of ds cs] assms show ?thesis by metis
qed

section \<open>Cohorts\<close>

text \<open>A cohort: eight different candidates, the anchor among them.\<close>

definition is_cohort :: "candidate_record list \<Rightarrow> candidate_record list \<Rightarrow> bool" where
  "is_cohort candidates S \<longleftrightarrow> set S \<subseteq> set candidates \<and> distinct S \<and> length S = 8 \<and> ANCHOR_ID \<in> cnd_id ` set S"

lemma anchor_singleton:
  assumes "distinct (map cnd_id xs)" and "ANCHOR_ID \<in> cnd_id ` set xs"
  obtains a where "a \<in> set xs" "cnd_id a = ANCHOR_ID" "filter (\<lambda>c. cnd_id c = ANCHOR_ID) xs = [a]"
    "\<And>c. c \<in> set xs \<Longrightarrow> cnd_id c = ANCHOR_ID \<Longrightarrow> c = a"
proof -
  from assms(2) obtain a where a: "a \<in> set xs" "cnd_id a = ANCHOR_ID" by auto
  have u: "\<And>c. c \<in> set xs \<Longrightarrow> cnd_id c = ANCHOR_ID \<Longrightarrow> c = a"
  proof -
    fix c assume "c \<in> set xs" "cnd_id c = ANCHOR_ID"
    moreover from assms(1) have "inj_on cnd_id (set xs)" by (simp add: distinct_map)
    ultimately show "c = a" using a by (simp add: inj_on_def)
  qed
  have "filter (\<lambda>c. cnd_id c = ANCHOR_ID) xs = filter (\<lambda>c. c = a) xs"
  proof (rule filter_cong [OF refl])
    fix c assume "c \<in> set xs"
    from u [OF this] a(2) show "(cnd_id c = ANCHOR_ID) = (c = a)" by blast
  qed
  moreover have "distinct ys \<Longrightarrow> a \<in> set ys \<Longrightarrow> filter (\<lambda>c. c = a) ys = [a]" for ys
    by (induction ys) (auto simp: filter_empty_conv)
  then have "filter (\<lambda>c. c = a) xs = [a]"
    using assms(1) a(1) by (simp add: distinct_map)
  ultimately have "filter (\<lambda>c. cnd_id c = ANCHOR_ID) xs = [a]" by simp
  from that [OF a this u] show thesis .
qed

lemma cohorts_sound:
  assumes d: "distinct (map cnd_id ordered)" and anchor: "ANCHOR_ID \<in> cnd_id ` set ordered"
    and S: "S \<in> set (cohorts ordered)"
  shows "is_cohort ordered S"
proof -
  obtain a where a: "a \<in> set ordered" "cnd_id a = ANCHOR_ID" "filter (\<lambda>c. cnd_id c = ANCHOR_ID) ordered = [a]"
    by (rule anchor_singleton [OF d anchor])
  let ?others = "filter (\<lambda>c. cnd_id c \<noteq> ANCHOR_ID) ordered"
  from S obtain r where r: "r \<in> set (combinations ?others 7)" "S = a # r"
    by (auto simp: cohorts_def a(3))
  have "distinct ?others" using d by (simp add: distinct_map)
  from combination_distinct [OF this r(1)] combination_subset [OF r(1)] a(1,2) r(2)
  show ?thesis by (auto simp: is_cohort_def)
qed

lemma cohorts_complete:
  assumes d: "distinct (map cnd_id ordered)" and T: "is_cohort ordered T"
  obtains S where "S \<in> set (cohorts ordered)" and "set S = set T" and "length S = length T"
proof -
  let ?others = "filter (\<lambda>c. cnd_id c \<noteq> ANCHOR_ID) ordered"
  from T have anchor: "ANCHOR_ID \<in> cnd_id ` set ordered" by (auto simp: is_cohort_def)
  obtain a where a: "a \<in> set ordered" "cnd_id a = ANCHOR_ID" "filter (\<lambda>c. cnd_id c = ANCHOR_ID) ordered = [a]"
    "\<And>c. c \<in> set ordered \<Longrightarrow> cnd_id c = ANCHOR_ID \<Longrightarrow> c = a"
    by (rule anchor_singleton [OF d anchor]) blast
  have aT: "a \<in> set T" using T a(4) by (auto simp: is_cohort_def)
  have others: "set T - {a} \<subseteq> set ?others" using T a(4) by (auto simp: is_cohort_def)
  have "card (set T) = 8" using T by (simp add: is_cohort_def distinct_card)
  with aT have "card (set T - {a}) = 7" by simp
  moreover have "distinct ?others" using d by (simp add: distinct_map)
  ultimately obtain r where r: "r \<in> set (combinations ?others 7)" "set r = set T - {a}"
    using combination_of_subset [OF _ others] by blast
  show thesis
  proof (rule that [of "a # r"])
    show "a # r \<in> set (cohorts ordered)" using r(1) by (simp add: cohorts_def a(3))
    show "set (a # r) = set T" using r(2) aT by auto
    show "length (a # r) = length T" using combination_subset [OF r(1)] T by (simp add: is_cohort_def)
  qed
qed

lemma sorted_ids_cong:
  assumes "distinct (map cnd_id ordered)" "is_cohort ordered S" "is_cohort ordered T" "set S = set T"
  shows "sort (map cnd_id S) = sort (map cnd_id T)"
proof -
  have "distinct S" "distinct T" using assms by (simp_all add: is_cohort_def)
  then have "mset S = mset T" using assms(4) by (simp add: set_eq_iff_mset_eq_distinct)
  then have "mset (map cnd_id S) = mset (map cnd_id T)" by simp
  then show ?thesis by (metis sorted_list_of_multiset_mset)
qed

lemma select_sound:
  assumes "select_candidate_ids P candidates p = Inr ids"
  obtains S s where "is_cohort candidates S" and "cohort_score P p S = Inr s" and "ids = sort (map cnd_id S)"
    and "\<And>T t. is_cohort candidates T \<Longrightarrow> cohort_score P p T = Inr t \<Longrightarrow> at_least (s, ids) (t, sort (map cnd_id T))"
    and "\<And>T. is_cohort candidates T \<Longrightarrow> \<exists>t. cohort_score P p T = Inr t"
    and "distinct (map cnd_id candidates)"
proof -
  let ?O = "sort_key cnd_id candidates"
  from assms obtain entries where g: "guards (candidate_guards ?O) ?O = Inr ?O"
    and e: "mapr (cohort_entry P p) (cohorts ?O) = Inr entries"
    and best: "(case foldl better None entries of None \<Rightarrow> Inl (ValueError ''no deterministic eight-dataset selection could be constructed'')
       | Some (_, ids) \<Rightarrow> Inr ids) = Inr ids"
    by (auto simp: select_candidate_ids_def Let_def bindr_Inr_iff dest: guards_same)
  from guards_all [OF g] have c: "length (map cnd_id ?O) = card (set (map cnd_id ?O))" and anchor: "ANCHOR_ID \<in> set (map cnd_id ?O)"
    unfolding candidate_guards_def Let_def list.pred_inject fst_conv not_not by blast+
  have d: "distinct (map cnd_id ?O)" using c by (simp add: card_distinct)
  have anchor': "ANCHOR_ID \<in> cnd_id ` set ?O" using anchor by simp
  have same: "is_cohort candidates T = is_cohort ?O T" for T by (simp add: is_cohort_def)
  have entry: "\<exists>S t. e = (t, sort (map cnd_id S)) \<and> S \<in> set (cohorts ?O) \<and> cohort_score P p S = Inr t" if "e \<in> set entries" for e
    using that mapr_set [OF e] by (auto simp: cohort_entry_def bindr_Inr_iff)
  from best obtain s where s: "foldl better None entries = Some (s, ids)"
    by (auto split: option.splits)
  from foldl_better [OF this] have mem: "(s, ids) \<in> set entries" and best: "\<And>e. e \<in> set entries \<Longrightarrow> at_least (s, ids) e"
    by auto
  from entry [OF mem] obtain S where S: "S \<in> set (cohorts ?O)" "cohort_score P p S = Inr s" "ids = sort (map cnd_id S)"
    by auto
  have score: "\<exists>t. cohort_score P p T = Inr t \<and> at_least (s, ids) (t, sort (map cnd_id T))" if T: "is_cohort ?O T" for T
  proof -
    obtain U where U: "U \<in> set (cohorts ?O)" "set U = set T" "length U = length T" by (rule cohorts_complete [OF d T])
    from mapr_total [OF e U(1)] obtain t where t: "cohort_score P p U = Inr t"
      by (auto simp: cohort_entry_def bindr_Inr_iff)
    then have "cohort_entry P p U = Inr (t, sort (map cnd_id U))" by (simp add: cohort_entry_def)
    with U(1) have mem: "(t, sort (map cnd_id U)) \<in> set entries" by (auto simp: mapr_set [OF e])
    from t have "cohort_score P p T = Inr t" using cohort_score_cong [OF U(2,3), of P p t] by simp
    moreover have "sort (map cnd_id U) = sort (map cnd_id T)"
      by (rule sorted_ids_cong [OF d cohorts_sound [OF d anchor' U(1)] T U(2)])
    ultimately show ?thesis using best [OF mem] by auto
  qed
  show thesis
  proof (rule that [OF _ S(2,3)])
    show "is_cohort candidates S" using cohorts_sound [OF d anchor' S(1)] by (simp add: same)
    show "at_least (s, ids) (t, sort (map cnd_id T))" if "is_cohort candidates T" "cohort_score P p T = Inr t" for T t
      using score [of T] that by (auto simp: same)
    show "\<exists>t. cohort_score P p T = Inr t" if "is_cohort candidates T" for T
      using score [of T] that by (auto simp: same)
    show "distinct (map cnd_id candidates)" using d by (simp add: distinct_map)
  qed
qed

text \<open>The order of the candidates does not matter.\<close>

lemma select_order:
  assumes "mset candidates = mset candidates'" and "distinct (map cnd_id candidates)"
  shows "select_candidate_ids P candidates' p = select_candidate_ids P candidates p"
proof -
  have "sort_key cnd_id candidates = sort_key cnd_id candidates'"
  proof (rule map_sorted_distinct_set_unique [where f = cnd_id])
    have set: "set candidates = set candidates'" using assms(1) by (metis set_mset_mset)
    have "mset (map cnd_id candidates) = mset (map cnd_id candidates')" using assms(1) by simp
    then have d: "distinct (map cnd_id candidates')" using assms(2) by (metis mset_eq_imp_distinct_iff)
    show "inj_on cnd_id (set (sort_key cnd_id candidates) \<union> set (sort_key cnd_id candidates'))"
      using assms(2) by (simp add: set [symmetric] distinct_map)
    show "distinct (map cnd_id (sort_key cnd_id candidates))" "distinct (map cnd_id (sort_key cnd_id candidates'))"
      using assms(2) d by (simp_all add: distinct_map)
    show "set (sort_key cnd_id candidates) = set (sort_key cnd_id candidates')" by (simp add: set)
  qed simp_all
  then show ?thesis by (simp add: select_candidate_ids_def)
qed

end
