(* ===== verification/Pilot_Demo.thy ===== *)
theory Pilot_Demo
  imports Pilot_Schedule_Facts Pilot_Selection_Facts Split_Demo
begin

text \<open>
  A pilot plan on eight data sets, with a protocol: the concrete inputs of the pilot's witnesses. The
  digest of a planned condition is its position in the plan, so that no two conditions share one;
  every other text has the digest of the position behind the last condition.
\<close>

section \<open>Candidates\<close>

definition demo_policy :: selection_policy where
  "demo_policy = \<lparr>slp_max_rows = 6000, slp_max_features = 100, slp_max_classes = 10, slp_max_train_rows = 5000,
     slp_balanced_fraction = 3 / 5, slp_categorical_fraction = 1 / 4, slp_small_max_rows = 1000,
     slp_required_coverage = [''binary'', ''multiclass'', ''small'', ''medium''],
     slp_profile_fields = [''task_type'', ''size_band'', ''balance_band'']\<rparr>"

definition demo_candidate :: "int \<Rightarrow> int \<Rightarrow> int \<Rightarrow> string list \<Rightarrow> candidate_record" where
  "demo_candidate i rows classes tags = \<lparr>cnd_id = i, cnd_rows = rows, cnd_features = 4, cnd_numeric = 4, cnd_categorical = 0,
     cnd_classes = classes, cnd_distribution = [(''0'', rows div 2), (''1'', rows div 2)], cnd_missing = 0,
     cnd_duplicate_groups = 0, cnd_tags = tags, cnd_valid = True, cnd_seeds = EXPECTED_SPLIT_SEEDS, cnd_crossing = 0,
     cnd_models = MODEL_ORDER, cnd_extra = []\<rparr>"

definition demo_candidates :: "candidate_record list" where
  "demo_candidates = map (\<lambda>i. demo_candidate i 100 2 [''binary'', ''small'']) [3, 23, 29, 31, 36, 37, 1464]
     @ [demo_candidate 54 2000 3 [''multiclass'', ''medium''], demo_candidate 38 100 2 [''binary'', ''small'']]"

definition demo_pilot :: "(string \<Rightarrow> string) \<Rightarrow> pilot_params" where
  "demo_pilot sha = \<lparr>pp_sha = sha, pp_frepr = (\<lambda>_. ''1.0''), pp_fl = (\<lambda>x. x), pp_sum = sum_list\<rparr>"

section \<open>Data sets, views and models\<close>

definition demo_ids :: "int list" where
  "demo_ids = [3, 23, 29, 31, 36, 37, 54, 1464]"

definition demo_pilot_split :: "int \<Rightarrow> int \<Rightarrow> pilot_split" where
  "demo_pilot_split rows seed = \<lparr>spi_seed = seed, spi_assignment = zero_hash, spi_logical = zero_hash, spi_manifest = zero_hash,
     spi_crossing = 0, spi_row_count = rows,
     spi_partition_counts = [(''train'', rows - 40), (''calibration'', 20), (''test'', 20)]\<rparr>"

definition demo_dataset :: "int \<Rightarrow> pilot_dataset" where
  "demo_dataset d = (let rows = (if d = 54 then 2000 else 100); classes = (if d = 54 then 3 else 2) in
     \<lparr>pds_id = d, pds_version = ''1'', pds_file_id = d, pds_name = show_int d, pds_target = ''class'',
      pds_task_type = task_type_of classes, pds_rows = rows, pds_features = 4, pds_numeric = 4, pds_categorical = 0,
      pds_classes = classes, pds_distribution = [(''0'', rows div 2), (''1'', rows div 2)], pds_groups = rows,
      pds_duplicate_groups = 0, pds_license = ''Public'', pds_raw = zero_hash, pds_feature_sha = zero_hash,
      pds_target_sha = zero_hash, pds_quality_sha = zero_hash, pds_evidence_sha = demo_digest (if d = 1464 then 1 else 2),
      pds_splits = map (demo_pilot_split rows) EXPECTED_SPLIT_SEEDS,
      pds_tags = (if d = 54 then [''medium'', ''multiclass''] else [''binary'', ''small'']), pds_rationale = ''demo''\<rparr>)"

text \<open>The view V03 never applies.\<close>

definition demo_view :: "int \<times> int \<times> string \<Rightarrow> view_applicability" where
  "demo_view t = (case t of (d, seed, v) \<Rightarrow> let yes = v \<noteq> ''V03'' in
     \<lparr>pva_dataset = d, pva_seed = seed, pva_view = v, pva_name = v,
      pva_applicability = (if yes then ''APPLICABLE'' else ''NOT_APPLICABLE''),
      pva_reason_code = (if yes then None else Some ''NO_CATEGORICAL_COLUMN''),
      pva_reason = (if yes then None else Some ''no categorical column''), pva_record_sha = zero_hash,
      pva_config_sha = zero_hash, pva_implementation_sha = zero_hash, pva_type = ''BIJECTION'',
      pva_certificates = (if yes then [zero_hash, zero_hash, zero_hash] else []), pva_source_sha = Some zero_hash,
      pva_target_sha = zero_hash, pva_rtol = 0, pva_atol = 0, pva_max_error = Some 0\<rparr>)"

definition demo_model :: "string \<Rightarrow> model_entry" where
  "demo_model m = \<lparr>pme_id = m, pme_class = m, pme_package = m, pme_version = ''1'', pme_preprocessing = ''none'',
     pme_parameters = [], pme_config_sha = zero_hash, pme_preprocessing_sha = zero_hash, pme_checkpoint = None,
     pme_checkpoint_sha = None, pme_device = device_of_model m, pme_precision = ''float64'', pme_batch = ''full'',
     pme_evidence_sha = zero_hash\<rparr>"

definition demo_spec :: "string \<Rightarrow> model_spec" where
  "demo_spec m = \<lparr>msp_id = m, msp_class_path = m, msp_package = m, msp_version = ''1'', msp_checkpoint = None,
     msp_parameters = []\<rparr>"

text \<open>The digest with a number of at most three hexadecimal digits.\<close>

definition number_sha :: "nat \<Rightarrow> string" where
  "number_sha n = map (\<lambda>k. ''0123456789abcdef'' ! (k mod 16)) [n div 256, n div 16, n] @ replicate 61 CHR ''0''"

definition other_sha :: string where
  "other_sha = number_sha 1320"

definition demo_plan_context :: plan_context where
  "demo_plan_context = \<lparr>pct_protocol_sha = other_sha, pct_protocol_version = PROTOCOL_VERSION, pct_config_sha = zero_hash,
     pct_implementation_sha = zero_hash, pct_lock_sha = zero_hash, pct_source_sha = zero_hash, pct_metric_sha = zero_hash,
     pct_tolerance_sha = zero_hash, pct_models = map demo_model MODEL_ORDER, pct_specs = map demo_spec MODEL_ORDER,
     pct_selected = map demo_dataset demo_ids, pct_views = map demo_view (view_tuples demo_ids PILOT_SEEDS)\<rparr>"

definition demo_texts :: "string list" where
  "demo_texts = map (\<lambda>(t, m). canonical_text (condition_json
       (planned_identity (demo_pilot (\<lambda>_. other_sha)) demo_plan_context t m)))
     (List.product (view_tuples demo_ids PILOT_SEEDS) MODEL_ORDER)"

definition plan_sha :: "string \<Rightarrow> string" where
  "plan_sha s = number_sha (index_of demo_texts s)"

definition demo_plan_params :: pilot_params where
  "demo_plan_params = demo_pilot plan_sha"

section \<open>The digests\<close>

lemma number_sha_ok: "is_sha256 (number_sha n)"
proof -
  have "is_lower_hex (''0123456789abcdef'' ! (k mod 16))" for k
    unfolding is_lower_hex_def by (rule nth_mem) simp
  moreover have "is_lower_hex CHR ''0''" by (simp add: is_lower_hex_def)
  ultimately show ?thesis by (simp add: number_sha_def is_sha256_def list_all_iff)
qed

lemma hex_digit_inj: "a < 16 \<Longrightarrow> b < 16 \<Longrightarrow> ''0123456789abcdef'' ! a = ''0123456789abcdef'' ! b \<Longrightarrow> a = b"
  by (subst (asm) nth_eq_iff_index_eq) simp_all

lemma number_sha_inj:
  assumes "a < 4096" and "b < 4096" and "number_sha a = number_sha b"
  shows "a = b"
proof -
  have "a div 256 mod 16 = b div 256 mod 16" "a div 16 mod 16 = b div 16 mod 16" "a mod 16 = b mod 16"
    using assms(3) by (auto simp: number_sha_def intro: hex_digit_inj)
  moreover have "n = (n div 256 mod 16 * 16 + n div 16 mod 16) * 16 + n mod 16" if "n < 4096" for n :: nat
  proof -
    from that have "n div 256 mod 16 = n div 16 div 16" by (simp add: div_mult2_eq [symmetric])
    then show ?thesis by simp
  qed
  ultimately show ?thesis using assms(1,2) by metis
qed

lemma length_demo_texts: "length demo_texts = 1320"
  by (simp add: demo_texts_def length_view_tuples model_order_facts pilot_seeds_facts demo_ids_def)

lemma plan_sha_ok: "is_sha256 (plan_sha s)"
  by (simp add: plan_sha_def number_sha_ok)

lemma plan_sha_inj: "inj_on plan_sha (set demo_texts)"
proof (rule inj_onI)
  fix s t assume "s \<in> set demo_texts" "t \<in> set demo_texts" "plan_sha s = plan_sha t"
  moreover from this have "index_of demo_texts s = index_of demo_texts t"
    using index_of_less [of s demo_texts] index_of_less [of t demo_texts] length_demo_texts
    by (intro number_sha_inj) (simp_all add: plan_sha_def)
  ultimately show "s = t" by (metis index_of_less)
qed

lemma plan_sha_other: "s \<notin> set demo_texts \<Longrightarrow> plan_sha s = other_sha"
proof -
  assume "s \<notin> set demo_texts"
  then have "index_of demo_texts s = length demo_texts"
    unfolding index_of_def by (subst takeWhile_eq_all_conv [THEN iffD2]) auto
  then show ?thesis by (simp add: plan_sha_def other_sha_def length_demo_texts)
qed

text \<open>A JSON value without the field \<open>artifact_kind\<close> is not the payload of a condition.\<close>

lemma not_condition:
  assumes "wf_json j" and "\<And>kvs. j = JObj kvs \<Longrightarrow> map_of kvs ''artifact_kind'' = None"
  shows "sha256_canonical_json plan_sha j = other_sha"
proof -
  have "canonical_text j \<noteq> canonical_text (condition_json i)" for i
  proof
    assume "canonical_text j = canonical_text (condition_json i)"
    then have eq: "canonicalize j = canonicalize (condition_json i)"
      by (simp add: canonical_text_inj assms(1) wf_condition_json)
    obtain ks where shape: "condition_json i = JObj ks" by (simp add: condition_json_def)
    show False
    proof (cases j)
      case (JObj kvs)
      from canonicalize_field [OF eq [unfolded JObj condition_json_def], of "''artifact_kind''"] assms(2) [OF JObj]
      show False by simp
    qed (use eq shape in simp_all)
  qed
  then have "canonical_text j \<notin> set demo_texts" by (auto simp: demo_texts_def)
  then show ?thesis by (simp add: sha256_canonical_json_def plan_sha_other)
qed

section \<open>The plan is in order\<close>

lemma demo_sets:
  "set PILOT_SEEDS = {1729, 2718, 31415}" "set EXPECTED_SPLIT_SEEDS = {1729, 2718, 31415, 57721, 161803}"
  "set demo_ids = {3, 23, 29, 31, 36, 37, 54, 1464}"
  by (simp_all add: PILOT_SEEDS_def EXPECTED_SPLIT_SEEDS_def demo_ids_def)

lemma zero_hash_ok [simp]: "is_sha256 zero_hash"
  by (simp add: is_sha256_def zero_hash_def is_lower_hex_def list_all_iff)

lemma demo_dataset_ready:
  assumes "0 < d"
  shows "ready_dataset (demo_dataset d)"
proof -
  have "is_sha256 (demo_digest 1)" "is_sha256 (demo_digest 2)" by (simp_all add: demo_digest_sha)
  with assms show ?thesis
    by (simp add: ready_dataset_def demo_dataset_def validate_pilot_dataset_def validate_pilot_split_def demo_pilot_split_def
      EXPECTED_SPLIT_SEEDS_def PILOT_SEEDS_def split_covers_def dict_get_def task_type_of_def Let_def)
qed

lemma demo_view_ok:
  assumes "t \<in> set (view_tuples demo_ids PILOT_SEEDS)"
  shows "validate_view_applicability (demo_view t) = Inr (demo_view t)"
proof -
  obtain d seed v where t: "t = (d, seed, v)" by (cases t)
  with assms have "0 < d" "0 \<le> seed" "v \<in> set VIEW_ORDER" "0 \<noteq> d" by (auto simp: mem_view_tuples demo_sets)
  then show ?thesis
    by (simp add: t demo_view_def validate_view_applicability_def Let_def CERTIFICATE_TYPES_def option_bad_def missing_text_def
      negative_option_def)
qed

lemma demo_model_ready: "m \<in> set MODEL_ORDER \<Longrightarrow> ready_model (demo_model m)"
  by (simp add: ready_model_def demo_model_def validate_model_entry_def option_bad_def device_of_model_def)

lemma demo_tuple [simp]: "view_tuple (demo_view t) = t"
  by (cases t) (simp add: view_tuple_def demo_view_def Let_def)

lemma demo_plan_ready: "plan_ready demo_plan_context demo_ids"
proof -
  have "sorted_list_of_set {3, 23, 29, 31, 36, 37, 54, 1464 :: int} = [3, 23, 29, 31, 36, 37, 54, 1464]" by simp
  then have sorted: "demo_ids = sorted_list_of_set (set demo_ids)" unfolding demo_sets by (simp add: demo_ids_def)
  have ids: "map (pds_id \<circ> demo_dataset) demo_ids = demo_ids" by (simp add: demo_dataset_def demo_ids_def Let_def)
  have tuples: "map (view_tuple \<circ> demo_view) ts = ts" for ts by (simp add: comp_def)
  have models: "map (pme_id \<circ> demo_model) MODEL_ORDER = MODEL_ORDER" by (simp add: demo_model_def comp_def)
  have specs: "msp_id ` demo_spec ` set MODEL_ORDER = set MODEL_ORDER" by (simp add: demo_spec_def image_image)
  have pos: "\<forall>d \<in> set demo_ids. 0 < d" by (simp add: demo_sets)
  show ?thesis
    unfolding plan_ready_def demo_plan_context_def plan_context.simps list.map_comp ids tuples models list_all_iff set_map
    using sorted specs pos demo_dataset_ready demo_view_ok demo_model_ready number_sha_ok
    by (auto simp: demo_ids_def other_sha_def)
qed

text \<open>The conditions under the digest are those under the constant one.\<close>

lemma demo_pilot_parameters:
  assumes "m \<in> set MODEL_ORDER"
  shows "map_of (effective_parameters (demo_spec m) c x) ''artifact_kind'' = None"
    and "wf_json (JObj (effective_parameters (demo_spec m) c x))"
  by (auto simp: effective_parameters_def demo_spec_def)

lemma demo_pilot_identity:
  assumes "m \<in> set MODEL_ORDER"
  shows "planned_identity demo_plan_params demo_plan_context t m
    = planned_identity (demo_pilot (\<lambda>_. other_sha)) demo_plan_context t m"
proof -
  have "by_key msp_id (pct_specs demo_plan_context) m = Some (demo_spec m)"
    using assms by (auto simp: demo_plan_context_def by_key_def MODEL_ORDER_def demo_spec_def)
  moreover have "sha256_canonical_json plan_sha (json_strings ss) = other_sha" for ss
    by (rule not_condition) (auto simp: json_strings_def)
  moreover have "sha256_canonical_json plan_sha (JStr x) = other_sha" for x
    by (rule not_condition) auto
  moreover have "sha256_canonical_json plan_sha (JObj (effective_parameters (demo_spec m) c x)) = other_sha" for c x
    by (rule not_condition) (use demo_pilot_parameters [OF assms, of c x] in auto)
  moreover have "sha256_canonical_json (\<lambda>_. other_sha) j = other_sha" for j
    by (simp add: sha256_canonical_json_def)
  ultimately show ?thesis
    by (cases t) (simp add: planned_identity_def condition_of_def Let_def demo_plan_params_def demo_pilot_def)
qed

lemma demo_planned_texts: "planned_texts demo_plan_params demo_plan_context demo_ids = set demo_texts"
  unfolding planned_texts_def demo_texts_def set_map set_product
  by (rule image_cong) (auto simp: demo_pilot_identity)

lemma demo_plan_free:
  "inj_on (pp_sha demo_plan_params) (planned_texts demo_plan_params demo_plan_context demo_ids)"
  unfolding demo_planned_texts using plan_sha_inj by (simp add: demo_plan_params_def demo_pilot_def)

definition demo_sources :: "(string \<times> string) list" where
  "demo_sources = [(''src/a.py'', zero_hash)]"

lemma demo_sources_good: "good_sources demo_sources"
  by code_simp

lemma demo_plan_sha: "is_sha256 (pp_sha demo_plan_params t)"
  by (simp add: demo_plan_params_def demo_pilot_def plan_sha_ok)

section \<open>A protocol\<close>

definition demo_estimate :: runtime_estimate where
  "demo_estimate = \<lparr>rte_source_sha = zero_hash, rte_model_counts = [],
     rte_work = map (\<lambda>d. (d, [(''cpu'', 1), (''cuda'', 1)])) demo_ids, rte_storage = map (\<lambda>d. (d, 1)) demo_ids,
     rte_cpu_seconds = 8, rte_cuda_seconds = 8, rte_wall_seconds = 8, rte_prediction_bytes = 8, rte_cache_bytes = 16,
     rte_peak_ram = 1, rte_peak_vram = 1, rte_method = ''measured'', rte_preferred_wall = True, rte_hard_wall = True,
     rte_preferred_storage = True, rte_staging_required = False\<rparr>"

definition demo_resources :: resource_policy where
  "demo_resources = \<lparr>rsp_thread_environment = map (\<lambda>k. (k, ''2''))
       [''OMP_NUM_THREADS'', ''MKL_NUM_THREADS'', ''OPENBLAS_NUM_THREADS'', ''NUMEXPR_NUM_THREADS''],
     rsp_vram_ceiling_mib = 3600, rsp_ram_hard_limit_mib = 8000,
     rsp_timeout_seconds = [(''cpu_model_condition'', 600), (''cuda_model_condition'', 600)],
     rsp_preferred_wall_seconds = 3600, rsp_hard_wall_seconds = 7200, rsp_preferred_storage_bytes = 1000,
     rsp_artifact_overhead_bytes = 1, rsp_bytes_per_row_class = 8, rsp_bytes_per_row_id = 8, rsp_per_row_overhead_bytes = 8,
     rsp_safety_factor = 1, rsp_coordination_seconds = 0\<rparr>"

definition demo_decisions :: decision_policy where
  "demo_decisions = \<lparr>dcp_foundation_ids = cuda_models, dcp_absolute_wbd = 3 / 100, dcp_relative_wbd = 1 / 10,
     dcp_completion_rate = 95 / 100, dcp_breadth_datasets = 3, dcp_families = 2, dcp_seed_directions = 2, dcp_seed_count = 3,
     dcp_outcomes = PILOT_OUTCOMES\<rparr>"

definition demo_protocol :: protocol where
  "demo_protocol = \<lparr>ppa_sha = other_sha, ppa_source_commit = replicate 40 CHR ''0'', ppa_source_hashes = demo_sources,
     ppa_selection_policy = demo_policy, ppa_selected = map demo_dataset demo_ids,
     ppa_excluded = map (\<lambda>d. \<lparr>exd_id = d, exd_name = show_int d, exd_reason = exclusion_reason 3, exd_competitor = 3,
       exd_evidence_sha = zero_hash\<rparr>) [38, 44, 46, 50, 1067, 1489],
     ppa_seed_selection = \<lparr>pss_seeds = PILOT_SEEDS, pss_source_config = zero_hash, pss_split_identity = zero_hash\<rparr>,
     ppa_views = map (\<lambda>v. \<lparr>pve_id = v, pve_name = v, pve_family = v, pve_type = ''BIJECTION'', pve_role = ''CONTROL''\<rparr>) VIEW_ORDER,
     ppa_models = map demo_model MODEL_ORDER, ppa_decisions = REGISTRY_DECISIONS, ppa_metric_policy = JNull,
     ppa_leakage_policy = \<lparr>lkp_event_order = LABEL_EVENTS, lkp_must_not_influence = []\<rparr>, ppa_decision_policy = demo_decisions,
     ppa_resource_policy = demo_resources, ppa_retry_policy = \<lparr>rtp_retryable = RETRYABLE, rtp_non_retryable = NON_RETRYABLE\<rparr>,
     ppa_estimate = demo_estimate, ppa_inventory_sha = None, ppa_summary = []\<rparr>"

lemma demo_protocol_parts: "protocol_parts demo_plan_params demo_protocol = Inr ()"
proof -
  have "validate_selection_policy demo_policy = Inr demo_policy" by code_simp
  moreover have "validate_all validate_pilot_dataset (map demo_dataset demo_ids) = Inr ()"
    using demo_dataset_ready by (auto simp: validate_all_Inr ready_dataset_def demo_sets)
  moreover have "validate_all validate_excluded (ppa_excluded demo_protocol) = Inr ()"
    by (simp add: demo_protocol_def validate_all_Inr validate_excluded_def)
  moreover have "validate_seed_selection (ppa_seed_selection demo_protocol) = Inr (ppa_seed_selection demo_protocol)"
    by (simp add: demo_protocol_def validate_seed_selection_def PILOT_SEEDS_def)
  moreover have "validate_all validate_view_entry (ppa_views demo_protocol) = Inr ()"
    by (simp add: demo_protocol_def validate_all_Inr validate_view_entry_def CERTIFICATE_TYPES_def)
  moreover have "validate_all validate_model_entry (map demo_model MODEL_ORDER) = Inr ()"
    using demo_model_ready by (auto simp: validate_all_Inr ready_model_def)
  moreover have "validate_leakage_policy (ppa_leakage_policy demo_protocol) = Inr (ppa_leakage_policy demo_protocol)"
    by (simp add: demo_protocol_def validate_leakage_policy_def)
  moreover have "validate_decision_policy demo_plan_params demo_decisions = Inr demo_decisions"
    by (simp add: validate_decision_policy_def demo_decisions_def demo_plan_params_def demo_pilot_def)
  moreover have "validate_resource_policy demo_resources = Inr demo_resources" by code_simp
  moreover have "validate_retry_policy (ppa_retry_policy demo_protocol) = Inr (ppa_retry_policy demo_protocol)"
    by (simp add: demo_protocol_def validate_retry_policy_def RETRYABLE_def NON_RETRYABLE_def)
  moreover have "validate_runtime_estimate demo_estimate = Inr demo_estimate" by code_simp
  moreover have "ppa_selection_policy demo_protocol = demo_policy" "ppa_selected demo_protocol = map demo_dataset demo_ids"
    "ppa_models demo_protocol = map demo_model MODEL_ORDER" "ppa_decision_policy demo_protocol = demo_decisions"
    "ppa_resource_policy demo_protocol = demo_resources" "ppa_estimate demo_protocol = demo_estimate"
    by (simp_all add: demo_protocol_def)
  ultimately show ?thesis unfolding protocol_parts_def by (simp only: bindr_simps)
qed

lemma demo_protocol_sha: "sha256_canonical_json plan_sha (protocol_payload demo_plan_params demo_protocol) = other_sha"
proof (rule not_condition)
  have f: "float_text ''1.0''" by code_simp
  show "wf_json (protocol_payload demo_plan_params demo_protocol)"
    by (auto simp: protocol_payload_def demo_protocol_def demo_plan_params_def demo_pilot_def dict_json_def json_strings_def
      selection_policy_json_def pp_float_def f pilot_dataset_json_def pilot_split_json_def excluded_json_def seed_selection_json_def
      json_ints_def view_entry_json_def model_entry_json_def demo_model_def json_option_def leakage_policy_json_def
      decision_policy_json_def resource_policy_json_def staging_policy_json_def retry_policy_json_def runtime_estimate_json_def)
qed (auto simp: protocol_payload_def)

lemma demo_protocol_valid: "validate_protocol demo_plan_params demo_protocol = Inr demo_protocol"
proof -
  have sha: "pp_sha demo_plan_params = plan_sha" by (simp add: demo_plan_params_def demo_pilot_def)
  have sorted: "sorted_list_of_set {3, 23, 29, 31, 36, 37, 54, 1464 :: int} = [3, 23, 29, 31, 36, 37, 54, 1464]"
    "sorted_list_of_set {38, 44, 46, 50, 1067, 1489 :: int} = [38, 44, 46, 50, 1067, 1489]" by simp_all
  have ids: "map pds_id (ppa_selected demo_protocol) = [3, 23, 29, 31, 36, 37, 54, 1464]"
    "map exd_id (ppa_excluded demo_protocol) = [38, 44, 46, 50, 1067, 1489]"
    by (simp_all add: demo_protocol_def demo_ids_def demo_dataset_def Let_def)
  have covered: "set (slp_required_coverage demo_policy) \<subseteq> \<Union> (set ` pds_tags ` set (ppa_selected demo_protocol))"
    by (simp add: demo_policy_def demo_protocol_def demo_ids_def demo_dataset_def Let_def)
  have work: "set (map fst (rte_work demo_estimate)) = {3, 23, 29, 31, 36, 37, 54, 1464}"
    by (simp add: demo_estimate_def demo_ids_def)
  have all: "set SCHEMAORBIT_IDS = {3, 23, 29, 31, 36, 37, 54, 1464} \<union> {38, 44, 46, 50, 1067, 1489}"
    by (auto simp: SCHEMAORBIT_IDS_def)
  have views: "map pve_id (ppa_views demo_protocol) = VIEW_ORDER" "map pme_id (ppa_models demo_protocol) = MODEL_ORDER"
    by (simp_all add: demo_protocol_def demo_model_def comp_def)
  have fields: "ppa_sha demo_protocol = other_sha" "ppa_selection_policy demo_protocol = demo_policy"
    "ppa_source_commit demo_protocol = replicate 40 CHR ''0''" "ppa_inventory_sha demo_protocol = None"
    "ppa_source_hashes demo_protocol = demo_sources" "ppa_decisions demo_protocol = REGISTRY_DECISIONS"
    "pss_seeds (ppa_seed_selection demo_protocol) = PILOT_SEEDS" "length (ppa_views demo_protocol) = 11"
    "ppa_estimate demo_protocol = demo_estimate" "ppa_resource_policy demo_protocol = demo_resources"
    by (simp_all add: demo_protocol_def view_order_facts)
  have limits: "\<not> rte_staging_required demo_estimate" "rte_wall_seconds demo_estimate = 8" "rte_cache_bytes demo_estimate = 16"
    "rsp_preferred_wall_seconds demo_resources = 3600" "rsp_preferred_storage_bytes demo_resources = 1000"
    by (simp_all add: demo_estimate_def demo_resources_def)
  have commit: "is_commit (replicate 40 CHR ''0'')" by code_simp
  have sources: "demo_sources \<noteq> []" "list_all is_sha256 (map snd demo_sources)" "\<not> list_ex relative_path_refused (map fst demo_sources)"
    using demo_sources_good by (simp_all add: good_sources_def)
  have "list_all (\<lambda>g. \<not> fst g) (protocol_guards demo_plan_params demo_protocol)"
    unfolding protocol_guards_def Let_def list.pred_inject fst_conv not_not de_Morgan_disj ids fields limits views work sha
      demo_protocol_sha
    using covered all commit sources number_sha_ok [of 1320]
    by (simp add: sorted option_bad_def pilot_seeds_facts(2) other_sha_def limits(1))
  then show ?thesis by (simp add: validate_protocol_def demo_protocol_parts guards_pass)
qed

end
