(* ===== verification/Pilot_Metrics.thy ===== *)
theory Pilot_Metrics
  imports Pilot_Inventory Plan
begin

text \<open>
  The metrics and decisions of \<open>src/schemaguard/experiments/pilot_validation.py\<close>, with the
  reports of \<open>pilot_contracts.py\<close>: the order of the leakage events, the area under the ROC curve by
  pairs in chunks, Brier scores and label flips of the views, the feasibility gate, the six outcomes
  and the validation report. Floats are rationals, rounded by \<open>pp_fl\<close> where the code rounds;
  numpy's sum of a row and mean are arguments. The semantic instability index is not modelled.
\<close>

section \<open>Events\<close>

record leakage_event =
  lev_event :: string
  lev_sequence :: int
  lev_evidence :: string

definition validate_leakage_event :: "leakage_event \<Rightarrow> leakage_event result" where
  "validate_leakage_event e = guards
     [(lev_event e \<notin> set LABEL_EVENTS, ValueError ''event''), (lev_sequence e < 0, ValueError ''sequence''),
      (\<not> is_sha256 (lev_evidence e), ValueError ''evidence_sha256'')] e"

text \<open>\<open>validate_event_sequence\<close> on the names of the events; \<open>tuple.index\<close> raises when there is no such event.\<close>

definition index_result :: "string \<Rightarrow> string list \<Rightarrow> nat result" where
  "index_result x xs = (if x \<in> set xs then Inr (index_of xs x) else Inl (ValueError ''tuple.index(x): x not in tuple''))"

definition validate_event_sequence :: "string list \<Rightarrow> string list \<Rightarrow> unit result" where
  "validate_event_sequence observed expected =
     (if observed \<noteq> expected then Inl (ValueError ''leakage events do not match the frozen sealed-label order'')
      else if ''test_labels_opened'' \<in> set observed then
        bindr (index_result ''test_labels_opened'' observed) (\<lambda>opened.
        bindr (index_result ''prediction_structure_validated'' observed) (\<lambda>structural.
        if structural \<ge> opened then Inl (ValueError ''test labels were opened before prediction structure validation'')
        else Inr ()))
      else Inr ())"

section \<open>The area under the ROC curve\<close>

datatype auroc =
    Undefined
  | Defined (raw_auroc: py_float) (tolerant_auroc: py_float) (tie_pairs: nat)

text \<open>
  The credit of one pair of chunks: the number of pairs of a positive and a negative score with a
  property of their difference. The code adds counts and halves of counts, which are exact.
\<close>

definition pair_count :: "pilot_params \<Rightarrow> (py_float \<Rightarrow> bool) \<Rightarrow> py_float list \<Rightarrow> py_float list \<Rightarrow> nat" where
  "pair_count P q ps ns = sum_list (map (\<lambda>x. length (filter (\<lambda>y. q (pp_fl P (x - y))) ns)) ps)"

definition chunk_credit ::
  "pilot_params \<Rightarrow> py_float \<Rightarrow> py_float list \<Rightarrow> py_float list \<Rightarrow> rat \<times> rat \<times> nat \<Rightarrow> rat \<times> rat \<times> nat" where
  "chunk_credit P tol ps ns acc = (case acc of (raw, tolerant, ties) \<Rightarrow>
     let tied = pair_count P (\<lambda>d. \<bar>d\<bar> \<le> tol) ps ns in
     (raw + of_nat (pair_count P (\<lambda>d. 0 < d) ps ns) + of_nat (pair_count P (\<lambda>d. d = 0) ps ns) / 2,
      tolerant + of_nat (pair_count P (\<lambda>d. tol < d) ps ns) + of_nat tied / 2, ties + tied))"

text \<open>\<open>range(0, n, step)\<close> with the slices it starts.\<close>

definition chunks :: "nat \<Rightarrow> 'a list \<Rightarrow> 'a list list" where
  "chunks n xs = map (\<lambda>i. take n (drop (i * n) xs)) [0..<(length xs + n - 1) div n]"

definition accumulate_credit :: "pilot_params \<Rightarrow> py_float \<Rightarrow> nat \<Rightarrow> py_float list \<Rightarrow> py_float list \<Rightarrow> rat \<times> rat \<times> nat" where
  "accumulate_credit P tol n positive negative =
     fold (\<lambda>ps acc. fold (\<lambda>ns acc. chunk_credit P tol ps ns acc) (chunks n negative) acc) (chunks n positive) (0, 0, 0)"

definition finite_values :: "float_value list \<Rightarrow> py_float list option" where
  "finite_values xs = those (map float_number xs)"

definition scores_with :: "int \<Rightarrow> int list \<Rightarrow> py_float list \<Rightarrow> py_float list" where
  "scores_with label labels scores = map snd (filter (\<lambda>(l, _). l = label) (zip labels scores))"

definition chunked_binary_auroc ::
  "pilot_params \<Rightarrow> int list \<Rightarrow> float_value list \<Rightarrow> py_float \<Rightarrow> int \<Rightarrow> auroc result" where
  "chunked_binary_auroc P labels scores tol chunk_size =
     (if length labels \<noteq> length scores
      then Inl (ValueError ''AUROC labels and scores must be aligned one-dimensional arrays'')
      else if labels = [] \<or> \<not> set labels \<subseteq> {0, 1}
      then Inl (ValueError ''AUROC requires nonempty binary labels encoded as 0 and 1'')
      else case finite_values scores of
        None \<Rightarrow> Inl (ValueError ''AUROC scores must be finite'')
      | Some xs \<Rightarrow>
        if tol \<le> 0 \<or> chunk_size \<le> 0 then Inl (ValueError ''AUROC tie tolerance and chunk size must be positive'')
        else let positive = scores_with 1 labels xs; negative = scores_with 0 labels xs in
          if positive = [] \<or> negative = [] then Inr Undefined
          else case accumulate_credit P tol (nat chunk_size) positive negative of (raw, tolerant, ties) \<Rightarrow>
            let denominator = of_nat (length positive * length negative) in
            Inr (Defined (pp_fl P (raw / denominator)) (pp_fl P (tolerant / denominator)) ties))"

section \<open>Probability matrices\<close>

text \<open>A matrix is the list of its rows, whose entries may be NaN or infinite.\<close>

record metric_params =
  mtp_pilot :: pilot_params
  mtp_rowsum :: "py_float list \<Rightarrow> py_float"
  mtp_mean :: "py_float list \<Rightarrow> py_float"

definition probability_matrix :: "metric_params \<Rightarrow> float_value list list \<Rightarrow> py_float \<Rightarrow> py_float list list result" where
  "probability_matrix M rows atol =
     (if rows = [] \<or> list_ex (\<lambda>r. length r \<noteq> length (hd rows)) rows \<or> length (hd rows) < 2
      then Inl (ValueError ''probability input must be a nonempty rows-by-classes matrix'')
      else case those (map finite_values rows) of
        None \<Rightarrow> Inl (ValueError ''probabilities must be finite and lie in [0, 1]'')
      | Some m \<Rightarrow>
        if list_ex (list_ex (\<lambda>x. x < 0 \<or> 1 < x)) m then Inl (ValueError ''probabilities must be finite and lie in [0, 1]'')
        else if list_ex (\<lambda>r. atol < \<bar>pp_fl (mtp_pilot M) (mtp_rowsum M r - 1)\<bar>) m
        then Inl (ValueError ''probability rows do not sum to one within the frozen tolerance'') else Inr m)"

definition probability_inputs ::
  "metric_params \<Rightarrow> int list \<Rightarrow> float_value list list \<Rightarrow> py_float \<Rightarrow> (py_float list list \<times> nat list) result" where
  "probability_inputs M labels rows atol = bindr (probability_matrix M rows atol) (\<lambda>m.
     if length labels \<noteq> length m then Inl (ValueError ''labels and probability rows must be aligned'')
     else if labels = [] \<or> list_ex (\<lambda>l. l < 0 \<or> int (length (hd m)) \<le> l) labels
     then Inl (ValueError ''labels must use contiguous target codes represented in probabilities'')
     else Inr (m, map nat labels))"

text \<open>\<open>np.square(matrix - one_hot).sum(axis=1).mean()\<close>.\<close>

definition row_brier :: "metric_params \<Rightarrow> nat \<Rightarrow> py_float list \<Rightarrow> py_float" where
  "row_brier M label r = (let fl = pp_fl (mtp_pilot M) in
     mtp_rowsum M (map (\<lambda>(k, x). let d = fl (x - (if k = label then 1 else 0)) in fl (d * d)) (enumerate 0 r)))"

definition multiclass_brier_score :: "metric_params \<Rightarrow> int list \<Rightarrow> float_value list list \<Rightarrow> py_float \<Rightarrow> py_float result" where
  "multiclass_brier_score M labels rows atol = bindr (probability_inputs M labels rows atol) (\<lambda>(m, target).
     Inr (mtp_mean M (map2 (row_brier M) target m)))"

record brier_degradation =
  bdg_baseline :: py_float
  bdg_worst_view :: string
  bdg_worst :: py_float
  bdg_wbd :: py_float
  bdg_rwbd :: py_float

definition worst_view_brier_degradation ::
  "metric_params \<Rightarrow> int list \<Rightarrow> float_value list list \<Rightarrow> (string \<times> float_value list list) list \<Rightarrow> py_float \<Rightarrow> py_float
   \<Rightarrow> brier_degradation result" where
  "worst_view_brier_degradation M labels baseline views epsilon atol = (let fl = pp_fl (mtp_pilot M) in
     if views = [] \<or> ''V00'' \<in> set (map fst views)
     then Inl (ValueError ''at least one applicable transformed view is required'')
     else bindr (probability_inputs M labels baseline atol) (\<lambda>(bm, target).
     bindr (multiclass_brier_score M (map int target) baseline atol) (\<lambda>base.
     bindr (mapr (\<lambda>(v, rows). bindr (probability_inputs M labels rows atol) (\<lambda>(m, t).
         if length m \<noteq> length bm \<or> length (hd m) \<noteq> length (hd bm) \<or> t \<noteq> target
         then Inl (ValueError ''baseline and transformed probability matrices must align'')
         else bindr (multiclass_brier_score M (map int t) rows atol) (\<lambda>s. Inr (v, s)))) views) (\<lambda>by_view.
     case by_view of [] \<Rightarrow> Inl (ValueError ''min() iterable argument is empty'')
     | x # xs \<Rightarrow> let worst = min_by (\<lambda>(v, s). (- fl (s - base), v)) x xs; degradation = fl (snd worst - base) in
       if epsilon \<le> 0 then Inl (ValueError ''relative degradation epsilon must be finite and positive'')
       else Inr \<lparr>bdg_baseline = base, bdg_worst_view = fst worst, bdg_worst = snd worst, bdg_wbd = degradation,
         bdg_rwbd = fl (degradation / max base epsilon)\<rparr>))))"

text \<open>\<open>np.argmax\<close> of a row: the first of the largest entries.\<close>

fun arg_max :: "py_float list \<Rightarrow> nat" where
  "arg_max [] = 0"
| "arg_max [x] = 0"
| "arg_max (x # y # ys) = (let k = arg_max (y # ys) in if (y # ys) ! k > x then Suc k else 0)"

record flip_summary =
  flp_pairwise :: "(string \<times> py_float) list"
  flp_worst_view :: string
  flp_worst_rate :: py_float
  flp_worst_family :: string
  flp_any_rate :: py_float
  flp_flipped :: nat
  flp_rows :: nat

text \<open>The mean of a boolean array is its number of true entries divided by its length.\<close>

definition flip_rate :: "pilot_params \<Rightarrow> nat list \<Rightarrow> nat list \<Rightarrow> py_float" where
  "flip_rate P a b = pp_fl P (of_nat (length (filter (\<lambda>(x, y). x \<noteq> y) (zip a b))) / of_nat (length a))"

text \<open>The classes of every view, in order; the number of rows of the first view is required of the others.\<close>

fun flip_classes ::
  "metric_params \<Rightarrow> nat option \<Rightarrow> (string \<times> float_value list list) list \<Rightarrow> (string \<times> nat list) list result" where
  "flip_classes M n [] = Inr []"
| "flip_classes M n ((v, rows) # views) = bindr (probability_matrix M rows (pp_fl (mtp_pilot M) (1 / 10 ^ 6))) (\<lambda>m.
     if n \<noteq> None \<and> n \<noteq> Some (length m) then Inl (ValueError ''label-flip view row counts differ'')
     else bindr (flip_classes M (Some (length m)) views) (\<lambda>cs. Inr ((v, map arg_max m) # cs)))"

definition label_flip_summary ::
  "metric_params \<Rightarrow> (string \<times> string) list \<Rightarrow> (string \<times> float_value list list) list \<Rightarrow> flip_summary result" where
  "label_flip_summary M families views = (let P = mtp_pilot M; names = map fst views in
     if ''V00'' \<notin> set names \<or> length names < 2
     then Inl (ValueError ''label flips require V00 and at least one other view'')
     else if set (map fst families) \<noteq> set names \<or> list_ex (\<lambda>f. strip (snd f) = []) families
     then Inl (ValueError ''every applicable view must have exactly one named transformation family'')
     else bindr (flip_classes M None views) (\<lambda>classes.
     bindr (of_option (KeyError ''V00'') (map_of classes ''V00'')) (\<lambda>baseline.
     let others = filter (\<lambda>c. fst c \<noteq> ''V00'') classes;
         pairwise = map (\<lambda>(v, p). (v, flip_rate P p baseline)) (sort_key fst others);
         flipped = map (\<lambda>i. list_ex (\<lambda>c. snd c ! i \<noteq> baseline ! i) others) [0..<length baseline] in
     case pairwise of [] \<Rightarrow> Inl (ValueError ''min() iterable argument is empty'')
     | x # xs \<Rightarrow> let worst = min_by (\<lambda>(v, r). (- r, v)) x xs in
       bindr (of_option (KeyError (fst worst)) (map_of families (fst worst))) (\<lambda>fam.
       Inr \<lparr>flp_pairwise = pairwise, flp_worst_view = fst worst, flp_worst_rate = snd worst, flp_worst_family = fam,
         flp_any_rate = pp_fl P (of_nat (length (filter id flipped)) / of_nat (length baseline)),
         flp_flipped = length (filter id flipped), flp_rows = length baseline\<rparr>))))"

section \<open>Numerical ties\<close>

definition np_isclose :: "pilot_params \<Rightarrow> py_float \<Rightarrow> py_float \<Rightarrow> py_float \<Rightarrow> py_float \<Rightarrow> bool" where
  "np_isclose P atol rtol a b \<longleftrightarrow> \<bar>pp_fl P (a - b)\<bar> \<le> pp_fl P (atol + pp_fl P (rtol * \<bar>b\<bar>))"

definition numerical_tie_only_change ::
  "pilot_params \<Rightarrow> float_value list \<Rightarrow> float_value list \<Rightarrow> py_float \<Rightarrow> py_float \<Rightarrow> bool" where
  "numerical_tie_only_change P before after atol rtol \<longleftrightarrow> length before = length after
     \<and> (case (finite_values before, finite_values after) of
         (Some x, Some y) \<Rightarrow> list_all2 (np_isclose P atol rtol) x y | _ \<Rightarrow> False)"

record tie_metrics =
  tmt_brier :: "py_float \<times> py_float"
  tmt_log_loss :: "py_float \<times> py_float"
  tmt_raw_auroc :: "py_float \<times> py_float"
  tmt_tolerant_auroc :: "py_float \<times> py_float"

definition max_difference :: "pilot_params \<Rightarrow> py_float list list \<Rightarrow> py_float list list \<Rightarrow> py_float" where
  "max_difference P a b = Max (set (map2 (\<lambda>x y. \<bar>pp_fl P (x - y)\<bar>) (concat a) (concat b)))"

definition classify_numerical_tie_sensitivity ::
  "metric_params \<Rightarrow> float_value list list \<Rightarrow> float_value list list \<Rightarrow> int \<Rightarrow> tie_metrics \<Rightarrow> auroc_policy
   \<Rightarrow> py_float \<times> py_float \<Rightarrow> string result" where
  "classify_numerical_tie_sensitivity M before after flips m policy non_rank =
     (let P = mtp_pilot M; atol = pp_fl P (1 / 10 ^ 6); near = \<lambda>(a, b). np_isclose P (fst non_rank) (snd non_rank) a b in
      bindr (probability_matrix M before atol) (\<lambda>b. bindr (probability_matrix M after atol) (\<lambda>a.
      if length b \<noteq> length a \<or> length (hd b) \<noteq> length (hd a)
      then Inl (ValueError ''tie-sensitivity inputs must be aligned and finite'')
      else if flips < 0 then Inl (ValueError ''label-flip count cannot be negative'')
      else Inr (if max_difference P b a \<le> aup_probability_max_abs_diff policy \<and> flips = 0 \<and> near (tmt_brier m)
          \<and> near (tmt_log_loss m) \<and> fst (tmt_raw_auroc m) \<noteq> snd (tmt_raw_auroc m)
          \<and> \<bar>pp_fl P (fst (tmt_tolerant_auroc m) - snd (tmt_tolerant_auroc m))\<bar> \<le> aup_auroc_atol policy
        then ''NUMERICAL_TIE_SENSITIVITY'' else ''NOT_NUMERICAL_TIE_ONLY''))))"

section \<open>Feasibility and outcome\<close>

record feasibility =
  fea_v00_planned :: int
  fea_v00_completed :: int
  fea_applicable :: int
  fea_completed :: int
  fea_failures_classified :: bool
  fea_configuration_unchanged :: bool
  fea_cache_integrity :: bool
  fea_ceilings_respected :: bool

definition pilot_feasibility_passes :: "pilot_params \<Rightarrow> feasibility \<Rightarrow> decision_policy \<Rightarrow> bool result" where
  "pilot_feasibility_passes P f policy =
     (if list_ex (\<lambda>n. n < 0) [fea_v00_planned f, fea_v00_completed f, fea_applicable f, fea_completed f]
      then Inl (ValueError ''feasibility condition counts cannot be negative'')
      else if fea_v00_planned f = 0 \<or> fea_applicable f = 0
      then Inl (ValueError ''feasibility evidence must include V00 and transformed conditions'')
      else if fea_v00_completed f > fea_v00_planned f \<or> fea_completed f > fea_applicable f
      then Inl (ValueError ''completed condition counts cannot exceed planned counts'')
      else Inr (fea_v00_completed f = fea_v00_planned f
        \<and> pp_fl P (of_int (fea_completed f) / of_int (fea_applicable f)) \<ge> dcp_completion_rate policy
        \<and> fea_failures_classified f \<and> fea_configuration_unchanged f \<and> fea_cache_integrity f \<and> fea_ceilings_respected f))"

text \<open>The evidence on one model; a missing median is minus infinity, other missing entries count as 0 or false.\<close>

record model_evidence =
  mev_tie_only :: bool
  mev_residual_pass :: bool
  mev_median_wbd :: "py_float option"
  mev_median_rwbd :: "py_float option"
  mev_datasets :: int
  mev_seed_directions :: int
  mev_families :: int

definition reaches :: "py_float \<Rightarrow> py_float option \<Rightarrow> bool" where
  "reaches limit x = (case x of None \<Rightarrow> False | Some v \<Rightarrow> limit \<le> v)"

definition qualifies :: "decision_policy \<Rightarrow> string \<times> model_evidence \<Rightarrow> bool" where
  "qualifies policy e \<longleftrightarrow> fst e \<in> set (dcp_foundation_ids policy) \<and> \<not> mev_tie_only (snd e) \<and> mev_residual_pass (snd e)
     \<and> (reaches (dcp_absolute_wbd policy) (mev_median_wbd (snd e)) \<or> reaches (dcp_relative_wbd policy) (mev_median_rwbd (snd e)))"

definition reproducible :: "decision_policy \<Rightarrow> string \<times> model_evidence \<Rightarrow> bool" where
  "reproducible policy e \<longleftrightarrow> mev_datasets (snd e) \<ge> 1 \<and> mev_seed_directions (snd e) \<ge> dcp_seed_directions policy"

definition broad :: "decision_policy \<Rightarrow> string \<times> model_evidence \<Rightarrow> bool" where
  "broad policy e \<longleftrightarrow> mev_datasets (snd e) \<ge> dcp_breadth_datasets policy \<and> mev_families (snd e) \<ge> dcp_families policy
     \<and> mev_seed_directions (snd e) \<ge> dcp_seed_directions policy"

definition evaluate_pilot_outcome ::
  "bool \<Rightarrow> bool \<Rightarrow> bool \<Rightarrow> (string \<times> model_evidence) list \<Rightarrow> decision_policy \<Rightarrow> string" where
  "evaluate_pilot_outcome integrity feasible partial evidence policy =
     (if \<not> integrity then ''REPAIR_REQUIRED''
      else if partial then ''PARTIAL_CAPABILITY''
      else if \<not> feasible then ''REPAIR_REQUIRED''
      else let qualifying = filter (qualifies policy) evidence in
      if qualifying = [] then ''STOP_OR_REDESIGN''
      else let reproduced = filter (reproducible policy) qualifying in
      if reproduced = [] then ''STOP_OR_REDESIGN''
      else let broad_models = filter (broad policy) reproduced in
      if broad_models \<noteq> [] then
        (if list_ex (\<lambda>e. fst e \<notin> set (dcp_foundation_ids policy) \<and> \<not> mev_tie_only (snd e) \<and> broad policy e) evidence
         then ''ADVANCE_BROAD_METHOD'' else ''ADVANCE_TFM_FOCUSED'')
      else ''NARROW_CASE_STUDY'')"

section \<open>Reports\<close>

record metric_record =
  mrc_value :: "py_float option"
  mrc_status :: string
  mrc_reason :: "string option"

definition validate_metric_record :: "metric_record \<Rightarrow> metric_record result" where
  "validate_metric_record m = guards
     [(mrc_status m \<notin> {''DEFINED'', ''UNDEFINED''}, ValueError ''status''),
      ((mrc_status m = ''DEFINED'') \<noteq> (mrc_value m \<noteq> None),
        ValueError ''metric value must be present if and only if it is defined''),
      (mrc_status m = ''UNDEFINED'' \<and> missing_text (mrc_reason m), ValueError ''undefined metric requires an explicit reason''),
      (mrc_status m = ''DEFINED'' \<and> mrc_reason m \<noteq> None, ValueError ''defined metric cannot contain an undefined reason'')] m"

record protocol_gate =
  pgt_id :: string
  pgt_result :: string
  pgt_evidence :: string
  pgt_detail :: string

text \<open>\<open>f"PF{index:02d}"\<close> for an index of at most two digits.\<close>

definition gate_name :: "nat \<Rightarrow> string" where
  "gate_name k = ''PF'' @ (if k < 10 then ''0'' @ show_nat k else show_nat k)"

definition GATE_NAMES :: "string list" where
  "GATE_NAMES = map gate_name [1..<41]"

definition validate_gate :: "protocol_gate \<Rightarrow> protocol_gate result" where
  "validate_gate g = guards
     [(length (pgt_id g) \<noteq> 4 \<or> take 2 (pgt_id g) \<noteq> ''PF'' \<or> \<not> list_all is_digit (drop 2 (pgt_id g)), ValueError ''gate_id''),
      (pgt_result g \<notin> {''PASS'', ''FAIL'', ''NOT_VERIFIED''}, ValueError ''result''),
      (\<not> is_sha256 (pgt_evidence g), ValueError ''evidence_sha256'')] g"

record protocol_validation =
  pvl_status :: string
  pvl_commit :: string
  pvl_protocol_sha :: string
  pvl_inventory_sha :: string
  pvl_passed :: int
  pvl_failed :: int
  pvl_not_verified :: int
  pvl_gates :: "protocol_gate list"

definition count_result :: "string \<Rightarrow> protocol_gate list \<Rightarrow> int" where
  "count_result r gs = count_where (\<lambda>g. pgt_result g = r) gs"

definition validate_protocol_validation :: "protocol_validation \<Rightarrow> protocol_validation result" where
  "validate_protocol_validation v = bindr (validate_all validate_gate (pvl_gates v)) (\<lambda>_. guards
     [(pvl_status v \<notin> {''PASS_PENDING_REVIEW'', ''RESOURCE_REVIEW_REQUIRED'', ''REPAIR_REQUIRED'', ''BLOCKED''}, ValueError ''status''),
      (\<not> is_commit (pvl_commit v) \<or> \<not> is_sha256 (pvl_protocol_sha v) \<or> \<not> is_sha256 (pvl_inventory_sha v), ValueError ''digest''),
      (list_ex (\<lambda>n. n < 0 \<or> 40 < n) [pvl_passed v, pvl_failed v, pvl_not_verified v], ValueError ''count''),
      (length (pvl_gates v) \<noteq> 40, ValueError ''gates''),
      (map pgt_id (pvl_gates v) \<noteq> GATE_NAMES, ValueError ''all forty gates must be present in canonical order''),
      (pvl_passed v \<noteq> count_result ''PASS'' (pvl_gates v) \<or> pvl_failed v \<noteq> count_result ''FAIL'' (pvl_gates v)
         \<or> pvl_not_verified v \<noteq> count_result ''NOT_VERIFIED'' (pvl_gates v),
        ValueError ''gate summary counts disagree with gate records'')] v)"

definition build_validation_report ::
  "string \<Rightarrow> protocol \<Rightarrow> pilot_inventory \<Rightarrow> protocol_gate list \<Rightarrow> protocol_validation result" where
  "build_validation_report commit p i gates =
     (let ordered = sort_key pgt_id gates; failed = count_result ''FAIL'' ordered; open_gates = count_result ''NOT_VERIFIED'' ordered in
      validate_protocol_validation
       \<lparr>pvl_status = (if failed \<noteq> 0 then ''REPAIR_REQUIRED'' else if open_gates \<noteq> 0 then ''BLOCKED''
          else if rte_preferred_wall (ppa_estimate p) \<and> rte_preferred_storage (ppa_estimate p) then ''PASS_PENDING_REVIEW''
          else ''RESOURCE_REVIEW_REQUIRED''),
        pvl_commit = commit, pvl_protocol_sha = ppa_sha p, pvl_inventory_sha = pci_sha i,
        pvl_passed = count_result ''PASS'' ordered, pvl_failed = failed, pvl_not_verified = open_gates, pvl_gates = ordered\<rparr>)"

end
