(* ===== verification/Pilot_Properties.thy ===== *)
theory Pilot_Properties
  imports Pilot_Demo Pilot_Metrics
begin

text \<open>
  The properties of the pilot: the cohort is the best one, the plan covers the matrix of data sets,
  seeds and views exactly once, its schedule stages every condition once, and what the contracts
  do not check.
\<close>

section \<open>The cohort\<close>

text \<open>Claim C17. A selection is an optimal cohort: eight candidates with the anchor, whose score (required
  tags covered, strata, profile collisions, signatures) is the best of all such cohorts, and whose
  sorted identifiers come first among the best; the order of the candidates plays no part.
\<close>

theorem cohort_selection_optimal:
  assumes "select_candidate_ids P candidates p = Inr ids"
  shows "(\<exists>S s. is_cohort candidates S \<and> cohort_score P p S = Inr s \<and> ids = sort (map cnd_id S)
      \<and> (\<forall>T. is_cohort candidates T \<longrightarrow> (\<exists>t. cohort_score P p T = Inr t \<and> at_least (s, ids) (t, sort (map cnd_id T)))))
    \<and> (\<forall>candidates'. mset candidates' = mset candidates \<longrightarrow> select_candidate_ids P candidates' p = Inr ids)"
proof -
  obtain S s where S: "is_cohort candidates S" "cohort_score P p S = Inr s" "ids = sort (map cnd_id S)"
      "\<And>T t. is_cohort candidates T \<Longrightarrow> cohort_score P p T = Inr t \<Longrightarrow> at_least (s, ids) (t, sort (map cnd_id T))"
      "\<And>T. is_cohort candidates T \<Longrightarrow> \<exists>t. cohort_score P p T = Inr t" "distinct (map cnd_id candidates)"
    by (rule select_sound [OF assms]) blast
  moreover have "select_candidate_ids P candidates' p = Inr ids" if "mset candidates' = mset candidates" for candidates'
    using select_order [OF that [symmetric] S(6)] assms by simp
  ultimately show ?thesis by blast
qed

lemma demo_selection: "select_candidate_ids (demo_pilot (\<lambda>_. zero_hash)) demo_candidates demo_policy = Inr demo_ids"
  by code_simp

theorem cohort_selection_optimal_witness:
  "select_candidate_ids (demo_pilot (\<lambda>_. zero_hash)) (rev demo_candidates) demo_policy = Inr [3, 23, 29, 31, 36, 37, 54, 1464]"
  using cohort_selection_optimal [OF demo_selection] by (simp add: demo_ids_def)

section \<open>The matrix of conditions\<close>

lemma planned_models:
  "map pcn_model (sort_key condition_key (map (planned_of P X t) MODEL_ORDER)) = MODEL_ORDER"
proof -
  obtain d seed v where t: "t = (d, seed, v)" by (cases t)
  have key: "condition_key (planned_of P X t m) = (d, seed, v, index_of MODEL_ORDER m)" for m
    by (simp add: condition_key_def t)
  have "sorted (map condition_key (map (planned_of P X t) MODEL_ORDER))"
    by (simp add: key comp_def) (simp add: MODEL_ORDER_def index_of_def)
  then have "sort_key condition_key (map (planned_of P X t) MODEL_ORDER) = map (planned_of P X t) MODEL_ORDER"
    by (rule sort_key_id_if_sorted)
  then show ?thesis by (simp add: t comp_def)
qed

lemma records_of_tuple:
  assumes "distinct ds"
  shows "map pcn_model (filter (\<lambda>c. condition_tuple c = t) (sort_key condition_key (all_conditions P X ds)))
    = (if t \<in> set (applicable_tuples X ds) then MODEL_ORDER else [])"
  by (simp add: filter_sort conditions_of_tuple [OF assms] planned_models)

lemma excuses_of_tuple:
  assumes "distinct ds"
  shows "length (filter (\<lambda>n. not_applicable_tuple n = t) (map (excused_of P X) (excused_tuples X ds)))
    = (if t \<in> set (excused_tuples X ds) then 1 else 0)"
proof -
  have "not_applicable_tuple (excused_of P X u) = u" for u by simp
  then have "filter (\<lambda>n. not_applicable_tuple n = t) (map (excused_of P X) us) = map (excused_of P X) (filter (\<lambda>u. u = t) us)" for us
    by (simp add: filter_map comp_def)
  moreover have "length (filter (\<lambda>u. u = t) us) = (if t \<in> set us then 1 else 0)" if "distinct us" for us
    using that by (induction us) auto
  ultimately show ?thesis using distinct_tuples [OF assms] by simp
qed

lemma demo_applicable: "t \<in> set (view_tuples demo_ids PILOT_SEEDS) \<Longrightarrow> applicable demo_plan_context t \<longleftrightarrow> snd (snd t) \<noteq> ''V03''"
proof -
  assume t: "t \<in> set (view_tuples demo_ids PILOT_SEEDS)"
  then have "t \<in> view_tuple ` set (pct_views demo_plan_context)" by (force simp: demo_plan_context_def image_iff)
  from by_key_the [OF this] have "planned_view demo_plan_context t \<in> set (pct_views demo_plan_context)"
    "view_tuple (planned_view demo_plan_context t) = t" by (auto simp: planned_view_def)
  then have "planned_view demo_plan_context t = demo_view t" by (auto simp: demo_plan_context_def)
  then show ?thesis by (cases t) (simp add: applicable_def demo_view_def Let_def)
qed

text \<open>Claim C12. When the inputs of the plan are in order and the digest separates the texts of the
  conditions, the plan succeeds with an inventory that its contract accepts: every data set, seed
  and view of the matrix has the five models in their order when the view applies and one record
  that excuses it otherwise, never both, and there is nothing else.
\<close>

theorem planned_matrix_complete:
  assumes R: "plan_ready X ds" and sha: "\<And>t. is_sha256 (pp_sha P t)"
    and free: "inj_on (pp_sha P) (planned_texts P X ds)" and hs: "good_sources hs"
  shows "\<exists>i. plan_inventory P X hs ds PILOT_SEEDS = Inr i \<and> validate_pilot_inventory P i = Inr i
    \<and> (\<forall>d \<in> set ds. \<forall>seed \<in> set PILOT_SEEDS. \<forall>v \<in> set VIEW_ORDER. let t = (d, seed, v) in
        map pcn_model (filter (\<lambda>c. condition_tuple c = t) (pci_records i)) = (if applicable X t then MODEL_ORDER else [])
        \<and> length (filter (\<lambda>n. not_applicable_tuple n = t) (pci_not_applicable i)) = (if applicable X t then 0 else 1))
    \<and> set (map condition_tuple (pci_records i)) \<union> set (map not_applicable_tuple (pci_not_applicable i))
        = set ds \<times> set PILOT_SEEDS \<times> set VIEW_ORDER"
proof (intro exI conjI ballI)
  let ?i = "planned_inventory P X hs ds"
  note d = ready_distinct [OF R]
  show "plan_inventory P X hs ds PILOT_SEEDS = Inr ?i" "validate_pilot_inventory P ?i = Inr ?i"
    by (rule planned_inventory_valid [OF R sha free hs])+
  show "let t = (d, seed, v) in
        map pcn_model (filter (\<lambda>c. condition_tuple c = t) (pci_records ?i)) = (if applicable X t then MODEL_ORDER else [])
        \<and> length (filter (\<lambda>n. not_applicable_tuple n = t) (pci_not_applicable ?i)) = (if applicable X t then 0 else 1)"
    if "d \<in> set ds" "seed \<in> set PILOT_SEEDS" "v \<in> set VIEW_ORDER" for d seed v
    using that unfolding Let_def planned_inventory_simps records_of_tuple [OF d] excuses_of_tuple [OF d]
    by (simp add: applicable_tuples_mem excused_tuples_mem mem_view_tuples)
  have "set (map not_applicable_tuple (map (excused_of P X) ts)) = set ts" for ts by (force simp: image_iff)
  moreover have "set (applicable_tuples X ds) \<union> set (excused_tuples X ds) = set (view_tuples ds PILOT_SEEDS)"
    by (auto simp: applicable_tuples_mem excused_tuples_mem)
  ultimately show "set (map condition_tuple (pci_records ?i)) \<union> set (map not_applicable_tuple (pci_not_applicable ?i))
      = set ds \<times> set PILOT_SEEDS \<times> set VIEW_ORDER"
    unfolding planned_inventory_simps planned_tuples by (simp add: view_tuples_def)
qed

theorem planned_matrix_complete_witness:
  "\<exists>i. plan_inventory demo_plan_params demo_plan_context demo_sources demo_ids PILOT_SEEDS = Inr i
    \<and> map pcn_model (filter (\<lambda>c. condition_tuple c = (54, 2718, ''V07'')) (pci_records i)) = MODEL_ORDER
    \<and> length (filter (\<lambda>n. not_applicable_tuple n = (54, 2718, ''V03'')) (pci_not_applicable i)) = 1"
proof -
  obtain i where i: "plan_inventory demo_plan_params demo_plan_context demo_sources demo_ids PILOT_SEEDS = Inr i"
    and m: "\<forall>d \<in> set demo_ids. \<forall>seed \<in> set PILOT_SEEDS. \<forall>v \<in> set VIEW_ORDER. let t = (d, seed, v) in
        map pcn_model (filter (\<lambda>c. condition_tuple c = t) (pci_records i)) = (if applicable demo_plan_context t then MODEL_ORDER else [])
        \<and> length (filter (\<lambda>n. not_applicable_tuple n = t) (pci_not_applicable i)) = (if applicable demo_plan_context t then 0 else 1)"
    using planned_matrix_complete [OF demo_plan_ready demo_plan_sha demo_plan_free demo_sources_good] by blast
  have mem: "54 \<in> set demo_ids" "2718 \<in> set PILOT_SEEDS" "''V07'' \<in> set VIEW_ORDER" "''V03'' \<in> set VIEW_ORDER"
    by (simp_all add: demo_sets VIEW_ORDER_def)
  have "applicable demo_plan_context (54, 2718, ''V07'')" "\<not> applicable demo_plan_context (54, 2718, ''V03'')"
    using mem by (simp_all add: demo_applicable mem_view_tuples)
  with i show ?thesis
    using m [rule_format, OF mem(1,2,3)] m [rule_format, OF mem(1,2,4)] by (intro exI [of _ i]) (simp add: Let_def)
qed

section \<open>The staged schedule\<close>

lemma list_all2_member:
  assumes "list_all2 r xs ys" and "x \<in> set xs"
  obtains y where "y \<in> set ys" and "r x y"
  using assms by (induction rule: list_all2_induct) auto

lemma planned_regular:
  assumes "plan_ready X ds"
  shows "regular_records (planned_inventory P X hs ds)"
  by (auto simp: regular_records_def planned_inventory_simps list_all_iff mem_all_conditions applicable_tuples_mem mem_view_tuples)

text \<open>Claim C13. For such a plan and an accepted protocol with the same digest and data sets, building the
  schedule succeeds: its stages hold the consecutive pairs of data sets, no condition is in two
  stages or twice in one, and every planned condition is in a stage of its data set.
\<close>

theorem staged_schedule_complete:
  assumes R: "plan_ready X ds" and sha: "\<And>t. is_sha256 (pp_sha P t)"
    and free: "inj_on (pp_sha P) (planned_texts P X ds)" and hs: "good_sources hs"
    and p: "validate_protocol P p = Inr p" "ppa_sha p = pct_protocol_sha X" "map pds_id (ppa_selected p) = ds"
    and fl: "nonneg_floats P"
  shows "\<exists>i s. plan_inventory P X hs ds PILOT_SEEDS = Inr i \<and> build_staged_schedule P p i = Inr s
    \<and> map pst_datasets (psc_stages s) = slices 2 ds \<and> distinct (concat (map pst_conditions (psc_stages s)))
    \<and> (\<forall>c \<in> set (pci_records i). \<exists>g \<in> set (psc_stages s). pcn_id c \<in> set (pst_conditions g) \<and> pcn_dataset c \<in> set (pst_datasets g))"
proof -
  let ?i = "planned_inventory P X hs ds"
  note I = planned_inventory_valid [OF R sha free hs]
  have eight: "length ds = 8" by (rule ready_parts(1) [OF R])
  obtain s where s: "build_staged_schedule P p ?i = Inr s" and c: "complete_schedule ?i s"
    using schedule_succeeds [OF p(1) I(2) fl sha _ _ planned_regular [OF R]] p(2,3) by (auto simp: planned_inventory_simps)
  have st: "list_all2 (stage_of ?i) (slices 2 ds) (psc_stages s)"
    using c by (simp add: complete_schedule_def planned_inventory_simps)
  have datasets: "map pst_datasets (psc_stages s) = slices 2 ds"
    using st by (induction rule: list_all2_induct) (auto simp: stage_of_def)
  have "\<exists>g \<in> set (psc_stages s). pcn_id x \<in> set (pst_conditions g) \<and> pcn_dataset x \<in> set (pst_datasets g)"
    if x: "x \<in> set (pci_records ?i)" for x
  proof -
    have "pcn_dataset x \<in> set (concat (slices 2 ds))"
      using x by (auto simp: concat_slices [OF eight] planned_inventory_simps mem_all_conditions applicable_tuples_mem mem_view_tuples)
    then obtain ids where ids: "ids \<in> set (slices 2 ds)" "pcn_dataset x \<in> set ids" by auto
    from st ids(1) obtain g where "g \<in> set (psc_stages s)" "stage_of ?i ids g" by (rule list_all2_member)
    with ids(2) x show ?thesis by (intro bexI [of _ g]) (auto simp: stage_of_def group_conditions_set)
  qed
  with I(1) s datasets c show ?thesis by (auto simp: complete_schedule_def)
qed

theorem staged_schedule_complete_witness:
  "\<exists>i s. plan_inventory demo_plan_params demo_plan_context demo_sources demo_ids PILOT_SEEDS = Inr i
    \<and> build_staged_schedule demo_plan_params demo_protocol i = Inr s
    \<and> map pst_datasets (psc_stages s) = [[3, 23], [29, 31], [36, 37], [54, 1464]]"
proof -
  have "nonneg_floats demo_plan_params"
    by (auto simp: nonneg_floats_def demo_plan_params_def demo_pilot_def list_all_iff intro: sum_list_nonneg)
  moreover have "ppa_sha demo_protocol = pct_protocol_sha demo_plan_context" "map pds_id (ppa_selected demo_protocol) = demo_ids"
    by (simp_all add: demo_protocol_def demo_plan_context_def demo_ids_def demo_dataset_def Let_def)
  moreover have "slices 2 demo_ids = [[3, 23], [29, 31], [36, 37], [54, 1464]]" by code_simp
  ultimately show ?thesis
    using staged_schedule_complete [OF demo_plan_ready demo_plan_sha demo_plan_free demo_sources_good demo_protocol_valid]
    by metis
qed

section \<open>A gap in the inventory contract\<close>

definition relabelled :: "pilot_params \<Rightarrow> not_applicable \<Rightarrow> int \<Rightarrow> pilot_inventory \<Rightarrow> pilot_inventory" where
  "relabelled P n d i =
     (let j = i\<lparr>pci_not_applicable := map (\<lambda>m. if m = n then n\<lparr>nac_dataset := d\<rparr> else m) (pci_not_applicable i)\<rparr> in
      j\<lparr>pci_sha := sha256_canonical_json (pp_sha P) (inventory_payload j)\<rparr>)"

lemma relabelled_simps:
  "pci_records (relabelled P n d i) = pci_records i" "pci_datasets (relabelled P n d i) = pci_datasets i"
  "pci_seeds (relabelled P n d i) = pci_seeds i" "pci_view_tuples (relabelled P n d i) = pci_view_tuples i"
  "pci_protocol_sha (relabelled P n d i) = pci_protocol_sha i" "pci_source_hashes (relabelled P n d i) = pci_source_hashes i"
  "pci_applicable (relabelled P n d i) = pci_applicable i"
  "pci_not_applicable_count (relabelled P n d i) = pci_not_applicable_count i"
  "pci_conditions (relabelled P n d i) = pci_conditions i" "pci_cpu (relabelled P n d i) = pci_cpu i"
  "pci_cuda (relabelled P n d i) = pci_cuda i" "pci_by_dataset (relabelled P n d i) = pci_by_dataset i"
  "pci_by_seed (relabelled P n d i) = pci_by_seed i" "pci_by_view (relabelled P n d i) = pci_by_view i"
  "pci_by_model (relabelled P n d i) = pci_by_model i"
  "pci_not_applicable (relabelled P n d i) = map (\<lambda>m. if m = n then n\<lparr>nac_dataset := d\<rparr> else m) (pci_not_applicable i)"
  "pci_sha (relabelled P n d i) = sha256_canonical_json (pp_sha P) (inventory_payload (relabelled P n d i))"
  by (simp_all add: relabelled_def Let_def)

lemma replaced_distinct:
  "distinct (map g ns) \<Longrightarrow> x \<notin> g ` set ns \<Longrightarrow> distinct (map (\<lambda>m. if m = n then x else g m) ns)"
  by (induction ns) (auto split: if_splits)

lemma relabelled_tuples:
  assumes "distinct (map not_applicable_tuple ns)" and "n \<in> set ns" and "(d, nac_seed n, nac_view n) \<notin> set (map not_applicable_tuple ns)"
  shows "distinct (map not_applicable_tuple (map (\<lambda>m. if m = n then n\<lparr>nac_dataset := d\<rparr> else m) ns))"
    and "set (map not_applicable_tuple (map (\<lambda>m. if m = n then n\<lparr>nac_dataset := d\<rparr> else m) ns))
      \<subseteq> insert (d, nac_seed n, nac_view n) (set (map not_applicable_tuple ns))"
    and "d \<noteq> nac_dataset n \<Longrightarrow> not_applicable_tuple n \<notin> set (map not_applicable_tuple (map (\<lambda>m. if m = n then n\<lparr>nac_dataset := d\<rparr> else m) ns))"
proof -
  let ?f = "\<lambda>m. if m = n then n\<lparr>nac_dataset := d\<rparr> else m"
  have t: "not_applicable_tuple (?f m) = (if m = n then (d, nac_seed n, nac_view n) else not_applicable_tuple m)" for m
    by (simp add: not_applicable_tuple_def)
  show "distinct (map not_applicable_tuple (map ?f ns))"
    using replaced_distinct [OF assms(1), of "(d, nac_seed n, nac_view n)" n] assms(3) unfolding list.map_comp comp_def t by simp
  show "set (map not_applicable_tuple (map ?f ns)) \<subseteq> insert (d, nac_seed n, nac_view n) (set (map not_applicable_tuple ns))"
    by (auto simp: t)
  show "not_applicable_tuple n \<notin> set (map not_applicable_tuple (map ?f ns))" if "d \<noteq> nac_dataset n"
    using that assms(1,2) by (auto simp: t distinct_map inj_on_def) (auto simp: not_applicable_tuple_def)
qed

text \<open>
  The inventory contract checks that the numbers of applicable and excused tuples add up to the
  size of the matrix, not which tuples they are: when an excuse is relabelled to a data set that was
  not selected and the inventory is hashed again, it is accepted although a tuple of the matrix has
  neither conditions nor an excuse.
\<close>

theorem inventory_matrix_gap:
  assumes valid: "validate_pilot_inventory P i = Inr i" and n: "n \<in> set (pci_not_applicable i)"
    and d: "0 < d" "d \<noteq> nac_dataset n"
      "(d, nac_seed n, nac_view n) \<notin> set (map condition_tuple (pci_records i)) \<union> set (map not_applicable_tuple (pci_not_applicable i))"
    and sha: "\<And>t. is_sha256 (pp_sha P t)"
  shows "validate_pilot_inventory P (relabelled P n d i) = Inr (relabelled P n d i)
    \<and> not_applicable_tuple n \<notin> set (map condition_tuple (pci_records (relabelled P n d i)))
        \<union> set (map not_applicable_tuple (pci_not_applicable (relabelled P n d i)))"
proof -
  let ?j = "relabelled P n d i"
  obtain u v where u: "validate_all (validate_condition P) (pci_records i) = Inr u"
    and v: "validate_all validate_not_applicable (pci_not_applicable i) = Inr v"
    and g: "guards (inventory_field_guards i @ inventory_count_guards i @ inventory_matrix_guards i @ inventory_summary_guards P i) i = Inr i"
    using valid by (auto simp: validate_pilot_inventory_def bindr_Inr_iff)
  have F: "list_all (\<lambda>g. \<not> fst g) (inventory_field_guards i)" "list_all (\<lambda>g. \<not> fst g) (inventory_count_guards i)"
    "list_all (\<lambda>g. \<not> fst g) (inventory_matrix_guards i)" "list_all (\<lambda>g. \<not> fst g) (inventory_summary_guards P i)"
    using g by (auto simp: guards_Inr_iff list_all_iff)
  have na: "distinct (map not_applicable_tuple (pci_not_applicable i))"
    and apart: "set (map condition_tuple (pci_records i)) \<inter> set (map not_applicable_tuple (pci_not_applicable i)) = {}"
    using F(3) unfolding inventory_matrix_guards_def Let_def list.pred_inject fst_conv not_not by blast+
  note T = relabelled_tuples [OF na n, of d]
  have sealed: "is_sha256 (pci_sha ?j)" by (simp add: relabelled_simps sha256_canonical_json_def sha)
  have "list_all (\<lambda>g. \<not> fst g) (inventory_field_guards ?j)"
    using F(1) sealed unfolding inventory_field_guards_def relabelled_simps(1-16) list.pred_inject fst_conv not_not de_Morgan_disj by blast
  moreover have "list_all (\<lambda>g. \<not> fst g) (inventory_count_guards ?j)"
    using F(2) unfolding inventory_count_guards_def relabelled_simps(1-16) .
  moreover have "list_all (\<lambda>g. \<not> fst g) (inventory_matrix_guards ?j)"
    using F(3) T(1,2) d(3) apart
    unfolding inventory_matrix_guards_def Let_def relabelled_simps(1-16) list.pred_inject fst_conv not_not length_map by blast
  moreover have "list_all (\<lambda>g. \<not> fst g) (inventory_summary_guards P ?j)"
    using F(4) unfolding inventory_summary_guards_def Let_def list.pred_inject fst_conv not_not de_Morgan_disj relabelled_simps by simp
  ultimately have "guards (inventory_field_guards ?j @ inventory_count_guards ?j @ inventory_matrix_guards ?j @ inventory_summary_guards P ?j) ?j = Inr ?j"
    by (intro guards_pass) (simp add: list_all_append)
  moreover have "validate_all validate_not_applicable (pci_not_applicable ?j) = Inr ()"
  proof -
    have ok: "validate_not_applicable m = Inr m" if "m \<in> set (pci_not_applicable i)" for m
      using v that by (auto simp: validate_all_Inr validate_not_applicable_def guards_Inr_iff)
    from ok [OF n] d(1) have "validate_not_applicable (n\<lparr>nac_dataset := d\<rparr>) = Inr (n\<lparr>nac_dataset := d\<rparr>)"
      by (simp add: validate_not_applicable_def guards_Inr_iff)
    with ok show ?thesis by (auto simp: validate_all_Inr relabelled_simps)
  qed
  ultimately have "validate_pilot_inventory P ?j = Inr ?j"
    using u by (simp add: validate_pilot_inventory_def relabelled_simps(1))
  moreover have "not_applicable_tuple n \<notin> set (map condition_tuple (pci_records i))" using apart n by auto
  ultimately show ?thesis using T(3) d(2,3) by (simp only: relabelled_simps Un_iff) blast
qed

theorem inventory_matrix_gap_witness:
  "\<exists>j. validate_pilot_inventory demo_plan_params j = Inr j \<and> 3 \<in> set (pci_datasets j)
    \<and> (3, 1729, ''V03'') \<notin> set (map condition_tuple (pci_records j)) \<union> set (map not_applicable_tuple (pci_not_applicable j))"
proof -
  let ?i = "planned_inventory demo_plan_params demo_plan_context demo_sources demo_ids"
  let ?n = "excused_of demo_plan_params demo_plan_context (3, 1729, ''V03'')"
  have t: "(3, 1729, ''V03'') \<in> set (view_tuples demo_ids PILOT_SEEDS)" by (simp add: mem_view_tuples demo_sets VIEW_ORDER_def)
  then have n: "?n \<in> set (pci_not_applicable ?i)"
    by (simp add: planned_inventory_simps excused_tuples_mem demo_applicable)
  have "?n = ?n" "nac_seed ?n = 1729" "nac_view ?n = ''V03''" "nac_dataset ?n = 3" by (simp_all add: excused_of_def Let_def)
  moreover have "(38, 1729, ''V03'') \<notin> set (map condition_tuple (pci_records ?i)) \<union> set (map not_applicable_tuple (pci_not_applicable ?i))"
    by (auto simp: planned_inventory_simps mem_all_conditions applicable_tuples_mem excused_tuples_mem mem_view_tuples demo_sets)
  ultimately show ?thesis
    using inventory_matrix_gap [OF planned_inventory_valid(2) [OF demo_plan_ready demo_plan_sha demo_plan_free demo_sources_good] n,
        of 38] demo_plan_sha
    by (intro exI [of _ "relabelled demo_plan_params ?n 38 ?i"])
      (simp add: relabelled_simps(2) planned_inventory_simps(4) demo_sets)
qed

section \<open>The excluded data sets\<close>

lemma selected_dataset:
  "select_dataset es d = Inr x \<Longrightarrow> \<exists>e. find_eligible es d = Some e \<and> x = (elg_data e)\<lparr>pds_rationale := rationale_of e\<rparr>"
  by (auto simp: select_dataset_def bindr_Inr_iff of_option_def validate_pilot_dataset_def guards_Inr_iff split: option.splits)

text \<open>
  Every record of an excluded data set carries the name and the metadata digest of the last
  selected data set, not those of the data set it excludes: the loop reads a variable which the
  loop over the selected data sets left behind.
\<close>

theorem excluded_datasets_mislabelled:
  assumes "plan_datasets P p es ids = Inr (selected, excluded)"
  shows "map exd_id excluded = sorted_list_of_set (set SCHEMAORBIT_IDS - set (map pds_id selected))
    \<and> (\<forall>x \<in> set excluded. exd_id x \<noteq> pds_id (last selected) \<and> exd_name x = pds_name (last selected)
         \<and> exd_evidence_sha x = pds_evidence_sha (last selected))"
proof -
  let ?item = "if ids = [] then None else find_eligible es (last ids)"
  from assms have sel: "mapr (select_dataset es) ids = Inr selected"
    and exc: "mapr (\<lambda>d. bindr (of_option (RuntimeError ''NameError: item'') ?item)
        (\<lambda>item. excluded_record P p es selected item d)) (excluded_ids (map pds_id selected)) = Inr excluded"
    by (auto simp: plan_datasets_def Let_def bindr_Inr_iff split: if_splits)
  have entry: "\<exists>item. ?item = Some item \<and> exd_id x = d \<and> exd_name x = pds_name (elg_data item)
      \<and> exd_evidence_sha x = pds_evidence_sha (elg_data item)"
    if "bindr (of_option (RuntimeError ''NameError: item'') ?item) (\<lambda>item. excluded_record P p es selected item d) = Inr x" for d x
    using that by (auto simp: bindr_Inr_iff of_option_def excluded_record_def validate_excluded_def guards_Inr_iff split: option.splits)
  have all: "list_all2 (\<lambda>d x. bindr (of_option (RuntimeError ''NameError: item'') ?item)
      (\<lambda>item. excluded_record P p es selected item d) = Inr x) (excluded_ids (map pds_id selected)) excluded"
    using exc by (simp add: mapr_Inr)
  have ids: "map exd_id excluded = excluded_ids (map pds_id selected)"
    using all by (induction rule: list_all2_induct) (auto dest: entry)
  have last_item: "\<exists>e. find_eligible es (last ids) = Some e \<and> last selected = (elg_data e)\<lparr>pds_rationale := rationale_of e\<rparr>"
    if "ids \<noteq> []"
  proof (rule selected_dataset)
    from mapr_length [OF sel] that have "length ids - 1 < length ids" "length selected = length ids" "selected \<noteq> []" by auto
    with mapr_nth [OF sel, of "length ids - 1"] that show "select_dataset es (last ids) = Inr (last selected)"
      by (simp add: last_conv_nth)
  qed
  have "exd_id x \<noteq> pds_id (last selected) \<and> exd_name x = pds_name (last selected) \<and> exd_evidence_sha x = pds_evidence_sha (last selected)"
    if x: "x \<in> set excluded" for x
  proof -
    from mapr_set [OF exc] x obtain d where d: "bindr (of_option (RuntimeError ''NameError: item'') ?item)
        (\<lambda>item. excluded_record P p es selected item d) = Inr x" by blast
    from entry [OF d] obtain item where item: "?item = Some item" "exd_name x = pds_name (elg_data item)"
      "exd_evidence_sha x = pds_evidence_sha (elg_data item)" by blast
    then have "ids \<noteq> []" by auto
    with last_item item have same: "exd_name x = pds_name (last selected)" "exd_evidence_sha x = pds_evidence_sha (last selected)" by auto
    have "selected \<noteq> []" using mapr_length [OF sel] \<open>ids \<noteq> []\<close> by auto
    then have "pds_id (last selected) \<in> set (map pds_id selected)" by simp
    moreover have "exd_id x \<in> set (excluded_ids (map pds_id selected))" using x unfolding ids [symmetric] by simp
    ultimately show ?thesis using same by (auto simp: excluded_ids_def)
  qed
  then show ?thesis by (simp add: ids excluded_ids_def)
qed

definition demo_eligible :: "eligible list" where
  "demo_eligible = map (\<lambda>d. \<lparr>elg_data = demo_dataset d, elg_missing_cells = 0\<rparr>) SCHEMAORBIT_IDS"

lemma demo_find:
  "d \<in> set SCHEMAORBIT_IDS \<Longrightarrow> find_eligible demo_eligible d = Some \<lparr>elg_data = demo_dataset d, elg_missing_cells = 0\<rparr>"
proof -
  have "find_eligible (map (\<lambda>d. \<lparr>elg_data = demo_dataset d, elg_missing_cells = 0\<rparr>) ds) d
      = Some \<lparr>elg_data = demo_dataset d, elg_missing_cells = 0\<rparr>" if "d \<in> set ds" for ds
    using that by (induction ds) (auto simp: find_eligible_def elg_id_def demo_dataset_def Let_def)
  then show "d \<in> set SCHEMAORBIT_IDS \<Longrightarrow> ?thesis" by (simp add: demo_eligible_def)
qed

lemma demo_profile: "\<exists>q. nearest_profile P p (demo_dataset d) = Inr q"
  by (auto simp: nearest_profile_def balance_band_def demo_dataset_def Let_def bindr_Inr_iff)

lemma demo_profile_rationale: "\<exists>q. nearest_profile P p ((demo_dataset d)\<lparr>pds_rationale := r\<rparr>) = Inr q"
  using demo_profile [of P p d] by (simp add: nearest_profile_def)

lemma demo_eligible_facts: "set demo_ids \<subseteq> set SCHEMAORBIT_IDS" "\<And>d. d \<in> set SCHEMAORBIT_IDS \<Longrightarrow> 0 < d"
  "map elg_id demo_eligible = SCHEMAORBIT_IDS" "excluded_ids demo_ids = [38, 44, 46, 50, 1067, 1489]"
proof -
  show "set demo_ids \<subseteq> set SCHEMAORBIT_IDS" "\<And>d. d \<in> set SCHEMAORBIT_IDS \<Longrightarrow> 0 < d"
    by (auto simp: demo_sets SCHEMAORBIT_IDS_def)
  show "map elg_id demo_eligible = SCHEMAORBIT_IDS"
    by (simp add: demo_eligible_def comp_def elg_id_def demo_dataset_def Let_def)
  show "excluded_ids demo_ids = [38, 44, 46, 50, 1067, 1489]" by code_simp
qed

definition demo_selected :: "pilot_dataset list" where
  "demo_selected = map (\<lambda>d. (demo_dataset d)\<lparr>pds_rationale := rationale_of \<lparr>elg_data = demo_dataset d, elg_missing_cells = 0\<rparr>\<rparr>) demo_ids"

lemma demo_select: "mapr (select_dataset demo_eligible) demo_ids = Inr demo_selected"
  unfolding demo_selected_def
proof (rule mapr_map)
  fix d assume d: "d \<in> set demo_ids"
  then have mem: "d \<in> set SCHEMAORBIT_IDS" using demo_eligible_facts(1) by auto
  then have "validate_pilot_dataset (demo_dataset d) = Inr (demo_dataset d)"
    using demo_dataset_ready demo_eligible_facts(2) by (simp add: ready_dataset_def)
  then have "validate_pilot_dataset ((demo_dataset d)\<lparr>pds_rationale := r\<rparr>) = Inr ((demo_dataset d)\<lparr>pds_rationale := r\<rparr>)" for r
    by (simp add: validate_pilot_dataset_def bindr_Inr_iff guards_Inr_iff task_type_of_def)
  then show "select_dataset demo_eligible d
      = Inr ((demo_dataset d)\<lparr>pds_rationale := rationale_of \<lparr>elg_data = demo_dataset d, elg_missing_cells = 0\<rparr>\<rparr>)"
    by (simp add: select_dataset_def demo_find [OF mem] of_option_def)
qed

lemma demo_competitor: "\<exists>b \<in> set demo_selected. competitor P p (demo_dataset d) demo_selected = Inr b"
proof -
  obtain q where q: "nearest_profile P p (demo_dataset d) = Inr q" using demo_profile by blast
  let ?f = "\<lambda>s. bindr (nearest_profile P p s) (\<lambda>r. Inr ((differences q r, pds_id s), s))"
  have "\<exists>y. ?f s = Inr y" if "s \<in> set demo_selected" for s
    using that demo_profile_rationale by (fastforce simp: demo_selected_def bindr_Inr_iff)
  from mapr_complete [of demo_selected ?f, OF this] obtain ks where ks: "mapr ?f demo_selected = Inr ks" by blast
  have "length demo_selected = 8" by (simp add: demo_selected_def demo_ids_def)
  with mapr_length [OF ks] have "ks \<noteq> []" by auto
  then obtain k r where kr: "ks = k # r" by (cases ks) auto
  have "min_by fst k r \<in> set ks" using min_by_mem [of fst k r] kr by simp
  then obtain s where "s \<in> set demo_selected" "?f s = Inr (min_by fst k r)" unfolding mapr_set [OF ks] by blast
  then have "snd (min_by fst k r) \<in> set demo_selected" by (auto simp: bindr_Inr_iff) (metis snd_conv)
  moreover have "competitor P p (demo_dataset d) demo_selected = Inr (snd (min_by fst k r))"
    by (simp add: competitor_def q ks kr)
  ultimately show ?thesis by blast
qed

lemma demo_datasets: "\<exists>excluded. plan_datasets P demo_policy demo_eligible demo_ids = Inr (demo_selected, excluded)"
proof -
  have ids: "map pds_id demo_selected = demo_ids" by (simp add: demo_selected_def comp_def demo_dataset_def Let_def)
  have last: "find_eligible demo_eligible (last demo_ids) = Some \<lparr>elg_data = demo_dataset 1464, elg_missing_cells = 0\<rparr>"
    using demo_find [of 1464] by (simp add: demo_ids_def SCHEMAORBIT_IDS_def)
  have "\<exists>x. excluded_record P demo_policy demo_eligible demo_selected \<lparr>elg_data = demo_dataset 1464, elg_missing_cells = 0\<rparr> d = Inr x"
    if d: "d \<in> set (excluded_ids demo_ids)" for d
  proof -
    have mem: "d \<in> set SCHEMAORBIT_IDS" using d by (auto simp: excluded_ids_def)
    obtain b where b: "b \<in> set demo_selected" "competitor P demo_policy (demo_dataset d) demo_selected = Inr b"
      using demo_competitor by blast
    have "pds_id b \<in> set demo_ids" using b(1) unfolding ids [symmetric] by simp
    then have "0 < pds_id b" "0 < d" using demo_eligible_facts(1,2) mem by auto
    moreover have "is_sha256 (pds_evidence_sha (demo_dataset 1464))" by (simp add: demo_dataset_def Let_def demo_digest_sha)
    ultimately show ?thesis
      by (simp add: excluded_record_def demo_find [OF mem] of_option_def b(2) validate_excluded_def)
  qed
  then have "\<exists>excluded. mapr (excluded_record P demo_policy demo_eligible demo_selected
      \<lparr>elg_data = demo_dataset 1464, elg_missing_cells = 0\<rparr>) (excluded_ids demo_ids) = Inr excluded"
    by (rule mapr_complete)
  then obtain excluded where excluded: "mapr (excluded_record P demo_policy demo_eligible demo_selected
      \<lparr>elg_data = demo_dataset 1464, elg_missing_cells = 0\<rparr>) (excluded_ids demo_ids) = Inr excluded" ..
  have covered: "set (slp_required_coverage demo_policy) \<subseteq> \<Union> (set (map (\<lambda>d. case find_eligible demo_eligible d of
      None \<Rightarrow> {} | Some e \<Rightarrow> set (pds_tags (elg_data e))) demo_ids))"
    using demo_find [of 3] demo_find [of 54] by (simp add: demo_policy_def demo_ids_def SCHEMAORBIT_IDS_def demo_dataset_def Let_def)
  have "set demo_ids \<subseteq> set (map elg_id demo_eligible)" "demo_ids \<noteq> []"
    by (simp_all add: demo_eligible_facts(1,3)) (simp add: demo_ids_def)
  with covered excluded show ?thesis
    by (simp add: plan_datasets_def demo_select ids last of_option_def)
qed

theorem excluded_datasets_mislabelled_witness:
  "\<exists>selected excluded. plan_datasets (demo_pilot (\<lambda>_. zero_hash)) demo_policy demo_eligible demo_ids = Inr (selected, excluded)
    \<and> (\<exists>x \<in> set excluded. exd_id x = 38 \<and> exd_name x = ''1464'')"
proof -
  obtain excluded where d: "plan_datasets (demo_pilot (\<lambda>_. zero_hash)) demo_policy demo_eligible demo_ids = Inr (demo_selected, excluded)"
    using demo_datasets by blast
  have ids: "map pds_id demo_selected = demo_ids" by (simp add: demo_selected_def comp_def demo_dataset_def Let_def)
  note E = excluded_datasets_mislabelled [OF d]
  have "map exd_id excluded = [38, 44, 46, 50, 1067, 1489]"
    using E demo_eligible_facts(4) unfolding ids excluded_ids_def by simp
  then obtain x where x: "x \<in> set excluded" "exd_id x = 38" by (cases excluded) auto
  have "pds_name (last demo_selected) = show_int 1464"
    by (simp add: demo_selected_def demo_ids_def) (simp add: demo_dataset_def Let_def)
  moreover have "show_int 1464 = ''1464''" by code_simp
  ultimately show ?thesis using d x E by auto
qed

end
