(* ===== verification/Metric_Properties.thy ===== *)
theory Metric_Properties
  imports Pilot_Demo Pilot_Metrics Model_Registry
begin

text \<open>
  The properties of the metrics and of the probability matrices: the chunked area under the ROC
  curve is the pair statistic, aligned probabilities are those of the named classes, and what the
  status of a validation report says.
\<close>

section \<open>The area under the ROC curve\<close>

text \<open>The credit of a pair: one when the positive score wins, one half for a tie, nothing otherwise.\<close>

definition pair_credit :: "py_float \<Rightarrow> py_float \<Rightarrow> rat" where
  "pair_credit tol d = (if tol < d then 1 else if \<bar>d\<bar> \<le> tol then 1 / 2 else 0)"

definition total_credit :: "pilot_params \<Rightarrow> py_float \<Rightarrow> py_float list \<Rightarrow> py_float list \<Rightarrow> rat" where
  "total_credit P tol ps ns = (\<Sum>x \<leftarrow> ps. \<Sum>y \<leftarrow> ns. pair_credit tol (pp_fl P (x - y)))"

lemma pair_count_sum: "of_nat (pair_count P q ps ns) = (\<Sum>x \<leftarrow> ps. \<Sum>y \<leftarrow> ns. if q (pp_fl P (x - y)) then 1 else (0 :: rat))"
proof -
  have "of_nat (length (filter q ys)) = (\<Sum>y \<leftarrow> ys. if q y then 1 else (0 :: rat))" for q :: "py_float \<Rightarrow> bool" and ys
    by (induction ys) auto
  then show ?thesis unfolding pair_count_def by (induction ps) simp_all
qed

lemma total_credit_counts:
  assumes "0 \<le> tol"
  shows "total_credit P tol ps ns = of_nat (pair_count P (\<lambda>d. tol < d) ps ns) + of_nat (pair_count P (\<lambda>d. \<bar>d\<bar> \<le> tol) ps ns) / 2"
proof -
  have "pair_credit tol d = (if tol < d then 1 else 0) + (if \<bar>d\<bar> \<le> tol then 1 else 0) / 2" for d
    using assms by (auto simp: pair_credit_def abs_if)
  moreover have "(\<Sum>y \<leftarrow> ys. f y / 2) = (\<Sum>y \<leftarrow> ys. f y) / 2" for f :: "py_float \<Rightarrow> rat" and ys
    by (induction ys) (simp_all add: add_divide_distrib)
  ultimately show ?thesis unfolding total_credit_def pair_count_sum by (simp only: sum_list_addf)
qed

lemma pair_credit_bounds: "0 \<le> pair_credit tol d" "pair_credit tol d \<le> 1"
  by (simp_all add: pair_credit_def)

lemma sum_list_between:
  fixes f :: "'a \<Rightarrow> rat"
  shows "(\<And>x. x \<in> set xs \<Longrightarrow> 0 \<le> f x) \<Longrightarrow> 0 \<le> (\<Sum>x \<leftarrow> xs. f x)"
    and "(\<And>x. x \<in> set xs \<Longrightarrow> f x \<le> b) \<Longrightarrow> (\<Sum>x \<leftarrow> xs. f x) \<le> of_nat (length xs) * b"
  by (induction xs) (fastforce simp: distrib_right)+

lemma total_credit_bounds: "0 \<le> total_credit P tol ps ns" "total_credit P tol ps ns \<le> of_nat (length ps * length ns)"
proof -
  show "0 \<le> total_credit P tol ps ns"
    unfolding total_credit_def by (intro sum_list_between(1)) (rule pair_credit_bounds)
  have "(\<Sum>y \<leftarrow> ns. pair_credit tol (pp_fl P (x - y))) \<le> of_nat (length ns)" for x
    using sum_list_between(2) [of ns "\<lambda>y. pair_credit tol (pp_fl P (x - y))" 1] pair_credit_bounds(2) by simp
  from sum_list_between(2) [OF this] show "total_credit P tol ps ns \<le> of_nat (length ps * length ns)"
    unfolding total_credit_def by simp
qed

lemma chunk_credit_total:
  assumes "0 < tol"
  shows "chunk_credit P tol ps ns (r, t, k)
    = (r + total_credit P 0 ps ns, t + total_credit P tol ps ns, k + pair_count P (\<lambda>d. \<bar>d\<bar> \<le> tol) ps ns)"
  using assms by (simp add: chunk_credit_def Let_def total_credit_counts)

lemma total_credit_append:
  "total_credit P tol ps (ns @ ms) = total_credit P tol ps ns + total_credit P tol ps ms"
  "total_credit P tol (ps @ qs) ns = total_credit P tol ps ns + total_credit P tol qs ns"
  "total_credit P tol ps [] = 0" "total_credit P tol [] ns = 0"
  by (simp_all add: total_credit_def sum_list_addf)

lemma pair_count_append:
  "pair_count P q ps (ns @ ms) = pair_count P q ps ns + pair_count P q ps ms"
  "pair_count P q (ps @ qs) ns = pair_count P q ps ns + pair_count P q qs ns"
  "pair_count P q ps [] = 0" "pair_count P q [] ns = 0"
  by (simp_all add: pair_count_def sum_list_addf)

lemma inner_credit:
  assumes "0 < tol"
  shows "fold (chunk_credit P tol ps) nss (r, t, k) = (r + total_credit P 0 ps (concat nss), t + total_credit P tol ps (concat nss),
    k + pair_count P (\<lambda>d. \<bar>d\<bar> \<le> tol) ps (concat nss))"
  by (induction nss arbitrary: r t k) (simp_all add: chunk_credit_total [OF assms] total_credit_append pair_count_append)

lemma outer_credit:
  assumes "0 < tol"
  shows "fold (\<lambda>ps acc. fold (chunk_credit P tol ps) nss acc) pss (r, t, k)
    = (r + total_credit P 0 (concat pss) (concat nss), t + total_credit P tol (concat pss) (concat nss),
       k + pair_count P (\<lambda>d. \<bar>d\<bar> \<le> tol) (concat pss) (concat nss))"
  by (induction pss arbitrary: r t k) (simp_all add: inner_credit [OF assms] total_credit_append pair_count_append)

lemma concat_chunks:
  assumes "0 < n"
  shows "concat (chunks n xs) = xs"
proof -
  have "concat (map (\<lambda>i. take n (drop (i * n) xs)) [0..<m]) = take (m * n) xs" for m
  proof (induction m)
    case (Suc m)
    have "take (Suc m * n) xs = take (m * n) xs @ take n (drop (m * n) xs)"
      unfolding mult_Suc add.commute [of n] by (rule take_add)
    with Suc show ?case by simp
  qed simp
  moreover have "length xs \<le> (length xs + n - 1) div n * n"
  proof -
    have "length xs + n - 1 < (length xs + n - 1) div n * n + n"
      using mod_less_divisor [OF assms, of "length xs + n - 1"] div_mult_mod_eq [of "length xs + n - 1" n] by linarith
    with assms show ?thesis by linarith
  qed
  ultimately show ?thesis by (simp add: chunks_def)
qed

lemma finite_values_Finite [simp]: "finite_values (map Finite xs) = Some xs"
proof -
  have "those (map Some xs) = Some xs" by (induction xs) auto
  then show ?thesis by (simp add: finite_values_def comp_def)
qed

text \<open>
  With both classes present, the area computed chunk by chunk is the mean credit over all
  pairs of a positive and a negative score, exact ties and ties within the tolerance counting one
  half, whatever the size of the chunks; before the final rounding it lies between 0 and 1.
\<close>

theorem auroc_is_pair_statistic:
  assumes "length labels = length xs" and "set labels \<subseteq> {0, 1}" and "0 < tol" and "0 < n"
    and "scores_with 1 labels xs = ps" "ps \<noteq> []" and "scores_with 0 labels xs = ns" "ns \<noteq> []"
  shows "chunked_binary_auroc P labels (map Finite xs) tol n = Inr (Defined
      (pp_fl P (total_credit P 0 ps ns / of_nat (length ps * length ns)))
      (pp_fl P (total_credit P tol ps ns / of_nat (length ps * length ns))) (pair_count P (\<lambda>d. \<bar>d\<bar> \<le> tol) ps ns))
    \<and> (\<forall>t. 0 \<le> total_credit P t ps ns / of_nat (length ps * length ns)
           \<and> total_credit P t ps ns / of_nat (length ps * length ns) \<le> 1)"
proof -
  have labels: "labels \<noteq> []" using assms(5,6) by (auto simp: scores_with_def)
  have n: "0 < nat n" using assms(4) by simp
  have pos: "0 < (of_nat (length ps * length ns) :: rat)" using assms(6,8) by simp
  have acc: "accumulate_credit P tol (nat n) ps ns
      = (total_credit P 0 ps ns, total_credit P tol ps ns, pair_count P (\<lambda>d. \<bar>d\<bar> \<le> tol) ps ns)"
    unfolding accumulate_credit_def outer_credit [OF assms(3)] concat_chunks [OF n] by simp
  have "chunked_binary_auroc P labels (map Finite xs) tol n = Inr (Defined
      (pp_fl P (total_credit P 0 ps ns / of_nat (length ps * length ns)))
      (pp_fl P (total_credit P tol ps ns / of_nat (length ps * length ns))) (pair_count P (\<lambda>d. \<bar>d\<bar> \<le> tol) ps ns))"
    using assms labels by (simp add: chunked_binary_auroc_def Let_def acc)
  moreover have "0 \<le> total_credit P t ps ns / of_nat (length ps * length ns)
      \<and> total_credit P t ps ns / of_nat (length ps * length ns) \<le> 1" for t
    using total_credit_bounds [of P t ps ns] pos by (simp add: divide_le_eq del: of_nat_mult)
  ultimately show ?thesis by blast
qed

theorem auroc_is_pair_statistic_witness:
  "chunked_binary_auroc (demo_pilot id) [1, 0, 1, 0] (map Finite [3, 1, 2, 2]) (1 / 10 ^ 15) 1 = Inr (Defined (7 / 8) (7 / 8) 1)"
proof -
  have "scores_with 1 [1, 0, 1, 0] [3, 1, 2, 2] = [3, 2]" "scores_with 0 [1, 0, 1, 0] [3, 1, 2, 2] = [1, 2]"
    by (simp_all add: scores_with_def)
  moreover have "total_credit (demo_pilot id) 0 [3, 2] [1, 2] = 7 / 2"
    "total_credit (demo_pilot id) (1 / 10 ^ 15) [3, 2] [1, 2] = 7 / 2"
    by (simp_all add: total_credit_def pair_credit_def demo_pilot_def)
  moreover have "pair_count (demo_pilot id) (\<lambda>d. \<bar>d\<bar> \<le> 1 / 10 ^ 15) [3, 2] [1, 2] = 1"
    by (simp add: pair_count_def demo_pilot_def)
  moreover have "pp_fl (demo_pilot id) x = x" for x by (simp add: demo_pilot_def)
  ultimately show ?thesis
    using auroc_is_pair_statistic [of "[1, 0, 1, 0]" "[3, 1, 2, 2]" "1 / 10 ^ 15" 1 "[3, 2]" "[1, 2]" "demo_pilot id"] by simp
qed

section \<open>Probability matrices\<close>

lemma those_Some: "those os = Some xs \<longleftrightarrow> os = map Some xs"
  by (induction os arbitrary: xs) (auto split: option.splits simp: Cons_eq_map_conv)

lemma finite_rows_eq: "finite_rows rows = Some m \<longleftrightarrow> map (map float_number) rows = map (map Some) m"
  unfolding finite_rows_def those_Some
proof (induction rows arbitrary: m)
  case (Cons r rows)
  then show ?case by (cases m) (simp_all add: those_Some)
qed simp

lemma clip_unit: "0 \<le> clip x" "clip x \<le> 1" "0 \<le> x \<Longrightarrow> x \<le> 1 \<Longrightarrow> clip x = x"
  by (simp_all add: clip_def)

lemma clipped_rows:
  "(if list_ex (list_ex (\<lambda>x. x < 0 \<or> 1 < x)) m then map (map clip) m else m) = map (map clip) m"
proof (cases "list_ex (list_ex (\<lambda>x. x < 0 \<or> 1 < x)) m")
  case False
  then have "map clip r = r" if "r \<in> set m" for r
    using that by (intro map_idI clip_unit(3)) (auto simp: list_ex_iff not_less)
  then have "map (map clip) m = m" by (rule map_idI)
  then show ?thesis by simp
qed simp

text \<open>
  An accepted matrix has one row per input row and one column per canonical class, and the
  model's classes are the canonical ones in some order; the entry of a row and a class is the finite
  probability which the model gave to that class, wherever its column was, cut to the unit interval.
\<close>

theorem aligned_probabilities:
  assumes "align_adapter_probabilities Q (Some (length classes, rows)) classes canonical n tol = Inr (m, cs, err)"
    and "list_all (\<lambda>r. length r = length classes) rows"
  shows "cs = canonical \<and> mset classes = mset canonical \<and> length m = n \<and> length rows = n \<and> err \<le> tol
    \<and> (\<forall>i < n. length (m ! i) = length canonical \<and> (\<forall>j k. j < length classes \<longrightarrow> k < length canonical \<longrightarrow> classes ! j = canonical ! k \<longrightarrow>
         (\<exists>x. float_number (rows ! i ! j) = Some x \<and> m ! i ! k = clip x \<and> 0 \<le> m ! i ! k \<and> m ! i ! k \<le> 1)))"
proof -
  from assms(1) have N: "normalize_probability_matrix Q (Some (length classes, rows)) classes canonical (Some n) tol = Inr (m, cs, err)"
    by (auto simp: align_adapter_probabilities_def split: sum.splits if_splits prod.splits)
  then have d: "distinct classes" "distinct canonical" "set classes = set canonical" and rows: "length rows = n"
    by (auto simp: normalize_probability_matrix_def split: if_splits)
  from N obtain f where f: "finite_rows rows = Some f"
    by (auto simp: normalize_probability_matrix_def split: if_splits option.splits)
  with N have m: "m = map (map clip) (map (reorder classes canonical) f)" and cs: "cs = canonical" and err: "err \<le> tol"
    by (auto simp: normalize_probability_matrix_def Let_def clipped_rows split: if_splits simp del: map_map list.map_comp)
  from f have fin: "map (map float_number) rows = map (map Some) f" by (simp add: finite_rows_eq)
  have len: "length rows = length f" using arg_cong [OF fin, of length] by simp
  have "\<exists>x. float_number (rows ! i ! j) = Some x \<and> m ! i ! k = clip x \<and> 0 \<le> m ! i ! k \<and> m ! i ! k \<le> 1"
    if "i < n" "j < length classes" "k < length canonical" "classes ! j = canonical ! k" for i j k
  proof -
    have i: "i < length rows" "i < length f" using that(1) rows len by simp_all
    have "rows ! i \<in> set rows" using that(1) rows by simp
    then have "length (rows ! i) = length classes" using assms(2) by (auto simp: list_all_iff)
    then have l: "length (rows ! i) = length classes" .
    from arg_cong [OF fin, of "\<lambda>m. m ! i"] i have row: "map float_number (rows ! i) = map Some (f ! i)" by simp
    from arg_cong [OF row, of length] l have "j < length (f ! i)" using that(2) by simp
    with arg_cong [OF row, of "\<lambda>r. r ! j"] l that(2) have "float_number (rows ! i ! j) = Some (f ! i ! j)" by simp
    moreover have "index_of classes (canonical ! k) = j" using index_of_nth [OF d(1) that(2)] that(4) by simp
    then have "m ! i ! k = clip (f ! i ! j)" using i(2) that(3) by (simp add: m reorder_def)
    ultimately show ?thesis by (simp add: clip_unit(1,2))
  qed
  moreover have "length (m ! i) = length canonical" if "i < n" for i
    using that rows len by (simp add: m reorder_def)
  moreover have "mset classes = mset canonical" using d by (simp add: set_eq_iff_mset_eq_distinct)
  ultimately show ?thesis using cs err rows len by (simp add: m)
qed

definition demo_prob :: prob_params where
  "demo_prob = \<lparr>pb_fl = id, pb_row_sum = sum_list\<rparr>"

definition demo_rows :: "float_value list list" where
  "demo_rows = [[Finite (1 / 4), Finite (3 / 4)]]"

theorem aligned_probabilities_witness:
  "\<exists>m cs err. align_adapter_probabilities demo_prob (Some (length [''yes'', ''no''], demo_rows)) [''yes'', ''no''] [''no'', ''yes''] 1
       (1 / 10 ^ 6) = Inr (m, cs, err) \<and> m ! 0 ! 0 = 3 / 4"
proof -
  let ?a = "align_adapter_probabilities demo_prob (Some (length [''yes'', ''no''], demo_rows)) [''yes'', ''no''] [''no'', ''yes''] 1
       (1 / 10 ^ 6)"
  have "case ?a of Inl _ \<Rightarrow> False | Inr _ \<Rightarrow> True" by code_simp
  then obtain m cs err where a: "?a = Inr (m, cs, err)" by (auto split: sum.splits)
  have "list_all (\<lambda>r. length r = length [''yes'', ''no'']) demo_rows" by (simp add: demo_rows_def)
  from aligned_probabilities [OF a this] have "\<And>i j k. i < 1 \<Longrightarrow> j < length [''yes'', ''no''] \<Longrightarrow> k < length [''no'', ''yes''] \<Longrightarrow>
      [''yes'', ''no''] ! j = [''no'', ''yes''] ! k \<Longrightarrow> \<exists>x. float_number (demo_rows ! i ! j) = Some x \<and> m ! i ! k = clip x" by blast
  from this [of 0 1 0] obtain x where "float_number (demo_rows ! 0 ! 1) = Some x" "m ! 0 ! 0 = clip x" by auto
  then have "m ! 0 ! 0 = clip x" "x = 3 / 4" by (simp_all add: demo_rows_def)
  then show ?thesis using a by (simp add: clip_def)
qed

section \<open>The validation report\<close>

text \<open>
  A report that is built holds the forty gates PF01 to PF40, once each, and its status says
  what they show: repair when a gate failed, blocked when none failed but one was not verified, and
  otherwise a pass, for review of the resources unless both preferred limits hold.
\<close>

theorem report_status_exact:
  assumes "build_validation_report commit p i gates = Inr v"
  shows "map pgt_id (pvl_gates v) = GATE_NAMES \<and> mset (pvl_gates v) = mset gates
    \<and> pvl_status v = (if \<exists>g \<in> set gates. pgt_result g = ''FAIL'' then ''REPAIR_REQUIRED''
        else if \<exists>g \<in> set gates. pgt_result g = ''NOT_VERIFIED'' then ''BLOCKED''
        else if rte_preferred_wall (ppa_estimate p) \<and> rte_preferred_storage (ppa_estimate p) then ''PASS_PENDING_REVIEW''
        else ''RESOURCE_REVIEW_REQUIRED'')
    \<and> (pvl_status v \<in> {''PASS_PENDING_REVIEW'', ''RESOURCE_REVIEW_REQUIRED''} \<longrightarrow> (\<forall>g \<in> set gates. pgt_result g = ''PASS''))"
proof -
  have count: "count_result r (sort_key pgt_id gates) \<noteq> 0 \<longleftrightarrow> (\<exists>g \<in> set gates. pgt_result g = r)" for r
    by (auto simp: count_result_def count_where_def filter_empty_conv)
  from assms have "\<forall>g \<in> set (pvl_gates v). pgt_result g \<in> {''PASS'', ''FAIL'', ''NOT_VERIFIED''}"
    by (auto simp: build_validation_report_def Let_def validate_protocol_validation_def bindr_Inr_iff guards_Inr_iff validate_all_Inr
      validate_gate_def)
  moreover from assms have "pvl_gates v = sort_key pgt_id gates" "map pgt_id (pvl_gates v) = GATE_NAMES"
    by (auto simp: build_validation_report_def Let_def validate_protocol_validation_def bindr_Inr_iff guards_Inr_iff)
  moreover from assms have "pvl_status v = (if \<exists>g \<in> set gates. pgt_result g = ''FAIL'' then ''REPAIR_REQUIRED''
        else if \<exists>g \<in> set gates. pgt_result g = ''NOT_VERIFIED'' then ''BLOCKED''
        else if rte_preferred_wall (ppa_estimate p) \<and> rte_preferred_storage (ppa_estimate p) then ''PASS_PENDING_REVIEW''
        else ''RESOURCE_REVIEW_REQUIRED'')"
    unfolding build_validation_report_def Let_def validate_protocol_validation_def bindr_Inr_iff guards_Inr_iff count by auto
  ultimately show ?thesis by (auto split: if_splits)
qed

definition demo_gates :: "string \<Rightarrow> protocol_gate list" where
  "demo_gates r = map (\<lambda>g. \<lparr>pgt_id = g, pgt_result = r, pgt_evidence = zero_hash, pgt_detail = []\<rparr>) GATE_NAMES"

definition demo_pilot_inventory :: pilot_inventory where
  "demo_pilot_inventory = planned_inventory demo_plan_params demo_plan_context demo_sources demo_ids"

lemma demo_gates_facts: "map pgt_id (demo_gates r) = GATE_NAMES" "length (demo_gates r) = 40"
  "count_result q (demo_gates r) = (if q = r then 40 else 0)"
  by (simp_all add: demo_gates_def comp_def GATE_NAMES_def count_result_def count_where_def filter_map)

lemma demo_gates_sorted: "sort_key pgt_id (demo_gates r) = demo_gates r"
proof -
  have "sorted GATE_NAMES" by code_simp
  then show ?thesis by (intro sort_key_id_if_sorted) (simp add: demo_gates_facts)
qed

lemma demo_gates_valid: "r \<in> {''PASS'', ''FAIL'', ''NOT_VERIFIED''} \<Longrightarrow> validate_all validate_gate (demo_gates r) = Inr ()"
proof -
  have "list_all (\<lambda>g. length g = 4 \<and> take 2 g = ''PF'' \<and> list_all is_digit (drop 2 g)) GATE_NAMES" by code_simp
  then show "r \<in> {''PASS'', ''FAIL'', ''NOT_VERIFIED''} \<Longrightarrow> ?thesis"
    by (auto simp: validate_all_Inr demo_gates_def validate_gate_def list_all_iff guards_Inr_iff)
qed

lemma demo_validation:
  assumes "pvl_status v \<in> {''PASS_PENDING_REVIEW'', ''RESOURCE_REVIEW_REQUIRED'', ''REPAIR_REQUIRED'', ''BLOCKED''}"
    and "is_commit (pvl_commit v)" "is_sha256 (pvl_protocol_sha v)" "is_sha256 (pvl_inventory_sha v)"
    and "pvl_gates v = demo_gates r" "r \<in> {''PASS'', ''FAIL'', ''NOT_VERIFIED''}"
    and "pvl_passed v = (if ''PASS'' = r then 40 else 0)" "pvl_failed v = (if ''FAIL'' = r then 40 else 0)"
    "pvl_not_verified v = (if ''NOT_VERIFIED'' = r then 40 else 0)"
  shows "validate_protocol_validation v = Inr v"
  using assms(1-4) demo_gates_valid [OF assms(6)]
  by (auto simp: validate_protocol_validation_def assms(5,7,8,9) demo_gates_facts)

lemma demo_report: "\<exists>v. build_validation_report (replicate 40 CHR ''0'') demo_protocol demo_pilot_inventory (demo_gates ''PASS'') = Inr v"
proof -
  have commit: "is_commit (replicate 40 CHR ''0'')" by code_simp
  have shas: "is_sha256 (ppa_sha demo_protocol)" "is_sha256 (pci_sha demo_pilot_inventory)"
    by (simp_all add: demo_protocol_def other_sha_def number_sha_ok demo_pilot_inventory_def planned_inventory_sha
      sha256_canonical_json_def demo_plan_sha)
  show ?thesis
    unfolding build_validation_report_def Let_def demo_gates_sorted demo_gates_facts
    by (rule exI, rule demo_validation [where r = "''PASS''"]) (simp_all add: commit shas)
qed

theorem report_status_exact_witness:
  "\<exists>v. build_validation_report (replicate 40 CHR ''0'') demo_protocol demo_pilot_inventory (demo_gates ''PASS'') = Inr v
    \<and> pvl_status v = ''PASS_PENDING_REVIEW''"
proof -
  obtain v where v: "build_validation_report (replicate 40 CHR ''0'') demo_protocol demo_pilot_inventory (demo_gates ''PASS'') = Inr v"
    using demo_report by blast
  have "rte_preferred_wall (ppa_estimate demo_protocol)" "rte_preferred_storage (ppa_estimate demo_protocol)"
    "\<forall>g \<in> set (demo_gates ''PASS''). pgt_result g = ''PASS''"
    by (simp_all add: demo_protocol_def demo_estimate_def demo_gates_def)
  with report_status_exact [OF v] v show ?thesis by auto
qed

text \<open>
  The contract of the report itself does not compare its status with its gates: whatever a
  report says, the same report with any other status of the vocabulary is accepted, so a file that
  claims a pass with forty failed gates loads.
\<close>

theorem report_status_unchecked:
  assumes "validate_protocol_validation v = Inr v"
    and "status \<in> {''PASS_PENDING_REVIEW'', ''RESOURCE_REVIEW_REQUIRED'', ''REPAIR_REQUIRED'', ''BLOCKED''}"
  shows "validate_protocol_validation (v\<lparr>pvl_status := status\<rparr>) = Inr (v\<lparr>pvl_status := status\<rparr>)"
  using assms by (auto simp: validate_protocol_validation_def bindr_Inr_iff guards_Inr_iff)

theorem report_status_unchecked_witness:
  "\<exists>v. validate_protocol_validation v = Inr v \<and> pvl_status v = ''PASS_PENDING_REVIEW'' \<and> pvl_failed v = 40"
proof -
  let ?v = "\<lparr>pvl_status = ''REPAIR_REQUIRED'', pvl_commit = replicate 40 CHR ''0'', pvl_protocol_sha = zero_hash,
    pvl_inventory_sha = zero_hash, pvl_passed = 0, pvl_failed = 40, pvl_not_verified = 0, pvl_gates = demo_gates ''FAIL''\<rparr>"
  have "is_commit (replicate 40 CHR ''0'')" by code_simp
  then have "validate_protocol_validation ?v = Inr ?v" by (intro demo_validation [where r = "''FAIL''"]) simp_all
  from report_status_unchecked [OF this, of "''PASS_PENDING_REVIEW''"] show ?thesis
    by (intro exI [of _ "?v\<lparr>pvl_status := ''PASS_PENDING_REVIEW''\<rparr>"]) simp
qed

end
