(* ===== verification/Smoke_Contracts.thy ===== *)
theory Smoke_Contracts
  imports Pilot_Metrics Pilot_Planning
begin

text \<open>
  \<open>src/schemaguard/experiments/contracts.py\<close>, the part that identifies the smoke experiment: its
  views, its ten conditions with their canonical identities, the plan and its envelope. A field
  whose type is a single literal is a constant of the model; a dictionary is an association list.
  Model and view identifiers, partitions and statuses are their texts.
\<close>

section \<open>The frozen matrix\<close>

definition SMOKE_MODEL_ORDER :: "string list" where
  "SMOKE_MODEL_ORDER = [''LR-1.9'', ''CAT-1.2'', ''XGB-3.4'', ''TPFN3-8.5'', ''TICL2-2.2'']"

definition SMOKE_VIEW_ORDER :: "string list" where
  "SMOKE_VIEW_ORDER = [''V00'', ''V01'']"

definition FOUNDATION_MODELS :: "string list" where
  "FOUNDATION_MODELS = [''TPFN3-8.5'', ''TICL2-2.2'']"

definition ALL_PARTITIONS :: "string list" where
  "ALL_PARTITIONS = [''train'', ''calibration'', ''test'']"

definition SMOKE_SEED :: int where "SMOKE_SEED = 1729"
definition SMOKE_DATASET_ID :: int where "SMOKE_DATASET_ID = 1464"

definition smoke_device :: "string \<Rightarrow> device_policy" where
  "smoke_device model = (if model \<in> set FOUNDATION_MODELS then Cuda else Cpu)"

definition expected_pairs :: "(string \<times> string) list" where
  "expected_pairs = [(model, view). model \<leftarrow> SMOKE_MODEL_ORDER, view \<leftarrow> SMOKE_VIEW_ORDER]"

definition bad_hash_option :: "string option \<Rightarrow> bool" where
  "bad_hash_option h \<longleftrightarrow> (case h of None \<Rightarrow> False | Some s \<Rightarrow> \<not> is_sha256 s)"

definition hash_guard :: "string \<times> string \<Rightarrow> bool \<times> error" where
  "hash_guard = (\<lambda>(field, h). (\<not> is_sha256 h, ValueError field))"

section \<open>Views\<close>

record smoke_view =
  smv_view_id :: string
  smv_view_name :: string
  smv_source_hash :: string
  smv_output_hash :: string
  smv_certificate_sha256 :: string
  smv_certificate_ids :: "string list"
  smv_features_sha256 :: string
  smv_partition_feature :: "(string \<times> string) list"
  smv_partition_feature_file :: "(string \<times> string) list"
  smv_partition_certificate_file :: "(string \<times> string option) list"
  smv_manifest_sha256 :: "string option"
  smv_partition_row_id :: "(string \<times> string) list"
  smv_partition_rows :: "(string \<times> int) list"

definition smoke_view_name :: "string \<Rightarrow> string" where
  "smoke_view_name view = (if view = ''V00'' then ''identity'' else ''numeric_affine_units'')"

definition partition_hashes_ok :: "(string \<times> string) list \<Rightarrow> bool" where
  "partition_hashes_ok d \<longleftrightarrow> set (map fst d) \<subseteq> set ALL_PARTITIONS \<and> list_all is_sha256 (map snd d)"

definition validate_smoke_view :: "smoke_view \<Rightarrow> smoke_view result" where
  "validate_smoke_view v = guards
     ([(smv_view_id v \<notin> set SMOKE_VIEW_ORDER, ValueError ''view_id''),
       (smv_view_name v \<notin> {''identity'', ''numeric_affine_units''}, ValueError ''view_name'')]
      @ map hash_guard [(''source_hash'', smv_source_hash v), (''output_hash'', smv_output_hash v),
          (''certificate_sha256'', smv_certificate_sha256 v)]
      @ [(length (smv_certificate_ids v) \<noteq> 3 \<or> \<not> list_all is_sha256 (smv_certificate_ids v), ValueError ''certificate_ids''),
         (\<not> is_sha256 (smv_features_sha256 v), ValueError ''view_features_sha256''),
         (\<not> partition_hashes_ok (smv_partition_feature v), ValueError ''partition_feature_sha256''),
         (\<not> partition_hashes_ok (smv_partition_feature_file v), ValueError ''partition_feature_file_sha256''),
         (\<not> (set (map fst (smv_partition_certificate_file v)) \<subseteq> set ALL_PARTITIONS
             \<and> list_all (\<lambda>h. \<not> bad_hash_option h) (map snd (smv_partition_certificate_file v))),
           ValueError ''partition_certificate_file_sha256''),
         (bad_hash_option (smv_manifest_sha256 v), ValueError ''manifest_sha256''),
         (\<not> partition_hashes_ok (smv_partition_row_id v), ValueError ''partition_row_id_sha256''),
         (\<not> set (map fst (smv_partition_rows v)) \<subseteq> set ALL_PARTITIONS, ValueError ''partition_rows''),
         (smv_view_name v \<noteq> smoke_view_name (smv_view_id v), ValueError ''view ID and frozen semantic name disagree''),
         (set (map fst (smv_partition_row_id v)) \<noteq> set ALL_PARTITIONS,
           ValueError ''view must identify all train/calibration/test row sets''),
         (set (map fst (smv_partition_rows v)) \<noteq> set ALL_PARTITIONS,
           ValueError ''view must record all train/calibration/test row counts''),
         (set (map fst (smv_partition_feature v)) \<noteq> set ALL_PARTITIONS,
           ValueError ''view must hash all train/calibration/test feature matrices''),
         (set (map fst (smv_partition_feature_file v)) \<noteq> set ALL_PARTITIONS,
           ValueError ''view must identify all train/calibration/test feature files''),
         (set (map fst (smv_partition_certificate_file v)) \<noteq> set ALL_PARTITIONS,
           ValueError ''view must identify every partition certificate artifact'')]) v"

section \<open>Conditions\<close>

record smoke_condition =
  smc_condition_id :: string
  smc_task_name :: string
  smc_model_id :: string
  smc_package_name :: string
  smc_package_version :: string
  smc_dataset_features_sha256 :: string
  smc_target_artifact_sha256 :: string
  smc_view_id :: string
  smc_device :: device_policy
  smc_precision_policy :: string
  smc_seed :: int
  smc_model_spec_sha256 :: string
  smc_parameters_sha256 :: string
  smc_model_parameters :: "(string \<times> json) list"
  smc_preprocessing :: string
  smc_checkpoint_identifier :: "string option"
  smc_checkpoint_sha256 :: "string option"
  smc_view_certificate_sha256 :: string
  smc_view_features_sha256 :: string
  smc_split_sha256 :: string
  smc_dependency_lock_sha256 :: string
  smc_source_implementation_sha256 :: string

text \<open>\<open>condition_identity\<close>, whose arguments are fields of the condition it identifies.\<close>

definition condition_identity_names :: "string list" where
  "condition_identity_names = [''schema_version'', ''artifact_kind'', ''dataset_features_sha256'',
     ''target_artifact_sha256'', ''model_id'', ''package_version'', ''view_id'', ''device'',
     ''precision_policy'', ''seed'', ''model_spec_sha256'', ''parameters_sha256'',
     ''view_certificate_sha256'', ''view_features_sha256'', ''split_sha256'', ''dependency_lock_sha256'',
     ''source_implementation_sha256'', ''checkpoint_sha256'']"

definition condition_identity_values :: "smoke_condition \<Rightarrow> json list" where
  "condition_identity_values c = [JInt 1, JStr ''prediction'', JStr (smc_dataset_features_sha256 c),
     JStr (smc_target_artifact_sha256 c), JStr (smc_model_id c), JStr (smc_package_version c),
     JStr (smc_view_id c), JStr (device_text (smc_device c)), JStr (smc_precision_policy c),
     JInt (smc_seed c), JStr (smc_model_spec_sha256 c), JStr (smc_parameters_sha256 c),
     JStr (smc_view_certificate_sha256 c), JStr (smc_view_features_sha256 c), JStr (smc_split_sha256 c),
     JStr (smc_dependency_lock_sha256 c), JStr (smc_source_implementation_sha256 c),
     json_text_option (smc_checkpoint_sha256 c)]"

definition condition_identity_json :: "smoke_condition \<Rightarrow> json" where
  "condition_identity_json c = JObj (zip condition_identity_names (condition_identity_values c))"

definition smoke_condition_identity :: "pilot_params \<Rightarrow> smoke_condition \<Rightarrow> string" where
  "smoke_condition_identity P c = sha256_canonical_json (pp_sha P) (condition_identity_json c)"

definition smoke_task_name :: "string \<Rightarrow> string \<Rightarrow> string" where
  "smoke_task_name model view = model @ ''__'' @ view"

definition validate_smoke_condition :: "pilot_params \<Rightarrow> smoke_condition \<Rightarrow> smoke_condition result" where
  "validate_smoke_condition P c = guards
     ([(\<not> is_sha256 (smc_condition_id c), ValueError ''condition_id''),
       (smc_task_name c = [] \<or> \<not> list_all task_name_char (smc_task_name c), ValueError ''task_name''),
       (smc_model_id c \<notin> set SMOKE_MODEL_ORDER, ValueError ''model_id'')]
      @ map hash_guard [(''dataset_features_sha256'', smc_dataset_features_sha256 c),
          (''target_artifact_sha256'', smc_target_artifact_sha256 c)]
      @ [(smc_view_id c \<notin> set SMOKE_VIEW_ORDER, ValueError ''view_id''),
         (smc_precision_policy c \<notin> {''native'', ''auto''}, ValueError ''precision_policy''),
         (smc_seed c < 0, ValueError ''seed'')]
      @ map hash_guard [(''model_spec_sha256'', smc_model_spec_sha256 c), (''parameters_sha256'', smc_parameters_sha256 c)]
      @ [(bad_hash_option (smc_checkpoint_sha256 c), ValueError ''checkpoint_sha256'')]
      @ map hash_guard [(''view_certificate_sha256'', smc_view_certificate_sha256 c),
          (''view_features_sha256'', smc_view_features_sha256 c), (''split_sha256'', smc_split_sha256 c),
          (''dependency_lock_sha256'', smc_dependency_lock_sha256 c),
          (''source_implementation_sha256'', smc_source_implementation_sha256 c)]
      @ [(smc_device c \<noteq> smoke_device (smc_model_id c), ValueError ''device policy is not the frozen CPU/CUDA matrix''),
         (smc_parameters_sha256 c \<noteq> sha256_canonical_json (pp_sha P) (JObj (smc_model_parameters c)),
           ValueError ''parameter hash does not match frozen model parameters''),
         (smc_condition_id c \<noteq> smoke_condition_identity P c, ValueError ''condition identity is not canonical''),
         (smc_task_name c \<noteq> smoke_task_name (smc_model_id c) (smc_view_id c),
           ValueError ''task name must identify exactly one frozen model/view pair''),
         ((smc_model_id c \<in> set FOUNDATION_MODELS) \<noteq> (smc_checkpoint_sha256 c \<noteq> None),
           ValueError ''checkpoint identity presence differs from model family'')]) c"

section \<open>The plan\<close>

record smoke_plan =
  smp_source_commit :: string
  smp_code_identity_sha256 :: string
  smp_dependency_lock_sha256 :: string
  smp_dataset_features_sha256 :: string
  smp_dataset_source_sha256 :: string
  smp_target_artifact_sha256 :: string
  smp_assignment_sha256 :: string
  smp_assignment_logical_sha256 :: string
  smp_transformation_inventory_sha256 :: string
  smp_configuration_identity_sha256 :: string
  smp_output_path_policy_sha256 :: string
  smp_registry_parameter_decisions :: "string list"
  smp_views :: "smoke_view list"
  smp_conditions :: "smoke_condition list"
  smp_log_loss_epsilon :: py_float
  smp_probability_sum_tolerance :: py_float
  smp_reconstruction_rtol :: py_float
  smp_reconstruction_atol :: py_float
  smp_ece_bins :: int
  smp_maximum_ram_mib :: int
  smp_maximum_vram_mib :: int
  smp_minimum_gpu_headroom_mib :: int
  smp_cpu_timeout_seconds :: int
  smp_cuda_timeout_seconds :: int

definition SMOKE_REGISTRY_DECISIONS :: "string list" where
  "SMOKE_REGISTRY_DECISIONS = [''catboost_yaml_no_scalar'', ''tabicl_checkpoint_version_from_checkpoint_field'']"

text \<open>The dictionary \<open>{key(item): value(item) for item in items}\<close>: the last item with a key wins.\<close>

definition view_by_id :: "smoke_view list \<Rightarrow> string \<Rightarrow> smoke_view option" where
  "view_by_id views k = by_key smv_view_id views k"

definition plan_field_guards :: "pilot_params \<Rightarrow> smoke_plan \<Rightarrow> (bool \<times> error) list" where
  "plan_field_guards P p =
     [(\<not> is_commit (smp_source_commit p), ValueError ''source_commit'')]
     @ map hash_guard [(''code_identity_sha256'', smp_code_identity_sha256 p),
         (''dependency_lock_sha256'', smp_dependency_lock_sha256 p),
         (''dataset_features_sha256'', smp_dataset_features_sha256 p),
         (''dataset_source_sha256'', smp_dataset_source_sha256 p),
         (''target_artifact_sha256'', smp_target_artifact_sha256 p),
         (''assignment_sha256'', smp_assignment_sha256 p),
         (''assignment_logical_sha256'', smp_assignment_logical_sha256 p),
         (''transformation_inventory_sha256'', smp_transformation_inventory_sha256 p),
         (''configuration_identity_sha256'', smp_configuration_identity_sha256 p),
         (''output_path_policy_sha256'', smp_output_path_policy_sha256 p)]
     @ [(length (smp_registry_parameter_decisions p) \<noteq> 2
           \<or> \<not> set (smp_registry_parameter_decisions p) \<subseteq> set SMOKE_REGISTRY_DECISIONS, ValueError ''registry_parameter_decisions''),
        (length (smp_views p) \<noteq> 2, ValueError ''views''),
        (length (smp_conditions p) \<noteq> 10, ValueError ''conditions''),
        (smp_log_loss_epsilon p \<le> 0 \<or> pp_fl P (1/100) \<le> smp_log_loss_epsilon p, ValueError ''log_loss_epsilon''),
        (smp_probability_sum_tolerance p \<le> 0 \<or> pp_fl P (1/10000) < smp_probability_sum_tolerance p,
          ValueError ''probability_sum_tolerance''),
        (smp_reconstruction_rtol p < 0 \<or> pp_fl P (1/1000000) < smp_reconstruction_rtol p, ValueError ''reconstruction_rtol''),
        (smp_reconstruction_atol p < 0 \<or> pp_fl P (1/1000000) < smp_reconstruction_atol p, ValueError ''reconstruction_atol''),
        (smp_ece_bins p < 2 \<or> 100 < smp_ece_bins p, ValueError ''ece_bins''),
        (smp_maximum_ram_mib p \<le> 0 \<or> 28672 < smp_maximum_ram_mib p, ValueError ''maximum_ram_mib''),
        (smp_maximum_vram_mib p \<le> 0 \<or> 3600 < smp_maximum_vram_mib p, ValueError ''maximum_vram_mib''),
        (smp_minimum_gpu_headroom_mib p < 512, ValueError ''minimum_gpu_headroom_mib''),
        (smp_cpu_timeout_seconds p \<le> 0, ValueError ''cpu_timeout_seconds''),
        (smp_cuda_timeout_seconds p \<le> 0, ValueError ''cuda_timeout_seconds'')]"

definition plan_matrix_guards :: "smoke_plan \<Rightarrow> (bool \<times> error) list" where
  "plan_matrix_guards p =
     [(smp_registry_parameter_decisions p \<noteq> SMOKE_REGISTRY_DECISIONS,
        ValueError ''registry interpretation decisions differ from the reviewed exact set''),
      (map smv_view_id (smp_views p) \<noteq> SMOKE_VIEW_ORDER, ValueError ''smoke views must be ordered V00 then V01''),
      (map (\<lambda>c. (smc_model_id c, smc_view_id c)) (smp_conditions p) \<noteq> expected_pairs,
        ValueError ''smoke condition matrix/order must be exactly ten frozen pairs''),
      (card (set (map smc_condition_id (smp_conditions p))) \<noteq> 10, ValueError ''smoke condition identities must be unique''),
      (list_ex (\<lambda>c. smc_seed c \<noteq> SMOKE_SEED) (smp_conditions p), ValueError ''condition seed differs from the frozen plan seed''),
      (list_ex (\<lambda>c. smc_split_sha256 c \<noteq> smp_assignment_sha256 p) (smp_conditions p),
        ValueError ''condition split identity differs from the plan''),
      (list_ex (\<lambda>c. smc_dataset_features_sha256 c \<noteq> smp_dataset_features_sha256 p) (smp_conditions p),
        ValueError ''condition dataset identity differs from the plan''),
      (list_ex (\<lambda>c. smc_target_artifact_sha256 c \<noteq> smp_target_artifact_sha256 p) (smp_conditions p),
        ValueError ''condition target identity differs from the plan''),
      (list_ex (\<lambda>c. smc_dependency_lock_sha256 c \<noteq> smp_dependency_lock_sha256 p) (smp_conditions p),
        ValueError ''condition dependency identity differs from the plan''),
      (list_ex (\<lambda>c. smc_source_implementation_sha256 c \<noteq> smp_code_identity_sha256 p) (smp_conditions p),
        ValueError ''condition source implementation differs from the plan''),
      (list_ex (\<lambda>c. Some (smc_view_certificate_sha256 c) \<noteq>
          map_option smv_certificate_sha256 (view_by_id (smp_views p) (smc_view_id c))) (smp_conditions p),
        ValueError ''condition references an unplanned view certificate''),
      (list_ex (\<lambda>c. Some (smc_view_features_sha256 c) \<noteq>
          map_option smv_features_sha256 (view_by_id (smp_views p) (smc_view_id c))) (smp_conditions p),
        ValueError ''condition references unplanned view feature content'')]"

definition validate_smoke_plan :: "pilot_params \<Rightarrow> smoke_plan \<Rightarrow> smoke_plan result" where
  "validate_smoke_plan P p =
     bindr (validate_all validate_smoke_view (smp_views p)) (\<lambda>_.
     bindr (validate_all (validate_smoke_condition P) (smp_conditions p)) (\<lambda>_.
     guards (plan_field_guards P p @ plan_matrix_guards p) p))"

section \<open>The plan hash\<close>

definition text_dict :: "(string \<times> string) list \<Rightarrow> json" where
  "text_dict d = JObj (map (map_prod id JStr) d)"

definition smoke_view_json :: "smoke_view \<Rightarrow> json" where
  "smoke_view_json v = JObj [(''view_id'', JStr (smv_view_id v)), (''view_name'', JStr (smv_view_name v)),
     (''source_hash'', JStr (smv_source_hash v)), (''output_hash'', JStr (smv_output_hash v)),
     (''certificate_sha256'', JStr (smv_certificate_sha256 v)), (''certificate_ids'', json_strings (smv_certificate_ids v)),
     (''view_features_sha256'', JStr (smv_features_sha256 v)),
     (''partition_feature_sha256'', text_dict (smv_partition_feature v)),
     (''partition_feature_file_sha256'', text_dict (smv_partition_feature_file v)),
     (''partition_certificate_file_sha256'', JObj (map (map_prod id json_text_option) (smv_partition_certificate_file v))),
     (''manifest_sha256'', json_text_option (smv_manifest_sha256 v)),
     (''partition_row_id_sha256'', text_dict (smv_partition_row_id v)),
     (''partition_rows'', JObj (map (map_prod id JInt) (smv_partition_rows v)))]"

definition smoke_condition_json :: "smoke_condition \<Rightarrow> json" where
  "smoke_condition_json c = JObj [(''condition_id'', JStr (smc_condition_id c)), (''task_name'', JStr (smc_task_name c)),
     (''model_id'', JStr (smc_model_id c)), (''package_name'', JStr (smc_package_name c)),
     (''package_version'', JStr (smc_package_version c)), (''dataset_features_sha256'', JStr (smc_dataset_features_sha256 c)),
     (''target_artifact_sha256'', JStr (smc_target_artifact_sha256 c)), (''view_id'', JStr (smc_view_id c)),
     (''device'', JStr (device_text (smc_device c))), (''precision_policy'', JStr (smc_precision_policy c)),
     (''seed'', JInt (smc_seed c)), (''model_spec_sha256'', JStr (smc_model_spec_sha256 c)),
     (''parameters_sha256'', JStr (smc_parameters_sha256 c)), (''model_parameters'', JObj (smc_model_parameters c)),
     (''preprocessing'', JStr (smc_preprocessing c)), (''checkpoint_identifier'', json_text_option (smc_checkpoint_identifier c)),
     (''checkpoint_sha256'', json_text_option (smc_checkpoint_sha256 c)),
     (''view_certificate_sha256'', JStr (smc_view_certificate_sha256 c)),
     (''view_features_sha256'', JStr (smc_view_features_sha256 c)), (''split_sha256'', JStr (smc_split_sha256 c)),
     (''dependency_lock_sha256'', JStr (smc_dependency_lock_sha256 c)),
     (''source_implementation_sha256'', JStr (smc_source_implementation_sha256 c))]"

definition smoke_plan_json :: "pilot_params \<Rightarrow> smoke_plan \<Rightarrow> json" where
  "smoke_plan_json P p = JObj [(''schema_version'', JInt 1), (''protocol_version'', JStr ''schema_guard_smoke_v1''),
     (''plan_name'', JStr ''schema_guard_smoke''), (''dataset_id'', JInt SMOKE_DATASET_ID),
     (''dataset_version'', JStr ''openml_file_1586225''), (''seed'', JInt SMOKE_SEED),
     (''split_strategy'', JStr ''stratified_group_5fold_v1''), (''source_commit'', JStr (smp_source_commit p)),
     (''code_identity_sha256'', JStr (smp_code_identity_sha256 p)),
     (''dependency_lock_sha256'', JStr (smp_dependency_lock_sha256 p)),
     (''dataset_features_sha256'', JStr (smp_dataset_features_sha256 p)),
     (''dataset_source_sha256'', JStr (smp_dataset_source_sha256 p)),
     (''target_artifact_sha256'', JStr (smp_target_artifact_sha256 p)),
     (''assignment_sha256'', JStr (smp_assignment_sha256 p)),
     (''assignment_logical_sha256'', JStr (smp_assignment_logical_sha256 p)),
     (''transformation_inventory_sha256'', JStr (smp_transformation_inventory_sha256 p)),
     (''configuration_identity_sha256'', JStr (smp_configuration_identity_sha256 p)),
     (''output_path_policy_sha256'', JStr (smp_output_path_policy_sha256 p)),
     (''registry_parameter_decisions'', json_strings (smp_registry_parameter_decisions p)),
     (''views'', JArr (map smoke_view_json (smp_views p))),
     (''conditions'', JArr (map smoke_condition_json (smp_conditions p))),
     (''cpu_workers'', JInt 2), (''gpu_workers'', JInt 1), (''network_enabled'', JBool False),
     (''test_label_access_boundary'', JStr ''after_all_predictions_complete''), (''primary_metric'', JStr ''brier_score''),
     (''ece_binning_rule'', JStr ''equal_width_max_probability_confidence''),
     (''log_loss_epsilon'', pp_float P (smp_log_loss_epsilon p)),
     (''probability_sum_tolerance'', pp_float P (smp_probability_sum_tolerance p)),
     (''reconstruction_rtol'', pp_float P (smp_reconstruction_rtol p)),
     (''reconstruction_atol'', pp_float P (smp_reconstruction_atol p)), (''ece_bins'', JInt (smp_ece_bins p)),
     (''maximum_ram_mib'', JInt (smp_maximum_ram_mib p)), (''maximum_vram_mib'', JInt (smp_maximum_vram_mib p)),
     (''minimum_gpu_headroom_mib'', JInt (smp_minimum_gpu_headroom_mib p)),
     (''cpu_timeout_seconds'', JInt (smp_cpu_timeout_seconds p)), (''cuda_timeout_seconds'', JInt (smp_cuda_timeout_seconds p))]"

definition smoke_plan_sha256 :: "pilot_params \<Rightarrow> smoke_plan \<Rightarrow> string" where
  "smoke_plan_sha256 P p = sha256_canonical_json (pp_sha P) (smoke_plan_json P p)"

record plan_envelope =
  env_plan_sha256 :: string
  env_plan :: smoke_plan

definition validate_envelope :: "pilot_params \<Rightarrow> plan_envelope \<Rightarrow> plan_envelope result" where
  "validate_envelope P e = bindr (validate_smoke_plan P (env_plan e)) (\<lambda>_. guards
     [(\<not> is_sha256 (env_plan_sha256 e), ValueError ''plan_sha256''),
      (env_plan_sha256 e \<noteq> smoke_plan_sha256 P (env_plan e), ValueError ''plan envelope hash does not match canonical plan'')] e)"

end
