(* ===== verification/Smoke_Reports.thy ===== *)
theory Smoke_Reports
  imports Smoke_Contracts
begin

text \<open>
  \<open>src/schemaguard/experiments/contracts.py\<close>, the records a smoke run leaves behind: the
  comparison of protected files, the validation of the protected split, the verification of a
  resumed run, the conditions with their resources and prediction files, the metrics, the runtime
  estimate, the report of the run, the sanitized inventory and the report of its validation.
\<close>

definition bad_text :: "string option \<Rightarrow> bool" where
  "bad_text t \<longleftrightarrow> (case t of None \<Rightarrow> True | Some s \<Rightarrow> s = [])"

definition GATE_RESULTS :: "string list" where
  "GATE_RESULTS = [''PASS'', ''FAIL'', ''NOT_VERIFIED'']"

definition SMOKE_STATUSES :: "string list" where
  "SMOKE_STATUSES = [''PASS_PENDING_REVIEW'', ''PARTIAL_VALID'', ''REPAIR_REQUIRED'', ''BLOCKED'']"

section \<open>Environment and gates\<close>

record smoke_environment =
  sme_os_platform :: string
  sme_python_version :: string
  sme_conda_environment :: "string option"
  sme_cpu_identifier :: string
  sme_cpu_physical_cores :: "int option"
  sme_cpu_logical_cores :: "int option"
  sme_ram_total_mib :: "py_float option"
  sme_ram_available_mib :: "py_float option"
  sme_gpu_name :: "string option"
  sme_gpu_total_mib :: "py_float option"
  sme_gpu_free_mib :: "py_float option"
  sme_gpu_driver :: "string option"
  sme_torch_version :: "string option"
  sme_torch_cuda_build :: "string option"
  sme_cuda_visible :: bool
  sme_runtime_package_versions :: "(string \<times> string) list"
  sme_telemetry_warnings :: "string list"

definition not_positive :: "py_float option \<Rightarrow> bool" where
  "not_positive x = (case x of None \<Rightarrow> False | Some v \<Rightarrow> v \<le> 0)"

definition validate_smoke_environment :: "smoke_environment \<Rightarrow> smoke_environment result" where
  "validate_smoke_environment e = guards
     [(case sme_cpu_physical_cores e of None \<Rightarrow> False | Some n \<Rightarrow> n < 1, ValueError ''cpu_physical_cores''),
      (case sme_cpu_logical_cores e of None \<Rightarrow> False | Some n \<Rightarrow> n < 1, ValueError ''cpu_logical_cores''),
      (not_positive (sme_ram_total_mib e), ValueError ''ram_total_mib''),
      (below_zero (sme_ram_available_mib e), ValueError ''ram_available_mib''),
      (not_positive (sme_gpu_total_mib e), ValueError ''gpu_total_mib''),
      (below_zero (sme_gpu_free_mib e), ValueError ''gpu_free_mib'')] e"

record smoke_gate =
  sgt_gate_id :: string
  sgt_result :: string
  sgt_evidence_sha256 :: string
  sgt_detail :: string

definition gate_id_ok :: "string \<Rightarrow> bool" where
  "gate_id_ok s \<longleftrightarrow> length s = 3 \<and> s ! 0 = CHR ''S'' \<and> is_digit (s ! 1) \<and> is_digit (s ! 2)"

definition validate_smoke_gate :: "smoke_gate \<Rightarrow> smoke_gate result" where
  "validate_smoke_gate g = guards
     [(\<not> gate_id_ok (sgt_gate_id g), ValueError ''gate_id''),
      (sgt_result g \<notin> set GATE_RESULTS, ValueError ''result''),
      (\<not> is_sha256 (sgt_evidence_sha256 g), ValueError ''evidence_sha256'')] g"

section \<open>Protected files\<close>

record foundation_artifact =
  pfa_path :: string
  pfa_before_sha256 :: string
  pfa_after_sha256 :: string
  pfa_before_size_bytes :: int
  pfa_after_size_bytes :: int
  pfa_unchanged :: bool

definition foundation_path_char :: "char \<Rightarrow> bool" where
  "foundation_path_char c \<longleftrightarrow> task_name_char c \<or> c = CHR ''/''"

definition foundation_path_ok :: "string \<Rightarrow> bool" where
  "foundation_path_ok s \<longleftrightarrow> list_ex (\<lambda>p. starts_with p s \<and> length p < length s \<and> list_all foundation_path_char (drop (length p) s))
     [''data/raw/'', ''data/processed/'', ''data/splits/'']"

definition validate_foundation_artifact :: "foundation_artifact \<Rightarrow> foundation_artifact result" where
  "validate_foundation_artifact a = guards
     [(\<not> foundation_path_ok (pfa_path a), ValueError ''path''),
      (\<not> is_sha256 (pfa_before_sha256 a), ValueError ''before_sha256''),
      (\<not> is_sha256 (pfa_after_sha256 a), ValueError ''after_sha256''),
      (pfa_before_size_bytes a < 0, ValueError ''before_size_bytes''),
      (pfa_after_size_bytes a < 0, ValueError ''after_size_bytes''),
      (posix_absolute (pfa_path a) \<or> windows_absolute (pfa_path a) \<or> ''..'' \<in> set (posix_parts (pfa_path a)),
        ValueError ''protected foundation artifact path must remain repository-relative''),
      (pfa_unchanged a \<noteq> (pfa_before_sha256 a = pfa_after_sha256 a \<and> pfa_before_size_bytes a = pfa_after_size_bytes a),
        ValueError ''protected foundation status contradicts its hashes and sizes'')] a"

record foundation_comparison =
  pfc_plan_sha256 :: string
  pfc_baseline_snapshot_sha256 :: string
  pfc_status :: string
  pfc_artifacts :: "foundation_artifact list"

definition validate_foundation_comparison :: "foundation_comparison \<Rightarrow> foundation_comparison result" where
  "validate_foundation_comparison c = bindr (validate_all validate_foundation_artifact (pfc_artifacts c)) (\<lambda>_.
     (let paths = map pfa_path (pfc_artifacts c) in guards
     [(\<not> is_sha256 (pfc_plan_sha256 c), ValueError ''plan_sha256''),
      (\<not> is_sha256 (pfc_baseline_snapshot_sha256 c), ValueError ''baseline_snapshot_sha256''),
      (length (pfc_artifacts c) \<noteq> 13, ValueError ''artifacts''),
      (\<not> (sorted paths \<and> distinct paths), ValueError ''protected foundation hash artifacts must be unique and sorted''),
      (pfc_status c \<noteq> (if list_all pfa_unchanged (pfc_artifacts c) then ''PASS'' else ''FAIL''),
        ValueError ''protected foundation comparison status contradicts artifact records'')] c))"

section \<open>The protected split\<close>

record split_validation =
  psv_status :: string
  psv_assignment_sha256 :: string
  psv_row_count :: "int option"
  psv_partition_counts :: "(string \<times> int) list option"
  psv_class_counts :: "(string \<times> (string \<times> int) list) list option"
  psv_predictor_group_count :: "int option"
  psv_duplicate_group_count :: "int option"
  psv_conflicting_group_count :: "int option"
  psv_crossing_group_count :: "int option"
  psv_failure_reason :: "string option"

definition FROZEN_PARTITION_COUNTS :: "(string \<times> int) list" where
  "FROZEN_PARTITION_COUNTS = [(''train'', 449), (''calibration'', 150), (''test'', 149)]"

definition class_counts_bad :: "string \<times> (string \<times> int) list \<Rightarrow> bool" where
  "class_counts_bad = (\<lambda>(part, counts). set (map fst counts) \<noteq> {''0'', ''1''} \<or> list_ex (\<lambda>n. n \<le> 0) (map snd counts)
     \<or> Some (sum_list (map snd counts)) \<noteq> map_of FROZEN_PARTITION_COUNTS part)"

definition split_baseline_differs :: "split_validation \<Rightarrow> bool" where
  "split_baseline_differs v \<longleftrightarrow> \<not> (psv_row_count v = Some 748
     \<and> map_option set (psv_partition_counts v) = Some (set FROZEN_PARTITION_COUNTS)
     \<and> psv_predictor_group_count v = Some 502 \<and> psv_duplicate_group_count v = Some 69
     \<and> psv_conflicting_group_count v = Some 31 \<and> psv_crossing_group_count v = Some 0)"

definition validate_split_validation :: "split_validation \<Rightarrow> split_validation result" where
  "validate_split_validation v = bindr (guards
     [(psv_status v \<notin> {''PASS'', ''FAIL'', ''NOT_RUN''}, ValueError ''status''),
      (\<not> is_sha256 (psv_assignment_sha256 v), ValueError ''assignment_sha256''),
      (below_zero (psv_row_count v), ValueError ''row_count''),
      (below_zero (psv_predictor_group_count v), ValueError ''predictor_group_count''),
      (below_zero (psv_duplicate_group_count v), ValueError ''duplicate_predictor_group_count''),
      (below_zero (psv_conflicting_group_count v), ValueError ''conflicting_target_group_count''),
      (below_zero (psv_crossing_group_count v), ValueError ''crossing_predictor_group_count'')] v) (\<lambda>_.
     if psv_status v = ''NOT_RUN'' then guards
       [(bad_text (psv_failure_reason v), ValueError ''unrun protected split validation requires an explicit reason'')] v
     else if psv_status v = ''FAIL'' then guards
       [(bad_text (psv_failure_reason v), ValueError ''failed protected split validation requires an explicit reason'')] v
     else guards
       [(psv_failure_reason v \<noteq> None, ValueError ''passing protected split validation cannot contain a failure reason''),
        (split_baseline_differs v, ValueError ''protected grouped-split evidence differs from the frozen baseline''),
        (case psv_class_counts v of None \<Rightarrow> True | Some d \<Rightarrow> set (map fst d) \<noteq> set ALL_PARTITIONS,
          ValueError ''Phase 01 class counts must cover all three partitions''),
        (case psv_class_counts v of None \<Rightarrow> False | Some d \<Rightarrow> list_ex class_counts_bad d,
          ValueError ''Phase 01 partition class counts are incomplete'')] v)"

section \<open>Resumed runs\<close>

record resume_verification =
  rsv_status :: string
  rsv_plan_sha256 :: string
  rsv_before_hashes :: "(string \<times> string) list"
  rsv_after_hashes :: "(string \<times> string) list"
  rsv_before_mtime_ns :: "(string \<times> int) list"
  rsv_after_mtime_ns :: "(string \<times> int) list"
  rsv_cold_run_report_sha256 :: string
  rsv_executed_conditions :: int
  rsv_validated_cache_hits :: int
  rsv_failed_conditions :: int
  rsv_blocked_conditions :: int
  rsv_network_attempt_count :: int
  rsv_duplicate_prediction_artifacts :: int
  rsv_result_rewrites :: int
  rsv_prediction_hashes_unchanged :: bool
  rsv_prediction_mtimes_unchanged :: bool

definition outside_ten :: "int \<Rightarrow> bool" where
  "outside_ten n \<longleftrightarrow> n < 0 \<or> 10 < n"

definition resume_is_pass :: "resume_verification \<Rightarrow> bool" where
  "resume_is_pass v \<longleftrightarrow> rsv_executed_conditions v = 0 \<and> rsv_validated_cache_hits v = 10
     \<and> rsv_failed_conditions v = 0 \<and> rsv_blocked_conditions v = 0 \<and> rsv_network_attempt_count v = 0
     \<and> rsv_duplicate_prediction_artifacts v = 0 \<and> rsv_result_rewrites v = 0
     \<and> rsv_prediction_hashes_unchanged v \<and> rsv_prediction_mtimes_unchanged v"

definition validate_resume_verification :: "resume_verification \<Rightarrow> resume_verification result" where
  "validate_resume_verification v = guards
     [(rsv_status v \<notin> {''PASS'', ''FAIL''}, ValueError ''status''),
      (\<not> is_sha256 (rsv_plan_sha256 v), ValueError ''plan_sha256''),
      (\<not> list_all is_sha256 (map snd (rsv_before_hashes v)), ValueError ''before_hashes''),
      (\<not> list_all is_sha256 (map snd (rsv_after_hashes v)), ValueError ''after_hashes''),
      (\<not> is_sha256 (rsv_cold_run_report_sha256 v), ValueError ''cold_run_report_sha256''),
      (outside_ten (rsv_executed_conditions v), ValueError ''executed_conditions''),
      (outside_ten (rsv_validated_cache_hits v), ValueError ''validated_cache_hits''),
      (outside_ten (rsv_failed_conditions v), ValueError ''failed_conditions''),
      (outside_ten (rsv_blocked_conditions v), ValueError ''blocked_conditions''),
      (rsv_network_attempt_count v < 0, ValueError ''network_attempt_count''),
      (rsv_duplicate_prediction_artifacts v < 0, ValueError ''duplicate_prediction_artifacts''),
      (rsv_result_rewrites v < 0, ValueError ''result_rewrites''),
      (set (map fst (rsv_before_hashes v)) \<noteq> set (map fst (rsv_after_hashes v)),
        ValueError ''resume hash manifests must identify the same file paths''),
      (rsv_prediction_hashes_unchanged v \<noteq> (set (rsv_before_hashes v) = set (rsv_after_hashes v)),
        ValueError ''resume hash status contradicts the before/after manifests''),
      (set (map fst (rsv_before_mtime_ns v)) \<noteq> set (map fst (rsv_after_mtime_ns v)),
        ValueError ''resume mtime manifests must identify the same files''),
      (rsv_prediction_mtimes_unchanged v \<noteq> (set (rsv_before_mtime_ns v) = set (rsv_after_mtime_ns v)),
        ValueError ''resume mtime status contradicts the before/after manifests''),
      (rsv_executed_conditions v + rsv_validated_cache_hits v + rsv_failed_conditions v + rsv_blocked_conditions v \<noteq> 10,
        ValueError ''resume result must account for all ten tasks''),
      ((rsv_status v = ''PASS'') \<noteq> resume_is_pass v,
        ValueError ''resume status contradicts cache, network, or output integrity'')] v"

section \<open>Conditions that ran\<close>

record prediction_file =
  pfr_partition :: string
  pfr_relative_path :: string
  pfr_sha256 :: string
  pfr_row_count :: int
  pfr_row_id_sha256 :: string
  pfr_probability_sha256 :: string

definition PREDICTION_PARTITIONS :: "string list" where
  "PREDICTION_PARTITIONS = [''calibration'', ''test'']"

definition prediction_directory :: string where "prediction_directory = ''results/smoke/predictions/''"
definition parquet_suffix :: string where "parquet_suffix = ''.parquet''"

definition prediction_path_ok :: "string \<Rightarrow> bool" where
  "prediction_path_ok s \<longleftrightarrow> starts_with prediction_directory s
     \<and> (let rest = drop (length prediction_directory) s; n = length rest - length parquet_suffix in
        length parquet_suffix < length rest \<and> drop n rest = parquet_suffix \<and> list_all task_name_char (take n rest))"

definition validate_prediction_file :: "prediction_file \<Rightarrow> prediction_file result" where
  "validate_prediction_file f = guards
     [(pfr_partition f \<notin> set PREDICTION_PARTITIONS, ValueError ''partition''),
      (\<not> prediction_path_ok (pfr_relative_path f), ValueError ''relative_path''),
      (\<not> is_sha256 (pfr_sha256 f), ValueError ''sha256''), (pfr_row_count f \<le> 0, ValueError ''row_count''),
      (\<not> is_sha256 (pfr_row_id_sha256 f), ValueError ''row_id_sha256''),
      (\<not> is_sha256 (pfr_probability_sha256 f), ValueError ''probability_sha256'')] f"

record condition_resource =
  crs_wall_seconds :: py_float
  crs_cpu_seconds :: "py_float option"
  crs_fit_seconds :: py_float
  crs_prediction_seconds :: py_float
  crs_peak_worker_rss_mib :: "py_float option"
  crs_peak_process_tree_rss_mib :: "py_float option"
  crs_peak_vram_allocated_mib :: "py_float option"
  crs_peak_vram_reserved_mib :: "py_float option"
  crs_free_vram_before_mib :: "py_float option"
  crs_telemetry_complete :: bool
  crs_cleanup_passed :: bool
  crs_adapter_resource_sha256 :: string

definition validate_condition_resource :: "condition_resource \<Rightarrow> condition_resource result" where
  "validate_condition_resource r = guards
     [(crs_wall_seconds r < 0, ValueError ''wall_seconds''), (below_zero (crs_cpu_seconds r), ValueError ''cpu_seconds''),
      (crs_fit_seconds r < 0, ValueError ''fit_seconds''), (crs_prediction_seconds r < 0, ValueError ''prediction_seconds''),
      (below_zero (crs_peak_worker_rss_mib r), ValueError ''peak_worker_rss_mib''),
      (below_zero (crs_peak_process_tree_rss_mib r), ValueError ''peak_process_tree_rss_mib''),
      (below_zero (crs_peak_vram_allocated_mib r), ValueError ''peak_vram_allocated_mib''),
      (below_zero (crs_peak_vram_reserved_mib r), ValueError ''peak_vram_reserved_mib''),
      (below_zero (crs_free_vram_before_mib r), ValueError ''free_vram_before_mib''),
      (\<not> is_sha256 (crs_adapter_resource_sha256 r), ValueError ''adapter_resource_sha256'')] r"

record condition_run =
  crn_condition_id :: string
  crn_cache_identity_sha256 :: string
  crn_model_id :: string
  crn_view_id :: string
  crn_device :: device_policy
  crn_status :: string
  crn_cache_status :: string
  crn_resource :: "condition_resource option"
  crn_prediction_files :: "prediction_file list"
  crn_failure_category :: "string option"
  crn_failure_reason :: "string option"
  crn_traceback_relative_path :: "string option"

definition validate_condition_run :: "condition_run \<Rightarrow> condition_run result" where
  "validate_condition_run r =
     bindr (case crn_resource r of None \<Rightarrow> Inr () | Some x \<Rightarrow> bindr (validate_condition_resource x) (\<lambda>_. Inr ())) (\<lambda>_.
     bindr (validate_all validate_prediction_file (crn_prediction_files r)) (\<lambda>_. guards
     [(\<not> is_sha256 (crn_condition_id r), ValueError ''condition_id''),
      (\<not> is_sha256 (crn_cache_identity_sha256 r), ValueError ''cache_identity_sha256''),
      (crn_model_id r \<notin> set SMOKE_MODEL_ORDER, ValueError ''model_id''),
      (crn_view_id r \<notin> set SMOKE_VIEW_ORDER, ValueError ''view_id''),
      (crn_status r \<notin> {''PASS'', ''FAIL'', ''BLOCKED''}, ValueError ''status''),
      (crn_cache_status r \<notin> {''created'', ''validated_cache_hit'', ''not_published''}, ValueError ''cache_status''),
      (crn_status r = ''PASS'' \<and> (crn_resource r = None \<or> length (crn_prediction_files r) \<noteq> 2),
        ValueError ''passing condition requires resources and both partition outputs''),
      (crn_status r = ''PASS'' \<and> (crn_failure_category r \<noteq> None \<or> crn_failure_reason r \<noteq> None),
        ValueError ''passing condition cannot contain failure details''),
      (crn_status r \<noteq> ''PASS'' \<and> (bad_text (crn_failure_category r) \<or> bad_text (crn_failure_reason r)),
        ValueError ''unsuccessful condition must retain a failure category and reason'')] r))"

end
