(* ===== verification/Smoke_Run_Report.thy ===== *)
theory Smoke_Run_Report
  imports Smoke_Reports
begin

text \<open>
  \<open>src/schemaguard/experiments/contracts.py\<close>, the metrics of a smoke run, its runtime estimate, the
  report of the run, the sanitized inventory and the validation report; and from \<open>evidence.py\<close> the
  functions that build the report and the inventory. The two bounds of the estimate that allow one
  value only (the safety factor 1.5 and the overhead of 60 seconds) are constants.
\<close>

section \<open>Metrics\<close>

definition outside_unit :: "py_float \<Rightarrow> bool" where
  "outside_unit x \<longleftrightarrow> x < 0 \<or> 1 < x"

record smoke_metric =
  mrc_model_id :: string
  mrc_view_id :: string
  mrc_device :: device_policy
  mrc_partition :: string
  mrc_row_count :: int
  mrc_brier_score :: py_float
  mrc_log_loss :: py_float
  mrc_accuracy :: py_float
  mrc_balanced_accuracy :: py_float
  mrc_roc_auc :: "py_float option"
  mrc_roc_auc_status :: string
  mrc_expected_calibration_error :: py_float
  mrc_prediction_sha256 :: string
  mrc_target_artifact_sha256 :: string

definition validate_smoke_metric :: "smoke_metric \<Rightarrow> smoke_metric result" where
  "validate_smoke_metric m = guards
     [(mrc_model_id m \<notin> set SMOKE_MODEL_ORDER, ValueError ''model_id''),
      (mrc_view_id m \<notin> set SMOKE_VIEW_ORDER, ValueError ''view_id''),
      (mrc_partition m \<notin> set PREDICTION_PARTITIONS, ValueError ''partition''),
      (mrc_row_count m \<le> 0, ValueError ''row_count''),
      (mrc_brier_score m < 0 \<or> 2 < mrc_brier_score m, ValueError ''brier_score''),
      (mrc_log_loss m < 0, ValueError ''log_loss''), (outside_unit (mrc_accuracy m), ValueError ''accuracy''),
      (outside_unit (mrc_balanced_accuracy m), ValueError ''balanced_accuracy''),
      (case mrc_roc_auc m of None \<Rightarrow> False | Some a \<Rightarrow> outside_unit a, ValueError ''roc_auc''),
      (mrc_roc_auc_status m \<notin> {''defined'', ''undefined_single_class''}, ValueError ''roc_auc_status''),
      (outside_unit (mrc_expected_calibration_error m), ValueError ''expected_calibration_error''),
      (\<not> is_sha256 (mrc_prediction_sha256 m), ValueError ''prediction_sha256''),
      (\<not> is_sha256 (mrc_target_artifact_sha256 m), ValueError ''target_artifact_sha256''),
      ((mrc_roc_auc m = None) \<noteq> (mrc_roc_auc_status m = ''undefined_single_class''),
        ValueError ''AUROC value and explicit undefined status disagree'')] m"

definition METRIC_NAMES :: "string list" where
  "METRIC_NAMES = [''brier_score'', ''log_loss'', ''accuracy'', ''balanced_accuracy'', ''roc_auc'', ''expected_calibration_error'']"

record paired_record =
  prc_model_id :: string
  prc_device :: device_policy
  prc_partition :: string
  prc_row_count :: int
  prc_sii_mean :: py_float
  prc_sii_median :: py_float
  prc_sii_p90 :: py_float
  prc_sii_max :: py_float
  prc_label_flip_rate :: py_float
  prc_maximum_difference :: py_float
  prc_mean_difference :: py_float
  prc_metric_deltas :: "(string \<times> py_float option) list"
  prc_v00_prediction_sha256 :: string
  prc_v01_prediction_sha256 :: string

definition validate_paired_record :: "paired_record \<Rightarrow> paired_record result" where
  "validate_paired_record m = guards
     ([(prc_model_id m \<notin> set SMOKE_MODEL_ORDER, ValueError ''model_id''),
       (prc_partition m \<notin> set PREDICTION_PARTITIONS, ValueError ''partition''),
       (prc_row_count m \<le> 0, ValueError ''row_count'')]
      @ map (\<lambda>(f, x). (outside_unit x, ValueError f))
          [(''sii_mean_js_divergence'', prc_sii_mean m), (''sii_median_js_divergence'', prc_sii_median m),
           (''sii_p90_js_divergence'', prc_sii_p90 m), (''sii_max_js_divergence'', prc_sii_max m),
           (''label_flip_rate'', prc_label_flip_rate m),
           (''maximum_absolute_probability_difference'', prc_maximum_difference m),
           (''mean_absolute_probability_difference'', prc_mean_difference m)]
      @ [(\<not> set (map fst (prc_metric_deltas m)) \<subseteq> set METRIC_NAMES, ValueError ''metric_deltas_v01_minus_v00''),
         (\<not> is_sha256 (prc_v00_prediction_sha256 m), ValueError ''v00_prediction_sha256''),
         (\<not> is_sha256 (prc_v01_prediction_sha256 m), ValueError ''v01_prediction_sha256'')]) m"

section \<open>The runtime estimate\<close>

record smoke_runtime_estimate =
  rte_source_inventory_sha256 :: string
  rte_condition_seconds :: "(string \<times> py_float) list"
  rte_cpu_condition_ids :: "string list"
  rte_gpu_condition_ids :: "string list"
  rte_expected_cpu_seconds :: py_float
  rte_expected_gpu_seconds :: py_float
  rte_estimated_total_seconds :: py_float

text \<open>\<open>(cpu + gpu) * 1.5 + 60.0\<close>, rounded after every operation.\<close>

definition estimated_total :: "pilot_params \<Rightarrow> py_float \<Rightarrow> py_float \<Rightarrow> py_float" where
  "estimated_total P cpu gpu = (let fl = pp_fl P in fl (fl (fl (cpu + gpu) * (3/2)) + 60))"

definition validate_smoke_runtime_estimate :: "pilot_params \<Rightarrow> smoke_runtime_estimate \<Rightarrow> smoke_runtime_estimate result" where
  "validate_smoke_runtime_estimate P e = (let cpu = rte_cpu_condition_ids e; gpu = rte_gpu_condition_ids e in guards
     [(\<not> is_sha256 (rte_source_inventory_sha256 e), ValueError ''source_inventory_sha256''),
      (list_ex (\<lambda>(k, s). \<not> is_sha256 k \<or> s \<le> 0) (rte_condition_seconds e), ValueError ''condition_seconds''),
      (length cpu \<noteq> 6 \<or> \<not> list_all is_sha256 cpu, ValueError ''cpu_condition_ids''),
      (length gpu \<noteq> 4 \<or> \<not> list_all is_sha256 gpu, ValueError ''gpu_condition_ids''),
      (rte_expected_cpu_seconds e < 0, ValueError ''expected_cpu_seconds''),
      (rte_expected_gpu_seconds e < 0, ValueError ''expected_gpu_seconds''),
      (rte_estimated_total_seconds e \<le> 0, ValueError ''estimated_total_seconds''),
      (card (set cpu) \<noteq> 6 \<or> card (set gpu) \<noteq> 4 \<or> set cpu \<inter> set gpu \<noteq> {},
        ValueError ''runtime estimate must identify six CPU and four GPU conditions''),
      (set (map fst (rte_condition_seconds e)) \<noteq> set cpu \<union> set gpu,
        ValueError ''runtime estimate must cover the exact ten planned condition IDs''),
      (pp_fl P (1/1000000000) < \<bar>pp_fl P (rte_estimated_total_seconds e
          - estimated_total P (rte_expected_cpu_seconds e) (rte_expected_gpu_seconds e))\<bar>,
        ValueError ''estimated total runtime does not match its components'')] e)"

section \<open>The report of a run\<close>

record run_report =
  srr_status :: string
  srr_source_commit :: string
  srr_plan_sha256 :: string
  srr_scheduler_plan_sha256 :: string
  srr_resume :: bool
  srr_environment :: smoke_environment
  srr_started_at :: string
  srr_ended_at :: string
  srr_runtime_estimate :: smoke_runtime_estimate
  srr_cold_run_wall_seconds :: "py_float option"
  srr_planned_conditions :: int
  srr_executed_conditions :: int
  srr_validated_cache_hits :: int
  srr_failed_conditions :: int
  srr_blocked_conditions :: int
  srr_max_cpu_concurrency :: int
  srr_max_gpu_concurrency :: int
  srr_duplicate_prediction_artifacts :: int
  srr_result_rewrites :: int
  srr_evaluation_source :: string
  srr_conditions :: "condition_run list"
  srr_metrics :: "smoke_metric list"
  srr_paired_metrics :: "paired_record list"
  srr_metric_table_sha256 :: "string option"
  srr_paired_metric_table_sha256 :: "string option"
  srr_cold_run_report_sha256 :: "string option"
  srr_hashes_before_sha256 :: "string option"
  srr_hashes_after_sha256 :: "string option"
  srr_resume_verification_sha256 :: "string option"
  srr_hashes_unchanged :: bool
  srr_mtimes_unchanged :: bool
  srr_protected_unchanged :: bool
  srr_protected_comparison_sha256 :: "string option"
  srr_split_validation_sha256 :: "string option"
  srr_labels_opened_after_predictions :: bool
  srr_labels_evaluated :: bool
  srr_network_attempt_count :: int

definition status_total :: "string \<Rightarrow> condition_run list \<Rightarrow> int" where
  "status_total s runs = int (length (filter (\<lambda>r. crn_status r = s) runs))"

definition report_field_guards :: "run_report \<Rightarrow> (bool \<times> error) list" where
  "report_field_guards r =
     [(srr_status r \<notin> set SMOKE_STATUSES, ValueError ''status''), (\<not> is_commit (srr_source_commit r), ValueError ''source_commit''),
      (\<not> is_sha256 (srr_plan_sha256 r), ValueError ''plan_sha256''),
      (\<not> is_sha256 (srr_scheduler_plan_sha256 r), ValueError ''scheduler_plan_sha256''),
      (below_zero (srr_cold_run_wall_seconds r), ValueError ''cold_run_wall_seconds''),
      (srr_planned_conditions r \<noteq> 10, ValueError ''planned_conditions''),
      (outside_ten (srr_executed_conditions r), ValueError ''executed_conditions''),
      (outside_ten (srr_validated_cache_hits r), ValueError ''validated_cache_hits''),
      (outside_ten (srr_failed_conditions r), ValueError ''failed_conditions''),
      (outside_ten (srr_blocked_conditions r), ValueError ''blocked_conditions''),
      (srr_max_cpu_concurrency r < 0 \<or> 2 < srr_max_cpu_concurrency r, ValueError ''max_cpu_concurrency''),
      (srr_max_gpu_concurrency r < 0 \<or> 1 < srr_max_gpu_concurrency r, ValueError ''max_gpu_concurrency''),
      (srr_duplicate_prediction_artifacts r < 0, ValueError ''duplicate_prediction_artifacts''),
      (srr_result_rewrites r < 0, ValueError ''result_rewrites''),
      (srr_evaluation_source r \<notin> {''computed_after_predictions'', ''reused_cold_run'', ''not_performed''},
        ValueError ''evaluation_source''),
      (length (srr_conditions r) \<noteq> 10, ValueError ''conditions''),
      (bad_hash_option (srr_metric_table_sha256 r), ValueError ''metric_table_sha256''),
      (bad_hash_option (srr_paired_metric_table_sha256 r), ValueError ''paired_metric_table_sha256''),
      (bad_hash_option (srr_cold_run_report_sha256 r), ValueError ''cold_run_report_sha256''),
      (bad_hash_option (srr_hashes_before_sha256 r), ValueError ''resume_prediction_hashes_before_sha256''),
      (bad_hash_option (srr_hashes_after_sha256 r), ValueError ''resume_prediction_hashes_after_sha256''),
      (bad_hash_option (srr_resume_verification_sha256 r), ValueError ''resume_verification_sha256''),
      (bad_hash_option (srr_protected_comparison_sha256 r), ValueError ''protected_foundation_comparison_sha256''),
      (bad_hash_option (srr_split_validation_sha256 r), ValueError ''protected_split_validation_sha256''),
      (srr_network_attempt_count r < 0, ValueError ''network_attempt_count'')]"

text \<open>What \<open>PASS_PENDING_REVIEW\<close> requires, in the order the code tests it.\<close>

definition report_pass_guards :: "run_report \<Rightarrow> (bool \<times> error) list" where
  "report_pass_guards r =
     [(\<not> list_all (\<lambda>c. crn_status c = ''PASS'') (srr_conditions r) \<or> srr_metrics r = [] \<or> srr_paired_metrics r = [],
        ValueError ''passing smoke report requires all conditions and metrics''),
      (\<not> srr_protected_unchanged r \<or> \<not> srr_labels_opened_after_predictions r,
        ValueError ''smoke acceptance requires preservation and sealed-label evidence''),
      (\<not> srr_labels_evaluated r, ValueError ''passing smoke report must record final-boundary evaluation''),
      (srr_metric_table_sha256 r = None, ValueError ''passing smoke report requires a metric artifact hash''),
      (srr_paired_metric_table_sha256 r = None, ValueError ''passing smoke report requires a paired-metric artifact hash''),
      (srr_failed_conditions r \<noteq> 0 \<or> srr_blocked_conditions r \<noteq> 0 \<or> srr_network_attempt_count r \<noteq> 0,
        ValueError ''passing smoke report cannot include failures or network attempts''),
      (\<not> srr_resume r \<and> (srr_executed_conditions r \<noteq> 10 \<or> srr_validated_cache_hits r \<noteq> 0),
        ValueError ''cold pass must execute all ten conditions without cache hits''),
      (srr_resume r \<and> (srr_executed_conditions r \<noteq> 0 \<or> srr_validated_cache_hits r \<noteq> 10),
        ValueError ''resume pass must reuse ten conditions and execute none''),
      (srr_duplicate_prediction_artifacts r \<noteq> 0 \<or> srr_result_rewrites r \<noteq> 0,
        ValueError ''passing smoke run has duplicate artifacts or result rewrites''),
      (srr_protected_comparison_sha256 r = None, ValueError ''passing smoke run requires a protected-hash comparison''),
      (srr_split_validation_sha256 r = None, ValueError ''passing smoke run requires protected split validation''),
      (srr_resume r \<and> (srr_cold_run_report_sha256 r = None \<or> srr_hashes_before_sha256 r = None
          \<or> srr_hashes_after_sha256 r = None \<or> srr_resume_verification_sha256 r = None
          \<or> \<not> srr_hashes_unchanged r \<or> \<not> srr_mtimes_unchanged r),
        ValueError ''passing resume report lacks proof of unchanged cold outputs''),
      (list_ex (\<lambda>c. crn_cache_status c \<noteq> (if srr_resume r then ''validated_cache_hit'' else ''created'')) (srr_conditions r),
        ValueError ''condition cache outcomes disagree with the run mode''),
      (srr_evaluation_source r = ''not_performed'', ValueError ''passing smoke run cannot omit its metric evaluation''),
      (srr_resume r \<and> srr_cold_run_wall_seconds r = None,
        ValueError ''passing resume report must retain observed cold-run duration'')]"

definition report_count_guards :: "run_report \<Rightarrow> (bool \<times> error) list" where
  "report_count_guards r =
     [(srr_failed_conditions r \<noteq> status_total ''FAIL'' (srr_conditions r),
        ValueError ''failed-condition count differs from condition records''),
      (srr_blocked_conditions r \<noteq> status_total ''BLOCKED'' (srr_conditions r),
        ValueError ''blocked-condition count differs from condition records''),
      (srr_status r = ''PARTIAL_VALID'' \<and> \<not> list_ex (\<lambda>c. crn_status c \<noteq> ''PASS'') (srr_conditions r),
        ValueError ''PARTIAL_VALID requires at least one recorded condition failure'')]"

definition validate_run_report :: "pilot_params \<Rightarrow> run_report \<Rightarrow> run_report result" where
  "validate_run_report P r =
     bindr (validate_smoke_environment (srr_environment r)) (\<lambda>_.
     bindr (validate_smoke_runtime_estimate P (srr_runtime_estimate r)) (\<lambda>_.
     bindr (validate_all validate_condition_run (srr_conditions r)) (\<lambda>_.
     bindr (validate_all validate_smoke_metric (srr_metrics r)) (\<lambda>_.
     bindr (validate_all validate_paired_record (srr_paired_metrics r)) (\<lambda>_.
     guards (report_field_guards r
       @ [(card (set (map crn_condition_id (srr_conditions r))) \<noteq> 10,
            ValueError ''run report must account for ten unique conditions'')]
       @ (if srr_status r = ''PASS_PENDING_REVIEW'' then report_pass_guards r else [])
       @ report_count_guards r) r)))))"

text \<open>
  \<open>build_run_report\<close>: its keyword arguments are the fields of a draft report; what it takes from
  the plan, from the manifest of the scheduler run and from the conditions overrides the draft.
\<close>

definition build_run_report ::
  "pilot_params \<Rightarrow> smoke_plan \<Rightarrow> run_manifest \<Rightarrow> int option \<Rightarrow> run_report \<Rightarrow> run_report result" where
  "build_run_report P plan manifest network draft = validate_run_report P (draft\<lparr>
     srr_source_commit := smp_source_commit plan, srr_plan_sha256 := smoke_plan_sha256 P plan,
     srr_scheduler_plan_sha256 := rm_plan_hash manifest, srr_resume := rm_resume manifest,
     srr_planned_conditions := int (rm_planned manifest), srr_executed_conditions := int (rm_executed manifest),
     srr_validated_cache_hits := int (rm_validated_cache_hits manifest),
     srr_failed_conditions := status_total ''FAIL'' (srr_conditions draft),
     srr_blocked_conditions := status_total ''BLOCKED'' (srr_conditions draft),
     srr_max_cpu_concurrency := int (rm_max_cpu_concurrency manifest),
     srr_max_gpu_concurrency := int (rm_max_gpu_concurrency manifest),
     srr_labels_opened_after_predictions := True,
     srr_network_attempt_count := (case network of None \<Rightarrow> rm_offline_network_attempt_count manifest | Some n \<Rightarrow> n)\<rparr>)"

section \<open>The inventory\<close>

record evidence_condition =
  evc_condition_id :: string
  evc_cache_identity_sha256 :: string
  evc_model_id :: string
  evc_view_id :: string
  evc_device :: device_policy
  evc_status :: string
  evc_cache_status :: string
  evc_prediction_hashes :: "string list"
  evc_failure_category :: "string option"
  evc_resource :: "condition_resource option"

definition validate_evidence_condition :: "evidence_condition \<Rightarrow> evidence_condition result" where
  "validate_evidence_condition c =
     bindr (case evc_resource c of None \<Rightarrow> Inr () | Some x \<Rightarrow> bindr (validate_condition_resource x) (\<lambda>_. Inr ())) (\<lambda>_. guards
     [(\<not> is_sha256 (evc_condition_id c), ValueError ''condition_id''),
      (\<not> is_sha256 (evc_cache_identity_sha256 c), ValueError ''cache_identity_sha256''),
      (evc_model_id c \<notin> set SMOKE_MODEL_ORDER, ValueError ''model_id''),
      (evc_view_id c \<notin> set SMOKE_VIEW_ORDER, ValueError ''view_id''),
      (evc_status c \<notin> {''PASS'', ''FAIL'', ''BLOCKED''}, ValueError ''status''),
      (evc_cache_status c \<notin> {''created'', ''validated_cache_hit'', ''not_published''}, ValueError ''cache_status''),
      (\<not> list_all is_sha256 (evc_prediction_hashes c), ValueError ''prediction_hashes'')] c)"

record evidence_inventory =
  evi_status :: string
  evi_source_commit :: string
  evi_plan_sha256 :: string
  evi_run_report_sha256 :: string
  evi_resume_verification_sha256 :: "string option"
  evi_split_validation_sha256 :: "string option"
  evi_passed_conditions :: int
  evi_failed_conditions :: int
  evi_blocked_conditions :: int
  evi_prediction_artifact_count :: int
  evi_metric_record_count :: int
  evi_paired_metric_record_count :: int
  evi_protected_unchanged :: bool
  evi_labels_opened_after_predictions :: bool
  evi_network_attempt_count :: int
  evi_dataset_features_sha256 :: string
  evi_dataset_source_sha256 :: string
  evi_target_artifact_sha256 :: string
  evi_split_sha256 :: string
  evi_transformation_inventory_sha256 :: string
  evi_environment :: smoke_environment
  evi_conditions :: "evidence_condition list"
  evi_metrics :: "smoke_metric list"
  evi_paired_metrics :: "paired_record list"
  evi_acceptance_gates :: "smoke_gate list"

definition evidence_total :: "string \<Rightarrow> evidence_condition list \<Rightarrow> int" where
  "evidence_total s cs = int (length (filter (\<lambda>c. evc_status c = s) cs))"

definition evidence_field_guards :: "evidence_inventory \<Rightarrow> (bool \<times> error) list" where
  "evidence_field_guards i =
     [(evi_status i \<notin> set SMOKE_STATUSES, ValueError ''status''), (\<not> is_commit (evi_source_commit i), ValueError ''source_commit'')]
     @ map hash_guard [(''plan_sha256'', evi_plan_sha256 i), (''run_report_sha256'', evi_run_report_sha256 i)]
     @ [(bad_hash_option (evi_resume_verification_sha256 i), ValueError ''resume_verification_sha256''),
        (bad_hash_option (evi_split_validation_sha256 i), ValueError ''protected_split_validation_sha256''),
        (outside_ten (evi_passed_conditions i), ValueError ''passed_conditions''),
        (outside_ten (evi_failed_conditions i), ValueError ''failed_conditions''),
        (outside_ten (evi_blocked_conditions i), ValueError ''blocked_conditions''),
        (evi_prediction_artifact_count i < 0 \<or> 20 < evi_prediction_artifact_count i, ValueError ''prediction_artifact_count''),
        (evi_metric_record_count i < 0 \<or> 20 < evi_metric_record_count i, ValueError ''metric_record_count''),
        (outside_ten (evi_paired_metric_record_count i), ValueError ''paired_metric_record_count''),
        (evi_network_attempt_count i < 0, ValueError ''network_attempt_count'')]
     @ map hash_guard [(''dataset_features_sha256'', evi_dataset_features_sha256 i),
         (''dataset_source_sha256'', evi_dataset_source_sha256 i), (''target_artifact_sha256'', evi_target_artifact_sha256 i),
         (''split_sha256'', evi_split_sha256 i), (''transformation_inventory_sha256'', evi_transformation_inventory_sha256 i)]
     @ [(length (evi_conditions i) \<noteq> 10, ValueError ''conditions''),
        (evi_acceptance_gates i = [], ValueError ''acceptance_gates'')]"

definition evidence_count_guards :: "evidence_inventory \<Rightarrow> (bool \<times> error) list" where
  "evidence_count_guards i =
     [(evi_passed_conditions i + evi_failed_conditions i + evi_blocked_conditions i \<noteq> 10,
        ValueError ''evidence inventory must account for every condition''),
      (card (set (map evc_condition_id (evi_conditions i))) \<noteq> 10,
        ValueError ''sanitized inventory must retain ten unique condition identities''),
      (evidence_total ''PASS'' (evi_conditions i) \<noteq> evi_passed_conditions i,
        ValueError ''inventory passed count differs from condition evidence''),
      (evidence_total ''FAIL'' (evi_conditions i) \<noteq> evi_failed_conditions i,
        ValueError ''inventory failed count differs from condition evidence''),
      (evidence_total ''BLOCKED'' (evi_conditions i) \<noteq> evi_blocked_conditions i,
        ValueError ''inventory blocked count differs from condition evidence''),
      (list_ex (\<lambda>g. sgt_result g \<noteq> ''PASS'') (evi_acceptance_gates i) \<and> evi_status i = ''PASS_PENDING_REVIEW'',
        ValueError ''passing inventory cannot contain a failed or unverified gate''),
      (evi_status i = ''PASS_PENDING_REVIEW'' \<and> (evi_passed_conditions i \<noteq> 10 \<or> evi_failed_conditions i \<noteq> 0
          \<or> evi_blocked_conditions i \<noteq> 0 \<or> evi_prediction_artifact_count i \<noteq> 20 \<or> \<not> evi_protected_unchanged i
          \<or> \<not> evi_labels_opened_after_predictions i \<or> evi_network_attempt_count i \<noteq> 0),
        ValueError ''passing smoke evidence does not satisfy frozen gates'')]"

definition validate_evidence_inventory :: "evidence_inventory \<Rightarrow> evidence_inventory result" where
  "validate_evidence_inventory i =
     bindr (validate_smoke_environment (evi_environment i)) (\<lambda>_.
     bindr (validate_all validate_evidence_condition (evi_conditions i)) (\<lambda>_.
     bindr (validate_all validate_smoke_metric (evi_metrics i)) (\<lambda>_.
     bindr (validate_all validate_paired_record (evi_paired_metrics i)) (\<lambda>_.
     bindr (validate_all validate_smoke_gate (evi_acceptance_gates i)) (\<lambda>_.
     guards (evidence_field_guards i @ evidence_count_guards i) i)))))"

definition evidence_of :: "condition_run \<Rightarrow> evidence_condition" where
  "evidence_of r = \<lparr>evc_condition_id = crn_condition_id r, evc_cache_identity_sha256 = crn_cache_identity_sha256 r,
     evc_model_id = crn_model_id r, evc_view_id = crn_view_id r, evc_device = crn_device r, evc_status = crn_status r,
     evc_cache_status = crn_cache_status r, evc_prediction_hashes = map pfr_sha256 (crn_prediction_files r),
     evc_failure_category = crn_failure_category r, evc_resource = crn_resource r\<rparr>"

definition make_inventory ::
  "pilot_params \<Rightarrow> smoke_plan \<Rightarrow> run_report \<Rightarrow> string \<Rightarrow> smoke_gate list \<Rightarrow> evidence_inventory result" where
  "make_inventory P plan r report_sha256 gates = validate_evidence_inventory
     \<lparr>evi_status = srr_status r, evi_source_commit = srr_source_commit r, evi_plan_sha256 = smoke_plan_sha256 P plan,
      evi_run_report_sha256 = report_sha256, evi_resume_verification_sha256 = srr_resume_verification_sha256 r,
      evi_split_validation_sha256 = srr_split_validation_sha256 r,
      evi_passed_conditions = status_total ''PASS'' (srr_conditions r),
      evi_failed_conditions = status_total ''FAIL'' (srr_conditions r),
      evi_blocked_conditions = status_total ''BLOCKED'' (srr_conditions r),
      evi_prediction_artifact_count = int (sum_list (map (\<lambda>c. length (crn_prediction_files c)) (srr_conditions r))),
      evi_metric_record_count = int (length (srr_metrics r)),
      evi_paired_metric_record_count = int (length (srr_paired_metrics r)),
      evi_protected_unchanged = srr_protected_unchanged r,
      evi_labels_opened_after_predictions = srr_labels_opened_after_predictions r,
      evi_network_attempt_count = srr_network_attempt_count r,
      evi_dataset_features_sha256 = smp_dataset_features_sha256 plan, evi_dataset_source_sha256 = smp_dataset_source_sha256 plan,
      evi_target_artifact_sha256 = smp_target_artifact_sha256 plan, evi_split_sha256 = smp_assignment_sha256 plan,
      evi_transformation_inventory_sha256 = smp_transformation_inventory_sha256 plan,
      evi_environment = srr_environment r, evi_conditions = map evidence_of (srr_conditions r),
      evi_metrics = srr_metrics r, evi_paired_metrics = srr_paired_metrics r, evi_acceptance_gates = gates\<rparr>"

section \<open>The validation report\<close>

record smoke_validation =
  svl_status :: string
  svl_plan_sha256 :: string
  svl_run_report_sha256 :: string
  svl_prediction_count :: int
  svl_metric_record_count :: int
  svl_paired_metric_count :: int
  svl_gates :: "smoke_gate list"

definition validate_smoke_validation :: "smoke_validation \<Rightarrow> smoke_validation result" where
  "validate_smoke_validation v = bindr (validate_all validate_smoke_gate (svl_gates v)) (\<lambda>_. guards
     [(svl_status v \<notin> {''PASS'', ''FAIL''}, ValueError ''status''),
      (\<not> is_sha256 (svl_plan_sha256 v), ValueError ''plan_sha256''),
      (\<not> is_sha256 (svl_run_report_sha256 v), ValueError ''run_report_sha256''),
      (svl_prediction_count v < 0 \<or> 20 < svl_prediction_count v, ValueError ''validated_prediction_count''),
      (svl_metric_record_count v < 0 \<or> 20 < svl_metric_record_count v, ValueError ''validated_metric_record_count''),
      (outside_ten (svl_paired_metric_count v), ValueError ''validated_paired_metric_count''),
      (svl_gates v = [], ValueError ''gates''),
      (svl_status v = ''PASS'' \<and> list_ex (\<lambda>g. sgt_result g \<noteq> ''PASS'') (svl_gates v),
        ValueError ''passing validation report cannot contain failed/unverified gates'')] v)"

end
