(* ===== verification/Smoke_Execution.thy ===== *)
theory Smoke_Execution
  imports Smoke_Run_Report Scheduler
begin

text \<open>
  \<open>src/schemaguard/experiments/execution.py\<close>: the prediction table a worker writes, the archive it
  publishes, the scheduler plan and the cache identity of every condition, the validation of a cached
  archive, and the assembly of the condition records after a scheduler run. What pandas, zipfile and
  numpy compute (reading a Parquet file, the entries of an archive, the conversion of a column, the
  sum of a row) and the fitted adapter are arguments.
\<close>

section \<open>The result of a worker\<close>

record adapter_resource =
  ads_model_load_seconds :: py_float
  ads_preprocessing_fit_seconds :: py_float
  ads_fit_seconds :: py_float
  ads_prediction_seconds :: py_float
  ads_wall_time_seconds :: py_float
  ads_cpu_time_seconds :: "py_float option"
  ads_peak_ram_mib :: "py_float option"
  ads_peak_process_tree_ram_mib :: "py_float option"
  ads_peak_vram_allocated_mib :: "py_float option"
  ads_peak_vram_reserved_mib :: "py_float option"
  ads_free_vram_before_mib :: "py_float option"
  ads_free_vram_after_mib :: "py_float option"
  ads_telemetry_complete :: bool
  ads_resource_limits_passed :: bool
  ads_cleanup_verified :: bool

definition validate_adapter_resource :: "adapter_resource \<Rightarrow> adapter_resource result" where
  "validate_adapter_resource r = guards
     [(ads_model_load_seconds r < 0, ValueError ''model_load_seconds''),
      (ads_preprocessing_fit_seconds r < 0, ValueError ''preprocessing_fit_seconds''),
      (ads_fit_seconds r < 0, ValueError ''fit_seconds''), (ads_prediction_seconds r < 0, ValueError ''prediction_seconds''),
      (ads_wall_time_seconds r < 0, ValueError ''wall_time_seconds''),
      (below_zero (ads_cpu_time_seconds r), ValueError ''cpu_time_seconds''),
      (below_zero (ads_peak_ram_mib r), ValueError ''peak_ram_mib''),
      (below_zero (ads_peak_process_tree_ram_mib r), ValueError ''peak_process_tree_ram_mib''),
      (below_zero (ads_peak_vram_allocated_mib r), ValueError ''peak_vram_allocated_mib''),
      (below_zero (ads_peak_vram_reserved_mib r), ValueError ''peak_vram_reserved_mib''),
      (below_zero (ads_free_vram_before_mib r), ValueError ''free_vram_before_mib''),
      (below_zero (ads_free_vram_after_mib r), ValueError ''free_vram_after_mib'')] r"

definition float_option_json :: "pilot_params \<Rightarrow> py_float option \<Rightarrow> json" where
  "float_option_json P x = (case x of None \<Rightarrow> JNull | Some v \<Rightarrow> pp_float P v)"

definition adapter_resource_json :: "pilot_params \<Rightarrow> adapter_resource \<Rightarrow> json" where
  "adapter_resource_json P r = JObj
     [(''model_load_seconds'', pp_float P (ads_model_load_seconds r)),
      (''preprocessing_fit_seconds'', pp_float P (ads_preprocessing_fit_seconds r)),
      (''fit_seconds'', pp_float P (ads_fit_seconds r)), (''prediction_seconds'', pp_float P (ads_prediction_seconds r)),
      (''wall_time_seconds'', pp_float P (ads_wall_time_seconds r)),
      (''cpu_time_seconds'', float_option_json P (ads_cpu_time_seconds r)),
      (''peak_ram_mib'', float_option_json P (ads_peak_ram_mib r)),
      (''peak_process_tree_ram_mib'', float_option_json P (ads_peak_process_tree_ram_mib r)),
      (''peak_vram_allocated_mib'', float_option_json P (ads_peak_vram_allocated_mib r)),
      (''peak_vram_reserved_mib'', float_option_json P (ads_peak_vram_reserved_mib r)),
      (''free_vram_before_mib'', float_option_json P (ads_free_vram_before_mib r)),
      (''free_vram_after_mib'', float_option_json P (ads_free_vram_after_mib r)),
      (''telemetry_complete'', JBool (ads_telemetry_complete r)),
      (''resource_limits_passed'', JBool (ads_resource_limits_passed r)),
      (''cleanup_verified'', JBool (ads_cleanup_verified r))]"

definition adapter_resource_sha256 :: "pilot_params \<Rightarrow> adapter_resource \<Rightarrow> string" where
  "adapter_resource_sha256 P r = sha256_canonical_json (pp_sha P) (adapter_resource_json P r)"

record output_summary =
  osm_partition :: string
  osm_row_count :: int
  osm_row_id_sha256 :: string
  osm_probability_sha256 :: string
  osm_parquet_sha256 :: string
  osm_class_order :: "int list"

definition validate_output_summary :: "output_summary \<Rightarrow> output_summary result" where
  "validate_output_summary s = guards
     [(osm_partition s \<notin> set PREDICTION_PARTITIONS, ValueError ''partition''), (osm_row_count s \<le> 0, ValueError ''row_count''),
      (\<not> is_sha256 (osm_row_id_sha256 s), ValueError ''row_id_sha256''),
      (\<not> is_sha256 (osm_probability_sha256 s), ValueError ''probability_sha256''),
      (\<not> is_sha256 (osm_parquet_sha256 s), ValueError ''parquet_sha256''),
      (length (osm_class_order s) < 2, ValueError ''class_order''),
      (osm_class_order s \<noteq> map int [0..<length (osm_class_order s)],
        ValueError ''prediction output must use contiguous canonical class order'')] s"

record worker_condition_result =
  wcr_plan_sha256 :: string
  wcr_condition_id :: string
  wcr_source_commit :: string
  wcr_observed_package_version :: string
  wcr_observed_parameters_sha256 :: string
  wcr_checkpoint_identifier :: "string option"
  wcr_checkpoint_sha256 :: "string option"
  wcr_training_row_id_sha256 :: string
  wcr_training_target_sha256 :: string
  wcr_adapter_resource :: adapter_resource
  wcr_outputs :: "output_summary list"
  wcr_network_attempt_count :: int

definition validate_worker_result :: "worker_condition_result \<Rightarrow> worker_condition_result result" where
  "validate_worker_result w =
     bindr (validate_adapter_resource (wcr_adapter_resource w)) (\<lambda>_.
     bindr (validate_all validate_output_summary (wcr_outputs w)) (\<lambda>_. guards
     [(\<not> is_sha256 (wcr_plan_sha256 w), ValueError ''plan_sha256''),
      (\<not> is_sha256 (wcr_condition_id w), ValueError ''condition_id''),
      (\<not> is_commit (wcr_source_commit w), ValueError ''source_commit''),
      (\<not> is_sha256 (wcr_observed_parameters_sha256 w), ValueError ''observed_parameters_sha256''),
      (bad_hash_option (wcr_checkpoint_sha256 w), ValueError ''checkpoint_sha256''),
      (\<not> is_sha256 (wcr_training_row_id_sha256 w), ValueError ''training_row_id_sha256''),
      (\<not> is_sha256 (wcr_training_target_sha256 w), ValueError ''training_target_sha256''),
      (length (wcr_outputs w) \<noteq> 2, ValueError ''outputs''),
      (wcr_network_attempt_count w < 0, ValueError ''network_attempt_count''),
      (set (map osm_partition (wcr_outputs w)) \<noteq> set PREDICTION_PARTITIONS,
        ValueError ''worker must return predictions for calibration and test''),
      ((wcr_checkpoint_identifier w = None) \<noteq> (wcr_checkpoint_sha256 w = None),
        ValueError ''checkpoint name and checksum must be present together'')] w))"

section \<open>Prediction tables\<close>

record smoke_params =
  skp_metric :: metric_params
  skp_parquet :: "string \<Rightarrow> frame result"
  skp_logical :: "frame \<Rightarrow> string"
  skp_str :: "cell \<Rightarrow> string"
  skp_json :: "cell \<Rightarrow> json result"
  skp_number :: "string \<Rightarrow> float_value"
  skp_float64 :: "cell list \<Rightarrow> float_value list result"
  skp_int64 :: "cell list \<Rightarrow> int list result"
  skp_numeric :: "cell \<Rightarrow> float_value"
  skp_archive :: "string \<Rightarrow> (string \<times> string) list result"
  skp_metadata :: "string \<Rightarrow> worker_condition_result result"

definition skp_pilot :: "smoke_params \<Rightarrow> pilot_params" where
  "skp_pilot S = mtp_pilot (skp_metric S)"

definition skp_sha :: "smoke_params \<Rightarrow> string \<Rightarrow> string" where
  "skp_sha S = pp_sha (skp_pilot S)"

text \<open>
  The \<open>==\<close> of two Python values given as JSON: numbers compare by value whatever their type, and
  dictionaries whatever the order of their keys.
\<close>

primrec python_numbers :: "(string \<Rightarrow> float_value) \<Rightarrow> json \<Rightarrow> json" where
  "python_numbers num JNull = JNull"
| "python_numbers num (JBool b) = JInt (if b then 1 else 0)"
| "python_numbers num (JInt i) = JInt i"
| "python_numbers num (JFloat t) = (case float_number (num t) of Some x \<Rightarrow> if of_int \<lfloor>x\<rfloor> = x then JInt \<lfloor>x\<rfloor> else JFloat t | None \<Rightarrow> JFloat t)"
| "python_numbers num (JStr s) = JStr s"
| "python_numbers num (JArr xs) = JArr (map (python_numbers num) xs)"
| "python_numbers num (JObj kvs) = JObj (map (map_prod id (python_numbers num)) kvs)"

definition python_equal :: "smoke_params \<Rightarrow> json \<Rightarrow> json \<Rightarrow> bool" where
  "python_equal S a b \<longleftrightarrow> canonicalize (python_numbers (skp_number S) a) = canonicalize (python_numbers (skp_number S) b)"

definition PREDICTION_COLUMNS :: "string list" where
  "PREDICTION_COLUMNS = [''schema_version'', ''run_identity_sha256'', ''plan_sha256'', ''condition_id'', ''dataset_id'',
     ''model_id'', ''view_id'', ''device'', ''seed'', ''partition'', ''row_id'', ''class_order'', ''p_0'', ''p_1'',
     ''predicted_class'', ''fit_time_seconds'', ''prediction_time_seconds'', ''peak_ram_mib'', ''peak_vram_mib'',
     ''dataset_features_sha256'', ''target_artifact_sha256'', ''assignment_sha256'', ''view_certificate_sha256'',
     ''view_features_sha256'', ''model_spec_sha256'', ''planned_parameters_sha256'', ''observed_parameters_sha256'',
     ''checkpoint_sha256'', ''source_commit'', ''dependency_lock_sha256'', ''code_identity_sha256'',
     ''cache_identity_sha256'', ''validation_status'', ''resource_sha256'']"

text \<open>The element-wise \<open>==\<close> of pandas with a value: numbers by value, a missing cell equals nothing.\<close>

fun cell_number :: "cell \<Rightarrow> rat option" where
  "cell_number (CBool b) = Some (if b then 1 else 0)"
| "cell_number (CInt t i) = Some (of_int i)"
| "cell_number (CFloat t x) = float_number x"
| "cell_number c = None"

definition cell_eq :: "cell \<Rightarrow> cell \<Rightarrow> bool" where
  "cell_eq a b \<longleftrightarrow> (case (cell_number a, cell_number b) of
     (Some x, Some y) \<Rightarrow> x = y | (None, None) \<Rightarrow> a = b \<and> a \<noteq> CMissing | _ \<Rightarrow> False)"

definition table_cells :: "frame \<Rightarrow> string \<Rightarrow> cell list" where
  "table_cells X name = (case find (\<lambda>c. co_name c = name) X of None \<Rightarrow> [] | Some c \<Rightarrow> co_cells c)"

text \<open>\<open>not frame[name].ne(value).any()\<close>.\<close>

definition all_equal :: "frame \<Rightarrow> string \<Rightarrow> cell \<Rightarrow> bool" where
  "all_equal X name v \<longleftrightarrow> list_all (\<lambda>c. cell_eq c v) (table_cells X name)"

definition text_cell :: "string option \<Rightarrow> cell" where
  "text_cell t = (case t of None \<Rightarrow> CMissing | Some s \<Rightarrow> CStr s)"

definition probability_rows :: "smoke_params \<Rightarrow> frame \<Rightarrow> float_value list list result" where
  "probability_rows S X = bindr (skp_float64 S (table_cells X ''p_0'')) (\<lambda>a.
     bindr (skp_float64 S (table_cells X ''p_1'')) (\<lambda>b. Inr (map2 (\<lambda>x y. [x, y]) a b)))"

text \<open>The finite entries of a matrix, when they all are and lie in the unit interval.\<close>

definition unit_matrix :: "float_value list list \<Rightarrow> py_float list list option" where
  "unit_matrix rows = (case those (map finite_values rows) of
     None \<Rightarrow> None | Some m \<Rightarrow> if list_ex (list_ex (\<lambda>x. x < 0 \<or> 1 < x)) m then None else Some m)"

definition off_simplex :: "smoke_params \<Rightarrow> py_float \<Rightarrow> py_float list list \<Rightarrow> bool" where
  "off_simplex S tol m \<longleftrightarrow> list_ex (\<lambda>r. tol < \<bar>pp_fl (skp_pilot S) (mtp_rowsum (skp_metric S) r - 1)\<bar>) m"

text \<open>\<open>sha256_canonical_json(frame["row_id"].tolist())\<close> and the hash of the probability records.\<close>

definition row_id_sha256 :: "smoke_params \<Rightarrow> frame \<Rightarrow> string result" where
  "row_id_sha256 S X = bindr (mapr (skp_json S) (table_cells X ''row_id'')) (\<lambda>ids.
     Inr (sha256_canonical_json (skp_sha S) (JArr ids)))"

definition probability_sha256 :: "smoke_params \<Rightarrow> frame \<Rightarrow> string result" where
  "probability_sha256 S X =
     bindr (mapr (skp_json S) (table_cells X ''row_id'')) (\<lambda>ids.
     bindr (mapr (skp_json S) (table_cells X ''p_0'')) (\<lambda>p0.
     bindr (mapr (skp_json S) (table_cells X ''p_1'')) (\<lambda>p1.
     Inr (sha256_canonical_json (skp_sha S) (JArr (map (\<lambda>(r, a, b). JObj [(''row_id'', r), (''p_0'', a), (''p_1'', b)])
       (zip ids (zip p0 p1))))))))"

section \<open>The table a worker writes\<close>

text \<open>What the adapter returns for one partition: a row is its probabilities in the class order.\<close>

record adapter_prediction =
  apr_partition :: string
  apr_row_ids :: "cell list"
  apr_probabilities :: "py_float list list"
  apr_class_order :: "int list"

definition class_order_text :: "int list \<Rightarrow> string" where
  "class_order_text cs = commas (map show_int cs)"

definition float_cell :: "py_float option \<Rightarrow> cell" where
  "float_cell x = (case x of None \<Rightarrow> CMissing | Some v \<Rightarrow> CFloat ''float'' (Finite v))"

text \<open>The cells of the columns of one row, in the order of the dictionary the code builds.\<close>

definition prediction_row ::
  "pilot_params \<Rightarrow> smoke_plan \<Rightarrow> smoke_condition \<Rightarrow> adapter_resource \<Rightarrow> string \<Rightarrow> string \<Rightarrow> string
   \<Rightarrow> adapter_prediction \<Rightarrow> cell \<times> py_float list \<Rightarrow> cell list result" where
  "prediction_row P plan c res resource_sha observed_sha cache_sha p = (\<lambda>(row_id, probs).
     if length probs < 2 then Inl (IndexError ''index is out of bounds'')
     else let k = (if probs ! 1 > probs ! 0 then 1 else 0) in
     if length (apr_class_order p) \<le> k then Inl (IndexError ''list index out of range'')
     else Inr [CInt ''int'' 1, CStr (smoke_plan_sha256 P plan), CStr (smoke_plan_sha256 P plan), CStr (smc_condition_id c),
       CInt ''int'' SMOKE_DATASET_ID, CStr (smc_model_id c), CStr (smc_view_id c), CStr (device_text (smc_device c)),
       CInt ''int'' (smc_seed c), CStr (apr_partition p), row_id, CStr (class_order_text (apr_class_order p)),
       CFloat ''float'' (Finite (probs ! 0)), CFloat ''float'' (Finite (probs ! 1)), CInt ''int'' (apr_class_order p ! k),
       float_cell (Some (ads_fit_seconds res)), float_cell (Some (ads_prediction_seconds res)),
       float_cell (ads_peak_ram_mib res), float_cell (ads_peak_vram_reserved_mib res),
       CStr (smp_dataset_features_sha256 plan), CStr (smp_target_artifact_sha256 plan), CStr (smp_assignment_sha256 plan),
       CStr (smc_view_certificate_sha256 c), CStr (smc_view_features_sha256 c), CStr (smc_model_spec_sha256 c),
       CStr (smc_parameters_sha256 c), CStr observed_sha, text_cell (smc_checkpoint_sha256 c), CStr (smp_source_commit plan),
       CStr (smp_dependency_lock_sha256 plan), CStr (smp_code_identity_sha256 plan), CStr cache_sha, CStr ''PASS'',
       CStr resource_sha])"

text \<open>\<open>pandas.DataFrame(rows, columns=...)\<close>: the dtype of a column is chosen by pandas and left out.\<close>

definition frame_of_rows :: "string list \<Rightarrow> cell list list \<Rightarrow> frame" where
  "frame_of_rows names rows = map (\<lambda>(i, name). \<lparr>co_name = name, co_dtype = [], co_cells = map (\<lambda>r. r ! i) rows\<rparr>) (enumerate 0 names)"

definition prediction_frame ::
  "pilot_params \<Rightarrow> smoke_plan \<Rightarrow> smoke_condition \<Rightarrow> adapter_resource \<Rightarrow> string \<Rightarrow> string \<Rightarrow> string
   \<Rightarrow> adapter_prediction \<Rightarrow> frame result" where
  "prediction_frame P plan c res resource_sha observed_sha cache_sha p =
     (if length (apr_row_ids p) \<noteq> length (apr_probabilities p) then Inl (ValueError ''zip() argument lengths differ'')
      else bindr (mapr (prediction_row P plan c res resource_sha observed_sha cache_sha p)
             (zip (apr_row_ids p) (apr_probabilities p))) (\<lambda>rows.
        if \<not> distinct (apr_row_ids p) then Inl (ValueError ''adapter returned duplicate inference row IDs'')
        else Inr (frame_of_rows PREDICTION_COLUMNS rows)))"

end
