(* ===== verification/Smoke_Archive.thy ===== *)
theory Smoke_Archive
  imports Smoke_Execution
begin

text \<open>
  \<open>src/schemaguard/experiments/execution.py\<close>, continued: the archive a worker publishes, the cache
  identity of a condition and the scheduler plan, the validation of a cached archive, and
  \<open>run_conditions\<close>, which runs the scheduler and turns its outcome into the ten condition records.
\<close>

section \<open>The archive of a worker\<close>

text \<open>
  What the worker has when the adapter has predicted: the row identifiers of the partitions it
  loaded, the digests of the training rows and targets, and what the fitted adapter reports.
  \<open>wkr_parquet\<close> are the bytes \<open>to_parquet\<close> writes and \<open>wkr_render\<close> the JSON text of the metadata.
\<close>

record worker_run =
  wkr_row_ids :: "string \<Rightarrow> cell list"
  wkr_train_ids_sha256 :: string
  wkr_training_target_sha256 :: string
  wkr_preprocessing :: string
  wkr_parameters :: "(string \<times> json) list"
  wkr_package_version :: string
  wkr_checkpoint_identifier :: "string option"
  wkr_checkpoint_sha256 :: "string option"
  wkr_predictions :: "adapter_prediction list"
  wkr_resource :: adapter_resource
  wkr_network_attempts :: int
  wkr_parquet :: "frame \<Rightarrow> string"
  wkr_render :: "worker_condition_result \<Rightarrow> string"

definition normalized_parameters :: "(string \<times> json) list \<Rightarrow> (string \<times> json) list" where
  "normalized_parameters params = filter (\<lambda>kv. fst kv \<notin> {''model_path'', ''allow_auto_download''}) params"

definition predictions_entry :: "string \<Rightarrow> string" where
  "predictions_entry part = part @ ''_predictions.parquet''"

definition METADATA_ENTRY :: string where "METADATA_ENTRY = ''condition_metadata.json''"

definition worker_output ::
  "smoke_params \<Rightarrow> smoke_plan \<Rightarrow> smoke_condition \<Rightarrow> cache_identity \<Rightarrow> worker_run \<Rightarrow> adapter_prediction
   \<Rightarrow> (output_summary \<times> string) result" where
  "worker_output S plan c i W p = (let P = skp_pilot S in
     bindr (prediction_frame P plan c (wkr_resource W) (adapter_resource_sha256 P (wkr_resource W))
       (sha256_canonical_json (skp_sha S) (JObj (normalized_parameters (wkr_parameters W)))) (cache_key (skp_sha S) i) p) (\<lambda>X.
     bindr (probability_sha256 S X) (\<lambda>probabilities.
     bindr (row_id_sha256 S X) (\<lambda>ids.
     bindr (validate_output_summary \<lparr>osm_partition = apr_partition p, osm_row_count = int (row_count X),
        osm_row_id_sha256 = ids, osm_probability_sha256 = probabilities, osm_parquet_sha256 = skp_sha S (wkr_parquet W X),
        osm_class_order = apr_class_order p\<rparr>) (\<lambda>summary. Inr (summary, wkr_parquet W X))))))"

text \<open>\<open>smoke_worker_entry\<close> from the fitted adapter to the archive.\<close>

definition worker_archive ::
  "smoke_params \<Rightarrow> smoke_plan \<Rightarrow> smoke_condition \<Rightarrow> cache_identity \<Rightarrow> worker_run
   \<Rightarrow> (worker_condition_result \<times> (string \<times> string) list) result" where
  "worker_archive S plan c i W = (let params = normalized_parameters (wkr_parameters W);
       observed = sha256_canonical_json (skp_sha S) (JObj params) in
     bindr (guards
       [(ci_view_certificate_sha256 i \<noteq> smc_view_certificate_sha256 c,
          ValueError ''scheduler cache identity does not match the frozen view certificate''),
        (wkr_preprocessing W \<noteq> smc_preprocessing c, ValueError ''adapter preprocessing differs from the frozen smoke plan''),
        (\<not> python_equal S (JObj params) (JObj (smc_model_parameters c)), ValueError ''adapter runtime parameters differ from the frozen smoke plan''),
        (observed \<noteq> smc_parameters_sha256 c, ValueError ''adapter parameter digest differs from the frozen plan''),
        (list_ex (\<lambda>p. apr_row_ids p \<noteq> wkr_row_ids W (apr_partition p) \<or> apr_class_order p \<noteq> [0, 1]) (wkr_predictions W),
          ValueError ''prediction alignment or class ordering changed'')] ()) (\<lambda>_.
     bindr (validate_adapter_resource (wkr_resource W)) (\<lambda>_.
     bindr (guards [(\<not> ads_resource_limits_passed (wkr_resource W) \<or> \<not> ads_cleanup_verified (wkr_resource W),
          ValueError ''adapter resource or cleanup acceptance failed'')] ()) (\<lambda>_.
     bindr (mapr (worker_output S plan c i W) (wkr_predictions W)) (\<lambda>outputs.
     bindr (validate_worker_result \<lparr>wcr_plan_sha256 = smoke_plan_sha256 (skp_pilot S) plan, wcr_condition_id = smc_condition_id c,
        wcr_source_commit = smp_source_commit plan, wcr_observed_package_version = wkr_package_version W,
        wcr_observed_parameters_sha256 = observed, wcr_checkpoint_identifier = wkr_checkpoint_identifier W,
        wcr_checkpoint_sha256 = wkr_checkpoint_sha256 W, wcr_training_row_id_sha256 = wkr_train_ids_sha256 W,
        wcr_training_target_sha256 = wkr_training_target_sha256 W, wcr_adapter_resource = wkr_resource W,
        wcr_outputs = map fst outputs, wcr_network_attempt_count = wkr_network_attempts W\<rparr>) (\<lambda>result.
     Inr (result, map2 (\<lambda>p (s, bs). (predictions_entry (apr_partition p), bs)) (wkr_predictions W) outputs
       @ [(METADATA_ENTRY, wkr_render W result)])))))))"

section \<open>The scheduler plan\<close>

definition smoke_dataset_sha256 :: "pilot_params \<Rightarrow> smoke_plan \<Rightarrow> string" where
  "smoke_dataset_sha256 P plan = sha256_canonical_json (pp_sha P) (JObj
     [(''features_sha256'', JStr (smp_dataset_features_sha256 plan)), (''target_file_sha256'', JStr (smp_target_artifact_sha256 plan))])"

definition smoke_model_sha256 :: "pilot_params \<Rightarrow> smoke_condition \<Rightarrow> string" where
  "smoke_model_sha256 P c = sha256_canonical_json (pp_sha P) (JObj
     [(''model_spec_sha256'', JStr (smc_model_spec_sha256 c)), (''view_features_sha256'', JStr (smc_view_features_sha256 c))])"

definition smoke_identity :: "pilot_params \<Rightarrow> smoke_plan \<Rightarrow> smoke_condition \<Rightarrow> cache_identity" where
  "smoke_identity P plan c = \<lparr>ci_schema_version = 1, ci_dataset_sha256 = smoke_dataset_sha256 P plan,
     ci_split_sha256 = smp_assignment_sha256 plan, ci_view_certificate_sha256 = smc_view_certificate_sha256 c,
     ci_model_spec_sha256 = smoke_model_sha256 P c, ci_model_parameters_sha256 = smc_parameters_sha256 c,
     ci_checkpoint_sha256 = smc_checkpoint_sha256 c, ci_dependency_lock_sha256 = smp_dependency_lock_sha256 plan,
     ci_source_implementation_sha256 = smp_code_identity_sha256 plan, ci_seed = smc_seed c,
     ci_device_policy = smc_device c, ci_artifact_kind = KCondition\<rparr>"

definition condition_timeout :: "smoke_plan \<Rightarrow> smoke_condition \<Rightarrow> py_float" where
  "condition_timeout plan c = of_int (if smc_device c = Cpu then smp_cpu_timeout_seconds plan else smp_cuda_timeout_seconds plan)"

definition condition_task :: "pilot_params \<Rightarrow> smoke_plan \<Rightarrow> smoke_condition \<Rightarrow> task_spec result" where
  "condition_task P plan c = bindr (validate_cache_identity (smoke_identity P plan c)) (\<lambda>i.
     build_task (pp_sha P) (pp_frepr P) (smc_task_name c) i SyntheticPayload (smoke_plan_sha256 P plan) 0 (condition_timeout plan c))"

definition smoke_scheduler_plan ::
  "pilot_params \<Rightarrow> smoke_plan \<Rightarrow> (run_plan \<times> (string \<times> cache_identity) list) result" where
  "smoke_scheduler_plan P plan =
     bindr (mapr (condition_task P plan) (smp_conditions plan)) (\<lambda>tasks.
     bindr (build_plan tasks SMOKE_SEED 2) (\<lambda>rp.
     Inr (rp, map (\<lambda>c. (smc_condition_id c, smoke_identity P plan c)) (smp_conditions plan))))"

section \<open>Reading an archive back\<close>

definition archive_names :: "string set" where
  "archive_names = {METADATA_ENTRY, predictions_entry ''calibration'', predictions_entry ''test''}"

text \<open>\<open>archive.read(name)\<close>: the last entry with the name.\<close>

definition read_entry :: "(string \<times> string) list \<Rightarrow> string \<Rightarrow> string result" where
  "read_entry entries name = of_option (KeyError name) (map_of (rev entries) name)"

definition archive_lineage :: "pilot_params \<Rightarrow> smoke_plan \<Rightarrow> smoke_condition \<Rightarrow> string \<Rightarrow> (string \<times> cell) list" where
  "archive_lineage P plan c cache_sha =
     [(''run_identity_sha256'', CStr (smoke_plan_sha256 P plan)), (''model_id'', CStr (smc_model_id c)),
      (''view_id'', CStr (smc_view_id c)), (''device'', CStr (device_text (smc_device c))), (''seed'', CInt ''int'' (smc_seed c)),
      (''dataset_features_sha256'', CStr (smp_dataset_features_sha256 plan)),
      (''target_artifact_sha256'', CStr (smp_target_artifact_sha256 plan)),
      (''assignment_sha256'', CStr (smp_assignment_sha256 plan)),
      (''view_certificate_sha256'', CStr (smc_view_certificate_sha256 c)),
      (''view_features_sha256'', CStr (smc_view_features_sha256 c)), (''model_spec_sha256'', CStr (smc_model_spec_sha256 c)),
      (''planned_parameters_sha256'', CStr (smc_parameters_sha256 c)), (''source_commit'', CStr (smp_source_commit plan)),
      (''dependency_lock_sha256'', CStr (smp_dependency_lock_sha256 plan)),
      (''code_identity_sha256'', CStr (smp_code_identity_sha256 plan)), (''dataset_id'', CInt ''int'' SMOKE_DATASET_ID),
      (''cache_identity_sha256'', CStr cache_sha), (''validation_status'', CStr ''PASS'')]"

definition condition_resource_of :: "pilot_params \<Rightarrow> adapter_resource \<Rightarrow> condition_resource" where
  "condition_resource_of P a = \<lparr>crs_wall_seconds = ads_wall_time_seconds a, crs_cpu_seconds = ads_cpu_time_seconds a,
     crs_fit_seconds = ads_fit_seconds a, crs_prediction_seconds = ads_prediction_seconds a,
     crs_peak_worker_rss_mib = ads_peak_ram_mib a, crs_peak_process_tree_rss_mib = ads_peak_process_tree_ram_mib a,
     crs_peak_vram_allocated_mib = ads_peak_vram_allocated_mib a, crs_peak_vram_reserved_mib = ads_peak_vram_reserved_mib a,
     crs_free_vram_before_mib = ads_free_vram_before_mib a, crs_telemetry_complete = ads_telemetry_complete a,
     crs_cleanup_passed = ads_cleanup_verified a, crs_adapter_resource_sha256 = adapter_resource_sha256 P a\<rparr>"

definition prediction_path :: "smoke_condition \<Rightarrow> string \<Rightarrow> string" where
  "prediction_path c part = ''results/smoke/predictions/'' @ smc_task_name c @ ''_'' @ part @ ''.parquet''"

definition find_view :: "smoke_plan \<Rightarrow> string \<Rightarrow> smoke_view result" where
  "find_view plan view = of_option (RuntimeError ''StopIteration'') (find (\<lambda>v. smv_view_id v = view) (smp_views plan))"

definition partition_entry :: "(string \<times> 'v) list \<Rightarrow> string \<Rightarrow> 'v result" where
  "partition_entry d part = of_option (KeyError part) (map_of d part)"

definition archive_table_guards :: "smoke_params \<Rightarrow> smoke_plan \<Rightarrow> smoke_condition \<Rightarrow> output_summary \<Rightarrow> frame \<Rightarrow> (bool \<times> error) list" where
  "archive_table_guards S plan c out X =
     [(int (row_count X) \<noteq> osm_row_count out \<or> frame_columns X \<noteq> PREDICTION_COLUMNS,
        ValueError ''cached prediction schema or row count is invalid''),
      (\<not> all_equal X ''plan_sha256'' (CStr (smoke_plan_sha256 (skp_pilot S) plan)), ValueError ''cached prediction plan lineage mismatch''),
      (\<not> all_equal X ''condition_id'' (CStr (smc_condition_id c)), ValueError ''cached prediction condition lineage mismatch''),
      (\<not> all_equal X ''class_order'' (CStr (class_order_text (osm_class_order out))),
        ValueError ''cached prediction class ordering is inconsistent''),
      (osm_class_order out \<noteq> [0, 1], ValueError ''smoke output class order is not canonical binary order'')]"

definition lineage_guards :: "smoke_params \<Rightarrow> smoke_plan \<Rightarrow> smoke_condition \<Rightarrow> string \<Rightarrow> output_summary \<Rightarrow> frame \<Rightarrow> (bool \<times> error) list" where
  "lineage_guards S plan c cache_sha out X =
     map (\<lambda>(field, v). (\<not> all_equal X field v, ValueError (''cached prediction lineage mismatch in '' @ field)))
         (archive_lineage (skp_pilot S) plan c cache_sha)
     @ [(\<not> all_equal X ''partition'' (CStr (osm_partition out)), ValueError ''cached prediction partition identity changed''),
        (CMissing \<in> set (table_cells X ''target_artifact_sha256''), ValueError ''cached prediction target source hash is missing'')]"

definition check_probabilities :: "smoke_params \<Rightarrow> smoke_plan \<Rightarrow> frame \<Rightarrow> py_float list list result" where
  "check_probabilities S plan X = bindr (probability_rows S X) (\<lambda>rows.
     case unit_matrix rows of None \<Rightarrow> Inl (ValueError ''cached prediction probabilities are invalid'')
     | Some m \<Rightarrow> if off_simplex S (smp_probability_sum_tolerance plan) m
         then Inl (ValueError ''cached prediction probabilities are invalid'') else Inr m)"

definition load_output ::
  "smoke_params \<Rightarrow> (string \<times> string) list \<Rightarrow> smoke_condition \<Rightarrow> smoke_plan \<Rightarrow> string \<Rightarrow> output_summary \<Rightarrow> prediction_file result" where
  "load_output S entries c plan cache_sha out =
     bindr (read_entry entries (predictions_entry (osm_partition out))) (\<lambda>payload.
     if skp_sha S payload \<noteq> osm_parquet_sha256 out then Inl (ValueError ''cached prediction Parquet checksum is invalid'')
     else bindr (skp_parquet S payload) (\<lambda>X.
     bindr (guards (archive_table_guards S plan c out X) ()) (\<lambda>_.
     bindr (find_view plan (smc_view_id c)) (\<lambda>view.
     bindr (partition_entry (smv_partition_rows view) (osm_partition out)) (\<lambda>rows.
     if int (row_count X) \<noteq> rows then Inl (ValueError ''cached prediction row count differs from the frozen split'')
     else bindr (row_id_sha256 S X) (\<lambda>ids.
     bindr (partition_entry (smv_partition_row_id view) (osm_partition out)) (\<lambda>planned.
     if ids \<noteq> planned then Inl (ValueError ''cached prediction row IDs differ from the frozen split'')
     else bindr (guards (lineage_guards S plan c cache_sha out X) ()) (\<lambda>_.
     bindr (check_probabilities S plan X) (\<lambda>m.
     bindr (skp_int64 S (table_cells X ''predicted_class'')) (\<lambda>classes.
     if classes \<noteq> map (\<lambda>r. int (arg_max r)) m then Inl (ValueError ''cached predicted classes differ from canonical argmax'')
     else if ids \<noteq> osm_row_id_sha256 out then Inl (ValueError ''cached prediction row identity hash is invalid'')
     else bindr (probability_sha256 S X) (\<lambda>probabilities.
     if probabilities \<noteq> osm_probability_sha256 out then Inl (ValueError ''cached prediction probability hash is invalid'')
     else validate_prediction_file \<lparr>pfr_partition = osm_partition out, pfr_relative_path = prediction_path c (osm_partition out),
       pfr_sha256 = skp_sha S payload, pfr_row_count = osm_row_count out, pfr_row_id_sha256 = osm_row_id_sha256 out,
       pfr_probability_sha256 = osm_probability_sha256 out\<rparr>)))))))))))"

definition metadata_guards :: "smoke_params \<Rightarrow> smoke_condition \<Rightarrow> smoke_plan \<Rightarrow> worker_condition_result \<Rightarrow> (bool \<times> error) list" where
  "metadata_guards S c plan w =
     [(wcr_plan_sha256 w \<noteq> smoke_plan_sha256 (skp_pilot S) plan \<or> wcr_condition_id w \<noteq> smc_condition_id c,
        ValueError ''cached condition metadata does not match the frozen plan''),
      (wcr_source_commit w \<noteq> smp_source_commit plan, ValueError ''cached condition source commit differs from the plan''),
      (wcr_observed_package_version w \<noteq> smc_package_version c,
        ValueError ''cached condition package version differs from the frozen model''),
      (wcr_observed_parameters_sha256 w \<noteq> smc_parameters_sha256 c,
        ValueError ''cached condition parameters differ from the frozen plan''),
      ((wcr_checkpoint_identifier w, wcr_checkpoint_sha256 w) \<noteq> (smc_checkpoint_identifier c, smc_checkpoint_sha256 c),
        ValueError ''cached condition checkpoint identity differs from the plan'')]"

definition load_worker_archive ::
  "smoke_params \<Rightarrow> string \<Rightarrow> smoke_condition \<Rightarrow> smoke_plan \<Rightarrow> cache_identity
   \<Rightarrow> (worker_condition_result \<times> condition_resource \<times> prediction_file list) result" where
  "load_worker_archive S payload c plan i = bindr (skp_archive S payload) (\<lambda>entries.
     if set (map fst entries) \<noteq> archive_names
     then Inl (ValueError ''cached smoke condition archive is incomplete or contains extra files'')
     else bindr (read_entry entries METADATA_ENTRY) (\<lambda>text.
     bindr (bindr (skp_metadata S text) validate_worker_result) (\<lambda>w.
     bindr (guards (metadata_guards S c plan w) ()) (\<lambda>_.
     bindr (validate_condition_resource (condition_resource_of (skp_pilot S) (wcr_adapter_resource w))) (\<lambda>resource.
     bindr (mapr (load_output S entries c plan (cache_key (skp_sha S) i)) (wcr_outputs w)) (\<lambda>files.
     Inr (w, resource, files)))))))"

end
