(* ===== verification/Smoke_Run.thy ===== *)
theory Smoke_Run
  imports Smoke_Archive
begin

text \<open>
  \<open>run_conditions\<close> of \<open>src/schemaguard/experiments/execution.py\<close>: one scheduler pass over the ten
  conditions, whose cached archives are validated and copied to the prediction files. The scheduler
  is the model of \<open>Scheduler\<close> with the subclass's GPU step, which leaves the GPU lock to the adapter
  inside the worker. The project's prediction files are an association list from their
  repository-relative path to their bytes; the identifier of a quarantined file is an argument.
\<close>

section \<open>The scheduler of the smoke experiment\<close>

text \<open>\<open>_AdapterOwnedGpuScheduler._run_gpu_task\<close>.\<close>

definition adapter_gpu_task :: "sched_env \<Rightarrow> task_spec \<Rightarrow> completion step" where
  "adapter_gpu_task E t = execute_locked E True t"

fun adapter_gpu_tasks :: "sched_env \<Rightarrow> task_spec list \<Rightarrow> unit step" where
  "adapter_gpu_tasks E [] = ret ()"
| "adapter_gpu_tasks E (t # ts) = bind_step (adapter_gpu_task E t) (\<lambda>c.
     bind_step (collect_gpu E t c) (\<lambda>_. adapter_gpu_tasks E ts))"

definition adapter_execute :: "sched_env \<Rightarrow> task_spec list \<Rightarrow> unit step" where
  "adapter_execute E queued =
     (let cpu = filter (\<lambda>t. \<not> runs_on_gpu t) queued; gpu = filter runs_on_gpu queued in
      bind_step (run_pool E (take (pool_size E) cpu) [] (drop (pool_size E) cpu)) (\<lambda>_. adapter_gpu_tasks E gpu))"

definition adapter_run :: "sched_env \<Rightarrow> bool \<Rightarrow> run_manifest step" where
  "adapter_run E resume =
     bind_step (start_run E) (\<lambda>_.
     bind_step (admit_all E False (rp_tasks (sp_plan (se_store E)))) (\<lambda>queued.
     bind_step (adapter_execute E queued) (\<lambda>_.
     bind_step (final_report E) (\<lambda>_.
     (\<lambda>w. (w, validate_run_manifest (manifest_of E resume w)))))))"

section \<open>The policy check\<close>

record execution_config =
  exc_minimum_gpu_headroom_mib :: int
  exc_maximum_vram_mib :: int
  exc_maximum_ram_mib :: int
  exc_cpu_timeout_seconds :: int
  exc_cuda_timeout_seconds :: int

definition resource_policy_differs :: "scheduler_config \<Rightarrow> execution_config \<Rightarrow> bool" where
  "resource_policy_differs s c \<longleftrightarrow> sc_cpu_workers s \<noteq> 2 \<or> sc_gpu_workers s \<noteq> 1
     \<or> sc_ram_hard_limit_mib s \<noteq> exc_maximum_ram_mib c \<or> sc_vram_soft_limit_mib s \<noteq> exc_maximum_vram_mib c
     \<or> sc_gpu_headroom_mib s < exc_minimum_gpu_headroom_mib c"

section \<open>Failures\<close>

text \<open>\<open>_reported_failure_category\<close>: the category the reason begins with, when it has one.\<close>

definition is_category :: "string \<Rightarrow> bool" where
  "is_category s \<longleftrightarrow> starts_with ''BLOCKED_'' s \<or> starts_with ''FAIL_'' s"

definition reported_failure_category :: "string option \<Rightarrow> string \<Rightarrow> string option" where
  "reported_failure_category fallback reason =
     (let candidate = takeWhile (\<lambda>c. c \<noteq> CHR '':'') reason in
      if reason \<noteq> [] \<and> is_category candidate then Some candidate else fallback)"

text \<open>\<open>_worker_error_text\<close>, for the text of the category attribute, if the exception has one, and the name and text of the exception.\<close>

definition worker_error_text :: "string option \<Rightarrow> string \<Rightarrow> string \<Rightarrow> string" where
  "worker_error_text category type_name message = (let text = type_name @ '': '' @ message in
     case category of None \<Rightarrow> text | Some c \<Rightarrow> if is_category c then c @ '': '' @ text else text)"

definition or_default :: "string option \<Rightarrow> string \<Rightarrow> string" where
  "or_default t d = (case t of None \<Rightarrow> d | Some s \<Rightarrow> if s = [] then d else s)"

definition find_failure :: "run_manifest \<Rightarrow> string \<Rightarrow> failure_record option" where
  "find_failure m task_id = by_key fl_task_id (rm_failures m) task_id"

definition failed_run ::
  "smoke_condition \<Rightarrow> string \<Rightarrow> failure_record option \<Rightarrow> task_record \<Rightarrow> condition_run result" where
  "failed_run c cache_sha failure entry =
     (let category = (case failure of Some f \<Rightarrow> Some (category_text (fl_category f))
            | None \<Rightarrow> map_option category_text (st_failure_category entry));
          reason = or_default (case failure of Some f \<Rightarrow> Some (fl_reason f) | None \<Rightarrow> st_failure_reason entry)
            ''scheduler condition did not complete'';
          reported = reported_failure_category category reason in
      validate_condition_run \<lparr>crn_condition_id = smc_condition_id c, crn_cache_identity_sha256 = cache_sha,
        crn_model_id = smc_model_id c, crn_view_id = smc_view_id c, crn_device = smc_device c,
        crn_status = (case reported of Some r \<Rightarrow> if starts_with ''BLOCKED'' r then ''BLOCKED'' else ''FAIL'' | None \<Rightarrow> ''FAIL''),
        crn_cache_status = ''not_published'', crn_resource = None, crn_prediction_files = [],
        crn_failure_category = Some (or_default reported ''FAIL_MODEL_RUNTIME''), crn_failure_reason = Some reason,
        crn_traceback_relative_path = (case failure of Some f \<Rightarrow> fl_traceback_relative_path f | None \<Rightarrow> None)\<rparr>)"

section \<open>Prediction files\<close>

record run_env =
  sre_params :: smoke_params
  sre_sched :: sched_env
  sre_invalid_name :: "string \<Rightarrow> string \<Rightarrow> string"

text \<open>A file with the expected digest stays; another one is moved aside and replaced.\<close>

definition materialize_output ::
  "run_env \<Rightarrow> smoke_condition \<Rightarrow> (string \<times> string) list \<Rightarrow> output_summary \<Rightarrow> (string \<times> string) list
   \<Rightarrow> (string \<times> string) list result" where
  "materialize_output R c entries out files =
     (let target = prediction_path c (osm_partition out); sha = skp_sha (sre_params R) in
      bindr (read_entry entries (predictions_entry (osm_partition out))) (\<lambda>payload.
      case map_of files target of
        None \<Rightarrow> Inr (AList.update target payload files)
      | Some old \<Rightarrow> if sha old = osm_parquet_sha256 out then Inr files
          else Inr (AList.update target payload
            (AList.update (sre_invalid_name R target (sha old)) old (AList.delete target files)))))"

fun materialize ::
  "run_env \<Rightarrow> smoke_condition \<Rightarrow> (string \<times> string) list \<Rightarrow> output_summary list \<Rightarrow> (string \<times> string) list
   \<Rightarrow> (string \<times> string) list \<times> unit result" where
  "materialize R c entries [] files = (files, Inr ())"
| "materialize R c entries (out # outs) files =
     (case materialize_output R c entries out files of
        Inl e \<Rightarrow> (files, Inl e) | Inr files' \<Rightarrow> materialize R c entries outs files')"

section \<open>One condition\<close>

definition passed_run ::
  "smoke_condition \<Rightarrow> string \<Rightarrow> bool \<Rightarrow> condition_resource \<Rightarrow> prediction_file list \<Rightarrow> condition_run result" where
  "passed_run c cache_sha hit res predictions = validate_condition_run
     \<lparr>crn_condition_id = smc_condition_id c, crn_cache_identity_sha256 = cache_sha, crn_model_id = smc_model_id c,
      crn_view_id = smc_view_id c, crn_device = smc_device c, crn_status = ''PASS'',
      crn_cache_status = (if hit then ''validated_cache_hit'' else ''created''), crn_resource = Some res,
      crn_prediction_files = predictions, crn_failure_category = None, crn_failure_reason = None,
      crn_traceback_relative_path = None\<rparr>"

text \<open>The bytes of a cached payload, which the code reads twice; an absent artifact is an error.\<close>

definition completed_payload :: "run_env \<Rightarrow> smoke_condition \<Rightarrow> cache_identity \<Rightarrow> cache_fs \<Rightarrow> string result" where
  "completed_payload R c i cache = (let E = sre_sched R in
     bindr (read_validated (se_platform E) cache i) (\<lambda>r. case r of
       None \<Rightarrow> Inl (ValueError (''completed scheduler task lacks a valid cached artifact: '' @ smc_task_name c))
     | Some a \<Rightarrow> load_payload (se_platform E) cache i))"

definition completed_condition ::
  "run_env \<Rightarrow> smoke_plan \<Rightarrow> smoke_condition \<Rightarrow> cache_identity \<Rightarrow> bool \<Rightarrow> cache_fs \<Rightarrow> (string \<times> string) list
   \<Rightarrow> (string \<times> string) list \<times> (condition_run \<times> int) result" where
  "completed_condition R plan c i hit cache files = (let S = sre_params R in
     case bindr (completed_payload R c i cache) (\<lambda>payload.
          bindr (load_worker_archive S payload c plan i) (\<lambda>loaded.
          bindr (skp_archive S payload) (\<lambda>entries. Inr (loaded, entries)))) of
       Inl e \<Rightarrow> (files, Inl e)
     | Inr ((w, res, predictions), entries) \<Rightarrow>
         (case materialize R c entries (wcr_outputs w) files of
            (files', Inl e) \<Rightarrow> (files', Inl e)
          | (files', Inr _) \<Rightarrow> (files', bindr (passed_run c (cache_key (skp_sha S) i) hit res predictions)
              (\<lambda>r. Inr (r, wcr_network_attempt_count w)))))"

definition condition_outcome ::
  "run_env \<Rightarrow> smoke_plan \<Rightarrow> run_plan \<Rightarrow> scheduler_state \<Rightarrow> run_manifest \<Rightarrow> string list \<Rightarrow> cache_fs \<Rightarrow> smoke_condition
   \<Rightarrow> cache_identity \<Rightarrow> (string \<times> string) list \<Rightarrow> (string \<times> string) list \<times> (condition_run \<times> int) result" where
  "condition_outcome R plan rp st m hits cache c i files =
     (case bindr (of_option (KeyError (smc_task_name c)) (by_key ts_task_name (rp_tasks rp) (smc_task_name c))) (\<lambda>t.
          bindr (of_option (KeyError (ts_task_id t)) (map_of (ss_tasks st) (ts_task_id t))) (\<lambda>entry. Inr (t, entry))) of
       Inl e \<Rightarrow> (files, Inl e)
     | Inr (t, entry) \<Rightarrow>
         if st_state entry \<noteq> COMPLETE
         then (files, bindr (failed_run c (cache_key (skp_sha (sre_params R)) i) (find_failure m (ts_task_id t)) entry)
                (\<lambda>r. Inr (r, 0)))
         else completed_condition R plan c i (smc_condition_id c \<in> set hits) cache files)"

fun condition_outcomes ::
  "run_env \<Rightarrow> smoke_plan \<Rightarrow> run_plan \<Rightarrow> scheduler_state \<Rightarrow> run_manifest \<Rightarrow> string list \<Rightarrow> cache_fs
   \<Rightarrow> (string \<times> cache_identity) list \<Rightarrow> smoke_condition list \<Rightarrow> (string \<times> string) list
   \<Rightarrow> (string \<times> string) list \<times> (condition_run \<times> int) list result" where
  "condition_outcomes R plan rp st m hits cache identities [] files = (files, Inr [])"
| "condition_outcomes R plan rp st m hits cache identities (c # cs) files =
     (case map_of identities (smc_condition_id c) of
        None \<Rightarrow> (files, Inl (KeyError (smc_condition_id c)))
      | Some i \<Rightarrow>
        (case condition_outcome R plan rp st m hits cache c i files of
           (files', Inl e) \<Rightarrow> (files', Inl e)
         | (files', Inr r) \<Rightarrow>
           (case condition_outcomes R plan rp st m hits cache identities cs files' of
              (files'', rs) \<Rightarrow> (files'', bindr rs (\<lambda>rs. Inr (r # rs))))))"

section \<open>The whole run\<close>

text \<open>\<open>_load_scheduler_state\<close>: the state file, validated again.\<close>

definition load_scheduler_state :: "sched_env \<Rightarrow> state_file \<Rightarrow> scheduler_state result" where
  "load_scheduler_state E f = (case f of
     NoState \<Rightarrow> Inl (OSError ''No such file or directory'')
   | BadState \<Rightarrow> Inl (ValueError ''invalid scheduler state'')
   | State st \<Rightarrow> validate_state (sp_sha (se_store E)) (sp_frepr (se_store E)) st)"

text \<open>The conditions whose artifact can be read before a resumed run.\<close>

definition preexisting_hit :: "run_env \<Rightarrow> cache_fs \<Rightarrow> (string \<times> cache_identity) list \<Rightarrow> smoke_condition \<Rightarrow> string list result" where
  "preexisting_hit R cache identities c =
     bindr (of_option (KeyError (smc_condition_id c)) (map_of identities (smc_condition_id c))) (\<lambda>i.
     case read_validated (se_platform (sre_sched R)) cache i of
       Inr (Some a) \<Rightarrow> Inr [smc_condition_id c]
     | Inr None \<Rightarrow> Inr []
     | Inl e \<Rightarrow> if is_integrity_error e then Inr [] else Inl e)"

definition preexisting_hits ::
  "run_env \<Rightarrow> smoke_plan \<Rightarrow> (string \<times> cache_identity) list \<Rightarrow> bool \<Rightarrow> cache_fs \<Rightarrow> string list result" where
  "preexisting_hits R plan identities resume cache = (if \<not> resume then Inr []
     else bindr (mapr (preexisting_hit R cache identities) (smp_conditions plan)) (\<lambda>hs. Inr (concat hs)))"

text \<open>The scheduler environment of a plan: its store keeps the plan and its tasks.\<close>

definition env_for :: "sched_env \<Rightarrow> smoke_plan \<Rightarrow> run_plan \<Rightarrow> scheduler_config \<Rightarrow> sched_env" where
  "env_for E plan rp config = E\<lparr>se_store := (se_store E)\<lparr>sp_plan := rp\<rparr>, se_config := config,
     se_source_commit := smp_source_commit plan\<rparr>"

definition run_conditions ::
  "run_env \<Rightarrow> smoke_plan \<Rightarrow> scheduler_config \<Rightarrow> execution_config \<Rightarrow> bool \<Rightarrow> sched \<Rightarrow> (string \<times> string) list
   \<Rightarrow> sched \<times> (string \<times> string) list \<times> (condition_run list \<times> run_manifest \<times> int) result" where
  "run_conditions R plan scheduler_config execution resume w files =
     (let P = skp_pilot (sre_params R) in
      case bindr (validate_config scheduler_config) (\<lambda>config.
           if resource_policy_differs config execution
           then Inl (ValueError ''smoke resource policy differs from the accepted scheduler policy'')
           else bindr (smoke_scheduler_plan P plan) (\<lambda>(rp, identities).
                bindr (preexisting_hits R plan identities resume (sw_cache w)) (\<lambda>hits. Inr (config, rp, identities, hits)))) of
        Inl e \<Rightarrow> (w, files, Inl e)
      | Inr (config, rp, identities, hits) \<Rightarrow>
          (let E = env_for (sre_sched R) plan rp config in
           case adapter_run E resume w of
             (w', Inl e) \<Rightarrow> (w', files, Inl e)
           | (w', Inr m) \<Rightarrow>
             (case load_scheduler_state E (sw_state w') of
                Inl e \<Rightarrow> (w', files, Inl e)
              | Inr st \<Rightarrow>
                if resume \<and> card (set hits) > rm_validated_cache_hits m
                then (w', files, Inl (ValueError ''resume scheduler report accounts for fewer hits than validated cache inputs''))
                else (case condition_outcomes R plan rp st m hits (sw_cache w') identities (smp_conditions plan) files of
                   (files', Inl e) \<Rightarrow> (w', files', Inl e)
                 | (files', Inr rs) \<Rightarrow> (w', files', Inr (map fst rs, m,
                     max (sum_list (map snd rs)) (rm_offline_network_attempt_count m)))))))"

end
