(* ===== verification/Smoke_Evaluation.thy ===== *)
theory Smoke_Evaluation
  imports Smoke_Archive
begin

text \<open>
  \<open>src/schemaguard/experiments/evaluation.py\<close>: the metrics of completed smoke predictions. The
  project's files are an association list from repository-relative path to bytes. The metrics of
  scikit-learn, the base-two logarithm, \<open>linspace\<close>, the order statistics of numpy, the order in
  which an outer join lists its keys and the validator of the transformed view are arguments.
\<close>

section \<open>Parameters\<close>

type_synonym files = "(string \<times> string) list"

record eval_params =
  evp_smoke :: smoke_params
  evp_targets :: "string \<Rightarrow> (cell \<times> int) list result"
  evp_views_valid :: "files \<Rightarrow> unit result"
  evp_linspace :: "nat \<Rightarrow> nat \<Rightarrow> py_float"
  evp_log2 :: "py_float \<Rightarrow> py_float"
  evp_log_loss :: "int list \<Rightarrow> py_float list list \<Rightarrow> py_float result"
  evp_roc_auc :: "int list \<Rightarrow> py_float list \<Rightarrow> py_float result"
  evp_accuracy :: "int list \<Rightarrow> int list \<Rightarrow> py_float"
  evp_balanced_accuracy :: "int list \<Rightarrow> int list \<Rightarrow> py_float"
  evp_median :: "py_float list \<Rightarrow> py_float"
  evp_quantile90 :: "py_float list \<Rightarrow> py_float"
  evp_join_order :: "cell list \<Rightarrow> cell list"
  evp_metric_bytes :: "smoke_metric list \<Rightarrow> string"
  evp_paired_bytes :: "paired_record list \<Rightarrow> string"

definition evp_fl :: "eval_params \<Rightarrow> rat \<Rightarrow> py_float" where
  "evp_fl V = pp_fl (skp_pilot (evp_smoke V))"

definition evp_mean :: "eval_params \<Rightarrow> py_float list \<Rightarrow> py_float" where
  "evp_mean V = mtp_mean (skp_metric (evp_smoke V))"

section \<open>The prediction files\<close>

definition intact_file :: "smoke_params \<Rightarrow> files \<Rightarrow> string \<Rightarrow> string \<Rightarrow> bool" where
  "intact_file S fs path digest \<longleftrightarrow> (case map_of fs path of None \<Rightarrow> False | Some bs \<Rightarrow> skp_sha S bs = digest)"

definition expected_prediction_paths :: "smoke_params \<Rightarrow> files \<Rightarrow> condition_run list \<Rightarrow> string list result" where
  "expected_prediction_paths S fs runs =
     (let records = concat (map crn_prediction_files runs) in guards
      [(card (set (map crn_condition_id runs)) \<noteq> 10, ValueError ''evaluation requires ten unique condition records''),
       (list_ex (\<lambda>r. crn_status r \<noteq> ''PASS'') runs, ValueError ''evaluation is prohibited until every smoke condition passes''),
       (length records \<noteq> 20 \<or> card (set (map pfr_relative_path records)) \<noteq> 20,
         ValueError ''all ten conditions and both partitions must pass before evaluation''),
       (list_ex (\<lambda>f. \<not> intact_file S fs (pfr_relative_path f) (pfr_sha256 f)) records,
         ValueError ''prediction artifact is missing or changed'')] (map pfr_relative_path records))"

section \<open>Calibration error\<close>

definition max_of :: "py_float list \<Rightarrow> py_float" where
  "max_of r = r ! arg_max r"

text \<open>The last bin is closed at its upper edge.\<close>

definition in_bin :: "(nat \<Rightarrow> py_float) \<Rightarrow> nat \<Rightarrow> nat \<Rightarrow> py_float \<Rightarrow> bool" where
  "in_bin edges bins i x \<longleftrightarrow> edges i \<le> x \<and> (if Suc i = bins then x \<le> edges (Suc i) else x < edges (Suc i))"

definition bin_error :: "eval_params \<Rightarrow> nat \<Rightarrow> nat \<Rightarrow> (py_float \<times> py_float) list \<Rightarrow> nat \<Rightarrow> py_float \<Rightarrow> py_float" where
  "bin_error V bins n cases i err = (let fl = evp_fl V;
       members = filter (\<lambda>(conf, correct). in_bin (evp_linspace V bins) bins i conf) cases in
     if members = [] then err
     else fl (err + fl (fl (of_nat (length members) / of_nat n)
            * \<bar>fl (evp_mean V (map snd members) - evp_mean V (map fst members))\<bar>)))"

definition ece :: "eval_params \<Rightarrow> int list \<Rightarrow> py_float list list \<Rightarrow> nat \<Rightarrow> py_float" where
  "ece V y m bins = (let cases = map2 (\<lambda>t r. (max_of r, if int (arg_max r) = t then 1 else 0)) y m in
     fold (bin_error V bins (length y) cases) [0..<bins] 0)"

section \<open>The metrics of one table\<close>

definition first_text :: "frame \<Rightarrow> string \<Rightarrow> string result" where
  "first_text X name = (case table_cells X name of
     [] \<Rightarrow> Inl (IndexError ''single positional indexer is out-of-bounds'')
   | CStr s # _ \<Rightarrow> Inr s | _ \<Rightarrow> Inl (ValueError name))"

definition device_of_text :: "string \<Rightarrow> device_policy result" where
  "device_of_text s = (if s = ''cpu'' then Inr Cpu else if s = ''cuda'' then Inr Cuda else Inl (ValueError ''device''))"

text \<open>\<open>np.clip\<close>, then every row divided by its sum.\<close>

definition clipped_rows :: "eval_params \<Rightarrow> py_float \<Rightarrow> py_float list list \<Rightarrow> py_float list list" where
  "clipped_rows V eps m = map (\<lambda>r. let c = map (\<lambda>x. min (max x eps) (evp_fl V (1 - eps))) r;
       s = mtp_rowsum (skp_metric (evp_smoke V)) c in map (\<lambda>x. evp_fl V (x / s)) c) m"

text \<open>\<open>np.eye(2)[y]\<close>: an index counts from the end when it is negative.\<close>

definition class_index :: "int \<Rightarrow> nat result" where
  "class_index y = (if y < -2 \<or> 1 < y then Inl (IndexError ''index out of bounds for axis 0 with size 2'') else Inr (nat (y mod 2)))"

definition prediction_matrix :: "eval_params \<Rightarrow> frame \<Rightarrow> py_float \<Rightarrow> nat \<Rightarrow> py_float list list result" where
  "prediction_matrix V X tol n = bindr (probability_rows (evp_smoke V) X) (\<lambda>rows.
     if n = 0 then Inl (ValueError ''smoke metrics cannot be computed from an empty partition'')
     else if length rows \<noteq> n then Inl (ValueError ''smoke output probability matrix has the wrong shape'')
     else case unit_matrix rows of None \<Rightarrow> Inl (ValueError ''smoke output contains invalid probabilities'')
     | Some m \<Rightarrow> if off_simplex (evp_smoke V) tol m
         then Inl (ValueError ''smoke output probability rows exceed the simplex tolerance'') else Inr m)"

definition auc_of :: "eval_params \<Rightarrow> int list \<Rightarrow> py_float list list \<Rightarrow> py_float option result" where
  "auc_of V y m = (if card (set y) = 2 then bindr (evp_roc_auc V y (map (\<lambda>r. r ! 1) m)) (\<lambda>a. Inr (Some a)) else Inr None)"

definition metrics_for ::
  "eval_params \<Rightarrow> smoke_plan \<Rightarrow> frame \<Rightarrow> int list \<Rightarrow> string \<Rightarrow> smoke_metric result" where
  "metrics_for V plan X y prediction_sha =
     bindr (prediction_matrix V X (smp_probability_sum_tolerance plan) (length y)) (\<lambda>m.
     bindr (skp_int64 (evp_smoke V) (table_cells X ''predicted_class'')) (\<lambda>classes.
     if classes \<noteq> map (\<lambda>r. int (arg_max r)) m
     then Inl (ValueError ''persisted predicted class differs from canonical probability argmax'')
     else bindr (mapr class_index y) (\<lambda>idx.
     bindr (evp_log_loss V y (clipped_rows V (smp_log_loss_epsilon plan) m)) (\<lambda>loss.
     bindr (auc_of V y m) (\<lambda>auc.
     bindr (first_text X ''model_id'') (\<lambda>model. bindr (first_text X ''view_id'') (\<lambda>view.
     bindr (bindr (first_text X ''device'') device_of_text) (\<lambda>device. bindr (first_text X ''partition'') (\<lambda>part.
     validate_smoke_metric \<lparr>mrc_model_id = model, mrc_view_id = view, mrc_device = device, mrc_partition = part,
       mrc_row_count = int (length y),
       mrc_brier_score = evp_mean V (map2 (row_brier (skp_metric (evp_smoke V))) idx m), mrc_log_loss = loss,
       mrc_accuracy = evp_accuracy V y classes, mrc_balanced_accuracy = evp_balanced_accuracy V y classes,
       mrc_roc_auc = auc, mrc_roc_auc_status = (if auc = None then ''undefined_single_class'' else ''defined''),
       mrc_expected_calibration_error = ece V y m (nat (smp_ece_bins plan)),
       mrc_prediction_sha256 = prediction_sha, mrc_target_artifact_sha256 = smp_target_artifact_sha256 plan\<rparr>)))))))))"

section \<open>Pairs of views\<close>

text \<open>\<open>_js_divergences\<close> of one pair of rows; a term of a probability that is not positive is zero.\<close>

definition js_terms :: "eval_params \<Rightarrow> py_float list \<Rightarrow> py_float list \<Rightarrow> py_float list" where
  "js_terms V xs mid = map2 (\<lambda>x m. if 0 < x then evp_fl V (x * evp_log2 V (evp_fl V (x / m))) else 0) xs mid"

definition js_divergence :: "eval_params \<Rightarrow> py_float list \<Rightarrow> py_float list \<Rightarrow> py_float" where
  "js_divergence V l r = (let fl = evp_fl V; rowsum = mtp_rowsum (skp_metric (evp_smoke V));
       mid = map2 (\<lambda>a b. fl (fl (a + b) / 2)) l r in
     fl (fl (rowsum (js_terms V l mid) / 2) + fl (rowsum (js_terms V r mid) / 2)))"

definition metric_value :: "string \<Rightarrow> smoke_metric \<Rightarrow> py_float option" where
  "metric_value name m = (if name = ''brier_score'' then Some (mrc_brier_score m) else if name = ''log_loss'' then Some (mrc_log_loss m)
     else if name = ''accuracy'' then Some (mrc_accuracy m) else if name = ''balanced_accuracy'' then Some (mrc_balanced_accuracy m)
     else if name = ''roc_auc'' then mrc_roc_auc m else Some (mrc_expected_calibration_error m))"

definition metric_delta :: "eval_params \<Rightarrow> smoke_metric \<Rightarrow> smoke_metric \<Rightarrow> string \<Rightarrow> string \<times> py_float option" where
  "metric_delta V a b name = (name, case (metric_value name a, metric_value name b) of
     (Some x, Some y) \<Rightarrow> Some (evp_fl V (y - x)) | _ \<Rightarrow> None)"

record keyed_table =
  ktb_frame :: frame
  ktb_sha256 :: string

text \<open>The rows of a table by row identifier: its probabilities and predicted classes.\<close>

definition table_rows :: "eval_params \<Rightarrow> frame \<Rightarrow> (cell \<times> py_float list \<times> int) list result" where
  "table_rows V X = bindr (probability_rows (evp_smoke V) X) (\<lambda>rows.
     case unit_matrix rows of None \<Rightarrow> Inl (ValueError ''smoke output contains invalid probabilities'')
     | Some m \<Rightarrow> bindr (skp_int64 (evp_smoke V) (table_cells X ''predicted_class'')) (\<lambda>classes.
         Inr (zip (table_cells X ''row_id'') (zip m classes))))"

definition paired_for ::
  "eval_params \<Rightarrow> string \<Rightarrow> string \<Rightarrow> keyed_table \<Rightarrow> keyed_table \<Rightarrow> smoke_metric \<Rightarrow> smoke_metric \<Rightarrow> paired_record result" where
  "paired_for V model part left right m0 m1 =
     bindr (table_rows V (ktb_frame left)) (\<lambda>l. bindr (table_rows V (ktb_frame right)) (\<lambda>r.
     let lids = map fst l; rids = map fst r in
     if \<not> distinct lids \<or> \<not> distinct rids then Inl (ValueError ''Merge keys are not unique'')
     else if set lids \<noteq> set rids then Inl (ValueError ''cross-view prediction row alignment is incomplete'')
     else let order = evp_join_order V lids;
         pick = \<lambda>d. map (\<lambda>i. the (map_of d i)) order;
         lp = map fst (pick l); rp = map fst (pick r); n = length order;
         sii = map2 (js_divergence V) lp rp;
         diffs = map2 (\<lambda>a b. \<bar>evp_fl V (a - b)\<bar>) (concat lp) (concat rp);
         flips = length (filter (\<lambda>(a, b). a \<noteq> b) (zip (map snd (pick l)) (map snd (pick r)))) in
     validate_paired_record \<lparr>prc_model_id = model, prc_device = smoke_device model, prc_partition = part, prc_row_count = int n,
       prc_sii_mean = evp_mean V sii, prc_sii_median = evp_median V sii, prc_sii_p90 = evp_quantile90 V sii,
       prc_sii_max = Max (set sii), prc_label_flip_rate = evp_fl V (of_nat flips / of_nat n),
       prc_maximum_difference = Max (set diffs), prc_mean_difference = evp_mean V diffs,
       prc_metric_deltas = map (metric_delta V m0 m1) METRIC_NAMES,
       prc_v00_prediction_sha256 = ktb_sha256 left, prc_v01_prediction_sha256 = ktb_sha256 right\<rparr>))"

section \<open>The evaluation\<close>

definition TARGETS_PATH :: string where "TARGETS_PATH = ''data/processed/openml/1464/targets.parquet''"

definition keyed_table_of ::
  "eval_params \<Rightarrow> smoke_plan \<Rightarrow> files \<Rightarrow> string \<Rightarrow> ((string \<times> string \<times> string) \<times> keyed_table) result" where
  "keyed_table_of V plan fs path = (let S = evp_smoke V in
     bindr (of_option (OSError path) (map_of fs path)) (\<lambda>bs. bindr (skp_parquet S bs) (\<lambda>X.
     if row_count X = 0 \<or> \<not> distinct (table_cells X ''row_id'')
     then Inl (ValueError (''prediction table is empty or duplicates row IDs: '' @ path))
     else bindr (first_text X ''condition_id'') (\<lambda>cid.
     bindr (of_option (RuntimeError ''StopIteration'') (find (\<lambda>c. smc_condition_id c = cid) (smp_conditions plan))) (\<lambda>c.
     bindr (first_text X ''partition'') (\<lambda>part.
     if part \<notin> set PREDICTION_PARTITIONS then Inl (ValueError ''prediction output has an unknown evaluation partition'')
     else bindr (find_view plan (smc_view_id c)) (\<lambda>view.
     bindr (partition_entry (smv_partition_rows view) part) (\<lambda>n.
     if int (row_count X) \<noteq> n then Inl (ValueError ''prediction output row count differs from the planned partition'')
     else bindr (row_id_sha256 S X) (\<lambda>ids. bindr (partition_entry (smv_partition_row_id view) part) (\<lambda>planned.
     guards [(ids \<noteq> planned, ValueError ''prediction output row IDs differ from the planned partition''),
       (\<not> all_equal X ''model_id'' (CStr (smc_model_id c)) \<or> \<not> all_equal X ''view_id'' (CStr (smc_view_id c)),
         ValueError ''prediction output does not match its frozen condition identity''),
       (\<not> all_equal X ''target_artifact_sha256'' (CStr (smp_target_artifact_sha256 plan)),
         ValueError ''prediction table is not bound to the planned target artifact'')]
       ((smc_model_id c, smc_view_id c, part), \<lparr>ktb_frame = X, ktb_sha256 = skp_sha S bs\<rparr>)))))))))))"

fun keyed_tables ::
  "eval_params \<Rightarrow> smoke_plan \<Rightarrow> files \<Rightarrow> string list \<Rightarrow> ((string \<times> string \<times> string) \<times> keyed_table) list
   \<Rightarrow> ((string \<times> string \<times> string) \<times> keyed_table) list result" where
  "keyed_tables V plan fs [] d = Inr d"
| "keyed_tables V plan fs (p # ps) d = bindr (keyed_table_of V plan fs p) (\<lambda>(k, t).
     if k \<in> set (map fst d) then Inl (ValueError ''duplicate prediction output'')
     else keyed_tables V plan fs ps (d @ [(k, t)]))"

text \<open>\<open>target_by_id.loc[ids]\<close>: every row with the identifier, in the order of the identifiers.\<close>

definition target_label_codes :: "(cell \<times> int) list \<Rightarrow> cell list \<Rightarrow> int list result" where
  "target_label_codes targets ids = (if list_ex (\<lambda>i. i \<notin> set (map fst targets)) ids
     then Inl (ValueError ''prediction output references an unknown target row ID'')
     else Inr (concat (map (\<lambda>i. map snd (filter (\<lambda>t. fst t = i) targets)) ids)))"

definition table_metrics ::
  "eval_params \<Rightarrow> smoke_plan \<Rightarrow> (cell \<times> int) list \<Rightarrow> ((string \<times> string \<times> string) \<times> keyed_table) list
   \<Rightarrow> smoke_condition \<times> string \<Rightarrow> smoke_metric result" where
  "table_metrics V plan targets tables = (\<lambda>(c, part).
     bindr (of_option (KeyError part) (map_of tables (smc_model_id c, smc_view_id c, part))) (\<lambda>t.
     bindr (target_label_codes targets (table_cells (ktb_frame t) ''row_id'')) (\<lambda>y.
     metrics_for V plan (ktb_frame t) y (ktb_sha256 t))))"

definition metric_key :: "smoke_metric \<Rightarrow> string \<times> string \<times> string" where
  "metric_key m = (mrc_model_id m, mrc_view_id m, mrc_partition m)"

definition model_pair ::
  "eval_params \<Rightarrow> ((string \<times> string \<times> string) \<times> keyed_table) list \<Rightarrow> smoke_metric list
   \<Rightarrow> string \<times> string \<Rightarrow> paired_record result" where
  "model_pair V tables metrics = (\<lambda>(model, part).
     bindr (of_option (KeyError model) (map_of tables (model, ''V00'', part))) (\<lambda>left.
     bindr (of_option (KeyError model) (map_of tables (model, ''V01'', part))) (\<lambda>right.
     bindr (of_option (KeyError model) (by_key metric_key metrics (model, ''V00'', part))) (\<lambda>m0.
     bindr (of_option (KeyError model) (by_key metric_key metrics (model, ''V01'', part))) (\<lambda>m1.
     paired_for V model part left right m0 m1)))))"

definition evaluate_tables ::
  "eval_params \<Rightarrow> smoke_plan \<Rightarrow> (cell \<times> int) list \<Rightarrow> ((string \<times> string \<times> string) \<times> keyed_table) list
   \<Rightarrow> (smoke_metric list \<times> paired_record list) result" where
  "evaluate_tables V plan targets tables =
     bindr (mapr (table_metrics V plan targets tables) (List.product (smp_conditions plan) PREDICTION_PARTITIONS)) (\<lambda>metrics.
     bindr (mapr (model_pair V tables metrics) (List.product SMOKE_MODEL_ORDER PREDICTION_PARTITIONS)) (\<lambda>pairs.
     Inr (metrics, pairs)))"

definition evaluate_smoke ::
  "eval_params \<Rightarrow> smoke_plan \<Rightarrow> condition_run list \<Rightarrow> files \<Rightarrow> string option
   \<Rightarrow> (smoke_metric list \<times> paired_record list \<times> string \<times> string) result" where
  "evaluate_smoke V plan runs fs target_file =
     bindr (expected_prediction_paths (evp_smoke V) fs runs) (\<lambda>paths.
     bindr (evp_views_valid V fs) (\<lambda>_.
     bindr (of_option (OSError TARGETS_PATH) target_file) (\<lambda>bs.
     bindr (evp_targets V bs) (\<lambda>targets.
     if skp_sha (evp_smoke V) bs \<noteq> smp_target_artifact_sha256 plan
     then Inl (ValueError ''target artifact changed between planning and final evaluation'')
     else bindr (keyed_tables V plan fs paths []) (\<lambda>tables.
     bindr (evaluate_tables V plan targets tables) (\<lambda>(metrics, pairs).
     Inr (metrics, pairs, skp_sha (evp_smoke V) (evp_metric_bytes V metrics),
       skp_sha (evp_smoke V) (evp_paired_bytes V pairs))))))))"

end
