(* ===== verification/Smoke_Run_Facts.thy ===== *)
theory Smoke_Run_Facts
  imports Smoke_Run Smoke_Evaluation Cache_Facts Frame_Facts
begin

text \<open>
  What \<open>run_conditions\<close> leaves behind: one valid record per condition, in the order of the plan, and
  for every recorded prediction file the bytes with the recorded digest. The paths of different
  conditions and partitions differ, so later conditions do not touch the files of earlier ones.
\<close>

section \<open>Paths\<close>

definition smoke_paths :: "string list" where
  "smoke_paths = [''results/smoke/predictions/'' @ smoke_task_name model view @ ''_'' @ part @ ''.parquet''.
     (model, view) \<leftarrow> expected_pairs, part \<leftarrow> PREDICTION_PARTITIONS]"

lemma distinct_smoke_paths: "distinct smoke_paths"
  by (simp add: smoke_paths_def expected_pairs_def SMOKE_MODEL_ORDER_def SMOKE_VIEW_ORDER_def smoke_task_name_def PREDICTION_PARTITIONS_def)

definition named_pairs :: "smoke_condition list \<Rightarrow> bool" where
  "named_pairs cs \<longleftrightarrow> list_all (\<lambda>c. smc_task_name c = smoke_task_name (smc_model_id c) (smc_view_id c)) cs"

definition paths_of :: "smoke_condition \<Rightarrow> string list" where
  "paths_of c = map (prediction_path c) PREDICTION_PARTITIONS"

lemma paths_of_named:
  "smc_task_name c = smoke_task_name (smc_model_id c) (smc_view_id c) \<Longrightarrow>
   paths_of c = map (\<lambda>part. ''results/smoke/predictions/'' @ smoke_task_name (smc_model_id c) (smc_view_id c) @ ''_'' @ part @ ''.parquet'')
     PREDICTION_PARTITIONS"
  by (simp add: paths_of_def prediction_path_def)

lemma concat_paths:
  assumes "named_pairs cs" and "map (\<lambda>c. (smc_model_id c, smc_view_id c)) cs = expected_pairs"
  shows "concat (map paths_of cs) = smoke_paths"
proof -
  have "map paths_of cs = map (\<lambda>(model, view). map (\<lambda>part. ''results/smoke/predictions/'' @ smoke_task_name model view @ ''_''
      @ part @ ''.parquet'') PREDICTION_PARTITIONS) (map (\<lambda>c. (smc_model_id c, smc_view_id c)) cs)"
    using assms(1) by (simp add: named_pairs_def list_all_iff paths_of_named)
  then show ?thesis by (simp add: assms(2) smoke_paths_def)
qed

section \<open>Accepted plans\<close>

lemma mapr_member: "mapr f xs = Inr ys \<Longrightarrow> x \<in> set xs \<Longrightarrow> \<exists>y \<in> set ys. f x = Inr y"
  by (induction xs arbitrary: ys) (auto simp: bindr_Inr_iff)

lemma mapr_result_member: "mapr f xs = Inr ys \<Longrightarrow> y \<in> set ys \<Longrightarrow> \<exists>x \<in> set xs. f x = Inr y"
  by (induction xs arbitrary: ys) (auto simp: bindr_Inr_iff)

lemma validate_all_member: "validate_all f xs = Inr u \<Longrightarrow> x \<in> set xs \<Longrightarrow> \<exists>y. f x = Inr y"
  by (simp add: validate_all_Inr)

lemma smoke_plan_guards:
  assumes "validate_smoke_plan P plan = Inr plan'"
  shows "plan' = plan" and "\<forall>g \<in> set (plan_matrix_guards plan). \<not> fst g" and "\<forall>g \<in> set (plan_field_guards P plan). \<not> fst g"
    and "\<And>c. c \<in> set (smp_conditions plan) \<Longrightarrow> validate_smoke_condition P c = Inr c"
    and "\<And>v. v \<in> set (smp_views plan) \<Longrightarrow> validate_smoke_view v = Inr v"
proof -
  from assms have c: "validate_all (validate_smoke_condition P) (smp_conditions plan) = Inr ()"
    and v: "validate_all validate_smoke_view (smp_views plan) = Inr ()"
    and g: "guards (plan_field_guards P plan @ plan_matrix_guards plan) plan = Inr plan'"
    by (auto simp: validate_smoke_plan_def bindr_Inr_iff)
  from g show "plan' = plan" "\<forall>g \<in> set (plan_matrix_guards plan). \<not> fst g" "\<forall>g \<in> set (plan_field_guards P plan). \<not> fst g"
    by (auto simp: guards_Inr_iff)
  show "validate_smoke_condition P c = Inr c" if "c \<in> set (smp_conditions plan)" for c
    using validate_all_member [OF c that] by (auto simp: validate_smoke_condition_def dest: guards_same)
  show "validate_smoke_view w = Inr w" if "w \<in> set (smp_views plan)" for w
    using validate_all_member [OF v that] by (auto simp: validate_smoke_view_def dest: guards_same)
qed

lemma accepted_plan:
  assumes "validate_smoke_plan P plan = Inr plan'"
  shows "map (\<lambda>c. (smc_model_id c, smc_view_id c)) (smp_conditions plan) = expected_pairs"
    and "map smv_view_id (smp_views plan) = SMOKE_VIEW_ORDER"
    and "length (smp_conditions plan) = 10" and "distinct (map smc_condition_id (smp_conditions plan))"
    and "named_pairs (smp_conditions plan)"
proof -
  note g = smoke_plan_guards [OF assms]
  show pairs: "map (\<lambda>c. (smc_model_id c, smc_view_id c)) (smp_conditions plan) = expected_pairs"
    and "map smv_view_id (smp_views plan) = SMOKE_VIEW_ORDER"
    using g(2) by (simp_all add: plan_matrix_guards_def)
  from pairs have "length (map (\<lambda>c. (smc_model_id c, smc_view_id c)) (smp_conditions plan)) = length expected_pairs" by simp
  also have "length expected_pairs = 10" by (simp add: expected_pairs_def SMOKE_MODEL_ORDER_def SMOKE_VIEW_ORDER_def)
  finally show len: "length (smp_conditions plan) = 10" by simp
  have "card (set (map smc_condition_id (smp_conditions plan))) = 10" using g(2) by (simp add: plan_matrix_guards_def)
  then have "card (set (map smc_condition_id (smp_conditions plan))) = length (map smc_condition_id (smp_conditions plan))"
    using len by simp
  then show "distinct (map smc_condition_id (smp_conditions plan))" by (rule card_distinct)
  show "named_pairs (smp_conditions plan)"
    using g(4) by (auto simp: named_pairs_def list_all_iff validate_smoke_condition_def guards_Inr_iff)
qed

section \<open>One condition\<close>

lemma load_output_fields:
  assumes "load_output S entries c plan cache_sha out = Inr f"
  shows "\<exists>payload X. read_entry entries (predictions_entry (osm_partition out)) = Inr payload \<and> skp_parquet S payload = Inr X
     \<and> skp_sha S payload = osm_parquet_sha256 out \<and> pfr_partition f = osm_partition out
     \<and> pfr_relative_path f = prediction_path c (osm_partition out) \<and> pfr_sha256 f = osm_parquet_sha256 out
     \<and> validate_prediction_file f = Inr f"
  using assms unfolding load_output_def validate_prediction_file_def
  by (auto simp: bindr_Inr_iff guards_Inr_iff)

lemma load_worker_archive_parts:
  assumes "load_worker_archive S payload c plan i = Inr (wr, res, fs)"
  obtains entries where "skp_archive S payload = Inr entries" and "validate_worker_result wr = Inr wr"
    and "mapr (load_output S entries c plan (cache_key (skp_sha S) i)) (wcr_outputs wr) = Inr fs"
    and "validate_condition_resource res = Inr res"
proof -
  have w: "validate_worker_result w' = Inr w'" if "validate_worker_result w = Inr w'" for w w'
    using that by (auto simp: validate_worker_result_def bindr_Inr_iff guards_Inr_iff)
  have r: "validate_condition_resource x = Inr y \<Longrightarrow> y = x" for x y
    by (auto simp: validate_condition_resource_def dest: guards_same)
  from assms obtain entries wr0 where e: "skp_archive S payload = Inr entries" "validate_worker_result wr0 = Inr wr"
      "validate_condition_resource (condition_resource_of (skp_pilot S) (wcr_adapter_resource wr)) = Inr res"
      "mapr (load_output S entries c plan (cache_key (skp_sha S) i)) (wcr_outputs wr) = Inr fs"
    unfolding load_worker_archive_def by (auto simp: bindr_Inr_iff split: if_splits)
  from r [OF e(3)] e(3) have "validate_condition_resource res = Inr res" by simp
  with e w [OF e(2)] show ?thesis by (intro that)
qed

lemma worker_outputs:
  assumes "validate_worker_result wr = Inr x"
  shows "length (wcr_outputs wr) = 2" and "set (map osm_partition (wcr_outputs wr)) = set PREDICTION_PARTITIONS"
    and "distinct (map osm_partition (wcr_outputs wr))"
proof -
  show len: "length (wcr_outputs wr) = 2" and s: "set (map osm_partition (wcr_outputs wr)) = set PREDICTION_PARTITIONS"
    using assms by (auto simp: validate_worker_result_def bindr_Inr_iff guards_Inr_iff)
  have "card (set (map osm_partition (wcr_outputs wr))) = length (map osm_partition (wcr_outputs wr))"
    unfolding s using len by (simp add: PREDICTION_PARTITIONS_def)
  then show "distinct (map osm_partition (wcr_outputs wr))" by (rule card_distinct)
qed

section \<open>Materialization\<close>

definition clear_names :: "run_env \<Rightarrow> bool" where
  "clear_names R \<longleftrightarrow> (\<forall>t h. sre_invalid_name R t h \<notin> set smoke_paths)"

lemma map_of_updates:
  "map_of (AList.update k v xs) p = (if p = k then Some v else map_of xs p)"
  "map_of (AList.delete k xs) p = (if p = k then None else map_of xs p)"
  by (simp_all add: map_of_AList_update map_of_AList_delete)

lemma materialize_output_effect:
  assumes "materialize_output R c entries out files = Inr files'" and "clear_names R"
    and "read_entry entries (predictions_entry (osm_partition out)) = Inr payload"
    and "skp_sha (sre_params R) payload = osm_parquet_sha256 out" and "prediction_path c (osm_partition out) \<in> set smoke_paths"
  shows "intact_file (sre_params R) files' (prediction_path c (osm_partition out)) (osm_parquet_sha256 out)"
    and "p \<in> set smoke_paths \<Longrightarrow> p \<noteq> prediction_path c (osm_partition out) \<Longrightarrow> map_of files' p = map_of files p"
  using assms unfolding materialize_output_def intact_file_def clear_names_def
  by (auto simp: map_of_updates Let_def split: option.splits if_splits)

lemma materialize_effect:
  assumes "materialize R c entries outs files = (files', Inr u)" and "clear_names R"
    and "\<And>out. out \<in> set outs \<Longrightarrow> \<exists>payload. read_entry entries (predictions_entry (osm_partition out)) = Inr payload
        \<and> skp_sha (sre_params R) payload = osm_parquet_sha256 out"
    and "\<And>out. out \<in> set outs \<Longrightarrow> prediction_path c (osm_partition out) \<in> set smoke_paths"
    and "distinct (map (\<lambda>out. prediction_path c (osm_partition out)) outs)"
  shows "(\<forall>out \<in> set outs. intact_file (sre_params R) files' (prediction_path c (osm_partition out)) (osm_parquet_sha256 out))
    \<and> (\<forall>p \<in> set smoke_paths. p \<notin> set (map (\<lambda>out. prediction_path c (osm_partition out)) outs) \<longrightarrow> map_of files' p = map_of files p)"
  using assms
proof (induction outs arbitrary: files)
  case Nil
  then show ?case by simp
next
  case (Cons out outs)
  let ?p = "\<lambda>out. prediction_path c (osm_partition out)"
  from Cons.prems(1) obtain f1 where f1: "materialize_output R c entries out files = Inr f1"
    and rest: "materialize R c entries outs f1 = (files', Inr u)"
    by (auto split: sum.splits)
  obtain payload where payload: "read_entry entries (predictions_entry (osm_partition out)) = Inr payload"
    "skp_sha (sre_params R) payload = osm_parquet_sha256 out" using Cons.prems(3) [of out] by auto
  have path: "?p out \<in> set smoke_paths" using Cons.prems(4) [of out] by simp
  note eff = materialize_output_effect [OF f1 Cons.prems(2) payload path]
  have IH: "(\<forall>out \<in> set outs. intact_file (sre_params R) files' (?p out) (osm_parquet_sha256 out))
    \<and> (\<forall>p \<in> set smoke_paths. p \<notin> set (map ?p outs) \<longrightarrow> map_of files' p = map_of f1 p)"
    using Cons.prems(2-5) by (intro Cons.IH [OF rest]) auto
  have "map_of files' (?p out) = map_of f1 (?p out)" using IH path Cons.prems(5) by simp
  with eff(1) have "intact_file (sre_params R) files' (?p out) (osm_parquet_sha256 out)" by (simp add: intact_file_def)
  with IH eff(2) show ?case by auto
qed

section \<open>The records\<close>

lemma failed_run_fields:
  assumes "failed_run c h failure entry = Inr r"
  shows "validate_condition_run r = Inr r \<and> crn_condition_id r = smc_condition_id c \<and> crn_status r \<noteq> ''PASS'' \<and> crn_prediction_files r = []"
proof -
  from assms obtain r0 where v: "validate_condition_run r0 = Inr r" and i: "crn_condition_id r0 = smc_condition_id c"
    and s: "crn_status r0 \<noteq> ''PASS''" "crn_prediction_files r0 = []"
    by (auto simp: failed_run_def Let_def split: option.splits)
  from v have "r = r0" by (auto simp: validate_condition_run_def bindr_Inr_iff guards_Inr_iff)
  with v i s show ?thesis by simp
qed

lemma passed_run_fields:
  assumes "passed_run c h hit res fs = Inr r"
  shows "validate_condition_run r = Inr r \<and> crn_condition_id r = smc_condition_id c \<and> crn_status r = ''PASS''
    \<and> crn_prediction_files r = fs \<and> crn_cache_status r = (if hit then ''validated_cache_hit'' else ''created'')"
proof -
  from assms obtain r0 where v: "validate_condition_run r0 = Inr r" and i: "crn_condition_id r0 = smc_condition_id c"
    and s: "crn_status r0 = ''PASS''" "crn_prediction_files r0 = fs" "crn_cache_status r0 = (if hit then ''validated_cache_hit'' else ''created'')"
    by (auto simp: passed_run_def)
  from v have "r = r0" by (auto simp: validate_condition_run_def bindr_Inr_iff guards_Inr_iff)
  with v i s show ?thesis by simp
qed

text \<open>A condition's record, and what it has done to the prediction files.\<close>

definition files_recorded :: "run_env \<Rightarrow> files \<Rightarrow> condition_run \<Rightarrow> bool" where
  "files_recorded R fs r \<longleftrightarrow> list_all (\<lambda>f. intact_file (sre_params R) fs (pfr_relative_path f) (pfr_sha256 f)) (crn_prediction_files r)"

definition condition_accounted :: "run_env \<Rightarrow> files \<Rightarrow> files \<Rightarrow> smoke_condition \<Rightarrow> condition_run \<Rightarrow> bool" where
  "condition_accounted R fs fs' c r \<longleftrightarrow> validate_condition_run r = Inr r \<and> crn_condition_id r = smc_condition_id c
     \<and> files_recorded R fs' r
     \<and> (crn_status r = ''PASS'' \<longrightarrow> mset (map pfr_relative_path (crn_prediction_files r)) = mset (paths_of c))
     \<and> (crn_status r \<noteq> ''PASS'' \<longrightarrow> crn_prediction_files r = [])
     \<and> (\<forall>p \<in> set smoke_paths. p \<notin> set (paths_of c) \<longrightarrow> map_of fs' p = map_of fs p)"

lemma completed_condition_effect:
  assumes "completed_condition R plan c i hit cache fs = (fs', Inr (r, n))" and clear: "clear_names R"
    and paths: "set (paths_of c) \<subseteq> set smoke_paths" and dist: "distinct (paths_of c)"
  shows "condition_accounted R fs fs' c r \<and> crn_status r = ''PASS''
    \<and> crn_cache_status r = (if hit then ''validated_cache_hit'' else ''created'')"
proof -
  let ?S = "sre_params R" and ?p = "\<lambda>out. prediction_path c (osm_partition out)"
  from assms(1) obtain payload wr res files entries where load: "load_worker_archive ?S payload c plan i = Inr (wr, res, files)"
    and entries: "skp_archive ?S payload = Inr entries"
    and mat: "materialize R c entries (wcr_outputs wr) fs = (fs', Inr ())"
    and run: "passed_run c (cache_key (skp_sha ?S) i) hit res files = Inr r"
    unfolding completed_condition_def
    by (auto simp: bindr_Inr_iff Let_def split: sum.splits prod.splits)
  from load_worker_archive_parts [OF load] entries
  have valid: "validate_worker_result wr = Inr wr"
    and outs: "mapr (load_output ?S entries c plan (cache_key (skp_sha ?S) i)) (wcr_outputs wr) = Inr files"
    by (metis Inr_inject)+
  note w = worker_outputs [OF valid]
  have out: "\<exists>payload. read_entry entries (predictions_entry (osm_partition out)) = Inr payload \<and> skp_sha ?S payload = osm_parquet_sha256 out"
    if "out \<in> set (wcr_outputs wr)" for out
  proof -
    from mapr_member [OF outs that] obtain f where "load_output ?S entries c plan (cache_key (skp_sha ?S) i) out = Inr f" by blast
    from load_output_fields [OF this] show ?thesis by blast
  qed
  have eq: "map ?p (wcr_outputs wr) = map (prediction_path c) (map osm_partition (wcr_outputs wr))" by simp
  have inj: "inj_on (prediction_path c) (set PREDICTION_PARTITIONS)"
    using dist by (simp add: paths_of_def distinct_map)
  have d: "distinct (map ?p (wcr_outputs wr))"
    unfolding eq distinct_map [of "prediction_path c"] using w(2,3) inj by simp
  have s: "set (map ?p (wcr_outputs wr)) = set (paths_of c)"
    unfolding eq set_map [of "prediction_path c"] w(2) by (simp add: paths_of_def)
  have eff: "(\<forall>out \<in> set (wcr_outputs wr). intact_file ?S fs' (?p out) (osm_parquet_sha256 out))
      \<and> (\<forall>p \<in> set smoke_paths. p \<notin> set (map ?p (wcr_outputs wr)) \<longrightarrow> map_of fs' p = map_of fs p)"
    using s paths by (intro materialize_effect [OF mat clear out _ d]) auto
  from outs have fields: "list_all2 (\<lambda>out f. pfr_relative_path f = ?p out \<and> pfr_sha256 f = osm_parquet_sha256 out) (wcr_outputs wr) files"
    unfolding mapr_Inr by (rule list_all2_mono) (drule load_output_fields, blast)
  have "map pfr_relative_path files = map ?p (wcr_outputs wr)"
    using fields by (induction rule: list_all2_induct) auto
  moreover have "mset (map ?p (wcr_outputs wr)) = mset (paths_of c)"
    using set_eq_iff_mset_eq_distinct [OF d dist] s by (rule iffD1)
  moreover have "list_all (\<lambda>f. intact_file ?S fs' (pfr_relative_path f) (pfr_sha256 f)) files"
    unfolding list_all_iff
  proof
    fix f assume "f \<in> set files"
    then obtain k where "k < length files" "f = files ! k" by (auto simp: in_set_conv_nth)
    with fields eff show "intact_file ?S fs' (pfr_relative_path f) (pfr_sha256 f)"
      by (auto simp: list_all2_conv_all_nth)
  qed
  ultimately show ?thesis
    using passed_run_fields [OF run] eff s by (simp add: condition_accounted_def files_recorded_def)
qed

lemma condition_outcome_effect:
  assumes "condition_outcome R plan rp st m hits cache c i fs = (fs', Inr (r, n))" and "clear_names R"
    and "set (paths_of c) \<subseteq> set smoke_paths" and "distinct (paths_of c)"
  shows "condition_accounted R fs fs' c r
    \<and> (\<exists>t entry. by_key ts_task_name (rp_tasks rp) (smc_task_name c) = Some t \<and> map_of (ss_tasks st) (ts_task_id t) = Some entry
        \<and> (crn_status r = ''PASS'' \<longleftrightarrow> st_state entry = COMPLETE))"
proof -
  from assms(1) obtain t entry where t: "by_key ts_task_name (rp_tasks rp) (smc_task_name c) = Some t"
      "map_of (ss_tasks st) (ts_task_id t) = Some entry"
    and r: "if st_state entry \<noteq> COMPLETE then fs' = fs \<and>
        failed_run c (cache_key (skp_sha (sre_params R)) i) (find_failure m (ts_task_id t)) entry = Inr r
      else completed_condition R plan c i (smc_condition_id c \<in> set hits) cache fs = (fs', Inr (r, n))"
    unfolding condition_outcome_def
    by (auto simp: bindr_Inr_iff bindr_Inl_iff of_option_def split: sum.splits option.splits if_splits prod.splits)
  show ?thesis
  proof (cases "st_state entry = COMPLETE")
    case True
    with r completed_condition_effect [OF _ assms(2-4)] t show ?thesis by auto
  next
    case False
    with r have "failed_run c (cache_key (skp_sha (sre_params R)) i) (find_failure m (ts_task_id t)) entry = Inr r" "fs' = fs" by auto
    with failed_run_fields False t show ?thesis
      by (fastforce simp: condition_accounted_def files_recorded_def)
  qed
qed

end
