(* ===== verification/Smoke_Planning.thy ===== *)
theory Smoke_Planning
  imports Smoke_Run
begin

text \<open>
  \<open>src/schemaguard/experiments/planning.py\<close>: the configuration of the smoke experiment, the
  reconciliation of the two model registries, the construction of the plan from the frozen files, its
  publication, and the verification of targets and checkpoints afterwards. The project is a map from
  repository-relative path to bytes; parsing of JSON, YAML and Parquet, the transformation manifest
  and the certificates are arguments.
\<close>

section \<open>Registry parameters\<close>

text \<open>\<open>reconcile_registry_parameters\<close>: the two documented differences of representation, and no other.\<close>

definition reconcile_registry_parameters ::
  "smoke_params \<Rightarrow> string \<Rightarrow> (string \<times> json) list \<Rightarrow> (string \<times> json) list \<Rightarrow> string option \<Rightarrow> string list result" where
  "reconcile_registry_parameters S model experiment runtime checkpoint =
     (let catboost = (model = ''CAT-1.2'' \<and> json_field ''bootstrap_type'' experiment = JBool False
            \<and> json_field ''bootstrap_type'' runtime = JStr ''No'');
          observed1 = (if catboost then dict_set experiment ''bootstrap_type'' (JStr ''No'') else experiment);
          tabicl = (model = ''TICL2-2.2'' \<and> ''checkpoint_version'' \<notin> set (map fst observed1) \<and> checkpoint \<noteq> None
            \<and> json_field ''checkpoint_version'' runtime = json_text_option checkpoint);
          observed = (if tabicl then dict_set observed1 ''checkpoint_version'' (json_text_option checkpoint) else observed1) in
      if \<not> python_equal S (JObj observed) (JObj runtime)
      then Inl (ValueError (''frozen registry parameter mismatch for '' @ model))
      else Inr ((if catboost then [''catboost_yaml_no_scalar''] else [])
        @ (if tabicl then [''tabicl_checkpoint_version_from_checkpoint_field''] else [])))"

text \<open>\<open>index_experiment_registry_rows\<close>.\<close>

fun index_rows :: "(string \<times> json) list list \<Rightarrow> (string \<times> (string \<times> json) list) list
   \<Rightarrow> (string \<times> (string \<times> json) list) list result" where
  "index_rows [] indexed = Inr indexed"
| "index_rows (row # rows) indexed = (case json_field ''id'' row of
     JStr model \<Rightarrow> if model \<in> set (map fst indexed)
       then Inl (ValueError ''experiment registry has a missing or duplicate model identifier'')
       else index_rows rows (indexed @ [(model, row)])
   | _ \<Rightarrow> Inl (ValueError ''experiment registry has a missing or duplicate model identifier''))"

definition index_experiment_registry_rows ::
  "(string \<times> json) list list \<Rightarrow> (string \<times> (string \<times> json) list) list result" where
  "index_experiment_registry_rows rows = bindr (index_rows rows []) (\<lambda>indexed.
     if set (map fst indexed) \<noteq> set SMOKE_MODEL_ORDER
     then Inl (ValueError ''experiment registry does not contain the exact frozen model set'')
     else Inr (map (\<lambda>m. (m, the (map_of indexed m))) SMOKE_MODEL_ORDER))"

section \<open>Configuration\<close>

record evaluation_config =
  evl_log_loss_epsilon :: py_float
  evl_ece_bins :: int
  evl_probability_sum_tolerance :: py_float
  evl_reconstruction_rtol :: py_float
  evl_reconstruction_atol :: py_float

record smoke_config =
  scf_baseline_config :: string
  scf_model_registry :: string
  scf_experiment_registry :: string
  scf_adapter_config :: string
  scf_transformation_config :: string
  scf_scheduler_config :: string
  scf_views :: "(string \<times> string) list"
  scf_cpu_models :: "string list"
  scf_cuda_models :: "string list"
  scf_execution :: execution_config
  scf_evaluation :: evaluation_config

definition execution_guards :: "execution_config \<Rightarrow> (bool \<times> error) list" where
  "execution_guards e =
     [(exc_minimum_gpu_headroom_mib e < 512, ValueError ''minimum_gpu_headroom_mib''),
      (exc_maximum_vram_mib e \<le> 0 \<or> 3600 < exc_maximum_vram_mib e, ValueError ''maximum_vram_mib''),
      (exc_maximum_ram_mib e \<le> 0 \<or> 28672 < exc_maximum_ram_mib e, ValueError ''maximum_ram_mib''),
      (exc_cpu_timeout_seconds e \<le> 0, ValueError ''cpu_timeout_seconds''),
      (exc_cuda_timeout_seconds e \<le> 0, ValueError ''cuda_timeout_seconds'')]"

definition evaluation_guards :: "pilot_params \<Rightarrow> evaluation_config \<Rightarrow> (bool \<times> error) list" where
  "evaluation_guards P e =
     [(evl_log_loss_epsilon e \<le> 0 \<or> pp_fl P (1/100) \<le> evl_log_loss_epsilon e, ValueError ''log_loss_epsilon''),
      (evl_ece_bins e < 2 \<or> 100 < evl_ece_bins e, ValueError ''ece_bins''),
      (evl_probability_sum_tolerance e \<le> 0 \<or> pp_fl P (1/10000) < evl_probability_sum_tolerance e,
        ValueError ''probability_sum_tolerance''),
      (evl_reconstruction_rtol e < 0 \<or> pp_fl P (1/1000000) < evl_reconstruction_rtol e, ValueError ''reconstruction_rtol''),
      (evl_reconstruction_atol e < 0 \<or> pp_fl P (1/1000000) < evl_reconstruction_atol e, ValueError ''reconstruction_atol'')]"

text \<open>\<open>Path(value)\<close> of a POSIX system: absolute, or with a parent segment.\<close>

definition unportable_reference :: "string \<Rightarrow> bool" where
  "unportable_reference s \<longleftrightarrow> posix_absolute s \<or> ''..'' \<in> set (posix_parts s)"

definition validate_smoke_config :: "pilot_params \<Rightarrow> smoke_config \<Rightarrow> smoke_config result" where
  "validate_smoke_config P c = guards
     ([(length (scf_views c) \<noteq> 2 \<or> \<not> set (map fst (scf_views c)) \<subseteq> set SMOKE_VIEW_ORDER
          \<or> \<not> set (map snd (scf_views c)) \<subseteq> {''identity'', ''numeric_affine_units''}, ValueError ''views''),
       (\<not> set (scf_cpu_models c) \<subseteq> set (take 3 SMOKE_MODEL_ORDER), ValueError ''cpu_models''),
       (\<not> set (scf_cuda_models c) \<subseteq> set FOUNDATION_MODELS, ValueError ''cuda_models'')]
      @ execution_guards (scf_execution c) @ evaluation_guards P (scf_evaluation c)
      @ [(map fst (scf_views c) \<noteq> SMOKE_VIEW_ORDER, ValueError ''smoke view matrix must remain V00, V01 in that order''),
         (scf_cpu_models c \<noteq> take 3 SMOKE_MODEL_ORDER \<or> scf_cuda_models c \<noteq> drop 3 SMOKE_MODEL_ORDER,
           ValueError ''smoke model/device matrix differs from the frozen ten conditions''),
         (list_ex unportable_reference [scf_model_registry c, scf_experiment_registry c, scf_adapter_config c,
            scf_transformation_config c, scf_scheduler_config c, scf_baseline_config c],
           ValueError ''configuration references must be portable relative paths'')]) c"

definition output_paths_json :: json where
  "output_paths_json = JObj [(''runs'', JStr ''results/smoke/runs''), (''predictions'', JStr ''results/smoke/predictions''),
     (''metrics'', JStr ''results/smoke/metrics''), (''runtime'', JStr ''results/smoke/runtime'')]"

definition smoke_config_json :: "pilot_params \<Rightarrow> smoke_config \<Rightarrow> json" where
  "smoke_config_json P c = (let x = scf_execution c; v = scf_evaluation c in JObj
     [(''schema_version'', JInt 1), (''protocol_version'', JStr ''schema_guard_smoke_v1''), (''dataset_id'', JInt SMOKE_DATASET_ID),
      (''dataset_version'', JStr ''openml_file_1586225''), (''seed'', JInt SMOKE_SEED),
      (''split_strategy'', JStr ''stratified_group_5fold_v1''), (''baseline_config'', JStr (scf_baseline_config c)),
      (''dependency_lock'', JStr ''uv.lock''), (''model_registry'', JStr (scf_model_registry c)),
      (''experiment_registry'', JStr (scf_experiment_registry c)), (''adapter_config'', JStr (scf_adapter_config c)),
      (''transformation_config'', JStr (scf_transformation_config c)), (''scheduler_config'', JStr (scf_scheduler_config c)),
      (''views'', JArr (map (\<lambda>(i, n). JObj [(''view_id'', JStr i), (''view_name'', JStr n)]) (scf_views c))),
      (''cpu_models'', json_strings (scf_cpu_models c)), (''cuda_models'', json_strings (scf_cuda_models c)),
      (''execution'', JObj [(''network_enabled'', JBool False), (''cpu_workers'', JInt 2), (''gpu_workers'', JInt 1),
         (''resume'', JBool True), (''minimum_gpu_headroom_mib'', JInt (exc_minimum_gpu_headroom_mib x)),
         (''maximum_vram_mib'', JInt (exc_maximum_vram_mib x)), (''maximum_ram_mib'', JInt (exc_maximum_ram_mib x)),
         (''cpu_timeout_seconds'', JInt (exc_cpu_timeout_seconds x)), (''cuda_timeout_seconds'', JInt (exc_cuda_timeout_seconds x))]),
      (''evaluation'', JObj [(''log_loss_epsilon'', pp_float P (evl_log_loss_epsilon v)), (''ece_bins'', JInt (evl_ece_bins v)),
         (''ece_binning_rule'', JStr ''equal_width_max_probability_confidence''),
         (''probability_sum_tolerance'', pp_float P (evl_probability_sum_tolerance v)),
         (''reconstruction_rtol'', pp_float P (evl_reconstruction_rtol v)),
         (''reconstruction_atol'', pp_float P (evl_reconstruction_atol v)), (''primary_metric'', JStr ''brier_score''),
         (''label_access_boundary'', JStr ''after_all_predictions_complete'')]),
      (''output_paths'', output_paths_json)])"

section \<open>Sources and checkpoints\<close>

text \<open>\<open>_source_identity\<close> over the frozen list of source paths.\<close>

definition source_identity :: "(string \<Rightarrow> string) \<Rightarrow> repository \<Rightarrow> string list \<Rightarrow> (string \<times> (string \<times> string) list) result" where
  "source_identity sha repo paths =
     bindr (mapr (\<lambda>p. bindr (of_option (OSError (''smoke implementation dependency is missing: '' @ p)) (repo p))
        (\<lambda>bs. Inr (p, canonical_source_hash sha bs))) paths) (\<lambda>hashes.
     Inr (sha256_canonical_json sha (text_dict hashes), hashes))"

definition smoke_current_commit :: "string option \<Rightarrow> string result" where
  "smoke_current_commit stdout = (case stdout of
     None \<Rightarrow> Inl (OSError ''git rev-parse failed'')
   | Some t \<Rightarrow> if is_commit (strip t) then Inr (strip t)
       else Inl (ValueError ''cannot establish the exact implementation commit''))"

text \<open>\<open>_verified_checkpoint_digest\<close>: two stats of the file around the digest; a digest verified before is reused.\<close>

type_synonym fingerprint = "int \<times> int"

definition verified_checkpoint_digest ::
  "(string \<Rightarrow> string) \<Rightarrow> fingerprint \<Rightarrow> string \<Rightarrow> fingerprint \<Rightarrow> string \<Rightarrow> (fingerprint \<times> string) option
   \<Rightarrow> (string \<times> fingerprint \<times> string) result" where
  "verified_checkpoint_digest sha before bs after expected prior =
     bindr (case prior of
         Some (f, d) \<Rightarrow> if before = f then Inr d
           else if before \<noteq> after then Inl (ValueError ''checkpoint changed while its SHA-256 was being verified'') else Inr (sha bs)
       | None \<Rightarrow> if before \<noteq> after then Inl (ValueError ''checkpoint changed while its SHA-256 was being verified'') else Inr (sha bs))
     (\<lambda>observed. if observed \<noteq> expected then Inl (ValueError ''checkpoint digest differs from its frozen identity'')
        else Inr (observed, before, observed))"

end
