(* ===== verification/Smoke_Plan_Build.thy ===== *)
theory Smoke_Plan_Build
  imports Smoke_Planning
begin

text \<open>
  \<open>build_smoke_plan\<close> of \<open>src/schemaguard/experiments/planning.py\<close> with the functions it calls:
  the view evidence, the files of the two views, the view records, the conditions and the plan; and
  \<open>write_plan\<close> and \<open>verify_runtime_sources_after_plan\<close>. Target values are never read: only the digest
  of the target file is.
\<close>

section \<open>Environment\<close>

record view_manifest =
  vmf_dataset_id :: int
  vmf_seed :: int
  vmf_view_id :: string
  vmf_view_name :: string
  vmf_split_strategy :: string
  vmf_status :: string
  vmf_implementation_hash :: string
  vmf_cache_identity :: string
  vmf_feature_paths :: "(string \<times> string) list"
  vmf_certificate_paths :: "(string \<times> string) list"
  vmf_feature_hashes :: "(string \<times> string) list"
  vmf_certificate_hashes :: "(string \<times> string) list"

record planning_env =
  ple_smoke :: smoke_params
  ple_files :: repository
  ple_json :: "string \<Rightarrow> (string \<times> json) list result"
  ple_yaml :: "string \<Rightarrow> (string \<times> json) list result"
  ple_config :: "string \<Rightarrow> smoke_config result"
  ple_runtime_config :: "string \<Rightarrow> runtime_config result"
  ple_manifest :: "string \<Rightarrow> view_manifest result"
  ple_certificate :: "string \<Rightarrow> string result"
  ple_source_paths :: "string list"
  ple_git :: "string option"

definition ple_sha :: "planning_env \<Rightarrow> string \<Rightarrow> string" where
  "ple_sha Q = skp_sha (ple_smoke Q)"

definition ple_read :: "planning_env \<Rightarrow> string \<Rightarrow> string result" where
  "ple_read Q path = of_option (OSError path) (ple_files Q path)"

definition ple_sha_file :: "planning_env \<Rightarrow> string \<Rightarrow> string result" where
  "ple_sha_file Q path = bindr (ple_read Q path) (\<lambda>bs. Inr (ple_sha Q bs))"

definition ple_table :: "planning_env \<Rightarrow> string \<Rightarrow> frame result" where
  "ple_table Q path = bindr (ple_read Q path) (skp_parquet (ple_smoke Q))"

definition dict_at :: "json \<Rightarrow> string \<Rightarrow> json result" where
  "dict_at v k = (case v of JObj kvs \<Rightarrow> of_option (KeyError k) (map_of kvs k)
     | _ \<Rightarrow> Inl (TypeError ''object is not subscriptable''))"

definition text_of :: "json \<Rightarrow> string result" where
  "text_of v = (case v of JStr s \<Rightarrow> Inr s | _ \<Rightarrow> Inl (ValueError ''Input should be a valid string''))"

definition text_at :: "(string \<times> json) list \<Rightarrow> string \<Rightarrow> string result" where
  "text_at d k = bindr (dict_at (JObj d) k) text_of"

text \<open>\<open>d.get(k, {})\<close>, where a dictionary is needed.\<close>

definition dict_or_empty :: "string \<Rightarrow> (string \<times> json) list \<Rightarrow> (string \<times> json) list result" where
  "dict_or_empty k d = (case map_of d k of None \<Rightarrow> Inr [] | Some (JObj kvs) \<Rightarrow> Inr kvs | _ \<Rightarrow> Inl (TypeError k))"

definition FEATURES_PATH :: string where "FEATURES_PATH = ''data/processed/openml/1464/features.parquet''"
definition ASSIGNMENT_PATH :: string where
  "ASSIGNMENT_PATH = ''data/splits/openml/1464/stratified_group_5fold_v1/seed_1729/assignments.parquet''"
definition BASELINE_PATH :: string where "BASELINE_PATH = ''configs/baselines/data_foundation.json''"
definition TRANSFORMATION_INVENTORY :: string where "TRANSFORMATION_INVENTORY = ''artifacts/handoff/transformation_inventory.json''"

definition view_directory :: "string \<Rightarrow> string" where
  "view_directory name = ''data/transformed/openml/1464/stratified_group_5fold_v1/seed_1729/'' @ name @ ''/''"

section \<open>Assignments\<close>

definition partition_column :: "frame \<Rightarrow> string" where
  "partition_column A = (if ''partition'' \<in> set (frame_columns A) then ''partition'' else ''split'')"

definition assigned_rows :: "frame \<Rightarrow> string \<Rightarrow> cell list result" where
  "assigned_rows A part =
     bindr (get_column A (partition_column A)) (\<lambda>parts. bindr (get_column A ROW_ID_COLUMN) (\<lambda>ids.
     Inr (map snd (filter (\<lambda>(p, r). cell_eq p (CStr part)) (zip (co_cells parts) (co_cells ids))))))"

text \<open>\<open>frame.set_index(id, drop=False).loc[ids]\<close>: all rows of every identifier, in order.\<close>

definition loc_rows :: "frame \<Rightarrow> cell list \<Rightarrow> frame result" where
  "loc_rows X ids = bindr (get_column X ROW_ID_COLUMN) (\<lambda>c.
     if list_ex (\<lambda>i. i \<notin> set (co_cells c)) ids then Inl (KeyError ''not in index'')
     else Inr (take_rows X (concat (map (\<lambda>i. filter (\<lambda>k. co_cells c ! k = i) [0..<length (co_cells c)]) ids))))"

section \<open>Views\<close>

record view_files =
  vfl_partitions :: "(string \<times> frame) list"
  vfl_feature_files :: "(string \<times> string) list"
  vfl_certificate_files :: "(string \<times> string option) list"
  vfl_manifest_sha256 :: "string option"

definition identity_view_files :: "planning_env \<Rightarrow> frame \<Rightarrow> view_files result" where
  "identity_view_files Q A =
     bindr (ple_table Q FEATURES_PATH) (\<lambda>X.
     bindr (mapr (\<lambda>p. bindr (assigned_rows A p) (\<lambda>ids. bindr (loc_rows X ids) (\<lambda>F. Inr (p, F)))) ALL_PARTITIONS) (\<lambda>parts.
     bindr (ple_sha_file Q FEATURES_PATH) (\<lambda>h.
     Inr \<lparr>vfl_partitions = parts, vfl_feature_files = map (\<lambda>p. (p, h)) ALL_PARTITIONS,
       vfl_certificate_files = map (\<lambda>p. (p, None)) ALL_PARTITIONS, vfl_manifest_sha256 = None\<rparr>)))"

definition manifest_file :: "string \<Rightarrow> (string \<times> string) list \<Rightarrow> string \<Rightarrow> string result" where
  "manifest_file name paths part = bindr (partition_entry paths part) (\<lambda>p. Inr (view_directory name @ p))"

text \<open>The digests of the feature and certificate files of one partition, as the manifest records them.\<close>

definition partition_files :: "planning_env \<Rightarrow> string \<Rightarrow> view_manifest \<Rightarrow> string \<Rightarrow> (string \<times> string) result" where
  "partition_files Q name m part =
     bindr (manifest_file name (vmf_feature_paths m) part) (\<lambda>fp. bindr (manifest_file name (vmf_certificate_paths m) part) (\<lambda>cp.
     bindr (ple_sha_file Q fp) (\<lambda>fh. bindr (partition_entry (vmf_feature_hashes m) part) (\<lambda>fe.
     if fh \<noteq> fe then Inl (ValueError (''V01 '' @ part @ '' feature artifact hash differs from its manifest''))
     else bindr (ple_sha_file Q cp) (\<lambda>ch. bindr (partition_entry (vmf_certificate_hashes m) part) (\<lambda>ce.
     if ch \<noteq> ce then Inl (ValueError (''V01 '' @ part @ '' certificate hash differs from its manifest''))
     else Inr (fh, ch)))))))"

definition manifest_mismatch :: "string \<Rightarrow> string \<Rightarrow> view_manifest \<Rightarrow> bool" where
  "manifest_mismatch view name m \<longleftrightarrow> vmf_dataset_id m \<noteq> SMOKE_DATASET_ID \<or> vmf_seed m \<noteq> SMOKE_SEED \<or> vmf_view_id m \<noteq> view
     \<or> vmf_view_name m \<noteq> name \<or> vmf_split_strategy m \<noteq> ''stratified_group_5fold_v1'' \<or> vmf_status m \<noteq> ''PASS''"

definition affine_view_files :: "planning_env \<Rightarrow> string \<Rightarrow> string \<Rightarrow> view_files result" where
  "affine_view_files Q view name = (let path = view_directory name @ ''manifest.json'' in
     bindr (bindr (ple_read Q path) (ple_manifest Q)) (\<lambda>m.
     if manifest_mismatch view name m then Inl (ValueError ''V01 transformation manifest identity or status is invalid'')
     else bindr (mapr (\<lambda>p. bindr (manifest_file name (vmf_feature_paths m) p) (\<lambda>f. bindr (ple_table Q f) (\<lambda>F. Inr (p, F)))) ALL_PARTITIONS) (\<lambda>parts.
     bindr (mapr (partition_files Q name m) ALL_PARTITIONS) (\<lambda>hashes.
     bindr (ple_sha_file Q path) (\<lambda>h.
     Inr \<lparr>vfl_partitions = parts, vfl_feature_files = zip ALL_PARTITIONS (map fst hashes),
       vfl_certificate_files = zip ALL_PARTITIONS (map (Some \<circ> snd) hashes), vfl_manifest_sha256 = Some h\<rparr>)))))"

definition smoke_view_files :: "planning_env \<Rightarrow> string \<times> string \<Rightarrow> frame \<Rightarrow> view_files result" where
  "smoke_view_files Q v A = (if fst v = ''V00'' then identity_view_files Q A else affine_view_files Q (fst v) (snd v))"

definition view_inventory_record :: "planning_env \<Rightarrow> string \<Rightarrow> (string \<times> json) list result" where
  "view_inventory_record Q view =
     bindr (bindr (ple_read Q TRANSFORMATION_INVENTORY) (ple_json Q)) (\<lambda>inventory.
     case json_field ''records'' inventory of
       JArr rows \<Rightarrow>
         (case filter (\<lambda>r. case r of JObj kvs \<Rightarrow> python_equal (ple_smoke Q) (json_field ''dataset_id'' kvs) (JInt SMOKE_DATASET_ID)
               \<and> python_equal (ple_smoke Q) (json_field ''seed'' kvs) (JInt SMOKE_SEED) \<and> json_field ''view_id'' kvs = JStr view
             | _ \<Rightarrow> False) rows of
            [JObj kvs] \<Rightarrow> if json_field ''status'' kvs = JStr ''PASS'' then Inr kvs
              else Inl (ValueError (''frozen transformation evidence missing or unsuccessful for '' @ view))
          | _ \<Rightarrow> Inl (ValueError (''frozen transformation evidence missing or unsuccessful for '' @ view)))
     | _ \<Rightarrow> Inl (ValueError ''transformation inventory has no records''))"

definition ACCEPTED_IMPLEMENTATION :: string where
  "ACCEPTED_IMPLEMENTATION = ''00548880e1de331d8b6540778b374a17e61838b3bd0f7e81590ff51ab595b034''"

definition ACCEPTED_CACHE_IDENTITY :: string where
  "ACCEPTED_CACHE_IDENTITY = ''9191149f3e8097874cb55ef2e19b5409373bed4c1d67667166e9512246b70635''"

definition check_accepted_view :: "planning_env \<Rightarrow> string \<Rightarrow> string list \<Rightarrow> unit result" where
  "check_accepted_view Q name cert_ids =
     bindr (bindr (ple_read Q (view_directory name @ ''manifest.json'')) (ple_manifest Q)) (\<lambda>m.
     if vmf_implementation_hash m \<noteq> ACCEPTED_IMPLEMENTATION then Inl (ValueError ''V01 implementation identity differs from the accepted repair'')
     else if vmf_cache_identity m \<noteq> ACCEPTED_CACHE_IDENTITY then Inl (ValueError ''V01 cache identity differs from the accepted repair'')
     else bindr (mapr (\<lambda>p. bindr (manifest_file name (vmf_certificate_paths m) p) (\<lambda>f. bindr (ple_read Q f) (ple_certificate Q))) ALL_PARTITIONS) (\<lambda>ids.
     if ids \<noteq> cert_ids then Inl (ValueError ''V01 certificate identities differ from the frozen inventory'') else Inr ()))"

text \<open>The rows of one partition must be the rows of the split, once each; their digest, number and table digest.\<close>

definition partition_summary :: "planning_env \<Rightarrow> frame \<Rightarrow> (string \<times> frame) list \<Rightarrow> string \<Rightarrow> (string \<times> int \<times> string) result" where
  "partition_summary Q A parts p =
     bindr (assigned_rows A p) (\<lambda>expected. bindr (partition_entry parts p) (\<lambda>X. bindr (get_column X ROW_ID_COLUMN) (\<lambda>c.
     let observed = co_cells c in
     if \<not> distinct observed \<or> observed \<noteq> expected then Inl (ValueError (p @ '' rows do not match the frozen split''))
     else bindr (mapr (skp_json (ple_smoke Q)) observed) (\<lambda>ids.
       Inr (sha256_canonical_json (ple_sha Q) (JArr ids), int (length observed), skp_logical (ple_smoke Q) X)))))"

definition plan_smoke_view :: "planning_env \<Rightarrow> frame \<Rightarrow> frame \<Rightarrow> string \<times> string \<Rightarrow> smoke_view result" where
  "plan_smoke_view Q features A v =
     bindr (view_inventory_record Q (fst v)) (\<lambda>evidence.
     bindr (smoke_view_files Q v A) (\<lambda>fs.
     if fst v = ''V00'' \<and> json_field ''source_hash'' evidence \<noteq> JStr (skp_logical (ple_smoke Q) features)
     then Inl (ValueError ''V00 source hash differs from the protected feature artifact'')
     else bindr (case map_of evidence ''certificate_ids'' of None \<Rightarrow> Inr [] | Some x \<Rightarrow> text_list x) (\<lambda>cert_ids.
     if length cert_ids \<noteq> 3 then Inl (ValueError ''transformation evidence has incomplete partition certificates'')
     else bindr (if fst v = ''V01'' then check_accepted_view Q (snd v) cert_ids else Inr ()) (\<lambda>_.
     bindr (mapr (partition_summary Q A (vfl_partitions fs)) ALL_PARTITIONS) (\<lambda>summaries.
     bindr (text_at evidence ''source_hash'') (\<lambda>source. bindr (text_at evidence ''output_hash'') (\<lambda>output.
     let feature_hashes = zip ALL_PARTITIONS (map (snd \<circ> snd) summaries) in
     validate_smoke_view \<lparr>smv_view_id = fst v, smv_view_name = snd v, smv_source_hash = source, smv_output_hash = output,
       smv_certificate_sha256 = sha256_canonical_json (ple_sha Q) (json_strings cert_ids), smv_certificate_ids = cert_ids,
       smv_features_sha256 = sha256_canonical_json (ple_sha Q) (text_dict feature_hashes), smv_partition_feature = feature_hashes,
       smv_partition_feature_file = vfl_feature_files fs, smv_partition_certificate_file = vfl_certificate_files fs,
       smv_manifest_sha256 = vfl_manifest_sha256 fs, smv_partition_row_id = zip ALL_PARTITIONS (map fst summaries),
       smv_partition_rows = zip ALL_PARTITIONS (map (fst \<circ> snd) summaries)\<rparr>)))))))"

section \<open>Conditions\<close>

definition model_spec_json :: "model_spec \<Rightarrow> json" where
  "model_spec_json m = JObj [(''id'', JStr (msp_id m)), (''class_path'', JStr (msp_class_path m)), (''package'', JStr (msp_package m)),
     (''expected_version'', JStr (msp_version m)), (''checkpoint'', json_text_option (msp_checkpoint m)),
     (''parameters'', JObj (msp_parameters m))]"

definition FOUNDATION_CHECKPOINTS :: "(string \<times> string \<times> string) list" where
  "FOUNDATION_CHECKPOINTS =
     [(''TPFN3-8.5'', ''tabpfn-v3-classifier-v3_default.ckpt'', ''d0d865d54dfbc524f5703104be90620182dca7e5fb2c16de72e9959ea18f3988''),
      (''TICL2-2.2'', ''tabicl-classifier-v2-20260212.ckpt'', ''bdc7dbd5e4ff21f8f0456fcf90c6b7cdf72dbea960f2d05b19bec19f9b3d4ed0'')]"

record condition_context =
  cct_specs :: "model_spec list"
  cct_rows :: "(string \<times> (string \<times> json) list) list"
  cct_checkpoints :: "(string \<times> json) list"
  cct_views :: "smoke_view list"
  cct_features_sha256 :: string
  cct_targets_sha256 :: string
  cct_assignment_sha256 :: string
  cct_lock_sha256 :: string
  cct_source_sha256 :: string

definition registry_mismatch :: "model_spec \<Rightarrow> (string \<times> json) list \<Rightarrow> bool" where
  "registry_mismatch m row \<longleftrightarrow> json_field ''name'' row \<noteq> JStr (msp_class_path m) \<or> json_field ''package'' row \<noteq> JStr (msp_package m)
     \<or> json_field ''version'' row \<noteq> JStr (msp_version m) \<or> json_field ''checkpoint'' row \<noteq> json_text_option (msp_checkpoint m)"

text \<open>The checkpoint of a model in the adapter configuration: its identifier and digest, when there is one.\<close>

definition checkpoint_pair :: "(string \<times> json) list \<Rightarrow> string \<Rightarrow> (string option \<times> string option) result" where
  "checkpoint_pair checkpoints model = (case json_field model checkpoints of
     JObj (kv # kvs) \<Rightarrow> (let text = \<lambda>v. case v of JNull \<Rightarrow> Inr None | JStr s \<Rightarrow> Inr (Some s) | _ \<Rightarrow> Inl (ValueError ''checkpoint'') in
       bindr (text (json_field ''identifier'' (kv # kvs))) (\<lambda>i. bindr (text (json_field ''sha256'' (kv # kvs))) (\<lambda>s. Inr (i, s))))
   | v \<Rightarrow> if v \<in> {JNull, JBool False, JInt 0, JStr [], JArr [], JObj []} then Inr (None, None)
       else Inl (TypeError ''object has no attribute get''))"

definition with_condition_id :: "pilot_params \<Rightarrow> smoke_condition \<Rightarrow> smoke_condition" where
  "with_condition_id P c = c\<lparr>smc_condition_id := smoke_condition_identity P c\<rparr>"

definition plan_smoke_condition ::
  "planning_env \<Rightarrow> condition_context \<Rightarrow> string \<times> (string \<times> string) \<Rightarrow> (string list \<times> smoke_condition) result" where
  "plan_smoke_condition Q X = (\<lambda>(model, view, name). (let P = skp_pilot (ple_smoke Q); device = smoke_device model in
     bindr (of_option (KeyError model) (by_key msp_id (cct_specs X) model)) (\<lambda>m.
     bindr (of_option (KeyError model) (map_of (cct_rows X) model)) (\<lambda>row.
     if registry_mismatch m row then Inl (ValueError (''frozen experiment registry mismatch for '' @ model))
     else if json_field ''preprocessing'' row = JNull then Inl (ValueError (''missing frozen preprocessing for '' @ model))
     else bindr (dict_or_empty ''parameters'' row) (\<lambda>params.
     bindr (reconcile_registry_parameters (ple_smoke Q) model params (msp_parameters m) (msp_checkpoint m)) (\<lambda>decisions.
     bindr (build_parameters m SMOKE_SEED (device_text device) 2) (\<lambda>parameters.
     bindr (checkpoint_pair (cct_checkpoints X) model) (\<lambda>(checkpoint_id, checkpoint_sha).
     if model \<in> set FOUNDATION_MODELS \<and> map_of FOUNDATION_CHECKPOINTS model
          \<noteq> (case (checkpoint_id, checkpoint_sha) of (Some i, Some s) \<Rightarrow> Some (i, s) | _ \<Rightarrow> None)
     then Inl (ValueError (''frozen checkpoint identity mismatch for '' @ model))
     else bindr (of_option (KeyError view) (view_by_id (cct_views X) view)) (\<lambda>v.
     bindr (text_of (json_field ''preprocessing'' row)) (\<lambda>preprocessing.
     bindr (validate_smoke_condition P (with_condition_id P
       \<lparr>smc_condition_id = [], smc_task_name = smoke_task_name model view, smc_model_id = model, smc_package_name = msp_package m,
        smc_package_version = msp_version m, smc_dataset_features_sha256 = cct_features_sha256 X,
        smc_target_artifact_sha256 = cct_targets_sha256 X, smc_view_id = view, smc_device = device,
        smc_precision_policy = (if model \<in> set FOUNDATION_MODELS then ''auto'' else ''native''), smc_seed = SMOKE_SEED,
        smc_model_spec_sha256 = sha256_canonical_json (ple_sha Q)
          (JObj [(''model_spec'', model_spec_json m), (''preprocessing'', json_field ''preprocessing'' row)]),
        smc_parameters_sha256 = sha256_canonical_json (ple_sha Q) (JObj parameters), smc_model_parameters = parameters,
        smc_preprocessing = preprocessing, smc_checkpoint_identifier = checkpoint_id, smc_checkpoint_sha256 = checkpoint_sha,
        smc_view_certificate_sha256 = smv_certificate_sha256 v, smc_view_features_sha256 = smv_features_sha256 v,
        smc_split_sha256 = cct_assignment_sha256 X, smc_dependency_lock_sha256 = cct_lock_sha256 X,
        smc_source_implementation_sha256 = cct_source_sha256 X\<rparr>)) (\<lambda>c. Inr (decisions, c))))))))))))"

text \<open>\<open>if decision not in decisions: decisions.append(decision)\<close>.\<close>

definition add_once :: "'a \<Rightarrow> 'a list \<Rightarrow> 'a list" where
  "add_once x xs = (if x \<in> set xs then xs else xs @ [x])"

definition condition_requests :: "smoke_config \<Rightarrow> (string \<times> (string \<times> string)) list" where
  "condition_requests c = [(model, v). model \<leftarrow> SMOKE_MODEL_ORDER, v \<leftarrow> scf_views c]"

section \<open>The plan\<close>

definition baseline_hashes :: "planning_env \<Rightarrow> (string \<times> string \<times> string) result" where
  "baseline_hashes Q =
     bindr (bindr (ple_read Q BASELINE_PATH) (ple_json Q)) (\<lambda>baseline.
     bindr (dict_at (JObj baseline) ''dataset'') (\<lambda>dataset.
     bindr (dict_at dataset ''processed_artifact_sha256'') (\<lambda>artifacts.
     case artifacts of
       JObj d \<Rightarrow> if json_field ''features.parquet'' d = JNull \<or> json_field ''targets.parquet'' d = JNull
         then Inl (ValueError ''data-foundation baseline lacks required source hashes'')
         else bindr (text_at d ''features.parquet'') (\<lambda>f. bindr (text_at d ''targets.parquet'') (\<lambda>t.
           bindr (bindr (dict_at dataset ''raw_source_sha256'') text_of) (\<lambda>raw. Inr (f, t, raw))))
     | _ \<Rightarrow> Inl (TypeError ''processed_artifact_sha256''))))"

definition split_sizes_changed :: "frame \<Rightarrow> bool result" where
  "split_sizes_changed A =
     bindr (mapr (assigned_rows A) ALL_PARTITIONS) (\<lambda>parts.
     Inr (map length parts \<noteq> [449, 150, 149] \<or> sum_list (map length parts) \<noteq> row_count A))"

definition ends_with :: "string \<Rightarrow> string \<Rightarrow> bool" where
  "ends_with suffix s \<longleftrightarrow> starts_with (rev suffix) (rev s)"

definition planning_context ::
  "planning_env \<Rightarrow> smoke_config \<Rightarrow> smoke_view list \<Rightarrow> string \<times> string \<Rightarrow> string \<Rightarrow> condition_context result" where
  "planning_context Q c views = (\<lambda>(features_sha, targets_sha) assignment_sha.
     bindr (bindr (ple_read Q (scf_model_registry c)) (ple_runtime_config Q)) (\<lambda>rc.
     bindr (bindr (load_runtime_config rc) validate_registry) (\<lambda>specs.
     bindr (bindr (ple_read Q (scf_experiment_registry c)) (ple_yaml Q)) (\<lambda>experiment.
     bindr (dict_at (JObj experiment) ''models'') (\<lambda>models.
     bindr (case models of JArr rows \<Rightarrow> mapr (\<lambda>r. case r of JObj d \<Rightarrow> Inr d | _ \<Rightarrow> Inl (TypeError ''models'')) rows
       | _ \<Rightarrow> Inl (TypeError ''models'')) (\<lambda>rows.
     bindr (index_experiment_registry_rows rows) (\<lambda>indexed.
     bindr (bindr (ple_read Q (scf_adapter_config c))
       (if ends_with ''.json'' (scf_adapter_config c) then ple_json Q else ple_yaml Q)) (\<lambda>adapters.
     bindr (dict_or_empty ''checkpoints'' adapters) (\<lambda>checkpoints.
     bindr (source_identity (ple_sha Q) (ple_files Q) (ple_source_paths Q)) (\<lambda>(source, _).
     bindr (dependency_lock_hash (ple_sha Q) (ple_files Q ''uv.lock'')) (\<lambda>lock.
     Inr \<lparr>cct_specs = specs, cct_rows = indexed, cct_checkpoints = checkpoints, cct_views = views,
       cct_features_sha256 = features_sha, cct_targets_sha256 = targets_sha, cct_assignment_sha256 = assignment_sha,
       cct_lock_sha256 = lock, cct_source_sha256 = source\<rparr>)))))))))))"

definition smoke_plan_of ::
  "planning_env \<Rightarrow> smoke_config \<Rightarrow> condition_context \<Rightarrow> string \<Rightarrow> string \<Rightarrow> string \<Rightarrow> string \<Rightarrow> string list
   \<Rightarrow> smoke_condition list \<Rightarrow> smoke_plan" where
  "smoke_plan_of Q c X commit raw logical inventory decisions conditions = (let P = skp_pilot (ple_smoke Q) in
     \<lparr>smp_source_commit = commit, smp_code_identity_sha256 = cct_source_sha256 X, smp_dependency_lock_sha256 = cct_lock_sha256 X,
      smp_dataset_features_sha256 = cct_features_sha256 X, smp_dataset_source_sha256 = raw,
      smp_target_artifact_sha256 = cct_targets_sha256 X, smp_assignment_sha256 = cct_assignment_sha256 X,
      smp_assignment_logical_sha256 = logical, smp_transformation_inventory_sha256 = inventory,
      smp_configuration_identity_sha256 = sha256_canonical_json (ple_sha Q) (smoke_config_json P c),
      smp_output_path_policy_sha256 = sha256_canonical_json (ple_sha Q) output_paths_json,
      smp_registry_parameter_decisions = decisions, smp_views = cct_views X, smp_conditions = conditions,
      smp_log_loss_epsilon = evl_log_loss_epsilon (scf_evaluation c),
      smp_probability_sum_tolerance = evl_probability_sum_tolerance (scf_evaluation c),
      smp_reconstruction_rtol = evl_reconstruction_rtol (scf_evaluation c),
      smp_reconstruction_atol = evl_reconstruction_atol (scf_evaluation c), smp_ece_bins = evl_ece_bins (scf_evaluation c),
      smp_maximum_ram_mib = exc_maximum_ram_mib (scf_execution c), smp_maximum_vram_mib = exc_maximum_vram_mib (scf_execution c),
      smp_minimum_gpu_headroom_mib = exc_minimum_gpu_headroom_mib (scf_execution c),
      smp_cpu_timeout_seconds = exc_cpu_timeout_seconds (scf_execution c),
      smp_cuda_timeout_seconds = exc_cuda_timeout_seconds (scf_execution c)\<rparr>)"

definition build_smoke_plan :: "planning_env \<Rightarrow> string \<Rightarrow> string option \<Rightarrow> smoke_plan result" where
  "build_smoke_plan Q config_path commit_override = (let P = skp_pilot (ple_smoke Q) in
     bindr (bindr (bindr (ple_read Q config_path) (ple_config Q)) (validate_smoke_config P)) (\<lambda>c.
     bindr (baseline_hashes Q) (\<lambda>(features_sha, targets_sha, raw).
     bindr (ple_table Q FEATURES_PATH) (\<lambda>features.
     bindr (ple_sha_file Q FEATURES_PATH) (\<lambda>observed.
     if observed \<noteq> features_sha then Inl (ValueError ''processed feature artifact differs from protected baseline'')
     else bindr (ple_table Q ASSIGNMENT_PATH) (\<lambda>A.
     bindr (ple_sha_file Q ASSIGNMENT_PATH) (\<lambda>assignment_sha.
     bindr (split_sizes_changed A) (\<lambda>changed.
     if changed then Inl (ValueError ''existing grouped split sizes or partition coverage changed'')
     else bindr (ple_sha_file Q TRANSFORMATION_INVENTORY) (\<lambda>inventory.
     bindr (mapr (plan_smoke_view Q features A) (scf_views c)) (\<lambda>views.
     bindr (planning_context Q c views (features_sha, targets_sha) assignment_sha) (\<lambda>X.
     bindr (mapr (plan_smoke_condition Q X) (condition_requests c)) (\<lambda>planned.
     bindr (case commit_override of None \<Rightarrow> smoke_current_commit (ple_git Q)
       | Some h \<Rightarrow> if h = [] then smoke_current_commit (ple_git Q) else Inr h) (\<lambda>commit.
     bindr (validate_smoke_plan P (smoke_plan_of Q c X commit raw (skp_logical (ple_smoke Q) A) inventory
       (fold add_once (concat (map fst planned)) []) (map snd planned))) (\<lambda>plan.
     if map (\<lambda>c. (smc_model_id c, smc_view_id c)) (smp_conditions plan) \<noteq> expected_pairs
     then Inl (ValueError ''condition construction did not produce the canonical ten-condition order'') else Inr plan))))))))))))))"

section \<open>Publishing the plan\<close>

definition plan_destination :: "pilot_params \<Rightarrow> smoke_plan \<Rightarrow> string" where
  "plan_destination P plan = ''results/smoke/runtime/plans/'' @ smoke_plan_sha256 P plan @ ''.json''"

text \<open>
  \<open>write_plan\<close>: \<open>parse\<close> reads an envelope and \<open>render\<close> writes one; an unreadable file is moved aside to
  \<open>quarantine\<close>, and a valid one stays.
\<close>

definition write_plan ::
  "pilot_params \<Rightarrow> (string \<Rightarrow> plan_envelope result) \<Rightarrow> (plan_envelope \<Rightarrow> string) \<Rightarrow> string \<Rightarrow> smoke_plan
   \<Rightarrow> (string \<times> string) list \<Rightarrow> (string \<times> string) list \<times> string result" where
  "write_plan P parse render quarantine plan fs =
     (let dest = plan_destination P plan in
      case validate_envelope P \<lparr>env_plan_sha256 = smoke_plan_sha256 P plan, env_plan = plan\<rparr> of
        Inl e \<Rightarrow> (fs, Inl e)
      | Inr envelope \<Rightarrow>
        (case map_of fs dest of
           None \<Rightarrow> (AList.update dest (render envelope) fs, Inr dest)
         | Some bs \<Rightarrow>
           (case bindr (parse bs) (validate_envelope P) of
              Inl e \<Rightarrow> (AList.update dest (render envelope) (AList.update quarantine bs (AList.delete dest fs)), Inr dest)
            | Inr prior \<Rightarrow> if env_plan_sha256 prior \<noteq> env_plan_sha256 envelope
                then (fs, Inl (ValueError ''existing plan path contains a different valid plan'')) else (fs, Inr dest))))"

section \<open>Verification after planning\<close>

text \<open>The installed version of a package, and the two stats and the bytes of a checkpoint file in a read of it.\<close>

record runtime_world =
  rtw_targets :: "string option"
  rtw_version :: "string \<Rightarrow> string result"
  rtw_checkpoint :: "string \<Rightarrow> (fingerprint \<times> string \<times> fingerprint) result"

definition verify_condition ::
  "(string \<Rightarrow> string) \<Rightarrow> runtime_world \<Rightarrow> smoke_condition \<Rightarrow> (string \<times> fingerprint \<times> string) list
   \<Rightarrow> (string \<times> fingerprint \<times> string) list result" where
  "verify_condition sha W c stats =
     bindr (rtw_version W (smc_package_name c)) (\<lambda>version.
     if version \<noteq> smc_package_version c then Inl (ValueError (''frozen dependency mismatch for '' @ smc_model_id c))
     else case smc_checkpoint_identifier c of
       None \<Rightarrow> Inr stats
     | Some path \<Rightarrow> bindr (rtw_checkpoint W path) (\<lambda>(before, bs, after).
         bindr (verified_checkpoint_digest sha before bs after (or_default (smc_checkpoint_sha256 c) [])
           (map_of stats (smc_model_id c))) (\<lambda>(observed, entry).
         if Some observed \<noteq> smc_checkpoint_sha256 c
         then Inl (ValueError (''checkpoint digest differs from frozen plan for '' @ smc_model_id c))
         else if map_option (snd) (map_of stats (smc_model_id c)) \<notin> {None, Some observed}
         then Inl (ValueError (''checkpoint identity is inconsistent for '' @ smc_model_id c))
         else Inr (AList.update (smc_model_id c) entry stats))))"

fun verify_conditions ::
  "(string \<Rightarrow> string) \<Rightarrow> runtime_world \<Rightarrow> smoke_condition list \<Rightarrow> (string \<times> fingerprint \<times> string) list
   \<Rightarrow> (string \<times> fingerprint \<times> string) list result" where
  "verify_conditions sha W [] stats = Inr stats"
| "verify_conditions sha W (c # cs) stats = bindr (verify_condition sha W c stats) (verify_conditions sha W cs)"

definition verify_runtime_sources ::
  "(string \<Rightarrow> string) \<Rightarrow> runtime_world \<Rightarrow> smoke_plan \<Rightarrow> (string \<times> string) list result" where
  "verify_runtime_sources sha W plan = (case rtw_targets W of
     None \<Rightarrow> Inl (OSError ''targets.parquet'')
   | Some bs \<Rightarrow> if sha bs \<noteq> smp_target_artifact_sha256 plan
       then Inl (ValueError ''opaque target source bytes differ from the frozen plan identity'')
       else bindr (verify_conditions sha W (smp_conditions plan) []) (\<lambda>stats. Inr (map (\<lambda>(m, f, d). (m, d)) stats)))"

end
