(* ===== verification/Smoke_Evidence.thy ===== *)
theory Smoke_Evidence
  imports Smoke_Evaluation
begin

text \<open>
  \<open>src/schemaguard/experiments/evidence.py\<close>: the runtime estimate from the accepted timings of the
  adapters, the validation of the prediction and metric tables against the plan, and
  \<open>validate_smoke_report\<close> with its ten gates. Parsing of the JSON files into their records, reading a
  metric table and the seconds between two timestamps are arguments.
\<close>

section \<open>Parameters\<close>

record evidence_params =
  evd_smoke :: smoke_params
  evd_records :: "string \<Rightarrow> json list result"
  evd_report :: "string \<Rightarrow> run_report result"
  evd_comparison :: "string \<Rightarrow> foundation_comparison result"
  evd_split :: "string \<Rightarrow> split_validation result"
  evd_resume :: "string \<Rightarrow> resume_verification result"
  evd_duration :: "string \<Rightarrow> string \<Rightarrow> py_float result"
  evd_metric_row :: "(string \<times> cell) list \<Rightarrow> smoke_metric result"
  evd_paired_row :: "(string \<times> cell) list \<Rightarrow> paired_record result"

definition evd_pilot :: "evidence_params \<Rightarrow> pilot_params" where
  "evd_pilot D = skp_pilot (evd_smoke D)"

definition evd_sha :: "evidence_params \<Rightarrow> string \<Rightarrow> string" where
  "evd_sha D = skp_sha (evd_smoke D)"

definition file_at :: "files \<Rightarrow> string \<Rightarrow> string result" where
  "file_at fs path = of_option (OSError path) (map_of fs path)"

section \<open>The runtime estimate\<close>

definition ADAPTER_INVENTORY :: string where "ADAPTER_INVENTORY = ''artifacts/handoff/model_adapter_inventory.json''"

definition json_seconds :: "evidence_params \<Rightarrow> json \<Rightarrow> py_float option" where
  "json_seconds D v = (case v of JInt i \<Rightarrow> Some (of_int i) | JBool b \<Rightarrow> Some (if b then 1 else 0)
     | JFloat t \<Rightarrow> float_number (skp_number (evd_smoke D) t) | _ \<Rightarrow> None)"

text \<open>The seconds of a record that supports the condition.\<close>

definition supporting_seconds :: "evidence_params \<Rightarrow> smoke_condition \<Rightarrow> json \<Rightarrow> py_float option" where
  "supporting_seconds D c r = (case r of JObj kvs \<Rightarrow>
       if json_field ''model_id'' kvs = JStr (smc_model_id c) \<and> json_field ''package_version'' kvs = JStr (smc_package_version c)
          \<and> json_field ''device'' kvs = JStr (device_text (smc_device c)) \<and> json_field ''fixture_id'' kvs = JStr ''binary_numerical''
          \<and> json_field ''status'' kvs = JStr ''PASS''
       then (case json_seconds D (json_field ''runtime_seconds'' kvs) of Some x \<Rightarrow> if 0 < x then Some x else None | None \<Rightarrow> None)
       else None
     | _ \<Rightarrow> None)"

definition condition_seconds :: "evidence_params \<Rightarrow> json list \<Rightarrow> smoke_condition \<Rightarrow> (string \<times> py_float) result" where
  "condition_seconds D records c = (case List.map_filter (supporting_seconds D c) records of
     [] \<Rightarrow> Inl (ValueError (''no accepted binary-fixture runtime supports estimate for '' @ smc_model_id c))
   | xs \<Rightarrow> Inr (smc_condition_id c, Max (set xs)))"

text \<open>One task of the list schedule: the first of the less loaded CPU workers, or the GPU queue.\<close>

definition schedule_task ::
  "pilot_params \<Rightarrow> smoke_plan \<Rightarrow> (string \<times> py_float) list \<Rightarrow> task_spec \<Rightarrow> py_float \<times> py_float \<times> py_float
   \<Rightarrow> (py_float \<times> py_float \<times> py_float) result" where
  "schedule_task P plan seconds t = (\<lambda>(a, b, g).
     bindr (of_option (KeyError (ts_task_name t)) (by_key smc_task_name (smp_conditions plan) (ts_task_name t))) (\<lambda>c.
     bindr (of_option (KeyError (smc_condition_id c)) (map_of (rev seconds) (smc_condition_id c))) (\<lambda>d.
     Inr (if smc_device c = Cpu then (if a \<le> b then (pp_fl P (a + d), b, g) else (a, pp_fl P (b + d), g))
          else (a, b, pp_fl P (g + d))))))"

fun schedule_tasks ::
  "pilot_params \<Rightarrow> smoke_plan \<Rightarrow> (string \<times> py_float) list \<Rightarrow> task_spec list \<Rightarrow> py_float \<times> py_float \<times> py_float
   \<Rightarrow> (py_float \<times> py_float \<times> py_float) result" where
  "schedule_tasks P plan seconds [] loads = Inr loads"
| "schedule_tasks P plan seconds (t # ts) loads =
     bindr (schedule_task P plan seconds t loads) (\<lambda>loads'. schedule_tasks P plan seconds ts loads')"

definition ids_on :: "device_policy \<Rightarrow> smoke_plan \<Rightarrow> string list" where
  "ids_on d plan = map smc_condition_id (filter (\<lambda>c. smc_device c = d) (smp_conditions plan))"

definition estimate_smoke_runtime :: "evidence_params \<Rightarrow> files \<Rightarrow> smoke_plan \<Rightarrow> smoke_runtime_estimate result" where
  "estimate_smoke_runtime D fs plan = (let P = evd_pilot D in
     bindr (file_at fs ADAPTER_INVENTORY) (\<lambda>bs. bindr (evd_records D bs) (\<lambda>records.
     bindr (mapr (condition_seconds D records) (smp_conditions plan)) (\<lambda>seconds.
     bindr (smoke_scheduler_plan P plan) (\<lambda>(rp, identities).
     bindr (schedule_tasks P plan seconds (rp_tasks rp) (0, 0, 0)) (\<lambda>(a, b, g).
     validate_smoke_runtime_estimate P \<lparr>rte_source_inventory_sha256 = evd_sha D bs, rte_condition_seconds = seconds,
       rte_cpu_condition_ids = ids_on Cpu plan, rte_gpu_condition_ids = ids_on Cuda plan,
       rte_expected_cpu_seconds = max a b, rte_expected_gpu_seconds = g,
       rte_estimated_total_seconds = estimated_total P (max a b) g\<rparr>))))))"

section \<open>Prediction tables\<close>

definition report_files :: "run_report \<Rightarrow> prediction_file list" where
  "report_files r = concat (map crn_prediction_files (srr_conditions r))"

definition lineage_column_matches :: "frame \<Rightarrow> string \<Rightarrow> cell \<Rightarrow> bool" where
  "lineage_column_matches X column expected = (let cells = table_cells X column in
     if expected = CMissing then list_all (\<lambda>c. c = CMissing) cells
     else list_all (\<lambda>c. c \<noteq> CMissing) cells \<and> list_all (\<lambda>c. cell_eq c expected) cells)"

definition table_lineage :: "pilot_params \<Rightarrow> smoke_plan \<Rightarrow> smoke_condition \<Rightarrow> condition_run \<Rightarrow> (string \<times> cell) list" where
  "table_lineage P plan c run =
     [(''run_identity_sha256'', CStr (smoke_plan_sha256 P plan)), (''plan_sha256'', CStr (smoke_plan_sha256 P plan)),
      (''condition_id'', CStr (smc_condition_id c)), (''dataset_id'', CInt ''int'' SMOKE_DATASET_ID),
      (''model_id'', CStr (smc_model_id c)), (''view_id'', CStr (smc_view_id c)),
      (''device'', CStr (device_text (smc_device c))), (''seed'', CInt ''int'' (smc_seed c)),
      (''dataset_features_sha256'', CStr (smp_dataset_features_sha256 plan)),
      (''target_artifact_sha256'', CStr (smp_target_artifact_sha256 plan)),
      (''assignment_sha256'', CStr (smp_assignment_sha256 plan)),
      (''view_certificate_sha256'', CStr (smc_view_certificate_sha256 c)),
      (''view_features_sha256'', CStr (smc_view_features_sha256 c)), (''model_spec_sha256'', CStr (smc_model_spec_sha256 c)),
      (''planned_parameters_sha256'', CStr (smc_parameters_sha256 c)), (''observed_parameters_sha256'', CStr (smc_parameters_sha256 c)),
      (''checkpoint_sha256'', text_cell (smc_checkpoint_sha256 c)), (''source_commit'', CStr (smp_source_commit plan)),
      (''dependency_lock_sha256'', CStr (smp_dependency_lock_sha256 plan)),
      (''code_identity_sha256'', CStr (smp_code_identity_sha256 plan)),
      (''cache_identity_sha256'', CStr (crn_cache_identity_sha256 run))]"

definition finite_nonnegative :: "float_value \<Rightarrow> bool" where
  "finite_nonnegative v \<longleftrightarrow> (case float_number v of Some x \<Rightarrow> 0 \<le> x | None \<Rightarrow> False)"

text \<open>The checks of one table, in the order of the code.\<close>

definition identity_checks :: "evidence_params \<Rightarrow> smoke_plan \<Rightarrow> run_report \<Rightarrow> frame \<Rightarrow> (smoke_condition \<times> condition_run) result" where
  "identity_checks D plan r X =
     (if frame_columns X \<noteq> PREDICTION_COLUMNS \<or> row_count X = 0
      then Inl (ValueError ''prediction table has an invalid schema or no rows'')
      else case table_cells X ''condition_id'' of
        [] \<Rightarrow> Inl (IndexError ''single positional indexer is out-of-bounds'')
      | cell # _ \<Rightarrow> let cid = skp_str (evd_smoke D) cell in
        case (by_key smc_condition_id (smp_conditions plan) cid, by_key crn_condition_id (srr_conditions r) cid) of
          (Some c, Some run) \<Rightarrow> if crn_status run \<noteq> ''PASS'' then Inl (ValueError ''prediction table references an unknown condition'')
            else guards [(\<not> all_equal X ''condition_id'' (CStr cid), ValueError ''prediction table mixes condition identities''),
              (\<not> distinct (table_cells X ''row_id''), ValueError ''prediction table contains duplicate row IDs'')] (c, run)
        | _ \<Rightarrow> Inl (ValueError ''prediction table references an unknown condition''))"

definition partition_checks :: "evidence_params \<Rightarrow> smoke_plan \<Rightarrow> prediction_file \<Rightarrow> smoke_condition \<Rightarrow> frame \<Rightarrow> unit result" where
  "partition_checks D plan f c X =
     (if pfr_partition f \<notin> {''calibration'', ''test''} then Inl (ValueError ''prediction manifest names an unsupported partition'')
      else bindr (find_view plan (smc_view_id c)) (\<lambda>view.
      bindr (partition_entry (smv_partition_rows view) (pfr_partition f)) (\<lambda>n.
      if int (row_count X) \<noteq> n then Inl (ValueError ''prediction row count differs from the planned partition'')
      else bindr (row_id_sha256 (evd_smoke D) X) (\<lambda>ids. bindr (partition_entry (smv_partition_row_id view) (pfr_partition f)) (\<lambda>planned.
      guards [(ids \<noteq> planned, ValueError ''prediction row IDs differ from the planned partition''),
        (\<not> all_equal X ''partition'' (CStr (pfr_partition f)), ValueError ''prediction rows do not match their manifest partition'')] ())))))"

definition table_lineage_guards :: "pilot_params \<Rightarrow> smoke_plan \<Rightarrow> smoke_condition \<Rightarrow> condition_run \<Rightarrow> frame \<Rightarrow> (bool \<times> error) list" where
  "table_lineage_guards P plan c run X =
     map (\<lambda>(column, v). (\<not> lineage_column_matches X column v, ValueError (''prediction lineage differs from its plan in '' @ column)))
         (table_lineage P plan c run)
     @ [(\<not> all_equal X ''class_order'' (CStr ''0,1''), ValueError ''prediction class order is not canonical binary order'')]"

definition probability_checks :: "evidence_params \<Rightarrow> smoke_plan \<Rightarrow> frame \<Rightarrow> unit result" where
  "probability_checks D plan X = bindr (probability_rows (evd_smoke D) X) (\<lambda>rows.
     case unit_matrix rows of None \<Rightarrow> Inl (ValueError ''prediction table contains invalid probabilities'')
     | Some m \<Rightarrow> if off_simplex (evd_smoke D) (smp_probability_sum_tolerance plan) m
       then Inl (ValueError ''prediction table violates the frozen probability-sum tolerance'')
       else if \<not> all_equal X ''validation_status'' (CStr ''PASS'')
       then Inl (ValueError ''prediction table contains an unsuccessful validation status'')
       else bindr (skp_int64 (evd_smoke D) (table_cells X ''predicted_class'')) (\<lambda>classes.
         if classes \<noteq> map (\<lambda>r. int (arg_max r)) m then Inl (ValueError ''persisted predicted classes differ from probability argmax'')
         else Inr ()))"

definition validate_prediction_table ::
  "evidence_params \<Rightarrow> files \<Rightarrow> smoke_plan \<Rightarrow> run_report \<Rightarrow> string \<Rightarrow> unit result" where
  "validate_prediction_table D fs plan r path =
     bindr (of_option (RuntimeError ''StopIteration'') (find (\<lambda>f. pfr_relative_path f = path) (report_files r))) (\<lambda>f.
     if \<not> intact_file (evd_smoke D) fs path (pfr_sha256 f)
     then Inl (ValueError (''prediction output is absent or checksum-invalid: '' @ path))
     else bindr (bindr (file_at fs path) (skp_parquet (evd_smoke D))) (\<lambda>X.
     bindr (identity_checks D plan r X) (\<lambda>(c, run).
     bindr (partition_checks D plan f c X) (\<lambda>_.
     bindr (guards (table_lineage_guards (evd_pilot D) plan c run X) ()) (\<lambda>_.
     bindr (probability_checks D plan X) (\<lambda>_.
     guards (map (\<lambda>column. (\<not> list_all (\<lambda>x. finite_nonnegative (skp_numeric (evd_smoke D) x)) (table_cells X column),
          ValueError (''prediction resource field '' @ column @ '' is invalid''))) [''fit_time_seconds'', ''prediction_time_seconds'']
       @ [(int (row_count X) \<noteq> pfr_row_count f, ValueError ''prediction table row count differs from its manifest'')]) ()))))))"

definition validate_prediction_tables :: "evidence_params \<Rightarrow> files \<Rightarrow> smoke_plan \<Rightarrow> run_report \<Rightarrow> nat result" where
  "validate_prediction_tables D fs plan r =
     (let paths = map pfr_relative_path (report_files r);
          expected = (if list_all (\<lambda>c. crn_status c = ''PASS'') (srr_conditions r) then 20 else length paths) in
      if length paths \<noteq> expected \<or> \<not> distinct paths
      then Inl (ValueError ''prediction artifact count is incomplete or contains duplicate paths'')
      else bindr (validate_all (validate_prediction_table D fs plan r) paths) (\<lambda>_. Inr (length paths)))"

section \<open>Metric tables\<close>

definition METRICS_PATH :: string where "METRICS_PATH = ''results/smoke/metrics/model_metrics.parquet''"
definition PAIRED_PATH :: string where "PAIRED_PATH = ''results/smoke/metrics/paired_view_metrics.parquet''"

definition METRIC_FIELDS :: "string list" where
  "METRIC_FIELDS = [''model_id'', ''view_id'', ''device'', ''partition'', ''row_count'', ''brier_score'', ''log_loss'', ''accuracy'',
     ''balanced_accuracy'', ''roc_auc'', ''roc_auc_status'', ''expected_calibration_error'', ''prediction_sha256'', ''target_artifact_sha256'']"

definition PAIRED_FIELDS :: "string list" where
  "PAIRED_FIELDS = [''model_id'', ''device'', ''partition'', ''row_count'', ''sii_mean_js_divergence'', ''sii_median_js_divergence'',
     ''sii_p90_js_divergence'', ''sii_max_js_divergence'', ''label_flip_rate'', ''maximum_absolute_probability_difference'',
     ''mean_absolute_probability_difference'', ''metric_deltas_v01_minus_v00'', ''v00_prediction_sha256'', ''v01_prediction_sha256'']"

definition table_row :: "frame \<Rightarrow> nat \<Rightarrow> (string \<times> cell) list" where
  "table_row X i = map (\<lambda>c. (co_name c, co_cells c ! i)) X"

definition is_finite :: "float_value \<Rightarrow> bool" where
  "is_finite v = (float_number v \<noteq> None)"

definition is_nan :: "float_value \<Rightarrow> bool" where
  "is_nan v = (v = NonFinite ''nan'')"

definition auc_states_disagree :: "evidence_params \<Rightarrow> frame \<Rightarrow> bool" where
  "auc_states_disagree D X = list_ex (\<lambda>(a, s). let v = skp_numeric (evd_smoke D) a in
       if cell_eq s (CStr ''defined'') then \<not> is_finite v else \<not> is_nan v)
     (zip (table_cells X ''roc_auc'') (table_cells X ''roc_auc_status''))"

definition metric_frame_guards :: "evidence_params \<Rightarrow> run_report \<Rightarrow> frame \<Rightarrow> frame \<Rightarrow> (bool \<times> error) list" where
  "metric_frame_guards D r X Y =
     [(row_count X \<noteq> length (srr_metrics r) \<or> row_count Y \<noteq> length (srr_paired_metrics r),
        ValueError ''metric table row counts differ from strict evidence contracts''),
      (frame_columns X \<noteq> METRIC_FIELDS \<or> frame_columns Y \<noteq> PAIRED_FIELDS,
        ValueError ''metric Parquet columns differ from their strict contracts''),
      (\<not> set (table_cells X ''roc_auc_status'') \<subseteq> {CStr ''defined'', CStr ''undefined_single_class''},
        ValueError ''AUROC undefined states are not represented explicitly'')]
     @ map (\<lambda>column. (\<not> list_all (\<lambda>c. is_finite (skp_numeric (evd_smoke D) c)) (table_cells X column),
         ValueError (''metric column '' @ column @ '' has non-finite or nonnumeric values'')))
         [''brier_score'', ''log_loss'', ''accuracy'', ''balanced_accuracy'', ''expected_calibration_error'']
     @ [(auc_states_disagree D X, ValueError ''AUROC values and undefined-state declarations disagree'')]"

definition same_paired :: "paired_record \<Rightarrow> paired_record \<Rightarrow> bool" where
  "same_paired a b \<longleftrightarrow> a\<lparr>prc_metric_deltas := []\<rparr> = b\<lparr>prc_metric_deltas := []\<rparr> \<and> set (prc_metric_deltas a) = set (prc_metric_deltas b)"

definition check_metric_row :: "evidence_params \<Rightarrow> frame \<Rightarrow> nat \<times> smoke_metric \<Rightarrow> unit result" where
  "check_metric_row D X = (\<lambda>(i, expected).
     let cells = map (\<lambda>(k, c). (k, if k = ''roc_auc'' \<and> is_nan (skp_numeric (evd_smoke D) c) then CMissing else c)) (table_row X i) in
     bindr (bindr (evd_metric_row D cells) validate_smoke_metric) (\<lambda>observed.
     if observed \<noteq> expected then Inl (ValueError ''metric table contents differ from their strict run-report records'') else Inr ()))"

definition check_paired_row :: "evidence_params \<Rightarrow> frame \<Rightarrow> nat \<times> paired_record \<Rightarrow> unit result" where
  "check_paired_row D X = (\<lambda>(i, expected).
     bindr (bindr (evd_paired_row D (table_row X i)) validate_paired_record) (\<lambda>observed.
     if \<not> same_paired observed expected then Inl (ValueError ''paired-metric table differs from strict run-report records'') else Inr ()))"

definition validate_metric_tables :: "evidence_params \<Rightarrow> files \<Rightarrow> run_report \<Rightarrow> (nat \<times> nat) result" where
  "validate_metric_tables D fs r =
     (if srr_metrics r = []
      then (if srr_metric_table_sha256 r \<noteq> None \<or> srr_paired_metric_table_sha256 r \<noteq> None
            then Inl (ValueError ''metric checksums exist without metric records'') else Inr (0, 0))
      else bindr (file_at fs METRICS_PATH) (\<lambda>mb.
      if Some (evd_sha D mb) \<noteq> srr_metric_table_sha256 r then Inl (ValueError ''metric table checksum differs from the run report'')
      else bindr (file_at fs PAIRED_PATH) (\<lambda>pb.
      if Some (evd_sha D pb) \<noteq> srr_paired_metric_table_sha256 r
      then Inl (ValueError ''paired metric table checksum differs from the run report'')
      else bindr (skp_parquet (evd_smoke D) mb) (\<lambda>X. bindr (skp_parquet (evd_smoke D) pb) (\<lambda>Y.
      bindr (guards (metric_frame_guards D r X Y) ()) (\<lambda>_.
      bindr (validate_all (check_metric_row D X) (enumerate 0 (srr_metrics r))) (\<lambda>_.
      bindr (validate_all (check_paired_row D Y) (enumerate 0 (srr_paired_metrics r))) (\<lambda>_.
      Inr (row_count X, row_count Y)))))))))"

section \<open>Bound artifacts\<close>

definition comparison_path :: "run_report \<Rightarrow> string" where
  "comparison_path r = ''results/smoke/runtime/protected_foundation_hash_comparison_''
     @ (if srr_resume r then ''resume'' else ''cold'') @ ''.json''"

definition SPLIT_VALIDATION_PATH :: string where "SPLIT_VALIDATION_PATH = ''results/smoke/runtime/grouped_split_validation.json''"
definition RESUME_VERIFICATION_PATH :: string where "RESUME_VERIFICATION_PATH = ''results/smoke/runtime/resume_verification.json''"

definition bound_comparison :: "evidence_params \<Rightarrow> files \<Rightarrow> smoke_plan \<Rightarrow> run_report \<Rightarrow> foundation_comparison option result" where
  "bound_comparison D fs plan r =
     (case map_of fs (comparison_path r) of
        None \<Rightarrow> if srr_protected_comparison_sha256 r \<noteq> None
          then Inl (ValueError ''run report references a missing protected foundation comparison'') else Inr None
      | Some bs \<Rightarrow> bindr (bindr (evd_comparison D bs) validate_foundation_comparison) (\<lambda>c. guards
         [(pfc_plan_sha256 c \<noteq> smoke_plan_sha256 (evd_pilot D) plan,
            ValueError ''protected foundation comparison belongs to another smoke plan''),
          (srr_protected_comparison_sha256 r \<noteq> Some (evd_sha D bs),
            ValueError ''run report protected foundation checksum is invalid''),
          (srr_protected_unchanged r \<noteq> (pfc_status c = ''PASS''),
            ValueError ''run report protected foundation status differs from its comparison'')] (Some c)))"

definition bound_split :: "evidence_params \<Rightarrow> files \<Rightarrow> smoke_plan \<Rightarrow> run_report \<Rightarrow> split_validation option result" where
  "bound_split D fs plan r =
     (case map_of fs SPLIT_VALIDATION_PATH of
        None \<Rightarrow> if srr_split_validation_sha256 r \<noteq> None
          then Inl (ValueError ''run report references a missing protected split-validation record'') else Inr None
      | Some bs \<Rightarrow> bindr (bindr (evd_split D bs) validate_split_validation) (\<lambda>v. guards
         [(srr_split_validation_sha256 r \<noteq> Some (evd_sha D bs), ValueError ''run report protected split-validation checksum is invalid''),
          (psv_assignment_sha256 v \<noteq> smp_assignment_sha256 plan,
            ValueError ''protected split validation belongs to another assignment'')] (Some v)))"

definition cold_path :: "evidence_params \<Rightarrow> smoke_plan \<Rightarrow> string" where
  "cold_path D plan = ''results/smoke/runs/'' @ smoke_plan_sha256 (evd_pilot D) plan @ ''_cold.json''"

definition resume_record_differs :: "resume_verification \<Rightarrow> run_report \<Rightarrow> bool" where
  "resume_record_differs v r \<longleftrightarrow> rsv_executed_conditions v \<noteq> srr_executed_conditions r
     \<or> rsv_validated_cache_hits v \<noteq> srr_validated_cache_hits r \<or> rsv_failed_conditions v \<noteq> srr_failed_conditions r
     \<or> rsv_blocked_conditions v \<noteq> srr_blocked_conditions r \<or> rsv_network_attempt_count v \<noteq> srr_network_attempt_count r
     \<or> rsv_duplicate_prediction_artifacts v \<noteq> srr_duplicate_prediction_artifacts r
     \<or> rsv_result_rewrites v \<noteq> srr_result_rewrites r
     \<or> rsv_prediction_hashes_unchanged v \<noteq> srr_hashes_unchanged r \<or> rsv_prediction_mtimes_unchanged v \<noteq> srr_mtimes_unchanged r"

definition hash_dict_sha256 :: "evidence_params \<Rightarrow> (string \<times> string) list \<Rightarrow> string" where
  "hash_dict_sha256 D d = sha256_canonical_json (evd_sha D) (text_dict d)"

definition check_cold_run :: "evidence_params \<Rightarrow> files \<Rightarrow> smoke_plan \<Rightarrow> run_report \<Rightarrow> resume_verification \<Rightarrow> unit result" where
  "check_cold_run D fs plan r v =
     (if \<not> intact_file (evd_smoke D) fs (cold_path D plan) (rsv_cold_run_report_sha256 v)
      then Inl (ValueError ''resume verification does not identify the cold-run report'')
      else bindr (bindr (file_at fs (cold_path D plan)) (evd_report D)) (\<lambda>parsed.
      bindr (validate_run_report (evd_pilot D) parsed) (\<lambda>cold.
      if srr_resume cold \<or> srr_plan_sha256 cold \<noteq> smoke_plan_sha256 (evd_pilot D) plan
      then Inl (ValueError ''resume run has no matching cold-run source'')
      else bindr (evd_duration D (srr_started_at cold) (srr_ended_at cold)) (\<lambda>duration. guards
        [(srr_cold_run_wall_seconds r \<noteq> Some duration, ValueError ''resume report cold-run duration differs from the cold report''),
         (map crn_status (srr_conditions cold) \<noteq> map crn_status (srr_conditions r),
           ValueError ''resume changed one or more model-condition outcomes''),
         (resume_record_differs v r, ValueError ''resume report differs from its strict verification record'')] ()))))"

definition bound_resume :: "evidence_params \<Rightarrow> files \<Rightarrow> smoke_plan \<Rightarrow> run_report \<Rightarrow> bool result" where
  "bound_resume D fs plan r =
     (case srr_resume_verification_sha256 r of
        None \<Rightarrow> Inr False
      | Some digest \<Rightarrow> if \<not> srr_resume r then Inr False
        else if \<not> intact_file (evd_smoke D) fs RESUME_VERIFICATION_PATH digest
        then Inl (ValueError ''resume verification artifact is absent or checksum-invalid'')
        else bindr (bindr (file_at fs RESUME_VERIFICATION_PATH) (evd_resume D)) (\<lambda>parsed.
        bindr (validate_resume_verification parsed) (\<lambda>v.
        bindr (guards
          [(rsv_plan_sha256 v \<noteq> smoke_plan_sha256 (evd_pilot D) plan, ValueError ''resume verification belongs to another plan''),
           (Some (rsv_cold_run_report_sha256 v) \<noteq> srr_cold_run_report_sha256 r,
             ValueError ''resume verification references another cold report''),
           (Some (hash_dict_sha256 D (rsv_before_hashes v)) \<noteq> srr_hashes_before_sha256 r
             \<or> Some (hash_dict_sha256 D (rsv_after_hashes v)) \<noteq> srr_hashes_after_sha256 r,
             ValueError ''resume hash summaries differ from the verification artifact'')] ()) (\<lambda>_.
        bindr (check_cold_run D fs plan r v) (\<lambda>_. Inr (rsv_status v = ''PASS''))))))"

section \<open>The gates\<close>

definition or_hash :: "string option \<Rightarrow> string \<Rightarrow> string" where
  "or_hash h d = (case h of None \<Rightarrow> d | Some s \<Rightarrow> if s = [] then d else s)"

definition gate :: "string \<Rightarrow> string \<Rightarrow> string \<Rightarrow> string \<Rightarrow> smoke_gate" where
  "gate name res evidence detail = \<lparr>sgt_gate_id = name, sgt_result = res, sgt_evidence_sha256 = evidence, sgt_detail = detail\<rparr>"

definition pass_or :: "string \<Rightarrow> bool \<Rightarrow> string" where
  "pass_or other b = (if b then ''PASS'' else other)"

definition split_detail :: "split_validation option \<Rightarrow> string" where
  "split_detail v = (case v of None \<Rightarrow> ''Phase 01 split validation record is absent''
     | Some x \<Rightarrow> if psv_status x = ''PASS'' then ''grouped split and duplicate-leakage baseline revalidated''
         else or_hash (psv_failure_reason x) ''split validation did not pass'')"

definition smoke_gates ::
  "evidence_params \<Rightarrow> smoke_plan \<Rightarrow> run_report \<Rightarrow> string \<Rightarrow> nat \<Rightarrow> nat \<times> nat \<Rightarrow> foundation_comparison option
   \<Rightarrow> split_validation option \<Rightarrow> bool \<Rightarrow> smoke_gate list" where
  "smoke_gates D plan r report_sha predictions metrics comparison split resumed =
     (let plan_sha = smoke_plan_sha256 (evd_pilot D) plan;
          kept = (case comparison of None \<Rightarrow> False | Some c \<Rightarrow> pfc_status c = ''PASS'');
          split_ok = (case split of None \<Rightarrow> False | Some v \<Rightarrow> psv_status v = ''PASS'');
          mode_ok = (\<not> srr_resume r \<or> resumed) in
     [gate ''S01'' ''PASS'' report_sha ''strict plan, report, scheduler identity, and ten-condition order validated'',
      gate ''S02'' ''PASS'' plan_sha ''all ten conditions are accounted for with canonical cache identities'',
      gate ''S03'' ''PASS'' report_sha
        (show_nat predictions @ '' prediction artifacts passed independent lineage and probability validation''),
      gate ''S04'' ''PASS'' (or_hash (srr_metric_table_sha256 r) plan_sha)
        (show_nat (fst metrics) @ '' metric and '' @ show_nat (snd metrics) @ '' paired records match strict report values''),
      gate ''S05'' (pass_or ''FAIL'' kept) (or_hash (srr_protected_comparison_sha256 r) plan_sha)
        (if kept then ''Phase 01 hashes independently validated''
         else ''Phase 01 comparison is absent or records changed protected artifacts''),
      gate ''S06'' (pass_or ''NOT_VERIFIED'' split_ok) (or_hash (srr_split_validation_sha256 r) (srr_plan_sha256 r)) (split_detail split),
      gate ''S07'' (pass_or ''FAIL'' (srr_network_attempt_count r = 0)) (srr_plan_sha256 r)
        (if srr_network_attempt_count r = 0 then ''network access remained unused''
         else ''one or more prohibited network attempts were recorded''),
      gate ''S08'' (pass_or ''FAIL'' (srr_labels_opened_after_predictions r)) (srr_plan_sha256 r)
        ''test-label access occurred only after model predictions completed'',
      gate ''S09'' (pass_or ''FAIL'' mode_ok) (or_hash (srr_resume_verification_sha256 r) (srr_plan_sha256 r))
        (if mode_ok then ''cold/resume behavior matches the recorded execution mode''
         else ''resume did not satisfy its no-work, no-network, no-rewrite acceptance''),
      gate ''S10'' (pass_or ''FAIL'' (srr_status r = ''PASS_PENDING_REVIEW'')) report_sha (''overall smoke result: '' @ srr_status r)])"

section \<open>The validation\<close>

definition same_estimate :: "smoke_runtime_estimate \<Rightarrow> smoke_runtime_estimate \<Rightarrow> bool" where
  "same_estimate a b \<longleftrightarrow> a\<lparr>rte_condition_seconds := []\<rparr> = b\<lparr>rte_condition_seconds := []\<rparr>
     \<and> set (rte_condition_seconds a) = set (rte_condition_seconds b)"

definition report_identity :: "evidence_params \<Rightarrow> files \<Rightarrow> smoke_plan \<Rightarrow> run_report \<Rightarrow> unit result" where
  "report_identity D fs plan r = (let P = evd_pilot D in
     if srr_plan_sha256 r \<noteq> smoke_plan_sha256 P plan \<or> srr_source_commit r \<noteq> smp_source_commit plan
     then Inl (ValueError ''run report does not match the frozen plan/source identity'')
     else bindr (estimate_smoke_runtime D fs plan) (\<lambda>estimate.
     if \<not> same_estimate (srr_runtime_estimate r) estimate
     then Inl (ValueError ''run report runtime estimate differs from accepted probe evidence'')
     else if map crn_condition_id (srr_conditions r) \<noteq> map smc_condition_id (smp_conditions plan)
     then Inl (ValueError ''run report condition identities differ from the plan'')
     else bindr (smoke_scheduler_plan P plan) (\<lambda>(rp, identities). guards
       [(srr_scheduler_plan_sha256 r \<noteq> plan_hash (pp_sha P) (pp_frepr P) rp,
          ValueError ''run report scheduler plan hash differs from the recomputed plan''),
        (map (Some \<circ> crn_cache_identity_sha256) (srr_conditions r)
           \<noteq> map (\<lambda>c. map_option (cache_key (pp_sha P)) (map_of (rev identities) (smc_condition_id c))) (smp_conditions plan),
          ValueError ''run report cache identity differs from the frozen condition'')] ())))"

definition label_guards :: "run_report \<Rightarrow> nat \<Rightarrow> nat \<times> nat \<Rightarrow> (bool \<times> error) list" where
  "label_guards r predictions metrics =
     [(srr_labels_evaluated r \<and> (predictions \<noteq> 20 \<or> fst metrics \<noteq> 20 \<or> snd metrics \<noteq> 10),
        ValueError ''label evaluation is recorded without a complete prediction matrix''),
      (\<not> srr_labels_evaluated r \<and> (fst metrics \<noteq> 0 \<or> snd metrics \<noteq> 0),
        ValueError ''metrics exist although final-boundary label evaluation is not recorded''),
      (\<not> srr_labels_opened_after_predictions r, ValueError ''label-access ordering is not attested'')]"

definition validate_smoke_report ::
  "evidence_params \<Rightarrow> files \<Rightarrow> smoke_plan \<Rightarrow> string \<Rightarrow> (run_report \<times> smoke_validation) result" where
  "validate_smoke_report D fs plan report_path =
     bindr (file_at fs report_path) (\<lambda>bs.
     bindr (bindr (evd_report D bs) (validate_run_report (evd_pilot D))) (\<lambda>r.
     bindr (report_identity D fs plan r) (\<lambda>_.
     bindr (validate_prediction_tables D fs plan r) (\<lambda>predictions.
     bindr (validate_metric_tables D fs r) (\<lambda>metrics.
     bindr (guards (label_guards r predictions metrics) ()) (\<lambda>_.
     bindr (bound_comparison D fs plan r) (\<lambda>comparison.
     bindr (bound_split D fs plan r) (\<lambda>split.
     bindr (bound_resume D fs plan r) (\<lambda>resumed.
     let gates = smoke_gates D plan r (evd_sha D bs) predictions metrics comparison split resumed in
     bindr (validate_smoke_validation
       \<lparr>svl_status = (if list_all (\<lambda>g. sgt_result g = ''PASS'') gates then ''PASS'' else ''FAIL''),
        svl_plan_sha256 = smoke_plan_sha256 (evd_pilot D) plan, svl_run_report_sha256 = evd_sha D bs,
        svl_prediction_count = int predictions, svl_metric_record_count = int (fst metrics),
        svl_paired_metric_count = int (snd metrics), svl_gates = gates\<rparr>) (\<lambda>validation. Inr (r, validation)))))))))))"

end
