(* ===== verification/Smoke_Demo.thy ===== *)
theory Smoke_Demo
  imports Smoke_Run_Facts Smoke_Plan_Build Smoke_Evidence Pilot_Demo Evidence_Properties
begin

text \<open>
  An accepted smoke plan, the concrete input of the witnesses. The digest of the identity of a
  condition and of a task is its position in the list of their twenty texts; every other text has the
  digest of the position behind that list. A digest therefore never collides on those texts.
\<close>

section \<open>Conditions\<close>

definition smoke_other :: string where
  "smoke_other = number_sha 21"

definition demo_smoke_base :: "string \<times> string \<Rightarrow> smoke_condition" where
  "demo_smoke_base = (\<lambda>(model, view). let foundation = model \<in> set FOUNDATION_MODELS in
     \<lparr>smc_condition_id = [], smc_task_name = smoke_task_name model view, smc_model_id = model, smc_package_name = ''package'',
      smc_package_version = ''1'', smc_dataset_features_sha256 = smoke_other, smc_target_artifact_sha256 = smoke_other,
      smc_view_id = view, smc_device = smoke_device model, smc_precision_policy = (if foundation then ''auto'' else ''native''),
      smc_seed = SMOKE_SEED, smc_model_spec_sha256 = smoke_other, smc_parameters_sha256 = smoke_other, smc_model_parameters = [],
      smc_preprocessing = ''none'', smc_checkpoint_identifier = (if foundation then Some ''checkpoint'' else None),
      smc_checkpoint_sha256 = (if foundation then Some smoke_other else None), smc_view_certificate_sha256 = smoke_other,
      smc_view_features_sha256 = smoke_other, smc_split_sha256 = smoke_other, smc_dependency_lock_sha256 = smoke_other,
      smc_source_implementation_sha256 = smoke_other\<rparr>)"

definition demo_identity_text :: "string \<times> string \<Rightarrow> string" where
  "demo_identity_text p = canonical_text (condition_identity_json (demo_smoke_base p))"

definition demo_task_json :: "string \<times> string \<Rightarrow> json" where
  "demo_task_json p = JObj (zip task_field_names [JStr (smoke_task_name (fst p) (snd p)), JStr smoke_other,
     JStr (operation_text SyntheticPayload), JStr smoke_other, JFloat ''1.0'', JFloat ''1.0''])"

definition demo_smoke_texts :: "string list" where
  "demo_smoke_texts = map demo_identity_text expected_pairs @ map (\<lambda>p. canonical_text (demo_task_json p)) expected_pairs"

definition smoke_sha :: "string \<Rightarrow> string" where
  "smoke_sha s = number_sha (Suc (index_of demo_smoke_texts s))"

definition demo_smoke_pilot :: pilot_params where
  "demo_smoke_pilot = demo_pilot smoke_sha"

definition demo_smoke_condition :: "string \<times> string \<Rightarrow> smoke_condition" where
  "demo_smoke_condition p = with_condition_id demo_smoke_pilot (demo_smoke_base p)"

section \<open>The plan\<close>

definition demo_smoke_view :: "string \<Rightarrow> smoke_view" where
  "demo_smoke_view view = (let each = map (\<lambda>p. (p, smoke_other)) ALL_PARTITIONS in
     \<lparr>smv_view_id = view, smv_view_name = smoke_view_name view, smv_source_hash = smoke_other, smv_output_hash = smoke_other,
      smv_certificate_sha256 = smoke_other, smv_certificate_ids = [smoke_other, smoke_other, smoke_other],
      smv_features_sha256 = smoke_other, smv_partition_feature = each, smv_partition_feature_file = each,
      smv_partition_certificate_file = map (map_prod id Some) each, smv_manifest_sha256 = Some smoke_other,
      smv_partition_row_id = each, smv_partition_rows = map (\<lambda>p. (p, 1)) ALL_PARTITIONS\<rparr>)"

definition demo_smoke_plan :: "int \<Rightarrow> smoke_plan" where
  "demo_smoke_plan timeout =
     \<lparr>smp_source_commit = demo_commit, smp_code_identity_sha256 = smoke_other, smp_dependency_lock_sha256 = smoke_other,
      smp_dataset_features_sha256 = smoke_other, smp_dataset_source_sha256 = smoke_other, smp_target_artifact_sha256 = smoke_other,
      smp_assignment_sha256 = smoke_other, smp_assignment_logical_sha256 = smoke_other,
      smp_transformation_inventory_sha256 = smoke_other, smp_configuration_identity_sha256 = smoke_other,
      smp_output_path_policy_sha256 = smoke_other, smp_registry_parameter_decisions = SMOKE_REGISTRY_DECISIONS,
      smp_views = map demo_smoke_view SMOKE_VIEW_ORDER, smp_conditions = map demo_smoke_condition expected_pairs,
      smp_log_loss_epsilon = 1/1000, smp_probability_sum_tolerance = 1/100000, smp_reconstruction_rtol = 0,
      smp_reconstruction_atol = 0, smp_ece_bins = 10, smp_maximum_ram_mib = 1024, smp_maximum_vram_mib = 1024,
      smp_minimum_gpu_headroom_mib = 512, smp_cpu_timeout_seconds = 60, smp_cuda_timeout_seconds = timeout\<rparr>"

section \<open>The digests\<close>

lemma expected_pairs_list: "expected_pairs = [(''LR-1.9'', ''V00''), (''LR-1.9'', ''V01''), (''CAT-1.2'', ''V00''), (''CAT-1.2'', ''V01''),
    (''XGB-3.4'', ''V00''), (''XGB-3.4'', ''V01''), (''TPFN3-8.5'', ''V00''), (''TPFN3-8.5'', ''V01''), (''TICL2-2.2'', ''V00''), (''TICL2-2.2'', ''V01'')]"
  by (simp add: expected_pairs_def SMOKE_MODEL_ORDER_def SMOKE_VIEW_ORDER_def)

lemma distinct_pairs: "distinct expected_pairs"
  by (simp add: expected_pairs_list)

lemma length_pairs: "length expected_pairs = 10"
  by (simp add: expected_pairs_list)

lemma condition_identity_facts: "length condition_identity_names = 18" "distinct condition_identity_names"
    "length (condition_identity_values c) = 18" "list_all atomic (condition_identity_values c)"
  by (simp_all add: condition_identity_names_def condition_identity_values_def json_text_option_def atomic_def split: option.split)

lemma one_text: "float_text ''1.0''"
  by (simp add: float_text_def num_char_def is_digit_def)

lemma wf_condition_identity [simp]: "wf_json (condition_identity_json c)"
  by (auto simp: condition_identity_json_def condition_identity_names_def condition_identity_values_def json_text_option_def split: option.split)

lemma wf_demo_task [simp]: "wf_json (demo_task_json p)"
  by (auto simp: demo_task_json_def task_field_names_def one_text)

lemma smoke_identity_text_inj:
  "canonical_text (condition_identity_json c) = canonical_text (condition_identity_json d)
   \<longleftrightarrow> condition_identity_values c = condition_identity_values d"
  using canonicalize_flat_record_inj [of condition_identity_names "condition_identity_values c" "condition_identity_values d"]
  by (auto simp: canonical_text_inj condition_identity_facts condition_identity_json_def [symmetric]) (simp add: condition_identity_json_def)

lemma demo_identity_inj: "inj_on demo_identity_text (set expected_pairs)"
  by (rule inj_onI) (auto simp: demo_identity_text_def smoke_identity_text_inj condition_identity_values_def demo_smoke_base_def Let_def)

lemma demo_task_inj: "inj_on (\<lambda>p. canonical_text (demo_task_json p)) (set expected_pairs)"
proof (rule inj_onI)
  fix p q assume pq: "p \<in> set expected_pairs" "q \<in> set expected_pairs" and eq: "canonical_text (demo_task_json p) = canonical_text (demo_task_json q)"
  from eq have "canonicalize (demo_task_json p) = canonicalize (demo_task_json q)" by (simp add: canonical_text_inj)
  from canonicalize_field [OF this [unfolded demo_task_json_def], of "''task_name''"]
  have "smoke_task_name (fst p) (snd p) = smoke_task_name (fst q) (snd q)" by (simp add: task_field_names_def)
  moreover have "inj_on (\<lambda>p. smoke_task_name (fst p) (snd p)) (set expected_pairs)"
    by (simp add: expected_pairs_list smoke_task_name_def)
  ultimately show "p = q" using pq by (auto dest: inj_onD)
qed

lemma identity_object: "condition_identity_json c = JObj (zip condition_identity_names (condition_identity_values c))"
    "length (zip condition_identity_names (condition_identity_values c)) = 18"
  by (simp_all add: condition_identity_json_def condition_identity_facts)

lemma task_object: "\<exists>kvs. demo_task_json p = JObj kvs \<and> length kvs = 6"
  by (simp add: demo_task_json_def task_field_names_def)

lemma not_identity_text:
  assumes "wf_json (JObj kvs)" and "length kvs \<noteq> 18"
  shows "canonical_text (JObj kvs) \<noteq> demo_identity_text p"
proof
  assume "canonical_text (JObj kvs) = demo_identity_text p"
  then have "length kvs = 18"
    using canonical_text_length [OF _ assms(1) wf_condition_identity [unfolded identity_object(1)]]
    by (simp only: demo_identity_text_def identity_object)
  with assms(2) show False ..
qed

lemma not_task_text:
  assumes "wf_json (JObj kvs)" and "length kvs \<noteq> 6"
  shows "canonical_text (JObj kvs) \<noteq> canonical_text (demo_task_json p)"
proof
  obtain ts where ts: "demo_task_json p = JObj ts" "length ts = 6" using task_object by blast
  assume "canonical_text (JObj kvs) = canonical_text (demo_task_json p)"
  then have "length kvs = length ts"
    using canonical_text_length [OF _ assms(1)] wf_demo_task [of p] by (simp only: ts(1))
  with ts(2) assms(2) show False by simp
qed

lemma demo_text_lengths: "demo_identity_text p \<noteq> canonical_text (demo_task_json q)"
proof -
  have "wf_json (JObj (zip condition_identity_names (condition_identity_values (demo_smoke_base p))))"
    using wf_condition_identity [of "demo_smoke_base p"] by (simp only: identity_object(1))
  from not_task_text [OF this, of q] identity_object(2) [of "demo_smoke_base p"] show ?thesis
    by (simp only: demo_identity_text_def identity_object(1)) simp
qed

lemma distinct_demo_texts: "distinct demo_smoke_texts" and length_demo_smoke: "length demo_smoke_texts = 20"
  using demo_identity_inj demo_task_inj demo_text_lengths
  by (auto simp: demo_smoke_texts_def distinct_map distinct_pairs length_pairs)

lemma smoke_sha_ok [simp]: "is_sha256 (smoke_sha s)" "is_sha256 smoke_other"
  by (simp_all add: smoke_sha_def smoke_other_def number_sha_ok)

lemma smoke_sha_inj: "inj_on smoke_sha (set demo_smoke_texts)"
proof (rule inj_onI)
  fix s t assume st: "s \<in> set demo_smoke_texts" "t \<in> set demo_smoke_texts" and "smoke_sha s = smoke_sha t"
  moreover have "index_of demo_smoke_texts s < 20" "index_of demo_smoke_texts t < 20"
    using index_of_less [OF st(1)] index_of_less [OF st(2)] length_demo_smoke by simp_all
  ultimately have "index_of demo_smoke_texts s = index_of demo_smoke_texts t"
    using number_sha_inj [of "Suc (index_of demo_smoke_texts s)" "Suc (index_of demo_smoke_texts t)"] by (simp add: smoke_sha_def)
  then show "s = t" using index_of_less st by metis
qed

lemma smoke_sha_other:
  assumes "s \<notin> set demo_smoke_texts"
  shows "smoke_sha s = smoke_other"
proof -
  have "index_of demo_smoke_texts s = length demo_smoke_texts"
    unfolding index_of_def using assms by (subst takeWhile_eq_all_conv [THEN iffD2]) auto
  then show ?thesis by (simp add: smoke_sha_def smoke_other_def length_demo_smoke)
qed

text \<open>Only an object with eighteen or with six fields can be in the list.\<close>

lemma other_object:
  assumes "wf_json (JObj kvs)" and "length kvs \<noteq> 18" and "length kvs \<noteq> 6"
  shows "sha256_canonical_json smoke_sha (JObj kvs) = smoke_other"
  unfolding sha256_canonical_json_def using not_identity_text [OF assms(1,2)] not_task_text [OF assms(1,3)]
  by (intro smoke_sha_other) (auto simp: demo_smoke_texts_def)

section \<open>The plan is accepted\<close>

lemma demo_pilot_fields [simp]: "pp_sha demo_smoke_pilot = smoke_sha" "pp_fl demo_smoke_pilot x = x" "pp_frepr demo_smoke_pilot x = ''1.0''"
    "pp_float demo_smoke_pilot x = JFloat ''1.0''"
  by (simp_all add: demo_smoke_pilot_def demo_pilot_def pp_float_def)

lemma demo_condition_fields:
  "smc_condition_id (demo_smoke_condition p) = smoke_sha (demo_identity_text p)"
  "demo_smoke_condition p = (demo_smoke_base p)\<lparr>smc_condition_id := smoke_sha (demo_identity_text p)\<rparr>"
  by (simp_all add: demo_smoke_condition_def with_condition_id_def smoke_condition_identity_def sha256_canonical_json_def demo_identity_text_def)

lemma identity_ignores_id: "condition_identity_json (c\<lparr>smc_condition_id := h\<rparr>) = condition_identity_json c"
  by (simp add: condition_identity_json_def condition_identity_values_def)

lemma demo_identity_text_mem: "p \<in> set expected_pairs \<Longrightarrow> demo_identity_text p \<in> set demo_smoke_texts"
  by (simp add: demo_smoke_texts_def)

lemma demo_ids_distinct: "distinct (map smc_condition_id (map demo_smoke_condition expected_pairs))"
proof -
  have "inj_on (\<lambda>p. smoke_sha (demo_identity_text p)) (set expected_pairs)"
    using demo_identity_inj smoke_sha_inj demo_identity_text_mem by (auto simp: inj_on_def)
  then show ?thesis by (simp add: distinct_map distinct_pairs demo_condition_fields o_def)
qed

lemma no_smoke_parameters: "sha256_canonical_json smoke_sha (JObj []) = smoke_other"
  by (rule other_object) simp_all

lemma demo_names: "p \<in> set expected_pairs \<Longrightarrow> fst p \<in> set SMOKE_MODEL_ORDER \<and> snd p \<in> set SMOKE_VIEW_ORDER
    \<and> list_all task_name_char (smoke_task_name (fst p) (snd p)) \<and> smoke_task_name (fst p) (snd p) \<noteq> []
    \<and> length (smoke_task_name (fst p) (snd p)) \<le> 100"
  by (auto simp: expected_pairs_list SMOKE_MODEL_ORDER_def SMOKE_VIEW_ORDER_def smoke_task_name_def task_name_char_def)

lemma demo_condition_valid:
  assumes "p \<in> set expected_pairs"
  shows "validate_smoke_condition demo_smoke_pilot (demo_smoke_condition p) = Inr (demo_smoke_condition p)"
  unfolding demo_condition_fields(2) validate_smoke_condition_def smoke_condition_identity_def identity_ignores_id
  using demo_names [OF assms]
  by (simp add: demo_smoke_base_def Let_def case_prod_unfold hash_guard_def SMOKE_SEED_def bad_hash_option_def no_smoke_parameters
    sha256_canonical_json_def [of _ "condition_identity_json _"] demo_identity_text_def)

lemma demo_view_valid: "v \<in> set SMOKE_VIEW_ORDER \<Longrightarrow> validate_smoke_view (demo_smoke_view v) = Inr (demo_smoke_view v)"
  by (auto simp: validate_smoke_view_def demo_smoke_view_def Let_def hash_guard_def SMOKE_VIEW_ORDER_def smoke_view_name_def
    partition_hashes_ok_def bad_hash_option_def ALL_PARTITIONS_def)

lemma demo_smoke_plan_valid:
  assumes "0 < t"
  shows "validate_smoke_plan demo_smoke_pilot (demo_smoke_plan t) = Inr (demo_smoke_plan t)"
proof -
  let ?p = "demo_smoke_plan t"
  have pairs: "map (\<lambda>c. (smc_model_id c, smc_view_id c)) (smp_conditions ?p) = expected_pairs"
    by (simp add: demo_smoke_plan_def demo_condition_fields(2) demo_smoke_base_def Let_def case_prod_unfold o_def)
  have ids: "card (set (map smc_condition_id (smp_conditions ?p))) = 10"
    using distinct_card [OF demo_ids_distinct] by (simp add: demo_smoke_plan_def length_pairs)
  have views: "map smv_view_id (smp_views ?p) = SMOKE_VIEW_ORDER"
    by (simp add: demo_smoke_plan_def demo_smoke_view_def Let_def SMOKE_VIEW_ORDER_def)
  have by_id: "view_by_id (smp_views ?p) v = Some (demo_smoke_view v)" if "v \<in> set SMOKE_VIEW_ORDER" for v
    using that by (auto simp: demo_smoke_plan_def SMOKE_VIEW_ORDER_def view_by_id_def by_key_def demo_smoke_view_def Let_def)
  have each: "list_all (\<lambda>c. smc_seed c = SMOKE_SEED \<and> smc_split_sha256 c = smoke_other \<and> smc_dataset_features_sha256 c = smoke_other
      \<and> smc_target_artifact_sha256 c = smoke_other \<and> smc_dependency_lock_sha256 c = smoke_other
      \<and> smc_source_implementation_sha256 c = smoke_other \<and> smc_view_id c \<in> set SMOKE_VIEW_ORDER
      \<and> smc_view_certificate_sha256 c = smoke_other \<and> smc_view_features_sha256 c = smoke_other) (smp_conditions ?p)"
    using demo_names
    by (simp add: list_all_iff demo_smoke_plan_def demo_condition_fields(2) demo_smoke_base_def Let_def case_prod_unfold)
  have "\<forall>g \<in> set (plan_matrix_guards ?p). \<not> fst g"
    using each pairs ids views
    by (simp add: plan_matrix_guards_def list_all_iff list_ex_iff by_id)
      (simp add: demo_smoke_plan_def demo_smoke_view_def Let_def)
  moreover have "\<forall>g \<in> set (plan_field_guards demo_smoke_pilot ?p). \<not> fst g"
    using assms by (simp add: plan_field_guards_def demo_smoke_plan_def hash_guard_def SMOKE_REGISTRY_DECISIONS_def
      length_pairs SMOKE_VIEW_ORDER_def)
  moreover have "validate_all (validate_smoke_condition demo_smoke_pilot) (smp_conditions ?p) = Inr ()"
    "validate_all validate_smoke_view (smp_views ?p) = Inr ()"
    by (auto simp: validate_all_Inr demo_smoke_plan_def intro: demo_condition_valid demo_view_valid)
  ultimately show ?thesis by (auto simp: validate_smoke_plan_def guards_Inr_iff)
qed

end
