(* ===== verification/Smoke_Schedule.thy ===== *)
theory Smoke_Schedule
  imports Smoke_Demo
begin

text \<open>The scheduler plan of an accepted smoke plan.\<close>

definition smoke_task :: "pilot_params \<Rightarrow> smoke_plan \<Rightarrow> smoke_condition \<Rightarrow> task_spec" where
  "smoke_task P plan c = \<lparr>ts_task_id = task_identity (pp_sha P) (pp_frepr P) (smc_task_name c)
       (cache_key (pp_sha P) (smoke_identity P plan c)) SyntheticPayload (smoke_plan_sha256 P plan) 0 (condition_timeout plan c),
     ts_task_name = smc_task_name c, ts_cache_identity = smoke_identity P plan c, ts_operation = SyntheticPayload,
     ts_payload_token = smoke_plan_sha256 P plan, ts_delay_seconds = 0, ts_timeout_seconds = condition_timeout plan c\<rparr>"

lemma pair_names:
  assumes "(m, v) \<in> set expected_pairs"
  shows "1 \<le> length (smoke_task_name m v) \<and> length (smoke_task_name m v) \<le> 100 \<and> list_all task_name_char (smoke_task_name m v)"
  using demo_names [OF assms] by (cases "smoke_task_name m v") simp_all

lemma smoke_identity_valid:
  assumes "\<And>x. is_sha256 (pp_sha P x) \<and> pp_sha P x \<noteq> zero_hash" and "validate_smoke_plan P plan = Inr plan'"
    and "c \<in> set (smp_conditions plan)"
    and "zero_hash \<notin> {smp_assignment_sha256 plan, smp_dependency_lock_sha256 plan, smp_code_identity_sha256 plan}"
    and "zero_hash \<notin> {smc_view_certificate_sha256 c, smc_parameters_sha256 c} \<union> set_option (smc_checkpoint_sha256 c)"
  shows "validate_cache_identity (smoke_identity P plan c) = Inr (smoke_identity P plan c)"
proof -
  note g = smoke_plan_guards [OF assms(2)]
  have "\<forall>x \<in> set (plan_field_guards P plan). \<not> fst x" by (rule g(3))
  then have "is_sha256 (smp_assignment_sha256 plan)" "is_sha256 (smp_dependency_lock_sha256 plan)" "is_sha256 (smp_code_identity_sha256 plan)"
    by (simp_all add: plan_field_guards_def hash_guard_def)
  moreover have "is_sha256 (smc_view_certificate_sha256 c)" "is_sha256 (smc_parameters_sha256 c)" "\<not> bad_hash_option (smc_checkpoint_sha256 c)"
      "0 \<le> smc_seed c"
    using g(4) [OF assms(3)] by (auto simp: validate_smoke_condition_def guards_Inr_iff hash_guard_def)
  ultimately show ?thesis
    using assms(1,4,5)
    by (auto simp: validate_cache_identity_def guards_Inr_iff smoke_identity_def identity_hash_fields_def smoke_dataset_sha256_def
      smoke_model_sha256_def sha256_canonical_json_def bad_hash_option_def split: option.splits)
qed

lemma condition_task_cases:
  assumes "\<And>x. is_sha256 (pp_sha P x) \<and> pp_sha P x \<noteq> zero_hash" and "validate_smoke_plan P plan = Inr plan'"
    and "c \<in> set (smp_conditions plan)" and "validate_cache_identity (smoke_identity P plan c) = Inr (smoke_identity P plan c)"
  shows "condition_task P plan c = (if condition_timeout plan c \<le> 86400 then Inr (smoke_task P plan c) else Inl (ValueError ''timeout_seconds''))"
proof -
  note a = accepted_plan [OF assms(2)] and g = smoke_plan_guards [OF assms(2)]
  from a(1) assms(3) have "(smc_model_id c, smc_view_id c) \<in> set expected_pairs"
    by (metis (mono_tags, lifting) image_eqI set_map)
  moreover have "smc_task_name c = smoke_task_name (smc_model_id c) (smc_view_id c)"
    using a(5) assms(3) by (simp add: named_pairs_def list_all_iff)
  ultimately have name: "1 \<le> length (smc_task_name c) \<and> length (smc_task_name c) \<le> 100 \<and> list_all task_name_char (smc_task_name c)"
    using pair_names by metis
  have "0 < smp_cpu_timeout_seconds plan" "0 < smp_cuda_timeout_seconds plan"
    using g(3) by (simp_all add: plan_field_guards_def)
  then have "0 < condition_timeout plan c" by (simp add: condition_timeout_def)
  moreover have "is_sha256 (smoke_plan_sha256 P plan)" using assms(1) by (simp add: smoke_plan_sha256_def sha256_canonical_json_def)
  then have "length (smoke_plan_sha256 P plan) = 64" by (simp add: is_sha256_def)
  moreover have "is_sha256 (ts_task_id (smoke_task P plan c))"
    using assms(1) by (simp add: smoke_task_def task_identity_def sha256_canonical_json_def)
  ultimately show ?thesis
    using name assms(4) by (simp add: condition_task_def build_task_def validate_task_def smoke_task_def Let_def)
qed

lemma mapr_all: "(\<forall>x \<in> set xs. f x = Inr (g x)) \<Longrightarrow> mapr f xs = Inr (map g xs)"
  by (rule mapr_map) blast

lemma built_schedule:
  assumes "\<forall>c \<in> set (smp_conditions plan). condition_task P plan c = Inr (smoke_task P plan c)"
    and "distinct (map (\<lambda>c. task_identity (pp_sha P) (pp_frepr P) (smc_task_name c) (cache_key (pp_sha P) (smoke_identity P plan c))
      SyntheticPayload (smoke_plan_sha256 P plan) 0 (condition_timeout plan c)) (smp_conditions plan))"
  shows "smoke_scheduler_plan P plan = Inr (\<lparr>rp_schema_version = 1,
      rp_tasks = sort_key ts_task_id (map (smoke_task P plan) (smp_conditions plan)), rp_random_seed = SMOKE_SEED,
      rp_cpu_workers = 2, rp_gpu_workers = 1\<rparr>, map (\<lambda>c. (smc_condition_id c, smoke_identity P plan c)) (smp_conditions plan))"
proof -
  have "build_plan (map (smoke_task P plan) (smp_conditions plan)) SMOKE_SEED 2
      = Inr \<lparr>rp_schema_version = 1, rp_tasks = sort_key ts_task_id (map (smoke_task P plan) (smp_conditions plan)),
          rp_random_seed = SMOKE_SEED, rp_cpu_workers = 2, rp_gpu_workers = 1\<rparr>"
    using assms(2) by (simp add: build_plan_Inr SMOKE_SEED_def smoke_task_def o_def)
  with mapr_all [OF assms(1)] show ?thesis by (simp add: smoke_scheduler_plan_def)
qed

text \<open>An accepted plan whose digests are no placeholders, and whose ten tasks have different
  digests, can be scheduled exactly when both of its timeouts are at most a day: then the scheduler plan
  has one task per condition, bound to the cache identity of the condition. The plan contract itself
  bounds no timeout, so a plan can be accepted and published although no run of it can start.\<close>

theorem accepted_plan_schedulable:
  assumes "validate_smoke_plan P plan = Inr plan'" and "\<And>x. is_sha256 (pp_sha P x) \<and> pp_sha P x \<noteq> zero_hash"
    and "zero_hash \<notin> {smp_assignment_sha256 plan, smp_dependency_lock_sha256 plan, smp_code_identity_sha256 plan}"
    and "\<And>c. c \<in> set (smp_conditions plan) \<Longrightarrow>
      zero_hash \<notin> {smc_view_certificate_sha256 c, smc_parameters_sha256 c} \<union> set_option (smc_checkpoint_sha256 c)"
    and "distinct (map (\<lambda>c. task_identity (pp_sha P) (pp_frepr P) (smc_task_name c) (cache_key (pp_sha P) (smoke_identity P plan c))
      SyntheticPayload (smoke_plan_sha256 P plan) 0 (condition_timeout plan c)) (smp_conditions plan))"
  shows "(\<exists>rp identities. smoke_scheduler_plan P plan = Inr (rp, identities)
      \<and> mset (map (\<lambda>t. (ts_task_name t, ts_cache_identity t)) (rp_tasks rp))
        = mset (map (\<lambda>c. (smc_task_name c, smoke_identity P plan c)) (smp_conditions plan))
      \<and> map_of identities = map_of (map (\<lambda>c. (smc_condition_id c, smoke_identity P plan c)) (smp_conditions plan)))
    \<longleftrightarrow> smp_cpu_timeout_seconds plan \<le> 86400 \<and> smp_cuda_timeout_seconds plan \<le> 86400"
proof -
  let ?cs = "smp_conditions plan"
  note a = accepted_plan [OF assms(1)]
  have task: "condition_task P plan c = (if condition_timeout plan c \<le> 86400 then Inr (smoke_task P plan c) else Inl (ValueError ''timeout_seconds''))"
    if "c \<in> set ?cs" for c
    using assms that by (intro condition_task_cases smoke_identity_valid) auto
  have device: "smc_device c = smoke_device (smc_model_id c)" if "c \<in> set ?cs" for c
    using smoke_plan_guards(4) [OF assms(1) that] by (auto simp: validate_smoke_condition_def guards_Inr_iff)
  have members: "\<exists>c \<in> set ?cs. smc_device c = d" for d
  proof -
    have "(if d = Cpu then ''LR-1.9'' else ''TPFN3-8.5'', ''V00'') \<in> set (map (\<lambda>c. (smc_model_id c, smc_view_id c)) ?cs)"
      unfolding a(1) by (simp add: expected_pairs_list)
    then show ?thesis using device by (cases d) (force simp: smoke_device_def FOUNDATION_MODELS_def)+
  qed
  have times: "(\<forall>c \<in> set ?cs. condition_timeout plan c \<le> 86400)
      \<longleftrightarrow> smp_cpu_timeout_seconds plan \<le> 86400 \<and> smp_cuda_timeout_seconds plan \<le> 86400"
  proof -
    have le: "condition_timeout plan c \<le> 86400 \<longleftrightarrow>
        (if smc_device c = Cpu then smp_cpu_timeout_seconds plan else smp_cuda_timeout_seconds plan) \<le> 86400" for c
      unfolding condition_timeout_def by (metis (no_types, lifting) of_int_le_iff of_int_numeral)
    show ?thesis unfolding le using members [of Cpu] members [of Cuda] by force
  qed
  show ?thesis
  proof (cases "\<forall>c \<in> set ?cs. condition_timeout plan c \<le> 86400")
    case True
    then have "\<forall>c \<in> set ?cs. condition_task P plan c = Inr (smoke_task P plan c)" by (simp add: task)
    from built_schedule [OF this assms(5)] True show ?thesis
      by (simp add: times image_mset.compositionality o_def smoke_task_def)
  next
    case False
    then obtain c where c: "c \<in> set ?cs" "\<not> condition_timeout plan c \<le> 86400" by blast
    then have "mapr (condition_task P plan) ?cs \<noteq> Inr ts" for ts using mapr_member [of "condition_task P plan" ?cs ts c] task by auto
    with False show ?thesis unfolding times [symmetric] by (auto simp: smoke_scheduler_plan_def bindr_Inr_iff)
  qed
qed

lemma demo_key: "cache_key smoke_sha i = smoke_other"
proof -
  have "length (zip identity_field_names (identity_values i)) = 12"
    by (simp add: identity_field_names_def identity_values_def)
  with other_object [of "zip identity_field_names (identity_values i)"] wf_identity_json [of i]
  show ?thesis by (simp add: cache_key_def identity_json_def)
qed

lemma wf_texts [simp]: "wf_json (json_strings xs)" "wf_json (text_dict d)" "wf_json (json_text_option h)"
  by (auto simp: json_strings_def text_dict_def json_text_option_def split: option.split)

lemma demo_smoke_plan_sha: "smoke_plan_sha256 demo_smoke_pilot (demo_smoke_plan t) = smoke_other"
proof -
  have view: "wf_json (smoke_view_json v)" for v by (auto simp: smoke_view_json_def)
  have "wf_json (smoke_condition_json (demo_smoke_condition p))" for p
    by (simp add: smoke_condition_json_def demo_condition_fields(2) demo_smoke_base_def Let_def case_prod_unfold)
  then have "wf_json (smoke_plan_json demo_smoke_pilot (demo_smoke_plan t))"
    by (auto simp: smoke_plan_json_def demo_smoke_plan_def view one_text)
  then show ?thesis
    unfolding smoke_plan_sha256_def demo_pilot_fields(1) smoke_plan_json_def by (rule other_object) simp_all
qed

lemma demo_tasks_differ:
  "distinct (map (\<lambda>c. task_identity smoke_sha (pp_frepr demo_smoke_pilot) (smc_task_name c) (cache_key smoke_sha (smoke_identity demo_smoke_pilot (demo_smoke_plan t) c))
     SyntheticPayload (smoke_plan_sha256 demo_smoke_pilot (demo_smoke_plan t)) 0 (condition_timeout (demo_smoke_plan t) c))
     (smp_conditions (demo_smoke_plan t)))"
proof -
  have name: "smc_task_name (demo_smoke_condition p) = smoke_task_name (fst p) (snd p)" for p
    by (simp add: demo_condition_fields(2) demo_smoke_base_def Let_def case_prod_unfold)
  have conditions: "smp_conditions (demo_smoke_plan t) = map demo_smoke_condition expected_pairs" by (simp add: demo_smoke_plan_def)
  have mem: "p \<in> set expected_pairs \<Longrightarrow> canonical_text (demo_task_json p) \<in> set demo_smoke_texts" for p
    by (simp add: demo_smoke_texts_def)
  have "inj_on (\<lambda>p. smoke_sha (canonical_text (demo_task_json p))) (set expected_pairs)"
    using demo_task_inj smoke_sha_inj mem by (simp add: inj_on_def)
  then show ?thesis
    by (simp add: conditions distinct_map distinct_pairs o_def demo_key demo_smoke_plan_sha task_identity_def name
      sha256_canonical_json_def demo_task_json_def)
qed

lemma not_placeholder: "smoke_sha s \<noteq> zero_hash" "zero_hash \<noteq> smoke_other"
proof -
  have zero: "zero_hash = number_sha 0" 
    using replicate_add [of 3 61 "CHR ''0''"] by (simp add: zero_hash_def number_sha_def numeral_3_eq_3)
  have "index_of demo_smoke_texts s \<le> 20" using index_of_le [of demo_smoke_texts s] length_demo_smoke by simp
  then show "smoke_sha s \<noteq> zero_hash"
    using number_sha_inj [of "Suc (index_of demo_smoke_texts s)" 0] by (auto simp: zero smoke_sha_def)
  show "zero_hash \<noteq> smoke_other" using number_sha_inj [of 0 21] by (auto simp: zero smoke_other_def)
qed

lemma demo_smoke_conditions: "smp_conditions (demo_smoke_plan t) = map demo_smoke_condition expected_pairs"
  by (simp add: demo_smoke_plan_def)

lemma demo_no_placeholders: "c \<in> set (smp_conditions (demo_smoke_plan t)) \<Longrightarrow>
    zero_hash \<notin> {smc_view_certificate_sha256 c, smc_parameters_sha256 c} \<union> set_option (smc_checkpoint_sha256 c)"
    "zero_hash \<notin> {smp_assignment_sha256 (demo_smoke_plan t), smp_dependency_lock_sha256 (demo_smoke_plan t),
      smp_code_identity_sha256 (demo_smoke_plan t)}"
    "is_sha256 (smoke_sha x) \<and> smoke_sha x \<noteq> zero_hash"
  by (auto simp: demo_smoke_conditions demo_condition_fields(2) demo_smoke_base_def Let_def case_prod_unfold not_placeholder
    not_placeholder(2) [symmetric] split: if_splits) (simp_all add: demo_smoke_plan_def not_placeholder)

lemma demo_scheduled:
  "smoke_scheduler_plan demo_smoke_pilot (demo_smoke_plan 60) = Inr (\<lparr>rp_schema_version = 1,
      rp_tasks = sort_key ts_task_id (map (smoke_task demo_smoke_pilot (demo_smoke_plan 60)) (smp_conditions (demo_smoke_plan 60))),
      rp_random_seed = SMOKE_SEED, rp_cpu_workers = 2, rp_gpu_workers = 1\<rparr>,
    map (\<lambda>c. (smc_condition_id c, smoke_identity demo_smoke_pilot (demo_smoke_plan 60) c)) (smp_conditions (demo_smoke_plan 60)))"
proof (rule built_schedule)
  have valid: "validate_smoke_plan demo_smoke_pilot (demo_smoke_plan 60) = Inr (demo_smoke_plan 60)" by (rule demo_smoke_plan_valid) simp
  have sha: "is_sha256 (pp_sha demo_smoke_pilot x) \<and> pp_sha demo_smoke_pilot x \<noteq> zero_hash" for x
    using demo_no_placeholders(3) by simp
  have "condition_timeout (demo_smoke_plan 60) c = 60" for c by (simp add: condition_timeout_def demo_smoke_plan_def)
  then show "\<forall>c \<in> set (smp_conditions (demo_smoke_plan 60)). condition_task demo_smoke_pilot (demo_smoke_plan 60) c
      = Inr (smoke_task demo_smoke_pilot (demo_smoke_plan 60) c)"
    using condition_task_cases [OF sha valid _ smoke_identity_valid [OF sha valid _ demo_no_placeholders(2) demo_no_placeholders(1)]] by simp
qed (use demo_tasks_differ in simp)

theorem accepted_plan_schedulable_witness:
  "(\<exists>rp identities. smoke_scheduler_plan demo_smoke_pilot (demo_smoke_plan 60) = Inr (rp, identities)
      \<and> mset (map (\<lambda>t. (ts_task_name t, ts_cache_identity t)) (rp_tasks rp))
        = mset (map (\<lambda>c. (smc_task_name c, smoke_identity demo_smoke_pilot (demo_smoke_plan 60) c)) (smp_conditions (demo_smoke_plan 60))))
   \<and> validate_smoke_plan demo_smoke_pilot (demo_smoke_plan 90000) = Inr (demo_smoke_plan 90000)
   \<and> \<not> (\<exists>rp identities. smoke_scheduler_plan demo_smoke_pilot (demo_smoke_plan 90000) = Inr (rp, identities)
      \<and> mset (map (\<lambda>t. (ts_task_name t, ts_cache_identity t)) (rp_tasks rp))
        = mset (map (\<lambda>c. (smc_task_name c, smoke_identity demo_smoke_pilot (demo_smoke_plan 90000) c)) (smp_conditions (demo_smoke_plan 90000)))
      \<and> map_of identities = map_of (map (\<lambda>c. (smc_condition_id c, smoke_identity demo_smoke_pilot (demo_smoke_plan 90000) c))
          (smp_conditions (demo_smoke_plan 90000))))"
proof -
  have times: "smp_cpu_timeout_seconds (demo_smoke_plan t) = 60" "smp_cuda_timeout_seconds (demo_smoke_plan t) = t" for t
    by (simp_all add: demo_smoke_plan_def)
  note at = accepted_plan_schedulable [OF demo_smoke_plan_valid, unfolded demo_pilot_fields(1), OF _ demo_no_placeholders(3,2) _ demo_tasks_differ, unfolded times]
  from at [of 60] at [of 90000] demo_no_placeholders(1) [of _ 60] demo_no_placeholders(1) [of _ 90000]
    demo_smoke_plan_valid [of 90000] show ?thesis by (simp; blast)
qed

end
