(* ===== verification/Smoke_Report_Demo.thy ===== *)
theory Smoke_Report_Demo
  imports Smoke_Schedule
begin

text \<open>
  The table a worker writes satisfies every check of its readers: the loader of cached archives and
  the independent validator of a report.
\<close>

section \<open>Columns of a written table\<close>

lemma find_enumerated:
  assumes "distinct names" and "i < length names"
  shows "find (\<lambda>c. co_name c = names ! i) (frame_of_rows names rows) = Some \<lparr>co_name = names ! i, co_dtype = [], co_cells = map (\<lambda>r. r ! i) rows\<rparr>"
  unfolding frame_of_rows_def find_Some_iff
  using assms by (intro exI [of _ i]) (auto simp: nth_enumerate_eq nth_eq_iff_index_eq)

lemma written_cells:
  "distinct names \<Longrightarrow> i < length names \<Longrightarrow> names ! i = n \<Longrightarrow> table_cells (frame_of_rows names rows) n = map (\<lambda>r. r ! i) rows"
  using find_enumerated [of names i rows] by (auto simp: table_cells_def)

lemma prediction_columns: "distinct PREDICTION_COLUMNS" "length PREDICTION_COLUMNS = 34"
  by (simp_all add: PREDICTION_COLUMNS_def)

lemma written_columns: "frame_columns (frame_of_rows names rows) = names"
  by (simp add: frame_columns_def frame_of_rows_def case_prod_unfold o_def)

lemma written_count: "names \<noteq> [] \<Longrightarrow> row_count (frame_of_rows names rows) = length rows"
  by (cases names) (simp_all add: row_count_def frame_of_rows_def)

text \<open>The row of a pair of probabilities in the class order 0, 1.\<close>

definition written_row ::
  "pilot_params \<Rightarrow> smoke_plan \<Rightarrow> smoke_condition \<Rightarrow> adapter_resource \<Rightarrow> string \<Rightarrow> string \<Rightarrow> string
   \<Rightarrow> string \<Rightarrow> cell \<times> py_float list \<Rightarrow> cell list" where
  "written_row P plan c res resource_sha observed_sha cache_sha part = (\<lambda>(row_id, probs).
     [CInt ''int'' 1, CStr (smoke_plan_sha256 P plan), CStr (smoke_plan_sha256 P plan), CStr (smc_condition_id c),
       CInt ''int'' SMOKE_DATASET_ID, CStr (smc_model_id c), CStr (smc_view_id c), CStr (device_text (smc_device c)),
       CInt ''int'' (smc_seed c), CStr part, row_id, CStr ''0,1'',
       CFloat ''float'' (Finite (probs ! 0)), CFloat ''float'' (Finite (probs ! 1)), CInt ''int'' (if probs ! 1 > probs ! 0 then 1 else 0),
       float_cell (Some (ads_fit_seconds res)), float_cell (Some (ads_prediction_seconds res)),
       float_cell (ads_peak_ram_mib res), float_cell (ads_peak_vram_reserved_mib res),
       CStr (smp_dataset_features_sha256 plan), CStr (smp_target_artifact_sha256 plan), CStr (smp_assignment_sha256 plan),
       CStr (smc_view_certificate_sha256 c), CStr (smc_view_features_sha256 c), CStr (smc_model_spec_sha256 c),
       CStr (smc_parameters_sha256 c), CStr observed_sha, text_cell (smc_checkpoint_sha256 c), CStr (smp_source_commit plan),
       CStr (smp_dependency_lock_sha256 plan), CStr (smp_code_identity_sha256 plan), CStr cache_sha, CStr ''PASS'',
       CStr resource_sha])"

definition archived_table ::
  "pilot_params \<Rightarrow> smoke_plan \<Rightarrow> smoke_condition \<Rightarrow> adapter_resource \<Rightarrow> string \<Rightarrow> string \<Rightarrow> string
   \<Rightarrow> string \<Rightarrow> (cell \<times> py_float list) list \<Rightarrow> frame" where
  "archived_table P plan c res resource_sha observed_sha cache_sha part rows = frame_of_rows PREDICTION_COLUMNS
     (map (written_row P plan c res resource_sha observed_sha cache_sha part) rows)"

lemma class_order_binary: "class_order_text [0, 1] = ''0,1''"
  by code_simp

lemma prediction_frame_written:
  assumes "prediction_frame P plan c res resource_sha observed_sha cache_sha p = Inr X" and "apr_class_order p = [0, 1]"
  shows "X = archived_table P plan c res resource_sha observed_sha cache_sha (apr_partition p) (zip (apr_row_ids p) (apr_probabilities p))"
    and "distinct (apr_row_ids p)" and "length (apr_row_ids p) = length (apr_probabilities p)"
proof -
  have row: "prediction_row P plan c res resource_sha observed_sha cache_sha p x = Inr r
      \<Longrightarrow> r = written_row P plan c res resource_sha observed_sha cache_sha (apr_partition p) x" for x r
    by (cases x) (auto simp: prediction_row_def written_row_def assms(2) class_order_binary Let_def split: if_splits)
  from assms(1) obtain rows where rows: "mapr (prediction_row P plan c res resource_sha observed_sha cache_sha p)
      (zip (apr_row_ids p) (apr_probabilities p)) = Inr rows"
    and X: "X = frame_of_rows PREDICTION_COLUMNS rows" and d: "distinct (apr_row_ids p)" "length (apr_row_ids p) = length (apr_probabilities p)"
    by (auto simp: prediction_frame_def bindr_Inr_iff split: if_splits)
  from rows have "list_all2 (\<lambda>x r. r = written_row P plan c res resource_sha observed_sha cache_sha (apr_partition p) x)
      (zip (apr_row_ids p) (apr_probabilities p)) rows"
    unfolding mapr_Inr by (rule list_all2_mono) (rule row)
  then have "rows = map (written_row P plan c res resource_sha observed_sha cache_sha (apr_partition p)) (zip (apr_row_ids p) (apr_probabilities p))"
    by (induction rule: list_all2_induct) auto
  with X d show "X = archived_table P plan c res resource_sha observed_sha cache_sha (apr_partition p) (zip (apr_row_ids p) (apr_probabilities p))"
    "distinct (apr_row_ids p)" "length (apr_row_ids p) = length (apr_probabilities p)" by (simp_all add: archived_table_def)
qed

lemma written_table_column:
  assumes "i < 34" and "PREDICTION_COLUMNS ! i = n"
  shows "table_cells (archived_table P plan c res resource_sha observed_sha cache_sha part rows) n
    = map (\<lambda>x. written_row P plan c res resource_sha observed_sha cache_sha part x ! i) rows"
  using written_cells [OF prediction_columns(1) _ assms(2)] assms(1) by (simp add: archived_table_def prediction_columns o_def)

lemma written_table_cells:
  "table_cells (archived_table P plan c res resource_sha observed_sha cache_sha part rows) ''run_identity_sha256'' = map (\<lambda>x. CStr (smoke_plan_sha256 P plan)) rows"
  "table_cells (archived_table P plan c res resource_sha observed_sha cache_sha part rows) ''plan_sha256'' = map (\<lambda>x. CStr (smoke_plan_sha256 P plan)) rows"
  "table_cells (archived_table P plan c res resource_sha observed_sha cache_sha part rows) ''condition_id'' = map (\<lambda>x. CStr (smc_condition_id c)) rows"
  "table_cells (archived_table P plan c res resource_sha observed_sha cache_sha part rows) ''dataset_id'' = map (\<lambda>x. CInt ''int'' SMOKE_DATASET_ID) rows"
  "table_cells (archived_table P plan c res resource_sha observed_sha cache_sha part rows) ''model_id'' = map (\<lambda>x. CStr (smc_model_id c)) rows"
  "table_cells (archived_table P plan c res resource_sha observed_sha cache_sha part rows) ''view_id'' = map (\<lambda>x. CStr (smc_view_id c)) rows"
  "table_cells (archived_table P plan c res resource_sha observed_sha cache_sha part rows) ''device'' = map (\<lambda>x. CStr (device_text (smc_device c))) rows"
  "table_cells (archived_table P plan c res resource_sha observed_sha cache_sha part rows) ''seed'' = map (\<lambda>x. CInt ''int'' (smc_seed c)) rows"
  "table_cells (archived_table P plan c res resource_sha observed_sha cache_sha part rows) ''partition'' = map (\<lambda>x. CStr part) rows"
  "table_cells (archived_table P plan c res resource_sha observed_sha cache_sha part rows) ''row_id'' = map (\<lambda>x. fst x) rows"
  "table_cells (archived_table P plan c res resource_sha observed_sha cache_sha part rows) ''class_order'' = map (\<lambda>x. CStr ''0,1'') rows"
  "table_cells (archived_table P plan c res resource_sha observed_sha cache_sha part rows) ''p_0'' = map (\<lambda>x. CFloat ''float'' (Finite (snd x ! 0))) rows"
  "table_cells (archived_table P plan c res resource_sha observed_sha cache_sha part rows) ''p_1'' = map (\<lambda>x. CFloat ''float'' (Finite (snd x ! 1))) rows"
  "table_cells (archived_table P plan c res resource_sha observed_sha cache_sha part rows) ''predicted_class'' = map (\<lambda>x. CInt ''int'' (if snd x ! 1 > snd x ! 0 then 1 else 0)) rows"
  "table_cells (archived_table P plan c res resource_sha observed_sha cache_sha part rows) ''fit_time_seconds'' = map (\<lambda>x. float_cell (Some (ads_fit_seconds res))) rows"
  "table_cells (archived_table P plan c res resource_sha observed_sha cache_sha part rows) ''prediction_time_seconds'' = map (\<lambda>x. float_cell (Some (ads_prediction_seconds res))) rows"
  "table_cells (archived_table P plan c res resource_sha observed_sha cache_sha part rows) ''dataset_features_sha256'' = map (\<lambda>x. CStr (smp_dataset_features_sha256 plan)) rows"
  "table_cells (archived_table P plan c res resource_sha observed_sha cache_sha part rows) ''target_artifact_sha256'' = map (\<lambda>x. CStr (smp_target_artifact_sha256 plan)) rows"
  "table_cells (archived_table P plan c res resource_sha observed_sha cache_sha part rows) ''assignment_sha256'' = map (\<lambda>x. CStr (smp_assignment_sha256 plan)) rows"
  "table_cells (archived_table P plan c res resource_sha observed_sha cache_sha part rows) ''view_certificate_sha256'' = map (\<lambda>x. CStr (smc_view_certificate_sha256 c)) rows"
  "table_cells (archived_table P plan c res resource_sha observed_sha cache_sha part rows) ''view_features_sha256'' = map (\<lambda>x. CStr (smc_view_features_sha256 c)) rows"
  "table_cells (archived_table P plan c res resource_sha observed_sha cache_sha part rows) ''model_spec_sha256'' = map (\<lambda>x. CStr (smc_model_spec_sha256 c)) rows"
  "table_cells (archived_table P plan c res resource_sha observed_sha cache_sha part rows) ''planned_parameters_sha256'' = map (\<lambda>x. CStr (smc_parameters_sha256 c)) rows"
  "table_cells (archived_table P plan c res resource_sha observed_sha cache_sha part rows) ''observed_parameters_sha256'' = map (\<lambda>x. CStr observed_sha) rows"
  "table_cells (archived_table P plan c res resource_sha observed_sha cache_sha part rows) ''checkpoint_sha256'' = map (\<lambda>x. text_cell (smc_checkpoint_sha256 c)) rows"
  "table_cells (archived_table P plan c res resource_sha observed_sha cache_sha part rows) ''source_commit'' = map (\<lambda>x. CStr (smp_source_commit plan)) rows"
  "table_cells (archived_table P plan c res resource_sha observed_sha cache_sha part rows) ''dependency_lock_sha256'' = map (\<lambda>x. CStr (smp_dependency_lock_sha256 plan)) rows"
  "table_cells (archived_table P plan c res resource_sha observed_sha cache_sha part rows) ''code_identity_sha256'' = map (\<lambda>x. CStr (smp_code_identity_sha256 plan)) rows"
  "table_cells (archived_table P plan c res resource_sha observed_sha cache_sha part rows) ''cache_identity_sha256'' = map (\<lambda>x. CStr cache_sha) rows"
  "table_cells (archived_table P plan c res resource_sha observed_sha cache_sha part rows) ''validation_status'' = map (\<lambda>x. CStr ''PASS'') rows"
  unfolding archived_table_def table_cells_def frame_of_rows_def
  by (simp_all add: PREDICTION_COLUMNS_def written_row_def case_prod_unfold o_def)

section \<open>What pandas makes of the columns\<close>

text \<open>
  The pairs of a table are probabilities within the tolerance, and pandas converts the columns of
  floats and of class indices to the arrays with the same numbers.
\<close>

definition pair_ok :: "smoke_params \<Rightarrow> py_float \<Rightarrow> py_float list \<Rightarrow> bool" where
  "pair_ok S tol r \<longleftrightarrow> length r = 2 \<and> 0 \<le> r ! 0 \<and> r ! 0 \<le> 1 \<and> 0 \<le> r ! 1 \<and> r ! 1 \<le> 1
     \<and> \<bar>pp_fl (skp_pilot S) (mtp_rowsum (skp_metric S) r - 1)\<bar> \<le> tol"

definition converts :: "smoke_params \<Rightarrow> py_float list list \<Rightarrow> bool" where
  "converts S rs \<longleftrightarrow> (\<forall>k < 2. skp_float64 S (map (\<lambda>r. CFloat ''float'' (Finite (r ! k))) rs) = Inr (map (\<lambda>r. Finite (r ! k)) rs))
     \<and> skp_int64 S (map (\<lambda>r. CInt ''int'' (if r ! 1 > r ! 0 then 1 else 0)) rs) = Inr (map (\<lambda>r. if r ! 1 > r ! 0 then 1 else 0) rs)"

lemma pair_list: "length r = 2 \<Longrightarrow> r = [r ! 0, r ! 1]"
  by (cases r; cases "tl r") auto

lemma written_probabilities:
  assumes "converts S (map snd rows)" and pairs_ok: "list_all (pair_ok S tol) (map snd rows)"
    and X_def: "X = archived_table P plan c res resource_sha observed_sha cache_sha part rows"
  shows "probability_rows S X = Inr (map (\<lambda>x. [Finite (snd x ! 0), Finite (snd x ! 1)]) rows)"
    and "unit_matrix (map (\<lambda>x. [Finite (snd x ! 0), Finite (snd x ! 1)]) rows) = Some (map snd rows)"
    and "\<not> off_simplex S tol (map snd rows)"
    and "skp_int64 S (table_cells X ''predicted_class'') = Inr (map (\<lambda>r. int (arg_max r)) (map snd rows))"
proof -
  have assms2: "pair_ok S tol (snd x)" if "x \<in> set rows" for x using pairs_ok that by (simp add: list_all_iff)
  have c0: "skp_float64 S (map (\<lambda>x. CFloat ''float'' (Finite (snd x ! 0))) rows) = Inr (map (\<lambda>x. Finite (snd x ! 0)) rows)"
    and c1: "skp_float64 S (map (\<lambda>x. CFloat ''float'' (Finite (snd x ! 1))) rows) = Inr (map (\<lambda>x. Finite (snd x ! 1)) rows)"
    and ci: "skp_int64 S (map (\<lambda>x. CInt ''int'' (if snd x ! 1 > snd x ! 0 then 1 else 0)) rows)
      = Inr (map (\<lambda>x. if snd x ! 1 > snd x ! 0 then 1 else 0) rows)"
    using assms(1) unfolding converts_def by (auto simp: o_def dest: spec [of _ 0] spec [of _ 1])
  show "probability_rows S X = Inr (map (\<lambda>x. [Finite (snd x ! 0), Finite (snd x ! 1)]) rows)"
    unfolding probability_rows_def X_def written_table_cells c0 c1 bindr_simps by (simp add: map2_map_map)
  have pairs: "length (snd x) = 2" if "x \<in> set rows" for x using assms2 [OF that] by (simp add: pair_ok_def)
  have "those (map finite_values (map (\<lambda>x. [Finite (snd x ! 0), Finite (snd x ! 1)]) rows)) = Some (map snd rows)"
    using pairs by (induction rows) (auto simp: finite_values_def pair_list [simplified, symmetric])
  moreover have "\<not> list_ex (list_ex (\<lambda>x. x < 0 \<or> 1 < x)) (map snd rows)"
  proof -
    have "\<forall>v \<in> set r. 0 \<le> v \<and> v \<le> 1" if ok: "pair_ok S tol r" for r
    proof -
      from ok obtain a b where "r = [a, b]" by (cases r; cases "tl r") (auto simp: pair_ok_def)
      with ok show ?thesis by (simp add: pair_ok_def)
    qed
    then show ?thesis using assms2 by (fastforce simp: list_ex_iff)
  qed
  ultimately show "unit_matrix (map (\<lambda>x. [Finite (snd x ! 0), Finite (snd x ! 1)]) rows) = Some (map snd rows)"
    by (simp add: unit_matrix_def)
  show "\<not> off_simplex S tol (map snd rows)"
    using assms2 by (fastforce simp: off_simplex_def list_ex_iff pair_ok_def not_less)
  have "int (arg_max r) = (if r ! 1 > r ! 0 then 1 else 0)" if "length r = 2" for r :: "py_float list"
  proof -
    from that obtain a b where "r = [a, b]" by (cases r; cases "tl r") auto
    then show ?thesis by simp
  qed
  then show "skp_int64 S (table_cells X ''predicted_class'') = Inr (map (\<lambda>r. int (arg_max r)) (map snd rows))"
    unfolding X_def written_table_cells ci using pairs by simp
qed

section \<open>The checks of the readers\<close>

lemma cell_eq_text [simp]: "cell_eq (CStr s) (CStr t) \<longleftrightarrow> s = t" "cell_eq (CInt d i) (CInt e j) \<longleftrightarrow> i = j"
  by (simp_all add: cell_eq_def)

lemma written_archive_guards:
  assumes "X = archived_table (skp_pilot S) plan c res resource_sha observed_sha cache_sha (osm_partition out) rows"
    and "osm_row_count out = int (length rows)" and "osm_class_order out = [0, 1]"
  shows "guards (archive_table_guards S plan c out X) () = Inr ()" and "guards (lineage_guards S plan c cache_sha out X) () = Inr ()"
proof -
  have "row_count X = length rows" "frame_columns X = PREDICTION_COLUMNS"
    unfolding assms(1) archived_table_def
    by (simp_all add: written_columns written_count PREDICTION_COLUMNS_def)
  then show "guards (archive_table_guards S plan c out X) () = Inr ()"
    using assms(2,3) by (simp add: archive_table_guards_def all_equal_def assms(1) written_table_cells class_order_binary list_all_iff)
  show "guards (lineage_guards S plan c cache_sha out X) () = Inr ()"
    by (auto simp: guards_Inr_iff lineage_guards_def archive_lineage_def all_equal_def assms(1) written_table_cells list_all_iff)
qed

lemma written_table_lineage:
  assumes "X = archived_table (skp_pilot S) plan c res resource_sha (smc_parameters_sha256 c) (crn_cache_identity_sha256 run) part rows"
  shows "guards (table_lineage_guards (skp_pilot S) plan c run X) () = Inr ()"
  unfolding guards_Inr_iff table_lineage_guards_def table_lineage_def lineage_column_matches_def
  by (auto simp: all_equal_def assms written_table_cells list_all_iff text_cell_def Let_def split: option.splits)

lemma prediction_path_valid:
  assumes "list_all task_name_char (smc_task_name c)" and "part \<in> set PREDICTION_PARTITIONS"
  shows "prediction_path_ok (prediction_path c part)"
proof -
  have "prediction_path c part = prediction_directory @ (smc_task_name c @ ''_'' @ part) @ parquet_suffix"
    by (simp add: prediction_path_def prediction_directory_def parquet_suffix_def)
  moreover have "list_all task_name_char (''_'' @ part)"
    using assms(2) by (auto simp: PREDICTION_PARTITIONS_def task_name_char_def)
  moreover have "starts_with p (p @ q)" for p q :: string by (induction p) simp_all
  moreover have "0 < length (smc_task_name c @ ''_'' @ part)" by simp
  ultimately show ?thesis using assms(1) by (simp only: prediction_path_ok_def) (simp add: Let_def)
qed

section \<open>Loading what was written\<close>

definition observed_parameters :: "smoke_params \<Rightarrow> worker_run \<Rightarrow> string" where
  "observed_parameters S W = sha256_canonical_json (skp_sha S) (JObj (normalized_parameters (wkr_parameters W)))"

definition archived_frame :: "smoke_params \<Rightarrow> smoke_plan \<Rightarrow> smoke_condition \<Rightarrow> cache_identity \<Rightarrow> worker_run \<Rightarrow> adapter_prediction \<Rightarrow> frame result" where
  "archived_frame S plan c i W p = prediction_frame (skp_pilot S) plan c (wkr_resource W)
     (adapter_resource_sha256 (skp_pilot S) (wkr_resource W)) (observed_parameters S W) (cache_key (skp_sha S) i) p"

text \<open>The rows of a partition are those of the frozen split, and the adapter gives each a pair of probabilities.\<close>

definition sound_prediction :: "smoke_params \<Rightarrow> smoke_plan \<Rightarrow> smoke_view \<Rightarrow> adapter_prediction \<Rightarrow> bool" where
  "sound_prediction S plan v p \<longleftrightarrow> apr_class_order p = [0, 1] \<and> converts S (apr_probabilities p)
     \<and> list_all (pair_ok S (smp_probability_sum_tolerance plan)) (apr_probabilities p)
     \<and> map_of (smv_partition_rows v) (apr_partition p) = Some (int (length (apr_row_ids p)))
     \<and> (\<exists>ids. mapr (skp_json S) (apr_row_ids p) = Inr ids
          \<and> map_of (smv_partition_row_id v) (apr_partition p) = Some (sha256_canonical_json (skp_sha S) (JArr ids)))"

lemma worker_output_parts:
  assumes "worker_output S plan c i W p = Inr (s, bs)"
  obtains X ids probabilities where "archived_frame S plan c i W p = Inr X" and "row_id_sha256 S X = Inr ids"
    and "probability_sha256 S X = Inr probabilities" and "bs = wkr_parquet W X" and "validate_output_summary s = Inr s"
    and "s = \<lparr>osm_partition = apr_partition p, osm_row_count = int (row_count X), osm_row_id_sha256 = ids,
        osm_probability_sha256 = probabilities, osm_parquet_sha256 = skp_sha S bs, osm_class_order = apr_class_order p\<rparr>"
proof -
  have same: "validate_output_summary a = Inr b \<Longrightarrow> b = a" for a b
    by (auto simp: validate_output_summary_def dest: guards_same)
  from assms obtain X ids probabilities a where X: "archived_frame S plan c i W p = Inr X" "row_id_sha256 S X = Inr ids"
      "probability_sha256 S X = Inr probabilities" "bs = wkr_parquet W X" "validate_output_summary a = Inr s"
    and a: "a = \<lparr>osm_partition = apr_partition p, osm_row_count = int (row_count X), osm_row_id_sha256 = ids,
        osm_probability_sha256 = probabilities, osm_parquet_sha256 = skp_sha S bs, osm_class_order = apr_class_order p\<rparr>"
    by (auto simp: worker_output_def archived_frame_def observed_parameters_def Let_def bindr_Inr_iff)
  from same [OF X(5)] X a show ?thesis by (intro that) simp_all
qed

lemma load_written_output:
  assumes out: "worker_output S plan c i W p = Inr (s, bs)" and entry: "read_entry entries (predictions_entry (apr_partition p)) = Inr bs"
    and parquet: "\<And>X. archived_frame S plan c i W p = Inr X \<Longrightarrow> skp_parquet S (wkr_parquet W X) = Inr X"
    and sound: "sound_prediction S plan v p" and view: "find_view plan (smc_view_id c) = Inr v"
    and name: "list_all task_name_char (smc_task_name c)" and sha: "\<And>x. is_sha256 (skp_sha S x)"
  shows "load_output S entries c plan (cache_key (skp_sha S) i) s
    = Inr \<lparr>pfr_partition = apr_partition p, pfr_relative_path = prediction_path c (apr_partition p), pfr_sha256 = skp_sha S bs,
        pfr_row_count = osm_row_count s, pfr_row_id_sha256 = osm_row_id_sha256 s, pfr_probability_sha256 = osm_probability_sha256 s\<rparr>"
proof -
  from out obtain X ids probabilities where X: "archived_frame S plan c i W p = Inr X" and ids: "row_id_sha256 S X = Inr ids"
    and prob: "probability_sha256 S X = Inr probabilities" and bs: "bs = wkr_parquet W X" and valid: "validate_output_summary s = Inr s"
    and s: "s = \<lparr>osm_partition = apr_partition p, osm_row_count = int (row_count X), osm_row_id_sha256 = ids,
        osm_probability_sha256 = probabilities, osm_parquet_sha256 = skp_sha S bs, osm_class_order = apr_class_order p\<rparr>"
    by (rule worker_output_parts)
  let ?rows = "zip (apr_row_ids p) (apr_probabilities p)"
  have order: "apr_class_order p = [0, 1]" using sound by (simp add: sound_prediction_def)
  note w = prediction_frame_written [OF X [unfolded archived_frame_def] order]
  have count: "row_count X = length ?rows"
    unfolding w(1) archived_table_def by (simp add: written_count PREDICTION_COLUMNS_def)
  have snds: "map snd ?rows = apr_probabilities p" and fsts: "map fst ?rows = apr_row_ids p" using w(3) by simp_all
  have "osm_partition s = apr_partition p" "osm_row_count s = int (length ?rows)" "osm_class_order s = [0, 1]"
    by (simp_all add: s count order del: length_zip)
  note guards = written_archive_guards [OF w(1) [folded this(1)] this(2,3)]
  from sound have conv: "converts S (map snd ?rows)" and pairs: "list_all (pair_ok S (smp_probability_sum_tolerance plan)) (map snd ?rows)"
    unfolding snds by (simp_all add: sound_prediction_def)
  note numbers = written_probabilities [OF conv pairs w(1)]
  have "check_probabilities S plan X = Inr (map snd ?rows)"
    unfolding check_probabilities_def numbers(1) using numbers(2,3) by simp
  moreover obtain js where "mapr (skp_json S) (apr_row_ids p) = Inr js"
      and planned: "map_of (smv_partition_row_id v) (apr_partition p) = Some (sha256_canonical_json (skp_sha S) (JArr js))"
      and rows: "map_of (smv_partition_rows v) (apr_partition p) = Some (int (length (apr_row_ids p)))"
    using sound by (auto simp: sound_prediction_def)
  then have "ids = sha256_canonical_json (skp_sha S) (JArr js)"
    using ids fsts by (simp add: row_id_sha256_def w(1) written_table_cells)
  moreover have "apr_partition p \<in> set PREDICTION_PARTITIONS" "0 < osm_row_count s" "is_sha256 ids" "is_sha256 probabilities"
    using valid by (simp_all add: validate_output_summary_def guards_Inr_iff s)
  moreover from this(1) have "prediction_path_ok (prediction_path c (apr_partition p))" by (rule prediction_path_valid [OF name])
  ultimately show ?thesis
    using entry guards ids prob view planned rows numbers(4) parquet [OF X] sha w(3)
    by (simp add: load_output_def s bs partition_entry_def of_option_def count validate_prediction_file_def)
qed

lemma resource_condition_valid:
  assumes "validate_adapter_resource a = Inr a'" and "\<And>x. is_sha256 (pp_sha P x)"
  shows "validate_condition_resource (condition_resource_of P a) = Inr (condition_resource_of P a)"
  using assms by (auto simp: validate_condition_resource_def guards_Inr_iff validate_adapter_resource_def condition_resource_of_def
    adapter_resource_sha256_def sha256_canonical_json_def)

lemma worker_archive_parts:
  assumes "worker_archive S plan c i W = Inr (outcome, entries)"
  obtains outputs where "mapr (worker_output S plan c i W) (wkr_predictions W) = Inr outputs"
    and "observed_parameters S W = smc_parameters_sha256 c" and "validate_adapter_resource (wkr_resource W) = Inr (wkr_resource W)"
    and "validate_worker_result outcome = Inr outcome"
    and "outcome = \<lparr>wcr_plan_sha256 = smoke_plan_sha256 (skp_pilot S) plan, wcr_condition_id = smc_condition_id c,
        wcr_source_commit = smp_source_commit plan, wcr_observed_package_version = wkr_package_version W,
        wcr_observed_parameters_sha256 = observed_parameters S W, wcr_checkpoint_identifier = wkr_checkpoint_identifier W,
        wcr_checkpoint_sha256 = wkr_checkpoint_sha256 W, wcr_training_row_id_sha256 = wkr_train_ids_sha256 W,
        wcr_training_target_sha256 = wkr_training_target_sha256 W, wcr_adapter_resource = wkr_resource W,
        wcr_outputs = map fst outputs, wcr_network_attempt_count = wkr_network_attempts W\<rparr>"
    and "entries = map2 (\<lambda>p (s, bs). (predictions_entry (apr_partition p), bs)) (wkr_predictions W) outputs
       @ [(METADATA_ENTRY, wkr_render W outcome)]"
proof -
  have adapter: "validate_adapter_resource a = Inr b \<Longrightarrow> b = a" for a b
    by (auto simp: validate_adapter_resource_def dest: guards_same)
  have worker: "validate_worker_result a = Inr b \<Longrightarrow> b = a" for a b
    by (auto simp: validate_worker_result_def bindr_Inr_iff dest: guards_same)
  from assms obtain a b outputs where g: "mapr (worker_output S plan c i W) (wkr_predictions W) = Inr outputs"
      "observed_parameters S W = smc_parameters_sha256 c" "validate_adapter_resource (wkr_resource W) = Inr a"
      "validate_worker_result b = Inr outcome"
    and b: "b = \<lparr>wcr_plan_sha256 = smoke_plan_sha256 (skp_pilot S) plan, wcr_condition_id = smc_condition_id c,
        wcr_source_commit = smp_source_commit plan, wcr_observed_package_version = wkr_package_version W,
        wcr_observed_parameters_sha256 = observed_parameters S W, wcr_checkpoint_identifier = wkr_checkpoint_identifier W,
        wcr_checkpoint_sha256 = wkr_checkpoint_sha256 W, wcr_training_row_id_sha256 = wkr_train_ids_sha256 W,
        wcr_training_target_sha256 = wkr_training_target_sha256 W, wcr_adapter_resource = wkr_resource W,
        wcr_outputs = map fst outputs, wcr_network_attempt_count = wkr_network_attempts W\<rparr>"
    and e: "entries = map2 (\<lambda>p (s, bs). (predictions_entry (apr_partition p), bs)) (wkr_predictions W) outputs
       @ [(METADATA_ENTRY, wkr_render W outcome)]"
    unfolding worker_archive_def Let_def bindr_Inr_iff guards_Inr_iff by (auto simp: observed_parameters_def)
  from worker [OF g(4)] adapter [OF g(3)] g b e show ?thesis by (intro that) simp_all
qed


text \<open>
  A cold run of the accepted plan in which every condition has passed: the files, the tables and the
  report that the witnesses of the evidence properties use. The bytes of a file are its path.
\<close>

section \<open>Files and tables\<close>

definition demo_slots :: "((string \<times> string) \<times> string) list" where
  "demo_slots = List.product expected_pairs PREDICTION_PARTITIONS"

definition slot_path :: "(string \<times> string) \<times> string \<Rightarrow> string" where
  "slot_path x = prediction_path (demo_smoke_condition (fst x)) (snd x)"

abbreviation demo_smoke :: smoke_plan where
  "demo_smoke \<equiv> demo_smoke_plan 60"

definition smoke_demo_resource :: adapter_resource where
  "smoke_demo_resource = \<lparr>ads_model_load_seconds = 0, ads_preprocessing_fit_seconds = 0, ads_fit_seconds = 1, ads_prediction_seconds = 1,
     ads_wall_time_seconds = 2, ads_cpu_time_seconds = None, ads_peak_ram_mib = None, ads_peak_process_tree_ram_mib = None,
     ads_peak_vram_allocated_mib = None, ads_peak_vram_reserved_mib = None, ads_free_vram_before_mib = None,
     ads_free_vram_after_mib = None, ads_telemetry_complete = True, ads_resource_limits_passed = True, ads_cleanup_verified = True\<rparr>"

definition smoke_demo_rows :: "(cell \<times> py_float list) list" where
  "smoke_demo_rows = [(CInt ''int'' 7, [1 / 4, 3 / 4])]"

definition smoke_demo_table :: "(string \<times> string) \<times> string \<Rightarrow> frame" where
  "smoke_demo_table x = archived_table demo_smoke_pilot demo_smoke (demo_smoke_condition (fst x)) smoke_demo_resource smoke_other smoke_other smoke_other
     (snd x) smoke_demo_rows"

text \<open>The metric tables name the position of their record in the first column.\<close>

definition indexed_table :: "string list \<Rightarrow> nat \<Rightarrow> frame" where
  "indexed_table names n = map (\<lambda>name. \<lparr>co_name = name, co_dtype = [],
     co_cells = map (\<lambda>i. if name = ''model_id'' then CInt ''int'' (int i) else if name = ''roc_auc_status'' then CStr ''defined''
       else CFloat ''float'' (Finite 1)) [0..<n]\<rparr>) names"

definition demo_parquet :: "string \<Rightarrow> frame result" where
  "demo_parquet path = (case find (\<lambda>x. slot_path x = path) demo_slots of
     Some x \<Rightarrow> Inr (smoke_demo_table x)
   | None \<Rightarrow> if path = METRICS_PATH then Inr (indexed_table METRIC_FIELDS 20)
       else if path = PAIRED_PATH then Inr (indexed_table PAIRED_FIELDS 10) else Inl (OSError path))"

definition demo_float :: "cell \<Rightarrow> float_value result" where
  "demo_float c = (case c of CFloat t v \<Rightarrow> Inr v | _ \<Rightarrow> Inl (ValueError ''float64''))"

definition demo_int :: "cell \<Rightarrow> int result" where
  "demo_int c = (case c of CInt t i \<Rightarrow> Inr i | _ \<Rightarrow> Inl (ValueError ''int64''))"

definition demo_smoke_params :: smoke_params where
  "demo_smoke_params = \<lparr>skp_metric = \<lparr>mtp_pilot = demo_smoke_pilot, mtp_rowsum = sum_list, mtp_mean = (\<lambda>_. 0)\<rparr>,
     skp_parquet = demo_parquet, skp_logical = (\<lambda>_. smoke_other), skp_str = (\<lambda>c. case c of CStr s \<Rightarrow> s | _ \<Rightarrow> []),
     skp_json = (\<lambda>_. Inr JNull), skp_number = (\<lambda>_. Finite 1), skp_float64 = mapr demo_float, skp_int64 = mapr demo_int,
     skp_numeric = (\<lambda>c. case c of CFloat t v \<Rightarrow> v | _ \<Rightarrow> NonFinite ''nan''), skp_archive = (\<lambda>_. Inl (OSError ''zip'')),
     skp_metadata = (\<lambda>_. Inl (ValueError ''json''))\<rparr>"

lemma smoke_demo_params_simps [simp]: "skp_pilot demo_smoke_params = demo_smoke_pilot" "skp_sha demo_smoke_params = smoke_sha"
    "skp_parquet demo_smoke_params = demo_parquet" "skp_float64 demo_smoke_params = mapr demo_float"
    "skp_int64 demo_smoke_params = mapr demo_int" "skp_json demo_smoke_params c = Inr JNull"
    "mtp_rowsum (skp_metric demo_smoke_params) = sum_list"
  by (simp_all add: demo_smoke_params_def skp_pilot_def skp_sha_def)

lemma mapr_identity: "(\<And>x. x \<in> set xs \<Longrightarrow> f (g x) = Inr (h x)) \<Longrightarrow> mapr f (map g xs) = Inr (map h xs)"
  by (induction xs) auto

lemma demo_converts: "converts demo_smoke_params rs"
  by (auto simp: converts_def demo_float_def demo_int_def intro!: mapr_identity)

lemma demo_pair_ok: "list_all (pair_ok demo_smoke_params (smp_probability_sum_tolerance demo_smoke)) (map snd smoke_demo_rows)"
  by (simp add: smoke_demo_rows_def pair_ok_def demo_smoke_plan_def)

lemma slot_paths: "map slot_path demo_slots = smoke_paths"
  by (simp add: demo_slots_def slot_path_def smoke_paths_def product_concat_map map_concat o_def prediction_path_def
    demo_condition_fields(2) demo_smoke_base_def Let_def case_prod_unfold)

lemma find_mapped: "find P (map f xs) = map_option f (find (P \<circ> f) xs)"
  by (induction xs) simp_all

lemma find_injective: "inj_on f (set xs) \<Longrightarrow> x \<in> set xs \<Longrightarrow> find (\<lambda>y. f y = f x) xs = Some x"
  by (induction xs) (auto simp: inj_on_def)

lemma slot_inj: "inj_on slot_path (set demo_slots)" and distinct_slots: "distinct demo_slots"
  using distinct_smoke_paths unfolding slot_paths [symmetric] by (simp_all add: distinct_map)

lemma demo_parquet_slot: "x \<in> set demo_slots \<Longrightarrow> demo_parquet (slot_path x) = Inr (smoke_demo_table x)"
  by (simp add: demo_parquet_def find_injective [OF slot_inj])

lemma metric_paths: "METRICS_PATH \<notin> set smoke_paths" "PAIRED_PATH \<notin> set smoke_paths"
  by (auto simp: smoke_paths_def METRICS_PATH_def PAIRED_PATH_def)

lemma demo_parquet_metrics: "demo_parquet METRICS_PATH = Inr (indexed_table METRIC_FIELDS 20)"
    "demo_parquet PAIRED_PATH = Inr (indexed_table PAIRED_FIELDS 10)"
proof -
  have "find (\<lambda>x. slot_path x = path) demo_slots = None" if "path \<notin> set smoke_paths" for path
    using that unfolding slot_paths [symmetric] by (auto simp: find_None_iff)
  with metric_paths show "demo_parquet METRICS_PATH = Inr (indexed_table METRIC_FIELDS 20)"
    "demo_parquet PAIRED_PATH = Inr (indexed_table PAIRED_FIELDS 10)"
    by (simp_all add: demo_parquet_def METRICS_PATH_def PAIRED_PATH_def)
qed

section \<open>The records of the run\<close>

definition demo_file :: "(string \<times> string) \<times> string \<Rightarrow> prediction_file" where
  "demo_file x = \<lparr>pfr_partition = snd x, pfr_relative_path = slot_path x, pfr_sha256 = smoke_sha (slot_path x), pfr_row_count = 1,
     pfr_row_id_sha256 = smoke_other, pfr_probability_sha256 = smoke_other\<rparr>"

definition smoke_demo_run :: "string \<times> string \<Rightarrow> condition_run" where
  "smoke_demo_run p = (let c = demo_smoke_condition p in
     \<lparr>crn_condition_id = smc_condition_id c, crn_cache_identity_sha256 = smoke_other, crn_model_id = fst p, crn_view_id = snd p,
      crn_device = smc_device c, crn_status = ''PASS'', crn_cache_status = ''created'',
      crn_resource = Some (condition_resource_of demo_smoke_pilot smoke_demo_resource),
      crn_prediction_files = map (\<lambda>part. demo_file (p, part)) PREDICTION_PARTITIONS, crn_failure_category = None,
      crn_failure_reason = None, crn_traceback_relative_path = None\<rparr>)"

definition demo_runs :: "condition_run list" where
  "demo_runs = map smoke_demo_run expected_pairs"

lemma demo_run_fields: "crn_condition_id (smoke_demo_run p) = smc_condition_id (demo_smoke_condition p)" "crn_status (smoke_demo_run p) = ''PASS''"
    "crn_cache_identity_sha256 (smoke_demo_run p) = smoke_other" "crn_cache_status (smoke_demo_run p) = ''created''"
    "crn_prediction_files (smoke_demo_run p) = map (\<lambda>part. demo_file (p, part)) PREDICTION_PARTITIONS"
  by (simp_all add: smoke_demo_run_def Let_def)

lemma demo_run_files: "concat (map crn_prediction_files demo_runs) = map demo_file demo_slots"
  by (simp add: demo_runs_def demo_run_fields demo_slots_def product_concat_map map_concat o_def)

lemma condition_names: "p \<in> set expected_pairs \<Longrightarrow> list_all task_name_char (smc_task_name (demo_smoke_condition p))"
  using demo_names by (simp add: demo_condition_fields(2) demo_smoke_base_def Let_def case_prod_unfold)

lemma demo_file_valid: "x \<in> set demo_slots \<Longrightarrow> validate_prediction_file (demo_file x) = Inr (demo_file x)"
  using prediction_path_valid [OF condition_names [of "fst x"], of "snd x"]
  by (auto simp: validate_prediction_file_def demo_file_def demo_slots_def slot_path_def)

lemma smoke_demo_run_valid: "p \<in> set expected_pairs \<Longrightarrow> validate_condition_run (smoke_demo_run p) = Inr (smoke_demo_run p)"
proof -
  assume p: "p \<in> set expected_pairs"
  have r: "validate_condition_resource (condition_resource_of demo_smoke_pilot smoke_demo_resource)
      = Inr (condition_resource_of demo_smoke_pilot smoke_demo_resource)"
    by (rule resource_condition_valid [of smoke_demo_resource smoke_demo_resource]) (simp_all add: validate_adapter_resource_def smoke_demo_resource_def below_zero_def)
  have "validate_all validate_prediction_file (crn_prediction_files (smoke_demo_run p)) = Inr ()"
    using p demo_file_valid by (auto simp: validate_all_Inr demo_run_fields demo_slots_def)
  with r demo_names [OF p] show ?thesis
    by (simp add: validate_condition_run_def smoke_demo_run_def Let_def demo_condition_fields(1) PREDICTION_PARTITIONS_def)
qed

section \<open>The tables are in order\<close>

lemma demo_condition_lookup:
  assumes "p \<in> set expected_pairs"
  shows "by_key smc_condition_id (smp_conditions demo_smoke) (smc_condition_id (demo_smoke_condition p)) = Some (demo_smoke_condition p)"
    and "by_key crn_condition_id demo_runs (smc_condition_id (demo_smoke_condition p)) = Some (smoke_demo_run p)"
proof -
  show "by_key smc_condition_id (smp_conditions demo_smoke) (smc_condition_id (demo_smoke_condition p)) = Some (demo_smoke_condition p)"
    using demo_ids_distinct assms by (intro by_key_distinct) (auto simp: demo_smoke_conditions)
  have "distinct (map crn_condition_id demo_runs)"
    using demo_ids_distinct by (simp add: demo_runs_def o_def demo_run_fields(1))
  from by_key_distinct [OF this, of "smoke_demo_run p"] assms
  show "by_key crn_condition_id demo_runs (smc_condition_id (demo_smoke_condition p)) = Some (smoke_demo_run p)"
    by (simp add: demo_runs_def demo_run_fields(1))
qed

lemma other_array: "wf_json (JArr xs) \<Longrightarrow> sha256_canonical_json smoke_sha (JArr xs) = smoke_other"
  unfolding sha256_canonical_json_def
proof (rule smoke_sha_other)
  assume wf: "wf_json (JArr xs)"
  have "canonical_text (JArr xs) \<noteq> canonical_text j" if j: "wf_json j" "j = JObj kvs" for j kvs
    unfolding canonical_text_inj [OF wf j(1)] by (simp add: j(2))
  from this [OF wf_condition_identity identity_object(1)] this [OF wf_demo_task] task_object
  have "canonical_text (JArr xs) \<noteq> canonical_text (condition_identity_json c)"
    "canonical_text (JArr xs) \<noteq> canonical_text (demo_task_json p)" for c p by metis+
  then show "canonical_text (JArr xs) \<notin> set demo_smoke_texts"
    by (simp add: demo_smoke_texts_def demo_identity_text_def image_iff)
qed

lemma demo_view_found: "p \<in> set expected_pairs \<Longrightarrow> find_view demo_smoke (snd p) = Inr (demo_smoke_view (snd p))"
  by (auto simp: find_view_def expected_pairs_list demo_smoke_plan_def SMOKE_VIEW_ORDER_def demo_smoke_view_def Let_def of_option_def)

lemma demo_view_entries:
  "part \<in> set ALL_PARTITIONS \<Longrightarrow> partition_entry (smv_partition_rows (demo_smoke_view v)) part = Inr 1"
  "part \<in> set ALL_PARTITIONS \<Longrightarrow> partition_entry (smv_partition_row_id (demo_smoke_view v)) part = Inr smoke_other"
  by (auto simp: partition_entry_def demo_smoke_view_def Let_def ALL_PARTITIONS_def of_option_def)

lemma demo_table_facts: "row_count (smoke_demo_table x) = 1" "frame_columns (smoke_demo_table x) = PREDICTION_COLUMNS"
    "table_cells (smoke_demo_table x) ''condition_id'' = [CStr (smc_condition_id (demo_smoke_condition (fst x)))]"
    "table_cells (smoke_demo_table x) ''row_id'' = [CInt ''int'' 7]" "table_cells (smoke_demo_table x) ''partition'' = [CStr (snd x)]"
    "table_cells (smoke_demo_table x) ''validation_status'' = [CStr ''PASS'']"
    "table_cells (smoke_demo_table x) ''fit_time_seconds'' = [CFloat ''float'' (Finite 1)]"
    "table_cells (smoke_demo_table x) ''prediction_time_seconds'' = [CFloat ''float'' (Finite 1)]"
    "row_id_sha256 demo_smoke_params (smoke_demo_table x) = Inr smoke_other"
  by (simp_all add: smoke_demo_table_def written_table_cells row_id_sha256_def other_array smoke_demo_rows_def float_cell_def smoke_demo_resource_def)
    (simp_all add: archived_table_def written_columns written_count PREDICTION_COLUMNS_def)

lemma demo_probabilities: "probability_checks D demo_smoke (smoke_demo_table x) = Inr ()" if "evd_smoke D = demo_smoke_params"
proof -
  note w = written_probabilities [OF demo_converts [of "map snd smoke_demo_rows"] demo_pair_ok smoke_demo_table_def]
  from w show ?thesis
    unfolding probability_checks_def that w(1) bindr_simps by (simp add: all_equal_def demo_table_facts)
qed

lemma smoke_demo_parameters: "smc_parameters_sha256 (demo_smoke_condition p) = smoke_other" "smc_view_id (demo_smoke_condition p) = snd p"
  by (simp_all add: demo_condition_fields(2) demo_smoke_base_def Let_def case_prod_unfold)

lemma demo_table_checked:
  assumes D: "evd_smoke D = demo_smoke_params" and r: "srr_conditions r = demo_runs" and x: "x \<in> set demo_slots"
    and fs: "map_of fs (slot_path x) = Some (slot_path x)"
  shows "validate_prediction_table D fs demo_smoke r (slot_path x) = Inr ()"
proof -
  from x have p: "fst x \<in> set expected_pairs" and part: "snd x \<in> set PREDICTION_PARTITIONS" by (auto simp: demo_slots_def)
  have all: "snd x \<in> set ALL_PARTITIONS" using part by (auto simp: PREDICTION_PARTITIONS_def ALL_PARTITIONS_def)
  have pilot: "evd_pilot D = demo_smoke_pilot" by (simp add: evd_pilot_def D)
  have "find (\<lambda>f. pfr_relative_path f = slot_path x) (map demo_file demo_slots) = Some (demo_file x)"
    using find_injective [OF slot_inj x] by (simp add: find_mapped o_def demo_file_def)
  then have "find (\<lambda>f. pfr_relative_path f = slot_path x) (report_files r) = Some (demo_file x)"
    by (simp add: report_files_def r demo_run_files)
  moreover have "intact_file (evd_smoke D) fs (slot_path x) (pfr_sha256 (demo_file x))"
    by (simp add: intact_file_def fs D demo_file_def)
  moreover have "identity_checks D demo_smoke r (smoke_demo_table x) = Inr (demo_smoke_condition (fst x), smoke_demo_run (fst x))"
    using demo_condition_lookup [OF p]
    by (simp add: identity_checks_def demo_table_facts D r all_equal_def demo_smoke_params_def demo_run_fields)
  moreover have "partition_checks D demo_smoke (demo_file x) (demo_smoke_condition (fst x)) (smoke_demo_table x) = Inr ()"
    using part demo_view_found [OF p] demo_view_entries [OF all]
    by (simp add: partition_checks_def demo_file_def smoke_demo_parameters demo_table_facts D all_equal_def PREDICTION_PARTITIONS_def)
  moreover have "guards (table_lineage_guards (evd_pilot D) demo_smoke (demo_smoke_condition (fst x)) (smoke_demo_run (fst x)) (smoke_demo_table x)) () = Inr ()"
    using written_table_lineage [of "smoke_demo_table x" demo_smoke_params demo_smoke "demo_smoke_condition (fst x)" smoke_demo_resource smoke_other
      "smoke_demo_run (fst x)" "snd x" smoke_demo_rows] by (simp add: pilot smoke_demo_table_def smoke_demo_parameters demo_run_fields)
  moreover have "bindr (file_at fs (slot_path x)) (skp_parquet (evd_smoke D)) = Inr (smoke_demo_table x)"
    by (simp add: file_at_def fs D of_option_def demo_parquet_slot [OF x])
  ultimately show ?thesis
    by (simp add: validate_prediction_table_def of_option_def demo_probabilities [OF D] demo_table_facts finite_nonnegative_def D
      demo_smoke_params_def [THEN arg_cong, of skp_numeric]) (simp add: demo_file_def)
qed

section \<open>Metrics and bound artifacts\<close>

definition demo_metric :: "(string \<times> string) \<times> string \<Rightarrow> smoke_metric" where
  "demo_metric x = \<lparr>mrc_model_id = fst (fst x), mrc_view_id = snd (fst x), mrc_device = smoke_device (fst (fst x)), mrc_partition = snd x,
     mrc_row_count = 1, mrc_brier_score = 1, mrc_log_loss = 1, mrc_accuracy = 1, mrc_balanced_accuracy = 1, mrc_roc_auc = Some 1,
     mrc_roc_auc_status = ''defined'', mrc_expected_calibration_error = 1, mrc_prediction_sha256 = smoke_other,
     mrc_target_artifact_sha256 = smoke_other\<rparr>"

definition demo_metrics :: "smoke_metric list" where "demo_metrics = map demo_metric demo_slots"

definition demo_paired :: "string \<times> string \<Rightarrow> paired_record" where
  "demo_paired = (\<lambda>(model, part). \<lparr>prc_model_id = model, prc_device = smoke_device model, prc_partition = part, prc_row_count = 1,
     prc_sii_mean = 0, prc_sii_median = 0, prc_sii_p90 = 0, prc_sii_max = 0, prc_label_flip_rate = 0, prc_maximum_difference = 0,
     prc_mean_difference = 0, prc_metric_deltas = map (\<lambda>n. (n, Some 0)) METRIC_NAMES, prc_v00_prediction_sha256 = smoke_other,
     prc_v01_prediction_sha256 = smoke_other\<rparr>)"

definition demo_pairs :: "paired_record list" where
  "demo_pairs = map demo_paired (List.product SMOKE_MODEL_ORDER PREDICTION_PARTITIONS)"

definition demo_row_index :: "(string \<times> cell) list \<Rightarrow> nat" where
  "demo_row_index cells = (case map_of cells ''model_id'' of Some (CInt t i) \<Rightarrow> nat i | _ \<Rightarrow> 0)"

definition demo_foundation :: "nat \<Rightarrow> foundation_artifact" where
  "demo_foundation n = \<lparr>pfa_path = ''data/raw/'' @ replicate (Suc n) CHR ''a'', pfa_before_sha256 = smoke_other,
     pfa_after_sha256 = smoke_other, pfa_before_size_bytes = 1, pfa_after_size_bytes = 1, pfa_unchanged = True\<rparr>"

definition demo_comparison :: foundation_comparison where
  "demo_comparison = \<lparr>pfc_plan_sha256 = smoke_other, pfc_baseline_snapshot_sha256 = smoke_other, pfc_status = ''PASS'',
     pfc_artifacts = map demo_foundation [0..<13]\<rparr>"

definition demo_split_record :: split_validation where
  "demo_split_record = \<lparr>psv_status = ''PASS'', psv_assignment_sha256 = smoke_other, psv_row_count = Some 748,
     psv_partition_counts = Some FROZEN_PARTITION_COUNTS,
     psv_class_counts = Some (map (\<lambda>(p, n). (p, [(''0'', 1), (''1'', n - 1)])) FROZEN_PARTITION_COUNTS),
     psv_predictor_group_count = Some 502, psv_duplicate_group_count = Some 69, psv_conflicting_group_count = Some 31,
     psv_crossing_group_count = Some 0, psv_failure_reason = None\<rparr>"

lemma length_slots: "length demo_slots = 20"
  by (simp add: demo_slots_def length_pairs PREDICTION_PARTITIONS_def)

lemma length_metrics: "length demo_metrics = 20" "length demo_pairs = 10"
  by (simp_all add: demo_metrics_def length_slots demo_pairs_def SMOKE_MODEL_ORDER_def PREDICTION_PARTITIONS_def)

lemma demo_metric_valid: "m \<in> set demo_metrics \<Longrightarrow> validate_smoke_metric m = Inr m"
  using demo_names by (auto simp: demo_metrics_def demo_slots_def validate_smoke_metric_def demo_metric_def outside_unit_def)

lemma demo_pair_valid: "m \<in> set demo_pairs \<Longrightarrow> validate_paired_record m = Inr m"
  by (auto simp: demo_pairs_def validate_paired_record_def demo_paired_def outside_unit_def o_def)

lemma split_on_chars: "set (concat (split_on c s)) \<subseteq> set s"
proof (induction s)
  case (Cons a s)
  show ?case
  proof (cases "split_on c s")
    case (Cons x xs)
    with Cons.IH show ?thesis by (auto simp: Cons)
  qed simp
qed simp

lemma no_dots: "CHR ''.'' \<notin> set s \<Longrightarrow> ''..'' \<notin> set (posix_parts s)"
  using split_on_chars by (fastforce simp: posix_parts_def)

lemma demo_comparison_valid: "validate_foundation_comparison demo_comparison = Inr demo_comparison"
proof -
  have "validate_foundation_artifact (demo_foundation n) = Inr (demo_foundation n)" for n
    by (simp add: validate_foundation_artifact_def demo_foundation_def foundation_path_ok_def foundation_path_char_def
      task_name_char_def list_all_iff posix_absolute_def windows_absolute_def no_dots)
  moreover have "sorted (map pfa_path (pfc_artifacts demo_comparison)) \<and> distinct (map pfa_path (pfc_artifacts demo_comparison))"
    by (simp add: demo_comparison_def demo_foundation_def upt_rec)
  ultimately show ?thesis
    unfolding validate_foundation_comparison_def Let_def
    by (subst validate_all_Inr [THEN iffD2]) (auto simp: demo_comparison_def, simp add: demo_foundation_def list_all_iff)
qed

lemma demo_split_valid: "validate_split_validation demo_split_record = Inr demo_split_record"
  by (auto simp: validate_split_validation_def demo_split_record_def below_zero_def split_baseline_differs_def FROZEN_PARTITION_COUNTS_def
    ALL_PARTITIONS_def class_counts_bad_def)

section \<open>The estimate\<close>

definition demo_timing :: "smoke_condition \<Rightarrow> json" where
  "demo_timing c = JObj [(''model_id'', JStr (smc_model_id c)), (''package_version'', JStr (smc_package_version c)),
     (''device'', JStr (device_text (smc_device c))), (''fixture_id'', JStr ''binary_numerical''), (''status'', JStr ''PASS''),
     (''runtime_seconds'', JInt 1)]"

definition smoke_demo_evidence :: "run_report \<Rightarrow> evidence_params" where
  "smoke_demo_evidence r = \<lparr>evd_smoke = demo_smoke_params, evd_records = (\<lambda>_. Inr (map demo_timing (smp_conditions demo_smoke))),
     evd_report = (\<lambda>_. Inr r), evd_comparison = (\<lambda>_. Inr demo_comparison), evd_split = (\<lambda>_. Inr demo_split_record),
     evd_resume = (\<lambda>_. Inl (ValueError ''resume'')), evd_duration = (\<lambda>_ _. Inr 0),
     evd_metric_row = (\<lambda>cells. Inr (demo_metrics ! demo_row_index cells)),
     evd_paired_row = (\<lambda>cells. Inr (demo_pairs ! demo_row_index cells))\<rparr>"

lemma demo_evidence_simps [simp]: "evd_smoke (smoke_demo_evidence r) = demo_smoke_params" "evd_pilot (smoke_demo_evidence r) = demo_smoke_pilot"
    "evd_sha (smoke_demo_evidence r) = smoke_sha"
  by (simp_all add: smoke_demo_evidence_def evd_pilot_def evd_sha_def)

lemma map_filter_ones: "(\<And>x. x \<in> set xs \<Longrightarrow> f x = None \<or> f x = Some v) \<Longrightarrow> set (List.map_filter f xs) \<subseteq> {v}"
  by (fastforce simp: List.map_filter_def)

lemma demo_seconds:
  assumes "c \<in> set (smp_conditions demo_smoke)"
  shows "condition_seconds (smoke_demo_evidence r) (map demo_timing (smp_conditions demo_smoke)) c = Inr (smc_condition_id c, 1)"
proof -
  let ?s = "List.map_filter (supporting_seconds (smoke_demo_evidence r) c) (map demo_timing (smp_conditions demo_smoke))"
  have "supporting_seconds (smoke_demo_evidence r) c (demo_timing c) = Some 1"
    by (simp add: supporting_seconds_def demo_timing_def json_field_def json_seconds_def)
  with assms have "1 \<in> set ?s" by (force simp: List.map_filter_def)
  moreover have "set ?s \<subseteq> {1}"
    by (rule map_filter_ones) (auto simp: supporting_seconds_def demo_timing_def json_field_def json_seconds_def)
  ultimately have "set ?s = {1}" by auto
  then have "?s \<noteq> []" "Max (set ?s) = 1" by auto
  then show ?thesis unfolding condition_seconds_def by (cases ?s) simp_all
qed

text \<open>With one second each, the first worker is at most one task ahead of the second.\<close>

lemma schedule_unit:
  assumes "\<And>t. t \<in> set ts \<Longrightarrow> \<exists>c. by_key smc_task_name (smp_conditions plan) (ts_task_name t) = Some c
      \<and> map_of (rev seconds) (smc_condition_id c) = Some 1 \<and> (smc_device c = Cpu) = cpu (ts_task_name t)"
    and "\<And>x. pp_fl P x = x"
  shows "schedule_tasks P plan seconds ts (of_nat (Suc n div 2), of_nat (n div 2), of_nat m)
        = (let n' = n + length (filter cpu (map ts_task_name ts)); m' = m + length (filter (\<lambda>n. \<not> cpu n) (map ts_task_name ts)) in
           Inr (of_nat (Suc n' div 2), of_nat (n' div 2), of_nat m'))"
  using assms(1)
proof (induction ts arbitrary: n m)
  case (Cons t ts)
  from Cons.prems(1) [of t] obtain c where c: "by_key smc_task_name (smp_conditions plan) (ts_task_name t) = Some c"
    "map_of (rev seconds) (smc_condition_id c) = Some 1" "(smc_device c = Cpu) = cpu (ts_task_name t)" by auto
  define n1 m1 where "n1 = (if cpu (ts_task_name t) then Suc n else n)" and "m1 = (if cpu (ts_task_name t) then m else Suc m)"
  have half: "Suc n div 2 \<le> n div 2 \<longleftrightarrow> even n" by (cases "even n") (auto elim!: evenE oddE)
  have "schedule_task P plan seconds t (of_nat (Suc n div 2), of_nat (n div 2), of_nat m)
      = Inr (of_nat (Suc n1 div 2), of_nat (n1 div 2), of_nat m1)"
    using c by (cases "even n") (auto simp: schedule_task_def of_option_def assms(2) half n1_def m1_def elim!: evenE oddE)
  with Cons.IH [of n1 m1] Cons.prems(1) show ?case by (simp add: n1_def m1_def Let_def)
qed simp

definition demo_task_names :: "string list" where
  "demo_task_names = map (\<lambda>p. smoke_task_name (fst p) (snd p)) expected_pairs"

definition on_cpu :: "string \<Rightarrow> bool" where
  "on_cpu name \<longleftrightarrow> list_ex (\<lambda>p. smoke_device (fst p) = Cpu \<and> smoke_task_name (fst p) (snd p) = name) expected_pairs"

lemma demo_name_inj: "inj_on (\<lambda>p. smoke_task_name (fst p) (snd p)) (set expected_pairs)"
  by (simp add: expected_pairs_list smoke_task_name_def)

lemma demo_condition_name: "smc_task_name (demo_smoke_condition p) = smoke_task_name (fst p) (snd p)"
    "smc_device (demo_smoke_condition p) = smoke_device (fst p)"
  by (simp_all add: demo_condition_fields(2) demo_smoke_base_def Let_def case_prod_unfold)

lemma on_cpu_pair: "p \<in> set expected_pairs \<Longrightarrow> on_cpu (smoke_task_name (fst p) (snd p)) \<longleftrightarrow> smoke_device (fst p) = Cpu"
  using demo_name_inj by (auto simp: on_cpu_def list_ex_iff inj_on_def)

lemma device_counts: "length (filter on_cpu demo_task_names) = 6" "length (filter (\<lambda>n. \<not> on_cpu n) demo_task_names) = 4"
proof -
  have "filter on_cpu demo_task_names = map (\<lambda>p. smoke_task_name (fst p) (snd p)) (filter (\<lambda>p. smoke_device (fst p) = Cpu) expected_pairs)"
    "filter (\<lambda>n. \<not> on_cpu n) demo_task_names
      = map (\<lambda>p. smoke_task_name (fst p) (snd p)) (filter (\<lambda>p. smoke_device (fst p) \<noteq> Cpu) expected_pairs)"
    by (simp_all add: demo_task_names_def filter_map o_def on_cpu_pair cong: filter_cong)
  then show "length (filter on_cpu demo_task_names) = 6" "length (filter (\<lambda>n. \<not> on_cpu n) demo_task_names) = 4"
    by (simp_all add: expected_pairs_list smoke_device_def FOUNDATION_MODELS_def)
qed

definition demo_seconds_list :: "(string \<times> py_float) list" where
  "demo_seconds_list = map (\<lambda>c. (smc_condition_id c, 1)) (smp_conditions demo_smoke)"

lemma demo_schedule:
  assumes "mset (map ts_task_name ts) = mset demo_task_names"
  shows "schedule_tasks demo_smoke_pilot demo_smoke demo_seconds_list ts (0, 0, 0) = Inr (3, 3, 4)"
proof -
  have "\<exists>c. by_key smc_task_name (smp_conditions demo_smoke) (ts_task_name t) = Some c
      \<and> map_of (rev demo_seconds_list) (smc_condition_id c) = Some 1 \<and> (smc_device c = Cpu) = on_cpu (ts_task_name t)"
    if t: "t \<in> set ts" for t
  proof -
    from t have "ts_task_name t \<in> set demo_task_names" using mset_eq_setD [OF assms] by auto
    then obtain p where p: "p \<in> set expected_pairs" "ts_task_name t = smoke_task_name (fst p) (snd p)"
      by (auto simp: demo_task_names_def)
    have "distinct (map smc_task_name (smp_conditions demo_smoke))"
      using demo_name_inj by (simp add: demo_smoke_conditions o_def demo_condition_name distinct_map distinct_pairs)
    from by_key_distinct [OF this, of "demo_smoke_condition p"] p
    have "by_key smc_task_name (smp_conditions demo_smoke) (ts_task_name t) = Some (demo_smoke_condition p)"
      by (simp add: demo_smoke_conditions demo_condition_name)
    moreover have "map_of (rev demo_seconds_list) (smc_condition_id (demo_smoke_condition p)) = Some 1"
      using demo_ids_distinct p(1) by (intro map_of_is_SomeI)
        (auto simp: demo_seconds_list_def demo_smoke_conditions rev_map [symmetric] o_def)
    ultimately show ?thesis using p by (simp add: demo_condition_name on_cpu_pair)
  qed
  note run = schedule_unit [of ts demo_smoke demo_seconds_list on_cpu demo_smoke_pilot 0 0, OF this]
  have "length (filter P (map ts_task_name ts)) = length (filter P demo_task_names)" for P
    using assms by (metis mset_filter size_mset)
  with run device_counts show ?thesis by simp
qed

text \<open>The files of the run: the content of each is its path.\<close>

definition demo_paths :: "string list" where
  "demo_paths = smoke_paths @ [ADAPTER_INVENTORY, METRICS_PATH, PAIRED_PATH,
     ''results/smoke/runtime/protected_foundation_hash_comparison_cold.json'', SPLIT_VALIDATION_PATH, ''report'']"

definition smoke_run_files :: files where
  "smoke_run_files = map (\<lambda>p. (p, p)) demo_paths"

lemma demo_file_found: "p \<in> set demo_paths \<Longrightarrow> map_of smoke_run_files p = Some p"
  using map_of_map_restrict [of "\<lambda>p. p" demo_paths] by (simp add: smoke_run_files_def)

lemma demo_file_at: "p \<in> set demo_paths \<Longrightarrow> file_at smoke_run_files p = Inr p"
  by (simp add: file_at_def of_option_def demo_file_found)

definition smoke_demo_estimate :: smoke_runtime_estimate where
  "smoke_demo_estimate = \<lparr>rte_source_inventory_sha256 = smoke_sha ADAPTER_INVENTORY, rte_condition_seconds = demo_seconds_list,
     rte_cpu_condition_ids = ids_on Cpu demo_smoke, rte_gpu_condition_ids = ids_on Cuda demo_smoke,
     rte_expected_cpu_seconds = 3, rte_expected_gpu_seconds = 4, rte_estimated_total_seconds = 141 / 2\<rparr>"

lemma demo_ids_on: "ids_on d demo_smoke = map (\<lambda>p. smc_condition_id (demo_smoke_condition p)) (filter (\<lambda>p. smoke_device (fst p) = d) expected_pairs)"
  by (simp add: ids_on_def demo_smoke_conditions filter_map o_def demo_condition_name)

lemma demo_id_inj: "inj_on (\<lambda>p. smc_condition_id (demo_smoke_condition p)) (set expected_pairs)"
  using demo_ids_distinct by (simp add: distinct_map o_def)

lemma demo_id_ok: "is_sha256 (smc_condition_id (demo_smoke_condition p))"
  by (simp add: demo_condition_fields(1))

lemma demo_estimate_valid: "validate_smoke_runtime_estimate demo_smoke_pilot smoke_demo_estimate = Inr smoke_demo_estimate"
proof -
  let ?id = "\<lambda>p. smc_condition_id (demo_smoke_condition p)"
  let ?on = "\<lambda>d. filter (\<lambda>p. smoke_device (fst p) = d) expected_pairs"
  have n: "length (?on Cpu) = 6" "length (?on Cuda) = 4"
    by (simp_all add: expected_pairs_list smoke_device_def FOUNDATION_MODELS_def)
  have card: "card (set (ids_on d demo_smoke)) = length (?on d)" for d
  proof -
    have "distinct (map ?id (?on d))" using demo_id_inj by (auto simp: distinct_map distinct_pairs inj_on_def)
    then show ?thesis by (simp add: demo_ids_on distinct_card del: set_map)
  qed
  have len: "length (ids_on d demo_smoke) = length (?on d)" for d by (simp add: demo_ids_on)
  have all: "list_all is_sha256 (ids_on d demo_smoke)" for d by (simp add: demo_ids_on list_all_iff demo_id_ok)
  have "?id ` set (?on Cpu) \<inter> ?id ` set (?on Cuda) = {}"
    using demo_id_inj by (subst inj_on_image_Int [symmetric, of ?id "set expected_pairs"]) auto
  then have disjoint: "set (ids_on Cpu demo_smoke) \<inter> set (ids_on Cuda demo_smoke) = {}" by (simp add: demo_ids_on)
  have cover: "set (map fst demo_seconds_list) = set (ids_on Cpu demo_smoke) \<union> set (ids_on Cuda demo_smoke)"
    by (auto simp: demo_seconds_list_def demo_smoke_conditions demo_ids_on image_iff) (metis device_policy.exhaust)+
  have keys: "\<not> list_ex (\<lambda>(k, s). \<not> is_sha256 k \<or> s \<le> 0) demo_seconds_list"
    by (auto simp: demo_seconds_list_def demo_smoke_conditions list_ex_iff demo_id_ok)
  show ?thesis
    using keys cover by (simp add: validate_smoke_runtime_estimate_def Let_def smoke_demo_estimate_def card len n all disjoint estimated_total_def)
qed

lemma demo_estimated: "estimate_smoke_runtime (smoke_demo_evidence r) smoke_run_files demo_smoke = Inr smoke_demo_estimate"
proof -
  have inventory: "file_at smoke_run_files ADAPTER_INVENTORY = Inr ADAPTER_INVENTORY"
    by (rule demo_file_at) (simp add: demo_paths_def)
  have records: "evd_records (smoke_demo_evidence r) bs = Inr (map demo_timing (smp_conditions demo_smoke))" for bs
    by (simp add: smoke_demo_evidence_def)
  have seconds: "mapr (condition_seconds (smoke_demo_evidence r) (map demo_timing (smp_conditions demo_smoke))) (smp_conditions demo_smoke)
      = Inr demo_seconds_list"
    unfolding demo_seconds_list_def by (rule mapr_all) (simp add: demo_seconds)
  let ?ts = "sort_key ts_task_id (map (smoke_task demo_smoke_pilot demo_smoke) (smp_conditions demo_smoke))"
  have "mset (map f (sort_key k xs)) = mset (map f xs)" for f :: "task_spec \<Rightarrow> string" and k :: "task_spec \<Rightarrow> string" and xs by simp
  moreover have "map ts_task_name (map (smoke_task demo_smoke_pilot demo_smoke) (smp_conditions demo_smoke)) = demo_task_names"
    by (simp add: demo_task_names_def demo_smoke_conditions smoke_task_def demo_condition_name)
  ultimately have "mset (map ts_task_name ?ts) = mset demo_task_names" by metis
  note tasks = demo_schedule [OF this]
  show ?thesis
    unfolding estimate_smoke_runtime_def Let_def
    by (simp only: inventory records seconds demo_scheduled bindr_simps demo_evidence_simps prod.case run_plan.simps tasks)
      (simp add: estimated_total_def demo_estimate_valid [unfolded smoke_demo_estimate_def] smoke_demo_estimate_def)
qed

section \<open>The report\<close>

definition demo_environment :: smoke_environment where
  "demo_environment = \<lparr>sme_os_platform = ''linux'', sme_python_version = ''3.11'', sme_conda_environment = None, sme_cpu_identifier = ''cpu'',
     sme_cpu_physical_cores = None, sme_cpu_logical_cores = None, sme_ram_total_mib = None, sme_ram_available_mib = None,
     sme_gpu_name = None, sme_gpu_total_mib = None, sme_gpu_free_mib = None, sme_gpu_driver = None, sme_torch_version = None,
     sme_torch_cuda_build = None, sme_cuda_visible = True, sme_runtime_package_versions = [], sme_telemetry_warnings = []\<rparr>"

definition demo_run_plan :: run_plan where
  "demo_run_plan = \<lparr>rp_schema_version = 1,
     rp_tasks = sort_key ts_task_id (map (smoke_task demo_smoke_pilot demo_smoke) (smp_conditions demo_smoke)),
     rp_random_seed = SMOKE_SEED, rp_cpu_workers = 2, rp_gpu_workers = 1\<rparr>"

definition smoke_demo_report :: run_report where
  "smoke_demo_report = \<lparr>srr_status = ''PASS_PENDING_REVIEW'', srr_source_commit = demo_commit, srr_plan_sha256 = smoke_other,
     srr_scheduler_plan_sha256 = plan_hash smoke_sha (pp_frepr demo_smoke_pilot) demo_run_plan, srr_resume = False,
     srr_environment = demo_environment, srr_started_at = ''start'', srr_ended_at = ''end'', srr_runtime_estimate = smoke_demo_estimate,
     srr_cold_run_wall_seconds = None, srr_planned_conditions = 10, srr_executed_conditions = 10, srr_validated_cache_hits = 0,
     srr_failed_conditions = 0, srr_blocked_conditions = 0, srr_max_cpu_concurrency = 2, srr_max_gpu_concurrency = 1,
     srr_duplicate_prediction_artifacts = 0, srr_result_rewrites = 0, srr_evaluation_source = ''computed_after_predictions'',
     srr_conditions = demo_runs, srr_metrics = demo_metrics, srr_paired_metrics = demo_pairs,
     srr_metric_table_sha256 = Some (smoke_sha METRICS_PATH), srr_paired_metric_table_sha256 = Some (smoke_sha PAIRED_PATH),
     srr_cold_run_report_sha256 = None, srr_hashes_before_sha256 = None, srr_hashes_after_sha256 = None,
     srr_resume_verification_sha256 = None, srr_hashes_unchanged = True, srr_mtimes_unchanged = True, srr_protected_unchanged = True,
     srr_protected_comparison_sha256 = Some (smoke_sha ''results/smoke/runtime/protected_foundation_hash_comparison_cold.json''),
     srr_split_validation_sha256 = Some (smoke_sha SPLIT_VALIDATION_PATH), srr_labels_opened_after_predictions = True,
     srr_labels_evaluated = True, srr_network_attempt_count = 0\<rparr>"

lemma demo_totals: "status_total ''PASS'' demo_runs = 10" "status_total ''FAIL'' demo_runs = 0" "status_total ''BLOCKED'' demo_runs = 0"
    "length demo_runs = 10" "list_all (\<lambda>c. crn_status c = ''PASS'') demo_runs"
    "list_all (\<lambda>c. crn_cache_status c = ''created'') demo_runs"
  by (simp_all add: status_total_def demo_runs_def filter_map o_def demo_run_fields length_pairs list_all_iff)

lemma demo_distinct_ids: "card (set (map crn_condition_id demo_runs)) = 10"
  using distinct_card [OF demo_ids_distinct] by (simp add: demo_runs_def o_def demo_run_fields image_image length_pairs)

lemma demo_report_valid: "validate_run_report demo_smoke_pilot smoke_demo_report = Inr smoke_demo_report"
proof -
  have "is_sha256 (srr_scheduler_plan_sha256 smoke_demo_report)"
    by (simp add: smoke_demo_report_def plan_hash_def sha256_canonical_json_def)
  then have fields: "\<forall>x \<in> set (report_field_guards smoke_demo_report). \<not> fst x"
    by (simp add: report_field_guards_def) (simp add: smoke_demo_report_def demo_totals SMOKE_STATUSES_def outside_ten_def bad_hash_option_def below_zero_def)
  have nonempty: "demo_metrics \<noteq> []" "demo_pairs \<noteq> []" using length_metrics by auto
  have pass: "\<forall>x \<in> set (report_pass_guards smoke_demo_report). \<not> fst x"
    using demo_totals(5,6) nonempty by (simp add: report_pass_guards_def smoke_demo_report_def list_all_iff list_ex_iff)
  have counts: "\<forall>x \<in> set (report_count_guards smoke_demo_report). \<not> fst x"
    by (simp add: report_count_guards_def smoke_demo_report_def demo_totals)
  have parts: "validate_smoke_environment (srr_environment smoke_demo_report) = Inr demo_environment"
    "validate_smoke_runtime_estimate demo_smoke_pilot (srr_runtime_estimate smoke_demo_report) = Inr smoke_demo_estimate"
    "validate_all validate_condition_run (srr_conditions smoke_demo_report) = Inr ()"
    "validate_all validate_smoke_metric (srr_metrics smoke_demo_report) = Inr ()"
    "validate_all validate_paired_record (srr_paired_metrics smoke_demo_report) = Inr ()"
    using smoke_demo_run_valid demo_metric_valid demo_pair_valid demo_estimate_valid
    by (auto simp: smoke_demo_report_def validate_all_Inr demo_runs_def)
      (simp add: validate_smoke_environment_def demo_environment_def not_positive_def below_zero_def)
  have card: "card (set (map crn_condition_id (srr_conditions smoke_demo_report))) = 10"
    using demo_distinct_ids by (simp add: smoke_demo_report_def)
  show ?thesis
    unfolding validate_run_report_def parts bindr_simps guards_Inr_iff using fields pass counts card by auto
qed

section \<open>The report is accepted\<close>

lemma demo_report_parts: "srr_conditions smoke_demo_report = demo_runs" "srr_metrics smoke_demo_report = demo_metrics"
    "srr_paired_metrics smoke_demo_report = demo_pairs" "srr_resume smoke_demo_report = False"
    "comparison_path smoke_demo_report = ''results/smoke/runtime/protected_foundation_hash_comparison_cold.json''"
  by (simp_all add: smoke_demo_report_def comparison_path_def)

lemma smoke_demo_identity: "report_identity (smoke_demo_evidence smoke_demo_report) smoke_run_files demo_smoke smoke_demo_report = Inr ()"
proof -
  have ids: "map crn_condition_id demo_runs = map smc_condition_id (smp_conditions demo_smoke)"
    by (simp add: demo_runs_def demo_smoke_conditions demo_run_fields)
  have found: "map_of (rev (map (\<lambda>c. (smc_condition_id c, smoke_identity demo_smoke_pilot demo_smoke c)) (smp_conditions demo_smoke)))
      (smc_condition_id c) \<noteq> None" if "c \<in> set (smp_conditions demo_smoke)" for c
    using that by (auto simp: map_of_eq_None_iff image_iff)
  have keys: "map (Some \<circ> crn_cache_identity_sha256) demo_runs = map (\<lambda>c. map_option (cache_key smoke_sha)
      (map_of (rev (map (\<lambda>c. (smc_condition_id c, smoke_identity demo_smoke_pilot demo_smoke c)) (smp_conditions demo_smoke)))
        (smc_condition_id c))) (smp_conditions demo_smoke)"
  proof -
    have "map_option (cache_key smoke_sha) m = Some smoke_other" if "m \<noteq> None" for m using that by (auto simp: demo_key)
    then have "map_option (cache_key smoke_sha) (map_of (rev (map (\<lambda>c. (smc_condition_id c,
        smoke_identity demo_smoke_pilot demo_smoke c)) (smp_conditions demo_smoke))) (smc_condition_id c)) = Some smoke_other"
      if "c \<in> set (smp_conditions demo_smoke)" for c using found [OF that] by blast
    then have "map (\<lambda>c. map_option (cache_key smoke_sha) (map_of (rev (map (\<lambda>c. (smc_condition_id c,
        smoke_identity demo_smoke_pilot demo_smoke c)) (smp_conditions demo_smoke))) (smc_condition_id c))) (smp_conditions demo_smoke)
        = map (\<lambda>c. Some smoke_other) (smp_conditions demo_smoke)" by (intro map_cong refl)
    then show ?thesis by (simp only:) (simp add: demo_runs_def demo_smoke_conditions demo_run_fields)
  qed
  have "same_estimate (srr_runtime_estimate smoke_demo_report) smoke_demo_estimate" "srr_plan_sha256 smoke_demo_report = smoke_other"
      "srr_source_commit smoke_demo_report = smp_source_commit demo_smoke" "smoke_plan_sha256 demo_smoke_pilot demo_smoke = smoke_other"
      "srr_scheduler_plan_sha256 smoke_demo_report = plan_hash smoke_sha (pp_frepr demo_smoke_pilot) demo_run_plan"
    by (simp_all add: same_estimate_def smoke_demo_report_def demo_smoke_plan_def [THEN arg_cong, of smp_source_commit] demo_smoke_plan_sha)
  with ids keys show ?thesis
    unfolding report_identity_def Let_def demo_evidence_simps demo_estimated demo_scheduled demo_report_parts demo_run_plan_def [symmetric]
    by simp
qed

lemma demo_predictions: "validate_prediction_tables (smoke_demo_evidence smoke_demo_report) smoke_run_files demo_smoke smoke_demo_report = Inr 20"
proof -
  have files: "report_files smoke_demo_report = map demo_file demo_slots" by (simp add: report_files_def demo_report_parts demo_run_files)
  have paths: "map pfr_relative_path (report_files smoke_demo_report) = smoke_paths"
    by (simp add: files o_def demo_file_def flip: slot_paths)
  have len: "length smoke_paths = 20" by (simp add: length_slots flip: slot_paths)
  have "validate_prediction_table (smoke_demo_evidence smoke_demo_report) smoke_run_files demo_smoke smoke_demo_report path = Inr ()" if "path \<in> set smoke_paths" for path
  proof -
    from that obtain x where x: "x \<in> set demo_slots" "path = slot_path x" unfolding slot_paths [symmetric] by auto
    have "slot_path x \<in> set demo_paths" using that x(2) by (simp add: demo_paths_def)
    from demo_table_checked [OF _ _ x(1) demo_file_found [OF this], of "smoke_demo_evidence smoke_demo_report" smoke_demo_report]
    show ?thesis by (simp add: demo_report_parts x(2))
  qed
  then have "validate_all (validate_prediction_table (smoke_demo_evidence smoke_demo_report) smoke_run_files demo_smoke smoke_demo_report) smoke_paths = Inr ()"
    by (simp add: validate_all_Inr)
  then show ?thesis
    unfolding validate_prediction_tables_def Let_def paths
    using distinct_smoke_paths demo_totals(5) by (simp add: demo_report_parts len)
qed

definition indexed_cell :: "string \<Rightarrow> nat \<Rightarrow> cell" where
  "indexed_cell name i = (if name = ''model_id'' then CInt ''int'' (int i) else if name = ''roc_auc_status'' then CStr ''defined''
     else CFloat ''float'' (Finite 1))"

lemma indexed_columns: "frame_columns (indexed_table names n) = names" "names \<noteq> [] \<Longrightarrow> row_count (indexed_table names n) = n"
    "i < n \<Longrightarrow> table_row (indexed_table names n) i = map (\<lambda>k. (k, indexed_cell k i)) names"
  by (auto simp: frame_columns_def indexed_table_def o_def row_count_def table_row_def indexed_cell_def split: list.split)

lemma indexed_cells:
  assumes "k \<in> set names"
  shows "table_cells (indexed_table names n) k = map (indexed_cell k) [0..<n]"
proof -
  have "find (\<lambda>c. co_name c = k) (indexed_table names n) = Some \<lparr>co_name = k, co_dtype = [], co_cells = map (indexed_cell k) [0..<n]\<rparr>"
    using assms by (induction names) (auto simp: indexed_table_def indexed_cell_def)
  then show ?thesis by (simp add: table_cells_def)
qed

lemma indexed_lookup: "''model_id'' \<in> set names \<Longrightarrow> demo_row_index (map (\<lambda>k. (k, if k = ''roc_auc'' \<and> b k then CMissing else indexed_cell k i)) names) = i"
    "''model_id'' \<in> set names \<Longrightarrow> demo_row_index (map (\<lambda>k. (k, indexed_cell k i)) names) = i"
  by (simp_all add: demo_row_index_def map_of_map_restrict indexed_cell_def)

lemma metric_fields: "''model_id'' \<in> set METRIC_FIELDS" "''model_id'' \<in> set PAIRED_FIELDS" "METRIC_FIELDS \<noteq> []" "PAIRED_FIELDS \<noteq> []"
    "''roc_auc'' \<in> set METRIC_FIELDS" "''roc_auc_status'' \<in> set METRIC_FIELDS" "''brier_score'' \<in> set METRIC_FIELDS"
    "''log_loss'' \<in> set METRIC_FIELDS" "''accuracy'' \<in> set METRIC_FIELDS" "''balanced_accuracy'' \<in> set METRIC_FIELDS"
    "''expected_calibration_error'' \<in> set METRIC_FIELDS"
  by (simp_all add: METRIC_FIELDS_def PAIRED_FIELDS_def)

lemma demo_metric_rows:
  assumes "n < 20"
  shows "check_metric_row (smoke_demo_evidence r) (indexed_table METRIC_FIELDS 20) (n, demo_metrics ! n) = Inr ()"
proof -
  have "validate_smoke_metric (demo_metrics ! n) = Inr (demo_metrics ! n)"
    using assms length_metrics by (intro demo_metric_valid nth_mem) simp
  then show ?thesis
    by (simp add: check_metric_row_def indexed_columns(3) [OF assms] o_def Let_def smoke_demo_evidence_def
      indexed_lookup(1) [OF metric_fields(1)])
qed

lemma demo_paired_rows:
  assumes "n < 10"
  shows "check_paired_row (smoke_demo_evidence r) (indexed_table PAIRED_FIELDS 10) (n, demo_pairs ! n) = Inr ()"
proof -
  have "validate_paired_record (demo_pairs ! n) = Inr (demo_pairs ! n)"
    using assms length_metrics by (intro demo_pair_valid nth_mem) simp
  then show ?thesis
    by (simp add: check_paired_row_def indexed_columns(3) [OF assms] smoke_demo_evidence_def indexed_lookup(2) [OF metric_fields(2)] same_paired_def)
qed

lemma numeric_cell: "skp_numeric demo_smoke_params (CFloat t v) = v"
  by (simp add: demo_smoke_params_def)

lemma demo_metric_tables: "validate_metric_tables (smoke_demo_evidence smoke_demo_report) smoke_run_files smoke_demo_report = Inr (20, 10)"
proof -
  let ?D = "smoke_demo_evidence smoke_demo_report" and ?X = "indexed_table METRIC_FIELDS 20" and ?Y = "indexed_table PAIRED_FIELDS 10"
  have at: "file_at smoke_run_files METRICS_PATH = Inr METRICS_PATH" "file_at smoke_run_files PAIRED_PATH = Inr PAIRED_PATH"
    by (simp_all add: demo_file_at demo_paths_def)
  have "guards (metric_frame_guards ?D smoke_demo_report ?X ?Y) () = Inr ()"
    by (auto simp: metric_frame_guards_def demo_report_parts length_metrics indexed_columns metric_fields indexed_cells indexed_cell_def
      numeric_cell is_finite_def list_all_iff auc_states_disagree_def list_ex_iff cell_eq_def Let_def zip_map_map)
  moreover have "validate_all (check_metric_row ?D ?X) (enumerate 0 demo_metrics) = Inr ()"
    using demo_metric_rows length_metrics(1) by (auto simp: validate_all_Inr in_set_enumerate_eq)
  moreover have "validate_all (check_paired_row ?D ?Y) (enumerate 0 demo_pairs) = Inr ()"
    using demo_paired_rows length_metrics(2) by (auto simp: validate_all_Inr in_set_enumerate_eq)
  moreover have "demo_metrics \<noteq> []" using length_metrics by auto
  moreover have "srr_metric_table_sha256 smoke_demo_report = Some (smoke_sha METRICS_PATH)"
    "srr_paired_metric_table_sha256 smoke_demo_report = Some (smoke_sha PAIRED_PATH)" by (simp_all add: smoke_demo_report_def)
  ultimately show ?thesis
    by (simp add: validate_metric_tables_def demo_report_parts at demo_parquet_metrics indexed_columns metric_fields)
qed

lemma demo_bound: "bound_comparison (smoke_demo_evidence smoke_demo_report) smoke_run_files demo_smoke smoke_demo_report = Inr (Some demo_comparison)"
    "bound_split (smoke_demo_evidence smoke_demo_report) smoke_run_files demo_smoke smoke_demo_report = Inr (Some demo_split_record)"
    "bound_resume (smoke_demo_evidence smoke_demo_report) smoke_run_files demo_smoke smoke_demo_report = Inr False"
proof -
  have "evd_comparison (smoke_demo_evidence smoke_demo_report) bs = Inr demo_comparison" "evd_split (smoke_demo_evidence smoke_demo_report) bs = Inr demo_split_record" for bs
    by (simp_all add: smoke_demo_evidence_def)
  then show "bound_comparison (smoke_demo_evidence smoke_demo_report) smoke_run_files demo_smoke smoke_demo_report = Inr (Some demo_comparison)"
    "bound_split (smoke_demo_evidence smoke_demo_report) smoke_run_files demo_smoke smoke_demo_report = Inr (Some demo_split_record)"
    using demo_comparison_valid demo_split_valid
    by (simp_all add: bound_comparison_def bound_split_def demo_report_parts demo_file_found demo_paths_def demo_smoke_plan_sha)
      (simp_all add: smoke_demo_report_def demo_comparison_def demo_split_record_def demo_smoke_plan_def [THEN arg_cong, of smp_assignment_sha256])
  show "bound_resume (smoke_demo_evidence smoke_demo_report) smoke_run_files demo_smoke smoke_demo_report = Inr False"
    by (simp add: bound_resume_def smoke_demo_report_def)
qed

definition smoke_demo_gates :: "smoke_gate list" where
  "smoke_demo_gates = smoke_gates (smoke_demo_evidence smoke_demo_report) demo_smoke smoke_demo_report (smoke_sha ''report'') 20 (20, 10)
     (Some demo_comparison) (Some demo_split_record) False"

definition smoke_demo_validation :: smoke_validation where
  "smoke_demo_validation = \<lparr>svl_status = ''PASS'', svl_plan_sha256 = smoke_other, svl_run_report_sha256 = smoke_sha ''report'',
     svl_prediction_count = 20, svl_metric_record_count = 20, svl_paired_metric_count = 10, svl_gates = smoke_demo_gates\<rparr>"

lemma demo_accepted:
  "validate_smoke_report (smoke_demo_evidence smoke_demo_report) smoke_run_files demo_smoke ''report'' = Inr (smoke_demo_report, smoke_demo_validation)"
proof -
  have report: "file_at smoke_run_files ''report'' = Inr ''report''" by (rule demo_file_at) (simp add: demo_paths_def)
  have parsed: "evd_report (smoke_demo_evidence smoke_demo_report) ''report'' = Inr smoke_demo_report" by (simp add: smoke_demo_evidence_def)
  have labels: "guards (label_guards smoke_demo_report 20 (20, 10)) () = Inr ()" by (simp add: label_guards_def smoke_demo_report_def)
  have plan_sha: "smoke_plan_sha256 demo_smoke_pilot demo_smoke = smoke_other" by (rule demo_smoke_plan_sha)
  have "smoke_sha s \<noteq> []" for s using smoke_sha_ok(1) [of s] by (auto simp: is_sha256_def)
  then have hash: "or_hash (Some (smoke_sha s)) d = smoke_sha s" "or_hash None d = d" for s d by (simp_all add: or_hash_def)
  have kept: "pfc_status demo_comparison = ''PASS''" "psv_status demo_split_record = ''PASS''"
    by (simp_all add: demo_comparison_def demo_split_record_def)
  have passed: "list_all (\<lambda>g. sgt_result g = ''PASS'') smoke_demo_gates" "list_all (\<lambda>g. is_sha256 (sgt_evidence_sha256 g)) smoke_demo_gates"
    "list_all (\<lambda>g. gate_id_ok (sgt_gate_id g)) smoke_demo_gates" "smoke_demo_gates \<noteq> []"
    by (simp_all add: smoke_demo_gates_def smoke_gates_def Let_def gate_def pass_or_def kept demo_report_parts plan_sha)
      (simp_all add: smoke_demo_report_def hash gate_id_ok_def is_digit_def)
  then have gates: "validate_all validate_smoke_gate smoke_demo_gates = Inr ()" "\<not> list_ex (\<lambda>g. sgt_result g \<noteq> ''PASS'') smoke_demo_gates"
    by (simp_all add: validate_all_Inr validate_smoke_gate_def guards_Inr_iff list_all_iff list_ex_iff GATE_RESULTS_def)
  have "validate_smoke_validation smoke_demo_validation = Inr smoke_demo_validation"
    using passed gates by (simp add: validate_smoke_validation_def smoke_demo_validation_def outside_ten_def)
  then show ?thesis
    unfolding validate_smoke_report_def report parsed bindr_simps demo_evidence_simps demo_report_valid smoke_demo_identity demo_predictions
      demo_metric_tables labels demo_bound smoke_demo_gates_def [symmetric] Let_def
    by (simp add: passed(1) plan_sha smoke_demo_validation_def)
qed


end
