(* ===== verification/Smoke_Validation.thy ===== *)
theory Smoke_Validation
  imports Smoke_Report_Demo
begin

text \<open>
  What \<open>validate_smoke_report\<close> establishes about a run, and what it does not look at; when the labels may be
  opened.
\<close>

section \<open>A certified table\<close>

text \<open>The table \<open>X\<close> of the file \<open>f\<close> belongs to the planned condition \<open>c\<close>, whose record in the report is
  \<open>run\<close>: the frozen rows of the partition, the lineage of the plan, probabilities on the simplex and the
  classes that maximize them.\<close>

definition certified_prediction ::
  "evidence_params \<Rightarrow> smoke_plan \<Rightarrow> run_report \<Rightarrow> prediction_file \<Rightarrow> frame \<Rightarrow> smoke_condition \<Rightarrow> condition_run \<Rightarrow> bool" where
  "certified_prediction D plan r f X c run \<longleftrightarrow>
     c \<in> set (smp_conditions plan) \<and> run \<in> set (srr_conditions r) \<and> crn_condition_id run = smc_condition_id c \<and> crn_status run = ''PASS''
   \<and> frame_columns X = PREDICTION_COLUMNS \<and> int (row_count X) = pfr_row_count f
   \<and> list_all (\<lambda>x. cell_eq x (CStr (smc_condition_id c))) (table_cells X ''condition_id'')
   \<and> list_all (\<lambda>x. cell_eq x (CStr (pfr_partition f))) (table_cells X ''partition'')
   \<and> distinct (table_cells X ''row_id'')
   \<and> list_ex (\<lambda>view. smv_view_id view = smc_view_id c \<and> map_of (smv_partition_rows view) (pfr_partition f) = Some (int (row_count X))
        \<and> (case map_of (smv_partition_row_id view) (pfr_partition f) of None \<Rightarrow> False
           | Some ids \<Rightarrow> row_id_sha256 (evd_smoke D) X = Inr ids)) (smp_views plan)
   \<and> list_all (\<lambda>(column, x). lineage_column_matches X column x) (table_lineage (evd_pilot D) plan c run)
   \<and> (case probability_rows (evd_smoke D) X of Inl e \<Rightarrow> False
      | Inr rows \<Rightarrow> (case unit_matrix rows of None \<Rightarrow> False
        | Some m \<Rightarrow> \<not> off_simplex (evd_smoke D) (smp_probability_sum_tolerance plan) m
            \<and> skp_int64 (evd_smoke D) (table_cells X ''predicted_class'') = Inr (map (\<lambda>r. int (arg_max r)) m)))"

lemma identity_checked:
  assumes "identity_checks D plan r X = Inr (c, run)"
  shows "c \<in> set (smp_conditions plan) \<and> run \<in> set (srr_conditions r) \<and> crn_condition_id run = smc_condition_id c \<and> crn_status run = ''PASS''
    \<and> frame_columns X = PREDICTION_COLUMNS \<and> list_all (\<lambda>x. cell_eq x (CStr (smc_condition_id c))) (table_cells X ''condition_id'')
    \<and> distinct (table_cells X ''row_id'')"
  using assms by (auto simp: identity_checks_def Let_def guards_Inr_iff all_equal_def split: if_splits list.splits option.splits dest!: by_key_Some)

lemma of_option_eq_Inr [simp]: "of_option e x = Inr y \<longleftrightarrow> x = Some y"
  by (cases x) (simp_all add: of_option_def)

lemma partition_checked:
  assumes "partition_checks D plan f c X = Inr u"
  shows "list_all (\<lambda>x. cell_eq x (CStr (pfr_partition f))) (table_cells X ''partition'')
    \<and> list_ex (\<lambda>view. smv_view_id view = smc_view_id c \<and> map_of (smv_partition_rows view) (pfr_partition f) = Some (int (row_count X))
        \<and> (case map_of (smv_partition_row_id view) (pfr_partition f) of None \<Rightarrow> False
           | Some ids \<Rightarrow> row_id_sha256 (evd_smoke D) X = Inr ids)) (smp_views plan)"
proof -
  from assms obtain view where "find_view plan (smc_view_id c) = Inr view"
    and "partition_entry (smv_partition_rows view) (pfr_partition f) = Inr (int (row_count X))"
    and "\<exists>ids. row_id_sha256 (evd_smoke D) X = Inr ids \<and> partition_entry (smv_partition_row_id view) (pfr_partition f) = Inr ids"
    and "all_equal X ''partition'' (CStr (pfr_partition f))"
    by (auto simp: partition_checks_def bindr_Inr_iff guards_Inr_iff split: if_splits)
  then show ?thesis by (auto simp: find_view_def partition_entry_def all_equal_def list_ex_iff find_Some_iff)
qed

lemma probabilities_checked:
  assumes "probability_checks D plan X = Inr u"
  shows "case probability_rows (evd_smoke D) X of Inl e \<Rightarrow> False
      | Inr rows \<Rightarrow> (case unit_matrix rows of None \<Rightarrow> False
        | Some m \<Rightarrow> \<not> off_simplex (evd_smoke D) (smp_probability_sum_tolerance plan) m
            \<and> skp_int64 (evd_smoke D) (table_cells X ''predicted_class'') = Inr (map (\<lambda>r. int (arg_max r)) m))"
  using assms by (auto simp: probability_checks_def bindr_Inr_iff split: option.splits if_splits)

lemma table_certified:
  assumes "validate_prediction_table D fs plan r path = Inr u"
  shows "\<exists>f \<in> set (report_files r). pfr_relative_path f = path \<and> (\<exists>bs X c run. map_of fs path = Some bs \<and> skp_sha (evd_smoke D) bs = pfr_sha256 f
    \<and> skp_parquet (evd_smoke D) bs = Inr X \<and> certified_prediction D plan r f X c run)"
proof -
  from assms obtain f X c run where f: "find (\<lambda>f. pfr_relative_path f = path) (report_files r) = Some f"
    and intact: "intact_file (evd_smoke D) fs path (pfr_sha256 f)"
    and X: "bindr (file_at fs path) (skp_parquet (evd_smoke D)) = Inr X" and ids: "identity_checks D plan r X = Inr (c, run)"
    and parts: "partition_checks D plan f c X = Inr ()" and lineage: "guards (table_lineage_guards (evd_pilot D) plan c run X) () = Inr ()"
    and probs: "probability_checks D plan X = Inr ()" and rows: "int (row_count X) = pfr_row_count f"
    by (auto simp: validate_prediction_table_def bindr_Inr_iff guards_Inr_iff split: if_splits prod.splits)
  have "list_all (\<lambda>(column, x). lineage_column_matches X column x) (table_lineage (evd_pilot D) plan c run)"
    using lineage by (auto simp: guards_Inr_iff table_lineage_guards_def list_all_iff)
  then have "certified_prediction D plan r f X c run"
    using identity_checked [OF ids] partition_checked [OF parts] probabilities_checked [OF probs] rows by (simp add: certified_prediction_def)
  moreover from intact X obtain bs where "map_of fs path = Some bs" "skp_sha (evd_smoke D) bs = pfr_sha256 f" "skp_parquet (evd_smoke D) bs = Inr X"
    by (auto simp: intact_file_def file_at_def bindr_Inr_iff split: option.splits)
  moreover from f have "f \<in> set (report_files r)" "pfr_relative_path f = path" by (auto simp: find_Some_iff)
  ultimately show ?thesis by blast
qed

lemma find_unique: "distinct (map f xs) \<Longrightarrow> x \<in> set xs \<Longrightarrow> find (\<lambda>y. f y = f x) xs = Some x"
  by (rule find_injective) (simp_all add: distinct_map)

lemma tables_certified:
  assumes "validate_prediction_tables D fs plan r = Inr n"
  shows "distinct (map pfr_relative_path (report_files r)) \<and> n = length (report_files r)
    \<and> (\<forall>f \<in> set (report_files r). \<exists>bs X c run. map_of fs (pfr_relative_path f) = Some bs \<and> skp_sha (evd_smoke D) bs = pfr_sha256 f
      \<and> skp_parquet (evd_smoke D) bs = Inr X \<and> certified_prediction D plan r f X c run)"
proof -
  from assms have d: "distinct (map pfr_relative_path (report_files r))" and n: "n = length (report_files r)"
    and all: "\<And>f. f \<in> set (report_files r) \<Longrightarrow> \<exists>u. validate_prediction_table D fs plan r (pfr_relative_path f) = Inr u"
    by (auto simp: validate_prediction_tables_def Let_def bindr_Inr_iff validate_all_Inr split: if_splits)
  have "\<exists>bs X c run. map_of fs (pfr_relative_path f) = Some bs \<and> skp_sha (evd_smoke D) bs = pfr_sha256 f
      \<and> skp_parquet (evd_smoke D) bs = Inr X \<and> certified_prediction D plan r f X c run" if f: "f \<in> set (report_files r)" for f
  proof -
    from all [OF f] table_certified obtain g where g: "g \<in> set (report_files r)" "pfr_relative_path g = pfr_relative_path f"
      "\<exists>bs X c run. map_of fs (pfr_relative_path f) = Some bs \<and> skp_sha (evd_smoke D) bs = pfr_sha256 g
        \<and> skp_parquet (evd_smoke D) bs = Inr X \<and> certified_prediction D plan r g X c run" by meson
    from d f g(1,2) have "g = f" by (auto simp: distinct_map dest: inj_onD)
    with g(3) show ?thesis by simp
  qed
  with d n show ?thesis by blast
qed

section \<open>The verdict\<close>

text \<open>What a passing verdict says about the run as a whole.\<close>

definition acceptable_run :: "evidence_params \<Rightarrow> files \<Rightarrow> smoke_plan \<Rightarrow> run_report \<Rightarrow> bool" where
  "acceptable_run D fs plan r \<longleftrightarrow> srr_status r = ''PASS_PENDING_REVIEW'' \<and> srr_network_attempt_count r = 0
     \<and> (case bound_comparison D fs plan r of Inr (Some c) \<Rightarrow> pfc_status c = ''PASS'' | _ \<Rightarrow> False)
     \<and> (case bound_split D fs plan r of Inr (Some s) \<Rightarrow> psv_status s = ''PASS'' | _ \<Rightarrow> False)
     \<and> (srr_resume r \<longrightarrow> bound_resume D fs plan r = Inr True)"

lemma validation_parts:
  assumes "validate_smoke_report D fs plan path = Inr (r, v)"
  obtains bs predictions metrics comparison split resumed where
    "validate_run_report (evd_pilot D) r = Inr r" "report_identity D fs plan r = Inr ()"
    "validate_prediction_tables D fs plan r = Inr predictions" "validate_metric_tables D fs r = Inr metrics"
    "guards (label_guards r predictions metrics) () = Inr ()" "bound_comparison D fs plan r = Inr comparison"
    "bound_split D fs plan r = Inr split" "bound_resume D fs plan r = Inr resumed"
    "svl_status v = (if list_all (\<lambda>g. sgt_result g = ''PASS'') (smoke_gates D plan r (evd_sha D bs) predictions metrics comparison split resumed)
       then ''PASS'' else ''FAIL'')"
    "svl_prediction_count v = int predictions" "svl_metric_record_count v = int (fst metrics)"
    "svl_paired_metric_count v = int (snd metrics)"
proof -
  have report: "validate_run_report P x = Inr y \<Longrightarrow> y = x" for P x y
    by (auto simp: validate_run_report_def bindr_Inr_iff dest: guards_same)
  have validation: "validate_smoke_validation x = Inr y \<Longrightarrow> y = x" for x y
    by (auto simp: validate_smoke_validation_def bindr_Inr_iff dest: guards_same)
  have valid: "validate_run_report (evd_pilot D) r = Inr r"
  proof -
    from assms obtain bs x where "bindr (evd_report D bs) (validate_run_report (evd_pilot D)) = Inr x" "x = r"
      unfolding validate_smoke_report_def Let_def by (auto simp: bindr_Inr_iff [of "file_at fs path"] bindr_Inr_iff)
    then show ?thesis using report by (auto simp: bindr_Inr_iff)
  qed
  from assms show thesis
    by (auto simp: validate_smoke_report_def bindr_Inr_iff Let_def split: prod.splits dest!: validation report intro!: that valid)
qed

lemma gates_passed:
  "list_all (\<lambda>g. sgt_result g = ''PASS'') (smoke_gates D plan r report_sha predictions metrics comparison split resumed)
   \<longleftrightarrow> (\<exists>c. comparison = Some c \<and> pfc_status c = ''PASS'') \<and> (\<exists>s. split = Some s \<and> psv_status s = ''PASS'')
     \<and> srr_network_attempt_count r = 0 \<and> srr_labels_opened_after_predictions r \<and> (srr_resume r \<longrightarrow> resumed)
     \<and> srr_status r = ''PASS_PENDING_REVIEW''"
  by (auto simp: smoke_gates_def Let_def gate_def pass_or_def split: option.splits)

text \<open>Claim C14. An accepted report names the plan, its commit and its conditions in their order with the cache
  identities that the plan determines; the recorded prediction files are different, unchanged on disk, and each
  holds the table of a planned condition that passed, on the frozen rows of its partition, with the lineage of
  the plan, probabilities within the tolerance of the simplex and their maximal classes. The verdict is a pass
  exactly when the report claims one, no network access was attempted, the bound comparison of the protected
  files and the bound validation of the split pass, and a resumed run is verified; then all ten conditions have
  passed, with twenty prediction files, twenty metrics and ten paired metrics.\<close>

theorem smoke_validation_sound:
  assumes "validate_smoke_report D fs plan path = Inr (r, v)"
  shows "srr_plan_sha256 r = smoke_plan_sha256 (evd_pilot D) plan \<and> srr_source_commit r = smp_source_commit plan
    \<and> map crn_condition_id (srr_conditions r) = map smc_condition_id (smp_conditions plan)
    \<and> map crn_cache_identity_sha256 (srr_conditions r)
      = map (\<lambda>c. cache_key (evd_sha D) (the (map_of (rev (map (\<lambda>c. (smc_condition_id c, smoke_identity (evd_pilot D) plan c)) (smp_conditions plan)))
          (smc_condition_id c)))) (smp_conditions plan)
    \<and> distinct (map pfr_relative_path (report_files r))
    \<and> (\<forall>f \<in> set (report_files r). \<exists>bs X c run. map_of fs (pfr_relative_path f) = Some bs \<and> skp_sha (evd_smoke D) bs = pfr_sha256 f
        \<and> skp_parquet (evd_smoke D) bs = Inr X \<and> certified_prediction D plan r f X c run)
    \<and> (svl_status v = ''PASS'' \<longleftrightarrow> acceptable_run D fs plan r)
    \<and> (acceptable_run D fs plan r \<longrightarrow> list_all (\<lambda>c. crn_status c = ''PASS'') (srr_conditions r) \<and> length (report_files r) = 20
        \<and> svl_metric_record_count v = 20 \<and> svl_paired_metric_count v = 10)"
proof -
  from assms obtain bs predictions metrics comparison split resumed where
    report: "validate_run_report (evd_pilot D) r = Inr r" and identity: "report_identity D fs plan r = Inr ()"
    and tables: "validate_prediction_tables D fs plan r = Inr predictions"
    and labels: "guards (label_guards r predictions metrics) () = Inr ()"
    and bound: "bound_comparison D fs plan r = Inr comparison" "bound_split D fs plan r = Inr split" "bound_resume D fs plan r = Inr resumed"
    and status: "svl_status v = (if list_all (\<lambda>g. sgt_result g = ''PASS'') (smoke_gates D plan r (evd_sha D bs) predictions metrics comparison split resumed)
       then ''PASS'' else ''FAIL'')"
    and counts: "svl_metric_record_count v = int (fst metrics)" "svl_paired_metric_count v = int (snd metrics)"
    by (rule validation_parts)
  have opened: "srr_labels_opened_after_predictions r" using labels by (simp add: label_guards_def guards_Inr_iff)
  from status have verdict: "svl_status v = ''PASS'' \<longleftrightarrow> acceptable_run D fs plan r"
    using opened by (auto simp: gates_passed acceptable_run_def bound split: option.splits)
  have passing: "list_all (\<lambda>c. crn_status c = ''PASS'') (srr_conditions r) \<and> length (report_files r) = 20
        \<and> svl_metric_record_count v = 20 \<and> svl_paired_metric_count v = 10" if "acceptable_run D fs plan r"
  proof -
    from that report have guards: "\<forall>x \<in> set (report_pass_guards r). \<not> fst x"
      by (auto simp: validate_run_report_def bindr_Inr_iff guards_Inr_iff acceptable_run_def split: if_splits)
    then have pass: "list_all (\<lambda>c. crn_status c = ''PASS'') (srr_conditions r)" "srr_labels_evaluated r"
      by (simp_all add: report_pass_guards_def)
    with labels have "predictions = 20 \<and> fst metrics = 20 \<and> snd metrics = 10"
      by (auto simp: label_guards_def guards_Inr_iff)
    with pass tables_certified [OF tables] counts show ?thesis by simp
  qed
  have ids: "srr_plan_sha256 r = smoke_plan_sha256 (evd_pilot D) plan" "srr_source_commit r = smp_source_commit plan"
    "map crn_condition_id (srr_conditions r) = map smc_condition_id (smp_conditions plan)"
    using identity by (auto simp: report_identity_def Let_def bindr_Inr_iff split: if_splits)
  from identity have "map (Some \<circ> crn_cache_identity_sha256) (srr_conditions r)
      = map (\<lambda>c. map_option (cache_key (evd_sha D)) (map_of (rev (map (\<lambda>c. (smc_condition_id c, smoke_identity (evd_pilot D) plan c)) (smp_conditions plan)))
          (smc_condition_id c))) (smp_conditions plan)"
    by (auto simp: report_identity_def Let_def bindr_Inr_iff guards_Inr_iff smoke_scheduler_plan_def evd_sha_def evd_pilot_def skp_sha_def split: if_splits)
  then have "map the (map (Some \<circ> crn_cache_identity_sha256) (srr_conditions r))
      = map the (map (\<lambda>c. map_option (cache_key (evd_sha D)) (map_of (rev (map (\<lambda>c. (smc_condition_id c, smoke_identity (evd_pilot D) plan c)) (smp_conditions plan)))
          (smc_condition_id c))) (smp_conditions plan))" by (rule arg_cong)
  moreover have "map_of (rev (map (\<lambda>c. (smc_condition_id c, smoke_identity (evd_pilot D) plan c)) (smp_conditions plan))) (smc_condition_id c) \<noteq> None"
    if "c \<in> set (smp_conditions plan)" for c
    using that by (auto simp: map_of_eq_None_iff image_iff)
  ultimately have keys: "map crn_cache_identity_sha256 (srr_conditions r)
      = map (\<lambda>c. cache_key (evd_sha D) (the (map_of (rev (map (\<lambda>c. (smc_condition_id c, smoke_identity (evd_pilot D) plan c)) (smp_conditions plan)))
          (smc_condition_id c)))) (smp_conditions plan)"
    by (simp add: o_def option.map_sel)
  from ids keys tables_certified [OF tables] verdict passing show ?thesis by blast
qed

theorem smoke_validation_sound_witness:
  "acceptable_run (smoke_demo_evidence smoke_demo_report) smoke_run_files demo_smoke smoke_demo_report \<and> length (report_files smoke_demo_report) = 20
   \<and> list_all (\<lambda>f. \<exists>X c run. certified_prediction (smoke_demo_evidence smoke_demo_report) demo_smoke smoke_demo_report f X c run) (report_files smoke_demo_report)"
  using smoke_validation_sound [OF demo_accepted] by (simp add: smoke_demo_validation_def list_all_iff) blast

section \<open>The owner of a prediction file\<close>

text \<open>The report with the prediction files distributed over its conditions in another way.\<close>

definition with_files :: "condition_run \<Rightarrow> prediction_file list \<Rightarrow> condition_run" where
  "with_files c files = c\<lparr>crn_prediction_files := files\<rparr>"

definition reassign :: "run_report \<Rightarrow> prediction_file list list \<Rightarrow> run_report" where
  "reassign r fss = r\<lparr>srr_conditions := map2 with_files (srr_conditions r) fss\<rparr>"

lemma with_files_simps [simp]: "crn_condition_id (with_files c files) = crn_condition_id c" "crn_status (with_files c files) = crn_status c"
    "crn_cache_status (with_files c files) = crn_cache_status c" "crn_cache_identity_sha256 (with_files c files) = crn_cache_identity_sha256 c"
    "crn_prediction_files (with_files c files) = files" "crn_resource (with_files c files) = crn_resource c"
    "crn_model_id (with_files c files) = crn_model_id c" "crn_view_id (with_files c files) = crn_view_id c"
    "crn_failure_category (with_files c files) = crn_failure_category c" "crn_failure_reason (with_files c files) = crn_failure_reason c"
  by (simp_all add: with_files_def)

lemma same_length: "list_all2 Q cs fss \<Longrightarrow> length fss = length cs"
  by (simp add: list_all2_lengthD)

lemma map_files:
  assumes "length fss = length cs" and "\<And>c files. g (with_files c files) = g c"
  shows "map g (map2 with_files cs fss) = map g cs"
  using assms(1) by (induction fss cs rule: list_induct2) (simp_all add: assms(2))

lemma concat_files: "length fss = length cs \<Longrightarrow> concat (map crn_prediction_files (map2 with_files cs fss)) = concat fss"
  by (induction fss cs rule: list_induct2) simp_all

lemma all_files:
  assumes "length fss = length cs" and "\<And>c files. q (with_files c files) = q c"
  shows "list_all q (map2 with_files cs fss) = list_all q cs" and "list_ex q (map2 with_files cs fss) = list_ex q cs"
    and "length (filter q (map2 with_files cs fss)) = length (filter q cs)"
  using assms(1) by (induction fss cs rule: list_induct2) (simp_all add: assms(2))

lemma find_files:
  assumes "length fss = length cs" and "\<And>c files. q (with_files c files) = q c"
  shows "find q (map2 with_files cs fss) = None \<and> find q cs = None
    \<or> (\<exists>c files. find q cs = Some c \<and> find q (map2 with_files cs fss) = Some (with_files c files))"
  using assms(1) by (induction fss cs rule: list_induct2) (auto simp: assms(2))

lemma by_id_files:
  assumes "length fss = length cs"
  shows "by_key crn_condition_id (map2 with_files cs fss) k = None \<and> by_key crn_condition_id cs k = None
    \<or> (\<exists>c files. by_key crn_condition_id cs k = Some c \<and> by_key crn_condition_id (map2 with_files cs fss) k = Some (with_files c files))"
proof -
  have "rev (map2 with_files cs fss) = map2 with_files (rev cs) (rev fss)"
    using assms by (simp add: rev_map zip_rev)
  then show ?thesis using find_files [of "rev fss" "rev cs" "\<lambda>c. crn_condition_id c = k"] assms by (simp add: by_key_def)
qed

lemma find_permuted:
  assumes "mset xs = mset ys" and "distinct (map f xs)"
  shows "find (\<lambda>x. f x = k) xs = find (\<lambda>x. f x = k) ys"
proof (cases "k \<in> f ` set xs")
  case True
  then obtain x where x: "x \<in> set xs" "f x = k" by blast
  have "distinct (map f ys)" using assms by (metis mset_eq_imp_distinct_iff mset_map)
  with x find_unique [OF assms(2) x(1)] find_unique [of f ys x] mset_eq_setD [OF assms(1)] show ?thesis by simp
next
  case False
  then have "find (\<lambda>x. f x = k) xs = None" "find (\<lambda>x. f x = k) ys = None"
    using mset_eq_setD [OF assms(1)] by (auto simp: find_None_iff)
  then show ?thesis by simp
qed

lemma lineage_files: "table_lineage_guards P plan c (with_files run files) X = table_lineage_guards P plan c run X"
  by (simp add: table_lineage_guards_def table_lineage_def)

lemma table_reassigned:
  assumes len: "length fss = length (srr_conditions r)" and files: "mset (concat fss) = mset (report_files r)"
    and paths: "distinct (map pfr_relative_path (report_files r))"
  shows "validate_prediction_table D fs plan (reassign r fss) path = validate_prediction_table D fs plan r path"
proof -
  have f: "report_files (reassign r fss) = concat fss" by (simp add: report_files_def reassign_def concat_files [OF len] del: map_map)
  have found: "find (\<lambda>f. pfr_relative_path f = path) (report_files (reassign r fss)) = find (\<lambda>f. pfr_relative_path f = path) (report_files r)"
    unfolding f using find_permuted [OF files [symmetric] paths] by simp
  have ids: "identity_checks D plan (reassign r fss) X = identity_checks D plan r X
      \<or> (\<exists>c run files. identity_checks D plan r X = Inr (c, run) \<and> identity_checks D plan (reassign r fss) X = Inr (c, with_files run files))" for X
  proof (cases "table_cells X ''condition_id''")
    case (Cons cell cells)
    let ?k = "skp_str (evd_smoke D) cell"
    let ?g = "\<lambda>y. guards [(\<not> all_equal X ''condition_id'' (CStr ?k), ValueError ''prediction table mixes condition identities''),
              (\<not> distinct (table_cells X ''row_id''), ValueError ''prediction table contains duplicate row IDs'')] y"
    have g: "?g x = Inr x \<and> ?g y = Inr y \<or> (\<exists>e. ?g x = Inl e \<and> ?g y = Inl e)" for x y :: "smoke_condition \<times> condition_run" by simp
    from by_id_files [OF len, of ?k] show ?thesis
    proof (elim disjE exE conjE)
      fix c files assume "by_key crn_condition_id (srr_conditions r) ?k = Some c"
        "by_key crn_condition_id (map2 with_files (srr_conditions r) fss) ?k = Some (with_files c files)"
      then show ?thesis
        by (cases "by_key smc_condition_id (smp_conditions plan) ?k") (auto simp: identity_checks_def Cons Let_def reassign_def)
    next
      assume "by_key crn_condition_id (map2 with_files (srr_conditions r) fss) ?k = None" "by_key crn_condition_id (srr_conditions r) ?k = None"
      then show ?thesis
        by (cases "by_key smc_condition_id (smp_conditions plan) ?k") (simp_all add: identity_checks_def Cons Let_def reassign_def)
    qed
  qed (simp add: identity_checks_def)
  have "bindr (identity_checks D plan (reassign r fss) X) (\<lambda>(c, run). h c (table_lineage_guards (evd_pilot D) plan c run X))
      = bindr (identity_checks D plan r X) (\<lambda>(c, run). h c (table_lineage_guards (evd_pilot D) plan c run X))"
    for X and h :: "smoke_condition \<Rightarrow> (bool \<times> error) list \<Rightarrow> unit result"
    using ids [of X] by (auto simp: lineage_files)
  note step = this [of _ "\<lambda>c gs. bindr (partition_checks D plan f c X) (\<lambda>_. bindr (guards gs ()) (\<lambda>_. t))" for f X t]
  show ?thesis unfolding validate_prediction_table_def found step ..
qed

lemma run_with_files:
  assumes "validate_condition_run c = Inr d" and "crn_status c = ''PASS'' \<longrightarrow> length files = 2"
    and "\<forall>f \<in> set files. \<exists>y. validate_prediction_file f = Inr y"
  shows "validate_condition_run (with_files c files) = Inr (with_files c files)"
proof -
  have "validate_all validate_prediction_file files = Inr ()" using assms(3) by (simp add: validate_all_Inr)
  with assms(1,2) show ?thesis by (auto simp: validate_condition_run_def bindr_Inr_iff guards_Inr_iff)
qed

lemma report_reassigned:
  assumes "validate_run_report P r = Inr r"
    and pairs: "list_all2 (\<lambda>c files. crn_status c = ''PASS'' \<longrightarrow> length files = 2) (srr_conditions r) fss"
    and files: "mset (concat fss) = mset (report_files r)"
  shows "validate_run_report P (reassign r fss) = Inr (reassign r fss)"
proof -
  let ?cs = "srr_conditions r" and ?r = "reassign r fss"
  have len: "length fss = length ?cs" using pairs by (rule same_length)
  have conditions: "srr_conditions ?r = map2 with_files ?cs fss" by (simp add: reassign_def)
  from assms(1) have runs: "\<forall>c \<in> set ?cs. \<exists>d. validate_condition_run c = Inr d"
    by (simp add: validate_run_report_def bindr_Inr_iff validate_all_Inr)
  have valid: "\<exists>y. validate_prediction_file f = Inr y" if "f \<in> set (concat fss)" for f
  proof -
    have "f \<in> set (report_files r)" using that mset_eq_setD [OF files] by (simp only:)
    with runs show ?thesis
      by (fastforce simp: report_files_def validate_condition_run_def bindr_Inr_iff validate_all_Inr)
  qed
  have "\<exists>y. validate_condition_run x = Inr y" if "x \<in> set (map2 with_files ?cs fss)" for x
  proof -
    from that obtain i where i: "i < length ?cs" "x = with_files (?cs ! i) (fss ! i)" using len by (auto simp: in_set_conv_nth)
    have "\<forall>f \<in> set (fss ! i). \<exists>y. validate_prediction_file f = Inr y" using valid i(1) len by (metis nth_mem UN_I set_concat)
    moreover have "crn_status (?cs ! i) = ''PASS'' \<longrightarrow> length (fss ! i) = 2" using pairs i(1) by (simp add: list_all2_conv_all_nth)
    ultimately show ?thesis using run_with_files runs i by (metis nth_mem)
  qed
  then have "validate_all validate_condition_run (srr_conditions ?r) = Inr ()" by (simp add: conditions validate_all_Inr)
  moreover have "length (srr_conditions ?r) = length ?cs" "map crn_condition_id (srr_conditions ?r) = map crn_condition_id ?cs"
    unfolding conditions by (simp add: len, intro map_files len, simp)
  moreover have "list_all (\<lambda>c. crn_status c = s) (srr_conditions ?r) = list_all (\<lambda>c. crn_status c = s) ?cs"
    "list_ex (\<lambda>c. crn_status c \<noteq> s) (srr_conditions ?r) = list_ex (\<lambda>c. crn_status c \<noteq> s) ?cs"
    "list_ex (\<lambda>c. crn_cache_status c \<noteq> s) (srr_conditions ?r) = list_ex (\<lambda>c. crn_cache_status c \<noteq> s) ?cs"
    "status_total s (srr_conditions ?r) = status_total s ?cs" for s
    unfolding conditions status_total_def by (subst all_files [OF len]; simp)+
  ultimately have same: "report_field_guards ?r = report_field_guards r" "report_pass_guards ?r = report_pass_guards r"
    "report_count_guards ?r = report_count_guards r" "validate_all validate_condition_run (srr_conditions ?r) = Inr ()"
    "map crn_condition_id (srr_conditions ?r) = map crn_condition_id ?cs"
    unfolding report_field_guards_def report_pass_guards_def report_count_guards_def by (simp_all add: reassign_def del: list_ex_iff)
  have rest: "srr_status ?r = srr_status r" "srr_environment ?r = srr_environment r" "srr_runtime_estimate ?r = srr_runtime_estimate r"
    "srr_metrics ?r = srr_metrics r" "srr_paired_metrics ?r = srr_paired_metrics r" by (simp_all add: reassign_def)
  show ?thesis
    using assms(1) unfolding validate_run_report_def same rest by (auto simp: bindr_Inr_iff guards_Inr_iff)
qed

text \<open>Claim C39. Neither the contract of the report nor the checks against the plan and against the files look at
  the condition under which a prediction file is recorded: after any redistribution of the files over the
  conditions that leaves two to each passing condition, the report is accepted as before, although its
  conditions now claim each other's predictions.\<close>

theorem prediction_ownership_unchecked:
  assumes "validate_run_report (evd_pilot D) r = Inr r" and "report_identity D fs plan r = Inr ()"
    and "validate_prediction_tables D fs plan r = Inr n" and "mset (concat fss) = mset (report_files r)"
    and "list_all2 (\<lambda>c files. crn_status c = ''PASS'' \<longrightarrow> length files = 2) (srr_conditions r) fss"
  shows "validate_run_report (evd_pilot D) (reassign r fss) = Inr (reassign r fss)
    \<and> report_identity D fs plan (reassign r fss) = Inr () \<and> validate_prediction_tables D fs plan (reassign r fss) = Inr n
    \<and> concat (map crn_prediction_files (srr_conditions (reassign r fss))) = concat fss"
proof -
  let ?cs = "srr_conditions r" and ?r = "reassign r fss"
  have len: "length fss = length ?cs" using assms(5) by (rule same_length)
  have conditions: "srr_conditions ?r = map2 with_files ?cs fss" by (simp add: reassign_def)
  have files: "report_files ?r = concat fss" by (simp add: report_files_def conditions concat_files [OF len] del: map_map)
  have paths: "distinct (map pfr_relative_path (report_files r))" using tables_certified [OF assms(3)] by simp
  have perm: "mset (map pfr_relative_path (concat fss)) = mset (map pfr_relative_path (report_files r))"
    using assms(4) by (metis mset_map)
  have same: "length (map pfr_relative_path (report_files ?r)) = length (map pfr_relative_path (report_files r))"
    "distinct (map pfr_relative_path (report_files ?r))" "set (map pfr_relative_path (report_files ?r)) = set (map pfr_relative_path (report_files r))"
    unfolding files using perm paths by (metis size_mset, metis mset_eq_imp_distinct_iff, metis set_mset_mset)
  have kept: "map crn_condition_id (srr_conditions ?r) = map crn_condition_id ?cs"
    "map (Some \<circ> crn_cache_identity_sha256) (srr_conditions ?r) = map (Some \<circ> crn_cache_identity_sha256) ?cs"
    unfolding conditions by (intro map_files len; simp)+
  have total: "list_all (\<lambda>c. crn_status c = s) (srr_conditions ?r) = list_all (\<lambda>c. crn_status c = s) ?cs"
    "list_ex (\<lambda>c. crn_status c \<noteq> s) (srr_conditions ?r) = list_ex (\<lambda>c. crn_status c \<noteq> s) ?cs"
    "list_ex (\<lambda>c. crn_cache_status c \<noteq> s) (srr_conditions ?r) = list_ex (\<lambda>c. crn_cache_status c \<noteq> s) ?cs"
    "status_total s (srr_conditions ?r) = status_total s ?cs" for s
    unfolding conditions status_total_def by (subst all_files [OF len]; simp)+
  have rest: "srr_status ?r = srr_status r" "srr_environment ?r = srr_environment r" "srr_runtime_estimate ?r = srr_runtime_estimate r"
    "srr_metrics ?r = srr_metrics r" "srr_paired_metrics ?r = srr_paired_metrics r" "srr_plan_sha256 ?r = srr_plan_sha256 r"
    "srr_source_commit ?r = srr_source_commit r" "srr_scheduler_plan_sha256 ?r = srr_scheduler_plan_sha256 r"
    by (simp_all add: reassign_def)
  have parts: "\<forall>p \<in> set (map pfr_relative_path (report_files r)). \<exists>u. validate_prediction_table D fs plan r p = Inr u"
    "length (map pfr_relative_path (report_files r)) = (if list_all (\<lambda>c. crn_status c = ''PASS'') ?cs then 20
      else length (map pfr_relative_path (report_files r)))" "n = length (map pfr_relative_path (report_files r))"
    using assms(3) by (auto simp: validate_prediction_tables_def Let_def bindr_Inr_iff validate_all_Inr split: if_splits)
  have "validate_all (validate_prediction_table D fs plan ?r) (map pfr_relative_path (report_files ?r)) = Inr ()"
    unfolding validate_all_Inr same(3) table_reassigned [OF len assms(4) paths] by (rule parts(1))
  then have "validate_prediction_tables D fs plan ?r = Inr n"
    unfolding validate_prediction_tables_def Let_def total(1) same(1) parts(2) [symmetric] parts(3) using same(2) by simp
  moreover have "report_identity D fs plan ?r = Inr ()"
    using assms(2) unfolding report_identity_def rest kept .
  moreover have "validate_run_report (evd_pilot D) ?r = Inr ?r"
    using report_reassigned [OF assms(1,5,4)] .
  moreover have "concat (map crn_prediction_files (srr_conditions ?r)) = concat fss" using files by (simp add: report_files_def)
  ultimately show ?thesis by blast
qed

definition demo_swap :: "prediction_file list list" where
  "demo_swap = rev (map crn_prediction_files demo_runs)"

theorem prediction_ownership_unchecked_witness:
  "validate_run_report demo_smoke_pilot (reassign smoke_demo_report demo_swap) = Inr (reassign smoke_demo_report demo_swap)
   \<and> validate_prediction_tables (smoke_demo_evidence smoke_demo_report) smoke_run_files demo_smoke (reassign smoke_demo_report demo_swap) = Inr 20
   \<and> crn_prediction_files (srr_conditions (reassign smoke_demo_report demo_swap) ! 0) = crn_prediction_files (srr_conditions smoke_demo_report ! 9)"
proof -
  have "mset (concat demo_swap) = mset (report_files smoke_demo_report)"
    by (simp add: demo_swap_def report_files_def demo_report_parts mset_concat rev_map [symmetric] sum_list_rev del: map_map)
  moreover have "list_all2 (\<lambda>c files. crn_status c = ''PASS'' \<longrightarrow> length files = 2) (srr_conditions smoke_demo_report) demo_swap"
    by (auto simp: demo_swap_def demo_report_parts list_all2_conv_all_nth rev_nth demo_runs_def demo_run_fields PREDICTION_PARTITIONS_def)
  moreover have "crn_prediction_files (srr_conditions (reassign smoke_demo_report demo_swap) ! 0) = crn_prediction_files (srr_conditions smoke_demo_report ! 9)"
    by (simp add: reassign_def demo_report_parts demo_swap_def rev_nth demo_totals(4))
  ultimately show ?thesis
    using prediction_ownership_unchecked [of "smoke_demo_evidence smoke_demo_report" smoke_demo_report smoke_run_files demo_smoke 20 demo_swap]
      demo_report_valid smoke_demo_identity demo_predictions by simp
qed


section \<open>The label boundary\<close>





section \<open>Planning does not open labels\<close>

lemma bindr_cong: "m = n \<Longrightarrow> (\<And>x. n = Inr x \<Longrightarrow> f x = g x) \<Longrightarrow> bindr m f = bindr n g"
  by (cases n) auto

text \<open>The environment with another target file.\<close>

definition with_targets :: "planning_env \<Rightarrow> string option \<Rightarrow> planning_env" where
  "with_targets Q t = Q\<lparr>ple_files := (ple_files Q)(TARGETS_PATH := t)\<rparr>"

lemma mapr_cong: "(\<And>x. x \<in> set xs \<Longrightarrow> f x = g x) \<Longrightarrow> mapr f xs = mapr g xs"
  by (induction xs) auto

lemma with_targets_simps [simp]:
  "ple_smoke (with_targets Q t) = ple_smoke Q" "ple_json (with_targets Q t) = ple_json Q" "ple_yaml (with_targets Q t) = ple_yaml Q"
  "ple_config (with_targets Q t) = ple_config Q" "ple_runtime_config (with_targets Q t) = ple_runtime_config Q"
  "ple_manifest (with_targets Q t) = ple_manifest Q" "ple_certificate (with_targets Q t) = ple_certificate Q"
  "ple_source_paths (with_targets Q t) = ple_source_paths Q" "ple_git (with_targets Q t) = ple_git Q"
  "p \<noteq> TARGETS_PATH \<Longrightarrow> ple_files (with_targets Q t) p = ple_files Q p" "ple_sha (with_targets Q t) = ple_sha Q"
  by (simp_all add: with_targets_def ple_sha_def)

lemma other_files [simp]:
  assumes "p \<noteq> TARGETS_PATH"
  shows "ple_read (with_targets Q t) p = ple_read Q p" "ple_sha_file (with_targets Q t) p = ple_sha_file Q p"
    "ple_table (with_targets Q t) p = ple_table Q p"
  using assms by (simp_all add: ple_read_def ple_sha_file_def ple_table_def)

lemma fixed_paths [simp]:
  "FEATURES_PATH \<noteq> TARGETS_PATH" "ASSIGNMENT_PATH \<noteq> TARGETS_PATH" "BASELINE_PATH \<noteq> TARGETS_PATH"
  "TRANSFORMATION_INVENTORY \<noteq> TARGETS_PATH" "view_directory name @ p \<noteq> TARGETS_PATH" "''uv.lock'' \<noteq> TARGETS_PATH"
  by (simp_all add: FEATURES_PATH_def ASSIGNMENT_PATH_def BASELINE_PATH_def TRANSFORMATION_INVENTORY_def view_directory_def TARGETS_PATH_def)

lemma manifest_file_other: "manifest_file name paths part = Inr f \<Longrightarrow> f \<noteq> TARGETS_PATH"
  by (auto simp: manifest_file_def bindr_Inr_iff)

lemma view_files_other: "smoke_view_files (with_targets Q t) v A = smoke_view_files Q v A"
proof -
  have parts: "partition_files (with_targets Q t) name m = partition_files Q name m" for name m
    unfolding partition_files_def by (rule ext) (intro bindr_cong refl if_cong; simp add: manifest_file_other)
  have "affine_view_files (with_targets Q t) view name = affine_view_files Q view name" for view name
    unfolding affine_view_files_def Let_def parts
    by (intro bindr_cong refl if_cong mapr_cong; simp add: manifest_file_other)
  moreover have "identity_view_files (with_targets Q t) A = identity_view_files Q A"
    by (simp add: identity_view_files_def)
  ultimately show ?thesis by (simp add: smoke_view_files_def)
qed

lemma planned_view_other: "plan_smoke_view (with_targets Q t) X A = plan_smoke_view Q X A"
proof (rule ext)
  fix v
  have "view_inventory_record (with_targets Q t) w = view_inventory_record Q w" for w
    by (simp only: view_inventory_record_def with_targets_simps other_files [OF fixed_paths(4)] cong: json.case_cong list.case_cong)
  moreover have "check_accepted_view (with_targets Q t) name ids = check_accepted_view Q name ids" for name ids
    unfolding check_accepted_view_def by (intro bindr_cong refl if_cong mapr_cong; simp add: manifest_file_other)
  moreover have "partition_summary (with_targets Q t) A parts = partition_summary Q A parts" for parts
    by (rule ext) (simp only: partition_summary_def with_targets_simps)
  ultimately show "plan_smoke_view (with_targets Q t) X A v = plan_smoke_view Q X A v" by (simp only: plan_smoke_view_def view_files_other with_targets_simps)
qed

lemma planned_condition_other: "plan_smoke_condition (with_targets Q t) X = plan_smoke_condition Q X"
  by (rule ext) (simp only: plan_smoke_condition_def with_targets_simps)

text \<open>Planning does not open the labels: the plan, or the error, is the same whatever the target
  file holds and whether it exists at all, as long as no configured file is the target file itself.\<close>

theorem planning_ignores_targets:
  assumes "config_path \<noteq> TARGETS_PATH" and "TARGETS_PATH \<notin> set (ple_source_paths Q)"
    and "\<And>c. bindr (ple_read Q config_path) (ple_config Q) = Inr c \<Longrightarrow>
      TARGETS_PATH \<notin> {scf_model_registry c, scf_experiment_registry c, scf_adapter_config c}"
  shows "build_smoke_plan (Q\<lparr>ple_files := (ple_files Q)(TARGETS_PATH := t)\<rparr>) config_path commit = build_smoke_plan Q config_path commit"
proof -
  have source: "source_identity sha (ple_files (with_targets Q t)) (ple_source_paths Q)
      = source_identity sha (ple_files Q) (ple_source_paths Q)" for sha
    unfolding source_identity_def
    by (intro bindr_cong refl mapr_cong) (metis assms(2) with_targets_simps(10))+
  have base: "baseline_hashes (with_targets Q t) = baseline_hashes Q" by (simp add: baseline_hashes_def)
  have ctx: "planning_context (with_targets Q t) c views shas h = planning_context Q c views shas h"
    if "TARGETS_PATH \<notin> {scf_model_registry c, scf_experiment_registry c, scf_adapter_config c}" for c views shas h
  proof -
    from that have "scf_model_registry c \<noteq> TARGETS_PATH" "scf_experiment_registry c \<noteq> TARGETS_PATH"
      "scf_adapter_config c \<noteq> TARGETS_PATH" by auto
    note reads = this [THEN other_files(1)]
    show ?thesis by (simp only: planning_context_def reads source with_targets_simps(1-9,11) with_targets_simps(10) [OF fixed_paths(6)])
  qed
  have config: "validate_smoke_config P c = Inr d \<Longrightarrow> d = c" for P c d
    by (auto simp: validate_smoke_config_def dest: guards_same)
  have "build_smoke_plan (with_targets Q t) config_path commit = build_smoke_plan Q config_path commit"
  proof (cases "bindr (bindr (ple_read Q config_path) (ple_config Q)) (validate_smoke_config (skp_pilot (ple_smoke Q)))")
    case (Inr c)
    with assms(3) config have c: "TARGETS_PATH \<notin> {scf_model_registry c, scf_experiment_registry c, scf_adapter_config c}"
      by (metis bindr_Inr_iff)
    from Inr show ?thesis
      by (simp only: build_smoke_plan_def Let_def with_targets_simps(1-9,11) base other_files [OF assms(1)] other_files [OF fixed_paths(1)]
        other_files [OF fixed_paths(2)] other_files [OF fixed_paths(4)] planned_view_other planned_condition_other smoke_plan_of_def bindr_simps ctx [OF c])
  qed (simp only: build_smoke_plan_def Let_def with_targets_simps(1-9,11) other_files [OF assms(1)] bindr_simps)
  then show ?thesis by (simp add: with_targets_def)
qed


end
