(* ===== verification/Smoke_Accounting.thy ===== *)
theory Smoke_Accounting
  imports Smoke_Report_Demo Scheduler_Demo
begin

text \<open>The records and the prediction files that a whole run of the smoke experiment leaves behind.\<close>

section \<open>The loop over the conditions\<close>

text \<open>What the record \<open>r\<close> of the condition \<open>c\<close> says about the files before and after the run, and about the
  state of its task.\<close>

definition accounted ::
  "run_env \<Rightarrow> run_plan \<Rightarrow> scheduler_state \<Rightarrow> files \<Rightarrow> files \<Rightarrow> smoke_condition \<Rightarrow> condition_run \<Rightarrow> bool" where
  "accounted R rp st fs fs' c r \<longleftrightarrow> validate_condition_run r = Inr r \<and> crn_condition_id r = smc_condition_id c
     \<and> list_all (\<lambda>f. intact_file (sre_params R) fs' (pfr_relative_path f) (pfr_sha256 f)) (crn_prediction_files r)
     \<and> (if crn_status r = ''PASS'' then mset (map pfr_relative_path (crn_prediction_files r)) = mset (paths_of c)
        else crn_prediction_files r = [] \<and> list_all (\<lambda>p. map_of fs' p = map_of fs p) (paths_of c))
     \<and> (case by_key ts_task_name (rp_tasks rp) (smc_task_name c) of None \<Rightarrow> False
        | Some t \<Rightarrow> (case map_of (ss_tasks st) (ts_task_id t) of None \<Rightarrow> False
          | Some entry \<Rightarrow> crn_status r = ''PASS'' \<longleftrightarrow> st_state entry = COMPLETE))"

lemma failed_files:
  assumes "condition_outcome R plan rp st m hits cache c i fs = (fs', Inr (r, n))" and "crn_status r \<noteq> ''PASS''"
  shows "fs' = fs"
proof -
  have passed: "completed_condition R plan c i hit cache fs = (fs', Inr (r, n)) \<Longrightarrow> crn_status r = ''PASS''" for hit
    by (auto simp: completed_condition_def Let_def bindr_Inr_iff dest: passed_run_fields split: sum.splits prod.splits)
  with assms show ?thesis
    unfolding condition_outcome_def by (auto simp: bindr_Inr_iff dest: passed split: sum.splits if_splits)
qed

lemma outcome_accounted:
  assumes "condition_outcome R plan rp st m hits cache c i fs = (fs', Inr (r, n))" and "clear_names R"
    and "set (paths_of c) \<subseteq> set smoke_paths" and "distinct (paths_of c)"
  shows "accounted R rp st fs fs' c r" and "\<And>p. p \<in> set smoke_paths \<Longrightarrow> p \<notin> set (paths_of c) \<Longrightarrow> map_of fs' p = map_of fs p"
  using condition_outcome_effect [OF assms] failed_files [OF assms(1)]
  by (auto simp: accounted_def condition_accounted_def files_recorded_def list_all_iff)

lemma accounted_frame:
  assumes "accounted R rp st fs fs' c r" and before: "\<And>p. p \<in> set (paths_of c) \<Longrightarrow> map_of gs p = map_of fs p"
    and after: "\<And>p. p \<in> set (paths_of c) \<Longrightarrow> map_of gs' p = map_of fs' p"
  shows "accounted R rp st gs gs' c r"
proof -
  have "intact_file (sre_params R) gs' (pfr_relative_path f) (pfr_sha256 f)"
    if f: "f \<in> set (crn_prediction_files r)" and i: "intact_file (sre_params R) fs' (pfr_relative_path f) (pfr_sha256 f)" for f
  proof -
    from f assms(1) have "crn_status r = ''PASS''" by (auto simp: accounted_def split: if_splits)
    with assms(1) have "mset (map pfr_relative_path (crn_prediction_files r)) = mset (paths_of c)" by (simp add: accounted_def)
    from mset_eq_setD [OF this] f have "pfr_relative_path f \<in> set (paths_of c)" by auto
    with i after show ?thesis by (simp add: intact_file_def)
  qed
  with assms show ?thesis by (auto simp: accounted_def list_all_iff)
qed

lemma outcomes_accounted:
  assumes "condition_outcomes R plan rp st m hits cache ids cs fs = (fs', Inr rs)" and "clear_names R"
    and "set (concat (map paths_of cs)) \<subseteq> set smoke_paths" and "distinct (concat (map paths_of cs))"
  shows "list_all2 (accounted R rp st fs fs') cs (map fst rs)
    \<and> (\<forall>p \<in> set smoke_paths. p \<notin> set (concat (map paths_of cs)) \<longrightarrow> map_of fs' p = map_of fs p)"
  using assms
proof (induction cs arbitrary: fs rs)
  case (Cons c cs)
  from Cons.prems(1) obtain i f1 r n rs' where one: "condition_outcome R plan rp st m hits cache c i fs = (f1, Inr (r, n))"
    and rest: "condition_outcomes R plan rp st m hits cache ids cs f1 = (fs', Inr rs')" and rs: "rs = (r, n) # rs'"
    by (auto simp: bindr_Inr_iff split: option.splits prod.splits sum.splits)
  have sub: "set (paths_of c) \<subseteq> set smoke_paths" "distinct (paths_of c)" "set (concat (map paths_of cs)) \<subseteq> set smoke_paths"
    "distinct (concat (map paths_of cs))" and apart: "set (paths_of c) \<inter> set (concat (map paths_of cs)) = {}"
    using Cons.prems(3,4) by auto
  note step = outcome_accounted [OF one Cons.prems(2) sub(1,2)]
  from Cons.IH [OF rest Cons.prems(2) sub(3,4)]
  have IH: "list_all2 (accounted R rp st f1 fs') cs (map fst rs')"
    and kept: "\<And>p. p \<in> set smoke_paths \<Longrightarrow> p \<notin> set (concat (map paths_of cs)) \<Longrightarrow> map_of fs' p = map_of f1 p" by auto
  have head: "accounted R rp st fs fs' c r"
    using sub(1) apart by (intro accounted_frame [OF step(1)]) (auto intro!: kept)
  have "accounted R rp st fs fs' d q" if "accounted R rp st f1 fs' d q" and d: "d \<in> set cs" for d q
  proof -
    have "map_of fs p = map_of f1 p" if "p \<in> set (paths_of d)" for p
      using that d sub(3) apart by (intro step(2) [symmetric]) auto
    from accounted_frame [OF that(1) this refl] show ?thesis .
  qed
  then have tail: "list_all2 (accounted R rp st fs fs') cs (map fst rs')"
    using IH by (auto simp: list_all2_conv_all_nth)
  have "map_of fs' p = map_of fs p" if "p \<in> set smoke_paths" "p \<notin> set (concat (map paths_of (c # cs)))" for p
    using kept [of p] step(2) [of p] that by auto
  with head tail show ?case by (simp add: rs)
qed simp

text \<open>Claim C15. A run of an accepted plan that ends normally has exactly one valid record per condition, in the
  order of the plan. A condition has passed exactly when its task is complete in the final state of the scheduler;
  then its record names its own two prediction files and both are on disk with the recorded digests when the run
  has ended, whatever was moved aside for them. A condition that has not passed records no file and leaves the
  prediction files of earlier runs as they were.\<close>

theorem smoke_run_accounted:
  assumes "validate_smoke_plan P plan = Inr plan'" and "clear_names R"
    and "run_conditions R plan config execution resume w fs = (w', fs', Inr (runs, m, n))"
  shows "map crn_condition_id runs = map smc_condition_id (smp_conditions plan)
    \<and> (\<exists>rp identities st. smoke_scheduler_plan (skp_pilot (sre_params R)) plan = Inr (rp, identities) \<and> sw_state w' = State st
        \<and> list_all2 (accounted R rp st fs fs') (smp_conditions plan) runs)"
proof -
  from assms(3) obtain cfg rp identities hits st rs where
    plan: "smoke_scheduler_plan (skp_pilot (sre_params R)) plan = Inr (rp, identities)"
    and st: "load_scheduler_state (env_for (sre_sched R) plan rp cfg) (sw_state w') = Inr st"
    and rs: "condition_outcomes R plan rp st m hits (sw_cache w') identities (smp_conditions plan) fs = (fs', Inr rs)"
    and runs: "runs = map fst rs"
    unfolding run_conditions_def Let_def
    by (auto simp: bindr_Inr_iff split: sum.splits prod.splits if_splits)
  note a = accepted_plan [OF assms(1)]
  have paths: "concat (map paths_of (smp_conditions plan)) = smoke_paths" by (rule concat_paths [OF a(5,1)])
  from outcomes_accounted [OF rs assms(2)] distinct_smoke_paths
  have all: "list_all2 (accounted R rp st fs fs') (smp_conditions plan) runs" by (simp add: paths runs)
  then have "map crn_condition_id runs = map smc_condition_id (smp_conditions plan)"
    by (induction rule: list_all2_induct) (simp_all add: accounted_def)
  moreover have "validate_state sha frepr s = Inr t \<Longrightarrow> t = s" for sha frepr s t
    by (auto simp: validate_state_def bindr_Inr_iff dest: guards_same)
  with st have "sw_state w' = State st" by (auto simp: load_scheduler_state_def split: state_file.splits)
  ultimately show ?thesis using plan all by blast
qed

section \<open>A run in which every task had failed before\<close>

definition halted :: "task_spec \<Rightarrow> task_record" where
  "halted t = (fresh_record (DateTime 0 (Some 0)) t)\<lparr>st_state := FAILED, st_failure_category := Some FAIL_MODEL_RUNTIME,
     st_failure_reason := Some ''no convergence''\<rparr>"

definition halted_state :: scheduler_state where
  "halted_state = \<lparr>ss_schema_version = 1, ss_plan_hash = plan_hash smoke_sha (pp_frepr demo_smoke_pilot) demo_run_plan,
     ss_tasks = map (\<lambda>t. (ts_task_id t, halted t)) (rp_tasks demo_run_plan)\<rparr>"

definition smoke_store :: store_params where
  "smoke_store = \<lparr>sp_sha = smoke_sha, sp_frepr = pp_frepr demo_smoke_pilot, sp_plan = demo_run_plan\<rparr>"

definition demo_run_env :: run_env where
  "demo_run_env = \<lparr>sre_params = demo_smoke_params, sre_sched = demo_env\<lparr>se_store := smoke_store\<rparr>,
     sre_invalid_name = (\<lambda>target digest. target @ ''.invalid'')\<rparr>"

definition demo_execution :: execution_config where
  "demo_execution = \<lparr>exc_minimum_gpu_headroom_mib = 512, exc_maximum_vram_mib = 3600, exc_maximum_ram_mib = 100,
     exc_cpu_timeout_seconds = 60, exc_cuda_timeout_seconds = 60\<rparr>"

abbreviation smoke_env :: sched_env where
  "smoke_env \<equiv> env_for (demo_env\<lparr>se_store := smoke_store\<rparr>) demo_smoke demo_run_plan demo_config"

lemma smoke_env_simps [simp]: "se_store smoke_env = smoke_store" "se_config smoke_env = demo_config" "se_source_commit smoke_env = demo_commit"
    "se_platform smoke_env = demo_platform" "se_ob smoke_env n = demo_ob (int n) {}" "se_now_text smoke_env n = ''now''"
  by (simp_all add: env_for_def smoke_store_def demo_env_def demo_smoke_plan_def)

lemma clear_demo: "clear_names demo_run_env"
proof -
  have "last p = CHR ''t''" if "p \<in> set smoke_paths" for p
    using that by (auto simp: smoke_paths_def)
  moreover have "last (t @ ''.invalid'') \<noteq> CHR ''t''" for t by simp
  ultimately have "t @ ''.invalid'' \<notin> set smoke_paths" for t by blast
  then show ?thesis by (simp add: clear_names_def demo_run_env_def)
qed

lemma halted_task_valid:
  assumes "t \<in> set (rp_tasks demo_run_plan)"
  shows "validate_task_record smoke_sha (pp_frepr demo_smoke_pilot) (halted t) = Inr (halted t)" and "is_sha256 (ts_task_id t)"
proof -
  from assms obtain c where c: "c \<in> set (smp_conditions demo_smoke)" "t = smoke_task demo_smoke_pilot demo_smoke c"
    by (auto simp: demo_run_plan_def)
  from demo_scheduled obtain ts where "mapr (condition_task demo_smoke_pilot demo_smoke) (smp_conditions demo_smoke) = Inr ts"
    by (auto simp: smoke_scheduler_plan_def bindr_Inr_iff)
  from mapr_member [OF this c(1)] obtain u where "condition_task demo_smoke_pilot demo_smoke c = Inr u" by blast
  moreover have "validate_cache_identity i = Inr j \<Longrightarrow> j = i" for i j
    by (auto simp: validate_cache_identity_def dest: guards_same)
  ultimately have u: "validate_task smoke_sha (pp_frepr demo_smoke_pilot) (smoke_task demo_smoke_pilot demo_smoke c) = Inr u"
    unfolding condition_task_def bindr_Inr_iff build_task_def smoke_task_def by (metis demo_pilot_fields(1))
  then show "validate_task_record smoke_sha (pp_frepr demo_smoke_pilot) (halted t) = Inr (halted t)"
    by (simp add: validate_task_record_def halted_def fresh_record_def c(2))
  show "is_sha256 (ts_task_id t)" by (simp add: c(2) smoke_task_def task_identity_def sha256_canonical_json_def)
qed

lemma demo_plan_hash_ok: "is_sha256 (plan_hash smoke_sha (pp_frepr demo_smoke_pilot) demo_run_plan)"
  by (simp add: plan_hash_def sha256_canonical_json_def)

lemma halted_valid: "validate_state smoke_sha (pp_frepr demo_smoke_pilot) halted_state = Inr halted_state"
proof -
  have "validate_all (validate_task_record smoke_sha (pp_frepr demo_smoke_pilot)) (map snd (ss_tasks halted_state)) = Inr ()"
    unfolding validate_all_Inr using halted_task_valid(1) by (auto simp: halted_state_def)
  then show ?thesis using demo_plan_hash_ok by (simp add: validate_state_def) (simp add: halted_state_def)
qed

lemma halted_read: "read_state smoke_store (State halted_state) = Inr halted_state"
  by (simp add: read_state_def smoke_store_def halted_valid)

lemma demo_tasks_distinct: "distinct (map ts_task_id (rp_tasks demo_run_plan))"
proof -
  have "distinct (map ts_task_id (rp_tasks demo_run_plan)) = distinct (map ts_task_id (map (smoke_task demo_smoke_pilot demo_smoke) (smp_conditions demo_smoke)))"
    by (rule mset_eq_imp_distinct_iff) (simp add: demo_run_plan_def image_mset.compositionality)
  then show ?thesis using demo_tasks_differ [of 60] by (simp add: smoke_task_def o_def)
qed

lemma halted_entry: "t \<in> set (rp_tasks demo_run_plan) \<Longrightarrow> map_of (ss_tasks halted_state) (ts_task_id t) = Some (halted t)"
  using demo_tasks_distinct by (intro map_of_is_SomeI) (auto simp: halted_state_def o_def)

lemma halted_fields: "st_state (halted t) = FAILED" "st_task (halted t) = t" "st_attempts (halted t) = []"
    "st_failure_category (halted t) = Some FAIL_MODEL_RUNTIME" "st_failure_reason (halted t) = Some ''no convergence''"
  by (simp_all add: halted_def fresh_record_def)

lemma recover_none: "recover_tasks ob lease (map (\<lambda>t. (ts_task_id t, halted t)) ts) = (map (\<lambda>t. (ts_task_id t, halted t)) ts, 0)"
  by (induction ts) (simp_all add: abandoned_def halted_fields)

lemma comparable: "\<not> list_ex (\<lambda>(k, r). incomparable ob r) (map (\<lambda>t. (ts_task_id t, halted t)) ts)"
  by (induction ts) (simp_all add: incomparable_def halted_fields)

text \<open>The scheduler before the run, and with the counters and failures \<open>c\<close> and \<open>fl\<close> and the clock at \<open>n\<close>.\<close>

definition halted_sched :: sched where
  "halted_sched = demo_sched (State halted_state) []"

definition halted_at :: "nat \<Rightarrow> counters \<Rightarrow> failure_record list \<Rightarrow> sched" where
  "halted_at n c fl = halted_sched\<lparr>sw_tick := n, sw_counters := c, sw_failures := fl, sw_index := Index []\<rparr>"

lemma halted_sched_fields: "sw_state (halted_at n c fl) = State halted_state" "sw_cache (halted_at n c fl) = []" "sw_resources (halted_at n c fl) = []"
    "sw_counters (halted_at n c fl) = c" "sw_failures (halted_at n c fl) = fl" "sw_network (halted_at n c fl) = 0"
    "sw_max_cpu (halted_at n c fl) = 0" "sw_max_gpu (halted_at n c fl) = 0"
    "(halted_at n c fl)\<lparr>sw_counters := c'\<rparr> = halted_at n c' fl" "(halted_at n c fl)\<lparr>sw_failures := fl'\<rparr> = halted_at n c fl'"
  by (simp_all add: halted_at_def halted_sched_def demo_sched_def)

lemma halted_start: "\<exists>n c. start_run smoke_env halted_sched = (halted_at n c [], Inr ())"
proof -
  have init: "initialize smoke_store ob (State halted_state) = (State halted_state, Inr halted_state)" if "ob_lock_taken ob" for ob
  proof -
    have "\<not> list_ex (\<lambda>(k, t). map_option st_task (map_of (ss_tasks halted_state) k) \<noteq> Some t) (map (\<lambda>t. (ts_task_id t, t)) (rp_tasks demo_run_plan))"
      using halted_entry by (auto simp: list_ex_iff halted_fields)
    moreover have "set (map fst (ss_tasks halted_state)) = set (map fst (map (\<lambda>t. (ts_task_id t, t)) (rp_tasks demo_run_plan)))"
      by (simp add: halted_state_def image_image)
    moreover have "ss_plan_hash halted_state = sp_plan_hash smoke_store" "sp_plan smoke_store = demo_run_plan"
      by (simp_all add: halted_state_def sp_plan_hash_def smoke_store_def)
    ultimately show ?thesis using that
      unfolding initialize_def with_state_lock_def halted_read Let_def by (simp only:) simp
  qed
  have recover: "recover_abandoned smoke_store ob lease (State halted_state) = (State halted_state, Inr 0)" if "ob_lock_taken ob" for ob lease
    using that unfolding recover_abandoned_def with_state_lock_def halted_read
    by (simp add: recover_none comparable halted_state_def)
  have rebuild: "index_rebuild demo_platform now [] NoIndex = (Index [], Inr 0)" for now
    by (simp add: index_rebuild_def iter_validated_def rebuild_table_def stamped_rows_def Let_def)
  have lock: "ob_lock_taken (demo_ob n {})" for n by (simp add: demo_ob_def)
  show ?thesis
    by (simp add: start_run_def bind_step_def on_state_def init recover lock modify_def do_index_rebuild_def rebuild halted_sched_def
      demo_sched_def halted_at_def)
qed

lemma halted_admit: "set ts \<subseteq> set (rp_tasks demo_run_plan) \<Longrightarrow> \<exists>c'. admit_all smoke_env False ts (halted_at n c fl) = (halted_at n c' fl, Inr [])"
proof (induction ts arbitrary: c)
  case (Cons t ts)
  have "admit smoke_env False t (halted_at n c fl) = (halted_at n (c\<lparr>ct_failed := Suc (ct_failed c)\<rparr>) fl, Inr False)"
    using halted_entry [of t] Cons.prems
    by (simp add: admit_def bind_step_def task_entry_def halted_sched_fields halted_read halted_fields count_failed_def count_def modify_def ret_def)
  moreover obtain c' where "admit_all smoke_env False ts (halted_at n (c\<lparr>ct_failed := Suc (ct_failed c)\<rparr>) fl) = (halted_at n c' fl, Inr [])"
    using Cons.IH [of "c\<lparr>ct_failed := Suc (ct_failed c)\<rparr>"] Cons.prems by auto
  ultimately have "admit_all smoke_env False (t # ts) (halted_at n c fl) = (halted_at n c' fl, Inr [])"
    by (simp add: bind_step_def ret_def)
  then show ?case by blast
qed (auto simp: ret_def)

lemma halted_report: "\<exists>fl'. fold report_record (map halted ts) (halted_at n c fl) = halted_at n c fl'
    \<and> set (map fl_task_id fl') \<subseteq> set (map fl_task_id fl) \<union> set (map ts_task_id ts)"
proof (induction ts arbitrary: fl)
  case (Cons t ts)
  obtain f1 where f1: "report_record (halted t) (halted_at n c fl) = halted_at n c f1"
    and ids: "set (map fl_task_id f1) \<subseteq> set (map fl_task_id fl) \<union> {ts_task_id t}"
    by (cases "list_ex (\<lambda>x. fl_task_id x = ts_task_id t) fl")
      (auto simp: report_record_def halted_fields halted_sched_fields failure_record_of_def Let_def)
  from Cons.IH [of f1] obtain fl' where "fold report_record (map halted ts) (halted_at n c f1) = halted_at n c fl'"
    "set (map fl_task_id fl') \<subseteq> set (map fl_task_id f1) \<union> set (map ts_task_id ts)" by blast
  moreover from this(1) have "fold report_record (map halted (t # ts)) (halted_at n c fl) = halted_at n c fl'" by (simp add: f1)
  moreover have "set (map fl_task_id fl') \<subseteq> set (map fl_task_id fl) \<union> set (map ts_task_id (t # ts))"
    using order_trans [OF calculation(2) Un_mono [OF ids order_refl]] by (simp add: ac_simps)
  ultimately show ?case by blast
qed auto

lemma smoke_plan_hash: "is_sha256 (sp_plan_hash smoke_store)"
  using demo_plan_hash_ok by (simp add: sp_plan_hash_def smoke_store_def)

lemma halted_run: "\<exists>w m. adapter_run smoke_env False halted_sched = (w, Inr m) \<and> sw_state w = State halted_state"
proof -
  obtain n c where s: "start_run smoke_env halted_sched = (halted_at n c [], Inr ())" using halted_start by blast
  obtain c1 where a: "admit_all smoke_env False (rp_tasks demo_run_plan) (halted_at n c []) = (halted_at n c1 [], Inr [])"
    using halted_admit [of "rp_tasks demo_run_plan" n c "[]"] by auto
  have e: "adapter_execute smoke_env [] w = (w, Inr ())" for w
    by (simp add: adapter_execute_def bind_step_def run_pool.simps ret_def)
  define c2 where "c2 = c1\<lparr>ct_failed := status_count FAILED halted_state, ct_blocked := status_count BLOCKED halted_state,
      ct_cancelled := status_count CANCELLED halted_state\<rparr>"
  obtain fl where r: "fold report_record (map halted (rp_tasks demo_run_plan)) (halted_at n c2 []) = halted_at n c2 fl"
    and ids: "set (map fl_task_id fl) \<subseteq> set (map ts_task_id (rp_tasks demo_run_plan))"
    using halted_report [of "rp_tasks demo_run_plan" n c2 "[]"] by auto
  have "map snd (ss_tasks halted_state) = map halted (rp_tasks demo_run_plan)" by (simp add: halted_state_def o_def)
  then have f: "final_report smoke_env (halted_at n c1 []) = (halted_at n c2 fl, Inr halted_state)"
    using r by (simp add: final_report_def halted_sched_fields halted_read c2_def)
  have "\<not> list_ex (\<lambda>f. \<not> is_sha256 (fl_task_id f)) fl"
    using ids halted_task_valid(2) by (auto simp: list_ex_iff image_subset_iff)
  then have m: "validate_run_manifest (manifest_of smoke_env False (halted_at n c2 fl)) = Inr (manifest_of smoke_env False (halted_at n c2 fl))"
    using smoke_plan_hash by (simp add: validate_run_manifest_def manifest_of_def Let_def halted_sched_fields)
  have p: "rp_tasks (sp_plan smoke_store) = rp_tasks demo_run_plan" by (simp add: smoke_store_def)
  show ?thesis
    by (simp add: adapter_run_def bind_step_def s p a e f m halted_sched_fields)
qed

lemma failed_run_total:
  assumes "is_sha256 (smc_condition_id c)" and "is_sha256 h" and "smc_model_id c \<in> set SMOKE_MODEL_ORDER" and "smc_view_id c \<in> set SMOKE_VIEW_ORDER"
  shows "\<exists>r. failed_run c h failure entry = Inr r"
proof -
  have or: "\<not> bad_text (Some (or_default t d))" if "d \<noteq> []" for t d
    using that by (simp add: bad_text_def or_default_def split: option.split)
  have "\<not> bad_text (Some (or_default t ''FAIL_MODEL_RUNTIME''))" "\<not> bad_text (Some (or_default t ''scheduler condition did not complete''))" for t
    by (rule or, simp)+
  with assms show ?thesis
    unfolding failed_run_def Let_def validate_condition_run_def by (simp split: option.split)
qed

lemma halted_outcome:
  assumes "c \<in> set (smp_conditions demo_smoke)"
  shows "\<exists>r. condition_outcome demo_run_env demo_smoke demo_run_plan halted_state m hits cache c i fs = (fs, Inr (r, 0))"
proof -
  from assms obtain p where p: "p \<in> set expected_pairs" "c = demo_smoke_condition p" by (auto simp: demo_smoke_conditions)
  let ?t = "smoke_task demo_smoke_pilot demo_smoke c"
  have t: "?t \<in> set (rp_tasks demo_run_plan)" using assms by (simp add: demo_run_plan_def)
  have name: "ts_task_name (smoke_task demo_smoke_pilot demo_smoke d) = smc_task_name d" for d by (simp add: smoke_task_def)
  have "inj_on ts_task_name (set (rp_tasks demo_run_plan))"
    using demo_name_inj by (auto simp: demo_run_plan_def demo_smoke_conditions inj_on_def name demo_condition_name)
  moreover have "distinct (rp_tasks demo_run_plan)" using demo_tasks_distinct by (simp add: distinct_map)
  ultimately have "distinct (map ts_task_name (rp_tasks demo_run_plan))" by (simp add: distinct_map)
  from by_key_distinct [OF this t] have found: "by_key ts_task_name (rp_tasks demo_run_plan) (smc_task_name c) = Some ?t" by (simp add: name)
  have "smc_model_id c \<in> set SMOKE_MODEL_ORDER" "smc_view_id c \<in> set SMOKE_VIEW_ORDER" "is_sha256 (smc_condition_id c)"
    using demo_names [OF p(1)] by (simp_all add: p(2) demo_id_ok demo_condition_fields(2) demo_smoke_base_def Let_def case_prod_unfold)
  from failed_run_total [OF this(3) _ this(1,2), of "cache_key smoke_sha i" "find_failure m (ts_task_id ?t)" "halted ?t"]
  obtain r where "failed_run c (cache_key smoke_sha i) (find_failure m (ts_task_id ?t)) (halted ?t) = Inr r" by (auto simp: demo_key)
  then show ?thesis
    using halted_entry [OF t] by (simp add: condition_outcome_def found of_option_def halted_fields demo_run_env_def)
qed

lemma halted_outcomes:
  assumes "set cs \<subseteq> set (smp_conditions demo_smoke)"
    and "\<And>c. c \<in> set cs \<Longrightarrow> \<exists>i. map_of ids (smc_condition_id c) = Some i"
  shows "\<exists>rs. condition_outcomes demo_run_env demo_smoke demo_run_plan halted_state m hits cache ids cs fs = (fs, Inr rs)"
  using assms
proof (induction cs)
  case (Cons c cs)
  obtain i where i: "map_of ids (smc_condition_id c) = Some i" using Cons.prems(2) [of c] by auto
  obtain r where "condition_outcome demo_run_env demo_smoke demo_run_plan halted_state m hits cache c i fs = (fs, Inr (r, 0))"
    using halted_outcome [of c] Cons.prems(1) by (meson list.set_intros(1) subsetD)
  moreover obtain rs where "condition_outcomes demo_run_env demo_smoke demo_run_plan halted_state m hits cache ids cs fs = (fs, Inr rs)"
    using Cons by auto
  ultimately show ?case by (simp add: i)
qed simp

lemma halted_run_conditions: "\<exists>w runs m n. run_conditions demo_run_env demo_smoke demo_config demo_execution False halted_sched fs = (w, fs, Inr (runs, m, n))"
proof -
  let ?ids = "map (\<lambda>c. (smc_condition_id c, smoke_identity demo_smoke_pilot demo_smoke c)) (smp_conditions demo_smoke)"
  obtain w m where run: "adapter_run smoke_env False halted_sched = (w, Inr m)" and st: "sw_state w = State halted_state"
    using halted_run by blast
  have "\<exists>i. map_of ?ids (smc_condition_id c) = Some i" if "c \<in> set (smp_conditions demo_smoke)" for c
    using that by (auto simp flip: not_None_eq simp add: map_of_eq_None_iff image_iff)
  then obtain rs where rs: "condition_outcomes demo_run_env demo_smoke demo_run_plan halted_state m [] (sw_cache w) ?ids (smp_conditions demo_smoke) fs = (fs, Inr rs)"
    using halted_outcomes [of "smp_conditions demo_smoke" ?ids m "[]" "sw_cache w" fs] by auto
  have config: "validate_config demo_config = Inr demo_config" "\<not> resource_policy_differs demo_config demo_execution"
    by (simp_all add: validate_config_def demo_config_def resource_policy_differs_def demo_execution_def root_absolute_def root_escapes_def
        posix_absolute_def has_drive_colon_def normalise_slashes_def)
  have load: "load_scheduler_state smoke_env (State halted_state) = Inr halted_state"
    using halted_valid by (simp add: load_scheduler_state_def) (simp add: smoke_store_def)
  have env: "sre_sched demo_run_env = demo_env\<lparr>se_store := smoke_store\<rparr>" "skp_pilot (sre_params demo_run_env) = demo_smoke_pilot"
    by (simp_all add: demo_run_env_def)
  show ?thesis
    unfolding run_conditions_def Let_def env config(1) bindr_simps demo_scheduled preexisting_hits_def demo_run_plan_def [symmetric]
    using config(2) by (simp add: run st load rs)
qed

theorem smoke_run_accounted_witness:
  "\<exists>w m n runs. run_conditions demo_run_env demo_smoke demo_config demo_execution False halted_sched smoke_run_files = (w, smoke_run_files, Inr (runs, m, n))
    \<and> map crn_condition_id runs = map smc_condition_id (smp_conditions demo_smoke)"
proof -
  obtain w runs m n where run: "run_conditions demo_run_env demo_smoke demo_config demo_execution False halted_sched smoke_run_files = (w, smoke_run_files, Inr (runs, m, n))"
    using halted_run_conditions by blast
  have "validate_smoke_plan demo_smoke_pilot demo_smoke = Inr demo_smoke" by (rule demo_smoke_plan_valid) simp
  from smoke_run_accounted [OF this clear_demo run] run show ?thesis by blast
qed

end
