(* ===== verification/Spec2Isabelle.thy ===== *)
theory Spec2Isabelle
  imports Cache_Properties Evidence_Properties Runner_Properties Execution_Properties Plan_Properties
    Scheduler_Properties Run_Properties Split_Properties Pilot_Properties Metric_Properties
    Smoke_Validation Smoke_Accounting
begin

text \<open>
  SchemaGuard measures how sensitive classifiers are to lossless changes of the representation of a
  table. This development models the parts of \<open>src/schemaguard\<close> that decide what a run may rely on:
  which bytes a cache entry holds, which task may run, which transformation is certified, which rows
  are training rows, which conditions are planned. The parts and how they use each other:

  \<^item> Canonical hashing gives every artifact its identity: the digest of a canonical JSON text.
  \<^item> The artifact cache stores payloads under such identities; the cache index can be rebuilt from it.
  \<^item> The task state store persists a state machine per task; the scheduler runs a plan of tasks in
    supervised worker processes, publishes what they produce in the cache and records every step in
    the state store. The run plan names the tasks and binds them to the digests of the sources.
  \<^item> The views rewrite a table without losing information; a certificate is issued only when a
    reconstruction restores the table, and the validation inventory collects the certificates of
    every data set, seed and view.
  \<^item> The splits assign rows to train, calibration and test so that rows with equal predictors stay
    together; the pilot plan selects data sets and enumerates the conditions (data set, seed, view,
    model) whose identities bind the digests of all of the above; the schedule stages them; the
    metrics and the decision evaluate them.

  Theories and sources (paths below \<open>src/schemaguard\<close>), in the order of their imports:

  \<^item> \<^theory_text>\<open>Prelude\<close>: exceptions as values (\<open>error + 'a\<close>), the idiom \<open>guards\<close> for a validator that runs a
    sequence of guarded raises, digests, paths and times. A validator returns its argument or the
    error of the first guard that holds, in the order of the code.
  \<^item> \<^theory_text>\<open>Canon_Json\<close>: \<open>utils/hashing.py\<close>. JSON values, their canonical text, and its injectivity.
  \<^item> \<^theory_text>\<open>Fault_Policy\<close>, \<^theory_text>\<open>Cache_Contracts\<close>, \<^theory_text>\<open>Cache_Evidence\<close>: \<open>cache/fault_policy.py\<close> and
    \<open>cache/contracts.py\<close>.
  \<^item> \<^theory_text>\<open>Cache_Store\<close>: \<open>cache/store.py\<close> and \<open>cache/locks.py\<close>. The store is an association list from paths to
    directories, a directory an association list from file names to bytes; every operation takes it
    and returns it. \<^theory_text>\<open>Cache_Facts\<close> and \<^theory_text>\<open>Cache_Discovery\<close> prove its laws and what a crash leaves;
    \<^theory_text>\<open>Store_Interfaces\<close> has the locale \<open>artifact_cache\<close> of what the scheduler relies on, interpreted by
    the store. \<^theory_text>\<open>Cache_Index\<close>: \<open>cache/index.py\<close>.
  \<^item> \<^theory_text>\<open>Runner_Contracts\<close>, \<^theory_text>\<open>Task_State\<close>: \<open>runner/contracts.py\<close> and \<open>runner/state.py\<close>. A state file is a list
    of records; the clock, the process table and the lock are arguments. \<^theory_text>\<open>Task_State_Facts\<close> interprets
    the locale \<open>status_store\<close> of \<^theory_text>\<open>Store_Interfaces\<close>.
  \<^item> \<^theory_text>\<open>Resources\<close>, \<^theory_text>\<open>Worker\<close>: \<open>runner/resources.py\<close> and \<open>runner/worker.py\<close>. \<^theory_text>\<open>Plan\<close>: \<open>runner/plan.py\<close> and
    \<open>cache/keys.py\<close>.
  \<^item> \<^theory_text>\<open>Scheduler\<close>: \<open>runner/scheduler.py\<close>, with the thread pool as an arbitrary interleaving of the halves of
    its tasks. \<^theory_text>\<open>Scheduler_Interface\<close> holds the locales for a relation that every step keeps, and
    \<^theory_text>\<open>Scheduler_Facts\<close> their instances.
  \<^item> \<^theory_text>\<open>Codec\<close>, \<^theory_text>\<open>Frames\<close>, \<^theory_text>\<open>Views\<close>: \<open>transformations/codec.py\<close>, \<open>base.py\<close> and the views. A table is a list of
    columns with a dtype and cells. \<^theory_text>\<open>Frame_Facts\<close> holds the locale \<open>lossless_view\<close>; \<^theory_text>\<open>View_Facts\<close>,
    \<^theory_text>\<open>Category_Facts\<close> and \<^theory_text>\<open>Expansion_Facts\<close> interpret it for eight views.
  \<^item> \<^theory_text>\<open>Certificates\<close>, \<^theory_text>\<open>Transform_Inventory\<close>: \<open>transformations/certificates.py\<close>, \<open>contracts.py\<close>,
    \<open>registry.py\<close>, \<open>applicability.py\<close>, \<open>validation.py\<close>, \<open>inventory.py\<close>.
  \<^item> \<^theory_text>\<open>Splits\<close>, \<^theory_text>\<open>Split_Store\<close>: \<open>splits/grouping.py\<close>, \<open>selection.py\<close>, \<open>caching.py\<close>, \<open>contracts.py\<close>,
    \<open>validation.py\<close>, \<open>generation.py\<close> and what they use of \<open>data/splits.py\<close>; \<^theory_text>\<open>Split_Facts\<close> and
    \<^theory_text>\<open>Split_Generation\<close> hold their lemmas.
  \<^item> \<^theory_text>\<open>Model_Registry\<close>: \<open>models/registry.py\<close>, \<open>models/probability.py\<close>, \<open>models/adapters/probability.py\<close>.
  \<^item> \<^theory_text>\<open>Pilot_Contracts\<close>, \<^theory_text>\<open>Pilot_Inventory\<close>, \<^theory_text>\<open>Pilot_Schedule\<close>: \<open>experiments/pilot_contracts.py\<close> and the staged
    schedule of \<open>pilot_planning.py\<close>; \<^theory_text>\<open>Pilot_Selection\<close>, \<^theory_text>\<open>Pilot_Planning\<close>: the rest of
    \<open>pilot_planning.py\<close>; \<^theory_text>\<open>Pilot_Metrics\<close>: \<open>pilot_validation.py\<close>. The theories whose names end in
    \<open>Facts\<close> hold the lemmas.
  \<^item> The smoke experiment, ten conditions on one data set, with its report: \<^theory_text>\<open>Smoke_Contracts\<close>, \<^theory_text>\<open>Smoke_Reports\<close>,
    \<^theory_text>\<open>Smoke_Run_Report\<close>: \<open>experiments/contracts.py\<close> and the builders of \<open>evidence.py\<close>; \<^theory_text>\<open>Smoke_Planning\<close>,
    \<^theory_text>\<open>Smoke_Plan_Build\<close>: \<open>experiments/planning.py\<close>; \<^theory_text>\<open>Smoke_Execution\<close>, \<^theory_text>\<open>Smoke_Archive\<close>, \<^theory_text>\<open>Smoke_Run\<close>:
    \<open>experiments/execution.py\<close>, on top of the scheduler and the cache; \<^theory_text>\<open>Smoke_Evaluation\<close>:
    \<open>experiments/evaluation.py\<close>; \<^theory_text>\<open>Smoke_Evidence\<close>: the validation of a report in \<open>experiments/evidence.py\<close>.
    \<^theory_text>\<open>Smoke_Run_Facts\<close> holds the lemmas on a run. \<^theory_text>\<open>Smoke_Validation\<close> and \<^theory_text>\<open>Smoke_Accounting\<close> state what a verdict certifies, what a run records, and when labels are opened;
    \<^theory_text>\<open>Smoke_Demo\<close>, \<^theory_text>\<open>Smoke_Schedule\<close> and \<^theory_text>\<open>Smoke_Report_Demo\<close> build an accepted plan, its twenty
    prediction tables, its tasks and a passing report on which the witnesses run.
  \<^item> The theories whose names end in \<open>Properties\<close> state the properties and their witnesses, those whose
    names end in \<open>Demo\<close> the concrete inputs of the witnesses.

  What the properties show, by part. Cache: a validated read returns only what was published for the
  identity asked for, even when digests collide; readable entries never change; a crash during a
  publication is invisible; the index mirrors the store. Tasks and scheduler: every sequence of
  operations, and every whole run in every interleaving, follows the state machine, keeps the
  artifacts and the limits of concurrency; recovery takes exactly the abandoned tasks. Workers: only a
  clean execution passes. Views: reconstruction inverts transformation; a certificate, a passing record
  and an accepted inventory prove what they claim. Splits: the chosen folds are optimal, validation
  implies a split without leaks, generation succeeds and changes nothing else. Pilot: the cohort is
  optimal, the plan covers its matrix exactly once and is accepted, the schedule stages every condition
  once. Smoke experiment: a run records every condition once, with exactly the files of the completed
  ones; a passing verdict certifies every prediction table against the plan; the labels are opened only
  when all predictions are there. Some properties are of kind error: they prove that the code does not do what it means to do.

  Parameters. SHA-256, the text of a float, the rounding of a real number to a double, numpy's and
  pandas' sums, the scikit-learn splitter, process observations, clocks, Git, YAML and the contents of
  input files are arguments of the definitions; a property states as a hypothesis what it needs of
  them (that a digest has 64 hexadecimal digits, or does not collide on a named set of texts), and its
  witness instantiates them. Floats are rational numbers, with NaN and infinities as separate
  values where the code meets them.

  Bounds and termination. Python's integers are unbounded and modelled by \<open>int\<close>; the int64 columns of
  the quotient and remainder view carry their range. No definition takes fuel: recursion is on the
  data, or, for the search of a free column name, on a measure that the termination property
  justifies; the worker's monitoring loop runs over the list of its observations, and the thread pool
  over a list of interleaving choices, of any length.

  Not modelled. \<open>hash_dataframe_logically\<close> and the other uses of pandas' own hashing, the affine, asinh
  and composite views (float arithmetic on columns), the serialization of transformations
  to disk, the inventory of splits, the parts of \<open>data/splits.py\<close> that the new split
  engine replaced, the download and processing of data sets (network, ARFF and Parquet), the adapters
  around third-party estimators and the frames they are fitted on, the compatibility probes, the capture
  of the environment and the review text of a smoke run, the semantic instability index of the pilot
  (logarithms), the collection of measurements for its runtime estimate, and the
  command-line scripts: they are input and output, or numeric code of other libraries.
\<close>

end
